(* ===== verification/Prelude.thy ===== *)
theory Prelude
  imports Main "HOL-Library.Sublist"
begin

text \<open>
  The vocabulary the component theories share.

  Identifiers (Python \<open>UUID\<close>) are natural numbers; a handler that calls \<open>uuid4()\<close> takes
  a supply \<open>u :: nat => uuid\<close> and its \<open>i\<close>-th call reads \<open>u i\<close>.  Instants are integers
  counting microseconds, the resolution of Python's \<open>datetime\<close>; an operation that reads
  the clock takes the reading as an argument.  Strings are lists of characters (code
  points below 256).  JSON values are the datatype \<open>json\<close>; a Python \<open>dict\<close> with string
  keys is an association list.  A raise is the left component of a sum.

  The second half holds the generic lemmas: tables of rows (what a SQL upsert and a
  lookup by primary key do), the lifecycle relation of a status table, and the two
  interfaces the components are built against, \<open>state_machine\<close> and \<open>table\<close>.
\<close>

section \<open>Types\<close>

type_synonym uuid = nat
type_synonym time = int
type_synonym uuid_supply = "nat \<Rightarrow> uuid"

datatype json =
    JNull
  | JBool bool
  | JInt int
  | JStr string
  | JUuid uuid
  | JList "json list"
  | JObj "(string \<times> json) list"

type_synonym dict = "(string \<times> json) list"

named_theorems value_simps \<open>the wire names of the enumerations\<close>
named_theorems trans_simps \<open>the transition tables of the state machines\<close>
named_theorems op_defs \<open>the operations of the entities\<close>
named_theorems repo_simps \<open>reads of a store after its writes\<close>

section \<open>Python values\<close>

text \<open>Truth of an optional string, and the idiom \<open>x or y\<close> on optional values.\<close>

definition str_truthy :: "string option \<Rightarrow> bool" where
  "str_truthy s = (case s of None \<Rightarrow> False | Some t \<Rightarrow> t \<noteq> [])"

definition opt_or :: "'a option \<Rightarrow> 'a \<Rightarrow> 'a" where
  "opt_or x d = (case x of None \<Rightarrow> d | Some v \<Rightarrow> v)"

lemma opt_or_simps [simp]: "opt_or None d = d" "opt_or (Some v) d = v"
  by (simp_all add: opt_or_def)

definition opt_uuid :: "uuid option \<Rightarrow> json" where
  "opt_uuid x = (case x of None \<Rightarrow> JNull | Some v \<Rightarrow> JUuid v)"

definition opt_str :: "string option \<Rightarrow> json" where
  "opt_str x = (case x of None \<Rightarrow> JNull | Some v \<Rightarrow> JStr v)"

text \<open>\<open>str.isspace\<close> of one character, \<open>str.strip\<close> and the test \<open>not s or not s.strip()\<close>.\<close>

definition py_space :: "char \<Rightarrow> bool" where
  "py_space c = (let n = (of_char c :: nat) in
     (9 \<le> n \<and> n \<le> 13) \<or> (28 \<le> n \<and> n \<le> 32) \<or> n = 133 \<or> n = 160)"

definition py_strip :: "string \<Rightarrow> string" where
  "py_strip s = rev (dropWhile py_space (rev (dropWhile py_space s)))"

definition is_blank :: "string \<Rightarrow> bool" where
  "is_blank s = (s = [] \<or> py_strip s = [])"

definition py_lower_char :: "char \<Rightarrow> char" where
  "py_lower_char c = (let n = (of_char c :: nat) in
     if (65 \<le> n \<and> n \<le> 90) \<or> (192 \<le> n \<and> n \<le> 222 \<and> n \<noteq> 215) then char_of (n + 32) else c)"

definition py_lower :: "string \<Rightarrow> string" where
  "py_lower s = map py_lower_char s"

text \<open>\<open>LIKE\<close>, with its wildcards and its escape character; nothing escapes those of the parameter.\<close>

fun like_match :: "string \<Rightarrow> string \<Rightarrow> bool" where
  "like_match [] s = (s = [])"
| "like_match (c # p) s =
    (if c = CHR ''%'' then list_ex (like_match p) (suffixes s)
     else if c = CHR 0x5C
     then (case p of [] \<Rightarrow> False | q # p' \<Rightarrow> (case s of [] \<Rightarrow> False | x # xs \<Rightarrow> x = q \<and> like_match p' xs))
     else (case s of [] \<Rightarrow> False | x # xs \<Rightarrow> (c = CHR ''_'' \<or> x = c) \<and> like_match p xs))"

text \<open>\<open>sub in s\<close>, \<open>s.startswith(p)\<close>, \<open>s.endswith(p)\<close>.\<close>

definition str_contains :: "string \<Rightarrow> string \<Rightarrow> bool" where
  "str_contains sub s = list_ex (\<lambda>t. prefix sub t) (suffixes s)"

definition starts_with :: "string \<Rightarrow> string \<Rightarrow> bool" where
  "starts_with p s = prefix p s"

definition ends_with :: "string \<Rightarrow> string \<Rightarrow> bool" where
  "ends_with p s = suffix p s"

lemma dropWhile_all: "list_all P xs \<Longrightarrow> dropWhile P xs = []"
  by (induction xs) auto

lemma py_strip_Nil_iff: "py_strip s = [] \<longleftrightarrow> list_all py_space s"
proof
  assume "py_strip s = []"
  then have "\<forall>x \<in> set (dropWhile py_space s). py_space x"
    by (simp add: py_strip_def dropWhile_eq_Nil_conv)
  then have "dropWhile py_space s = []"
    by (metis dropWhile_eq_Nil_conv hd_dropWhile list.set_sel(1))
  then show "list_all py_space s" by (simp add: dropWhile_eq_Nil_conv list_all_iff)
next
  assume "list_all py_space s"
  then show "py_strip s = []" by (simp add: py_strip_def dropWhile_all)
qed

lemma is_blank_iff: "is_blank s \<longleftrightarrow> list_all py_space s"
  by (auto simp: is_blank_def py_strip_Nil_iff)

lemma is_blank_Nil [simp]: "is_blank []"
  by (simp add: is_blank_def)

lemma str_contains_iff: "str_contains sub s \<longleftrightarrow> sublist sub s"
  by (auto simp: str_contains_def list_ex_iff sublist_altdef' in_set_suffixes)

text \<open>\<open>s.split(c)\<close>, \<open>s.rstrip(c)\<close> and \<open>s.replace(old, new)\<close> for a non-empty \<open>old\<close>.\<close>

fun split_on :: "char \<Rightarrow> string \<Rightarrow> string list" where
  "split_on c [] = [[]]"
| "split_on c (x # xs) =
     (if x = c then [] # split_on c xs
      else (case split_on c xs of [] \<Rightarrow> [[x]] | y # ys \<Rightarrow> (x # y) # ys))"

definition rstrip_char :: "char \<Rightarrow> string \<Rightarrow> string" where
  "rstrip_char c s = rev (dropWhile (\<lambda>x. x = c) (rev s))"

function str_replace :: "string \<Rightarrow> string \<Rightarrow> string \<Rightarrow> string" where
  "str_replace old new s =
     (if old = [] \<or> s = [] then s
      else if prefix old s then new @ str_replace old new (drop (length old) s)
      else hd s # str_replace old new (tl s))"
  by pat_completeness auto
termination
  by (relation "measure (\<lambda>(_, _, s). length s)") auto

declare str_replace.simps [simp del]

lemma split_on_no: "c \<notin> set xs \<Longrightarrow> split_on c xs = [xs]"
  by (induction xs) auto

lemma split_on_sep: "c \<notin> set xs \<Longrightarrow> split_on c (xs @ c # ys) = xs # split_on c ys"
  by (induction xs) auto

lemma rstrip_char_id: "s \<noteq> [] \<Longrightarrow> last s \<noteq> c \<Longrightarrow> rstrip_char c s = s"
  by (cases s rule: rev_cases) (auto simp: rstrip_char_def)

text \<open>The truth value of a JSON value, and \<open>{**d, k: v}\<close>.\<close>

definition json_truthy :: "json \<Rightarrow> bool" where
  "json_truthy j = (case j of
      JNull \<Rightarrow> False | JBool b \<Rightarrow> b | JInt i \<Rightarrow> i \<noteq> 0 | JStr s \<Rightarrow> s \<noteq> []
    | JUuid _ \<Rightarrow> True | JList l \<Rightarrow> l \<noteq> [] | JObj d \<Rightarrow> d \<noteq> [])"

fun dict_put :: "string \<Rightarrow> json \<Rightarrow> dict \<Rightarrow> dict" where
  "dict_put k v [] = [(k, v)]"
| "dict_put k v ((j, w) # d) = (if j = k then (j, v) # d else (j, w) # dict_put k v d)"

lemma map_of_dict_put [simp]: "map_of (dict_put k v d) j = (if j = k then Some v else map_of d j)"
  by (induction k v d rule: dict_put.induct) auto

text \<open>\<open>str(n)\<close> of an integer.\<close>

fun str_nat :: "nat \<Rightarrow> string" where
  "str_nat n = (if n < 10 then [char_of (48 + n)] else str_nat (n div 10) @ [char_of (48 + n mod 10)])"

definition str_int :: "int \<Rightarrow> string" where
  "str_int i = (if i < 0 then CHR ''-'' # str_nat (nat (- i)) else str_nat (nat i))"

declare str_nat.simps [simp del]

text \<open>\<open>int(s)\<close> for strings of digits, None for the \<open>ValueError\<close>.\<close>

definition digit_value :: "char \<Rightarrow> int option" where
  "digit_value c = (let n = (of_char c :: nat) in if 48 \<le> n \<and> n \<le> 57 then Some (int n - 48) else None)"

fun digits_value :: "int \<Rightarrow> string \<Rightarrow> int option" where
  "digits_value acc [] = Some acc"
| "digits_value acc (c # cs) =
     (case digit_value c of None \<Rightarrow> None | Some d \<Rightarrow> digits_value (10 * acc + d) cs)"

definition parse_nat :: "string \<Rightarrow> int option" where
  "parse_nat s = (if s = [] then None else digits_value 0 s)"

text \<open>\<open>{**d, **updates}\<close>, and the text a PostgreSQL column can hold: no character 0.\<close>

definition dict_update :: "dict \<Rightarrow> dict \<Rightarrow> dict" where
  "dict_update d updates = fold (\<lambda>(k, v). dict_put k v) updates d"

lemma dict_update_simps [simp]:
  "dict_update d [] = d"
  "dict_update d ((k, v) # upd) = dict_update (dict_put k v d) upd"
  by (simp_all add: dict_update_def)

lemma map_of_dict_update_other: "k \<notin> fst ` set upd \<Longrightarrow> map_of (dict_update d upd) k = map_of d k"
  by (induction upd arbitrary: d) (auto simp: dict_update_def)

definition pg_text :: "string \<Rightarrow> bool" where
  "pg_text s = list_all (\<lambda>c. c \<noteq> CHR 0x00) s"

fun pg_json :: "json \<Rightarrow> bool" where
  "pg_json (JStr s) = pg_text s"
| "pg_json (JList l) = list_all pg_json l"
| "pg_json (JObj d) = list_all (\<lambda>p. pg_text (fst p) \<and> pg_json (snd p)) d"
| "pg_json _ = True"

section \<open>Results\<close>

text \<open>A call that may raise: \<open>Inl\<close> the exception, \<open>Inr\<close> the value.\<close>

definition rbind :: "'e + 'a \<Rightarrow> ('a \<Rightarrow> 'e + 'b) \<Rightarrow> 'e + 'b" where
  "rbind r f = (case r of Inl e \<Rightarrow> Inl e | Inr a \<Rightarrow> f a)"

lemma rbind_simps [simp]: "rbind (Inl e) f = Inl e" "rbind (Inr a) f = f a"
  by (simp_all add: rbind_def)

lemma rbind_Inr_iff: "rbind r f = Inr b \<longleftrightarrow> (\<exists>a. r = Inr a \<and> f a = Inr b)"
  by (cases r) simp_all

definition is_ok :: "'e + 'a \<Rightarrow> bool" where
  "is_ok r = (case r of Inl _ \<Rightarrow> False | Inr _ \<Rightarrow> True)"

lemma is_ok_simps [simp]: "is_ok (Inr a)" "\<not> is_ok (Inl e)"
  by (simp_all add: is_ok_def)

lemma is_ok_iff: "is_ok r \<longleftrightarrow> (\<exists>a. r = Inr a)"
  by (cases r) simp_all

text \<open>Map a raising operation over a list, stopping at the first raise.\<close>

fun rmap :: "('a \<Rightarrow> 'e + 'b) \<Rightarrow> 'a list \<Rightarrow> 'e + 'b list" where
  "rmap f [] = Inr []"
| "rmap f (x # xs) = rbind (f x) (\<lambda>y. rbind (rmap f xs) (\<lambda>ys. Inr (y # ys)))"

lemma rmap_Inr_iff: "rmap f xs = Inr ys \<longleftrightarrow> list_all2 (\<lambda>x y. f x = Inr y) xs ys"
  by (induction xs arbitrary: ys) (auto simp: rbind_Inr_iff list_all2_Cons1)

lemma rmap_ok_iff: "is_ok (rmap f xs) \<longleftrightarrow> (\<forall>x \<in> set xs. is_ok (f x))"
  by (induction xs) (auto simp: is_ok_iff rbind_Inr_iff)

section \<open>Tables of rows\<close>

definition find_row :: "('r \<Rightarrow> uuid) \<Rightarrow> uuid \<Rightarrow> 'r list \<Rightarrow> 'r option" where
  "find_row key k rows = find (\<lambda>r. key r = k) rows"

fun upsert :: "('r \<Rightarrow> uuid) \<Rightarrow> 'r \<Rightarrow> 'r list \<Rightarrow> 'r list" where
  "upsert key r [] = [r]"
| "upsert key r (x # xs) = (if key x = key r then r # xs else x # upsert key r xs)"

lemma find_row_Nil [simp]: "find_row key k [] = None"
  by (simp add: find_row_def)

lemma find_row_Cons [simp]:
  "find_row key k (x # xs) = (if key x = k then Some x else find_row key k xs)"
  by (simp add: find_row_def)

lemma find_SomeD: "find P xs = Some x \<Longrightarrow> x \<in> set xs \<and> P x"
  by (induction xs) (auto split: if_splits)

lemma find_row_key: "find_row key k rows = Some r \<Longrightarrow> key r = k \<and> r \<in> set rows"
  by (induction rows) (auto split: if_splits)

lemma find_row_None_iff: "find_row key k rows = None \<longleftrightarrow> k \<notin> key ` set rows"
  by (induction rows) auto

lemma find_row_distinct:
  "\<lbrakk> distinct (map key rows); r \<in> set rows \<rbrakk> \<Longrightarrow> find_row key (key r) rows = Some r"
  by (induction rows) auto

lemma find_row_upsert [simp, repo_simps]:
  "find_row key k (upsert key r rows) = (if key r = k then Some r else find_row key k rows)"
  by (induction rows) auto

lemma keys_upsert: "key ` set (upsert key r rows) = insert (key r) (key ` set rows)"
  by (induction rows) auto

lemma set_upsert_subset: "set (upsert key r rows) \<subseteq> insert r (set rows)"
  by (induction rows) auto

lemma distinct_upsert:
  "distinct (map key rows) \<Longrightarrow> distinct (map key (upsert key r rows))"
proof (induction rows)
  case (Cons x xs)
  have "set (map key (upsert key r xs)) = insert (key r) (set (map key xs))"
    by (simp add: keys_upsert)
  then show ?case using Cons by (auto simp del: set_map)
qed simp

lemma set_upsert:
  "distinct (map key rows) \<Longrightarrow>
   set (upsert key r rows) = insert r {x \<in> set rows. key x \<noteq> key r}"
  by (induction rows) (auto simp: image_iff)

lemma map_key_upsert_existing:
  "key r \<in> key ` set rows \<Longrightarrow> map key (upsert key r rows) = map key rows"
  by (induction rows) auto

lemma distinct_fold_upsert:
  "distinct (map key rows) \<Longrightarrow> distinct (map key (fold (upsert key) rs rows))"
  by (induction rs arbitrary: rows) (auto intro: distinct_upsert)

lemma set_fold_upsert:
  "\<lbrakk> distinct (map key rows); distinct (map key rs) \<rbrakk> \<Longrightarrow>
   set (fold (upsert key) rs rows) = set rs \<union> {x \<in> set rows. key x \<notin> key ` set rs}"
proof (induction rs arbitrary: rows)
  case (Cons r rs)
  then show ?case
    by (auto simp: distinct_upsert set_upsert image_iff)
qed simp

lemma keys_fold_upsert:
  "key ` set (fold (upsert key) rs rows) = key ` set rs \<union> key ` set rows"
  by (induction rs arbitrary: rows) (auto simp: keys_upsert)

end
