(* ===== verification/Interfaces.thy ===== *)
theory Interfaces
  imports Prelude
begin

text \<open>
  The interfaces the components are written against.

  \<open>state_machine\<close> is what every entity of the platform promises about its status field:
  one guarded move, allowed exactly by a transition table, and statuses without an
  outgoing edge.  \<open>managed_entity\<close> extends it with the entity's public methods, each of
  which is such a move or raises, and a frame of fields no method writes.  \<open>table\<close> is what a repository promises to a handler: what a lookup
  returns after a save.  Each of them is interpreted, in the theory of the component that
  provides it, on the definitions translated from the code.
\<close>

section \<open>The lifecycle relation of a transition table\<close>

inductive lifecycle :: "('s \<Rightarrow> 's list) \<Rightarrow> 's \<Rightarrow> 's \<Rightarrow> bool" for edges where
  lifecycle_refl: "lifecycle edges s s"
| lifecycle_step: "\<lbrakk> lifecycle edges s t; u \<in> set (edges t) \<rbrakk> \<Longrightarrow> lifecycle edges s u"

declare lifecycle_refl [simp, intro]

lemma lifecycle_one: "t \<in> set (edges s) \<Longrightarrow> lifecycle edges s t"
  by (rule lifecycle_step [OF lifecycle_refl])

lemma lifecycle_trans: "\<lbrakk> lifecycle edges t u; lifecycle edges s t \<rbrakk> \<Longrightarrow> lifecycle edges s u"
  by (induction rule: lifecycle.induct) (auto intro: lifecycle_step)

lemma lifecycle_from_dead: "\<lbrakk> lifecycle edges s t; edges s = [] \<rbrakk> \<Longrightarrow> t = s"
  by (induction rule: lifecycle.induct) auto

lemma lifecycle_closed:
  assumes "lifecycle edges s t" and "s \<in> S" and "\<And>x y. \<lbrakk> x \<in> S; y \<in> set (edges x) \<rbrakk> \<Longrightarrow> y \<in> S"
  shows "t \<in> S"
  using assms(1,2) by (induction rule: lifecycle.induct) (auto intro: assms(3))

section \<open>One guarded move\<close>

locale state_machine =
  fixes status :: "'e \<Rightarrow> 's"
    and edges :: "'s \<Rightarrow> 's list"
    and terminal :: "'s \<Rightarrow> bool"
    and move :: "'s \<Rightarrow> time \<Rightarrow> 'e \<Rightarrow> 'err + 'e"
  assumes move_sound: "move t now e = Inr e' \<Longrightarrow>
            \<not> terminal (status e) \<and> t \<in> set (edges (status e)) \<and> status e' = t"
    and move_complete: "t \<in> set (edges (status e)) \<Longrightarrow> is_ok (move t now e)"
    and terminal_dead: "terminal s \<Longrightarrow> edges s = []"
begin

lemma move_ok_iff: "is_ok (move t now e) \<longleftrightarrow> t \<in> set (edges (status e))"
  using move_sound move_complete by (metis is_ok_iff)

lemma move_terminal: "terminal (status e) \<Longrightarrow> \<not> is_ok (move t now e)"
  using terminal_dead by (simp add: move_ok_iff)

lemma move_status: "move t now e = Inr e' \<Longrightarrow> status e' = t"
  by (simp add: move_sound)

lemma move_edge: "move t now e = Inr e' \<Longrightarrow> status e' \<in> set (edges (status e))"
  by (simp add: move_sound)

lemma dead_stays: "\<lbrakk> lifecycle edges s t; terminal s \<rbrakk> \<Longrightarrow> t = s"
  using terminal_dead lifecycle_from_dead by metis

end

section \<open>An entity and its public methods\<close>

text \<open>A history is a list of method calls with the clock reading of each; a call that
  raises leaves the object as it is.\<close>

fun history :: "('op \<Rightarrow> time \<Rightarrow> 'e \<Rightarrow> 'err + 'e) \<Rightarrow> ('op \<times> time) list \<Rightarrow> 'e \<Rightarrow> 'e" where
  "history app [] e = e"
| "history app ((op, now) # h) e =
     history app h (case app op now e of Inl _ \<Rightarrow> e | Inr e' \<Rightarrow> e')"

lemma history_append: "history app (h @ k) e = history app k (history app h e)"
  by (induction h arbitrary: e) auto

lemma history_invariant:
  assumes "P e" and "\<And>op now x y. \<lbrakk> P x; app op now x = Inr y \<rbrakk> \<Longrightarrow> P y"
  shows "P (history app h e)"
  using assms(1)
proof (induction h arbitrary: e)
  case (Cons c h)
  obtain op now where c: "c = (op, now)" by (cases c)
  show ?case using Cons assms(2) by (auto simp: c split: sum.split)
qed simp

locale managed_entity = state_machine status edges terminal move
  for status :: "'e \<Rightarrow> 's" and edges :: "'s \<Rightarrow> 's list" and terminal :: "'s \<Rightarrow> bool"
    and move :: "'s \<Rightarrow> time \<Rightarrow> 'e \<Rightarrow> 'err + 'e" +
  fixes app :: "'op \<Rightarrow> time \<Rightarrow> 'e \<Rightarrow> 'err + 'e"
    and frame :: "'e \<Rightarrow> 'f"
  assumes app_edge: "app op now e = Inr e' \<Longrightarrow>
            status e' = status e \<and> \<not> terminal (status e) \<or> status e' \<in> set (edges (status e))"
    and app_frame: "app op now e = Inr e' \<Longrightarrow> frame e' = frame e"
begin

lemma history_lifecycle: "lifecycle edges (status e) (status (history app h e))"
proof -
  have "lifecycle edges (status e) (status x)
    \<Longrightarrow> app op now x = Inr y \<Longrightarrow> lifecycle edges (status e) (status y)" for op now x y
    using app_edge lifecycle_step by metis
  then show ?thesis
    by (rule history_invariant [where P = "\<lambda>x. lifecycle edges (status e) (status x)", OF lifecycle_refl])
qed

lemma history_frame: "frame (history app h e) = frame e"
proof -
  have "frame x = frame e \<Longrightarrow> app op now x = Inr y \<Longrightarrow> frame y = frame e" for op now x y
    using app_frame by metis
  then show ?thesis by (rule history_invariant [where P = "\<lambda>x. frame x = frame e", OF refl])
qed

lemma app_terminal: "terminal (status e) \<Longrightarrow> \<not> is_ok (app op now e)"
  using app_edge terminal_dead by (fastforce simp: is_ok_iff)

lemma history_terminal: "terminal (status e) \<Longrightarrow> history app h e = e"
proof (induction h)
  case (Cons c h)
  obtain op now where c: "c = (op, now)" by (cases c)
  have "\<not> is_ok (app op now e)" using Cons.prems by (rule app_terminal)
  then obtain x where "app op now e = Inl x" by (cases "app op now e") auto
  then show ?case using Cons by (simp add: c)
qed simp

end

section \<open>A repository\<close>

text \<open>A save stores a row; a lookup by key rebuilds the object from the row, which may
  normalise derived fields (\<open>load\<close>, the identity for most entities).\<close>

locale table =
  fixes get :: "uuid \<Rightarrow> 'db \<Rightarrow> 'r option"
    and put :: "'r \<Rightarrow> 'db \<Rightarrow> 'db"
    and key :: "'r \<Rightarrow> uuid"
    and load :: "'r \<Rightarrow> 'r"
  assumes get_put: "get k (put r db) = (if key r = k then Some (load r) else get k db)"
    and get_key: "get k db = Some r \<Longrightarrow> key r = k"
    and get_load: "get k db = Some r \<Longrightarrow> load r = r"
begin

lemma get_put_same [simp]: "get (key r) (put r db) = Some (load r)"
  by (simp add: get_put)

lemma get_put_other: "key r \<noteq> k \<Longrightarrow> get k (put r db) = get k db"
  by (simp add: get_put)

lemma get_puts_other: "k \<notin> key ` set rs \<Longrightarrow> get k (fold put rs db) = get k db"
  by (induction rs arbitrary: db) (auto simp: get_put)

lemma get_puts:
  "\<lbrakk> distinct (map key rs); r \<in> set rs \<rbrakk> \<Longrightarrow> get (key r) (fold put rs db) = Some (load r)"
proof (induction rs arbitrary: db)
  case (Cons x xs)
  show ?case
  proof (cases "r \<in> set xs")
    case False
    with Cons.prems have "r = x" by simp
    moreover from this Cons.prems have "key r \<notin> key ` set xs" by simp
    ultimately show ?thesis by (simp add: get_puts_other)
  qed (use Cons in simp)
qed simp

lemma put_get_cycle: "get k db = Some r \<Longrightarrow> get k (put r db) = Some r"
  using get_key get_load get_put_same by metis

end

text \<open>A list of rows with upsert by primary key is such a table.\<close>

interpretation rows: table "find_row key" "upsert key" key id for key :: "'r \<Rightarrow> uuid"
  by unfold_locales (auto dest: find_row_key)

section \<open>Recovery sweeps\<close>

text \<open>The recovery jobs share one shape: candidates are listed, then each is recovered in its own
  transaction, which may report a result.  \<open>sweep\<close> is that loop (the counter numbers the
  candidates); the interface says that a recovery settles its candidate and unsettles no other.\<close>

fun sweep :: "(nat \<Rightarrow> 'c \<Rightarrow> 'db \<Rightarrow> 'r option \<times> 'db) \<Rightarrow> nat \<Rightarrow> 'c list \<Rightarrow> 'db \<Rightarrow> 'r list \<times> 'db" where
  "sweep rec i [] db = ([], db)"
| "sweep rec i (c # cs) db =
     (let (r, db1) = rec i c db; (rs, db2) = sweep rec (Suc i) cs db1
      in ((case r of None \<Rightarrow> rs | Some x \<Rightarrow> x # rs), db2))"

lemma snd_sweep_Cons [simp]:
  "snd (sweep rec i (c # cs) db) = snd (sweep rec (Suc i) cs (snd (rec i c db)))"
  by (simp add: case_prod_beta Let_def)

lemma sweep_preserves:
  "\<lbrakk> P db; \<And>i c d. \<lbrakk> c \<in> set cs; P d \<rbrakk> \<Longrightarrow> P (snd (rec i c d)) \<rbrakk> \<Longrightarrow> P (snd (sweep rec i cs db))"
  by (induction cs arbitrary: i db) (auto simp del: sweep.simps(2))

lemma sweep_silent:
  assumes "\<And>i c. c \<in> set cs \<Longrightarrow> rec i c db = (None, db)"
  shows "sweep rec i cs db = ([], db)"
  using assms by (induction cs arbitrary: i) simp_all

locale sweeper =
  fixes rec :: "nat \<Rightarrow> 'c \<Rightarrow> 'db \<Rightarrow> 'r option \<times> 'db"
    and inv :: "'db \<Rightarrow> bool"
    and settled :: "'c \<Rightarrow> 'db \<Rightarrow> bool"
  assumes rec_inv: "inv db \<Longrightarrow> inv (snd (rec i c db))"
    and rec_settles: "inv db \<Longrightarrow> settled c (snd (rec i c db))"
    and rec_keeps: "\<lbrakk> inv db; settled d db \<rbrakk> \<Longrightarrow> settled d (snd (rec i c db))"
begin

lemma sweep_inv: "inv db \<Longrightarrow> inv (snd (sweep rec i cs db))"
  by (rule sweep_preserves) (auto intro: rec_inv)

lemma sweep_keeps: "\<lbrakk> inv db; settled d db \<rbrakk> \<Longrightarrow> settled d (snd (sweep rec i cs db))"
  by (induction cs arbitrary: i db) (auto simp del: sweep.simps(2) intro: rec_keeps rec_inv)

lemma sweep_settles: "\<lbrakk> inv db; c \<in> set cs \<rbrakk> \<Longrightarrow> settled c (snd (sweep rec i cs db))"
proof (induction cs arbitrary: i db)
  case (Cons x xs)
  show ?case
  proof (cases "c = x")
    case True
    then show ?thesis
      using Cons.prems rec_inv rec_settles sweep_keeps by (simp del: sweep.simps(2))
  next
    case False
    then show ?thesis using Cons rec_inv by (simp del: sweep.simps(2))
  qed
qed simp

end

end
