(* ===== verification/Task.thy ===== *)
theory Task
  imports Interfaces
begin

text \<open>
  \<open>apps/orchestrator/src/domain/errors.py\<close> and \<open>domain/task.py\<close>: the exceptions of the
  orchestrator's domain layer, the \<open>Task\<close> aggregate, its constructor with the two
  validations, the draft-only brief update, and the nine public transitions.  A method that
  reads the clock takes the reading as \<open>now\<close>; the readings inside one call are one instant.
\<close>

section \<open>Domain errors\<close>

text \<open>\<open>entity, current, target, reason\<close>; \<open>TerminalStateError\<close> is the subclass with a fixed reason.\<close>

datatype domain_error =
    InvalidTransition string string string "string option"
  | TerminalState string string string
  | ImmutableField string string "string option"
  | DomainValidation string string

section \<open>The aggregate\<close>

datatype task_type = Coding | Research | Analysis | Operation | Custom

datatype task_status =
    T_DRAFT | T_PENDING | T_RUNNING | T_WAITING_APPROVAL
  | T_COMPLETED | T_FAILED | T_CANCELLED | T_ARCHIVED

fun task_type_value :: "task_type \<Rightarrow> string" where
  "task_type_value Coding = ''coding''"
| "task_type_value Research = ''research''"
| "task_type_value Analysis = ''analysis''"
| "task_type_value Operation = ''operation''"
| "task_type_value Custom = ''custom''"

fun task_status_value :: "task_status \<Rightarrow> string" where
  "task_status_value T_DRAFT = ''draft''"
| "task_status_value T_PENDING = ''pending''"
| "task_status_value T_RUNNING = ''running''"
| "task_status_value T_WAITING_APPROVAL = ''waiting_approval''"
| "task_status_value T_COMPLETED = ''completed''"
| "task_status_value T_FAILED = ''failed''"
| "task_status_value T_CANCELLED = ''cancelled''"
| "task_status_value T_ARCHIVED = ''archived''"

declare task_type_value.simps [value_simps] task_status_value.simps [value_simps]

fun task_transitions :: "task_status \<Rightarrow> task_status list" where
  "task_transitions T_DRAFT = [T_PENDING, T_CANCELLED]"
| "task_transitions T_PENDING = [T_RUNNING, T_CANCELLED]"
| "task_transitions T_RUNNING = [T_WAITING_APPROVAL, T_COMPLETED, T_FAILED, T_CANCELLED]"
| "task_transitions T_WAITING_APPROVAL = [T_RUNNING, T_CANCELLED]"
| "task_transitions T_COMPLETED = [T_ARCHIVED]"
| "task_transitions T_FAILED = [T_PENDING, T_ARCHIVED]"
| "task_transitions T_CANCELLED = [T_ARCHIVED]"
| "task_transitions T_ARCHIVED = []"

definition task_terminal :: "task_status \<Rightarrow> bool" where
  "task_terminal s = (s = T_ARCHIVED)"

definition valid_risk_level :: "string \<Rightarrow> bool" where
  "valid_risk_level s = (s \<in> {''low'', ''medium'', ''high''})"

record task =
  t_id :: uuid
  t_workspace_id :: uuid
  t_title :: string
  t_description :: "string option"
  t_task_type :: task_type
  t_status :: task_status
  t_input_config :: dict
  t_repo_snapshot_id :: "uuid option"
  t_policy_id :: "uuid option"
  t_parent_task_id :: "uuid option"
  t_created_by_id :: uuid
  t_created_at :: time
  t_updated_at :: time
  t_goal :: "string option"
  t_context :: "string option"
  t_constraints :: "string option"
  t_desired_output :: "string option"
  t_template_id :: "uuid option"
  t_agent_template_id :: "uuid option"
  t_risk_level :: "string option"

text \<open>The keyword arguments of the constructor, with their defaults.\<close>

record task_args =
  ta_workspace_id :: uuid
  ta_title :: string
  ta_task_type :: task_type
  ta_created_by_id :: uuid
  ta_description :: "string option"
  ta_input_config :: "dict option"
  ta_repo_snapshot_id :: "uuid option"
  ta_policy_id :: "uuid option"
  ta_parent_task_id :: "uuid option"
  ta_goal :: "string option"
  ta_context :: "string option"
  ta_constraints :: "string option"
  ta_desired_output :: "string option"
  ta_template_id :: "uuid option"
  ta_agent_template_id :: "uuid option"
  ta_risk_level :: "string option"
  ta_id :: "uuid option"
  ta_task_status :: task_status
  ta_created_at :: "time option"
  ta_updated_at :: "time option"

definition task_kwargs :: "uuid \<Rightarrow> string \<Rightarrow> task_type \<Rightarrow> uuid \<Rightarrow> task_args" where
  "task_kwargs ws title ty by_id = \<lparr>
     ta_workspace_id = ws, ta_title = title, ta_task_type = ty, ta_created_by_id = by_id,
     ta_description = None, ta_input_config = None, ta_repo_snapshot_id = None,
     ta_policy_id = None, ta_parent_task_id = None, ta_goal = None, ta_context = None,
     ta_constraints = None, ta_desired_output = None, ta_template_id = None,
     ta_agent_template_id = None, ta_risk_level = None, ta_id = None,
     ta_task_status = T_DRAFT, ta_created_at = None, ta_updated_at = None \<rparr>"

definition task_init :: "uuid \<Rightarrow> time \<Rightarrow> task_args \<Rightarrow> domain_error + task" where
  "task_init fresh now a =
    (if is_blank (ta_title a)
     then Inl (DomainValidation ''Task'' ''title must not be blank'')
     else if str_truthy (ta_risk_level a) \<and> \<not> valid_risk_level (the (ta_risk_level a))
     then Inl (DomainValidation ''Task'' (''invalid risk_level: '' @ the (ta_risk_level a)))
     else Inr \<lparr>
       t_id = opt_or (ta_id a) fresh,
       t_workspace_id = ta_workspace_id a,
       t_title = ta_title a,
       t_description = ta_description a,
       t_task_type = ta_task_type a,
       t_status = ta_task_status a,
       t_input_config = opt_or (ta_input_config a) [],
       t_repo_snapshot_id = ta_repo_snapshot_id a,
       t_policy_id = ta_policy_id a,
       t_parent_task_id = ta_parent_task_id a,
       t_created_by_id = ta_created_by_id a,
       t_created_at = opt_or (ta_created_at a) now,
       t_updated_at = opt_or (ta_updated_at a) now,
       t_goal = ta_goal a,
       t_context = ta_context a,
       t_constraints = ta_constraints a,
       t_desired_output = ta_desired_output a,
       t_template_id = ta_template_id a,
       t_agent_template_id = ta_agent_template_id a,
       t_risk_level = ta_risk_level a \<rparr>)"

section \<open>Brief update\<close>

text \<open>The keyword dictionary of \<open>update_brief\<close>: names with a value of the field's type.
  A failed check raises part-way, after the earlier fields were written; \<open>update_brief\<close>
  returns the object as it is at the raise together with the outcome.\<close>

datatype brief_value = BStr "string option" | BUuid "uuid option"

definition brief_fields :: "string list" where
  "brief_fields = [''title'', ''goal'', ''context'', ''constraints'', ''desired_output'',
     ''description'', ''template_id'', ''agent_template_id'', ''risk_level'']"

definition brief_text :: "brief_value \<Rightarrow> string option" where
  "brief_text v = (case v of BStr s \<Rightarrow> s | BUuid _ \<Rightarrow> None)"

definition brief_uuid :: "brief_value \<Rightarrow> uuid option" where
  "brief_uuid v = (case v of BStr _ \<Rightarrow> None | BUuid x \<Rightarrow> x)"

definition set_brief_field :: "string \<Rightarrow> brief_value \<Rightarrow> task \<Rightarrow> task" where
  "set_brief_field key v t =
    (if key = ''title'' then t\<lparr>t_title := the (brief_text v)\<rparr>
     else if key = ''goal'' then t\<lparr>t_goal := brief_text v\<rparr>
     else if key = ''context'' then t\<lparr>t_context := brief_text v\<rparr>
     else if key = ''constraints'' then t\<lparr>t_constraints := brief_text v\<rparr>
     else if key = ''desired_output'' then t\<lparr>t_desired_output := brief_text v\<rparr>
     else if key = ''description'' then t\<lparr>t_description := brief_text v\<rparr>
     else if key = ''template_id'' then t\<lparr>t_template_id := brief_uuid v\<rparr>
     else if key = ''agent_template_id'' then t\<lparr>t_agent_template_id := brief_uuid v\<rparr>
     else if key = ''risk_level'' then t\<lparr>t_risk_level := brief_text v\<rparr>
     else t)"

definition brief_field_error :: "string \<Rightarrow> brief_value \<Rightarrow> domain_error option" where
  "brief_field_error key v =
    (if key \<notin> set brief_fields
     then Some (DomainValidation ''Task'' (''cannot update field: '' @ key))
     else if key = ''title'' \<and> is_blank (opt_or (brief_text v) [])
     then Some (DomainValidation ''Task'' ''title must not be blank'')
     else if key = ''risk_level'' \<and> str_truthy (brief_text v)
             \<and> \<not> valid_risk_level (the (brief_text v))
     then Some (DomainValidation ''Task'' (''invalid risk_level: '' @ the (brief_text v)))
     else None)"

fun update_fields :: "(string \<times> brief_value) list \<Rightarrow> task \<Rightarrow> domain_error option \<times> task" where
  "update_fields [] t = (None, t)"
| "update_fields ((key, v) # fs) t =
     (case brief_field_error key v of
        Some e \<Rightarrow> (Some e, t)
      | None \<Rightarrow> update_fields fs (set_brief_field key v t))"

definition task_update_brief ::
  "(string \<times> brief_value) list \<Rightarrow> time \<Rightarrow> task \<Rightarrow> domain_error option \<times> task" where
  "task_update_brief fs now t =
    (if t_status t \<noteq> T_DRAFT
     then (Some (DomainValidation ''Task''
             (''cannot update brief in status '' @ task_status_value (t_status t))), t)
     else case update_fields fs t of
        (Some e, t') \<Rightarrow> (Some e, t')
      | (None, t') \<Rightarrow> (None, t'\<lparr>t_updated_at := now\<rparr>))"

section \<open>Transitions\<close>

definition task_transition :: "task_status \<Rightarrow> time \<Rightarrow> task \<Rightarrow> domain_error + task" where
  "task_transition target now t =
    (if task_terminal (t_status t)
     then Inl (TerminalState ''Task'' (task_status_value (t_status t)) (task_status_value target))
     else if target \<notin> set (task_transitions (t_status t))
     then Inl (InvalidTransition ''Task'' (task_status_value (t_status t))
                 (task_status_value target) None)
     else Inr (t\<lparr>t_status := target, t_updated_at := now\<rparr>))"

definition task_submit where "task_submit = task_transition T_PENDING"
definition task_start where "task_start = task_transition T_RUNNING"
definition task_request_approval where "task_request_approval = task_transition T_WAITING_APPROVAL"
definition task_approve where "task_approve = task_transition T_RUNNING"
definition task_complete where "task_complete = task_transition T_COMPLETED"
definition task_fail where "task_fail = task_transition T_FAILED"
definition task_cancel where "task_cancel = task_transition T_CANCELLED"
definition task_retry where "task_retry = task_transition T_PENDING"
definition task_archive where "task_archive = task_transition T_ARCHIVED"

lemmas task_op_defs = task_submit_def task_start_def task_request_approval_def task_approve_def
  task_complete_def task_fail_def task_cancel_def task_retry_def task_archive_def

definition task_is_active :: "task \<Rightarrow> bool" where
  "task_is_active t = (t_status t \<in> {T_PENDING, T_RUNNING, T_WAITING_APPROVAL})"

text \<open>The public methods as one type, to speak of histories of calls.\<close>

datatype task_op =
    TSubmit | TStart | TRequestApproval | TApprove | TComplete | TFail | TCancel | TRetry
  | TArchive | TUpdateBrief "(string \<times> brief_value) list"

fun task_apply :: "task_op \<Rightarrow> time \<Rightarrow> task \<Rightarrow> domain_error + task" where
  "task_apply TSubmit now t = task_submit now t"
| "task_apply TStart now t = task_start now t"
| "task_apply TRequestApproval now t = task_request_approval now t"
| "task_apply TApprove now t = task_approve now t"
| "task_apply TComplete now t = task_complete now t"
| "task_apply TFail now t = task_fail now t"
| "task_apply TCancel now t = task_cancel now t"
| "task_apply TRetry now t = task_retry now t"
| "task_apply TArchive now t = task_archive now t"
| "task_apply (TUpdateBrief fs) now t =
     (case task_update_brief fs now t of (Some e, _) \<Rightarrow> Inl e | (None, t') \<Rightarrow> Inr t')"

section \<open>Lemmas\<close>

lemma task_transition_ok:
  "task_transition target now t = Inr t' \<longleftrightarrow>
   target \<in> set (task_transitions (t_status t)) \<and> t' = t\<lparr>t_status := target, t_updated_at := now\<rparr>"
  by (cases "t_status t") (auto simp: task_transition_def task_terminal_def)

interpretation task_sm: state_machine t_status task_transitions task_terminal task_transition
  by unfold_locales
     (auto simp: task_transition_ok is_ok_iff task_terminal_def)

definition task_frame :: "task \<Rightarrow> uuid \<times> uuid \<times> uuid \<times> task_type \<times> time" where
  "task_frame t = (t_id t, t_workspace_id t, t_created_by_id t, t_task_type t, t_created_at t)"

lemma set_brief_field_frame [simp]:
  "t_status (set_brief_field k v t) = t_status t"
  "task_frame (set_brief_field k v t) = task_frame t"
  by (simp_all add: set_brief_field_def task_frame_def)

lemma update_fields_frame:
  "update_fields fs t = (r, t') \<Longrightarrow> t_status t' = t_status t \<and> task_frame t' = task_frame t"
  by (induction fs t rule: update_fields.induct) (auto split: option.splits)

lemma task_update_brief_ok:
  "task_update_brief fs now t = (None, t') \<Longrightarrow>
   t_status t = T_DRAFT \<and> t_status t' = T_DRAFT \<and> task_frame t' = task_frame t"
  by (auto simp: task_update_brief_def task_frame_def split: if_splits prod.splits option.splits
           dest!: update_fields_frame)

lemma task_transition_frame:
  "task_transition target now t = Inr t' \<Longrightarrow> task_frame t' = task_frame t"
  by (simp add: task_transition_ok task_frame_def)

interpretation task_entity:
  managed_entity t_status task_transitions task_terminal task_transition task_apply task_frame
proof (unfold_locales, goal_cases)
  case (1 op now e e')
  then show ?case
    by (cases op)
       (auto simp: task_op_defs task_transition_ok task_terminal_def
             split: prod.splits option.splits dest: task_update_brief_ok)
next
  case (2 op now e e')
  then show ?case
    by (cases op)
       (auto simp: task_op_defs split: prod.splits option.splits
             dest: task_update_brief_ok task_transition_frame)
qed

text \<open>A successful brief update keeps what the constructor checked.\<close>

definition task_valid :: "task \<Rightarrow> bool" where
  "task_valid t = (\<not> is_blank (t_title t)
     \<and> (str_truthy (t_risk_level t) \<longrightarrow> valid_risk_level (the (t_risk_level t))))"

lemma task_init_valid: "task_init u now a = Inr t \<Longrightarrow> task_valid t"
  by (auto simp: task_init_def task_valid_def split: if_splits)

lemma set_brief_field_valid:
  assumes "task_valid t" and ok: "brief_field_error key v = None"
  shows "task_valid (set_brief_field key v t)"
proof (cases "key = ''title''")
  case True
  with ok have "\<not> is_blank (opt_or (brief_text v) [])"
    by (simp add: brief_field_error_def brief_fields_def split: if_splits)
  then obtain s where "brief_text v = Some s" "\<not> is_blank s"
    by (cases "brief_text v") auto
  then show ?thesis using True assms(1) by (simp add: set_brief_field_def task_valid_def)
next
  case False
  then show ?thesis
    using assms by (auto simp: set_brief_field_def task_valid_def brief_field_error_def split: if_splits)
qed

lemma update_fields_valid:
  "\<lbrakk> task_valid t; update_fields fs t = (r, t') \<rbrakk> \<Longrightarrow> task_valid t'"
  by (induction fs t rule: update_fields.induct)
     (auto split: option.splits intro: set_brief_field_valid)

lemma task_apply_valid:
  assumes "task_valid t" and "task_apply op now t = Inr t'"
  shows "task_valid t'"
proof (cases op)
  case (TUpdateBrief fs)
  with assms(2) have "task_update_brief fs now t = (None, t')"
    by (auto split: prod.splits option.splits)
  then obtain t0 where "update_fields fs t = (None, t0)" "t' = t0\<lparr>t_updated_at := now\<rparr>"
    by (auto simp: task_update_brief_def split: if_splits prod.splits option.splits)
  with update_fields_valid [OF assms(1)] show ?thesis by (simp add: task_valid_def)
qed (use assms in \<open>auto simp: task_op_defs task_transition_ok task_valid_def\<close>)

section \<open>Properties\<close>

text \<open>Whatever sequence of public methods is called on a task made by the constructor, with
  whatever arguments and clock, its status has moved along the transition table only, its
  identity, workspace, author, type and creation time are those it was made with, and its title
  and risk level still satisfy what the constructor checks.\<close>

theorem task_history:
  assumes "task_init u now a = Inr t"
  shows "lifecycle task_transitions (t_status t) (t_status (history task_apply h t))
    \<and> task_frame (history task_apply h t) = task_frame t
    \<and> task_valid (history task_apply h t)"
proof (intro conjI)
  show "task_valid (history task_apply h t)"
    by (rule history_invariant [where P = task_valid, OF task_init_valid [OF assms]])
       (rule task_apply_valid)
qed (rule task_entity.history_lifecycle task_entity.history_frame)+

theorem task_history_witness:
  "\<exists>t. task_init 1 5 (task_kwargs 7 ''fix it'' Coding 8) = Inr t
    \<and> lifecycle task_transitions T_DRAFT
        (t_status (history task_apply [(TSubmit, 6), (TComplete, 7), (TStart, 8), (TFail, 9)] t))
    \<and> t_status (history task_apply [(TSubmit, 6), (TComplete, 7), (TStart, 8), (TFail, 9)] t) = T_FAILED"
proof -
  have "is_ok (task_init 1 5 (task_kwargs 7 ''fix it'' Coding 8))" by code_simp
  then obtain t where t: "task_init 1 5 (task_kwargs 7 ''fix it'' Coding 8) = Inr t"
    by (auto simp: is_ok_iff)
  then have "t_status t = T_DRAFT"
    by (auto simp: task_init_def task_kwargs_def split: if_splits)
  with task_history [OF t, of "[(TSubmit, 6), (TComplete, 7), (TStart, 8), (TFail, 9)]"] t
  show ?thesis by (auto simp: task_op_defs task_transition_def task_terminal_def)
qed

end
