(* ===== verification/Run.thy ===== *)
theory Run
  imports Task
begin

text \<open>
  \<open>apps/orchestrator/src/domain/run.py\<close>: one execution attempt of a task.  The constructor,
  the configuration lock, the eight transitions with their side effects on the timestamps and
  the duration.  The duration is the exact quotient of the microsecond difference by 1000 (the
  code goes through a float of seconds).
\<close>

datatype run_status =
    R_QUEUED | R_PREPARING | R_RUNNING | R_WAITING_APPROVAL | R_COMPLETING
  | R_COMPLETED | R_FAILED | R_TIMED_OUT | R_CANCELLED

datatype trigger_type = Manual | Scheduled | Event_Trigger | Approval_Trigger

fun run_status_value :: "run_status \<Rightarrow> string" where
  "run_status_value R_QUEUED = ''queued''"
| "run_status_value R_PREPARING = ''preparing''"
| "run_status_value R_RUNNING = ''running''"
| "run_status_value R_WAITING_APPROVAL = ''waiting_approval''"
| "run_status_value R_COMPLETING = ''completing''"
| "run_status_value R_COMPLETED = ''completed''"
| "run_status_value R_FAILED = ''failed''"
| "run_status_value R_TIMED_OUT = ''timed_out''"
| "run_status_value R_CANCELLED = ''cancelled''"

fun trigger_type_value :: "trigger_type \<Rightarrow> string" where
  "trigger_type_value Manual = ''manual''"
| "trigger_type_value Scheduled = ''scheduled''"
| "trigger_type_value Event_Trigger = ''event''"
| "trigger_type_value Approval_Trigger = ''approval''"

declare run_status_value.simps [value_simps] trigger_type_value.simps [value_simps]

fun run_transitions :: "run_status \<Rightarrow> run_status list" where
  "run_transitions R_QUEUED = [R_PREPARING, R_CANCELLED]"
| "run_transitions R_PREPARING = [R_RUNNING, R_FAILED, R_CANCELLED]"
| "run_transitions R_RUNNING =
     [R_WAITING_APPROVAL, R_COMPLETING, R_FAILED, R_CANCELLED, R_TIMED_OUT]"
| "run_transitions R_WAITING_APPROVAL = [R_RUNNING, R_CANCELLED]"
| "run_transitions R_COMPLETING = [R_COMPLETED, R_FAILED]"
| "run_transitions R_COMPLETED = []"
| "run_transitions R_FAILED = []"
| "run_transitions R_TIMED_OUT = [R_CANCELLED]"
| "run_transitions R_CANCELLED = []"

definition run_terminal :: "run_status \<Rightarrow> bool" where
  "run_terminal s = (s \<in> {R_COMPLETED, R_FAILED, R_CANCELLED})"

record run =
  r_id :: uuid
  r_task_id :: uuid
  r_workspace_id :: uuid
  r_status :: run_status
  r_trigger_type :: trigger_type
  r_triggered_by_id :: "uuid option"
  r_started_at :: "time option"
  r_completed_at :: "time option"
  r_duration_ms :: "int option"
  r_run_config :: dict
  r_error_summary :: "string option"
  r_created_at :: time
  r_updated_at :: time
  r_config_locked :: bool

record run_args =
  ra_task_id :: uuid
  ra_workspace_id :: uuid
  ra_trigger_type :: trigger_type
  ra_triggered_by_id :: "uuid option"
  ra_run_config :: "dict option"
  ra_id :: "uuid option"
  ra_run_status :: run_status
  ra_started_at :: "time option"
  ra_completed_at :: "time option"
  ra_duration_ms :: "int option"
  ra_error_summary :: "string option"
  ra_created_at :: "time option"
  ra_updated_at :: "time option"

definition run_kwargs :: "uuid \<Rightarrow> uuid \<Rightarrow> run_args" where
  "run_kwargs task_id ws = \<lparr>
     ra_task_id = task_id, ra_workspace_id = ws, ra_trigger_type = Manual,
     ra_triggered_by_id = None, ra_run_config = None, ra_id = None, ra_run_status = R_QUEUED,
     ra_started_at = None, ra_completed_at = None, ra_duration_ms = None,
     ra_error_summary = None, ra_created_at = None, ra_updated_at = None \<rparr>"

definition run_init :: "uuid \<Rightarrow> time \<Rightarrow> run_args \<Rightarrow> domain_error + run" where
  "run_init fresh now a =
    (if (case ra_duration_ms a of None \<Rightarrow> False | Some d \<Rightarrow> d < 0)
     then Inl (DomainValidation ''Run'' ''duration_ms must be >= 0'')
     else Inr \<lparr>
       r_id = opt_or (ra_id a) fresh,
       r_task_id = ra_task_id a,
       r_workspace_id = ra_workspace_id a,
       r_status = ra_run_status a,
       r_trigger_type = ra_trigger_type a,
       r_triggered_by_id = ra_triggered_by_id a,
       r_started_at = ra_started_at a,
       r_completed_at = ra_completed_at a,
       r_duration_ms = ra_duration_ms a,
       r_run_config = opt_or (ra_run_config a) [],
       r_error_summary = ra_error_summary a,
       r_created_at = opt_or (ra_created_at a) now,
       r_updated_at = opt_or (ra_updated_at a) (opt_or (ra_created_at a) now),
       r_config_locked = (ra_run_status a \<noteq> R_QUEUED) \<rparr>)"

definition compute_duration :: "time \<Rightarrow> run \<Rightarrow> int option" where
  "compute_duration end_at r =
    (case r_started_at r of None \<Rightarrow> None | Some s \<Rightarrow> Some (max 0 ((end_at - s) div 1000)))"

definition run_update_config :: "dict \<Rightarrow> run \<Rightarrow> domain_error + run" where
  "run_update_config cfg r =
    (if r_config_locked r
     then Inl (ImmutableField ''Run'' ''run_config'' (Some ''locked after leaving queued''))
     else Inr (r\<lparr>r_run_config := cfg\<rparr>))"

definition run_transition :: "run_status \<Rightarrow> time \<Rightarrow> run \<Rightarrow> domain_error + run" where
  "run_transition target now r =
    (if run_terminal (r_status r)
     then Inl (TerminalState ''Run'' (run_status_value (r_status r)) (run_status_value target))
     else if target \<notin> set (run_transitions (r_status r))
     then Inl (InvalidTransition ''Run'' (run_status_value (r_status r))
                 (run_status_value target) None)
     else Inr (r\<lparr>r_status := target, r_updated_at := now\<rparr>))"

definition run_prepare :: "time \<Rightarrow> run \<Rightarrow> domain_error + run" where
  "run_prepare now r = rbind (run_transition R_PREPARING now r)
     (\<lambda>r. Inr (r\<lparr>r_config_locked := True\<rparr>))"

definition run_start :: "time \<Rightarrow> run \<Rightarrow> domain_error + run" where
  "run_start now r = rbind (run_transition R_RUNNING now r)
     (\<lambda>r. Inr (r\<lparr>r_started_at := Some (opt_or (r_started_at r) now)\<rparr>))"

definition run_request_approval :: "time \<Rightarrow> run \<Rightarrow> domain_error + run" where
  "run_request_approval = run_transition R_WAITING_APPROVAL"

definition run_approve :: "time \<Rightarrow> run \<Rightarrow> domain_error + run" where
  "run_approve = run_transition R_RUNNING"

definition run_begin_completing :: "time \<Rightarrow> run \<Rightarrow> domain_error + run" where
  "run_begin_completing = run_transition R_COMPLETING"

definition run_complete :: "time \<Rightarrow> run \<Rightarrow> domain_error + run" where
  "run_complete now r = rbind (run_transition R_COMPLETED now r)
     (\<lambda>r. Inr (r\<lparr>r_completed_at := Some now, r_duration_ms := compute_duration now r\<rparr>))"

definition run_fail :: "string option \<Rightarrow> time \<Rightarrow> run \<Rightarrow> domain_error + run" where
  "run_fail error_summary now r = rbind (run_transition R_FAILED now r)
     (\<lambda>r. let r' = r\<lparr>r_completed_at := Some now, r_duration_ms := compute_duration now r\<rparr>
           in Inr (if str_truthy error_summary then r'\<lparr>r_error_summary := error_summary\<rparr> else r'))"

definition run_cancel :: "time \<Rightarrow> run \<Rightarrow> domain_error + run" where
  "run_cancel now r = rbind (run_transition R_CANCELLED now r)
     (\<lambda>r. let done_at = opt_or (r_completed_at r) now
           in Inr (r\<lparr>r_completed_at := Some done_at, r_duration_ms := compute_duration done_at r\<rparr>))"

definition run_time_out :: "time \<Rightarrow> run \<Rightarrow> domain_error + run" where
  "run_time_out now r = rbind (run_transition R_TIMED_OUT now r)
     (\<lambda>r. Inr (r\<lparr>r_completed_at := Some now, r_duration_ms := compute_duration now r\<rparr>))"

definition run_is_terminal :: "run \<Rightarrow> bool" where
  "run_is_terminal r = run_terminal (r_status r)"

definition run_is_active :: "run \<Rightarrow> bool" where
  "run_is_active r =
    (r_status r \<in> {R_QUEUED, R_PREPARING, R_RUNNING, R_WAITING_APPROVAL, R_COMPLETING})"

datatype run_op =
    RPrepare | RStart | RRequestApproval | RApprove | RBeginCompleting | RComplete
  | RFail "string option" | RCancel | RTimeOut

fun run_apply :: "run_op \<Rightarrow> time \<Rightarrow> run \<Rightarrow> domain_error + run" where
  "run_apply RPrepare now r = run_prepare now r"
| "run_apply RStart now r = run_start now r"
| "run_apply RRequestApproval now r = run_request_approval now r"
| "run_apply RApprove now r = run_approve now r"
| "run_apply RBeginCompleting now r = run_begin_completing now r"
| "run_apply RComplete now r = run_complete now r"
| "run_apply (RFail e) now r = run_fail e now r"
| "run_apply RCancel now r = run_cancel now r"
| "run_apply RTimeOut now r = run_time_out now r"

section \<open>Lemmas\<close>

lemmas run_op_defs = run_prepare_def run_start_def run_request_approval_def run_approve_def
  run_begin_completing_def run_complete_def run_fail_def run_cancel_def run_time_out_def

lemma run_transition_ok:
  "run_transition target now r = Inr r' \<longleftrightarrow>
   target \<in> set (run_transitions (r_status r)) \<and> r' = r\<lparr>r_status := target, r_updated_at := now\<rparr>"
  by (cases "r_status r") (auto simp: run_transition_def run_terminal_def)

interpretation run_sm: state_machine r_status run_transitions run_terminal run_transition
  by unfold_locales (auto simp: run_transition_ok is_ok_iff run_terminal_def)

text \<open>What no method writes, and the one target of each method.\<close>

definition run_frame :: "run \<Rightarrow> uuid \<times> uuid \<times> uuid \<times> uuid option \<times> dict \<times> time" where
  "run_frame r = (r_id r, r_task_id r, r_workspace_id r, r_triggered_by_id r, r_run_config r,
     r_created_at r)"

fun run_op_target :: "run_op \<Rightarrow> run_status" where
  "run_op_target RPrepare = R_PREPARING"
| "run_op_target RStart = R_RUNNING"
| "run_op_target RRequestApproval = R_WAITING_APPROVAL"
| "run_op_target RApprove = R_RUNNING"
| "run_op_target RBeginCompleting = R_COMPLETING"
| "run_op_target RComplete = R_COMPLETED"
| "run_op_target (RFail e) = R_FAILED"
| "run_op_target RCancel = R_CANCELLED"
| "run_op_target RTimeOut = R_TIMED_OUT"

lemma run_apply_ok:
  "is_ok (run_apply op now r) \<longleftrightarrow> run_op_target op \<in> set (run_transitions (r_status r))"
  by (cases op; cases "r_status r")
     (simp_all add: run_op_defs run_transition_def run_terminal_def Let_def)

lemma run_apply_fields:
  assumes "run_apply op now r = Inr r'"
  shows "r_status r' = run_op_target op" "run_op_target op \<in> set (run_transitions (r_status r))"
    "run_frame r' = run_frame r" "r_updated_at r' = now"
    "r_id r' = r_id r" "r_task_id r' = r_task_id r" "r_workspace_id r' = r_workspace_id r"
  using assms
  by (cases op; auto simp: run_op_defs run_transition_ok rbind_Inr_iff run_frame_def Let_def
        split: if_splits)+

interpretation run_entity:
  managed_entity r_status run_transitions run_terminal run_transition run_apply run_frame
  by unfold_locales (auto simp: run_apply_fields)

lemma run_cancel_ok_iff: "is_ok (run_cancel now r) \<longleftrightarrow> R_CANCELLED \<in> set (run_transitions (r_status r))"
  using run_apply_ok [of RCancel] by simp

lemma run_cancel_fields:
  "run_cancel now r = Inr r' \<Longrightarrow>
   r_status r' = R_CANCELLED \<and> r_id r' = r_id r \<and> r_task_id r' = r_task_id r
   \<and> r_workspace_id r' = r_workspace_id r \<and> run_frame r' = run_frame r"
  using run_apply_fields [of RCancel] by simp

text \<open>The effect of each method on the timestamps, the duration and the lock.\<close>

definition run_ended :: "run_status \<Rightarrow> bool" where
  "run_ended s = (s \<in> {R_COMPLETED, R_FAILED, R_TIMED_OUT, R_CANCELLED})"

lemmas run_effect_defs = run_op_defs run_transition_ok rbind_Inr_iff run_ended_def

lemma run_started_effect:
  "run_apply op now r = Inr r' \<Longrightarrow>
   r_started_at r' = (if op = RStart then Some (opt_or (r_started_at r) now) else r_started_at r)"
  by (cases op) (auto simp: run_effect_defs Let_def split: if_splits)

lemma run_completed_effect:
  "run_apply op now r = Inr r' \<Longrightarrow>
   r_completed_at r' =
     (if op = RCancel then Some (opt_or (r_completed_at r) now)
      else if run_ended (run_op_target op) then Some now else r_completed_at r)"
  by (cases op) (auto simp: run_effect_defs Let_def split: if_splits)

lemma compute_duration_update [simp]:
  "compute_duration e (r\<lparr>r_status := s, r_updated_at := n\<rparr>) = compute_duration e r"
  by (simp add: compute_duration_def)

lemma run_duration_effect:
  "run_apply op now r = Inr r' \<Longrightarrow>
   r_duration_ms r' =
     (if run_ended (run_op_target op) then compute_duration (the (r_completed_at r')) r
      else r_duration_ms r)"
  by (cases op) (auto simp: run_effect_defs Let_def split: if_splits)

lemma run_lock_effect:
  "run_apply op now r = Inr r' \<Longrightarrow> r_config_locked r' = (op = RPrepare \<or> r_config_locked r)"
  by (cases op) (auto simp: run_effect_defs Let_def split: if_splits)

lemmas run_apply_effect = run_started_effect run_completed_effect run_duration_effect run_lock_effect

text \<open>Timestamps and duration: set together, never negative.\<close>

definition run_times_ok :: "run \<Rightarrow> bool" where
  "run_times_ok r =
    ((run_ended (r_status r) \<longleftrightarrow> r_completed_at r \<noteq> None)
     \<and> r_duration_ms r =
          (case r_completed_at r of None \<Rightarrow> None | Some c \<Rightarrow> compute_duration c r)
     \<and> (r_status r \<noteq> R_QUEUED \<and> r_status r \<noteq> R_CANCELLED \<longrightarrow> r_config_locked r))"

lemma run_apply_times:
  assumes inv: "run_times_ok r" and step: "run_apply op now r = Inr r'"
  shows "run_times_ok r'"
proof -
  note eff = run_apply_effect [OF step] and st = run_apply_fields(1,2) [OF step]
  have dur: "compute_duration c r' = compute_duration c r" if "op \<noteq> RStart" for c
    using eff(1) that by (simp add: compute_duration_def)
  have "run_ended (r_status r') \<longleftrightarrow> r_completed_at r' \<noteq> None"
    using inv eff(2) st
    by (cases op; cases "r_status r") (simp_all add: run_ended_def run_times_ok_def)
  moreover have "r_duration_ms r' =
          (case r_completed_at r' of None \<Rightarrow> None | Some c \<Rightarrow> compute_duration c r')"
  proof (cases "run_ended (run_op_target op)")
    case True
    then have "op \<noteq> RStart" by (auto simp: run_ended_def)
    with True show ?thesis using eff(2,3) dur by (auto simp: run_ended_def)
  next
    case False
    then have "r_completed_at r' = None" "r_duration_ms r' = r_duration_ms r"
      using st eff(3) \<open>run_ended (r_status r') \<longleftrightarrow> r_completed_at r' \<noteq> None\<close> by auto
    moreover have "r_completed_at r = None" using inv eff(2) False calculation(1)
      by (auto simp: run_times_ok_def split: if_splits)
    ultimately show ?thesis using inv by (simp add: run_times_ok_def)
  qed
  moreover have "r_status r' \<noteq> R_QUEUED \<and> r_status r' \<noteq> R_CANCELLED \<longrightarrow> r_config_locked r'"
    using inv eff(4) st by (cases op; cases "r_status r") (simp_all add: run_times_ok_def)
  ultimately show ?thesis by (simp add: run_times_ok_def)
qed

section \<open>Properties\<close>

lemma run_kwargs_init: "run_init u now (run_kwargs k ws) = Inr r \<Longrightarrow> run_times_ok r \<and> r_status r = R_QUEUED"
  by (auto simp: run_init_def run_kwargs_def run_times_ok_def run_ended_def)

text \<open>A run made by the constructor, after any sequence of method calls: it has a completion
  time exactly in the four ended statuses, its duration is the non-negative number of
  milliseconds between start and completion whenever both are known and absent otherwise, its
  configuration is locked in every status but queued and cancelled, its identity and
  configuration are unchanged, and once completed, failed or cancelled no call changes it.\<close>

theorem run_history:
  assumes "run_init u now (run_kwargs k ws) = Inr r"
  shows "run_times_ok (history run_apply h r)
    \<and> lifecycle run_transitions R_QUEUED (r_status (history run_apply h r))
    \<and> run_frame (history run_apply h r) = run_frame r
    \<and> (run_is_terminal (history run_apply h r) \<longrightarrow>
         history run_apply h' (history run_apply h r) = history run_apply h r)"
proof (intro conjI impI)
  have "run_times_ok r" and q: "r_status r = R_QUEUED" using run_kwargs_init [OF assms] by simp_all
  from this(1) show "run_times_ok (history run_apply h r)"
    by (rule history_invariant [where P = run_times_ok]) (rule run_apply_times)
  show "lifecycle run_transitions R_QUEUED (r_status (history run_apply h r))"
    using run_entity.history_lifecycle [of r h] q by simp
qed (auto simp: run_is_terminal_def run_entity.history_frame run_entity.history_terminal)

theorem run_history_witness:
  "\<exists>r. run_init 1 5 (run_kwargs 3 7) = Inr r
    \<and> run_times_ok (history run_apply [(RPrepare, 6), (RStart, 7), (RTimeOut, 5000), (RCancel, 9000)] r)
    \<and> r_duration_ms (history run_apply [(RPrepare, 6), (RStart, 7), (RTimeOut, 5000), (RCancel, 9000)] r) = Some 4"
proof -
  have "is_ok (run_init 1 5 (run_kwargs 3 7))" by code_simp
  then obtain r where r: "run_init 1 5 (run_kwargs 3 7) = Inr r" by (auto simp: is_ok_iff)
  then have "r_status r = R_QUEUED" "r_started_at r = None" "r_completed_at r = None"
    by (auto simp: run_init_def run_kwargs_def)
  with run_history [OF r, of "[(RPrepare, 6), (RStart, 7), (RTimeOut, 5000), (RCancel, 9000)]"] r
  show ?thesis
    by (auto simp: run_op_defs run_transition_def run_terminal_def compute_duration_def Let_def)
qed

text \<open>The configuration of a run can still be replaced after the run was cancelled while
  queued: only \<open>prepare\<close> closes the lock.\<close>

theorem cancelled_run_config_mutable:
  assumes "run_init u now (run_kwargs k ws) = Inr r"
  shows "\<exists>r' r''. run_cancel t r = Inr r' \<and> r_status r' = R_CANCELLED
    \<and> run_update_config cfg r' = Inr r'' \<and> r_run_config r'' = cfg"
  using assms
  by (auto simp: run_init_def run_kwargs_def run_cancel_def run_transition_def run_terminal_def
        run_update_config_def Let_def)

theorem cancelled_run_config_mutable_witness:
  "\<exists>r r' r''. run_init 1 5 (run_kwargs 3 7) = Inr r \<and> run_cancel 6 r = Inr r'
    \<and> run_update_config [(''x'', JInt 1)] r' = Inr r''"
proof -
  have "is_ok (run_init 1 5 (run_kwargs 3 7))" by code_simp
  then obtain r where "run_init 1 5 (run_kwargs 3 7) = Inr r" by (auto simp: is_ok_iff)
  with cancelled_run_config_mutable [OF this, of 6 "[(''x'', JInt 1)]"] show ?thesis by blast
qed

end
