(* ===== verification/Step.thy ===== *)
theory Step
  imports Run
begin

text \<open>
  \<open>apps/orchestrator/src/domain/step.py\<close>: the smallest traceable unit of a run.  Three methods
  share the target \<open>running\<close> and are told apart by a guard on the source status.
\<close>

datatype step_type = Agent_Invocation | Tool_Call | Approval_Gate | Condition_Step | Transform_Step

datatype step_status =
    S_PENDING | S_RUNNING | S_WAITING_APPROVAL | S_BLOCKED
  | S_COMPLETED | S_FAILED | S_SKIPPED | S_CANCELLED

fun step_type_value :: "step_type \<Rightarrow> string" where
  "step_type_value Agent_Invocation = ''agent_invocation''"
| "step_type_value Tool_Call = ''tool_call''"
| "step_type_value Approval_Gate = ''approval_gate''"
| "step_type_value Condition_Step = ''condition''"
| "step_type_value Transform_Step = ''transform''"

fun step_status_value :: "step_status \<Rightarrow> string" where
  "step_status_value S_PENDING = ''pending''"
| "step_status_value S_RUNNING = ''running''"
| "step_status_value S_WAITING_APPROVAL = ''waiting_approval''"
| "step_status_value S_BLOCKED = ''blocked''"
| "step_status_value S_COMPLETED = ''completed''"
| "step_status_value S_FAILED = ''failed''"
| "step_status_value S_SKIPPED = ''skipped''"
| "step_status_value S_CANCELLED = ''cancelled''"

declare step_type_value.simps [value_simps] step_status_value.simps [value_simps]

fun step_transitions :: "step_status \<Rightarrow> step_status list" where
  "step_transitions S_PENDING = [S_RUNNING, S_SKIPPED, S_CANCELLED]"
| "step_transitions S_RUNNING =
     [S_WAITING_APPROVAL, S_BLOCKED, S_COMPLETED, S_FAILED, S_CANCELLED]"
| "step_transitions S_WAITING_APPROVAL = [S_RUNNING, S_CANCELLED]"
| "step_transitions S_BLOCKED = [S_RUNNING, S_FAILED, S_CANCELLED]"
| "step_transitions S_COMPLETED = []"
| "step_transitions S_FAILED = []"
| "step_transitions S_SKIPPED = []"
| "step_transitions S_CANCELLED = []"

definition step_terminal :: "step_status \<Rightarrow> bool" where
  "step_terminal s = (s \<in> {S_COMPLETED, S_FAILED, S_SKIPPED, S_CANCELLED})"

record step =
  s_id :: uuid
  s_run_id :: uuid
  s_workspace_id :: uuid
  s_step_type :: step_type
  s_status :: step_status
  s_sequence :: int
  s_parent_step_id :: "uuid option"
  s_input_snapshot :: "dict option"
  s_output_snapshot :: "dict option"
  s_started_at :: "time option"
  s_completed_at :: "time option"
  s_error_detail :: "dict option"
  s_created_at :: time
  s_updated_at :: time

record step_args =
  sa_run_id :: uuid
  sa_workspace_id :: uuid
  sa_sequence :: int
  sa_step_type :: step_type
  sa_parent_step_id :: "uuid option"
  sa_input_snapshot :: "dict option"
  sa_id :: "uuid option"
  sa_step_status :: step_status
  sa_output_snapshot :: "dict option"
  sa_started_at :: "time option"
  sa_completed_at :: "time option"
  sa_error_detail :: "dict option"
  sa_created_at :: "time option"
  sa_updated_at :: "time option"

definition step_kwargs :: "uuid \<Rightarrow> uuid \<Rightarrow> int \<Rightarrow> step_args" where
  "step_kwargs run_id ws seq = \<lparr>
     sa_run_id = run_id, sa_workspace_id = ws, sa_sequence = seq,
     sa_step_type = Agent_Invocation, sa_parent_step_id = None, sa_input_snapshot = None,
     sa_id = None, sa_step_status = S_PENDING, sa_output_snapshot = None, sa_started_at = None,
     sa_completed_at = None, sa_error_detail = None, sa_created_at = None, sa_updated_at = None \<rparr>"

definition step_init :: "uuid \<Rightarrow> time \<Rightarrow> step_args \<Rightarrow> domain_error + step" where
  "step_init fresh now a =
    (if sa_sequence a < 1
     then Inl (DomainValidation ''Step'' ''sequence must be > 0'')
     else Inr \<lparr>
       s_id = opt_or (sa_id a) fresh,
       s_run_id = sa_run_id a,
       s_workspace_id = sa_workspace_id a,
       s_step_type = sa_step_type a,
       s_status = sa_step_status a,
       s_sequence = sa_sequence a,
       s_parent_step_id = sa_parent_step_id a,
       s_input_snapshot = sa_input_snapshot a,
       s_output_snapshot = sa_output_snapshot a,
       s_started_at = sa_started_at a,
       s_completed_at = sa_completed_at a,
       s_error_detail = sa_error_detail a,
       s_created_at = opt_or (sa_created_at a) now,
       s_updated_at = opt_or (sa_updated_at a) (opt_or (sa_created_at a) now) \<rparr>)"

definition step_transition :: "step_status \<Rightarrow> time \<Rightarrow> step \<Rightarrow> domain_error + step" where
  "step_transition target now s =
    (if step_terminal (s_status s)
     then Inl (TerminalState ''Step'' (step_status_value (s_status s)) (step_status_value target))
     else if target \<notin> set (step_transitions (s_status s))
     then Inl (InvalidTransition ''Step'' (step_status_value (s_status s))
                 (step_status_value target) None)
     else Inr (s\<lparr>s_status := target, s_updated_at := now\<rparr>))"

definition step_start :: "dict option \<Rightarrow> time \<Rightarrow> step \<Rightarrow> domain_error + step" where
  "step_start input_snapshot now s =
    (if s_status s \<noteq> S_PENDING
     then Inl (InvalidTransition ''Step'' (step_status_value (s_status s)) ''running''
                 (Some ''start only valid from pending; use approve() or unblock()''))
     else rbind (step_transition S_RUNNING now s)
       (\<lambda>s. let s' = s\<lparr>s_started_at := Some now\<rparr>
             in Inr (if input_snapshot \<noteq> None then s'\<lparr>s_input_snapshot := input_snapshot\<rparr> else s')))"

definition step_complete :: "dict \<Rightarrow> time \<Rightarrow> step \<Rightarrow> domain_error + step" where
  "step_complete output_snapshot now s = rbind (step_transition S_COMPLETED now s)
     (\<lambda>s. Inr (s\<lparr>s_completed_at := Some now, s_output_snapshot := Some output_snapshot\<rparr>))"

definition step_fail :: "dict option \<Rightarrow> time \<Rightarrow> step \<Rightarrow> domain_error + step" where
  "step_fail error_detail now s = rbind (step_transition S_FAILED now s)
     (\<lambda>s. let s' = s\<lparr>s_completed_at := Some now\<rparr>
           in Inr (if error_detail \<noteq> None then s'\<lparr>s_error_detail := error_detail\<rparr> else s'))"

definition step_skip :: "time \<Rightarrow> step \<Rightarrow> domain_error + step" where
  "step_skip now s = rbind (step_transition S_SKIPPED now s)
     (\<lambda>s. Inr (s\<lparr>s_completed_at := Some now\<rparr>))"

definition step_cancel :: "time \<Rightarrow> step \<Rightarrow> domain_error + step" where
  "step_cancel now s = rbind (step_transition S_CANCELLED now s)
     (\<lambda>s. Inr (s\<lparr>s_completed_at := Some (opt_or (s_completed_at s) now)\<rparr>))"

definition step_request_approval :: "time \<Rightarrow> step \<Rightarrow> domain_error + step" where
  "step_request_approval = step_transition S_WAITING_APPROVAL"

definition step_approve :: "time \<Rightarrow> step \<Rightarrow> domain_error + step" where
  "step_approve now s =
    (if s_status s \<noteq> S_WAITING_APPROVAL
     then Inl (InvalidTransition ''Step'' (step_status_value (s_status s)) ''running''
                 (Some ''approve only valid from waiting_approval''))
     else step_transition S_RUNNING now s)"

definition step_block :: "time \<Rightarrow> step \<Rightarrow> domain_error + step" where
  "step_block = step_transition S_BLOCKED"

definition step_unblock :: "time \<Rightarrow> step \<Rightarrow> domain_error + step" where
  "step_unblock now s =
    (if s_status s \<noteq> S_BLOCKED
     then Inl (InvalidTransition ''Step'' (step_status_value (s_status s)) ''running''
                 (Some ''unblock only valid from blocked''))
     else step_transition S_RUNNING now s)"

definition step_is_terminal :: "step \<Rightarrow> bool" where
  "step_is_terminal s = step_terminal (s_status s)"

definition step_is_active :: "step \<Rightarrow> bool" where
  "step_is_active s = (s_status s \<in> {S_PENDING, S_RUNNING, S_WAITING_APPROVAL, S_BLOCKED})"

datatype step_op =
    SStart "dict option" | SComplete dict | SFail "dict option" | SSkip | SCancel
  | SRequestApproval | SApprove | SBlock | SUnblock

fun step_apply :: "step_op \<Rightarrow> time \<Rightarrow> step \<Rightarrow> domain_error + step" where
  "step_apply (SStart i) now s = step_start i now s"
| "step_apply (SComplete out) now s = step_complete out now s"
| "step_apply (SFail e) now s = step_fail e now s"
| "step_apply SSkip now s = step_skip now s"
| "step_apply SCancel now s = step_cancel now s"
| "step_apply SRequestApproval now s = step_request_approval now s"
| "step_apply SApprove now s = step_approve now s"
| "step_apply SBlock now s = step_block now s"
| "step_apply SUnblock now s = step_unblock now s"

section \<open>Lemmas\<close>

lemmas step_op_defs = step_start_def step_complete_def step_fail_def step_skip_def
  step_cancel_def step_request_approval_def step_approve_def step_block_def step_unblock_def

lemma step_transition_ok:
  "step_transition target now s = Inr s' \<longleftrightarrow>
   target \<in> set (step_transitions (s_status s)) \<and> s' = s\<lparr>s_status := target, s_updated_at := now\<rparr>"
  by (cases "s_status s") (auto simp: step_transition_def step_terminal_def)

interpretation step_sm: state_machine s_status step_transitions step_terminal step_transition
  by unfold_locales (auto simp: step_transition_ok is_ok_iff step_terminal_def)

lemma step_active_iff: "step_is_active s \<longleftrightarrow> \<not> step_is_terminal s"
  by (cases "s_status s") (auto simp: step_is_active_def step_is_terminal_def step_terminal_def)

lemma step_active_cancellable: "step_is_active s \<longleftrightarrow> S_CANCELLED \<in> set (step_transitions (s_status s))"
  by (cases "s_status s") (auto simp: step_is_active_def)

definition step_frame :: "step \<Rightarrow> uuid \<times> uuid \<times> uuid \<times> int \<times> step_type \<times> uuid option \<times> time" where
  "step_frame s = (s_id s, s_run_id s, s_workspace_id s, s_sequence s, s_step_type s,
     s_parent_step_id s, s_created_at s)"

text \<open>From which statuses each method is accepted, and where it leads.\<close>

fun step_op_sources :: "step_op \<Rightarrow> step_status list" where
  "step_op_sources (SStart i) = [S_PENDING]"
| "step_op_sources (SComplete out) = [S_RUNNING]"
| "step_op_sources (SFail e) = [S_RUNNING, S_BLOCKED]"
| "step_op_sources SSkip = [S_PENDING]"
| "step_op_sources SCancel = [S_PENDING, S_RUNNING, S_WAITING_APPROVAL, S_BLOCKED]"
| "step_op_sources SRequestApproval = [S_RUNNING]"
| "step_op_sources SApprove = [S_WAITING_APPROVAL]"
| "step_op_sources SBlock = [S_RUNNING]"
| "step_op_sources SUnblock = [S_BLOCKED]"

fun step_op_target :: "step_op \<Rightarrow> step_status" where
  "step_op_target (SStart i) = S_RUNNING"
| "step_op_target (SComplete out) = S_COMPLETED"
| "step_op_target (SFail e) = S_FAILED"
| "step_op_target SSkip = S_SKIPPED"
| "step_op_target SCancel = S_CANCELLED"
| "step_op_target SRequestApproval = S_WAITING_APPROVAL"
| "step_op_target SApprove = S_RUNNING"
| "step_op_target SBlock = S_BLOCKED"
| "step_op_target SUnblock = S_RUNNING"

lemma step_apply_ok:
  "is_ok (step_apply op now s) \<longleftrightarrow> s_status s \<in> set (step_op_sources op)"
  by (cases op; cases "s_status s")
     (simp_all add: step_op_defs step_transition_def step_terminal_def Let_def)

lemma step_op_edge:
  "st \<in> set (step_op_sources op) \<Longrightarrow> step_op_target op \<in> set (step_transitions st)"
  by (cases op) auto

lemma step_apply_fields:
  assumes "step_apply op now s = Inr s'"
  shows "s_status s' = step_op_target op" "s_status s \<in> set (step_op_sources op)"
    "step_frame s' = step_frame s" "s_updated_at s' = now"
proof -
  show "s_status s \<in> set (step_op_sources op)"
    using step_apply_ok [of op now s] assms by simp
  show "s_status s' = step_op_target op" "step_frame s' = step_frame s" "s_updated_at s' = now"
    using assms
    by (cases op; auto simp: step_op_defs step_transition_ok rbind_Inr_iff step_frame_def Let_def
          split: if_splits)+
qed

interpretation step_entity:
  managed_entity s_status step_transitions step_terminal step_transition step_apply step_frame
  by unfold_locales (auto simp: step_apply_fields dest: step_apply_fields(2) step_op_edge)

lemma step_cancel_fields:
  "step_cancel now s = Inr s' \<Longrightarrow>
   s_status s' = S_CANCELLED \<and> s_id s' = s_id s \<and> s_run_id s' = s_run_id s \<and> step_frame s' = step_frame s"
  using step_apply_fields [of SCancel] by (simp add: step_frame_def)

section \<open>Properties\<close>

text \<open>Each public method of a step is accepted exactly in the statuses its documentation
  names (\<open>start\<close> only from pending, \<open>approve\<close> only from waiting for approval, \<open>unblock\<close> only
  from blocked, although all three lead to running), and an accepted call leads to the one
  status the method is for.\<close>

theorem step_methods:
  "(is_ok (step_apply op now s) \<longleftrightarrow> s_status s \<in> set (step_op_sources op))
   \<and> (case step_apply op now s of Inl e \<Rightarrow> True
      | Inr s' \<Rightarrow> s_status s' = step_op_target op \<and> step_frame s' = step_frame s)"
  using step_apply_ok [of op now s] by (auto split: sum.split simp: step_apply_fields)

end
