(* ===== verification/Approval.thy ===== *)
theory Approval
  imports Step
begin

text \<open>
  \<open>apps/orchestrator/src/domain/approval_request.py\<close>: the human-in-the-loop decision.  A
  request is decided once; the reviewer and the instant of the decision are recorded on
  approve and reject only.
\<close>

datatype approval_decision = AP_PENDING | AP_APPROVED | AP_REJECTED | AP_TIMED_OUT | AP_CANCELLED

datatype approval_target = Target_Task | Target_Run | Target_Step | Target_Artifact | Target_Tool_Call

fun approval_decision_value :: "approval_decision \<Rightarrow> string" where
  "approval_decision_value AP_PENDING = ''pending''"
| "approval_decision_value AP_APPROVED = ''approved''"
| "approval_decision_value AP_REJECTED = ''rejected''"
| "approval_decision_value AP_TIMED_OUT = ''timed_out''"
| "approval_decision_value AP_CANCELLED = ''cancelled''"

fun approval_target_value :: "approval_target \<Rightarrow> string" where
  "approval_target_value Target_Task = ''task''"
| "approval_target_value Target_Run = ''run''"
| "approval_target_value Target_Step = ''step''"
| "approval_target_value Target_Artifact = ''artifact''"
| "approval_target_value Target_Tool_Call = ''tool_call''"

declare approval_decision_value.simps [value_simps] approval_target_value.simps [value_simps]

fun approval_transitions :: "approval_decision \<Rightarrow> approval_decision list" where
  "approval_transitions AP_PENDING = [AP_APPROVED, AP_REJECTED, AP_TIMED_OUT, AP_CANCELLED]"
| "approval_transitions AP_APPROVED = []"
| "approval_transitions AP_REJECTED = []"
| "approval_transitions AP_TIMED_OUT = []"
| "approval_transitions AP_CANCELLED = []"

definition approval_terminal :: "approval_decision \<Rightarrow> bool" where
  "approval_terminal d = (d \<in> {AP_APPROVED, AP_REJECTED, AP_TIMED_OUT, AP_CANCELLED})"

record approval =
  ap_id :: uuid
  ap_workspace_id :: uuid
  ap_target_type :: approval_target
  ap_target_id :: uuid
  ap_requested_by :: string
  ap_reviewer_id :: "uuid option"
  ap_prompt :: "string option"
  ap_timeout_at :: "time option"
  ap_decision :: approval_decision
  ap_decided_by_id :: "uuid option"
  ap_decided_at :: "time option"
  ap_decision_comment :: "string option"
  ap_created_at :: time
  ap_updated_at :: time

definition approval_init ::
  "uuid \<Rightarrow> time \<Rightarrow> uuid \<Rightarrow> approval_target \<Rightarrow> uuid \<Rightarrow> string \<Rightarrow> uuid option \<Rightarrow> string option
   \<Rightarrow> time option \<Rightarrow> domain_error + approval" where
  "approval_init fresh now ws target_type target_id requested_by reviewer prompt timeout_at =
    (if is_blank requested_by
     then Inl (DomainValidation ''ApprovalRequest'' ''requested_by must not be blank'')
     else Inr \<lparr>
       ap_id = fresh, ap_workspace_id = ws, ap_target_type = target_type,
       ap_target_id = target_id, ap_requested_by = requested_by, ap_reviewer_id = reviewer,
       ap_prompt = prompt, ap_timeout_at = timeout_at, ap_decision = AP_PENDING,
       ap_decided_by_id = None, ap_decided_at = None, ap_decision_comment = None,
       ap_created_at = now, ap_updated_at = now \<rparr>)"

definition approval_transition ::
  "approval_decision \<Rightarrow> time \<Rightarrow> approval \<Rightarrow> domain_error + approval" where
  "approval_transition target now a =
    (if approval_terminal (ap_decision a)
     then Inl (TerminalState ''ApprovalRequest'' (approval_decision_value (ap_decision a))
                 (approval_decision_value target))
     else if target \<notin> set (approval_transitions (ap_decision a))
     then Inl (InvalidTransition ''ApprovalRequest'' (approval_decision_value (ap_decision a))
                 (approval_decision_value target) None)
     else Inr (a\<lparr>ap_decision := target, ap_updated_at := now\<rparr>))"

definition approval_approve :: "uuid \<Rightarrow> string option \<Rightarrow> time \<Rightarrow> approval \<Rightarrow> domain_error + approval" where
  "approval_approve decided_by comment now a = rbind (approval_transition AP_APPROVED now a)
     (\<lambda>a. Inr (a\<lparr>ap_decided_by_id := Some decided_by, ap_decided_at := Some now,
                 ap_decision_comment := comment\<rparr>))"

definition approval_reject :: "uuid \<Rightarrow> string option \<Rightarrow> time \<Rightarrow> approval \<Rightarrow> domain_error + approval" where
  "approval_reject decided_by comment now a = rbind (approval_transition AP_REJECTED now a)
     (\<lambda>a. Inr (a\<lparr>ap_decided_by_id := Some decided_by, ap_decided_at := Some now,
                 ap_decision_comment := comment\<rparr>))"

definition approval_time_out :: "time \<Rightarrow> approval \<Rightarrow> domain_error + approval" where
  "approval_time_out = approval_transition AP_TIMED_OUT"

definition approval_cancel :: "time \<Rightarrow> approval \<Rightarrow> domain_error + approval" where
  "approval_cancel = approval_transition AP_CANCELLED"

definition approval_is_pending :: "approval \<Rightarrow> bool" where
  "approval_is_pending a = (ap_decision a = AP_PENDING)"

definition approval_is_expired :: "time \<Rightarrow> approval \<Rightarrow> bool" where
  "approval_is_expired now a = (case ap_timeout_at a of None \<Rightarrow> False | Some t \<Rightarrow> now > t)"

datatype approval_op =
    APApprove uuid "string option" | APReject uuid "string option" | APTimeOut | APCancel

fun approval_apply :: "approval_op \<Rightarrow> time \<Rightarrow> approval \<Rightarrow> domain_error + approval" where
  "approval_apply (APApprove b c) now a = approval_approve b c now a"
| "approval_apply (APReject b c) now a = approval_reject b c now a"
| "approval_apply APTimeOut now a = approval_time_out now a"
| "approval_apply APCancel now a = approval_cancel now a"

section \<open>Lemmas\<close>

lemmas approval_op_defs = approval_approve_def approval_reject_def approval_time_out_def
  approval_cancel_def

lemma approval_transition_ok:
  "approval_transition target now a = Inr a' \<longleftrightarrow>
   target \<in> set (approval_transitions (ap_decision a))
   \<and> a' = a\<lparr>ap_decision := target, ap_updated_at := now\<rparr>"
  by (cases "ap_decision a") (auto simp: approval_transition_def approval_terminal_def)

interpretation approval_sm:
  state_machine ap_decision approval_transitions approval_terminal approval_transition
  by unfold_locales (auto simp: approval_transition_ok is_ok_iff approval_terminal_def)

definition approval_frame :: "approval \<Rightarrow> uuid \<times> uuid \<times> approval_target \<times> uuid \<times> string \<times> time option" where
  "approval_frame a = (ap_id a, ap_workspace_id a, ap_target_type a, ap_target_id a,
     ap_requested_by a, ap_timeout_at a)"

lemma approval_edges_pending: "d \<in> set (approval_transitions e) \<longleftrightarrow> e = AP_PENDING \<and> d \<noteq> AP_PENDING"
  by (cases e; cases d) simp_all

interpretation approval_entity:
  managed_entity ap_decision approval_transitions approval_terminal approval_transition
    approval_apply approval_frame
proof (unfold_locales, goal_cases)
  case (1 op now e e')
  then show ?case
    by (cases op) (auto simp: approval_op_defs approval_transition_ok rbind_Inr_iff)
next
  case (2 op now e e')
  then show ?case
    by (cases op) (auto simp: approval_op_defs approval_transition_ok rbind_Inr_iff approval_frame_def)
qed

lemma approval_apply_decides:
  "approval_apply op now a = Inr a' \<Longrightarrow> ap_decision a = AP_PENDING \<and> ap_decision a' \<noteq> AP_PENDING"
  by (cases op) (auto simp: approval_op_defs approval_transition_ok rbind_Inr_iff approval_edges_pending)

text \<open>The reviewer is recorded exactly with the two human decisions.\<close>

definition approval_record_ok :: "approval \<Rightarrow> bool" where
  "approval_record_ok a =
    ((ap_decided_by_id a \<noteq> None \<longleftrightarrow> ap_decision a \<in> {AP_APPROVED, AP_REJECTED})
     \<and> (ap_decided_at a \<noteq> None \<longleftrightarrow> ap_decision a \<in> {AP_APPROVED, AP_REJECTED}))"

lemma approval_apply_record:
  "\<lbrakk> approval_record_ok a; approval_apply op now a = Inr a' \<rbrakk> \<Longrightarrow> approval_record_ok a'"
  by (cases op)
     (auto simp: approval_op_defs approval_transition_ok rbind_Inr_iff approval_record_ok_def
        approval_edges_pending)

section \<open>Properties\<close>

lemma approval_pending_ok: "ap_decision a = AP_PENDING \<Longrightarrow> is_ok (approval_apply op now a)"
  by (cases op) (simp_all add: approval_op_defs approval_transition_def approval_terminal_def)

text \<open>An approval request is decided once: the first call on a pending request is accepted
  whatever it is, and no later call, in any sequence, changes the outcome, the reviewer or the
  comment it recorded; on a request already decided nothing is accepted.\<close>

theorem approval_decided_once:
  "history approval_apply ((op, now) # h) a =
    (if ap_decision a = AP_PENDING
     then (case approval_apply op now a of Inr a' \<Rightarrow> a' | Inl _ \<Rightarrow> a)
     else a)"
proof (cases "ap_decision a = AP_PENDING")
  case True
  then obtain a' where a': "approval_apply op now a = Inr a'"
    using approval_pending_ok [OF True, of op now] by (auto simp: is_ok_iff)
  then have "approval_terminal (ap_decision a')"
    using approval_apply_decides [OF a'] by (cases "ap_decision a'") (simp_all add: approval_terminal_def)
  with True a' show ?thesis by (simp add: approval_entity.history_terminal)
next
  case False
  then have "approval_terminal (ap_decision a)"
    by (cases "ap_decision a") (simp_all add: approval_terminal_def)
  then have "history approval_apply ((op, now) # h) a = a" by (rule approval_entity.history_terminal)
  with False show ?thesis by simp
qed

end
