(* ===== verification/Orch_Events.thy ===== *)
theory Orch_Events
  imports Approval
begin

text \<open>
  \<open>apps/orchestrator/src/application/events.py\<close>, \<open>approval_events.py\<close> and the envelope that
  \<open>infrastructure/outbox/writer.py\<close> stores: the event value and one factory per event type.
  A factory takes the stamp of the dataclass defaults, the fresh \<open>event_id\<close> and the
  \<open>occurred_at\<close> reading, then the keyword arguments in the order of the code.
\<close>

record outbox_event =
  ev_event_type :: string
  ev_workspace_id :: uuid
  ev_correlation_id :: uuid
  ev_payload :: dict
  ev_task_id :: "uuid option"
  ev_run_id :: "uuid option"
  ev_step_id :: "uuid option"
  ev_causation_id :: "uuid option"
  ev_event_id :: uuid
  ev_occurred_at :: time

type_synonym stamp = "uuid \<times> time"

definition mk_event ::
  "stamp \<Rightarrow> string \<Rightarrow> uuid \<Rightarrow> uuid \<Rightarrow> dict \<Rightarrow> uuid option \<Rightarrow> uuid option \<Rightarrow> uuid option
   \<Rightarrow> uuid option \<Rightarrow> outbox_event" where
  "mk_event st ty ws corr payload task_id run_id step_id cause = \<lparr>
     ev_event_type = ty, ev_workspace_id = ws, ev_correlation_id = corr, ev_payload = payload,
     ev_task_id = task_id, ev_run_id = run_id, ev_step_id = step_id, ev_causation_id = cause,
     ev_event_id = fst st, ev_occurred_at = snd st \<rparr>"

text \<open>\<open>if x: payload[k] = x\<close> for an optional string.\<close>

definition opt_entry :: "string \<Rightarrow> string option \<Rightarrow> dict" where
  "opt_entry k x = (if str_truthy x then [(k, JStr (the x))] else [])"

definition opt_int :: "int option \<Rightarrow> json" where
  "opt_int x = (case x of None \<Rightarrow> JNull | Some i \<Rightarrow> JInt i)"

section \<open>Task events\<close>

definition task_submitted_event ::
  "stamp \<Rightarrow> uuid \<Rightarrow> uuid \<Rightarrow> uuid \<Rightarrow> uuid \<Rightarrow> string \<Rightarrow> string \<Rightarrow> uuid option \<Rightarrow> outbox_event" where
  "task_submitted_event st task_id ws corr created_by title ty cause =
     mk_event st ''task.submitted'' ws corr
       [(''task_id'', JUuid task_id), (''created_by_id'', JUuid created_by),
        (''title'', JStr title), (''task_type'', JStr ty)]
       (Some task_id) None None cause"

definition task_started_event ::
  "stamp \<Rightarrow> uuid \<Rightarrow> uuid \<Rightarrow> uuid \<Rightarrow> uuid option \<Rightarrow> outbox_event" where
  "task_started_event st task_id ws corr cause =
     mk_event st ''task.started'' ws corr
       [(''task_id'', JUuid task_id)]
       (Some task_id) None None cause"

definition task_completed_event ::
  "stamp \<Rightarrow> uuid \<Rightarrow> uuid \<Rightarrow> uuid \<Rightarrow> uuid option \<Rightarrow> outbox_event" where
  "task_completed_event st task_id ws corr cause =
     mk_event st ''task.completed'' ws corr
       [(''task_id'', JUuid task_id)]
       (Some task_id) None None cause"

definition task_cancelled_event ::
  "stamp \<Rightarrow> uuid \<Rightarrow> uuid \<Rightarrow> uuid \<Rightarrow> uuid option \<Rightarrow> uuid option \<Rightarrow> outbox_event" where
  "task_cancelled_event st task_id ws corr by_id cause =
     mk_event st ''task.cancelled'' ws corr
       ([(''task_id'', JUuid task_id)] @ (case by_id of None \<Rightarrow> [] | Some b \<Rightarrow> [(''cancelled_by_id'', JUuid b)]))
       (Some task_id) None None cause"

definition task_failed_event ::
  "stamp \<Rightarrow> uuid \<Rightarrow> uuid \<Rightarrow> uuid \<Rightarrow> string option \<Rightarrow> uuid option \<Rightarrow> outbox_event" where
  "task_failed_event st task_id ws corr err cause =
     mk_event st ''task.failed'' ws corr
       ([(''task_id'', JUuid task_id)] @ opt_entry ''error_summary'' err)
       (Some task_id) None None cause"

section \<open>Run events\<close>

definition run_queued_event ::
  "stamp \<Rightarrow> uuid \<Rightarrow> uuid \<Rightarrow> uuid \<Rightarrow> uuid \<Rightarrow> string \<Rightarrow> uuid option \<Rightarrow> outbox_event" where
  "run_queued_event st run_id task_id ws corr trigger cause =
     mk_event st ''run.queued'' ws corr
       ([(''run_id'', JUuid run_id), (''task_id'', JUuid task_id)] @ [(''trigger_type'', JStr trigger)])
       (Some task_id) (Some run_id) None cause"

definition run_started_event ::
  "stamp \<Rightarrow> uuid \<Rightarrow> uuid \<Rightarrow> uuid \<Rightarrow> uuid \<Rightarrow> uuid option \<Rightarrow> outbox_event" where
  "run_started_event st run_id task_id ws corr cause =
     mk_event st ''run.started'' ws corr
       [(''run_id'', JUuid run_id), (''task_id'', JUuid task_id)]
       (Some task_id) (Some run_id) None cause"

definition run_completing_event ::
  "stamp \<Rightarrow> uuid \<Rightarrow> uuid \<Rightarrow> uuid \<Rightarrow> uuid \<Rightarrow> uuid option \<Rightarrow> outbox_event" where
  "run_completing_event st run_id task_id ws corr cause =
     mk_event st ''run.completing'' ws corr
       [(''run_id'', JUuid run_id), (''task_id'', JUuid task_id)]
       (Some task_id) (Some run_id) None cause"

definition run_completed_event ::
  "stamp \<Rightarrow> uuid \<Rightarrow> uuid \<Rightarrow> uuid \<Rightarrow> uuid \<Rightarrow> int option \<Rightarrow> uuid option \<Rightarrow> outbox_event" where
  "run_completed_event st run_id task_id ws corr duration cause =
     mk_event st ''run.completed'' ws corr
       ([(''run_id'', JUuid run_id), (''task_id'', JUuid task_id)] @ [(''duration_ms'', opt_int duration)])
       (Some task_id) (Some run_id) None cause"

definition run_cancelled_event ::
  "stamp \<Rightarrow> uuid \<Rightarrow> uuid \<Rightarrow> uuid \<Rightarrow> uuid \<Rightarrow> uuid option \<Rightarrow> outbox_event" where
  "run_cancelled_event st run_id task_id ws corr cause =
     mk_event st ''run.cancelled'' ws corr
       [(''run_id'', JUuid run_id), (''task_id'', JUuid task_id)]
       (Some task_id) (Some run_id) None cause"

definition run_failed_event ::
  "stamp \<Rightarrow> uuid \<Rightarrow> uuid \<Rightarrow> uuid \<Rightarrow> uuid \<Rightarrow> string option \<Rightarrow> uuid option \<Rightarrow> outbox_event" where
  "run_failed_event st run_id task_id ws corr err cause =
     mk_event st ''run.failed'' ws corr
       ([(''run_id'', JUuid run_id), (''task_id'', JUuid task_id)] @ opt_entry ''error_summary'' err)
       (Some task_id) (Some run_id) None cause"

definition run_timed_out_event ::
  "stamp \<Rightarrow> uuid \<Rightarrow> uuid \<Rightarrow> uuid \<Rightarrow> uuid \<Rightarrow> uuid option \<Rightarrow> outbox_event" where
  "run_timed_out_event st run_id task_id ws corr cause =
     mk_event st ''run.timed_out'' ws corr
       [(''run_id'', JUuid run_id), (''task_id'', JUuid task_id)]
       (Some task_id) (Some run_id) None cause"

section \<open>Step events\<close>

definition step_started_event ::
  "stamp \<Rightarrow> uuid \<Rightarrow> uuid \<Rightarrow> uuid \<Rightarrow> uuid \<Rightarrow> uuid \<Rightarrow> string \<Rightarrow> int \<Rightarrow> uuid option \<Rightarrow> outbox_event" where
  "step_started_event st step_id run_id task_id ws corr ty seq cause =
     mk_event st ''step.started'' ws corr
       ([(''step_id'', JUuid step_id), (''run_id'', JUuid run_id)] @ [(''step_type'', JStr ty), (''sequence'', JInt seq)])
       (Some task_id) (Some run_id) (Some step_id) cause"

definition step_completed_event ::
  "stamp \<Rightarrow> uuid \<Rightarrow> uuid \<Rightarrow> uuid \<Rightarrow> uuid \<Rightarrow> uuid \<Rightarrow> uuid option \<Rightarrow> outbox_event" where
  "step_completed_event st step_id run_id task_id ws corr cause =
     mk_event st ''step.completed'' ws corr
       [(''step_id'', JUuid step_id), (''run_id'', JUuid run_id)]
       (Some task_id) (Some run_id) (Some step_id) cause"

definition step_failed_event ::
  "stamp \<Rightarrow> uuid \<Rightarrow> uuid \<Rightarrow> uuid \<Rightarrow> uuid \<Rightarrow> uuid \<Rightarrow> string option \<Rightarrow> string option \<Rightarrow> uuid option \<Rightarrow> outbox_event" where
  "step_failed_event st step_id run_id task_id ws corr code msg cause =
     mk_event st ''step.failed'' ws corr
       ([(''step_id'', JUuid step_id), (''run_id'', JUuid run_id)] @ opt_entry ''error_code'' code @ opt_entry ''error_message'' msg)
       (Some task_id) (Some run_id) (Some step_id) cause"

definition step_cancelled_event ::
  "stamp \<Rightarrow> uuid \<Rightarrow> uuid \<Rightarrow> uuid \<Rightarrow> uuid \<Rightarrow> uuid \<Rightarrow> uuid option \<Rightarrow> outbox_event" where
  "step_cancelled_event st step_id run_id task_id ws corr cause =
     mk_event st ''step.cancelled'' ws corr
       [(''step_id'', JUuid step_id), (''run_id'', JUuid run_id)]
       (Some task_id) (Some run_id) (Some step_id) cause"

section \<open>Recovery and retry events\<close>

definition run_recovered_event ::
  "stamp \<Rightarrow> uuid \<Rightarrow> uuid \<Rightarrow> uuid \<Rightarrow> uuid \<Rightarrow> string \<Rightarrow> string \<Rightarrow> outbox_event" where
  "run_recovered_event st run_id task_id ws corr prev act =
     mk_event st ''run.recovered'' ws corr
       ([(''run_id'', JUuid run_id), (''task_id'', JUuid task_id)] @ [(''previous_status'', JStr prev), (''recovery_action'', JStr act)])
       (Some task_id) (Some run_id) None None"

definition step_recovered_event ::
  "stamp \<Rightarrow> uuid \<Rightarrow> uuid \<Rightarrow> uuid \<Rightarrow> uuid \<Rightarrow> uuid \<Rightarrow> string \<Rightarrow> string \<Rightarrow> outbox_event" where
  "step_recovered_event st step_id run_id task_id ws corr prev act =
     mk_event st ''step.recovered'' ws corr
       ([(''step_id'', JUuid step_id), (''run_id'', JUuid run_id)] @ [(''previous_status'', JStr prev), (''recovery_action'', JStr act)])
       (Some task_id) (Some run_id) (Some step_id) None"

definition task_retried_event ::
  "stamp \<Rightarrow> uuid \<Rightarrow> uuid \<Rightarrow> uuid \<Rightarrow> uuid \<Rightarrow> outbox_event" where
  "task_retried_event st task_id ws corr by_id =
     mk_event st ''task.retried'' ws corr
       ([(''task_id'', JUuid task_id)] @ [(''retried_by_id'', JUuid by_id)])
       (Some task_id) None None None"

definition task_recovered_event ::
  "stamp \<Rightarrow> uuid \<Rightarrow> uuid \<Rightarrow> uuid \<Rightarrow> string \<Rightarrow> string \<Rightarrow> outbox_event" where
  "task_recovered_event st task_id ws corr prev act =
     mk_event st ''task.recovered'' ws corr
       ([(''task_id'', JUuid task_id)] @ [(''previous_status'', JStr prev), (''recovery_action'', JStr act)])
       (Some task_id) None None None"

section \<open>Approval events\<close>

definition approval_requested_event ::
  "stamp \<Rightarrow> uuid \<Rightarrow> uuid \<Rightarrow> string \<Rightarrow> uuid \<Rightarrow> string \<Rightarrow> string option \<Rightarrow> uuid \<Rightarrow> uuid option
   \<Rightarrow> outbox_event" where
  "approval_requested_event st approval_id ws target_type target_id requested_by prompt corr cause =
     mk_event st ''approval.requested'' ws corr
       [(''approval_id'', JUuid approval_id), (''target_type'', JStr target_type),
        (''target_id'', JUuid target_id), (''requested_by'', JStr requested_by),
        (''prompt'', opt_str prompt)]
       None None None cause"

definition tool_approval_requested_event ::
  "stamp \<Rightarrow> uuid \<Rightarrow> uuid \<Rightarrow> uuid \<Rightarrow> uuid \<Rightarrow> uuid \<Rightarrow> string \<Rightarrow> string \<Rightarrow> uuid \<Rightarrow> uuid option
   \<Rightarrow> outbox_event" where
  "tool_approval_requested_event st approval_id ws invocation_id run_id task_id tool risk corr cause =
     mk_event st ''tool_approval.requested'' ws corr
       [(''approval_id'', JUuid approval_id), (''target_type'', JStr ''tool_call''),
        (''invocation_id'', JUuid invocation_id), (''run_id'', JUuid run_id),
        (''task_id'', JUuid task_id), (''tool_name'', JStr tool), (''risk_reason'', JStr risk)]
       None None None cause"

definition approval_decided_event ::
  "stamp \<Rightarrow> uuid \<Rightarrow> uuid \<Rightarrow> string \<Rightarrow> uuid \<Rightarrow> string \<Rightarrow> uuid \<Rightarrow> string option \<Rightarrow> uuid
   \<Rightarrow> uuid option \<Rightarrow> outbox_event" where
  "approval_decided_event st approval_id ws decision by_id target_type target_id comment corr cause =
     mk_event st ''approval.decided'' ws corr
       [(''approval_id'', JUuid approval_id), (''decision'', JStr decision),
        (''decided_by_id'', JUuid by_id), (''target_type'', JStr target_type),
        (''target_id'', JUuid target_id), (''comment'', opt_str comment)]
       None None None cause"

definition tool_approval_decided_event ::
  "stamp \<Rightarrow> uuid \<Rightarrow> uuid \<Rightarrow> uuid \<Rightarrow> string \<Rightarrow> uuid \<Rightarrow> string option \<Rightarrow> uuid \<Rightarrow> uuid option
   \<Rightarrow> outbox_event" where
  "tool_approval_decided_event st approval_id ws invocation_id decision by_id tool corr cause =
     mk_event st ''tool_approval.decided'' ws corr
       [(''approval_id'', JUuid approval_id), (''invocation_id'', JUuid invocation_id),
        (''decision'', JStr decision), (''decided_by_id'', JUuid by_id),
        (''tool_name'', opt_str tool)]
       None None None cause"

section \<open>The stored envelope\<close>

text \<open>The JSON document the writer puts in the outbox row; the instant is kept as an integer
  where the code writes its ISO text.\<close>

definition outbox_envelope :: "outbox_event \<Rightarrow> json" where
  "outbox_envelope e = JObj
    [(''event_id'', JUuid (ev_event_id e)),
     (''event_type'', JStr (ev_event_type e)),
     (''schema_version'', JStr ''1.0''),
     (''workspace_id'', JUuid (ev_workspace_id e)),
     (''task_id'', opt_uuid (ev_task_id e)),
     (''run_id'', opt_uuid (ev_run_id e)),
     (''step_id'', opt_uuid (ev_step_id e)),
     (''correlation_id'', JUuid (ev_correlation_id e)),
     (''causation_id'', opt_uuid (ev_causation_id e)),
     (''occurred_at'', JInt (ev_occurred_at e)),
     (''emitted_by'', JObj [(''service'', JStr ''orchestrator''), (''instance_id'', JStr ''local'')]),
     (''actor'', JObj [(''type'', JStr ''system''), (''id'', JStr ''orchestrator'')]),
     (''payload'', JObj (ev_payload e))]"

section \<open>Lemmas\<close>

lemmas event_defs = mk_event_def
  task_submitted_event_def
  task_started_event_def
  task_completed_event_def
  task_cancelled_event_def
  task_failed_event_def
  run_queued_event_def
  run_started_event_def
  run_completing_event_def
  run_completed_event_def
  run_cancelled_event_def
  run_failed_event_def
  run_timed_out_event_def
  step_started_event_def
  step_completed_event_def
  step_failed_event_def
  step_cancelled_event_def
  run_recovered_event_def
  step_recovered_event_def
  task_retried_event_def
  task_recovered_event_def
  approval_requested_event_def
  tool_approval_requested_event_def
  approval_decided_event_def
  tool_approval_decided_event_def
  outbox_envelope_def

lemma mk_event_simps [simp]:
  "ev_event_type (mk_event st ty ws corr p t r s c) = ty"
  "ev_workspace_id (mk_event st ty ws corr p t r s c) = ws"
  "ev_correlation_id (mk_event st ty ws corr p t r s c) = corr"
  "ev_payload (mk_event st ty ws corr p t r s c) = p"
  "ev_task_id (mk_event st ty ws corr p t r s c) = t"
  "ev_run_id (mk_event st ty ws corr p t r s c) = r"
  "ev_step_id (mk_event st ty ws corr p t r s c) = s"
  "ev_causation_id (mk_event st ty ws corr p t r s c) = c"
  "ev_event_id (mk_event st ty ws corr p t r s c) = fst st"
  "ev_occurred_at (mk_event st ty ws corr p t r s c) = snd st"
  by (simp_all add: mk_event_def)

text \<open>The envelope determines the event, so a consumer can rebuild it.\<close>

lemma opt_uuid_inject [simp]: "opt_uuid x = opt_uuid y \<longleftrightarrow> x = y"
  by (cases x; cases y) (simp_all add: opt_uuid_def)

lemma outbox_envelope_inject: "outbox_envelope e = outbox_envelope e' \<longleftrightarrow> e = e'"
  by (cases e; cases e') (auto simp: outbox_envelope_def)

end
