(* ===== verification/Orch_Store.thy ===== *)
theory Orch_Store
  imports Orch_Events
begin

text \<open>
  The orchestrator's database as its repositories present it
  (\<open>apps/orchestrator/src/infrastructure/db/repositories.py\<close>, \<open>approval_repository.py\<close>,
  \<open>mapping.py\<close>, \<open>unit_of_work.py\<close>, \<open>infrastructure/outbox/writer.py\<close>, and the
  \<open>AgentTemplate\<close> entity the launch handler reads).

  A table is a list of rows in insertion order.  A \<open>save\<close> is the upsert by primary key; a
  query is a filter, a stable sort and a \<open>take\<close>.  Where SQL leaves the order open (no
  \<open>ORDER BY\<close>, or ties in it) the model takes insertion order.  A unit of work is a function
  from the database to an outcome and a database; an exception before the commit leaves the
  database as it was.
\<close>

datatype template_scope = Scope_System | Scope_Workspace

record agent_template =
  at_id :: uuid
  at_name :: string
  at_default_risk_profile :: string
  at_scope :: template_scope
  at_workspace_id :: "uuid option"

definition agent_template_init ::
  "uuid \<Rightarrow> string \<Rightarrow> string \<Rightarrow> template_scope \<Rightarrow> uuid option \<Rightarrow> domain_error + agent_template" where
  "agent_template_init tid name risk scope ws =
    (if is_blank name then Inl (DomainValidation ''AgentTemplate'' ''name must not be blank'')
     else if \<not> valid_risk_level risk
     then Inl (DomainValidation ''AgentTemplate'' (''invalid default_risk_profile: '' @ risk))
     else if scope = Scope_System \<and> ws \<noteq> None
     then Inl (DomainValidation ''AgentTemplate'' ''system-scoped template must not have workspace_id'')
     else if scope = Scope_Workspace \<and> ws = None
     then Inl (DomainValidation ''AgentTemplate'' ''workspace-scoped template must have workspace_id'')
     else Inr \<lparr> at_id = tid, at_name = name, at_default_risk_profile = risk, at_scope = scope,
                at_workspace_id = ws \<rparr>)"

record outbox_row =
  ob_id :: uuid
  ob_event_type :: string
  ob_event :: outbox_event
  ob_correlation_id :: uuid
  ob_created_at :: time
  ob_published_at :: "time option"
  ob_attempts :: nat

record orch_db =
  db_tasks :: "task list"
  db_runs :: "run list"
  db_steps :: "step list"
  db_approvals :: "approval list"
  db_agent_templates :: "agent_template list"
  db_outbox :: "outbox_row list"

definition empty_db :: orch_db where
  "empty_db = \<lparr> db_tasks = [], db_runs = [], db_steps = [], db_approvals = [],
     db_agent_templates = [], db_outbox = [] \<rparr>"

section \<open>Repositories\<close>

text \<open>Reading a run rebuilds it with the constructor, which derives the configuration lock
  from the stored status; the other entities have no derived field.\<close>

definition run_row_to_domain :: "run \<Rightarrow> run" where
  "run_row_to_domain r = r\<lparr>r_config_locked := (r_status r \<noteq> R_QUEUED)\<rparr>"

definition task_get :: "uuid \<Rightarrow> orch_db \<Rightarrow> task option" where
  "task_get k db = find_row t_id k (db_tasks db)"

definition task_save :: "task \<Rightarrow> orch_db \<Rightarrow> orch_db" where
  "task_save t db = db\<lparr>db_tasks := upsert t_id t (db_tasks db)\<rparr>"

definition task_list_pending :: "nat \<Rightarrow> orch_db \<Rightarrow> task list" where
  "task_list_pending limit db =
     take limit (sort_key t_created_at (filter (\<lambda>t. t_status t = T_PENDING) (db_tasks db)))"

definition task_list_by_workspace :: "uuid \<Rightarrow> nat \<Rightarrow> nat \<Rightarrow> orch_db \<Rightarrow> task list" where
  "task_list_by_workspace ws limit offset db =
     take limit (drop offset
       (sort_key (\<lambda>t. - t_updated_at t) (filter (\<lambda>t. t_workspace_id t = ws) (db_tasks db))))"

definition task_list_running :: "nat \<Rightarrow> orch_db \<Rightarrow> task list" where
  "task_list_running limit db =
     take limit (sort_key t_updated_at (filter (\<lambda>t. t_status t = T_RUNNING) (db_tasks db)))"

definition run_get :: "uuid \<Rightarrow> orch_db \<Rightarrow> run option" where
  "run_get k db = map_option run_row_to_domain (find_row r_id k (db_runs db))"

definition run_save :: "run \<Rightarrow> orch_db \<Rightarrow> orch_db" where
  "run_save r db = db\<lparr>db_runs := upsert r_id r (db_runs db)\<rparr>"

definition run_list_active_by_task :: "uuid \<Rightarrow> orch_db \<Rightarrow> run list" where
  "run_list_active_by_task tid db =
     map run_row_to_domain
       (filter (\<lambda>r. r_task_id r = tid
                  \<and> r_status r \<notin> {R_COMPLETED, R_FAILED, R_CANCELLED, R_TIMED_OUT}) (db_runs db))"

definition run_list_by_task :: "uuid \<Rightarrow> orch_db \<Rightarrow> run list" where
  "run_list_by_task tid db =
     map run_row_to_domain
       (sort_key (\<lambda>r. - r_created_at r) (filter (\<lambda>r. r_task_id r = tid) (db_runs db)))"

definition run_get_latest_by_task :: "uuid \<Rightarrow> orch_db \<Rightarrow> run option" where
  "run_get_latest_by_task tid db =
     (case run_list_by_task tid db of [] \<Rightarrow> None | r # _ \<Rightarrow> Some r)"

definition run_list_stuck_for_update ::
  "time \<Rightarrow> run_status list \<Rightarrow> nat \<Rightarrow> orch_db \<Rightarrow> run list" where
  "run_list_stuck_for_update stuck_before statuses limit db =
     map run_row_to_domain (take limit (sort_key r_updated_at
       (filter (\<lambda>r. r_status r \<in> set statuses \<and> r_updated_at r < stuck_before) (db_runs db))))"

definition step_get :: "uuid \<Rightarrow> orch_db \<Rightarrow> step option" where
  "step_get k db = find_row s_id k (db_steps db)"

definition step_save :: "step \<Rightarrow> orch_db \<Rightarrow> orch_db" where
  "step_save s db = db\<lparr>db_steps := upsert s_id s (db_steps db)\<rparr>"

definition step_list_active_by_run :: "uuid \<Rightarrow> orch_db \<Rightarrow> step list" where
  "step_list_active_by_run rid db =
     filter (\<lambda>s. s_run_id s = rid
               \<and> s_status s \<notin> {S_COMPLETED, S_FAILED, S_SKIPPED, S_CANCELLED}) (db_steps db)"

definition step_list_by_run :: "uuid \<Rightarrow> orch_db \<Rightarrow> step list" where
  "step_list_by_run rid db = sort_key s_sequence (filter (\<lambda>s. s_run_id s = rid) (db_steps db))"

definition step_list_stuck_for_update ::
  "time \<Rightarrow> step_status list \<Rightarrow> nat \<Rightarrow> orch_db \<Rightarrow> step list" where
  "step_list_stuck_for_update stuck_before statuses limit db =
     take limit (sort_key s_updated_at
       (filter (\<lambda>s. s_status s \<in> set statuses \<and> s_updated_at s < stuck_before) (db_steps db)))"

definition approval_get :: "uuid \<Rightarrow> orch_db \<Rightarrow> approval option" where
  "approval_get k db = find_row ap_id k (db_approvals db)"

definition approval_save :: "approval \<Rightarrow> orch_db \<Rightarrow> orch_db" where
  "approval_save a db = db\<lparr>db_approvals := upsert ap_id a (db_approvals db)\<rparr>"

definition approval_list_by_workspace ::
  "uuid \<Rightarrow> approval_decision option \<Rightarrow> uuid option \<Rightarrow> nat \<Rightarrow> nat \<Rightarrow> orch_db \<Rightarrow> approval list" where
  "approval_list_by_workspace ws decision reviewer limit offset db =
     take limit (drop offset (sort_key (\<lambda>a. - ap_created_at a)
       (filter (\<lambda>a. ap_workspace_id a = ws
                  \<and> (case decision of None \<Rightarrow> True | Some d \<Rightarrow> ap_decision a = d)
                  \<and> (case reviewer of None \<Rightarrow> True | Some r \<Rightarrow> ap_reviewer_id a = Some r))
          (db_approvals db))))"

definition approval_count_pending :: "uuid \<Rightarrow> orch_db \<Rightarrow> nat" where
  "approval_count_pending ws db =
     length (filter (\<lambda>a. ap_workspace_id a = ws \<and> ap_decision a = AP_PENDING) (db_approvals db))"

definition agent_template_get :: "uuid \<Rightarrow> orch_db \<Rightarrow> agent_template option" where
  "agent_template_get k db = find_row at_id k (db_agent_templates db)"

definition outbox_row_of :: "outbox_event \<Rightarrow> outbox_row" where
  "outbox_row_of e = \<lparr> ob_id = ev_event_id e, ob_event_type = ev_event_type e, ob_event = e,
     ob_correlation_id = ev_correlation_id e, ob_created_at = ev_occurred_at e,
     ob_published_at = None, ob_attempts = 0 \<rparr>"

definition outbox_write :: "outbox_event \<Rightarrow> orch_db \<Rightarrow> orch_db" where
  "outbox_write e db = db\<lparr>db_outbox := db_outbox db @ [outbox_row_of e]\<rparr>"

section \<open>Lemmas\<close>

lemma run_row_to_domain_simps [simp]:
  "r_id (run_row_to_domain r) = r_id r"
  "r_task_id (run_row_to_domain r) = r_task_id r"
  "r_workspace_id (run_row_to_domain r) = r_workspace_id r"
  "r_status (run_row_to_domain r) = r_status r"
  "r_updated_at (run_row_to_domain r) = r_updated_at r"
  "r_created_at (run_row_to_domain r) = r_created_at r"
  "r_started_at (run_row_to_domain r) = r_started_at r"
  "r_completed_at (run_row_to_domain r) = r_completed_at r"
  "r_duration_ms (run_row_to_domain r) = r_duration_ms r"
  "r_error_summary (run_row_to_domain r) = r_error_summary r"
  by (simp_all add: run_row_to_domain_def)

text \<open>Reading a stored entity back with the constructor gives the entity.\<close>

definition run_row_args :: "run \<Rightarrow> run_args" where
  "run_row_args r = \<lparr>
     ra_task_id = r_task_id r, ra_workspace_id = r_workspace_id r,
     ra_trigger_type = r_trigger_type r, ra_triggered_by_id = r_triggered_by_id r,
     ra_run_config = Some (r_run_config r), ra_id = Some (r_id r), ra_run_status = r_status r,
     ra_started_at = r_started_at r, ra_completed_at = r_completed_at r,
     ra_duration_ms = r_duration_ms r, ra_error_summary = r_error_summary r,
     ra_created_at = Some (r_created_at r), ra_updated_at = Some (r_updated_at r) \<rparr>"

lemma run_init_row_args:
  assumes "run_times_ok r"
  shows "run_init u now (run_row_args r) = Inr (run_row_to_domain r)"
proof -
  have "\<not> (case r_duration_ms r of None \<Rightarrow> False | Some d \<Rightarrow> d < 0)"
    using assms by (auto simp: run_times_ok_def compute_duration_def split: option.splits)
  then show ?thesis
    by (cases r) (simp add: run_init_def run_row_args_def run_row_to_domain_def)
qed

definition task_row_args :: "task \<Rightarrow> task_args" where
  "task_row_args t = \<lparr>
     ta_workspace_id = t_workspace_id t, ta_title = t_title t, ta_task_type = t_task_type t,
     ta_created_by_id = t_created_by_id t, ta_description = t_description t,
     ta_input_config = Some (t_input_config t), ta_repo_snapshot_id = t_repo_snapshot_id t,
     ta_policy_id = t_policy_id t, ta_parent_task_id = t_parent_task_id t, ta_goal = t_goal t,
     ta_context = t_context t, ta_constraints = t_constraints t,
     ta_desired_output = t_desired_output t, ta_template_id = t_template_id t,
     ta_agent_template_id = t_agent_template_id t, ta_risk_level = t_risk_level t,
     ta_id = Some (t_id t), ta_task_status = t_status t,
     ta_created_at = Some (t_created_at t), ta_updated_at = Some (t_updated_at t) \<rparr>"

lemma task_init_row_args: "task_valid t \<Longrightarrow> task_init u now (task_row_args t) = Inr t"
  by (cases t) (simp add: task_init_def task_row_args_def task_valid_def)

text \<open>The repositories provide the table interface.\<close>

lemma find_row_map: "map_option f (find_row key k rows) = Some r \<longleftrightarrow>
    (\<exists>x. find_row key k rows = Some x \<and> r = f x)"
  by (cases "find_row key k rows") auto

interpretation task_repo: table task_get task_save t_id id
  by unfold_locales (auto simp: task_get_def task_save_def dest: find_row_key)

interpretation step_repo: table step_get step_save s_id id
  by unfold_locales (auto simp: step_get_def step_save_def dest: find_row_key)

interpretation approval_repo: table approval_get approval_save ap_id id
  by unfold_locales (auto simp: approval_get_def approval_save_def dest: find_row_key)

lemma run_row_to_domain_idem [simp]:
  "run_row_to_domain (run_row_to_domain r) = run_row_to_domain r"
  by (simp add: run_row_to_domain_def)

interpretation run_repo: table run_get run_save r_id run_row_to_domain
  by unfold_locales (auto simp: run_get_def run_save_def dest: find_row_key)

lemmas repo_get_put = task_repo.get_put run_repo.get_put step_repo.get_put approval_repo.get_put

text \<open>Different tables do not interfere.\<close>

lemma store_frame [simp, repo_simps]:
  "task_get k (run_save r db) = task_get k db"
  "task_get k (step_save s db) = task_get k db"
  "task_get k (approval_save a db) = task_get k db"
  "task_get k (outbox_write e db) = task_get k db"
  "run_get k (task_save t db) = run_get k db"
  "run_get k (step_save s db) = run_get k db"
  "run_get k (approval_save a db) = run_get k db"
  "run_get k (outbox_write e db) = run_get k db"
  "step_get k (task_save t db) = step_get k db"
  "step_get k (run_save r db) = step_get k db"
  "step_get k (approval_save a db) = step_get k db"
  "step_get k (outbox_write e db) = step_get k db"
  "approval_get k (task_save t db) = approval_get k db"
  "approval_get k (run_save r db) = approval_get k db"
  "approval_get k (step_save s db) = approval_get k db"
  "approval_get k (outbox_write e db) = approval_get k db"
  by (simp_all add: task_get_def run_get_def step_get_def approval_get_def task_save_def
        run_save_def step_save_def approval_save_def outbox_write_def)

lemma db_frame [simp]:
  "db_runs (task_save t db) = db_runs db" "db_steps (task_save t db) = db_steps db"
  "db_approvals (task_save t db) = db_approvals db" "db_outbox (task_save t db) = db_outbox db"
  "db_tasks (run_save r db) = db_tasks db" "db_steps (run_save r db) = db_steps db"
  "db_approvals (run_save r db) = db_approvals db" "db_outbox (run_save r db) = db_outbox db"
  "db_tasks (step_save s db) = db_tasks db" "db_runs (step_save s db) = db_runs db"
  "db_approvals (step_save s db) = db_approvals db" "db_outbox (step_save s db) = db_outbox db"
  "db_tasks (approval_save a db) = db_tasks db" "db_runs (approval_save a db) = db_runs db"
  "db_steps (approval_save a db) = db_steps db" "db_outbox (approval_save a db) = db_outbox db"
  "db_tasks (outbox_write e db) = db_tasks db" "db_runs (outbox_write e db) = db_runs db"
  "db_steps (outbox_write e db) = db_steps db" "db_approvals (outbox_write e db) = db_approvals db"
  "db_outbox (outbox_write e db) = db_outbox db @ [outbox_row_of e]"
  by (simp_all add: task_save_def run_save_def step_save_def approval_save_def outbox_write_def)

definition events_of :: "orch_db \<Rightarrow> outbox_event list" where
  "events_of db = map ob_event (db_outbox db)"

lemma events_of_simps [simp]:
  "events_of (task_save t db) = events_of db"
  "events_of (run_save r db) = events_of db"
  "events_of (step_save s db) = events_of db"
  "events_of (approval_save a db) = events_of db"
  "events_of (outbox_write e db) = events_of db @ [e]"
  by (simp_all add: events_of_def outbox_row_of_def)

lemma events_of_writes: "events_of (fold outbox_write es db) = events_of db @ es"
  by (induction es arbitrary: db) simp_all

lemma fold_outbox_frame [simp]:
  "db_tasks (fold outbox_write es db) = db_tasks db"
  "db_runs (fold outbox_write es db) = db_runs db"
  "db_steps (fold outbox_write es db) = db_steps db"
  "db_approvals (fold outbox_write es db) = db_approvals db"
  by (induction es arbitrary: db) simp_all

end
