(* ===== verification/Orch_Handlers.thy ===== *)
theory Orch_Handlers
  imports Orch_Store
begin

text \<open>
  \<open>apps/orchestrator/src/application/handlers.py\<close> and \<open>commands.py\<close>: the six command handlers.
  A handler is one unit of work: \<open>Inl\<close> is an exception, after which the transaction is
  rolled back, \<open>Inr (result, db')\<close> a commit.  The em dash of one message is written as a
  hyphen.
\<close>

datatype handler_error =
    TaskNotFound uuid
  | DomainErr domain_error
  | PyValueError string
  | PyRuntimeError string

definition raising :: "domain_error + 'a \<Rightarrow> handler_error + 'a" where
  "raising r = map_sum DomainErr id r"

lemma raising_simps [simp]: "raising (Inl e) = Inl (DomainErr e)" "raising (Inr a) = Inr a"
  by (simp_all add: raising_def)

lemma raising_Inr_iff: "raising r = Inr a \<longleftrightarrow> r = Inr a"
  by (cases r) simp_all

lemma is_ok_raising [simp]: "is_ok (raising r) = is_ok r"
  by (cases r) simp_all

text \<open>The database after a unit of work.\<close>

definition committed :: "orch_db \<Rightarrow> 'e + ('a \<times> orch_db) \<Rightarrow> orch_db" where
  "committed db r = (case r of Inl _ \<Rightarrow> db | Inr (_, db') \<Rightarrow> db')"

definition task_type_of :: "string \<Rightarrow> task_type option" where
  "task_type_of s =
    (if s = ''coding'' then Some Coding else if s = ''research'' then Some Research
     else if s = ''analysis'' then Some Analysis else if s = ''operation'' then Some Operation
     else if s = ''custom'' then Some Custom else None)"

definition parse_task_type :: "string \<Rightarrow> handler_error + task_type" where
  "parse_task_type s = (case task_type_of s of
     None \<Rightarrow> Inl (PyValueError s) | Some ty \<Rightarrow> Inr ty)"

section \<open>Submit, draft, brief\<close>

record submit_task =
  st_workspace_id :: uuid
  st_title :: string
  st_task_type :: string
  st_created_by_id :: uuid
  st_description :: "string option"
  st_input_config :: "dict option"
  st_repo_snapshot_id :: "uuid option"
  st_policy_id :: "uuid option"
  st_parent_task_id :: "uuid option"

definition handle_submit_task ::
  "submit_task \<Rightarrow> uuid_supply \<Rightarrow> time \<Rightarrow> orch_db \<Rightarrow> handler_error + (task \<times> orch_db)" where
  "handle_submit_task cmd u now db =
    rbind (parse_task_type (st_task_type cmd)) (\<lambda>ty.
    rbind (raising (task_init (u 0) now
        ((task_kwargs (st_workspace_id cmd) (st_title cmd) ty (st_created_by_id cmd))
          \<lparr> ta_description := st_description cmd, ta_input_config := st_input_config cmd,
            ta_repo_snapshot_id := st_repo_snapshot_id cmd, ta_policy_id := st_policy_id cmd,
            ta_parent_task_id := st_parent_task_id cmd \<rparr>))) (\<lambda>task0.
    rbind (raising (task_submit now task0)) (\<lambda>task.
    let db1 = task_save task db;
        db2 = outbox_write (task_submitted_event (u 2, now) (t_id task) (t_workspace_id task)
                (u 1) (t_created_by_id task) (t_title task)
                (task_type_value (t_task_type task)) None) db1
    in Inr (task, db2))))"

record create_task_draft =
  cd_workspace_id :: uuid
  cd_title :: string
  cd_task_type :: string
  cd_created_by_id :: uuid
  cd_description :: "string option"
  cd_goal :: "string option"
  cd_context :: "string option"
  cd_constraints :: "string option"
  cd_desired_output :: "string option"
  cd_template_id :: "uuid option"
  cd_agent_template_id :: "uuid option"
  cd_risk_level :: "string option"
  cd_input_config :: "dict option"

definition handle_create_draft ::
  "create_task_draft \<Rightarrow> uuid_supply \<Rightarrow> time \<Rightarrow> orch_db \<Rightarrow> handler_error + (task \<times> orch_db)" where
  "handle_create_draft cmd u now db =
    rbind (parse_task_type (cd_task_type cmd)) (\<lambda>ty.
    rbind (raising (task_init (u 0) now
        ((task_kwargs (cd_workspace_id cmd) (cd_title cmd) ty (cd_created_by_id cmd))
          \<lparr> ta_description := cd_description cmd, ta_goal := cd_goal cmd,
            ta_context := cd_context cmd, ta_constraints := cd_constraints cmd,
            ta_desired_output := cd_desired_output cmd, ta_template_id := cd_template_id cmd,
            ta_agent_template_id := cd_agent_template_id cmd,
            ta_risk_level := cd_risk_level cmd, ta_input_config := cd_input_config cmd \<rparr>)))
    (\<lambda>task. Inr (task, task_save task db)))"

definition task_lookup :: "uuid \<Rightarrow> orch_db \<Rightarrow> handler_error + task" where
  "task_lookup k db = (case task_get k db of None \<Rightarrow> Inl (TaskNotFound k) | Some t \<Rightarrow> Inr t)"

definition update_brief_or_raise ::
  "(string \<times> brief_value) list \<Rightarrow> time \<Rightarrow> task \<Rightarrow> handler_error + task" where
  "update_brief_or_raise fs now t =
    (case task_update_brief fs now t of (Some e, _) \<Rightarrow> Inl (DomainErr e) | (None, t') \<Rightarrow> Inr t')"

definition handle_update_brief ::
  "uuid \<Rightarrow> (string \<times> brief_value) list \<Rightarrow> time \<Rightarrow> orch_db \<Rightarrow> handler_error + (task \<times> orch_db)" where
  "handle_update_brief task_id updates now db =
    rbind (task_lookup task_id db) (\<lambda>task0.
    rbind (update_brief_or_raise updates now task0) (\<lambda>task.
    Inr (task, task_save task db)))"

section \<open>Launch\<close>

definition blank_opt :: "string option \<Rightarrow> bool" where
  "blank_opt s = (case s of None \<Rightarrow> True | Some t \<Rightarrow> is_blank t)"

definition launch_missing :: "task \<Rightarrow> string list" where
  "launch_missing t =
     (if is_blank (t_title t) then [''title''] else [])
     @ (if blank_opt (t_goal t) then [''goal''] else [])
     @ (if blank_opt (t_desired_output t) then [''desired_output''] else [])
     @ (if t_agent_template_id t = None then [''agent_template_id''] else [])"

fun join_with :: "string \<Rightarrow> string list \<Rightarrow> string" where
  "join_with sep [] = []"
| "join_with sep [x] = x"
| "join_with sep (x # y # ys) = x @ sep @ join_with sep (y # ys)"

definition validate_launch_readiness :: "task \<Rightarrow> domain_error option" where
  "validate_launch_readiness t =
    (if t_status t \<noteq> T_DRAFT
     then Some (DomainValidation ''Task''
            (''cannot launch from status '' @ task_status_value (t_status t)))
     else if launch_missing t \<noteq> []
     then Some (DomainValidation ''Task''
            (''cannot launch - missing required fields: '' @ join_with '', '' (launch_missing t)))
     else None)"

definition handle_launch_task ::
  "uuid \<Rightarrow> uuid \<Rightarrow> uuid_supply \<Rightarrow> time \<Rightarrow> orch_db \<Rightarrow> handler_error + (task \<times> orch_db)" where
  "handle_launch_task task_id launched_by u now db =
    rbind (task_lookup task_id db) (\<lambda>task0.
    case validate_launch_readiness task0 of
      Some e \<Rightarrow> Inl (DomainErr e)
    | None \<Rightarrow>
        rbind
          (if \<not> str_truthy (t_risk_level task0) \<and> t_agent_template_id task0 \<noteq> None
           then (case agent_template_get (the (t_agent_template_id task0)) db of
                   None \<Rightarrow> Inr task0
                 | Some tmpl \<Rightarrow> update_brief_or_raise
                     [(''risk_level'', BStr (Some (at_default_risk_profile tmpl)))] now task0)
           else Inr task0) (\<lambda>task1.
        rbind (raising (task_submit now task1)) (\<lambda>task.
        let db1 = task_save task db;
            db2 = outbox_write (task_submitted_event (u 1, now) (t_id task) (t_workspace_id task)
                    (u 0) launched_by (t_title task) (task_type_value (t_task_type task)) None) db1
        in Inr (task, db2))))"

section \<open>Cancel\<close>

text \<open>The accumulators of the cascade: the session, the two result lists and the events, which
  are written after the loops.  The first \<open>uuid4\<close> call is the correlation id; every event
  takes the next.\<close>

record cancel_acc =
  ca_db :: orch_db
  ca_runs :: "run list"
  ca_steps :: "step list"
  ca_events :: "outbox_event list"

fun cancel_steps ::
  "uuid_supply \<Rightarrow> time \<Rightarrow> task \<Rightarrow> uuid \<Rightarrow> uuid \<Rightarrow> uuid \<Rightarrow> step list \<Rightarrow> cancel_acc
   \<Rightarrow> domain_error + cancel_acc" where
  "cancel_steps u now task corr run_id cause [] acc = Inr acc"
| "cancel_steps u now task corr run_id cause (s # ss) acc =
    rbind (step_cancel now s) (\<lambda>s'.
      cancel_steps u now task corr run_id cause ss
        (acc\<lparr> ca_db := step_save s' (ca_db acc),
              ca_steps := ca_steps acc @ [s'],
              ca_events := ca_events acc @
                [step_cancelled_event (u (1 + length (ca_events acc)), now) (s_id s') run_id
                   (t_id task) (t_workspace_id task) corr (Some cause)] \<rparr>))"

fun cancel_runs ::
  "uuid_supply \<Rightarrow> time \<Rightarrow> task \<Rightarrow> uuid \<Rightarrow> uuid \<Rightarrow> run list \<Rightarrow> cancel_acc
   \<Rightarrow> domain_error + cancel_acc" where
  "cancel_runs u now task corr cause [] acc = Inr acc"
| "cancel_runs u now task corr cause (r # rs) acc =
    rbind (run_cancel now r) (\<lambda>r'.
    let db1 = run_save r' (ca_db acc);
        run_event = run_cancelled_event (u (1 + length (ca_events acc)), now) (r_id r')
                      (t_id task) (t_workspace_id task) corr (Some cause)
    in rbind (cancel_steps u now task corr (r_id r') (ev_event_id run_event)
                (step_list_active_by_run (r_id r') db1)
                (acc\<lparr> ca_db := db1, ca_runs := ca_runs acc @ [r'],
                      ca_events := ca_events acc @ [run_event] \<rparr>))
         (cancel_runs u now task corr cause rs))"

record cancel_task_result =
  ct_task :: task
  ct_cancelled_runs :: "run list"
  ct_cancelled_steps :: "step list"

definition handle_cancel_task ::
  "uuid \<Rightarrow> uuid option \<Rightarrow> uuid_supply \<Rightarrow> time \<Rightarrow> orch_db
   \<Rightarrow> handler_error + (cancel_task_result \<times> orch_db)" where
  "handle_cancel_task task_id cancelled_by u now db =
    rbind (task_lookup task_id db) (\<lambda>task0.
    rbind (raising (task_cancel now task0)) (\<lambda>task.
    let db1 = task_save task db;
        corr = u 0;
        cancel_event = task_cancelled_event (u 1, now) (t_id task) (t_workspace_id task) corr
                         cancelled_by None
    in rbind (raising (cancel_runs u now task corr (ev_event_id cancel_event)
                (run_list_active_by_task (t_id task) db1)
                \<lparr> ca_db = db1, ca_runs = [], ca_steps = [], ca_events = [cancel_event] \<rparr>))
         (\<lambda>acc. Inr (\<lparr> ct_task = task, ct_cancelled_runs = ca_runs acc,
                       ct_cancelled_steps = ca_steps acc \<rparr>,
                     fold outbox_write (ca_events acc) (ca_db acc)))))"

section \<open>Retry\<close>

definition handle_retry_task ::
  "uuid \<Rightarrow> uuid \<Rightarrow> uuid_supply \<Rightarrow> time \<Rightarrow> orch_db \<Rightarrow> handler_error + (task \<times> orch_db)" where
  "handle_retry_task task_id retried_by u now db =
    rbind (task_lookup task_id db) (\<lambda>task0.
    rbind (raising (task_retry now task0)) (\<lambda>task.
    let db1 = task_save task db;
        db2 = outbox_write (task_retried_event (u 1, now) (t_id task) (t_workspace_id task) (u 0)
                retried_by) db1
    in Inr (task, db2)))"

section \<open>Well-formed databases\<close>

text \<open>Primary keys are unique, as the tables declare.\<close>

definition db_wf :: "orch_db \<Rightarrow> bool" where
  "db_wf db = (distinct (map t_id (db_tasks db)) \<and> distinct (map r_id (db_runs db))
     \<and> distinct (map s_id (db_steps db)) \<and> distinct (map ap_id (db_approvals db)))"

lemma db_wf_saves [simp, intro]:
  "db_wf db \<Longrightarrow> db_wf (task_save t db)"
  "db_wf db \<Longrightarrow> db_wf (run_save r db)"
  "db_wf db \<Longrightarrow> db_wf (step_save s db)"
  "db_wf db \<Longrightarrow> db_wf (approval_save a db)"
  "db_wf db \<Longrightarrow> db_wf (outbox_write e db)"
  by (simp_all add: db_wf_def task_save_def run_save_def step_save_def approval_save_def
        outbox_write_def distinct_upsert)

lemma db_wf_folds [simp, intro]:
  "db_wf db \<Longrightarrow> db_wf (fold step_save ss db)"
  "db_wf db \<Longrightarrow> db_wf (fold outbox_write es db)"
  by (induction ss arbitrary: db, simp_all) (induction es arbitrary: db, simp_all)

lemma db_wf_empty [simp]: "db_wf empty_db"
  by (simp add: db_wf_def empty_db_def)

section \<open>The cascade\<close>

lemma fold_step_save_db:
  "db_steps (fold step_save ss db) = fold (upsert s_id) ss (db_steps db)"
  "db_runs (fold step_save ss db) = db_runs db"
  "db_tasks (fold step_save ss db) = db_tasks db"
  "db_approvals (fold step_save ss db) = db_approvals db"
  "db_outbox (fold step_save ss db) = db_outbox db"
  by (induction ss arbitrary: db) (simp_all add: step_save_def)

definition cancelled_step :: "time \<Rightarrow> step \<Rightarrow> step" where
  "cancelled_step now s = s\<lparr>s_status := S_CANCELLED, s_updated_at := now,
     s_completed_at := Some (opt_or (s_completed_at s) now)\<rparr>"

lemma step_cancel_eq:
  "step_is_active s \<Longrightarrow> step_cancel now s = Inr (cancelled_step now s)"
  by (cases "s_status s")
     (simp_all add: step_is_active_def step_cancel_def step_transition_def step_terminal_def
        cancelled_step_def)

lemma cancelled_step_simps [simp]:
  "s_id (cancelled_step now s) = s_id s" "s_run_id (cancelled_step now s) = s_run_id s"
  "s_status (cancelled_step now s) = S_CANCELLED" "\<not> step_is_active (cancelled_step now s)"
  by (simp_all add: cancelled_step_def step_is_active_def)

text \<open>The event a cancelled step leaves, and what the inner loop does to its accumulators.\<close>

definition step_event_ok :: "task \<Rightarrow> uuid \<Rightarrow> uuid \<Rightarrow> uuid \<Rightarrow> step \<Rightarrow> outbox_event \<Rightarrow> bool" where
  "step_event_ok t corr run_id cause s e =
    (ev_event_type e = ''step.cancelled'' \<and> ev_step_id e = Some (s_id s)
     \<and> ev_run_id e = Some run_id \<and> ev_task_id e = Some (t_id t)
     \<and> ev_correlation_id e = corr \<and> ev_causation_id e = Some cause)"

lemma cancel_steps_eq:
  assumes "\<forall>s \<in> set ss. step_is_active s"
  shows "\<exists>evs. cancel_steps u now t corr rid cause ss acc =
      Inr (acc\<lparr> ca_db := fold step_save (map (cancelled_step now) ss) (ca_db acc),
                ca_steps := ca_steps acc @ map (cancelled_step now) ss,
                ca_events := ca_events acc @ evs \<rparr>)
    \<and> list_all2 (step_event_ok t corr rid cause) ss evs"
  using assms
proof (induction ss arbitrary: acc)
  case (Cons s ss)
  let ?e = "step_cancelled_event (u (1 + length (ca_events acc)), now) (s_id s) rid (t_id t)
              (t_workspace_id t) corr (Some cause)"
  let ?acc = "acc\<lparr> ca_db := step_save (cancelled_step now s) (ca_db acc),
                  ca_steps := ca_steps acc @ [cancelled_step now s],
                  ca_events := ca_events acc @ [?e] \<rparr>"
  from Cons.IH [of ?acc] Cons.prems obtain evs where evs:
    "cancel_steps u now t corr rid cause ss ?acc =
       Inr (?acc\<lparr> ca_db := fold step_save (map (cancelled_step now) ss) (ca_db ?acc),
                ca_steps := ca_steps ?acc @ map (cancelled_step now) ss,
                ca_events := ca_events ?acc @ evs \<rparr>)"
    "list_all2 (step_event_ok t corr rid cause) ss evs"
    by auto
  have "step_event_ok t corr rid cause s ?e"
    by (simp add: step_event_ok_def step_cancelled_event_def)
  then show ?case
    using evs Cons.prems by (intro exI [of _ "?e # evs"]) (simp add: step_cancel_eq)
qed simp

lemma active_steps_active: "s \<in> set (step_list_active_by_run k db) \<Longrightarrow> step_is_active s \<and> s_run_id s = k"
  by (cases "s_status s") (auto simp: step_list_active_by_run_def step_is_active_def)

lemma step_list_active_alt:
  "step_list_active_by_run k db = filter (\<lambda>s. s_run_id s = k \<and> step_is_active s) (db_steps db)"
proof -
  have "(s_status s \<notin> {S_COMPLETED, S_FAILED, S_SKIPPED, S_CANCELLED}) = step_is_active s" for s
    by (cases "s_status s") (simp_all add: step_is_active_def)
  then show ?thesis by (simp add: step_list_active_by_run_def)
qed

lemma step_list_active_frame [simp]:
  "step_list_active_by_run k (run_save r db) = step_list_active_by_run k db"
  "step_list_active_by_run k (task_save t db) = step_list_active_by_run k db"
  by (simp_all add: step_list_active_by_run_def)

text \<open>Saving the cancelled versions of the active steps of a run leaves none active in it, and
  never creates an active step elsewhere.\<close>

definition cancel_steps_db :: "time \<Rightarrow> uuid \<Rightarrow> orch_db \<Rightarrow> orch_db" where
  "cancel_steps_db now k db =
     fold step_save (map (cancelled_step now) (step_list_active_by_run k db)) db"

lemma cancel_steps_db_rows:
  assumes "db_wf db"
  shows "set (db_steps (cancel_steps_db now k db)) =
     cancelled_step now ` {s \<in> set (db_steps db). s_run_id s = k \<and> step_is_active s}
     \<union> {s \<in> set (db_steps db). \<not> (s_run_id s = k \<and> step_is_active s)}"
    (is "?L = ?C \<union> ?K")
proof -
  let ?as = "step_list_active_by_run k db"
  have rows: "distinct (map s_id (db_steps db))" using assms by (simp add: db_wf_def)
  then have "distinct (map s_id (map (cancelled_step now) ?as))"
    by (simp add: comp_def step_list_active_alt distinct_map_filter)
  then have "?L = set (map (cancelled_step now) ?as)
      \<union> {x \<in> set (db_steps db). s_id x \<notin> s_id ` set (map (cancelled_step now) ?as)}"
    unfolding cancel_steps_db_def fold_step_save_db by (rule set_fold_upsert [OF rows])
  moreover have "{x \<in> set (db_steps db). s_id x \<notin> s_id ` set (map (cancelled_step now) ?as)} = ?K"
  proof -
    have "s_id x \<in> s_id ` set ?as \<longleftrightarrow> x \<in> set ?as" if "x \<in> set (db_steps db)" for x
      using rows that unfolding step_list_active_alt
      by (auto simp: distinct_map inj_on_def)
    then show ?thesis by (auto simp: image_image step_list_active_alt)
  qed
  ultimately show ?thesis by (simp add: step_list_active_alt)
qed

lemma cancel_steps_db_active:
  assumes "db_wf db"
  shows "set (step_list_active_by_run j (cancel_steps_db now k db)) =
     (if j = k then {} else set (step_list_active_by_run j db))"
proof (rule set_eqI)
  fix x
  have "x \<in> set (db_steps (cancel_steps_db now k db)) \<longleftrightarrow>
      x \<in> cancelled_step now ` {s \<in> set (db_steps db). s_run_id s = k \<and> step_is_active s}
      \<or> x \<in> set (db_steps db) \<and> \<not> (s_run_id x = k \<and> step_is_active x)"
    by (simp add: cancel_steps_db_rows [OF assms])
  moreover have "\<not> step_is_active x"
    if "x \<in> cancelled_step now ` {s \<in> set (db_steps db). s_run_id s = k \<and> step_is_active s}"
    using that by (elim imageE) simp
  ultimately show "x \<in> set (step_list_active_by_run j (cancel_steps_db now k db)) \<longleftrightarrow>
      x \<in> (if j = k then {} else set (step_list_active_by_run j db))"
    unfolding step_list_active_alt set_filter by (cases "j = k") (simp_all, blast+)
qed

lemma cancel_steps_db_wf [simp]: "db_wf db \<Longrightarrow> db_wf (cancel_steps_db now k db)"
  by (simp add: cancel_steps_db_def)

lemma cancel_steps_db_frame [simp]:
  "db_runs (cancel_steps_db now k db) = db_runs db"
  "db_tasks (cancel_steps_db now k db) = db_tasks db"
  "db_approvals (cancel_steps_db now k db) = db_approvals db"
  "db_outbox (cancel_steps_db now k db) = db_outbox db"
  by (simp_all add: cancel_steps_db_def fold_step_save_db)

definition cancelled_run :: "time \<Rightarrow> run \<Rightarrow> run" where
  "cancelled_run now r =
    (let done_at = opt_or (r_completed_at r) now
     in r\<lparr>r_status := R_CANCELLED, r_updated_at := now, r_completed_at := Some done_at,
          r_duration_ms := compute_duration done_at r\<rparr>)"

definition run_cancellable :: "run \<Rightarrow> bool" where
  "run_cancellable r = (R_CANCELLED \<in> set (run_transitions (r_status r)))"

lemma run_cancel_eq: "run_cancellable r \<Longrightarrow> run_cancel now r = Inr (cancelled_run now r)"
  by (cases "r_status r")
     (simp_all add: run_cancellable_def run_cancel_def run_transition_def run_terminal_def
        cancelled_run_def Let_def)

lemma run_cancel_raises: "\<not> run_cancellable r \<Longrightarrow> \<not> is_ok (run_cancel now r)"
  by (simp add: run_cancel_ok_iff run_cancellable_def)

lemma cancelled_run_simps [simp]:
  "r_id (cancelled_run now r) = r_id r" "r_task_id (cancelled_run now r) = r_task_id r"
  "r_status (cancelled_run now r) = R_CANCELLED" "\<not> run_is_active (cancelled_run now r)"
  by (simp_all add: cancelled_run_def run_is_active_def Let_def)

lemma run_active_cancellable:
  "run_is_active r \<Longrightarrow> run_cancellable r \<longleftrightarrow> r_status r \<noteq> R_COMPLETING"
  by (cases "r_status r") (simp_all add: run_is_active_def run_cancellable_def)

fun cancel_runs_db :: "time \<Rightarrow> run list \<Rightarrow> orch_db \<Rightarrow> orch_db" where
  "cancel_runs_db now [] db = db"
| "cancel_runs_db now (r # rs) db =
     cancel_runs_db now rs (cancel_steps_db now (r_id r) (run_save (cancelled_run now r) db))"

text \<open>One group per run: the steps it had active, its own event, and their events.\<close>

definition run_group_ok ::
  "task \<Rightarrow> uuid \<Rightarrow> uuid \<Rightarrow> run \<Rightarrow> step list \<times> outbox_event \<times> outbox_event list \<Rightarrow> bool" where
  "run_group_ok t corr cause r g = (case g of (ss, re, ses) \<Rightarrow>
     ev_event_type re = ''run.cancelled'' \<and> ev_run_id re = Some (r_id r)
     \<and> ev_task_id re = Some (t_id t) \<and> ev_correlation_id re = corr
     \<and> ev_causation_id re = Some cause
     \<and> (\<forall>s \<in> set ss. s_run_id s = r_id r \<and> step_is_active s)
     \<and> list_all2 (step_event_ok t corr (r_id r) (ev_event_id re)) ss ses)"

definition group_steps where "group_steps gs = concat (map fst gs)"
definition group_events where "group_events gs = concat (map (\<lambda>g. fst (snd g) # snd (snd g)) gs)"

lemma cancel_runs_eq:
  assumes "\<forall>r \<in> set rs. run_cancellable r"
  shows "\<exists>gs. cancel_runs u now t corr cause rs acc =
      Inr (acc\<lparr> ca_db := cancel_runs_db now rs (ca_db acc),
                ca_runs := ca_runs acc @ map (cancelled_run now) rs,
                ca_steps := ca_steps acc @ map (cancelled_step now) (group_steps gs),
                ca_events := ca_events acc @ group_events gs \<rparr>)
    \<and> list_all2 (run_group_ok t corr cause) rs gs"
  using assms
proof (induction rs arbitrary: acc)
  case (Cons r rs)
  let ?r = "cancelled_run now r"
  let ?db = "run_save ?r (ca_db acc)"
  let ?ss = "step_list_active_by_run (r_id r) ?db"
  let ?e = "run_cancelled_event (u (1 + length (ca_events acc)), now) (r_id r) (t_id t)
              (t_workspace_id t) corr (Some cause)"
  let ?acc = "acc\<lparr> ca_db := ?db, ca_runs := ca_runs acc @ [?r], ca_events := ca_events acc @ [?e] \<rparr>"
  have "\<forall>s \<in> set ?ss. step_is_active s" using active_steps_active by blast
  from cancel_steps_eq [OF this, of u now t corr "r_id r" "ev_event_id ?e" ?acc]
  obtain ses where ses:
    "cancel_steps u now t corr (r_id r) (ev_event_id ?e) ?ss ?acc =
      Inr (?acc\<lparr> ca_db := cancel_steps_db now (r_id r) ?db,
                ca_steps := ca_steps ?acc @ map (cancelled_step now) ?ss,
                ca_events := ca_events ?acc @ ses \<rparr>)"
    "list_all2 (step_event_ok t corr (r_id r) (ev_event_id ?e)) ?ss ses"
    by (auto simp: cancel_steps_db_def)
  let ?acc2 = "?acc\<lparr> ca_db := cancel_steps_db now (r_id r) ?db,
                ca_steps := ca_steps ?acc @ map (cancelled_step now) ?ss,
                ca_events := ca_events ?acc @ ses \<rparr>"
  from Cons.IH [of ?acc2] Cons.prems obtain gs where gs:
    "cancel_runs u now t corr cause rs ?acc2 =
      Inr (?acc2\<lparr> ca_db := cancel_runs_db now rs (ca_db ?acc2),
                ca_runs := ca_runs ?acc2 @ map (cancelled_run now) rs,
                ca_steps := ca_steps ?acc2 @ map (cancelled_step now) (group_steps gs),
                ca_events := ca_events ?acc2 @ group_events gs \<rparr>)"
    "list_all2 (run_group_ok t corr cause) rs gs"
    by auto
  have "run_group_ok t corr cause r (?ss, ?e, ses)"
    using ses(2) active_steps_active by (auto simp: run_group_ok_def run_cancelled_event_def)
  moreover have "run_cancel now r = Inr ?r" using Cons.prems by (simp add: run_cancel_eq)
  ultimately show ?case
    using ses(1) gs
    by (intro exI [of _ "(?ss, ?e, ses) # gs"])
       (simp add: Let_def group_steps_def group_events_def)
qed (simp add: group_steps_def group_events_def)

lemma cancel_runs_raises:
  "\<exists>r \<in> set rs. \<not> run_cancellable r \<Longrightarrow> \<not> is_ok (cancel_runs u now t corr cause rs acc)"
proof (induction rs arbitrary: acc)
  case (Cons r rs)
  show ?case
  proof (cases "run_cancellable r")
    case True
    with Cons have "\<not> is_ok (cancel_runs u now t corr cause rs a)" for a by auto
    then show ?thesis by (auto simp: is_ok_iff rbind_Inr_iff Let_def)
  next
    case False
    then show ?thesis using run_cancel_raises [of r now] by (auto simp: is_ok_iff rbind_Inr_iff)
  qed
qed simp

lemma run_list_active_alt:
  "run_list_active_by_task k db =
     map run_row_to_domain (filter (\<lambda>r. r_task_id r = k \<and> run_is_active r) (db_runs db))"
proof -
  have "(r_status r \<notin> {R_COMPLETED, R_FAILED, R_CANCELLED, R_TIMED_OUT}) = run_is_active r" for r
    by (cases "r_status r") (simp_all add: run_is_active_def)
  then show ?thesis by (simp add: run_list_active_by_task_def)
qed

lemma run_is_active_row [simp]: "run_is_active (run_row_to_domain r) = run_is_active r"
  by (simp add: run_is_active_def)

lemma cancel_runs_db_wf [simp]: "db_wf db \<Longrightarrow> db_wf (cancel_runs_db now rs db)"
  by (induction rs arbitrary: db) simp_all

lemma cancel_runs_db_runs:
  "db_runs (cancel_runs_db now rs db) = fold (upsert r_id) (map (cancelled_run now) rs) (db_runs db)"
  by (induction rs arbitrary: db) (simp_all add: run_save_def)

lemma cancel_runs_db_frame [simp]:
  "db_tasks (cancel_runs_db now rs db) = db_tasks db"
  "db_approvals (cancel_runs_db now rs db) = db_approvals db"
  "db_outbox (cancel_runs_db now rs db) = db_outbox db"
  by (induction rs arbitrary: db) simp_all

lemma cancel_runs_db_active_steps:
  "db_wf db \<Longrightarrow> set (step_list_active_by_run j (cancel_runs_db now rs db)) =
     (if j \<in> r_id ` set rs then {} else set (step_list_active_by_run j db))"
  by (induction rs arbitrary: db) (simp_all add: cancel_steps_db_active)

text \<open>Steps outside the cancelled runs keep their rows.\<close>

lemma cancel_runs_db_keeps_steps:
  "\<lbrakk> db_wf db; s \<in> set (db_steps db); s_run_id s \<notin> r_id ` set rs \<rbrakk>
   \<Longrightarrow> s \<in> set (db_steps (cancel_runs_db now rs db))"
  by (induction rs arbitrary: db) (simp_all add: cancel_steps_db_rows)

section \<open>What the handlers do\<close>

lemma task_cancel_eq:
  "task_cancel now t = Inr t' \<longleftrightarrow>
   T_CANCELLED \<in> set (task_transitions (t_status t)) \<and> t' = t\<lparr>t_status := T_CANCELLED, t_updated_at := now\<rparr>"
  by (simp add: task_cancel_def task_transition_ok)

lemma task_lookup_Inr_iff [simp]: "task_lookup k db = Inr t \<longleftrightarrow> task_get k db = Some t"
  by (simp add: task_lookup_def split: option.split)

lemma run_list_active_frame [simp]:
  "run_list_active_by_task k (task_save t db) = run_list_active_by_task k db"
  by (simp add: run_list_active_alt)

definition cancelled_task :: "time \<Rightarrow> task \<Rightarrow> task" where
  "cancelled_task now t = t\<lparr>t_status := T_CANCELLED, t_updated_at := now\<rparr>"

lemma cancelled_task_simps [simp]:
  "t_id (cancelled_task now t) = t_id t" "t_status (cancelled_task now t) = T_CANCELLED"
  "t_workspace_id (cancelled_task now t) = t_workspace_id t"
  by (simp_all add: cancelled_task_def)

text \<open>The handler, in closed form, on every input on which it commits.\<close>

lemma handle_cancel_task_ok:
  assumes "task_get k db = Some t" and "T_CANCELLED \<in> set (task_transitions (t_status t))"
    and "\<forall>r \<in> set (run_list_active_by_task k db). run_cancellable r"
  shows "\<exists>gs. handle_cancel_task k by_id u now db =
      Inr (\<lparr> ct_task = cancelled_task now t,
             ct_cancelled_runs = map (cancelled_run now) (run_list_active_by_task k db),
             ct_cancelled_steps = map (cancelled_step now) (group_steps gs) \<rparr>,
           fold outbox_write
             (task_cancelled_event (u 1, now) k (t_workspace_id t) (u 0) by_id None # group_events gs)
             (cancel_runs_db now (run_list_active_by_task k db) (task_save (cancelled_task now t) db)))
    \<and> list_all2 (run_group_ok (cancelled_task now t) (u 0) (u 1)) (run_list_active_by_task k db) gs"
proof -
  have id: "t_id t = k" using assms(1) by (rule task_repo.get_key)
  let ?e = "task_cancelled_event (u 1, now) k (t_workspace_id t) (u 0) by_id None"
  let ?acc = "\<lparr> ca_db = task_save (cancelled_task now t) db, ca_runs = [], ca_steps = [],
                ca_events = [?e] \<rparr>"
  obtain gs where gs:
    "cancel_runs u now (cancelled_task now t) (u 0) (u 1) (run_list_active_by_task k db) ?acc =
      Inr (?acc\<lparr> ca_db := cancel_runs_db now (run_list_active_by_task k db) (ca_db ?acc),
                ca_runs := map (cancelled_run now) (run_list_active_by_task k db),
                ca_steps := map (cancelled_step now) (group_steps gs),
                ca_events := ?e # group_events gs \<rparr>)"
    "list_all2 (run_group_ok (cancelled_task now t) (u 0) (u 1)) (run_list_active_by_task k db) gs"
    using cancel_runs_eq [OF assms(3), of u now "cancelled_task now t" "u 0" "u 1" ?acc] by auto
  have tc: "task_cancel now t = Inr (cancelled_task now t)"
    using assms(2) by (simp add: task_cancel_eq cancelled_task_def)
  have ev: "ev_event_id ?e = u 1" by (simp add: task_cancelled_event_def)
  have tl: "task_lookup k db = Inr t" using assms(1) by simp
  show ?thesis
    using gs tl tc ev id
    by (intro exI [of _ gs]) (simp add: handle_cancel_task_def task_lookup_def Let_def)
qed

lemma handle_cancel_task_needs:
  assumes "handle_cancel_task k by_id u now db = Inr (res, db')"
  shows "\<exists>t. task_get k db = Some t \<and> T_CANCELLED \<in> set (task_transitions (t_status t))
    \<and> (\<forall>r \<in> set (run_list_active_by_task k db). run_cancellable r)"
proof -
  from assms obtain t t' where t: "task_get k db = Some t" "task_cancel now t = Inr t'"
    by (auto simp: handle_cancel_task_def rbind_Inr_iff raising_Inr_iff)
  then have t': "t' = cancelled_task now t" "T_CANCELLED \<in> set (task_transitions (t_status t))"
    by (simp_all add: task_cancel_eq cancelled_task_def)
  have id: "t_id t = k" using t(1) by (rule task_repo.get_key)
  have "\<forall>r \<in> set (run_list_active_by_task k db). run_cancellable r"
  proof (rule ccontr)
    assume "\<not> ?thesis"
    then have "\<exists>r \<in> set (run_list_active_by_task k db). \<not> run_cancellable r" by blast
    from cancel_runs_raises [OF this] show False
      using assms t t' id
      by (auto simp: handle_cancel_task_def rbind_Inr_iff raising_Inr_iff Let_def is_ok_iff)
  qed
  with t t' show ?thesis by blast
qed

lemma run_list_active_after:
  assumes "db_wf db"
  shows "run_list_active_by_task k (cancel_runs_db now (run_list_active_by_task k db) db) = []"
proof -
  let ?rs = "run_list_active_by_task k db"
  have rows: "distinct (map r_id (db_runs db))" using assms by (simp add: db_wf_def)
  have ids: "map r_id (map (cancelled_run now) ?rs) =
      map r_id (filter (\<lambda>r. r_task_id r = k \<and> run_is_active r) (db_runs db))"
    by (simp add: run_list_active_alt comp_def)
  then have dist: "distinct (map r_id (map (cancelled_run now) ?rs))"
    using rows by (simp add: distinct_map_filter)
  have "\<not> (r_task_id r = k \<and> run_is_active r)"
    if "r \<in> set (fold (upsert r_id) (map (cancelled_run now) ?rs) (db_runs db))" for r
  proof -
    from that set_fold_upsert [OF rows dist]
    consider "r \<in> set (map (cancelled_run now) ?rs)"
      | "r \<in> set (db_runs db)" "r_id r \<notin> r_id ` set (map (cancelled_run now) ?rs)"
      by auto
    then show ?thesis
    proof cases
      case 2
      show ?thesis
      proof
        assume "r_task_id r = k \<and> run_is_active r"
        with 2(1) have "r \<in> set (filter (\<lambda>r. r_task_id r = k \<and> run_is_active r) (db_runs db))" by simp
        then have "r_id r \<in> set (map r_id (map (cancelled_run now) ?rs))"
          unfolding ids set_map by (rule imageI)
        with 2(2) show False by (simp only: set_map)
      qed
    qed auto
  qed
  then have "filter (\<lambda>r. r_task_id r = k \<and> run_is_active r)
      (fold (upsert r_id) (map (cancelled_run now) ?rs) (db_runs db)) = []"
    unfolding filter_empty_conv by blast
  then show ?thesis
    unfolding run_list_active_alt [of k "cancel_runs_db now ?rs db"] cancel_runs_db_runs by simp
qed


text \<open>The cancel command commits exactly when the task exists, its status may become
  cancelled, and none of its active runs is completing.\<close>

theorem cancel_commits_iff:
  "is_ok (handle_cancel_task k by_id u now db) \<longleftrightarrow>
   (\<exists>t. task_get k db = Some t
      \<and> t_status t \<in> {T_DRAFT, T_PENDING, T_RUNNING, T_WAITING_APPROVAL})
   \<and> list_all (\<lambda>r. r_status r \<noteq> R_COMPLETING) (run_list_active_by_task k db)"
proof -
  have st: "T_CANCELLED \<in> set (task_transitions s) \<longleftrightarrow>
      s \<in> {T_DRAFT, T_PENDING, T_RUNNING, T_WAITING_APPROVAL}" for s by (cases s) simp_all
  have "run_is_active r" if "r \<in> set (run_list_active_by_task k db)" for r
    using that by (auto simp: run_list_active_alt)
  then have runs: "(\<forall>r \<in> set (run_list_active_by_task k db). run_cancellable r) \<longleftrightarrow>
      list_all (\<lambda>r. r_status r \<noteq> R_COMPLETING) (run_list_active_by_task k db)"
    by (auto simp: list_all_iff run_active_cancellable)
  show ?thesis
  proof
    assume "is_ok (handle_cancel_task k by_id u now db)"
    then obtain res db' where "handle_cancel_task k by_id u now db = Inr (res, db')"
      by (auto simp: is_ok_iff)
    from handle_cancel_task_needs [OF this] show
      "(\<exists>t. task_get k db = Some t
          \<and> t_status t \<in> {T_DRAFT, T_PENDING, T_RUNNING, T_WAITING_APPROVAL})
       \<and> list_all (\<lambda>r. r_status r \<noteq> R_COMPLETING) (run_list_active_by_task k db)"
      unfolding st runs by blast
  next
    assume R: "(\<exists>t. task_get k db = Some t
          \<and> t_status t \<in> {T_DRAFT, T_PENDING, T_RUNNING, T_WAITING_APPROVAL})
       \<and> list_all (\<lambda>r. r_status r \<noteq> R_COMPLETING) (run_list_active_by_task k db)"
    then obtain t where "task_get k db = Some t" "T_CANCELLED \<in> set (task_transitions (t_status t))"
      unfolding st by blast
    from handle_cancel_task_ok [OF this] R show "is_ok (handle_cancel_task k by_id u now db)"
      unfolding runs [symmetric] is_ok_iff by blast
  qed
qed

text \<open>The events of a cancellation: appended to the outbox are the task event and, for each
  active run in order, its run event followed by one event per step of it that was active; all
  carry one correlation id, the task event causes the run events, and each run event causes its
  step events.\<close>

theorem cancel_events:
  assumes "handle_cancel_task k by_id u now db = Inr (res, db')"
  shows "\<exists>gs. events_of db' = events_of db @
      task_cancelled_event (u 1, now) k (t_workspace_id (ct_task res)) (u 0) by_id None # group_events gs
    \<and> list_all2 (run_group_ok (ct_task res) (u 0) (u 1)) (run_list_active_by_task k db) gs
    \<and> ct_cancelled_steps res = map (cancelled_step now) (group_steps gs)"
proof -
  obtain t where t: "task_get k db = Some t" "T_CANCELLED \<in> set (task_transitions (t_status t))"
    "\<forall>r \<in> set (run_list_active_by_task k db). run_cancellable r"
    using handle_cancel_task_needs [OF assms] by blast
  from handle_cancel_task_ok [OF t, of by_id u now] assms show ?thesis
    by (auto simp: events_of_writes) (auto simp: events_of_def)
qed

section \<open>Launch, submit, retry\<close>

definition risk_after_launch :: "task \<Rightarrow> orch_db \<Rightarrow> string option" where
  "risk_after_launch t db =
    (if str_truthy (t_risk_level t) then t_risk_level t
     else case agent_template_get (the (t_agent_template_id t)) db of
            None \<Rightarrow> t_risk_level t
          | Some tmpl \<Rightarrow> Some (at_default_risk_profile tmpl))"

definition launch_ready :: "task \<Rightarrow> orch_db \<Rightarrow> bool" where
  "launch_ready t db =
    (t_status t = T_DRAFT \<and> \<not> is_blank (t_title t) \<and> \<not> blank_opt (t_goal t)
     \<and> \<not> blank_opt (t_desired_output t) \<and> t_agent_template_id t \<noteq> None
     \<and> (str_truthy (t_risk_level t) \<or> \<not> str_truthy (risk_after_launch t db)
          \<or> valid_risk_level (the (risk_after_launch t db))))"

definition launched_task :: "time \<Rightarrow> orch_db \<Rightarrow> task \<Rightarrow> task" where
  "launched_task now db t =
    t\<lparr>t_risk_level := risk_after_launch t db, t_status := T_PENDING, t_updated_at := now\<rparr>"

lemma launch_missing_Nil_iff:
  "launch_missing t = [] \<longleftrightarrow> \<not> is_blank (t_title t) \<and> \<not> blank_opt (t_goal t)
     \<and> \<not> blank_opt (t_desired_output t) \<and> t_agent_template_id t \<noteq> None"
  by (auto simp: launch_missing_def)

lemma update_risk:
  "t_status t = T_DRAFT \<Longrightarrow> update_brief_or_raise [(''risk_level'', BStr (Some r))] now t =
    (if r \<noteq> [] \<and> \<not> valid_risk_level r
     then Inl (DomainErr (DomainValidation ''Task'' (''invalid risk_level: '' @ r)))
     else Inr (t\<lparr>t_risk_level := Some r, t_updated_at := now\<rparr>))"
  by (simp add: update_brief_or_raise_def task_update_brief_def brief_field_error_def
        brief_fields_def brief_text_def str_truthy_def set_brief_field_def)

lemma task_submit_eq:
  "task_submit now t = Inr t' \<longleftrightarrow>
   t_status t \<in> {T_DRAFT, T_FAILED} \<and> t' = t\<lparr>t_status := T_PENDING, t_updated_at := now\<rparr>"
  by (cases "t_status t") (auto simp: task_submit_def task_transition_ok)

lemma risk_after_launch_set:
  "str_truthy (t_risk_level t) \<Longrightarrow> risk_after_launch t db = t_risk_level t"
  by (simp add: risk_after_launch_def)

lemma handle_launch_task_eq:
  assumes t: "task_get k db = Some t" and ready: "launch_ready t db"
  shows "handle_launch_task k by_id u now db =
    Inr (launched_task now db t,
         outbox_write (task_submitted_event (u 1, now) k (t_workspace_id t) (u 0) by_id
             (t_title t) (task_type_value (t_task_type t)) None)
           (task_save (launched_task now db t) db))"
proof -
  have same: "t\<lparr>t_risk_level := t_risk_level t, t_status := T_PENDING, t_updated_at := now\<rparr> =
      t\<lparr>t_status := T_PENDING, t_updated_at := now\<rparr>" by (cases t) simp
  have id: "t_id t = k" using t by (rule task_repo.get_key)
  have v: "validate_launch_readiness t = None"
    using ready by (simp add: validate_launch_readiness_def launch_missing_Nil_iff launch_ready_def)
  have st: "t_status t = T_DRAFT" and at: "t_agent_template_id t \<noteq> None"
    using ready by (simp_all add: launch_ready_def)
  have sub: "task_submit now t1 = Inr (t1\<lparr>t_status := T_PENDING, t_updated_at := now\<rparr>)"
    if "t_status t1 = T_DRAFT" for t1
    using that by (simp add: task_submit_eq)
  show ?thesis
  proof (cases "str_truthy (t_risk_level t)")
    case True
    then show ?thesis
      using t id v st
      by (simp add: handle_launch_task_def task_lookup_def sub Let_def risk_after_launch_def
          launched_task_def same)
  next
    case False
    show ?thesis
    proof (cases "agent_template_get (the (t_agent_template_id t)) db")
      case None
      with False show ?thesis
        using t id v st at
        by (simp add: handle_launch_task_def task_lookup_def sub Let_def risk_after_launch_def
            launched_task_def same)
    next
      case (Some tmpl)
      with False ready have "at_default_risk_profile tmpl = [] \<or> valid_risk_level (at_default_risk_profile tmpl)"
        by (simp add: launch_ready_def risk_after_launch_def str_truthy_def)
      with Some False show ?thesis
        using t id v st at
        by (auto simp: handle_launch_task_def task_lookup_def sub Let_def risk_after_launch_def update_risk
            launched_task_def)
    qed
  qed
qed

lemma handle_launch_task_raises:
  assumes "task_get k db = Some t" and "\<not> launch_ready t db"
  shows "\<not> is_ok (handle_launch_task k by_id u now db)"
proof (cases "validate_launch_readiness t")
  case None
  then have r: "t_status t = T_DRAFT" "launch_missing t = []"
    by (simp_all add: validate_launch_readiness_def split: if_splits)
  with assms(2) have nr: "\<not> str_truthy (t_risk_level t)" "str_truthy (risk_after_launch t db)"
    "\<not> valid_risk_level (the (risk_after_launch t db))"
    by (auto simp: launch_ready_def launch_missing_Nil_iff)
  then obtain tmpl where "agent_template_get (the (t_agent_template_id t)) db = Some tmpl"
    "at_default_risk_profile tmpl \<noteq> []" "\<not> valid_risk_level (at_default_risk_profile tmpl)"
    by (cases "agent_template_get (the (t_agent_template_id t)) db")
       (auto simp: risk_after_launch_def str_truthy_def)
  then show ?thesis
    using assms(1) None nr(1) r
    by (simp add: handle_launch_task_def task_lookup_def update_risk launch_missing_Nil_iff)
next
  case (Some e)
  then show ?thesis using assms(1) by (simp add: handle_launch_task_def task_lookup_def)
qed

text \<open>Launching.  The command commits exactly for a stored draft whose title, goal and
  desired output are not blank and whose agent template is chosen (and whose inherited risk
  level is a known one); the task is then pending, an unset risk level has become the
  template's, and one \<open>task.submitted\<close> event was appended.\<close>

theorem launch_behaviour:
  "case task_get k db of
     None \<Rightarrow> handle_launch_task k by_id u now db = Inl (TaskNotFound k)
   | Some t \<Rightarrow>
       (if launch_ready t db
        then handle_launch_task k by_id u now db =
          Inr (launched_task now db t,
               outbox_write (task_submitted_event (u 1, now) k (t_workspace_id t) (u 0) by_id
                   (t_title t) (task_type_value (t_task_type t)) None)
                 (task_save (launched_task now db t) db))
        else \<not> is_ok (handle_launch_task k by_id u now db))"
proof (cases "task_get k db")
  case None
  then show ?thesis by (simp add: handle_launch_task_def task_lookup_def)
next
  case (Some t)
  then show ?thesis
    using handle_launch_task_eq [OF Some] handle_launch_task_raises [OF Some] by simp
qed

text \<open>The retry command checks only that \<open>pending\<close> can follow: it commits for a failed task
  and also for a draft, which thereby becomes pending without the readiness check of a launch;
  in every other status it raises.\<close>

theorem retry_behaviour:
  "is_ok (handle_retry_task k by_id u now db) \<longleftrightarrow>
   (case task_get k db of None \<Rightarrow> False | Some t \<Rightarrow> t_status t \<in> {T_FAILED, T_DRAFT})"
proof (cases "task_get k db")
  case (Some t)
  then show ?thesis
    by (cases "t_status t")
       (simp_all add: handle_retry_task_def task_lookup_def task_retry_def task_transition_def
          task_terminal_def Let_def)
qed (simp add: handle_retry_task_def task_lookup_def)

text \<open>A draft with no goal, no desired output and no agent template cannot be launched, yet
  the retry command submits it.\<close>

theorem retry_bypasses_launch_checks:
  assumes "task_get k db = Some t" and "t_status t = T_DRAFT" and "t_goal t = None"
  shows "\<not> is_ok (handle_launch_task k by_id u now db)
    \<and> (\<exists>t' db'. handle_retry_task k by_id u now db = Inr (t', db')
         \<and> task_list_pending (Suc (length (db_tasks db))) db' \<noteq> []
         \<and> task_get k db' = Some t' \<and> t_status t' = T_PENDING)"
proof
  have "\<not> launch_ready t db" using assms by (simp add: launch_ready_def blank_opt_def)
  with assms(1) show "\<not> is_ok (handle_launch_task k by_id u now db)"
    by (rule handle_launch_task_raises)
  let ?t = "t\<lparr>t_status := T_PENDING, t_updated_at := now\<rparr>"
  let ?db = "outbox_write (task_retried_event (u 1, now) k (t_workspace_id t) (u 0) by_id)
               (task_save ?t db)"
  have id: "t_id t = k" using assms(1) by (rule task_repo.get_key)
  have "handle_retry_task k by_id u now db = Inr (?t, ?db)"
    using assms id by (simp add: handle_retry_task_def task_lookup_def task_retry_def
        task_transition_def task_terminal_def Let_def)
  moreover have get: "task_get k ?db = Some ?t" by (simp add: task_repo.get_put id)
  moreover have "?t \<in> set (db_tasks ?db)"
    using get by (auto simp: task_get_def dest: find_row_key)
  then have "filter (\<lambda>x. t_status x = T_PENDING) (db_tasks ?db) \<noteq> []"
    unfolding filter_empty_conv by force
  then have "sort_key t_created_at (filter (\<lambda>x. t_status x = T_PENDING) (db_tasks ?db)) \<noteq> []"
    by (metis set_empty set_sort)
  then have "task_list_pending (Suc (length (db_tasks db))) ?db \<noteq> []"
    by (simp add: task_list_pending_def)
  ultimately show "\<exists>t' db'. handle_retry_task k by_id u now db = Inr (t', db')
         \<and> task_list_pending (Suc (length (db_tasks db))) db' \<noteq> []
         \<and> task_get k db' = Some t' \<and> t_status t' = T_PENDING"
    by (intro exI [of _ ?t] exI [of _ ?db]) simp
qed

section \<open>A concrete database\<close>

definition demo_supply :: uuid_supply where
  "demo_supply i = 100 + i"

definition demo_task :: "uuid \<Rightarrow> task_status \<Rightarrow> task" where
  "demo_task k st = \<lparr> t_id = k, t_workspace_id = 7, t_title = ''fix it'', t_description = None,
     t_task_type = Coding, t_status = st, t_input_config = [], t_repo_snapshot_id = None,
     t_policy_id = None, t_parent_task_id = None, t_created_by_id = 8, t_created_at = 10,
     t_updated_at = 20, t_goal = None, t_context = None, t_constraints = None,
     t_desired_output = None, t_template_id = None, t_agent_template_id = None,
     t_risk_level = None \<rparr>"

definition demo_run :: "uuid \<Rightarrow> uuid \<Rightarrow> run_status \<Rightarrow> run" where
  "demo_run k tid st = \<lparr> r_id = k, r_task_id = tid, r_workspace_id = 7, r_status = st,
     r_trigger_type = Manual, r_triggered_by_id = None, r_started_at = Some 20,
     r_completed_at = None, r_duration_ms = None, r_run_config = [], r_error_summary = None,
     r_created_at = 15, r_updated_at = 20, r_config_locked = True \<rparr>"

definition demo_step :: "uuid \<Rightarrow> uuid \<Rightarrow> step_status \<Rightarrow> step" where
  "demo_step k rid st = \<lparr> s_id = k, s_run_id = rid, s_workspace_id = 7,
     s_step_type = Agent_Invocation, s_status = st, s_sequence = 1, s_parent_step_id = None,
     s_input_snapshot = None, s_output_snapshot = None, s_started_at = Some 21,
     s_completed_at = None, s_error_detail = None, s_created_at = 20, s_updated_at = 21 \<rparr>"

definition demo_db :: orch_db where
  "demo_db = empty_db\<lparr>
     db_tasks := [demo_task 1 T_RUNNING, demo_task 2 T_DRAFT, demo_task 3 T_PENDING],
     db_runs := [demo_run 11 1 R_RUNNING, demo_run 12 1 R_FAILED, demo_run 13 2 R_RUNNING],
     db_steps := [demo_step 21 11 S_RUNNING, demo_step 22 11 S_COMPLETED,
                  demo_step 23 13 S_RUNNING] \<rparr>"

lemma demo_db_wf: "db_wf demo_db"
  by (simp add: db_wf_def demo_db_def demo_task_def demo_run_def demo_step_def empty_db_def)

lemma demo_cancel_commits:
  "\<exists>res db'. handle_cancel_task 1 (Some 8) demo_supply 50 demo_db = Inr (res, db')"
proof -
  have "is_ok (handle_cancel_task 1 (Some 8) demo_supply 50 demo_db)" by code_simp
  then show ?thesis by (auto simp: is_ok_iff)
qed


theorem cancel_events_witness:
  "\<exists>res db' gs. handle_cancel_task 1 (Some 8) demo_supply 50 demo_db = Inr (res, db')
     \<and> list_all2 (run_group_ok (ct_task res) (demo_supply 0) (demo_supply 1))
         (run_list_active_by_task 1 demo_db) gs"
  using demo_cancel_commits cancel_events [of 1 "Some 8" demo_supply 50 demo_db] by blast

theorem retry_bypasses_launch_checks_witness:
  "\<not> is_ok (handle_launch_task 2 8 demo_supply 50 demo_db)
   \<and> (\<exists>t' db'. handle_retry_task 2 8 demo_supply 50 demo_db = Inr (t', db') \<and> t_status t' = T_PENDING)"
proof -
  have "task_get 2 demo_db = Some (demo_task 2 T_DRAFT)"
    by (simp add: task_get_def demo_db_def demo_task_def empty_db_def)
  from retry_bypasses_launch_checks [OF this, of 8 demo_supply 50] show ?thesis
    by (auto simp: demo_task_def)
qed

end
