(* ===== verification/Orch_Execution.thy ===== *)
theory Orch_Execution
  imports Orch_Handlers
begin

text \<open>
  \<open>apps/orchestrator/src/application/execution_loop.py\<close>, the result type of \<open>ports.py\<close> and
  \<open>simulated_loop.py\<close>.  A real execution is two transactions around one blocking call to the
  agent runtime: \<open>start_execution\<close> commits task, run and step as running; the sandbox is
  provisioned, the runtime called and the sandbox terminated; \<open>finalize_execution\<close> reloads the
  three entities and maps the result.

  The execution service and the agent runtime are parameters (fields of \<open>exec_env\<close>), as is
  \<open>en_world\<close>, the effect of the transactions other requests commit while the runtime is
  busy.  The outcome records the calls made to the outside, in order.  The supply feeds, in the
  order of the code: correlation id, invocation id, task event, run id, queued event, started
  event, step id, step event, and from 8 on the events of the second transaction.
\<close>

section \<open>The runtime's answer\<close>

text \<open>An exception: the name of its class and its text.\<close>

datatype py_exc = PyExc string string

fun exc_type :: "py_exc \<Rightarrow> string" where "exc_type (PyExc ty msg) = ty"
fun exc_msg :: "py_exc \<Rightarrow> string" where "exc_msg (PyExc ty msg) = msg"

record runtime_result =
  rr_invocation_id :: uuid
  rr_status :: string
  rr_output_text :: string
  rr_error_code :: "string option"
  rr_error_message :: "string option"
  rr_retryable :: bool
  rr_prompt_tokens :: int
  rr_completion_tokens :: int

definition runtime_error :: "uuid \<Rightarrow> string \<Rightarrow> string \<Rightarrow> runtime_result" where
  "runtime_error ivk code msg = \<lparr>
     rr_invocation_id = ivk, rr_status = ''failed'', rr_output_text = [],
     rr_error_code = Some code, rr_error_message = Some msg, rr_retryable = False,
     rr_prompt_tokens = 0, rr_completion_tokens = 0 \<rparr>"

definition rr_is_success :: "runtime_result \<Rightarrow> bool" where
  "rr_is_success r = (rr_status r = ''completed'')"

definition rr_is_timeout :: "runtime_result \<Rightarrow> bool" where
  "rr_is_timeout r = (rr_status r = ''timed_out'')"

record dispatch_request =
  dr_invocation_id :: uuid
  dr_workspace_id :: uuid
  dr_task_id :: uuid
  dr_run_id :: uuid
  dr_step_id :: uuid
  dr_correlation_id :: uuid
  dr_agent_id :: string
  dr_model_alias :: string
  dr_instruction :: string
  dr_input_payload :: dict
  dr_timeout_ms :: int

record exec_env =
  en_service :: bool
  en_skip_sandbox :: bool
  en_model_alias :: string
  en_timeout_ms :: int
  en_provision :: "uuid \<Rightarrow> uuid \<Rightarrow> uuid \<Rightarrow> uuid \<Rightarrow> uuid \<Rightarrow> py_exc + uuid"
  en_dispatch :: "dispatch_request \<Rightarrow> py_exc + runtime_result"
  en_world :: "orch_db \<Rightarrow> orch_db"

datatype ext_call =
    Provision_Sandbox uuid
  | Dispatch_Invocation dispatch_request
  | Terminate_Sandbox uuid string

section \<open>First transaction\<close>

record exec_ctx =
  xc_task_id :: uuid
  xc_run_id :: uuid
  xc_step_id :: uuid
  xc_workspace_id :: uuid
  xc_title :: string
  xc_input_config :: dict
  xc_correlation :: uuid
  xc_invocation :: uuid
  xc_step_started :: outbox_event

definition start_execution ::
  "uuid \<Rightarrow> uuid_supply \<Rightarrow> time \<Rightarrow> orch_db \<Rightarrow> handler_error + (exec_ctx \<times> orch_db)" where
  "start_execution task_id u now db =
    (case task_get task_id db of
       None \<Rightarrow> Inl (PyValueError ''Task not found'')
     | Some task0 \<Rightarrow>
    if t_status task0 \<noteq> T_PENDING
    then Inl (PyValueError (''expected pending, is '' @ task_status_value (t_status task0)))
    else
    let corr = u 0; ivk = u 1 in
    rbind (raising (task_start now task0)) (\<lambda>task.
    let db = task_save task db;
        task_started = task_started_event (u 2, now) (t_id task) (t_workspace_id task) corr None;
        db = outbox_write task_started db in
    rbind (raising (run_init (u 3) now (run_kwargs (t_id task) (t_workspace_id task)))) (\<lambda>run.
    let db = run_save run db;
        run_queued = run_queued_event (u 4, now) (r_id run) (t_id task) (t_workspace_id task) corr
          (trigger_type_value (r_trigger_type run)) (Some (ev_event_id task_started));
        db = outbox_write run_queued db in
    rbind (raising (run_prepare now run)) (\<lambda>run.
    let db = run_save run db in
    rbind (raising (run_start now run)) (\<lambda>run.
    let db = run_save run db;
        run_started = run_started_event (u 5, now) (r_id run) (t_id task) (t_workspace_id task) corr
          (Some (ev_event_id run_queued));
        db = outbox_write run_started db in
    rbind (raising (step_init (u 6) now (step_kwargs (r_id run) (t_workspace_id task) 1))) (\<lambda>step.
    let db = step_save step db in
    rbind (raising (step_start (Some [(''task_title'', JStr (t_title task)),
                                  (''agent_invocation_id'', JUuid ivk)]) now step)) (\<lambda>step.
    let db = step_save step db;
        step_started = step_started_event (u 7, now) (s_id step) (r_id run) (t_id task)
          (t_workspace_id task) corr (step_type_value (s_step_type step)) (s_sequence step)
          (Some (ev_event_id run_started));
        db = outbox_write step_started db
    in Inr (\<lparr> xc_task_id = t_id task, xc_run_id = r_id run, xc_step_id = s_id step,
              xc_workspace_id = t_workspace_id task, xc_title = t_title task,
              xc_input_config = t_input_config task, xc_correlation = corr, xc_invocation = ivk,
              xc_step_started = step_started \<rparr>, db))))))))"

section \<open>Sandbox and dispatch\<close>

definition map_termination_reason :: "runtime_result \<Rightarrow> string" where
  "map_termination_reason r =
    (if rr_is_success r then ''completed'' else if rr_is_timeout r then ''timeout'' else ''error'')"

definition dispatch_request_of :: "exec_env \<Rightarrow> exec_ctx \<Rightarrow> uuid option \<Rightarrow> dispatch_request" where
  "dispatch_request_of env x sandbox = \<lparr>
     dr_invocation_id = xc_invocation x, dr_workspace_id = xc_workspace_id x,
     dr_task_id = xc_task_id x, dr_run_id = xc_run_id x, dr_step_id = xc_step_id x,
     dr_correlation_id = xc_correlation x, dr_agent_id = ''default-agent'',
     dr_model_alias = en_model_alias env, dr_instruction = xc_title x,
     dr_input_payload = (case sandbox of None \<Rightarrow> xc_input_config x
                         | Some s \<Rightarrow> dict_put ''sandbox_id'' (JUuid s) (xc_input_config x)),
     dr_timeout_ms = en_timeout_ms env \<rparr>"

definition dispatch_result :: "exec_env \<Rightarrow> exec_ctx \<Rightarrow> uuid option \<Rightarrow> runtime_result" where
  "dispatch_result env x sandbox =
    (case en_dispatch env (dispatch_request_of env x sandbox) of
       Inl exc \<Rightarrow> runtime_error (xc_invocation x) ''DISPATCH_ERROR''
                    (''Unexpected dispatch error: '' @ exc_type exc)
     | Inr r \<Rightarrow> r)"

definition dispatch_phase :: "exec_env \<Rightarrow> exec_ctx \<Rightarrow> runtime_result \<times> ext_call list" where
  "dispatch_phase env x =
    (if en_service env \<and> \<not> en_skip_sandbox env
     then (case en_provision env (xc_workspace_id x) (xc_task_id x) (xc_run_id x) (xc_step_id x)
                  (xc_invocation x) of
             Inl exc \<Rightarrow>
               (runtime_error (xc_invocation x) ''SANDBOX_PROVISION_FAILED''
                  (''Failed to provision sandbox: '' @ exc_type exc @ '': '' @ exc_msg exc),
                [Provision_Sandbox (xc_invocation x)])
           | Inr sandbox \<Rightarrow>
               let r = dispatch_result env x (Some sandbox)
               in (r, [Provision_Sandbox (xc_invocation x),
                       Dispatch_Invocation (dispatch_request_of env x (Some sandbox)),
                       Terminate_Sandbox sandbox (map_termination_reason r)]))
     else (dispatch_result env x None, [Dispatch_Invocation (dispatch_request_of env x None)]))"

section \<open>Second transaction\<close>

definition opt_or_str :: "string option \<Rightarrow> string \<Rightarrow> string" where
  "opt_or_str s d = (if str_truthy s then the s else d)"

definition handle_success ::
  "task \<Rightarrow> run \<Rightarrow> step \<Rightarrow> runtime_result \<Rightarrow> uuid \<Rightarrow> outbox_event \<Rightarrow> uuid_supply \<Rightarrow> time \<Rightarrow> orch_db
   \<Rightarrow> domain_error + orch_db" where
  "handle_success task run step result corr step_started u now db =
    rbind (step_complete [(''output_text'', JStr (rr_output_text result)),
             (''agent_invocation_id'', JUuid (rr_invocation_id result)),
             (''prompt_tokens'', JInt (rr_prompt_tokens result)),
             (''completion_tokens'', JInt (rr_completion_tokens result))] now step) (\<lambda>step.
    let db = step_save step db;
        step_completed = step_completed_event (u 8, now) (s_id step) (r_id run) (t_id task)
          (t_workspace_id task) corr (Some (ev_event_id step_started));
        db = outbox_write step_completed db in
    rbind (run_begin_completing now run) (\<lambda>run.
    let db = run_save run db;
        run_completing = run_completing_event (u 9, now) (r_id run) (t_id task)
          (t_workspace_id task) corr (Some (ev_event_id step_completed));
        db = outbox_write run_completing db in
    rbind (run_complete now run) (\<lambda>run.
    let db = run_save run db;
        run_completed = run_completed_event (u 10, now) (r_id run) (t_id task)
          (t_workspace_id task) corr (r_duration_ms run) (Some (ev_event_id run_completing));
        db = outbox_write run_completed db in
    rbind (task_complete now task) (\<lambda>task.
    let db = task_save task db in
    Inr (outbox_write (task_completed_event (u 11, now) (t_id task) (t_workspace_id task) corr
           (Some (ev_event_id run_completed))) db)))))"

definition handle_failure ::
  "task \<Rightarrow> run \<Rightarrow> step \<Rightarrow> runtime_result \<Rightarrow> uuid \<Rightarrow> outbox_event \<Rightarrow> uuid_supply \<Rightarrow> time \<Rightarrow> orch_db
   \<Rightarrow> domain_error + orch_db" where
  "handle_failure task run step result corr step_started u now db =
    (let error_summary = opt_or_str (rr_error_message result)
           (opt_or_str (rr_error_code result) ''Unknown error'') in
    rbind (step_fail (Some [(''error_code'', JStr (opt_or_str (rr_error_code result) ''UNKNOWN'')),
             (''error_message'', JStr (opt_or_str (rr_error_message result) [])),
             (''agent_invocation_id'', JUuid (rr_invocation_id result)),
             (''retryable'', JBool (rr_retryable result))]) now step) (\<lambda>step.
    let db = step_save step db;
        step_failed = step_failed_event (u 8, now) (s_id step) (r_id run) (t_id task)
          (t_workspace_id task) corr (rr_error_code result) (rr_error_message result)
          (Some (ev_event_id step_started));
        db = outbox_write step_failed db in
    rbind (run_fail (Some error_summary) now run) (\<lambda>run.
    let db = run_save run db;
        run_failed = run_failed_event (u 9, now) (r_id run) (t_id task) (t_workspace_id task) corr
          (Some error_summary) (Some (ev_event_id step_failed));
        db = outbox_write run_failed db in
    rbind (task_fail now task) (\<lambda>task.
    let db = task_save task db in
    Inr (outbox_write (task_failed_event (u 10, now) (t_id task) (t_workspace_id task) corr
           (Some error_summary) (Some (ev_event_id run_failed))) db)))))"

definition handle_timeout ::
  "task \<Rightarrow> run \<Rightarrow> step \<Rightarrow> runtime_result \<Rightarrow> uuid \<Rightarrow> outbox_event \<Rightarrow> uuid_supply \<Rightarrow> time \<Rightarrow> orch_db
   \<Rightarrow> domain_error + orch_db" where
  "handle_timeout task run step result corr step_started u now db =
    (let error_summary = (if str_truthy (rr_error_message result)
           then ''TIMEOUT: '' @ the (rr_error_message result) else ''Execution timed out'') in
    rbind (step_fail (Some [(''error_code'', JStr ''TIMEOUT''),
             (''error_message'', JStr (opt_or_str (rr_error_message result) ''Execution timed out'')),
             (''agent_invocation_id'', JUuid (rr_invocation_id result))]) now step) (\<lambda>step.
    let db = step_save step db;
        step_failed = step_failed_event (u 8, now) (s_id step) (r_id run) (t_id task)
          (t_workspace_id task) corr (Some ''TIMEOUT'') (rr_error_message result)
          (Some (ev_event_id step_started));
        db = outbox_write step_failed db in
    rbind (run_time_out now run) (\<lambda>run.
    let db = run_save run db;
        run_timed_out = run_timed_out_event (u 9, now) (r_id run) (t_id task) (t_workspace_id task)
          corr (Some (ev_event_id step_failed));
        db = outbox_write run_timed_out db in
    rbind (task_fail now task) (\<lambda>task.
    let db = task_save task db in
    Inr (outbox_write (task_failed_event (u 10, now) (t_id task) (t_workspace_id task) corr
           (Some error_summary) (Some (ev_event_id run_timed_out))) db)))))"

definition finalize_execution ::
  "exec_ctx \<Rightarrow> runtime_result \<Rightarrow> uuid_supply \<Rightarrow> time \<Rightarrow> orch_db \<Rightarrow> handler_error + orch_db" where
  "finalize_execution x result u now db =
    (case (task_get (xc_task_id x) db, run_get (xc_run_id x) db, step_get (xc_step_id x) db) of
       (Some task, Some run, Some step) \<Rightarrow>
         raising
           ((if rr_is_success result then handle_success
             else if rr_is_timeout result then handle_timeout
             else handle_failure)
           task run step result (xc_correlation x) (xc_step_started x) u now db)
     | _ \<Rightarrow> Inl (PyRuntimeError ''Entities disappeared after mid-execution commit''))"

record exec_outcome =
  xo_db :: orch_db
  xo_error :: "handler_error option"
  xo_calls :: "ext_call list"

definition run_real_execution ::
  "uuid \<Rightarrow> exec_env \<Rightarrow> uuid_supply \<Rightarrow> time \<Rightarrow> time \<Rightarrow> orch_db \<Rightarrow> exec_outcome" where
  "run_real_execution task_id env u now now' db =
    (case start_execution task_id u now db of
       Inl e \<Rightarrow> \<lparr> xo_db = db, xo_error = Some e, xo_calls = [] \<rparr>
     | Inr (x, db1) \<Rightarrow>
         let (result, calls) = dispatch_phase env x;
             db2 = en_world env db1
         in (case finalize_execution x result u now' db2 of
               Inl e \<Rightarrow> \<lparr> xo_db = db2, xo_error = Some e, xo_calls = calls \<rparr>
             | Inr db3 \<Rightarrow> \<lparr> xo_db = db3, xo_error = None, xo_calls = calls \<rparr>))"

section \<open>The first transaction in closed form\<close>

definition started_run :: "uuid_supply \<Rightarrow> time \<Rightarrow> task \<Rightarrow> run" where
  "started_run u now t = \<lparr>
     r_id = u 3, r_task_id = t_id t, r_workspace_id = t_workspace_id t, r_status = R_RUNNING,
     r_trigger_type = Manual, r_triggered_by_id = None, r_started_at = Some now,
     r_completed_at = None, r_duration_ms = None, r_run_config = [], r_error_summary = None,
     r_created_at = now, r_updated_at = now, r_config_locked = True \<rparr>"

definition started_step :: "uuid_supply \<Rightarrow> time \<Rightarrow> task \<Rightarrow> step" where
  "started_step u now t = \<lparr>
     s_id = u 6, s_run_id = u 3, s_workspace_id = t_workspace_id t,
     s_step_type = Agent_Invocation, s_status = S_RUNNING, s_sequence = 1,
     s_parent_step_id = None,
     s_input_snapshot = Some [(''task_title'', JStr (t_title t)),
                              (''agent_invocation_id'', JUuid (u 1))],
     s_output_snapshot = None, s_started_at = Some now, s_completed_at = None,
     s_error_detail = None, s_created_at = now, s_updated_at = now \<rparr>"

definition started_task :: "time \<Rightarrow> task \<Rightarrow> task" where
  "started_task now t = t\<lparr>t_status := T_RUNNING, t_updated_at := now\<rparr>"

definition start_events :: "uuid_supply \<Rightarrow> time \<Rightarrow> task \<Rightarrow> outbox_event list" where
  "start_events u now t =
    [task_started_event (u 2, now) (t_id t) (t_workspace_id t) (u 0) None,
     run_queued_event (u 4, now) (u 3) (t_id t) (t_workspace_id t) (u 0) ''manual'' (Some (u 2)),
     run_started_event (u 5, now) (u 3) (t_id t) (t_workspace_id t) (u 0) (Some (u 4)),
     step_started_event (u 7, now) (u 6) (u 3) (t_id t) (t_workspace_id t) (u 0)
       ''agent_invocation'' 1 (Some (u 5))]"

definition start_ctx :: "uuid_supply \<Rightarrow> time \<Rightarrow> task \<Rightarrow> exec_ctx" where
  "start_ctx u now t = \<lparr>
     xc_task_id = t_id t, xc_run_id = u 3, xc_step_id = u 6, xc_workspace_id = t_workspace_id t,
     xc_title = t_title t, xc_input_config = t_input_config t, xc_correlation = u 0,
     xc_invocation = u 1, xc_step_started = last (start_events u now t) \<rparr>"

lemma start_entities [simp]:
  "t_status (started_task now t) = T_RUNNING" "t_id (started_task now t) = t_id t"
  "t_workspace_id (started_task now t) = t_workspace_id t"
  "r_status (started_run u now t) = R_RUNNING" "r_id (started_run u now t) = u 3"
  "r_started_at (started_run u now t) = Some now" "r_completed_at (started_run u now t) = None"
  "s_status (started_step u now t) = S_RUNNING" "s_id (started_step u now t) = u 6"
  "run_row_to_domain (started_run u now t) = started_run u now t"
  by (simp_all add: started_task_def started_run_def started_step_def run_row_to_domain_def)

lemma event_ids [simp]:
  "ev_event_id (task_started_event st t w c a) = fst st"
  "ev_event_id (run_queued_event st r t w c g a) = fst st"
  "ev_event_id (run_started_event st r t w c a) = fst st"
  "ev_event_id (run_completing_event st r t w c a) = fst st"
  "ev_event_id (run_completed_event st r t w c d a) = fst st"
  "ev_event_id (run_failed_event st r t w c e a) = fst st"
  "ev_event_id (run_timed_out_event st r t w c a) = fst st"
  "ev_event_id (step_started_event st s r t w c y q a) = fst st"
  "ev_event_id (step_completed_event st s r t w c a) = fst st"
  "ev_event_id (step_failed_event st s r t w c k m a) = fst st"
  by (simp_all add: event_defs)

text \<open>The queued run of the constructor, prepared and started.\<close>

lemma new_run_started:
  assumes "run_init (u 3) now (run_kwargs (t_id t) (t_workspace_id t)) = Inr r"
  shows "\<exists>p. run_prepare now r = Inr p \<and> run_start now p = Inr (started_run u now t) \<and> r_id r = u 3
    \<and> r_id p = u 3 \<and> r_trigger_type r = Manual"
  using assms
  by (auto simp: run_init_def run_kwargs_def run_prepare_def run_start_def run_transition_def
        run_terminal_def started_run_def)

lemma new_run_ok: "\<exists>r. run_init (u 3) now (run_kwargs k ws) = Inr r"
  by (simp add: run_init_def run_kwargs_def)

lemma new_step_started:
  assumes "step_init (u 6) now (step_kwargs (u 3) (t_workspace_id t) 1) = Inr s"
  shows "step_start (Some [(''task_title'', JStr (t_title t)), (''agent_invocation_id'', JUuid (u 1))])
           now s = Inr (started_step u now t) \<and> s_id s = u 6"
  using assms
  by (auto simp: step_init_def step_kwargs_def step_start_def step_transition_def step_terminal_def
        started_step_def)

lemma new_step_ok: "\<exists>s. step_init (u 6) now (step_kwargs k ws 1) = Inr s"
  by (simp add: step_init_def step_kwargs_def)

lemma start_execution_ok:
  assumes t: "task_get k db = Some t" and pend: "t_status t = T_PENDING"
  shows "\<exists>db1. start_execution k u now db = Inr (start_ctx u now t, db1)
    \<and> task_get k db1 = Some (started_task now t)
    \<and> run_get (u 3) db1 = Some (started_run u now t)
    \<and> step_get (u 6) db1 = Some (started_step u now t)
    \<and> events_of db1 = events_of db @ start_events u now t
    \<and> (\<forall>j. j \<noteq> k \<longrightarrow> task_get j db1 = task_get j db)
    \<and> (\<forall>j. j \<noteq> u 3 \<longrightarrow> run_get j db1 = run_get j db)
    \<and> (\<forall>j. j \<noteq> u 6 \<longrightarrow> step_get j db1 = step_get j db)"
proof -
  have id: "t_id t = k" using t by (rule task_repo.get_key)
  have ts: "task_start now t = Inr (started_task now t)"
    using pend by (simp add: task_start_def task_transition_def task_terminal_def started_task_def)
  obtain r where r: "run_init (u 3) now (run_kwargs (t_id t) (t_workspace_id t)) = Inr r"
    using new_run_ok by blast
  obtain p where p: "run_prepare now r = Inr p" "run_start now p = Inr (started_run u now t)"
    "r_id r = u 3" "r_id p = u 3" "r_trigger_type r = Manual"
    using new_run_started [of u now t r, OF r] by blast
  obtain s where s: "step_init (u 6) now (step_kwargs (u 3) (t_workspace_id t) 1) = Inr s"
    using new_step_ok by blast
  note s' = new_step_started [of u now t s, OF s]
  have title: "t_title (started_task now t) = t_title t"
    "t_input_config (started_task now t) = t_input_config t"
    by (simp_all add: started_task_def)
  have rf: "s_step_type (started_step u now t) = Agent_Invocation"
    "s_sequence (started_step u now t) = 1"
    by (simp_all add: started_step_def)
  show ?thesis
    using t pend ts r p s s'
    by (simp add: start_execution_def Let_def title rf start_ctx_def start_events_def id
        task_repo.get_put run_repo.get_put step_repo.get_put value_simps)
qed

lemma start_execution_needs:
  "start_execution k u now db = Inr (x, db1) \<Longrightarrow>
   \<exists>t. task_get k db = Some t \<and> t_status t = T_PENDING \<and> x = start_ctx u now t"
proof -
  assume s: "start_execution k u now db = Inr (x, db1)"
  then obtain t where t: "task_get k db = Some t" "t_status t = T_PENDING"
    by (auto simp: start_execution_def split: option.splits if_splits)
  with start_execution_ok [OF t, of u now] s show ?thesis by auto
qed

section \<open>The second transaction in closed form\<close>

definition final_statuses :: "runtime_result \<Rightarrow> task_status \<times> run_status \<times> step_status" where
  "final_statuses r =
    (if rr_is_success r then (T_COMPLETED, R_COMPLETED, S_COMPLETED)
     else if rr_is_timeout r then (T_FAILED, R_TIMED_OUT, S_FAILED)
     else (T_FAILED, R_FAILED, S_FAILED))"

definition failure_summary :: "runtime_result \<Rightarrow> string" where
  "failure_summary r =
    (if rr_is_timeout r
     then (if str_truthy (rr_error_message r) then ''TIMEOUT: '' @ the (rr_error_message r)
           else ''Execution timed out'')
     else opt_or_str (rr_error_message r) (opt_or_str (rr_error_code r) ''Unknown error''))"

definition finish_events ::
  "exec_ctx \<Rightarrow> runtime_result \<Rightarrow> int option \<Rightarrow> uuid_supply \<Rightarrow> time \<Rightarrow> outbox_event list" where
  "finish_events x r duration u now =
    (let s = xc_step_id x; rn = xc_run_id x; t = xc_task_id x; ws = xc_workspace_id x;
         corr = xc_correlation x; cause = ev_event_id (xc_step_started x) in
     if rr_is_success r then
       [step_completed_event (u 8, now) s rn t ws corr (Some cause),
        run_completing_event (u 9, now) rn t ws corr (Some (u 8)),
        run_completed_event (u 10, now) rn t ws corr duration (Some (u 9)),
        task_completed_event (u 11, now) t ws corr (Some (u 10))]
     else if rr_is_timeout r then
       [step_failed_event (u 8, now) s rn t ws corr (Some ''TIMEOUT'') (rr_error_message r) (Some cause),
        run_timed_out_event (u 9, now) rn t ws corr (Some (u 8)),
        task_failed_event (u 10, now) t ws corr (Some (failure_summary r)) (Some (u 9))]
     else
       [step_failed_event (u 8, now) s rn t ws corr (rr_error_code r) (rr_error_message r) (Some cause),
        run_failed_event (u 9, now) rn t ws corr (Some (failure_summary r)) (Some (u 8)),
        task_failed_event (u 10, now) t ws corr (Some (failure_summary r)) (Some (u 9))])"

lemma step_complete_eq:
  "s_status s = S_RUNNING \<Longrightarrow> step_complete out now s =
     Inr (s\<lparr>s_status := S_COMPLETED, s_updated_at := now, s_completed_at := Some now,
            s_output_snapshot := Some out\<rparr>)"
  by (simp add: step_complete_def step_transition_def step_terminal_def)

lemma step_fail_eq:
  "s_status s = S_RUNNING \<Longrightarrow> step_fail (Some e) now s =
     Inr (s\<lparr>s_status := S_FAILED, s_updated_at := now, s_completed_at := Some now,
            s_error_detail := Some e\<rparr>)"
  by (simp add: step_fail_def step_transition_def step_terminal_def)

lemma run_begin_completing_eq:
  "r_status r = R_RUNNING \<Longrightarrow>
   run_begin_completing now r = Inr (r\<lparr>r_status := R_COMPLETING, r_updated_at := now\<rparr>)"
  by (simp add: run_begin_completing_def run_transition_def run_terminal_def)

lemma run_complete_eq:
  "r_status r = R_COMPLETING \<Longrightarrow> run_complete now r =
     Inr (r\<lparr>r_status := R_COMPLETED, r_updated_at := now, r_completed_at := Some now,
            r_duration_ms := compute_duration now r\<rparr>)"
  by (simp add: run_complete_def run_transition_def run_terminal_def)

lemma run_fail_eq:
  "\<lbrakk> r_status r = R_RUNNING; e \<noteq> [] \<rbrakk> \<Longrightarrow> run_fail (Some e) now r =
     Inr (r\<lparr>r_status := R_FAILED, r_updated_at := now, r_completed_at := Some now,
            r_duration_ms := compute_duration now r, r_error_summary := Some e\<rparr>)"
  by (simp add: run_fail_def run_transition_def run_terminal_def str_truthy_def)

lemma run_time_out_eq:
  "r_status r = R_RUNNING \<Longrightarrow> run_time_out now r =
     Inr (r\<lparr>r_status := R_TIMED_OUT, r_updated_at := now, r_completed_at := Some now,
            r_duration_ms := compute_duration now r\<rparr>)"
  by (simp add: run_time_out_def run_transition_def run_terminal_def)

lemma task_complete_eq:
  "t_status t = T_RUNNING \<Longrightarrow>
   task_complete now t = Inr (t\<lparr>t_status := T_COMPLETED, t_updated_at := now\<rparr>)"
  by (simp add: task_complete_def task_transition_def task_terminal_def)

lemma task_fail_eq:
  "t_status t = T_RUNNING \<Longrightarrow>
   task_fail now t = Inr (t\<lparr>t_status := T_FAILED, t_updated_at := now\<rparr>)"
  by (simp add: task_fail_def task_transition_def task_terminal_def)

lemma opt_or_str_nonempty: "d \<noteq> [] \<Longrightarrow> opt_or_str s d \<noteq> []"
  by (auto simp: opt_or_str_def str_truthy_def split: option.splits)

lemmas running_ops = step_complete_eq step_fail_eq run_begin_completing_eq run_complete_eq
  run_fail_eq run_time_out_eq task_complete_eq task_fail_eq

text \<open>What the mapping leaves behind, for each of the three mappings.\<close>

definition finished ::
  "exec_ctx \<Rightarrow> runtime_result \<Rightarrow> run \<Rightarrow> uuid_supply \<Rightarrow> time \<Rightarrow> orch_db \<Rightarrow> orch_db \<Rightarrow> bool" where
  "finished x result run u now db db' =
    ((map_option t_status (task_get (xc_task_id x) db'), map_option r_status (run_get (xc_run_id x) db'),
      map_option s_status (step_get (xc_step_id x) db')) =
       (let (ts, rs, ss) = final_statuses result in (Some ts, Some rs, Some ss))
     \<and> map_option r_duration_ms (run_get (xc_run_id x) db') = Some (compute_duration now run)
     \<and> events_of db' = events_of db @ finish_events x result (compute_duration now run) u now
     \<and> (\<forall>j. j \<noteq> xc_task_id x \<longrightarrow> task_get j db' = task_get j db)
     \<and> (\<forall>j. j \<noteq> xc_run_id x \<longrightarrow> run_get j db' = run_get j db)
     \<and> (\<forall>j. j \<noteq> xc_step_id x \<longrightarrow> step_get j db' = step_get j db))"

lemma finalize_ok:
  assumes "task_get (xc_task_id x) db = Some task" "run_get (xc_run_id x) db = Some run"
    "step_get (xc_step_id x) db = Some step"
    and "t_status task = T_RUNNING" "r_status run = R_RUNNING" "s_status step = S_RUNNING"
    and "t_workspace_id task = xc_workspace_id x"
  shows "\<exists>db'. finalize_execution x result u now db = Inr db' \<and> finished x result run u now db db'"
proof -
  have ids: "t_id task = xc_task_id x" "r_id run = xc_run_id x" "s_id step = xc_step_id x"
    using assms task_repo.get_key run_repo.get_key step_repo.get_key by blast+
  note putget = task_repo.get_put run_repo.get_put step_repo.get_put
  consider (s) "rr_is_success result" | (t) "\<not> rr_is_success result" "rr_is_timeout result"
    | (f) "\<not> rr_is_success result" "\<not> rr_is_timeout result" by blast
  then show ?thesis
  proof cases
    case s
    then show ?thesis
      using assms ids
      by (simp add: finalize_execution_def handle_success_def running_ops Let_def finished_def putget
          final_statuses_def finish_events_def)
  next
    case t
    then show ?thesis
      using assms ids
      by (simp add: finalize_execution_def handle_timeout_def running_ops Let_def finished_def putget
          final_statuses_def finish_events_def failure_summary_def)
  next
    case f
    have "opt_or_str (rr_error_message result) (opt_or_str (rr_error_code result) ''Unknown error'') \<noteq> []"
      by (rule opt_or_str_nonempty) (rule opt_or_str_nonempty, simp)
    with f show ?thesis
      using assms ids
      by (simp add: finalize_execution_def handle_failure_def running_ops Let_def finished_def putget
          final_statuses_def finish_events_def failure_summary_def)
  qed
qed

text \<open>A step that is not running (nor blocked) stops the mapping.\<close>

lemma finalize_raises:
  assumes "step_get (xc_step_id x) db = Some step" and "s_status step \<notin> {S_RUNNING, S_BLOCKED}"
  shows "\<not> is_ok (finalize_execution x result u now db)"
proof -
  have "\<not> is_ok (step_complete out now step)" "\<not> is_ok (step_fail e now step)" for out e
    using step_apply_ok [of "SComplete out" now step] step_apply_ok [of "SFail e" now step] assms(2)
    by simp_all
  then obtain e1 e2 where "\<And>out. \<exists>e. step_complete out now step = Inl e"
    "\<And>d. \<exists>e. step_fail d now step = Inl e"
    by (metis is_ok_iff obj_sumE)
  then show ?thesis
    by (auto simp: finalize_execution_def handle_success_def handle_failure_def handle_timeout_def
        Let_def assms(1) is_ok_iff raising_Inr_iff rbind_Inr_iff split: option.splits)
      (metis Inl_Inr_False)+
qed

section \<open>The simulated loop\<close>

text \<open>\<open>simulated_loop.py\<close>: the same lifecycle in one transaction with no runtime behind it.\<close>

definition run_simulated_execution ::
  "uuid \<Rightarrow> uuid_supply \<Rightarrow> time \<Rightarrow> orch_db \<Rightarrow> handler_error + orch_db" where
  "run_simulated_execution task_id u now db =
    (case task_get task_id db of
       None \<Rightarrow> Inl (PyValueError ''Task not found'')
     | Some task0 \<Rightarrow>
    if t_status task0 \<noteq> T_PENDING
    then Inl (PyValueError (''expected pending, is '' @ task_status_value (t_status task0)))
    else
    let corr = u 0 in
    rbind (raising (task_start now task0)) (\<lambda>task.
    let db = task_save task db;
        task_started = task_started_event (u 1, now) (t_id task) (t_workspace_id task) corr None;
        db = outbox_write task_started db in
    rbind (raising (run_init (u 2) now (run_kwargs (t_id task) (t_workspace_id task)))) (\<lambda>run.
    let db = run_save run db;
        run_queued = run_queued_event (u 3, now) (r_id run) (t_id task) (t_workspace_id task) corr
          (trigger_type_value (r_trigger_type run)) (Some (ev_event_id task_started));
        db = outbox_write run_queued db in
    rbind (raising (run_prepare now run)) (\<lambda>run.
    let db = run_save run db in
    rbind (raising (run_start now run)) (\<lambda>run.
    let db = run_save run db;
        run_started = run_started_event (u 4, now) (r_id run) (t_id task) (t_workspace_id task) corr
          (Some (ev_event_id run_queued));
        db = outbox_write run_started db in
    rbind (raising (step_init (u 5) now (step_kwargs (r_id run) (t_workspace_id task) 1))) (\<lambda>step.
    let db = step_save step db in
    rbind (raising (step_start (Some [(''simulated'', JBool True),
                                  (''task_title'', JStr (t_title task))]) now step)) (\<lambda>step.
    let db = step_save step db;
        step_started = step_started_event (u 6, now) (s_id step) (r_id run) (t_id task)
          (t_workspace_id task) corr (step_type_value (s_step_type step)) (s_sequence step)
          (Some (ev_event_id run_started));
        db = outbox_write step_started db in
    rbind (raising (step_complete [(''simulated'', JBool True), (''result'', JStr ''success'')]
                      now step)) (\<lambda>step.
    let db = step_save step db;
        step_completed = step_completed_event (u 7, now) (s_id step) (r_id run) (t_id task)
          (t_workspace_id task) corr (Some (ev_event_id step_started));
        db = outbox_write step_completed db in
    rbind (raising (run_begin_completing now run)) (\<lambda>run.
    let db = run_save run db;
        run_completing = run_completing_event (u 8, now) (r_id run) (t_id task)
          (t_workspace_id task) corr (Some (ev_event_id step_completed));
        db = outbox_write run_completing db in
    rbind (raising (run_complete now run)) (\<lambda>run.
    let db = run_save run db;
        run_completed = run_completed_event (u 9, now) (r_id run) (t_id task)
          (t_workspace_id task) corr (r_duration_ms run) (Some (ev_event_id run_completing));
        db = outbox_write run_completed db in
    rbind (raising (task_complete now task)) (\<lambda>task.
    let db = task_save task db in
    Inr (outbox_write (task_completed_event (u 10, now) (t_id task) (t_workspace_id task) corr
           (Some (ev_event_id run_completed))) db))))))))))))"

text \<open>The batch: ids of at most ten pending tasks, each in its own transaction, failures skipped.
  \<open>us i\<close> is the supply of the i-th task.\<close>

fun simulate_ids ::
  "(nat \<Rightarrow> uuid_supply) \<Rightarrow> time \<Rightarrow> nat \<Rightarrow> uuid list \<Rightarrow> orch_db \<Rightarrow> uuid list \<times> orch_db" where
  "simulate_ids us now i [] db = ([], db)"
| "simulate_ids us now i (k # ks) db =
     (case run_simulated_execution k (us i) now db of
        Inl e \<Rightarrow> simulate_ids us now (Suc i) ks db
      | Inr db' \<Rightarrow> (let (done_ids, db'') = simulate_ids us now (Suc i) ks db'
                    in (k # done_ids, db'')))"

definition execute_pending_tasks ::
  "(nat \<Rightarrow> uuid_supply) \<Rightarrow> time \<Rightarrow> orch_db \<Rightarrow> uuid list \<times> orch_db" where
  "execute_pending_tasks us now db =
     simulate_ids us now 0 (map t_id (task_list_pending 10 db)) db"

section \<open>Properties\<close>

definition world_keeps :: "exec_env \<Rightarrow> uuid \<Rightarrow> uuid \<Rightarrow> uuid \<Rightarrow> bool" where
  "world_keeps env k rid sid =
    (\<forall>d. task_get k (en_world env d) = task_get k d \<and> run_get rid (en_world env d) = run_get rid d
       \<and> step_get sid (en_world env d) = step_get sid d)"

lemma run_real_execution_ok:
  assumes "task_get k db = Some t" "t_status t = T_PENDING" "world_keeps env k (u 3) (u 6)"
  shows "\<exists>db1. start_execution k u now db = Inr (start_ctx u now t, db1)
    \<and> events_of db1 = events_of db @ start_events u now t
    \<and> xo_error (run_real_execution k env u now now' db) = None
    \<and> finished (start_ctx u now t) (fst (dispatch_phase env (start_ctx u now t)))
        (started_run u now t) u now' (en_world env db1) (xo_db (run_real_execution k env u now now' db))"
proof -
  let ?x = "start_ctx u now t" and ?r = "fst (dispatch_phase env (start_ctx u now t))"
  have id: "t_id t = k" using assms(1) by (rule task_repo.get_key)
  obtain db1 where db1: "start_execution k u now db = Inr (?x, db1)"
    "task_get k db1 = Some (started_task now t)" "run_get (u 3) db1 = Some (started_run u now t)"
    "step_get (u 6) db1 = Some (started_step u now t)"
    "events_of db1 = events_of db @ start_events u now t"
    using start_execution_ok [OF assms(1,2), of u now] by blast
  have "\<exists>db'. finalize_execution ?x ?r u now' (en_world env db1) = Inr db'
      \<and> finished ?x ?r (started_run u now t) u now' (en_world env db1) db'"
    using db1 assms(3) id
    by (intro finalize_ok [where task = "started_task now t" and step = "started_step u now t"])
       (simp_all add: world_keeps_def start_ctx_def)
  with db1 show ?thesis
    by (cases "dispatch_phase env ?x") (auto simp: run_real_execution_def Let_def)
qed


definition causal_chain :: "outbox_event list \<Rightarrow> bool" where
  "causal_chain es =
    (successively (\<lambda>a b. ev_causation_id b = Some (ev_event_id a)) es
     \<and> (case es of [] \<Rightarrow> True | e # _ \<Rightarrow> ev_causation_id e = None
          \<and> list_all (\<lambda>b. ev_correlation_id b = ev_correlation_id e
                \<and> ev_task_id b = ev_task_id e) es))"

definition execution_event_types :: "runtime_result \<Rightarrow> string list" where
  "execution_event_types r =
    [''task.started'', ''run.queued'', ''run.started'', ''step.started''] @
    (if rr_is_success r
     then [''step.completed'', ''run.completing'', ''run.completed'', ''task.completed'']
     else [''step.failed'', if rr_is_timeout r then ''run.timed_out'' else ''run.failed'', ''task.failed''])"

lemma execution_events_chain:
  "causal_chain (start_events u now t @ finish_events (start_ctx u now t) r d u now')
   \<and> map ev_event_type (start_events u now t @ finish_events (start_ctx u now t) r d u now') =
     execution_event_types r"
  by (simp add: start_events_def finish_events_def start_ctx_def causal_chain_def event_defs
      execution_event_types_def Let_def)

text \<open>The events an undisturbed execution appends to the outbox: seven or eight of them, of the
  types the outcome calls for and in lifecycle order, each caused by the one before it, all
  with one correlation id and the task's id.\<close>

theorem real_execution_events:
  assumes "task_get k db = Some t" "t_status t = T_PENDING" "en_world env = id"
  shows "\<exists>es. events_of (xo_db (run_real_execution k env u now now' db)) = events_of db @ es
    \<and> causal_chain es
    \<and> map ev_event_type es = execution_event_types (fst (dispatch_phase env (start_ctx u now t)))"
proof -
  have w: "world_keeps env k (u 3) (u 6)" using assms(3) by (simp add: world_keeps_def)
  let ?r = "fst (dispatch_phase env (start_ctx u now t))"
  let ?f = "finish_events (start_ctx u now t) ?r (compute_duration now' (started_run u now t)) u now'"
  have "events_of (xo_db (run_real_execution k env u now now' db)) = events_of db @ start_events u now t @ ?f"
    using run_real_execution_ok [OF assms(1,2) w, of now now'] assms(3)
    by (auto simp: finished_def)
  with execution_events_chain [of u now t ?r _ now'] show ?thesis by blast
qed

text \<open>Work that lost its race is dropped: when another transaction (a cancellation, a
  recovery sweep) has moved the step out of running while the runtime was busy, the result is
  discarded with an exception and the database stays as that transaction left it.\<close>

theorem late_result_is_dropped:
  assumes "start_execution k u now db = Inr (x, db1)"
    and "step_get (xc_step_id x) (en_world env db1) = Some step"
    and "s_status step \<notin> {S_RUNNING, S_BLOCKED}"
  shows "xo_db (run_real_execution k env u now now' db) = en_world env db1
    \<and> xo_error (run_real_execution k env u now now' db) \<noteq> None"
proof -
  have "\<not> is_ok (finalize_execution x r u now' (en_world env db1))" for r
    using assms(2,3) by (rule finalize_raises)
  then have "\<exists>e. finalize_execution x r u now' (en_world env db1) = Inl e" for r
    by (metis is_ok_iff obj_sumE)
  then obtain e where
    "finalize_execution x (fst (dispatch_phase env x)) u now' (en_world env db1) = Inl e" by blast
  with assms(1) show ?thesis
    by (cases "dispatch_phase env x") (simp add: run_real_execution_def Let_def)
qed

text \<open>A sandbox never outlives the call it was made for: the sandboxes terminated are exactly
  those successfully provisioned (at most one), termination is the last call made, and nothing
  is dispatched when provisioning failed.\<close>

theorem sandbox_lifetime:
  "case start_execution k u now db of
     Inl e \<Rightarrow> xo_calls (run_real_execution k env u now now' db) = []
   | Inr (x, db1) \<Rightarrow>
       (let calls = xo_calls (run_real_execution k env u now now' db);
            made = (if en_service env \<and> \<not> en_skip_sandbox env
                    then case en_provision env (xc_workspace_id x) (xc_task_id x) (xc_run_id x)
                                (xc_step_id x) (xc_invocation x) of Inl _ \<Rightarrow> [] | Inr s \<Rightarrow> [s]
                    else [])
        in map (\<lambda>c. case c of Terminate_Sandbox s _ \<Rightarrow> s | _ \<Rightarrow> 0)
             (filter (\<lambda>c. case c of Terminate_Sandbox _ _ \<Rightarrow> True | _ \<Rightarrow> False) calls) = made
         \<and> (made = [] \<or> last calls =
              Terminate_Sandbox (hd made) (map_termination_reason (fst (dispatch_phase env x))))
         \<and> length (filter (\<lambda>c. case c of Dispatch_Invocation _ \<Rightarrow> True | _ \<Rightarrow> False) calls) =
             (if made = [] \<and> en_service env \<and> \<not> en_skip_sandbox env then 0 else 1))"
proof (cases "start_execution k u now db")
  case (Inr p)
  obtain x db1 where p: "p = (x, db1)" by (cases p)
  have "xo_calls (run_real_execution k env u now now' db) = snd (dispatch_phase env x)"
    by (cases "dispatch_phase env x") (simp add: run_real_execution_def Inr p Let_def split: sum.split)
  then show ?thesis
    by (simp add: Inr p Let_def dispatch_phase_def split: sum.split)
qed (simp add: run_real_execution_def)

lemma run_simulated_ok:
  assumes t: "task_get k db = Some t" and pend: "t_status t = T_PENDING"
  shows "\<exists>db' es. run_simulated_execution k u now db = Inr db'
    \<and> events_of db' = events_of db @ es \<and> causal_chain es
    \<and> map ev_event_type es =
        [''task.started'', ''run.queued'', ''run.started'', ''step.started'',
         ''step.completed'', ''run.completing'', ''run.completed'', ''task.completed'']
    \<and> map_option t_status (task_get k db') = Some T_COMPLETED
    \<and> map_option r_status (run_get (u 2) db') = Some R_COMPLETED
    \<and> map_option s_status (step_get (u 5) db') = Some S_COMPLETED"
proof -
  have id: "t_id t = k" using t by (rule task_repo.get_key)
  have ts: "task_start now t = Inr (started_task now t)"
    using pend by (simp add: task_start_def task_transition_def task_terminal_def started_task_def)
  obtain r p where r: "run_init (u 2) now (run_kwargs (t_id t) (t_workspace_id t)) = Inr r"
    "run_prepare now r = Inr p" "r_id r = u 2" "r_id p = u 2" "r_status p = R_PREPARING"
    by (auto simp: run_init_def run_kwargs_def run_prepare_def run_transition_def run_terminal_def)
  obtain r2 where r2: "run_start now p = Inr r2" "r_status r2 = R_RUNNING" "r_id r2 = u 2"
    using r by (auto simp: run_start_def run_transition_def run_terminal_def)
  obtain s s2 where s: "step_init (u 5) now (step_kwargs (u 2) (t_workspace_id t) 1) = Inr s"
    "step_start (Some [(''simulated'', JBool True), (''task_title'', JStr (t_title t))]) now s = Inr s2"
    "s_id s = u 5" "s_id s2 = u 5" "s_status s2 = S_RUNNING"
    by (auto simp: step_init_def step_kwargs_def step_start_def step_transition_def
        step_terminal_def Let_def)
  have title: "t_title (started_task now t) = t_title t" by (simp add: started_task_def)
  show ?thesis
    using t pend ts r r2 s id title
    by (auto simp: run_simulated_execution_def Let_def running_ops task_repo.get_put
        run_repo.get_put step_repo.get_put causal_chain_def event_defs)
qed

text \<open>The simulated loop is the real one with a runtime that succeeds: on any pending task both
  end without an exception with task, run and step completed, and append event sequences of the
  same types, in the same order, each a causal chain.\<close>

theorem simulated_matches_real:
  assumes "task_get k db = Some t" "t_status t = T_PENDING" "en_world env = id"
    and "rr_is_success (fst (dispatch_phase env (start_ctx u now t)))"
  shows "\<exists>db_s es_s es_r. run_simulated_execution k u' now db = Inr db_s
    \<and> events_of db_s = events_of db @ es_s
    \<and> events_of (xo_db (run_real_execution k env u now now' db)) = events_of db @ es_r
    \<and> map ev_event_type es_s = map ev_event_type es_r \<and> causal_chain es_s \<and> causal_chain es_r
    \<and> map_option t_status (task_get k db_s) =
        map_option t_status (task_get k (xo_db (run_real_execution k env u now now' db)))
    \<and> map_option r_status (run_get (u' 2) db_s) =
        map_option r_status (run_get (u 3) (xo_db (run_real_execution k env u now now' db)))
    \<and> map_option s_status (step_get (u' 5) db_s) =
        map_option s_status (step_get (u 6) (xo_db (run_real_execution k env u now now' db)))"
proof -
  have w: "world_keeps env k (u 3) (u 6)" using assms(3) by (simp add: world_keeps_def)
  have id: "t_id t = k" using assms(1) by (rule task_repo.get_key)
  let ?r = "fst (dispatch_phase env (start_ctx u now t))"
  let ?out = "run_real_execution k env u now now' db"
  let ?es = "start_events u now t @
    finish_events (start_ctx u now t) ?r (compute_duration now' (started_run u now t)) u now'"
  have "events_of (xo_db ?out) = events_of db @ ?es"
    and "map_option t_status (task_get k (xo_db ?out)) = Some T_COMPLETED"
    "map_option r_status (run_get (u 3) (xo_db ?out)) = Some R_COMPLETED"
    "map_option s_status (step_get (u 6) (xo_db ?out)) = Some S_COMPLETED"
    using run_real_execution_ok [OF assms(1,2) w, of now now'] assms(3,4) id
    by (auto simp: finished_def start_ctx_def final_statuses_def)
  with run_simulated_ok [OF assms(1,2), of u' now] execution_events_chain [of u now t ?r _ now']
    assms(4)
  show ?thesis by (auto simp: execution_event_types_def)
qed

section \<open>Witnesses\<close>

definition demo_env :: "(dispatch_request \<Rightarrow> py_exc + runtime_result) \<Rightarrow> exec_env" where
  "demo_env dispatch = \<lparr> en_service = True, en_skip_sandbox = False, en_model_alias = ''default'',
     en_timeout_ms = 120000, en_provision = (\<lambda>ws t r s i. Inr 77), en_dispatch = dispatch,
     en_world = id \<rparr>"

definition demo_ok :: "dispatch_request \<Rightarrow> py_exc + runtime_result" where
  "demo_ok q = Inr ((runtime_error (dr_invocation_id q) [] [])\<lparr> rr_status := ''completed'' \<rparr>)"

lemma demo_pending: "task_get 3 demo_db = Some (demo_task 3 T_PENDING)"
  "t_status (demo_task 3 T_PENDING) = T_PENDING"
  by (simp_all add: task_get_def demo_db_def demo_task_def empty_db_def)

lemma demo_world [simp]: "en_world (demo_env d) = id" "world_keeps (demo_env d) k r s"
  by (simp_all add: demo_env_def world_keeps_def)

lemma demo_success: "rr_is_success (fst (dispatch_phase (demo_env demo_ok) x))"
  by (simp add: dispatch_phase_def dispatch_result_def demo_env_def demo_ok_def rr_is_success_def Let_def)


theorem real_execution_events_witness:
  "\<exists>es. events_of (xo_db (run_real_execution 3 (demo_env demo_ok) demo_supply 50 60 demo_db)) = es
    \<and> causal_chain es \<and> length es = 8"
proof -
  have "events_of demo_db = []" by (simp add: demo_db_def empty_db_def events_of_def)
  moreover note demo_success
  ultimately show ?thesis
    using real_execution_events [OF demo_pending, of "demo_env demo_ok" demo_supply 50 60]
    by (auto simp: execution_event_types_def)
qed

definition demo_cancelling_env :: exec_env where
  "demo_cancelling_env = (demo_env demo_ok)\<lparr> en_world := (\<lambda>db.
     committed db (handle_cancel_task 3 (Some 8) (\<lambda>i. 200 + i) 55 db)) \<rparr>"

theorem late_result_is_dropped_witness:
  "xo_error (run_real_execution 3 demo_cancelling_env demo_supply 50 60 demo_db) \<noteq> None"
proof -
  have "case start_execution 3 demo_supply 50 demo_db of Inl e \<Rightarrow> False | Inr (x, db1) \<Rightarrow>
      (case step_get (xc_step_id x) (en_world demo_cancelling_env db1) of None \<Rightarrow> False
       | Some s \<Rightarrow> s_status s = S_CANCELLED)"
    by code_simp
  then obtain x db1 s where "start_execution 3 demo_supply 50 demo_db = Inr (x, db1)"
    "step_get (xc_step_id x) (en_world demo_cancelling_env db1) = Some s" "s_status s = S_CANCELLED"
    by (auto split: sum.splits prod.splits option.splits)
  with late_result_is_dropped [of 3 demo_supply 50 demo_db x db1 demo_cancelling_env s 60]
  show ?thesis by simp
qed

theorem simulated_matches_real_witness:
  "\<exists>db_s. run_simulated_execution 3 demo_supply 50 demo_db = Inr db_s
    \<and> map_option t_status (task_get 3 db_s) = map_option t_status (task_get 3
        (xo_db (run_real_execution 3 (demo_env demo_ok) demo_supply 50 60 demo_db)))"
  using simulated_matches_real [OF demo_pending demo_world(1) demo_success,
    where u' = demo_supply and now' = 60] by blast

end
