(* ===== verification/Orch_Recovery.thy ===== *)
theory Orch_Recovery
  imports Orch_Handlers
begin

text \<open>
  \<open>apps/orchestrator/src/application/recovery.py\<close>: the periodic sweep over stuck runs, stuck
  steps and orphaned tasks.  Each candidate is recovered in its own transaction, whose guards
  look at the row again.  \<open>us i\<close> is the supply of the i-th recovery (the correlation id, then
  the event id); the clock readings of one sweep are one instant.
\<close>

record recovery_result =
  rec_entity :: string
  rec_id :: uuid
  rec_previous_status :: string
  rec_action :: string
  rec_success :: bool

definition minutes :: "int \<Rightarrow> int" where
  "minutes m = m * 60 * 1000000"

definition stuck_run_statuses :: "run_status list" where
  "stuck_run_statuses = [R_PREPARING, R_RUNNING, R_COMPLETING]"

definition stuck_step_statuses :: "step_status list" where
  "stuck_step_statuses = [S_RUNNING]"

record recovery_config =
  rc_preparing_minutes :: int
  rc_running_minutes :: int
  rc_completing_minutes :: int
  rc_step_running_minutes :: int

definition default_recovery :: recovery_config where
  "default_recovery = \<lparr> rc_preparing_minutes = 5, rc_running_minutes = 30,
     rc_completing_minutes = 5, rc_step_running_minutes = 30 \<rparr>"

section \<open>Runs\<close>

fun cancel_best_effort :: "time \<Rightarrow> step list \<Rightarrow> orch_db \<Rightarrow> orch_db" where
  "cancel_best_effort now [] db = db"
| "cancel_best_effort now (s # ss) db =
     cancel_best_effort now ss
       (case step_cancel now s of Inl _ \<Rightarrow> db | Inr s' \<Rightarrow> step_save s' db)"

definition recover_run_action :: "time \<Rightarrow> run \<Rightarrow> domain_error + (run \<times> string)" where
  "recover_run_action now r =
    (if r_status r = R_COMPLETING
     then (case run_complete now r of
             Inr r' \<Rightarrow> Inr (r', ''force_completed'')
           | Inl _ \<Rightarrow> rbind (run_fail (Some ''Recovery sweep: stuck in completing'') now r)
                        (\<lambda>r'. Inr (r', ''marked_failed'')))
     else if r_status r = R_RUNNING
     then rbind (run_fail (Some ''Recovery sweep: stuck in running'') now r)
            (\<lambda>r'. Inr (r', ''marked_failed''))
     else rbind (run_fail (Some ''Recovery sweep: stuck in preparing'') now r)
            (\<lambda>r'. Inr (r', ''marked_failed'')))"

definition recover_single_run ::
  "uuid \<Rightarrow> uuid \<Rightarrow> uuid \<Rightarrow> run_status \<Rightarrow> uuid_supply \<Rightarrow> time \<Rightarrow> orch_db
   \<Rightarrow> recovery_result \<times> orch_db" where
  "recover_single_run run_id task_id ws previous u now db =
    (let prev = run_status_value previous;
         result = (\<lambda>act ok. \<lparr> rec_entity = ''run'', rec_id = run_id, rec_previous_status = prev,
                              rec_action = act, rec_success = ok \<rparr>)
     in case run_get run_id db of
          None \<Rightarrow> (result ''skipped_already_terminal'' True, db)
        | Some r \<Rightarrow>
            if run_is_terminal r then (result ''skipped_already_terminal'' True, db)
            else if r_status r \<notin> set stuck_run_statuses
            then (result ''skipped_no_longer_stuck'' True, db)
            else (case recover_run_action now r of
                    Inl _ \<Rightarrow> (result ''reconciliation_failed'' False, db)
                  | Inr (r', act) \<Rightarrow>
                      let db1 = run_save r' db;
                          db2 = cancel_best_effort now (step_list_active_by_run run_id db1) db1;
                          db3 = outbox_write (run_recovered_event (u 1, now) run_id task_id ws (u 0)
                                  prev act) db2
                      in (result act True, db3)))"

definition list_stuck_runs :: "recovery_config \<Rightarrow> time \<Rightarrow> orch_db \<Rightarrow> run list" where
  "list_stuck_runs cfg now db =
     run_list_stuck_for_update (now - minutes (rc_preparing_minutes cfg)) [R_PREPARING] 100 db
     @ run_list_stuck_for_update (now - minutes (rc_running_minutes cfg)) [R_RUNNING] 100 db
     @ run_list_stuck_for_update (now - minutes (rc_completing_minutes cfg)) [R_COMPLETING] 100 db"

definition recover_run_step ::
  "(nat \<Rightarrow> uuid_supply) \<Rightarrow> time \<Rightarrow> nat \<Rightarrow> run \<Rightarrow> orch_db \<Rightarrow> recovery_result option \<times> orch_db" where
  "recover_run_step us now i r db =
     (let (res, db') = recover_single_run (r_id r) (r_task_id r) (r_workspace_id r) (r_status r)
                         (us i) now db
      in (Some res, db'))"

definition recover_stuck_runs ::
  "recovery_config \<Rightarrow> (nat \<Rightarrow> uuid_supply) \<Rightarrow> time \<Rightarrow> orch_db \<Rightarrow> recovery_result list \<times> orch_db" where
  "recover_stuck_runs cfg us now db =
     sweep (recover_run_step us now) 0 (list_stuck_runs cfg now db) db"

section \<open>Steps\<close>

definition recover_single_step ::
  "uuid \<Rightarrow> uuid \<Rightarrow> uuid \<Rightarrow> uuid_supply \<Rightarrow> time \<Rightarrow> orch_db \<Rightarrow> recovery_result \<times> orch_db" where
  "recover_single_step step_id run_id ws u now db =
    (let result = (\<lambda>prev act ok. \<lparr> rec_entity = ''step'', rec_id = step_id,
                     rec_previous_status = prev, rec_action = act, rec_success = ok \<rparr>)
     in case step_get step_id db of
          None \<Rightarrow> (result ''running'' ''skipped_already_terminal'' True, db)
        | Some s \<Rightarrow>
            if step_is_terminal s then (result ''running'' ''skipped_already_terminal'' True, db)
            else if s_status s \<notin> set stuck_step_statuses
            then (result (step_status_value (s_status s)) ''skipped_no_longer_stuck'' True, db)
            else (case step_fail (Some [(''code'', JStr ''RECOVERY_SWEEP''),
                            (''message'', JStr ''Step stuck in running, recovered by sweep'')]) now s of
                    Inl _ \<Rightarrow> (result ''running'' ''reconciliation_failed'' False, db)
                  | Inr s' \<Rightarrow>
                      let db1 = step_save s' db;
                          db2 = (case run_get run_id db1 of
                                   None \<Rightarrow> db1
                                 | Some r \<Rightarrow> outbox_write (step_recovered_event (u 1, now) step_id
                                     run_id (r_task_id r) ws (u 0) (step_status_value (s_status s))
                                     ''marked_failed'') db1)
                      in (result (step_status_value (s_status s)) ''marked_failed'' True, db2)))"

definition recover_step_step ::
  "(nat \<Rightarrow> uuid_supply) \<Rightarrow> time \<Rightarrow> nat \<Rightarrow> step \<Rightarrow> orch_db \<Rightarrow> recovery_result option \<times> orch_db" where
  "recover_step_step us now i s db =
     (let (res, db') = recover_single_step (s_id s) (s_run_id s) (s_workspace_id s) (us i) now db
      in (Some res, db'))"

definition list_stuck_steps :: "recovery_config \<Rightarrow> time \<Rightarrow> orch_db \<Rightarrow> step list" where
  "list_stuck_steps cfg now db =
     step_list_stuck_for_update (now - minutes (rc_step_running_minutes cfg)) stuck_step_statuses 100 db"

definition recover_stuck_steps ::
  "recovery_config \<Rightarrow> (nat \<Rightarrow> uuid_supply) \<Rightarrow> time \<Rightarrow> orch_db \<Rightarrow> recovery_result list \<times> orch_db" where
  "recover_stuck_steps cfg us now db =
     sweep (recover_step_step us now) 0 (list_stuck_steps cfg now db) db"

section \<open>Tasks\<close>

definition recover_single_task ::
  "uuid \<Rightarrow> uuid \<Rightarrow> uuid_supply \<Rightarrow> time \<Rightarrow> orch_db \<Rightarrow> recovery_result option \<times> orch_db" where
  "recover_single_task task_id ws u now db =
    (let result = (\<lambda>act ok. \<lparr> rec_entity = ''task'', rec_id = task_id,
                     rec_previous_status = ''running'', rec_action = act, rec_success = ok \<rparr>)
     in case task_get task_id db of
          None \<Rightarrow> (None, db)
        | Some t \<Rightarrow>
            if task_terminal (t_status t) then (None, db)
            else if t_status t \<noteq> T_RUNNING then (None, db)
            else if run_list_active_by_task task_id db \<noteq> [] then (None, db)
            else
              (let (moved, act) =
                 (case run_get_latest_by_task task_id db of
                    None \<Rightarrow> (task_fail now t, ''marked_failed'')
                  | Some r \<Rightarrow> if r_status r = R_COMPLETED
                              then (task_complete now t, ''marked_completed'')
                              else (task_fail now t, ''marked_failed''))
               in case moved of
                    Inl _ \<Rightarrow> (Some (result ''reconciliation_failed'' False), db)
                  | Inr t' \<Rightarrow>
                      let db1 = task_save t' db;
                          db2 = outbox_write (task_recovered_event (u 1, now) task_id ws (u 0)
                                  ''running'' act) db1
                      in (Some (result act True), db2)))"

definition recover_task_step ::
  "(nat \<Rightarrow> uuid_supply) \<Rightarrow> time \<Rightarrow> nat \<Rightarrow> task \<Rightarrow> orch_db \<Rightarrow> recovery_result option \<times> orch_db" where
  "recover_task_step us now i t db =
     recover_single_task (t_id t) (t_workspace_id t) (us i) now db"

definition recover_orphaned_tasks ::
  "(nat \<Rightarrow> uuid_supply) \<Rightarrow> time \<Rightarrow> orch_db \<Rightarrow> recovery_result list \<times> orch_db" where
  "recover_orphaned_tasks us now db =
     sweep (recover_task_step us now) 0 (task_list_running 50 db) db"

section \<open>The sweep\<close>

text \<open>The three phases take their supplies from three families.\<close>

definition recover_stuck_entities ::
  "recovery_config \<Rightarrow> (nat \<Rightarrow> nat \<Rightarrow> uuid_supply) \<Rightarrow> time \<Rightarrow> orch_db
   \<Rightarrow> recovery_result list \<times> orch_db" where
  "recover_stuck_entities cfg us now db =
    (let (rs1, db1) = recover_stuck_runs cfg (us 0) now db;
         (rs2, db2) = recover_stuck_steps cfg (us 1) now db1;
         (rs3, db3) = recover_orphaned_tasks (us 2) now db2
     in (rs1 @ rs2 @ rs3, db3))"

section \<open>One run\<close>

lemma cancel_best_effort_active:
  "\<forall>s \<in> set ss. step_is_active s \<Longrightarrow>
   cancel_best_effort now ss db = fold step_save (map (cancelled_step now) ss) db"
  by (induction ss arbitrary: db) (simp_all add: step_cancel_eq)

lemma cancel_active_steps:
  "cancel_best_effort now (step_list_active_by_run k db) db = cancel_steps_db now k db"
  unfolding cancel_steps_db_def
  by (rule cancel_best_effort_active) (use active_steps_active in blast)

lemma recover_run_action_ok:
  assumes "r_status r \<in> set stuck_run_statuses"
  shows "\<exists>r' act. recover_run_action now r = Inr (r', act) \<and> r_id r' = r_id r
    \<and> r_task_id r' = r_task_id r
    \<and> r_status r' = (if r_status r = R_COMPLETING then R_COMPLETED else R_FAILED)"
  using assms
  by (auto simp: stuck_run_statuses_def recover_run_action_def run_complete_def run_fail_def
      run_transition_def run_terminal_def Let_def split: if_splits)

definition run_stuck_in :: "run \<Rightarrow> bool" where
  "run_stuck_in r = (r_status r \<in> set stuck_run_statuses)"

lemma run_stuck_row [simp]: "run_stuck_in (run_row_to_domain r) = run_stuck_in r"
  by (simp add: run_stuck_in_def)

lemma recover_run_cases:
  obtains (recovered) r r' e where "run_get k db = Some r" "run_stuck_in r" "r_id r' = k"
      "r_task_id r' = r_task_id r"
      "r_status r' = (if r_status r = R_COMPLETING then R_COMPLETED else R_FAILED)"
      "snd (recover_single_run k tid ws prev u now db) =
         outbox_write e (cancel_steps_db now k (run_save r' db))"
  | (skipped) "snd (recover_single_run k tid ws prev u now db) = db"
      "\<forall>r. run_get k db = Some r \<longrightarrow> \<not> run_stuck_in r"
proof (cases "run_get k db")
  case None
  then show ?thesis by (intro skipped) (simp_all add: recover_single_run_def)
next
  case (Some r)
  show ?thesis
  proof (cases "run_stuck_in r")
    case True
    then have st: "r_status r \<in> set stuck_run_statuses" by (simp add: run_stuck_in_def)
    then have "\<not> run_is_terminal r"
      by (auto simp: run_is_terminal_def run_terminal_def stuck_run_statuses_def)
    moreover obtain r' act where "recover_run_action now r = Inr (r', act)" "r_id r' = r_id r"
      "r_task_id r' = r_task_id r"
      "r_status r' = (if r_status r = R_COMPLETING then R_COMPLETED else R_FAILED)"
      using recover_run_action_ok [OF st] by blast
    moreover have "r_id r = k" using Some by (rule run_repo.get_key)
    ultimately show ?thesis
      using Some True st by (intro recovered) (auto simp: recover_single_run_def cancel_active_steps Let_def)
  next
    case False
    then show ?thesis
      using Some by (intro skipped) (auto simp: recover_single_run_def run_stuck_in_def Let_def)
  qed
qed

lemma run_get_rows:
  "db_wf db \<Longrightarrow> r \<in> set (db_runs db) \<Longrightarrow> run_get (r_id r) db = Some (run_row_to_domain r)"
  by (simp add: run_get_def db_wf_def find_row_distinct)

lemma run_save_rows:
  "db_wf db \<Longrightarrow> set (db_runs (run_save r db)) = insert r {x \<in> set (db_runs db). r_id x \<noteq> r_id r}"
  by (simp add: run_save_def db_wf_def set_upsert)

lemma recover_run_wf: "db_wf db \<Longrightarrow> db_wf (snd (recover_single_run k tid ws prev u now db))"
  by (rule recover_run_cases [of k db tid ws prev u now]) auto

text \<open>After a recovery the run is not stuck, rows that were not stuck are kept, no row becomes
  stuck, and no step becomes active.\<close>

definition run_recovery_rows :: "uuid \<Rightarrow> orch_db \<Rightarrow> orch_db \<Rightarrow> bool" where
  "run_recovery_rows k db db' =
    ((\<forall>r \<in> set (db_runs db'). run_stuck_in r \<longrightarrow> r \<in> set (db_runs db) \<and> r_id r \<noteq> k)
     \<and> (\<forall>r \<in> set (db_runs db). \<not> run_stuck_in r \<or> r_id r \<noteq> k \<longrightarrow> r \<in> set (db_runs db'))
     \<and> (\<forall>s \<in> set (db_steps db'). step_is_active s \<longrightarrow> s \<in> set (db_steps db))
     \<and> (\<forall>s \<in> set (db_steps db). \<not> step_is_active s \<longrightarrow> s \<in> set (db_steps db'))
     \<and> db_tasks db' = db_tasks db)"

lemma recover_run_rows:
  assumes wf: "db_wf db"
  shows "run_recovery_rows k db (snd (recover_single_run k tid ws prev u now db))"
proof (cases rule: recover_run_cases [of k db tid ws prev u now])
  case (recovered r r' e)
  have ns: "\<not> run_stuck_in r'" using recovered(5) by (auto simp: run_stuck_in_def stuck_run_statuses_def)
  have "x \<in> set (db_runs db) \<Longrightarrow> r_id x = k \<Longrightarrow> run_stuck_in x" for x
    using run_get_rows [OF wf, of x] recovered(1,2) by auto
  with recovered ns wf show ?thesis
    unfolding run_recovery_rows_def by (auto simp: run_save_rows cancel_steps_db_rows)
next
  case skipped
  have "x \<in> set (db_runs db) \<Longrightarrow> r_id x = k \<Longrightarrow> \<not> run_stuck_in x" for x
    using run_get_rows [OF wf, of x] skipped(2) by auto
  with skipped(1) show ?thesis unfolding run_recovery_rows_def by auto
qed

lemma snd_recover_run_step [simp]:
  "snd (recover_run_step us now i r db) =
   snd (recover_single_run (r_id r) (r_task_id r) (r_workspace_id r) (r_status r) (us i) now db)"
  by (simp add: recover_run_step_def case_prod_beta)

definition run_settled :: "run \<Rightarrow> orch_db \<Rightarrow> bool" where
  "run_settled c db = (\<forall>r \<in> set (db_runs db). r_id r = r_id c \<longrightarrow> \<not> run_stuck_in r)"

interpretation run_sweep: sweeper "recover_run_step us now" db_wf run_settled for us now
proof (unfold_locales, goal_cases)
  case (1 db i c)
  then show ?case by (simp add: recover_run_wf)
next
  case (2 db c i)
  show ?case
    unfolding run_settled_def snd_recover_run_step
    using recover_run_rows [OF 2] unfolding run_recovery_rows_def by blast
next
  case (3 db d i c)
  then show ?case
    unfolding run_settled_def snd_recover_run_step
    using recover_run_rows [OF 3(1)] unfolding run_recovery_rows_def by blast
qed

section \<open>One step\<close>

lemma step_get_rows:
  "db_wf db \<Longrightarrow> s \<in> set (db_steps db) \<Longrightarrow> step_get (s_id s) db = Some s"
  by (simp add: step_get_def db_wf_def find_row_distinct)

lemma step_save_rows:
  "db_wf db \<Longrightarrow> set (db_steps (step_save s db)) = insert s {x \<in> set (db_steps db). s_id x \<noteq> s_id s}"
  by (simp add: step_save_def db_wf_def set_upsert)

lemma recover_step_cases:
  obtains (recovered) s s' f where "step_get k db = Some s" "s_status s = S_RUNNING"
      "s_id s' = k" "s_status s' = S_FAILED"
      "snd (recover_single_step k rid ws u now db) = f (step_save s' db)"
      "f = id \<or> (\<exists>e. f = outbox_write e)"
  | (skipped) "snd (recover_single_step k rid ws u now db) = db"
      "\<forall>s. step_get k db = Some s \<longrightarrow> s_status s \<noteq> S_RUNNING"
proof (cases "step_get k db")
  case None
  then show ?thesis by (intro skipped) (simp_all add: recover_single_step_def)
next
  case (Some s)
  have id: "s_id s = k" using Some by (rule step_repo.get_key)
  show ?thesis
  proof (cases "s_status s = S_RUNNING")
    case True
    let ?d = "[(''code'', JStr ''RECOVERY_SWEEP''),
               (''message'', JStr ''Step stuck in running, recovered by sweep'')]"
    let ?s = "s\<lparr>s_status := S_FAILED, s_updated_at := now, s_completed_at := Some now,
                s_error_detail := Some ?d\<rparr>"
    let ?f = "case run_get rid (step_save ?s db) of None \<Rightarrow> id
         | Some r \<Rightarrow> outbox_write (step_recovered_event (u 1, now) k rid (r_task_id r) ws (u 0)
             (step_status_value S_RUNNING) ''marked_failed'')"
    have "step_fail (Some ?d) now s = Inr ?s"
      using True by (simp add: step_fail_def step_transition_def step_terminal_def)
    then have "snd (recover_single_step k rid ws u now db) = ?f (step_save ?s db)"
      using Some True
      by (simp add: recover_single_step_def stuck_step_statuses_def step_is_terminal_def
          step_terminal_def Let_def split: option.split)
    with Some True id show ?thesis
      by (intro recovered [of s ?s ?f]) (simp_all split: option.split, blast)
  next
    case False
    then show ?thesis
      using Some by (intro skipped) (auto simp: recover_single_step_def stuck_step_statuses_def Let_def)
  qed
qed

definition step_recovery_rows :: "uuid \<Rightarrow> orch_db \<Rightarrow> orch_db \<Rightarrow> bool" where
  "step_recovery_rows k db db' =
    ((\<forall>s \<in> set (db_steps db'). s_status s = S_RUNNING \<longrightarrow> s \<in> set (db_steps db) \<and> s_id s \<noteq> k)
     \<and> (\<forall>s \<in> set (db_steps db). s_status s \<noteq> S_RUNNING \<or> s_id s \<noteq> k \<longrightarrow> s \<in> set (db_steps db'))
     \<and> db_runs db' = db_runs db \<and> db_tasks db' = db_tasks db \<and> db_wf db')"

lemma recover_step_rows:
  assumes wf: "db_wf db"
  shows "step_recovery_rows k db (snd (recover_single_step k rid ws u now db))"
proof (cases rule: recover_step_cases [of k db rid ws u now])
  case (recovered s s' f)
  have "x \<in> set (db_steps db) \<Longrightarrow> s_id x = k \<Longrightarrow> s_status x = S_RUNNING" for x
    using step_get_rows [OF wf, of x] recovered(1,2) by auto
  with recovered wf show ?thesis
    unfolding step_recovery_rows_def by (auto simp: step_save_rows)
next
  case skipped
  have "x \<in> set (db_steps db) \<Longrightarrow> s_id x = k \<Longrightarrow> s_status x \<noteq> S_RUNNING" for x
    using step_get_rows [OF wf, of x] skipped(2) by auto
  with skipped(1) wf show ?thesis unfolding step_recovery_rows_def by auto
qed

lemma snd_recover_step_step [simp]:
  "snd (recover_step_step us now i s db) =
   snd (recover_single_step (s_id s) (s_run_id s) (s_workspace_id s) (us i) now db)"
  by (simp add: recover_step_step_def case_prod_beta)

definition step_settled :: "step \<Rightarrow> orch_db \<Rightarrow> bool" where
  "step_settled c db = (\<forall>s \<in> set (db_steps db). s_id s = s_id c \<longrightarrow> s_status s \<noteq> S_RUNNING)"

interpretation step_sweep: sweeper "recover_step_step us now" db_wf step_settled for us now
proof (unfold_locales, goal_cases)
  case (1 db i c)
  then show ?case using recover_step_rows [OF 1] by (simp add: step_recovery_rows_def)
next
  case (2 db c i)
  show ?case
    unfolding step_settled_def snd_recover_step_step
    using recover_step_rows [OF 2] unfolding step_recovery_rows_def by blast
next
  case (3 db d i c)
  then show ?case
    unfolding step_settled_def snd_recover_step_step
    using recover_step_rows [OF 3(1)] unfolding step_recovery_rows_def by blast
qed

section \<open>One task\<close>

lemma task_get_rows:
  "db_wf db \<Longrightarrow> t \<in> set (db_tasks db) \<Longrightarrow> task_get (t_id t) db = Some t"
  by (simp add: task_get_def db_wf_def find_row_distinct)

lemma task_save_rows:
  "db_wf db \<Longrightarrow> set (db_tasks (task_save t db)) = insert t {x \<in> set (db_tasks db). t_id x \<noteq> t_id t}"
  by (simp add: task_save_def db_wf_def set_upsert)

lemma run_list_active_outbox [simp]:
  "run_list_active_by_task k (outbox_write e db) = run_list_active_by_task k db"
  by (simp add: run_list_active_by_task_def)

text \<open>Every branch of the recovery of a task: it is left alone unless it is running with no
  active run, and then it ends completed exactly when its newest run completed.\<close>

lemma recover_single_task_eq:
  assumes "task_get k db = Some t"
  shows "if t_status t = T_RUNNING \<and> run_list_active_by_task k db = []
    then \<exists>act. recover_single_task k ws u now db =
      (Some \<lparr> rec_entity = ''task'', rec_id = k, rec_previous_status = ''running'',
              rec_action = act, rec_success = True \<rparr>,
       outbox_write (task_recovered_event (u 1, now) k ws (u 0) ''running'' act)
        (task_save (t\<lparr>t_status :=
           (if map_option r_status (run_get_latest_by_task k db) = Some R_COMPLETED
            then T_COMPLETED else T_FAILED), t_updated_at := now\<rparr>) db))
    else recover_single_task k ws u now db = (None, db)"
proof (cases "t_status t = T_RUNNING \<and> run_list_active_by_task k db = []")
  case True
  then have "\<not> task_terminal (t_status t)" by (simp add: task_terminal_def)
  with True assms show ?thesis
    by (auto simp: recover_single_task_def Let_def task_fail_def task_complete_def
        task_transition_def split: option.split)
next
  case False
  then show ?thesis using assms by (auto simp: recover_single_task_def Let_def)
qed

lemma recover_single_task_none: "task_get k db = None \<Longrightarrow> recover_single_task k ws u now db = (None, db)"
  by (simp add: recover_single_task_def)

definition task_settled :: "task \<Rightarrow> orch_db \<Rightarrow> bool" where
  "task_settled c db = (\<forall>t \<in> set (db_tasks db). t_id t = t_id c \<longrightarrow> t_status t = T_RUNNING \<longrightarrow>
     run_list_active_by_task (t_id t) db \<noteq> [])"

definition task_recovery_rows :: "uuid \<Rightarrow> orch_db \<Rightarrow> orch_db \<Rightarrow> bool" where
  "task_recovery_rows k db db' =
    ((\<forall>t \<in> set (db_tasks db'). t_status t = T_RUNNING \<longrightarrow> t \<in> set (db_tasks db)
         \<and> (t_id t = k \<longrightarrow> run_list_active_by_task k db \<noteq> []))
     \<and> (\<forall>t \<in> set (db_tasks db). t_status t \<noteq> T_RUNNING \<or> t_id t \<noteq> k \<longrightarrow> t \<in> set (db_tasks db'))
     \<and> db_runs db' = db_runs db \<and> db_steps db' = db_steps db \<and> db_wf db')"

lemma recover_task_rows:
  assumes wf: "db_wf db"
  shows "task_recovery_rows k db (snd (recover_single_task k ws u now db))"
proof (cases "task_get k db")
  case None
  have "t_id x \<noteq> k" if "x \<in> set (db_tasks db)" for x
    using task_get_rows [OF wf that] None by auto
  then show ?thesis using None wf by (auto simp: recover_single_task_none task_recovery_rows_def)
next
  case (Some t)
  have id: "t_id t = k" using Some by (rule task_repo.get_key)
  have row: "x = t" if "x \<in> set (db_tasks db)" "t_id x = k" for x
    using task_get_rows [OF wf that(1)] that(2) Some by auto
  show ?thesis
  proof (cases "t_status t = T_RUNNING \<and> run_list_active_by_task k db = []")
    case True
    with recover_single_task_eq [OF Some, of ws u now] obtain e t' where
      "snd (recover_single_task k ws u now db) = outbox_write e (task_save t' db)"
      "t_id t' = k" "t_status t' \<noteq> T_RUNNING"
      using id by auto
    with wf row True id show ?thesis
      unfolding task_recovery_rows_def by (auto simp: task_save_rows)
  next
    case False
    with recover_single_task_eq [OF Some, of ws u now] wf row show ?thesis
      unfolding task_recovery_rows_def by auto
  qed
qed

lemma run_list_active_cong:
  "db_runs db' = db_runs db \<Longrightarrow> run_list_active_by_task k db' = run_list_active_by_task k db"
  by (simp add: run_list_active_by_task_def)

interpretation task_sweep: sweeper "recover_task_step us now" db_wf task_settled for us now
proof (unfold_locales, goal_cases)
  case (1 db i c)
  then show ?case
    using recover_task_rows [OF 1] by (simp add: task_recovery_rows_def recover_task_step_def)
next
  case (2 db c i)
  note rows = recover_task_rows [OF 2, of "t_id c" "t_workspace_id c" "us i" now]
  then have "run_list_active_by_task k (snd (recover_task_step us now i c db)) =
      run_list_active_by_task k db" for k
    by (intro run_list_active_cong) (simp add: task_recovery_rows_def recover_task_step_def)
  with rows show ?case
    unfolding task_settled_def by (auto simp: task_recovery_rows_def recover_task_step_def)
next
  case (3 db d i c)
  note rows = recover_task_rows [OF 3(1), of "t_id c" "t_workspace_id c" "us i" now]
  then have "run_list_active_by_task k (snd (recover_task_step us now i c db)) =
      run_list_active_by_task k db" for k
    by (intro run_list_active_cong) (simp add: task_recovery_rows_def recover_task_step_def)
  with rows 3(2) show ?case
    unfolding task_settled_def by (auto simp: task_recovery_rows_def recover_task_step_def)
qed

section \<open>The phases composed\<close>

definition sweep_db1 :: "recovery_config \<Rightarrow> (nat \<Rightarrow> nat \<Rightarrow> uuid_supply) \<Rightarrow> time \<Rightarrow> orch_db \<Rightarrow> orch_db" where
  "sweep_db1 cfg us now db = snd (recover_stuck_runs cfg (us 0) now db)"

definition sweep_db2 :: "recovery_config \<Rightarrow> (nat \<Rightarrow> nat \<Rightarrow> uuid_supply) \<Rightarrow> time \<Rightarrow> orch_db \<Rightarrow> orch_db" where
  "sweep_db2 cfg us now db = snd (recover_stuck_steps cfg (us 1) now (sweep_db1 cfg us now db))"

definition sweep_db3 :: "recovery_config \<Rightarrow> (nat \<Rightarrow> nat \<Rightarrow> uuid_supply) \<Rightarrow> time \<Rightarrow> orch_db \<Rightarrow> orch_db" where
  "sweep_db3 cfg us now db = snd (recover_orphaned_tasks (us 2) now (sweep_db2 cfg us now db))"

lemma snd_recover_stuck_entities: "snd (recover_stuck_entities cfg us now db) = sweep_db3 cfg us now db"
  by (simp add: recover_stuck_entities_def sweep_db1_def sweep_db2_def sweep_db3_def
      case_prod_beta Let_def)

lemma sweep_db_wf:
  "db_wf db \<Longrightarrow> db_wf (sweep_db1 cfg us now db)"
  "db_wf db \<Longrightarrow> db_wf (sweep_db2 cfg us now db)"
  "db_wf db \<Longrightarrow> db_wf (sweep_db3 cfg us now db)"
  by (simp_all add: sweep_db1_def sweep_db2_def sweep_db3_def recover_stuck_runs_def
      recover_stuck_steps_def recover_orphaned_tasks_def run_sweep.sweep_inv step_sweep.sweep_inv
      task_sweep.sweep_inv)

text \<open>What each phase leaves of the other tables, and that no row becomes stuck.\<close>

definition phase1_frame :: "orch_db \<Rightarrow> orch_db \<Rightarrow> bool" where
  "phase1_frame db db' =
    (db_wf db' \<and> db_tasks db' = db_tasks db
     \<and> (\<forall>r \<in> set (db_runs db'). run_stuck_in r \<longrightarrow> r \<in> set (db_runs db))
     \<and> (\<forall>s \<in> set (db_steps db'). step_is_active s \<longrightarrow> s \<in> set (db_steps db)))"

lemma phase1: "db_wf db \<Longrightarrow> phase1_frame db (sweep_db1 cfg us now db)"
  unfolding sweep_db1_def recover_stuck_runs_def
proof (rule sweep_preserves)
  fix i c d
  assume d: "phase1_frame db d"
  then have "db_wf d" by (simp add: phase1_frame_def)
  from recover_run_rows [OF this, of "r_id c" "r_task_id c" "r_workspace_id c" "r_status c" "us 0 i" now]
    recover_run_wf [OF this, of "r_id c" "r_task_id c" "r_workspace_id c" "r_status c" "us 0 i" now] d
  show "phase1_frame db (snd (recover_run_step (us 0) now i c d))"
    unfolding phase1_frame_def run_recovery_rows_def snd_recover_run_step by auto
qed (simp add: phase1_frame_def)

lemma phase2:
  assumes "db_wf db"
  shows "db_runs (sweep_db2 cfg us now db) = db_runs (sweep_db1 cfg us now db)
    \<and> db_tasks (sweep_db2 cfg us now db) = db_tasks (sweep_db1 cfg us now db)
    \<and> (\<forall>s \<in> set (db_steps (sweep_db2 cfg us now db)). s_status s = S_RUNNING \<longrightarrow>
         s \<in> set (db_steps (sweep_db1 cfg us now db)))"
proof -
  let ?db1 = "sweep_db1 cfg us now db"
  let ?P = "\<lambda>d. db_wf d \<and> db_runs d = db_runs ?db1 \<and> db_tasks d = db_tasks ?db1
     \<and> (\<forall>s \<in> set (db_steps d). s_status s = S_RUNNING \<longrightarrow> s \<in> set (db_steps ?db1))"
  have "?P (snd (recover_stuck_steps cfg (us 1) now ?db1))"
    unfolding recover_stuck_steps_def
  proof (rule sweep_preserves)
    fix i c d
    assume d: "?P d"
    then have "db_wf d" by simp
    from recover_step_rows [OF this, of "s_id c" "s_run_id c" "s_workspace_id c" "us 1 i" now] d
    show "?P (snd (recover_step_step (us 1) now i c d))"
      unfolding step_recovery_rows_def snd_recover_step_step by auto
  qed (use sweep_db_wf(1) [OF assms] in simp)
  then show ?thesis by (simp add: sweep_db2_def)
qed

lemma phase3:
  assumes "db_wf db"
  shows "db_runs (sweep_db3 cfg us now db) = db_runs (sweep_db2 cfg us now db)
    \<and> db_steps (sweep_db3 cfg us now db) = db_steps (sweep_db2 cfg us now db)
    \<and> (\<forall>t \<in> set (db_tasks (sweep_db3 cfg us now db)). t_status t = T_RUNNING \<longrightarrow>
         t \<in> set (db_tasks (sweep_db2 cfg us now db)))"
proof -
  let ?db2 = "sweep_db2 cfg us now db"
  let ?P = "\<lambda>d. db_wf d \<and> db_runs d = db_runs ?db2 \<and> db_steps d = db_steps ?db2
     \<and> (\<forall>t \<in> set (db_tasks d). t_status t = T_RUNNING \<longrightarrow> t \<in> set (db_tasks ?db2))"
  have "?P (snd (recover_orphaned_tasks (us 2) now ?db2))"
    unfolding recover_orphaned_tasks_def
  proof (rule sweep_preserves)
    fix i c d
    assume d: "?P d"
    then have "db_wf d" by simp
    from recover_task_rows [OF this, of "t_id c" "t_workspace_id c" "us 2 i" now] d
    show "?P (snd (recover_task_step (us 2) now i c d))"
      unfolding task_recovery_rows_def recover_task_step_def by auto
  qed (use sweep_db_wf(2) [OF assms] in simp)
  then show ?thesis by (simp add: sweep_db3_def)
qed

text \<open>A table that fits the limit is listed in full.\<close>

lemma take_sort_all:
  "length (filter P xs) \<le> n \<Longrightarrow> set (take n (sort_key f (filter P xs))) = {x \<in> set xs. P x}"
  by simp

lemma filter_length_mono:
  "(\<And>x. x \<in> set xs \<Longrightarrow> P x \<Longrightarrow> Q x) \<Longrightarrow> length (filter P xs) \<le> length (filter Q xs)"
  by (induction xs) (auto intro: le_SucI)

lemma run_list_stuck_set:
  assumes "length (filter run_stuck_in (db_runs db)) \<le> n" and "st \<in> set stuck_run_statuses"
  shows "set (run_list_stuck_for_update lim [st] n db) =
    run_row_to_domain ` {r \<in> set (db_runs db). r_status r = st \<and> r_updated_at r < lim}"
proof -
  have "length (filter (\<lambda>r. r_status r \<in> set [st] \<and> r_updated_at r < lim) (db_runs db))
      \<le> length (filter run_stuck_in (db_runs db))"
    using assms(2) by (intro filter_length_mono) (auto simp: run_stuck_in_def)
  with assms(1) have n: "length (filter (\<lambda>r. r_status r \<in> set [st] \<and> r_updated_at r < lim) (db_runs db)) \<le> n"
    by simp
  show ?thesis
    unfolding run_list_stuck_for_update_def set_map take_sort_all [OF n] by simp
qed

definition sweep_fits :: "orch_db \<Rightarrow> bool" where
  "sweep_fits db = (length (filter run_stuck_in (db_runs db)) \<le> 100
     \<and> length (filter (\<lambda>s. s_status s = S_RUNNING) (db_steps db)) \<le> 100
     \<and> length (filter (\<lambda>t. t_status t = T_RUNNING) (db_tasks db)) \<le> 50)"

definition run_overdue :: "recovery_config \<Rightarrow> time \<Rightarrow> run \<Rightarrow> bool" where
  "run_overdue cfg now r =
    (case r_status r of
       R_PREPARING \<Rightarrow> r_updated_at r < now - minutes (rc_preparing_minutes cfg)
     | R_RUNNING \<Rightarrow> r_updated_at r < now - minutes (rc_running_minutes cfg)
     | R_COMPLETING \<Rightarrow> r_updated_at r < now - minutes (rc_completing_minutes cfg)
     | _ \<Rightarrow> False)"

lemma run_overdue_row [simp]: "run_overdue cfg now (run_row_to_domain r) = run_overdue cfg now r"
  by (simp add: run_overdue_def split: run_status.split)

lemma run_overdue_stuck: "run_overdue cfg now r \<Longrightarrow> run_stuck_in r"
  by (cases "r_status r") (simp_all add: run_overdue_def run_stuck_in_def stuck_run_statuses_def)

lemma list_stuck_runs_sound: "r \<in> set (list_stuck_runs cfg now db) \<Longrightarrow>
   run_overdue cfg now r \<and> (\<exists>x \<in> set (db_runs db). r = run_row_to_domain x)"
  by (auto simp: list_stuck_runs_def run_list_stuck_for_update_def run_overdue_def dest!: in_set_takeD)

lemma list_stuck_runs_complete:
  assumes fits: "length (filter run_stuck_in (db_runs db)) \<le> 100"
    and x: "x \<in> set (db_runs db)" "run_overdue cfg now x"
  shows "run_row_to_domain x \<in> set (list_stuck_runs cfg now db)"
proof -
  have "r_status x \<in> {R_PREPARING, R_RUNNING, R_COMPLETING}"
    using x(2) by (cases "r_status x") (simp_all add: run_overdue_def)
  then show ?thesis
    using x unfolding list_stuck_runs_def set_append
    by (auto simp: run_list_stuck_set [OF fits] stuck_run_statuses_def run_overdue_def)
qed

lemma no_overdue_after:
  assumes wf: "db_wf db" and fits: "length (filter run_stuck_in (db_runs db)) \<le> 100"
    and x: "x \<in> set (db_runs (sweep_db1 cfg us now db))"
  shows "\<not> run_overdue cfg now x"
proof
  assume over: "run_overdue cfg now x"
  then have "x \<in> set (db_runs db)"
    using phase1 [OF wf, of cfg us now] x run_overdue_stuck by (auto simp: phase1_frame_def)
  from list_stuck_runs_complete [OF fits this over]
  have "run_settled (run_row_to_domain x) (sweep_db1 cfg us now db)"
    unfolding sweep_db1_def recover_stuck_runs_def by (rule run_sweep.sweep_settles [OF wf])
  with x run_overdue_stuck [OF over] show False by (auto simp: run_settled_def)
qed


section \<open>Properties\<close>

lemma recover_run_keeps:
  assumes "db_wf d" and "x \<in> set (db_runs d)" and "\<not> run_stuck_in x \<or> r_id x \<noteq> k"
  shows "x \<in> set (db_runs (snd (recover_single_run k tid ws prev u now d)))"
  using recover_run_rows [OF assms(1)] assms(2,3) unfolding run_recovery_rows_def by blast

lemma recover_run_keeps_step:
  assumes "db_wf d" and "s \<in> set (db_steps d)" and "\<not> step_is_active s"
  shows "s \<in> set (db_steps (snd (recover_single_run k tid ws prev u now d)))"
  using recover_run_rows [OF assms(1)] assms(2,3) unfolding run_recovery_rows_def by blast

lemma recover_step_keeps:
  assumes "db_wf d" and "s \<in> set (db_steps d)" and "s_status s \<noteq> S_RUNNING"
  shows "s \<in> set (db_steps (snd (recover_single_step k rid ws u now d)))"
    and "db_wf (snd (recover_single_step k rid ws u now d))"
  using recover_step_rows [OF assms(1)] assms(2,3) unfolding step_recovery_rows_def by blast+

lemma recover_task_keeps:
  assumes "db_wf d" and "t \<in> set (db_tasks d)" and "t_status t \<noteq> T_RUNNING"
  shows "t \<in> set (db_tasks (snd (recover_single_task k ws u now d)))"
    and "db_wf (snd (recover_single_task k ws u now d))"
  using recover_task_rows [OF assms(1)] assms(2,3) unfolding task_recovery_rows_def by blast+

lemma sweep_keeps_run:
  assumes wf: "db_wf db" and x: "x \<in> set (db_runs db)" "\<not> run_overdue cfg now x"
  shows "x \<in> set (db_runs (sweep_db1 cfg us now db))"
proof -
  let ?P = "\<lambda>d. db_wf d \<and> x \<in> set (db_runs d)"
  have "?P (snd (sweep (recover_run_step (us 0) now) 0 (list_stuck_runs cfg now db) db))"
  proof (rule sweep_preserves)
    fix i c d
    assume c: "c \<in> set (list_stuck_runs cfg now db)" and d: "?P d"
    from list_stuck_runs_sound [OF c] obtain y where y: "y \<in> set (db_runs db)"
      "c = run_row_to_domain y" "run_overdue cfg now y" by auto
    have "r_id x \<noteq> r_id c"
    proof
      assume "r_id x = r_id c"
      with y(2) have "r_id x = r_id y" by simp
      with wf x(1) y(1) have "x = y" by (auto simp: db_wf_def distinct_map dest: inj_onD)
      with x(2) y(3) show False by simp
    qed
    with d show "?P (snd (recover_run_step (us 0) now i c d))"
      by (simp add: recover_run_wf recover_run_keeps)
  qed (use wf x in simp)
  then show ?thesis by (simp add: sweep_db1_def recover_stuck_runs_def)
qed

lemma sweep_keeps_steps:
  assumes wf: "db_wf db" and s: "s \<in> set (db_steps db)" "\<not> step_is_active s"
  shows "s \<in> set (db_steps (sweep_db3 cfg us now db))"
proof -
  let ?P = "\<lambda>d. db_wf d \<and> s \<in> set (db_steps d)"
  have nr: "s_status s \<noteq> S_RUNNING" using s(2) by (auto simp: step_is_active_def)
  have "?P (sweep_db1 cfg us now db)"
    unfolding sweep_db1_def recover_stuck_runs_def
  proof (rule sweep_preserves)
    fix i c d assume d: "?P d"
    with s(2) show "?P (snd (recover_run_step (us 0) now i c d))"
      by (simp add: recover_run_wf recover_run_keeps_step)
  qed (use wf s in simp)
  moreover have "?P (snd (sweep (recover_step_step (us 1) now) 0 cs d0))" if "?P d0" for cs d0
  proof (rule sweep_preserves)
    fix i c d assume d: "?P d"
    with nr show "?P (snd (recover_step_step (us 1) now i c d))"
      unfolding snd_recover_step_step by (blast intro: recover_step_keeps)
  qed (rule that)
  ultimately have "s \<in> set (db_steps (sweep_db2 cfg us now db))"
    by (simp add: sweep_db2_def recover_stuck_steps_def)
  with phase3 [OF wf, of cfg us now] show ?thesis by simp
qed

lemma sweep_keeps_tasks:
  assumes wf: "db_wf db" and t: "t \<in> set (db_tasks db)" "t_status t \<noteq> T_RUNNING"
  shows "t \<in> set (db_tasks (sweep_db3 cfg us now db))"
proof -
  let ?P = "\<lambda>d. db_wf d \<and> t \<in> set (db_tasks d)"
  have "db_tasks (sweep_db2 cfg us now db) = db_tasks db"
    using phase1 [OF wf, of cfg us now] phase2 [OF wf, of cfg us now] by (simp add: phase1_frame_def)
  with t(1) sweep_db_wf(2) [OF wf] have "?P (sweep_db2 cfg us now db)" by simp
  then have "?P (snd (sweep (recover_task_step (us 2) now) 0 cs (sweep_db2 cfg us now db)))" for cs
  proof (rule sweep_preserves)
    fix i c d assume d: "?P d"
    with t(2) show "?P (snd (recover_task_step (us 2) now i c d))"
      unfolding recover_task_step_def by (blast intro: recover_task_keeps)
  qed
  then show ?thesis by (simp add: sweep_db3_def recover_orphaned_tasks_def)
qed

text \<open>A recovery sweep touches only what is overdue or orphaned: every run that is not in one of
  the three stuck statuses, or is younger than the timeout of its status, keeps its row, as do
  every step that already ended and every task that is not running; and no run becomes stuck.\<close>

theorem recovery_spares:
  assumes "db_wf db"
  shows "let db' = snd (recover_stuck_entities cfg us now db) in
    db_wf db'
    \<and> {r \<in> set (db_runs db). \<not> run_overdue cfg now r} \<subseteq> set (db_runs db')
    \<and> {s \<in> set (db_steps db). \<not> step_is_active s} \<subseteq> set (db_steps db')
    \<and> {t \<in> set (db_tasks db). t_status t \<noteq> T_RUNNING} \<subseteq> set (db_tasks db')
    \<and> {r \<in> set (db_runs db'). run_stuck_in r} \<subseteq> set (db_runs db)"
  using sweep_keeps_run [OF assms] sweep_keeps_steps [OF assms] sweep_keeps_tasks [OF assms]
    sweep_db_wf [OF assms] phase1 [OF assms] phase2 [OF assms] phase3 [OF assms]
  unfolding snd_recover_stuck_entities Let_def phase1_frame_def by auto

text \<open>C4. A recovery sweep does its whole job: when the tables fit its batch limits, no overdue run
  and no overdue step is left and every running task left has an active run, so that a second
  sweep at the same instant finds nothing to do and changes nothing.\<close>

theorem recovery_converges:
  assumes wf: "db_wf db" and fits: "sweep_fits db"
  shows "let db' = snd (recover_stuck_entities cfg us now db) in
    recover_stuck_entities cfg us' now db' = ([], db')
    \<and> list_all (\<lambda>t. t_status t \<noteq> T_RUNNING \<or> run_list_active_by_task (t_id t) db' \<noteq> []) (db_tasks db')"
proof -
  let ?db1 = "sweep_db1 cfg us now db" and ?db2 = "sweep_db2 cfg us now db"
  let ?db3 = "sweep_db3 cfg us now db"
  note p1 = phase1 [OF wf, of cfg us now] and p2 = phase2 [OF wf, of cfg us now]
    and p3 = phase3 [OF wf, of cfg us now]
  have runs: "list_stuck_runs cfg now ?db3 = []"
  proof (rule ccontr)
    assume "\<not> ?thesis"
    then obtain r where "r \<in> set (list_stuck_runs cfg now ?db3)"
      by (metis list.set_intros(1) neq_Nil_conv)
    from list_stuck_runs_sound [OF this] obtain x where
      "x \<in> set (db_runs ?db3)" "run_overdue cfg now x" by auto
    with no_overdue_after [OF wf, of x cfg us now] fits p2 p3 show False by (auto simp: sweep_fits_def)
  qed
  have steps: "list_stuck_steps cfg now ?db3 = []"
  proof (rule ccontr)
    let ?lim = "now - minutes (rc_step_running_minutes cfg)"
    let ?Q = "\<lambda>s. s_status s \<in> set stuck_step_statuses \<and> s_updated_at s < ?lim"
    assume "\<not> ?thesis"
    then obtain s where "s \<in> set (list_stuck_steps cfg now ?db3)"
      by (metis list.set_intros(1) neq_Nil_conv)
    then have s: "s \<in> set (db_steps ?db2)" "?Q s" "s_status s = S_RUNNING"
      using p3 by (auto simp: list_stuck_steps_def step_list_stuck_for_update_def
          stuck_step_statuses_def dest!: in_set_takeD)
    have s1: "s \<in> set (db_steps ?db1)" using p2 s by blast
    have "{x \<in> set (db_steps ?db1). s_status x = S_RUNNING} \<subseteq> {x \<in> set (db_steps db). s_status x = S_RUNNING}"
      using p1 by (auto simp: phase1_frame_def step_is_active_def)
    moreover have "distinct (db_steps ?db1)" "distinct (db_steps db)"
      using sweep_db_wf(1) [OF wf] wf by (auto simp: db_wf_def distinct_map)
    ultimately have "length (filter (\<lambda>x. s_status x = S_RUNNING) (db_steps ?db1))
        \<le> length (filter (\<lambda>x. s_status x = S_RUNNING) (db_steps db))"
      by (simp add: distinct_length_filter Int_def card_mono conj_commute)
    moreover have "length (filter ?Q (db_steps ?db1))
        \<le> length (filter (\<lambda>x. s_status x = S_RUNNING) (db_steps ?db1))"
      by (rule filter_length_mono) (simp add: stuck_step_statuses_def)
    ultimately have n: "length (filter ?Q (db_steps ?db1)) \<le> 100" using fits by (simp add: sweep_fits_def)
    have "s \<in> set (list_stuck_steps cfg now ?db1)"
      unfolding list_stuck_steps_def step_list_stuck_for_update_def take_sort_all [OF n]
      using s1 s(2) by simp
    then have "step_settled s ?db2"
      unfolding sweep_db2_def recover_stuck_steps_def
      by (rule step_sweep.sweep_settles [OF sweep_db_wf(1) [OF wf]])
    with s show False by (simp add: step_settled_def)
  qed
  have tasks: "run_list_active_by_task (t_id t) ?db3 \<noteq> []"
    if t: "t \<in> set (db_tasks ?db3)" "t_status t = T_RUNNING" for t
  proof -
    have "t \<in> set (db_tasks ?db2)" using t p3 by blast
    moreover have "db_tasks ?db2 = db_tasks db" using p1 p2 by (simp add: phase1_frame_def)
    ultimately have "t \<in> set (task_list_running 50 ?db2)"
      using t(2) fits unfolding task_list_running_def by (simp add: sweep_fits_def)
    then have "task_settled t ?db3"
      unfolding sweep_db3_def recover_orphaned_tasks_def
      by (rule task_sweep.sweep_settles [OF sweep_db_wf(2) [OF wf]])
    with t show ?thesis by (simp add: task_settled_def)
  qed
  have "recover_task_step (us' 2) now i t ?db3 = (None, ?db3)"
    if "t \<in> set (task_list_running 50 ?db3)" for i t
  proof -
    have t: "t \<in> set (db_tasks ?db3)" "t_status t = T_RUNNING"
      using that by (auto simp: task_list_running_def dest!: in_set_takeD)
    have "task_get (t_id t) ?db3 = Some t" using task_get_rows [OF sweep_db_wf(3) [OF wf] t(1)] .
    from recover_single_task_eq [OF this] tasks [OF t] show ?thesis
      by (auto simp: recover_task_step_def)
  qed
  then have "recover_orphaned_tasks (us' 2) now ?db3 = ([], ?db3)"
    unfolding recover_orphaned_tasks_def by (rule sweep_silent)
  then have "recover_stuck_entities cfg us' now ?db3 = ([], ?db3)"
    by (simp add: recover_stuck_entities_def recover_stuck_runs_def recover_stuck_steps_def runs steps)
  with tasks show ?thesis
    unfolding snd_recover_stuck_entities Let_def list_all_iff by blast
qed

text \<open>The recovery of one run does not look at its age again: a run that another transaction
  started only now, after the listing read it as stuck in preparing, is failed all the same,
  and with it its step.\<close>

theorem recovery_fails_fresh_run:
  assumes "db_wf db" and "run_get k db = Some r" and "r_status r = R_RUNNING" and "r_updated_at r = now"
  shows "let (res, db') = recover_single_run k tid ws R_PREPARING u now db in
    rec_action res = ''marked_failed''
    \<and> map_option r_status (run_get k db') = Some R_FAILED
    \<and> step_list_active_by_run k db' = []"
proof -
  have id: "r_id r = k" using assms(2) by (rule run_repo.get_key)
  obtain r' where r': "recover_run_action now r = Inr (r', ''marked_failed'')" "r_id r' = k"
    "r_status r' = R_FAILED"
    using assms(3) id
    by (auto simp: recover_run_action_def run_fail_def run_transition_def run_terminal_def Let_def)
  have nt: "\<not> run_is_terminal r" using assms(3) by (simp add: run_is_terminal_def run_terminal_def)
  obtain e where "recover_single_run k tid ws R_PREPARING u now db =
      (\<lparr> rec_entity = ''run'', rec_id = k, rec_previous_status = ''preparing'',
         rec_action = ''marked_failed'', rec_success = True \<rparr>,
       outbox_write e (cancel_steps_db now k (run_save r' db)))"
    using assms(2,3) r' nt
    by (simp add: recover_single_run_def stuck_run_statuses_def Let_def cancel_active_steps value_simps)
  moreover have "step_list_active_by_run k (outbox_write e (cancel_steps_db now k (run_save r' db))) = []"
    using cancel_steps_db_active [of "run_save r' db" k now k] assms(1)
    by (simp add: step_list_active_by_run_def)
  moreover have "run_get k (outbox_write e (cancel_steps_db now k (run_save r' db))) =
      run_get k (run_save r' db)"
    by (simp add: run_get_def)
  ultimately show ?thesis using r' by (simp add: run_repo.get_put)
qed

section \<open>Witnesses\<close>

definition demo_now :: time where "demo_now = minutes 100"
definition demo_supplies :: "nat \<Rightarrow> nat \<Rightarrow> uuid_supply" where
  "demo_supplies p i j = 1000 + 100 * p + 10 * i + j"

lemma demo_fits: "sweep_fits demo_db"
  by (simp add: sweep_fits_def demo_db_def demo_task_def demo_run_def demo_step_def empty_db_def
      run_stuck_in_def stuck_run_statuses_def)

theorem recovery_spares_witness:
  "demo_run 12 1 R_FAILED \<in> set (db_runs (snd (recover_stuck_entities default_recovery demo_supplies
     demo_now demo_db)))"
proof -
  have "demo_run 12 1 R_FAILED \<in> {r \<in> set (db_runs demo_db). \<not> run_overdue default_recovery demo_now r}"
    by (simp add: demo_db_def demo_run_def run_overdue_def)
  with recovery_spares [OF demo_db_wf, of default_recovery demo_supplies demo_now] show ?thesis
    unfolding Let_def by blast
qed

theorem recovery_converges_witness:
  "let db' = snd (recover_stuck_entities default_recovery demo_supplies demo_now demo_db)
   in recover_stuck_entities default_recovery demo_supplies demo_now db' = ([], db')"
  using recovery_converges [OF demo_db_wf demo_fits, of default_recovery demo_supplies demo_now demo_supplies]
  unfolding Let_def by blast

theorem recovery_fails_fresh_run_witness:
  "rec_action (fst (recover_single_run 11 1 7 R_PREPARING demo_supply 20 demo_db)) = ''marked_failed''"
proof -
  have "run_get 11 demo_db = Some (demo_run 11 1 R_RUNNING)"
    by (simp add: run_get_def demo_db_def demo_run_def empty_db_def run_row_to_domain_def)
  from recovery_fails_fresh_run [OF demo_db_wf this, of 20 1 7 demo_supply] show ?thesis
    by (auto simp: demo_run_def Let_def)
qed

end
