(* ===== verification/Orch_Approvals.thy ===== *)
theory Orch_Approvals
  imports Orch_Handlers
begin

text \<open>
  \<open>apps/orchestrator/src/application/approval_handlers.py\<close> and \<open>approval_commands.py\<close>: creating
  an approval request and deciding it, with the transition of the target on approval.
\<close>

definition approval_target_of :: "string \<Rightarrow> approval_target option" where
  "approval_target_of s =
    (if s = ''task'' then Some Target_Task else if s = ''run'' then Some Target_Run
     else if s = ''step'' then Some Target_Step else if s = ''artifact'' then Some Target_Artifact
     else if s = ''tool_call'' then Some Target_Tool_Call else None)"

datatype approval_handler_error =
    ApprovalNotFound uuid
  | WrongWorkspace
  | InvalidDecision string
  | ApprovalDomainErr domain_error
  | ApprovalValueError string

definition raising_ap :: "domain_error + 'a \<Rightarrow> approval_handler_error + 'a" where
  "raising_ap r = map_sum ApprovalDomainErr id r"

lemma raising_ap_simps [simp]:
  "raising_ap (Inl e) = Inl (ApprovalDomainErr e)" "raising_ap (Inr a) = Inr a"
  by (simp_all add: raising_ap_def)

lemma raising_ap_Inr_iff: "raising_ap r = Inr a \<longleftrightarrow> r = Inr a"
  by (cases r) simp_all

record create_approval_request =
  car_workspace_id :: uuid
  car_target_type :: string
  car_target_id :: uuid
  car_requested_by :: string
  car_prompt :: "string option"
  car_correlation_id :: uuid
  car_reviewer_id :: "uuid option"

definition handle_create_approval ::
  "create_approval_request \<Rightarrow> uuid_supply \<Rightarrow> time \<Rightarrow> orch_db
   \<Rightarrow> approval_handler_error + (approval \<times> orch_db)" where
  "handle_create_approval cmd u now db =
    (case approval_target_of (car_target_type cmd) of
       None \<Rightarrow> Inl (ApprovalValueError (car_target_type cmd))
     | Some ty \<Rightarrow>
        rbind (raising_ap (approval_init (u 0) now (car_workspace_id cmd) ty (car_target_id cmd)
                 (car_requested_by cmd) (car_reviewer_id cmd) (car_prompt cmd) None)) (\<lambda>a.
        Inr (a, outbox_write (approval_requested_event (u 1, now) (ap_id a) (ap_workspace_id a)
                  (approval_target_value (ap_target_type a)) (ap_target_id a) (ap_requested_by a)
                  (ap_prompt a) (car_correlation_id cmd) None) (approval_save a db))))"

record decide_approval =
  da_approval_id :: uuid
  da_workspace_id :: uuid
  da_decided_by_id :: uuid
  da_decision :: string
  da_comment :: "string option"

definition transition_target_on_approve :: "approval \<Rightarrow> time \<Rightarrow> orch_db \<Rightarrow> domain_error + orch_db" where
  "transition_target_on_approve a now db =
    (case ap_target_type a of
       Target_Task \<Rightarrow> (case task_get (ap_target_id a) db of None \<Rightarrow> Inr db
         | Some t \<Rightarrow> rbind (task_approve now t) (\<lambda>t'. Inr (task_save t' db)))
     | Target_Run \<Rightarrow> (case run_get (ap_target_id a) db of None \<Rightarrow> Inr db
         | Some r \<Rightarrow> rbind (run_approve now r) (\<lambda>r'. Inr (run_save r' db)))
     | Target_Step \<Rightarrow> (case step_get (ap_target_id a) db of None \<Rightarrow> Inr db
         | Some s \<Rightarrow> rbind (step_approve now s) (\<lambda>s'. Inr (step_save s' db)))
     | Target_Artifact \<Rightarrow> Inr db
     | Target_Tool_Call \<Rightarrow> Inr db)"

definition handle_decide_approval ::
  "decide_approval \<Rightarrow> uuid_supply \<Rightarrow> time \<Rightarrow> orch_db
   \<Rightarrow> approval_handler_error + (approval \<times> orch_db)" where
  "handle_decide_approval cmd u now db =
    (case approval_get (da_approval_id cmd) db of
       None \<Rightarrow> Inl (ApprovalNotFound (da_approval_id cmd))
     | Some a0 \<Rightarrow>
    if ap_workspace_id a0 \<noteq> da_workspace_id cmd then Inl WrongWorkspace
    else
    rbind
      (if da_decision cmd = ''approve'' then
         rbind (raising_ap (approval_approve (da_decided_by_id cmd) (da_comment cmd) now a0)) (\<lambda>a.
         rbind (raising_ap (transition_target_on_approve a now db)) (\<lambda>db1. Inr (a, db1)))
       else if da_decision cmd = ''reject'' then
         rbind (raising_ap (approval_reject (da_decided_by_id cmd) (da_comment cmd) now a0))
           (\<lambda>a. Inr (a, db))
       else Inl (InvalidDecision (da_decision cmd))) (\<lambda>(a, db1).
    Inr (a, outbox_write (approval_decided_event (u 1, now) (ap_id a) (ap_workspace_id a)
              (approval_decision_value (ap_decision a)) (da_decided_by_id cmd)
              (approval_target_value (ap_target_type a)) (ap_target_id a) (da_comment cmd) (u 0) None)
            (approval_save a db1))))"

section \<open>Lemmas\<close>

definition decided :: "decide_approval \<Rightarrow> time \<Rightarrow> approval \<Rightarrow> approval" where
  "decided cmd now a = a\<lparr>ap_decision := (if da_decision cmd = ''approve'' then AP_APPROVED else AP_REJECTED),
     ap_updated_at := now, ap_decided_by_id := Some (da_decided_by_id cmd),
     ap_decided_at := Some now, ap_decision_comment := da_comment cmd\<rparr>"

lemma decide_eqs:
  "da_decision cmd = ''approve'' \<Longrightarrow> approval_approve (da_decided_by_id cmd) (da_comment cmd) now a = Inr a'
     \<longleftrightarrow> ap_decision a = AP_PENDING \<and> a' = decided cmd now a"
  "da_decision cmd = ''reject'' \<Longrightarrow> approval_reject (da_decided_by_id cmd) (da_comment cmd) now a = Inr a'
     \<longleftrightarrow> ap_decision a = AP_PENDING \<and> a' = decided cmd now a"
  by (auto simp: approval_op_defs approval_transition_ok rbind_Inr_iff decided_def approval_edges_pending)

lemma decided_simps [simp]:
  "ap_id (decided cmd now a) = ap_id a" "ap_target_type (decided cmd now a) = ap_target_type a"
  "ap_target_id (decided cmd now a) = ap_target_id a"
  "ap_workspace_id (decided cmd now a) = ap_workspace_id a"
  "ap_decided_by_id (decided cmd now a) = Some (da_decided_by_id cmd)"
  "ap_decision (decided cmd now a) \<noteq> AP_PENDING"
  by (simp_all add: decided_def)

lemma handle_decide_needs:
  assumes "handle_decide_approval cmd u now db = Inr (a, db')"
  obtains a0 db1 e where "approval_get (da_approval_id cmd) db = Some a0"
    "ap_workspace_id a0 = da_workspace_id cmd" "ap_decision a0 = AP_PENDING" "a = decided cmd now a0"
    "da_decision cmd \<in> {''approve'', ''reject''}"
    "if da_decision cmd = ''approve'' then transition_target_on_approve a now db = Inr db1 else db1 = db"
    "db' = outbox_write e (approval_save a db1)"
proof -
  from assms obtain a0 where a0: "approval_get (da_approval_id cmd) db = Some a0"
    "ap_workspace_id a0 = da_workspace_id cmd"
    by (auto simp: handle_decide_approval_def split: option.splits if_splits)
  consider (ap) "da_decision cmd = ''approve''" | (rj) "da_decision cmd = ''reject''"
    using assms a0 by (auto simp: handle_decide_approval_def split: if_splits)
  then show ?thesis
  proof cases
    case ap
    with assms a0 obtain db1 where d: "ap_decision a0 = AP_PENDING" "a = decided cmd now a0"
      "transition_target_on_approve a now db = Inr db1"
      "db' = outbox_write (approval_decided_event (u 1, now) (ap_id a) (ap_workspace_id a)
              (approval_decision_value (ap_decision a)) (da_decided_by_id cmd)
              (approval_target_value (ap_target_type a)) (ap_target_id a) (da_comment cmd) (u 0) None)
            (approval_save a db1)"
      by (auto simp: handle_decide_approval_def rbind_Inr_iff raising_ap_Inr_iff decide_eqs(1))
    show ?thesis by (rule that [OF a0 d(1,2) _ _ d(4)]) (use ap d in simp_all)
  next
    case rj
    with assms a0 have d: "ap_decision a0 = AP_PENDING" "a = decided cmd now a0"
      "db' = outbox_write (approval_decided_event (u 1, now) (ap_id a) (ap_workspace_id a)
              (approval_decision_value (ap_decision a)) (da_decided_by_id cmd)
              (approval_target_value (ap_target_type a)) (ap_target_id a) (da_comment cmd) (u 0) None)
            (approval_save a db)"
      by (auto simp: handle_decide_approval_def rbind_Inr_iff raising_ap_Inr_iff decide_eqs(2))
    show ?thesis by (rule that [OF a0 d(1,2) _ _ d(3)]) (use rj in simp_all)
  qed
qed

lemma transition_target_frame:
  "transition_target_on_approve a now db = Inr db' \<Longrightarrow> db_approvals db' = db_approvals db"
  by (auto simp: transition_target_on_approve_def rbind_Inr_iff split: approval_target.splits option.splits)

section \<open>Properties\<close>

text \<open>Deciding an approval request through the command handler: a committed decision was made on
  a pending request of the caller's workspace, it is stored with the caller as reviewer, and
  from then on every further decision on the same request raises, whoever makes it, so the
  stored outcome stays the first one.\<close>

theorem approval_decision_is_final:
  assumes "handle_decide_approval cmd u now db = Inr (a, db')"
    and "da_approval_id cmd' = da_approval_id cmd"
  shows "approval_get (da_approval_id cmd) db' = Some a
    \<and> map_option ap_decision (approval_get (da_approval_id cmd) db) = Some AP_PENDING
    \<and> map_option ap_workspace_id (approval_get (da_approval_id cmd) db) = Some (da_workspace_id cmd)
    \<and> ap_decided_by_id a = Some (da_decided_by_id cmd)
    \<and> \<not> is_ok (handle_decide_approval cmd' u' now' db')"
proof -
  from assms(1) obtain a0 db1 e where h: "approval_get (da_approval_id cmd) db = Some a0"
    "ap_workspace_id a0 = da_workspace_id cmd" "ap_decision a0 = AP_PENDING" "a = decided cmd now a0"
    "db' = outbox_write e (approval_save a db1)"
    by (rule handle_decide_needs) blast
  have "ap_id a = da_approval_id cmd" using approval_repo.get_key [OF h(1)] h(4) by simp
  then have stored: "approval_get (da_approval_id cmd) db' = Some a"
    using h(5) by (simp add: approval_repo.get_put)
  have "ap_decision a \<noteq> AP_PENDING" using h(4) by simp
  then have "handle_decide_approval cmd' u' now' db' \<noteq> Inr r" for r
    using handle_decide_needs [of cmd' u' now' db' "fst r" "snd r"] stored assms(2) by fastforce
  with h stored show ?thesis by (auto simp: is_ok_iff)
qed

text \<open>C27. What a committed decision does to its target: an approval moves the task, run or step it
  is about to running (and rolls everything back when that entity cannot go there), while a
  rejection, and any decision about an artifact or a tool call, changes no task, run or step.\<close>

theorem approval_target_effect:
  assumes "handle_decide_approval cmd u now db = Inr (a, db')"
  shows "if da_decision cmd = ''approve'' \<and> ap_target_type a = Target_Task then
      (case task_get (ap_target_id a) db of None \<Rightarrow> db_tasks db' = db_tasks db
       | Some t \<Rightarrow> t_status t \<in> {T_PENDING, T_WAITING_APPROVAL}
           \<and> map_option t_status (task_get (ap_target_id a) db') = Some T_RUNNING)
    else if da_decision cmd = ''approve'' \<and> ap_target_type a = Target_Run then
      (case run_get (ap_target_id a) db of None \<Rightarrow> db_runs db' = db_runs db
       | Some r \<Rightarrow> r_status r \<in> {R_PREPARING, R_WAITING_APPROVAL}
           \<and> map_option r_status (run_get (ap_target_id a) db') = Some R_RUNNING)
    else if da_decision cmd = ''approve'' \<and> ap_target_type a = Target_Step then
      (case step_get (ap_target_id a) db of None \<Rightarrow> db_steps db' = db_steps db
       | Some s \<Rightarrow> s_status s = S_WAITING_APPROVAL
           \<and> map_option s_status (step_get (ap_target_id a) db') = Some S_RUNNING)
    else db_tasks db' = db_tasks db \<and> db_runs db' = db_runs db \<and> db_steps db' = db_steps db"
proof -
  from assms obtain a0 db1 e where h: "a = decided cmd now a0"
    "if da_decision cmd = ''approve'' then transition_target_on_approve a now db = Inr db1 else db1 = db"
    "db' = outbox_write e (approval_save a db1)"
    by (rule handle_decide_needs) blast
  have te: "T_RUNNING \<in> set (task_transitions s) \<longleftrightarrow> s \<in> {T_PENDING, T_WAITING_APPROVAL}" for s
    by (cases s) simp_all
  have re: "R_RUNNING \<in> set (run_transitions s) \<longleftrightarrow> s \<in> {R_PREPARING, R_WAITING_APPROVAL}" for s
    by (cases s) simp_all
  note edges = te re
  show ?thesis
  proof (cases "da_decision cmd = ''approve''")
    case True
    with h(2) have tr: "transition_target_on_approve a now db = Inr db1" by simp
    have k: "task_get k db = Some t \<Longrightarrow> t_id t = k" "run_get k db = Some r \<Longrightarrow> r_id r = k"
      "step_get k db = Some s \<Longrightarrow> s_id s = k" for k t r s
      using task_repo.get_key run_repo.get_key step_repo.get_key by blast+
    show ?thesis
      using True tr k unfolding h(3)
      by (cases "ap_target_type a")
         (auto simp: transition_target_on_approve_def rbind_Inr_iff task_approve_def run_approve_def
           step_approve_def task_transition_ok run_transition_ok step_transition_ok edges
           task_repo.get_put run_repo.get_put step_repo.get_put split: option.splits if_splits)
  qed (use h in simp)
qed

section \<open>Witnesses\<close>

definition demo_approval :: approval where
  "demo_approval = \<lparr> ap_id = 31, ap_workspace_id = 7, ap_target_type = Target_Task,
     ap_target_id = 3, ap_requested_by = ''8'', ap_reviewer_id = None, ap_prompt = None,
     ap_timeout_at = None, ap_decision = AP_PENDING, ap_decided_by_id = None,
     ap_decided_at = None, ap_decision_comment = None, ap_created_at = 10, ap_updated_at = 10 \<rparr>"

definition demo_decide :: "string \<Rightarrow> decide_approval" where
  "demo_decide d = \<lparr> da_approval_id = 31, da_workspace_id = 7, da_decided_by_id = 9,
     da_decision = d, da_comment = None \<rparr>"

lemma demo_decides:
  "\<exists>a db'. handle_decide_approval (demo_decide ''approve'') demo_supply 50
     (demo_db\<lparr>db_approvals := [demo_approval]\<rparr>) = Inr (a, db')"
proof -
  have "is_ok (handle_decide_approval (demo_decide ''approve'') demo_supply 50
     (demo_db\<lparr>db_approvals := [demo_approval]\<rparr>))" by code_simp
  then show ?thesis by (auto simp: is_ok_iff)
qed

theorem approval_decision_is_final_witness:
  "\<exists>a db'. handle_decide_approval (demo_decide ''approve'') demo_supply 50
     (demo_db\<lparr>db_approvals := [demo_approval]\<rparr>) = Inr (a, db')
     \<and> \<not> is_ok (handle_decide_approval (demo_decide ''reject'') demo_supply 60 db')"
  using demo_decides approval_decision_is_final [of "demo_decide ''approve''" demo_supply 50
    "demo_db\<lparr>db_approvals := [demo_approval]\<rparr>" _ _ "demo_decide ''reject''" demo_supply 60]
  by (auto simp: demo_decide_def)

theorem approval_target_effect_witness:
  "\<exists>a db'. handle_decide_approval (demo_decide ''approve'') demo_supply 50
     (demo_db\<lparr>db_approvals := [demo_approval]\<rparr>) = Inr (a, db')
     \<and> (ap_target_type a = Target_Task \<longrightarrow> ap_target_id a = 3 \<longrightarrow>
          map_option t_status (task_get 3 db') = Some T_RUNNING)"
proof -
  obtain a db' where h: "handle_decide_approval (demo_decide ''approve'') demo_supply 50
     (demo_db\<lparr>db_approvals := [demo_approval]\<rparr>) = Inr (a, db')" using demo_decides by blast
  have "task_get 3 (demo_db\<lparr>db_approvals := [demo_approval]\<rparr>) = Some (demo_task 3 T_PENDING)"
    by (simp add: task_get_def demo_db_def demo_task_def empty_db_def)
  with approval_target_effect [OF h] h show ?thesis by (auto simp: demo_decide_def)
qed

end
