(* ===== verification/Resilience.thy ===== *)
theory Resilience
  imports Prelude
begin

text \<open>
  \<open>packages/resilience/resilience/retry.py\<close> and \<open>timeout_budget.py\<close>: bounded retry with
  exponential backoff, and the timeout budget passed along a chain of calls.

  The operation retried is a parameter \<open>fn\<close>, a function of a state of the outside world that
  returns an outcome and the next state.  Durations are integers (microseconds for delays and
  the monotonic clock, milliseconds for budgets).  The jitter \<open>random.uniform(0, d)\<close> is a
  parameter \<open>jit\<close> of the attempt and the bound, known only to lie in the interval.
\<close>

section \<open>Retry\<close>

record retry_policy =
  rp_max_attempts :: nat
  rp_base_delay :: int
  rp_max_delay :: int
  rp_jitter :: bool

text \<open>\<open>__post_init__\<close>: at least one attempt.\<close>

definition mk_retry_policy :: "int \<Rightarrow> int \<Rightarrow> int \<Rightarrow> bool \<Rightarrow> retry_policy" where
  "mk_retry_policy attempts base mx jitter = \<lparr>
     rp_max_attempts = (if attempts < 1 then 1 else nat attempts), rp_base_delay = base,
     rp_max_delay = mx, rp_jitter = jitter \<rparr>"

definition delay_for_attempt :: "(nat \<Rightarrow> int \<Rightarrow> int) \<Rightarrow> retry_policy \<Rightarrow> nat \<Rightarrow> int" where
  "delay_for_attempt jit pol attempt =
    (let delay = min (rp_base_delay pol * 2 ^ attempt) (rp_max_delay pol)
     in if rp_jitter pol then jit attempt delay else delay)"

definition is_retryable_status_code :: "int \<Rightarrow> bool" where
  "is_retryable_status_code c = (c \<in> {429, 502, 503, 504})"

text \<open>The loop, from an attempt with \<open>remaining\<close> attempts after it: the outcome, the last state
  and the delays slept.\<close>

fun retry_loop ::
  "(nat \<Rightarrow> int \<Rightarrow> int) \<Rightarrow> retry_policy \<Rightarrow> ('s \<Rightarrow> ('e + 'a) \<times> 's) \<Rightarrow> ('e \<Rightarrow> bool)
   \<Rightarrow> nat \<Rightarrow> nat \<Rightarrow> 's \<Rightarrow> ('e + 'a) \<times> 's \<times> int list" where
  "retry_loop jit pol fn retryable attempt remaining s =
    (case fn s of
       (Inr a, s') \<Rightarrow> (Inr a, s', [])
     | (Inl e, s') \<Rightarrow>
         if \<not> retryable e then (Inl e, s', [])
         else (case remaining of
             0 \<Rightarrow> (Inl e, s', [])
           | Suc n \<Rightarrow>
               (let (r, s'', ds) = retry_loop jit pol fn retryable (Suc attempt) n s'
                in (r, s'', delay_for_attempt jit pol attempt # ds))))"

declare retry_loop.simps [simp del]

definition retry_with_backoff ::
  "(nat \<Rightarrow> int \<Rightarrow> int) \<Rightarrow> retry_policy \<Rightarrow> ('s \<Rightarrow> ('e + 'a) \<times> 's) \<Rightarrow> ('e \<Rightarrow> bool) \<Rightarrow> 's
   \<Rightarrow> ('e + 'a) \<times> 's \<times> int list" where
  "retry_with_backoff jit pol fn retryable s =
     retry_loop jit pol fn retryable 0 (rp_max_attempts pol - 1) s"

section \<open>Timeout budget\<close>

record timeout_budget =
  tb_total_ms :: int
  tb_start :: time

definition min_useful_ms :: int where
  "min_useful_ms = 500"

definition budget_new :: "int \<Rightarrow> time \<Rightarrow> string + timeout_budget" where
  "budget_new total_ms now =
    (if total_ms \<le> 0 then Inl ''total_ms must be positive''
     else Inr \<lparr> tb_total_ms = total_ms, tb_start = now \<rparr>)"

definition budget_from_remaining :: "int \<Rightarrow> time \<Rightarrow> timeout_budget" where
  "budget_from_remaining remaining now = \<lparr> tb_total_ms = remaining, tb_start = now \<rparr>"

definition elapsed_ms :: "timeout_budget \<Rightarrow> time \<Rightarrow> int" where
  "elapsed_ms b now = (now - tb_start b) div 1000"

definition remaining_ms :: "timeout_budget \<Rightarrow> time \<Rightarrow> int" where
  "remaining_ms b now = max 0 (tb_total_ms b - elapsed_ms b now)"

definition is_exhausted :: "timeout_budget \<Rightarrow> time \<Rightarrow> bool" where
  "is_exhausted b now = (remaining_ms b now < min_useful_ms)"

definition remaining_for_downstream :: "timeout_budget \<Rightarrow> int \<Rightarrow> time \<Rightarrow> int" where
  "remaining_for_downstream b overhead now = max 0 (remaining_ms b now - overhead)"

section \<open>Lemmas\<close>

text \<open>The state in which the i-th call is made, and its outcome.\<close>

fun call_state :: "('s \<Rightarrow> 'r \<times> 's) \<Rightarrow> nat \<Rightarrow> 's \<Rightarrow> 's" where
  "call_state fn 0 s = s"
| "call_state fn (Suc i) s = call_state fn i (snd (fn s))"

definition call_outcome :: "('s \<Rightarrow> 'r \<times> 's) \<Rightarrow> nat \<Rightarrow> 's \<Rightarrow> 'r" where
  "call_outcome fn i s = fst (fn (call_state fn i s))"

lemma call_outcome_Suc: "call_outcome fn (Suc i) s = call_outcome fn i (snd (fn s))"
  by (simp add: call_outcome_def)

definition retry_again :: "('e \<Rightarrow> bool) \<Rightarrow> 'e + 'a \<Rightarrow> bool" where
  "retry_again retryable r = (case r of Inl e \<Rightarrow> retryable e | Inr _ \<Rightarrow> False)"

lemma retry_loop_again:
  "\<lbrakk> retry_again retryable (fst (fn s)); remaining = Suc n \<rbrakk> \<Longrightarrow>
   retry_loop jit pol fn retryable attempt remaining s =
     (let (r, s'', ds) = retry_loop jit pol fn retryable (Suc attempt) n (snd (fn s))
      in (r, s'', delay_for_attempt jit pol attempt # ds))"
  by (subst retry_loop.simps) (auto simp: retry_again_def split: prod.splits sum.splits)

lemma retry_loop_stop:
  "\<not> retry_again retryable (fst (fn s)) \<or> remaining = 0 \<Longrightarrow>
   retry_loop jit pol fn retryable attempt remaining s = (fst (fn s), snd (fn s), [])"
  by (subst retry_loop.simps) (auto simp: retry_again_def split: prod.splits sum.splits nat.splits)

lemma retry_loop_spec:
  "\<exists>k \<le> remaining. retry_loop jit pol fn retryable attempt remaining s =
      (call_outcome fn k s, call_state fn (Suc k) s, map (delay_for_attempt jit pol) [attempt..<attempt + k])
    \<and> (\<forall>i < k. retry_again retryable (call_outcome fn i s))
    \<and> (k = remaining \<or> \<not> retry_again retryable (call_outcome fn k s))"
proof (induction remaining arbitrary: attempt s)
  case 0
  then show ?case by (intro exI [of _ 0]) (simp add: retry_loop_stop call_outcome_def)
next
  case (Suc n)
  show ?case
  proof (cases "retry_again retryable (fst (fn s))")
    case False
    then show ?thesis by (intro exI [of _ 0]) (simp add: retry_loop_stop call_outcome_def)
  next
    case True
    from Suc.IH [of "Suc attempt" "snd (fn s)"] obtain k where k: "k \<le> n"
      "retry_loop jit pol fn retryable (Suc attempt) n (snd (fn s)) =
        (call_outcome fn k (snd (fn s)), call_state fn (Suc k) (snd (fn s)),
         map (delay_for_attempt jit pol) [Suc attempt..<Suc attempt + k])"
      "\<forall>i < k. retry_again retryable (call_outcome fn i (snd (fn s)))"
      "k = n \<or> \<not> retry_again retryable (call_outcome fn k (snd (fn s)))"
      by blast
    have "retry_again retryable (call_outcome fn i s)" if "i < Suc k" for i
      using that True k(3) by (cases i) (simp_all add: call_outcome_Suc, simp add: call_outcome_def)
    moreover have "[attempt..<attempt + Suc k] = attempt # [Suc attempt..<Suc attempt + k]"
      by (simp add: upt_conv_Cons)
    ultimately show ?thesis
      using k True
      by (intro exI [of _ "Suc k"]) (simp add: retry_loop_again call_outcome_Suc del: upt_Suc)
  qed
qed

lemma max_attempts_pos: "1 \<le> rp_max_attempts (mk_retry_policy a b m j)"
  by (auto simp: mk_retry_policy_def)

section \<open>Properties\<close>

text \<open>C34. Retrying makes at least one and at most \<open>max_attempts\<close> calls and returns the outcome of the
  last one; every call before it failed with a retryable error, the last one succeeded, failed
  permanently or used up the attempts, and between the calls it slept one delay each, within
  zero and the policy's bound.\<close>

theorem retry_spec:
  assumes "\<And>i d. 0 \<le> d \<Longrightarrow> 0 \<le> jit i d \<and> jit i d \<le> d" and "0 \<le> base" "0 \<le> mx"
    and pol_def: "pol = mk_retry_policy attempts base mx jitter"
  shows "\<exists>k < rp_max_attempts pol. \<exists>ds.
      retry_with_backoff jit pol fn retryable s = (call_outcome fn k s, call_state fn (Suc k) s, ds)
    \<and> length ds = k \<and> list_all (\<lambda>d. 0 \<le> d \<and> d \<le> mx) ds
    \<and> (\<forall>i < k. retry_again retryable (call_outcome fn i s))
    \<and> (Suc k = rp_max_attempts pol \<or> \<not> retry_again retryable (call_outcome fn k s))"
proof -
  obtain k where k: "k \<le> rp_max_attempts pol - 1"
    "retry_with_backoff jit pol fn retryable s =
      (call_outcome fn k s, call_state fn (Suc k) s, map (delay_for_attempt jit pol) [0..<k])"
    "\<forall>i < k. retry_again retryable (call_outcome fn i s)"
    "k = rp_max_attempts pol - 1 \<or> \<not> retry_again retryable (call_outcome fn k s)"
    using retry_loop_spec [of "rp_max_attempts pol - 1" jit pol fn retryable 0 s]
    by (auto simp: retry_with_backoff_def)
  have "0 \<le> delay_for_attempt jit pol i \<and> delay_for_attempt jit pol i \<le> mx" for i
  proof -
    have "0 \<le> min (base * 2 ^ i) mx" using assms(2,3) by simp
    then show ?thesis
      using assms(1) [of "min (base * 2 ^ i) mx" i]
      by (auto simp: delay_for_attempt_def pol_def mk_retry_policy_def Let_def)
  qed
  moreover have "1 \<le> rp_max_attempts pol" unfolding pol_def by (rule max_attempts_pos)
  ultimately show ?thesis
    using k by (intro exI [of _ k]) (auto simp: list_all_iff)
qed

theorem retry_spec_witness:
  "\<exists>ds. retry_with_backoff (\<lambda>i d. d div 2) (mk_retry_policy 3 500 800 True)
     (\<lambda>n::nat. (if n = 2 then Inr n else Inl n, Suc n)) (\<lambda>e. True) 0 = (Inr 2, 3, ds) \<and> length ds = 2"
proof -
  let ?fn = "\<lambda>n::nat. (if n = 2 then Inr n else Inl n :: nat + nat, Suc n)"
  have "\<And>i d. 0 \<le> d \<Longrightarrow> 0 \<le> d div 2 \<and> d div 2 \<le> (d::int)" by simp
  from retry_spec [where jit = "\<lambda>i d. d div 2", OF this _ _ refl, of 500 800 3 True ?fn "\<lambda>e. True" 0]
  obtain k ds where k: "k < 3" "retry_with_backoff (\<lambda>i d. d div 2) (mk_retry_policy 3 500 800 True)
      ?fn (\<lambda>e. True) 0 = (call_outcome ?fn k 0, call_state ?fn (Suc k) 0, ds)" "length ds = k"
    "Suc k = 3 \<or> \<not> retry_again (\<lambda>e. True) (call_outcome ?fn k 0)"
    by (auto simp: mk_retry_policy_def)
  then have "k = 2"
    by (cases k; cases "k - 1") (auto simp: call_outcome_def retry_again_def)
  with k show ?thesis by (simp add: call_outcome_def numeral_2_eq_2)
qed

text \<open>What a budget hands to a downstream call never exceeds what is left: it lies between zero
  and the total, does not grow as time passes, and a call that stays within it, plus the
  overhead kept back, ends before the budget's deadline (to the millisecond of the clock's
  rounding) whenever any time was granted.\<close>

theorem budget_bounds:
  assumes "tb_start b \<le> now" "now \<le> later" "0 \<le> overhead" "0 \<le> tb_total_ms b"
  shows "0 \<le> remaining_for_downstream b overhead now
    \<and> remaining_for_downstream b overhead now \<le> tb_total_ms b
    \<and> remaining_for_downstream b overhead later \<le> remaining_for_downstream b overhead now
    \<and> (remaining_for_downstream b overhead now = 0
       \<or> now + 1000 * (remaining_for_downstream b overhead now + overhead)
          < tb_start b + 1000 * tb_total_ms b + 1000)"
proof -
  define e where "e = (now - tb_start b) div 1000"
  define l where "l = (later - tb_start b) div 1000"
  have mono: "e \<le> l" unfolding e_def l_def using assms(2) by (intro zdiv_mono1) simp_all
  have pos: "0 \<le> e" unfolding e_def using assms(1) by (simp add: pos_imp_zdiv_nonneg_iff)
  have lt: "now - tb_start b < 1000 * e + 1000" unfolding e_def using pos_mod_bound [of 1000 "now - tb_start b"] div_mult_mod_eq [of "now - tb_start b" 1000] by linarith
  have r: "remaining_for_downstream b overhead now = max 0 (max 0 (tb_total_ms b - e) - overhead)"
    "remaining_for_downstream b overhead later = max 0 (max 0 (tb_total_ms b - l) - overhead)"
    by (simp_all add: remaining_for_downstream_def remaining_ms_def elapsed_ms_def e_def l_def)
  have le: "max 0 (max 0 (tb_total_ms b - l) - overhead) \<le> max 0 (max 0 (tb_total_ms b - e) - overhead)"
    using mono by (intro max.mono diff_mono) simp_all
  show ?thesis
  proof (cases "overhead < tb_total_ms b - e")
    case True
    then have "max 0 (max 0 (tb_total_ms b - e) - overhead) = tb_total_ms b - e - overhead"
      using assms(3) by simp
    then show ?thesis using le True pos lt assms(3) unfolding r by simp
  next
    case False
    then have "max 0 (max 0 (tb_total_ms b - e) - overhead) = 0" using assms(3) by simp
    then show ?thesis using le assms(4) unfolding r by simp
  qed
qed

theorem budget_bounds_witness:
  "0 \<le> remaining_for_downstream \<lparr>tb_total_ms = 3000, tb_start = 0\<rparr> 500 1000000
   \<and> remaining_for_downstream \<lparr>tb_total_ms = 3000, tb_start = 0\<rparr> 500 1000000 = 1500"
  using budget_bounds [of "\<lparr>tb_total_ms = 3000, tb_start = 0\<rparr>" 1000000 2000000 500]
  by (simp add: remaining_for_downstream_def remaining_ms_def elapsed_ms_def)

end
