(* ===== verification/Runtime_Client.thy ===== *)
theory Runtime_Client
  imports Orch_Execution Resilience
begin

text \<open>
  \<open>apps/orchestrator/src/infrastructure/runtime_client.py\<close>: the HTTP client behind the
  dispatch port.  The HTTP library is a parameter \<open>post\<close> over a state \<open>'w\<close> of the outside
  world, whose monotonic clock is \<open>clock\<close>; its outcomes are the exceptions the code tells apart
  and a response.  A response body is not JSON, JSON that is not an object, or an object, of
  which the fields the code reads are kept.
\<close>

record response_fields =
  rf_status :: "string option"
  rf_output_text :: "string option"
  rf_error_code :: "string option"
  rf_error_message :: "string option"
  rf_retryable :: "bool option"
  rf_prompt_tokens :: "int option"
  rf_completion_tokens :: "int option"

datatype response_body = NotJson | NotObject | Obj response_fields

datatype http_outcome =
    HttpTimeout string
  | HttpConnectError string
  | HttpOtherError string
  | HttpResponse int string response_body

text \<open>The body of one request: the dispatch request, the promoted sandbox id, and the budget
  handed downstream.\<close>

record runtime_request =
  rq_dispatch :: dispatch_request
  rq_sandbox_id :: "json option"
  rq_timeout_ms :: int

definition promoted_sandbox :: "dispatch_request \<Rightarrow> json option" where
  "promoted_sandbox q =
    (case map_of (dr_input_payload q) ''sandbox_id'' of
       None \<Rightarrow> None | Some j \<Rightarrow> if json_truthy j then Some j else None)"

text \<open>\<open>_TransientDispatchError\<close> carries the result to return when the attempts are used up;
  any other exception leaves \<open>dispatch\<close>.\<close>

datatype dispatch_error = Transient runtime_result | Uncaught py_exc

definition client_result ::
  "uuid \<Rightarrow> string \<Rightarrow> string \<Rightarrow> string \<Rightarrow> runtime_result" where
  "client_result ivk st code msg = (runtime_error ivk code msg)\<lparr> rr_status := st \<rparr>"

definition body_result :: "uuid \<Rightarrow> response_fields \<Rightarrow> runtime_result" where
  "body_result ivk f = \<lparr>
     rr_invocation_id = ivk, rr_status = opt_or (rf_status f) ''failed'',
     rr_output_text = opt_or (rf_output_text f) [], rr_error_code = rf_error_code f,
     rr_error_message = rf_error_message f, rr_retryable = opt_or (rf_retryable f) False,
     rr_prompt_tokens = opt_or (rf_prompt_tokens f) 0,
     rr_completion_tokens = opt_or (rf_completion_tokens f) 0 \<rparr>"

text \<open>Decimal digits, for the code \<open>HTTP_<status>\<close>.\<close>

fun digits :: "nat \<Rightarrow> string" where
  "digits n = (if n < 10 then [char_of (48 + n)] else digits (n div 10) @ [char_of (48 + n mod 10)])"

definition int_str :: "int \<Rightarrow> string" where
  "int_str i = (if i < 0 then ''-'' @ digits (nat (- i)) else digits (nat i))"

definition response_result :: "uuid \<Rightarrow> http_outcome \<Rightarrow> dispatch_error + runtime_result" where
  "response_result ivk out =
    (case out of
       HttpTimeout m \<Rightarrow> Inl (Transient (client_result ivk ''timed_out'' ''CLIENT_TIMEOUT''
                              (''Runtime request timed out: '' @ m)))
     | HttpConnectError m \<Rightarrow> Inl (Transient (client_result ivk ''failed'' ''CONNECTION_ERROR''
                              (''Cannot reach agent-runtime: '' @ m)))
     | HttpOtherError m \<Rightarrow> Inr (client_result ivk ''failed'' ''HTTP_ERROR'' m)
     | HttpResponse code txt body \<Rightarrow>
         if code \<noteq> 200
         then (let r = client_result ivk ''failed'' (''HTTP_'' @ int_str code) (take 500 txt)
               in if is_retryable_status_code code then Inl (Transient r) else Inr r)
         else (case body of
             NotJson \<Rightarrow> Inr (client_result ivk ''failed'' ''INVALID_RESPONSE''
                          (''Non-JSON response from agent-runtime: '' @ take 200 txt))
           | NotObject \<Rightarrow> Inl (Uncaught (PyExc ''AttributeError'' ''no attribute get''))
           | Obj f \<Rightarrow> Inr (body_result ivk f)))"

definition http_timeout_us :: "int \<Rightarrow> int" where
  "http_timeout_us downstream_ms = max (downstream_ms * 1000 + 10 * 1000000) (30 * 1000000)"

definition dispatch_attempt ::
  "(runtime_request \<Rightarrow> int \<Rightarrow> 'w \<Rightarrow> http_outcome \<times> 'w) \<Rightarrow> ('w \<Rightarrow> time) \<Rightarrow> timeout_budget
   \<Rightarrow> dispatch_request \<Rightarrow> 'w \<Rightarrow> (dispatch_error + runtime_result) \<times> 'w" where
  "dispatch_attempt post clock budget q w =
    (if is_exhausted budget (clock w)
     then (Inr (client_result (dr_invocation_id q) ''timed_out'' ''BUDGET_EXHAUSTED''
                  ''Timeout budget exhausted before dispatch attempt''), w)
     else
       let downstream = remaining_for_downstream budget 500 (clock w);
           (out, w') = post \<lparr> rq_dispatch = q, rq_sandbox_id = promoted_sandbox q,
                              rq_timeout_ms = downstream \<rparr> (http_timeout_us downstream) w
       in (response_result (dr_invocation_id q) out, w'))"

definition is_transient :: "dispatch_error \<Rightarrow> bool" where
  "is_transient e = (case e of Transient _ \<Rightarrow> True | Uncaught _ \<Rightarrow> False)"

definition dispatch_retry :: retry_policy where
  "dispatch_retry = mk_retry_policy 3 500000 5000000 True"

definition http_dispatch ::
  "(nat \<Rightarrow> int \<Rightarrow> int) \<Rightarrow> (runtime_request \<Rightarrow> int \<Rightarrow> 'w \<Rightarrow> http_outcome \<times> 'w) \<Rightarrow> ('w \<Rightarrow> time)
   \<Rightarrow> dispatch_request \<Rightarrow> 'w \<Rightarrow> (py_exc + runtime_result) \<times> 'w" where
  "http_dispatch jit post clock q w =
    (case budget_new (dr_timeout_ms q) (clock w) of
       Inl m \<Rightarrow> (Inl (PyExc ''ValueError'' m), w)
     | Inr budget \<Rightarrow>
         (case retry_with_backoff jit dispatch_retry (dispatch_attempt post clock budget q)
                 is_transient w of
            (Inr r, w', _) \<Rightarrow> (Inr r, w')
          | (Inl (Transient r), w', _) \<Rightarrow> (Inr r, w')
          | (Inl (Uncaught e), w', _) \<Rightarrow> (Inl e, w')))"

section \<open>Lemmas\<close>

definition attempt_result :: "dispatch_error + runtime_result \<Rightarrow> py_exc + runtime_result" where
  "attempt_result r = (case r of Inr x \<Rightarrow> Inr x | Inl (Transient x) \<Rightarrow> Inr x | Inl (Uncaught e) \<Rightarrow> Inl e)"

lemma http_dispatch_eq:
  "budget_new (dr_timeout_ms q) (clock w) = Inr budget \<Longrightarrow>
   http_dispatch jit post clock q w =
     (let (r, w', _) = retry_with_backoff jit dispatch_retry (dispatch_attempt post clock budget q)
                         is_transient w
      in (attempt_result r, w'))"
  by (simp add: http_dispatch_def attempt_result_def split: prod.splits sum.splits dispatch_error.splits)

lemma dispatch_retry_attempts [simp]: "rp_max_attempts dispatch_retry = 3"
  by (simp add: dispatch_retry_def mk_retry_policy_def)

text \<open>The statuses an attempt can report: those the client makes up, and the runtime's own.\<close>

lemma response_status:
  "response_result ivk out = Inl (Transient r) \<Longrightarrow> rr_status r \<in> {''failed'', ''timed_out''}"
  "response_result ivk out = Inr r \<Longrightarrow> rr_is_success r \<Longrightarrow>
   \<exists>t f. out = HttpResponse 200 t (Obj f) \<and> rf_status f = Some ''completed''"
  by (auto simp: response_result_def client_result_def runtime_error_def body_result_def Let_def
        rr_is_success_def opt_or_def split: http_outcome.splits if_splits response_body.splits option.splits)

lemma attempt_success:
  assumes "attempt_result (fst (dispatch_attempt post clock b q w)) = Inr r" and "rr_is_success r"
  shows "\<exists>rq t f. fst (post rq (http_timeout_us (rq_timeout_ms rq)) w) = HttpResponse 200 t (Obj f)
    \<and> rf_status f = Some ''completed'' \<and> rq_dispatch rq = q
    \<and> rq_timeout_ms rq = remaining_for_downstream b 500 (clock w)"
proof -
  have ne: "\<not> is_exhausted b (clock w)"
    using assms by (auto simp: dispatch_attempt_def attempt_result_def client_result_def
        rr_is_success_def)
  let ?d = "remaining_for_downstream b 500 (clock w)"
  let ?rq = "\<lparr> rq_dispatch = q, rq_sandbox_id = promoted_sandbox q, rq_timeout_ms = ?d \<rparr>"
  let ?out = "fst (post ?rq (http_timeout_us ?d) w)"
  have "fst (dispatch_attempt post clock b q w) = response_result (dr_invocation_id q) ?out"
    using ne by (simp add: dispatch_attempt_def case_prod_beta Let_def)
  with assms(1) have "attempt_result (response_result (dr_invocation_id q) ?out) = Inr r" by simp
  then have "response_result (dr_invocation_id q) ?out = Inr r"
    using response_status(1) [of "dr_invocation_id q" ?out r] assms(2)
    by (auto simp: attempt_result_def rr_is_success_def split: sum.splits dispatch_error.splits)
  from response_status(2) [OF this assms(2)] show ?thesis
    by (intro exI [of _ ?rq]) auto
qed

section \<open>Properties\<close>

text \<open>Dispatching with a positive timeout makes between one and three attempts and returns the
  result of the last one; it reports success only if the runtime itself answered 200 with the
  status \<open>completed\<close> to a request that carried this dispatch and a downstream timeout at least
  half a second inside the budget; and it raises only when a 200 response is JSON but not an
  object.\<close>

theorem dispatch_spec:
  assumes "0 < dr_timeout_ms q"
  shows "\<exists>k < 3. \<exists>budget. budget_new (dr_timeout_ms q) (clock w) = Inr budget \<and>
    (let fn = dispatch_attempt post clock budget q; wk = call_state fn k w in
     fst (http_dispatch jit post clock q w) = attempt_result (call_outcome fn k w)
     \<and> (case fst (http_dispatch jit post clock q w) of
          Inl e \<Rightarrow> call_outcome fn k w = Inl (Uncaught e)
        | Inr r \<Rightarrow> rr_is_success r \<longrightarrow>
            (\<exists>rq t f. fst (post rq (http_timeout_us (rq_timeout_ms rq)) wk) = HttpResponse 200 t (Obj f)
               \<and> rf_status f = Some ''completed'' \<and> rq_dispatch rq = q
               \<and> rq_timeout_ms rq = remaining_for_downstream budget 500 (clock wk))))"
proof -
  let ?b = "\<lparr> tb_total_ms = dr_timeout_ms q, tb_start = clock w \<rparr>"
  let ?fn = "dispatch_attempt post clock ?b q"
  have b: "budget_new (dr_timeout_ms q) (clock w) = Inr ?b" using assms by (simp add: budget_new_def)
  obtain k where k2: "k \<le> 2" "retry_loop jit dispatch_retry ?fn is_transient 0 2 w =
      (call_outcome ?fn k w, call_state ?fn (Suc k) w, map (delay_for_attempt jit dispatch_retry) [0..<0 + k])"
    using retry_loop_spec [of 2 jit dispatch_retry ?fn is_transient 0 w] by blast
  then have k: "k < 3" "retry_with_backoff jit dispatch_retry ?fn is_transient w =
      (call_outcome ?fn k w, call_state ?fn (Suc k) w, map (delay_for_attempt jit dispatch_retry) [0..<k])"
    by (simp_all add: retry_with_backoff_def)
  have r: "fst (http_dispatch jit post clock q w) = attempt_result (call_outcome ?fn k w)"
    using b by (simp add: http_dispatch_eq k(2))
  have "call_outcome ?fn k w = Inl (Uncaught e)" if "attempt_result (call_outcome ?fn k w) = Inl e" for e
    using that by (auto simp: attempt_result_def split: sum.splits dispatch_error.splits)
  moreover note attempt_success [of post clock ?b q "call_state ?fn k w"]
  ultimately show ?thesis
    using k(1) b r
    by (intro exI [of _ k]) (auto simp: Let_def call_outcome_def split: sum.split)
qed

theorem dispatch_spec_witness:
  "\<exists>k < 3. fst (http_dispatch (\<lambda>i d. 0) (\<lambda>rq t (n::nat). (HttpTimeout ''x'', Suc n)) (\<lambda>n. 0)
      ((dispatch_request_of (demo_env demo_ok) (start_ctx demo_supply 50 (demo_task 3 T_PENDING)) None)) 0)
    = attempt_result (call_outcome (dispatch_attempt (\<lambda>rq t (n::nat). (HttpTimeout ''x'', Suc n)) (\<lambda>n. 0)
        \<lparr> tb_total_ms = 120000, tb_start = 0 \<rparr>
        (dispatch_request_of (demo_env demo_ok) (start_ctx demo_supply 50 (demo_task 3 T_PENDING)) None)) k 0)"
proof -
  let ?q = "dispatch_request_of (demo_env demo_ok) (start_ctx demo_supply 50 (demo_task 3 T_PENDING)) None"
  have t: "dr_timeout_ms ?q = 120000" by (simp add: dispatch_request_of_def demo_env_def)
  from dispatch_spec [of ?q "\<lambda>n. 0" "0::nat" "\<lambda>rq t n. (HttpTimeout ''x'', Suc n)" "\<lambda>i d. 0"] t
  show ?thesis by (auto simp: budget_new_def Let_def)
qed

end
