(* ===== verification/Event_Ingest.thy ===== *)
theory Event_Ingest
  imports Orch_Events
begin

text \<open>
  The event store's write side: \<open>apps/event-store/src/domain/event.py\<close>,
  \<open>application/ingest.py\<close>, the inserts of \<open>infrastructure/db/repository.py\<close> and the batch
  endpoint of \<open>api/routes.py\<close>.  The store is the list of its rows in insertion order.

  An envelope is a JSON value as the outbox writer builds it: \<open>JUuid\<close> is the text of a UUID and
  \<open>JInt\<close> under \<open>occurred_at\<close> an instant.  A parse failure is one of the exceptions the code
  catches (\<open>Inl True\<close>) or one it does not (\<open>Inl False\<close>: \<open>UUID(5)\<close> is an \<open>AttributeError\<close>).
\<close>

record stored_event =
  se_id :: uuid
  se_event_type :: string
  se_schema_version :: json
  se_workspace_id :: uuid
  se_task_id :: "uuid option"
  se_run_id :: "uuid option"
  se_step_id :: "uuid option"
  se_correlation_id :: uuid
  se_causation_id :: "uuid option"
  se_occurred_at :: time
  se_emitted_by :: json
  se_actor :: json
  se_payload :: json
  se_received_at :: time

section \<open>Parsing\<close>

definition env_get :: "dict \<Rightarrow> string \<Rightarrow> json \<Rightarrow> json" where
  "env_get d k dflt = (case map_of d k of None \<Rightarrow> dflt | Some j \<Rightarrow> j)"

definition env_req :: "dict \<Rightarrow> string \<Rightarrow> bool + json" where
  "env_req d k = (case map_of d k of None \<Rightarrow> Inl True | Some j \<Rightarrow> Inr j)"

text \<open>\<open>UUID(x)\<close>: a \<open>TypeError\<close> on None, a \<open>ValueError\<close> on other text, else an
  \<open>AttributeError\<close>.\<close>

definition parse_uuid :: "json \<Rightarrow> bool + uuid" where
  "parse_uuid j = (case j of JUuid u \<Rightarrow> Inr u | JNull \<Rightarrow> Inl True | JStr _ \<Rightarrow> Inl True | _ \<Rightarrow> Inl False)"

definition parse_opt_uuid :: "dict \<Rightarrow> string \<Rightarrow> bool + uuid option" where
  "parse_opt_uuid d k =
    (if json_truthy (env_get d k JNull) then rbind (parse_uuid (env_get d k JNull)) (\<lambda>u. Inr (Some u))
     else Inr None)"

definition parse_time :: "json \<Rightarrow> bool + time" where
  "parse_time j = (case j of JInt t \<Rightarrow> Inr t | JStr _ \<Rightarrow> Inl True | _ \<Rightarrow> Inl False)"

definition parse_text :: "json \<Rightarrow> bool + string" where
  "parse_text j = (case j of JStr s \<Rightarrow> Inr s | _ \<Rightarrow> Inl False)"

definition parse_envelope :: "time \<Rightarrow> json \<Rightarrow> bool + stored_event" where
  "parse_envelope now env =
    (case env of
       JObj d \<Rightarrow>
         rbind (env_req d ''occurred_at'') (\<lambda>oc. rbind (parse_time oc) (\<lambda>occurred.
         rbind (env_req d ''event_id'') (\<lambda>ji. rbind (parse_uuid ji) (\<lambda>i.
         rbind (env_req d ''event_type'') (\<lambda>jt. rbind (parse_text jt) (\<lambda>ty.
         rbind (env_req d ''workspace_id'') (\<lambda>jw. rbind (parse_uuid jw) (\<lambda>ws.
         rbind (parse_opt_uuid d ''task_id'') (\<lambda>tid.
         rbind (parse_opt_uuid d ''run_id'') (\<lambda>rid.
         rbind (parse_opt_uuid d ''step_id'') (\<lambda>sid.
         rbind (env_req d ''correlation_id'') (\<lambda>jc. rbind (parse_uuid jc) (\<lambda>corr.
         rbind (parse_opt_uuid d ''causation_id'') (\<lambda>cause.
         Inr \<lparr> se_id = i, se_event_type = ty,
               se_schema_version = env_get d ''schema_version'' (JStr ''1.0''),
               se_workspace_id = ws, se_task_id = tid, se_run_id = rid, se_step_id = sid,
               se_correlation_id = corr, se_causation_id = cause, se_occurred_at = occurred,
               se_emitted_by = env_get d ''emitted_by'' (JObj [(''service'', JStr ''unknown''),
                                 (''instance_id'', JStr ''unknown'')]),
               se_actor = env_get d ''actor'' (JObj [(''type'', JStr ''system''), (''id'', JStr ''unknown'')]),
               se_payload = env_get d ''payload'' (JObj []), se_received_at = now \<rparr>))))))))))))))
     | _ \<Rightarrow> Inl False)"

section \<open>The store\<close>

text \<open>\<open>INSERT ... ON CONFLICT DO NOTHING\<close>, and whether a row was inserted.\<close>

definition execute_insert :: "stored_event \<Rightarrow> stored_event list \<Rightarrow> bool \<times> stored_event list" where
  "execute_insert e store =
    (if se_id e \<in> se_id ` set store then (False, store) else (True, store @ [e]))"

fun repo_ingest_batch :: "stored_event list \<Rightarrow> stored_event list \<Rightarrow> bool list \<times> stored_event list" where
  "repo_ingest_batch [] store = ([], store)"
| "repo_ingest_batch (e # es) store =
     (let (new, store1) = execute_insert e store; (flags, store2) = repo_ingest_batch es store1
      in (new # flags, store2))"

text \<open>\<open>ingest_event\<close>: \<open>Inl\<close> is the \<open>ValueError\<close> (or the uncaught error) of the parser.\<close>

definition ingest_event :: "time \<Rightarrow> json \<Rightarrow> stored_event list \<Rightarrow> bool + (bool \<times> stored_event list)" where
  "ingest_event now env store = rbind (parse_envelope now env) (\<lambda>e. Inr (execute_insert e store))"

record batch_result =
  br_event_id :: json
  br_status :: string

text \<open>The loop over the envelopes: the parsed ones, or None; an uncaught error stops it.\<close>

fun parse_batch :: "time \<Rightarrow> json list \<Rightarrow> bool + stored_event option list" where
  "parse_batch now [] = Inr []"
| "parse_batch now (env # envs) =
     (case parse_envelope now env of
        Inl False \<Rightarrow> Inl False
      | Inl True \<Rightarrow> rbind (parse_batch now envs) (\<lambda>ps. Inr (None # ps))
      | Inr e \<Rightarrow> rbind (parse_batch now envs) (\<lambda>ps. Inr (Some e # ps)))"

definition envelope_id :: "json \<Rightarrow> json" where
  "envelope_id env = (case env of JObj d \<Rightarrow> env_get d ''event_id'' (JStr ''unknown'') | _ \<Rightarrow> JNull)"

text \<open>The results in input order: flags go to the parsed envelopes one after the other.\<close>

fun batch_results :: "json list \<Rightarrow> stored_event option list \<Rightarrow> bool list \<Rightarrow> batch_result list" where
  "batch_results (env # envs) (None # ps) flags =
     \<lparr> br_event_id = envelope_id env, br_status = ''error'' \<rparr> # batch_results envs ps flags"
| "batch_results (env # envs) (Some e # ps) (new # flags) =
     \<lparr> br_event_id = JUuid (se_id e), br_status = (if new then ''created'' else ''duplicate'') \<rparr>
       # batch_results envs ps flags"
| "batch_results _ _ _ = []"

definition ingest_event_batch ::
  "time \<Rightarrow> json list \<Rightarrow> stored_event list \<Rightarrow> bool + (batch_result list \<times> stored_event list)" where
  "ingest_event_batch now envs store =
     rbind (parse_batch now envs) (\<lambda>ps.
       let (flags, store') = repo_ingest_batch (List.map_filter id ps) store
       in Inr (batch_results envs ps flags, store'))"

text \<open>The endpoint: the status code, the results, the store after it.\<close>

definition ingest_batch_endpoint ::
  "time \<Rightarrow> json list \<Rightarrow> stored_event list \<Rightarrow> int \<times> batch_result list \<times> stored_event list" where
  "ingest_batch_endpoint now envs store =
    (if length envs > 500 then (400, [], store)
     else (case ingest_event_batch now envs store of
             Inl _ \<Rightarrow> (500, [], store)
           | Inr (results, store') \<Rightarrow> (201, results, store')))"

section \<open>Lemmas\<close>

definition stored_of :: "outbox_event \<Rightarrow> time \<Rightarrow> stored_event" where
  "stored_of e received = \<lparr>
     se_id = ev_event_id e, se_event_type = ev_event_type e, se_schema_version = JStr ''1.0'',
     se_workspace_id = ev_workspace_id e, se_task_id = ev_task_id e, se_run_id = ev_run_id e,
     se_step_id = ev_step_id e, se_correlation_id = ev_correlation_id e,
     se_causation_id = ev_causation_id e, se_occurred_at = ev_occurred_at e,
     se_emitted_by = JObj [(''service'', JStr ''orchestrator''), (''instance_id'', JStr ''local'')],
     se_actor = JObj [(''type'', JStr ''system''), (''id'', JStr ''orchestrator'')],
     se_payload = JObj (ev_payload e), se_received_at = received \<rparr>"

lemma stored_of_id [simp]: "se_id (stored_of e r) = ev_event_id e"
  by (simp add: stored_of_def)

lemma parse_opt_uuid_opt:
  "map_of d k = Some (opt_uuid x) \<Longrightarrow> parse_opt_uuid d k = Inr x"
  by (cases x) (simp_all add: parse_opt_uuid_def env_get_def opt_uuid_def json_truthy_def parse_uuid_def)

text \<open>Round trip: the parser reads back what the outbox writer wrote.\<close>

lemma parse_outbox_envelope: "parse_envelope now (outbox_envelope e) = Inr (stored_of e now)"
  by (simp add: parse_envelope_def outbox_envelope_def env_req_def env_get_def parse_uuid_def
      parse_time_def parse_text_def parse_opt_uuid_opt stored_of_def)

lemma parse_batch_outbox:
  "parse_batch now (map outbox_envelope es) = Inr (map (\<lambda>e. Some (stored_of e now)) es)"
  by (induction es) (simp_all add: parse_outbox_envelope)

lemma map_filter_id_Some: "List.map_filter id (map (\<lambda>x. Some (f x)) xs) = map f xs"
  by (induction xs) (simp_all add: List.map_filter_def)

lemma repo_ingest_batch_length: "length (fst (repo_ingest_batch es store)) = length es"
  by (induction es arbitrary: store) (simp_all add: case_prod_beta Let_def)

lemma snd_repo_ingest_Cons [simp]:
  "snd (repo_ingest_batch (e # es) store) = snd (repo_ingest_batch es (snd (execute_insert e store)))"
  by (simp add: case_prod_beta Let_def)

lemma execute_insert_props:
  "set store \<subseteq> set (snd (execute_insert e store))"
  "set (snd (execute_insert e store)) \<subseteq> insert e (set store)"
  "se_id e \<in> se_id ` set (snd (execute_insert e store))"
  "distinct (map se_id store) \<Longrightarrow> distinct (map se_id (snd (execute_insert e store)))"
  by (auto simp: execute_insert_def)

lemma repo_ingest_mono: "set store \<subseteq> set (snd (repo_ingest_batch es store))"
proof (induction es arbitrary: store)
  case (Cons e es)
  show ?case using execute_insert_props(1) Cons by (simp del: repo_ingest_batch.simps) blast
qed simp

lemma repo_ingest_origin: "set (snd (repo_ingest_batch es store)) \<subseteq> set store \<union> set es"
proof (induction es arbitrary: store)
  case (Cons e es)
  show ?case
    using execute_insert_props(2) [of e store] Cons [of "snd (execute_insert e store)"]
    by (auto simp del: repo_ingest_batch.simps)
qed simp

lemma repo_ingest_has: "e \<in> set es \<Longrightarrow> se_id e \<in> se_id ` set (snd (repo_ingest_batch es store))"
proof (induction es arbitrary: store)
  case (Cons x es)
  show ?case
  proof (cases "e \<in> set es")
    case True
    then show ?thesis using Cons.IH by (simp del: repo_ingest_batch.simps)
  next
    case False
    then have "e = x" using Cons.prems by simp
    then show ?thesis
      using execute_insert_props(3) repo_ingest_mono by (simp del: repo_ingest_batch.simps) blast
  qed
qed simp

lemma repo_ingest_distinct:
  "distinct (map se_id store) \<Longrightarrow> distinct (map se_id (snd (repo_ingest_batch es store)))"
  by (induction es arbitrary: store) (simp_all add: execute_insert_props(4) del: repo_ingest_batch.simps(2))

lemma batch_results_all:
  "length flags = length es \<Longrightarrow>
   batch_results (map outbox_envelope es) (map (\<lambda>e. Some (stored_of e now)) es) flags =
     map (\<lambda>(e, new). \<lparr> br_event_id = JUuid (ev_event_id e),
                       br_status = (if new then ''created'' else ''duplicate'') \<rparr>) (zip es flags)"
  by (induction flags es rule: list_induct2) simp_all

text \<open>The endpoint on a batch of outbox envelopes.\<close>

lemma endpoint_outbox:
  assumes "length es \<le> 500"
  shows "\<exists>flags. length flags = length es
    \<and> ingest_batch_endpoint now (map outbox_envelope es) store =
       (201, map (\<lambda>(e, new). \<lparr> br_event_id = JUuid (ev_event_id e),
                       br_status = (if new then ''created'' else ''duplicate'') \<rparr>) (zip es flags),
        snd (repo_ingest_batch (map (\<lambda>e. stored_of e now) es) store))"
proof -
  obtain flags store' where r: "repo_ingest_batch (map (\<lambda>e. stored_of e now) es) store = (flags, store')"
    by (cases "repo_ingest_batch (map (\<lambda>e. stored_of e now) es) store")
  then have "length flags = length es"
    using repo_ingest_batch_length [of "map (\<lambda>e. stored_of e now) es" store] by simp
  with r assms show ?thesis
    by (intro exI [of _ flags])
       (simp add: ingest_batch_endpoint_def ingest_event_batch_def parse_batch_outbox
         map_filter_id_Some batch_results_all)
qed

section \<open>Properties\<close>

text \<open>C35. Writing an event to the outbox and reading its envelope at the event store is a round
  trip: every field arrives, and ingesting it twice stores it once and reports first that it is
  new, then that it is a duplicate.\<close>

theorem ingest_roundtrip:
  assumes "ev_event_id e \<notin> se_id ` set store"
  shows "ingest_event now (outbox_envelope e) store = Inr (True, store @ [stored_of e now])
    \<and> ingest_event later (outbox_envelope e) (store @ [stored_of e now]) =
        Inr (False, store @ [stored_of e now])"
  using assms by (simp add: ingest_event_def parse_outbox_envelope execute_insert_def)

theorem ingest_roundtrip_witness:
  "ingest_event 5 (outbox_envelope (task_started_event (9, 4) 1 7 3 None)) [] =
     Inr (True, [stored_of (task_started_event (9, 4) 1 7 3 None) 5])"
  using ingest_roundtrip [of "task_started_event (9, 4) 1 7 3 None" "[]" 5] by simp

end
