(* ===== verification/Outbox_Relay.thy ===== *)
theory Outbox_Relay
  imports Orch_Store Resilience Event_Ingest
begin

text \<open>
  \<open>infrastructure/outbox/relay.py\<close> of the orchestrator (the artifact service has the same
  file): the poll that forwards outbox rows to the event store's batch endpoint.

  The HTTP client is a function \<open>post\<close> of the outside world: \<open>Inl ()\<close> is an \<open>httpx.HTTPError\<close>,
  \<open>Inr\<close> a status code with the list under \<open>results\<close>.  What the relay needs of the receiver is
  the interface \<open>event_sink\<close>; its instance is the event store of \<open>Event_Ingest\<close> behind a
  network that may lose a request or, worse, the response.
\<close>

section \<open>The poll\<close>

type_synonym response = "int \<times> batch_result list"
type_synonym 'w poster = "json list \<Rightarrow> 'w \<Rightarrow> (unit + response) \<times> 'w"

definition relay_batch_size :: nat where
  "relay_batch_size = 50"

definition max_relay_attempts :: nat where
  "max_relay_attempts = 10"

definition relay_retry :: retry_policy where
  "relay_retry = mk_retry_policy 2 500000 3000000 True"

definition relayable :: "outbox_row \<Rightarrow> bool" where
  "relayable r = (ob_published_at r = None \<and> ob_attempts r < max_relay_attempts)"

definition pending_rows :: "outbox_row list \<Rightarrow> outbox_row list" where
  "pending_rows outbox = take relay_batch_size (sort_key ob_created_at (filter relayable outbox))"

definition mark_published :: "time \<Rightarrow> outbox_row \<Rightarrow> outbox_row list \<Rightarrow> outbox_row list" where
  "mark_published now row outbox =
     map (\<lambda>r. if ob_id r = ob_id row then r\<lparr>ob_published_at := Some now\<rparr> else r) outbox"

definition add_attempt :: "outbox_row \<Rightarrow> outbox_row list \<Rightarrow> outbox_row list" where
  "add_attempt row outbox =
     map (\<lambda>r. if ob_id r = ob_id row then r\<lparr>ob_attempts := ob_attempts r + 1\<rparr> else r) outbox"

definition increment_attempts :: "outbox_row list \<Rightarrow> outbox_row list \<Rightarrow> outbox_row list" where
  "increment_attempts rows outbox = fold add_attempt rows outbox"

text \<open>The loop over the results: result \<open>i\<close> is about row \<open>i\<close>, further results are ignored.\<close>

fun process_results ::
  "time \<Rightarrow> batch_result list \<Rightarrow> outbox_row list \<Rightarrow> nat \<times> outbox_row list \<Rightarrow> nat \<times> outbox_row list" where
  "process_results now (res # results) (row # rows) (relayed, outbox) =
     (if br_status res = ''created'' \<or> br_status res = ''duplicate''
      then process_results now results rows (relayed + 1, mark_published now row outbox)
      else process_results now results rows (relayed, add_attempt row outbox))"
| "process_results now _ _ acc = acc"

definition relay_pending_events ::
  "'w poster \<Rightarrow> (nat \<Rightarrow> int \<Rightarrow> int) \<Rightarrow> time \<Rightarrow> outbox_row list \<Rightarrow> 'w \<Rightarrow> nat \<times> outbox_row list \<times> 'w" where
  "relay_pending_events post jit now outbox w =
    (let rows = pending_rows outbox in
     if rows = [] then (0, outbox, w)
     else (case retry_with_backoff jit relay_retry
                  (post (map (\<lambda>r. outbox_envelope (ob_event r)) rows)) (\<lambda>_. True) w of
             (Inl _, w', _) \<Rightarrow> (0, increment_attempts rows outbox, w')
           | (Inr (status, results), w', _) \<Rightarrow>
               if status \<noteq> 200 \<and> status \<noteq> 201 then (0, increment_attempts rows outbox, w')
               else (let (n, outbox') = process_results now results rows (0, outbox)
                     in (n, outbox', w'))))"

section \<open>Lemmas on the outbox\<close>

definition row_wf :: "outbox_row \<Rightarrow> bool" where
  "row_wf r = (ob_id r = ev_event_id (ob_event r) \<and> ob_attempts r \<le> max_relay_attempts)"

definition outbox_wf :: "outbox_row list \<Rightarrow> bool" where
  "outbox_wf outbox = (distinct (map ob_id outbox) \<and> list_all row_wf outbox)"

text \<open>What a poll may do to one row: nothing, one more attempt, or publication.\<close>

inductive row_step :: "outbox_row \<Rightarrow> outbox_row \<Rightarrow> bool" where
  row_same: "row_step r r"
| row_attempt: "relayable r \<Longrightarrow> row_step r (r\<lparr>ob_attempts := ob_attempts r + 1\<rparr>)"
| row_publish: "relayable r \<Longrightarrow> row_step r (r\<lparr>ob_published_at := Some now\<rparr>)"

lemma row_attempt_Suc: "relayable r \<Longrightarrow> row_step r (r\<lparr>ob_attempts := Suc (ob_attempts r)\<rparr>)"
  using row_attempt by simp

inductive_cases row_stepE: "row_step r r'"

lemma row_step_frame: "row_step r r' \<Longrightarrow> ob_id r' = ob_id r \<and> ob_event r' = ob_event r"
  by (auto elim: row_stepE)

lemma row_step_wf: "\<lbrakk> row_step r r'; row_wf r \<rbrakk> \<Longrightarrow> row_wf r'"
  by (auto elim!: row_stepE simp: row_wf_def relayable_def)

lemma row_step_unrelayable: "\<lbrakk> row_step r r'; \<not> relayable r \<rbrakk> \<Longrightarrow> r' = r"
  by (auto elim: row_stepE)

lemma add_attempt_ids [simp]: "map ob_id (add_attempt row outbox) = map ob_id outbox"
  by (simp add: add_attempt_def)

lemma mark_published_ids [simp]: "map ob_id (mark_published now row outbox) = map ob_id outbox"
  by (simp add: mark_published_def)

lemma pending_subset: "set (pending_rows outbox) \<subseteq> {r \<in> set outbox. relayable r}"
  unfolding pending_rows_def using set_take_subset by fastforce

lemma pending_distinct:
  assumes "distinct (map ob_id outbox)"
  shows "distinct (map ob_id (pending_rows outbox))"
proof -
  have "distinct (map ob_id (filter relayable outbox))"
    using assms by (rule distinct_map_filter)
  then have "distinct (map ob_id (sort_key ob_created_at (filter relayable outbox)))"
    by (simp add: distinct_map)
  then show ?thesis by (simp add: pending_rows_def flip: take_map)
qed

text \<open>After the rows \<open>rows\<close> have been handled, the others are as they were.\<close>

lemma increment_attempts_map:
  assumes "distinct (map ob_id rows)"
  shows "increment_attempts rows outbox =
    map (\<lambda>r. if ob_id r \<in> ob_id ` set rows then r\<lparr>ob_attempts := ob_attempts r + 1\<rparr> else r) outbox"
  using assms
proof (induction rows arbitrary: outbox)
  case (Cons x xs)
  then have "increment_attempts (x # xs) outbox = increment_attempts xs (add_attempt x outbox)"
    by (simp add: increment_attempts_def)
  also have "\<dots> = map (\<lambda>r. if ob_id r \<in> ob_id ` set xs then r\<lparr>ob_attempts := ob_attempts r + 1\<rparr> else r)
      (add_attempt x outbox)"
    using Cons by simp
  finally show ?case using Cons.prems by (auto simp: add_attempt_def)
qed (simp add: increment_attempts_def)

text \<open>The outcome recorded for a row: that of the first result at its position.\<close>

definition acked :: "batch_result \<Rightarrow> bool" where
  "acked res = (br_status res = ''created'' \<or> br_status res = ''duplicate'')"

definition apply_result :: "time \<Rightarrow> (outbox_row \<times> batch_result) list \<Rightarrow> outbox_row \<Rightarrow> outbox_row" where
  "apply_result now prs r =
    (case find (\<lambda>(row, res). ob_id row = ob_id r) prs of
       None \<Rightarrow> r
     | Some (_, res) \<Rightarrow> if acked res then r\<lparr>ob_published_at := Some now\<rparr>
                        else r\<lparr>ob_attempts := ob_attempts r + 1\<rparr>)"

lemma find_None_zip: "ob_id x \<notin> ob_id ` set rows \<Longrightarrow>
   find (\<lambda>(row, res). ob_id row = ob_id x) (zip rows results) = None"
  by (force simp: find_None_iff dest: set_zip_leftD)

lemma apply_result_published:
  assumes "ob_published_at (apply_result now prs r) \<noteq> None"
  shows "ob_published_at r \<noteq> None
    \<or> (\<exists>row res. (row, res) \<in> set prs \<and> ob_id row = ob_id r \<and> acked res)"
proof (cases "find (\<lambda>(row, res). ob_id row = ob_id r) prs")
  case (Some p)
  obtain row res where p: "p = (row, res)" by (cases p)
  have "(row, res) \<in> set prs \<and> ob_id row = ob_id r"
    using Some p by (auto simp: find_Some_iff) (metis nth_mem)
  then show ?thesis using assms Some p by (auto simp: apply_result_def split: if_splits)
qed (use assms in \<open>simp add: apply_result_def\<close>)

lemma apply_result_id [simp]: "ob_id (apply_result now prs r) = ob_id r"
  by (auto simp: apply_result_def split: option.split)

lemma apply_result_Nil [simp]: "map (apply_result now []) outbox = outbox"
  by (rule map_idI) (simp add: apply_result_def)

lemma process_results_map:
  assumes "distinct (map ob_id rows)"
  shows "snd (process_results now results rows (n, outbox)) =
    map (apply_result now (zip rows results)) outbox"
  using assms
proof (induction now results rows "(n, outbox)" arbitrary: n outbox rule: process_results.induct)
  case (1 now res results row rows relayed outbox)
  have d: "distinct (map ob_id rows)" "ob_id row \<notin> ob_id ` set rows" using 1(3) by simp_all
  have a: "apply_result now (zip rows results) r = r" if "ob_id r = ob_id row" for r
    using d(2) that find_None_zip [of r rows results] by (simp add: apply_result_def)
  show ?case
  proof (cases "acked res")
    case True
    then have "snd (process_results now (res # results) (row # rows) (relayed, outbox)) =
        map (apply_result now (zip rows results)) (mark_published now row outbox)"
      using 1(1) d(1) by (auto simp: acked_def)
    then show ?thesis using True a by (auto simp: mark_published_def apply_result_def)
  next
    case False
    then have "snd (process_results now (res # results) (row # rows) (relayed, outbox)) =
        map (apply_result now (zip rows results)) (add_attempt row outbox)"
      using 1(2) d(1) by (auto simp: acked_def)
    then show ?thesis using False a by (auto simp: add_attempt_def apply_result_def)
  qed
qed (simp_all add: apply_result_def)


text \<open>Every row of a poll makes one step, and rows outside the batch do not move.\<close>

definition rows_step :: "outbox_row list \<Rightarrow> outbox_row list \<Rightarrow> bool" where
  "rows_step = list_all2 row_step"

lemma rows_step_map: "(\<And>r. r \<in> set outbox \<Longrightarrow> row_step r (f r)) \<Longrightarrow> rows_step outbox (map f outbox)"
  by (simp add: rows_step_def list_all2_map2 list.rel_refl_strong)

lemma rows_step_wf:
  assumes "rows_step outbox outbox'" "outbox_wf outbox"
  shows "outbox_wf outbox'" and "map ob_event outbox' = map ob_event outbox"
    and "map ob_id outbox' = map ob_id outbox"
  using assms unfolding rows_step_def outbox_wf_def
  by (induction rule: list_all2_induct) (auto dest: row_step_frame row_step_wf)

lemma same_id_same_row:
  "\<lbrakk> distinct (map ob_id outbox); r \<in> set outbox; x \<in> set outbox; ob_id x = ob_id r \<rbrakk> \<Longrightarrow> x = r"
  by (auto simp: distinct_map inj_on_def)

lemma increment_steps:
  assumes "distinct (map ob_id outbox)"
  shows "rows_step outbox (increment_attempts (pending_rows outbox) outbox)"
proof -
  have "row_step r (if ob_id r \<in> ob_id ` set (pending_rows outbox)
          then r\<lparr>ob_attempts := ob_attempts r + 1\<rparr> else r)" if "r \<in> set outbox" for r
  proof (cases "ob_id r \<in> ob_id ` set (pending_rows outbox)")
    case True
    then have "relayable r"
      using pending_subset [of outbox] same_id_same_row [OF assms that] by fastforce
    then show ?thesis using True by (simp add: row_attempt_Suc)
  qed (simp add: row_same)
  then show ?thesis
    unfolding increment_attempts_map [OF pending_distinct [OF assms]] by (rule rows_step_map)
qed

lemma results_step:
  assumes "distinct (map ob_id outbox)"
  shows "rows_step outbox (snd (process_results now results (pending_rows outbox) (n, outbox)))"
proof -
  have "row_step r (apply_result now (zip (pending_rows outbox) results) r)" if "r \<in> set outbox" for r
  proof (cases "find (\<lambda>(row, res). ob_id row = ob_id r) (zip (pending_rows outbox) results)")
    case (Some p)
    then obtain row res where "p = (row, res)" "row \<in> set (pending_rows outbox)" "ob_id row = ob_id r"
      by (cases p) (auto simp: find_Some_iff dest: nth_mem set_zip_leftD)
    then have "relayable r"
      using pending_subset [of outbox] same_id_same_row [OF assms that] by auto
    then show ?thesis
      using Some by (cases p) (simp add: apply_result_def row_attempt_Suc row_publish)
  qed (simp add: apply_result_def row_same)
  then show ?thesis
    unfolding process_results_map [OF pending_distinct [OF assms]] by (rule rows_step_map)
qed

lemma relay_rows_step:
  assumes "distinct (map ob_id outbox)"
  shows "rows_step outbox (fst (snd (relay_pending_events post jit now outbox w)))"
proof -
  have "rows_step outbox outbox"
    by (simp add: rows_step_def list.rel_refl_strong row_same)
  moreover have "rows_step outbox (fst (snd (let (n, outbox') = process_results now results (pending_rows outbox) (0, outbox)
      in (n, outbox', w'))))" for results and w' :: 'a
    using results_step [OF assms, of now results 0] by (simp add: case_prod_beta Let_def)
  ultimately show ?thesis
    using increment_steps [OF assms]
    by (auto simp: relay_pending_events_def Let_def split: prod.splits sum.splits)
qed


text \<open>The last call of a retried operation.\<close>

lemma call_state_inv: "\<lbrakk> P s; \<And>x. P x \<Longrightarrow> P (snd (fn x)) \<rbrakk> \<Longrightarrow> P (call_state fn k s)"
  by (induction k arbitrary: s) simp_all

lemma call_state_last: "call_state fn (Suc k) s = snd (fn (call_state fn k s))"
  by (induction k arbitrary: s) simp_all

lemma retry_last_call:
  "\<exists>k ds. retry_with_backoff jit pol fn ret s =
     (fst (fn (call_state fn k s)), snd (fn (call_state fn k s)), ds)"
  using retry_loop_spec [of "rp_max_attempts pol - 1" jit pol fn ret 0 s]
  unfolding retry_with_backoff_def call_outcome_def call_state_last by blast

text \<open>A poll with something to send, by the last response.\<close>

definition batch_events :: "outbox_row list \<Rightarrow> outbox_event list" where
  "batch_events outbox = map ob_event (pending_rows outbox)"

lemma relay_cases:
  assumes "relay_pending_events post jit now outbox w = (n, outbox', w')"
  obtains (idle) "pending_rows outbox = []" "outbox' = outbox" "w' = w" "n = 0"
  | (failed) k where "outbox' = increment_attempts (pending_rows outbox) outbox" "n = 0"
      "w' = snd (post (map outbox_envelope (batch_events outbox))
                  (call_state (post (map outbox_envelope (batch_events outbox))) k w))"
  | (answered) k status results where "status = 200 \<or> status = (201::int)"
      "post (map outbox_envelope (batch_events outbox))
         (call_state (post (map outbox_envelope (batch_events outbox))) k w) = (Inr (status, results), w')"
      "process_results now results (pending_rows outbox) (0, outbox) = (n, outbox')"
proof -
  define fn where "fn = post (map outbox_envelope (batch_events outbox))"
  have fn: "post (map (\<lambda>r. outbox_envelope (ob_event r)) (pending_rows outbox)) = fn"
    by (simp add: fn_def batch_events_def comp_def)
  obtain k ds where r: "retry_with_backoff jit relay_retry fn (\<lambda>_. True) w =
      (fst (fn (call_state fn k w)), snd (fn (call_state fn k w)), ds)"
    using retry_last_call [of jit relay_retry fn "\<lambda>_. True" w] by (elim exE) (rule that)
  obtain resp w1 where f: "fn (call_state fn k w) = (resp, w1)" by (cases "fn (call_state fn k w)")
  show thesis
  proof (cases "pending_rows outbox = []")
    case True
    then show thesis using assms by (intro idle) (simp_all add: relay_pending_events_def)
  next
    case False
    then have eq: "relay_pending_events post jit now outbox w = (case resp of
         Inl _ \<Rightarrow> (0, increment_attempts (pending_rows outbox) outbox, w1)
       | Inr (status, results) \<Rightarrow>
           if status \<noteq> 200 \<and> status \<noteq> 201 then (0, increment_attempts (pending_rows outbox) outbox, w1)
           else (let (n, outbox') = process_results now results (pending_rows outbox) (0, outbox)
                 in (n, outbox', w1)))"
      by (simp add: relay_pending_events_def fn r f Let_def split: sum.split)
    have w1: "w1 = snd (fn (call_state fn k w))" using f by simp
    show thesis
    proof (cases resp)
      case (Inl u)
      then show thesis using assms eq w1 unfolding fn_def by (intro failed [of k]) simp_all
    next
      case (Inr r)
      obtain status results where r: "r = (status, results)" by (cases r)
      show thesis
      proof (cases "status = 200 \<or> status = 201")
        case True
        then have "process_results now results (pending_rows outbox) (0, outbox) = (n, outbox')" "w1 = w'"
          using assms eq Inr r by (auto split: prod.splits)
        then show thesis using True f Inr r unfolding fn_def by (intro answered [of status k results]) simp_all
      next
        case False
        then show thesis using assms eq w1 Inr r unfolding fn_def by (intro failed [of k]) simp_all
      qed
    qed
  qed
qed

section \<open>The receiver\<close>

text \<open>What the relay relies on: an event once held stays held, an acknowledged event is held, and
  only what was sent is added (\<open>sound E\<close>: everything held comes from the events \<open>E\<close>).\<close>

locale event_sink =
  fixes post :: "'w poster"
    and holds :: "uuid \<Rightarrow> 'w \<Rightarrow> bool"
    and sound :: "outbox_event set \<Rightarrow> 'w \<Rightarrow> bool"
  assumes post_keeps: "holds i w \<Longrightarrow> holds i (snd (post envs w))"
    and post_acks: "\<lbrakk> post (map outbox_envelope es) w = (Inr (status, results), w');
           status = 200 \<or> status = 201; (e, res) \<in> set (zip es results); acked res \<rbrakk>
         \<Longrightarrow> holds (ev_event_id e) w'"
    and post_sound: "\<lbrakk> sound E w; set es \<subseteq> E; length es \<le> relay_batch_size \<rbrakk>
         \<Longrightarrow> sound E (snd (post (map outbox_envelope es) w))"
begin

definition synced :: "outbox_row list \<Rightarrow> 'w \<Rightarrow> bool" where
  "synced outbox w = (\<forall>r \<in> set outbox. ob_published_at r \<noteq> None \<longrightarrow> holds (ob_id r) w)"

lemma posts_keep: "holds i w \<Longrightarrow> holds i (snd (post envs (call_state (post envs) k w)))"
  by (intro post_keeps call_state_inv [where P = "holds i"])

lemma relay_keeps:
  assumes "relay_pending_events post jit now outbox w = (n, outbox', w')" and "holds i w"
  shows "holds i w'"
  using assms(1)
proof (cases rule: relay_cases)
  case (answered k status results)
  then show ?thesis
    using posts_keep [OF assms(2), of "map outbox_envelope (batch_events outbox)" k] by simp
qed (simp_all add: assms(2) posts_keep)

lemma relay_sound:
  assumes "relay_pending_events post jit now outbox w = (n, outbox', w')" "sound E w"
    and "ob_event ` set outbox \<subseteq> E"
  shows "sound E w'"
proof -
  have sub: "set (batch_events outbox) \<subseteq> E"
    using pending_subset [of outbox] assms(3) by (auto simp: batch_events_def)
  have len: "length (batch_events outbox) \<le> relay_batch_size"
    by (simp add: batch_events_def pending_rows_def)
  have "sound E (snd (post (map outbox_envelope (batch_events outbox))
          (call_state (post (map outbox_envelope (batch_events outbox))) k w)))" for k
    by (intro post_sound [OF _ sub len] call_state_inv [where P = "sound E"] assms(2))
  from this assms(1,2) show ?thesis by (elim relay_cases) (simp, simp, metis snd_conv)
qed

lemma relay_synced:
  assumes "relay_pending_events post jit now outbox w = (n, outbox', w')"
    and "outbox_wf outbox" "synced outbox w"
  shows "synced outbox' w'"
proof -
  have kept: "holds (ob_id r) w'" if "r \<in> set outbox" "ob_published_at r \<noteq> None" for r
    using relay_keeps [OF assms(1)] assms(3) that by (simp add: synced_def)
  have d: "distinct (map ob_id (pending_rows outbox))"
    using assms(2) pending_distinct by (simp add: outbox_wf_def)
  from assms(1) show ?thesis
  proof (cases rule: relay_cases)
    case idle
    then show ?thesis using assms(3) by simp
  next
    case (failed k)
    show ?thesis
      unfolding failed(1) increment_attempts_map [OF d] synced_def
    proof (intro ballI impI)
      fix x
      assume "x \<in> set (map (\<lambda>r. if ob_id r \<in> ob_id ` set (pending_rows outbox)
          then r\<lparr>ob_attempts := ob_attempts r + 1\<rparr> else r) outbox)" and x: "ob_published_at x \<noteq> None"
      then obtain r where "r \<in> set outbox" "ob_id x = ob_id r" "ob_published_at x = ob_published_at r"
        by auto
      then show "holds (ob_id x) w'" using kept [of r] x by simp
    qed
  next
    case (answered k status results)
    have held: "holds (ob_id row) w'"
      if "(row, res) \<in> set (zip (pending_rows outbox) results)" "acked res" for row res
    proof -
      have "(ob_event row, res) \<in> set (zip (batch_events outbox) results)"
        using that(1) by (force simp: batch_events_def zip_map1)
      then have "holds (ev_event_id (ob_event row)) w'"
        using post_acks [OF answered(2) answered(1)] that(2) by blast
      moreover have "row \<in> set outbox" using that(1) pending_subset [of outbox] by (auto dest: set_zip_leftD)
      ultimately show ?thesis using assms(2) by (auto simp: outbox_wf_def list_all_iff row_wf_def)
    qed
    have "outbox' = map (apply_result now (zip (pending_rows outbox) results)) outbox"
      using answered(3) process_results_map [OF d, of now results 0 outbox] by simp
    moreover have "holds (ob_id r) w'"
      if "r \<in> set outbox" "ob_published_at (apply_result now (zip (pending_rows outbox) results) r) \<noteq> None" for r
      using apply_result_published [OF that(2)] kept [OF that(1)] held by metis
    ultimately show ?thesis by (auto simp: synced_def)
  qed
qed

end


section \<open>The event store behind a network\<close>

datatype net_fault = Delivered | Request_Lost | Response_Lost

text \<open>One request over the network; the faults still to come are part of the state, and no fault
  is left when the list is empty.\<close>

definition net_post :: "time \<Rightarrow> (stored_event list \<times> net_fault list) poster" where
  "net_post received envs w =
    (case w of (store, faults) \<Rightarrow>
       (let (status, results, store') = ingest_batch_endpoint received envs store in
        case faults of
          [] \<Rightarrow> (Inr (status, results), store', [])
        | Delivered # fs \<Rightarrow> (Inr (status, results), store', fs)
        | Request_Lost # fs \<Rightarrow> (Inl (), store, fs)
        | Response_Lost # fs \<Rightarrow> (Inl (), store', fs)))"

definition store_holds :: "uuid \<Rightarrow> stored_event list \<times> net_fault list \<Rightarrow> bool" where
  "store_holds i w = (i \<in> se_id ` set (fst w))"

definition store_sound :: "outbox_event set \<Rightarrow> stored_event list \<times> net_fault list \<Rightarrow> bool" where
  "store_sound E w = (distinct (map se_id (fst w)) \<and> (\<forall>x \<in> set (fst w). \<exists>e \<in> E. \<exists>t. x = stored_of e t))"

lemma fst_net_post:
  "fst (snd (net_post received envs (store, faults))) = store \<or>
   fst (snd (net_post received envs (store, faults))) = snd (snd (ingest_batch_endpoint received envs store))"
  by (auto simp: net_post_def split: prod.split list.split net_fault.split)

lemma endpoint_store:
  "\<exists>ps. snd (snd (ingest_batch_endpoint received envs store)) = store
      \<or> snd (snd (ingest_batch_endpoint received envs store)) = snd (repo_ingest_batch ps store)"
proof (cases "parse_batch received envs")
  case (Inr ps)
  then show ?thesis
    by (intro exI [of _ "List.map_filter id ps"])
       (simp add: ingest_batch_endpoint_def ingest_event_batch_def case_prod_beta Let_def)
qed (simp add: ingest_batch_endpoint_def ingest_event_batch_def)

lemma endpoint_mono: "set store \<subseteq> set (snd (snd (ingest_batch_endpoint received envs store)))"
  using endpoint_store [of received envs store] by (metis repo_ingest_mono subset_refl)

text \<open>What the endpoint acknowledges it holds.\<close>

lemma endpoint_acks:
  assumes "ingest_batch_endpoint received (map outbox_envelope es) store = (status, results, store')"
    and "status = 200 \<or> status = 201" and "(e, res) \<in> set (zip es results)"
  shows "ev_event_id e \<in> se_id ` set store'"
proof -
  have "length es \<le> 500" using assms(1,2) by (auto simp: ingest_batch_endpoint_def split: if_splits)
  then have "store' = snd (repo_ingest_batch (map (\<lambda>e. stored_of e received) es) store)"
    using endpoint_outbox [of es received store] assms(1) by auto
  moreover have "stored_of e received \<in> set (map (\<lambda>e. stored_of e received) es)"
    using assms(3) by (auto dest: set_zip_leftD)
  ultimately show ?thesis using repo_ingest_has by fastforce
qed

lemma endpoint_sound:
  assumes "length es \<le> 50" "distinct (map se_id store)"
  shows "distinct (map se_id (snd (snd (ingest_batch_endpoint received (map outbox_envelope es) store))))"
    and "set (snd (snd (ingest_batch_endpoint received (map outbox_envelope es) store)))
           \<subseteq> set store \<union> (\<lambda>e. stored_of e received) ` set es"
  using endpoint_outbox [of es received store] assms
    repo_ingest_distinct [of store "map (\<lambda>e. stored_of e received) es"]
    repo_ingest_origin [of "map (\<lambda>e. stored_of e received) es" store]
  by auto

interpretation es: event_sink "net_post received" store_holds store_sound for received
proof unfold_locales
  fix i envs and w :: "stored_event list \<times> net_fault list"
  assume "store_holds i w"
  then show "store_holds i (snd (net_post received envs w))"
    using fst_net_post [of received envs "fst w" "snd w"] endpoint_mono [of "fst w" received envs]
    by (auto simp: store_holds_def)
next
  fix es status results e res and w w' :: "stored_event list \<times> net_fault list"
  assume a: "net_post received (map outbox_envelope es) w = (Inr (status, results), w')"
    "status = 200 \<or> status = (201::int)" "(e, res) \<in> set (zip es results)"
  obtain store faults where w: "w = (store, faults)" by (cases w)
  obtain st rs store' where i: "ingest_batch_endpoint received (map outbox_envelope es) store = (st, rs, store')"
    by (cases "ingest_batch_endpoint received (map outbox_envelope es) store")
  have "st = status" "rs = results" "fst w' = store'"
    using a(1) by (auto simp: net_post_def w i split: list.splits net_fault.splits)
  then show "store_holds (ev_event_id e) w'"
    using endpoint_acks [OF i] a(2,3) by (simp add: store_holds_def)
next
  fix E es and w :: "stored_event list \<times> net_fault list"
  assume "store_sound E w" "set es \<subseteq> E" "length es \<le> relay_batch_size"
  then show "store_sound E (snd (net_post received (map outbox_envelope es) w))"
    using fst_net_post [of received "map outbox_envelope es" "fst w" "snd w"]
      endpoint_sound [of es "fst w" received]
    by (fastforce simp: store_sound_def relay_batch_size_def)
qed

section \<open>The pipeline\<close>

text \<open>An outbox and the store behind it.  Transactions append events with fresh ids; polls run with
  any network faults; a poll may also die before its commit, which leaves the outbox as it was.\<close>

inductive pipeline_step ::
  "outbox_row list \<times> stored_event list \<Rightarrow> outbox_row list \<times> stored_event list \<Rightarrow> bool" where
  pl_write: "ev_event_id e \<notin> ob_id ` set outbox \<Longrightarrow>
     pipeline_step (outbox, store) (outbox @ [outbox_row_of e], store)"
| pl_poll: "relay_pending_events (net_post received) jit now outbox (store, faults) = (n, outbox', store', fs) \<Longrightarrow>
     pipeline_step (outbox, store) (outbox', store')"
| pl_crash: "relay_pending_events (net_post received) jit now outbox (store, faults) = (n, outbox', store', fs) \<Longrightarrow>
     pipeline_step (outbox, store) (outbox, store')"

definition pipeline_inv :: "outbox_row list \<times> stored_event list \<Rightarrow> bool" where
  "pipeline_inv p = (case p of (outbox, store) \<Rightarrow>
     outbox_wf outbox \<and> es.synced outbox (store, []) \<and> store_sound (ob_event ` set outbox) (store, []))"


lemma synced_faults: "es.synced outbox (store, faults) = es.synced outbox (store, [])"
  by (simp add: es.synced_def store_holds_def)

lemma sound_faults: "store_sound E (store, faults) = store_sound E (store, [])"
  by (simp add: store_sound_def)

lemma rows_step_events:
  assumes "rows_step outbox outbox'" and "outbox_wf outbox"
  shows "ob_event ` set outbox' = ob_event ` set outbox"
  using rows_step_wf(2) [OF assms] by (metis set_map)

lemma pipeline_poll:
  assumes "relay_pending_events (net_post received) jit now outbox (store, faults) = (n, outbox', store', fs)"
    and "pipeline_inv (outbox, store)"
  shows "rows_step outbox outbox'" "pipeline_inv (outbox', store')" "pipeline_inv (outbox, store')"
proof -
  have inv: "outbox_wf outbox" "es.synced outbox (store, faults)"
    "store_sound (ob_event ` set outbox) (store, faults)"
    using assms(2) by (simp_all add: pipeline_inv_def synced_faults [of _ _ faults] sound_faults [of _ _ faults])
  show steps: "rows_step outbox outbox'"
    using relay_rows_step [of outbox "net_post received" jit now "(store, faults)"] inv(1) assms(1)
    by (simp add: outbox_wf_def)
  have "es.synced outbox' (store', fs)" by (rule es.relay_synced [OF assms(1) inv(1,2)])
  moreover have snd: "store_sound (ob_event ` set outbox) (store', fs)"
    by (rule es.relay_sound [OF assms(1) inv(3) order_refl])
  moreover have "es.synced outbox (store', fs)"
    using inv(2) es.relay_keeps [OF assms(1)] by (auto simp: es.synced_def)
  ultimately show "pipeline_inv (outbox', store')" "pipeline_inv (outbox, store')"
    using rows_step_wf(1) [OF steps inv(1)] inv(1) rows_step_events [OF steps inv(1)]
    by (simp_all add: pipeline_inv_def synced_faults [of _ _ fs] sound_faults [of _ _ fs])
qed

lemma pipeline_step_inv: "\<lbrakk> pipeline_step p q; pipeline_inv p \<rbrakk> \<Longrightarrow> pipeline_inv q"
proof (induction rule: pipeline_step.induct)
  case (pl_write e outbox store)
  then show ?case
    by (auto simp: pipeline_inv_def outbox_wf_def outbox_row_of_def row_wf_def es.synced_def store_sound_def)
qed (auto dest: pipeline_poll)

lemma pipeline_reachable: "\<lbrakk> pipeline_step\<^sup>*\<^sup>* p q; pipeline_inv p \<rbrakk> \<Longrightarrow> pipeline_inv q"
  by (induction rule: rtranclp_induct) (auto intro: pipeline_step_inv)

lemma pipeline_inv_empty: "pipeline_inv ([], [])"
  by (simp add: pipeline_inv_def outbox_wf_def es.synced_def store_sound_def)

section \<open>Progress\<close>

text \<open>A poll without faults publishes its whole batch.\<close>

lemma all_acked:
  assumes "length es \<le> 500"
  shows "\<exists>results. length results = length es \<and> list_all acked results
    \<and> net_post received (map outbox_envelope es) (store, []) =
        (Inr (201, results), snd (repo_ingest_batch (map (\<lambda>e. stored_of e received) es) store), [])"
  using endpoint_outbox [OF assms, of received store]
  by (auto simp: net_post_def list_all_iff acked_def set_zip)

lemma retry_first_ok:
  "fn w = (Inr r, w') \<Longrightarrow> retry_with_backoff jit pol fn ret w = (Inr r, w', [])"
  by (simp add: retry_with_backoff_def retry_loop_stop retry_again_def)

lemma find_zip_present:
  assumes "x \<in> set rows" "distinct (map ob_id rows)" "length results = length rows"
  shows "\<exists>res. find (\<lambda>(row, res). ob_id row = ob_id x) (zip rows results) = Some (x, res) \<and> res \<in> set results"
  using assms(3,1,2)
proof (induction rows results rule: list_induct2')
  case (4 y ys z zs)
  then show ?case by (cases "x = y") auto
qed simp_all

definition publish_row :: "time \<Rightarrow> outbox_row list \<Rightarrow> outbox_row \<Rightarrow> outbox_row" where
  "publish_row now rows r = (if r \<in> set rows then r\<lparr>ob_published_at := Some now\<rparr> else r)"

lemma publish_row_Nil [simp]: "publish_row now [] = (\<lambda>r. r)"
  by (simp add: publish_row_def fun_eq_iff)

lemma quiet_poll:
  assumes "outbox_wf outbox"
  shows "\<exists>n store'. relay_pending_events (net_post received) jit now outbox (store, []) =
     (n, map (publish_row now (pending_rows outbox)) outbox, store', [])"
proof (cases "pending_rows outbox = []")
  case True
  then show ?thesis by (simp add: relay_pending_events_def)
next
  case False
  have d: "distinct (map ob_id outbox)" using assms by (simp add: outbox_wf_def)
  have len: "length (batch_events outbox) \<le> 500"
    by (simp add: batch_events_def pending_rows_def relay_batch_size_def)
  obtain results where res: "length results = length (pending_rows outbox)" "list_all acked results"
    and post: "net_post received (map (\<lambda>r. outbox_envelope (ob_event r)) (pending_rows outbox)) (store, []) =
      (Inr (201, results), snd (repo_ingest_batch (map (\<lambda>e. stored_of e received) (batch_events outbox)) store), [])"
    using all_acked [OF len, of received store] by (auto simp: batch_events_def comp_def)
  obtain n outbox' where pr: "process_results now results (pending_rows outbox) (0, outbox) = (n, outbox')"
    by (cases "process_results now results (pending_rows outbox) (0, outbox)")
  have "apply_result now (zip (pending_rows outbox) results) r =
      publish_row now (pending_rows outbox) r"
    if r: "r \<in> set outbox" for r
  proof (cases "r \<in> set (pending_rows outbox)")
    case True
    then show ?thesis
      using find_zip_present [OF True pending_distinct [OF d] res(1)] res(2)
      by (auto simp: apply_result_def list_all_iff publish_row_def)
  next
    case False
    then have "ob_id r \<notin> ob_id ` set (pending_rows outbox)"
      using same_id_same_row [OF d r] pending_subset [of outbox] by fastforce
    then show ?thesis using False find_None_zip [of r "pending_rows outbox" results] by (simp add: apply_result_def publish_row_def)
  qed
  then have "outbox' = map (publish_row now (pending_rows outbox)) outbox"
    using process_results_map [OF pending_distinct [OF d], of now results 0 outbox] pr by simp
  then show ?thesis
    using False pr
      retry_first_ok [of "net_post received (map (\<lambda>r. outbox_envelope (ob_event r)) (pending_rows outbox))", OF post]
    by (simp add: relay_pending_events_def)
qed


lemma relayable_publish [simp]: "relayable (publish_row now rows r) = (relayable r \<and> r \<notin> set rows)"
  by (simp add: publish_row_def relayable_def)

lemma pending_length: "length (pending_rows outbox) = min relay_batch_size (length (filter relayable outbox))"
  by (simp add: pending_rows_def min.commute)

lemma quiet_poll_progress:
  assumes "distinct (map ob_id outbox)"
  shows "length (filter relayable (map (publish_row now (pending_rows outbox)) outbox)) =
    length (filter relayable outbox) - relay_batch_size"
proof -
  let ?P = "\<lambda>r. r \<in> set (pending_rows outbox)"
  have "distinct outbox" using assms by (simp add: distinct_map)
  then have "length (filter ?P outbox) = card {r \<in> set outbox. ?P r}"
    by (simp add: distinct_length_filter Int_def conj_commute)
  also have "{r \<in> set outbox. ?P r} = set (pending_rows outbox)"
    using pending_subset [of outbox] by auto
  also have "card \<dots> = length (pending_rows outbox)"
    by (rule distinct_card) (use pending_distinct [OF assms] in \<open>simp add: distinct_map\<close>)
  finally have P: "length (filter ?P outbox) = length (pending_rows outbox)" .
  have "length (filter relayable outbox) =
      length (filter ?P outbox) + length (filter (\<lambda>r. relayable r \<and> \<not> ?P r) outbox)"
  proof -
    have "filter ?P (filter relayable outbox) = filter ?P outbox"
      using pending_subset [of outbox] by (auto intro: filter_cong)
    then show ?thesis
      using sum_length_filter_compl [of ?P "filter relayable outbox"] by (simp add: conj_commute)
  qed
  moreover have "filter relayable (map (publish_row now (pending_rows outbox)) outbox) =
      map (publish_row now (pending_rows outbox)) (filter (\<lambda>r. relayable r \<and> \<not> ?P r) outbox)"
    by (simp add: filter_map comp_def)
  ultimately show ?thesis using P pending_length [of outbox] by simp
qed

text \<open>Polls over a network without faults, each with its clock readings.\<close>

fun quiet_polls ::
  "(nat \<Rightarrow> int \<Rightarrow> int) \<Rightarrow> (time \<times> time) list \<Rightarrow> outbox_row list \<times> stored_event list
   \<Rightarrow> outbox_row list \<times> stored_event list" where
  "quiet_polls jit [] p = p"
| "quiet_polls jit ((received, now) # cs) (outbox, store) =
     (case relay_pending_events (net_post received) jit now outbox (store, []) of
        (_, outbox', store', _) \<Rightarrow> quiet_polls jit cs (outbox', store'))"

definition drained_row :: "outbox_row \<Rightarrow> outbox_row \<Rightarrow> bool" where
  "drained_row r r' = (if relayable r then \<exists>t. r' = r\<lparr>ob_published_at := Some t\<rparr> else r' = r)"

lemma drained_publish:
  "\<lbrakk> drained_row (publish_row now rows r) r'; \<And>x. x \<in> set rows \<Longrightarrow> relayable x \<rbrakk> \<Longrightarrow> drained_row r r'"
  by (auto simp: drained_row_def publish_row_def relayable_def split: if_splits)

lemma quiet_polls_drain:
  "\<lbrakk> outbox_wf outbox; length (filter relayable outbox) \<le> relay_batch_size * length cs \<rbrakk> \<Longrightarrow>
   list_all2 drained_row outbox (fst (quiet_polls jit cs (outbox, store)))"
proof (induction cs arbitrary: outbox store)
  case Nil
  then have "\<forall>r \<in> set outbox. \<not> relayable r" by (simp add: filter_empty_conv)
  then show ?case by (auto simp: drained_row_def intro!: list.rel_refl_strong)
next
  case (Cons c cs)
  obtain received now where c: "c = (received, now)" by (cases c)
  obtain n store' where p: "relay_pending_events (net_post received) jit now outbox (store, []) =
      (n, map (publish_row now (pending_rows outbox)) outbox, store', [])"
    using quiet_poll [OF Cons.prems(1), of received jit now store]
    by (elim exE) (rule that)
  let ?outbox' = "map (publish_row now (pending_rows outbox)) outbox"
  have d: "distinct (map ob_id outbox)" using Cons.prems(1) by (simp add: outbox_wf_def)
  have "outbox_wf ?outbox'"
    using rows_step_wf(1) [OF relay_rows_step Cons.prems(1)] d p by (metis fst_conv snd_conv)
  then have "list_all2 drained_row ?outbox' (fst (quiet_polls jit cs (?outbox', store')))"
    using Cons.prems(2) quiet_poll_progress [OF d, of now] by (intro Cons.IH) simp_all
  then have "list_all2 (\<lambda>r. drained_row (publish_row now (pending_rows outbox) r)) outbox
      (fst (quiet_polls jit cs (?outbox', store')))"
    by (simp add: list_all2_map1)
  then have "list_all2 drained_row outbox (fst (quiet_polls jit cs (?outbox', store')))"
    by (rule list_all2_mono) (use pending_subset [of outbox] in \<open>auto intro: drained_publish\<close>)
  then show ?case by (simp add: c p)
qed


section \<open>Properties\<close>

lemmas relay_evals = relay_pending_events_def pending_rows_def relay_batch_size_def relayable_def
  max_relay_attempts_def outbox_row_of_def relay_retry_def mk_retry_policy_def retry_with_backoff_def
  retry_loop.simps net_post_def ingest_batch_endpoint_def ingest_event_batch_def
  parse_outbox_envelope execute_insert_def increment_attempts_def add_attempt_def mark_published_def
  List.map_filter_def

text \<open>C2. Events are delivered exactly once: whatever transactions append to the outbox, whatever
  requests and responses the network loses, and wherever a poll dies before its commit, the event
  store never holds two rows with one id, holds nothing but outbox events, each field as it was
  written, and holds every event whose outbox row is marked published.\<close>

theorem delivery_exactly_once:
  assumes "pipeline_step\<^sup>*\<^sup>* ([], []) (outbox, store)"
  shows "distinct (map se_id store)
    \<and> (\<forall>x \<in> set store. \<exists>r \<in> set outbox. \<exists>t. x = stored_of (ob_event r) t)
    \<and> (\<forall>r \<in> set outbox. ob_published_at r \<noteq> None \<longrightarrow>
         (\<exists>!x. x \<in> set store \<and> se_id x = ev_event_id (ob_event r)))"
proof -
  have inv: "pipeline_inv (outbox, store)"
    using pipeline_reachable [OF assms pipeline_inv_empty] .
  then have d: "distinct (map se_id store)" by (simp add: pipeline_inv_def store_sound_def)
  have "\<exists>!x. x \<in> set store \<and> se_id x = ev_event_id (ob_event r)"
    if "r \<in> set outbox" "ob_published_at r \<noteq> None" for r
  proof -
    have "ob_id r = ev_event_id (ob_event r)" "ob_id r \<in> se_id ` set store"
      using inv that by (auto simp: pipeline_inv_def outbox_wf_def list_all_iff row_wf_def
          es.synced_def store_holds_def)
    then show ?thesis using d by (auto simp: distinct_map inj_on_def)
  qed
  then show ?thesis using inv d by (auto simp: pipeline_inv_def store_sound_def)
qed

theorem delivery_exactly_once_witness:
  "\<exists>row store. pipeline_step\<^sup>*\<^sup>* ([], []) ([row], store) \<and> ob_published_at row = Some 9
     \<and> distinct (map se_id store)"
proof -
  let ?e = "task_started_event (9, 4) 1 7 3 None"
  let ?row = "outbox_row_of ?e"
  have a: "pipeline_step ([], []) ([?row], [])"
    using pl_write [of ?e "[]" "[]"] by simp
  have b: "pipeline_step ([?row], []) ([?row\<lparr>ob_attempts := 1\<rparr>], [stored_of ?e 5])"
    by (rule pl_poll [where received = 5 and jit = "\<lambda>i d. d" and now = 6
          and faults = "[Response_Lost, Response_Lost]" and n = 0 and fs = "[]"]) (simp add: relay_evals)
  have c: "pipeline_step ([?row\<lparr>ob_attempts := 1\<rparr>], [stored_of ?e 5])
      ([?row\<lparr>ob_attempts := 1, ob_published_at := Some 9\<rparr>], [stored_of ?e 5])"
    by (rule pl_poll [where received = 8 and jit = "\<lambda>i d. d" and now = 9
          and faults = "[]" and n = 1 and fs = "[]"]) (simp add: relay_evals)
  have r: "pipeline_step\<^sup>*\<^sup>* ([], [])
      ([?row\<lparr>ob_attempts := 1, ob_published_at := Some 9\<rparr>], [stored_of ?e 5])"
    by (rule converse_rtranclp_into_rtranclp [of pipeline_step, OF a],
        rule converse_rtranclp_into_rtranclp [of pipeline_step, OF b],
        rule r_into_rtranclp [of pipeline_step, OF c])
  show ?thesis
    using r conjunct1 [OF delivery_exactly_once [OF r]]
    by (intro exI [of _ "?row\<lparr>ob_attempts := 1, ob_published_at := Some 9\<rparr>"]
        exI [of _ "[stored_of ?e 5]"] conjI) simp_all
qed

text \<open>C29. Delivery makes progress: over a network without faults, polling once for every fifty rows
  that are due publishes each of them, and leaves alone exactly the rows already published and
  those that have used up their ten attempts.\<close>

theorem relay_drains:
  assumes "outbox_wf outbox"
    and "length (filter relayable outbox) \<le> 50 * length clocks"
  shows "list_all2 (\<lambda>r r'. if ob_published_at r = None \<and> ob_attempts r < 10
                          then \<exists>t. r' = r\<lparr>ob_published_at := Some t\<rparr> else r' = r)
           outbox (fst (quiet_polls jit clocks (outbox, store)))"
proof -
  have "list_all2 drained_row outbox (fst (quiet_polls jit clocks (outbox, store)))"
    using assms by (intro quiet_polls_drain) (simp_all add: relay_batch_size_def)
  then show ?thesis
    unfolding drained_row_def [abs_def] relayable_def max_relay_attempts_def .
qed

theorem relay_drains_witness:
  "\<exists>t. fst (quiet_polls (\<lambda>i d. d) [(5, 6)] ([outbox_row_of (task_started_event (9, 4) 1 7 3 None)], [])) =
     [(outbox_row_of (task_started_event (9, 4) 1 7 3 None))\<lparr>ob_published_at := Some t\<rparr>]"
  using relay_drains [of "[outbox_row_of (task_started_event (9, 4) 1 7 3 None)]" "[(5, 6)]" "\<lambda>i d. d" "[]"]
  by (auto simp: outbox_wf_def row_wf_def outbox_row_of_def max_relay_attempts_def relayable_def
      list_all2_Cons1)

end
