(* ===== verification/Policy.thy ===== *)
theory Policy
  imports Prelude
begin

text \<open>
  The policy service: \<open>apps/policy-service/src/domain/permissions.py\<close>,
  \<open>application/policy_service.py\<close> and the queries of \<open>infrastructure/db/policy_repository.py\<close>;
  and the role table the workspace service keeps of its own
  (\<open>apps/workspace-service/src/domain/capabilities.py\<close>).  A rule is the dictionary that was
  stored; the store is the list of policies and the audit log of decisions.
\<close>

section \<open>Roles\<close>

definition role_permissions :: "(string \<times> string list) list" where
  "role_permissions =
    [(''owner'', [''workspace:view'', ''workspace:manage_members'', ''workspace:manage_policy'',
        ''workspace:manage_secrets'', ''workspace:manage_integrations'', ''workspace:delete'',
        ''task:create'', ''task:view'', ''task:cancel'', ''run:view'', ''run:terminal'',
        ''approval:decide'', ''artifact:create'']),
     (''admin'', [''workspace:view'', ''workspace:manage_members'', ''workspace:manage_policy'',
        ''workspace:manage_secrets'', ''workspace:manage_integrations'',
        ''task:create'', ''task:view'', ''task:cancel'', ''run:view'', ''run:terminal'',
        ''approval:decide'', ''artifact:create'']),
     (''editor'', [''workspace:view'', ''task:create'', ''task:view'', ''task:cancel'', ''run:view'',
        ''artifact:create'']),
     (''viewer'', [''workspace:view'', ''task:view'', ''run:view''])]"

definition granted :: "(string \<times> string list) list \<Rightarrow> string \<Rightarrow> string list" where
  "granted tbl role = (case map_of tbl role of None \<Rightarrow> [] | Some ps \<Rightarrow> ps)"

definition role_has_permission :: "string \<Rightarrow> string \<Rightarrow> bool" where
  "role_has_permission role perm = (perm \<in> set (granted role_permissions role))"

definition role_capabilities :: "(string \<times> string list) list" where
  "role_capabilities =
    [(''owner'', [''workspace:view'', ''workspace:manage_members'', ''workspace:manage_policy'',
        ''workspace:manage_secrets'', ''workspace:manage_integrations'', ''workspace:delete'',
        ''task:create'', ''task:view'', ''task:cancel'']),
     (''admin'', [''workspace:view'', ''workspace:manage_members'', ''workspace:manage_policy'',
        ''workspace:manage_secrets'', ''workspace:manage_integrations'',
        ''task:create'', ''task:view'', ''task:cancel'']),
     (''editor'', [''workspace:view'', ''task:create'', ''task:view'', ''task:cancel'']),
     (''viewer'', [''workspace:view'', ''task:view''])]"

definition resolve_capabilities :: "string \<Rightarrow> string list" where
  "resolve_capabilities role = granted role_capabilities role"

section \<open>Rules\<close>

definition rule_matches :: "string \<Rightarrow> string \<Rightarrow> dict \<Rightarrow> bool" where
  "rule_matches effect perm rule =
     (map_of rule ''effect'' = Some (JStr effect) \<and> map_of rule ''permission'' = Some (JStr perm))"

definition resolve_permission :: "string \<Rightarrow> string \<Rightarrow> dict list \<Rightarrow> bool \<times> string" where
  "resolve_permission role perm rules =
    (if list_ex (rule_matches ''deny'' perm) rules
     then (False, ''policy:deny rule matches '' @ perm)
     else if list_ex (rule_matches ''allow'' perm) rules
     then (True, ''policy:allow rule matches '' @ perm)
     else if role_has_permission role perm then (True, ''role:'' @ role @ '' grants '' @ perm)
     else (False, ''role:'' @ role @ '' does not grant '' @ perm))"

section \<open>The service\<close>

record policy =
  po_id :: uuid
  po_workspace_id :: uuid
  po_name :: string
  po_scope :: string
  po_rules :: "dict list"
  po_is_default :: bool
  po_created_at :: time
  po_updated_at :: time

record audit_row =
  au_actor_id :: uuid
  au_workspace_id :: uuid
  au_permission :: string
  au_resource_id :: "string option"
  au_decision :: string
  au_reason :: string

record policy_db =
  pd_policies :: "policy list"
  pd_audit :: "audit_row list"

definition find_policies_by_workspace :: "uuid \<Rightarrow> int \<Rightarrow> int \<Rightarrow> policy_db \<Rightarrow> policy list" where
  "find_policies_by_workspace ws limit offset db =
     take (nat (min (max limit 1) 200)) (drop (nat (max offset 0))
       (sort_key po_created_at (filter (\<lambda>p. po_workspace_id p = ws) (pd_policies db))))"

definition log_permission_decision ::
  "uuid \<Rightarrow> uuid \<Rightarrow> string \<Rightarrow> string \<Rightarrow> string \<Rightarrow> string option \<Rightarrow> policy_db \<Rightarrow> policy_db" where
  "log_permission_decision actor ws perm decision reason resource db =
     db\<lparr>pd_audit := pd_audit db @ [\<lparr> au_actor_id = actor, au_workspace_id = ws, au_permission = perm,
        au_resource_id = resource, au_decision = decision, au_reason = reason \<rparr>]\<rparr>"

text \<open>The decision reads the policies with the default page of the listing, 50 of them.\<close>

definition check_permission ::
  "uuid \<Rightarrow> uuid \<Rightarrow> string \<Rightarrow> string \<Rightarrow> string option \<Rightarrow> policy_db \<Rightarrow> (bool \<times> string) \<times> policy_db" where
  "check_permission actor ws perm role resource db =
    (let policies = find_policies_by_workspace ws 50 0 db;
         all_rules = concat (map po_rules policies);
         (allowed, reason) = resolve_permission role perm all_rules;
         decision = (if allowed then ''allowed'' else ''denied'')
     in ((allowed, reason), log_permission_decision actor ws perm decision reason resource db))"

definition list_policies :: "uuid \<Rightarrow> int \<Rightarrow> int \<Rightarrow> policy_db \<Rightarrow> policy list" where
  "list_policies ws limit offset db = find_policies_by_workspace ws limit offset db"

text \<open>\<open>None\<close> is \<open>PolicyNotFound\<close>.\<close>

definition get_policy :: "uuid \<Rightarrow> policy_db \<Rightarrow> policy option" where
  "get_policy pid db = find_row po_id pid (pd_policies db)"

definition create_policy ::
  "uuid \<Rightarrow> time \<Rightarrow> uuid \<Rightarrow> string \<Rightarrow> string \<Rightarrow> dict list option \<Rightarrow> policy_db \<Rightarrow> policy \<times> policy_db" where
  "create_policy new_id now ws name scope rules db =
    (let p = \<lparr> po_id = new_id, po_workspace_id = ws, po_name = name, po_scope = scope,
               po_rules = opt_or rules [], po_is_default = False, po_created_at = now,
               po_updated_at = now \<rparr>
     in (p, db\<lparr>pd_policies := pd_policies db @ [p]\<rparr>))"

record policy_updates =
  pu_name :: "string option"
  pu_rules :: "dict list option"
  pu_scope :: "string option"

definition update_policy ::
  "uuid \<Rightarrow> policy_updates \<Rightarrow> time \<Rightarrow> policy_db \<Rightarrow> (policy \<times> policy_db) option" where
  "update_policy pid up now db =
    (case find_row po_id pid (pd_policies db) of
       None \<Rightarrow> None
     | Some p \<Rightarrow>
         (let p' = p\<lparr> po_name := opt_or (pu_name up) (po_name p),
                      po_rules := opt_or (pu_rules up) (po_rules p),
                      po_scope := opt_or (pu_scope up) (po_scope p), po_updated_at := now \<rparr>
          in Some (p', db\<lparr>pd_policies := upsert po_id p' (pd_policies db)\<rparr>)))"

section \<open>Lemmas\<close>

definition denies :: "string \<Rightarrow> dict list \<Rightarrow> bool" where
  "denies perm rules = (\<exists>r \<in> set rules. rule_matches ''deny'' perm r)"

definition allows :: "string \<Rightarrow> dict list \<Rightarrow> bool" where
  "allows perm rules = (\<exists>r \<in> set rules. rule_matches ''allow'' perm r)"

lemma resolve_allowed_iff:
  "fst (resolve_permission role perm rules) \<longleftrightarrow>
     \<not> denies perm rules \<and> (allows perm rules \<or> role_has_permission role perm)"
  by (auto simp: resolve_permission_def denies_def allows_def list_ex_iff)

lemma rules_of_pages: "set (concat (map po_rules ps)) = (\<Union>p \<in> set ps. set (po_rules p))"
  by simp

lemma find_policies_all:
  assumes "length (filter (\<lambda>p. po_workspace_id p = ws) (pd_policies db)) \<le> 50"
  shows "set (find_policies_by_workspace ws 50 0 db) = {p \<in> set (pd_policies db). po_workspace_id p = ws}"
  using assms by (simp add: find_policies_by_workspace_def)

lemma insort_key_snoc: "f a \<le> f p \<Longrightarrow> insort_key f a (ys @ [p]) = insort_key f a ys @ [p]"
  by (induction ys) auto

lemma sort_key_snoc: "\<forall>x \<in> set xs. f x \<le> f p \<Longrightarrow> sort_key f (xs @ [p]) = sort_key f xs @ [p]"
  by (induction xs) (simp_all add: insort_key_snoc)

lemma find_policies_sub:
  "set (find_policies_by_workspace ws limit offset db) \<subseteq> {p \<in> set (pd_policies db). po_workspace_id p = ws}"
  unfolding find_policies_by_workspace_def
  using set_take_subset set_drop_subset by (fastforce dest: in_set_takeD in_set_dropD)

lemma fst_check_permission:
  "fst (check_permission actor ws perm role resource db) =
     resolve_permission role perm (concat (map po_rules (find_policies_by_workspace ws 50 0 db)))"
  by (simp add: check_permission_def case_prod_beta Let_def)

lemma snd_check_permission:
  "pd_policies (snd (check_permission actor ws perm role resource db)) = pd_policies db"
  "\<exists>row. pd_audit (snd (check_permission actor ws perm role resource db)) = pd_audit db @ [row]
     \<and> au_decision row = (if fst (fst (check_permission actor ws perm role resource db))
                          then ''allowed'' else ''denied'')"
  by (simp_all add: check_permission_def case_prod_beta Let_def log_permission_decision_def)

section \<open>Properties\<close>

text \<open>C6. A permission check decides by the rules of the workspace's policies and the role: with at
  most fifty policies, it allows exactly when no rule of any of them denies the permission and
  some rule allows it or the role grants it, whatever the order of policies and rules; it logs
  that decision in one audit row and changes no policy.\<close>

theorem permission_check_decides:
  assumes "length (filter (\<lambda>p. po_workspace_id p = ws) (pd_policies db)) \<le> 50"
    and "rules = concat (map po_rules (filter (\<lambda>p. po_workspace_id p = ws) (pd_policies db)))"
    and "check_permission actor ws perm role resource db = ((allowed, reason), db')"
  shows "(allowed \<longleftrightarrow> (\<forall>r \<in> set rules. \<not> rule_matches ''deny'' perm r)
           \<and> ((\<exists>r \<in> set rules. rule_matches ''allow'' perm r) \<or> role_has_permission role perm))
    \<and> pd_policies db' = pd_policies db
    \<and> (\<exists>row. pd_audit db' = pd_audit db @ [row]
          \<and> au_decision row = (if allowed then ''allowed'' else ''denied''))"
proof -
  have r: "set (concat (map po_rules (find_policies_by_workspace ws 50 0 db))) = set rules"
    using find_policies_all [OF assms(1)] assms(2) by simp
  have "allowed = fst (resolve_permission role perm
          (concat (map po_rules (find_policies_by_workspace ws 50 0 db))))"
    using fst_check_permission [of actor ws perm role resource db] assms(3) by (metis fst_conv)
  then show ?thesis
    using snd_check_permission [of actor ws perm role resource db] assms(3)
    unfolding resolve_allowed_iff denies_def allows_def r by auto
qed

definition demo_policy :: "uuid \<Rightarrow> time \<Rightarrow> dict list \<Rightarrow> policy" where
  "demo_policy i at rules = \<lparr> po_id = i, po_workspace_id = 7, po_name = ''p'', po_scope = ''workspace'',
     po_rules = rules, po_is_default = False, po_created_at = at, po_updated_at = at \<rparr>"

definition demo_rule :: "string \<Rightarrow> dict" where
  "demo_rule effect = [(''effect'', JStr effect), (''permission'', JStr ''task:create'')]"

theorem permission_check_decides_witness:
  "\<not> fst (fst (check_permission 1 7 ''task:create'' ''owner'' None
     \<lparr> pd_policies = [demo_policy 1 5 [demo_rule ''allow''], demo_policy 2 3 [demo_rule ''deny'']],
       pd_audit = [] \<rparr>))"
proof -
  let ?db = "\<lparr> pd_policies = [demo_policy 1 5 [demo_rule ''allow''], demo_policy 2 3 [demo_rule ''deny'']],
       pd_audit = [] \<rparr>"
  obtain allowed reason db' where c:
    "check_permission 1 7 ''task:create'' ''owner'' None ?db = ((allowed, reason), db')"
    by (metis prod.collapse)
  have "\<not> allowed"
    using permission_check_decides [OF _ refl c]
    by (simp add: demo_policy_def demo_rule_def rule_matches_def)
  then show ?thesis using c by simp
qed

text \<open>The decision does not see all policies: only the fifty oldest are read, so in a workspace
  with fifty policies a deny rule added by one more policy is not enforced, while the listing
  shows it.\<close>

theorem deny_beyond_page_ignored:
  assumes "length (filter (\<lambda>p. po_workspace_id p = ws) (pd_policies db)) = 50"
    and "\<forall>p \<in> set (pd_policies db). po_created_at p \<le> now"
    and "create_policy new_id now ws name scope (Some rules) db = (p, db')"
  shows "fst (check_permission actor ws perm role resource db') =
           fst (check_permission actor ws perm role resource db)
    \<and> list_policies ws 200 50 db' = [p]"
proof -
  let ?f = "filter (\<lambda>p. po_workspace_id p = ws) (pd_policies db)"
  have p: "po_created_at p = now" "po_workspace_id p = ws" "pd_policies db' = pd_policies db @ [p]"
    using assms(3) by (auto simp: create_policy_def Let_def)
  have "sort_key po_created_at (?f @ [p]) = sort_key po_created_at ?f @ [p]"
    using assms(2) p(1) by (intro sort_key_snoc) auto
  then have s: "sort_key po_created_at (filter (\<lambda>p. po_workspace_id p = ws) (pd_policies db')) =
      sort_key po_created_at ?f @ [p]"
    by (simp add: p)
  show ?thesis
    using assms(1)
    unfolding fst_check_permission list_policies_def find_policies_by_workspace_def s
    by (simp add: min_def max_def)
qed


definition full_page :: policy_db where
  "full_page = \<lparr> pd_policies = map (\<lambda>i. demo_policy i (int i) []) [0..<50], pd_audit = [] \<rparr>"

theorem deny_beyond_page_ignored_witness:
  "fst (fst (check_permission 1 7 ''task:create'' ''editor'' None
     (snd (create_policy 60 99 7 ''freeze'' ''workspace'' (Some [demo_rule ''deny'']) full_page))))"
proof -
  let ?cp = "create_policy 60 99 7 ''freeze'' ''workspace'' (Some [demo_rule ''deny'']) full_page"
  have w: "filter (\<lambda>p. po_workspace_id p = 7) (pd_policies full_page) = pd_policies full_page"
    "pd_policies full_page = map (\<lambda>i. demo_policy i (int i) []) [0..<50]"
    by (auto simp: full_page_def demo_policy_def filter_map comp_def)
  have len: "length (filter (\<lambda>p. po_workspace_id p = 7) (pd_policies full_page)) = 50"
    unfolding w(1) by (simp add: full_page_def)
  have old: "\<forall>p \<in> set (pd_policies full_page). po_created_at p \<le> 99"
    unfolding w(2) by (auto simp: demo_policy_def)
  have "fst (check_permission 1 7 ''task:create'' ''editor'' None (snd ?cp)) =
      fst (check_permission 1 7 ''task:create'' ''editor'' None full_page)"
    using deny_beyond_page_ignored [OF len old, of 60 "''freeze''" "''workspace''" "[demo_rule ''deny'']"
        "fst ?cp" "snd ?cp" 1 "''task:create''" "''editor''" None]
    by simp
  moreover have "denies ''task:create'' (concat (map po_rules (find_policies_by_workspace 7 50 0 full_page))) = False"
    using find_policies_sub [of 7 50 0 full_page] unfolding w(2)
    by (fastforce simp: denies_def demo_policy_def)
  moreover have "role_has_permission ''editor'' ''task:create''"
    by (simp add: role_has_permission_def granted_def role_permissions_def)
  ultimately show ?thesis by (simp add: fst_check_permission resolve_allowed_iff)
qed

text \<open>The roles form a chain: whatever a lower role is granted a higher one is granted too, and
  an unknown role is granted nothing.  The capabilities the workspace service reports for a role
  are among its permissions, but never include the run, approval and artifact permissions that
  the role has at the policy service.\<close>

theorem roles_form_chain:
  "set (granted role_permissions ''viewer'') \<subseteq> set (granted role_permissions ''editor'')
   \<and> set (granted role_permissions ''editor'') \<subseteq> set (granted role_permissions ''admin'')
   \<and> set (granted role_permissions ''admin'') \<subset> set (granted role_permissions ''owner'')
   \<and> (\<forall>role. role \<in> {''owner'', ''admin'', ''editor'', ''viewer''} \<or>
        (granted role_permissions role = [] \<and> resolve_capabilities role = []))
   \<and> (\<forall>role. set (resolve_capabilities role) =
        {p. role_has_permission role p} -
          {''run:view'', ''run:terminal'', ''approval:decide'', ''artifact:create''})"
proof (intro conjI allI)
  show "set (granted role_permissions ''viewer'') \<subseteq> set (granted role_permissions ''editor'')"
    "set (granted role_permissions ''editor'') \<subseteq> set (granted role_permissions ''admin'')"
    by (simp_all add: granted_def role_permissions_def)
next
  have "set (granted role_permissions ''admin'') \<subseteq> set (granted role_permissions ''owner'')"
    "''workspace:delete'' \<in> set (granted role_permissions ''owner'')"
    "''workspace:delete'' \<notin> set (granted role_permissions ''admin'')"
    by (simp_all add: granted_def role_permissions_def)
  then show "set (granted role_permissions ''admin'') \<subset> set (granted role_permissions ''owner'')" by blast
next
  fix role
  show "role \<in> {''owner'', ''admin'', ''editor'', ''viewer''} \<or>
      (granted role_permissions role = [] \<and> resolve_capabilities role = [])"
    by (simp add: role_has_permission_def granted_def role_permissions_def resolve_capabilities_def
        role_capabilities_def)
next
  fix role
  show "set (resolve_capabilities role) =
      {p. role_has_permission role p} -
        {''run:view'', ''run:terminal'', ''approval:decide'', ''artifact:create''}"
    by (cases "role \<in> {''owner'', ''admin'', ''editor'', ''viewer''}")
      (auto simp: role_has_permission_def granted_def role_permissions_def resolve_capabilities_def
        role_capabilities_def)
qed

end
