(* ===== verification/Gateway.thy ===== *)
theory Gateway
  imports Prelude
begin

text \<open>
  The API gateway: \<open>apps/api-gateway/src/api/routing.py\<close>, \<open>permissions.py\<close>, \<open>post_fetch.py\<close>,
  the proxy route of \<open>routes.py\<close> and \<open>application/auth_middleware.py\<close>.

  The services behind it are parameters (\<open>gw_env\<close>): the token verifier, the membership lookup,
  the policy check and the backend.  Their answers are constant during one request.  The result
  of a request is what was forwarded, if anything, and the response or the status of the
  \<open>HTTPException\<close> raised (500 for an exception the code does not catch); details of error
  messages are left out.  Token claims are those with string values.
\<close>

section \<open>Routing\<close>

definition slash :: char where "slash = CHR ''/''"

definition path_parts :: "string \<Rightarrow> string list" where
  "path_parts path = split_on slash (rstrip_char slash path)"

definition route_to_service :: "string \<Rightarrow> string option" where
  "route_to_service path =
    (let parts = path_parts path; n = length parts in
     if starts_with ''/v1/auth/'' path then Some ''auth''
     else if starts_with ''/v1/task-templates'' path \<or> starts_with ''/v1/agent-templates'' path
     then Some ''orchestrator''
     else if n = 5 \<and> parts ! 2 = ''tasks'' \<and> parts ! 4 = ''timeline'' then Some ''event-store''
     else if n = 5 \<and> parts ! 2 = ''runs'' \<and> parts ! 4 = ''timeline'' then Some ''event-store''
     else if n = 6 \<and> parts ! 2 = ''runs'' \<and> parts ! 4 = ''events'' \<and> parts ! 5 = ''stream''
     then Some ''event-store''
     else if n = 6 \<and> parts ! 2 = ''workspaces'' \<and> parts ! 4 = ''events'' \<and> parts ! 5 = ''stream''
     then Some ''event-store''
     else if starts_with ''/v1/tasks'' path \<or> starts_with ''/v1/runs'' path then Some ''orchestrator''
     else if starts_with ''/v1/terminal/'' path then Some ''execution''
     else if starts_with ''/v1/tool-executions/'' path \<or> starts_with ''/v1/sandboxes/'' path
     then Some ''execution''
     else if starts_with ''/v1/telemetry/'' path then Some ''telemetry''
     else if starts_with ''/v1/workspaces'' path then
       (if n \<ge> 5 \<and> parts ! 4 = ''artifacts'' then Some ''artifact''
        else if n = 7 \<and> parts ! 4 = ''runs'' \<and> parts ! 6 = ''artifacts'' then Some ''artifact''
        else if n \<ge> 5 \<and> parts ! 4 = ''approvals'' then Some ''orchestrator''
        else if n \<ge> 7 \<and> parts ! 4 = ''tasks'' \<and> parts ! 6 = ''comments'' then Some ''orchestrator''
        else if n \<ge> 7 \<and> parts ! 4 = ''tasks'' \<and> parts ! 6 = ''runs'' then Some ''orchestrator''
        else if n \<ge> 5 \<and> parts ! 4 = ''policies'' then Some ''policy''
        else if n \<ge> 5 \<and> parts ! 4 = ''secrets'' then Some ''secret''
        else if n \<ge> 5 \<and> parts ! 4 = ''activity'' then Some ''event-store''
        else if n \<ge> 5 \<and> parts ! 4 = ''notifications'' then Some ''notification''
        else if n \<ge> 5 \<and> parts ! 4 = ''integrations'' then Some ''model-gateway''
        else if n \<ge> 5 \<and> parts ! 4 = ''audit-events'' then Some ''audit''
        else Some ''workspace'')
     else None)"

definition rewrite_artifact_path :: "string \<Rightarrow> string" where
  "rewrite_artifact_path path =
    (let parts = path_parts path; n = length parts in
     if n = 6 \<and> parts ! 4 = ''artifacts'' \<and> parts ! 5 = ''upload''
     then ''/internal/v1/workspaces/'' @ parts ! 3 @ ''/artifacts/upload''
     else if n = 7 \<and> parts ! 4 = ''runs'' \<and> parts ! 6 = ''artifacts'' then ''/internal/v1/artifacts''
     else if n = 7 \<and> parts ! 4 = ''artifacts'' \<and> parts ! 6 = ''download''
     then ''/internal/v1/artifacts/'' @ parts ! 5 @ ''/download''
     else if n = 7 \<and> parts ! 4 = ''artifacts'' \<and> parts ! 6 = ''preview''
     then ''/internal/v1/artifacts/'' @ parts ! 5 @ ''/preview''
     else if n = 7 \<and> parts ! 4 = ''artifacts'' \<and> parts ! 6 = ''provenance''
     then ''/internal/v1/artifacts/'' @ parts ! 5 @ ''/provenance''
     else if n = 8 \<and> parts ! 4 = ''artifacts'' \<and> parts ! 6 = ''lineage'' \<and> parts ! 7 = ''ancestors''
     then ''/internal/v1/artifacts/'' @ parts ! 5 @ ''/lineage/ancestors''
     else if n = 7 \<and> parts ! 4 = ''artifacts'' \<and> parts ! 6 = ''annotations''
     then ''/internal/v1/artifacts/'' @ parts ! 5 @ ''/annotations''
     else if n = 8 \<and> parts ! 4 = ''artifacts'' \<and> parts ! 6 = ''tags''
     then ''/internal/v1/artifacts/'' @ parts ! 5 @ ''/tags/'' @ parts ! 7
     else if n = 7 \<and> parts ! 4 = ''artifacts'' \<and> parts ! 6 = ''tags''
     then ''/internal/v1/artifacts/'' @ parts ! 5 @ ''/tags''
     else if n = 6 \<and> parts ! 4 = ''artifacts'' then ''/internal/v1/artifacts/'' @ parts ! 5
     else if n = 5 \<and> parts ! 4 = ''artifacts'' then ''/internal/v1/artifacts''
     else path)"

definition rewrite_internal_path :: "string \<Rightarrow> string \<Rightarrow> string" where
  "rewrite_internal_path service path =
    (if service \<in> {''execution'', ''notification''} then ''/internal'' @ path
     else if service = ''telemetry'' then str_replace ''/v1/telemetry/'' ''/internal/v1/'' path
     else if service \<in> {''orchestrator'', ''event-store''}
           \<and> (starts_with ''/v1/tasks'' path \<or> starts_with ''/v1/task-templates'' path
              \<or> starts_with ''/v1/agent-templates'' path \<or> starts_with ''/v1/runs'' path
              \<or> starts_with ''/v1/workspaces'' path)
     then ''/internal'' @ path
     else if service = ''artifact'' then rewrite_artifact_path path
     else path)"

definition artifact_query_params :: "string \<Rightarrow> (string \<times> string) list" where
  "artifact_query_params path =
    (let parts = path_parts path; n = length parts in
     (if n \<ge> 4 \<and> parts ! 2 = ''workspaces'' then [(''workspace_id'', parts ! 3)] else [])
     @ (if n = 7 \<and> parts ! 4 = ''runs'' \<and> parts ! 6 = ''artifacts'' then [(''run_id'', parts ! 5)] else []))"

section \<open>Permissions of routes\<close>

definition cancellable_statuses :: "string list" where
  "cancellable_statuses = [''pending'', ''running'', ''waiting_approval'']"

definition retryable_statuses :: "string list" where
  "retryable_statuses = [''failed'', ''cancelled'', ''timed_out'']"

definition resolve_orchestrator_permission :: "string \<Rightarrow> string \<Rightarrow> string option" where
  "resolve_orchestrator_permission meth path =
    (let parts = path_parts path; n = length parts in
     if meth = ''POST'' \<and> n = 5 \<and> parts ! 4 = ''cancel'' then Some ''task:cancel''
     else if meth = ''POST'' \<and> n = 5 \<and> parts ! 4 = ''retry'' then Some ''task:create''
     else if meth = ''POST'' \<and> n = 5 \<and> parts ! 4 = ''launch'' then Some ''task:create''
     else if meth = ''GET'' \<and> n = 4 \<and> parts ! 2 = ''tasks'' then Some ''task:view''
     else if meth = ''PATCH'' \<and> n = 4 \<and> parts ! 2 = ''tasks'' then Some ''task:create''
     else if meth = ''GET'' \<and> n = 4 \<and> parts ! 2 = ''runs'' then Some ''run:view''
     else if meth = ''GET'' \<and> n = 5 \<and> parts ! 2 = ''runs'' \<and> parts ! 4 = ''steps'' then Some ''run:view''
     else None)"

definition resolve_event_store_permission :: "string \<Rightarrow> string \<Rightarrow> string option" where
  "resolve_event_store_permission meth path =
    (let parts = path_parts path; n = length parts in
     if meth = ''GET'' \<and> n = 5 \<and> parts ! 2 = ''tasks'' \<and> parts ! 4 = ''timeline'' then Some ''task:view''
     else if meth = ''GET'' \<and> n = 5 \<and> parts ! 2 = ''runs'' \<and> parts ! 4 = ''timeline'' then Some ''run:view''
     else if meth = ''GET'' \<and> n = 6 \<and> parts ! 2 = ''runs'' \<and> parts ! 4 = ''events'' \<and> parts ! 5 = ''stream''
     then Some ''run:view''
     else None)"

definition json_get :: "dict \<Rightarrow> string \<Rightarrow> json" where
  "json_get d k = (case map_of d k of None \<Rightarrow> JNull | Some j \<Rightarrow> j)"

definition inject_task_capabilities :: "dict \<Rightarrow> bool \<Rightarrow> bool \<Rightarrow> dict" where
  "inject_task_capabilities data cancel_perm retry_perm =
    dict_put ''_capabilities'' (JObj
      [(''can_cancel'', JBool (cancel_perm \<and> json_get data ''task_status'' \<in> JStr ` set cancellable_statuses)),
       (''can_retry'', JBool (retry_perm \<and> json_get data ''task_status'' \<in> JStr ` set retryable_statuses)),
       (''can_view_run'', JBool (json_get data ''latest_run_id'' \<noteq> JNull))]) data"

definition inject_run_capabilities :: "dict \<Rightarrow> dict" where
  "inject_run_capabilities data =
    dict_put ''_capabilities'' (JObj [(''can_view_task'', JBool True)]) data"

definition public_routes :: "string list" where
  "public_routes = [''/v1/auth/register'', ''/v1/auth/login'', ''/healthz/live'', ''/healthz/ready'']"

definition auth_only_routes :: "string list" where
  "auth_only_routes = [''/v1/auth/refresh'', ''/v1/auth/me'', ''/v1/workspaces'', ''/v1/tasks'']"

text \<open>The keys are method and pattern; \<open>wsp s\<close> is the pattern under one workspace.\<close>

definition wsp :: "string \<Rightarrow> string" where
  "wsp s = ''/v1/workspaces/{workspace_id}'' @ s"

definition permission_map :: "((string \<times> string) \<times> string) list" where
  "permission_map =
    [((''GET'', wsp ''''), ''workspace:view''),
     ((''PATCH'', wsp ''''), ''workspace:manage_members''),
     ((''DELETE'', wsp ''''), ''workspace:delete''),
     ((''GET'', wsp ''/members''), ''workspace:view''),
     ((''POST'', wsp ''/members''), ''workspace:manage_members''),
     ((''PATCH'', wsp ''/members/{member_user_id}''), ''workspace:manage_members''),
     ((''DELETE'', wsp ''/members/{member_user_id}''), ''workspace:manage_members''),
     ((''GET'', wsp ''/policies''), ''workspace:view''),
     ((''POST'', wsp ''/policies''), ''workspace:manage_policy''),
     ((''GET'', wsp ''/policies/{policy_id}''), ''workspace:view''),
     ((''PATCH'', wsp ''/policies/{policy_id}''), ''workspace:manage_policy''),
     ((''GET'', wsp ''/artifacts''), ''workspace:view''),
     ((''GET'', wsp ''/artifacts/{artifact_id}''), ''workspace:view''),
     ((''GET'', wsp ''/artifacts/{artifact_id}/preview''), ''workspace:view''),
     ((''GET'', wsp ''/artifacts/{artifact_id}/download''), ''workspace:view''),
     ((''GET'', wsp ''/artifacts/{artifact_id}/provenance''), ''workspace:view''),
     ((''GET'', wsp ''/artifacts/{artifact_id}/lineage/ancestors''), ''workspace:view''),
     ((''GET'', wsp ''/runs/{run_id}/artifacts''), ''workspace:view''),
     ((''POST'', wsp ''/artifacts/upload''), ''artifact:create''),
     ((''GET'', wsp ''/artifacts/{artifact_id}/annotations''), ''workspace:view''),
     ((''POST'', wsp ''/artifacts/{artifact_id}/annotations''), ''workspace:view''),
     ((''GET'', wsp ''/secrets''), ''workspace:manage_secrets''),
     ((''POST'', wsp ''/secrets''), ''workspace:manage_secrets''),
     ((''DELETE'', wsp ''/secrets/{secret_id}''), ''workspace:manage_secrets''),
     ((''PATCH'', wsp ''/secrets/{secret_id}''), ''workspace:manage_secrets''),
     ((''GET'', wsp ''/activity''), ''workspace:view''),
     ((''GET'', wsp ''/notifications''), ''workspace:view''),
     ((''GET'', wsp ''/notifications/count''), ''workspace:view''),
     ((''POST'', wsp ''/notifications/{notification_id}/read''), ''workspace:view''),
     ((''POST'', wsp ''/notifications/read-all''), ''workspace:view''),
     ((''GET'', wsp ''/integrations''), ''workspace:manage_integrations''),
     ((''POST'', wsp ''/integrations''), ''workspace:manage_integrations''),
     ((''GET'', wsp ''/integrations/{integration_id}''), ''workspace:manage_integrations''),
     ((''PATCH'', wsp ''/integrations/{integration_id}''), ''workspace:manage_integrations''),
     ((''DELETE'', wsp ''/integrations/{integration_id}''), ''workspace:manage_integrations''),
     ((''POST'', wsp ''/integrations/{integration_id}/toggle''), ''workspace:manage_integrations''),
     ((''GET'', wsp ''/audit-events''), ''workspace:view''),
     ((''GET'', wsp ''/approvals''), ''workspace:view''),
     ((''GET'', wsp ''/approvals/count''), ''workspace:view''),
     ((''GET'', wsp ''/approvals/{id}''), ''workspace:view''),
     ((''POST'', wsp ''/approvals''), ''workspace:view''),
     ((''POST'', wsp ''/approvals/{id}/decide''), ''approval:decide''),
     ((''GET'', wsp ''/tasks/{id}/comments''), ''workspace:view''),
     ((''POST'', wsp ''/tasks/{id}/comments''), ''workspace:view''),
     ((''GET'', wsp ''/tasks/{id}/runs''), ''workspace:view'')]"

definition id_placeholder :: "string \<Rightarrow> string" where
  "id_placeholder s =
    (case map_of [(''members'', ''{member_user_id}''), (''policies'', ''{policy_id}''),
        (''artifacts'', ''{artifact_id}''), (''runs'', ''{run_id}''), (''secrets'', ''{secret_id}''),
        (''notifications'', ''{notification_id}''), (''integrations'', ''{integration_id}'')] s of
       None \<Rightarrow> ''{id}'' | Some p \<Rightarrow> p)"

definition permission_pattern :: "string list \<Rightarrow> string option" where
  "permission_pattern parts =
    (if length parts = 4 then Some (wsp '''')
     else if length parts = 5 then Some (wsp (''/'' @ parts ! 4))
     else if length parts = 6 then
       Some (wsp (''/'' @ parts ! 4 @ ''/'' @
         (if parts ! 5 \<in> {''upload'', ''count'', ''read-all''} then parts ! 5 else id_placeholder (parts ! 4))))
     else if length parts = 7 then
       Some (wsp (''/'' @ parts ! 4 @ ''/'' @ id_placeholder (parts ! 4) @ ''/'' @ parts ! 6))
     else if length parts = 8 then
       Some (wsp (''/'' @ parts ! 4 @ ''/'' @ id_placeholder (parts ! 4) @ ''/'' @ parts ! 6 @ ''/'' @ parts ! 7))
     else None)"

text \<open>The permission and the workspace of a request, or None.\<close>

definition match_permission :: "string \<Rightarrow> string \<Rightarrow> (string \<times> string) option" where
  "match_permission meth path =
    (let parts = path_parts path; n = length parts in
     if rstrip_char slash path \<in> set auth_only_routes then None
     else if n \<ge> 3 \<and> parts ! 1 = ''v1''
       \<and> parts ! 2 \<in> {''tasks'', ''runs'', ''tool-executions'', ''sandboxes'', ''telemetry''} then None
     else if n \<ge> 4 \<and> parts ! 1 = ''v1'' \<and> parts ! 2 = ''workspaces'' then
       (case permission_pattern parts of
          None \<Rightarrow> None
        | Some pattern \<Rightarrow>
            (case map_of permission_map (meth, pattern) of
               None \<Rightarrow> None | Some perm \<Rightarrow> Some (perm, parts ! 3)))
     else None)"

section \<open>Requests\<close>

datatype gw_body = Body_Empty | Body_Invalid | Body_Json json

record gw_request =
  gq_method :: string
  gq_path :: string
  gq_authorization :: string
  gq_query :: "(string \<times> string) list"
  gq_body :: gw_body

record gw_response =
  gr_status :: int
  gr_body :: gw_body

record gw_forward =
  fw_service :: string
  fw_path :: string
  fw_user :: "string option"
  fw_params :: "(string \<times> string) list"

type_synonym claims = "(string \<times> string) list"

text \<open>\<open>en_member ws user\<close> is the membership record, if any; \<open>en_policy\<close> the answer of the policy
  service to actor, workspace, permission and role.  \<open>Inl ()\<close> is any exception.\<close>

record gw_env =
  ge_verify :: "string \<Rightarrow> unit + claims"
  ge_member :: "json \<Rightarrow> string \<Rightarrow> unit + dict option"
  ge_policy :: "string \<Rightarrow> json \<Rightarrow> string \<Rightarrow> json \<Rightarrow> unit + dict"
  ge_backend :: "gw_forward \<Rightarrow> gw_request \<Rightarrow> gw_response"

definition is_sse_endpoint :: "string \<Rightarrow> bool" where
  "is_sse_endpoint path = ends_with ''/events/stream'' (rstrip_char slash path)"

definition extract_auth_context :: "gw_env \<Rightarrow> gw_request \<Rightarrow> int + claims option" where
  "extract_auth_context env req =
    (if gq_path req \<in> set public_routes then Inr None
     else
       (let token = (if starts_with ''Bearer '' (gq_authorization req)
                     then Some (drop 7 (gq_authorization req))
                     else if is_sse_endpoint (gq_path req) then map_of (gq_query req) ''token''
                     else None)
        in if \<not> str_truthy token then Inl 401
           else (case ge_verify env (the token) of Inl _ \<Rightarrow> Inl 401 | Inr c \<Rightarrow> Inr (Some c))))"

definition has_permission :: "gw_env \<Rightarrow> string \<Rightarrow> json \<Rightarrow> string \<Rightarrow> bool" where
  "has_permission env user ws perm =
    (case ge_member env ws user of
       Inl _ \<Rightarrow> False
     | Inr None \<Rightarrow> False
     | Inr (Some m) \<Rightarrow>
         if m = [] then False
         else (case map_of m ''role'' of
                 None \<Rightarrow> False
               | Some role \<Rightarrow>
                   (case ge_policy env user ws perm role of
                      Inl _ \<Rightarrow> False | Inr r \<Rightarrow> json_truthy (json_get r ''allowed''))))"

text \<open>Every refusal and every error inside the check is a 403.\<close>

definition check_permission_or_fail :: "gw_env \<Rightarrow> string \<Rightarrow> json \<Rightarrow> string \<Rightarrow> int + unit" where
  "check_permission_or_fail env user ws perm =
    (case ge_member env ws user of
       Inl _ \<Rightarrow> Inl 403
     | Inr None \<Rightarrow> Inl 403
     | Inr (Some m) \<Rightarrow>
         if m = [] then Inl 403
         else (case map_of m ''role'' of
                 None \<Rightarrow> Inl 403
               | Some role \<Rightarrow>
                   (case ge_policy env user ws perm role of
                      Inl _ \<Rightarrow> Inl 403
                    | Inr r \<Rightarrow> if json_truthy (json_get r ''allowed'') then Inr () else Inl 403)))"

definition require_user :: "string option \<Rightarrow> int + string" where
  "require_user user = (if str_truthy user then Inr (the user) else Inl 401)"

text \<open>\<open>workspace_id\<close> of the request body; a body that is JSON but no object is an uncaught error.\<close>

definition body_workspace :: "gw_request \<Rightarrow> int + json" where
  "body_workspace req =
    (case gq_body req of
       Body_Invalid \<Rightarrow> Inl 400
     | Body_Empty \<Rightarrow> Inl 400
     | Body_Json (JObj d) \<Rightarrow>
         if json_truthy (json_get d ''workspace_id'') then Inr (json_get d ''workspace_id'') else Inl 400
     | Body_Json _ \<Rightarrow> Inl 500)"

definition query_workspace :: "gw_request \<Rightarrow> int + json" where
  "query_workspace req =
    (if str_truthy (map_of (gq_query req) ''workspace_id'')
     then Inr (JStr (the (map_of (gq_query req) ''workspace_id''))) else Inl 400)"

section \<open>The proxy route\<close>

definition require_then :: "bool \<Rightarrow> 'e + unit \<Rightarrow> 'e + unit" where
  "require_then c r = (if c then r else Inr ())"

text \<open>Step 2: the checks where the workspace is known before the call.\<close>

definition permission_stage :: "gw_env \<Rightarrow> gw_request \<Rightarrow> string option \<Rightarrow> int + unit" where
  "permission_stage env req user =
    (let path = gq_path req; stripped = rstrip_char slash path in
     if gq_method req = ''POST'' \<and> stripped \<in> {''/v1/tasks'', ''/v1/tasks/draft''} then
       rbind (require_user user) (\<lambda>u. rbind (body_workspace req) (\<lambda>ws.
         check_permission_or_fail env u ws ''task:create''))
     else if gq_method req = ''GET'' \<and> stripped = ''/v1/tasks'' then
       rbind (require_user user) (\<lambda>u. rbind (query_workspace req) (\<lambda>ws.
         check_permission_or_fail env u ws ''task:view''))
     else (case match_permission (gq_method req) path of
         None \<Rightarrow> Inr ()
       | Some (perm, ws) \<Rightarrow>
           if ws = [] then Inr ()
           else rbind (require_user user) (\<lambda>u. check_permission_or_fail env u (JStr ws) perm)))"

definition terminal_stage :: "gw_env \<Rightarrow> gw_request \<Rightarrow> string option \<Rightarrow> int + unit" where
  "terminal_stage env req user =
    require_then (starts_with ''/v1/terminal/'' (gq_path req))
      (rbind (require_user user) (\<lambda>u.
        require_then (gq_method req = ''POST''
                      \<and> rstrip_char slash (gq_path req) = ''/v1/terminal/sessions'')
          (rbind (body_workspace req) (\<lambda>ws. check_permission_or_fail env u ws ''run:terminal''))))"

definition execution_detail_stage :: "gw_request \<Rightarrow> string option \<Rightarrow> int + unit" where
  "execution_detail_stage req user =
    require_then (starts_with ''/v1/tool-executions/'' (gq_path req)
                  \<or> starts_with ''/v1/sandboxes/'' (gq_path req))
      (rbind (require_user user) (\<lambda>u. Inr ()))"

definition artifact_method_stage :: "gw_request \<Rightarrow> string \<Rightarrow> int + unit" where
  "artifact_method_stage req service =
    require_then (service = ''artifact'' \<and> gq_method req \<noteq> ''GET'')
      (if gq_method req = ''POST''
          \<and> (str_contains ''/artifacts/upload'' (gq_path req)
             \<or> ends_with ''/annotations'' (rstrip_char slash (gq_path req)))
       then Inr () else Inl 405)"

definition event_store_stage :: "gw_env \<Rightarrow> gw_request \<Rightarrow> string option \<Rightarrow> string \<Rightarrow> int + unit" where
  "event_store_stage env req user service =
    require_then (service = ''event-store'')
      (rbind (require_user user) (\<lambda>u.
        let parts = path_parts (gq_path req) in
        if length parts = 6 \<and> parts ! 2 = ''workspaces'' \<and> parts ! 4 = ''events'' \<and> parts ! 5 = ''stream''
        then check_permission_or_fail env u (JStr (parts ! 3)) ''workspace:view''
        else (case resolve_event_store_permission (gq_method req) (gq_path req) of
            None \<Rightarrow> Inr ()
          | Some perm \<Rightarrow> rbind (query_workspace req) (\<lambda>ws. check_permission_or_fail env u ws perm))))"

text \<open>Everything before the call: the forward to make.\<close>

definition gateway_authorize :: "gw_env \<Rightarrow> gw_request \<Rightarrow> int + gw_forward" where
  "gateway_authorize env req =
    rbind (extract_auth_context env req) (\<lambda>ctx.
    let user = (case ctx of None \<Rightarrow> None | Some c \<Rightarrow> map_of c ''sub'') in
    if ctx \<noteq> None \<and> ctx \<noteq> Some [] \<and> \<not> str_truthy user then Inl 401
    else
    rbind (permission_stage env req user) (\<lambda>_.
    rbind (terminal_stage env req user) (\<lambda>_.
    rbind (execution_detail_stage req user) (\<lambda>_.
    case route_to_service (gq_path req) of
      None \<Rightarrow> Inl 404
    | Some service \<Rightarrow>
        rbind (artifact_method_stage req service) (\<lambda>_.
        rbind (event_store_stage env req user service) (\<lambda>_.
        Inr \<lparr> fw_service = service, fw_path = rewrite_internal_path service (gq_path req),
              fw_user = (if str_truthy user then user else None),
              fw_params = (if service = ''artifact'' then artifact_query_params (gq_path req) else []) \<rparr>))))))"

text \<open>Step 4: the check on the resource that came back.\<close>

definition post_fetch_authz ::
  "gw_env \<Rightarrow> string \<Rightarrow> string \<Rightarrow> string \<Rightarrow> gw_response \<Rightarrow> int + gw_response" where
  "post_fetch_authz env user path perm resp =
    (case gr_body resp of
       Body_Empty \<Rightarrow> Inr resp
     | Body_Invalid \<Rightarrow> Inr resp
     | Body_Json (JObj d) \<Rightarrow>
         (let ws = json_get d ''workspace_id''; parts = path_parts path in
          if \<not> json_truthy ws then Inl 403
          else rbind (check_permission_or_fail env user ws perm) (\<lambda>_.
            if length parts = 4 \<and> parts ! 2 = ''tasks''
            then Inr (resp\<lparr>gr_body := Body_Json (JObj (inject_task_capabilities d
                   (has_permission env user ws ''task:cancel'')
                   (has_permission env user ws ''task:create'')))\<rparr>)
            else if length parts = 4 \<and> parts ! 2 = ''runs''
            then Inr (resp\<lparr>gr_body := Body_Json (JObj (inject_run_capabilities d))\<rparr>)
            else Inr resp))
     | Body_Json _ \<Rightarrow> Inl 500)"

text \<open>Step 5: the check on a timeline.\<close>

definition post_fetch_authz_timeline ::
  "gw_env \<Rightarrow> string \<Rightarrow> string \<Rightarrow> gw_response \<Rightarrow> int + gw_response" where
  "post_fetch_authz_timeline env user perm resp =
    (case gr_body resp of
       Body_Empty \<Rightarrow> Inr resp
     | Body_Invalid \<Rightarrow> Inr resp
     | Body_Json (JObj d) \<Rightarrow>
         (let check = (\<lambda>ws. if json_truthy ws
                            then rbind (check_permission_or_fail env user ws perm) (\<lambda>_. Inr resp)
                            else Inl 403) in
          if json_truthy (json_get d ''workspace_id'') then check (json_get d ''workspace_id'')
          else (case map_of d ''events'' of
              None \<Rightarrow> Inr resp
            | Some (JList (JObj e # _)) \<Rightarrow> check (json_get e ''workspace_id'')
            | Some (JList (_ # _)) \<Rightarrow> Inl 500
            | Some j \<Rightarrow> if json_truthy j then Inl 500 else Inr resp))
     | Body_Json _ \<Rightarrow> Inl 500)"

record gw_outcome =
  go_forwarded :: "gw_forward option"
  go_result :: "int + gw_response"

definition post_stage :: "gw_env \<Rightarrow> gw_request \<Rightarrow> gw_forward \<Rightarrow> gw_response \<Rightarrow> int + gw_response" where
  "post_stage env req fw resp =
    (if is_sse_endpoint (fw_path fw) then Inr resp
     else if fw_service fw = ''orchestrator'' \<and> gr_status resp = 200 \<and> gq_method req = ''GET'' then
       (case (resolve_orchestrator_permission (gq_method req) (gq_path req), fw_user fw) of
          (Some perm, Some u) \<Rightarrow> post_fetch_authz env u (gq_path req) perm resp
        | _ \<Rightarrow> Inr resp)
     else if fw_service fw = ''event-store'' \<and> gr_status resp = 200 then
       (case (resolve_event_store_permission (gq_method req) (gq_path req), fw_user fw) of
          (Some perm, Some u) \<Rightarrow> post_fetch_authz_timeline env u perm resp
        | _ \<Rightarrow> Inr resp)
     else Inr resp)"

definition gateway_proxy :: "gw_env \<Rightarrow> gw_request \<Rightarrow> gw_outcome" where
  "gateway_proxy env req =
    (case gateway_authorize env req of
       Inl status \<Rightarrow> \<lparr> go_forwarded = None, go_result = Inl status \<rparr>
     | Inr fw \<Rightarrow> \<lparr> go_forwarded = Some fw,
                   go_result = post_stage env req fw (ge_backend env fw req) \<rparr>)"

section \<open>Lemmas\<close>

lemma check_iff: "check_permission_or_fail env u ws p = Inr x \<longleftrightarrow> has_permission env u ws p"
  by (simp add: check_permission_or_fail_def has_permission_def split: sum.split option.split)

lemma check_fails: "check_permission_or_fail env u ws p = (if has_permission env u ws p then Inr () else Inl 403)"
  by (simp add: check_permission_or_fail_def has_permission_def split: sum.split option.split)

lemma require_user_iff: "require_user user = Inr u \<longleftrightarrow> user = Some u \<and> u \<noteq> []"
  by (auto simp: require_user_def str_truthy_def split: option.splits)

lemma require_then_iff: "require_then c r = Inr x \<longleftrightarrow> (c \<longrightarrow> r = Inr ())"
  by (simp add: require_then_def)

lemma permission_stage_guard:
  assumes "permission_stage env req user = Inr x"
    and "match_permission (gq_method req) (gq_path req) = Some (perm, ws)" "ws \<noteq> []"
  shows "(\<exists>u. user = Some u \<and> u \<noteq> [] \<and> has_permission env u (JStr ws) perm)"
proof -
  have nt: "\<not> (rstrip_char slash (gq_path req) \<in> {''/v1/tasks'', ''/v1/tasks/draft''})"
  proof
    assume "rstrip_char slash (gq_path req) \<in> {''/v1/tasks'', ''/v1/tasks/draft''}"
    then have "path_parts (gq_path req) \<in> {['''', ''v1'', ''tasks''], ['''', ''v1'', ''tasks'', ''draft'']}"
      by (auto simp: path_parts_def slash_def)
    then show False using assms(2)
      by (auto simp: match_permission_def Let_def split: if_splits)
  qed
  then have "rbind (require_user user) (\<lambda>u. check_permission_or_fail env u (JStr ws) perm) = Inr x"
    using assms by (simp add: permission_stage_def Let_def)
  then show ?thesis by (auto simp: rbind_Inr_iff require_user_iff check_iff)
qed

lemma permission_stage_task:
  assumes "path_parts (gq_path req) = ['''', ''v1'', ''tasks'', i, action]"
  shows "permission_stage env req user = Inr ()"
proof -
  have "rstrip_char slash (gq_path req) \<notin> {''/v1/tasks'', ''/v1/tasks/draft''}"
    using assms by (auto simp: path_parts_def slash_def)
  moreover have "match_permission (gq_method req) (gq_path req) = None"
    using assms by (simp add: match_permission_def Let_def)
  ultimately show ?thesis by (simp add: permission_stage_def)
qed

lemma task_action_parts:
  assumes "slash \<notin> set i" "slash \<notin> set action" "action \<noteq> []"
  shows "path_parts (''/v1/tasks/'' @ i @ ''/'' @ action) = ['''', ''v1'', ''tasks'', i, action]"
proof -
  have "rstrip_char slash (''/v1/tasks/'' @ i @ ''/'' @ action) = ''/v1/tasks/'' @ i @ ''/'' @ action"
    using assms(2,3) last_in_set [OF assms(3)] by (intro rstrip_char_id) (simp, metis last_appendR last_ConsR list.distinct(1) append_is_Nil_conv)
  then show ?thesis
    using split_on_sep [OF assms(1), of action] split_on_no [OF assms(2)]
    by (simp add: path_parts_def slash_def)
qed

lemma gateway_forward_iff:
  "go_forwarded (gateway_proxy env req) = Some fw \<longleftrightarrow> gateway_authorize env req = Inr fw"
  by (simp add: gateway_proxy_def split: sum.split)

lemma gateway_result:
  "go_result (gateway_proxy env req) = Inr resp \<longleftrightarrow>
     (\<exists>fw. gateway_authorize env req = Inr fw \<and> post_stage env req fw (ge_backend env fw req) = Inr resp)"
  by (simp add: gateway_proxy_def split: sum.split)

text \<open>What an authorization gives, stage by stage.\<close>

lemma gateway_authorizeE:
  assumes "gateway_authorize env req = Inr fw"
  obtains ctx user service where "extract_auth_context env req = Inr ctx"
    "user = (case ctx of None \<Rightarrow> None | Some c \<Rightarrow> map_of c ''sub'')"
    "ctx = None \<or> ctx = Some [] \<or> str_truthy user"
    "permission_stage env req user = Inr ()" "terminal_stage env req user = Inr ()"
    "execution_detail_stage req user = Inr ()" "route_to_service (gq_path req) = Some service"
    "artifact_method_stage req service = Inr ()" "event_store_stage env req user service = Inr ()"
    "fw = \<lparr> fw_service = service, fw_path = rewrite_internal_path service (gq_path req),
           fw_user = (if str_truthy user then user else None),
           fw_params = (if service = ''artifact'' then artifact_query_params (gq_path req) else []) \<rparr>"
  using assms
  by (auto simp: gateway_authorize_def rbind_Inr_iff Let_def split: if_splits option.splits)

lemma extract_auth_claims:
  "extract_auth_context env req = Inr (Some c) \<Longrightarrow> \<exists>token. ge_verify env token = Inr c"
  by (auto simp: extract_auth_context_def Let_def split: if_splits sum.splits)

section \<open>Properties\<close>

text \<open>A request on a workspace route with a permission in the permission map reaches a backend
  only for a user whose token was verified and who has that permission in the workspace of the
  URL at that moment, membership and policy both answering; every failure of a lookup refuses.
  The backend is told that user.\<close>

theorem gateway_workspace_guard:
  assumes "match_permission (gq_method req) (gq_path req) = Some (perm, ws)" "ws \<noteq> []"
    and "go_forwarded (gateway_proxy env req) = Some fw"
  shows "\<exists>user token claims. ge_verify env token = Inr claims \<and> map_of claims ''sub'' = Some user
    \<and> has_permission env user (JStr ws) perm \<and> fw_user fw = Some user"
proof -
  obtain ctx user service where a: "extract_auth_context env req = Inr ctx"
    "user = (case ctx of None \<Rightarrow> None | Some c \<Rightarrow> map_of c ''sub'')"
    "permission_stage env req user = Inr ()" "fw_user fw = (if str_truthy user then user else None)"
    using assms(3) unfolding gateway_forward_iff by (elim gateway_authorizeE) auto
  obtain u where u: "user = Some u" "u \<noteq> []" "has_permission env u (JStr ws) perm"
    using permission_stage_guard [OF a(3) assms(1,2)] by blast
  then obtain c where c: "ctx = Some c" "map_of c ''sub'' = Some u"
    using a(2) by (auto split: option.splits)
  then obtain token where "ge_verify env token = Inr c" using a(1) extract_auth_claims by blast
  then show ?thesis using c u a(4) by (auto simp: str_truthy_def)
qed

text \<open>A task or a run is shown only to those who may see it: whenever the gateway answers a GET
  of an orchestrator resource that has a permission with a success, the response names its
  workspace and the user has the permission there.\<close>

theorem gateway_read_guard:
  assumes "gq_method req = ''GET''" "route_to_service (gq_path req) = Some ''orchestrator''"
    and "resolve_orchestrator_permission ''GET'' (gq_path req) = Some perm"
    and "gq_path req \<notin> set public_routes" "\<And>t. ge_verify env t \<noteq> Inr []"
    and "\<not> is_sse_endpoint (rewrite_internal_path ''orchestrator'' (gq_path req))"
    and "go_result (gateway_proxy env req) = Inr resp" "gr_status resp = 200"
    and "gr_body resp = Body_Json j"
  shows "\<exists>user fw d. go_forwarded (gateway_proxy env req) = Some fw \<and> fw_user fw = Some user
    \<and> gr_body (ge_backend env fw req) = Body_Json (JObj d)
    \<and> has_permission env user (json_get d ''workspace_id'') perm"
proof -
  obtain fw where fw: "gateway_authorize env req = Inr fw"
    "post_stage env req fw (ge_backend env fw req) = Inr resp"
    using assms(7) gateway_result by blast
  obtain ctx user where a: "extract_auth_context env req = Inr ctx"
    "user = (case ctx of None \<Rightarrow> None | Some c \<Rightarrow> map_of c ''sub'')"
    "ctx = None \<or> ctx = Some [] \<or> str_truthy user"
    "fw_user fw = (if str_truthy user then user else None)" "fw_service fw = ''orchestrator''"
    "fw_path fw = rewrite_internal_path ''orchestrator'' (gq_path req)"
    using fw(1) assms(2) by (elim gateway_authorizeE) auto
  have "ctx \<noteq> None" "ctx \<noteq> Some []"
    using a(1) assms(4,5) extract_auth_claims
    by (auto simp: extract_auth_context_def Let_def split: if_splits sum.splits)
  then obtain u where u: "fw_user fw = Some u" using a(2,3,4) by (auto simp: str_truthy_def split: option.splits)
  have st: "gr_status (ge_backend env fw req) = 200"
    using fw(2) assms(8) unfolding post_stage_def
    by (auto simp: post_fetch_authz_def post_fetch_authz_timeline_def Let_def rbind_Inr_iff
        split: if_splits option.splits gw_body.splits json.splits)
  then have "post_fetch_authz env u (gq_path req) perm (ge_backend env fw req) = Inr resp"
    using fw(2) a(5,6) assms(1,3,6) u by (simp add: post_stage_def)
  then obtain d where "gr_body (ge_backend env fw req) = Body_Json (JObj d)"
    "has_permission env u (json_get d ''workspace_id'') perm"
    using assms(9)
    by (auto simp: post_fetch_authz_def Let_def rbind_Inr_iff check_iff
        split: gw_body.splits json.splits if_splits)
  then show ?thesis using fw(1) u by (auto simp: gateway_forward_iff)
qed

text \<open>Task commands are not guarded: cancelling, retrying or launching any task is forwarded for
  every verified user, whatever memberships and policies say, although the gateway itself names
  a permission for each of these routes.\<close>

theorem gateway_task_commands_unchecked:
  assumes "action \<in> {''cancel'', ''retry'', ''launch''}" "slash \<notin> set i"
    and "gq_method req = ''POST''" "gq_path req = ''/v1/tasks/'' @ i @ ''/'' @ action"
    and "gq_authorization req = ''Bearer '' @ token" "token \<noteq> []"
    and "ge_verify env token = Inr claims" "map_of claims ''sub'' = Some user" "user \<noteq> []"
  shows "\<exists>perm fw. resolve_orchestrator_permission ''POST'' (gq_path req) = Some perm
    \<and> fw = \<lparr> fw_service = ''orchestrator'', fw_path = ''/internal'' @ gq_path req, fw_user = Some user,
            fw_params = [] \<rparr>
    \<and> gateway_proxy env req = \<lparr> go_forwarded = Some fw, go_result = Inr (ge_backend env fw req) \<rparr>"
proof -
  have act: "slash \<notin> set action" "action \<noteq> []" using assms(1) by (auto simp: slash_def)
  have parts: "path_parts (gq_path req) = ['''', ''v1'', ''tasks'', i, action]"
    using task_action_parts [OF assms(2) act] assms(4) by simp
  have sw: "starts_with ''/v1/tasks'' (gq_path req)"
    "\<not> starts_with ''/v1/auth/'' (gq_path req)" "\<not> starts_with ''/v1/task-templates'' (gq_path req)"
    "\<not> starts_with ''/v1/agent-templates'' (gq_path req)" "\<not> starts_with ''/v1/terminal/'' (gq_path req)"
    "\<not> starts_with ''/v1/tool-executions/'' (gq_path req)" "\<not> starts_with ''/v1/sandboxes/'' (gq_path req)"
    by (simp_all add: assms(4) starts_with_def)
  have rt: "route_to_service (gq_path req) = Some ''orchestrator''"
    using assms(1) by (auto simp: route_to_service_def Let_def parts sw)
  have rw: "rewrite_internal_path ''orchestrator'' (gq_path req) = ''/internal'' @ gq_path req"
    by (simp add: rewrite_internal_path_def sw)
  have "gq_path req \<notin> set public_routes" by (auto simp: public_routes_def assms(4))
  then have ext: "extract_auth_context env req = Inr (Some claims)"
    using assms(5-7) by (simp add: extract_auth_context_def starts_with_def str_truthy_def)
  have "gateway_authorize env req = Inr \<lparr> fw_service = ''orchestrator'',
      fw_path = ''/internal'' @ gq_path req, fw_user = Some user, fw_params = [] \<rparr>"
    using assms(8,9)
    by (simp add: gateway_authorize_def ext Let_def str_truthy_def permission_stage_task [OF parts]
        terminal_stage_def execution_detail_stage_def require_then_def sw rt artifact_method_stage_def
        event_store_stage_def rw)
  moreover have "resolve_orchestrator_permission ''POST'' (gq_path req) \<noteq> None"
    using assms(1) by (auto simp: resolve_orchestrator_permission_def Let_def parts)
  ultimately show ?thesis using assms(3)
    by (auto simp: gateway_proxy_def post_stage_def is_sse_endpoint_def)
qed

definition demo_claims :: claims where
  "demo_claims = [(''sub'', ''u1'')]"

definition demo_gateway :: "bool \<Rightarrow> gw_env" where
  "demo_gateway open_access = \<lparr>
     ge_verify = (\<lambda>t. if t = ''good'' then Inr demo_claims else Inl ()),
     ge_member = (\<lambda>ws u. if open_access then Inr (Some [(''role'', JStr ''viewer'')]) else Inr None),
     ge_policy = (\<lambda>u ws p r. Inr [(''allowed'', JBool open_access)]),
     ge_backend = (\<lambda>fw req. \<lparr> gr_status = 200,
        gr_body = Body_Json (JObj [(''workspace_id'', JStr ''w7''), (''task_status'', JStr ''failed'')]) \<rparr>) \<rparr>"

definition demo_request :: "string \<Rightarrow> string \<Rightarrow> gw_request" where
  "demo_request meth path = \<lparr> gq_method = meth, gq_path = path, gq_authorization = ''Bearer good'',
     gq_query = [], gq_body = Body_Empty \<rparr>"

lemmas gateway_evals = gateway_proxy_def gateway_authorize_def extract_auth_context_def
  demo_gateway_def demo_request_def demo_claims_def public_routes_def starts_with_def str_truthy_def
  permission_stage_def rstrip_char_def slash_def match_permission_def path_parts_def auth_only_routes_def
  permission_pattern_def wsp_def permission_map_def require_user_def check_permission_or_fail_def
  json_get_def json_truthy_def terminal_stage_def require_then_def execution_detail_stage_def
  route_to_service_def artifact_method_stage_def event_store_stage_def rewrite_internal_path_def
  rewrite_artifact_path_def artifact_query_params_def post_stage_def is_sse_endpoint_def ends_with_def
  resolve_orchestrator_permission_def post_fetch_authz_def Let_def

theorem gateway_workspace_guard_witness:
  "\<exists>fw. go_forwarded (gateway_proxy (demo_gateway True) (demo_request ''GET'' ''/v1/workspaces/w7/members'')) = Some fw
     \<and> (\<exists>user. has_permission (demo_gateway True) user (JStr ''w7'') ''workspace:view'' \<and> fw_user fw = Some user)"
proof -
  let ?req = "demo_request ''GET'' ''/v1/workspaces/w7/members''"
  have "match_permission (gq_method ?req) (gq_path ?req) = Some (''workspace:view'', ''w7'')"
    by (simp add: gateway_evals)
  moreover have "\<exists>fw. go_forwarded (gateway_proxy (demo_gateway True) ?req) = Some fw"
    by (simp add: gateway_evals)
  ultimately show ?thesis
    using gateway_workspace_guard [of ?req "''workspace:view''" "''w7''" "demo_gateway True"] by blast
qed

theorem gateway_read_guard_witness:
  "has_permission (demo_gateway True) ''u1'' (JStr ''w7'') ''run:view''"
proof -
  let ?req = "demo_request ''GET'' ''/v1/runs/r5/steps''"
  have r: "go_result (gateway_proxy (demo_gateway True) ?req) = Inr \<lparr> gr_status = 200,
        gr_body = Body_Json (JObj [(''workspace_id'', JStr ''w7''), (''task_status'', JStr ''failed'')]) \<rparr>"
    and f: "map_option fw_user (go_forwarded (gateway_proxy (demo_gateway True) ?req)) = Some (Some ''u1'')"
    by (simp_all add: gateway_evals)
  have "\<exists>user fw d. go_forwarded (gateway_proxy (demo_gateway True) ?req) = Some fw \<and> fw_user fw = Some user
    \<and> gr_body (ge_backend (demo_gateway True) fw ?req) = Body_Json (JObj d)
    \<and> has_permission (demo_gateway True) user (json_get d ''workspace_id'') ''run:view''"
    by (rule gateway_read_guard [OF _ _ _ _ _ _ r]) (simp_all add: gateway_evals suffix_to_prefix)
  then show ?thesis using f by (auto simp: demo_gateway_def json_get_def)
qed

theorem gateway_task_commands_unchecked_witness:
  "go_forwarded (gateway_proxy (demo_gateway False) (demo_request ''POST'' ''/v1/tasks/t5/cancel'')) \<noteq> None
   \<and> \<not> has_permission (demo_gateway False) ''u1'' (JStr ''w7'') ''task:cancel''"
  using gateway_task_commands_unchecked [of "''cancel''" "''t5''" "demo_request ''POST'' ''/v1/tasks/t5/cancel''"
      "''good''" "demo_gateway False" demo_claims "''u1''"]
  by (auto simp: demo_request_def demo_gateway_def demo_claims_def slash_def has_permission_def)

text \<open>Workspace routes outside the permission map fail open: listing the tags of an artifact is
  forwarded to the artifact service for every verified user, member or not.\<close>

theorem gateway_artifact_tags_unchecked:
  assumes "slash \<notin> set ws" "slash \<notin> set aid"
    and "gq_method req = ''GET''" "gq_path req = ''/v1/workspaces/'' @ ws @ ''/artifacts/'' @ aid @ ''/tags''"
    and "gq_authorization req = ''Bearer '' @ token" "token \<noteq> []"
    and "ge_verify env token = Inr claims" "map_of claims ''sub'' = Some user" "user \<noteq> []"
  shows "go_forwarded (gateway_proxy env req) = Some \<lparr> fw_service = ''artifact'',
      fw_path = ''/internal/v1/artifacts/'' @ aid @ ''/tags'', fw_user = Some user,
      fw_params = [(''workspace_id'', ws)] \<rparr>"
proof -
  have r: "rstrip_char slash (gq_path req) = gq_path req"
    by (rule rstrip_char_id) (simp_all add: assms(4) slash_def)
  have parts: "path_parts (gq_path req) = ['''', ''v1'', ''workspaces'', ws, ''artifacts'', aid, ''tags'']"
    using split_on_sep [OF assms(1), of "''artifacts/'' @ aid @ ''/tags''"]
      split_on_sep [OF assms(2), of "''tags''"]
    unfolding path_parts_def r by (simp add: assms(4) slash_def)
  have sw: "starts_with ''/v1/workspaces'' (gq_path req)"
    "\<not> starts_with ''/v1/auth/'' (gq_path req)" "\<not> starts_with ''/v1/task-templates'' (gq_path req)"
    "\<not> starts_with ''/v1/agent-templates'' (gq_path req)" "\<not> starts_with ''/v1/terminal/'' (gq_path req)"
    "\<not> starts_with ''/v1/tool-executions/'' (gq_path req)" "\<not> starts_with ''/v1/sandboxes/'' (gq_path req)"
    "\<not> starts_with ''/v1/tasks'' (gq_path req)" "\<not> starts_with ''/v1/runs'' (gq_path req)"
    "\<not> starts_with ''/v1/telemetry/'' (gq_path req)"
    by (simp_all add: assms(4) starts_with_def)
  have "gq_path req \<notin> set public_routes" by (auto simp: public_routes_def assms(4))
  then have ext: "extract_auth_context env req = Inr (Some claims)"
    using assms(5-7) by (simp add: extract_auth_context_def starts_with_def str_truthy_def)
  have "match_permission ''GET'' (gq_path req) = None"
    by (simp add: match_permission_def Let_def parts permission_pattern_def id_placeholder_def
        permission_map_def wsp_def)
  moreover have "rstrip_char slash (gq_path req) \<noteq> ''/v1/tasks''"
    "rstrip_char slash (gq_path req) \<noteq> ''/v1/tasks/draft''"
    unfolding r by (simp_all add: assms(4))
  ultimately have ps: "permission_stage env req (Some user) = Inr ()"
    by (simp add: permission_stage_def Let_def assms(3))
  have rt: "route_to_service (gq_path req) = Some ''artifact''"
    by (simp add: route_to_service_def Let_def parts sw)
  have rw: "rewrite_internal_path ''artifact'' (gq_path req) = ''/internal/v1/artifacts/'' @ aid @ ''/tags''"
    by (simp add: rewrite_internal_path_def rewrite_artifact_path_def Let_def parts)
  show ?thesis
    using assms(8,9)
    by (simp add: gateway_forward_iff gateway_authorize_def ext Let_def str_truthy_def ps
        terminal_stage_def execution_detail_stage_def require_then_def sw rt artifact_method_stage_def
        assms(3) event_store_stage_def rw artifact_query_params_def parts)
qed

theorem gateway_artifact_tags_unchecked_witness:
  "go_forwarded (gateway_proxy (demo_gateway False)
     (demo_request ''GET'' ''/v1/workspaces/w7/artifacts/a3/tags'')) \<noteq> None"
  using gateway_artifact_tags_unchecked [of "''w7''" "''a3''"
      "demo_request ''GET'' ''/v1/workspaces/w7/artifacts/a3/tags''" "''good''" "demo_gateway False"
      demo_claims "''u1''"]
  by (simp add: demo_request_def demo_gateway_def demo_claims_def slash_def)

end
