(* ===== verification/Rate_Limit.thy ===== *)
theory Rate_Limit
  imports Prelude
begin

text \<open>
  The gateway's rate limiter: \<open>apps/api-gateway/src/api/rate_limit.py\<close> and
  \<open>rate_limit_middleware.py\<close>.  The clock is monotonic and counts microseconds.  The windows are
  a map from keys to the admitted instants, oldest first; the locks make each counter call
  atomic, so a history is a sequence of calls.  Headers are pairs of strings.
\<close>

section \<open>Configuration\<close>

record rate_tier =
  rl_max_requests :: int
  rl_window_seconds :: int

record rate_config =
  rl_auth_login :: rate_tier
  rl_auth_register :: rate_tier
  rl_write :: rate_tier
  rl_read :: rate_tier
  rl_global_per_ip :: rate_tier

definition parse_tier :: "string \<Rightarrow> rate_tier option" where
  "parse_tier v =
    (case split_on (CHR ''/'') v of
       [a, b] \<Rightarrow> (case (parse_nat a, parse_nat b) of
                     (Some m, Some w) \<Rightarrow> Some \<lparr> rl_max_requests = m, rl_window_seconds = w \<rparr>
                   | _ \<Rightarrow> None)
     | _ \<Rightarrow> None)"

definition load_rate_limit_config :: "(string \<times> string) list \<Rightarrow> rate_config option" where
  "load_rate_limit_config env =
    (let tier = (\<lambda>k d. parse_tier (opt_or (map_of env k) d)) in
     case (tier ''RATE_LIMIT_AUTH_LOGIN'' ''10/60'', tier ''RATE_LIMIT_AUTH_REGISTER'' ''5/60'',
           tier ''RATE_LIMIT_WRITE'' ''60/60'', tier ''RATE_LIMIT_READ'' ''300/60'',
           tier ''RATE_LIMIT_GLOBAL_IP'' ''600/60'') of
       (Some l, Some r, Some w, Some g, Some p) \<Rightarrow>
         Some \<lparr> rl_auth_login = l, rl_auth_register = r, rl_write = w, rl_read = g,
                rl_global_per_ip = p \<rparr>
     | _ \<Rightarrow> None)"

section \<open>The sliding window counter\<close>

record counter =
  cn_windows :: "string \<Rightarrow> time list option"
  cn_call_count :: nat
  cn_last_prune :: time

definition seconds :: "int \<Rightarrow> int" where
  "seconds s = s * 1000000"

definition prune_every_n :: nat where "prune_every_n = 1000"
definition prune_interval :: int where "prune_interval = seconds 60"
definition prune_max_age :: int where "prune_max_age = seconds 120"

definition prune_stale :: "time \<Rightarrow> counter \<Rightarrow> counter" where
  "prune_stale now cn =
     cn\<lparr>cn_windows := (\<lambda>k. case cn_windows cn k of
          None \<Rightarrow> None
        | Some ts \<Rightarrow> if ts = [] \<or> last ts < now - prune_max_age then None else Some ts)\<rparr>"

definition maybe_prune :: "time \<Rightarrow> counter \<Rightarrow> counter" where
  "maybe_prune now cn =
    (let cn1 = cn\<lparr>cn_call_count := cn_call_count cn + 1\<rparr> in
     if cn_call_count cn1 < prune_every_n then cn1
     else if now - cn_last_prune cn1 < prune_interval then cn1
     else prune_stale now (cn1\<lparr>cn_call_count := 0, cn_last_prune := now\<rparr>))"

definition compute_reset :: "time list \<Rightarrow> rate_tier \<Rightarrow> time \<Rightarrow> int" where
  "compute_reset ts tier now =
    (case ts of
       [] \<Rightarrow> rl_window_seconds tier
     | oldest # _ \<Rightarrow> max 1 ((oldest + seconds (rl_window_seconds tier) - now) div 1000000 + 1))"

definition live :: "int \<Rightarrow> time \<Rightarrow> time list \<Rightarrow> time list" where
  "live W now ts = filter (\<lambda>t. t > now - W) ts"

text \<open>Allowed, remaining, seconds until the reset.\<close>

definition is_allowed :: "string \<Rightarrow> rate_tier \<Rightarrow> time \<Rightarrow> counter \<Rightarrow> (bool \<times> int \<times> int) \<times> counter" where
  "is_allowed key tier now cn0 =
    (let cn = maybe_prune now cn0;
         ts = live (seconds (rl_window_seconds tier)) now (opt_or (cn_windows cn key) []);
         remaining = max 0 (rl_max_requests tier - int (length ts));
         reset = compute_reset ts tier now
     in if int (length ts) \<ge> rl_max_requests tier
        then ((False, 0, reset), cn\<lparr>cn_windows := (cn_windows cn)(key \<mapsto> ts)\<rparr>)
        else ((True, remaining - 1, reset), cn\<lparr>cn_windows := (cn_windows cn)(key \<mapsto> ts @ [now])\<rparr>))"

section \<open>The middleware\<close>

record mw_request =
  mq_type :: string
  mq_path :: string
  mq_method :: string
  mq_headers :: "(string \<times> string) list"
  mq_client :: "string option"

datatype mw_action =
    Passed "(int \<times> int \<times> int) option"
  | Rejected_429 int int

definition client_ip :: "mw_request \<Rightarrow> string" where
  "client_ip req = opt_or (mq_client req) ''127.0.0.1''"

definition is_exempt :: "string \<Rightarrow> bool" where
  "is_exempt path = (starts_with ''/healthz/'' path \<or> starts_with ''/metrics'' path
     \<or> starts_with ''/internal/'' path)"

definition is_internal_call :: "string \<Rightarrow> mw_request \<Rightarrow> bool" where
  "is_internal_call secret req =
    (secret \<noteq> [] \<and>
      (let marker = opt_or (map_of (rev (mq_headers req)) ''x-internal-service'') []
       in marker \<noteq> [] \<and> marker = secret))"

definition is_auth_path :: "string \<Rightarrow> bool" where
  "is_auth_path path = (rstrip_char (CHR ''/'') path \<in> {''/v1/auth/login'', ''/v1/auth/register''})"

definition tier_key :: "string \<Rightarrow> string option \<Rightarrow> string \<Rightarrow> string" where
  "tier_key kind user ip =
     kind @ '':'' @ (if str_truthy user then ''user'' else ''ip'') @ '':'' @
     (if str_truthy user then the user else ip)"

definition check_tier ::
  "rate_config \<Rightarrow> string \<Rightarrow> string option \<Rightarrow> string \<Rightarrow> time \<Rightarrow> counter
   \<Rightarrow> (bool \<times> int \<times> int \<times> int) option \<times> counter" where
  "check_tier cfg meth user ip now cn =
    (let run = (\<lambda>tier kind. let ((ok, remaining, reset), cn') = is_allowed (tier_key kind user ip) tier now cn
                            in (Some (ok, remaining, reset, rl_max_requests tier), cn'))
     in if meth \<in> {''POST'', ''PUT'', ''PATCH'', ''DELETE''} then run (rl_write cfg) ''write''
        else if meth = ''GET'' then run (rl_read cfg) ''read''
        else (None, cn))"

definition global_key :: "string \<Rightarrow> string" where
  "global_key ip = ''global:ip:'' @ ip"

definition unlimited :: "string \<Rightarrow> mw_request \<Rightarrow> bool" where
  "unlimited secret req = (mq_type req \<noteq> ''http'' \<or> is_exempt (mq_path req)
     \<or> is_internal_call secret req \<or> is_auth_path (mq_path req))"

definition global_check ::
  "rate_config \<Rightarrow> (int \<times> int \<times> int) option \<Rightarrow> string \<Rightarrow> time \<Rightarrow> counter \<Rightarrow> mw_action \<times> counter" where
  "global_check cfg headers ip now cn =
    (let ((ok, _, reset), cn') = is_allowed (global_key ip) (rl_global_per_ip cfg) now cn
     in (if ok then Passed headers else Rejected_429 reset (rl_max_requests (rl_global_per_ip cfg)), cn'))"

definition rate_limit_call ::
  "rate_config \<Rightarrow> string \<Rightarrow> mw_request \<Rightarrow> time \<Rightarrow> counter \<Rightarrow> mw_action \<times> counter" where
  "rate_limit_call cfg secret req now cn =
    (if unlimited secret req then (Passed None, cn)
     else
       let user = map_of (mq_headers req) ''x-user-id''; ip = client_ip req in
       case check_tier cfg (mq_method req) user ip now cn of
         (None, cn1) \<Rightarrow> global_check cfg None ip now cn1
       | (Some (ok, remaining, reset, limit), cn1) \<Rightarrow>
           if \<not> ok then (Rejected_429 reset limit, cn1)
           else global_check cfg (Some (limit, remaining, reset)) ip now cn1)"

section \<open>The invariant of a key\<close>

text \<open>\<open>H\<close> lists the instants at which the key was admitted so far, all up to \<open>last\<close>.\<close>

definition in_window :: "int \<Rightarrow> time \<Rightarrow> time list \<Rightarrow> time list" where
  "in_window W t H = filter (\<lambda>a. t - W < a \<and> a \<le> t) H"

definition counter_inv :: "string \<Rightarrow> int \<Rightarrow> int \<Rightarrow> time list \<Rightarrow> time \<Rightarrow> counter \<Rightarrow> bool" where
  "counter_inv key W m H latest cn =
    ((\<forall>t \<in> set H. t \<le> latest)
     \<and> sorted (opt_or (cn_windows cn key) [])
     \<and> (\<forall>t \<in> set (opt_or (cn_windows cn key) []). t \<le> latest)
     \<and> (\<forall>n \<ge> latest. live W n (opt_or (cn_windows cn key) []) = live W n H)
     \<and> (\<forall>t. int (length (in_window W t H)) \<le> m))"

lemma counter_inv_later: "\<lbrakk> counter_inv key W m H latest cn; latest \<le> now \<rbrakk> \<Longrightarrow> counter_inv key W m H now cn"
  unfolding counter_inv_def by (meson order_trans)

lemma live_empty: "\<forall>t \<in> set ts. t \<le> now - W \<Longrightarrow> live W now ts = []"
  by (auto simp: live_def filter_empty_conv)

lemma maybe_prune_windows:
  "cn_windows (maybe_prune now cn) k = cn_windows cn k
   \<or> cn_windows (maybe_prune now cn) k = None
     \<and> (\<exists>ts. cn_windows cn k = Some ts \<and> (ts = [] \<or> last ts < now - prune_max_age))"
  by (simp add: maybe_prune_def prune_stale_def Let_def split: option.split)

lemma maybe_prune_inv:
  assumes "counter_inv key W m H latest cn" "latest \<le> now" "W \<le> prune_max_age"
  shows "counter_inv key W m H now (maybe_prune now cn)"
proof -
  have inv: "counter_inv key W m H now cn" using assms(1,2) by (rule counter_inv_later)
  show ?thesis
  proof (cases "cn_windows (maybe_prune now cn) key = cn_windows cn key")
    case True
    then show ?thesis using inv by (simp add: counter_inv_def)
  next
    case False
    then obtain ts where ts: "cn_windows (maybe_prune now cn) key = None" "cn_windows cn key = Some ts"
      "ts = [] \<or> last ts < now - prune_max_age"
      using maybe_prune_windows [of now cn key] by blast
    have "live W n ts = []" if "now \<le> n" for n
    proof (rule live_empty, rule ballI)
      fix t
      assume t: "t \<in> set ts"
      then have "t \<le> last ts" using inv ts(2)
        by (cases ts rule: rev_cases) (auto simp: counter_inv_def sorted_append)
      then show "t \<le> n - W" using ts(3) t that assms(3) by auto
    qed
    then show ?thesis using inv ts(1,2) by (simp add: counter_inv_def live_def)
  qed
qed

lemma live_live: "\<lbrakk> now \<le> n \<rbrakk> \<Longrightarrow> live W n (live W now ts) = live W n ts"
  by (auto simp: live_def intro: filter_cong)

text \<open>A call on another key.\<close>

lemma is_allowed_other:
  assumes "counter_inv key W m H latest cn" "latest \<le> now" "W \<le> prune_max_age" "k \<noteq> key"
  shows "counter_inv key W m H now (snd (is_allowed k tier now cn))"
  using maybe_prune_inv [OF assms(1-3)] assms(4)
  by (simp add: is_allowed_def Let_def counter_inv_def)

text \<open>A call on the key itself.\<close>

lemma is_allowed_same:
  assumes inv: "counter_inv key (seconds (rl_window_seconds tier)) (rl_max_requests tier) H latest cn"
    and "latest \<le> now" "seconds (rl_window_seconds tier) \<le> prune_max_age" "0 \<le> rl_window_seconds tier"
    and r: "is_allowed key tier now cn = ((ok, remaining, reset), cn')"
  shows "counter_inv key (seconds (rl_window_seconds tier)) (rl_max_requests tier)
    (if ok then H @ [now] else H) now cn'"
proof -
  let ?W = "seconds (rl_window_seconds tier)"
  let ?cn = "maybe_prune now cn"
  let ?ts = "live ?W now (opt_or (cn_windows ?cn key) [])"
  have p: "counter_inv key ?W (rl_max_requests tier) H now ?cn"
    using inv assms(2,3) by (rule maybe_prune_inv)
  have "sorted (opt_or (cn_windows ?cn key) [])" using p by (simp add: counter_inv_def)
  then have srt: "sorted ?ts"
    using sorted_filter [of "\<lambda>x. x" "opt_or (cn_windows ?cn key) []"] by (simp add: live_def)
  have ts: "?ts = live ?W now H" "\<forall>t \<in> set ?ts. t \<le> now"
    and H: "\<forall>t \<in> set H. t \<le> now" "\<forall>t. int (length (in_window ?W t H)) \<le> rl_max_requests tier"
    using p by (auto simp: counter_inv_def live_def)
  have lv: "live ?W n ?ts = live ?W n H" if "now \<le> n" for n
    using that by (simp add: ts(1) live_live)
  show ?thesis
  proof (cases "int (length ?ts) \<ge> rl_max_requests tier")
    case True
    then have "\<not> ok" "cn' = ?cn\<lparr>cn_windows := (cn_windows ?cn)(key \<mapsto> ?ts)\<rparr>"
      using r by (simp_all add: is_allowed_def Let_def)
    then show ?thesis using ts srt H lv by (simp add: counter_inv_def)
  next
    case False
    then have ok: ok "cn' = ?cn\<lparr>cn_windows := (cn_windows ?cn)(key \<mapsto> ?ts @ [now])\<rparr>"
      using r by (simp_all add: is_allowed_def Let_def)
    have "int (length (in_window ?W t (H @ [now]))) \<le> rl_max_requests tier" for t
    proof (cases "now \<le> t")
      case True
      have "in_window ?W t H = live ?W t H"
        unfolding in_window_def live_def by (rule filter_cong) (use H(1) True in force)+
      moreover have "length (live ?W t H) \<le> length (live ?W now H)"
        using live_live [OF True, of ?W H] by (metis length_filter_le live_def)
      ultimately show ?thesis using False ts(1) by (simp add: in_window_def)
    next
      case False
      then show ?thesis using H(2) by (simp add: in_window_def)
    qed
    then show ?thesis using ok ts(2) srt H(1) lv
      by (simp add: counter_inv_def sorted_append live_def)
  qed
qed

section \<open>The middleware keeps the limit of an address\<close>

lemma tier_key_global: "kind \<in> {''write'', ''read''} \<Longrightarrow> tier_key kind user ip' \<noteq> global_key ip"
  by (auto simp: tier_key_def global_key_def)

lemma global_key_inj [simp]: "global_key a = global_key b \<longleftrightarrow> a = b"
  by (simp add: global_key_def)

lemma check_tier_inv:
  assumes "counter_inv (global_key ip) W m H latest cn" "latest \<le> now" "W \<le> prune_max_age"
  shows "counter_inv (global_key ip) W m H now (snd (check_tier cfg meth user ip' now cn))"
proof -
  have "counter_inv (global_key ip) W m H now (snd (is_allowed (tier_key kind user ip') tier now cn))"
    if "kind \<in> {''write'', ''read''}" for kind tier
    using is_allowed_other [OF assms tier_key_global [OF that]] .
  then show ?thesis
    using counter_inv_later [OF assms(1,2)] by (simp add: check_tier_def case_prod_beta Let_def)
qed

definition passed :: "mw_action \<Rightarrow> bool" where
  "passed a = (case a of Passed _ \<Rightarrow> True | Rejected_429 _ _ \<Rightarrow> False)"

lemma passed_simps [simp]: "passed (Passed h)" "\<not> passed (Rejected_429 r l)"
  by (simp_all add: passed_def)

definition global_window :: "rate_config \<Rightarrow> int" where
  "global_window cfg = seconds (rl_window_seconds (rl_global_per_ip cfg))"

definition global_max :: "rate_config \<Rightarrow> int" where
  "global_max cfg = rl_max_requests (rl_global_per_ip cfg)"

definition config_ok :: "rate_config \<Rightarrow> bool" where
  "config_ok cfg = (0 \<le> global_max cfg \<and> 0 \<le> global_window cfg \<and> global_window cfg \<le> prune_max_age)"

lemma global_check_inv:
  assumes "counter_inv (global_key ip) (global_window cfg) (global_max cfg) H latest cn"
    "latest \<le> now" "config_ok cfg" and r: "global_check cfg hs ip' now cn = (a, cn')"
  shows "counter_inv (global_key ip) (global_window cfg) (global_max cfg)
    (if ip' = ip \<and> passed a then H @ [now] else H) now cn'"
proof -
  obtain ok remaining reset cn1 where i:
    "is_allowed (global_key ip') (rl_global_per_ip cfg) now cn = ((ok, remaining, reset), cn1)"
    by (metis prod.collapse)
  then have a: "cn' = cn1" "passed a = ok" using r by (auto simp: global_check_def split: if_splits)
  have w: "0 \<le> rl_window_seconds (rl_global_per_ip cfg)" "global_window cfg \<le> prune_max_age"
    using assms(3) by (auto simp: config_ok_def global_window_def seconds_def)
  show ?thesis
  proof (cases "ip' = ip")
    case True
    then show ?thesis
      using is_allowed_same [of "global_key ip" "rl_global_per_ip cfg" H latest cn now ok remaining reset cn1]
        assms(1,2) w i a by (simp add: global_window_def global_max_def)
  next
    case False
    then show ?thesis
      using is_allowed_other [OF assms(1,2) w(2), of "global_key ip'" "rl_global_per_ip cfg"] i a by simp
  qed
qed

lemma rate_limit_call_inv:
  assumes "counter_inv (global_key ip) (global_window cfg) (global_max cfg) H latest cn"
    "latest \<le> now" "config_ok cfg" and r: "rate_limit_call cfg secret req now cn = (a, cn')"
  shows "counter_inv (global_key ip) (global_window cfg) (global_max cfg)
    (if \<not> unlimited secret req \<and> client_ip req = ip \<and> passed a then H @ [now] else H) now cn'"
proof (cases "unlimited secret req")
  case True
  then show ?thesis using r counter_inv_later [OF assms(1,2)] by (simp add: rate_limit_call_def)
next
  case False
  obtain res cn1 where c: "check_tier cfg (mq_method req) (map_of (mq_headers req) ''x-user-id'')
      (client_ip req) now cn = (res, cn1)" by (metis prod.collapse)
  have w: "global_window cfg \<le> prune_max_age" using assms(3) by (simp add: config_ok_def)
  have inv: "counter_inv (global_key ip) (global_window cfg) (global_max cfg) H now cn1"
    using check_tier_inv [OF assms(1,2) w, of cfg "mq_method req"
        "map_of (mq_headers req) ''x-user-id''" "client_ip req"] c by simp
  note g = global_check_inv [OF inv order_refl assms(3)]
  show ?thesis
  proof (cases res)
    case None
    then show ?thesis using False r c g by (simp add: rate_limit_call_def)
  next
    case (Some q)
    obtain ok remaining reset limit where q: "q = (ok, remaining, reset, limit)" by (cases q)
    show ?thesis
    proof (cases ok)
      case True
      then show ?thesis using False r c g Some q by (simp add: rate_limit_call_def)
    next
      case False
      then show ?thesis
        using \<open>\<not> unlimited secret req\<close> r c inv Some q by (auto simp: rate_limit_call_def)
    qed
  qed
qed

text \<open>The instants at which requests of one address that are subject to limits pass, over a
  sequence of requests.\<close>

fun passed_instants ::
  "rate_config \<Rightarrow> string \<Rightarrow> string \<Rightarrow> (mw_request \<times> time) list \<Rightarrow> counter \<Rightarrow> time list" where
  "passed_instants cfg secret ip [] cn = []"
| "passed_instants cfg secret ip ((req, now) # rs) cn =
     (case rate_limit_call cfg secret req now cn of
        (a, cn') \<Rightarrow>
          (if \<not> unlimited secret req \<and> client_ip req = ip \<and> passed a then [now] else [])
          @ passed_instants cfg secret ip rs cn')"

lemma passed_instants_bound:
  assumes "config_ok cfg"
  shows "\<lbrakk> counter_inv (global_key ip) (global_window cfg) (global_max cfg) H latest cn;
           sorted (map snd rs); \<forall>p \<in> set rs. latest \<le> snd p \<rbrakk> \<Longrightarrow>
         int (length (in_window (global_window cfg) t (H @ passed_instants cfg secret ip rs cn)))
           \<le> global_max cfg"
proof (induction rs arbitrary: H latest cn)
  case Nil
  then show ?case by (simp add: counter_inv_def)
next
  case (Cons p rs)
  obtain req now where p: "p = (req, now)" by (cases p)
  obtain a cn' where c: "rate_limit_call cfg secret req now cn = (a, cn')" by (metis prod.collapse)
  have "latest \<le> now" using Cons.prems(3) p by simp
  from rate_limit_call_inv [OF Cons.prems(1) this assms c]
  have "int (length (in_window (global_window cfg) t
      ((if \<not> unlimited secret req \<and> client_ip req = ip \<and> passed a then H @ [now] else H)
        @ passed_instants cfg secret ip rs cn'))) \<le> global_max cfg"
    using Cons.prems(2) p by (intro Cons.IH) auto
  then show ?case using c p by (auto split: if_splits)
qed

definition new_counter :: "time \<Rightarrow> counter" where
  "new_counter now = \<lparr> cn_windows = (\<lambda>_. None), cn_call_count = 0, cn_last_prune = now \<rparr>"

lemma new_counter_inv: "0 \<le> m \<Longrightarrow> counter_inv key W m [] now (new_counter start)"
  by (simp add: counter_inv_def new_counter_def live_def in_window_def)

section \<open>Properties\<close>

text \<open>C30. The limit of an address holds in every window: whatever requests arrive, with whatever
  user headers, methods and paths, and however keys are pruned in between, no window of the
  configured length contains more passed requests of one address than the global limit, provided
  the window is at most the two minutes after which idle keys are dropped.\<close>

theorem rate_limit_holds:
  assumes "0 \<le> rl_max_requests (rl_global_per_ip cfg)"
    and "0 \<le> rl_window_seconds (rl_global_per_ip cfg)" "rl_window_seconds (rl_global_per_ip cfg) \<le> 120"
    and "sorted (map snd reqs)"
  shows "int (length (filter (\<lambda>a. t - seconds (rl_window_seconds (rl_global_per_ip cfg)) < a \<and> a \<le> t)
      (passed_instants cfg secret ip reqs (new_counter start)))) \<le> rl_max_requests (rl_global_per_ip cfg)"
proof -
  have ok: "config_ok cfg"
    using assms(1-3) by (simp add: config_ok_def global_max_def global_window_def prune_max_age_def seconds_def)
  define latest where "latest = (if reqs = [] then 0 else snd (hd reqs))"
  have "\<forall>p \<in> set reqs. latest \<le> snd p"
    using assms(4) by (cases reqs) (auto simp: latest_def)
  then show ?thesis
    using passed_instants_bound [OF ok new_counter_inv [of "global_max cfg" "global_key ip"
          "global_window cfg" latest start] assms(4), of t secret] assms(1)
    by (simp add: in_window_def global_window_def global_max_def)
qed

definition demo_limits :: rate_config where
  "demo_limits = \<lparr> rl_auth_login = \<lparr> rl_max_requests = 10, rl_window_seconds = 60 \<rparr>,
     rl_auth_register = \<lparr> rl_max_requests = 5, rl_window_seconds = 60 \<rparr>,
     rl_write = \<lparr> rl_max_requests = 60, rl_window_seconds = 60 \<rparr>,
     rl_read = \<lparr> rl_max_requests = 300, rl_window_seconds = 60 \<rparr>,
     rl_global_per_ip = \<lparr> rl_max_requests = 1, rl_window_seconds = 60 \<rparr> \<rparr>"

definition demo_get :: "string \<Rightarrow> mw_request" where
  "demo_get user = \<lparr> mq_type = ''http'', mq_path = ''/v1/tasks'', mq_method = ''GET'',
     mq_headers = [(''x-user-id'', user)], mq_client = Some ''10.0.0.1'' \<rparr>"

theorem rate_limit_holds_witness:
  "length (filter (\<lambda>a. 10 - 60000000 < a \<and> a \<le> 10) (passed_instants demo_limits [] ''10.0.0.1''
     [(demo_get ''a'', 1), (demo_get ''b'', 2), (demo_get ''c'', 3)] (new_counter 0))) \<le> 1"
  using rate_limit_holds [of demo_limits "[(demo_get ''a'', 1), (demo_get ''b'', 2), (demo_get ''c'', 3)]"
      10 "[]" "''10.0.0.1''" 0]
  by (simp add: demo_limits_def seconds_def)

text \<open>Pruning defeats limits with longer windows: when the housekeeping is due and a key has
  been idle for two minutes, its whole window is forgotten, so a client that has used up its
  limit is admitted again although all its requests still lie in the window.\<close>

theorem long_window_forgotten:
  assumes "cn_windows cn key = Some ts" "ts \<noteq> []" "last ts < now - seconds 120"
    and "\<forall>a \<in> set ts. now - seconds (rl_window_seconds tier) < a"
    and "int (length ts) = rl_max_requests tier"
    and "999 \<le> cn_call_count cn" "cn_last_prune cn + seconds 60 \<le> now"
  shows "fst (is_allowed key tier now cn) = (True, rl_max_requests tier - 1, rl_window_seconds tier)
    \<and> \<not> fst (fst (is_allowed key tier now (cn\<lparr>cn_call_count := 0\<rparr>)))"
proof -
  have "cn_windows (maybe_prune now cn) key = None"
    using assms by (simp add: maybe_prune_def prune_stale_def prune_every_n_def prune_interval_def
        prune_max_age_def seconds_def Let_def)
  moreover have "0 < rl_max_requests tier" using assms(2,5) by (cases ts) auto
  ultimately have "fst (is_allowed key tier now cn) = (True, rl_max_requests tier - 1, rl_window_seconds tier)"
    by (simp add: is_allowed_def live_def compute_reset_def Let_def)
  moreover have "cn_windows (maybe_prune now (cn\<lparr>cn_call_count := 0\<rparr>)) key = Some ts"
    using assms(1) by (simp add: maybe_prune_def prune_every_n_def)
  moreover have "live (seconds (rl_window_seconds tier)) now ts = ts"
    using assms(4) by (simp add: live_def filter_id_conv)
  ultimately show ?thesis
    using assms(5) by (simp add: is_allowed_def Let_def)
qed

theorem long_window_forgotten_witness:
  "fst (is_allowed ''k'' \<lparr> rl_max_requests = 1, rl_window_seconds = 3600 \<rparr> (seconds 200)
     \<lparr> cn_windows = [''k'' \<mapsto> [1]], cn_call_count = 999, cn_last_prune = 0 \<rparr>) = (True, 0, 3600)"
  using long_window_forgotten [of "\<lparr> cn_windows = [''k'' \<mapsto> [1]], cn_call_count = 999, cn_last_prune = 0 \<rparr>"
      "''k''" "[1]" "seconds 200" "\<lparr> rl_max_requests = 1, rl_window_seconds = 3600 \<rparr>"]
  by (simp add: seconds_def)

end
