(* ===== verification/Artifact.thy ===== *)
theory Artifact
  imports Interfaces
begin

text \<open>
  The artifact entity of \<open>apps/artifact-service/src/domain/artifact.py\<close> and the provenance
  record of \<open>provenance.py\<close>, with the errors of \<open>errors.py\<close> that they raise.
\<close>

datatype root_type = Generated | Upload | Repo_Snapshot | Imported

fun root_type_value :: "root_type \<Rightarrow> string" where
  "root_type_value Generated = ''generated''"
| "root_type_value Upload = ''upload''"
| "root_type_value Repo_Snapshot = ''repo_snapshot''"
| "root_type_value Imported = ''imported''"

datatype artifact_type =
  A_File | A_Code_Patch | A_Report | A_Dataset | A_Log | A_Structured_Data | A_Model_Output

fun artifact_type_value :: "artifact_type \<Rightarrow> string" where
  "artifact_type_value A_File = ''file''"
| "artifact_type_value A_Code_Patch = ''code_patch''"
| "artifact_type_value A_Report = ''report''"
| "artifact_type_value A_Dataset = ''dataset''"
| "artifact_type_value A_Log = ''log''"
| "artifact_type_value A_Structured_Data = ''structured_data''"
| "artifact_type_value A_Model_Output = ''model_output''"

datatype artifact_status = A_PENDING | A_WRITING | A_READY | A_FAILED

fun artifact_status_value :: "artifact_status \<Rightarrow> string" where
  "artifact_status_value A_PENDING = ''pending''"
| "artifact_status_value A_WRITING = ''writing''"
| "artifact_status_value A_READY = ''ready''"
| "artifact_status_value A_FAILED = ''failed''"

definition root_type_of :: "string \<Rightarrow> root_type option" where
  "root_type_of s = find (\<lambda>t. root_type_value t = s) [Generated, Upload, Repo_Snapshot, Imported]"

definition artifact_type_of :: "string \<Rightarrow> artifact_type option" where
  "artifact_type_of s = find (\<lambda>t. artifact_type_value t = s)
     [A_File, A_Code_Patch, A_Report, A_Dataset, A_Log, A_Structured_Data, A_Model_Output]"

fun artifact_transitions :: "artifact_status \<Rightarrow> artifact_status list" where
  "artifact_transitions A_PENDING = [A_WRITING, A_FAILED]"
| "artifact_transitions A_WRITING = [A_READY, A_FAILED]"
| "artifact_transitions A_READY = []"
| "artifact_transitions A_FAILED = []"

definition artifact_terminal :: "artifact_status \<Rightarrow> bool" where
  "artifact_terminal s = (s = A_READY \<or> s = A_FAILED)"

datatype artifact_error =
    Art_InvalidTransition artifact_status artifact_status
  | Art_TerminalState artifact_status artifact_status
  | Art_Validation string
  | Art_IncompleteProvenance uuid "string list"
  | Art_ModelAlias string string
  | Art_NotFound uuid
  | Art_Cycle uuid uuid
  | Art_SelfLoop uuid
  | Art_ValueError string
  | Art_Integrity string
  | Art_Conflict string

section \<open>Provenance\<close>

record provenance =
  pv_id :: uuid
  pv_artifact_id :: uuid
  pv_input_snapshot :: "json list"
  pv_run_config_hash :: "string option"
  pv_tool_name :: "string option"
  pv_tool_version :: "string option"
  pv_tool_config_hash :: "string option"
  pv_model_provider :: "string option"
  pv_model_name :: "string option"
  pv_model_version :: "string option"
  pv_model_temperature :: "json"
  pv_model_max_tokens :: "int option"
  pv_system_prompt_hash :: "string option"
  pv_lineage_chain :: "string list"
  pv_correlation_id :: "uuid option"

text \<open>The alias patterns: a whole word, or a last word after a hyphen, case ignored; \<open>$\<close> also
  matches before a final newline.\<close>

definition alias_words :: "string list" where
  "alias_words = [''latest'', ''default'', ''stable'', ''preview'', ''nightly'']"

definition drop_newline :: "string \<Rightarrow> string" where
  "drop_newline s = (if s \<noteq> [] \<and> last s = CHR 0x0A then butlast s else s)"

definition is_model_alias :: "string \<Rightarrow> bool" where
  "is_model_alias v =
    (v \<noteq> [] \<and> list_ex (\<lambda>w. py_lower (drop_newline v) = w \<or> ends_with (CHR ''-'' # w) (py_lower (drop_newline v)))
       alias_words)"

definition alias_check :: "string \<Rightarrow> string option \<Rightarrow> artifact_error + unit" where
  "alias_check field v =
    (case v of None \<Rightarrow> Inr ()
     | Some s \<Rightarrow> if s \<noteq> [] \<and> is_model_alias s then Inl (Art_ModelAlias field s) else Inr ())"

text \<open>\<open>__post_init__\<close> on the record of the constructor's arguments.\<close>

definition provenance_init :: "provenance \<Rightarrow> artifact_error + provenance" where
  "provenance_init p =
    rbind (alias_check ''model_name_concrete'' (pv_model_name p)) (\<lambda>_.
    rbind (alias_check ''model_version_concrete'' (pv_model_version p)) (\<lambda>_. Inr p))"

definition opt_blank :: "string option \<Rightarrow> bool" where
  "opt_blank s = (case s of None \<Rightarrow> True | Some t \<Rightarrow> is_blank t)"

definition missing_tool_version :: "provenance \<Rightarrow> string list" where
  "missing_tool_version p =
    (if \<not> opt_blank (pv_tool_name p) \<and> opt_blank (pv_tool_version p)
     then [''tool_version (tool_name is set)''] else [])"

definition missing_components :: "provenance \<Rightarrow> string \<Rightarrow> string list" where
  "missing_components p root =
    (if root = ''upload'' then missing_tool_version p
     else
       (if opt_blank (pv_run_config_hash p) then [''run_config_hash''] else [])
       @ missing_tool_version p
       @ (if opt_blank (pv_model_provider p) then [''model_provider''] else [])
       @ (if opt_blank (pv_model_name p) then [''model_name_concrete''] else [])
       @ (if opt_blank (pv_model_version p) then [''model_version_concrete''] else []))"

definition validate_complete :: "provenance \<Rightarrow> uuid \<Rightarrow> string \<Rightarrow> artifact_error + unit" where
  "validate_complete p aid root =
    (if missing_components p root \<noteq> [] then Inl (Art_IncompleteProvenance aid (missing_components p root))
     else Inr ())"

definition set_model_identity ::
  "string \<Rightarrow> string \<Rightarrow> string \<Rightarrow> json \<Rightarrow> int option \<Rightarrow> string option \<Rightarrow> provenance \<Rightarrow> artifact_error + provenance" where
  "set_model_identity provider name version temp max_tokens prompt p =
    (if is_model_alias name then Inl (Art_ModelAlias ''model_name_concrete'' name)
     else if is_model_alias version then Inl (Art_ModelAlias ''model_version_concrete'' version)
     else Inr (p\<lparr> pv_model_provider := Some provider, pv_model_name := Some name,
                  pv_model_version := Some version, pv_model_temperature := temp,
                  pv_model_max_tokens := max_tokens, pv_system_prompt_hash := prompt \<rparr>))"

section \<open>The entity\<close>

record artifact =
  a_id :: uuid
  a_workspace_id :: uuid
  a_task_id :: uuid
  a_run_id :: uuid
  a_step_id :: "uuid option"
  a_agent_invocation_id :: "uuid option"
  a_root_type :: root_type
  a_artifact_type :: artifact_type
  a_status :: artifact_status
  a_name :: string
  a_mime_type :: "string option"
  a_storage_ref :: "string option"
  a_size_bytes :: "int option"
  a_checksum :: "string option"
  a_lineage :: "json list"
  a_metadata :: dict
  a_ready_at :: "time option"
  a_failed_at :: "time option"
  a_created_at :: time
  a_updated_at :: time

definition artifact_init ::
  "uuid \<Rightarrow> time \<Rightarrow> uuid \<Rightarrow> uuid \<Rightarrow> uuid \<Rightarrow> string \<Rightarrow> artifact_type \<Rightarrow> root_type \<Rightarrow> uuid option \<Rightarrow> uuid option
   \<Rightarrow> string option \<Rightarrow> artifact_error + artifact" where
  "artifact_init new_id now ws task_id run_id name ty root step_id ivk mime =
    (if is_blank name then Inl (Art_Validation ''name must not be blank'')
     else Inr \<lparr> a_id = new_id, a_workspace_id = ws, a_task_id = task_id, a_run_id = run_id,
                a_step_id = step_id, a_agent_invocation_id = ivk, a_root_type = root,
                a_artifact_type = ty, a_status = A_PENDING, a_name = name, a_mime_type = mime,
                a_storage_ref = None, a_size_bytes = None, a_checksum = None, a_lineage = [],
                a_metadata = [], a_ready_at = None, a_failed_at = None, a_created_at = now,
                a_updated_at = now \<rparr>)"

definition artifact_transition ::
  "artifact_status \<Rightarrow> time \<Rightarrow> artifact \<Rightarrow> artifact_error + artifact" where
  "artifact_transition target now a =
    (if artifact_terminal (a_status a) then Inl (Art_TerminalState (a_status a) target)
     else if target \<notin> set (artifact_transitions (a_status a))
     then Inl (Art_InvalidTransition (a_status a) target)
     else Inr (a\<lparr>a_status := target, a_updated_at := now\<rparr>))"

definition artifact_begin_writing :: "string \<Rightarrow> time \<Rightarrow> artifact \<Rightarrow> artifact_error + artifact" where
  "artifact_begin_writing ref now a =
    (if is_blank ref then Inl (Art_Validation ''storage_ref is required to begin writing'')
     else rbind (artifact_transition A_WRITING now a) (\<lambda>a'. Inr (a'\<lparr>a_storage_ref := Some ref\<rparr>)))"

text \<open>Whether \<open>int(s, 16)\<close> succeeds: surrounding spaces, a sign, the prefix \<open>0x\<close> and single
  underscores between digits are accepted.\<close>

definition hex_digit :: "char \<Rightarrow> bool" where
  "hex_digit c = (let n = (of_char c :: nat) in
     (48 \<le> n \<and> n \<le> 57) \<or> (65 \<le> n \<and> n \<le> 70) \<or> (97 \<le> n \<and> n \<le> 102))"

fun hex_digits :: "string \<Rightarrow> bool" where
  "hex_digits [] = False"
| "hex_digits [c] = hex_digit c"
| "hex_digits (c # d # s) =
     (hex_digit c \<and> (if d = CHR ''_'' then hex_digits s else hex_digits (d # s)))"

definition drop_sign :: "string \<Rightarrow> string" where
  "drop_sign s = (case s of [] \<Rightarrow> [] | c # t \<Rightarrow> if c = CHR ''+'' \<or> c = CHR ''-'' then t else s)"

definition drop_hex_prefix :: "string \<Rightarrow> string" where
  "drop_hex_prefix s =
    (if starts_with ''0x'' s \<or> starts_with ''0X'' s
     then (case drop 2 s of [] \<Rightarrow> [] | c # t \<Rightarrow> if c = CHR ''_'' then t else c # t)
     else s)"

definition int16_ok :: "string \<Rightarrow> bool" where
  "int16_ok s = hex_digits (drop_hex_prefix (drop_sign (py_strip s)))"

definition artifact_finalize ::
  "string \<Rightarrow> int \<Rightarrow> provenance \<Rightarrow> time \<Rightarrow> artifact \<Rightarrow> artifact_error + artifact" where
  "artifact_finalize checksum size_bytes prov now a =
    (if length checksum \<noteq> 64
     then Inl (Art_Validation ''checksum must be 64-char SHA-256 hex digest'')
     else if \<not> int16_ok checksum then Inl (Art_Validation ''checksum must be valid hexadecimal'')
     else if size_bytes < 0 then Inl (Art_Validation ''size_bytes must be non-negative'')
     else rbind (validate_complete prov (a_id a) (root_type_value (a_root_type a))) (\<lambda>_.
          rbind (artifact_transition A_READY now a) (\<lambda>a'.
          Inr (a'\<lparr> a_checksum := Some (py_lower checksum), a_size_bytes := Some size_bytes,
                   a_ready_at := Some now \<rparr>))))"

definition artifact_fail :: "string option \<Rightarrow> bool \<Rightarrow> time \<Rightarrow> artifact \<Rightarrow> artifact_error + artifact" where
  "artifact_fail reason partial_data now a =
    rbind (artifact_transition A_FAILED now a) (\<lambda>a'.
      Inr (a'\<lparr> a_failed_at := Some now,
               a_metadata := dict_put ''partial_data_available'' (JBool partial_data)
                 (dict_put ''failure_reason''
                   (JStr (if str_truthy reason then the reason else ''unknown'')) (a_metadata a')) \<rparr>))"

definition artifact_is_terminal :: "artifact \<Rightarrow> bool" where
  "artifact_is_terminal a = artifact_terminal (a_status a)"

definition artifact_is_ready :: "artifact \<Rightarrow> bool" where
  "artifact_is_ready a = (a_status a = A_READY)"

definition artifact_is_failed :: "artifact \<Rightarrow> bool" where
  "artifact_is_failed a = (a_status a = A_FAILED)"

section \<open>Lemmas\<close>

datatype artifact_op =
    ABeginWriting string
  | AFinalize string int provenance
  | AFail "string option" bool

fun artifact_apply :: "artifact_op \<Rightarrow> time \<Rightarrow> artifact \<Rightarrow> artifact_error + artifact" where
  "artifact_apply (ABeginWriting ref) now a = artifact_begin_writing ref now a"
| "artifact_apply (AFinalize checksum size_bytes prov) now a = artifact_finalize checksum size_bytes prov now a"
| "artifact_apply (AFail reason part) now a = artifact_fail reason part now a"

lemmas artifact_op_defs = artifact_begin_writing_def artifact_finalize_def artifact_fail_def

lemma artifact_transition_ok:
  "artifact_transition target now a = Inr a' \<longleftrightarrow>
   target \<in> set (artifact_transitions (a_status a)) \<and> a' = a\<lparr>a_status := target, a_updated_at := now\<rparr>"
  by (cases "a_status a") (auto simp: artifact_transition_def artifact_terminal_def)

interpretation artifact_sm: state_machine a_status artifact_transitions artifact_terminal artifact_transition
  by unfold_locales (auto simp: artifact_transition_ok is_ok_iff artifact_terminal_def)

definition artifact_frame :: "artifact \<Rightarrow> uuid \<times> uuid \<times> uuid \<times> root_type \<times> time" where
  "artifact_frame a = (a_id a, a_workspace_id a, a_run_id a, a_root_type a, a_created_at a)"

interpretation artifact_entity:
  managed_entity a_status artifact_transitions artifact_terminal artifact_transition artifact_apply artifact_frame
proof (unfold_locales, goal_cases)
  case (1 op now e e')
  then show ?case
    by (cases op)
       (auto simp: artifact_op_defs artifact_transition_ok artifact_terminal_def rbind_Inr_iff split: if_splits)
next
  case (2 op now e e')
  then show ?case
    by (cases op)
       (auto simp: artifact_op_defs artifact_transition_ok artifact_frame_def rbind_Inr_iff split: if_splits)
qed

lemma artifact_finalize_ok:
  "artifact_finalize checksum size_bytes prov now a = Inr a' \<longleftrightarrow>
     length checksum = 64 \<and> int16_ok checksum \<and> 0 \<le> size_bytes
     \<and> missing_components prov (root_type_value (a_root_type a)) = [] \<and> a_status a = A_WRITING
     \<and> a' = a\<lparr> a_status := A_READY, a_updated_at := now, a_checksum := Some (py_lower checksum),
              a_size_bytes := Some size_bytes, a_ready_at := Some now \<rparr>"
  by (cases "a_status a")
     (auto simp: artifact_finalize_def rbind_Inr_iff artifact_transition_ok validate_complete_def)

lemma artifact_begin_writing_ok:
  "artifact_begin_writing ref now a = Inr a' \<longleftrightarrow> \<not> is_blank ref \<and> a_status a = A_PENDING
     \<and> a' = a\<lparr> a_status := A_WRITING, a_updated_at := now, a_storage_ref := Some ref \<rparr>"
  by (cases "a_status a") (auto simp: artifact_begin_writing_def rbind_Inr_iff artifact_transition_ok)

lemma artifact_fail_status:
  "artifact_fail reason part now a = Inr a' \<Longrightarrow>
     \<not> artifact_terminal (a_status a) \<and> a_status a' = A_FAILED \<and> a_id a' = a_id a
     \<and> a_root_type a' = a_root_type a \<and> a_workspace_id a' = a_workspace_id a"
  by (cases "a_status a") (auto simp: artifact_fail_def rbind_Inr_iff artifact_transition_ok artifact_terminal_def)

lemma artifact_init_pending: "artifact_init i now ws t r n ty root st ivk mime = Inr a \<Longrightarrow>
   a_status a = A_PENDING \<and> a_id a = i \<and> a_root_type a = root \<and> a_workspace_id a = ws"
  by (auto simp: artifact_init_def split: if_splits)

text \<open>\<open>finalize\<close> is looser than its comment: a checksum with the prefix \<open>0x\<close> is no digest, but
  passes.\<close>

lemma finalize_accepts_prefixed:
  "int16_ok (''0x'' @ replicate 62 (CHR ''a'')) \<and> length (''0x'' @ replicate 62 (CHR ''a'')) = 64"
  by code_simp

end
