(* ===== verification/Lineage.thy ===== *)
theory Lineage
  imports Prelude
begin

text \<open>
  \<open>apps/artifact-service/src/domain/lineage.py\<close> and the lineage queries of
  \<open>infrastructure/db/repositories.py\<close>: edges from a child artifact to its parents, the
  breadth-first cycle check, and the ancestor query.  A Python set is iterated in some order;
  the model takes the order of insertion, and the result does not depend on it.
\<close>

datatype edge_type = Derived_From | Transformed_From | Aggregated_From | Promoted_From

fun edge_type_value :: "edge_type \<Rightarrow> string" where
  "edge_type_value Derived_From = ''derived_from''"
| "edge_type_value Transformed_From = ''transformed_from''"
| "edge_type_value Aggregated_From = ''aggregated_from''"
| "edge_type_value Promoted_From = ''promoted_from''"

definition edge_type_of :: "string \<Rightarrow> edge_type option" where
  "edge_type_of s =
     find (\<lambda>t. edge_type_value t = s) [Derived_From, Transformed_From, Aggregated_From, Promoted_From]"

record lineage_edge =
  le_id :: uuid
  le_child :: uuid
  le_parent :: uuid
  le_type :: edge_type
  le_run_id :: "uuid option"
  le_step_id :: "uuid option"
  le_transform_detail :: dict
  le_created_at :: time

text \<open>\<open>ArtifactLineageEdge(...)\<close> with \<open>__post_init__\<close>: \<open>Inl\<close> is the self-loop error.\<close>

definition edge_init ::
  "uuid \<Rightarrow> time \<Rightarrow> uuid \<Rightarrow> uuid \<Rightarrow> edge_type \<Rightarrow> uuid option \<Rightarrow> uuid option \<Rightarrow> uuid + lineage_edge" where
  "edge_init new_id now child parent ty run_id step_id =
    (if child = parent then Inl child
     else Inr \<lparr> le_id = new_id, le_child = child, le_parent = parent, le_type = ty,
                le_run_id = run_id, le_step_id = step_id, le_transform_detail = [],
                le_created_at = now \<rparr>)"

section \<open>The cycle check\<close>

type_synonym edge_pairs = "(uuid \<times> uuid) list"

definition parents_of :: "edge_pairs \<Rightarrow> uuid \<Rightarrow> uuid list" where
  "parents_of edges n = remdups (map snd (filter (\<lambda>e. fst e = n) edges))"

lemma set_parents_of [simp]: "set (parents_of edges n) = {p. (n, p) \<in> set edges}"
  by (force simp: parents_of_def)

text \<open>The loop: the queue, and the visited nodes.\<close>

function bfs :: "uuid \<Rightarrow> edge_pairs \<Rightarrow> uuid list \<Rightarrow> uuid list \<Rightarrow> bool" where
  "bfs child edges visited [] = False"
| "bfs child edges visited (current # queue) =
    (if current = child then True
     else if current \<in> set visited then bfs child edges visited queue
     else bfs child edges (current # visited)
            (queue @ filter (\<lambda>a. a \<notin> set (current # visited)) (parents_of edges current)))"
  by pat_completeness auto
termination
proof (relation "measures [\<lambda>(child, edges, visited, queue). card ((set queue \<union> snd ` set edges) - set visited),
                           \<lambda>(child, edges, visited, queue). length queue]", goal_cases)
  case 1
  then show ?case by simp
next
  case (2 child edges visited current queue)
  have "card ((set queue \<union> snd ` set edges) - set visited)
      \<le> card ((set (current # queue) \<union> snd ` set edges) - set visited)"
    by (intro card_mono) auto
  then show ?case by auto
next
  case (3 child edges visited current queue)
  let ?new = "queue @ filter (\<lambda>a. a \<notin> set (current # visited)) (parents_of edges current)"
  have "(set ?new \<union> snd ` set edges) - set (current # visited)
      \<subset> (set (current # queue) \<union> snd ` set edges) - set visited"
    using 3 by force
  then have "card ((set ?new \<union> snd ` set edges) - set (current # visited))
      < card ((set (current # queue) \<union> snd ` set edges) - set visited)"
    by (intro psubset_card_mono) auto
  then show ?case by simp
qed

declare bfs.simps(2) [simp del]

lemma bfs_found: "bfs child edges visited (child # queue)"
  by (simp add: bfs.simps)

lemma bfs_seen: "\<lbrakk> current \<noteq> child; current \<in> set visited \<rbrakk> \<Longrightarrow>
   bfs child edges visited (current # queue) = bfs child edges visited queue"
  by (simp add: bfs.simps(2))

lemma bfs_new: "\<lbrakk> current \<noteq> child; current \<notin> set visited \<rbrakk> \<Longrightarrow>
   bfs child edges visited (current # queue) =
     bfs child edges (current # visited)
       (queue @ filter (\<lambda>a. a \<notin> set (current # visited)) (parents_of edges current))"
  by (simp add: bfs.simps(2))

definition detect_cycle :: "uuid \<Rightarrow> uuid \<Rightarrow> edge_pairs \<Rightarrow> bool" where
  "detect_cycle child parent edges = (child = parent \<or> bfs child edges [] [parent])"

section \<open>Its meaning\<close>

lemma bfs_sound: "bfs child edges visited queue \<Longrightarrow> \<exists>q \<in> set queue. (q, child) \<in> (set edges)\<^sup>*"
proof (induction child edges visited queue rule: bfs.induct)
  case (2 child edges visited current queue)
  consider "current = child" | "current \<noteq> child" "current \<in> set visited"
    | "current \<noteq> child" "current \<notin> set visited" by blast
  then show ?case
  proof cases
    case 1
    then show ?thesis by simp
  next
    case 2
    then show ?thesis using "2.IH"(1) "2.prems" by (auto simp: bfs_seen)
  next
    case 3
    then obtain q where q: "q \<in> set queue \<or> (current, q) \<in> set edges" "(q, child) \<in> (set edges)\<^sup>*"
      using "2.IH"(2) "2.prems" by (auto simp: bfs_new)
    then show ?thesis by (auto intro: converse_rtrancl_into_rtrancl)
  qed
qed simp

text \<open>When the search ends without finding the child, what it visited is closed under parents.\<close>

lemma bfs_closed:
  "\<lbrakk> \<not> bfs child edges visited queue; child \<notin> set visited;
     \<forall>v \<in> set visited. \<forall>p. (v, p) \<in> set edges \<longrightarrow> p \<in> set visited \<union> set queue \<rbrakk> \<Longrightarrow>
   \<exists>V. set visited \<union> set queue \<subseteq> V \<and> child \<notin> V \<and> (\<forall>v \<in> V. \<forall>p. (v, p) \<in> set edges \<longrightarrow> p \<in> V)"
proof (induction child edges visited queue rule: bfs.induct)
  case (1 child edges visited)
  then show ?case by (intro exI [of _ "set visited"]) simp
next
  case (2 child edges visited current queue)
  have ne: "current \<noteq> child" using 2(3) bfs_found by blast
  show ?case
  proof (cases "current \<in> set visited")
    case True
    have "\<not> bfs child edges visited queue" using 2(3) ne True by (simp add: bfs_seen)
    moreover have "\<forall>v \<in> set visited. \<forall>p. (v, p) \<in> set edges \<longrightarrow> p \<in> set visited \<union> set queue"
      using 2(5) True by auto
    ultimately obtain V where "set visited \<union> set queue \<subseteq> V" "child \<notin> V"
      "\<forall>v \<in> V. \<forall>p. (v, p) \<in> set edges \<longrightarrow> p \<in> V"
      using 2(1) [OF ne True] 2(4) by blast
    then show ?thesis using True by (intro exI [of _ V]) auto
  next
    case False
    let ?queue = "queue @ filter (\<lambda>a. a \<notin> set (current # visited)) (parents_of edges current)"
    have "\<not> bfs child edges (current # visited) ?queue" using 2(3) ne False by (simp add: bfs_new)
    moreover have "\<forall>v \<in> set (current # visited). \<forall>p. (v, p) \<in> set edges \<longrightarrow>
        p \<in> set (current # visited) \<union> set ?queue"
      using 2(5) by auto
    moreover have "child \<notin> set (current # visited)" using ne 2(4) by simp
    ultimately obtain V where "set (current # visited) \<union> set ?queue \<subseteq> V" "child \<notin> V"
      "\<forall>v \<in> V. \<forall>p. (v, p) \<in> set edges \<longrightarrow> p \<in> V"
      using 2(2) [OF ne False] by blast
    then show ?thesis by (intro exI [of _ V]) auto
  qed
qed

lemma detect_cycle_iff: "detect_cycle child parent edges \<longleftrightarrow> (parent, child) \<in> (set edges)\<^sup>*"
proof
  assume "detect_cycle child parent edges"
  then show "(parent, child) \<in> (set edges)\<^sup>*"
    using bfs_sound [of child edges "[]" "[parent]"] by (auto simp: detect_cycle_def)
next
  assume reach: "(parent, child) \<in> (set edges)\<^sup>*"
  show "detect_cycle child parent edges"
  proof (rule ccontr)
    assume "\<not> detect_cycle child parent edges"
    then obtain V where V: "parent \<in> V" "child \<notin> V" "\<forall>v \<in> V. \<forall>p. (v, p) \<in> set edges \<longrightarrow> p \<in> V"
      using bfs_closed [of child edges "[]" "[parent]"] by (auto simp: detect_cycle_def)
    from reach have "child \<in> V" by (induction rule: rtrancl_induct) (use V in auto)
    then show False using V by simp
  qed
qed

lemma record_keeps_acyclic:
  "\<lbrakk> acyclic (set edges); \<not> detect_cycle child parent edges \<rbrakk> \<Longrightarrow> acyclic (insert (child, parent) (set edges))"
  by (simp add: acyclic_insert detect_cycle_iff)

section \<open>The ancestor query\<close>

text \<open>The recursive query: the edges of the artifact, then the edges of their parents, up to a
  hundred generations; equal rows of one generation appear once, an edge reached in two
  generations appears twice.\<close>

fun cte_level :: "lineage_edge list \<Rightarrow> uuid \<Rightarrow> nat \<Rightarrow> lineage_edge list" where
  "cte_level edges a 0 = filter (\<lambda>e. le_child e = a) edges"
| "cte_level edges a (Suc k) =
     filter (\<lambda>e. le_child e \<in> le_parent ` set (cte_level edges a k)) edges"

definition list_ancestor_edges :: "lineage_edge list \<Rightarrow> uuid \<Rightarrow> lineage_edge list" where
  "list_ancestor_edges edges a = sort_key le_created_at (concat (map (cte_level edges a) [0..<100]))"

definition parent_rel :: "lineage_edge list \<Rightarrow> (uuid \<times> uuid) set" where
  "parent_rel edges = (\<lambda>e. (le_child e, le_parent e)) ` set edges"

lemma cte_level_iff:
  "e \<in> set (cte_level edges a k) \<longleftrightarrow> e \<in> set edges \<and> (a, le_child e) \<in> parent_rel edges ^^ k"
proof (induction k arbitrary: e)
  case (Suc k)
  have "le_child e \<in> le_parent ` set (cte_level edges a k) \<longleftrightarrow> (a, le_child e) \<in> parent_rel edges ^^ Suc k"
  proof
    assume "le_child e \<in> le_parent ` set (cte_level edges a k)"
    then obtain x where "x \<in> set edges" "(a, le_child x) \<in> parent_rel edges ^^ k" "le_child e = le_parent x"
      by (auto simp: Suc)
    then show "(a, le_child e) \<in> parent_rel edges ^^ Suc k" by (auto simp: parent_rel_def)
  next
    assume "(a, le_child e) \<in> parent_rel edges ^^ Suc k"
    then obtain y where "(a, y) \<in> parent_rel edges ^^ k" "(y, le_child e) \<in> parent_rel edges" by auto
    then show "le_child e \<in> le_parent ` set (cte_level edges a k)"
      by (force simp: Suc parent_rel_def)
  qed
  then show ?case by auto
qed auto

text \<open>In a lineage without cycles a path never visits an artifact twice, so with at most a hundred
  edges no path is longer than a hundred.\<close>

lemma acyclic_path_bound:
  assumes "acyclic r" "finite r" "(a, b) \<in> r ^^ n"
  shows "n \<le> card r"
proof -
  obtain f where f: "f 0 = a" "f n = b" "\<forall>i < n. (f i, f (Suc i)) \<in> r"
    using assms(3) unfolding relpow_fun_conv by blast
  have walk: "i \<le> j \<Longrightarrow> j \<le> n \<Longrightarrow> (f i, f j) \<in> r\<^sup>*" for i j
  proof (induction j)
    case (Suc j)
    then show ?case using f(3) by (cases "i = Suc j") (auto intro: rtrancl_into_rtrancl)
  qed simp
  have neq: "f i \<noteq> f j" if "i < j" "j < n" for i j
  proof
    assume "f i = f j"
    moreover have "(f i, f (Suc i)) \<in> r" using f(3) that by simp
    moreover have "(f (Suc i), f j) \<in> r\<^sup>*" using walk that by simp
    ultimately have "(f i, f i) \<in> r\<^sup>+" by (metis rtrancl_into_trancl2)
    then show False using assms(1) by (simp add: acyclic_def)
  qed
  have "inj_on (\<lambda>i. (f i, f (Suc i))) {..<n}"
    by (rule linorder_inj_onI) (use neq in auto)
  then have "card ((\<lambda>i. (f i, f (Suc i))) ` {..<n}) = n" by (simp add: card_image)
  moreover have "(\<lambda>i. (f i, f (Suc i))) ` {..<n} \<subseteq> r" using f(3) by auto
  ultimately show ?thesis using assms(2) by (metis card_mono)
qed

section \<open>Properties\<close>

text \<open>C31. The cycle check is exact: it refuses an edge precisely when the child is already an
  ancestor of the parent (or the same artifact), so recording the edges it accepts keeps the
  lineage free of cycles.\<close>

theorem cycle_check_exact:
  "detect_cycle child parent edges = ((parent, child) \<in> (set edges)\<^sup>*)
   \<and> (if detect_cycle child parent edges then \<not> acyclic (insert (child, parent) (set edges))
      else acyclic (insert (child, parent) (set edges)) = acyclic (set edges))"
  by (auto simp: detect_cycle_iff acyclic_insert)

text \<open>The ancestor query returns exactly the edges of the artifact and of its ancestors within a
  hundred generations; in a lineage without cycles and with fewer than a hundred edges this is
  the whole ancestry.\<close>

theorem ancestors_complete:
  assumes "acyclic (parent_rel edges)" "length edges < 100"
  shows "set (list_ancestor_edges edges a) = {e \<in> set edges. (a, le_child e) \<in> (parent_rel edges)\<^sup>*}"
proof -
  have "card (parent_rel edges) \<le> length edges"
    unfolding parent_rel_def by (metis card_image_le card_length finite_set order_trans)
  then have "k < 100" if "(a, b) \<in> parent_rel edges ^^ k" for b k
    using acyclic_path_bound [OF assms(1) _ that] assms(2) by (simp add: parent_rel_def)
  then have "(a, b) \<in> (parent_rel edges)\<^sup>* \<longleftrightarrow> (\<exists>k \<in> {0..<100}. (a, b) \<in> parent_rel edges ^^ k)" for b
    by (auto simp: rtrancl_power)
  then show ?thesis
    by (auto simp: list_ancestor_edges_def cte_level_iff)
qed

definition demo_edge :: "uuid \<Rightarrow> uuid \<Rightarrow> uuid \<Rightarrow> lineage_edge" where
  "demo_edge i c p = \<lparr> le_id = i, le_child = c, le_parent = p, le_type = Derived_From, le_run_id = None,
     le_step_id = None, le_transform_detail = [], le_created_at = int i \<rparr>"

theorem ancestors_complete_witness:
  "set (list_ancestor_edges [demo_edge 1 10 11, demo_edge 2 11 12] 10) =
     {e \<in> set [demo_edge 1 10 11, demo_edge 2 11 12].
        (10, le_child e) \<in> (parent_rel [demo_edge 1 10 11, demo_edge 2 11 12])\<^sup>*}"
proof -
  have "acyclic (parent_rel [demo_edge 1 10 11, demo_edge 2 11 12])"
  proof (rule acyclic_subset)
    show "acyclic {(x, y). x < (y::nat)}" by (rule acyclicI_order [where f = "\<lambda>x. - int x"]) simp
    show "parent_rel [demo_edge 1 10 11, demo_edge 2 11 12] \<subseteq> {(x, y). x < y}"
      by (simp add: parent_rel_def demo_edge_def)
  qed
  then show ?thesis by (rule ancestors_complete) simp
qed

end
