(* ===== verification/Artifact_Service.thy ===== *)
theory Artifact_Service
  imports Artifact Lineage
begin

text \<open>
  \<open>apps/artifact-service/src/application/services.py\<close>, the saves and lookups of
  \<open>infrastructure/db/repositories.py\<close>, \<open>application/events.py\<close> and the command routes of
  \<open>api/routes_commands.py\<close> and \<open>api/routes_lineage.py\<close> after parsing.

  A service call is one transaction: \<open>Inl\<close> rolls it back.  Content lives in a storage beside the
  database, a map from storage keys to bytes, which no rollback touches.  \<open>u\<close> is the supply of
  identifiers; the unique indexes of the schema (one artifact per agent invocation, one edge per
  child, parent and type) are the \<open>Art_Integrity\<close> errors.  SHA-256 is the parameter \<open>sha\<close>.
\<close>

section \<open>Events\<close>

record artifact_event =
  ae_type :: string
  ae_workspace_id :: uuid
  ae_artifact_id :: "uuid option"
  ae_run_id :: "uuid option"
  ae_correlation_id :: uuid
  ae_causation_id :: "uuid option"
  ae_payload :: dict
  ae_event_id :: uuid
  ae_occurred_at :: time

definition artifact_registered_event ::
  "uuid \<times> time \<Rightarrow> uuid \<Rightarrow> uuid \<Rightarrow> uuid \<Rightarrow> uuid \<Rightarrow> string \<Rightarrow> string \<Rightarrow> string \<Rightarrow> artifact_event" where
  "artifact_registered_event idt aid ws run corr ty root name = \<lparr>
     ae_type = ''artifact.registered'', ae_workspace_id = ws, ae_artifact_id = Some aid,
     ae_run_id = Some run, ae_correlation_id = corr, ae_causation_id = None,
     ae_payload = [(''artifact_id'', JUuid aid), (''run_id'', JUuid run), (''artifact_type'', JStr ty),
       (''root_type'', JStr root), (''name'', JStr name)],
     ae_event_id = fst idt, ae_occurred_at = snd idt \<rparr>"

definition artifact_writing_event ::
  "uuid \<times> time \<Rightarrow> uuid \<Rightarrow> uuid \<Rightarrow> uuid \<Rightarrow> uuid \<Rightarrow> string \<Rightarrow> artifact_event" where
  "artifact_writing_event idt aid ws run corr ref = \<lparr>
     ae_type = ''artifact.writing'', ae_workspace_id = ws, ae_artifact_id = Some aid,
     ae_run_id = Some run, ae_correlation_id = corr, ae_causation_id = None,
     ae_payload = [(''artifact_id'', JUuid aid), (''storage_ref'', JStr ref)],
     ae_event_id = fst idt, ae_occurred_at = snd idt \<rparr>"

definition artifact_ready_event ::
  "uuid \<times> time \<Rightarrow> uuid \<Rightarrow> uuid \<Rightarrow> uuid \<Rightarrow> string \<Rightarrow> int \<Rightarrow> artifact_event" where
  "artifact_ready_event idt aid ws corr checksum nbytes = \<lparr>
     ae_type = ''artifact.ready'', ae_workspace_id = ws, ae_artifact_id = Some aid,
     ae_run_id = None, ae_correlation_id = corr, ae_causation_id = None,
     ae_payload = [(''artifact_id'', JUuid aid), (''checksum'', JStr checksum), (''size_bytes'', JInt nbytes)],
     ae_event_id = fst idt, ae_occurred_at = snd idt \<rparr>"

definition artifact_failed_event ::
  "uuid \<times> time \<Rightarrow> uuid \<Rightarrow> uuid \<Rightarrow> uuid \<Rightarrow> uuid \<Rightarrow> string option \<Rightarrow> artifact_event" where
  "artifact_failed_event idt aid ws run corr reason = \<lparr>
     ae_type = ''artifact.failed'', ae_workspace_id = ws, ae_artifact_id = Some aid,
     ae_run_id = Some run, ae_correlation_id = corr, ae_causation_id = None,
     ae_payload = (''artifact_id'', JUuid aid)
       # (if str_truthy reason then [(''failure_reason'', JStr (the reason))] else []),
     ae_event_id = fst idt, ae_occurred_at = snd idt \<rparr>"

definition artifact_lineage_recorded_event ::
  "uuid \<times> time \<Rightarrow> uuid \<Rightarrow> uuid \<Rightarrow> uuid \<Rightarrow> string \<Rightarrow> uuid \<Rightarrow> uuid option \<Rightarrow> uuid \<Rightarrow> artifact_event" where
  "artifact_lineage_recorded_event idt eid child parent ty ws run corr = \<lparr>
     ae_type = ''artifact.lineage_recorded'', ae_workspace_id = ws, ae_artifact_id = Some child,
     ae_run_id = run, ae_correlation_id = corr, ae_causation_id = None,
     ae_payload = [(''edge_id'', JUuid eid), (''child_artifact_id'', JUuid child),
       (''parent_artifact_id'', JUuid parent), (''edge_type'', JStr ty)],
     ae_event_id = fst idt, ae_occurred_at = snd idt \<rparr>"

section \<open>Repositories\<close>

record artifact_db =
  ad_artifacts :: "artifact list"
  ad_provenance :: "provenance list"
  ad_edges :: "lineage_edge list"
  ad_outbox :: "artifact_event list"

definition art_get :: "uuid \<Rightarrow> artifact_db \<Rightarrow> artifact option" where
  "art_get k db = find_row a_id k (ad_artifacts db)"

definition art_save :: "artifact \<Rightarrow> artifact_db \<Rightarrow> artifact_db" where
  "art_save a db = db\<lparr>ad_artifacts := upsert a_id a (ad_artifacts db)\<rparr>"

definition provenance_save :: "provenance \<Rightarrow> artifact_db \<Rightarrow> artifact_db" where
  "provenance_save p db = db\<lparr>ad_provenance := upsert pv_id p (ad_provenance db)\<rparr>"

definition provenance_get_by_artifact :: "uuid \<Rightarrow> artifact_db \<Rightarrow> provenance option" where
  "provenance_get_by_artifact aid db = find (\<lambda>p. pv_artifact_id p = aid) (ad_provenance db)"

definition edge_save :: "lineage_edge \<Rightarrow> artifact_db \<Rightarrow> artifact_db" where
  "edge_save e db = db\<lparr>ad_edges := ad_edges db @ [e]\<rparr>"

definition list_edges_by_workspace :: "uuid \<Rightarrow> artifact_db \<Rightarrow> edge_pairs" where
  "list_edges_by_workspace ws db =
     map (\<lambda>e. (le_child e, le_parent e))
       (filter (\<lambda>e. case art_get (le_child e) db of None \<Rightarrow> False | Some a \<Rightarrow> a_workspace_id a = ws) (ad_edges db))"

definition art_outbox_write :: "artifact_event \<Rightarrow> artifact_db \<Rightarrow> artifact_db" where
  "art_outbox_write e db = db\<lparr>ad_outbox := ad_outbox db @ [e]\<rparr>"

section \<open>Services\<close>

record register_command =
  rg_workspace_id :: uuid
  rg_task_id :: uuid
  rg_run_id :: uuid
  rg_name :: string
  rg_artifact_type :: string
  rg_root_type :: string
  rg_step_id :: "uuid option"
  rg_agent_invocation_id :: "uuid option"
  rg_mime_type :: "string option"
  rg_model_provider :: "string option"
  rg_model_name :: "string option"
  rg_model_version :: "string option"
  rg_model_temperature :: json
  rg_model_max_tokens :: "int option"
  rg_system_prompt_hash :: "string option"
  rg_run_config_hash :: "string option"
  rg_tool_name :: "string option"
  rg_tool_version :: "string option"
  rg_tool_config_hash :: "string option"
  rg_input_snapshot :: "json list"
  rg_lineage_chain :: "string list"
  rg_correlation_id :: "uuid option"

definition invocation_taken :: "artifact \<Rightarrow> artifact_db \<Rightarrow> bool" where
  "invocation_taken a db = (a_agent_invocation_id a \<noteq> None
     \<and> list_ex (\<lambda>b. a_id b \<noteq> a_id a \<and> a_agent_invocation_id b = a_agent_invocation_id a) (ad_artifacts db))"

definition command_provenance :: "register_command \<Rightarrow> uuid \<Rightarrow> uuid \<Rightarrow> uuid \<Rightarrow> provenance" where
  "command_provenance cmd new_id aid corr = \<lparr>
     pv_id = new_id, pv_artifact_id = aid,
     pv_input_snapshot = rg_input_snapshot cmd, pv_run_config_hash = rg_run_config_hash cmd,
     pv_tool_name = rg_tool_name cmd, pv_tool_version = rg_tool_version cmd,
     pv_tool_config_hash = rg_tool_config_hash cmd, pv_model_provider = rg_model_provider cmd,
     pv_model_name = rg_model_name cmd, pv_model_version = rg_model_version cmd,
     pv_model_temperature = rg_model_temperature cmd, pv_model_max_tokens = rg_model_max_tokens cmd,
     pv_system_prompt_hash = rg_system_prompt_hash cmd, pv_lineage_chain = rg_lineage_chain cmd,
     pv_correlation_id = Some corr \<rparr>"

definition register_artifact ::
  "register_command \<Rightarrow> uuid_supply \<Rightarrow> time \<Rightarrow> artifact_db \<Rightarrow> artifact_error + (artifact \<times> artifact_db)" where
  "register_artifact cmd u now db =
    (let corr = opt_or (rg_correlation_id cmd) (u 0) in
     case (artifact_type_of (rg_artifact_type cmd), root_type_of (rg_root_type cmd)) of
       (Some ty, Some root) \<Rightarrow>
         rbind (artifact_init (u 1) now (rg_workspace_id cmd) (rg_task_id cmd) (rg_run_id cmd) (rg_name cmd)
                  ty root (rg_step_id cmd) (rg_agent_invocation_id cmd) (rg_mime_type cmd)) (\<lambda>a.
         rbind (provenance_init (command_provenance cmd (u 2) (a_id a) corr)) (\<lambda>p.
         if invocation_taken a db then Inl (Art_Integrity ''agent_invocation_id'')
         else Inr (a, art_outbox_write (artifact_registered_event (u 3, now) (a_id a) (a_workspace_id a)
                (a_run_id a) corr (artifact_type_value (a_artifact_type a))
                (root_type_value (a_root_type a)) (a_name a))
              (provenance_save p (art_save a db)))))
     | _ \<Rightarrow> Inl (Art_ValueError ''not a valid value''))"

definition begin_writing ::
  "uuid \<Rightarrow> string \<Rightarrow> uuid option \<Rightarrow> uuid_supply \<Rightarrow> time \<Rightarrow> artifact_db
   \<Rightarrow> artifact_error + (artifact \<times> artifact_db)" where
  "begin_writing aid ref corr u now db =
    (case art_get aid db of
       None \<Rightarrow> Inl (Art_NotFound aid)
     | Some a0 \<Rightarrow>
         rbind (artifact_begin_writing ref now a0) (\<lambda>a.
         Inr (a, art_outbox_write (artifact_writing_event (u 1, now) (a_id a) (a_workspace_id a) (a_run_id a)
                (opt_or corr (u 0)) ref) (art_save a db))))"

definition finalize_artifact ::
  "uuid \<Rightarrow> string \<Rightarrow> int \<Rightarrow> uuid option \<Rightarrow> uuid_supply \<Rightarrow> time \<Rightarrow> artifact_db
   \<Rightarrow> artifact_error + (artifact \<times> artifact_db)" where
  "finalize_artifact aid checksum nbytes corr u now db =
    (case art_get aid db of
       None \<Rightarrow> Inl (Art_NotFound aid)
     | Some a0 \<Rightarrow>
         if a_status a0 = A_READY then Inl (Art_Validation ''already ready'')
         else (case provenance_get_by_artifact aid db of
             None \<Rightarrow> Inl (Art_Validation ''no provenance record found'')
           | Some p \<Rightarrow>
               rbind (artifact_finalize checksum nbytes p now a0) (\<lambda>a.
               Inr (a, art_outbox_write (artifact_ready_event (u 1, now) (a_id a) (a_workspace_id a)
                      (opt_or corr (u 0)) (opt_or (a_checksum a) []) nbytes) (art_save a db)))))"

definition fail_artifact ::
  "uuid \<Rightarrow> string option \<Rightarrow> bool \<Rightarrow> uuid option \<Rightarrow> uuid_supply \<Rightarrow> time \<Rightarrow> artifact_db
   \<Rightarrow> artifact_error + (artifact \<times> artifact_db)" where
  "fail_artifact aid reason part corr u now db =
    (case art_get aid db of
       None \<Rightarrow> Inl (Art_NotFound aid)
     | Some a0 \<Rightarrow>
         rbind (artifact_fail reason part now a0) (\<lambda>a.
         Inr (a, art_outbox_write (artifact_failed_event (u 1, now) (a_id a) (a_workspace_id a) (a_run_id a)
                (opt_or corr (u 0)) reason) (art_save a db))))"

definition edge_taken :: "lineage_edge \<Rightarrow> artifact_db \<Rightarrow> bool" where
  "edge_taken e db = list_ex (\<lambda>x. le_child x = le_child e \<and> le_parent x = le_parent e \<and> le_type x = le_type e)
     (ad_edges db)"

definition record_lineage_edge ::
  "uuid \<Rightarrow> uuid \<Rightarrow> string \<Rightarrow> uuid option \<Rightarrow> uuid option \<Rightarrow> uuid \<Rightarrow> uuid option \<Rightarrow> uuid_supply \<Rightarrow> time
   \<Rightarrow> artifact_db \<Rightarrow> artifact_error + (lineage_edge \<times> artifact_db)" where
  "record_lineage_edge child parent ty run_id step_id ws corr u now db =
    (if art_get child db = None then Inl (Art_NotFound child)
     else if art_get parent db = None then Inl (Art_NotFound parent)
     else if child = parent then Inl (Art_SelfLoop child)
     else if detect_cycle child parent (list_edges_by_workspace ws db) then Inl (Art_Cycle child parent)
     else (case edge_type_of ty of
         None \<Rightarrow> Inl (Art_ValueError ''not a valid EdgeType'')
       | Some t \<Rightarrow>
           (case edge_init (u 1) now child parent t run_id step_id of
              Inl i \<Rightarrow> Inl (Art_SelfLoop i)
            | Inr e \<Rightarrow>
                if edge_taken e db then Inl (Art_Integrity ''uq_lineage_edge'')
                else Inr (e, art_outbox_write (artifact_lineage_recorded_event (u 2, now) (le_id e) child parent
                       (edge_type_value (le_type e)) ws run_id (opt_or corr (u 0))) (edge_save e db)))))"

definition upload_provenance :: "uuid \<Rightarrow> uuid \<Rightarrow> uuid \<Rightarrow> provenance" where
  "upload_provenance new_id aid corr = \<lparr>
     pv_id = new_id, pv_artifact_id = aid, pv_input_snapshot = [], pv_run_config_hash = None,
     pv_tool_name = None, pv_tool_version = None, pv_tool_config_hash = None,
     pv_model_provider = None, pv_model_name = None, pv_model_version = None,
     pv_model_temperature = JNull, pv_model_max_tokens = None, pv_system_prompt_hash = None,
     pv_lineage_chain = [], pv_correlation_id = Some corr \<rparr>"

text \<open>Decimal text of an identifier inside a storage key is left abstract: the key is a parameter.\<close>

definition upload_artifact ::
  "(string \<Rightarrow> string) \<Rightarrow> (uuid \<Rightarrow> uuid \<Rightarrow> string) \<Rightarrow> uuid \<Rightarrow> string \<Rightarrow> string \<Rightarrow> string option \<Rightarrow> string \<Rightarrow> uuid option
   \<Rightarrow> uuid_supply \<Rightarrow> time \<Rightarrow> artifact_db \<times> (string \<Rightarrow> string option)
   \<Rightarrow> (artifact_error + artifact) \<times> artifact_db \<times> (string \<Rightarrow> string option)" where
  "upload_artifact sha storage_key ws name ty mime content corr0 u now w =
    (case w of (db, storage) \<Rightarrow>
     let corr = opt_or corr0 (u 0) in
     case artifact_type_of ty of
       None \<Rightarrow> (Inl (Art_ValueError ''not a valid ArtifactType''), w)
     | Some t \<Rightarrow>
         (case artifact_init (u 1) now ws ws ws name t Upload None None mime of
            Inl e \<Rightarrow> (Inl e, w)
          | Inr a0 \<Rightarrow>
              (let key = storage_key ws (a_id a0); checksum = sha content; nbytes = int (length content);
                   p = upload_provenance (u 2) (a_id a0) corr
               in case artifact_begin_writing key now a0 of
                    Inl e \<Rightarrow> (Inl e, w)
                  | Inr a1 \<Rightarrow>
                      (let storage' = storage(key \<mapsto> content) in
                       case artifact_finalize checksum nbytes p now a1 of
                         Inl e \<Rightarrow> (Inl e, (db, storage'))
                       | Inr a \<Rightarrow>
                           (Inr a,
                            (art_outbox_write (artifact_ready_event (u 5, now) (a_id a) ws corr checksum nbytes)
                             (art_outbox_write (artifact_writing_event (u 4, now) (a_id a) ws ws corr key)
                              (art_outbox_write (artifact_registered_event (u 3, now) (a_id a) ws ws corr
                                 (artifact_type_value (a_artifact_type a))
                                 (root_type_value (a_root_type a)) (a_name a))
                               (provenance_save p (art_save a db)))), storage'))))))"

section \<open>Routes\<close>

type_synonym storage = "string \<Rightarrow> string option"

definition check_artifact_workspace :: "uuid \<Rightarrow> uuid \<Rightarrow> artifact_db \<Rightarrow> artifact_error + unit" where
  "check_artifact_workspace aid ws db =
    (case art_get aid db of
       None \<Rightarrow> Inl (Art_NotFound aid)
     | Some a \<Rightarrow> if a_workspace_id a \<noteq> ws then Inl (Art_NotFound aid) else Inr ())"

definition begin_writing_endpoint ::
  "uuid \<Rightarrow> uuid \<Rightarrow> string \<Rightarrow> uuid option \<Rightarrow> uuid_supply \<Rightarrow> time \<Rightarrow> artifact_db
   \<Rightarrow> artifact_error + (artifact \<times> artifact_db)" where
  "begin_writing_endpoint aid ws ref corr u now db =
     rbind (check_artifact_workspace aid ws db) (\<lambda>_. begin_writing aid ref corr u now db)"

definition write_content_endpoint ::
  "uuid \<Rightarrow> string \<Rightarrow> artifact_db \<Rightarrow> storage \<Rightarrow> artifact_error + (int \<times> storage)" where
  "write_content_endpoint aid content db storage =
    (case art_get aid db of
       None \<Rightarrow> Inl (Art_NotFound aid)
     | Some a \<Rightarrow>
         if a_status a \<noteq> A_WRITING then Inl (Art_Conflict ''must be in writing state'')
         else if \<not> str_truthy (a_storage_ref a) then Inl (Art_Validation ''no storage_ref'')
         else Inr (int (length content), storage(the (a_storage_ref a) \<mapsto> content)))"

text \<open>\<open>content\<close> is the decoded \<open>content_base64\<close>, if any: it is written before anything is checked.\<close>

definition write_inline_content :: "uuid \<Rightarrow> string \<Rightarrow> artifact_db \<Rightarrow> storage \<Rightarrow> storage" where
  "write_inline_content aid content db storage =
    (case art_get aid db of
       None \<Rightarrow> storage
     | Some a \<Rightarrow> if str_truthy (a_storage_ref a) then storage(the (a_storage_ref a) \<mapsto> content) else storage)"

definition finalize_artifact_endpoint ::
  "uuid \<Rightarrow> uuid \<Rightarrow> string \<Rightarrow> int \<Rightarrow> string option \<Rightarrow> uuid option \<Rightarrow> uuid_supply \<Rightarrow> time
   \<Rightarrow> artifact_db \<Rightarrow> storage \<Rightarrow> (artifact_error + artifact) \<times> artifact_db \<times> storage" where
  "finalize_artifact_endpoint aid ws checksum nbytes content corr u now db storage =
    (let storage' = (case content of None \<Rightarrow> storage | Some c \<Rightarrow> write_inline_content aid c db storage)
     in case rbind (check_artifact_workspace aid ws db)
               (\<lambda>_. finalize_artifact aid checksum nbytes corr u now db) of
          Inl e \<Rightarrow> (Inl e, db, storage')
        | Inr (a, db') \<Rightarrow> (Inr a, db', storage'))"

definition fail_artifact_endpoint ::
  "uuid \<Rightarrow> uuid \<Rightarrow> string option \<Rightarrow> bool \<Rightarrow> uuid option \<Rightarrow> uuid_supply \<Rightarrow> time \<Rightarrow> artifact_db
   \<Rightarrow> artifact_error + (artifact \<times> artifact_db)" where
  "fail_artifact_endpoint aid ws reason part corr u now db =
     rbind (check_artifact_workspace aid ws db) (\<lambda>_. fail_artifact aid reason part corr u now db)"

definition record_lineage_endpoint ::
  "uuid \<Rightarrow> uuid \<Rightarrow> uuid \<Rightarrow> string \<Rightarrow> uuid option \<Rightarrow> uuid option \<Rightarrow> uuid option \<Rightarrow> uuid_supply \<Rightarrow> time
   \<Rightarrow> artifact_db \<Rightarrow> artifact_error + (lineage_edge \<times> artifact_db)" where
  "record_lineage_endpoint child parent ws ty run_id step_id corr u now db =
     rbind (check_artifact_workspace child ws db) (\<lambda>_.
     rbind (check_artifact_workspace parent ws db) (\<lambda>_.
     record_lineage_edge child parent ty run_id step_id ws corr u now db))"

section \<open>Lemmas\<close>

lemma upsert_fresh: "key r \<notin> key ` set rows \<Longrightarrow> upsert key r rows = rows @ [r]"
  by (induction rows) auto

interpretation art_repo: table art_get art_save a_id id
proof (unfold_locales, goal_cases)
  case (1 k r db)
  then show ?case by (simp add: art_get_def art_save_def)
next
  case (2 k db r)
  then show ?case by (auto simp: art_get_def dest: find_row_key)
qed simp

lemma art_frames [simp]:
  "ad_artifacts (art_outbox_write e db) = ad_artifacts db" "ad_provenance (art_outbox_write e db) = ad_provenance db"
  "ad_edges (art_outbox_write e db) = ad_edges db" "art_get k (art_outbox_write e db) = art_get k db"
  "ad_provenance (art_save a db) = ad_provenance db" "ad_edges (art_save a db) = ad_edges db"
  "ad_artifacts (provenance_save p db) = ad_artifacts db" "ad_edges (provenance_save p db) = ad_edges db"
  "art_get k (provenance_save p db) = art_get k db"
  "ad_artifacts (edge_save x db) = ad_artifacts db" "ad_provenance (edge_save x db) = ad_provenance db"
  "art_get k (edge_save x db) = art_get k db" "ad_edges (edge_save x db) = ad_edges db @ [x]"
  by (simp_all add: art_outbox_write_def art_save_def provenance_save_def edge_save_def art_get_def)

lemma provenance_frames [simp]:
  "provenance_get_by_artifact k (art_outbox_write e db) = provenance_get_by_artifact k db"
  "provenance_get_by_artifact k (art_save a db) = provenance_get_by_artifact k db"
  "provenance_get_by_artifact k (edge_save x db) = provenance_get_by_artifact k db"
  by (simp_all add: provenance_get_by_artifact_def)

text \<open>What holds of a ready artifact, of the rows, and of the lineage.\<close>

definition ready_complete :: "artifact_db \<Rightarrow> artifact \<Rightarrow> bool" where
  "ready_complete db a =
    (\<exists>p c n. provenance_get_by_artifact (a_id a) db = Some p
       \<and> missing_components p (root_type_value (a_root_type a)) = []
       \<and> a_checksum a = Some c \<and> length c = 64 \<and> a_size_bytes a = Some n \<and> 0 \<le> n)"

definition rows_ok :: "artifact_db \<Rightarrow> bool" where
  "rows_ok db = (distinct (map a_id (ad_artifacts db)) \<and> distinct (map pv_id (ad_provenance db))
     \<and> (\<forall>p \<in> set (ad_provenance db). pv_artifact_id p \<in> a_id ` set (ad_artifacts db)))"

definition ready_ok :: "artifact_db \<Rightarrow> bool" where
  "ready_ok db = (\<forall>aid a. art_get aid db = Some a \<and> a_status a = A_READY \<longrightarrow> ready_complete db a)"

definition same_workspace :: "artifact_db \<Rightarrow> uuid \<Rightarrow> uuid \<Rightarrow> bool" where
  "same_workspace db x y = (\<exists>a b. art_get x db = Some a \<and> art_get y db = Some b
     \<and> a_workspace_id a = a_workspace_id b)"

definition edges_ok :: "artifact_db \<Rightarrow> bool" where
  "edges_ok db = (acyclic (parent_rel (ad_edges db))
     \<and> (\<forall>e \<in> set (ad_edges db). same_workspace db (le_child e) (le_parent e)))"

definition art_inv :: "artifact_db \<Rightarrow> bool" where
  "art_inv db = (rows_ok db \<and> ready_ok db \<and> edges_ok db)"

definition ready_kept :: "artifact_db \<Rightarrow> artifact_db \<Rightarrow> bool" where
  "ready_kept db db' = (\<forall>aid a. art_get aid db = Some a \<and> a_status a = A_READY \<longrightarrow>
     art_get aid db' = Some a \<and> provenance_get_by_artifact aid db' = provenance_get_by_artifact aid db)"

lemma ready_kept_refl [simp]: "ready_kept db db"
  by (simp add: ready_kept_def)

lemma ready_kept_trans: "\<lbrakk> ready_kept db1 db2; ready_kept db2 db3 \<rbrakk> \<Longrightarrow> ready_kept db1 db3"
  unfolding ready_kept_def by metis

text \<open>Everything that moves an existing artifact.\<close>

lemma art_update:
  assumes inv: "art_inv db" and a0: "art_get aid db = Some a0"
    and a: "a_id a = aid" "a_workspace_id a = a_workspace_id a0" "a_status a0 \<noteq> A_READY"
    and ready: "a_status a = A_READY \<Longrightarrow> ready_complete db a"
  shows "art_inv (art_outbox_write e (art_save a db)) \<and> ready_kept db (art_outbox_write e (art_save a db))"
proof -
  let ?db = "art_outbox_write e (art_save a db)"
  have get: "art_get k ?db = (if k = aid then Some a else art_get k db)" for k
    using a(1) by (simp add: art_repo.get_put)
  have keys: "a_id ` set (ad_artifacts ?db) = insert aid (a_id ` set (ad_artifacts db))"
    using a(1) by (simp add: art_save_def keys_upsert)
  have rows: "rows_ok ?db"
    using inv keys by (auto simp: art_inv_def rows_ok_def art_save_def distinct_upsert)
  have complete: "ready_complete ?db b = ready_complete db b" for b
    by (simp add: ready_complete_def)
  have "ready_ok ?db"
    using inv ready unfolding ready_ok_def complete get
    by (auto simp: art_inv_def ready_ok_def split: if_splits)
  moreover have "same_workspace ?db x y = same_workspace db x y" for x y
    unfolding same_workspace_def get using a0 a(2) by auto
  ultimately have "art_inv ?db" using inv rows by (simp add: art_inv_def edges_ok_def)
  moreover have "ready_kept db ?db"
    unfolding ready_kept_def get using a0 a(3) by auto
  ultimately show ?thesis ..
qed

text \<open>Everything that adds an artifact.\<close>

lemma find_append_None: "find P xs = None \<Longrightarrow> find P (xs @ ys) = find P ys"
  by (induction xs) (auto split: if_splits)

lemma find_append_other: "\<not> P y \<Longrightarrow> find P (xs @ [y]) = find P xs"
  by (induction xs) auto

lemma art_add:
  assumes inv: "art_inv db" and fresh: "a_id a \<notin> a_id ` set (ad_artifacts db)" "pv_id p \<notin> pv_id ` set (ad_provenance db)"
    and p: "pv_artifact_id p = a_id a"
    and ready: "a_status a = A_READY \<Longrightarrow>
      missing_components p (root_type_value (a_root_type a)) = []
      \<and> (\<exists>c n. a_checksum a = Some c \<and> length c = 64 \<and> a_size_bytes a = Some n \<and> 0 \<le> n)"
    and db': "ad_artifacts db' = ad_artifacts (art_save a db)" "ad_provenance db' = upsert pv_id p (ad_provenance db)"
      "ad_edges db' = ad_edges db"
  shows "art_inv db' \<and> ready_kept db db'"
proof -
  have arts: "ad_artifacts db' = ad_artifacts db @ [a]" and provs: "ad_provenance db' = ad_provenance db @ [p]"
    using fresh db' by (simp_all add: art_save_def upsert_fresh)
  have get: "art_get k db' = (if k = a_id a then Some a else art_get k db)" for k
    using art_repo.get_put [of k a db] by (simp add: art_get_def db'(1))
  have "\<forall>q \<in> set (ad_provenance db). pv_artifact_id q \<noteq> a_id a"
    using inv fresh(1) unfolding art_inv_def rows_ok_def by metis
  then have none: "provenance_get_by_artifact (a_id a) db = None"
    by (auto simp: provenance_get_by_artifact_def find_None_iff)
  have prov: "provenance_get_by_artifact k db' = (if k = a_id a then Some p else provenance_get_by_artifact k db)" for k
    using none p by (simp add: provenance_get_by_artifact_def provs find_append_None find_append_other)
  have gnone: "art_get (a_id a) db = None" using fresh(1) by (simp add: art_get_def find_row_None_iff)
  have "rows_ok db'"
    using inv fresh p by (auto simp: art_inv_def rows_ok_def arts provs)
  moreover have "ready_ok db'"
    unfolding ready_ok_def
  proof (intro allI impI, elim conjE)
    fix k b
    assume b: "art_get k db' = Some b" "a_status b = A_READY"
    show "ready_complete db' b"
    proof (cases "k = a_id a")
      case True
      then show ?thesis using b ready by (auto simp: get ready_complete_def prov)
    next
      case False
      then have "art_get k db = Some b" "a_id b = k" using b(1) get art_repo.get_key by auto
      then show ?thesis using inv b(2) False by (auto simp: art_inv_def ready_ok_def ready_complete_def prov)
    qed
  qed
  moreover have "same_workspace db x y \<Longrightarrow> same_workspace db' x y" for x y
    using gnone by (auto simp: same_workspace_def get)
  then have "edges_ok db'" using inv by (simp add: art_inv_def edges_ok_def db'(3))
  moreover have "ready_kept db db'"
    using gnone by (auto simp: ready_kept_def get prov)
  ultimately show ?thesis by (simp add: art_inv_def)
qed

text \<open>Recording an edge.  The cycle check looks at the edges of one workspace; since edges never
  leave a workspace this is enough.\<close>

lemma reach_in_workspace:
  assumes "\<forall>e \<in> set (ad_edges db). same_workspace db (le_child e) (le_parent e)"
    and "(x, y) \<in> (parent_rel (ad_edges db))\<^sup>*" and "art_get x db = Some a" "a_workspace_id a = ws"
  shows "(x, y) \<in> (set (list_edges_by_workspace ws db))\<^sup>* \<and> (\<exists>b. art_get y db = Some b \<and> a_workspace_id b = ws)"
  using assms(2)
proof (induction rule: rtrancl_induct)
  case base
  then show ?case using assms(3,4) by simp
next
  case (step y z)
  then obtain e where e: "e \<in> set (ad_edges db)" "y = le_child e" "z = le_parent e"
    by (auto simp: parent_rel_def)
  then have "(y, z) \<in> set (list_edges_by_workspace ws db)"
    using step.IH by (auto simp: list_edges_by_workspace_def)
  moreover have "\<exists>b. art_get z db = Some b \<and> a_workspace_id b = ws"
    using assms(1) e step.IH by (auto simp: same_workspace_def)
  ultimately show ?case using step.IH by (auto intro: rtrancl_into_rtrancl)
qed

lemma record_lineage_inv:
  assumes inv: "art_inv db"
    and r: "record_lineage_endpoint child parent ws ty run_id step_id corr u now db = Inr (e, db')"
  shows "art_inv db' \<and> ready_kept db db'"
proof -
  from r obtain a b where ab: "art_get child db = Some a" "a_workspace_id a = ws"
      "art_get parent db = Some b" "a_workspace_id b = ws"
    and rec: "record_lineage_edge child parent ty run_id step_id ws corr u now db = Inr (e, db')"
    by (auto simp: record_lineage_endpoint_def check_artifact_workspace_def rbind_Inr_iff
        split: option.splits if_splits)
  then have nc: "\<not> detect_cycle child parent (list_edges_by_workspace ws db)"
    and e: "le_child e = child" "le_parent e = parent"
    and db': "ad_edges db' = ad_edges db @ [e]" "\<And>k. art_get k db' = art_get k db"
      "ad_artifacts db' = ad_artifacts db" "ad_provenance db' = ad_provenance db"
    by (auto simp: record_lineage_edge_def edge_init_def split: if_splits option.splits sum.splits)
  have ws: "\<forall>x \<in> set (ad_edges db). same_workspace db (le_child x) (le_parent x)"
    using inv by (simp add: art_inv_def edges_ok_def)
  have "(parent, child) \<notin> (parent_rel (ad_edges db))\<^sup>*"
    using nc reach_in_workspace [OF ws _ ab(3,4)] by (auto simp: detect_cycle_iff)
  moreover have "parent_rel (ad_edges db') = insert (child, parent) (parent_rel (ad_edges db))"
    by (auto simp: parent_rel_def db' e)
  ultimately have "acyclic (parent_rel (ad_edges db'))"
    using inv by (simp add: acyclic_insert art_inv_def edges_ok_def)
  moreover have sw: "same_workspace db' x y = same_workspace db x y" for x y
    by (simp add: same_workspace_def db')
  ultimately have "edges_ok db'"
    using ws ab e by (auto simp: edges_ok_def db' sw) (auto simp: same_workspace_def)
  moreover have p: "provenance_get_by_artifact k db' = provenance_get_by_artifact k db" for k
    by (simp add: provenance_get_by_artifact_def db')
  have "ready_ok db'"
    using inv unfolding art_inv_def ready_ok_def ready_complete_def p db'(2) by blast
  moreover have "rows_ok db'" using inv by (simp add: art_inv_def rows_ok_def db'(3,4))
  moreover have "ready_kept db db'" by (simp add: ready_kept_def p db'(2))
  ultimately show ?thesis by (simp add: art_inv_def)
qed

lemma built_provenance [simp]:
  "pv_id (command_provenance cmd i aid corr) = i" "pv_artifact_id (command_provenance cmd i aid corr) = aid"
  "pv_id (upload_provenance i aid corr) = i" "pv_artifact_id (upload_provenance i aid corr) = aid"
  by (simp_all add: command_provenance_def upload_provenance_def)

lemma register_inv:
  assumes inv: "art_inv db" and r: "register_artifact cmd u now db = Inr (a, db')"
    and fresh: "u 1 \<notin> a_id ` set (ad_artifacts db)" "u 2 \<notin> pv_id ` set (ad_provenance db)"
  shows "art_inv db' \<and> ready_kept db db'"
proof -
  let ?p = "command_provenance cmd (u 2) (a_id a) (opt_or (rg_correlation_id cmd) (u 0))"
  obtain ty root e where a: "artifact_init (u 1) now (rg_workspace_id cmd) (rg_task_id cmd) (rg_run_id cmd)
        (rg_name cmd) ty root (rg_step_id cmd) (rg_agent_invocation_id cmd) (rg_mime_type cmd) = Inr a"
    and db': "db' = art_outbox_write e (provenance_save ?p (art_save a db))"
    using r by (auto simp: register_artifact_def Let_def rbind_Inr_iff provenance_init_def split: option.splits if_splits)
  show ?thesis
    using artifact_init_pending [OF a] fresh
    by (intro art_add [OF inv, of a ?p]) (simp_all add: db', simp add: provenance_save_def)
qed

lemma upload_inv:
  assumes inv: "art_inv db"
    and r: "upload_artifact sha key ws name ty mime content corr u now (db, st) = (res, db', st')"
    and fresh: "u 1 \<notin> a_id ` set (ad_artifacts db)" "u 2 \<notin> pv_id ` set (ad_provenance db)"
    and sha: "\<And>c. length (sha c) = 64"
  shows "art_inv db' \<and> ready_kept db db'"
proof (cases res)
  case (Inl err)
  then have "db' = db" using r
    by (auto simp: upload_artifact_def Let_def split: option.splits sum.splits)
  then show ?thesis using inv by simp
next
  case (Inr a)
  obtain t a0 a1 e1 e2 e3 where a: "artifact_init (u 1) now ws ws ws name t Upload None None mime = Inr a0"
    "artifact_begin_writing (key ws (a_id a0)) now a0 = Inr a1"
    "artifact_finalize (sha content) (int (length content)) (upload_provenance (u 2) (a_id a0) (opt_or corr (u 0)))
       now a1 = Inr a"
    and db': "db' = art_outbox_write e1 (art_outbox_write e2 (art_outbox_write e3
        (provenance_save (upload_provenance (u 2) (a_id a0) (opt_or corr (u 0))) (art_save a db))))"
    using r Inr by (auto simp: upload_artifact_def Let_def split: option.splits sum.splits)
  let ?p = "upload_provenance (u 2) (a_id a0) (opt_or corr (u 0))"
  have f: "a_id a = u 1" "a_id a0 = u 1" "a_status a = A_READY"
    "missing_components ?p (root_type_value (a_root_type a)) = []"
    "a_checksum a = Some (py_lower (sha content))" "a_size_bytes a = Some (int (length content))"
    using a(2,3) artifact_init_pending [OF a(1)]
    by (auto simp: artifact_finalize_ok artifact_begin_writing_ok)
  moreover have "length (py_lower (sha content)) = 64" using sha by (simp add: py_lower_def)
  ultimately show ?thesis
    using fresh by (intro art_add [OF inv, of a ?p]) (simp_all add: db', simp add: provenance_save_def)
qed

lemma begin_inv:
  assumes "art_inv db" "begin_writing aid ref corr u now db = Inr (a, db')"
  shows "art_inv db' \<and> ready_kept db db'"
proof -
  obtain a0 e where "art_get aid db = Some a0" "artifact_begin_writing ref now a0 = Inr a"
    "db' = art_outbox_write e (art_save a db)"
    using assms(2) by (auto simp: begin_writing_def rbind_Inr_iff split: option.splits)
  moreover from this have "a_id a0 = aid" using art_repo.get_key by blast
  ultimately show ?thesis
    using art_update [OF assms(1), of aid a0 a] by (auto simp: artifact_begin_writing_ok)
qed

lemma fail_inv:
  assumes "art_inv db" "fail_artifact aid reason part corr u now db = Inr (a, db')"
  shows "art_inv db' \<and> ready_kept db db'"
proof -
  obtain a0 e where a0: "art_get aid db = Some a0" "artifact_fail reason part now a0 = Inr a"
    "db' = art_outbox_write e (art_save a db)"
    using assms(2) by (auto simp: fail_artifact_def rbind_Inr_iff split: option.splits)
  moreover have "a_id a0 = aid" using a0(1) art_repo.get_key by blast
  ultimately show ?thesis
    using art_update [OF assms(1), of aid a0 a] artifact_fail_status [OF a0(2)]
    by (auto simp: artifact_terminal_def)
qed

lemma finalize_inv:
  assumes "art_inv db" "finalize_artifact aid checksum nbytes corr u now db = Inr (a, db')"
  shows "art_inv db' \<and> ready_kept db db'"
proof -
  obtain a0 p e where a0: "art_get aid db = Some a0" "a_status a0 \<noteq> A_READY"
    "provenance_get_by_artifact aid db = Some p" "artifact_finalize checksum nbytes p now a0 = Inr a"
    "db' = art_outbox_write e (art_save a db)"
    using assms(2) by (auto simp: finalize_artifact_def rbind_Inr_iff split: option.splits if_splits)
  moreover have "a_id a0 = aid" using a0(1) art_repo.get_key by blast
  moreover have "ready_complete db a" if "a_id a0 = aid"
    using a0(3,4) that by (auto simp: artifact_finalize_ok ready_complete_def py_lower_def)
  ultimately show ?thesis
    using art_update [OF assms(1), of aid a0 a] by (auto simp: artifact_finalize_ok)
qed

section \<open>The service as a state machine\<close>

text \<open>A state is the database and the storage; a step is a successful or refused route call, the
  registering ones with fresh identifiers.\<close>

inductive art_step :: "(string \<Rightarrow> string) \<Rightarrow> artifact_db \<times> storage \<Rightarrow> artifact_db \<times> storage \<Rightarrow> bool" for sha where
  st_register: "\<lbrakk> register_artifact cmd u now db = Inr (a, db');
     u 1 \<notin> a_id ` set (ad_artifacts db); u 2 \<notin> pv_id ` set (ad_provenance db) \<rbrakk> \<Longrightarrow>
     art_step sha (db, st) (db', st)"
| st_begin: "begin_writing_endpoint aid ws ref corr u now db = Inr (a, db') \<Longrightarrow> art_step sha (db, st) (db', st)"
| st_content: "write_content_endpoint aid content db st = Inr (n, st') \<Longrightarrow> art_step sha (db, st) (db, st')"
| st_finalize: "finalize_artifact_endpoint aid ws checksum nbytes content corr u now db st = (r, db', st') \<Longrightarrow>
     art_step sha (db, st) (db', st')"
| st_fail: "fail_artifact_endpoint aid ws reason part corr u now db = Inr (a, db') \<Longrightarrow> art_step sha (db, st) (db', st)"
| st_upload: "\<lbrakk> upload_artifact sha key ws name ty mime content corr u now (db, st) = (r, db', st');
     u 1 \<notin> a_id ` set (ad_artifacts db); u 2 \<notin> pv_id ` set (ad_provenance db) \<rbrakk> \<Longrightarrow>
     art_step sha (db, st) (db', st')"
| st_lineage: "record_lineage_endpoint child parent ws ty run_id step_id corr u now db = Inr (e, db') \<Longrightarrow>
     art_step sha (db, st) (db', st)"

lemma finalize_endpoint_db:
  "finalize_artifact_endpoint aid ws checksum nbytes content corr u now db st = (r, db', st') \<Longrightarrow>
   db' = db \<or> (\<exists>a. finalize_artifact aid checksum nbytes corr u now db = Inr (a, db'))"
  by (auto simp: finalize_artifact_endpoint_def Let_def rbind_Inr_iff split: sum.splits prod.splits)

lemma art_step_inv:
  assumes "art_step sha p q" "art_inv (fst p)" "\<And>c. length (sha c) = 64"
  shows "art_inv (fst q) \<and> ready_kept (fst p) (fst q)"
  using assms(1,2)
proof (induction rule: art_step.induct)
  case (st_register cmd u now db a db' st)
  then show ?case using register_inv by simp
next
  case (st_begin aid ws ref corr u now db a db' st)
  then show ?case using begin_inv by (auto simp: begin_writing_endpoint_def rbind_Inr_iff)
next
  case (st_finalize aid ws checksum nbytes content corr u now db st r db' st')
  then show ?case using finalize_endpoint_db finalize_inv by (metis fst_conv ready_kept_refl)
next
  case (st_fail aid ws reason part corr u now db a db' st)
  then show ?case using fail_inv by (auto simp: fail_artifact_endpoint_def rbind_Inr_iff)
next
  case (st_upload key ws name ty mime content corr u now db st r db' st')
  then show ?case using upload_inv [OF _ _ _ _ assms(3)] by simp
next
  case (st_lineage child parent ws ty run_id step_id corr u now db e db' st)
  then show ?case using record_lineage_inv by simp
qed simp

lemma art_reach_inv:
  assumes "(art_step sha)\<^sup>*\<^sup>* p q" "art_inv (fst p)" "\<And>c. length (sha c) = 64"
  shows "art_inv (fst q) \<and> ready_kept (fst p) (fst q)"
  using assms(1)
proof (induction rule: rtranclp_induct)
  case base
  then show ?case using assms(2) by simp
next
  case (step q r)
  then have "art_inv (fst r)" "ready_kept (fst q) (fst r)"
    using art_step_inv [of sha q r] assms(3) by blast+
  then show ?case using step.IH ready_kept_trans by blast
qed

definition empty_artifact_db :: artifact_db where
  "empty_artifact_db = \<lparr> ad_artifacts = [], ad_provenance = [], ad_edges = [], ad_outbox = [] \<rparr>"

lemma empty_art_inv [simp]: "art_inv empty_artifact_db"
  by (simp add: art_inv_def rows_ok_def ready_ok_def edges_ok_def empty_artifact_db_def art_get_def
      parent_rel_def acyclic_def)

section \<open>Properties\<close>

text \<open>C23. A ready artifact is complete and final: in every state the service reaches from an empty
  database, an artifact that is ready has its provenance record with nothing missing for its root
  type, a checksum of 64 characters and a size, and no later call changes its row or its
  provenance.\<close>

theorem ready_is_final:
  assumes "\<And>c. length (sha c) = 64"
    and "(art_step sha)\<^sup>*\<^sup>* (empty_artifact_db, st0) (db, st)" "(art_step sha)\<^sup>*\<^sup>* (db, st) (db', st')"
    and "art_get aid db = Some a" "a_status a = A_READY"
  shows "art_get aid db' = Some a
    \<and> (\<exists>p. provenance_get_by_artifact aid db = Some p \<and> provenance_get_by_artifact aid db' = Some p
         \<and> missing_components p (root_type_value (a_root_type a)) = [])
    \<and> (\<exists>c n. a_checksum a = Some c \<and> length c = 64 \<and> a_size_bytes a = Some n \<and> 0 \<le> n)"
proof -
  have inv: "art_inv db" using art_reach_inv [OF assms(2) _ assms(1)] by simp
  then have kept: "ready_kept db db'" using art_reach_inv [OF assms(3) _ assms(1)] by simp
  have "a_id a = aid" using assms(4) art_repo.get_key by blast
  then have "ready_complete db a" "art_get aid db' = Some a"
    "provenance_get_by_artifact aid db' = provenance_get_by_artifact aid db"
    using inv kept assms(4,5) by (auto simp: art_inv_def ready_ok_def ready_kept_def)
  then show ?thesis using \<open>a_id a = aid\<close> by (auto simp: ready_complete_def)
qed

definition demo_sha :: "string \<Rightarrow> string" where
  "demo_sha c = replicate 64 (CHR ''a'')"

definition demo_artifact :: artifact where
  "demo_artifact = \<lparr> a_id = 11, a_workspace_id = 7, a_task_id = 7, a_run_id = 7, a_step_id = None,
     a_agent_invocation_id = None, a_root_type = Upload, a_artifact_type = A_File, a_status = A_READY,
     a_name = ''n'', a_mime_type = None, a_storage_ref = Some ''key'', a_size_bytes = Some 1,
     a_checksum = Some (demo_sha ''x''), a_lineage = [], a_metadata = [], a_ready_at = Some 5,
     a_failed_at = None, a_created_at = 5, a_updated_at = 5 \<rparr>"

lemma demo_upload:
  "\<exists>db st. (art_step demo_sha)\<^sup>*\<^sup>* (empty_artifact_db, \<lambda>_. None) (db, st) \<and> art_get 11 db = Some demo_artifact"
proof -
  have c: "int16_ok (demo_sha c)" "py_lower (demo_sha c) = demo_sha c" "length (demo_sha c) = 64"
    "\<not> is_blank ''n''" "\<not> is_blank ''key''" for c
    unfolding demo_sha_def by code_simp+
  obtain r db st where up: "upload_artifact demo_sha (\<lambda>_ _. ''key'') 7 ''n'' ''file'' None ''x'' None (\<lambda>i. 10 + i) 5
      (empty_artifact_db, \<lambda>_. None) = (r, db, st)" by (metis prod.collapse)
  then have "art_get 11 db = Some demo_artifact"
    by (auto simp: upload_artifact_def Let_def artifact_type_of_def artifact_init_def artifact_begin_writing_def
        artifact_finalize_def artifact_transition_def artifact_terminal_def validate_complete_def
        missing_components_def missing_tool_version_def opt_blank_def upload_provenance_def c
        art_repo.get_put demo_artifact_def)
  moreover have "art_step demo_sha (empty_artifact_db, \<lambda>_. None) (db, st)"
    using up by (rule st_upload) (simp_all add: empty_artifact_db_def)
  ultimately show ?thesis by blast
qed

theorem ready_is_final_witness:
  "\<exists>db st. (art_step demo_sha)\<^sup>*\<^sup>* (empty_artifact_db, \<lambda>_. None) (db, st)
     \<and> art_get 11 db = Some demo_artifact
     \<and> (\<exists>p. provenance_get_by_artifact 11 db = Some p \<and> missing_components p ''upload'' = [])"
proof -
  obtain db st where s: "(art_step demo_sha)\<^sup>*\<^sup>* (empty_artifact_db, \<lambda>_. None) (db, st)"
    "art_get 11 db = Some demo_artifact" using demo_upload by blast
  have "length (demo_sha c) = 64" for c by (simp add: demo_sha_def)
  from ready_is_final [of demo_sha, OF this s(1) rtranclp.rtrancl_refl s(2)] s show ?thesis
    by (auto simp: demo_artifact_def)
qed

text \<open>C24. The lineage that the routes record is free of cycles and never leaves a workspace, in every
  state the service reaches.\<close>

theorem lineage_stays_acyclic:
  assumes "\<And>c. length (sha c) = 64" and "(art_step sha)\<^sup>*\<^sup>* (empty_artifact_db, st0) (db, st)"
  shows "acyclic (parent_rel (ad_edges db))
    \<and> list_all (\<lambda>e. same_workspace db (le_child e) (le_parent e)) (ad_edges db)"
proof -
  have "art_inv db" using art_reach_inv [OF assms(2) _ assms(1)] by simp
  then show ?thesis by (simp add: art_inv_def edges_ok_def list_all_iff)
qed

theorem lineage_stays_acyclic_witness:
  "\<exists>db st. (art_step demo_sha)\<^sup>*\<^sup>* (empty_artifact_db, \<lambda>_. None) (db, st) \<and> acyclic (parent_rel (ad_edges db))"
proof -
  obtain db st where s: "(art_step demo_sha)\<^sup>*\<^sup>* (empty_artifact_db, \<lambda>_. None) (db, st)"
    using demo_upload by blast
  have "length (demo_sha c) = 64" for c by (simp add: demo_sha_def)
  from lineage_stays_acyclic [of demo_sha, OF this s] s show ?thesis by blast
qed

text \<open>The stored content of a ready artifact is not final: a finalize call that carries content
  overwrites it even though the call is refused, from any workspace, so the checksum no longer
  describes the content.\<close>

theorem finalize_overwrites_ready_content:
  assumes "art_get aid db = Some a" "a_status a = A_READY" "a_storage_ref a = Some ref" "ref \<noteq> []"
  shows "\<exists>err. finalize_artifact_endpoint aid ws checksum nbytes (Some content) corr u now db st =
      (Inl err, db, st(ref \<mapsto> content))"
  using assms
  by (auto simp: finalize_artifact_endpoint_def write_inline_content_def str_truthy_def
      check_artifact_workspace_def finalize_artifact_def)

theorem finalize_overwrites_ready_content_witness:
  "\<exists>err. finalize_artifact_endpoint 11 99 ''bad'' 0 (Some ''evil'') None (\<lambda>i. i) 9
     (art_save demo_artifact empty_artifact_db) [''key'' \<mapsto> ''x''] =
     (Inl err, art_save demo_artifact empty_artifact_db, [''key'' \<mapsto> ''evil''])"
  using finalize_overwrites_ready_content [of 11 "art_save demo_artifact empty_artifact_db" demo_artifact
      "''key''" 99 "''bad''" 0 "''evil''" None "\<lambda>i. i" 9 "[''key'' \<mapsto> ''x'']"]
  by (simp add: demo_artifact_def art_repo.get_put)

end
