(* ===== verification/Sandbox.thy ===== *)
theory Sandbox
  imports Interfaces
begin

text \<open>
  The sandbox entity of \<open>apps/execution-service/src/domain/sandbox.py\<close>, the errors of
  \<open>domain/errors.py\<close>, and the mapping between the entity and its database row
  (\<open>infrastructure/db/mapping.py\<close>, with the CHECK constraints of \<open>infrastructure/db/models.py\<close>).
\<close>

datatype sandbox_type = Container | Subprocess

fun sandbox_type_value :: "sandbox_type \<Rightarrow> string" where
  "sandbox_type_value Container = ''container''"
| "sandbox_type_value Subprocess = ''subprocess''"

datatype sandbox_status =
  X_PROVISIONING | X_READY | X_EXECUTING | X_IDLE | X_TERMINATING | X_TERMINATED | X_FAILED

fun sandbox_status_value :: "sandbox_status \<Rightarrow> string" where
  "sandbox_status_value X_PROVISIONING = ''provisioning''"
| "sandbox_status_value X_READY = ''ready''"
| "sandbox_status_value X_EXECUTING = ''executing''"
| "sandbox_status_value X_IDLE = ''idle''"
| "sandbox_status_value X_TERMINATING = ''terminating''"
| "sandbox_status_value X_TERMINATED = ''terminated''"
| "sandbox_status_value X_FAILED = ''failed''"

datatype termination_reason = TR_Completed | TR_Timeout | TR_Policy_Violation | TR_Error | TR_Manual

fun termination_reason_value :: "termination_reason \<Rightarrow> string" where
  "termination_reason_value TR_Completed = ''completed''"
| "termination_reason_value TR_Timeout = ''timeout''"
| "termination_reason_value TR_Policy_Violation = ''policy_violation''"
| "termination_reason_value TR_Error = ''error''"
| "termination_reason_value TR_Manual = ''manual''"

declare sandbox_type_value.simps [value_simps] sandbox_status_value.simps [value_simps]
  termination_reason_value.simps [value_simps]

text \<open>\<open>SandboxType(s)\<close>, \<open>SandboxStatus(s)\<close> and \<open>TerminationReason(s)\<close>: \<open>None\<close> is the
  \<open>ValueError\<close> of an unknown value.\<close>

definition sandbox_type_of :: "string \<Rightarrow> sandbox_type option" where
  "sandbox_type_of s = find (\<lambda>t. sandbox_type_value t = s) [Container, Subprocess]"

definition sandbox_status_of :: "string \<Rightarrow> sandbox_status option" where
  "sandbox_status_of s = find (\<lambda>t. sandbox_status_value t = s)
     [X_PROVISIONING, X_READY, X_EXECUTING, X_IDLE, X_TERMINATING, X_TERMINATED, X_FAILED]"

definition termination_reason_of :: "string \<Rightarrow> termination_reason option" where
  "termination_reason_of s = find (\<lambda>t. termination_reason_value t = s)
     [TR_Completed, TR_Timeout, TR_Policy_Violation, TR_Error, TR_Manual]"

lemma sandbox_type_of_value [simp]: "sandbox_type_of (sandbox_type_value t) = Some t"
  by (cases t) (simp_all add: sandbox_type_of_def)

lemma sandbox_status_of_value [simp]: "sandbox_status_of (sandbox_status_value t) = Some t"
  by (cases t) (simp_all add: sandbox_status_of_def)

lemma termination_reason_of_value [simp]: "termination_reason_of (termination_reason_value t) = Some t"
  by (cases t) (simp_all add: termination_reason_of_def)

text \<open>The exceptions of the service; \<open>X_Data\<close> and \<open>X_Integrity\<close> are raised by the database.\<close>

datatype exec_error =
    X_InvalidTransition string string string
  | X_TerminalState string string string
  | X_Busy uuid string
  | X_Validation string string
  | X_Domain string
  | X_ValueError string
  | X_Data string
  | X_Integrity string
  | X_Backend string

section \<open>The state machine\<close>

fun sandbox_transitions :: "sandbox_status \<Rightarrow> sandbox_status list" where
  "sandbox_transitions X_PROVISIONING = [X_READY, X_FAILED]"
| "sandbox_transitions X_READY = [X_EXECUTING, X_TERMINATING]"
| "sandbox_transitions X_EXECUTING = [X_IDLE, X_FAILED, X_TERMINATING]"
| "sandbox_transitions X_IDLE = [X_EXECUTING, X_TERMINATING]"
| "sandbox_transitions X_FAILED = [X_TERMINATING]"
| "sandbox_transitions X_TERMINATING = [X_TERMINATED]"
| "sandbox_transitions X_TERMINATED = []"

declare sandbox_transitions.simps [trans_simps]

definition sandbox_terminal :: "sandbox_status \<Rightarrow> bool" where
  "sandbox_terminal s = (s = X_TERMINATED)"

record sandbox =
  sb_id :: uuid
  sb_workspace_id :: uuid
  sb_task_id :: uuid
  sb_run_id :: uuid
  sb_step_id :: uuid
  sb_agent_invocation_id :: uuid
  sb_type :: sandbox_type
  sb_status :: sandbox_status
  sb_policy_snapshot :: dict
  sb_resource_limits :: dict
  sb_network_egress_policy :: dict
  sb_started_at :: "time option"
  sb_terminated_at :: "time option"
  sb_termination_reason :: "termination_reason option"
  sb_error_detail :: "dict option"
  sb_created_at :: time
  sb_updated_at :: time

text \<open>The constructor as the services call it; a \<open>UUID\<close> is never false, so no check can fail.\<close>

definition sandbox_init ::
  "uuid \<Rightarrow> time \<Rightarrow> uuid \<Rightarrow> uuid \<Rightarrow> uuid \<Rightarrow> uuid \<Rightarrow> uuid \<Rightarrow> sandbox_type \<Rightarrow> dict \<Rightarrow> dict \<Rightarrow> dict \<Rightarrow> sandbox" where
  "sandbox_init i now ws task run_id step inv_id ty policy limits egress = \<lparr>
     sb_id = i, sb_workspace_id = ws, sb_task_id = task, sb_run_id = run_id, sb_step_id = step,
     sb_agent_invocation_id = inv_id, sb_type = ty, sb_status = X_PROVISIONING,
     sb_policy_snapshot = policy, sb_resource_limits = limits, sb_network_egress_policy = egress,
     sb_started_at = None, sb_terminated_at = None, sb_termination_reason = None,
     sb_error_detail = None, sb_created_at = now, sb_updated_at = now \<rparr>"

definition sandbox_transition :: "sandbox_status \<Rightarrow> time \<Rightarrow> sandbox \<Rightarrow> exec_error + sandbox" where
  "sandbox_transition target now s =
    (if sandbox_terminal (sb_status s)
     then Inl (X_TerminalState ''Sandbox'' (sandbox_status_value (sb_status s)) (sandbox_status_value target))
     else if target \<notin> set (sandbox_transitions (sb_status s))
     then Inl (X_InvalidTransition ''Sandbox'' (sandbox_status_value (sb_status s)) (sandbox_status_value target))
     else Inr (s\<lparr>sb_status := target, sb_updated_at := now\<rparr>))"

definition mark_ready :: "time \<Rightarrow> sandbox \<Rightarrow> exec_error + sandbox" where
  "mark_ready now s = rbind (sandbox_transition X_READY now s) (\<lambda>s. Inr (s\<lparr>sb_started_at := Some now\<rparr>))"

definition mark_executing :: "time \<Rightarrow> sandbox \<Rightarrow> exec_error + sandbox" where
  "mark_executing = sandbox_transition X_EXECUTING"

definition mark_idle :: "time \<Rightarrow> sandbox \<Rightarrow> exec_error + sandbox" where
  "mark_idle = sandbox_transition X_IDLE"

definition mark_failed :: "dict option \<Rightarrow> time \<Rightarrow> sandbox \<Rightarrow> exec_error + sandbox" where
  "mark_failed detail now s = rbind (sandbox_transition X_FAILED now s) (\<lambda>s. Inr (s\<lparr>sb_error_detail := detail\<rparr>))"

definition mark_terminating :: "termination_reason \<Rightarrow> time \<Rightarrow> sandbox \<Rightarrow> exec_error + sandbox" where
  "mark_terminating reason now s =
     rbind (sandbox_transition X_TERMINATING now s) (\<lambda>s. Inr (s\<lparr>sb_termination_reason := Some reason\<rparr>))"

definition mark_terminated :: "time \<Rightarrow> sandbox \<Rightarrow> exec_error + sandbox" where
  "mark_terminated now s =
     rbind (sandbox_transition X_TERMINATED now s) (\<lambda>s. Inr (s\<lparr>sb_terminated_at := Some now\<rparr>))"

definition sandbox_is_terminal :: "sandbox \<Rightarrow> bool" where
  "sandbox_is_terminal s = sandbox_terminal (sb_status s)"

definition sandbox_is_active :: "sandbox \<Rightarrow> bool" where
  "sandbox_is_active s = (sb_status s \<noteq> X_TERMINATED \<and> sb_status s \<noteq> X_FAILED)"

datatype sandbox_op =
    XReady | XExecuting | XIdle | XFailed "dict option" | XTerminating termination_reason | XTerminated

fun sandbox_apply :: "sandbox_op \<Rightarrow> time \<Rightarrow> sandbox \<Rightarrow> exec_error + sandbox" where
  "sandbox_apply XReady now s = mark_ready now s"
| "sandbox_apply XExecuting now s = mark_executing now s"
| "sandbox_apply XIdle now s = mark_idle now s"
| "sandbox_apply (XFailed d) now s = mark_failed d now s"
| "sandbox_apply (XTerminating r) now s = mark_terminating r now s"
| "sandbox_apply XTerminated now s = mark_terminated now s"

definition sandbox_frame ::
  "sandbox \<Rightarrow> uuid \<times> uuid \<times> uuid \<times> uuid \<times> uuid \<times> uuid \<times> sandbox_type \<times> dict \<times> dict \<times> dict \<times> time" where
  "sandbox_frame s = (sb_id s, sb_workspace_id s, sb_task_id s, sb_run_id s, sb_step_id s,
     sb_agent_invocation_id s, sb_type s, sb_policy_snapshot s, sb_resource_limits s,
     sb_network_egress_policy s, sb_created_at s)"

lemmas sandbox_op_defs = mark_ready_def mark_executing_def mark_idle_def mark_failed_def
  mark_terminating_def mark_terminated_def

lemma sandbox_transition_ok:
  "sandbox_transition target now s = Inr s' \<longleftrightarrow>
   target \<in> set (sandbox_transitions (sb_status s)) \<and> s' = s\<lparr>sb_status := target, sb_updated_at := now\<rparr>"
  by (cases "sb_status s") (auto simp: sandbox_transition_def sandbox_terminal_def)

interpretation sandbox_sm: state_machine sb_status sandbox_transitions sandbox_terminal sandbox_transition
  by unfold_locales (auto simp: sandbox_transition_ok is_ok_iff sandbox_terminal_def)

interpretation sandbox_entity:
  managed_entity sb_status sandbox_transitions sandbox_terminal sandbox_transition sandbox_apply sandbox_frame
proof (unfold_locales, goal_cases)
  case (1 op now s s')
  then show ?case
    by (cases op) (auto simp: sandbox_op_defs rbind_Inr_iff sandbox_transition_ok)
next
  case (2 op now s s')
  then show ?case
    by (cases op) (auto simp: sandbox_op_defs rbind_Inr_iff sandbox_transition_ok sandbox_frame_def)
qed

lemma sandbox_apply_ids: "sandbox_apply op now s = Inr s' \<Longrightarrow> sb_id s' = sb_id s \<and> sb_workspace_id s' = sb_workspace_id s"
  using sandbox_entity.app_frame [of op now s s'] by (simp add: sandbox_frame_def)

section \<open>Rows\<close>

record sandbox_row =
  sr_id :: uuid
  sr_workspace_id :: uuid
  sr_task_id :: uuid
  sr_run_id :: uuid
  sr_step_id :: uuid
  sr_agent_invocation_id :: uuid
  sr_type :: string
  sr_status :: string
  sr_policy_snapshot :: dict
  sr_resource_limits :: dict
  sr_network_egress_policy :: dict
  sr_started_at :: "time option"
  sr_terminated_at :: "time option"
  sr_termination_reason :: "string option"
  sr_error_detail :: "dict option"
  sr_created_at :: time
  sr_updated_at :: time

definition sandbox_domain_to_row :: "sandbox \<Rightarrow> sandbox_row" where
  "sandbox_domain_to_row s = \<lparr>
     sr_id = sb_id s, sr_workspace_id = sb_workspace_id s, sr_task_id = sb_task_id s,
     sr_run_id = sb_run_id s, sr_step_id = sb_step_id s,
     sr_agent_invocation_id = sb_agent_invocation_id s,
     sr_type = sandbox_type_value (sb_type s), sr_status = sandbox_status_value (sb_status s),
     sr_policy_snapshot = sb_policy_snapshot s, sr_resource_limits = sb_resource_limits s,
     sr_network_egress_policy = sb_network_egress_policy s, sr_started_at = sb_started_at s,
     sr_terminated_at = sb_terminated_at s,
     sr_termination_reason = map_option termination_reason_value (sb_termination_reason s),
     sr_error_detail = sb_error_detail s, sr_created_at = sb_created_at s,
     sr_updated_at = sb_updated_at s \<rparr>"

definition parse_reason :: "string option \<Rightarrow> exec_error + termination_reason option" where
  "parse_reason r =
    (if str_truthy r
     then (case termination_reason_of (the r) of
             None \<Rightarrow> Inl (X_ValueError ''not a valid TerminationReason'') | Some x \<Rightarrow> Inr (Some x))
     else Inr None)"

definition sandbox_row_to_domain :: "sandbox_row \<Rightarrow> exec_error + sandbox" where
  "sandbox_row_to_domain r =
    (case (sandbox_type_of (sr_type r), sandbox_status_of (sr_status r)) of
       (Some ty, Some st) \<Rightarrow>
         rbind (parse_reason (sr_termination_reason r)) (\<lambda>reason. Inr \<lparr>
           sb_id = sr_id r, sb_workspace_id = sr_workspace_id r, sb_task_id = sr_task_id r,
           sb_run_id = sr_run_id r, sb_step_id = sr_step_id r,
           sb_agent_invocation_id = sr_agent_invocation_id r, sb_type = ty, sb_status = st,
           sb_policy_snapshot = sr_policy_snapshot r, sb_resource_limits = sr_resource_limits r,
           sb_network_egress_policy = sr_network_egress_policy r, sb_started_at = sr_started_at r,
           sb_terminated_at = sr_terminated_at r, sb_termination_reason = reason,
           sb_error_detail = sr_error_detail r, sb_created_at = sr_created_at r,
           sb_updated_at = sr_updated_at r \<rparr>)
     | _ \<Rightarrow> Inl (X_ValueError ''not a valid enumeration value''))"

text \<open>The CHECK constraints of the table.\<close>

definition sandbox_row_checks :: "sandbox_row \<Rightarrow> bool" where
  "sandbox_row_checks r =
    (sr_type r \<in> {''container'', ''subprocess''}
     \<and> sr_status r \<in> {''provisioning'', ''ready'', ''executing'', ''idle'', ''terminating'', ''terminated'', ''failed''}
     \<and> (case sr_termination_reason r of None \<Rightarrow> True
        | Some s \<Rightarrow> s \<in> {''completed'', ''timeout'', ''policy_violation'', ''error'', ''manual''}))"

lemma reason_value_nonempty [simp]: "termination_reason_value r \<noteq> []"
  by (cases r) simp_all

lemma parse_reason_value: "parse_reason (map_option termination_reason_value r) = Inr r"
  by (cases r) (simp_all add: parse_reason_def str_truthy_def)

lemma row_values:
  "sandbox_type_value t \<in> {''container'', ''subprocess''}"
  "sandbox_status_value s \<in> {''provisioning'', ''ready'', ''executing'', ''idle'', ''terminating'', ''terminated'', ''failed''}"
  "termination_reason_value r \<in> {''completed'', ''timeout'', ''policy_violation'', ''error'', ''manual''}"
  subgoal by (cases t) simp_all
  subgoal by (cases s) simp_all
  subgoal by (cases r) simp_all
  done

lemma parsed_values:
  "sandbox_type_of x \<noteq> None \<longleftrightarrow> x \<in> {''container'', ''subprocess''}"
  "sandbox_status_of x \<noteq> None \<longleftrightarrow>
     x \<in> {''provisioning'', ''ready'', ''executing'', ''idle'', ''terminating'', ''terminated'', ''failed''}"
  "termination_reason_of x \<noteq> None \<longleftrightarrow>
     x \<in> {''completed'', ''timeout'', ''policy_violation'', ''error'', ''manual''}"
  by (auto simp: sandbox_type_of_def sandbox_status_of_def termination_reason_of_def)

lemma parse_reason_ok:
  "is_ok (parse_reason r) \<longleftrightarrow> \<not> str_truthy r \<or> termination_reason_of (the r) \<noteq> None"
  by (auto simp: parse_reason_def split: option.split)

lemma row_to_domain_ok:
  "is_ok (sandbox_row_to_domain r) \<longleftrightarrow> sandbox_type_of (sr_type r) \<noteq> None
     \<and> sandbox_status_of (sr_status r) \<noteq> None \<and> is_ok (parse_reason (sr_termination_reason r))"
  by (cases "parse_reason (sr_termination_reason r)")
     (auto simp: sandbox_row_to_domain_def split: option.split)

section \<open>Properties\<close>

text \<open>C33. The row of every sandbox satisfies the CHECK constraints of its table and reads back as the
  same sandbox; and a row can be loaded exactly when it satisfies the constraints, an empty
  termination reason counting as none.\<close>

theorem sandbox_rows_typed:
  "sandbox_row_checks (sandbox_domain_to_row s)
   \<and> sandbox_row_to_domain (sandbox_domain_to_row s) = Inr s
   \<and> is_ok (sandbox_row_to_domain r) =
       sandbox_row_checks (r\<lparr>sr_termination_reason :=
         (if str_truthy (sr_termination_reason r) then sr_termination_reason r else None)\<rparr>)"
proof (intro conjI)
  show "sandbox_row_checks (sandbox_domain_to_row s)"
    using row_values by (auto simp: sandbox_row_checks_def sandbox_domain_to_row_def split: option.split)
  show "sandbox_row_to_domain (sandbox_domain_to_row s) = Inr s"
    by (simp add: sandbox_row_to_domain_def sandbox_domain_to_row_def parse_reason_value)
  show "is_ok (sandbox_row_to_domain r) =
       sandbox_row_checks (r\<lparr>sr_termination_reason :=
         (if str_truthy (sr_termination_reason r) then sr_termination_reason r else None)\<rparr>)"
    unfolding row_to_domain_ok parse_reason_ok parsed_values sandbox_row_checks_def
    by (cases "sr_termination_reason r") (auto simp: str_truthy_def)
qed

end
