(* ===== verification/Terminal.thy ===== *)
theory Terminal
  imports Sandbox
begin

text \<open>
  Terminal sessions and the commands run in them: \<open>domain/terminal_session.py\<close>,
  \<open>domain/terminal_command.py\<close> and the request objects of \<open>domain/terminal_contracts.py\<close>, all
  under \<open>apps/execution-service/src\<close>.
\<close>

datatype session_status = TS_ACTIVE | TS_CLOSED

fun session_status_value :: "session_status \<Rightarrow> string" where
  "session_status_value TS_ACTIVE = ''active''"
| "session_status_value TS_CLOSED = ''closed''"

datatype command_status = TC_RUNNING | TC_COMPLETED | TC_FAILED | TC_TIMED_OUT

fun session_transitions :: "session_status \<Rightarrow> session_status list" where
  "session_transitions TS_ACTIVE = [TS_CLOSED]"
| "session_transitions TS_CLOSED = []"

record terminal_session =
  ts_id :: uuid
  ts_sandbox_id :: uuid
  ts_run_id :: uuid
  ts_workspace_id :: uuid
  ts_user_id :: string
  ts_status :: session_status
  ts_created_at :: time
  ts_updated_at :: time
  ts_closed_at :: "time option"

definition session_init ::
  "uuid \<Rightarrow> time \<Rightarrow> uuid \<Rightarrow> uuid \<Rightarrow> uuid \<Rightarrow> string \<Rightarrow> exec_error + terminal_session" where
  "session_init i now sandbox run_id ws user =
    (if user = [] then Inl (X_Validation ''TerminalSession'' ''user_id is required'')
     else Inr \<lparr> ts_id = i, ts_sandbox_id = sandbox, ts_run_id = run_id, ts_workspace_id = ws,
       ts_user_id = user, ts_status = TS_ACTIVE, ts_created_at = now, ts_updated_at = now,
       ts_closed_at = None \<rparr>)"

definition session_close :: "time \<Rightarrow> terminal_session \<Rightarrow> exec_error + terminal_session" where
  "session_close now s =
    (if TS_CLOSED \<notin> set (session_transitions (ts_status s))
     then Inl (X_InvalidTransition ''TerminalSession'' (session_status_value (ts_status s))
                 (session_status_value TS_CLOSED))
     else Inr (s\<lparr> ts_status := TS_CLOSED, ts_updated_at := now, ts_closed_at := Some now \<rparr>))"

definition session_is_active :: "terminal_session \<Rightarrow> bool" where
  "session_is_active s = (ts_status s = TS_ACTIVE)"

record terminal_command =
  tc_id :: uuid
  tc_session_id :: uuid
  tc_command :: string
  tc_stdout :: string
  tc_stderr :: string
  tc_exit_code :: "int option"
  tc_status :: command_status
  tc_created_at :: time
  tc_completed_at :: "time option"

definition command_init :: "uuid \<Rightarrow> time \<Rightarrow> uuid \<Rightarrow> string \<Rightarrow> terminal_command" where
  "command_init i now session cmd = \<lparr> tc_id = i, tc_session_id = session, tc_command = cmd,
     tc_stdout = [], tc_stderr = [], tc_exit_code = None, tc_status = TC_RUNNING,
     tc_created_at = now, tc_completed_at = None \<rparr>"

definition command_completed :: "string \<Rightarrow> string \<Rightarrow> int \<Rightarrow> time \<Rightarrow> terminal_command \<Rightarrow> terminal_command" where
  "command_completed out err code now c = c\<lparr> tc_stdout := out, tc_stderr := err,
     tc_exit_code := Some code, tc_status := TC_COMPLETED, tc_completed_at := Some now \<rparr>"

definition command_failed :: "string \<Rightarrow> time \<Rightarrow> terminal_command \<Rightarrow> terminal_command" where
  "command_failed msg now c = c\<lparr> tc_stderr := msg, tc_status := TC_FAILED, tc_completed_at := Some now \<rparr>"

definition command_timed_out :: "int \<Rightarrow> time \<Rightarrow> terminal_command \<Rightarrow> terminal_command" where
  "command_timed_out timeout now c = c\<lparr> tc_stderr := ''Command timed out after '' @ str_int timeout @ ''s'',
     tc_status := TC_TIMED_OUT, tc_completed_at := Some now \<rparr>"

section \<open>Requests\<close>

record create_session_request =
  cs_sandbox_id :: uuid
  cs_run_id :: uuid
  cs_workspace_id :: uuid
  cs_user_id :: string

record exec_command_request =
  ec_session_id :: uuid
  ec_command :: string
  ec_timeout_s :: int

text \<open>\<open>ExecCommandRequest.from_dict\<close>; \<open>min\<close> with a \<open>timeout_s\<close> that is no number is a
  \<open>TypeError\<close>, which the route does not catch.\<close>

definition max_command_length :: int where "max_command_length = 10000"

definition parse_exec_command :: "dict \<Rightarrow> uuid \<Rightarrow> exec_error + exec_command_request" where
  "parse_exec_command d session =
    (case map_of d ''command'' of
       None \<Rightarrow> Inl (X_ValueError ''KeyError: command'')
     | Some (JStr cmd) \<Rightarrow>
         if is_blank cmd then Inl (X_ValueError ''command must be a non-empty string'')
         else if int (length cmd) > max_command_length
         then Inl (X_ValueError ''command exceeds maximum length of 10000 chars'')
         else (case opt_or (map_of d ''timeout_s'') (JInt 30) of
                 JInt t \<Rightarrow> Inr \<lparr> ec_session_id = session, ec_command = cmd, ec_timeout_s = max 1 (min t 120) \<rparr>
               | JBool b \<Rightarrow> Inr \<lparr> ec_session_id = session, ec_command = cmd, ec_timeout_s = max 1 (if b then 1 else 0) \<rparr>
               | _ \<Rightarrow> Inl (X_Data ''TypeError''))
     | Some _ \<Rightarrow> Inl (X_ValueError ''command must be a non-empty string''))"

lemma parse_exec_command_bounds:
  "parse_exec_command d sid = Inr r \<Longrightarrow>
   1 \<le> ec_timeout_s r \<and> ec_timeout_s r \<le> 120 \<and> ec_session_id r = sid
   \<and> \<not> is_blank (ec_command r) \<and> int (length (ec_command r)) \<le> max_command_length"
  by (auto simp: parse_exec_command_def split: option.splits json.splits if_splits)

lemma session_close_ok:
  "session_close now s = Inr s' \<longleftrightarrow> ts_status s = TS_ACTIVE
     \<and> s' = s\<lparr> ts_status := TS_CLOSED, ts_updated_at := now, ts_closed_at := Some now \<rparr>"
  by (cases "ts_status s") (auto simp: session_close_def)

end
