(* ===== verification/Exec_Store.thy ===== *)
theory Exec_Store
  imports Terminal
begin

text \<open>
  The storage of the execution service: the outbox events of \<open>application/events.py\<close>, and the
  repositories of \<open>infrastructure/db/repositories.py\<close> and \<open>infrastructure/db/terminal_repository.py\<close>
  on the tables of \<open>infrastructure/db/models.py\<close>.  Sandboxes are stored as entities, which is
  faithful because rows and entities correspond (\<open>sandbox_rows_typed\<close>).  An attempt is stored as the
  dict of its columns: a save writes the columns it is given and, on a conflict with the unique pair
  of sandbox and attempt index, leaves the others as they are.
\<close>

section \<open>Events\<close>

record exec_event =
  xe_type :: string
  xe_workspace_id :: uuid
  xe_correlation_id :: uuid
  xe_payload :: dict
  xe_sandbox_id :: "uuid option"
  xe_causation_id :: "uuid option"
  xe_event_id :: uuid
  xe_occurred_at :: time

definition exec_event_of ::
  "string \<Rightarrow> uuid \<times> time \<Rightarrow> uuid \<Rightarrow> uuid \<Rightarrow> uuid \<Rightarrow> dict \<Rightarrow> exec_event" where
  "exec_event_of ty idt sandbox ws corr payload = \<lparr>
     xe_type = ty, xe_workspace_id = ws, xe_correlation_id = corr, xe_payload = payload,
     xe_sandbox_id = Some sandbox, xe_causation_id = None, xe_event_id = fst idt,
     xe_occurred_at = snd idt \<rparr>"

definition sandbox_provision_requested_event ::
  "uuid \<times> time \<Rightarrow> uuid \<Rightarrow> uuid \<Rightarrow> uuid \<Rightarrow> string \<Rightarrow> exec_event" where
  "sandbox_provision_requested_event idt sandbox ws corr ty =
     exec_event_of ''sandbox.provision_requested'' idt sandbox ws corr
       [(''sandbox_id'', JUuid sandbox), (''sandbox_type'', JStr ty)]"

definition sandbox_provisioned_event :: "uuid \<times> time \<Rightarrow> uuid \<Rightarrow> uuid \<Rightarrow> uuid \<Rightarrow> exec_event" where
  "sandbox_provisioned_event idt sandbox ws corr =
     exec_event_of ''sandbox.provisioned'' idt sandbox ws corr [(''sandbox_id'', JUuid sandbox)]"

definition sandbox_provision_failed_event ::
  "uuid \<times> time \<Rightarrow> uuid \<Rightarrow> uuid \<Rightarrow> uuid \<Rightarrow> string \<Rightarrow> exec_event" where
  "sandbox_provision_failed_event idt sandbox ws corr msg =
     exec_event_of ''sandbox.provision_failed'' idt sandbox ws corr
       ((''sandbox_id'', JUuid sandbox) # (if msg \<noteq> [] then [(''error_message'', JStr msg)] else []))"

definition sandbox_termination_requested_event ::
  "uuid \<times> time \<Rightarrow> uuid \<Rightarrow> uuid \<Rightarrow> uuid \<Rightarrow> string \<Rightarrow> exec_event" where
  "sandbox_termination_requested_event idt sandbox ws corr reason =
     exec_event_of ''sandbox.termination_requested'' idt sandbox ws corr
       [(''sandbox_id'', JUuid sandbox), (''reason'', JStr reason)]"

definition sandbox_terminated_event :: "uuid \<times> time \<Rightarrow> uuid \<Rightarrow> uuid \<Rightarrow> uuid \<Rightarrow> exec_event" where
  "sandbox_terminated_event idt sandbox ws corr =
     exec_event_of ''sandbox.terminated'' idt sandbox ws corr [(''sandbox_id'', JUuid sandbox)]"

definition sandbox_recovered_event ::
  "uuid \<times> time \<Rightarrow> uuid \<Rightarrow> uuid \<Rightarrow> uuid \<Rightarrow> string \<Rightarrow> string \<Rightarrow> exec_event" where
  "sandbox_recovered_event idt sandbox ws corr previous act =
     exec_event_of ''sandbox.recovered'' idt sandbox ws corr
       [(''sandbox_id'', JUuid sandbox), (''previous_status'', JStr previous), (''recovery_action'', JStr act)]"

definition opt_field :: "string \<Rightarrow> json option \<Rightarrow> dict" where
  "opt_field k v = (case v of None \<Rightarrow> [] | Some j \<Rightarrow> [(k, j)])"

definition tool_payload :: "uuid \<Rightarrow> uuid \<Rightarrow> string \<Rightarrow> int \<Rightarrow> dict" where
  "tool_payload sandbox exec_id tool index =
     [(''sandbox_id'', JUuid sandbox), (''execution_id'', JUuid exec_id), (''tool_name'', JStr tool),
      (''attempt_index'', JInt index)]"

definition tool_execution_requested_event ::
  "uuid \<times> time \<Rightarrow> uuid \<Rightarrow> uuid \<Rightarrow> uuid \<Rightarrow> uuid \<Rightarrow> string \<Rightarrow> int \<Rightarrow> exec_event" where
  "tool_execution_requested_event idt sandbox ws corr exec_id tool index =
     exec_event_of ''sandbox.tool_execution.requested'' idt sandbox ws corr
       (tool_payload sandbox exec_id tool index)"

definition tool_execution_succeeded_event ::
  "uuid \<times> time \<Rightarrow> uuid \<Rightarrow> uuid \<Rightarrow> uuid \<Rightarrow> uuid \<Rightarrow> string \<Rightarrow> int \<Rightarrow> int \<Rightarrow> int \<Rightarrow> bool \<Rightarrow> int \<Rightarrow> exec_event" where
  "tool_execution_succeeded_event idt sandbox ws corr exec_id tool index code duration truncated nbytes =
     exec_event_of ''sandbox.tool_execution.succeeded'' idt sandbox ws corr
       (tool_payload sandbox exec_id tool index @ [(''exit_code'', JInt code), (''duration_ms'', JInt duration)]
        @ (if truncated then [(''truncated'', JBool True)] else []) @ [(''stdout_size_bytes'', JInt nbytes)])"

definition tool_execution_failed_event ::
  "uuid \<times> time \<Rightarrow> uuid \<Rightarrow> uuid \<Rightarrow> uuid \<Rightarrow> uuid \<Rightarrow> string \<Rightarrow> int \<Rightarrow> string \<Rightarrow> string \<Rightarrow> int \<Rightarrow> int option \<Rightarrow> exec_event" where
  "tool_execution_failed_event idt sandbox ws corr exec_id tool index err msg duration code =
     exec_event_of ''sandbox.tool_execution.failed'' idt sandbox ws corr
       (tool_payload sandbox exec_id tool index
        @ [(''error_code'', JStr err), (''error_message'', JStr msg), (''duration_ms'', JInt duration)]
        @ opt_field ''exit_code'' (map_option JInt code))"

definition terminal_command_executed_event ::
  "uuid \<times> time \<Rightarrow> uuid \<Rightarrow> uuid \<Rightarrow> uuid \<Rightarrow> uuid \<Rightarrow> uuid \<Rightarrow> string \<Rightarrow> int option \<Rightarrow> int \<Rightarrow> exec_event" where
  "terminal_command_executed_event idt sandbox ws corr session cmd_id cmd code duration =
     exec_event_of ''terminal.command.executed'' idt sandbox ws corr
       [(''sandbox_id'', JUuid sandbox), (''session_id'', JUuid session), (''command_id'', JUuid cmd_id),
        (''command'', JStr (take 200 cmd)),
        (''exit_code'', (case code of None \<Rightarrow> JNull | Some c \<Rightarrow> JInt c)), (''duration_ms'', JInt duration)]"

section \<open>Tables\<close>

record exec_db =
  xd_sandboxes :: "sandbox list"
  xd_attempts :: "dict list"
  xd_sessions :: "terminal_session list"
  xd_commands :: "terminal_command list"
  xd_outbox :: "exec_event list"

definition sandbox_get :: "uuid \<Rightarrow> exec_db \<Rightarrow> sandbox option" where
  "sandbox_get k db = find_row sb_id k (xd_sandboxes db)"

definition sandbox_save :: "sandbox \<Rightarrow> exec_db \<Rightarrow> exec_db" where
  "sandbox_save s db = db\<lparr>xd_sandboxes := upsert sb_id s (xd_sandboxes db)\<rparr>"

definition get_by_invocation :: "uuid \<Rightarrow> exec_db \<Rightarrow> sandbox option" where
  "get_by_invocation k db = find (\<lambda>s. sb_agent_invocation_id s = k) (xd_sandboxes db)"

definition list_active :: "nat \<Rightarrow> exec_db \<Rightarrow> sandbox list" where
  "list_active limit db = take limit (sort_key sb_created_at (filter sandbox_is_active (xd_sandboxes db)))"

definition claim_for_execution :: "uuid \<Rightarrow> time \<Rightarrow> exec_db \<Rightarrow> exec_error + (sandbox \<times> exec_db)" where
  "claim_for_execution k now db =
    (case sandbox_get k db of
       None \<Rightarrow> Inl (X_Domain ''Sandbox not found'')
     | Some s \<Rightarrow>
         if sb_status s \<noteq> X_READY \<and> sb_status s \<noteq> X_IDLE
         then Inl (X_Busy k (sandbox_status_value (sb_status s)))
         else rbind (mark_executing now s) (\<lambda>s. Inr (s, sandbox_save s db)))"

definition list_stuck :: "time \<Rightarrow> sandbox_status list \<Rightarrow> exec_db \<Rightarrow> sandbox list" where
  "list_stuck stuck_before statuses db =
     take 100 (sort_key sb_updated_at
       (filter (\<lambda>s. sb_status s \<in> set statuses \<and> sb_updated_at s < stuck_before) (xd_sandboxes db)))"

definition exec_outbox_write :: "exec_event \<Rightarrow> exec_db \<Rightarrow> exec_db" where
  "exec_outbox_write e db = db\<lparr>xd_outbox := xd_outbox db @ [e]\<rparr>"

text \<open>The columns of an attempt that a save leaves out get their server defaults.\<close>

definition attempt_defaults :: "time \<Rightarrow> dict" where
  "attempt_defaults now =
     [(''tool_input'', JNull), (''status'', JStr ''pending''), (''stdout'', JNull), (''stderr'', JNull),
      (''exit_code'', JNull), (''truncated'', JBool False), (''error_detail'', JNull),
      (''started_at'', JNull), (''completed_at'', JNull), (''created_at'', JInt now)]"

definition same_attempt :: "dict \<Rightarrow> dict \<Rightarrow> bool" where
  "same_attempt d e = (map_of d ''sandbox_id'' = map_of e ''sandbox_id''
     \<and> map_of d ''attempt_index'' = map_of e ''attempt_index'')"

definition int4_ok :: "json option \<Rightarrow> bool" where
  "int4_ok j = (case j of Some (JInt i) \<Rightarrow> - (2 ^ 31) \<le> i \<and> i < 2 ^ 31 | _ \<Rightarrow> True)"

text \<open>The driver refuses a NUL in a text column with a \<open>ValueError\<close>, the database one in a JSON column.\<close>

definition attempt_texts_ok :: "dict \<Rightarrow> bool" where
  "attempt_texts_ok d = list_all (\<lambda>k. case map_of d k of Some j \<Rightarrow> pg_json j | None \<Rightarrow> True)
     [''tool_name'', ''status'', ''stdout'', ''stderr'']"

definition attempt_refused :: "dict \<Rightarrow> exec_db \<Rightarrow> exec_error option" where
  "attempt_refused d db =
    (if \<not> attempt_texts_ok d then Some (X_ValueError ''A string literal cannot contain NUL (0x00) characters.'')
     else if \<not> pg_json (JObj d) then Some (X_Data ''text holds a NUL character'')
     else if \<not> int4_ok (map_of d ''attempt_index'') \<or> \<not> int4_ok (map_of d ''exit_code'')
     then Some (X_Data ''integer out of range'')
     else if \<not> list_ex (\<lambda>s. map_of d ''sandbox_id'' = Some (JUuid (sb_id s))) (xd_sandboxes db)
     then Some (X_Integrity ''sandbox_id'')
     else if \<not> list_ex (same_attempt d) (xd_attempts db)
          \<and> list_ex (\<lambda>a. map_of a ''id'' = map_of d ''id'') (xd_attempts db)
     then Some (X_Integrity ''id'')
     else None)"

definition attempt_save :: "time \<Rightarrow> dict \<Rightarrow> exec_db \<Rightarrow> exec_error + exec_db" where
  "attempt_save now d db =
    (case attempt_refused d db of
       Some e \<Rightarrow> Inl e
     | None \<Rightarrow>
         if list_ex (same_attempt d) (xd_attempts db)
         then Inr (db\<lparr>xd_attempts := map (\<lambda>a. if same_attempt d a
                then dict_update a (filter (\<lambda>p. fst p \<noteq> ''id'') d) else a) (xd_attempts db)\<rparr>)
         else Inr (db\<lparr>xd_attempts := xd_attempts db @ [dict_update (attempt_defaults now) d]\<rparr>))"

definition attempt_get :: "uuid \<Rightarrow> exec_db \<Rightarrow> dict option" where
  "attempt_get k db = find (\<lambda>a. map_of a ''id'' = Some (JUuid k)) (xd_attempts db)"

definition attempt_by_index :: "uuid \<Rightarrow> int \<Rightarrow> exec_db \<Rightarrow> dict option" where
  "attempt_by_index sandbox i db =
     find (\<lambda>a. map_of a ''sandbox_id'' = Some (JUuid sandbox) \<and> map_of a ''attempt_index'' = Some (JInt i))
       (xd_attempts db)"

definition session_get :: "uuid \<Rightarrow> exec_db \<Rightarrow> terminal_session option" where
  "session_get k db = find_row ts_id k (xd_sessions db)"

definition session_save :: "terminal_session \<Rightarrow> exec_db \<Rightarrow> exec_db" where
  "session_save s db = db\<lparr>xd_sessions := upsert ts_id s (xd_sessions db)\<rparr>"

definition get_active_by_run :: "uuid \<Rightarrow> exec_db \<Rightarrow> terminal_session option" where
  "get_active_by_run run_id db = find (\<lambda>s. ts_run_id s = run_id \<and> ts_status s = TS_ACTIVE) (xd_sessions db)"

definition command_save :: "terminal_command \<Rightarrow> exec_db \<Rightarrow> exec_db" where
  "command_save c db = db\<lparr>xd_commands := upsert tc_id c (xd_commands db)\<rparr>"

definition list_by_session :: "uuid \<Rightarrow> nat \<Rightarrow> exec_db \<Rightarrow> terminal_command list" where
  "list_by_session session limit db =
     take limit (sort_key tc_created_at (filter (\<lambda>c. tc_session_id c = session) (xd_commands db)))"

definition has_running :: "uuid \<Rightarrow> exec_db \<Rightarrow> bool" where
  "has_running session db = list_ex (\<lambda>c. tc_session_id c = session \<and> tc_status c = TC_RUNNING) (xd_commands db)"

section \<open>Lemmas\<close>

interpretation sandbox_repo: table sandbox_get sandbox_save sb_id id
  by unfold_locales (auto simp: sandbox_get_def sandbox_save_def dest: find_row_key)

interpretation session_repo: table session_get session_save ts_id id
  by unfold_locales (auto simp: session_get_def session_save_def dest: find_row_key)

lemma exec_frames [simp]:
  "sandbox_get k (exec_outbox_write e db) = sandbox_get k db"
  "xd_attempts (exec_outbox_write e db) = xd_attempts db"
  "xd_attempts (sandbox_save s db) = xd_attempts db"
  "xd_sandboxes (exec_outbox_write e db) = xd_sandboxes db"
  "xd_outbox (exec_outbox_write e db) = xd_outbox db @ [e]"
  "xd_outbox (sandbox_save s db) = xd_outbox db"
  "xd_commands (exec_outbox_write e db) = xd_commands db"
  "xd_commands (sandbox_save s db) = xd_commands db"
  "xd_sessions (exec_outbox_write e db) = xd_sessions db"
  "xd_sessions (sandbox_save s db) = xd_sessions db"
  "session_get k (exec_outbox_write e db) = session_get k db"
  "session_get k (sandbox_save s db) = session_get k db"
  by (simp_all add: sandbox_get_def exec_outbox_write_def sandbox_save_def session_get_def)

lemma terminal_frames [simp]:
  "sandbox_get k (session_save t db) = sandbox_get k db"
  "sandbox_get k (command_save c db) = sandbox_get k db"
  "session_get k (command_save c db) = session_get k db"
  "xd_sandboxes (session_save t db) = xd_sandboxes db"
  "xd_sandboxes (command_save c db) = xd_sandboxes db"
  "xd_commands (session_save t db) = xd_commands db"
  "xd_sessions (command_save c db) = xd_sessions db"
  "xd_outbox (session_save t db) = xd_outbox db"
  "xd_outbox (command_save c db) = xd_outbox db"
  by (simp_all add: sandbox_get_def session_get_def session_save_def command_save_def)

text \<open>A save of an attempt touches only the attempts, and is refused or done according to
  \<open>attempt_refused\<close>.\<close>

lemma attempt_save_frame:
  assumes "attempt_save now d db = Inr db'"
  shows "xd_sandboxes db' = xd_sandboxes db" "xd_outbox db' = xd_outbox db" "xd_sessions db' = xd_sessions db"
    "xd_commands db' = xd_commands db" "sandbox_get k db' = sandbox_get k db" "attempt_refused d db = None"
  using assms by (auto simp: attempt_save_def sandbox_get_def split: option.splits if_splits)

lemma claim_ok:
  "claim_for_execution k now db = Inr (s, db') \<longleftrightarrow>
   (\<exists>s0. sandbox_get k db = Some s0 \<and> sb_status s0 \<in> {X_READY, X_IDLE}
      \<and> s = s0\<lparr>sb_status := X_EXECUTING, sb_updated_at := now\<rparr> \<and> db' = sandbox_save s db)"
  by (auto simp: claim_for_execution_def mark_executing_def sandbox_transition_ok rbind_Inr_iff
      split: option.splits if_splits)

end
