(* ===== verification/Sandbox_Service.thy ===== *)
theory Sandbox_Service
  imports Exec_Store
begin

text \<open>
  Provisioning, terminating and recovering sandboxes:
  \<open>apps/execution-service/src/application/sandbox_service.py\<close> and \<open>recovery_service.py\<close>.

  Provisioning and terminating each make two transactions with a call of the sandbox backend between
  them.  The transactions are definitions of their own; the composed services take the answers of the
  backend, and what other transactions do meanwhile, from an environment.  The entity that the second
  transaction saves is the object of the first, not a fresh read: this is how the code has it.
\<close>

section \<open>Provisioning\<close>

record provision_request =
  pq_workspace_id :: uuid
  pq_task_id :: uuid
  pq_run_id :: uuid
  pq_step_id :: uuid
  pq_agent_invocation_id :: uuid
  pq_sandbox_type :: string
  pq_policy_snapshot :: dict
  pq_resource_limits :: dict
  pq_network_egress_policy :: dict

record provision_result =
  po_sandbox_id :: uuid
  po_result_status :: string
  po_error_code :: "string option"
  po_error_message :: "string option"

datatype backend_call = Backend_Provision uuid string | Backend_Terminate uuid | Backend_Is_Alive uuid

text \<open>\<open>Inl\<close> is an exception, with its message.\<close>

record backend_env =
  be_provision :: "uuid \<Rightarrow> string \<Rightarrow> dict \<Rightarrow> string + unit"
  be_terminate :: "uuid \<Rightarrow> string + unit"
  be_is_alive :: "uuid \<Rightarrow> string + bool"
  be_commit :: "string + unit"
  be_world :: "exec_db \<Rightarrow> exec_db"

definition provision_begin ::
  "provision_request \<Rightarrow> uuid_supply \<Rightarrow> time \<Rightarrow> exec_db \<Rightarrow> exec_error + (sandbox \<times> exec_db)" where
  "provision_begin req u now db =
    (case sandbox_type_of (pq_sandbox_type req) of
       None \<Rightarrow> Inl (X_ValueError ''not a valid SandboxType'')
     | Some ty \<Rightarrow>
         let s = sandbox_init (u 0) now (pq_workspace_id req) (pq_task_id req) (pq_run_id req)
                   (pq_step_id req) (pq_agent_invocation_id req) ty (pq_policy_snapshot req)
                   (pq_resource_limits req) (pq_network_egress_policy req)
         in Inr (s, exec_outbox_write (sandbox_provision_requested_event (u 2, now) (u 0)
                      (pq_workspace_id req) (u 1) (pq_sandbox_type req)) (sandbox_save s db)))"

definition provision_failed ::
  "sandbox \<Rightarrow> string \<Rightarrow> uuid_supply \<Rightarrow> time \<Rightarrow> exec_db \<Rightarrow> exec_error + (provision_result \<times> exec_db)" where
  "provision_failed s msg u now db =
    rbind (mark_failed (Some [(''code'', JStr ''PROVISION_ERROR''), (''message'', JStr msg)]) now s) (\<lambda>s.
    Inr (\<lparr> po_sandbox_id = sb_id s, po_result_status = ''failed'', po_error_code = Some ''PROVISION_ERROR'',
           po_error_message = Some msg \<rparr>,
         exec_outbox_write (sandbox_provision_failed_event (u 3, now) (sb_id s) (sb_workspace_id s) (u 1) msg)
           (sandbox_save s db)))"

definition provision_ready ::
  "sandbox \<Rightarrow> uuid_supply \<Rightarrow> time \<Rightarrow> exec_db \<Rightarrow> exec_error + (provision_result \<times> exec_db)" where
  "provision_ready s u now db =
    rbind (mark_ready now s) (\<lambda>s.
    Inr (\<lparr> po_sandbox_id = sb_id s, po_result_status = ''ready'', po_error_code = None,
           po_error_message = None \<rparr>,
         exec_outbox_write (sandbox_provisioned_event (u 3, now) (sb_id s) (sb_workspace_id s) (u 1))
           (sandbox_save s db)))"

text \<open>The service.  When the last commit fails the container is terminated and the error raised.\<close>

definition provision_sandbox ::
  "backend_env \<Rightarrow> provision_request \<Rightarrow> uuid_supply \<Rightarrow> time \<Rightarrow> time \<Rightarrow> exec_db
   \<Rightarrow> (exec_error + provision_result) \<times> exec_db \<times> backend_call list" where
  "provision_sandbox env req u now later db =
    (case provision_begin req u now db of
       Inl e \<Rightarrow> (Inl e, db, [])
     | Inr (s, db1) \<Rightarrow>
         let db2 = be_world env db1; ask = Backend_Provision (sb_id s) (pq_sandbox_type req) in
         (case be_provision env (sb_id s) (pq_sandbox_type req) (pq_resource_limits req) of
            Inl msg \<Rightarrow>
              (case provision_failed s msg u later db2 of
                 Inl e \<Rightarrow> (Inl e, db2, [ask]) | Inr (r, db3) \<Rightarrow> (Inr r, db3, [ask]))
          | Inr _ \<Rightarrow>
              (case provision_ready s u later db2 of
                 Inl e \<Rightarrow> (Inl e, db2, [ask])
               | Inr (r, db3) \<Rightarrow>
                   (case be_commit env of
                      Inl msg \<Rightarrow> (Inl (X_Data msg), db2, [ask, Backend_Terminate (sb_id s)])
                    | Inr _ \<Rightarrow> (Inr r, db3, [ask])))))"

section \<open>Terminating\<close>

definition terminate_begin ::
  "uuid \<Rightarrow> string \<Rightarrow> uuid_supply \<Rightarrow> time \<Rightarrow> exec_db \<Rightarrow> exec_error + (sandbox \<times> exec_db)" where
  "terminate_begin sid reason u now db =
    (case sandbox_get sid db of
       None \<Rightarrow> Inl (X_Domain ''Sandbox not found'')
     | Some s0 \<Rightarrow>
         rbind (mark_terminating (opt_or (termination_reason_of reason) TR_Manual) now s0) (\<lambda>s.
         Inr (s, exec_outbox_write (sandbox_termination_requested_event (u 1, now) sid (sb_workspace_id s)
                   (u 0) reason) (sandbox_save s db))))"

definition terminate_finish :: "sandbox \<Rightarrow> uuid_supply \<Rightarrow> time \<Rightarrow> exec_db \<Rightarrow> exec_error + exec_db" where
  "terminate_finish s u now db =
    rbind (mark_terminated now s) (\<lambda>s.
    Inr (exec_outbox_write (sandbox_terminated_event (u 2, now) (sb_id s) (sb_workspace_id s) (u 0))
           (sandbox_save s db)))"

text \<open>An exception of the backend is logged and ignored.\<close>

definition terminate_sandbox ::
  "backend_env \<Rightarrow> uuid \<Rightarrow> string \<Rightarrow> uuid_supply \<Rightarrow> time \<Rightarrow> time \<Rightarrow> exec_db
   \<Rightarrow> (exec_error + unit) \<times> exec_db \<times> backend_call list" where
  "terminate_sandbox env sid reason u now later db =
    (case terminate_begin sid reason u now db of
       Inl e \<Rightarrow> (Inl e, db, [])
     | Inr (s, db1) \<Rightarrow>
         let db2 = be_world env db1 in
         (case terminate_finish s u later db2 of
            Inl e \<Rightarrow> (Inl e, db2, [Backend_Terminate sid])
          | Inr db3 \<Rightarrow> (Inr (), db3, [Backend_Terminate sid])))"

definition get_sandbox :: "uuid \<Rightarrow> exec_db \<Rightarrow> exec_error + sandbox" where
  "get_sandbox sid db =
    (case sandbox_get sid db of None \<Rightarrow> Inl (X_Domain ''Sandbox not found'') | Some s \<Rightarrow> Inr s)"

definition list_active_sandboxes :: "exec_db \<Rightarrow> sandbox list" where
  "list_active_sandboxes db = list_active 50 db"

section \<open>Recovery\<close>

definition stuck_sandbox_statuses :: "sandbox_status list" where
  "stuck_sandbox_statuses = [X_PROVISIONING, X_EXECUTING]"

definition minutes :: "int \<Rightarrow> time" where "minutes m = m * 60 * 1000000"

definition stuck_provisioning_minutes :: int where "stuck_provisioning_minutes = 10"
definition stuck_executing_minutes :: int where "stuck_executing_minutes = 15"

record sandbox_recovery =
  sv_sandbox_id :: uuid
  sv_previous_status :: string
  sv_action :: string
  sv_success :: bool

text \<open>The cleanup of the backend comes first, before the row is looked at again.\<close>

definition backend_cleanup :: "backend_env \<Rightarrow> uuid \<Rightarrow> bool \<times> backend_call list" where
  "backend_cleanup env sid =
    (case be_is_alive env sid of
       Inl _ \<Rightarrow> (False, [Backend_Is_Alive sid])
     | Inr True \<Rightarrow>
         (case be_terminate env sid of
            Inl _ \<Rightarrow> (False, [Backend_Is_Alive sid, Backend_Terminate sid])
          | Inr _ \<Rightarrow> (True, [Backend_Is_Alive sid, Backend_Terminate sid]))
     | Inr False \<Rightarrow> (True, [Backend_Is_Alive sid]))"

definition reconcile_sandbox ::
  "uuid \<Rightarrow> uuid \<Rightarrow> sandbox_status \<Rightarrow> bool \<Rightarrow> uuid_supply \<Rightarrow> time \<Rightarrow> exec_db \<Rightarrow> sandbox_recovery \<times> exec_db" where
  "reconcile_sandbox sid ws previous cleaned u now db =
    (let prev = sandbox_status_value previous;
         result = (\<lambda>act ok. \<lparr> sv_sandbox_id = sid, sv_previous_status = prev, sv_action = act, sv_success = ok \<rparr>)
     in case sandbox_get sid db of
          None \<Rightarrow> (result ''skipped_already_terminal'' True, db)
        | Some s \<Rightarrow>
            if sandbox_is_terminal s then (result ''skipped_already_terminal'' True, db)
            else if sb_status s \<notin> set stuck_sandbox_statuses
            then (result ''skipped_no_longer_stuck'' True, db)
            else (case mark_failed (Some [(''code'', JStr ''RECOVERY_SWEEP''),
                          (''message'', JStr (''Sandbox stuck in '' @ prev @ '', recovered by sweep'')),
                          (''backend_cleaned'', JBool cleaned)]) now s of
                    Inl _ \<Rightarrow> (result ''reconciliation_failed'' False, db)
                  | Inr s' \<Rightarrow> (result ''marked_failed'' True,
                      exec_outbox_write (sandbox_recovered_event (u 1, now) sid ws (u 0) prev ''marked_failed'')
                        (sandbox_save s' db))))"

definition recover_single_sandbox ::
  "backend_env \<Rightarrow> uuid \<Rightarrow> uuid \<Rightarrow> sandbox_status \<Rightarrow> uuid_supply \<Rightarrow> time \<Rightarrow> exec_db
   \<Rightarrow> sandbox_recovery \<times> exec_db \<times> backend_call list" where
  "recover_single_sandbox env sid ws previous u now db =
    (let (cleaned, calls) = backend_cleanup env sid;
         (r, db') = reconcile_sandbox sid ws previous cleaned u now db
     in (r, db', calls))"

definition stuck_candidates :: "int \<Rightarrow> int \<Rightarrow> time \<Rightarrow> exec_db \<Rightarrow> sandbox list" where
  "stuck_candidates provisioning executing now db =
     filter (\<lambda>s. sb_updated_at s \<le> now - minutes (if sb_status s = X_PROVISIONING then provisioning else executing))
       (list_stuck (now - minutes (min provisioning executing)) stuck_sandbox_statuses db)"

definition recover_step ::
  "backend_env \<Rightarrow> (nat \<Rightarrow> uuid_supply) \<Rightarrow> time \<Rightarrow> nat \<Rightarrow> sandbox \<Rightarrow> exec_db \<times> backend_call list
   \<Rightarrow> sandbox_recovery option \<times> exec_db \<times> backend_call list" where
  "recover_step env us now i s w =
    (case w of (db, calls) \<Rightarrow>
     case recover_single_sandbox env (sb_id s) (sb_workspace_id s) (sb_status s) (us i) now db of
       (r, db', done_calls) \<Rightarrow> (Some r, db', calls @ done_calls))"

definition recover_stuck_sandboxes ::
  "backend_env \<Rightarrow> int \<Rightarrow> int \<Rightarrow> (nat \<Rightarrow> uuid_supply) \<Rightarrow> time \<Rightarrow> exec_db
   \<Rightarrow> sandbox_recovery list \<times> exec_db \<times> backend_call list" where
  "recover_stuck_sandboxes env provisioning executing us now db =
     sweep (recover_step env us now) 0 (stuck_candidates provisioning executing now db) (db, [])"

section \<open>Lemmas\<close>

definition sandboxes_wf :: "exec_db \<Rightarrow> bool" where
  "sandboxes_wf db = distinct (map sb_id (xd_sandboxes db))"

lemma sandboxes_wf_save [simp]: "sandboxes_wf db \<Longrightarrow> sandboxes_wf (sandbox_save s db)"
  by (simp add: sandboxes_wf_def sandbox_save_def distinct_upsert)

lemma sandboxes_wf_outbox [simp]: "sandboxes_wf (exec_outbox_write e db) = sandboxes_wf db"
  by (simp add: sandboxes_wf_def)

lemma sandbox_get_mem: "sandboxes_wf db \<Longrightarrow> s \<in> set (xd_sandboxes db) \<longleftrightarrow> sandbox_get (sb_id s) db = Some s"
  by (auto simp: sandboxes_wf_def sandbox_get_def find_row_distinct dest: find_row_key)

text \<open>Reconciling acts exactly on a sandbox whose row is in a stuck status.\<close>

lemma reconcile_cases:
  assumes "reconcile_sandbox sid ws previous cleaned u now db = (r, db')"
  obtains (skipped) "db' = db" "sandbox_get sid db = None \<or> (\<exists>s. sandbox_get sid db = Some s \<and> sb_status s \<notin> set stuck_sandbox_statuses)"
      "sv_action r \<noteq> ''marked_failed''"
  | (failed) s d e where "sandbox_get sid db = Some s" "sb_status s \<in> set stuck_sandbox_statuses"
      "db' = exec_outbox_write e (sandbox_save (s\<lparr>sb_status := X_FAILED, sb_updated_at := now, sb_error_detail := d\<rparr>) db)"
      "sv_action r = ''marked_failed''" "sv_success r"
proof (cases "sandbox_get sid db")
  case None
  then show thesis using assms skipped by (auto simp: reconcile_sandbox_def Let_def)
next
  case (Some s)
  show thesis
  proof (cases "sb_status s \<in> set stuck_sandbox_statuses")
    case False
    then show thesis using Some assms skipped by (auto simp: reconcile_sandbox_def Let_def split: if_splits)
  next
    case True
    then have "X_FAILED \<in> set (sandbox_transitions (sb_status s))" "\<not> sandbox_is_terminal s"
      by (auto simp: stuck_sandbox_statuses_def sandbox_is_terminal_def sandbox_terminal_def)
    then have "\<exists>s'. mark_failed d now s = Inr s' \<and> s' = s\<lparr>sb_status := X_FAILED, sb_updated_at := now, sb_error_detail := d\<rparr>" for d
      by (auto simp: mark_failed_def rbind_Inr_iff sandbox_transition_ok)
    then show thesis
      using Some True assms \<open>\<not> sandbox_is_terminal s\<close>
      by (intro failed) (auto simp: reconcile_sandbox_def Let_def)
  qed
qed

lemma recover_sandbox_cases:
  obtains (skipped) "fst (snd (recover_step env us now i c w)) = fst w"
      "sandbox_get (sb_id c) (fst w) = None
       \<or> (\<exists>s. sandbox_get (sb_id c) (fst w) = Some s \<and> sb_status s \<notin> set stuck_sandbox_statuses)"
  | (failed) s d e where "sandbox_get (sb_id c) (fst w) = Some s" "sb_status s \<in> set stuck_sandbox_statuses"
      "fst (snd (recover_step env us now i c w)) =
         exec_outbox_write e (sandbox_save (s\<lparr>sb_status := X_FAILED, sb_updated_at := now, sb_error_detail := d\<rparr>) (fst w))"
proof -
  obtain r db' where r: "reconcile_sandbox (sb_id c) (sb_workspace_id c) (sb_status c)
      (fst (backend_cleanup env (sb_id c))) (us i) now (fst w) = (r, db')" by fastforce
  then have "fst (snd (recover_step env us now i c w)) = db'"
    by (cases w) (simp add: recover_step_def recover_single_sandbox_def case_prod_beta Let_def)
  with r show thesis using skipped failed by (cases rule: reconcile_cases) auto
qed

interpretation sandbox_sweep: sweeper "recover_step env us now" "\<lambda>w. sandboxes_wf (fst w)"
  "\<lambda>c w. \<forall>s. sandbox_get (sb_id c) (fst w) = Some s \<longrightarrow> sb_status s \<notin> set stuck_sandbox_statuses" for env us now
proof (unfold_locales, goal_cases)
  case (1 w i c)
  then show ?case by (cases rule: recover_sandbox_cases [of env us now i c w]) auto
next
  case (2 w c i)
  show ?case
    by (cases rule: recover_sandbox_cases [of env us now i c w])
       (auto simp: sandbox_repo.get_put stuck_sandbox_statuses_def dest: sandbox_repo.get_key)
next
  case (3 w d i c)
  then show ?case
    by (cases rule: recover_sandbox_cases [of env us now i c w])
       (auto simp: sandbox_repo.get_put stuck_sandbox_statuses_def)
qed

text \<open>Nothing a sweep leaves behind is overdue, when its listing is not cut off at 100 rows.\<close>

lemma stuck_candidates_complete:
  assumes "length (filter (\<lambda>s. sb_status s \<in> set stuck_sandbox_statuses
      \<and> sb_updated_at s < now - minutes (min p e)) (xd_sandboxes db)) \<le> 100"
    and "s \<in> set (xd_sandboxes db)" "sb_status s \<in> set stuck_sandbox_statuses"
    and "sb_updated_at s \<le> now - minutes (if sb_status s = X_PROVISIONING then p else e)"
    and "sb_updated_at s < now - minutes (min p e)"
  shows "s \<in> set (stuck_candidates p e now db)"
  using assms by (simp add: stuck_candidates_def list_stuck_def)

lemma recover_keeps_wf: "sandboxes_wf db \<Longrightarrow> sandboxes_wf (fst (snd (recover_stuck_sandboxes env p e us now db)))"
  using sandbox_sweep.sweep_inv [of "(db, [])" env us now 0 "stuck_candidates p e now db"]
  by (simp add: recover_stuck_sandboxes_def)

lemma recover_settles:
  assumes "sandboxes_wf db" "s \<in> set (stuck_candidates p e now db)"
    and "sandbox_get (sb_id s) (fst (snd (recover_stuck_sandboxes env p e us now db))) = Some s'"
  shows "sb_status s' \<notin> set stuck_sandbox_statuses"
  using sandbox_sweep.sweep_settles [of "(db, [])" s "stuck_candidates p e now db" env us now 0] assms
  by (simp add: recover_stuck_sandboxes_def)

end
