(* ===== verification/Tool_Execution.thy ===== *)
theory Tool_Execution
  imports Sandbox_Service
begin

text \<open>
  Running a tool in a sandbox: \<open>apps/execution-service/src/application/tool_registry.py\<close> and
  \<open>tool_execution_service.py\<close>, with the request and result of \<open>domain/contracts.py\<close>.

  An execution is a claim transaction, the call of the execution backend, and a finish transaction;
  the first and the last are definitions of their own, so that other transactions can come between.
\<close>

section \<open>The registry\<close>

record tool_definition =
  tl_name :: string
  tl_command_template :: "string list"
  tl_allowed_sandbox_types :: "string list"

definition tool_registry :: "tool_definition list" where
  "tool_registry =
    [\<lparr> tl_name = ''python.run_script'', tl_command_template = [''python'', ''-c''],
       tl_allowed_sandbox_types = [''container''] \<rparr>,
     \<lparr> tl_name = ''shell.exec'', tl_command_template = [''sh'', ''-c''],
       tl_allowed_sandbox_types = [''container'', ''subprocess''] \<rparr>]"

definition get_tool :: "string \<Rightarrow> exec_error + tool_definition" where
  "get_tool name =
    (case find (\<lambda>t. tl_name t = name) tool_registry of
       None \<Rightarrow> Inl (X_ValueError ''Unknown tool'') | Some t \<Rightarrow> Inr t)"

definition max_input_size :: int where "max_input_size = 1000000"

definition build_command :: "string \<Rightarrow> dict \<Rightarrow> exec_error + string list" where
  "build_command name tool_input =
    rbind (get_tool name) (\<lambda>tool.
    case opt_or (map_of tool_input ''code'') (JStr []) of
      JStr code \<Rightarrow>
        if int (length code) > max_input_size
        then Inl (X_ValueError ''tool_input code exceeds maximum size'')
        else Inr (tl_command_template tool @ [code])
    | _ \<Rightarrow> Inl (X_ValueError ''tool_input code must be a string''))"

section \<open>Requests and results\<close>

record tool_request =
  tq_sandbox_id :: uuid
  tq_attempt_index :: int
  tq_tool_name :: string
  tq_tool_input :: dict
  tq_timeout_ms :: int

datatype tool_status = TX_COMPLETED | TX_FAILED | TX_TIMED_OUT

fun tool_status_value :: "tool_status \<Rightarrow> string" where
  "tool_status_value TX_COMPLETED = ''completed''"
| "tool_status_value TX_FAILED = ''failed''"
| "tool_status_value TX_TIMED_OUT = ''timed_out''"

record tool_result =
  tx_sandbox_id :: uuid
  tx_attempt_index :: int
  tx_status :: tool_status
  tx_stdout :: string
  tx_stderr :: string
  tx_exit_code :: "int option"
  tx_truncated :: bool
  tx_error_code :: "string option"
  tx_error_message :: "string option"

text \<open>What the execution backend does: a result, a \<open>TimeoutError\<close>, or any other exception.\<close>

datatype backend_outcome = Exec_Result string string int | Exec_Timeout | Exec_Error string

definition max_output_size :: nat where "max_output_size = 1000000"

definition truncate_output :: "string \<Rightarrow> string" where
  "truncate_output s = (if length s > max_output_size then take max_output_size s else s)"

text \<open>\<open>len(s.encode('utf-8'))\<close> for code points below 256.\<close>

definition utf8_length :: "string \<Rightarrow> int" where
  "utf8_length s = sum_list (map (\<lambda>c. if (of_char c :: nat) < 128 then 1 else 2) s)"

section \<open>Claim\<close>

record tool_run =
  tr_execution_id :: uuid
  tr_request :: tool_request
  tr_workspace_id :: uuid
  tr_correlation_id :: uuid

definition attempt_columns :: "uuid \<Rightarrow> tool_request \<Rightarrow> string \<Rightarrow> dict" where
  "attempt_columns exec_id req status =
    [(''id'', JUuid exec_id), (''sandbox_id'', JUuid (tq_sandbox_id req)),
     (''attempt_index'', JInt (tq_attempt_index req)), (''tool_name'', JStr (tq_tool_name req)),
     (''tool_input'', JObj (tq_tool_input req)), (''status'', JStr status)]"

definition tool_claim ::
  "tool_definition \<Rightarrow> tool_request \<Rightarrow> uuid_supply \<Rightarrow> time \<Rightarrow> exec_db \<Rightarrow> exec_error + (tool_run \<times> exec_db)" where
  "tool_claim tool req u now db =
    rbind (claim_for_execution (tq_sandbox_id req) now db) (\<lambda>(s, db1).
    if sandbox_type_value (sb_type s) \<notin> set (tl_allowed_sandbox_types tool)
    then Inl (X_Domain ''Tool not allowed on sandbox type'')
    else
    rbind (attempt_save now (attempt_columns (u 1) req ''running'' @ [(''started_at'', JInt now)]) db1) (\<lambda>db2.
    Inr (\<lparr> tr_execution_id = u 1, tr_request = req, tr_workspace_id = sb_workspace_id s,
           tr_correlation_id = u 0 \<rparr>,
         exec_outbox_write (tool_execution_requested_event (u 2, now) (tq_sandbox_id req)
           (sb_workspace_id s) (u 0) (u 1) (tq_tool_name req) (tq_attempt_index req)) db2)))"

section \<open>Finish\<close>

definition release_sandbox :: "uuid \<Rightarrow> time \<Rightarrow> exec_db \<Rightarrow> exec_error + exec_db" where
  "release_sandbox sid now db =
    (case sandbox_get sid db of
       None \<Rightarrow> Inr db
     | Some s \<Rightarrow> rbind (mark_idle now s) (\<lambda>s'. Inr (sandbox_save s' db)))"

definition record_failure ::
  "tool_run \<Rightarrow> tool_status \<Rightarrow> string \<Rightarrow> string \<Rightarrow> int \<Rightarrow> uuid_supply \<Rightarrow> time \<Rightarrow> exec_db
   \<Rightarrow> exec_error + (tool_result \<times> exec_db)" where
  "record_failure x status code msg duration u now db =
    (let req = tr_request x in
     rbind (release_sandbox (tq_sandbox_id req) now db) (\<lambda>db1.
     rbind (attempt_save now (attempt_columns (tr_execution_id x) req (tool_status_value status)
              @ [(''error_detail'', JObj [(''code'', JStr code), (''message'', JStr msg)]),
                 (''completed_at'', JInt now)]) db1) (\<lambda>db2.
     Inr (\<lparr> tx_sandbox_id = tq_sandbox_id req, tx_attempt_index = tq_attempt_index req, tx_status = status,
            tx_stdout = [], tx_stderr = [], tx_exit_code = None, tx_truncated = False,
            tx_error_code = Some code, tx_error_message = Some msg \<rparr>,
          exec_outbox_write (tool_execution_failed_event (u 3, now) (tq_sandbox_id req) (tr_workspace_id x)
            (tr_correlation_id x) (tr_execution_id x) (tq_tool_name req) (tq_attempt_index req)
            code msg duration None) db2))))"

definition record_result ::
  "tool_run \<Rightarrow> string \<Rightarrow> string \<Rightarrow> int \<Rightarrow> int \<Rightarrow> uuid_supply \<Rightarrow> time \<Rightarrow> exec_db
   \<Rightarrow> exec_error + (tool_result \<times> exec_db)" where
  "record_result x stdout stderr code duration u now db =
    (let req = tr_request x;
         truncated = (length stdout > max_output_size \<or> length stderr > max_output_size);
         status = (if code = 0 then TX_COMPLETED else TX_FAILED) in
     rbind (release_sandbox (tq_sandbox_id req) now db) (\<lambda>db1.
     rbind (attempt_save now (attempt_columns (tr_execution_id x) req (tool_status_value status)
              @ [(''stdout'', JStr (truncate_output stdout)), (''stderr'', JStr (truncate_output stderr)),
                 (''exit_code'', JInt code), (''truncated'', JBool truncated), (''completed_at'', JInt now)])
              db1) (\<lambda>db2.
     Inr (\<lparr> tx_sandbox_id = tq_sandbox_id req, tx_attempt_index = tq_attempt_index req, tx_status = status,
            tx_stdout = truncate_output stdout, tx_stderr = truncate_output stderr,
            tx_exit_code = Some code, tx_truncated = truncated, tx_error_code = None,
            tx_error_message = None \<rparr>,
          exec_outbox_write
            (if status = TX_COMPLETED
             then tool_execution_succeeded_event (u 3, now) (tq_sandbox_id req) (tr_workspace_id x)
               (tr_correlation_id x) (tr_execution_id x) (tq_tool_name req) (tq_attempt_index req)
               code duration truncated (utf8_length stdout)
             else tool_execution_failed_event (u 3, now) (tq_sandbox_id req) (tr_workspace_id x)
               (tr_correlation_id x) (tr_execution_id x) (tq_tool_name req) (tq_attempt_index req)
               ''NON_ZERO_EXIT'' (''exit_code='' @ str_int code) duration (Some code))
            db2))))"

definition exec_timeout_s :: "tool_request \<Rightarrow> int" where
  "exec_timeout_s req = max (tq_timeout_ms req div 1000) 1"

definition tool_finish ::
  "tool_run \<Rightarrow> backend_outcome \<Rightarrow> int \<Rightarrow> uuid_supply \<Rightarrow> time \<Rightarrow> exec_db
   \<Rightarrow> exec_error + (tool_result \<times> exec_db)" where
  "tool_finish x out duration u now db =
    (case out of
       Exec_Timeout \<Rightarrow> record_failure x TX_TIMED_OUT ''EXECUTION_TIMEOUT''
         (''Tool execution timed out after '' @ str_int (exec_timeout_s (tr_request x)) @ ''s'') duration u now db
     | Exec_Error msg \<Rightarrow> record_failure x TX_FAILED ''EXECUTION_ERROR'' msg duration u now db
     | Exec_Result stdout stderr code \<Rightarrow> record_result x stdout stderr code duration u now db)"

section \<open>The service\<close>

text \<open>\<open>te_exec\<close> is the backend, \<open>te_duration\<close> what the monotonic clock measures in milliseconds, and
  \<open>te_world\<close> what other transactions do while the command runs.\<close>

record tool_env =
  te_exec :: "uuid \<Rightarrow> string list \<Rightarrow> int \<Rightarrow> backend_outcome"
  te_duration :: int
  te_world :: "exec_db \<Rightarrow> exec_db"

definition tool_validate :: "tool_request \<Rightarrow> exec_error + (tool_definition \<times> string list)" where
  "tool_validate req =
    rbind (get_tool (tq_tool_name req)) (\<lambda>tool.
    rbind (build_command (tq_tool_name req) (tq_tool_input req)) (\<lambda>argv.
    if tq_timeout_ms req \<le> 0 then Inl (X_ValueError ''timeout_ms must be positive'')
    else Inr (tool, argv)))"

definition execute_tool ::
  "tool_env \<Rightarrow> tool_request \<Rightarrow> uuid_supply \<Rightarrow> time \<Rightarrow> time \<Rightarrow> exec_db
   \<Rightarrow> (exec_error + tool_result) \<times> exec_db" where
  "execute_tool env req u now later db =
    (case tool_validate req of
       Inl e \<Rightarrow> (Inl e, db)
     | Inr (tool, argv) \<Rightarrow>
         (case tool_claim tool req u now db of
            Inl e \<Rightarrow> (Inl e, db)
          | Inr (x, db1) \<Rightarrow>
              let db2 = te_world env db1;
                  out = te_exec env (tq_sandbox_id req) argv (exec_timeout_s req)
              in (case tool_finish x out (te_duration env) u later db2 of
                    Inl e \<Rightarrow> (Inl e, db2)
                  | Inr (r, db3) \<Rightarrow> (Inr r, db3))))"

definition get_execution :: "uuid \<Rightarrow> exec_db \<Rightarrow> exec_error + dict" where
  "get_execution k db =
    (case attempt_get k db of None \<Rightarrow> Inl (X_Domain ''Execution not found'') | Some a \<Rightarrow> Inr a)"

section \<open>Lemmas\<close>

lemma get_tool_registered: "get_tool name = Inr t \<Longrightarrow> t \<in> set tool_registry \<and> tl_name t = name"
  by (auto simp: get_tool_def find_Some_iff split: option.splits)

lemma build_command_ok:
  "build_command name inp = Inr argv \<longleftrightarrow>
   (\<exists>t code. get_tool name = Inr t \<and> opt_or (map_of inp ''code'') (JStr []) = JStr code
      \<and> int (length code) \<le> max_input_size \<and> argv = tl_command_template t @ [code])"
  by (cases "opt_or (map_of inp ''code'') (JStr [])") (auto simp: build_command_def rbind_Inr_iff)

lemma tool_validate_ok:
  "tool_validate req = Inr (t, argv) \<longleftrightarrow> get_tool (tq_tool_name req) = Inr t
     \<and> build_command (tq_tool_name req) (tq_tool_input req) = Inr argv \<and> 0 < tq_timeout_ms req"
  by (auto simp: tool_validate_def rbind_Inr_iff)

lemma exec_timeout_pos: "1 \<le> exec_timeout_s req"
  by (simp add: exec_timeout_s_def)

lemma truncate_output_bound: "length (truncate_output s) \<le> max_output_size"
  by (simp add: truncate_output_def)

lemma tool_claim_ok:
  assumes "tool_claim tool req u now db = Inr (x, db')"
  obtains s0 where "sandbox_get (tq_sandbox_id req) db = Some s0" "sb_status s0 \<in> {X_READY, X_IDLE}"
    "sandbox_type_value (sb_type s0) \<in> set (tl_allowed_sandbox_types tool)"
    "\<And>k. sandbox_get k db' = (if k = tq_sandbox_id req
        then Some (s0\<lparr>sb_status := X_EXECUTING, sb_updated_at := now\<rparr>) else sandbox_get k db)"
    "xd_sandboxes db' = xd_sandboxes (sandbox_save (s0\<lparr>sb_status := X_EXECUTING, sb_updated_at := now\<rparr>) db)"
    "tr_execution_id x = u 1" "tr_request x = req" "tr_workspace_id x = sb_workspace_id s0"
    "tr_correlation_id x = u 0"
    "xd_outbox db' = xd_outbox db @ [tool_execution_requested_event (u 2, now) (tq_sandbox_id req)
       (sb_workspace_id s0) (u 0) (u 1) (tq_tool_name req) (tq_attempt_index req)]"
    "xd_commands db' = xd_commands db" "xd_sessions db' = xd_sessions db"
proof -
  obtain s db1 db2 where c: "claim_for_execution (tq_sandbox_id req) now db = Inr (s, db1)"
    "sandbox_type_value (sb_type s) \<in> set (tl_allowed_sandbox_types tool)"
    "attempt_save now (attempt_columns (u 1) req ''running'' @ [(''started_at'', JInt now)]) db1 = Inr db2"
    "x = \<lparr> tr_execution_id = u 1, tr_request = req, tr_workspace_id = sb_workspace_id s, tr_correlation_id = u 0 \<rparr>"
    "db' = exec_outbox_write (tool_execution_requested_event (u 2, now) (tq_sandbox_id req)
           (sb_workspace_id s) (u 0) (u 1) (tq_tool_name req) (tq_attempt_index req)) db2"
    using assms unfolding tool_claim_def rbind_Inr_iff by (auto split: if_splits simp: rbind_Inr_iff)
  from c(1) obtain s0 where s0: "sandbox_get (tq_sandbox_id req) db = Some s0" "sb_status s0 \<in> {X_READY, X_IDLE}"
    "s = s0\<lparr>sb_status := X_EXECUTING, sb_updated_at := now\<rparr>" "db1 = sandbox_save s db"
    by (auto simp: claim_ok)
  moreover have "sb_id s0 = tq_sandbox_id req" using s0(1) by (rule sandbox_repo.get_key)
  ultimately show thesis
    using c attempt_save_frame [OF c(3)] by (intro that [of s0]) (auto simp: sandbox_repo.get_put)
qed

lemma release_ok:
  "release_sandbox sid now db = Inr db' \<longleftrightarrow>
   (sandbox_get sid db = None \<and> db' = db)
   \<or> (\<exists>s. sandbox_get sid db = Some s \<and> sb_status s = X_EXECUTING
        \<and> db' = sandbox_save (s\<lparr>sb_status := X_IDLE, sb_updated_at := now\<rparr>) db)"
proof -
  have "X_IDLE \<in> set (sandbox_transitions st) \<longleftrightarrow> st = X_EXECUTING" for st by (cases st) simp_all
  then show ?thesis
    by (auto simp: release_sandbox_def mark_idle_def rbind_Inr_iff sandbox_transition_ok split: option.split)
qed

text \<open>Every finish releases the sandbox first; the rest touches the attempts and the outbox.\<close>

lemma tool_finish_ok:
  assumes "tool_finish x out duration u now db = Inr (r, db')"
  obtains db1 d db2 e where "release_sandbox (tq_sandbox_id (tr_request x)) now db = Inr db1"
    "attempt_save now d db1 = Inr db2" "db' = exec_outbox_write e db2"
    "xe_sandbox_id e = Some (tq_sandbox_id (tr_request x))"
  using assms
  by (cases out)
     (auto simp: tool_finish_def record_failure_def record_result_def rbind_Inr_iff Let_def
        tool_execution_failed_event_def tool_execution_succeeded_event_def exec_event_of_def)

lemma tool_finish_sandbox:
  assumes "tool_finish x out duration u now db = Inr (r, db')"
  shows "(xd_sandboxes db' = xd_sandboxes db \<and> sandbox_get (tq_sandbox_id (tr_request x)) db = None)
    \<or> (\<exists>s. sandbox_get (tq_sandbox_id (tr_request x)) db = Some s \<and> sb_status s = X_EXECUTING
         \<and> xd_sandboxes db' = xd_sandboxes (sandbox_save (s\<lparr>sb_status := X_IDLE, sb_updated_at := now\<rparr>) db))"
  using assms
proof (rule tool_finish_ok)
  fix db1 d db2 e
  assume "release_sandbox (tq_sandbox_id (tr_request x)) now db = Inr db1"
    "attempt_save now d db1 = Inr db2" "db' = exec_outbox_write e db2"
  then show ?thesis using attempt_save_frame(1) [of now d db1 db2] by (auto simp: release_ok)
qed

end
