(* ===== verification/Terminal_Service.thy ===== *)
theory Terminal_Service
  imports Tool_Execution
begin

text \<open>
  \<open>apps/execution-service/src/application/terminal_session_service.py\<close>: sessions of a user against a
  sandbox, and the commands run in them.  As for tools, running a command is a transaction that records
  it, the call of the backend, and a transaction that records the result.  A command does not claim the
  sandbox.
\<close>

definition create_session ::
  "create_session_request \<Rightarrow> uuid \<Rightarrow> time \<Rightarrow> exec_db \<Rightarrow> exec_error + (terminal_session \<times> exec_db)" where
  "create_session req new_id now db =
    (case sandbox_get (cs_sandbox_id req) db of
       None \<Rightarrow> Inl (X_Domain ''Sandbox not found'')
     | Some s \<Rightarrow>
         if sb_status s \<noteq> X_READY \<and> sb_status s \<noteq> X_IDLE then Inl (X_Domain ''Sandbox is not available'')
         else (case get_active_by_run (cs_run_id req) db of
                 Some t \<Rightarrow> Inr (t, db)
               | None \<Rightarrow>
                   rbind (session_init new_id now (cs_sandbox_id req) (cs_run_id req) (cs_workspace_id req)
                            (cs_user_id req)) (\<lambda>t. Inr (t, session_save t db))))"

text \<open>The session, as its owner may see it; \<open>user = None\<close> skips the ownership check.\<close>

definition owned_session :: "uuid \<Rightarrow> string option \<Rightarrow> exec_db \<Rightarrow> exec_error + terminal_session" where
  "owned_session sid user db =
    (case session_get sid db of
       None \<Rightarrow> Inl (X_Domain ''Terminal session not found'')
     | Some t \<Rightarrow> if user \<noteq> None \<and> Some (ts_user_id t) \<noteq> user
                 then Inl (X_Domain ''Terminal session not found'') else Inr t)"

definition command_begin ::
  "exec_command_request \<Rightarrow> string option \<Rightarrow> uuid \<Rightarrow> time \<Rightarrow> exec_db
   \<Rightarrow> exec_error + ((terminal_session \<times> terminal_command) \<times> exec_db)" where
  "command_begin req user cmd_id now db =
    rbind (owned_session (ec_session_id req) user db) (\<lambda>t.
    if \<not> session_is_active t then Inl (X_Domain ''Terminal session is closed'')
    else if has_running (ec_session_id req) db
    then Inl (X_Domain ''Terminal session already has a running command'')
    else let c = command_init cmd_id now (ec_session_id req) (ec_command req)
         in Inr ((t, c), command_save c db))"

definition command_result :: "exec_command_request \<Rightarrow> backend_outcome \<Rightarrow> time \<Rightarrow> terminal_command \<Rightarrow> terminal_command" where
  "command_result req out now c =
    (case out of
       Exec_Result stdout stderr code \<Rightarrow> command_completed (truncate_output stdout) (truncate_output stderr) code now c
     | Exec_Timeout \<Rightarrow> command_timed_out (ec_timeout_s req) now c
     | Exec_Error msg \<Rightarrow> command_failed msg now c)"

text \<open>The columns of a command are text and a 32-bit integer, so the last save can be refused.\<close>

definition command_refused :: "terminal_command \<Rightarrow> exec_error option" where
  "command_refused c =
    (if \<not> pg_text (tc_command c) \<or> \<not> pg_text (tc_stdout c) \<or> \<not> pg_text (tc_stderr c)
     then Some (X_ValueError ''A string literal cannot contain NUL (0x00) characters.'')
     else if \<not> int4_ok (map_option JInt (tc_exit_code c)) then Some (X_Data ''integer out of range'')
     else None)"

definition command_finish ::
  "terminal_session \<Rightarrow> terminal_command \<Rightarrow> exec_command_request \<Rightarrow> backend_outcome \<Rightarrow> int \<Rightarrow> uuid_supply \<Rightarrow> time
   \<Rightarrow> exec_db \<Rightarrow> exec_error + (terminal_command \<times> exec_db)" where
  "command_finish t c0 req out duration u now db =
    (let c = command_result req out now c0 in
     case command_refused c of
       Some e \<Rightarrow> Inl e
     | None \<Rightarrow> Inr (c, exec_outbox_write (terminal_command_executed_event (u 2, now) (ts_sandbox_id t)
                  (ts_workspace_id t) (u 1) (ec_session_id req) (tc_id c) (ec_command req) (tc_exit_code c)
                  duration) (command_save c db)))"

definition execute_command ::
  "tool_env \<Rightarrow> exec_command_request \<Rightarrow> string option \<Rightarrow> uuid_supply \<Rightarrow> time \<Rightarrow> time \<Rightarrow> exec_db
   \<Rightarrow> (exec_error + terminal_command) \<times> exec_db" where
  "execute_command env req user u now later db =
    (case rbind (command_begin req user (u 0) now db) (\<lambda>p.
            case command_refused (snd (fst p)) of None \<Rightarrow> Inr p | Some e \<Rightarrow> Inl e) of
       Inl e \<Rightarrow> (Inl e, db)
     | Inr ((t, c), db1) \<Rightarrow>
         let db2 = te_world env db1;
             out = te_exec env (ts_sandbox_id t) [''sh'', ''-c'', ec_command req] (ec_timeout_s req)
         in (case command_finish t c req out (te_duration env) u later db2 of
               Inl e \<Rightarrow> (Inl e, db2)
             | Inr (c', db3) \<Rightarrow> (Inr c', db3)))"

definition get_session :: "uuid \<Rightarrow> string option \<Rightarrow> exec_db \<Rightarrow> exec_error + terminal_session" where
  "get_session sid user db = owned_session sid user db"

definition get_session_by_run :: "uuid \<Rightarrow> exec_db \<Rightarrow> terminal_session option" where
  "get_session_by_run run_id db = get_active_by_run run_id db"

definition list_commands :: "uuid \<Rightarrow> string option \<Rightarrow> nat \<Rightarrow> exec_db \<Rightarrow> exec_error + terminal_command list" where
  "list_commands sid user limit db = rbind (owned_session sid user db) (\<lambda>_. Inr (list_by_session sid limit db))"

definition close_session ::
  "uuid \<Rightarrow> string option \<Rightarrow> time \<Rightarrow> exec_db \<Rightarrow> exec_error + (terminal_session \<times> exec_db)" where
  "close_session sid user now db =
    rbind (owned_session sid user db) (\<lambda>t. rbind (session_close now t) (\<lambda>t'. Inr (t', session_save t' db)))"

section \<open>Lemmas\<close>

lemma owned_session_ok:
  "owned_session sid user db = Inr t \<longleftrightarrow>
   session_get sid db = Some t \<and> (user = None \<or> user = Some (ts_user_id t))"
  by (auto simp: owned_session_def split: option.splits)

text \<open>What happens to the sandboxes: nothing.\<close>

lemma terminal_keeps_sandboxes:
  "create_session creq i now db = Inr (t, db1) \<Longrightarrow> xd_sandboxes db1 = xd_sandboxes db"
  "command_begin req user i now db = Inr (p, db2) \<Longrightarrow> xd_sandboxes db2 = xd_sandboxes db"
  "command_finish t0 c req out dur u now db = Inr (c', db3) \<Longrightarrow> xd_sandboxes db3 = xd_sandboxes db"
  "close_session sid user now db = Inr (t', db4) \<Longrightarrow> xd_sandboxes db4 = xd_sandboxes db"
  by (auto simp: create_session_def command_begin_def command_finish_def close_session_def rbind_Inr_iff
      Let_def split: option.splits if_splits)

section \<open>One command at a time\<close>

text \<open>Each session has at most one running command.\<close>

definition running_of :: "uuid \<Rightarrow> exec_db \<Rightarrow> terminal_command list" where
  "running_of sid db = filter (\<lambda>c. tc_session_id c = sid \<and> tc_status c = TC_RUNNING) (xd_commands db)"

definition one_running :: "exec_db \<Rightarrow> bool" where
  "one_running db = (distinct (map tc_id (xd_commands db)) \<and> (\<forall>sid. length (running_of sid db) \<le> 1))"

lemma filter_upsert_fresh:
  "tc_id c \<notin> tc_id ` set cs \<Longrightarrow> upsert tc_id c cs = cs @ [c]"
  by (induction cs) auto

lemma has_running_iff: "has_running sid db \<longleftrightarrow> running_of sid db \<noteq> []"
  by (auto simp: has_running_def running_of_def list_ex_iff filter_empty_conv)

lemma filter_upsert_length:
  assumes "\<not> P c"
  shows "length (filter P (upsert tc_id c cs)) \<le> length (filter P cs)"
  using assms by (induction cs) auto

lemma command_begin_one:
  assumes "one_running db" "command_begin req user i now db = Inr (p, db')" "i \<notin> tc_id ` set (xd_commands db)"
  shows "one_running db'"
proof -
  let ?c = "command_init i now (ec_session_id req) (ec_command req)"
  have c: "\<not> has_running (ec_session_id req) db" "db' = command_save ?c db"
    using assms(2) by (auto simp: command_begin_def rbind_Inr_iff Let_def split: if_splits)
  have "tc_id ?c = i" by (simp add: command_init_def)
  then have rows: "xd_commands db' = xd_commands db @ [?c]"
    using assms(3) by (simp add: c(2) command_save_def filter_upsert_fresh)
  have "length (running_of sid db') \<le> 1" for sid
    using assms(1) c(1) unfolding one_running_def has_running_iff
    by (auto simp: running_of_def rows command_init_def)
  then show ?thesis using assms(1,3) by (simp add: one_running_def rows command_init_def)
qed

lemma command_finish_one:
  assumes "one_running db" "command_finish t c0 req out duration u now db = Inr (c, db')"
  shows "one_running db'"
proof -
  have c: "c = command_result req out now c0" "xd_commands db' = upsert tc_id c (xd_commands db)"
    using assms(2) by (auto simp: command_finish_def Let_def command_save_def split: option.splits)
  then have "tc_status c \<noteq> TC_RUNNING"
    by (cases out) (simp_all add: command_result_def command_completed_def command_timed_out_def command_failed_def)
  then have "length (running_of sid db') \<le> length (running_of sid db)" for sid
    using filter_upsert_length [of "\<lambda>c. tc_session_id c = sid \<and> tc_status c = TC_RUNNING" c "xd_commands db"]
    by (simp add: running_of_def c(2))
  then show ?thesis
    using assms(1) distinct_upsert [of tc_id "xd_commands db" c]
    by (auto simp: one_running_def c(2) intro: le_trans)
qed

end
