(* ===== verification/Exec_System.thy ===== *)
theory Exec_System
  imports Terminal_Service
begin

text \<open>
  The execution service as one system: the database together with the operations in flight, which are
  the calls that have committed their first transaction and wait for the sandbox backend.  A step is one
  transaction of one caller, or the loss of a caller (a crash of its process); transactions are taken to
  be serialized.  On top of it stand the invariant of the system, the lock that it implements, and the
  properties of the service.
\<close>

record exec_world =
  ew_db :: exec_db
  ew_provisioning :: "sandbox list"
  ew_terminating :: "sandbox list"
  ew_running :: "tool_run list"
  ew_commands :: "(terminal_session \<times> terminal_command) list"

abbreviation run_sandbox :: "tool_run \<Rightarrow> uuid" where
  "run_sandbox x \<equiv> tq_sandbox_id (tr_request x)"

inductive exec_step :: "exec_world \<Rightarrow> exec_world \<Rightarrow> bool" where
  es_provision: "\<lbrakk> provision_begin req u now (ew_db w) = Inr (s, db');
     u 0 \<notin> sb_id ` set (xd_sandboxes (ew_db w)) \<rbrakk> \<Longrightarrow>
     exec_step w (w\<lparr> ew_db := db', ew_provisioning := s # ew_provisioning w \<rparr>)"
| es_ready: "\<lbrakk> s \<in> set (ew_provisioning w); provision_ready s u now (ew_db w) = Inr (r, db') \<rbrakk> \<Longrightarrow>
     exec_step w (w\<lparr> ew_db := db', ew_provisioning := remove1 s (ew_provisioning w) \<rparr>)"
| es_provision_failed: "\<lbrakk> s \<in> set (ew_provisioning w); provision_failed s msg u now (ew_db w) = Inr (r, db') \<rbrakk> \<Longrightarrow>
     exec_step w (w\<lparr> ew_db := db', ew_provisioning := remove1 s (ew_provisioning w) \<rparr>)"
| es_terminate: "terminate_begin sid reason u now (ew_db w) = Inr (s, db') \<Longrightarrow>
     exec_step w (w\<lparr> ew_db := db', ew_terminating := s # ew_terminating w \<rparr>)"
| es_terminated: "\<lbrakk> s \<in> set (ew_terminating w); terminate_finish s u now (ew_db w) = Inr db' \<rbrakk> \<Longrightarrow>
     exec_step w (w\<lparr> ew_db := db', ew_terminating := remove1 s (ew_terminating w) \<rparr>)"
| es_claim: "\<lbrakk> tool_validate req = Inr (tool, argv); tool_claim tool req u now (ew_db w) = Inr (x, db') \<rbrakk> \<Longrightarrow>
     exec_step w (w\<lparr> ew_db := db', ew_running := x # ew_running w \<rparr>)"
| es_finish: "\<lbrakk> x \<in> set (ew_running w); tool_finish x out d u now (ew_db w) = Inr (r, db') \<rbrakk> \<Longrightarrow>
     exec_step w (w\<lparr> ew_db := db', ew_running := remove1 x (ew_running w) \<rparr>)"
| es_finish_error: "\<lbrakk> x \<in> set (ew_running w); tool_finish x out d u now (ew_db w) = Inl e \<rbrakk> \<Longrightarrow>
     exec_step w (w\<lparr> ew_running := remove1 x (ew_running w) \<rparr>)"
| es_recover: "reconcile_sandbox sid ws previous cleaned u now (ew_db w) = (r, db') \<Longrightarrow>
     exec_step w (w\<lparr> ew_db := db' \<rparr>)"
| es_session: "create_session creq i now (ew_db w) = Inr (t, db') \<Longrightarrow> exec_step w (w\<lparr> ew_db := db' \<rparr>)"
| es_command: "\<lbrakk> command_begin ereq user i now (ew_db w) = Inr (p, db');
     i \<notin> tc_id ` set (xd_commands (ew_db w)) \<rbrakk> \<Longrightarrow>
     exec_step w (w\<lparr> ew_db := db', ew_commands := p # ew_commands w \<rparr>)"
| es_command_done: "\<lbrakk> (t, c) \<in> set (ew_commands w); command_finish t c ereq out d u now (ew_db w) = Inr (c', db') \<rbrakk> \<Longrightarrow>
     exec_step w (w\<lparr> ew_db := db', ew_commands := remove1 (t, c) (ew_commands w) \<rparr>)"
| es_close: "close_session sid user now (ew_db w) = Inr (t, db') \<Longrightarrow> exec_step w (w\<lparr> ew_db := db' \<rparr>)"
| es_lost_provision: "s \<in> set (ew_provisioning w) \<Longrightarrow>
     exec_step w (w\<lparr> ew_provisioning := remove1 s (ew_provisioning w) \<rparr>)"
| es_lost_terminate: "s \<in> set (ew_terminating w) \<Longrightarrow>
     exec_step w (w\<lparr> ew_terminating := remove1 s (ew_terminating w) \<rparr>)"
| es_lost_run: "x \<in> set (ew_running w) \<Longrightarrow> exec_step w (w\<lparr> ew_running := remove1 x (ew_running w) \<rparr>)"
| es_lost_command: "p \<in> set (ew_commands w) \<Longrightarrow> exec_step w (w\<lparr> ew_commands := remove1 p (ew_commands w) \<rparr>)"

definition empty_exec_db :: exec_db where
  "empty_exec_db = \<lparr> xd_sandboxes = [], xd_attempts = [], xd_sessions = [], xd_commands = [], xd_outbox = [] \<rparr>"

definition empty_exec_world :: exec_world where
  "empty_exec_world = \<lparr> ew_db = empty_exec_db, ew_provisioning = [], ew_terminating = [], ew_running = [],
     ew_commands = [] \<rparr>"

section \<open>Effects\<close>

text \<open>What a step does, in terms of the statuses of the rows, the sandboxes being provisioned and the
  tools being run: one of eight effects.\<close>

definition st_of :: "exec_world \<Rightarrow> uuid \<Rightarrow> sandbox_status option" where
  "st_of w sid = map_option sb_status (sandbox_get sid (ew_db w))"

definition terminating_known :: "exec_world \<Rightarrow> bool" where
  "terminating_known w = list_all (\<lambda>t. st_of w (sb_id t) \<noteq> None) (ew_terminating w)"

definition gone_statuses :: "sandbox_status set" where
  "gone_statuses = {X_FAILED, X_TERMINATING, X_TERMINATED}"

inductive exec_effect :: "exec_world \<Rightarrow> exec_world \<Rightarrow> bool" for w w' where
  ef_new: "\<lbrakk> st_of w (sb_id s) = None; st_of w' = (st_of w)(sb_id s := Some X_PROVISIONING);
     ew_provisioning w' = s # ew_provisioning w; ew_running w' = ew_running w \<rbrakk> \<Longrightarrow> exec_effect w w'"
| ef_settle: "\<lbrakk> s \<in> set (ew_provisioning w); c \<in> {X_READY, X_FAILED}; st_of w' = (st_of w)(sb_id s := Some c);
     ew_provisioning w' = remove1 s (ew_provisioning w); ew_running w' = ew_running w \<rbrakk> \<Longrightarrow> exec_effect w w'"
| ef_abandon: "\<lbrakk> s \<in> set (ew_provisioning w); st_of w' = st_of w;
     ew_provisioning w' = remove1 s (ew_provisioning w); ew_running w' = ew_running w \<rbrakk> \<Longrightarrow> exec_effect w w'"
| ef_acquire: "\<lbrakk> st_of w (run_sandbox x) \<in> {Some X_READY, Some X_IDLE};
     st_of w' = (st_of w)(run_sandbox x := Some X_EXECUTING);
     ew_provisioning w' = ew_provisioning w; ew_running w' = x # ew_running w \<rbrakk> \<Longrightarrow> exec_effect w w'"
| ef_release: "\<lbrakk> x \<in> set (ew_running w); st_of w (run_sandbox x) = Some X_EXECUTING;
     st_of w' = (st_of w)(run_sandbox x := Some X_IDLE);
     ew_provisioning w' = ew_provisioning w; ew_running w' = remove1 x (ew_running w) \<rbrakk> \<Longrightarrow> exec_effect w w'"
| ef_drop: "\<lbrakk> x \<in> set (ew_running w); st_of w' = st_of w;
     ew_provisioning w' = ew_provisioning w; ew_running w' = remove1 x (ew_running w) \<rbrakk> \<Longrightarrow> exec_effect w w'"
| ef_retire: "\<lbrakk> st_of w sid \<noteq> None; c \<in> gone_statuses; st_of w' = (st_of w)(sid := Some c);
     ew_provisioning w' = ew_provisioning w; ew_running w' = ew_running w \<rbrakk> \<Longrightarrow> exec_effect w w'"
| ef_none: "\<lbrakk> st_of w' = st_of w; ew_provisioning w' = ew_provisioning w; ew_running w' = ew_running w \<rbrakk> \<Longrightarrow>
     exec_effect w w'"

lemma st_of_save:
  "sandbox_get k (ew_db w') = (if k = sb_id s then Some s else sandbox_get k (ew_db w)) \<Longrightarrow>
   st_of w' k = ((st_of w)(sb_id s := Some (sb_status s))) k"
  by (simp add: st_of_def)

lemma st_of_same: "xd_sandboxes (ew_db w') = xd_sandboxes (ew_db w) \<Longrightarrow> st_of w' = st_of w"
  by (simp add: fun_eq_iff st_of_def sandbox_get_def)

lemma st_of_upsert:
  "xd_sandboxes (ew_db w') = xd_sandboxes (sandbox_save s (ew_db w)) \<Longrightarrow>
   st_of w' = (st_of w)(sb_id s := Some (sb_status s))"
  by (simp add: fun_eq_iff st_of_def sandbox_get_def sandbox_save_def)

lemma st_of_frames [simp]:
  "st_of (w\<lparr>ew_running := xs\<rparr>) = st_of w" "st_of (w\<lparr>ew_provisioning := ps\<rparr>) = st_of w"
  "st_of (w\<lparr>ew_terminating := ts\<rparr>) = st_of w" "st_of (w\<lparr>ew_commands := cs\<rparr>) = st_of w"
  "st_of (w\<lparr>ew_db := db, ew_commands := cs\<rparr>) = st_of (w\<lparr>ew_db := db\<rparr>)"
  by (simp_all add: fun_eq_iff st_of_def)

lemma exec_step_effect:
  assumes "exec_step w w'" "terminating_known w"
  shows "exec_effect w w'"
  using assms
proof (induction rule: exec_step.induct)
  case (es_provision req u now w s db')
  have s: "sb_id s = u 0" "sb_status s = X_PROVISIONING" "xd_sandboxes db' = xd_sandboxes (sandbox_save s (ew_db w))"
    using es_provision(1) by (auto simp: provision_begin_def sandbox_init_def Let_def split: option.splits)
  have "st_of w (u 0) = None"
    using es_provision(2) by (simp add: st_of_def sandbox_get_def find_row_None_iff)
  then show ?case using s by (intro ef_new [of _ s]) (auto simp: st_of_upsert [of _ s w])
next
  case (es_ready s w u now r db')
  obtain s' where "sb_id s' = sb_id s" "sb_status s' = X_READY"
    "xd_sandboxes db' = xd_sandboxes (sandbox_save s' (ew_db w))"
    using es_ready(2) by (intro that [of "s\<lparr>sb_status := X_READY, sb_updated_at := now, sb_started_at := Some now\<rparr>"])
      (auto simp: provision_ready_def mark_ready_def rbind_Inr_iff sandbox_transition_ok)
  then show ?case using es_ready(1) by (intro ef_settle [of s _ X_READY]) (auto simp: st_of_upsert [of _ s' w])
next
  case (es_provision_failed s w msg u now r db')
  obtain s' where "sb_id s' = sb_id s" "sb_status s' = X_FAILED"
    "xd_sandboxes db' = xd_sandboxes (sandbox_save s' (ew_db w))"
    using es_provision_failed(2) by (intro that [of "s\<lparr>sb_status := X_FAILED, sb_updated_at := now, sb_error_detail := Some [(''code'', JStr ''PROVISION_ERROR''), (''message'', JStr msg)]\<rparr>"])
      (auto simp: provision_failed_def mark_failed_def rbind_Inr_iff sandbox_transition_ok)
  then show ?case
    using es_provision_failed(1) by (intro ef_settle [of s _ X_FAILED]) (auto simp: st_of_upsert [of _ s' w])
next
  case (es_terminate sid reason u now w s db')
  obtain s0 where s0: "sandbox_get sid (ew_db w) = Some s0" "sb_id s = sb_id s0" "sb_status s = X_TERMINATING"
    "xd_sandboxes db' = xd_sandboxes (sandbox_save s (ew_db w))"
    using es_terminate(1)
    by (auto simp: terminate_begin_def mark_terminating_def rbind_Inr_iff sandbox_transition_ok split: option.splits)
  then have "sb_id s = sid" using sandbox_repo.get_key by metis
  then show ?case
    using s0 by (intro ef_retire [of _ sid X_TERMINATING]) (auto simp: st_of_upsert [of _ s w] gone_statuses_def st_of_def)
next
  case (es_terminated s w u now db')
  obtain s' where s': "sb_id s' = sb_id s" "sb_status s' = X_TERMINATED"
    "xd_sandboxes db' = xd_sandboxes (sandbox_save s' (ew_db w))"
    using es_terminated(2) by (intro that [of "s\<lparr>sb_status := X_TERMINATED, sb_updated_at := now, sb_terminated_at := Some now\<rparr>"])
      (auto simp: terminate_finish_def mark_terminated_def rbind_Inr_iff sandbox_transition_ok)
  moreover have "st_of w (sb_id s) \<noteq> None"
    using es_terminated(1,3) by (auto simp: terminating_known_def list_all_iff)
  ultimately show ?case
    by (intro ef_retire [of _ "sb_id s" X_TERMINATED]) (auto simp: st_of_upsert [of _ s' w] gone_statuses_def)
next
  case (es_claim req tool argv u now w x db')
  obtain s0 where s0: "sandbox_get (tq_sandbox_id req) (ew_db w) = Some s0" "sb_status s0 \<in> {X_READY, X_IDLE}"
    "xd_sandboxes db' = xd_sandboxes (sandbox_save (s0\<lparr>sb_status := X_EXECUTING, sb_updated_at := now\<rparr>) (ew_db w))"
    "tr_request x = req"
    using es_claim(2) by (rule tool_claim_ok)
  then have "sb_id s0 = tq_sandbox_id req" by (simp add: sandbox_repo.get_key)
  then show ?case
    using s0 by (intro ef_acquire [of _ x])
      (auto simp: st_of_upsert [of _ "s0\<lparr>sb_status := X_EXECUTING, sb_updated_at := now\<rparr>" w] st_of_def)
next
  case (es_finish x w out d u now r db')
  from tool_finish_sandbox [OF es_finish(2)] show ?case
  proof (elim disjE exE conjE)
    assume "xd_sandboxes db' = xd_sandboxes (ew_db w)"
    then show ?thesis using es_finish(1) by (intro ef_drop [of x]) (auto intro: st_of_same)
  next
    fix s
    assume s: "sandbox_get (run_sandbox x) (ew_db w) = Some s" "sb_status s = X_EXECUTING"
      "xd_sandboxes db' = xd_sandboxes (sandbox_save (s\<lparr>sb_status := X_IDLE, sb_updated_at := now\<rparr>) (ew_db w))"
    then have "sb_id s = run_sandbox x" by (simp add: sandbox_repo.get_key)
    then show ?thesis
      using s es_finish(1) by (intro ef_release [of x])
        (auto simp: st_of_upsert [of _ "s\<lparr>sb_status := X_IDLE, sb_updated_at := now\<rparr>" w] st_of_def)
  qed
next
  case (es_recover sid ws previous cleaned u now w r db')
  from es_recover(1) show ?case
  proof (cases rule: reconcile_cases)
    case skipped
    then show ?thesis by (intro ef_none) (auto intro: st_of_same)
  next
    case (failed s d e)
    then have "sb_id s = sid" by (simp add: sandbox_repo.get_key)
    then show ?thesis
      using failed by (intro ef_retire [of _ sid X_FAILED])
        (auto simp: st_of_upsert [of _ "s\<lparr>sb_status := X_FAILED, sb_updated_at := now, sb_error_detail := d\<rparr>" w]
           st_of_def gone_statuses_def)
  qed
next
  case (es_finish_error x w out d u now e)
  then show ?case by (intro ef_drop [of x]) simp_all
next
  case (es_session creq i now w t db')
  then show ?case by (intro ef_none st_of_same) (simp_all add: terminal_keeps_sandboxes(1))
next
  case (es_command ereq user i now w p db')
  then show ?case by (intro ef_none) (auto intro!: st_of_same simp: terminal_keeps_sandboxes(2))
next
  case (es_command_done t c w ereq out d u now c' db')
  then show ?case by (intro ef_none) (auto intro!: st_of_same simp: terminal_keeps_sandboxes(3))
next
  case (es_close sid user now w t db')
  then show ?case by (intro ef_none st_of_same) (simp_all add: terminal_keeps_sandboxes(4))
next
  case (es_lost_provision s w)
  then show ?case by (intro ef_abandon [of s]) simp_all
next
  case (es_lost_terminate s w)
  then show ?case by (intro ef_none) simp_all
next
  case (es_lost_run x w)
  then show ?case by (intro ef_drop [of x]) simp_all
next
  case (es_lost_command p w)
  then show ?case by (intro ef_none) simp_all
qed

section \<open>The invariant\<close>

definition exec_inv :: "exec_world \<Rightarrow> bool" where
  "exec_inv w =
    (terminating_known w
     \<and> list_all (\<lambda>p. st_of w (sb_id p) \<in> Some ` insert X_PROVISIONING gone_statuses) (ew_provisioning w)
     \<and> distinct (map sb_id (ew_provisioning w))
     \<and> list_all (\<lambda>x. run_sandbox x \<notin> sb_id ` set (ew_provisioning w)
        \<and> st_of w (run_sandbox x) \<in> Some ` insert X_EXECUTING gone_statuses) (ew_running w)
     \<and> distinct (map run_sandbox (ew_running w)))"

lemma in_remove1: "y \<in> set (remove1 x xs) \<Longrightarrow> y \<in> set xs"
  by (metis notin_set_remove1)

lemma distinct_remove1_map: "distinct (map f xs) \<Longrightarrow> distinct (map f (remove1 x xs))"
  by (auto simp: distinct_map intro: inj_on_subset)

lemma set_remove1_map: "distinct (map f xs) \<Longrightarrow> set (remove1 x xs) = set xs - {x}"
  by (simp add: distinct_map set_remove1_eq)

lemma map_remove1_other:
  "\<lbrakk> distinct (map f xs); x \<in> set xs; y \<in> set (remove1 x xs) \<rbrakk> \<Longrightarrow> f y \<noteq> f x"
  by (auto simp: set_remove1_map distinct_map inj_on_def)

lemma effect_keeps_rows: "\<lbrakk> exec_effect w w'; st_of w k \<noteq> None \<rbrakk> \<Longrightarrow> st_of w' k \<noteq> None"
  by (induction rule: exec_effect.induct) auto

lemma step_terminating:
  assumes "exec_step w w'" "t \<in> set (ew_terminating w')"
  shows "t \<in> set (ew_terminating w) \<or> st_of w' (sb_id t) \<noteq> None"
  using assms
proof (induction rule: exec_step.induct)
  case (es_terminate sid reason u now w s db')
  then have "sandbox_get (sb_id s) db' \<noteq> None"
    by (auto simp: terminate_begin_def rbind_Inr_iff sandbox_repo.get_put split: option.splits)
  then show ?case using es_terminate(2) by (auto simp: st_of_def)
qed (auto dest: in_remove1)

lemma terminating_step:
  assumes "exec_step w w'" "terminating_known w"
  shows "terminating_known w'"
  using step_terminating [OF assms(1)] effect_keeps_rows [OF exec_step_effect [OF assms]] assms(2)
  unfolding terminating_known_def list_all_iff by blast

lemma exec_invI:
  assumes "terminating_known w" "distinct (map sb_id (ew_provisioning w))" "distinct (map run_sandbox (ew_running w))"
    and "\<And>p. p \<in> set (ew_provisioning w) \<Longrightarrow> st_of w (sb_id p) \<in> Some ` insert X_PROVISIONING gone_statuses"
    and "\<And>x p. \<lbrakk> x \<in> set (ew_running w); p \<in> set (ew_provisioning w) \<rbrakk> \<Longrightarrow> run_sandbox x \<noteq> sb_id p"
    and "\<And>x. x \<in> set (ew_running w) \<Longrightarrow> st_of w (run_sandbox x) \<in> Some ` insert X_EXECUTING gone_statuses"
  shows "exec_inv w"
  using assms by (auto simp: exec_inv_def list_all_iff)

lemma effect_inv:
  assumes "exec_effect w w'" "exec_inv w" "terminating_known w'"
  shows "exec_inv w'"
proof -
  have inv: "\<And>p. p \<in> set (ew_provisioning w) \<Longrightarrow> st_of w (sb_id p) \<in> Some ` insert X_PROVISIONING gone_statuses"
    "distinct (map sb_id (ew_provisioning w))" "distinct (map run_sandbox (ew_running w))"
    "\<And>x p. \<lbrakk> x \<in> set (ew_running w); p \<in> set (ew_provisioning w) \<rbrakk> \<Longrightarrow> run_sandbox x \<noteq> sb_id p"
    "\<And>x. x \<in> set (ew_running w) \<Longrightarrow> st_of w (run_sandbox x) \<in> Some ` insert X_EXECUTING gone_statuses"
    using assms(2) unfolding exec_inv_def list_all_iff by blast+
  show ?thesis
    using assms(1)
  proof cases
    case (ef_new s)
    have "\<And>p. p \<in> set (ew_provisioning w) \<Longrightarrow> sb_id p \<noteq> sb_id s"
      "\<And>x. x \<in> set (ew_running w) \<Longrightarrow> run_sandbox x \<noteq> sb_id s"
      using inv(1,5) ef_new(1) by fastforce+
    then show ?thesis using ef_new inv assms(3) by (fastforce simp: exec_inv_def list_all_iff)
  next
    case (ef_settle s c)
    have other: "p \<in> set (ew_provisioning w') \<Longrightarrow> p \<in> set (ew_provisioning w) \<and> sb_id p \<noteq> sb_id s" for p
      using map_remove1_other [OF inv(2) ef_settle(1)] ef_settle(4) by (auto dest: in_remove1)
    have run: "x \<in> set (ew_running w') \<Longrightarrow> x \<in> set (ew_running w) \<and> run_sandbox x \<noteq> sb_id s" for x
      using inv(4) ef_settle(1,5) by auto
    show ?thesis
    proof (rule exec_invI)
      show "distinct (map sb_id (ew_provisioning w'))" using inv(2) ef_settle(4) by (simp add: distinct_remove1_map)
      show "distinct (map run_sandbox (ew_running w'))" using inv(3) ef_settle(5) by simp
      show "run_sandbox x \<noteq> sb_id p" if "x \<in> set (ew_running w')" "p \<in> set (ew_provisioning w')" for x p
        using that other run inv(4) by blast
      show "st_of w' (sb_id p) \<in> Some ` insert X_PROVISIONING gone_statuses" if "p \<in> set (ew_provisioning w')" for p
        using other [OF that] inv(1) ef_settle(3) by simp
      show "st_of w' (run_sandbox x) \<in> Some ` insert X_EXECUTING gone_statuses" if "x \<in> set (ew_running w')" for x
        using run [OF that] inv(5) ef_settle(3) by simp
    qed (rule assms(3))
  next
    case (ef_abandon s)
    then have "set (ew_provisioning w') \<subseteq> set (ew_provisioning w)" "set (ew_running w') \<subseteq> set (ew_running w)"
      "distinct (map sb_id (ew_provisioning w'))" "distinct (map run_sandbox (ew_running w'))"
      using inv(2,3) set_remove1_subset by (auto simp: distinct_remove1_map dest: in_remove1)
    then show ?thesis
      using inv(1,4,5) assms(3) ef_abandon(2) by (intro exec_invI) (simp_all add: subset_iff)
  next
    case (ef_acquire x)
    have new: "p \<in> set (ew_provisioning w) \<Longrightarrow> sb_id p \<noteq> run_sandbox x"
      "y \<in> set (ew_running w) \<Longrightarrow> run_sandbox y \<noteq> run_sandbox x" for p y
      using inv(1) [of p] inv(5) [of y] ef_acquire(1) by (auto simp: gone_statuses_def)
    show ?thesis
      using inv assms(3) ef_acquire new by (intro exec_invI) (fastforce simp: gone_statuses_def)+
  next
    case (ef_release x)
    have run: "y \<in> set (ew_running w') \<Longrightarrow> y \<in> set (ew_running w) \<and> run_sandbox y \<noteq> run_sandbox x" for y
      using map_remove1_other [OF inv(3) ef_release(1)] ef_release(5) by (auto dest: in_remove1)
    have prov: "p \<in> set (ew_provisioning w') \<Longrightarrow> p \<in> set (ew_provisioning w) \<and> sb_id p \<noteq> run_sandbox x" for p
      using inv(4) [OF ef_release(1)] ef_release(4) by metis
    show ?thesis
    proof (rule exec_invI)
      show "distinct (map sb_id (ew_provisioning w'))" using inv(2) ef_release(4) by simp
      show "distinct (map run_sandbox (ew_running w'))" using inv(3) ef_release(5) by (simp add: distinct_remove1_map)
      show "run_sandbox y \<noteq> sb_id p" if "y \<in> set (ew_running w')" "p \<in> set (ew_provisioning w')" for y p
        using that prov run inv(4) by blast
      show "st_of w' (sb_id p) \<in> Some ` insert X_PROVISIONING gone_statuses" if "p \<in> set (ew_provisioning w')" for p
        using prov [OF that] inv(1) ef_release(3) by simp
      show "st_of w' (run_sandbox y) \<in> Some ` insert X_EXECUTING gone_statuses" if "y \<in> set (ew_running w')" for y
        using run [OF that] inv(5) ef_release(3) by simp
    qed (rule assms(3))
  next
    case (ef_drop x)
    then have "set (ew_provisioning w') \<subseteq> set (ew_provisioning w)" "set (ew_running w') \<subseteq> set (ew_running w)"
      "distinct (map sb_id (ew_provisioning w'))" "distinct (map run_sandbox (ew_running w'))"
      using inv(2,3) set_remove1_subset by (auto simp: distinct_remove1_map dest: in_remove1)
    then show ?thesis
      using inv(1,4,5) assms(3) ef_drop(2) by (intro exec_invI) (simp_all add: subset_iff)
  next
    case (ef_retire sid c)
    then show ?thesis using inv assms(3) by (auto simp: exec_inv_def list_all_iff)
  next
    case ef_none
    then show ?thesis using inv assms(3) by (auto simp: exec_inv_def list_all_iff)
  qed
qed

lemma exec_step_inv: "\<lbrakk> exec_step w w'; exec_inv w \<rbrakk> \<Longrightarrow> exec_inv w'"
  using effect_inv exec_step_effect terminating_step by (metis exec_inv_def)

lemma exec_reach_inv: "\<lbrakk> exec_step\<^sup>*\<^sup>* w w'; exec_inv w \<rbrakk> \<Longrightarrow> exec_inv w'"
  by (induction rule: rtranclp_induct) (auto intro: exec_step_inv)

lemma empty_exec_inv [simp]: "exec_inv empty_exec_world"
  by (simp add: exec_inv_def terminating_known_def empty_exec_world_def)

section \<open>The lock the service implements\<close>

text \<open>A sandbox is a lock for tool executions: new while it is being provisioned, then free or held, and
  gone for good once it failed or is being terminated.  \<open>L_Held\<close> names the executions that hold it;
  it is empty when the holder was lost.\<close>

datatype lock = L_New | L_Free | L_Held "uuid set" | L_Gone

inductive lock_move :: "lock option \<Rightarrow> lock option \<Rightarrow> bool" where
  lk_create: "lock_move None (Some L_New)"
| lk_open: "lock_move (Some L_New) (Some L_Free)"
| lk_acquire: "lock_move (Some L_Free) (Some (L_Held {e}))"
| lk_release: "lock_move (Some (L_Held {e})) (Some L_Free)"
| lk_orphan: "lock_move (Some (L_Held {e})) (Some (L_Held {}))"
| lk_retire: "lock_move (Some l) (Some L_Gone)"

inductive lock_step :: "(uuid \<Rightarrow> lock option) \<Rightarrow> (uuid \<Rightarrow> lock option) \<Rightarrow> bool" where
  "lock_move (m s) l \<Longrightarrow> lock_step m (m(s := l))"

definition holders :: "exec_world \<Rightarrow> uuid \<Rightarrow> uuid set" where
  "holders w sid = tr_execution_id ` {x \<in> set (ew_running w). run_sandbox x = sid}"

definition lock_of :: "exec_world \<Rightarrow> uuid \<Rightarrow> lock option" where
  "lock_of w sid =
    (case st_of w sid of
       None \<Rightarrow> None
     | Some c \<Rightarrow> Some (
         if sid \<in> sb_id ` set (ew_provisioning w) \<or> c = X_PROVISIONING then L_New
         else if c = X_READY \<or> c = X_IDLE then L_Free
         else if c = X_EXECUTING then L_Held (holders w sid)
         else L_Gone))"

lemma lock_update:
  assumes "\<And>k. k \<noteq> sid \<Longrightarrow> st_of w' k = st_of w k"
    and "\<And>k. k \<noteq> sid \<Longrightarrow> k \<in> sb_id ` set (ew_provisioning w') \<longleftrightarrow> k \<in> sb_id ` set (ew_provisioning w)"
    and "\<And>k. k \<noteq> sid \<Longrightarrow> holders w' k = holders w k"
  shows "lock_of w' = (lock_of w)(sid := lock_of w' sid)"
  using assms by (auto simp: fun_eq_iff lock_of_def split: option.split)

lemma lock_effect:
  assumes "\<And>k. k \<noteq> sid \<Longrightarrow> st_of w' k = st_of w k"
    and "\<And>k. k \<noteq> sid \<Longrightarrow> k \<in> sb_id ` set (ew_provisioning w') \<longleftrightarrow> k \<in> sb_id ` set (ew_provisioning w)"
    and "\<And>k. k \<noteq> sid \<Longrightarrow> holders w' k = holders w k"
    and "lock_of w' sid = lock_of w sid \<or> lock_move (lock_of w sid) (lock_of w' sid)"
  shows "lock_of w' = lock_of w \<or> lock_step (lock_of w) (lock_of w')"
proof (cases "lock_of w' sid = lock_of w sid")
  case True
  then show ?thesis using lock_update [of sid w' w] assms(1-3) by (metis fun_upd_triv)
next
  case False
  then have "lock_step (lock_of w) ((lock_of w)(sid := lock_of w' sid))" using assms(4) lock_step.intros by blast
  then show ?thesis using lock_update [of sid w' w] assms(1-3) by metis
qed

lemma holders_other:
  assumes "ew_running w' = x # ew_running w \<or> ew_running w' = remove1 x (ew_running w)"
    and "distinct (map run_sandbox (ew_running w))" "k \<noteq> run_sandbox x"
  shows "holders w' k = holders w k"
proof -
  have "y \<in> set (ew_running w') \<longleftrightarrow> y \<in> set (ew_running w)" if "run_sandbox y = k" for y
    using assms that by (auto simp: set_remove1_map)
  then show ?thesis unfolding holders_def by (intro image_cong refl Collect_cong) blast
qed

lemma holders_alone:
  assumes "x \<in> set (ew_running w)" "distinct (map run_sandbox (ew_running w))"
  shows "holders w (run_sandbox x) = {tr_execution_id x}"
  using assms by (auto simp: holders_def distinct_map inj_on_def)

lemma holders_none: "(\<And>y. y \<in> set (ew_running w) \<Longrightarrow> run_sandbox y \<noteq> sid) \<Longrightarrow> holders w sid = {}"
  by (auto simp: holders_def)

lemma exec_invD:
  assumes "exec_inv w"
  shows "distinct (map sb_id (ew_provisioning w))" "distinct (map run_sandbox (ew_running w))"
    "p \<in> set (ew_provisioning w) \<Longrightarrow> st_of w (sb_id p) \<in> Some ` insert X_PROVISIONING gone_statuses"
    "\<lbrakk> x \<in> set (ew_running w); q \<in> set (ew_provisioning w) \<rbrakk> \<Longrightarrow> run_sandbox x \<noteq> sb_id q"
    "x \<in> set (ew_running w) \<Longrightarrow> st_of w (run_sandbox x) \<in> Some ` insert X_EXECUTING gone_statuses"
  using assms unfolding exec_inv_def list_all_iff by blast+

lemma lock_new:
  assumes "exec_inv w" "p \<in> set (ew_provisioning w)"
  shows "lock_of w (sb_id p) = Some L_New"
proof -
  obtain c where "st_of w (sb_id p) = Some c" using exec_invD(3) [OF assms] by blast
  then show ?thesis using assms(2) by (auto simp: lock_of_def)
qed

lemma lock_settled:
  assumes "st_of w sid = Some c" "\<And>p. p \<in> set (ew_provisioning w) \<Longrightarrow> sb_id p \<noteq> sid" "c \<noteq> X_PROVISIONING"
  shows "lock_of w sid = Some (if c = X_READY \<or> c = X_IDLE then L_Free
           else if c = X_EXECUTING then L_Held (holders w sid) else L_Gone)"
proof -
  have "sid \<notin> sb_id ` set (ew_provisioning w)" using assms(2) by blast
  then show ?thesis using assms(1,3) by (simp add: lock_of_def)
qed

lemma effect_lock:
  assumes "exec_effect w w'" "exec_inv w"
  shows "lock_of w' = lock_of w \<or> lock_step (lock_of w) (lock_of w')"
proof -
  note inv = exec_invD [OF assms(2)]
  show ?thesis
    using assms(1)
  proof cases
    case (ef_new s)
    have "lock_of w (sb_id s) = None" "lock_of w' (sb_id s) = Some L_New"
      using ef_new by (simp_all add: lock_of_def)
    then show ?thesis
      using ef_new lk_create by (intro lock_effect [of "sb_id s"]) (auto simp: holders_def)
  next
    case (ef_settle s c)
    have gone: "sb_id p \<noteq> sb_id s" if "p \<in> set (ew_provisioning w')" for p
      using map_remove1_other [OF inv(1) ef_settle(1)] that ef_settle(4) by simp
    have "lock_of w' (sb_id s) = Some (if c = X_READY then L_Free else L_Gone)"
      using lock_settled [of w' "sb_id s" c] gone ef_settle(2,3) by auto
    then have move: "lock_move (lock_of w (sb_id s)) (lock_of w' (sb_id s))"
      using lock_new [OF assms(2) ef_settle(1)] lk_open lk_retire by simp
    have "set (ew_provisioning w') = set (ew_provisioning w) - {s}"
      using ef_settle(4) inv(1) by (simp add: set_remove1_map)
    then show ?thesis
      using move ef_settle by (intro lock_effect [of "sb_id s"]) (auto simp: holders_def)
  next
    case (ef_abandon s)
    have gone: "sb_id p \<noteq> sb_id s" if "p \<in> set (ew_provisioning w')" for p
      using map_remove1_other [OF inv(1) ef_abandon(1)] that ef_abandon(3) by simp
    obtain c where c: "st_of w (sb_id s) = Some c" "c \<in> insert X_PROVISIONING gone_statuses"
      using inv(3) [OF ef_abandon(1)] by blast
    have "lock_of w' (sb_id s) = Some (if c = X_PROVISIONING then L_New else L_Gone)"
    proof (cases "c = X_PROVISIONING")
      case True
      then show ?thesis using c(1) ef_abandon(2) by (simp add: lock_of_def)
    next
      case False
      then show ?thesis using lock_settled [of w' "sb_id s" c] gone c ef_abandon(2) by (auto simp: gone_statuses_def)
    qed
    then have move: "lock_of w' (sb_id s) = lock_of w (sb_id s) \<or> lock_move (lock_of w (sb_id s)) (lock_of w' (sb_id s))"
      using lock_new [OF assms(2) ef_abandon(1)] lk_retire by simp
    have "set (ew_provisioning w') = set (ew_provisioning w) - {s}"
      using ef_abandon(3) inv(1) by (simp add: set_remove1_map)
    then show ?thesis
      using move ef_abandon by (intro lock_effect [of "sb_id s"]) (auto simp: holders_def)
  next
    case (ef_acquire x)
    have new: "p \<in> set (ew_provisioning w) \<Longrightarrow> sb_id p \<noteq> run_sandbox x"
      "y \<in> set (ew_running w) \<Longrightarrow> run_sandbox y \<noteq> run_sandbox x" for p y
      using inv(3) [of p] inv(5) [of y] ef_acquire(1) by (auto simp: gone_statuses_def)
    have "lock_of w (run_sandbox x) = Some L_Free"
      using ef_acquire(1) new(1) lock_settled [of w "run_sandbox x"] by auto
    moreover have "holders w' (run_sandbox x) = {tr_execution_id x}"
      using new(2) ef_acquire(4) by (auto simp: holders_def)
    then have "lock_of w' (run_sandbox x) = Some (L_Held {tr_execution_id x})"
      using ef_acquire(2,3) new(1) lock_settled [of w' "run_sandbox x" X_EXECUTING] by simp
    ultimately show ?thesis
      using ef_acquire lk_acquire holders_other [of w' x w] inv(2)
      by (intro lock_effect [of "run_sandbox x"]) auto
  next
    case (ef_release x)
    have np: "sb_id p \<noteq> run_sandbox x" if "p \<in> set (ew_provisioning w)" for p
      using inv(4) [OF ef_release(1) that] by simp
    have "lock_of w (run_sandbox x) = Some (L_Held {tr_execution_id x})"
      using ef_release(2) np lock_settled [of w "run_sandbox x" X_EXECUTING] holders_alone [OF ef_release(1) inv(2)] by simp
    moreover have "lock_of w' (run_sandbox x) = Some L_Free"
      using ef_release(3,4) np lock_settled [of w' "run_sandbox x" X_IDLE] by simp
    ultimately show ?thesis
      using ef_release lk_release holders_other [of w' x w] inv(2)
      by (intro lock_effect [of "run_sandbox x"]) auto
  next
    case (ef_drop x)
    have np: "sb_id p \<noteq> run_sandbox x" if "p \<in> set (ew_provisioning w)" for p
      using inv(4) [OF ef_drop(1) that] by simp
    obtain c where c: "st_of w (run_sandbox x) = Some c" "c \<in> insert X_EXECUTING gone_statuses"
      using inv(5) [OF ef_drop(1)] by blast
    have "holders w' (run_sandbox x) = {}"
      using map_remove1_other [OF inv(2) ef_drop(1)] ef_drop(4) by (intro holders_none) auto
    then have "lock_of w' (run_sandbox x) = lock_of w (run_sandbox x)
        \<or> lock_move (lock_of w (run_sandbox x)) (lock_of w' (run_sandbox x))"
      using c np ef_drop(2,3) lock_settled [of w "run_sandbox x" c] lock_settled [of w' "run_sandbox x" c]
        holders_alone [OF ef_drop(1) inv(2)] lk_orphan
      by (auto simp: gone_statuses_def)
    then show ?thesis
      using ef_drop holders_other [of w' x w] inv(2) by (intro lock_effect [of "run_sandbox x"]) auto
  next
    case (ef_retire sid c)
    have "lock_of w' sid = lock_of w sid \<or> lock_move (lock_of w sid) (lock_of w' sid)"
    proof (cases "sid \<in> sb_id ` set (ew_provisioning w)")
      case True
      then show ?thesis using ef_retire by (auto simp: lock_of_def)
    next
      case False
      then have "lock_of w' sid = Some L_Gone"
        using ef_retire by (auto simp: lock_of_def gone_statuses_def)
      moreover obtain l where "lock_of w sid = Some l" using ef_retire(1) by (auto simp: lock_of_def)
      ultimately show ?thesis using lk_retire by simp
    qed
    then show ?thesis using ef_retire by (intro lock_effect [of sid]) (auto simp: holders_def)
  next
    case ef_none
    moreover from this have "holders w' = holders w" by (simp add: fun_eq_iff holders_def)
    ultimately have "lock_of w' = lock_of w" by (intro ext) (simp add: lock_of_def split: option.split)
    then show ?thesis by simp
  qed
qed

lemma gone_stays: "\<lbrakk> lock_step m m'; m s = Some L_Gone \<rbrakk> \<Longrightarrow> m' s = Some L_Gone"
  by (induction rule: lock_step.induct) (auto elim: lock_move.cases)

section \<open>Properties\<close>

text \<open>C25. In every reachable state at most one tool execution is in flight for a sandbox, the row of that
  sandbox is executing or already retired, and nobody can claim the sandbox until the execution has
  finished.\<close>

theorem tool_mutual_exclusion:
  assumes "exec_step\<^sup>*\<^sup>* empty_exec_world w" "x \<in> set (ew_running w)"
  shows "filter (\<lambda>y. run_sandbox y = run_sandbox x) (ew_running w) = [x]
    \<and> (\<exists>s. sandbox_get (run_sandbox x) (ew_db w) = Some s
         \<and> sb_status s \<in> {X_EXECUTING, X_FAILED, X_TERMINATING, X_TERMINATED})
    \<and> \<not> is_ok (claim_for_execution (run_sandbox x) now (ew_db w))"
proof -
  have inv: "exec_inv w" using exec_reach_inv [OF assms(1)] by simp
  obtain s where s: "sandbox_get (run_sandbox x) (ew_db w) = Some s" "sb_status s \<in> insert X_EXECUTING gone_statuses"
    using exec_invD(5) [OF inv assms(2)] by (auto simp: st_of_def)
  then have "\<not> is_ok (claim_for_execution (run_sandbox x) now (ew_db w))"
    by (auto simp: is_ok_iff claim_ok gone_statuses_def)
  moreover have "filter (\<lambda>y. run_sandbox y = run_sandbox x) xs = [x]"
    if "distinct (map run_sandbox xs)" "x \<in> set xs" for xs
    using that by (induction xs) (auto simp: filter_empty_conv image_iff)
  ultimately show ?thesis using s exec_invD(2) [OF inv] assms(2) by (auto simp: gone_statuses_def)
qed


text \<open>A sandbox that has failed or is being terminated, once its provisioning is over, is never usable
  again: in every later state no execution can claim it.\<close>

theorem retired_for_good:
  assumes "exec_step\<^sup>*\<^sup>* empty_exec_world w" "exec_step\<^sup>*\<^sup>* w w'"
    and "sandbox_get sid (ew_db w) = Some s" "sb_status s \<in> {X_FAILED, X_TERMINATING, X_TERMINATED}"
    and "sid \<notin> sb_id ` set (ew_provisioning w)"
  shows "(\<exists>s'. sandbox_get sid (ew_db w') = Some s' \<and> sb_status s' \<in> {X_FAILED, X_TERMINATING, X_TERMINATED})
    \<and> \<not> is_ok (claim_for_execution sid now (ew_db w'))"
proof -
  have w: "lock_of w sid = Some L_Gone" using assms(3-5) by (auto simp: lock_of_def st_of_def)
  have "exec_inv w" using exec_reach_inv [OF assms(1)] by simp
  have "exec_inv w' \<and> lock_of w' sid = Some L_Gone"
    using assms(2)
  proof (induction rule: rtranclp_induct)
    case base
    then show ?case using w \<open>exec_inv w\<close> by simp
  next
    case (step y z)
    then have "exec_inv y" by blast
    then have "exec_effect y z" using exec_step_effect [OF step(2)] by (simp add: exec_inv_def)
    then show ?case using step effect_lock \<open>exec_inv y\<close> exec_step_inv gone_stays by metis
  qed
  then obtain s' where "sandbox_get sid (ew_db w') = Some s'" "sb_status s' \<in> gone_statuses"
    by (cases "sandbox_get sid (ew_db w')"; cases "sb_status (the (sandbox_get sid (ew_db w')))")
       (auto simp: lock_of_def st_of_def gone_statuses_def split: if_splits)
  then show ?thesis by (auto simp: gone_statuses_def is_ok_iff claim_ok)
qed

section \<open>A concrete run\<close>

definition demo_provision :: provision_request where
  "demo_provision = \<lparr> pq_workspace_id = 7, pq_task_id = 1, pq_run_id = 2, pq_step_id = 3,
     pq_agent_invocation_id = 4, pq_sandbox_type = ''container'', pq_policy_snapshot = [],
     pq_resource_limits = [], pq_network_egress_policy = [] \<rparr>"

definition demo_sandbox :: sandbox where
  "demo_sandbox = sandbox_init 10 5 7 1 2 3 4 Container [] [] []"

definition demo_ready :: sandbox where
  "demo_ready = demo_sandbox\<lparr>sb_status := X_READY, sb_updated_at := 6, sb_started_at := Some 6\<rparr>"

definition demo_tool_request :: tool_request where
  "demo_tool_request = \<lparr> tq_sandbox_id = 10, tq_attempt_index = 0, tq_tool_name = ''shell.exec'',
     tq_tool_input = [(''code'', JStr ''ls'')], tq_timeout_ms = 30000 \<rparr>"

definition demo_tool :: tool_definition where
  "demo_tool = \<lparr> tl_name = ''shell.exec'', tl_command_template = [''sh'', ''-c''],
       tl_allowed_sandbox_types = [''container'', ''subprocess''] \<rparr>"

lemma demo_sandbox_simps [simp]:
  "sb_id demo_sandbox = 10" "sb_status demo_sandbox = X_PROVISIONING" "sb_workspace_id demo_sandbox = 7"
  "sb_id demo_ready = 10" "sb_status demo_ready = X_READY" "sb_workspace_id demo_ready = 7"
  "sb_type demo_ready = Container"
  by (simp_all add: demo_sandbox_def demo_ready_def sandbox_init_def)

lemma demo_provision_begin:
  "provision_begin demo_provision (\<lambda>i. 10 + i) 5 db =
     Inr (demo_sandbox, exec_outbox_write (sandbox_provision_requested_event (12, 5) 10 7 11 ''container'')
       (sandbox_save demo_sandbox db))"
  by (simp add: provision_begin_def demo_provision_def sandbox_type_of_def demo_sandbox_def Let_def)

lemma demo_provision_ready:
  "\<exists>r db'. provision_ready demo_sandbox u 6 db = Inr (r, db') \<and> po_result_status r = ''ready''
     \<and> xd_attempts db' = xd_attempts db \<and> (\<forall>k. sandbox_get k db' = (if k = 10 then Some demo_ready else sandbox_get k db))
     \<and> xd_sandboxes db' = upsert sb_id demo_ready (xd_sandboxes db)"
proof -
  have "mark_ready 6 demo_sandbox = Inr demo_ready"
    by (simp add: mark_ready_def sandbox_transition_def sandbox_terminal_def demo_ready_def)
  then show ?thesis
    by (auto simp: provision_ready_def sandbox_repo.get_put) (simp add: sandbox_save_def)
qed

lemma demo_validate: "tool_validate demo_tool_request = Inr (demo_tool, [''sh'', ''-c'', ''ls''])"
  by (simp add: tool_validate_def get_tool_def tool_registry_def build_command_def max_input_size_def
      demo_tool_request_def demo_tool_def)

lemma demo_claim:
  assumes "sandbox_get 10 db = Some s" "sb_status s = X_READY" "sb_type s = Container" "xd_attempts db = []"
  shows "\<exists>x db'. tool_claim demo_tool demo_tool_request u now db = Inr (x, db') \<and> tr_request x = demo_tool_request"
proof -
  let ?s = "s\<lparr>sb_status := X_EXECUTING, sb_updated_at := now\<rparr>"
  have id: "sb_id s = 10" using assms(1) by (rule sandbox_repo.get_key)
  have claim: "claim_for_execution 10 now db = Inr (?s, sandbox_save ?s db)"
    using assms(1,2) by (auto simp: claim_ok)
  have "list_ex (\<lambda>t. sb_id t = 10) (upsert sb_id ?s xs)" for xs
    using id by (induction xs) auto
  then have "attempt_refused (attempt_columns (u 1) demo_tool_request ''running'' @ [(''started_at'', JInt now)])
      (sandbox_save ?s db) = None"
    using assms(4)
    by (simp add: attempt_refused_def attempt_texts_ok_def attempt_columns_def demo_tool_request_def pg_text_def int4_ok_def
        sandbox_save_def same_attempt_def eq_commute)
  then show ?thesis
    using assms(3,4) claim
    by (auto simp: tool_claim_def demo_tool_def attempt_save_def demo_tool_request_def)
qed

lemma demo_reach_ready:
  "\<exists>db. exec_step\<^sup>*\<^sup>* empty_exec_world (empty_exec_world\<lparr>ew_db := db\<rparr>) \<and> sandbox_get 10 db = Some demo_ready
     \<and> xd_attempts db = []"
proof -
  let ?db1 = "exec_outbox_write (sandbox_provision_requested_event (12, 5) 10 7 11 ''container'')
       (sandbox_save demo_sandbox empty_exec_db)"
  let ?w1 = "empty_exec_world\<lparr> ew_db := ?db1, ew_provisioning := [demo_sandbox] \<rparr>"
  have s1: "exec_step empty_exec_world ?w1"
    using es_provision [of demo_provision "\<lambda>i. 10 + i" 5 empty_exec_world]
    by (simp add: demo_provision_begin empty_exec_world_def empty_exec_db_def)
  obtain r db where r: "provision_ready demo_sandbox (\<lambda>i. 10 + i) 6 ?db1 = Inr (r, db)"
    "xd_attempts db = []" "sandbox_get 10 db = Some demo_ready"
    using demo_provision_ready [of "\<lambda>i. 10 + i" ?db1] by (auto simp: empty_exec_db_def)
  have "exec_step ?w1 (?w1\<lparr> ew_db := db, ew_provisioning := remove1 demo_sandbox (ew_provisioning ?w1) \<rparr>)"
    using r(1) by (intro es_ready [of demo_sandbox]) simp_all
  then have "exec_step ?w1 (empty_exec_world\<lparr>ew_db := db\<rparr>)" by (simp add: empty_exec_world_def)
  with s1 r(2,3) show ?thesis by (meson rtranclp.rtrancl_into_rtrancl rtranclp.rtrancl_refl)
qed

lemma demo_reach_running:
  "\<exists>w x. exec_step\<^sup>*\<^sup>* empty_exec_world w \<and> x \<in> set (ew_running w) \<and> run_sandbox x = 10"
proof -
  obtain db where db: "exec_step\<^sup>*\<^sup>* empty_exec_world (empty_exec_world\<lparr>ew_db := db\<rparr>)"
    "sandbox_get 10 db = Some demo_ready" "xd_attempts db = []" using demo_reach_ready by blast
  obtain x db' where x: "tool_claim demo_tool demo_tool_request (\<lambda>i. 20 + i) 8 db = Inr (x, db')"
    "tr_request x = demo_tool_request" using demo_claim [OF db(2), of "\<lambda>i. 20 + i" 8] db(3) by auto
  let ?w = "empty_exec_world\<lparr>ew_db := db\<rparr>"
  have "exec_step ?w (?w\<lparr> ew_db := db', ew_running := x # ew_running ?w \<rparr>)"
    using x(1) demo_validate by (intro es_claim) simp_all
  with db(1) have "exec_step\<^sup>*\<^sup>* empty_exec_world (?w\<lparr> ew_db := db', ew_running := x # ew_running ?w \<rparr>)"
    by (rule rtranclp.rtrancl_into_rtrancl)
  then show ?thesis using x(2) by (intro exI [of _ x] exI) (auto simp: demo_tool_request_def)
qed

theorem tool_mutual_exclusion_witness:
  "\<exists>w x. exec_step\<^sup>*\<^sup>* empty_exec_world w \<and> run_sandbox x = 10
     \<and> filter (\<lambda>y. run_sandbox y = run_sandbox x) (ew_running w) = [x]
     \<and> \<not> is_ok (claim_for_execution 10 9 (ew_db w))"
proof -
  obtain w x where w: "exec_step\<^sup>*\<^sup>* empty_exec_world w" "x \<in> set (ew_running w)" "run_sandbox x = 10"
    using demo_reach_running by blast
  from tool_mutual_exclusion [OF w(1,2), of 9] w(3)
  have "filter (\<lambda>y. run_sandbox y = run_sandbox x) (ew_running w) = [x]"
    "\<not> is_ok (claim_for_execution 10 9 (ew_db w))" by simp_all
  with w show ?thesis by blast
qed


end
