(* ===== verification/Exec_Properties.thy ===== *)
theory Exec_Properties
  imports Exec_System
begin

text \<open>
  What the services of the execution service do from call to return, and where the pieces that are right
  one by one go wrong together.
\<close>

section \<open>The outcome of a tool execution\<close>

definition outcome_status :: "backend_outcome \<Rightarrow> tool_status" where
  "outcome_status out =
    (case out of Exec_Timeout \<Rightarrow> TX_TIMED_OUT | Exec_Error _ \<Rightarrow> TX_FAILED
     | Exec_Result _ _ code \<Rightarrow> if code = 0 then TX_COMPLETED else TX_FAILED)"

lemma find_map_keep: "(\<And>x. P (g x) = P x) \<Longrightarrow> find P (map g xs) = map_option g (find P xs)"
  by (induction xs) auto

lemma find_first: "list_ex P xs \<Longrightarrow> \<exists>x. find P xs = Some x \<and> P x"
  by (induction xs) auto

lemma attempt_save_row:
  assumes "attempt_save now d db = Inr db'" "map_of d ''sandbox_id'' = Some (JUuid sid)"
    "map_of d ''attempt_index'' = Some (JInt i)" "distinct (map fst d)"
  obtains a where "attempt_by_index sid i db' = Some a"
    "\<And>k. k \<noteq> ''id'' \<Longrightarrow> k \<in> fst ` set d \<Longrightarrow> map_of a k = map_of d k"
proof -
  have upd: "map_of (dict_update a0 d') k = (if k \<in> fst ` set d' then map_of d' k else map_of a0 k)"
    if "distinct (map fst d')" for a0 d' k
    using that
  proof (induction d' arbitrary: a0)
    case (Cons p d')
    then show ?case by (cases p) (auto simp: map_of_dict_update_other dest: map_of_SomeD)
  qed simp
  have dis: "distinct (map fst (filter (\<lambda>p. fst p \<noteq> ''id'') d))" using assms(4) by (simp add: distinct_map_filter)
  have filt: "map_of (filter (\<lambda>p. fst p \<noteq> ''id'') d) k = map_of d k" if "k \<noteq> ''id''" for k
    using that by (induction d) auto
  have keys: "''sandbox_id'' \<in> fst ` set d" "''attempt_index'' \<in> fst ` set d"
    using assms(2,3) by (force dest: map_of_SomeD)+
  let ?P = "\<lambda>a. map_of a ''sandbox_id'' = Some (JUuid sid) \<and> map_of a ''attempt_index'' = Some (JInt i)"
  have same: "same_attempt d a \<longleftrightarrow> ?P a" for a using assms(2,3) by (auto simp: same_attempt_def)
  let ?g = "\<lambda>a. if same_attempt d a then dict_update a (filter (\<lambda>p. fst p \<noteq> ''id'') d) else a"
  show thesis
  proof (cases "list_ex (same_attempt d) (xd_attempts db)")
    case True
    then have rows: "xd_attempts db' = map ?g (xd_attempts db)"
      using assms(1) by (auto simp: attempt_save_def split: option.splits)
    have g: "?P (?g a) \<longleftrightarrow> ?P a" for a
      using assms(2,3) keys by (auto simp: upd [OF dis] filt same)
    obtain b where b: "find ?P (xd_attempts db) = Some b" "?P b"
      using find_first [of ?P "xd_attempts db"] True same by (auto simp: list_ex_iff)
    then have "find ?P (xd_attempts db') = Some (?g b)"
      unfolding rows using find_map_keep [of ?P ?g "xd_attempts db", OF g] by simp
    then show thesis
      using b(2) by (intro that [of "?g b"]) (auto simp: attempt_by_index_def same upd [OF dis] filt image_iff)
  next
    case False
    let ?a = "dict_update (attempt_defaults now) d"
    have rows: "xd_attempts db' = xd_attempts db @ [?a]"
      using assms(1) False by (auto simp: attempt_save_def split: option.splits)
    have "?P ?a" using assms(2,3) keys by (auto simp: upd [OF assms(4)])
    moreover have "find ?P (xs @ [?a]) = Some ?a" if "\<not> list_ex (same_attempt d) xs" for xs
      using that \<open>?P ?a\<close> by (induction xs) (auto simp: same)
    ultimately show thesis
      using False by (intro that [of ?a]) (auto simp: attempt_by_index_def rows upd [OF assms(4)])
  qed
qed

lemma release_frees:
  assumes "release_sandbox sid now db = Inr db1"
  shows "sandbox_get sid db1 = None \<or> (\<exists>s. sandbox_get sid db1 = Some s \<and> sb_status s = X_IDLE)"
  using assms by (auto simp: release_ok sandbox_repo.get_put dest: sandbox_repo.get_key)

text \<open>Every finish releases the sandbox, saves the columns of the attempt, and writes one event.\<close>

lemma tool_finish_result:
  assumes "tool_finish x out duration u later db = Inr (r, db')"
  obtains d db2 db3 e where "release_sandbox (tq_sandbox_id (tr_request x)) later db = Inr db2"
    "attempt_save later d db2 = Inr db3" "db' = exec_outbox_write e db3"
    "map_of d ''sandbox_id'' = Some (JUuid (tq_sandbox_id (tr_request x)))"
    "map_of d ''attempt_index'' = Some (JInt (tq_attempt_index (tr_request x)))" "distinct (map fst d)"
    "map_of d ''status'' = Some (JStr (tool_status_value (tx_status r)))" "''status'' \<in> fst ` set d"
    "tx_status r = outcome_status out" "length (tx_stdout r) \<le> max_output_size"
    "length (tx_stderr r) \<le> max_output_size"
    "xe_type e = (if tx_status r = TX_COMPLETED then ''sandbox.tool_execution.succeeded''
       else ''sandbox.tool_execution.failed'')"
proof (cases out)
  case (Exec_Result stdout stderr code)
  show thesis
    using assms unfolding Exec_Result tool_finish_def record_result_def
    by (simp only: backend_outcome.case rbind_Inr_iff Let_def, elim exE conjE)
       (rule that, assumption, assumption, auto simp: Exec_Result outcome_status_def attempt_columns_def
          truncate_output_bound tool_execution_succeeded_event_def tool_execution_failed_event_def exec_event_of_def)
next
  case Exec_Timeout
  show thesis
    using assms unfolding Exec_Timeout tool_finish_def record_failure_def
    by (simp only: backend_outcome.case rbind_Inr_iff Let_def, elim exE conjE)
       (rule that, assumption, assumption, auto simp: Exec_Timeout outcome_status_def attempt_columns_def
          tool_execution_failed_event_def exec_event_of_def)
next
  case (Exec_Error msg)
  show thesis
    using assms unfolding Exec_Error tool_finish_def record_failure_def
    by (simp only: backend_outcome.case rbind_Inr_iff Let_def, elim exE conjE)
       (rule that, assumption, assumption, auto simp: Exec_Error outcome_status_def attempt_columns_def
          tool_execution_failed_event_def exec_event_of_def)
qed

lemma tool_finish_attempt:
  assumes "tool_finish x out duration u later db = Inr (r, db')"
  shows "\<exists>a. attempt_by_index (tq_sandbox_id (tr_request x)) (tq_attempt_index (tr_request x)) db' = Some a"
proof -
  obtain d db2 db3 e where f: "attempt_save later d db2 = Inr db3" "db' = exec_outbox_write e db3"
    "map_of d ''sandbox_id'' = Some (JUuid (tq_sandbox_id (tr_request x)))"
    "map_of d ''attempt_index'' = Some (JInt (tq_attempt_index (tr_request x)))" "distinct (map fst d)"
    using assms by (rule tool_finish_result)
  obtain a where "attempt_by_index (tq_sandbox_id (tr_request x)) (tq_attempt_index (tr_request x)) db3 = Some a"
    using f(1,3-5) by (rule attempt_save_row)
  then show ?thesis by (simp add: f(2) attempt_by_index_def)
qed


section \<open>Lost results\<close>

lemma execute_tool_unfold:
  assumes "tool_validate req = Inr (tool, argv)" "tool_claim tool req u now db = Inr (x, db1)"
  shows "execute_tool env req u now later db =
    (case tool_finish x (te_exec env (tq_sandbox_id req) argv (exec_timeout_s req)) (te_duration env) u later
            (te_world env db1) of
       Inl e \<Rightarrow> (Inl e, te_world env db1) | Inr (r, db3) \<Rightarrow> (Inr r, db3))"
  using assms by (simp add: execute_tool_def Let_def)

lemma release_refused:
  assumes "sandbox_get sid db = Some s" "sb_status s \<noteq> X_EXECUTING"
  shows "\<exists>e. release_sandbox sid now db = Inl e"
  using release_ok [of sid now db] assms by (cases "release_sandbox sid now db") auto

lemma claim_writes_running:
  assumes "tool_claim tool req u now db = Inr (x, db1)"
  shows "\<exists>a. attempt_by_index (tq_sandbox_id req) (tq_attempt_index req) db1 = Some a
     \<and> map_of a ''status'' = Some (JStr ''running'')"
proof -
  let ?d = "attempt_columns (u 1) req ''running'' @ [(''started_at'', JInt now)]"
  obtain db2 db3 where s: "attempt_save now ?d db2 = Inr db3" "xd_attempts db1 = xd_attempts db3"
    using assms unfolding tool_claim_def rbind_Inr_iff by (auto split: if_splits simp: rbind_Inr_iff)
  obtain a where "attempt_by_index (tq_sandbox_id req) (tq_attempt_index req) db3 = Some a"
    "\<And>k. k \<noteq> ''id'' \<Longrightarrow> k \<in> fst ` set ?d \<Longrightarrow> map_of a k = map_of ?d k"
    using attempt_save_row [OF s(1)] by (auto simp: attempt_columns_def)
  then show ?thesis using s(2) by (auto simp: attempt_by_index_def attempt_columns_def)
qed

text \<open>When a sandbox is retired while a tool runs in it (terminated, or failed by a recovery), the result of
  the tool is lost: the call raises whatever the tool did, nothing is stored, no event is emitted, and the
  attempt stays running for ever.\<close>

theorem tool_result_lost:
  assumes "tool_validate req = Inr (tool, argv)" "tool_claim tool req u now db = Inr (x, db1)"
    and "sandbox_get (tq_sandbox_id req) (te_world env db1) = Some s"
    and "sb_status s \<in> {X_FAILED, X_TERMINATING, X_TERMINATED}"
    and "xd_attempts (te_world env db1) = xd_attempts db1"
  shows "\<exists>e. execute_tool env req u now later db = (Inl e, te_world env db1)
    \<and> (\<exists>a. attempt_by_index (tq_sandbox_id req) (tq_attempt_index req) (te_world env db1) = Some a
         \<and> map_of a ''status'' = Some (JStr ''running''))"
proof -
  have req: "tr_request x = req" using assms(2) by (rule tool_claim_ok)
  obtain e where "release_sandbox (tq_sandbox_id req) later (te_world env db1) = Inl e"
    using release_refused [OF assms(3), of later] assms(4) by auto
  then have "tool_finish x out d u later (te_world env db1) = Inl e" for out d
    by (cases out) (simp_all add: tool_finish_def record_failure_def record_result_def req Let_def)
  then have "execute_tool env req u now later db = (Inl e, te_world env db1)"
    by (simp add: execute_tool_unfold [OF assms(1,2)])
  then show ?thesis
    using claim_writes_running [OF assms(2)] assms(5) by (auto simp: attempt_by_index_def)
qed

text \<open>A tool whose output holds a NUL character wedges its sandbox: the result cannot be stored, the
  call raises, and the sandbox stays executing, so that every later execution finds it busy.\<close>

theorem nul_output_wedges_sandbox:
  assumes "tool_validate req = Inr (tool, argv)" "tool_claim tool req u now db = Inr (x, db1)"
    and "te_world env db1 = db1"
    and "te_exec env (tq_sandbox_id req) argv (exec_timeout_s req) = Exec_Result stdout stderr code"
    and "\<not> pg_text (truncate_output stdout)"
  shows "execute_tool env req u now later db = (Inl (X_ValueError ''A string literal cannot contain NUL (0x00) characters.''), db1)
    \<and> claim_for_execution (tq_sandbox_id req) t db1 = Inl (X_Busy (tq_sandbox_id req) ''executing'')"
proof -
  obtain s0 where s0: "tr_request x = req"
    "sandbox_get (tq_sandbox_id req) db1 = Some (s0\<lparr>sb_status := X_EXECUTING, sb_updated_at := now\<rparr>)"
    using assms(2) by (rule tool_claim_ok) auto
  then obtain db2 where rel: "release_sandbox (tq_sandbox_id req) later db1 = Inr db2"
    using release_ok [of "tq_sandbox_id req" later db1] by auto
  have "tool_finish x (Exec_Result stdout stderr code) d u later db1 = Inl (X_ValueError ''A string literal cannot contain NUL (0x00) characters.'')" for d
    using rel assms(5)
    by (simp add: tool_finish_def record_result_def s0(1) Let_def attempt_save_def attempt_refused_def
        attempt_texts_ok_def attempt_columns_def)
  then show ?thesis
    using s0(2) assms(3,4) by (simp add: execute_tool_unfold [OF assms(1,2)] claim_for_execution_def)
qed

section \<open>Revived and stopped sandboxes\<close>

text \<open>A provisioning that is slow revives a sandbox that was given up meanwhile: whatever other
  transactions did to the row, failed or terminated included, the service reports ready and leaves the row
  ready to be claimed.\<close>

theorem late_provision_revives:
  assumes "provision_begin req u now db = Inr (s, db1)"
    and "be_provision env (sb_id s) (pq_sandbox_type req) (pq_resource_limits req) = Inr ()"
    and "be_commit env = Inr ()"
  shows "\<exists>r db'. provision_sandbox env req u now later db = (Inr r, db', [Backend_Provision (sb_id s) (pq_sandbox_type req)])
    \<and> po_result_status r = ''ready''
    \<and> is_ok (claim_for_execution (sb_id s) t db')"
proof -
  have st: "sb_status s = X_PROVISIONING"
    using assms(1) by (auto simp: provision_begin_def sandbox_init_def Let_def split: option.splits)
  let ?s = "s\<lparr>sb_status := X_READY, sb_updated_at := later, sb_started_at := Some later\<rparr>"
  have ready: "provision_ready s u later db2 = Inr (\<lparr> po_sandbox_id = sb_id s, po_result_status = ''ready'',
      po_error_code = None, po_error_message = None \<rparr>,
      exec_outbox_write (sandbox_provisioned_event (u 3, later) (sb_id s) (sb_workspace_id s) (u 1)) (sandbox_save ?s db2))" for db2
    using st by (simp add: provision_ready_def mark_ready_def sandbox_transition_def sandbox_terminal_def)
  have "is_ok (claim_for_execution (sb_id s) t (exec_outbox_write e (sandbox_save ?s db2)))" for e db2
    by (auto simp: is_ok_iff claim_ok sandbox_repo.get_put)
  then show ?thesis
    using assms by (simp add: provision_sandbox_def Let_def ready)
qed

text \<open>A recovery stops the container of a sandbox that is no longer stuck: the container is terminated
  before the row is looked at again, the row is left idle, and the sweep reports it as skipped.\<close>

theorem recovery_stops_live_sandbox:
  assumes "be_is_alive env sid = Inr True" "be_terminate env sid = Inr ()"
    and "sandbox_get sid db = Some s" "sb_status s \<in> {X_READY, X_IDLE}"
  shows "\<exists>r. recover_single_sandbox env sid ws previous u now db =
      (r, db, [Backend_Is_Alive sid, Backend_Terminate sid])
    \<and> sv_action r = ''skipped_no_longer_stuck'' \<and> is_ok (claim_for_execution sid t db)"
  using assms
  by (auto simp: recover_single_sandbox_def backend_cleanup_def reconcile_sandbox_def Let_def
      sandbox_is_terminal_def sandbox_terminal_def stuck_sandbox_statuses_def is_ok_iff claim_ok)

text \<open>Every terminal session has at most one running command, in every reachable state.\<close>

theorem one_command_per_session:
  assumes "exec_step\<^sup>*\<^sup>* empty_exec_world w"
  shows "length (running_of sid (ew_db w)) \<le> 1"
proof -
  have step: "one_running (ew_db w2)" if "exec_step w1 w2" "one_running (ew_db w1)" for w1 w2
    using that
  proof (induction rule: exec_step.induct)
    case (es_command ereq user i now w p db')
    then show ?case using command_begin_one by simp
  next
    case (es_command_done t c w ereq out d u now c' db')
    then show ?case using command_finish_one by simp
  next
    case (es_claim req tool argv u now w x db')
    have "xd_commands db' = xd_commands (ew_db w)" using es_claim(2) by (rule tool_claim_ok)
    then show ?case using es_claim(3) by (simp add: one_running_def running_of_def)
  next
    case (es_finish x w out d u now r db')
    obtain db1 dd db2 e where f: "release_sandbox (tq_sandbox_id (tr_request x)) now (ew_db w) = Inr db1"
      "attempt_save now dd db1 = Inr db2" "db' = exec_outbox_write e db2"
      using es_finish(2) by (rule tool_finish_ok)
    then have "xd_commands db' = xd_commands (ew_db w)"
      using attempt_save_frame(4) [OF f(2)] by (auto simp: release_ok)
    then show ?case using es_finish(3) by (simp add: one_running_def running_of_def)
  next
    case (es_recover sid ws previous cleaned u now w r db')
    from es_recover(1) have "xd_commands db' = xd_commands (ew_db w)" by (cases rule: reconcile_cases) auto
    then show ?case using es_recover(2) by (simp add: one_running_def running_of_def)
  qed (auto simp: one_running_def running_of_def provision_begin_def provision_ready_def provision_failed_def
        terminate_begin_def terminate_finish_def create_session_def close_session_def rbind_Inr_iff Let_def
        split: option.splits if_splits)
  have "one_running (ew_db w)"
    using assms by (induction rule: rtranclp_induct)
      (auto simp: one_running_def running_of_def empty_exec_world_def empty_exec_db_def dest: step)
  then show ?thesis by (simp add: one_running_def)
qed

section \<open>Witnesses\<close>

definition demo_exec_db :: exec_db where
  "demo_exec_db = sandbox_save demo_ready empty_exec_db"

definition demo_tool_env :: "backend_outcome \<Rightarrow> (exec_db \<Rightarrow> exec_db) \<Rightarrow> tool_env" where
  "demo_tool_env out f = \<lparr> te_exec = (\<lambda>_ _ _. out), te_duration = 40, te_world = f \<rparr>"

text \<open>A termination that begins while the tool runs.\<close>

definition demo_terminating :: "exec_db \<Rightarrow> exec_db" where
  "demo_terminating db =
    (case terminate_begin 10 ''manual'' (\<lambda>i. 50 + i) 9 db of Inl _ \<Rightarrow> db | Inr (s, db') \<Rightarrow> db')"

lemma demo_exec_db_simps [simp]:
  "sandbox_get 10 demo_exec_db = Some demo_ready" "xd_attempts demo_exec_db = []"
  by (simp_all add: demo_exec_db_def empty_exec_db_def sandbox_repo.get_put)

lemma demo_exec_claim:
  "\<exists>x db1. tool_claim demo_tool demo_tool_request (\<lambda>i. 20 + i) 8 demo_exec_db = Inr (x, db1)"
  using demo_claim [of demo_exec_db demo_ready "\<lambda>i. 20 + i" 8] by auto

lemma demo_terminate:
  assumes "tool_claim demo_tool demo_tool_request u 8 demo_exec_db = Inr (x, db1)"
  shows "\<exists>s. sandbox_get 10 (demo_terminating db1) = Some s \<and> sb_status s = X_TERMINATING"
    "xd_attempts (demo_terminating db1) = xd_attempts db1"
proof -
  obtain s0 where s0: "sandbox_get 10 db1 = Some (s0\<lparr>sb_status := X_EXECUTING, sb_updated_at := 8\<rparr>)"
    "sandbox_get 10 demo_exec_db = Some s0"
    using assms by (rule tool_claim_ok) (auto simp: demo_tool_request_def)
  let ?s = "s0\<lparr>sb_status := X_TERMINATING, sb_updated_at := 9, sb_termination_reason := Some TR_Manual\<rparr>"
  have "sb_id s0 = 10" using s0(2) by (rule sandbox_repo.get_key)
  moreover have "\<exists>e. demo_terminating db1 = exec_outbox_write e (sandbox_save ?s db1)"
    using s0(1)
    by (auto simp: demo_terminating_def terminate_begin_def mark_terminating_def sandbox_transition_def
        sandbox_terminal_def termination_reason_of_def)
  ultimately show "\<exists>s. sandbox_get 10 (demo_terminating db1) = Some s \<and> sb_status s = X_TERMINATING"
    "xd_attempts (demo_terminating db1) = xd_attempts db1"
    by (auto simp: sandbox_repo.get_put)
qed

theorem tool_result_lost_witness:
  "\<exists>e db'. execute_tool (demo_tool_env (Exec_Result ''files'' [] 0) demo_terminating) demo_tool_request (\<lambda>i. 20 + i) 8 9
       demo_exec_db = (Inl e, db')
     \<and> (\<exists>a. attempt_by_index 10 0 db' = Some a \<and> map_of a ''status'' = Some (JStr ''running''))"
proof -
  let ?env = "demo_tool_env (Exec_Result ''files'' [] 0) demo_terminating"
  have req: "tq_sandbox_id demo_tool_request = 10" "tq_attempt_index demo_tool_request = 0"
    by (simp_all add: demo_tool_request_def)
  obtain x db1 where x: "tool_claim demo_tool demo_tool_request (\<lambda>i. 20 + i) 8 demo_exec_db = Inr (x, db1)"
    using demo_exec_claim by blast
  obtain s where s: "sandbox_get 10 (demo_terminating db1) = Some s" "sb_status s = X_TERMINATING"
    using demo_terminate(1) [OF x] by blast
  have w: "te_world ?env = demo_terminating" by (simp add: demo_tool_env_def)
  from tool_result_lost [OF demo_validate x, of ?env s 9] s demo_terminate(2) [OF x]
  show ?thesis unfolding w req by auto
qed

theorem nul_output_wedges_sandbox_witness:
  "\<exists>db'. execute_tool (demo_tool_env (Exec_Result [CHR 0x00] [] 0) (\<lambda>db. db)) demo_tool_request (\<lambda>i. 20 + i) 8 9
       demo_exec_db = (Inl (X_ValueError ''A string literal cannot contain NUL (0x00) characters.''), db')
     \<and> claim_for_execution 10 99 db' = Inl (X_Busy 10 ''executing'')"
proof -
  let ?env = "demo_tool_env (Exec_Result [CHR 0x00] [] 0) (\<lambda>db. db)"
  have req: "tq_sandbox_id demo_tool_request = 10" by (simp add: demo_tool_request_def)
  obtain x db1 where x: "tool_claim demo_tool demo_tool_request (\<lambda>i. 20 + i) 8 demo_exec_db = Inr (x, db1)"
    using demo_exec_claim by blast
  have "te_exec ?env (tq_sandbox_id demo_tool_request) [''sh'', ''-c'', ''ls''] (exec_timeout_s demo_tool_request)
      = Exec_Result [CHR 0x00] [] 0" "te_world ?env db1 = db1" "\<not> pg_text (truncate_output [CHR 0x00])"
    by (simp_all add: demo_tool_env_def pg_text_def truncate_output_def max_output_size_def)
  from nul_output_wedges_sandbox [OF demo_validate x this(2,1,3), of 9 99] show ?thesis unfolding req by blast
qed

lemma demo_execution:
  "\<exists>r db'. execute_tool (demo_tool_env (Exec_Result ''files'' [] 0) (\<lambda>db. db)) demo_tool_request (\<lambda>i. 20 + i) 8 9
       demo_exec_db = (Inr r, db') \<and> sandbox_get 10 db' \<noteq> None"
proof -
  let ?env = "demo_tool_env (Exec_Result ''files'' [] 0) (\<lambda>db. db)"
  have req: "tq_sandbox_id demo_tool_request = 10" by (simp add: demo_tool_request_def)
  obtain x db1 where x: "tool_claim demo_tool demo_tool_request (\<lambda>i. 20 + i) 8 demo_exec_db = Inr (x, db1)"
    using demo_exec_claim by blast
  obtain s0 where s0: "tr_request x = demo_tool_request" "sandbox_get 10 db1 = Some (s0\<lparr>sb_status := X_EXECUTING, sb_updated_at := 8\<rparr>)"
    "sandbox_get 10 demo_exec_db = Some s0"
    using x by (rule tool_claim_ok) (auto simp: req)
  let ?s = "s0\<lparr>sb_status := X_IDLE, sb_updated_at := 9\<rparr>"
  have rel: "release_sandbox 10 9 db1 = Inr (sandbox_save ?s db1)"
    using s0(2) by (auto simp: release_ok)
  let ?d = "attempt_columns (tr_execution_id x) demo_tool_request ''completed'' @ [(''stdout'', JStr ''files''),
     (''stderr'', JStr []), (''exit_code'', JInt 0), (''truncated'', JBool False), (''completed_at'', JInt 9)]"
  obtain a where a: "attempt_by_index 10 0 db1 = Some a"
    using claim_writes_running [OF x] by (auto simp: demo_tool_request_def)
  then have "a \<in> set (xd_attempts db1)" "same_attempt ?d a"
    by (auto simp: attempt_by_index_def same_attempt_def attempt_columns_def demo_tool_request_def dest: find_SomeD)
  then have "list_ex (same_attempt ?d) (xd_attempts db1)" by (auto simp: list_ex_iff)
  moreover have "\<exists>t \<in> set (upsert sb_id ?s (xd_sandboxes db1)). sb_id t = 10"
  proof -
    have "10 \<in> sb_id ` set (upsert sb_id ?s (xd_sandboxes db1))"
      using sandbox_repo.get_key [OF s0(3)] by (simp add: keys_upsert)
    then show ?thesis by force
  qed
  ultimately have "attempt_refused ?d (sandbox_save ?s db1) = None"
    by (simp add: attempt_refused_def attempt_texts_ok_def attempt_columns_def demo_tool_request_def pg_text_def int4_ok_def
        sandbox_save_def list_ex_iff eq_commute)
  then have "\<exists>db2. attempt_save 9 ?d (sandbox_save ?s db1) = Inr db2" by (auto simp: attempt_save_def)
  then have "\<exists>r db'. tool_finish x (Exec_Result ''files'' [] 0) 40 (\<lambda>i. 20 + i) 9 db1 = Inr (r, db')"
    using rel by (auto simp: tool_finish_def record_result_def s0(1) req truncate_output_def max_output_size_def)
  then obtain r db' where r: "tool_finish x (Exec_Result ''files'' [] 0) 40 (\<lambda>i. 20 + i) 9 db1 = Inr (r, db')" by blast
  have run: "execute_tool ?env demo_tool_request (\<lambda>i. 20 + i) 8 9 demo_exec_db = (Inr r, db')"
    using r by (simp add: execute_tool_unfold [OF demo_validate x] demo_tool_env_def)
  moreover have "sandbox_get 10 db' \<noteq> None"
    using tool_finish_sandbox [OF r] s0(1,2)
    by (auto simp: req sandbox_get_def sandbox_save_def dest: sandbox_repo.get_key)
  ultimately show ?thesis by blast
qed


text \<open>A recovery that fails the sandbox while the backend is still provisioning it.\<close>

definition demo_backend :: "(exec_db \<Rightarrow> exec_db) \<Rightarrow> backend_env" where
  "demo_backend f = \<lparr> be_provision = (\<lambda>_ _ _. Inr ()), be_terminate = (\<lambda>_. Inr ()), be_is_alive = (\<lambda>_. Inr True),
     be_commit = Inr (), be_world = f \<rparr>"

definition demo_recovery :: "exec_db \<Rightarrow> exec_db" where
  "demo_recovery db = snd (reconcile_sandbox 10 7 X_PROVISIONING True (\<lambda>i. 60 + i) 900 db)"

lemma demo_recovery_fails:
  assumes "sandbox_get 10 db = Some s" "sb_status s = X_PROVISIONING"
  shows "\<exists>s'. sandbox_get 10 (demo_recovery db) = Some s' \<and> sb_status s' = X_FAILED"
proof -
  obtain r db' where r: "reconcile_sandbox 10 7 X_PROVISIONING True (\<lambda>i. 60 + i) 900 db = (r, db')" by fastforce
  have db': "demo_recovery db = db'" using r by (simp add: demo_recovery_def)
  show ?thesis
    unfolding db' using r assms sandbox_repo.get_key [OF assms(1)]
    by (cases rule: reconcile_cases)
       (auto simp: sandbox_repo.get_put stuck_sandbox_statuses_def dest: sandbox_repo.get_key)
qed

theorem late_provision_revives_witness:
  "\<exists>s db1 r db'. provision_begin demo_provision (\<lambda>i. 10 + i) 5 empty_exec_db = Inr (s, db1)
     \<and> (\<exists>s'. sandbox_get 10 (demo_recovery db1) = Some s' \<and> sb_status s' = X_FAILED)
     \<and> provision_sandbox (demo_backend demo_recovery) demo_provision (\<lambda>i. 10 + i) 5 1000 empty_exec_db
         = (Inr r, db', [Backend_Provision 10 ''container''])
     \<and> is_ok (claim_for_execution 10 1001 db')"
proof -
  let ?db1 = "exec_outbox_write (sandbox_provision_requested_event (12, 5) 10 7 11 ''container'')
       (sandbox_save demo_sandbox empty_exec_db)"
  have "\<exists>s'. sandbox_get 10 (demo_recovery ?db1) = Some s' \<and> sb_status s' = X_FAILED"
    by (rule demo_recovery_fails [of _ demo_sandbox]) (simp_all add: sandbox_repo.get_put)
  moreover have "pq_sandbox_type demo_provision = ''container''" by (simp add: demo_provision_def)
  ultimately show ?thesis
    using late_provision_revives [of demo_provision "\<lambda>i. 10 + i" 5 empty_exec_db demo_sandbox ?db1
        "demo_backend demo_recovery" 1000 1001] demo_provision_begin [of empty_exec_db]
    by (auto simp: demo_backend_def)
qed

theorem recovery_stops_live_sandbox_witness:
  "\<exists>r. recover_single_sandbox (demo_backend (\<lambda>db. db)) 10 7 X_EXECUTING (\<lambda>i. 60 + i) 900 demo_exec_db =
      (r, demo_exec_db, [Backend_Is_Alive 10, Backend_Terminate 10])
    \<and> sv_action r = ''skipped_no_longer_stuck''"
  using recovery_stops_live_sandbox [of "demo_backend (\<lambda>db. db)" 10 demo_exec_db demo_ready 7 X_EXECUTING "\<lambda>i. 60 + i" 900 901]
  by (auto simp: demo_backend_def)

theorem one_command_per_session_witness:
  "\<exists>w. exec_step\<^sup>*\<^sup>* empty_exec_world w \<and> sandbox_get 10 (ew_db w) = Some demo_ready
     \<and> length (running_of 5 (ew_db w)) \<le> 1"
proof -
  obtain db where "exec_step\<^sup>*\<^sup>* empty_exec_world (empty_exec_world\<lparr>ew_db := db\<rparr>)" "sandbox_get 10 db = Some demo_ready"
    using demo_reach_ready by blast
  with one_command_per_session [OF this(1), of 5] show ?thesis by (intro exI conjI) auto
qed

theorem retired_for_good_witness:
  "\<exists>w s. exec_step\<^sup>*\<^sup>* empty_exec_world w \<and> sandbox_get 10 (ew_db w) = Some s \<and> sb_status s = X_TERMINATING
     \<and> \<not> is_ok (claim_for_execution 10 9 (ew_db w))"
proof -
  obtain db where db: "exec_step\<^sup>*\<^sup>* empty_exec_world (empty_exec_world\<lparr>ew_db := db\<rparr>)" "sandbox_get 10 db = Some demo_ready"
    using demo_reach_ready by blast
  let ?w = "empty_exec_world\<lparr>ew_db := db\<rparr>"
  obtain s db' where s: "terminate_begin 10 ''manual'' (\<lambda>i. 50 + i) 9 db = Inr (s, db')" "sb_status s = X_TERMINATING"
    "sandbox_get 10 db' = Some s"
    using db(2)
    by (auto simp: terminate_begin_def mark_terminating_def sandbox_transition_def sandbox_terminal_def
        sandbox_repo.get_put)
  let ?w' = "?w\<lparr> ew_db := db', ew_terminating := s # ew_terminating ?w \<rparr>"
  have "exec_step ?w ?w'" using s(1) by (intro es_terminate) simp
  with db(1) have reach: "exec_step\<^sup>*\<^sup>* empty_exec_world ?w'" by (rule rtranclp.rtrancl_into_rtrancl)
  moreover from retired_for_good [OF this rtranclp.rtrancl_refl, of 10 s 9] s(2,3)
  have "\<not> is_ok (claim_for_execution 10 9 (ew_db ?w'))" by (simp add: empty_exec_world_def)
  ultimately show ?thesis using s(2,3) by (intro exI [of _ ?w'] exI [of _ s]) simp
qed

end
