(* ===== verification/Invocation.thy ===== *)
theory Invocation
  imports Interfaces
begin

text \<open>
  \<open>apps/agent-runtime/src/domain/agent_invocation.py\<close> and \<open>domain/errors.py\<close>: one execution of a
  model within a step, as the entity the agent runtime owns.  Messages and tool calls are lists of JSON
  objects.  The cost, a \<open>Decimal\<close> nothing computes with, is an integer of its smallest unit.
\<close>

datatype agent_error =
    RT_InvalidTransition string string string "string option"
  | RT_TerminalState string string string
  | RT_Validation string string
  | RT_Raise string string

text \<open>\<open>str(exc)\<close>; the arrow U+2192 is written \<open>->\<close>.\<close>

definition transition_text :: "string \<Rightarrow> string \<Rightarrow> string \<Rightarrow> string option \<Rightarrow> string" where
  "transition_text entity current target reason =
     entity @ '': transition '' @ [CHR 0x27] @ current @ [CHR 0x27] @ '' -> '' @ [CHR 0x27] @ target @ [CHR 0x27]
     @ '' is not allowed'' @ (if str_truthy reason then '' ('' @ the reason @ '')'' else [])"

fun error_text :: "agent_error \<Rightarrow> string" where
  "error_text (RT_InvalidTransition e c t r) = transition_text e c t r"
| "error_text (RT_TerminalState e c t) = transition_text e c t (Some ''terminal state'')"
| "error_text (RT_Validation e m) = e @ '': '' @ m"
| "error_text (RT_Raise _ m) = m"

datatype invocation_status =
    I_INITIALIZING | I_STARTING | I_RUNNING | I_WAITING_HUMAN | I_WAITING_TOOL | I_COMPLETED | I_FAILED
  | I_TIMED_OUT | I_CANCELLED | I_INTERRUPTED | I_COMPENSATING | I_COMPENSATED

fun invocation_status_value :: "invocation_status \<Rightarrow> string" where
  "invocation_status_value I_INITIALIZING = ''initializing''"
| "invocation_status_value I_STARTING = ''starting''"
| "invocation_status_value I_RUNNING = ''running''"
| "invocation_status_value I_WAITING_HUMAN = ''waiting_human''"
| "invocation_status_value I_WAITING_TOOL = ''waiting_tool''"
| "invocation_status_value I_COMPLETED = ''completed''"
| "invocation_status_value I_FAILED = ''failed''"
| "invocation_status_value I_TIMED_OUT = ''timed_out''"
| "invocation_status_value I_CANCELLED = ''cancelled''"
| "invocation_status_value I_INTERRUPTED = ''interrupted''"
| "invocation_status_value I_COMPENSATING = ''compensating''"
| "invocation_status_value I_COMPENSATED = ''compensated''"

declare invocation_status_value.simps [value_simps]

fun invocation_transitions :: "invocation_status \<Rightarrow> invocation_status list" where
  "invocation_transitions I_INITIALIZING = [I_STARTING, I_CANCELLED, I_FAILED]"
| "invocation_transitions I_STARTING = [I_RUNNING, I_FAILED, I_CANCELLED]"
| "invocation_transitions I_RUNNING =
     [I_WAITING_HUMAN, I_WAITING_TOOL, I_COMPLETED, I_FAILED, I_TIMED_OUT, I_CANCELLED, I_INTERRUPTED]"
| "invocation_transitions I_WAITING_HUMAN = [I_RUNNING, I_FAILED, I_CANCELLED, I_INTERRUPTED]"
| "invocation_transitions I_WAITING_TOOL = [I_RUNNING, I_FAILED, I_CANCELLED, I_INTERRUPTED]"
| "invocation_transitions I_COMPLETED = []"
| "invocation_transitions I_FAILED = [I_COMPENSATING]"
| "invocation_transitions I_TIMED_OUT = [I_COMPENSATING]"
| "invocation_transitions I_CANCELLED = []"
| "invocation_transitions I_INTERRUPTED = [I_COMPENSATING]"
| "invocation_transitions I_COMPENSATING = [I_COMPENSATED, I_FAILED]"
| "invocation_transitions I_COMPENSATED = []"

declare invocation_transitions.simps [trans_simps]

definition invocation_terminal :: "invocation_status \<Rightarrow> bool" where
  "invocation_terminal s = (s \<in> {I_COMPLETED, I_CANCELLED, I_COMPENSATED})"

record agent_invocation =
  ai_id :: uuid
  ai_step_id :: uuid
  ai_run_id :: uuid
  ai_task_id :: uuid
  ai_workspace_id :: uuid
  ai_correlation_id :: uuid
  ai_agent_id :: string
  ai_model_id :: string
  ai_status :: invocation_status
  ai_prompt_tokens :: "int option"
  ai_completion_tokens :: "int option"
  ai_total_cost :: "int option"
  ai_input_messages :: "json list option"
  ai_output_messages :: "json list option"
  ai_tool_calls :: "json list option"
  ai_error_detail :: "dict option"
  ai_pending_tool_context :: "dict option"
  ai_started_at :: "time option"
  ai_completed_at :: "time option"
  ai_created_at :: time

definition invocation_init ::
  "uuid \<Rightarrow> uuid \<Rightarrow> uuid \<Rightarrow> uuid \<Rightarrow> uuid \<Rightarrow> uuid \<Rightarrow> string \<Rightarrow> string \<Rightarrow> time \<Rightarrow> agent_error + agent_invocation" where
  "invocation_init i step run_id task ws corr agent model now =
    (if is_blank agent then Inl (RT_Validation ''AgentInvocation'' ''agent_id must not be blank'')
     else if is_blank model then Inl (RT_Validation ''AgentInvocation'' ''model_id must not be blank'')
     else Inr \<lparr> ai_id = i, ai_step_id = step, ai_run_id = run_id, ai_task_id = task, ai_workspace_id = ws,
       ai_correlation_id = corr, ai_agent_id = agent, ai_model_id = model, ai_status = I_INITIALIZING,
       ai_prompt_tokens = None, ai_completion_tokens = None, ai_total_cost = None,
       ai_input_messages = None, ai_output_messages = None, ai_tool_calls = None, ai_error_detail = None,
       ai_pending_tool_context = None, ai_started_at = None, ai_completed_at = None, ai_created_at = now \<rparr>)"

definition invocation_transition :: "invocation_status \<Rightarrow> agent_invocation \<Rightarrow> agent_error + agent_invocation" where
  "invocation_transition target a =
    (if invocation_terminal (ai_status a)
     then Inl (RT_TerminalState ''AgentInvocation'' (invocation_status_value (ai_status a)) (invocation_status_value target))
     else if target \<notin> set (invocation_transitions (ai_status a))
     then Inl (RT_InvalidTransition ''AgentInvocation'' (invocation_status_value (ai_status a))
                 (invocation_status_value target) None)
     else Inr (a\<lparr>ai_status := target\<rparr>))"

text \<open>\<open>if v is not None: self.field = v\<close>, and \<open>self.completed_at or now\<close>.\<close>

definition keep_or :: "'a option \<Rightarrow> 'a option \<Rightarrow> 'a option" where
  "keep_or new old = (case new of None \<Rightarrow> old | Some v \<Rightarrow> Some v)"

definition mark_starting :: "agent_invocation \<Rightarrow> agent_error + agent_invocation" where
  "mark_starting = invocation_transition I_STARTING"

definition mark_running :: "json list option \<Rightarrow> time \<Rightarrow> agent_invocation \<Rightarrow> agent_error + agent_invocation" where
  "mark_running messages now a = rbind (invocation_transition I_RUNNING a) (\<lambda>a. Inr (a\<lparr>
     ai_started_at := Some (opt_or (ai_started_at a) now),
     ai_input_messages := keep_or messages (ai_input_messages a)\<rparr>))"

definition mark_waiting_human :: "dict option \<Rightarrow> agent_invocation \<Rightarrow> agent_error + agent_invocation" where
  "mark_waiting_human ctx a = rbind (invocation_transition I_WAITING_HUMAN a) (\<lambda>a. Inr (a\<lparr>
     ai_pending_tool_context := keep_or ctx (ai_pending_tool_context a)\<rparr>))"

definition mark_waiting_tool :: "agent_invocation \<Rightarrow> agent_error + agent_invocation" where
  "mark_waiting_tool = invocation_transition I_WAITING_TOOL"

definition mark_completed ::
  "json list option \<Rightarrow> json list option \<Rightarrow> int option \<Rightarrow> int option \<Rightarrow> int option \<Rightarrow> time \<Rightarrow> agent_invocation
   \<Rightarrow> agent_error + agent_invocation" where
  "mark_completed out calls prompt completion cost now a =
     rbind (invocation_transition I_COMPLETED a) (\<lambda>a. Inr (a\<lparr>
       ai_completed_at := Some now,
       ai_output_messages := keep_or out (ai_output_messages a),
       ai_tool_calls := keep_or calls (ai_tool_calls a),
       ai_prompt_tokens := keep_or prompt (ai_prompt_tokens a),
       ai_completion_tokens := keep_or completion (ai_completion_tokens a),
       ai_total_cost := keep_or cost (ai_total_cost a)\<rparr>))"

definition mark_invocation_failed :: "dict option \<Rightarrow> time \<Rightarrow> agent_invocation \<Rightarrow> agent_error + agent_invocation" where
  "mark_invocation_failed detail now a = rbind (invocation_transition I_FAILED a) (\<lambda>a. Inr (a\<lparr>
     ai_completed_at := Some (opt_or (ai_completed_at a) now),
     ai_error_detail := keep_or detail (ai_error_detail a)\<rparr>))"

definition mark_timed_out :: "dict option \<Rightarrow> time \<Rightarrow> agent_invocation \<Rightarrow> agent_error + agent_invocation" where
  "mark_timed_out detail now a = rbind (invocation_transition I_TIMED_OUT a) (\<lambda>a. Inr (a\<lparr>
     ai_completed_at := Some now, ai_error_detail := keep_or detail (ai_error_detail a)\<rparr>))"

definition mark_cancelled :: "time \<Rightarrow> agent_invocation \<Rightarrow> agent_error + agent_invocation" where
  "mark_cancelled now a = rbind (invocation_transition I_CANCELLED a) (\<lambda>a. Inr (a\<lparr>
     ai_completed_at := Some (opt_or (ai_completed_at a) now)\<rparr>))"

definition mark_interrupted :: "time \<Rightarrow> agent_invocation \<Rightarrow> agent_error + agent_invocation" where
  "mark_interrupted now a = rbind (invocation_transition I_INTERRUPTED a) (\<lambda>a. Inr (a\<lparr>
     ai_completed_at := Some (opt_or (ai_completed_at a) now)\<rparr>))"

definition mark_compensating :: "agent_invocation \<Rightarrow> agent_error + agent_invocation" where
  "mark_compensating = invocation_transition I_COMPENSATING"

definition mark_compensated :: "agent_invocation \<Rightarrow> agent_error + agent_invocation" where
  "mark_compensated = invocation_transition I_COMPENSATED"

definition resume_from_wait :: "agent_invocation \<Rightarrow> agent_error + agent_invocation" where
  "resume_from_wait a =
    (if ai_status a \<noteq> I_WAITING_HUMAN \<and> ai_status a \<noteq> I_WAITING_TOOL
     then Inl (RT_InvalidTransition ''AgentInvocation'' (invocation_status_value (ai_status a)) ''running''
                 (Some ''resume_from_wait only valid from waiting_human/waiting_tool''))
     else invocation_transition I_RUNNING a)"

definition invocation_is_terminal :: "agent_invocation \<Rightarrow> bool" where
  "invocation_is_terminal a = invocation_terminal (ai_status a)"

definition invocation_is_active :: "agent_invocation \<Rightarrow> bool" where
  "invocation_is_active a =
    (ai_status a \<in> {I_INITIALIZING, I_STARTING, I_RUNNING, I_WAITING_HUMAN, I_WAITING_TOOL})"

definition invocation_duration_ms :: "agent_invocation \<Rightarrow> int option" where
  "invocation_duration_ms a =
    (case (ai_started_at a, ai_completed_at a) of
       (Some s, Some c) \<Rightarrow> Some (if c \<ge> s then (c - s) div 1000 else - ((s - c) div 1000))
     | _ \<Rightarrow> None)"

datatype invocation_op =
    IStarting | IRunning "json list option" | IWaitingHuman "dict option" | IWaitingTool
  | ICompleted "json list option" "json list option" "int option" "int option" "int option"
  | IFailed "dict option" | ITimedOut "dict option" | ICancelled | IInterrupted | ICompensating
  | ICompensated | IResume

fun invocation_apply :: "invocation_op \<Rightarrow> time \<Rightarrow> agent_invocation \<Rightarrow> agent_error + agent_invocation" where
  "invocation_apply IStarting now a = mark_starting a"
| "invocation_apply (IRunning m) now a = mark_running m now a"
| "invocation_apply (IWaitingHuman c) now a = mark_waiting_human c a"
| "invocation_apply IWaitingTool now a = mark_waiting_tool a"
| "invocation_apply (ICompleted out tc p c cost) now a = mark_completed out tc p c cost now a"
| "invocation_apply (IFailed d) now a = mark_invocation_failed d now a"
| "invocation_apply (ITimedOut d) now a = mark_timed_out d now a"
| "invocation_apply ICancelled now a = mark_cancelled now a"
| "invocation_apply IInterrupted now a = mark_interrupted now a"
| "invocation_apply ICompensating now a = mark_compensating a"
| "invocation_apply ICompensated now a = mark_compensated a"
| "invocation_apply IResume now a = resume_from_wait a"

section \<open>Lemmas\<close>

lemmas invocation_op_defs = mark_starting_def mark_running_def mark_waiting_human_def mark_waiting_tool_def
  mark_completed_def mark_invocation_failed_def mark_timed_out_def mark_cancelled_def mark_interrupted_def
  mark_compensating_def mark_compensated_def resume_from_wait_def

lemma invocation_transition_ok:
  "invocation_transition target a = Inr a' \<longleftrightarrow>
   target \<in> set (invocation_transitions (ai_status a)) \<and> a' = a\<lparr>ai_status := target\<rparr>"
  by (cases "ai_status a") (auto simp: invocation_transition_def invocation_terminal_def)

lemma invocation_transition_Inr:
  "target \<in> set (invocation_transitions (ai_status a)) \<Longrightarrow>
   invocation_transition target a = Inr (a\<lparr>ai_status := target\<rparr>)"
  by (simp add: invocation_transition_ok)

definition invocation_frame :: "agent_invocation \<Rightarrow> uuid \<times> uuid \<times> uuid \<times> uuid \<times> uuid \<times> uuid \<times> string \<times> string \<times> time" where
  "invocation_frame a = (ai_id a, ai_step_id a, ai_run_id a, ai_task_id a, ai_workspace_id a,
     ai_correlation_id a, ai_agent_id a, ai_model_id a, ai_created_at a)"

interpretation invocation_sm:
  state_machine ai_status invocation_transitions invocation_terminal "\<lambda>t now. invocation_transition t"
  by unfold_locales (auto simp: invocation_transition_ok is_ok_iff invocation_terminal_def)

interpretation invocation_entity:
  managed_entity ai_status invocation_transitions invocation_terminal "\<lambda>t now. invocation_transition t"
    invocation_apply invocation_frame
proof (unfold_locales, goal_cases)
  case (1 op now a a')
  then show ?case
    by (cases op) (auto simp: invocation_op_defs rbind_Inr_iff invocation_transition_ok split: if_splits)
next
  case (2 op now a a')
  then show ?case
    by (cases op)
       (auto simp: invocation_op_defs rbind_Inr_iff invocation_transition_ok invocation_frame_def split: if_splits)
qed

end
