(* ===== verification/Tool_Policy.thy ===== *)
theory Tool_Policy
  imports Invocation
begin

text \<open>
  Which tool calls of a model are valid, allowed or gated, and how their input and output are bounded:
  \<open>apps/agent-runtime/src/domain/tool_approval_policy.py\<close>, the guardrails and truncation of
  \<open>application/tool_helpers.py\<close>, and the messages of \<open>application/gateway_errors.py\<close>.

  A tool call is a JSON value of the model.  Python's text of a value that is no string, and what
  \<open>json.loads\<close> and \<open>json.dumps\<close> make of a value, are the fields of \<open>json_lib\<close>; nothing is assumed of
  them.  The dash U+2014 of some messages is written as a hyphen.
\<close>

record json_lib =
  jl_loads :: "string \<Rightarrow> json option"
  jl_dumps :: "json \<Rightarrow> string"
  jl_repr :: "json \<Rightarrow> string"

definition py_str :: "json_lib \<Rightarrow> json \<Rightarrow> string" where
  "py_str lib j = (case j of JStr s \<Rightarrow> s | _ \<Rightarrow> jl_repr lib j)"

text \<open>\<open>d.get(k, default)\<close>, and the chain \<open>a or b or ''\<close>.\<close>

definition jget :: "string \<Rightarrow> json \<Rightarrow> dict \<Rightarrow> json" where
  "jget k d obj = opt_or (map_of obj k) d"

definition json_or :: "json \<Rightarrow> json \<Rightarrow> json" where
  "json_or a b = (if json_truthy a then a else b)"

section \<open>The approval policy\<close>

datatype policy_decision = PD_ALLOW | PD_WARN | PD_GATE

datatype approval_mode = AM_NONE | AM_WARN | AM_GATE

record policy_result =
  pr_decision :: policy_decision
  pr_reason :: string

definition gated_tools :: "string list" where
  "gated_tools = [''shell.exec'', ''python.run_script'']"

definition risky_shell_patterns :: "string list" where
  "risky_shell_patterns =
     [''curl '', ''wget '', ''nc '', ''chmod +x'', ''rm -rf /'', ''base64 -d'', ''eval '', ''exec '',
      ''> /dev/'', ''| bash'', ''| sh'']"

definition get_approval_mode :: "string option \<Rightarrow> approval_mode" where
  "get_approval_mode env =
    (let raw = py_strip (py_lower (opt_or env ''gate'')) in
     if raw = ''none'' then AM_NONE else if raw = ''warn'' then AM_WARN else AM_GATE)"

definition shell_code :: "json_lib \<Rightarrow> dict \<Rightarrow> string" where
  "shell_code lib d =
     py_str lib (json_or (json_or (jget ''code'' (JStr []) d) (jget ''command'' (JStr []) d)) (JStr []))"

text \<open>A name that is no string is never a gated tool; an unhashable one makes the membership test raise.
  An input that is no object has no \<open>get\<close>.\<close>

definition assess_tool_risk :: "json_lib \<Rightarrow> string \<Rightarrow> json \<Rightarrow> agent_error + string option" where
  "assess_tool_risk lib name tool_input =
    (if name = ''shell.exec'' then
       (case tool_input of
          JObj d \<Rightarrow>
            (case find (\<lambda>p. str_contains p (py_lower (shell_code lib d))) risky_shell_patterns of
               Some p \<Rightarrow> Inr (Some (''shell.exec contains risky pattern: '' @ [CHR 0x27] @ p @ [CHR 0x27]))
             | None \<Rightarrow> Inr (Some ''shell.exec: all shell commands gated''))
        | _ \<Rightarrow> Inl (RT_Raise ''AttributeError'' ''get''))
     else if name = ''python.run_script'' then Inr (Some ''python.run_script: script execution gated'')
     else Inr None)"

definition py_hashable :: "json \<Rightarrow> bool" where
  "py_hashable j = (case j of JList _ \<Rightarrow> False | JObj _ \<Rightarrow> False | _ \<Rightarrow> True)"

definition tool_is_gated :: "json \<Rightarrow> bool" where
  "tool_is_gated name = (case name of JStr n \<Rightarrow> n \<in> set gated_tools | _ \<Rightarrow> False)"

definition evaluate_tool_approval ::
  "json_lib \<Rightarrow> approval_mode \<Rightarrow> json \<Rightarrow> json \<Rightarrow> agent_error + policy_result" where
  "evaluate_tool_approval lib mode name tool_input =
    (if mode = AM_NONE then Inr \<lparr> pr_decision = PD_ALLOW,
       pr_reason = ''approval mode is '' @ [CHR 0x27] @ ''none'' @ [CHR 0x27] \<rparr>
     else if \<not> py_hashable name then Inl (RT_Raise ''TypeError'' ''unhashable'')
     else if tool_is_gated name then
       rbind (assess_tool_risk lib (py_str lib name) tool_input) (\<lambda>risk.
       Inr (if mode = AM_GATE
            then \<lparr> pr_decision = PD_GATE,
                   pr_reason = (if str_truthy risk then the risk else py_str lib name @ '' requires approval in gate mode'') \<rparr>
            else \<lparr> pr_decision = PD_WARN,
                   pr_reason = (if str_truthy risk then the risk else py_str lib name @ '' flagged in warn mode'') \<rparr>))
     else Inr \<lparr> pr_decision = PD_ALLOW, pr_reason = py_str lib name @ '' not in gated tool set'' \<rparr>)"

section \<open>Guardrails and limits\<close>

definition max_tool_turns :: nat where "max_tool_turns = 5"
definition invocation_budget_ms :: int where "invocation_budget_ms = 120000"
definition max_tool_result_bytes :: nat where "max_tool_result_bytes = 32768"
definition max_tool_input_bytes :: nat where "max_tool_input_bytes = 65536"

text \<open>UTF-8 of code points below 256: one byte below 128, two from there on.\<close>

definition utf8_width :: "char \<Rightarrow> nat" where
  "utf8_width c = (if (of_char c :: nat) < 128 then 1 else 2)"

definition utf8_bytes :: "string \<Rightarrow> nat" where
  "utf8_bytes s = sum_list (map utf8_width s)"

text \<open>\<open>s.encode()[:n].decode(errors='ignore')\<close>: the characters that fit; half a character is dropped.\<close>

fun utf8_take :: "nat \<Rightarrow> string \<Rightarrow> string" where
  "utf8_take n [] = []"
| "utf8_take n (c # s) = (if utf8_width c \<le> n then c # utf8_take (n - utf8_width c) s else [])"

definition check_tool_guardrails :: "json_lib \<Rightarrow> json \<Rightarrow> json \<Rightarrow> agent_error + string option" where
  "check_tool_guardrails lib name tool_input =
    (let input_str = jl_dumps lib tool_input in
     if utf8_bytes input_str > max_tool_input_bytes
     then Inr (Some (''Tool input too large ('' @ str_nat (length input_str) @ '' chars, max ''
                 @ str_nat max_tool_input_bytes @ '' bytes)''))
     else if name = JStr ''shell.exec'' then
       (case tool_input of
          JObj d \<Rightarrow> Inr (if is_blank (shell_code lib d) then Some ''shell.exec: empty command'' else None)
        | _ \<Rightarrow> Inl (RT_Raise ''AttributeError'' ''get''))
     else if name = JStr ''python.run_script'' then
       (case tool_input of
          JObj d \<Rightarrow> Inr (if is_blank (py_str lib (jget ''code'' (JStr []) d))
                        then Some ''python.run_script: empty code'' else None)
        | _ \<Rightarrow> Inl (RT_Raise ''AttributeError'' ''get''))
     else Inr None)"

definition truncate_tool_result :: "string \<Rightarrow> string" where
  "truncate_tool_result content =
    (if utf8_bytes content \<le> max_tool_result_bytes then content
     else utf8_take max_tool_result_bytes content @ [CHR 0x0A] @ ''[output truncated to 32KB]'')"

definition valid_tool_call :: "json \<Rightarrow> bool" where
  "valid_tool_call tc =
    (case tc of
       JObj d \<Rightarrow> json_truthy (jget ''id'' JNull d)
         \<and> (case jget ''function'' JNull d of JObj f \<Rightarrow> json_truthy (jget ''name'' JNull f) | _ \<Rightarrow> False)
     | _ \<Rightarrow> False)"

definition validate_tool_calls :: "json list \<Rightarrow> json list" where
  "validate_tool_calls calls = filter valid_tool_call calls"

section \<open>Messages for gateway failures\<close>

text \<open>\<open>str.upper\<close> below 256; the code points whose upper case lies above are left as they are.\<close>

definition py_upper_char :: "char \<Rightarrow> string" where
  "py_upper_char c = (let n = (of_char c :: nat) in
     if n = 223 then ''SS''
     else if (97 \<le> n \<and> n \<le> 122) \<or> (224 \<le> n \<and> n \<le> 254 \<and> n \<noteq> 247) then [char_of (n - 32)] else [c])"

definition py_upper :: "string \<Rightarrow> string" where
  "py_upper s = concat (map py_upper_char s)"

definition friendly_error_message :: "string \<Rightarrow> string \<Rightarrow> string" where
  "friendly_error_message error_code raw_message =
    (let raw = py_lower raw_message; code = py_upper error_code;
         has = (\<lambda>sub. str_contains sub raw) in
     if code = ''PROVIDER_NOT_FOUND'' \<or> has ''no provider configured''
     then ''No AI model provider is configured for this task. Please check your model provider settings and ensure the Claude Bridge or another provider is set up correctly.''
     else if code = ''MODEL_NOT_FOUND'' \<or> has ''model not found''
     then ''The requested AI model could not be found. Please verify the model configuration in your environment.''
     else if has ''connection'' \<or> has ''connect'' \<or> has ''unreachable''
     then ''Could not reach the AI model provider. The model service may be offline or misconfigured. Please check that the model provider is running and try again.''
     else if has ''timed out'' \<or> has ''timeout''
     then ''The AI model took too long to respond. This may be a temporary issue - try again or use a simpler prompt.''
     else if has ''422'' \<or> has ''unprocessable''
     then ''The model configuration could not be processed. The model alias may be misconfigured. Please check DEFAULT_MODEL_ALIAS in the environment.''
     else if has ''bridge'' \<and> (has ''cannot connect'' \<or> has ''not running'')
     then ''The Claude Bridge service is not reachable. Please ensure the bridge is running and accessible.''
     else if starts_with ''HTTP_'' code \<and> code \<noteq> ''HTTP_ERROR''
     then ''The model provider returned an error (HTTP '' @ str_replace ''HTTP_'' [] code
            @ ''). This may be a temporary issue. Please try again.''
     else raw_message)"

section \<open>Lemmas\<close>

lemma utf8_width_pos: "0 < utf8_width c"
  by (simp add: utf8_width_def)

lemma utf8_bytes_simps [simp]:
  "utf8_bytes [] = 0" "utf8_bytes (c # s) = utf8_width c + utf8_bytes s"
  "utf8_bytes (s @ t) = utf8_bytes s + utf8_bytes t"
  by (simp_all add: utf8_bytes_def)

lemma utf8_take_bound: "utf8_bytes (utf8_take n s) \<le> n"
  by (induction n s rule: utf8_take.induct) auto

lemma utf8_take_prefix: "prefix (utf8_take n s) s"
  by (induction n s rule: utf8_take.induct) auto

lemma utf8_take_all: "utf8_bytes s \<le> n \<Longrightarrow> utf8_take n s = s"
  by (induction n s rule: utf8_take.induct) auto

text \<open>The bound on a tool result: 32 KB and the 28 bytes of the mark, and nothing is lost below it.\<close>

lemma truncate_tool_result_bound:
  "utf8_bytes (truncate_tool_result s) \<le> max_tool_result_bytes + 28"
proof (cases "utf8_bytes s \<le> max_tool_result_bytes")
  case False
  have "utf8_bytes ([CHR 0x0A] @ ''[output truncated to 32KB]'') \<le> 28" by (simp add: utf8_width_def)
  then show ?thesis
    using False utf8_take_bound [of max_tool_result_bytes s] by (simp add: truncate_tool_result_def)
qed (simp add: truncate_tool_result_def)

lemma valid_tool_calls: "tc \<in> set (validate_tool_calls calls) \<longleftrightarrow> tc \<in> set calls \<and> valid_tool_call tc"
  by (auto simp: validate_tool_calls_def)

text \<open>Whether a call is gated is decided by its name alone; the input only has to be an object for a
  shell command.\<close>

lemma gate_mode_gates:
  assumes "evaluate_tool_approval lib AM_GATE name tool_input = Inr r"
  shows "pr_decision r = (if tool_is_gated name then PD_GATE else PD_ALLOW)"
  using assms by (auto simp: evaluate_tool_approval_def rbind_Inr_iff split: if_splits)

lemma other_modes_never_gate:
  assumes "evaluate_tool_approval lib mode name tool_input = Inr r" "mode \<noteq> AM_GATE"
  shows "pr_decision r \<noteq> PD_GATE"
  using assms by (auto simp: evaluate_tool_approval_def rbind_Inr_iff split: if_splits)

lemma approval_mode_default: "get_approval_mode None = AM_GATE"
  by (simp add: get_approval_mode_def) code_simp

end
