(* ===== verification/Runtime_Store.thy ===== *)
theory Runtime_Store
  imports Tool_Policy
begin

text \<open>
  What the agent runtime keeps and what it talks to: the contracts of
  \<open>apps/agent-runtime/src/domain/execution_contracts.py\<close>, the ports of \<open>application/ports.py\<close>, the
  repository and unit of work of \<open>infrastructure/db\<close>, the events of \<open>tool_helpers.py\<close>, and the sweep of
  stuck invocations of \<open>api/routes.py\<close>.

  The handlers are programs of type \<open>'a rt\<close>: from a state (the entity in memory, the database, the
  calls made so far) to a value or a raise and the new state, so that a raise in the middle leaves what
  was committed before.  Clock readings and answers of other services are functions of a counter of
  readings, so nothing relates one answer to another.
\<close>

section \<open>Contracts\<close>

datatype execution_status = ES_COMPLETED | ES_FAILED | ES_TIMED_OUT | ES_WAITING_HUMAN

fun execution_status_value :: "execution_status \<Rightarrow> string" where
  "execution_status_value ES_COMPLETED = ''completed''"
| "execution_status_value ES_FAILED = ''failed''"
| "execution_status_value ES_TIMED_OUT = ''timed_out''"
| "execution_status_value ES_WAITING_HUMAN = ''waiting_human''"

declare execution_status_value.simps [value_simps]

record model_profile =
  mp_model_alias :: string
  mp_max_tokens :: "int option"
  mp_temperature :: "json option"

record execution_request =
  er_invocation_id :: uuid
  er_workspace_id :: uuid
  er_task_id :: uuid
  er_run_id :: uuid
  er_step_id :: uuid
  er_correlation_id :: uuid
  er_agent_id :: string
  er_model_profile :: model_profile
  er_instruction :: string
  er_input_payload :: dict
  er_timeout_ms :: int

record execution_result =
  eu_invocation_id :: uuid
  eu_status :: execution_status
  eu_output_payload :: dict
  eu_prompt_tokens :: int
  eu_completion_tokens :: int
  eu_model_concrete :: "string option"
  eu_started_at :: "time option"
  eu_completed_at :: "time option"
  eu_artifact_id :: "uuid option"

record execution_failure =
  ef_invocation_id :: uuid
  ef_status :: execution_status
  ef_error_code :: string
  ef_error_message :: string
  ef_retryable :: bool
  ef_failed_at :: "time option"

datatype execution_outcome = Done execution_result | Failed execution_failure

section \<open>Ports\<close>

text \<open>The response of the model gateway has all its fields (\<open>InvokeModelResponse\<close> of the gateway); its
  exceptions may carry a code and a flag.  The answer of the execution service is its JSON object, by
  the keys the runtime reads.\<close>

record gateway_response =
  gr_output_text :: string
  gr_finish_reason :: string
  gr_prompt_tokens :: int
  gr_completion_tokens :: int
  gr_tool_calls :: "json list option"
  gr_model_concrete :: "string option"
  gr_provider_name :: "string option"

record gateway_exception =
  gx_message :: string
  gx_error_code :: "string option"
  gx_retryable :: "bool option"

record tool_answer =
  tn_status :: "string option"
  tn_stdout :: "string option"
  tn_error_code :: "string option"
  tn_error_message :: "string option"
  tn_truncated :: "bool option"

text \<open>The calls the runtime makes.\<close>

datatype runtime_call =
    Model_Call (mc_messages: "json list") (mc_tools: "json option") (mc_timeout: int)
  | Tool_Call_Made (tm_sandbox: uuid) (tm_name: json) (tm_input: json) (tm_index: nat)
  | Approval_Request (ar_name: json) (ar_preview: string) (ar_reason: string)
  | Artifact_Register string | Artifact_Begin uuid string | Artifact_Finalize uuid string int
  | Artifact_Fail uuid

record runtime_event =
  rv_type :: string
  rv_payload :: dict
  rv_correlation_id :: uuid

record runtime_db =
  rd_invocations :: "agent_invocation list"
  rd_outbox :: "runtime_event list"

record runtime_state =
  rs_inv :: agent_invocation
  rs_db :: runtime_db
  rs_calls :: "runtime_call list"
  rs_tick :: nat

text \<open>The environment: \<open>re_mono\<close> and \<open>re_now\<close> are the clocks in microseconds, \<open>re_world\<close> is what others
  do to the database while the runtime waits for an answer; a service that is not configured is
  \<open>None\<close>.\<close>

record artifact_port =
  ap_register :: "nat \<Rightarrow> string \<Rightarrow> string + uuid"
  ap_begin :: "nat \<Rightarrow> uuid \<Rightarrow> string + unit"
  ap_finalize :: "nat \<Rightarrow> uuid \<Rightarrow> string + unit"

record runtime_env =
  re_lib :: json_lib
  re_mode :: approval_mode
  re_mono :: "nat \<Rightarrow> int"
  re_now :: "nat \<Rightarrow> time"
  re_gateway :: "nat \<Rightarrow> json list \<Rightarrow> int \<Rightarrow> gateway_exception + gateway_response"
  re_execution :: "(nat \<Rightarrow> uuid \<Rightarrow> json \<Rightarrow> json \<Rightarrow> nat \<Rightarrow> string + tool_answer) option"
  re_approval :: "(nat \<Rightarrow> json \<Rightarrow> string + json) option"
  re_artifact :: "artifact_port option"
  re_sha256 :: "string \<Rightarrow> string"
  re_world :: "nat \<Rightarrow> runtime_db \<Rightarrow> runtime_db"

section \<open>Programs\<close>

type_synonym 'a rt = "runtime_state \<Rightarrow> (agent_error + 'a) \<times> runtime_state"

definition rt_return :: "'a \<Rightarrow> 'a rt" where
  "rt_return a s = (Inr a, s)"

definition rt_raise :: "agent_error \<Rightarrow> 'a rt" where
  "rt_raise e s = (Inl e, s)"

definition rt_bind :: "'a rt \<Rightarrow> ('a \<Rightarrow> 'b rt) \<Rightarrow> 'b rt" where
  "rt_bind m f s = (case m s of (Inl e, s') \<Rightarrow> (Inl e, s') | (Inr a, s') \<Rightarrow> f a s')"

definition rt_lift :: "agent_error + 'a \<Rightarrow> 'a rt" where
  "rt_lift r = (case r of Inl e \<Rightarrow> rt_raise e | Inr a \<Rightarrow> rt_return a)"

definition rt_try :: "'a rt \<Rightarrow> (agent_error \<Rightarrow> 'a rt) \<Rightarrow> 'a rt" where
  "rt_try m h s = (case m s of (Inl e, s') \<Rightarrow> h e s' | (Inr a, s') \<Rightarrow> (Inr a, s'))"

definition read_mono :: "runtime_env \<Rightarrow> int rt" where
  "read_mono env s = (Inr (re_mono env (rs_tick s)), s\<lparr>rs_tick := Suc (rs_tick s)\<rparr>)"

definition read_now :: "runtime_env \<Rightarrow> time rt" where
  "read_now env s = (Inr (re_now env (rs_tick s)), s\<lparr>rs_tick := Suc (rs_tick s)\<rparr>)"

definition get_inv :: "agent_invocation rt" where
  "get_inv s = (Inr (rs_inv s), s)"

text \<open>\<open>int((time.monotonic() - start) * 1000)\<close>\<close>

definition elapsed_since :: "runtime_env \<Rightarrow> int \<Rightarrow> int rt" where
  "elapsed_since env start = rt_bind (read_mono env) (\<lambda>m. rt_return ((m - start) div 1000))"

text \<open>A method of the entity in memory.\<close>

definition on_inv :: "(agent_invocation \<Rightarrow> agent_error + agent_invocation) \<Rightarrow> unit rt" where
  "on_inv f s = (case f (rs_inv s) of Inl e \<Rightarrow> (Inl e, s) | Inr a \<Rightarrow> (Inr (), s\<lparr>rs_inv := a\<rparr>))"

definition on_inv_now :: "runtime_env \<Rightarrow> (time \<Rightarrow> agent_invocation \<Rightarrow> agent_error + agent_invocation) \<Rightarrow> unit rt" where
  "on_inv_now env f = rt_bind (read_now env) (\<lambda>now. on_inv (f now))"

text \<open>A call of another service: it is recorded, time passes, and the world goes on.\<close>

definition make_call :: "runtime_env \<Rightarrow> runtime_call \<Rightarrow> nat rt" where
  "make_call env c s = (Inr (rs_tick s),
     s\<lparr> rs_calls := rs_calls s @ [c], rs_tick := Suc (rs_tick s), rs_db := re_world env (rs_tick s) (rs_db s) \<rparr>)"

section \<open>Repository and events\<close>

text \<open>A conflict updates the columns below and keeps the others; a new row gets its creation time from the
  database.\<close>

definition invocation_row :: "agent_invocation \<Rightarrow> agent_invocation \<Rightarrow> agent_invocation" where
  "invocation_row old a = old\<lparr>
     ai_status := ai_status a, ai_prompt_tokens := ai_prompt_tokens a,
     ai_completion_tokens := ai_completion_tokens a, ai_total_cost := ai_total_cost a,
     ai_input_messages := ai_input_messages a, ai_output_messages := ai_output_messages a,
     ai_tool_calls := ai_tool_calls a, ai_error_detail := ai_error_detail a,
     ai_pending_tool_context := ai_pending_tool_context a, ai_started_at := ai_started_at a,
     ai_completed_at := ai_completed_at a \<rparr>"

definition invocation_save :: "time \<Rightarrow> agent_invocation \<Rightarrow> runtime_db \<Rightarrow> runtime_db" where
  "invocation_save now a db =
    (case find_row ai_id (ai_id a) (rd_invocations db) of
       None \<Rightarrow> db\<lparr>rd_invocations := rd_invocations db @ [a\<lparr>ai_created_at := now\<rparr>]\<rparr>
     | Some old \<Rightarrow> db\<lparr>rd_invocations := upsert ai_id (invocation_row old a) (rd_invocations db)\<rparr>)"

definition invocation_get :: "uuid \<Rightarrow> uuid \<Rightarrow> runtime_db \<Rightarrow> agent_invocation option" where
  "invocation_get k ws db = find (\<lambda>a. ai_id a = k \<and> ai_workspace_id a = ws) (rd_invocations db)"

definition max_list_limit :: int where "max_list_limit = 200"

definition invocation_list_active :: "uuid \<Rightarrow> int \<Rightarrow> runtime_db \<Rightarrow> agent_invocation list" where
  "invocation_list_active ws limit db =
     take (nat (min (max 1 limit) max_list_limit))
       (sort_key ai_created_at (filter (\<lambda>a. ai_status a \<in> {I_INITIALIZING, I_STARTING, I_RUNNING, I_WAITING_HUMAN,
            I_WAITING_TOOL} \<and> ai_workspace_id a = ws) (rd_invocations db)))"

definition invocation_list_by_step :: "uuid \<Rightarrow> uuid \<Rightarrow> runtime_db \<Rightarrow> agent_invocation list" where
  "invocation_list_by_step step ws db =
     sort_key ai_created_at (filter (\<lambda>a. ai_step_id a = step \<and> ai_workspace_id a = ws) (rd_invocations db))"

definition opt_time :: "string \<Rightarrow> time option \<Rightarrow> dict" where
  "opt_time k t = (case t of None \<Rightarrow> [] | Some x \<Rightarrow> [(k, JInt x)])"

definition opt_int :: "string \<Rightarrow> int option \<Rightarrow> dict" where
  "opt_int k t = (case t of None \<Rightarrow> [] | Some x \<Rightarrow> [(k, JInt x)])"

definition build_event_payload :: "agent_invocation \<Rightarrow> dict" where
  "build_event_payload a =
     [(''agent_invocation_id'', JUuid (ai_id a)), (''step_id'', JUuid (ai_step_id a)),
      (''run_id'', JUuid (ai_run_id a)), (''task_id'', JUuid (ai_task_id a)),
      (''workspace_id'', JUuid (ai_workspace_id a)), (''agent_id'', JStr (ai_agent_id a)),
      (''invocation_status'', JStr (invocation_status_value (ai_status a)))]
     @ opt_time ''started_at'' (ai_started_at a) @ opt_time ''completed_at'' (ai_completed_at a)
     @ (case ai_error_detail a of Some (x # d) \<Rightarrow> [(''error_detail'', JObj (x # d))] | _ \<Rightarrow> [])
     @ opt_int ''prompt_tokens'' (ai_prompt_tokens a) @ opt_int ''completion_tokens'' (ai_completion_tokens a)
     @ (case ai_tool_calls a of Some (x # cs) \<Rightarrow> [(''tool_calls'', JList (x # cs))] | _ \<Rightarrow> [])"

definition build_invocation_summary :: "int \<Rightarrow> int \<Rightarrow> int \<Rightarrow> int \<Rightarrow> int \<Rightarrow> string option \<Rightarrow> json" where
  "build_invocation_summary turns called failures model_ms tool_ms reason = JObj
     ([(''total_turns'', JInt turns), (''total_tools_called'', JInt called), (''total_tool_failures'', JInt failures),
       (''total_model_latency_ms'', JInt model_ms), (''total_tool_latency_ms'', JInt tool_ms)]
      @ (if str_truthy reason then [(''terminal_reason'', JStr (the reason))] else []))"

definition build_turn_event_payload ::
  "agent_invocation \<Rightarrow> int \<Rightarrow> int \<Rightarrow> int \<Rightarrow> int \<Rightarrow> int \<Rightarrow> int \<Rightarrow> json list \<Rightarrow> dict" where
  "build_turn_event_payload a turn tools failures model_ms turn_ms budget_left details =
     [(''agent_invocation_id'', JUuid (ai_id a)), (''run_id'', JUuid (ai_run_id a)),
      (''task_id'', JUuid (ai_task_id a)), (''workspace_id'', JUuid (ai_workspace_id a)),
      (''turn_index'', JInt turn), (''tool_count'', JInt tools), (''failure_count'', JInt failures),
      (''model_latency_ms'', JInt model_ms), (''turn_duration_ms'', JInt turn_ms),
      (''budget_remaining_ms'', JInt budget_left)]
     @ (if details \<noteq> [] then [(''tools'', JList details)] else [])"

text \<open>\<open>DbInvocationUnitOfWork.save_with_event\<close>: the row and the event in one transaction.\<close>

definition save_event :: "runtime_env \<Rightarrow> string \<Rightarrow> dict \<Rightarrow> unit rt" where
  "save_event env ty payload = rt_bind (read_now env) (\<lambda>now s. (Inr (),
     s\<lparr>rs_db := (invocation_save now (rs_inv s) (rs_db s))\<lparr>
         rd_outbox := rd_outbox (rs_db s) @ [\<lparr> rv_type = ty, rv_payload = payload,
           rv_correlation_id = ai_correlation_id (rs_inv s) \<rparr>] \<rparr> \<rparr>))"

definition save_with_event :: "runtime_env \<Rightarrow> string \<Rightarrow> unit rt" where
  "save_with_event env ty = rt_bind get_inv (\<lambda>a. save_event env ty (build_event_payload a))"

section \<open>Stuck invocations\<close>

text \<open>The sweep of \<open>/invocations/recover-stuck\<close>: candidates and updates in one transaction; an update is
  skipped when the row completed meanwhile.  The answer lists the candidates, in a dry run with no
  update.\<close>

definition stuck_invocation_states :: "invocation_status list" where
  "stuck_invocation_states = [I_INITIALIZING, I_STARTING, I_RUNNING, I_WAITING_HUMAN, I_WAITING_TOOL]"

definition invocation_stuck_timeout_s :: int where "invocation_stuck_timeout_s = 300"

definition stuck_reason :: "invocation_status \<Rightarrow> string" where
  "stuck_reason s =
    (case s of I_INITIALIZING \<Rightarrow> ''STUCK_INITIALIZING'' | I_STARTING \<Rightarrow> ''STUCK_STARTING''
     | I_RUNNING \<Rightarrow> ''STUCK_RUNNING'' | I_WAITING_HUMAN \<Rightarrow> ''STUCK_WAITING_HUMAN''
     | I_WAITING_TOOL \<Rightarrow> ''STUCK_WAITING_TOOL'' | _ \<Rightarrow> ''STUCK_UNKNOWN'')"

definition stuck_invocations :: "time \<Rightarrow> runtime_db \<Rightarrow> agent_invocation list" where
  "stuck_invocations cutoff db = take 100 (sort_key ai_created_at
     (filter (\<lambda>a. ai_status a \<in> set stuck_invocation_states \<and> ai_completed_at a = None
        \<and> opt_or (ai_started_at a) (ai_created_at a) < cutoff) (rd_invocations db)))"

definition invocation_age_s :: "time \<Rightarrow> agent_invocation \<Rightarrow> int" where
  "invocation_age_s now a = (now - opt_or (ai_started_at a) (ai_created_at a)) div 1000000"

definition recover_invocation :: "int \<Rightarrow> time \<Rightarrow> agent_invocation \<Rightarrow> runtime_db \<Rightarrow> runtime_db" where
  "recover_invocation timeout_s now row db = db\<lparr>rd_invocations :=
     map (\<lambda>a. if ai_id a = ai_id row \<and> ai_completed_at a = None
        then a\<lparr> ai_status := I_FAILED, ai_completed_at := Some now,
               ai_error_detail := Some [(''error_code'', JStr (stuck_reason (ai_status row))),
                 (''error_message'', JStr (''Invocation stuck in '' @ invocation_status_value (ai_status row)
                    @ '' for '' @ str_int (invocation_age_s now row) @ ''s (timeout: '' @ str_int timeout_s @ ''s)'')),
                 (''recovered_at'', JInt now)] \<rparr>
        else a) (rd_invocations db)\<rparr>"

definition recover_stuck_invocations ::
  "int option \<Rightarrow> bool \<Rightarrow> time \<Rightarrow> runtime_db \<Rightarrow> agent_invocation list \<times> runtime_db" where
  "recover_stuck_invocations timeout_seconds dry_run now db =
    (let timeout_s = (case timeout_seconds of None \<Rightarrow> invocation_stuck_timeout_s
                      | Some t \<Rightarrow> if t = 0 then invocation_stuck_timeout_s else t);
         rows = stuck_invocations (now - timeout_s * 1000000) db
     in (rows, if dry_run then db else fold (recover_invocation timeout_s now) rows db))"

section \<open>Reasoning about programs\<close>

text \<open>\<open>rt_valid P m Q E\<close>: from a state with \<open>P\<close>, a returning \<open>m\<close> ends in \<open>Q\<close> and a raising one in \<open>E\<close>.\<close>

definition rt_valid ::
  "(runtime_state \<Rightarrow> bool) \<Rightarrow> 'a rt \<Rightarrow> ('a \<Rightarrow> runtime_state \<Rightarrow> bool) \<Rightarrow> (agent_error \<Rightarrow> runtime_state \<Rightarrow> bool) \<Rightarrow> bool" where
  "rt_valid P m Q E = (\<forall>s. P s \<longrightarrow> (case m s of (Inl e, s') \<Rightarrow> E e s' | (Inr a, s') \<Rightarrow> Q a s'))"

abbreviation rt_keeps :: "(runtime_state \<Rightarrow> bool) \<Rightarrow> 'a rt \<Rightarrow> bool" where
  "rt_keeps I m \<equiv> rt_valid I m (\<lambda>_. I) (\<lambda>_. I)"

named_theorems rt_rules \<open>how the elementary programs keep an invariant\<close>

lemma rt_validI:
  assumes "\<And>s e s'. \<lbrakk> P s; m s = (Inl e, s') \<rbrakk> \<Longrightarrow> E e s'" "\<And>s a s'. \<lbrakk> P s; m s = (Inr a, s') \<rbrakk> \<Longrightarrow> Q a s'"
  shows "rt_valid P m Q E"
  unfolding rt_valid_def
proof (intro allI impI)
  fix s assume "P s"
  then show "case m s of (Inl e, s') \<Rightarrow> E e s' | (Inr a, s') \<Rightarrow> Q a s'"
    using assms by (cases "m s"; cases "fst (m s)") auto
qed

lemma rt_validD:
  assumes "rt_valid P m Q E" "P s"
  shows "m s = (Inr a, s') \<Longrightarrow> Q a s'" "m s = (Inl e, s') \<Longrightarrow> E e s'"
  using assms by (auto simp: rt_valid_def dest: spec [of _ s])

lemma rt_valid_bind:
  assumes "rt_valid P m R E" "\<And>a. rt_valid (R a) (f a) Q E"
  shows "rt_valid P (rt_bind m f) Q E"
proof (rule rt_validI)
  fix s e s' assume "P s" and b: "rt_bind m f s = (Inl e, s')"
  obtain r t where m: "m s = (r, t)" by fastforce
  show "E e s'"
  proof (cases r)
    case (Inl x)
    with b m show ?thesis using rt_validD(2) [OF assms(1) \<open>P s\<close>] by (simp add: rt_bind_def)
  next
    case (Inr a)
    with m have "R a t" using rt_validD(1) [OF assms(1) \<open>P s\<close>] by simp
    with b m Inr show ?thesis using rt_validD(2) [OF assms(2)] by (simp add: rt_bind_def)
  qed
next
  fix s a s' assume "P s" and b: "rt_bind m f s = (Inr a, s')"
  obtain r t where m: "m s = (r, t)" by fastforce
  with b obtain x where r: "r = Inr x" "f x t = (Inr a, s')" by (cases r) (auto simp: rt_bind_def)
  with m have "R x t" using rt_validD(1) [OF assms(1) \<open>P s\<close>] by simp
  with r show "Q a s'" using rt_validD(1) [OF assms(2)] by simp
qed

lemma rt_valid_weaken:
  assumes "rt_valid P m Q E" "\<And>s. P' s \<Longrightarrow> P s" "\<And>a s. Q a s \<Longrightarrow> Q' a s" "\<And>e s. E e s \<Longrightarrow> E' e s"
  shows "rt_valid P' m Q' E'"
proof (rule rt_validI)
  show "E' e s'" if "P' s" "m s = (Inl e, s')" for s e s'
    using rt_validD(2) [OF assms(1) assms(2) [OF that(1)] that(2)] by (rule assms(4))
  show "Q' a s'" if "P' s" "m s = (Inr a, s')" for s a s'
    using rt_validD(1) [OF assms(1) assms(2) [OF that(1)] that(2)] by (rule assms(3))
qed

lemma rt_valid_return [rt_rules]: "rt_keeps I (rt_return a)"
  by (simp add: rt_valid_def rt_return_def)

lemma rt_valid_raise [rt_rules]: "rt_keeps I (rt_raise e)"
  by (simp add: rt_valid_def rt_raise_def)

lemma rt_keeps_bind [rt_rules]:
  "\<lbrakk> rt_keeps I m; \<And>a. rt_keeps I (f a) \<rbrakk> \<Longrightarrow> rt_keeps I (rt_bind m f)"
  by (rule rt_valid_bind)

lemma rt_keeps_lift [rt_rules]: "rt_keeps I (rt_lift r)"
  by (cases r) (simp_all add: rt_lift_def rt_valid_return rt_valid_raise)

lemma rt_keeps_if [rt_rules]: "\<lbrakk> rt_keeps I m; rt_keeps I n \<rbrakk> \<Longrightarrow> rt_keeps I (if b then m else n)"
  by simp

lemma rt_keeps_get [rt_rules]: "rt_keeps I get_inv"
  by (simp add: rt_valid_def get_inv_def)

end
