(* ===== verification/Agent_Loop.thy ===== *)
theory Agent_Loop
  imports Runtime_Store
begin

text \<open>
  The loop of an invocation, under \<open>apps/agent-runtime/src/application\<close>: \<open>shared_execution.py\<close> (one tool
  call), \<open>approval_gate.py\<close>, \<open>loop_errors.py\<close>, \<open>gateway_errors.py\<close>, \<open>tool_loop.py\<close>,
  \<open>artifact_integration.py\<close> and \<open>execution_handler.py\<close>.
\<close>

section \<open>One tool call\<close>

definition call_function :: "json \<Rightarrow> dict" where
  "call_function tc =
    (case tc of JObj d \<Rightarrow> (case jget ''function'' (JObj []) d of JObj f \<Rightarrow> f | _ \<Rightarrow> []) | _ \<Rightarrow> [])"

definition call_id :: "json \<Rightarrow> json" where
  "call_id tc = (case tc of JObj d \<Rightarrow> jget ''id'' (JStr []) d | _ \<Rightarrow> JStr [])"

definition call_name :: "json \<Rightarrow> json" where
  "call_name tc = jget ''name'' (JStr ''unknown'') (call_function tc)"

text \<open>\<open>json.loads(func.get('arguments', '{}'))\<close>, or \<open>{}\<close> when that raises.\<close>

definition call_input :: "json_lib \<Rightarrow> json \<Rightarrow> json" where
  "call_input lib tc =
    (case map_of (call_function tc) ''arguments'' of
       Some (JStr s) \<Rightarrow> opt_or (jl_loads lib s) (JObj [])
     | _ \<Rightarrow> JObj [])"

definition failed_answer :: "string option \<Rightarrow> string \<Rightarrow> tool_answer" where
  "failed_answer code msg = \<lparr> tn_status = Some ''failed'', tn_stdout = Some [], tn_error_code = code,
     tn_error_message = Some msg, tn_truncated = None \<rparr>"

definition run_tool_call :: "runtime_env \<Rightarrow> uuid option \<Rightarrow> nat \<Rightarrow> json \<Rightarrow> tool_answer rt" where
  "run_tool_call env sandbox index tc =
    (let name = call_name tc; tool_input = call_input (re_lib env) tc in
     rt_bind (rt_lift (check_tool_guardrails (re_lib env) name tool_input)) (\<lambda>rejection.
     if str_truthy rejection then rt_return (failed_answer (Some ''GUARDRAIL_REJECTED'') (the rejection))
     else case sandbox of
       None \<Rightarrow> rt_return (failed_answer None ''No sandbox_id available'')
     | Some sid \<Rightarrow>
         (case re_execution env of
            None \<Rightarrow> rt_return (failed_answer None ''No execution service'')
          | Some call_tool \<Rightarrow>
              rt_bind (make_call env (Tool_Call_Made sid name tool_input index)) (\<lambda>t.
              rt_return (case call_tool t sid name tool_input index of
                           Inl msg \<Rightarrow> failed_answer None msg | Inr r \<Rightarrow> r)))))"

text \<open>The text of an answer that goes into the conversation.\<close>

definition answer_content :: "tool_answer \<Rightarrow> string" where
  "answer_content r =
    (if str_truthy (tn_stdout r) then the (tn_stdout r)
     else opt_or (tn_error_message r) ''Tool execution failed'')"

definition answer_completed :: "tool_answer \<Rightarrow> bool" where
  "answer_completed r = (tn_status r = Some ''completed'')"

definition truncated_mark :: string where
  "truncated_mark = [CHR 0x0A] @ ''[output truncated by execution-service]''"

definition tool_content :: "tool_answer \<Rightarrow> string" where
  "tool_content r = truncate_tool_result
     (answer_content r @ (if tn_truncated r = Some True then truncated_mark else []))"

definition tool_message :: "json \<Rightarrow> string \<Rightarrow> json" where
  "tool_message tc content = JObj [(''role'', JStr ''tool''), (''tool_call_id'', call_id tc), (''content'', JStr content)]"

definition assistant_message :: "string \<Rightarrow> json list \<Rightarrow> json" where
  "assistant_message text calls = JObj [(''role'', JStr ''assistant''),
     (''content'', if text = [] then JNull else JStr text), (''tool_calls'', JList calls)]"

text \<open>\<open>UUID(sandbox_id_str) if sandbox_id_str else None\<close>\<close>

definition parse_sandbox_id :: "json \<Rightarrow> agent_error + uuid option" where
  "parse_sandbox_id j =
    (if \<not> json_truthy j then Inr None
     else case j of JUuid u \<Rightarrow> Inr (Some u)
          | JStr _ \<Rightarrow> Inl (RT_Raise ''ValueError'' ''badly formed hexadecimal UUID string'')
          | _ \<Rightarrow> Inl (RT_Raise ''AttributeError'' ''replace''))"

section \<open>The approval gate\<close>

definition request_tool_approval :: "runtime_env \<Rightarrow> json \<Rightarrow> json \<Rightarrow> string \<Rightarrow> json rt" where
  "request_tool_approval env name tool_input reason =
    (case re_approval env of
       None \<Rightarrow> rt_return JNull
     | Some request \<Rightarrow>
         rt_bind (make_call env (Approval_Request name (take 2000 (jl_dumps (re_lib env) tool_input)) reason)) (\<lambda>t.
         rt_return (case request t name of Inl _ \<Rightarrow> JNull | Inr j \<Rightarrow> j)))"

definition pending_context ::
  "json_lib \<Rightarrow> execution_request \<Rightarrow> json list \<Rightarrow> json list \<Rightarrow> gateway_response \<Rightarrow> json \<Rightarrow> json \<Rightarrow> string \<Rightarrow> dict" where
  "pending_context lib req calls messages gw name tool_input reason =
     [(''tool_calls'', JList calls), (''messages'', JList messages),
      (''gw_response'', JObj [(''output_text'', JStr (gr_output_text gw)),
         (''prompt_tokens'', JInt (gr_prompt_tokens gw)), (''completion_tokens'', JInt (gr_completion_tokens gw))]),
      (''sandbox_id'', jget ''sandbox_id'' JNull (er_input_payload req)),
      (''gated_tool_name'', name),
      (''gated_tool_input_preview'', JStr (take 500 (jl_dumps lib tool_input))),
      (''gate_reason'', JStr reason)]"

definition enter_gate ::
  "runtime_env \<Rightarrow> execution_request \<Rightarrow> json list \<Rightarrow> json list \<Rightarrow> gateway_response \<Rightarrow> json \<Rightarrow> json \<Rightarrow> string
   \<Rightarrow> execution_outcome rt" where
  "enter_gate env req calls messages gw name tool_input reason =
     rt_bind (on_inv (mark_waiting_human (Some (pending_context (re_lib env) req calls messages gw name tool_input reason)))) (\<lambda>_.
     rt_bind (save_with_event env ''agent_invocation.waiting_human'') (\<lambda>_.
     rt_bind (request_tool_approval env name tool_input reason) (\<lambda>approval_id.
     rt_bind get_inv (\<lambda>a.
     rt_return (Done \<lparr> eu_invocation_id = ai_id a, eu_status = ES_WAITING_HUMAN,
       eu_output_payload = [(''waiting_reason'', JStr ''tool_approval_required''), (''gated_tool'', name),
          (''gate_reason'', JStr reason), (''approval_id'', approval_id)],
       eu_prompt_tokens = 0, eu_completion_tokens = 0, eu_model_concrete = None,
       eu_started_at = ai_started_at a, eu_completed_at = None, eu_artifact_id = None \<rparr>)))))"

fun check_gate ::
  "runtime_env \<Rightarrow> execution_request \<Rightarrow> json list \<Rightarrow> json list \<Rightarrow> gateway_response \<Rightarrow> json list
   \<Rightarrow> execution_outcome option rt" where
  "check_gate env req calls messages gw [] = rt_return None"
| "check_gate env req calls messages gw (tc # tcs) =
     rt_bind (rt_lift (evaluate_tool_approval (re_lib env) (re_mode env) (call_name tc) (call_input (re_lib env) tc))) (\<lambda>r.
     if pr_decision r = PD_GATE
     then rt_bind (enter_gate env req calls messages gw (call_name tc) (call_input (re_lib env) tc) (pr_reason r))
            (\<lambda>out. rt_return (Some out))
     else check_gate env req calls messages gw tcs)"

definition check_tool_approval_gate ::
  "runtime_env \<Rightarrow> execution_request \<Rightarrow> json list \<Rightarrow> json list \<Rightarrow> gateway_response \<Rightarrow> execution_outcome option rt" where
  "check_tool_approval_gate env req calls messages gw = check_gate env req calls messages gw calls"

section \<open>Failures\<close>

record loop_result =
  lr_output_text :: string
  lr_last_response :: "gateway_response option"
  lr_prompt_tokens :: int
  lr_completion_tokens :: int
  lr_all_tool_calls :: "json list"
  lr_completed_turns :: int
  lr_tools_called :: int
  lr_tool_failures :: int
  lr_model_latency_ms :: int
  lr_tool_latency_ms :: int
  lr_early_exit :: "execution_outcome option"

definition empty_loop_result :: loop_result where
  "empty_loop_result = \<lparr> lr_output_text = [], lr_last_response = None, lr_prompt_tokens = 0,
     lr_completion_tokens = 0, lr_all_tool_calls = [], lr_completed_turns = 0, lr_tools_called = 0,
     lr_tool_failures = 0, lr_model_latency_ms = 0, lr_tool_latency_ms = 0, lr_early_exit = None \<rparr>"

definition loop_summary :: "int \<Rightarrow> loop_result \<Rightarrow> string option \<Rightarrow> json" where
  "loop_summary turns r reason = build_invocation_summary turns (lr_tools_called r) (lr_tool_failures r)
     (lr_model_latency_ms r) (lr_tool_latency_ms r) reason"

text \<open>Every failure marks the entity, saves it with its event, and answers with a failure.\<close>

definition fail_invocation ::
  "runtime_env \<Rightarrow> bool \<Rightarrow> dict \<Rightarrow> execution_status \<Rightarrow> string \<Rightarrow> string \<Rightarrow> bool \<Rightarrow> execution_outcome rt" where
  "fail_invocation env timed_out detail status code msg retryable =
     rt_bind (on_inv_now env (if timed_out then mark_timed_out (Some detail) else mark_invocation_failed (Some detail))) (\<lambda>_.
     rt_bind (save_with_event env (if timed_out then ''agent_invocation.timed_out'' else ''agent_invocation.failed'')) (\<lambda>_.
     rt_bind get_inv (\<lambda>a.
     rt_return (Failed \<lparr> ef_invocation_id = ai_id a, ef_status = status, ef_error_code = code,
       ef_error_message = msg, ef_retryable = retryable, ef_failed_at = ai_completed_at a \<rparr>))))"

definition handle_budget_exhausted :: "runtime_env \<Rightarrow> int \<Rightarrow> int \<Rightarrow> int \<Rightarrow> loop_result \<Rightarrow> execution_outcome rt" where
  "handle_budget_exhausted env elapsed budget turn r =
     fail_invocation env True
       [(''error_code'', JStr ''BUDGET_EXHAUSTED''),
        (''error_message'', JStr (''Invocation wall-clock budget exhausted after '' @ str_int elapsed
            @ ''ms (budget: '' @ str_int budget @ ''ms)'')),
        (''turns_completed'', JInt turn),
        (''invocation_summary'', loop_summary turn r (Some ''BUDGET_EXHAUSTED''))]
       ES_FAILED ''BUDGET_EXHAUSTED'' (''Invocation budget exhausted after '' @ str_int elapsed @ ''ms'') False"

definition handle_malformed_tools :: "runtime_env \<Rightarrow> json list \<Rightarrow> execution_outcome rt" where
  "handle_malformed_tools env calls =
     fail_invocation env False
       [(''error_code'', JStr ''MALFORMED_TOOL_CALLS''),
        (''error_message'', JStr ''Model returned tool_calls with no valid entries''),
        (''raw_tool_calls'', JList (take 3 calls))]
       ES_FAILED ''MALFORMED_TOOL_CALLS'' ''Model returned tool_calls with no valid entries'' False"

definition all_failed_message :: "nat \<Rightarrow> nat \<Rightarrow> string" where
  "all_failed_message n turn = ''All '' @ str_nat n @ '' tool(s) failed in turn '' @ str_nat turn"

definition handle_all_tools_failed :: "runtime_env \<Rightarrow> nat \<Rightarrow> nat \<Rightarrow> loop_result \<Rightarrow> execution_outcome rt" where
  "handle_all_tools_failed env turn n r =
     fail_invocation env False
       [(''error_code'', JStr ''ALL_TOOLS_FAILED''), (''error_message'', JStr (all_failed_message n turn)),
        (''turn'', JInt (int turn)),
        (''invocation_summary'', loop_summary (int turn + 1) r (Some ''ALL_TOOLS_FAILED''))]
       ES_FAILED ''ALL_TOOLS_FAILED'' (all_failed_message n turn) False"

definition handle_gateway_error :: "runtime_env \<Rightarrow> gateway_exception \<Rightarrow> execution_outcome rt" where
  "handle_gateway_error env x =
    (let code = opt_or (gx_error_code x) ''GATEWAY_ERROR'';
         msg = friendly_error_message code (gx_message x)
     in fail_invocation env (code = ''TIMEOUT'') [(''error_code'', JStr code), (''error_message'', JStr msg)]
          (if code = ''TIMEOUT'' then ES_TIMED_OUT else ES_FAILED) code msg (opt_or (gx_retryable x) False))"

section \<open>One turn\<close>

record turn_acc =
  tu_failures :: nat
  tu_details :: "json list"
  tu_messages :: "json list"
  tu_latency_ms :: int

definition tool_detail :: "json \<Rightarrow> string \<Rightarrow> int \<Rightarrow> json" where
  "tool_detail tc status ms = JObj [(''name'', call_name tc), (''status'', JStr status), (''duration_ms'', JInt ms)]"

definition dispatch_one ::
  "runtime_env \<Rightarrow> int \<Rightarrow> int \<Rightarrow> uuid option \<Rightarrow> nat \<Rightarrow> json \<Rightarrow> turn_acc \<Rightarrow> turn_acc rt" where
  "dispatch_one env start budget sandbox turn tc acc =
     rt_bind (elapsed_since env start) (\<lambda>elapsed.
     if budget - elapsed \<le> 0
     then rt_return (acc\<lparr>
            tu_messages := tu_messages acc @ [tool_message tc ''Budget exhausted - tool execution skipped''],
            tu_failures := tu_failures acc + 1,
            tu_details := tu_details acc @ [tool_detail tc ''skipped'' 0] \<rparr>)
     else
       rt_bind (read_mono env) (\<lambda>t0.
       rt_bind (run_tool_call env sandbox turn tc) (\<lambda>r.
       rt_bind (elapsed_since env t0) (\<lambda>ms.
       rt_return (acc\<lparr>
         tu_messages := tu_messages acc @ [tool_message tc (tool_content r)],
         tu_failures := tu_failures acc + (if answer_completed r then 0 else 1),
         tu_details := tu_details acc @ [tool_detail tc (opt_or (tn_status r) ''failed'') ms],
         tu_latency_ms := tu_latency_ms acc + ms \<rparr>)))))"

fun dispatch_calls ::
  "runtime_env \<Rightarrow> int \<Rightarrow> int \<Rightarrow> uuid option \<Rightarrow> nat \<Rightarrow> json list \<Rightarrow> turn_acc \<Rightarrow> turn_acc rt" where
  "dispatch_calls env start budget sandbox turn [] acc = rt_return acc"
| "dispatch_calls env start budget sandbox turn (tc # tcs) acc =
     rt_bind (dispatch_one env start budget sandbox turn tc acc)
       (dispatch_calls env start budget sandbox turn tcs)"

definition dispatch_tools ::
  "runtime_env \<Rightarrow> execution_request \<Rightarrow> int \<Rightarrow> int \<Rightarrow> nat \<Rightarrow> json list \<Rightarrow> json list \<Rightarrow> turn_acc rt" where
  "dispatch_tools env req start budget turn calls messages =
     rt_bind (rt_lift (parse_sandbox_id (jget ''sandbox_id'' JNull (er_input_payload req)))) (\<lambda>sandbox.
     dispatch_calls env start budget sandbox turn calls
       \<lparr> tu_failures = 0, tu_details = [], tu_messages = messages, tu_latency_ms = 0 \<rparr>)"

datatype turn_end =
    Turn_Break loop_result
  | Turn_Exit execution_outcome loop_result
  | Turn_Next "json list" loop_result

text \<open>The part of a turn that follows valid tool calls.\<close>

definition tool_phase ::
  "runtime_env \<Rightarrow> execution_request \<Rightarrow> int \<Rightarrow> int \<Rightarrow> nat \<Rightarrow> int \<Rightarrow> int \<Rightarrow> json list \<Rightarrow> json list \<Rightarrow> gateway_response
   \<Rightarrow> loop_result \<Rightarrow> turn_end rt" where
  "tool_phase env req start budget turn turn_start model_ms calls messages gw r =
     rt_bind (check_tool_approval_gate env req calls messages gw) (\<lambda>gate.
     case gate of
       Some out \<Rightarrow> rt_return (Turn_Exit out r)
     | None \<Rightarrow>
         rt_bind (on_inv mark_waiting_tool) (\<lambda>_.
         rt_bind (save_with_event env ''agent_invocation.waiting_tool'') (\<lambda>_.
         rt_bind (dispatch_tools env req start budget turn calls
                    (messages @ [assistant_message (gr_output_text gw) calls])) (\<lambda>acc.
         let r = r\<lparr> lr_tools_called := lr_tools_called r + int (length calls),
                    lr_tool_failures := lr_tool_failures r + int (tu_failures acc),
                    lr_tool_latency_ms := lr_tool_latency_ms r + tu_latency_ms acc \<rparr>
         in if tu_failures acc = length calls \<and> length calls > 0
            then rt_bind (handle_all_tools_failed env turn (length calls) r) (\<lambda>out. rt_return (Turn_Exit out r))
            else
              rt_bind (on_inv resume_from_wait) (\<lambda>_.
              rt_bind (elapsed_since env turn_start) (\<lambda>turn_ms.
              rt_bind (elapsed_since env start) (\<lambda>elapsed.
              rt_bind get_inv (\<lambda>a.
              rt_bind (save_event env ''agent_invocation.turn_completed''
                 (build_turn_event_payload a (int turn) (int (length calls)) (int (tu_failures acc)) model_ms
                    turn_ms (max 0 (budget - elapsed)) (tu_details acc))) (\<lambda>_.
              rt_return (Turn_Next (tu_messages acc) (r\<lparr>lr_completed_turns := int turn + 1\<rparr>)))))))))))"

definition model_timeout :: "int \<Rightarrow> int" where
  "model_timeout remaining = min remaining 60000"

definition call_gateway ::
  "runtime_env \<Rightarrow> json list \<Rightarrow> json option \<Rightarrow> int \<Rightarrow> (gateway_exception + gateway_response) rt" where
  "call_gateway env messages tools timeout =
     rt_bind (make_call env (Model_Call messages tools timeout)) (\<lambda>t. rt_return (re_gateway env t messages timeout))"

definition note_response :: "gateway_response \<Rightarrow> int \<Rightarrow> loop_result \<Rightarrow> loop_result" where
  "note_response gw ms r = r\<lparr> lr_last_response := Some gw, lr_model_latency_ms := lr_model_latency_ms r + ms,
     lr_prompt_tokens := lr_prompt_tokens r + gr_prompt_tokens gw,
     lr_completion_tokens := lr_completion_tokens r + gr_completion_tokens gw \<rparr>"

definition tool_turn ::
  "runtime_env \<Rightarrow> execution_request \<Rightarrow> int \<Rightarrow> int \<Rightarrow> json option \<Rightarrow> nat \<Rightarrow> json list \<Rightarrow> loop_result \<Rightarrow> turn_end rt" where
  "tool_turn env req start budget tools turn messages r =
     rt_bind (read_mono env) (\<lambda>turn_start.
     rt_bind (elapsed_since env start) (\<lambda>elapsed.
     if budget - elapsed \<le> 0
     then rt_bind (handle_budget_exhausted env elapsed budget (int turn) r) (\<lambda>out. rt_return (Turn_Exit out r))
     else
       rt_bind (read_mono env) (\<lambda>t0.
       rt_bind (call_gateway env messages tools (model_timeout (budget - elapsed))) (\<lambda>answer.
       case answer of
         Inl x \<Rightarrow> rt_bind (handle_gateway_error env x) (\<lambda>out. rt_return (Turn_Exit out r))
       | Inr gw \<Rightarrow>
           rt_bind (elapsed_since env t0) (\<lambda>ms.
           let r = note_response gw ms r; calls = opt_or (gr_tool_calls gw) [] in
           if gr_finish_reason gw \<noteq> ''tool_calls'' \<or> calls = [] \<or> re_execution env = None
           then rt_return (Turn_Break r)
           else if validate_tool_calls calls = []
           then rt_bind (handle_malformed_tools env calls) (\<lambda>out. rt_return (Turn_Exit out r))
           else tool_phase env req start budget turn turn_start ms (validate_tool_calls calls) messages gw
                  (r\<lparr>lr_all_tool_calls := lr_all_tool_calls r @ validate_tool_calls calls\<rparr>))))))"

section \<open>The loop\<close>

definition finish_loop :: "loop_result \<Rightarrow> loop_result" where
  "finish_loop r = r\<lparr>lr_output_text := (case lr_last_response r of None \<Rightarrow> [] | Some gw \<Rightarrow> gr_output_text gw)\<rparr>"

text \<open>\<open>n\<close> turns are left; \<open>turn\<close> is the number of the next one.\<close>

fun tool_loop ::
  "runtime_env \<Rightarrow> execution_request \<Rightarrow> int \<Rightarrow> int \<Rightarrow> json option \<Rightarrow> nat \<Rightarrow> nat \<Rightarrow> json list \<Rightarrow> loop_result
   \<Rightarrow> loop_result rt" where
  "tool_loop env req start budget tools 0 turn messages r = rt_return (finish_loop r)"
| "tool_loop env req start budget tools (Suc n) turn messages r =
     rt_bind (tool_turn env req start budget tools turn messages r) (\<lambda>e.
     case e of
       Turn_Break r' \<Rightarrow> rt_return (finish_loop r')
     | Turn_Exit out r' \<Rightarrow> rt_return (r'\<lparr>lr_early_exit := Some out\<rparr>)
     | Turn_Next messages' r' \<Rightarrow> tool_loop env req start budget tools n (Suc turn) messages' r')"

definition loop_budget :: "execution_request \<Rightarrow> int" where
  "loop_budget req = (if er_timeout_ms req > 0 then er_timeout_ms req else invocation_budget_ms)"

definition run_tool_loop :: "runtime_env \<Rightarrow> execution_request \<Rightarrow> loop_result rt" where
  "run_tool_loop env req =
     rt_bind (read_mono env) (\<lambda>start.
     rt_bind get_inv (\<lambda>a.
     tool_loop env req start (loop_budget req) (map_of (er_input_payload req) ''tools'') max_tool_turns 0
       (opt_or (ai_input_messages a) []) empty_loop_result))"

section \<open>The artifact\<close>

text \<open>The storage key and the name hold the text of ids, which the model does not spell out: the calls
  record the name prefix, the artifact and the size.\<close>

definition create_artifact_best_effort ::
  "runtime_env \<Rightarrow> execution_request \<Rightarrow> string \<Rightarrow> uuid option rt" where
  "create_artifact_best_effort env req text =
    (case re_artifact env of
       None \<Rightarrow> rt_return None
     | Some port \<Rightarrow>
         if is_blank text then rt_return None
         else
           rt_bind (make_call env (Artifact_Register (take 80 (er_instruction req)))) (\<lambda>t.
           case ap_register port t text of
             Inl _ \<Rightarrow> rt_return None
           | Inr artifact \<Rightarrow>
               let give_up = rt_bind (make_call env (Artifact_Fail artifact)) (\<lambda>_. rt_return None) in
               rt_bind (make_call env (Artifact_Begin artifact ''content'')) (\<lambda>t.
               case ap_begin port t artifact of
                 Inl _ \<Rightarrow> give_up
               | Inr _ \<Rightarrow>
                   rt_bind (make_call env (Artifact_Finalize artifact (re_sha256 env text) (int (utf8_bytes text)))) (\<lambda>t.
                   case ap_finalize port t artifact of
                     Inl _ \<Rightarrow> give_up
                   | Inr _ \<Rightarrow> rt_return (Some artifact)))))"

section \<open>The handler\<close>

definition create_invocation :: "execution_request \<Rightarrow> time \<Rightarrow> agent_error + agent_invocation" where
  "create_invocation req now = invocation_init (er_invocation_id req) (er_step_id req) (er_run_id req)
     (er_task_id req) (er_workspace_id req) (er_correlation_id req) (er_agent_id req)
     (mp_model_alias (er_model_profile req)) now"

definition user_messages :: "execution_request \<Rightarrow> json list option" where
  "user_messages req = (if er_instruction req = [] then None
     else Some [JObj [(''role'', JStr ''user''), (''content'', JStr (er_instruction req))]])"

definition complete_invocation :: "runtime_env \<Rightarrow> execution_request \<Rightarrow> loop_result \<Rightarrow> execution_outcome rt" where
  "complete_invocation env req r =
     rt_bind (on_inv_now env (mark_completed
        (Some [JObj [(''role'', JStr ''assistant''), (''content'', JStr (lr_output_text r))]])
        (if lr_all_tool_calls r = [] then None else Some (lr_all_tool_calls r))
        (Some (lr_prompt_tokens r)) (Some (lr_completion_tokens r)) None)) (\<lambda>_.
     rt_bind get_inv (\<lambda>a.
     rt_bind (save_event env ''agent_invocation.completed''
        (dict_put ''invocation_summary'' (loop_summary (lr_completed_turns r) r None) (build_event_payload a))) (\<lambda>_.
     rt_bind (create_artifact_best_effort env req (lr_output_text r)) (\<lambda>artifact.
     rt_return (Done \<lparr> eu_invocation_id = ai_id a, eu_status = ES_COMPLETED,
       eu_output_payload = [(''output_text'', JStr (lr_output_text r))],
       eu_prompt_tokens = lr_prompt_tokens r, eu_completion_tokens = lr_completion_tokens r,
       eu_model_concrete = Option.bind (lr_last_response r) gr_model_concrete,
       eu_started_at = ai_started_at a, eu_completed_at = ai_completed_at a, eu_artifact_id = artifact \<rparr>)))))"

text \<open>The start of an invocation raises only when the entity refuses a transition, which a new one does not;
  the branch that turns a raise into a failure is kept as the source has it.\<close>

definition start_invocation :: "runtime_env \<Rightarrow> execution_request \<Rightarrow> unit rt" where
  "start_invocation env req =
     rt_bind (on_inv mark_starting) (\<lambda>_. on_inv_now env (mark_running (user_messages req)))"

definition startup_error :: "runtime_env \<Rightarrow> agent_error \<Rightarrow> execution_outcome rt" where
  "startup_error env e = fail_invocation env False [(''error'', JStr (error_text e))] ES_FAILED ''STARTUP_ERROR''
     (error_text e) False"

definition execute_invocation_body :: "runtime_env \<Rightarrow> execution_request \<Rightarrow> execution_outcome rt" where
  "execute_invocation_body env req =
     rt_bind (rt_try (rt_bind (start_invocation env req) (\<lambda>_. rt_return None))
                (\<lambda>e. rt_bind (startup_error env e) (\<lambda>out. rt_return (Some out)))) (\<lambda>early.
     case early of
       Some out \<Rightarrow> rt_return out
     | None \<Rightarrow>
         rt_bind (save_with_event env ''agent_invocation.started'') (\<lambda>_.
         rt_bind (run_tool_loop env req) (\<lambda>r.
         case lr_early_exit r of
           Some out \<Rightarrow> rt_return out
         | None \<Rightarrow> complete_invocation env req r)))"

text \<open>\<open>ExecuteInvocationHandler.execute\<close>, from the database it starts with.\<close>

definition execute_invocation ::
  "runtime_env \<Rightarrow> execution_request \<Rightarrow> time \<Rightarrow> runtime_db
   \<Rightarrow> (agent_error + execution_outcome) \<times> runtime_db \<times> runtime_call list" where
  "execute_invocation env req now db =
    (case create_invocation req now of
       Inl e \<Rightarrow> (Inl e, db, [])
     | Inr a \<Rightarrow>
         let (r, s) = execute_invocation_body env req \<lparr> rs_inv = a, rs_db = db, rs_calls = [], rs_tick = 0 \<rparr>
         in (r, rs_db s, rs_calls s))"

text \<open>The body of the answer that the endpoint gives, by the keys the orchestrator reads.\<close>

definition outcome_fields :: "execution_outcome \<Rightarrow> dict" where
  "outcome_fields out =
    (case out of
       Failed f \<Rightarrow> [(''agent_invocation_id'', JUuid (ef_invocation_id f)),
          (''status'', JStr (execution_status_value (ef_status f))), (''error_code'', JStr (ef_error_code f)),
          (''error_message'', JStr (ef_error_message f)), (''retryable'', JBool (ef_retryable f))]
     | Done r \<Rightarrow> [(''agent_invocation_id'', JUuid (eu_invocation_id r)),
          (''status'', JStr (execution_status_value (eu_status r))),
          (''output_text'', jget ''output_text'' (JStr []) (eu_output_payload r)),
          (''prompt_tokens'', JInt (eu_prompt_tokens r)), (''completion_tokens'', JInt (eu_completion_tokens r)),
          (''model_concrete'', opt_str (eu_model_concrete r)), (''artifact_id'', opt_uuid (eu_artifact_id r))])"

end
