(* ===== verification/Agent_Resume.thy ===== *)
theory Agent_Resume
  imports Agent_Loop
begin

text \<open>
  Resuming an invocation that waits for a human, under \<open>apps/agent-runtime/src/application\<close>:
  \<open>resume_handler.py\<close>, \<open>resume_approved.py\<close> and \<open>resume_override.py\<close>.

  The context is the one the gate stored; a context of another shape, which nothing writes, counts as
  empty.  The handler reads the invocation through the attribute \<open>invocations\<close> of its unit of work; a unit
  of work without one makes it raise.
\<close>

definition json_items :: "json \<Rightarrow> json list" where
  "json_items j = (case j of JList l \<Rightarrow> l | _ \<Rightarrow> [])"

definition json_fields :: "json \<Rightarrow> dict" where
  "json_fields j = (case j of JObj d \<Rightarrow> d | _ \<Rightarrow> [])"

definition json_int :: "json \<Rightarrow> int" where
  "json_int j = (case j of JInt i \<Rightarrow> i | _ \<Rightarrow> 0)"

definition json_text :: "json \<Rightarrow> string" where
  "json_text j = (case j of JStr s \<Rightarrow> s | _ \<Rightarrow> [])"

definition ctx_calls :: "dict \<Rightarrow> json list" where
  "ctx_calls ctx = json_items (jget ''tool_calls'' (JList []) ctx)"

definition ctx_messages :: "dict \<Rightarrow> json list" where
  "ctx_messages ctx = json_items (jget ''messages'' (JList []) ctx)"

definition ctx_gateway :: "dict \<Rightarrow> dict" where
  "ctx_gateway ctx = json_fields (jget ''gw_response'' (JObj []) ctx)"

definition ctx_tool :: "dict \<Rightarrow> json" where
  "ctx_tool ctx = jget ''gated_tool_name'' (JStr ''unknown'') ctx"

text \<open>The conversation after the gated turn's answer of the model.\<close>

definition ctx_asked :: "dict \<Rightarrow> json list" where
  "ctx_asked ctx = ctx_messages ctx
     @ [assistant_message (json_text (jget ''output_text'' JNull (ctx_gateway ctx))) (ctx_calls ctx)]"

text \<open>The running totals of a resumed loop.\<close>

record resume_acc =
  ra_messages :: "json list"
  ra_tool_calls :: "json list"
  ra_prompt_tokens :: int
  ra_completion_tokens :: int
  ra_last_response :: "gateway_response option"

definition resume_start :: "dict \<Rightarrow> json list \<Rightarrow> resume_acc" where
  "resume_start ctx messages = \<lparr> ra_messages = messages, ra_tool_calls = ctx_calls ctx,
     ra_prompt_tokens = json_int (jget ''prompt_tokens'' (JInt 0) (ctx_gateway ctx)),
     ra_completion_tokens = json_int (jget ''completion_tokens'' (JInt 0) (ctx_gateway ctx)),
     ra_last_response = None \<rparr>"

definition resume_note :: "gateway_response \<Rightarrow> resume_acc \<Rightarrow> resume_acc" where
  "resume_note gw r = r\<lparr> ra_last_response := Some gw,
     ra_prompt_tokens := ra_prompt_tokens r + gr_prompt_tokens gw,
     ra_completion_tokens := ra_completion_tokens r + gr_completion_tokens gw \<rparr>"

definition resume_answer :: "uuid \<Rightarrow> string \<Rightarrow> string \<Rightarrow> dict" where
  "resume_answer i status code =
     [(''invocation_id'', JUuid i), (''status'', JStr status), (''error_code'', JStr code)]"

definition resume_fail :: "runtime_env \<Rightarrow> bool \<Rightarrow> string \<Rightarrow> string \<Rightarrow> dict rt" where
  "resume_fail env timed_out code msg =
     (let detail = Some [(''error_code'', JStr code), (''error_message'', JStr msg)] in
     rt_bind (on_inv_now env (if timed_out then mark_timed_out detail else mark_invocation_failed detail)) (\<lambda>_.
     rt_bind (save_with_event env (if timed_out then ''agent_invocation.timed_out'' else ''agent_invocation.failed'')) (\<lambda>_.
     rt_bind get_inv (\<lambda>a.
     rt_return (resume_answer (ai_id a) (if timed_out then ''timed_out'' else ''failed'') code)))))"

definition resume_complete :: "runtime_env \<Rightarrow> dict \<Rightarrow> resume_acc \<Rightarrow> dict rt" where
  "resume_complete env extra r =
     (let text = (case ra_last_response r of None \<Rightarrow> [] | Some gw \<Rightarrow> gr_output_text gw) in
     rt_bind (on_inv_now env (mark_completed
        (Some [JObj [(''role'', JStr ''assistant''), (''content'', JStr text)]])
        (if ra_tool_calls r = [] then None else Some (ra_tool_calls r))
        (Some (ra_prompt_tokens r)) (Some (ra_completion_tokens r)) None)) (\<lambda>_.
     rt_bind (save_with_event env ''agent_invocation.completed'') (\<lambda>_.
     rt_bind get_inv (\<lambda>a.
     rt_return ([(''invocation_id'', JUuid (ai_id a)), (''status'', JStr ''completed''), (''output_text'', JStr text),
        (''prompt_tokens'', JInt (ra_prompt_tokens r)), (''completion_tokens'', JInt (ra_completion_tokens r))]
        @ extra)))))"

section \<open>After an approval\<close>

text \<open>The calls of the gated turn: the messages and the number that failed.\<close>

fun resume_dispatch ::
  "runtime_env \<Rightarrow> int \<Rightarrow> uuid option \<Rightarrow> json list \<Rightarrow> json list \<times> nat \<Rightarrow> (json list \<times> nat) rt" where
  "resume_dispatch env start sandbox [] acc = rt_return acc"
| "resume_dispatch env start sandbox (tc # tcs) (messages, failures) =
     rt_bind (elapsed_since env start) (\<lambda>elapsed.
     rt_bind
       (if invocation_budget_ms - elapsed \<le> 0
        then rt_return (messages @ [tool_message tc ''Budget exhausted - tool execution skipped''], failures + 1)
        else rt_bind (run_tool_call env sandbox 0 tc) (\<lambda>r.
          rt_return (messages @ [tool_message tc (tool_content r)],
                     failures + (if answer_completed r then 0 else 1))))
       (resume_dispatch env start sandbox tcs))"

text \<open>The calls of a later turn: failures are not counted, and the mark of a truncated answer is left out.\<close>

definition later_content :: "tool_answer \<Rightarrow> string" where
  "later_content r = truncate_tool_result (answer_content r)"

fun continue_dispatch :: "runtime_env \<Rightarrow> int \<Rightarrow> uuid option \<Rightarrow> json list \<Rightarrow> json list \<Rightarrow> json list rt" where
  "continue_dispatch env start sandbox [] messages = rt_return messages"
| "continue_dispatch env start sandbox (tc # tcs) messages =
     rt_bind (elapsed_since env start) (\<lambda>elapsed.
     rt_bind
       (if invocation_budget_ms - elapsed \<le> 0
        then rt_return (messages @ [tool_message tc ''Budget exhausted''])
        else rt_bind (run_tool_call env sandbox 0 tc) (\<lambda>r.
          rt_return (messages @ [tool_message tc (later_content r)])))
       (continue_dispatch env start sandbox tcs))"

text \<open>\<open>n\<close> turns are left.\<close>

fun continue_model_loop :: "runtime_env \<Rightarrow> int \<Rightarrow> uuid option \<Rightarrow> nat \<Rightarrow> resume_acc \<Rightarrow> dict rt" where
  "continue_model_loop env start sandbox 0 r = resume_complete env [] r"
| "continue_model_loop env start sandbox (Suc n) r =
     rt_bind (elapsed_since env start) (\<lambda>elapsed.
     if invocation_budget_ms - elapsed \<le> 0
     then resume_fail env True ''BUDGET_EXHAUSTED'' (''Budget exhausted after resume ('' @ str_int elapsed @ ''ms)'')
     else
       rt_bind (call_gateway env (ra_messages r) None (model_timeout (invocation_budget_ms - elapsed))) (\<lambda>answer.
       case answer of
         Inl x \<Rightarrow> resume_fail env False ''GATEWAY_ERROR'' (gx_message x)
       | Inr gw \<Rightarrow>
           let r = resume_note gw r; calls = opt_or (gr_tool_calls gw) []; valid = validate_tool_calls calls in
           if gr_finish_reason gw \<noteq> ''tool_calls'' \<or> calls = [] \<or> re_execution env = None
           then resume_complete env [] r
           else if valid = []
           then resume_fail env False ''MALFORMED_TOOL_CALLS'' ''Model returned malformed tool_calls after resume''
           else
             rt_bind (on_inv mark_waiting_tool) (\<lambda>_.
             rt_bind (save_with_event env ''agent_invocation.waiting_tool'') (\<lambda>_.
             rt_bind (continue_dispatch env start sandbox valid
                        (ra_messages r @ [assistant_message (gr_output_text gw) valid])) (\<lambda>messages.
             rt_bind (on_inv resume_from_wait) (\<lambda>_.
             continue_model_loop env start sandbox n
               (r\<lparr> ra_messages := messages, ra_tool_calls := ra_tool_calls r @ valid \<rparr>)))))))"

text \<open>\<open>pending_tool_context = None\<close>\<close>

definition consume_context :: "unit rt" where
  "consume_context = on_inv (\<lambda>a. Inr (a\<lparr>ai_pending_tool_context := None\<rparr>))"

definition handle_approved :: "runtime_env \<Rightarrow> dict \<Rightarrow> dict rt" where
  "handle_approved env ctx =
     rt_bind (on_inv resume_from_wait) (\<lambda>_.
     rt_bind consume_context (\<lambda>_.
     rt_bind (save_with_event env ''agent_invocation.resumed'') (\<lambda>_.
     rt_bind (read_mono env) (\<lambda>start.
     rt_bind (on_inv mark_waiting_tool) (\<lambda>_.
     rt_bind (save_with_event env ''agent_invocation.waiting_tool'') (\<lambda>_.
     rt_bind (rt_lift (parse_sandbox_id (jget ''sandbox_id'' JNull ctx))) (\<lambda>sandbox.
     rt_bind (resume_dispatch env start sandbox (ctx_calls ctx) (ctx_asked ctx, 0)) (\<lambda>(messages, failures).
     if failures = length (ctx_calls ctx)
     then resume_fail env False ''ALL_TOOLS_FAILED''
            (''All '' @ str_nat (length (ctx_calls ctx)) @ '' tool(s) failed after approval resume'')
     else rt_bind (on_inv resume_from_wait) (\<lambda>_.
       continue_model_loop env start sandbox (max_tool_turns - 1) (resume_start ctx messages))))))))))"

section \<open>After an override\<close>

fun override_dispatch :: "runtime_env \<Rightarrow> uuid option \<Rightarrow> json list \<Rightarrow> json list \<Rightarrow> json list rt" where
  "override_dispatch env sandbox [] messages = rt_return messages"
| "override_dispatch env sandbox (tc # tcs) messages =
     rt_bind (run_tool_call env sandbox 0 tc) (\<lambda>r.
     override_dispatch env sandbox tcs (messages @ [tool_message tc (later_content r)]))"

definition overridden :: dict where "overridden = [(''resolution'', JStr ''overridden'')]"

fun override_loop :: "runtime_env \<Rightarrow> int \<Rightarrow> uuid option \<Rightarrow> nat \<Rightarrow> resume_acc \<Rightarrow> dict rt" where
  "override_loop env start sandbox 0 r = resume_complete env overridden r"
| "override_loop env start sandbox (Suc n) r =
     rt_bind (elapsed_since env start) (\<lambda>elapsed.
     if invocation_budget_ms - elapsed \<le> 0
     then resume_fail env True ''BUDGET_EXHAUSTED''
            (''Budget exhausted after override resume ('' @ str_int elapsed @ ''ms)'')
     else
       rt_bind (call_gateway env (ra_messages r) None (model_timeout (invocation_budget_ms - elapsed))) (\<lambda>answer.
       case answer of
         Inl x \<Rightarrow> resume_fail env False ''GATEWAY_ERROR'' (gx_message x)
       | Inr gw \<Rightarrow>
           let r = resume_note gw r; calls = opt_or (gr_tool_calls gw) []; valid = validate_tool_calls calls in
           if gr_finish_reason gw \<noteq> ''tool_calls'' \<or> calls = [] \<or> valid = []
           then resume_complete env overridden r
           else
             rt_bind (on_inv mark_waiting_tool) (\<lambda>_.
             rt_bind (save_with_event env ''agent_invocation.waiting_tool'') (\<lambda>_.
             rt_bind (override_dispatch env sandbox valid
                        (ra_messages r @ [assistant_message (gr_output_text gw) valid])) (\<lambda>messages.
             rt_bind (on_inv resume_from_wait) (\<lambda>_.
             override_loop env start sandbox n
               (r\<lparr> ra_messages := messages, ra_tool_calls := ra_tool_calls r @ valid \<rparr>)))))))"

definition handle_override :: "runtime_env \<Rightarrow> dict \<Rightarrow> string \<Rightarrow> dict rt" where
  "handle_override env ctx output =
     rt_bind (on_inv resume_from_wait) (\<lambda>_.
     rt_bind consume_context (\<lambda>_.
     rt_bind (save_with_event env ''agent_invocation.overridden'') (\<lambda>_.
     rt_bind (read_mono env) (\<lambda>start.
     rt_bind (rt_lift (parse_sandbox_id (jget ''sandbox_id'' JNull ctx))) (\<lambda>sandbox.
     override_loop env start sandbox (max_tool_turns - 1)
       (resume_start ctx (ctx_asked ctx
          @ map (\<lambda>tc. tool_message tc (truncate_tool_result output)) (ctx_calls ctx))))))))"

section \<open>The handler\<close>

definition decision_detail :: "runtime_env \<Rightarrow> string \<Rightarrow> dict \<Rightarrow> string option \<Rightarrow> string \<Rightarrow> dict" where
  "decision_detail env code ctx comment text =
     [(''error_code'', JStr code), (''error_message'', JStr text), (''gated_tool'', ctx_tool ctx),
      (''reviewer_comment'', opt_str comment)]"

definition tool_phrase :: "runtime_env \<Rightarrow> dict \<Rightarrow> string \<Rightarrow> string" where
  "tool_phrase env ctx text = ''Tool '' @ [CHR 0x27] @ py_str (re_lib env) (ctx_tool ctx) @ [CHR 0x27] @ text"

definition comment_or :: "string option \<Rightarrow> string \<Rightarrow> string" where
  "comment_or comment d = (if str_truthy comment then the comment else d)"

definition handle_rejected :: "runtime_env \<Rightarrow> dict \<Rightarrow> string option \<Rightarrow> dict rt" where
  "handle_rejected env ctx comment =
     rt_bind (on_inv_now env (mark_invocation_failed (Some (decision_detail env ''TOOL_REJECTED'' ctx comment
        (tool_phrase env ctx ('' rejected by reviewer: ''
           @ comment_or comment (py_str (re_lib env) (jget ''gate_reason'' (JStr ''Tool approval rejected'') ctx)))))))) (\<lambda>_.
     rt_bind consume_context (\<lambda>_.
     rt_bind (save_with_event env ''agent_invocation.failed'') (\<lambda>_.
     rt_bind get_inv (\<lambda>a.
     rt_return (resume_answer (ai_id a) ''failed'' ''TOOL_REJECTED'' @ [(''gated_tool'', ctx_tool ctx)])))))"

definition handle_cancel :: "runtime_env \<Rightarrow> dict \<Rightarrow> string option \<Rightarrow> dict rt" where
  "handle_cancel env ctx comment =
     rt_bind (on_inv_now env mark_cancelled) (\<lambda>_.
     rt_bind consume_context (\<lambda>_.
     rt_bind (on_inv (\<lambda>a. Inr (a\<lparr>ai_error_detail := Some (decision_detail env ''TOOL_CANCELLED'' ctx comment
        (tool_phrase env ctx ('' cancelled by operator: ''
           @ comment_or comment ''Cancelled by operator during tool approval'')))\<rparr>))) (\<lambda>_.
     rt_bind (save_with_event env ''agent_invocation.cancelled'') (\<lambda>_.
     rt_bind get_inv (\<lambda>a.
     rt_return (resume_answer (ai_id a) ''cancelled'' ''TOOL_CANCELLED'' @ [(''gated_tool'', ctx_tool ctx)]))))))"

definition missing_context :: "runtime_env \<Rightarrow> dict rt" where
  "missing_context env =
     rt_bind (on_inv_now env (mark_invocation_failed (Some [(''error_code'', JStr ''MISSING_PENDING_CONTEXT''),
        (''error_message'', JStr ''Cannot resume: pending_tool_context is missing or invalid'')]))) (\<lambda>_.
     rt_bind (save_with_event env ''agent_invocation.failed'') (\<lambda>_.
     rt_bind get_inv (\<lambda>a.
     rt_return [(''error'', JStr ''MISSING_PENDING_CONTEXT''), (''invocation_id'', JUuid (ai_id a)),
                (''status'', JStr ''failed'')])))"

definition resume_decision :: "runtime_env \<Rightarrow> string \<Rightarrow> string option \<Rightarrow> string option \<Rightarrow> dict \<Rightarrow> dict rt" where
  "resume_decision env decision comment override_output ctx =
    (if decision = ''approved'' then handle_approved env ctx
     else if decision = ''rejected'' then handle_rejected env ctx comment
     else if decision = ''override'' then
       (if \<not> str_truthy override_output
        then rt_return [(''error'', JStr ''MISSING_OVERRIDE_OUTPUT''),
                        (''message'', JStr ''override_output is required for override decision'')]
        else handle_override env ctx (the override_output))
     else if decision = ''cancel'' then handle_cancel env ctx comment
     else rt_return [(''error'', JStr ''INVALID_DECISION''), (''message'', JStr (''Unknown decision: '' @ decision))])"

text \<open>The attribute \<open>invocations\<close> of a unit of work, when it has one.  \<open>DbInvocationUnitOfWork\<close>, which the
  service runs with, has none; a unit of work over the repository of the service would read the table.\<close>

type_synonym unit_of_work = "(uuid \<Rightarrow> uuid \<Rightarrow> runtime_db \<Rightarrow> agent_invocation option) option"

definition db_unit_of_work :: unit_of_work where "db_unit_of_work = None"

definition repository_unit_of_work :: unit_of_work where "repository_unit_of_work = Some invocation_get"

definition resume_loaded ::
  "runtime_env \<Rightarrow> uuid \<Rightarrow> string \<Rightarrow> string option \<Rightarrow> string option \<Rightarrow> agent_invocation \<Rightarrow> dict rt" where
  "resume_loaded env i decision comment override_output a =
    (if ai_status a \<noteq> I_WAITING_HUMAN
     then rt_return [(''error'', JStr ''INVALID_STATE''), (''invocation_id'', JUuid i),
            (''current_status'', JStr (invocation_status_value (ai_status a))),
            (''message'', JStr (''Cannot resume: invocation is '' @ invocation_status_value (ai_status a)
                @ '', not waiting_human''))]
     else if map_of (opt_or (ai_pending_tool_context a) []) ''tool_calls'' = None then missing_context env
     else resume_decision env decision comment override_output (opt_or (ai_pending_tool_context a) []))"

text \<open>\<open>ResumeInvocationHandler.resume\<close>.\<close>

definition resume_invocation ::
  "unit_of_work \<Rightarrow> runtime_env \<Rightarrow> uuid \<Rightarrow> uuid \<Rightarrow> string \<Rightarrow> string option \<Rightarrow> string option \<Rightarrow> runtime_db
   \<Rightarrow> (agent_error + dict) \<times> runtime_db \<times> runtime_call list" where
  "resume_invocation uow env i ws decision comment override_output db =
    (case uow of
       None \<Rightarrow> (Inl (RT_Raise ''AttributeError'' ''invocations''), db, [])
     | Some get_by_id \<Rightarrow>
         (case get_by_id i ws db of
            None \<Rightarrow> (Inr [(''error'', JStr ''INVOCATION_NOT_FOUND''), (''invocation_id'', JUuid i)], db, [])
          | Some a \<Rightarrow>
              let (r, s) = resume_loaded env i decision comment override_output a
                             \<lparr> rs_inv = a, rs_db = db, rs_calls = [], rs_tick = 0 \<rparr>
              in (r, rs_db s, rs_calls s)))"

end
