(* ===== verification/Agent_Calls.thy ===== *)
theory Agent_Calls
  imports Agent_Resume Tool_Execution
begin

text \<open>
  The calls an invocation makes: no gated tool runs before a human was asked, and the model is called a
  bounded number of times, each with a bounded deadline.
\<close>

section \<open>Invariants of the recorded calls\<close>

text \<open>A predicate of the recorded calls is kept by a program if it is by each call the program makes.\<close>

definition on_calls :: "(runtime_call list \<Rightarrow> bool) \<Rightarrow> runtime_state \<Rightarrow> bool" where
  "on_calls J s = J (rs_calls s)"

definition appends :: "(runtime_call list \<Rightarrow> bool) \<Rightarrow> runtime_call \<Rightarrow> bool" where
  "appends J c = (\<forall>cs. J cs \<longrightarrow> J (cs @ [c]))"

text \<open>A predicate of single calls.\<close>

abbreviation calls_all :: "(runtime_call \<Rightarrow> bool) \<Rightarrow> runtime_state \<Rightarrow> bool" where
  "calls_all C \<equiv> on_calls (list_all C)"

lemma appends_all: "C c \<Longrightarrow> appends (list_all C) c"
  by (simp add: appends_def)

lemma make_call_keeps: "appends J c \<Longrightarrow> rt_keeps (on_calls J) (make_call env c)"
  by (auto simp: rt_valid_def make_call_def on_calls_def appends_def)

lemma rt_keeps_silent:
  assumes "\<And>s r s'. m s = (r, s') \<Longrightarrow> rs_calls s' = rs_calls s"
  shows "rt_keeps (on_calls J) m"
proof (rule rt_validI)
  show "on_calls J s'" if "on_calls J s" "m s = (Inl e, s')" for s e s'
    using that assms [of s "Inl e" s'] by (simp add: on_calls_def)
  show "on_calls J s'" if "on_calls J s" "m s = (Inr a, s')" for s a s'
    using that assms [of s "Inr a" s'] by (simp add: on_calls_def)
qed

lemma read_keeps [rt_rules]:
  "rt_keeps (on_calls J) (read_mono env)" "rt_keeps (on_calls J) (read_now env)"
  by (rule rt_keeps_silent, auto simp: read_mono_def read_now_def)+

lemma on_inv_keeps [rt_rules]: "rt_keeps (on_calls J) (on_inv f)"
  by (rule rt_keeps_silent) (auto simp: on_inv_def split: sum.splits)

lemma on_inv_now_keeps [rt_rules]: "rt_keeps (on_calls J) (on_inv_now env g)"
  unfolding on_inv_now_def by (intro rt_rules)

lemma elapsed_keeps [rt_rules]: "rt_keeps (on_calls J) (elapsed_since env start)"
  unfolding elapsed_since_def by (intro rt_rules)

lemma save_event_keeps [rt_rules]: "rt_keeps (on_calls J) (save_event env ty p)"
  unfolding save_event_def
  by (intro rt_keeps_bind rt_rules) (rule rt_keeps_silent, auto)

lemma save_with_event_keeps [rt_rules]: "rt_keeps (on_calls J) (save_with_event env ty)"
  unfolding save_with_event_def by (intro rt_rules)

lemma fail_invocation_keeps [rt_rules]:
  "rt_keeps (on_calls J) (fail_invocation env b d st c m r)"
  unfolding fail_invocation_def by (intro rt_rules)

lemmas failure_handlers = handle_budget_exhausted_def handle_malformed_tools_def handle_all_tools_failed_def
  handle_gateway_error_def Let_def startup_error_def

lemma failure_handlers_keep [rt_rules]:
  "rt_keeps (on_calls J) (handle_budget_exhausted env e b t r)"
  "rt_keeps (on_calls J) (handle_malformed_tools env calls)"
  "rt_keeps (on_calls J) (handle_all_tools_failed env k n r)"
  "rt_keeps (on_calls J) (handle_gateway_error env x)"
  "rt_keeps (on_calls J) (startup_error env e')"
  by (auto simp: failure_handlers intro!: rt_rules)

text \<open>From one predicate to a wider one.\<close>

lemma calls_step:
  assumes "rt_keeps (on_calls J) m" "\<And>a. rt_valid (on_calls J) (f a) (\<lambda>_. on_calls K) (\<lambda>_. on_calls K)"
    "\<And>cs. J cs \<Longrightarrow> K cs"
  shows "rt_valid (on_calls J) (rt_bind m f) (\<lambda>_. on_calls K) (\<lambda>_. on_calls K)"
  by (rule rt_valid_bind [OF rt_valid_weaken [OF assms(1)] assms(2)]) (auto simp: on_calls_def assms(3))

lemma calls_widen:
  assumes "rt_keeps (on_calls J) m" "\<And>cs. J cs \<Longrightarrow> K cs"
  shows "rt_valid (on_calls J) m (\<lambda>_. on_calls K) (\<lambda>_. on_calls K)"
  by (rule rt_valid_weaken [OF assms(1)]) (auto simp: on_calls_def assms(2))

lemma calls_after:
  assumes "rt_valid (on_calls J) m (\<lambda>_. on_calls K) (\<lambda>_. on_calls K)" "J (rs_calls s)" "m s = (r, s')"
  shows "K (rs_calls s')"
proof (cases r)
  case (Inl e)
  with rt_validD(2) [OF assms(1)] assms(2,3) show ?thesis by (auto simp: on_calls_def)
next
  case (Inr a)
  with rt_validD(1) [OF assms(1)] assms(2,3) show ?thesis by (auto simp: on_calls_def)
qed

text \<open>Calls are made in four places.\<close>

lemma run_tool_call_keeps:
  assumes "\<And>sid. appends J (Tool_Call_Made sid (call_name tc) (call_input (re_lib env) tc) i)"
  shows "rt_keeps (on_calls J) (run_tool_call env sandbox i tc)"
  unfolding run_tool_call_def Let_def
  by (auto intro!: rt_rules make_call_keeps assms split: option.split)

lemma call_gateway_keeps:
  "appends J (Model_Call messages tools timeout) \<Longrightarrow> rt_keeps (on_calls J) (call_gateway env messages tools timeout)"
  unfolding call_gateway_def by (intro rt_rules make_call_keeps)

lemma enter_gate_keeps:
  assumes "\<And>p. appends J (Approval_Request name p reason)"
  shows "rt_keeps (on_calls J) (enter_gate env req calls messages gw name i reason)"
  unfolding enter_gate_def request_tool_approval_def
  by (auto intro!: rt_rules make_call_keeps assms split: option.split)

lemma create_artifact_keeps:
  assumes "\<And>n. appends J (Artifact_Register n)" "\<And>a k. appends J (Artifact_Begin a k)" "\<And>a h n. appends J (Artifact_Finalize a h n)"
    "\<And>a. appends J (Artifact_Fail a)"
  shows "rt_keeps (on_calls J) (create_artifact_best_effort env req text)"
  unfolding create_artifact_best_effort_def Let_def
  by (auto intro!: rt_rules make_call_keeps assms split: option.split sum.split)

section \<open>The gate\<close>

text \<open>A gate that lets a turn pass in gate mode has seen no gated name.\<close>

lemma check_gate_passes:
  assumes mode: "re_mode env = AM_GATE" and C: "\<And>n p r. C (Approval_Request n p r)"
  shows "rt_valid (calls_all C) (check_gate env req calls messages gw tcs)
     (\<lambda>g s. calls_all C s \<and> (g = None \<longrightarrow> (\<forall>tc \<in> set tcs. \<not> tool_is_gated (call_name tc)))) (\<lambda>_. calls_all C)"
proof (induction tcs)
  case Nil
  show ?case by (auto simp: rt_return_def rt_valid_def)
next
  case (Cons tc tcs)
  let ?e = "evaluate_tool_approval (re_lib env) (re_mode env) (call_name tc) (call_input (re_lib env) tc)"
  show ?case
  proof (cases ?e)
    case (Inl e)
    then show ?thesis by (simp add: rt_lift_def rt_bind_def rt_raise_def rt_valid_def)
  next
    case (Inr r)
    have dec: "pr_decision r = (if tool_is_gated (call_name tc) then PD_GATE else PD_ALLOW)"
      using Inr unfolding mode by (rule gate_mode_gates)
    have step: "check_gate env req calls messages gw (tc # tcs) =
        (if pr_decision r = PD_GATE
         then rt_bind (enter_gate env req calls messages gw (call_name tc) (call_input (re_lib env) tc) (pr_reason r))
                (\<lambda>out. rt_return (Some out))
         else check_gate env req calls messages gw tcs)"
      by (simp add: Inr rt_lift_def rt_bind_def rt_return_def fun_eq_iff)
    show ?thesis
    proof (cases "tool_is_gated (call_name tc)")
      case True
      have k: "rt_keeps (calls_all C) (enter_gate env req calls messages gw (call_name tc) (call_input (re_lib env) tc) (pr_reason r))"
        by (intro enter_gate_keeps appends_all C)
      have eq: "check_gate env req calls messages gw (tc # tcs) =
          rt_bind (enter_gate env req calls messages gw (call_name tc) (call_input (re_lib env) tc) (pr_reason r))
            (\<lambda>out. rt_return (Some out))"
        unfolding step using True dec by simp
      show ?thesis
        unfolding eq by (rule rt_valid_bind [OF k]) (simp add: rt_valid_def rt_return_def)
    next
      case False
      then show ?thesis
        unfolding step using dec by (auto intro: rt_valid_weaken [OF Cons.IH])
    qed
  qed
qed

definition ungated :: "runtime_call \<Rightarrow> bool" where
  "ungated c = (case c of Tool_Call_Made _ name _ _ \<Rightarrow> \<not> tool_is_gated name | _ \<Rightarrow> True)"

lemma dispatch_one_keeps:
  assumes "\<And>sid. appends J (Tool_Call_Made sid (call_name tc) (call_input (re_lib env) tc) turn)"
  shows "rt_keeps (on_calls J) (dispatch_one env start budget sandbox turn tc acc)"
  unfolding dispatch_one_def by (intro rt_rules run_tool_call_keeps assms)

lemma dispatch_calls_keeps:
  assumes "\<And>sid tc. tc \<in> set tcs \<Longrightarrow> appends J (Tool_Call_Made sid (call_name tc) (call_input (re_lib env) tc) turn)"
  shows "rt_keeps (on_calls J) (dispatch_calls env start budget sandbox turn tcs acc)"
  using assms
proof (induction tcs arbitrary: acc)
  case (Cons tc tcs)
  show ?case
    by (auto intro!: rt_keeps_bind dispatch_one_keeps Cons)
qed (auto intro: rt_rules)

lemma dispatch_tools_keeps:
  assumes "\<And>sid tc. tc \<in> set calls \<Longrightarrow> appends J (Tool_Call_Made sid (call_name tc) (call_input (re_lib env) tc) turn)"
  shows "rt_keeps (on_calls J) (dispatch_tools env req start budget turn calls messages)"
  unfolding dispatch_tools_def by (intro rt_rules dispatch_calls_keeps assms)

lemma tool_phase_ungated:
  assumes "re_mode env = AM_GATE"
  shows "rt_keeps (calls_all ungated) (tool_phase env req start budget turn ts ms calls messages gw r)"
  unfolding tool_phase_def check_tool_approval_gate_def Let_def
proof (rule rt_valid_bind [OF check_gate_passes [OF assms]], goal_cases)
  case (2 g)
  show ?case
  proof (cases g)
    case None
    show ?thesis
    proof (cases "\<forall>tc \<in> set calls. \<not> tool_is_gated (call_name tc)")
      case True
      then have disp: "rt_keeps (calls_all ungated) (dispatch_tools env req start budget turn calls m)" for m
        by (intro dispatch_tools_keeps appends_all) (simp add: ungated_def)
      show ?thesis
        unfolding None option.case
        by (rule rt_valid_weaken [where P = "calls_all ungated" and Q = "\<lambda>_. calls_all ungated"
              and E = "\<lambda>_. calls_all ungated"], (intro rt_rules disp), auto)
    qed (use None in \<open>auto simp: rt_valid_def\<close>)
  qed (auto simp: rt_valid_def rt_return_def)
qed (simp add: ungated_def)

lemma tool_turn_ungated:
  assumes "re_mode env = AM_GATE"
  shows "rt_keeps (calls_all ungated) (tool_turn env req start budget tools turn messages r)"
  unfolding tool_turn_def Let_def
  by (intro rt_rules call_gateway_keeps appends_all)
     (auto simp: ungated_def intro!: rt_rules tool_phase_ungated assms split: sum.split)

lemma tool_loop_ungated:
  assumes "re_mode env = AM_GATE"
  shows "rt_keeps (calls_all ungated) (tool_loop env req start budget tools n turn messages r)"
proof (induction n arbitrary: turn messages r)
  case (Suc n)
  show ?case
    unfolding tool_loop.simps
  proof (rule rt_keeps_bind [OF tool_turn_ungated [OF assms]])
    show "rt_keeps (calls_all ungated) (case e of Turn_Break r' \<Rightarrow> rt_return (finish_loop r')
        | Turn_Exit out r' \<Rightarrow> rt_return (r'\<lparr>lr_early_exit := Some out\<rparr>)
        | Turn_Next messages' r' \<Rightarrow> tool_loop env req start budget tools n (Suc turn) messages' r')" for e
      by (cases e) (simp_all add: rt_rules Suc)
  qed
qed (simp add: rt_rules)

lemma rt_keeps_try [rt_rules]:
  assumes "rt_keeps I m" "\<And>e. rt_keeps I (h e)"
  shows "rt_keeps I (rt_try m h)"
proof (rule rt_validI)
  fix s x s' assume "I s" and t: "rt_try m h s = (Inl x, s')"
  obtain r t where m: "m s = (r, t)" by fastforce
  with t obtain e where e: "r = Inl e" "h e t = (Inl x, s')" by (cases r) (auto simp: rt_try_def)
  with m have "I t" using rt_validD(2) [OF assms(1) \<open>I s\<close>] by simp
  with e show "I s'" using rt_validD(2) [OF assms(2)] by blast
next
  fix s x s' assume "I s" and t: "rt_try m h s = (Inr x, s')"
  obtain r t where m: "m s = (r, t)" by fastforce
  show "I s'"
  proof (cases r)
    case (Inl e)
    with m have "I t" using rt_validD(2) [OF assms(1) \<open>I s\<close>] by simp
    with Inl t m show ?thesis using rt_validD(1) [OF assms(2)] by (simp add: rt_try_def)
  next
    case (Inr a)
    with t m show ?thesis using rt_validD(1) [OF assms(1) \<open>I s\<close>] by (simp add: rt_try_def)
  qed
qed

lemma execute_body_keeps:
  assumes loop: "rt_valid (on_calls J) (run_tool_loop env req) (\<lambda>_. on_calls K) (\<lambda>_. on_calls K)"
    and "\<And>cs. J cs \<Longrightarrow> K cs"
    and "\<And>n. appends K (Artifact_Register n)" "\<And>a k. appends K (Artifact_Begin a k)"
      "\<And>a h n. appends K (Artifact_Finalize a h n)" "\<And>a. appends K (Artifact_Fail a)"
  shows "rt_valid (on_calls J) (execute_invocation_body env req) (\<lambda>_. on_calls K) (\<lambda>_. on_calls K)"
proof -
  have fin: "rt_keeps (on_calls K) (complete_invocation env req r)" for r
    unfolding complete_invocation_def by (intro rt_rules create_artifact_keeps assms)
  have start: "rt_keeps (on_calls J) (rt_try (rt_bind (start_invocation env req) (\<lambda>_. rt_return None))
      (\<lambda>e. rt_bind (startup_error env e) (\<lambda>out. rt_return (Some out))))"
    unfolding start_invocation_def by (intro rt_rules)
  have rest: "rt_valid (on_calls J) (rt_bind (run_tool_loop env req) (\<lambda>r. case lr_early_exit r of
      Some out \<Rightarrow> rt_return out | None \<Rightarrow> complete_invocation env req r)) (\<lambda>_. on_calls K) (\<lambda>_. on_calls K)"
    by (rule rt_valid_bind [OF loop]) (auto intro: rt_rules fin split: option.split)
  have saved: "rt_valid (on_calls J) (rt_bind (save_with_event env ''agent_invocation.started'') (\<lambda>_.
      rt_bind (run_tool_loop env req) (\<lambda>r. case lr_early_exit r of
        Some out \<Rightarrow> rt_return out | None \<Rightarrow> complete_invocation env req r))) (\<lambda>_. on_calls K) (\<lambda>_. on_calls K)"
    by (rule calls_step [OF save_with_event_keeps rest assms(2)])
  show ?thesis
    unfolding execute_invocation_body_def
  proof (rule calls_step [OF start _ assms(2)])
    show "rt_valid (on_calls J) (case early of Some out \<Rightarrow> rt_return out
        | None \<Rightarrow> rt_bind (save_with_event env ''agent_invocation.started'') (\<lambda>_.
            rt_bind (run_tool_loop env req) (\<lambda>r. case lr_early_exit r of
              Some out \<Rightarrow> rt_return out | None \<Rightarrow> complete_invocation env req r)))
        (\<lambda>_. on_calls K) (\<lambda>_. on_calls K)" for early
      using saved calls_widen [OF rt_valid_return assms(2)] by (cases early) auto
  qed
qed

lemma execute_invocation_calls:
  assumes "rt_valid (on_calls J) (execute_invocation_body env req) (\<lambda>_. on_calls K) (\<lambda>_. on_calls K)"
    and "J []" "K []"
  shows "K (snd (snd (execute_invocation env req now db)))"
proof (cases "create_invocation req now")
  case (Inr a)
  let ?s = "\<lparr> rs_inv = a, rs_db = db, rs_calls = [], rs_tick = 0 \<rparr>"
  obtain x t where x: "execute_invocation_body env req ?s = (x, t)" by fastforce
  then have "K (rs_calls t)" using calls_after [OF assms(1), of ?s x t] assms(2) by simp
  then show ?thesis using Inr x by (simp add: execute_invocation_def)
qed (use assms in \<open>simp add: execute_invocation_def\<close>)

section \<open>No tool without a human\<close>

text \<open>C9. In gate mode, which is the mode an unset or misspelt setting gives, an invocation never has the
  execution service run a tool: every tool of the service's registry is gated, and a call of a gated
  tool stops the invocation before any call of its turn is made.\<close>

theorem no_tool_without_human:
  assumes "re_mode env = AM_GATE" and "execute_invocation env req now db = (r, db', calls)"
    and "Tool_Call_Made sandbox name tool_input index \<in> set calls"
  shows "\<not> (\<exists>tool \<in> set tool_registry. name = JStr (tl_name tool))"
proof -
  have "rt_keeps (calls_all ungated) (run_tool_loop env req)"
    unfolding run_tool_loop_def by (intro rt_rules tool_loop_ungated assms(1))
  then have "rt_keeps (calls_all ungated) (execute_invocation_body env req)"
    by (rule execute_body_keeps) (auto simp: ungated_def intro: appends_all)
  from execute_invocation_calls [OF this, of now db] assms(2) have "list_all ungated calls" by simp
  with assms(3) have "\<not> tool_is_gated name" by (auto simp: list_all_iff ungated_def)
  then show ?thesis by (auto simp: tool_registry_def tool_is_gated_def gated_tools_def)
qed

section \<open>How many calls of the model\<close>

definition model_call_ok :: "runtime_call \<Rightarrow> bool" where
  "model_call_ok c = (case c of Model_Call _ _ t \<Rightarrow> 0 < t \<and> t \<le> 60000 | _ \<Rightarrow> True)"

definition model_calls :: "nat \<Rightarrow> runtime_call list \<Rightarrow> bool" where
  "model_calls k cs = (length (filter is_Model_Call cs) \<le> k \<and> list_all model_call_ok cs)"

lemma model_calls_other: "\<not> is_Model_Call c \<Longrightarrow> appends (model_calls k) c"
  by (cases c) (auto simp: appends_def model_calls_def model_call_ok_def)

lemma model_calls_mono: "model_calls k cs \<Longrightarrow> k \<le> l \<Longrightarrow> model_calls l cs"
  by (auto simp: model_calls_def)

lemma model_calls_gateway:
  assumes "0 < timeout" "timeout \<le> 60000"
  shows "rt_valid (on_calls (model_calls k)) (call_gateway env messages tools timeout)
     (\<lambda>_. on_calls (model_calls (Suc k))) (\<lambda>_. on_calls (model_calls (Suc k)))"
  unfolding call_gateway_def
  by (rule rt_valid_bind [where R = "\<lambda>_. on_calls (model_calls (Suc k))"])
     (use assms in \<open>auto simp: rt_valid_def make_call_def on_calls_def model_calls_def model_call_ok_def rt_return_def\<close>)

lemma model_timeout_ok: "0 < r \<Longrightarrow> 0 < model_timeout r \<and> model_timeout r \<le> 60000"
  by (simp add: model_timeout_def)

lemma check_gate_keeps:
  assumes "\<And>n p r. appends J (Approval_Request n p r)"
  shows "rt_keeps (on_calls J) (check_gate env req calls messages gw tcs)"
proof (induction tcs)
  case (Cons tc tcs)
  then show ?case
    unfolding check_gate.simps by (intro rt_rules enter_gate_keeps assms)
qed (simp add: rt_rules)

lemma tool_phase_keeps:
  assumes "\<And>n p r. appends J (Approval_Request n p r)" "\<And>sid n i k. appends J (Tool_Call_Made sid n i k)"
  shows "rt_keeps (on_calls J) (tool_phase env req start budget turn ts ms calls messages gw r)"
proof -
  have disp: "rt_keeps (on_calls J) (dispatch_tools env req start budget turn calls m)" for m
    by (intro dispatch_tools_keeps assms(2))
  have rest: "rt_keeps (on_calls J) (rt_bind (on_inv mark_waiting_tool) m)" if "rt_keeps (on_calls J) (m ())" for m
    using that by (intro rt_rules) simp
  show ?thesis
    unfolding tool_phase_def check_tool_approval_gate_def Let_def
    by (rule rt_keeps_bind [OF check_gate_keeps [OF assms(1)]])
       (auto intro!: rt_rules disp split: option.split)
qed

lemma tool_turn_models:
  "rt_valid (on_calls (model_calls k)) (tool_turn env req start budget tools turn messages r)
     (\<lambda>_. on_calls (model_calls (Suc k))) (\<lambda>_. on_calls (model_calls (Suc k)))"
proof -
  have m: "model_calls k cs \<Longrightarrow> model_calls (Suc k) cs" for cs by (simp add: model_calls_def)
  have phase: "rt_keeps (on_calls (model_calls (Suc k))) (tool_phase env req start budget turn ts ms calls messages gw r)"
    for ts ms calls gw r
    by (rule tool_phase_keeps) (simp_all add: model_calls_other)
  have after: "rt_keeps (on_calls (model_calls (Suc k)))
      (case answer of Inl x \<Rightarrow> rt_bind (handle_gateway_error env x) (\<lambda>out. rt_return (Turn_Exit out r))
       | Inr gw \<Rightarrow>
           rt_bind (elapsed_since env t0) (\<lambda>ms.
           let r = note_response gw ms r; calls = opt_or (gr_tool_calls gw) [] in
           if gr_finish_reason gw \<noteq> ''tool_calls'' \<or> calls = [] \<or> re_execution env = None
           then rt_return (Turn_Break r)
           else if validate_tool_calls calls = []
           then rt_bind (handle_malformed_tools env calls) (\<lambda>out. rt_return (Turn_Exit out r))
           else tool_phase env req start budget turn ts ms (validate_tool_calls calls) messages gw
                  (r\<lparr>lr_all_tool_calls := lr_all_tool_calls r @ validate_tool_calls calls\<rparr>)))" for answer ts t0
    unfolding Let_def by (auto intro!: rt_rules phase split: sum.split)
  have gateway: "rt_valid (on_calls (model_calls k)) (rt_bind (read_mono env) (\<lambda>t0.
       rt_bind (call_gateway env messages tools (model_timeout (budget - elapsed))) (g t0)))
       (\<lambda>_. on_calls (model_calls (Suc k))) (\<lambda>_. on_calls (model_calls (Suc k)))"
    if "\<not> budget - elapsed \<le> 0" and "\<And>t0 a. rt_keeps (on_calls (model_calls (Suc k))) (g t0 a)"
    for elapsed and g :: "int \<Rightarrow> gateway_exception + gateway_response \<Rightarrow> turn_end rt"
    using that model_timeout_ok [of "budget - elapsed"]
    by (intro calls_step read_keeps m rt_valid_bind [OF model_calls_gateway]) simp_all
  show ?thesis
    unfolding tool_turn_def
  proof (rule calls_step [OF read_keeps(1) _ m], rule calls_step [OF elapsed_keeps _ m], goal_cases)
    case (1 ts elapsed)
    show ?case
    proof (cases "budget - elapsed \<le> 0")
      case True
      have "rt_keeps (on_calls (model_calls k)) (rt_bind (handle_budget_exhausted env elapsed budget (int turn) r)
          (\<lambda>out. rt_return (Turn_Exit out r)))"
        by (intro rt_rules)
      from calls_widen [OF this m] show ?thesis by (simp only: True if_True)
    next
      case False
      show ?thesis unfolding if_not_P [OF False] by (rule gateway [OF False after])
    qed
  qed
qed

lemma tool_loop_models:
  "rt_valid (on_calls (model_calls k)) (tool_loop env req start budget tools n turn messages r)
     (\<lambda>_. on_calls (model_calls (k + n))) (\<lambda>_. on_calls (model_calls (k + n)))"
proof (induction n arbitrary: k turn messages r)
  case (Suc n)
  have m: "model_calls (Suc k) cs \<Longrightarrow> model_calls (k + Suc n) cs" for cs by (simp add: model_calls_def)
  have t: "rt_valid (on_calls (model_calls k)) (tool_turn env req start budget tools turn messages r)
      (\<lambda>_. on_calls (model_calls (Suc k))) (\<lambda>_. on_calls (model_calls (k + Suc n)))"
    by (rule rt_valid_weaken [OF tool_turn_models [of k]]) (auto simp: on_calls_def model_calls_def)
  show ?case
    unfolding tool_loop.simps
  proof (rule rt_valid_bind [OF t], goal_cases)
    case (1 e)
    show ?case
    proof (cases e)
      case (Turn_Next messages' r')
      then show ?thesis using Suc.IH [of "Suc k"] by simp
    qed (use calls_widen [OF rt_valid_return m] in simp_all)
  qed
qed (use calls_widen [OF rt_valid_return] in simp)

lemma resume_helpers_keep [rt_rules]:
  "rt_keeps (on_calls J) (resume_fail env b code msg)" "rt_keeps (on_calls J) (resume_complete env extra ra)"
  "rt_keeps (on_calls J) consume_context" "rt_keeps (on_calls J) (missing_context env)"
  "rt_keeps (on_calls J) (handle_rejected env ctx comment)" "rt_keeps (on_calls J) (handle_cancel env ctx comment)"
  unfolding resume_fail_def resume_complete_def consume_context_def missing_context_def handle_rejected_def
    handle_cancel_def Let_def
  by (intro rt_rules)+

lemma resume_dispatch_keeps:
  assumes "\<And>sid tc. tc \<in> set tcs \<Longrightarrow> appends J (Tool_Call_Made sid (call_name tc) (call_input (re_lib env) tc) 0)"
  shows "rt_keeps (on_calls J) (resume_dispatch env start sandbox tcs acc)"
  using assms
proof (induction tcs arbitrary: acc)
  case Nil
  show ?case by (cases acc) (simp add: rt_rules)
next
  case (Cons tc tcs)
  obtain ms f where acc: "acc = (ms, f)" by (cases acc)
  have "rt_keeps (on_calls J) (run_tool_call env sandbox 0 tc)" by (intro run_tool_call_keeps Cons.prems) simp
  then show ?case unfolding acc resume_dispatch.simps by (intro rt_rules Cons.IH Cons.prems) simp_all
qed

lemma continue_dispatch_keeps:
  assumes "\<And>sid tc. tc \<in> set tcs \<Longrightarrow> appends J (Tool_Call_Made sid (call_name tc) (call_input (re_lib env) tc) 0)"
  shows "rt_keeps (on_calls J) (continue_dispatch env start sandbox tcs messages)"
  using assms
proof (induction tcs arbitrary: messages)
  case (Cons tc tcs)
  have "rt_keeps (on_calls J) (run_tool_call env sandbox 0 tc)" by (intro run_tool_call_keeps Cons.prems) simp
  then show ?case unfolding continue_dispatch.simps by (intro rt_rules Cons.IH Cons.prems) simp_all
qed (simp add: rt_rules)

lemma override_dispatch_keeps:
  assumes "\<And>sid tc. tc \<in> set tcs \<Longrightarrow> appends J (Tool_Call_Made sid (call_name tc) (call_input (re_lib env) tc) 0)"
  shows "rt_keeps (on_calls J) (override_dispatch env sandbox tcs messages)"
  using assms
proof (induction tcs arbitrary: messages)
  case (Cons tc tcs)
  have "rt_keeps (on_calls J) (run_tool_call env sandbox 0 tc)" by (intro run_tool_call_keeps Cons.prems) simp
  then show ?case unfolding override_dispatch.simps by (intro rt_rules Cons.IH Cons.prems) simp_all
qed (simp add: rt_rules)

text \<open>One turn of either resumed loop: the shape is the same, a deadline check, a call of the model and what
  follows the answer.\<close>

lemma resumed_turn_models:
  assumes "\<And>e. rt_keeps (on_calls (model_calls k)) (stop e)"
    and "\<And>answer. rt_valid (on_calls (model_calls (Suc k))) (go answer) (\<lambda>_. on_calls (model_calls l)) (\<lambda>_. on_calls (model_calls l))"
    and "Suc k \<le> l"
  shows "rt_valid (on_calls (model_calls k)) (rt_bind (elapsed_since env start) (\<lambda>elapsed.
      if invocation_budget_ms - elapsed \<le> 0 then stop elapsed
      else rt_bind (call_gateway env messages None (model_timeout (invocation_budget_ms - elapsed))) go))
    (\<lambda>_. on_calls (model_calls l)) (\<lambda>_. on_calls (model_calls l))"
proof -
  have m: "model_calls k cs \<Longrightarrow> model_calls l cs" "model_calls (Suc k) cs \<Longrightarrow> model_calls l cs" for cs
    using assms(3) by (auto simp: model_calls_def)
  show ?thesis
  proof (rule calls_step [OF elapsed_keeps _ m(1)], goal_cases)
    case (1 elapsed)
    show ?case
    proof (cases "invocation_budget_ms - elapsed \<le> 0")
      case True
      from calls_widen [OF assms(1) m(1)] show ?thesis by (simp only: True if_True)
    next
      case False
      then have t: "0 < model_timeout (invocation_budget_ms - elapsed)" "model_timeout (invocation_budget_ms - elapsed) \<le> 60000"
        using model_timeout_ok by simp_all
      show ?thesis
        unfolding if_not_P [OF False]
        by (rule rt_valid_bind [OF rt_valid_weaken [OF model_calls_gateway [OF t]] assms(2)])
           (auto simp: on_calls_def m(2))
    qed
  qed
qed

lemma tool_calls_appended: "appends (model_calls k) (Tool_Call_Made sid n i j)"
  by (simp add: model_calls_other)

lemma continue_loop_models:
  "rt_valid (on_calls (model_calls k)) (continue_model_loop env start sandbox n r)
     (\<lambda>_. on_calls (model_calls (k + n))) (\<lambda>_. on_calls (model_calls (k + n)))"
proof (induction n arbitrary: k r)
  case (Suc n)
  have m: "model_calls (Suc k) cs \<Longrightarrow> model_calls (k + Suc n) cs" for cs by (simp add: model_calls_def)
  show ?case
    unfolding continue_model_loop.simps
  proof (rule resumed_turn_models, goal_cases)
    case (2 answer)
    have next_turn: "rt_valid (on_calls (model_calls (Suc k))) (rt_bind (on_inv mark_waiting_tool) (\<lambda>_.
        rt_bind (save_with_event env ''agent_invocation.waiting_tool'') (\<lambda>_.
        rt_bind (continue_dispatch env start sandbox valid ms) (\<lambda>messages.
        rt_bind (on_inv resume_from_wait) (\<lambda>_. continue_model_loop env start sandbox n (f messages))))))
      (\<lambda>_. on_calls (model_calls (k + Suc n))) (\<lambda>_. on_calls (model_calls (k + Suc n)))" for valid ms f
      using Suc.IH [of "Suc k"]
      by (intro calls_step on_inv_keeps save_with_event_keeps continue_dispatch_keeps tool_calls_appended m) simp
    show ?case
      using calls_widen [OF resume_helpers_keep(1) m] calls_widen [OF resume_helpers_keep(2) m] next_turn
      by (cases answer) (simp_all add: Let_def)
  qed (simp_all add: rt_rules)
qed (use calls_widen [OF resume_helpers_keep(2)] in simp)

lemma override_loop_models:
  "rt_valid (on_calls (model_calls k)) (override_loop env start sandbox n r)
     (\<lambda>_. on_calls (model_calls (k + n))) (\<lambda>_. on_calls (model_calls (k + n)))"
proof (induction n arbitrary: k r)
  case (Suc n)
  have m: "model_calls (Suc k) cs \<Longrightarrow> model_calls (k + Suc n) cs" for cs by (simp add: model_calls_def)
  show ?case
    unfolding override_loop.simps
  proof (rule resumed_turn_models, goal_cases)
    case (2 answer)
    have next_turn: "rt_valid (on_calls (model_calls (Suc k))) (rt_bind (on_inv mark_waiting_tool) (\<lambda>_.
        rt_bind (save_with_event env ''agent_invocation.waiting_tool'') (\<lambda>_.
        rt_bind (override_dispatch env sandbox valid ms) (\<lambda>messages.
        rt_bind (on_inv resume_from_wait) (\<lambda>_. override_loop env start sandbox n (f messages))))))
      (\<lambda>_. on_calls (model_calls (k + Suc n))) (\<lambda>_. on_calls (model_calls (k + Suc n)))" for valid ms f
      using Suc.IH [of "Suc k"]
      by (intro calls_step on_inv_keeps save_with_event_keeps override_dispatch_keeps tool_calls_appended m) simp
    show ?case
      using calls_widen [OF resume_helpers_keep(1) m] calls_widen [OF resume_helpers_keep(2) m] next_turn
      by (cases answer) (simp_all add: Let_def)
  qed (simp_all add: rt_rules)
qed (use calls_widen [OF resume_helpers_keep(2)] in simp)

lemma resume_decision_models:
  "rt_valid (on_calls (model_calls 0)) (resume_decision env decision comment override_output ctx)
     (\<lambda>_. on_calls (model_calls (max_tool_turns - 1))) (\<lambda>_. on_calls (model_calls (max_tool_turns - 1)))"
proof -
  have m: "model_calls 0 cs \<Longrightarrow> model_calls (max_tool_turns - 1) cs" for cs by (simp add: model_calls_def)
  note loops = continue_loop_models [where k = 0 and n = "max_tool_turns - 1"]
    override_loop_models [where k = 0 and n = "max_tool_turns - 1"]
  note keeps = on_inv_keeps save_with_event_keeps read_keeps rt_keeps_lift
    resume_dispatch_keeps [OF tool_calls_appended] resume_helpers_keep(3)
  have tail: "rt_valid (on_calls (model_calls 0)) (if b then resume_fail env False code msg
      else rt_bind (on_inv resume_from_wait) (\<lambda>_. continue_model_loop env start sandbox (max_tool_turns - 1) r))
      (\<lambda>_. on_calls (model_calls (max_tool_turns - 1))) (\<lambda>_. on_calls (model_calls (max_tool_turns - 1)))"
    for b code msg start sandbox r
    using calls_widen [OF resume_helpers_keep(1) m] calls_step [OF on_inv_keeps loops(1) [unfolded add_0] m]
    by (cases b) simp_all
  have "rt_valid (on_calls (model_calls 0)) (handle_approved env ctx)
      (\<lambda>_. on_calls (model_calls (max_tool_turns - 1))) (\<lambda>_. on_calls (model_calls (max_tool_turns - 1)))"
    unfolding handle_approved_def by (intro calls_step keeps m) (simp add: split_beta tail del: One_nat_def)
  moreover have "rt_valid (on_calls (model_calls 0)) (handle_override env ctx out)
      (\<lambda>_. on_calls (model_calls (max_tool_turns - 1))) (\<lambda>_. on_calls (model_calls (max_tool_turns - 1)))" for out
    unfolding handle_override_def by (intro calls_step keeps m) (use loops in simp)
  moreover have "rt_valid (on_calls (model_calls 0)) m'
      (\<lambda>_. on_calls (model_calls (max_tool_turns - 1))) (\<lambda>_. on_calls (model_calls (max_tool_turns - 1)))"
    if "rt_keeps (on_calls (model_calls 0)) m'" for m' :: "dict rt"
    using that m by (rule calls_widen)
  ultimately show ?thesis
    by (simp add: resume_decision_def rt_valid_return resume_helpers_keep del: One_nat_def)
qed

text \<open>What a resumption does, from what it does with the loaded invocation.\<close>

lemma resume_invocation_calls:
  assumes "\<And>a. rt_valid (on_calls P) (resume_loaded env i decision comment out a) (\<lambda>_. on_calls Q) (\<lambda>_. on_calls Q)"
    and "P []" "Q []"
  shows "Q (snd (snd (resume_invocation uow env i ws decision comment out db)))"
proof (cases "\<exists>get_by_id a. uow = Some get_by_id \<and> get_by_id i ws db = Some a")
  case True
  then obtain get_by_id a where a: "uow = Some get_by_id" "get_by_id i ws db = Some a" by blast
  obtain r s' where run: "resume_loaded env i decision comment out a
      \<lparr> rs_inv = a, rs_db = db, rs_calls = [], rs_tick = 0 \<rparr> = (r, s')" by fastforce
  show ?thesis
    using calls_after [OF assms(1) _ run] a run assms(2) by (simp add: resume_invocation_def)
qed (auto simp: resume_invocation_def assms(3) split: option.split)

lemma resume_loaded_models:
  "rt_valid (on_calls (model_calls 0)) (resume_loaded env i decision comment out a)
     (\<lambda>_. on_calls (model_calls (max_tool_turns - 1))) (\<lambda>_. on_calls (model_calls (max_tool_turns - 1)))"
proof -
  have m: "model_calls 0 cs \<Longrightarrow> model_calls (max_tool_turns - 1) cs" for cs by (simp add: model_calls_def)
  have w: "rt_valid (on_calls (model_calls 0)) p (\<lambda>_. on_calls (model_calls (max_tool_turns - 1)))
      (\<lambda>_. on_calls (model_calls (max_tool_turns - 1)))" if "rt_keeps (on_calls (model_calls 0)) p" for p :: "dict rt"
    using that m by (rule calls_widen)
  show ?thesis
    unfolding resume_loaded_def
    using w [OF resume_helpers_keep(4)] w [OF rt_valid_return] resume_decision_models by (simp del: One_nat_def)
qed

text \<open>C32. An invocation ends: it calls the model at most five times, each time with a deadline between one
  millisecond and a minute; and a resumed one calls it at most four times more.\<close>

theorem model_calls_bounded:
  "model_calls max_tool_turns (snd (snd (execute_invocation env req now db)))
   \<and> model_calls (max_tool_turns - 1) (snd (snd (resume_invocation uow env' i ws decision comment out db')))"
proof
  have "rt_valid (on_calls (model_calls 0)) (run_tool_loop env req)
      (\<lambda>_. on_calls (model_calls max_tool_turns)) (\<lambda>_. on_calls (model_calls max_tool_turns))"
    unfolding run_tool_loop_def
    using tool_loop_models [where k = 0 and n = max_tool_turns]
    by (intro calls_step read_keeps rt_keeps_get) (auto simp: model_calls_def)
  then have "rt_valid (on_calls (model_calls 0)) (execute_invocation_body env req)
      (\<lambda>_. on_calls (model_calls max_tool_turns)) (\<lambda>_. on_calls (model_calls max_tool_turns))"
    by (rule execute_body_keeps) (auto simp: model_calls_other, simp add: model_calls_def)
  then show "model_calls max_tool_turns (snd (snd (execute_invocation env req now db)))"
    by (rule execute_invocation_calls) (simp_all add: model_calls_def)
next
  show "model_calls (max_tool_turns - 1) (snd (snd (resume_invocation uow env' i ws decision comment out db')))"
    by (rule resume_invocation_calls [OF resume_loaded_models]) (simp_all add: model_calls_def)
qed

section \<open>A run\<close>

text \<open>A model that first asks for one tool and then answers, in an environment whose services answer at once.\<close>

definition agent_tool_request :: "string \<Rightarrow> json" where
  "agent_tool_request name = JObj [(''id'', JStr ''c1''),
     (''function'', JObj [(''name'', JStr name), (''arguments'', JStr ''{code}'')])]"

definition agent_demo_lib :: json_lib where
  "agent_demo_lib = \<lparr> jl_loads = (\<lambda>_. Some (JObj [(''code'', JStr ''ls'')])),
     jl_dumps = (\<lambda>_. ''{..}''), jl_repr = (\<lambda>_. ''?'') \<rparr>"

definition agent_demo_model :: "string \<Rightarrow> json list \<Rightarrow> gateway_exception + gateway_response" where
  "agent_demo_model tool messages = Inr
     (if length messages \<le> 2
      then \<lparr> gr_output_text = [], gr_finish_reason = ''tool_calls'', gr_prompt_tokens = 3, gr_completion_tokens = 1,
             gr_tool_calls = Some [agent_tool_request tool],
             gr_model_concrete = Some ''m'', gr_provider_name = None \<rparr>
      else \<lparr> gr_output_text = ''ok'', gr_finish_reason = ''stop'', gr_prompt_tokens = 5, gr_completion_tokens = 2,
             gr_tool_calls = None, gr_model_concrete = Some ''m'', gr_provider_name = None \<rparr>)"

definition agent_demo_env :: "string \<Rightarrow> runtime_env" where
  "agent_demo_env tool = \<lparr> re_lib = agent_demo_lib, re_mode = AM_GATE, re_mono = (\<lambda>_. 0), re_now = (\<lambda>_. 7),
     re_gateway = (\<lambda>_ messages _. agent_demo_model tool messages),
     re_execution = Some (\<lambda>_ _ _ _ _. Inr \<lparr> tn_status = Some ''completed'', tn_stdout = Some ''out'',
        tn_error_code = None, tn_error_message = None, tn_truncated = None \<rparr>),
     re_approval = None, re_artifact = None, re_sha256 = (\<lambda>_. []), re_world = (\<lambda>_ db. db) \<rparr>"

definition agent_demo_request :: execution_request where
  "agent_demo_request = \<lparr> er_invocation_id = 1, er_workspace_id = 2, er_task_id = 3, er_run_id = 4, er_step_id = 5,
     er_correlation_id = 6, er_agent_id = ''a'', er_model_profile = \<lparr> mp_model_alias = ''m'', mp_max_tokens = None,
     mp_temperature = None \<rparr>, er_instruction = ''do'', er_input_payload = [(''sandbox_id'', JUuid 9)], er_timeout_ms = 0 \<rparr>"

definition no_rows :: runtime_db where "no_rows = \<lparr> rd_invocations = [], rd_outbox = [] \<rparr>"

lemma agent_demo_calls [simp]:
  "call_name (agent_tool_request n) = JStr n" "call_input (re_lib (agent_demo_env m)) (agent_tool_request n) = JObj [(''code'', JStr ''ls'')]"
  "call_id (agent_tool_request n) = JStr ''c1''" "n \<noteq> [] \<Longrightarrow> validate_tool_calls [agent_tool_request n] = [agent_tool_request n]"
  by (simp_all add: call_name_def call_function_def call_input_def call_id_def agent_tool_request_def jget_def agent_demo_env_def
      agent_demo_lib_def validate_tool_calls_def valid_tool_call_def json_truthy_def)

lemma demo_guardrails [simp]:
  "check_tool_guardrails (re_lib (agent_demo_env m)) (JStr n) (JObj [(''code'', JStr ''ls'')]) = Inr None"
  by (simp add: check_tool_guardrails_def agent_demo_env_def agent_demo_lib_def shell_code_def py_str_def json_or_def jget_def
      json_truthy_def is_blank_iff py_space_def max_tool_input_bytes_def utf8_width_def Let_def)

lemma agent_demo_policy [simp]:
  "evaluate_tool_approval lib AM_GATE (JStr ''other'') j = Inr \<lparr> pr_decision = PD_ALLOW, pr_reason = ''other not in gated tool set'' \<rparr>"
  by (simp add: evaluate_tool_approval_def py_hashable_def tool_is_gated_def gated_tools_def py_str_def)

lemma agent_demo_environment [simp]:
  "re_mode (agent_demo_env tool) = AM_GATE" "re_mono (agent_demo_env tool) k = 0" "re_now (agent_demo_env tool) k = 7"
  "re_gateway (agent_demo_env tool) k messages t = agent_demo_model tool messages"
  "re_execution (agent_demo_env tool) = Some (\<lambda>_ _ _ _ _. Inr \<lparr> tn_status = Some ''completed'', tn_stdout = Some ''out'',
        tn_error_code = None, tn_error_message = None, tn_truncated = None \<rparr>)"
  "re_approval (agent_demo_env tool) = None" "re_artifact (agent_demo_env tool) = None" "re_world (agent_demo_env tool) k db = db"
  by (simp_all add: agent_demo_env_def)

lemma agent_demo_invocation:
  "create_invocation agent_demo_request 0 = Inr \<lparr> ai_id = 1, ai_step_id = 5, ai_run_id = 4, ai_task_id = 3, ai_workspace_id = 2,
       ai_correlation_id = 6, ai_agent_id = ''a'', ai_model_id = ''m'', ai_status = I_INITIALIZING,
       ai_prompt_tokens = None, ai_completion_tokens = None, ai_total_cost = None,
       ai_input_messages = None, ai_output_messages = None, ai_tool_calls = None, ai_error_detail = None,
       ai_pending_tool_context = None, ai_started_at = None, ai_completed_at = None, ai_created_at = 0 \<rparr>"
  "user_messages agent_demo_request = Some [JObj [(''role'', JStr ''user''), (''content'', JStr ''do'')]]"
  "parse_sandbox_id (jget ''sandbox_id'' JNull (er_input_payload agent_demo_request)) = Inr (Some 9)"
  "loop_budget agent_demo_request = 120000"
  by (simp_all add: create_invocation_def invocation_init_def agent_demo_request_def is_blank_iff py_space_def user_messages_def
      parse_sandbox_id_def jget_def json_truthy_def loop_budget_def invocation_budget_ms_def)

lemma agent_demo_fields [simp]:
  "er_invocation_id agent_demo_request = 1" "\<not> is_blank (er_agent_id agent_demo_request)"
  "\<not> is_blank (mp_model_alias (er_model_profile agent_demo_request))"
  by (simp_all add: agent_demo_request_def is_blank_iff py_space_def)

lemmas agent_run_simps = execute_invocation_def execute_invocation_body_def agent_demo_invocation
  start_invocation_def rt_try_def rt_bind_def rt_return_def rt_lift_def rt_raise_def on_inv_def on_inv_now_def read_now_def
  read_mono_def get_inv_def elapsed_since_def make_call_def save_event_def save_with_event_def
  mark_starting_def mark_running_def mark_waiting_tool_def mark_waiting_human_def mark_completed_def resume_from_wait_def
  invocation_transition_Inr run_tool_loop_def
  tool_turn_def call_gateway_def tool_phase_def check_tool_approval_gate_def
  run_tool_call_def dispatch_tools_def dispatch_one_def complete_invocation_def
  create_artifact_best_effort_def keep_or_def note_response_def finish_loop_def empty_loop_result_def answer_completed_def str_truthy_def Let_def

lemma agent_demo_run: "filter (\<lambda>c. case c of Tool_Call_Made _ _ _ _ \<Rightarrow> True | _ \<Rightarrow> False)
   (snd (snd (execute_invocation (agent_demo_env ''other'') agent_demo_request 0 no_rows)))
   = [Tool_Call_Made 9 (JStr ''other'') (JObj [(''code'', JStr ''ls'')]) 0]"
  by (simp add: agent_run_simps agent_demo_model_def no_rows_def max_tool_turns_def eval_nat_numeral)

theorem no_tool_without_human_witness:
  "\<not> (\<exists>tool \<in> set tool_registry. JStr ''other'' = JStr (tl_name tool))"
proof -
  obtain r db calls where run: "execute_invocation (agent_demo_env ''other'') agent_demo_request 0 no_rows = (r, db, calls)"
    by (metis prod_cases3)
  then have "Tool_Call_Made 9 (JStr ''other'') (JObj [(''code'', JStr ''ls'')]) 0 \<in> set calls"
    using arg_cong [OF agent_demo_run, of set] by auto
  from no_tool_without_human [OF _ run this] show ?thesis by simp
qed

end
