(* ===== verification/Agent_Properties.thy ===== *)
theory Agent_Properties
  imports Agent_Calls
begin

text \<open>
  What an invocation and its resumption leave behind: the stored row says what the answer says, a decision
  is used once, and where the runtime does not do what it means to.
\<close>

section \<open>What is stored is what is answered\<close>

text \<open>The row of an invocation that ended with an outcome.  A failure for an exhausted budget is answered as
  failed although the row says timed out.\<close>

definition row_matches :: "execution_outcome \<Rightarrow> agent_invocation \<Rightarrow> bool" where
  "row_matches out a =
    (case out of
       Done r \<Rightarrow> eu_invocation_id r = ai_id a
         \<and> (eu_status r = ES_COMPLETED \<and> ai_status a = I_COMPLETED
              \<and> ai_output_messages a = Some [JObj [(''role'', JStr ''assistant''),
                   (''content'', jget ''output_text'' JNull (eu_output_payload r))]]
              \<and> ai_prompt_tokens a = Some (eu_prompt_tokens r) \<and> ai_completion_tokens a = Some (eu_completion_tokens r)
            \<or> eu_status r = ES_WAITING_HUMAN \<and> ai_status a = I_WAITING_HUMAN
              \<and> map_of (opt_or (ai_pending_tool_context a) []) ''tool_calls'' \<noteq> None
              \<and> map_of (opt_or (ai_pending_tool_context a) []) ''gated_tool_name'' =
                map_of (eu_output_payload r) ''gated_tool'')
     | Failed f \<Rightarrow> ef_invocation_id f = ai_id a \<and> ai_completed_at a \<noteq> None
         \<and> (ef_status f = ES_TIMED_OUT \<and> ai_status a = I_TIMED_OUT
            \<or> ef_status f = ES_FAILED \<and> ai_status a = I_FAILED
            \<or> ef_status f = ES_FAILED \<and> ai_status a = I_TIMED_OUT \<and> ef_error_code f = ''BUDGET_EXHAUSTED''))"

definition spares :: "uuid \<Rightarrow> runtime_env \<Rightarrow> bool" where
  "spares i env = (\<forall>t db. find_row ai_id i (rd_invocations (re_world env t db)) = find_row ai_id i (rd_invocations db))"

text \<open>Tool calls whose name is a string and whose arguments are a JSON object.\<close>

definition sane_call :: "json_lib \<Rightarrow> json \<Rightarrow> bool" where
  "sane_call lib tc = ((\<exists>n. call_name tc = JStr n) \<and> (\<exists>d. call_input lib tc = JObj d))"

definition sane :: "runtime_env \<Rightarrow> execution_request \<Rightarrow> bool" where
  "sane env req = (is_ok (parse_sandbox_id (jget ''sandbox_id'' JNull (er_input_payload req)))
     \<and> (\<forall>t ms timeout gw. re_gateway env t ms timeout = Inr gw \<longrightarrow>
          (\<forall>tc \<in> set (opt_or (gr_tool_calls gw) []). valid_tool_call tc \<longrightarrow> sane_call (re_lib env) tc)))"

definition stands :: "uuid \<Rightarrow> invocation_status \<Rightarrow> runtime_state \<Rightarrow> bool" where
  "stands i st s = (ai_id (rs_inv s) = i \<and> ai_status (rs_inv s) = st)"

definition stored :: "uuid \<Rightarrow> execution_outcome \<Rightarrow> runtime_state \<Rightarrow> bool" where
  "stored i out s = (\<exists>row. find_row ai_id i (rd_invocations (rs_db s)) = Some row \<and> row_matches out row)"

abbreviation raises_unless :: "bool \<Rightarrow> agent_error \<Rightarrow> runtime_state \<Rightarrow> bool" where
  "raises_unless H \<equiv> (\<lambda>_ _. \<not> H)"

lemma row_matches_row:
  "ai_id old = ai_id a \<Longrightarrow> row_matches out (invocation_row old a) = row_matches out a"
  "row_matches out (a\<lparr>ai_created_at := c\<rparr>) = row_matches out a"
  by (auto simp: row_matches_def invocation_row_def split: execution_outcome.split)

lemma invocation_save_row:
  assumes "row_matches out a"
  shows "\<exists>row. find_row ai_id (ai_id a) (rd_invocations (invocation_save now a db)) = Some row \<and> row_matches out row"
proof (cases "find_row ai_id (ai_id a) (rd_invocations db)")
  case None
  have "find_row ai_id (ai_id a) (xs @ [a\<lparr>ai_created_at := now\<rparr>]) = Some (a\<lparr>ai_created_at := now\<rparr>)"
    if "find_row ai_id (ai_id a) xs = None" for xs
    using that by (induction xs) (auto split: if_splits)
  with None show ?thesis using assms by (simp add: invocation_save_def row_matches_row)
next
  case (Some old)
  then have "ai_id old = ai_id a" by (auto dest: find_row_key)
  then show ?thesis using Some assms by (simp add: invocation_save_def row_matches_row) (simp add: invocation_row_def)
qed

text \<open>Programs that leave the entity in memory alone.\<close>

lemma keeps_inv:
  assumes "\<And>s r s'. m s = (r, s') \<Longrightarrow> rs_inv s' = rs_inv s" "\<And>s. is_ok (fst (m s))"
  shows "rt_valid (stands i st) m (\<lambda>_. stands i st) (raises_unless H)"
proof (rule rt_validI)
  show "\<not> H" if "m s = (Inl e, s')" for s e s'
    using assms(2) [of s] that by simp
  show "stands i st s'" if "stands i st s" "m s = (Inr a, s')" for s a s'
    using that assms(1) [of s "Inr a" s'] by (simp add: stands_def)
qed

lemma quiet_programs:
  "rt_valid (stands i st) (read_mono env) (\<lambda>_. stands i st) (raises_unless H)"
  "rt_valid (stands i st) (elapsed_since env start) (\<lambda>_. stands i st) (raises_unless H)"
  "rt_valid (stands i st) get_inv (\<lambda>_. stands i st) (raises_unless H)"
  "rt_valid (stands i st) (make_call env c) (\<lambda>_. stands i st) (raises_unless H)"
  "rt_valid (stands i st) (save_event env ty p) (\<lambda>_. stands i st) (raises_unless H)"
  "rt_valid (stands i st) (save_with_event env ty) (\<lambda>_. stands i st) (raises_unless H)"
  "rt_valid (stands i st) (rt_return a) (\<lambda>_. stands i st) (raises_unless H)"
  by (rule keeps_inv,
      auto simp: read_mono_def elapsed_since_def get_inv_def make_call_def save_with_event_def save_event_def
        rt_bind_def read_now_def rt_return_def)+

lemma stands_bind:
  assumes "rt_valid (stands i st) m (\<lambda>_. stands i st') (raises_unless H)"
    and "\<And>a. rt_valid (stands i st') (f a) Q (raises_unless H)"
  shows "rt_valid (stands i st) (rt_bind m f) Q (raises_unless H)"
  using assms by (rule rt_valid_bind)

lemma read_now_quiet: "rt_valid (stands i st) (read_now env) (\<lambda>_. stands i st) (raises_unless H)"
  by (rule keeps_inv) (auto simp: read_now_def)

text \<open>A method that succeeds in a status, and what it makes of the entity.\<close>

lemma method_valid:
  assumes "\<And>a. \<lbrakk> ai_status a = st; ai_id a = i \<rbrakk> \<Longrightarrow> \<exists>a'. g a = Inr a' \<and> A a'"
  shows "rt_valid (stands i st) (on_inv g) (\<lambda>_ s. A (rs_inv s)) (raises_unless H)"
proof (rule rt_validI)
  fix s e s' assume "stands i st s" "on_inv g s = (Inl e, s')"
  with assms [of "rs_inv s"] show "\<not> H" by (auto simp: on_inv_def stands_def)
next
  fix s a s' assume "stands i st s" "on_inv g s = (Inr a, s')"
  with assms [of "rs_inv s"] show "A (rs_inv s')" by (auto simp: on_inv_def stands_def)
qed

lemma method_now_valid:
  assumes "\<And>a now. \<lbrakk> ai_status a = st; ai_id a = i \<rbrakk> \<Longrightarrow> \<exists>a'. g now a = Inr a' \<and> A a'"
  shows "rt_valid (stands i st) (on_inv_now env g) (\<lambda>_ s. A (rs_inv s)) (raises_unless H)"
  unfolding on_inv_now_def
  by (rule rt_valid_bind [OF read_now_quiet method_valid]) (rule assms)

lemma moves:
  "rt_valid (stands i I_INITIALIZING) (on_inv mark_starting) (\<lambda>_. stands i I_STARTING) (raises_unless H)"
  "rt_valid (stands i I_RUNNING) (on_inv mark_waiting_tool) (\<lambda>_. stands i I_WAITING_TOOL) (raises_unless H)"
  "rt_valid (stands i I_WAITING_TOOL) (on_inv resume_from_wait) (\<lambda>_. stands i I_RUNNING) (raises_unless H)"
  "rt_valid (stands i I_STARTING) (on_inv_now env (mark_running m)) (\<lambda>_. stands i I_RUNNING) (raises_unless H)"
  unfolding stands_def [abs_def]
  by (rule method_valid [unfolded stands_def [abs_def]] method_now_valid [unfolded stands_def [abs_def]],
      simp add: mark_starting_def mark_waiting_tool_def resume_from_wait_def mark_running_def invocation_transition_Inr)+

text \<open>An entity that is saved and answered with.\<close>

lemma save_stores:
  "rt_valid (\<lambda>s. ai_id (rs_inv s) = i \<and> row_matches out (rs_inv s)) (save_event env ty p)
     (\<lambda>_ s. stored i out s \<and> ai_id (rs_inv s) = i \<and> row_matches out (rs_inv s)) (raises_unless H)"
proof (rule rt_validI)
  fix s a s' assume s: "ai_id (rs_inv s) = i \<and> row_matches out (rs_inv s)" "save_event env ty p s = (Inr a, s')"
  show "stored i out s' \<and> ai_id (rs_inv s') = i \<and> row_matches out (rs_inv s')"
    using s invocation_save_row [of out "rs_inv s"]
    by (auto simp: save_event_def rt_bind_def read_now_def stored_def)
qed (auto simp: save_event_def rt_bind_def read_now_def)

lemma save_with_event_valid:
  assumes "\<And>p. rt_valid P (save_event env ty p) Q E"
  shows "rt_valid P (save_with_event env ty) Q E"
  using assms by (auto simp: save_with_event_def rt_bind_def get_inv_def rt_valid_def)

lemma make_call_stores:
  assumes "spares i env"
  shows "rt_valid (stored i out) (make_call env c) (\<lambda>_. stored i out) (raises_unless H)"
  using assms by (auto simp: rt_valid_def make_call_def stored_def spares_def)

lemma fail_invocation_stores:
  assumes st: "(if timed_out then I_TIMED_OUT else I_FAILED) \<in> set (invocation_transitions st)"
    and status: "status = (if timed_out \<and> code \<noteq> ''BUDGET_EXHAUSTED'' then ES_TIMED_OUT else ES_FAILED)"
  shows "rt_valid (stands i st) (fail_invocation env timed_out detail status code msg retryable)
     (stored i) (raises_unless H)"
proof -
  let ?out = "\<lambda>a. Failed \<lparr> ef_invocation_id = ai_id a, ef_status = status, ef_error_code = code,
     ef_error_message = msg, ef_retryable = retryable, ef_failed_at = ai_completed_at a \<rparr>"
  have mark: "rt_valid (stands i st)
      (on_inv_now env (if timed_out then mark_timed_out (Some detail) else mark_invocation_failed (Some detail)))
      (\<lambda>_ s. ai_id (rs_inv s) = i \<and> row_matches (?out (rs_inv s)) (rs_inv s)) (raises_unless H)"
  proof (rule method_now_valid)
    fix a :: agent_invocation and now assume "ai_status a = st" "ai_id a = i"
    then show "\<exists>a'. (if timed_out then mark_timed_out (Some detail) else mark_invocation_failed (Some detail)) now a = Inr a'
        \<and> ai_id a' = i \<and> row_matches (?out a') a'"
      using st status
      by (cases timed_out) (auto simp: mark_timed_out_def mark_invocation_failed_def invocation_transition_Inr row_matches_def)
  qed
  have save: "rt_valid (\<lambda>s. ai_id (rs_inv s) = i \<and> row_matches (?out (rs_inv s)) (rs_inv s)) (save_event env ty p)
      (\<lambda>_ s. stored i (?out (rs_inv s)) s) (raises_unless H)" for ty p
  proof (rule rt_validI)
    fix s x s'
    assume s: "ai_id (rs_inv s) = i \<and> row_matches (?out (rs_inv s)) (rs_inv s)" "save_event env ty p s = (Inr x, s')"
    then have eq: "rs_inv s' = rs_inv s" by (auto simp: save_event_def rt_bind_def read_now_def)
    from rt_validD(1) [OF save_stores s] show "stored i (?out (rs_inv s')) s'" unfolding eq by (rule conjunct1)
  qed (auto simp: save_event_def rt_bind_def read_now_def)
  have answer: "rt_valid (\<lambda>s. stored i (?out (rs_inv s)) s) (rt_bind get_inv (\<lambda>a. rt_return (?out a))) (stored i) (raises_unless H)"
    by (auto simp: rt_valid_def rt_bind_def get_inv_def rt_return_def)
  show ?thesis
    unfolding fail_invocation_def
    by (rule rt_valid_bind [OF mark rt_valid_bind [OF save_with_event_valid [OF save] answer]])
qed

lemma lift_valid:
  "\<lbrakk> H \<Longrightarrow> is_ok r \<rbrakk> \<Longrightarrow> rt_valid (stands i st) (rt_lift r) (\<lambda>_. stands i st) (raises_unless H)"
  by (cases r) (auto simp: rt_lift_def rt_valid_def rt_raise_def rt_return_def)

lemma guardrails_ok: "sane_call lib tc \<Longrightarrow> is_ok (check_tool_guardrails lib (call_name tc) (call_input lib tc))"
  by (auto simp: sane_call_def check_tool_guardrails_def Let_def)

lemma evaluate_ok:
  "sane_call lib tc \<Longrightarrow> is_ok (evaluate_tool_approval lib mode (call_name tc) (call_input lib tc))"
  by (auto simp: sane_call_def evaluate_tool_approval_def py_hashable_def tool_is_gated_def assess_tool_risk_def
      py_str_def gated_tools_def split: option.split)

lemma run_tool_call_stands:
  assumes "H \<Longrightarrow> sane_call (re_lib env) tc"
  shows "rt_valid (stands i st) (run_tool_call env sandbox k tc) (\<lambda>_. stands i st) (raises_unless H)"
  unfolding run_tool_call_def Let_def
proof (rule stands_bind [OF lift_valid], goal_cases)
  case (2 rejection)
  have "rt_valid (stands i st) (rt_bind (make_call env c) (\<lambda>t. rt_return (f t))) (\<lambda>_. stands i st) (raises_unless H)"
    for c f
    by (rule stands_bind [OF quiet_programs(4) quiet_programs(7)])
  then show ?case using quiet_programs(7) by (auto split: option.split)
qed (use assms guardrails_ok in blast)

lemma dispatch_one_stands:
  assumes "H \<Longrightarrow> sane_call (re_lib env) tc"
  shows "rt_valid (stands i st) (dispatch_one env start budget sandbox turn tc acc) (\<lambda>_. stands i st) (raises_unless H)"
  unfolding dispatch_one_def
proof (rule stands_bind [OF quiet_programs(2)], goal_cases)
  case (1 elapsed)
  have call: "rt_valid (stands i st) (rt_bind (read_mono env) (\<lambda>t0. rt_bind (run_tool_call env sandbox turn tc) (\<lambda>r.
      rt_bind (elapsed_since env t0) (\<lambda>ms. rt_return (f r ms))))) (\<lambda>_. stands i st) (raises_unless H)"
    for f :: "tool_answer \<Rightarrow> int \<Rightarrow> turn_acc"
    by (intro stands_bind [OF quiet_programs(1)] stands_bind [OF run_tool_call_stands]
        stands_bind [OF quiet_programs(2)] quiet_programs(7)) (rule assms)
  show ?case
  proof (cases "budget - elapsed \<le> 0")
    case True
    show ?thesis unfolding if_P [OF True] by (rule quiet_programs(7))
  next
    case False
    show ?thesis unfolding if_not_P [OF False] by (rule call)
  qed
qed

lemma dispatch_calls_stands:
  assumes "\<And>tc. \<lbrakk> H; tc \<in> set tcs \<rbrakk> \<Longrightarrow> sane_call (re_lib env) tc"
  shows "rt_valid (stands i st) (dispatch_calls env start budget sandbox turn tcs acc) (\<lambda>_. stands i st) (raises_unless H)"
  using assms
proof (induction tcs arbitrary: acc)
  case (Cons tc tcs)
  then show ?case
    by (auto intro!: stands_bind [OF dispatch_one_stands])
qed (simp add: quiet_programs)

lemma dispatch_tools_stands:
  assumes "H \<Longrightarrow> is_ok (parse_sandbox_id (jget ''sandbox_id'' JNull (er_input_payload req)))"
    and "\<And>tc. \<lbrakk> H; tc \<in> set calls \<rbrakk> \<Longrightarrow> sane_call (re_lib env) tc"
  shows "rt_valid (stands i st) (dispatch_tools env req start budget turn calls messages) (\<lambda>_. stands i st) (raises_unless H)"
  unfolding dispatch_tools_def
  by (rule stands_bind [OF lift_valid [OF assms(1)] dispatch_calls_stands [OF assms(2)]])

text \<open>Entering the gate stores the invocation as waiting, with the calls it waits for.\<close>

lemma enter_gate_stores:
  assumes "spares i env"
  shows "rt_valid (stands i I_RUNNING) (enter_gate env req calls messages gw name tool_input reason) (stored i) (raises_unless H)"
proof -
  let ?ctx = "pending_context (re_lib env) req calls messages gw name tool_input reason"
  let ?out = "\<lambda>a j. Done \<lparr> eu_invocation_id = ai_id a, eu_status = ES_WAITING_HUMAN,
       eu_output_payload = [(''waiting_reason'', JStr ''tool_approval_required''), (''gated_tool'', name),
          (''gate_reason'', JStr reason), (''approval_id'', j)],
       eu_prompt_tokens = 0, eu_completion_tokens = 0, eu_model_concrete = None,
       eu_started_at = ai_started_at a, eu_completed_at = None, eu_artifact_id = None \<rparr>"
  have mark: "rt_valid (stands i I_RUNNING) (on_inv (mark_waiting_human (Some ?ctx)))
      (\<lambda>_ s. ai_id (rs_inv s) = i \<and> row_matches (?out (rs_inv s) JNull) (rs_inv s)) (raises_unless H)"
    by (rule method_valid)
       (auto simp: mark_waiting_human_def invocation_transition_Inr row_matches_def keep_or_def pending_context_def)
  have any: "row_matches (?out a j) b = row_matches (?out a' j') b" if "ai_id a = ai_id a'" for a a' b j j'
    using that by (simp add: row_matches_def)
  have save: "rt_valid (\<lambda>s. ai_id (rs_inv s) = i \<and> row_matches (?out (rs_inv s) JNull) (rs_inv s))
      (save_event env ty p) (\<lambda>_ s. ai_id (rs_inv s) = i \<and> (\<forall>j. stored i (?out (rs_inv s) j) s)) (raises_unless H)" for ty p
  proof (rule rt_validI)
    fix s x s'
    assume s: "ai_id (rs_inv s) = i \<and> row_matches (?out (rs_inv s) JNull) (rs_inv s)" "save_event env ty p s = (Inr x, s')"
    then have eq: "rs_inv s' = rs_inv s" by (auto simp: save_event_def rt_bind_def read_now_def)
    from rt_validD(1) [OF save_stores s] s(1) any [of "rs_inv s" "rs_inv s"]
    show "ai_id (rs_inv s') = i \<and> (\<forall>j. stored i (?out (rs_inv s') j) s')"
      unfolding eq stored_def by blast
  qed (auto simp: save_event_def rt_bind_def read_now_def)
  have ask: "rt_valid (\<lambda>s. ai_id (rs_inv s) = i \<and> (\<forall>j. stored i (?out (rs_inv s) j) s))
      (request_tool_approval env name tool_input reason)
      (\<lambda>_ s. ai_id (rs_inv s) = i \<and> (\<forall>j. stored i (?out (rs_inv s) j) s)) (raises_unless H)"
    using assms
    by (auto simp: request_tool_approval_def rt_valid_def rt_bind_def make_call_def rt_return_def stored_def spares_def
        split: option.split)
  have answer: "rt_valid (\<lambda>s. ai_id (rs_inv s) = i \<and> (\<forall>j. stored i (?out (rs_inv s) j) s))
      (rt_bind get_inv (\<lambda>a. rt_return (?out a j))) (stored i) (raises_unless H)" for j
    by (auto simp: rt_valid_def rt_bind_def get_inv_def rt_return_def)
  show ?thesis
    unfolding enter_gate_def
    by (rule rt_valid_bind [OF mark rt_valid_bind [OF save_with_event_valid [OF save] rt_valid_bind [OF ask answer]]])
qed

lemma check_gate_stores:
  assumes "spares i env" and "\<And>tc. \<lbrakk> H; tc \<in> set tcs \<rbrakk> \<Longrightarrow> sane_call (re_lib env) tc"
  shows "rt_valid (stands i I_RUNNING) (check_gate env req calls messages gw tcs)
     (\<lambda>g s. case g of None \<Rightarrow> stands i I_RUNNING s | Some out \<Rightarrow> stored i out s) (raises_unless H)"
  using assms(2)
proof (induction tcs)
  case (Cons tc tcs)
  have ok: "H \<Longrightarrow> is_ok (evaluate_tool_approval (re_lib env) (re_mode env) (call_name tc) (call_input (re_lib env) tc))"
    using Cons.prems by (intro evaluate_ok) simp
  have some: "rt_valid (stored i out) (rt_return (Some out))
      (\<lambda>g s. case g of None \<Rightarrow> stands i I_RUNNING s | Some out \<Rightarrow> stored i out s) (raises_unless H)" for out
    by (simp add: rt_valid_def rt_return_def)
  show ?case
    unfolding check_gate.simps
  proof (rule stands_bind [OF lift_valid [OF ok]], assumption)
    show "rt_valid (stands i I_RUNNING) (if pr_decision r = PD_GATE
        then rt_bind (enter_gate env req calls messages gw (call_name tc) (call_input (re_lib env) tc) (pr_reason r))
               (\<lambda>out. rt_return (Some out))
        else check_gate env req calls messages gw tcs)
      (\<lambda>g s. case g of None \<Rightarrow> stands i I_RUNNING s | Some out \<Rightarrow> stored i out s) (raises_unless H)" for r
      using Cons rt_valid_bind [OF enter_gate_stores [OF assms(1)] some] by simp
  qed
qed (simp add: rt_valid_def rt_return_def)

text \<open>The end of a turn: stored with its outcome, or still running.\<close>

definition turn_stands :: "uuid \<Rightarrow> turn_end \<Rightarrow> runtime_state \<Rightarrow> bool" where
  "turn_stands i e s = (case e of Turn_Exit out _ \<Rightarrow> stored i out s | _ \<Rightarrow> stands i I_RUNNING s)"

lemma exit_with:
  assumes "rt_valid P m (stored i) (raises_unless H)"
  shows "rt_valid P (rt_bind m (\<lambda>out. rt_return (Turn_Exit out r))) (turn_stands i) (raises_unless H)"
  by (rule rt_valid_bind [OF assms]) (simp add: rt_valid_def rt_return_def turn_stands_def)

lemma failures_store:
  "rt_valid (stands i I_RUNNING) (handle_budget_exhausted env e b t r) (stored i) (raises_unless H)"
  "rt_valid (stands i I_RUNNING) (handle_malformed_tools env calls) (stored i) (raises_unless H)"
  "rt_valid (stands i I_WAITING_TOOL) (handle_all_tools_failed env k n r) (stored i) (raises_unless H)"
  "rt_valid (stands i I_RUNNING) (handle_gateway_error env x) (stored i) (raises_unless H)"
  unfolding handle_budget_exhausted_def handle_malformed_tools_def handle_all_tools_failed_def
    handle_gateway_error_def Let_def
  by (rule fail_invocation_stores; auto)+

lemma tool_phase_stores:
  assumes "spares i env" and "H \<Longrightarrow> is_ok (parse_sandbox_id (jget ''sandbox_id'' JNull (er_input_payload req)))"
    and "\<And>tc. \<lbrakk> H; tc \<in> set calls \<rbrakk> \<Longrightarrow> sane_call (re_lib env) tc"
  shows "rt_valid (stands i I_RUNNING) (tool_phase env req start budget turn ts ms calls messages gw r)
     (turn_stands i) (raises_unless H)"
proof -
  have next_turn: "rt_valid (stands i I_WAITING_TOOL) (rt_bind (on_inv resume_from_wait) (\<lambda>_.
        rt_bind (elapsed_since env ts) (\<lambda>turn_ms. rt_bind (elapsed_since env start) (\<lambda>elapsed.
        rt_bind get_inv (\<lambda>a. rt_bind (save_event env ty (p a turn_ms elapsed)) (\<lambda>_.
        rt_return (Turn_Next m r')))))))
      (turn_stands i) (raises_unless H)" for ty p m r'
    by (intro stands_bind [OF moves(3)] stands_bind [OF quiet_programs(2)] stands_bind [OF quiet_programs(3)]
        stands_bind [OF quiet_programs(5)]) (simp add: rt_valid_def rt_return_def turn_stands_def)
  have after: "rt_valid (stands i I_WAITING_TOOL) (let r = r'
         in if b then rt_bind (handle_all_tools_failed env turn n r) (\<lambda>out. rt_return (Turn_Exit out r))
            else rt_bind (on_inv resume_from_wait) (\<lambda>_.
              rt_bind (elapsed_since env ts) (\<lambda>turn_ms. rt_bind (elapsed_since env start) (\<lambda>elapsed.
              rt_bind get_inv (\<lambda>a. rt_bind (save_event env ty (p a turn_ms elapsed)) (\<lambda>_.
              rt_return (Turn_Next m (g r))))))))
      (turn_stands i) (raises_unless H)" for r' b n ty p m g
    using exit_with [OF failures_store(3)] next_turn by (cases b) (simp_all add: Let_def)
  show ?thesis
    unfolding tool_phase_def check_tool_approval_gate_def
  proof (rule rt_valid_bind [OF check_gate_stores [OF assms(1) assms(3)]], assumption, assumption)
    fix g
    show "rt_valid (\<lambda>s. case g of None \<Rightarrow> stands i I_RUNNING s | Some out \<Rightarrow> stored i out s)
      (case g of Some out \<Rightarrow> rt_return (Turn_Exit out r) | None \<Rightarrow>
         rt_bind (on_inv mark_waiting_tool) (\<lambda>_.
         rt_bind (save_with_event env ''agent_invocation.waiting_tool'') (\<lambda>_.
         rt_bind (dispatch_tools env req start budget turn calls (messages @ [assistant_message (gr_output_text gw) calls])) (\<lambda>acc.
         let r = r\<lparr> lr_tools_called := lr_tools_called r + int (length calls),
                    lr_tool_failures := lr_tool_failures r + int (tu_failures acc),
                    lr_tool_latency_ms := lr_tool_latency_ms r + tu_latency_ms acc \<rparr>
         in if tu_failures acc = length calls \<and> length calls > 0
            then rt_bind (handle_all_tools_failed env turn (length calls) r) (\<lambda>out. rt_return (Turn_Exit out r))
            else
              rt_bind (on_inv resume_from_wait) (\<lambda>_.
              rt_bind (elapsed_since env ts) (\<lambda>turn_ms.
              rt_bind (elapsed_since env start) (\<lambda>elapsed.
              rt_bind get_inv (\<lambda>a.
              rt_bind (save_event env ''agent_invocation.turn_completed''
                 (build_turn_event_payload a (int turn) (int (length calls)) (int (tu_failures acc)) ms
                    turn_ms (max 0 (budget - elapsed)) (tu_details acc))) (\<lambda>_.
              rt_return (Turn_Next (tu_messages acc) (r\<lparr>lr_completed_turns := int turn + 1\<rparr>))))))))))) 
      (turn_stands i) (raises_unless H)"
    proof (cases g)
      case None
      show ?thesis
        unfolding None option.case
        by (intro stands_bind [OF moves(2)] stands_bind [OF quiet_programs(6)]
            stands_bind [OF dispatch_tools_stands [OF assms(2,3)]] after)
    qed (simp add: rt_valid_def rt_return_def turn_stands_def)
  qed
qed

lemma tool_turn_stores:
  assumes "spares i env"
  shows "rt_valid (stands i I_RUNNING) (tool_turn env req start budget tools turn messages r)
     (turn_stands i) (raises_unless (sane env req))"
proof -
  have gateway: "rt_valid (stands i I_RUNNING) (call_gateway env messages tools timeout)
      (\<lambda>answer s. stands i I_RUNNING s \<and> (\<forall>gw. answer = Inr gw \<longrightarrow> (\<exists>t. re_gateway env t messages timeout = Inr gw)))
      (raises_unless (sane env req))" for timeout
    by (auto simp: call_gateway_def rt_valid_def rt_bind_def make_call_def rt_return_def stands_def)
  have stop: "rt_valid (stands i I_RUNNING) (rt_return (Turn_Break r')) (turn_stands i) (raises_unless (sane env req))" for r'
    by (simp add: rt_valid_def rt_return_def turn_stands_def)
  have answered: "rt_valid (\<lambda>s. stands i I_RUNNING s \<and> (\<forall>gw. answer = Inr gw \<longrightarrow> (\<exists>t. re_gateway env t messages timeout = Inr gw)))
      (case answer of Inl x \<Rightarrow> rt_bind (handle_gateway_error env x) (\<lambda>out. rt_return (Turn_Exit out r))
       | Inr gw \<Rightarrow> rt_bind (elapsed_since env t0) (\<lambda>ms.
           let r = note_response gw ms r; calls = opt_or (gr_tool_calls gw) [] in
           if gr_finish_reason gw \<noteq> ''tool_calls'' \<or> calls = [] \<or> re_execution env = None
           then rt_return (Turn_Break r)
           else if validate_tool_calls calls = []
           then rt_bind (handle_malformed_tools env calls) (\<lambda>out. rt_return (Turn_Exit out r))
           else tool_phase env req start budget turn ts ms (validate_tool_calls calls) messages gw
                  (r\<lparr>lr_all_tool_calls := lr_all_tool_calls r @ validate_tool_calls calls\<rparr>)))
      (turn_stands i) (raises_unless (sane env req))" for answer timeout ts t0
  proof (cases answer)
    case (Inl x)
    then show ?thesis using exit_with [OF failures_store(4)] by simp
  next
    case (Inr gw)
    show ?thesis
    proof (cases "\<exists>t. re_gateway env t messages timeout = Inr gw")
      case True
      then have "rt_valid (stands i I_RUNNING) (tool_phase env req start budget turn ts ms
          (validate_tool_calls (opt_or (gr_tool_calls gw) [])) messages gw r') (turn_stands i) (raises_unless (sane env req))" for ms r'
        by (intro tool_phase_stores assms) (auto simp: sane_def valid_tool_calls)
      then show ?thesis
        using exit_with [OF failures_store(2)] stop Inr True
        by (auto simp: Let_def intro!: stands_bind [OF quiet_programs(2)])
    qed (simp add: Inr rt_valid_def)
  qed
  show ?thesis
    unfolding tool_turn_def
  proof (rule stands_bind [OF quiet_programs(1) stands_bind [OF quiet_programs(2)]], goal_cases)
    case (1 ts elapsed)
    show ?case
    proof (cases "budget - elapsed \<le> 0")
      case True
      show ?thesis unfolding if_P [OF True] by (rule exit_with [OF failures_store(1)])
    next
      case False
      show ?thesis
        unfolding if_not_P [OF False]
        by (rule stands_bind [OF quiet_programs(1) rt_valid_bind [OF gateway answered]])
    qed
  qed
qed

text \<open>No turn sets the early exit of the loop's result.\<close>

definition exit_kept :: "turn_end \<Rightarrow> bool" where
  "exit_kept e = (case e of Turn_Break r \<Rightarrow> lr_early_exit r = None | Turn_Next _ r \<Rightarrow> lr_early_exit r = None | _ \<Rightarrow> True)"

abbreviation always :: "'a rt \<Rightarrow> ('a \<Rightarrow> bool) \<Rightarrow> bool" where
  "always m Q \<equiv> rt_valid (\<lambda>_. True) m (\<lambda>a _. Q a) (\<lambda>_ _. True)"

lemma always_bind: "(\<And>a. always (f a) Q) \<Longrightarrow> always (rt_bind m f) Q"
  by (rule rt_valid_bind [where R = "\<lambda>_ _. True"]) (auto simp: rt_valid_def split: sum.split)

lemma always_return: "Q a \<Longrightarrow> always (rt_return a) Q"
  by (simp add: rt_valid_def rt_return_def)

lemma tool_turn_keeps_exit:
  assumes "lr_early_exit r = None"
  shows "always (tool_turn env req start budget tools turn messages r) exit_kept"
  unfolding tool_turn_def tool_phase_def Let_def note_response_def
  using assms
  by (auto intro!: always_bind always_return simp: exit_kept_def split: sum.split option.split)

lemma finish_loop_exit [simp]: "lr_early_exit (finish_loop r) = lr_early_exit r"
  by (simp add: finish_loop_def)

lemma tool_loop_stores:
  assumes "spares i env" "lr_early_exit r = None"
  shows "rt_valid (stands i I_RUNNING) (tool_loop env req start budget tools n turn messages r)
     (\<lambda>r s. case lr_early_exit r of None \<Rightarrow> stands i I_RUNNING s | Some out \<Rightarrow> stored i out s)
     (raises_unless (sane env req))"
  using assms(2)
proof (induction n arbitrary: turn messages r)
  case 0
  then show ?case by (simp add: rt_valid_def rt_return_def)
next
  case (Suc n)
  have both: "rt_valid (stands i I_RUNNING) (tool_turn env req start budget tools turn messages r)
      (\<lambda>e s. turn_stands i e s \<and> exit_kept e) (raises_unless (sane env req))"
    using tool_turn_stores [OF assms(1), of req start budget tools turn messages r]
      tool_turn_keeps_exit [OF Suc.prems, of env req start budget tools turn messages]
    by (fastforce simp: rt_valid_def split: sum.splits prod.splits)
  show ?case
    unfolding tool_loop.simps
  proof (rule rt_valid_bind [OF both])
    fix e
    show "rt_valid (\<lambda>s. turn_stands i e s \<and> exit_kept e)
        (case e of Turn_Break r' \<Rightarrow> rt_return (finish_loop r')
          | Turn_Exit out r' \<Rightarrow> rt_return (r'\<lparr>lr_early_exit := Some out\<rparr>)
          | Turn_Next messages' r' \<Rightarrow> tool_loop env req start budget tools n (Suc turn) messages' r')
        (\<lambda>r s. case lr_early_exit r of None \<Rightarrow> stands i I_RUNNING s | Some out \<Rightarrow> stored i out s)
        (raises_unless (sane env req))"
    proof (cases e)
      case (Turn_Next ms r')
      then show ?thesis
        using Suc.IH [of r' "Suc turn" ms]
        by (auto simp: turn_stands_def exit_kept_def rt_valid_def)
    qed (auto simp: rt_valid_def rt_return_def turn_stands_def exit_kept_def)
  qed
qed

lemma artifact_stores:
  assumes "\<And>c. rt_valid P (make_call env c) (\<lambda>_. P) (raises_unless H)"
  shows "rt_valid P (create_artifact_best_effort env req answer) (\<lambda>_. P) (raises_unless H)"
proof -
  have ret: "rt_valid P (rt_return a) (\<lambda>_. P) (raises_unless H)" for a :: "uuid option"
    by (simp add: rt_valid_def rt_return_def)
  note give_up = rt_valid_bind [OF assms ret]
  note finalize = rt_valid_bind [OF assms, where Q = "\<lambda>_. P"]
  show ?thesis
    unfolding create_artifact_best_effort_def Let_def
    using ret give_up by (auto intro!: finalize split: option.split sum.split)
qed

lemma complete_invocation_stores:
  assumes "spares i env"
  shows "rt_valid (stands i I_RUNNING) (complete_invocation env req r) (stored i) (raises_unless H)"
proof -
  let ?out = "\<lambda>a art. Done \<lparr> eu_invocation_id = ai_id a, eu_status = ES_COMPLETED,
       eu_output_payload = [(''output_text'', JStr (lr_output_text r))],
       eu_prompt_tokens = lr_prompt_tokens r, eu_completion_tokens = lr_completion_tokens r,
       eu_model_concrete = Option.bind (lr_last_response r) gr_model_concrete,
       eu_started_at = ai_started_at a, eu_completed_at = ai_completed_at a, eu_artifact_id = art \<rparr>"
  have any: "row_matches (?out a art) b = row_matches (?out a None) b" for a b art
    by (simp add: row_matches_def)
  have mark: "rt_valid (stands i I_RUNNING)
      (on_inv_now env (mark_completed
        (Some [JObj [(''role'', JStr ''assistant''), (''content'', JStr (lr_output_text r))]])
        (if lr_all_tool_calls r = [] then None else Some (lr_all_tool_calls r))
        (Some (lr_prompt_tokens r)) (Some (lr_completion_tokens r)) None))
      (\<lambda>_ s. ai_id (rs_inv s) = i \<and> row_matches (?out (rs_inv s) None) (rs_inv s)) (raises_unless H)"
    by (rule method_now_valid)
       (auto simp: mark_completed_def invocation_transition_Inr row_matches_def keep_or_def jget_def)
  have get: "rt_valid (\<lambda>s. ai_id (rs_inv s) = i \<and> row_matches (?out (rs_inv s) None) (rs_inv s)) get_inv
      (\<lambda>a s. ai_id (rs_inv s) = i \<and> row_matches (?out a None) (rs_inv s)) (raises_unless H)"
    unfolding rt_valid_def get_inv_def by auto
  have save: "rt_valid (\<lambda>s. ai_id (rs_inv s) = i \<and> row_matches (?out a None) (rs_inv s)) (save_event env ty p)
      (\<lambda>_. stored i (?out a None)) (raises_unless H)" for a ty p
    by (rule rt_valid_weaken [OF save_stores]) auto
  have artifact: "rt_valid (stored i (?out a None)) (create_artifact_best_effort env req answer)
      (\<lambda>_. stored i (?out a None)) (raises_unless H)" for a answer
    by (rule artifact_stores [OF make_call_stores [OF assms]])
  have answer: "rt_valid (stored i (?out a None)) (rt_return (?out a art)) (stored i) (raises_unless H)" for a art
    by (simp add: rt_valid_def rt_return_def stored_def any [of a art])
  show ?thesis
    unfolding complete_invocation_def
    by (rule rt_valid_bind [OF mark rt_valid_bind [OF get rt_valid_bind [OF save rt_valid_bind [OF artifact answer]]]])
qed

lemma execute_body_stores:
  assumes "spares i env"
  shows "rt_valid (stands i I_INITIALIZING) (execute_invocation_body env req) (stored i)
     (raises_unless (sane env req))"
proof -
  have start: "rt_valid (stands i I_INITIALIZING)
      (rt_try (rt_bind (start_invocation env req) (\<lambda>_. rt_return None)) (\<lambda>e. rt_bind (startup_error env e) (\<lambda>out. rt_return (Some out))))
      (\<lambda>early s. early = None \<and> stands i I_RUNNING s) (raises_unless (sane env req))"
  proof -
    have "rt_valid (stands i I_INITIALIZING) (rt_bind (start_invocation env req) (\<lambda>_. rt_return None))
        (\<lambda>early s. early = (None :: execution_outcome option) \<and> stands i I_RUNNING s) (raises_unless True)"
      unfolding start_invocation_def
      by (rule rt_valid_bind [OF stands_bind [OF moves(1) moves(4)]]) (simp add: rt_valid_def rt_return_def)
    then show ?thesis
      by (auto simp: rt_valid_def rt_try_def split: sum.splits prod.splits)
  qed
  have loop: "rt_valid (stands i I_RUNNING) (run_tool_loop env req)
      (\<lambda>r s. case lr_early_exit r of None \<Rightarrow> stands i I_RUNNING s | Some out \<Rightarrow> stored i out s)
      (raises_unless (sane env req))"
    unfolding run_tool_loop_def
    by (rule stands_bind [OF quiet_programs(1) stands_bind [OF quiet_programs(3) tool_loop_stores [OF assms]]])
       (simp add: empty_loop_result_def)
  have tail: "rt_valid (\<lambda>s. case lr_early_exit r of None \<Rightarrow> stands i I_RUNNING s | Some out \<Rightarrow> stored i out s)
      (case lr_early_exit r of Some out \<Rightarrow> rt_return out | None \<Rightarrow> complete_invocation env req r) (stored i)
      (raises_unless (sane env req))" for r
    using complete_invocation_stores [OF assms]
    by (cases "lr_early_exit r") (simp_all add: rt_valid_def rt_return_def)
  have rest: "rt_valid (\<lambda>s. early = None \<and> stands i I_RUNNING s)
      (case early of Some out \<Rightarrow> rt_return out | None \<Rightarrow>
         rt_bind (save_with_event env ''agent_invocation.started'') (\<lambda>_.
         rt_bind (run_tool_loop env req) (\<lambda>r.
         case lr_early_exit r of Some out \<Rightarrow> rt_return out | None \<Rightarrow> complete_invocation env req r)))
      (stored i) (raises_unless (sane env req))" for early
    using stands_bind [OF quiet_programs(6) rt_valid_bind [OF loop tail]]
    by (cases early) (simp_all add: rt_valid_def)
  show ?thesis
    unfolding execute_invocation_body_def by (rule rt_valid_bind [OF start rest])
qed

lemma execute_invocation_stores:
  assumes "\<not> is_blank (er_agent_id req)" "\<not> is_blank (mp_model_alias (er_model_profile req))"
    and "spares (er_invocation_id req) env"
  shows "case execute_invocation env req now db of
      (Inr out, db', _) \<Rightarrow> \<exists>row. find_row ai_id (er_invocation_id req) (rd_invocations db') = Some row \<and> row_matches out row
    | (Inl _, _) \<Rightarrow> \<not> sane env req"
proof -
  obtain a where a: "create_invocation req now = Inr a" "ai_id a = er_invocation_id req" "ai_status a = I_INITIALIZING"
    using assms(1,2) by (auto simp: create_invocation_def invocation_init_def)
  let ?s = "\<lparr> rs_inv = a, rs_db = db, rs_calls = [], rs_tick = 0 \<rparr>"
  obtain r s' where run: "execute_invocation_body env req ?s = (r, s')" by fastforce
  note valid = execute_body_stores [OF assms(3), of req]
  have pre: "stands (er_invocation_id req) I_INITIALIZING ?s" using a by (simp add: stands_def)
  have "case r of Inl _ \<Rightarrow> \<not> sane env req | Inr out \<Rightarrow> stored (er_invocation_id req) out s'"
    using valid pre run by (auto simp: rt_valid_def split: sum.split dest!: spec [of _ ?s])
  then show ?thesis
    using a(1) run by (simp add: execute_invocation_def stored_def split: sum.splits)
qed

text \<open>C10. Whatever the model, the tools and the reviewers do, an invocation that answers has stored a row that
  says the same: completed with the answer's text and token counts, waiting for a human with the calls it waits
  for, or failed or timed out with a completion time; and it answers, rather than raise and leave the row
  behind, whenever every valid tool call of the model has a text for a name and a JSON object for its
  arguments and the sandbox id is an id.\<close>

theorem invocation_outcome:
  assumes "\<not> is_blank (er_agent_id req)" "\<not> is_blank (mp_model_alias (er_model_profile req))"
    and "spares (er_invocation_id req) env"
  shows "case execute_invocation env req now db of
      (Inr out, db', _) \<Rightarrow> \<exists>row. find_row ai_id (er_invocation_id req) (rd_invocations db') = Some row \<and> row_matches out row
    | (Inl _, _) \<Rightarrow> \<not> sane env req"
  using assms by (rule execute_invocation_stores)

lemma agent_demo_spares: "spares i (agent_demo_env tool)"
  by (simp add: spares_def)

lemma agent_demo_sane: "n \<noteq> [] \<Longrightarrow> sane (agent_demo_env n) agent_demo_request"
  by (auto simp: sane_def agent_demo_invocation agent_demo_model_def sane_call_def split: if_splits)

theorem invocation_outcome_witness:
  "\<exists>out db' calls row. execute_invocation (agent_demo_env ''shell.exec'') agent_demo_request 0 no_rows = (Inr out, db', calls)
     \<and> find_row ai_id 1 (rd_invocations db') = Some row \<and> row_matches out row"
proof -
  obtain r db' calls where run: "execute_invocation (agent_demo_env ''shell.exec'') agent_demo_request 0 no_rows = (r, db', calls)"
    by (metis prod_cases3)
  show ?thesis
    using invocation_outcome [of agent_demo_request "agent_demo_env ''shell.exec''" 0 no_rows] agent_demo_sane [of "''shell.exec''"] run
    by (cases r) (auto simp: agent_demo_spares)
qed

end
