(* ===== verification/Agent_Decisions.thy ===== *)
theory Agent_Decisions
  imports Agent_Properties
begin

text \<open>
  What a reviewer's decision does to a waiting invocation: it is used once, a refusal runs nothing, no
  resumed loop asks again, and the sweep may take the invocation away before the decision.
\<close>

section \<open>Invariants of a resumption\<close>

text \<open>The methods a resumption calls: none of them makes an invocation wait for a human.\<close>

definition never_waits :: "(agent_invocation \<Rightarrow> agent_error + agent_invocation) \<Rightarrow> bool" where
  "never_waits f = (\<forall>a a'. f a = Inr a' \<longrightarrow>
     ai_id a' = ai_id a \<and> (ai_status a \<noteq> I_WAITING_HUMAN \<longrightarrow> ai_status a' \<noteq> I_WAITING_HUMAN))"

lemma methods_never_wait:
  "never_waits mark_waiting_tool" "never_waits resume_from_wait" "never_waits (mark_completed o1 c1 p1 q1 r1 now)"
  "never_waits (mark_invocation_failed d now)" "never_waits (mark_timed_out d now)" "never_waits (mark_cancelled now)"
  "never_waits (\<lambda>a. Inr (a\<lparr>ai_pending_tool_context := c\<rparr>))" "never_waits (\<lambda>a. Inr (a\<lparr>ai_error_detail := c\<rparr>))"
  by (auto simp: never_waits_def mark_waiting_tool_def resume_from_wait_def mark_completed_def
      mark_invocation_failed_def mark_timed_out_def mark_cancelled_def invocation_transition_def rbind_Inr_iff split: if_splits)

text \<open>The contract: an invariant that the calls of models and tools, saves and those methods keep is kept by
  every resumption.\<close>

locale resume_invariant =
  fixes env :: runtime_env and I :: "runtime_state \<Rightarrow> bool"
  assumes keeps_call: "rt_keeps I (make_call env (Model_Call messages tools timeout))"
      "rt_keeps I (make_call env (Tool_Call_Made sid name tool_input k))"
    and keeps_save: "rt_keeps I (save_event env ty p)"
    and keeps_method: "never_waits f \<Longrightarrow> rt_keeps I (on_inv f)"
    and keeps_clock: "rt_keeps I (read_mono env)" "rt_keeps I (read_now env)"
begin

lemma keeps_method_now: "(\<And>now. never_waits (g now)) \<Longrightarrow> rt_keeps I (on_inv_now env g)"
  unfolding on_inv_now_def by (intro rt_rules keeps_clock keeps_method) blast

lemma keeps_saved: "rt_keeps I (save_with_event env ty)"
  unfolding save_with_event_def by (intro rt_rules keeps_save)

lemma keeps_elapsed: "rt_keeps I (elapsed_since env start)"
  unfolding elapsed_since_def by (intro rt_rules keeps_clock)

lemmas keeps = rt_valid_return rt_valid_raise rt_keeps_bind rt_keeps_lift rt_keeps_get
  keeps_call keeps_save keeps_method keeps_method_now keeps_saved keeps_elapsed keeps_clock methods_never_wait

lemma keeps_tool: "rt_keeps I (run_tool_call env sandbox k tc)"
  unfolding run_tool_call_def Let_def by (auto intro!: keeps split: option.split)

lemma keeps_gateway: "rt_keeps I (call_gateway env messages tools timeout)"
  unfolding call_gateway_def by (intro keeps)

lemma keeps_ends:
  "rt_keeps I (resume_fail env b code msg)" "rt_keeps I (resume_complete env extra r)" "rt_keeps I consume_context"
proof -
  have "rt_keeps I (on_inv_now env (if b then mark_timed_out d else mark_invocation_failed d))" for d
    by (cases b) (simp_all add: keeps_method_now methods_never_wait)
  then show "rt_keeps I (resume_fail env b code msg)"
    unfolding resume_fail_def Let_def
    by (intro rt_keeps_bind keeps_saved rt_keeps_get rt_valid_return)
qed (unfold resume_complete_def consume_context_def Let_def, (intro keeps)+)

lemma keeps_resume_dispatch: "rt_keeps I (resume_dispatch env start sandbox tcs acc)"
proof (induction tcs arbitrary: acc)
  case (Cons tc tcs)
  obtain ms f where "acc = (ms, f)" by (cases acc)
  then show ?case by (auto intro!: keeps keeps_tool Cons.IH)
qed (cases acc, simp add: keeps)

lemma keeps_continue_dispatch: "rt_keeps I (continue_dispatch env start sandbox tcs messages)"
  by (induction tcs arbitrary: messages) (auto intro!: keeps keeps_tool)

lemma keeps_override_dispatch: "rt_keeps I (override_dispatch env sandbox tcs messages)"
  by (induction tcs arbitrary: messages) (auto intro!: keeps keeps_tool)

lemma keeps_continue_loop: "rt_keeps I (continue_model_loop env start sandbox n r)"
proof (induction n arbitrary: r)
  case (Suc n)
  show ?case
    unfolding continue_model_loop.simps Let_def
    by (auto intro!: keeps keeps_gateway keeps_ends keeps_continue_dispatch Suc.IH split: sum.split)
qed (simp add: keeps_ends)

lemma keeps_override_loop: "rt_keeps I (override_loop env start sandbox n r)"
proof (induction n arbitrary: r)
  case (Suc n)
  show ?case
    unfolding override_loop.simps Let_def
    by (auto intro!: keeps keeps_gateway keeps_ends keeps_override_dispatch Suc.IH split: sum.split)
qed (simp add: keeps_ends)

lemma keeps_pair: "(\<And>x y. rt_keeps I (g x y)) \<Longrightarrow> rt_keeps I (case p of (x, y) \<Rightarrow> g x y)"
  by (cases p) simp

lemmas keeps_rest = keeps rt_keeps_if keeps_pair keeps_ends keeps_resume_dispatch keeps_continue_loop keeps_override_loop

lemma keeps_resume: "rt_keeps I (resume_loaded env i decision comment override_output a)"
proof -
  have "rt_keeps I (handle_approved env ctx)" for ctx
    unfolding handle_approved_def by (intro keeps_rest)
  moreover have "rt_keeps I (handle_override env ctx out)" for ctx out
    unfolding handle_override_def by (intro keeps_rest)
  moreover have "rt_keeps I (handle_rejected env ctx comment)" for ctx
    unfolding handle_rejected_def by (intro keeps_rest)
  moreover have "rt_keeps I (handle_cancel env ctx comment)" for ctx
    unfolding handle_cancel_def by (intro keeps_rest)
  moreover have "rt_keeps I (missing_context env)"
    unfolding missing_context_def by (intro keeps_rest)
  ultimately show ?thesis
    unfolding resume_loaded_def resume_decision_def by (simp add: rt_valid_return)
qed

end

section \<open>A decision is used once\<close>

text \<open>The row of the invocation is there and no longer waits, and neither does the entity in memory.\<close>

definition decided :: "uuid \<Rightarrow> uuid \<Rightarrow> runtime_state \<Rightarrow> bool" where
  "decided i ws s = (ai_id (rs_inv s) = i \<and> ai_status (rs_inv s) \<noteq> I_WAITING_HUMAN
     \<and> (\<exists>row. find_row ai_id i (rd_invocations (rs_db s)) = Some row \<and> ai_workspace_id row = ws
          \<and> ai_status row \<noteq> I_WAITING_HUMAN))"

text \<open>Before the first save the row may still wait.\<close>

definition deciding :: "uuid \<Rightarrow> uuid \<Rightarrow> runtime_state \<Rightarrow> bool" where
  "deciding i ws s = (ai_id (rs_inv s) = i \<and> ai_status (rs_inv s) \<noteq> I_WAITING_HUMAN
     \<and> (\<exists>row. find_row ai_id i (rd_invocations (rs_db s)) = Some row \<and> ai_workspace_id row = ws))"

lemma save_decides: "rt_valid (deciding i ws) (save_event env ty p) (\<lambda>_. decided i ws) E"
proof (rule rt_validI)
  fix s a s' assume s: "deciding i ws s" "save_event env ty p s = (Inr a, s')"
  then obtain row where "find_row ai_id i (rd_invocations (rs_db s)) = Some row" "ai_workspace_id row = ws"
    by (auto simp: deciding_def)
  moreover from this have "ai_id row = i" by (auto dest: find_row_key)
  ultimately show "decided i ws s'"
    using s by (auto simp: save_event_def rt_bind_def read_now_def deciding_def decided_def invocation_save_def invocation_row_def)
qed (auto simp: save_event_def rt_bind_def read_now_def)

lemma decided_deciding: "decided i ws s \<Longrightarrow> deciding i ws s"
  by (auto simp: decided_def deciding_def)

text \<open>It stays so, provided the world spares the row.\<close>

interpretation decided: resume_invariant env "\<lambda>s. spares i env \<longrightarrow> decided i ws s" for env i ws
proof
  have call: "rt_keeps (\<lambda>s. spares i env \<longrightarrow> decided i ws s) (make_call env c)" for c
    by (auto simp: rt_valid_def make_call_def decided_def spares_def)
  show "rt_keeps (\<lambda>s. spares i env \<longrightarrow> decided i ws s) (make_call env (Model_Call messages tools timeout))"
      "rt_keeps (\<lambda>s. spares i env \<longrightarrow> decided i ws s) (make_call env (Tool_Call_Made sid name tool_input k))"
    for messages tools timeout sid name tool_input k
    by (rule call)+
  show "rt_keeps (\<lambda>s. spares i env \<longrightarrow> decided i ws s) (save_event env ty p)" for ty p
    using save_decides [of i ws env ty p] decided_deciding [of i ws]
    by (auto simp: rt_valid_def save_event_def rt_bind_def read_now_def)
  show "rt_keeps (\<lambda>s. spares i env \<longrightarrow> decided i ws s) (on_inv f)" if "never_waits f" for f
    using that by (auto simp: rt_valid_def on_inv_def decided_def never_waits_def split: sum.split)
qed (simp_all add: rt_valid_def read_mono_def read_now_def decided_def)

lemma deciding_save:
  assumes "spares i env" "\<And>a. rt_keeps (\<lambda>s. spares i env \<longrightarrow> decided i ws s) (f a)"
  shows "rt_valid (deciding i ws) (rt_bind (save_with_event env ty) f) (\<lambda>_. decided i ws) (\<lambda>_. decided i ws)"
  by (rule rt_valid_bind [OF save_with_event_valid [OF save_decides]],
      rule rt_valid_weaken [OF assms(2)]) (simp_all add: assms(1))

text \<open>A step that leaves the database alone.\<close>

lemma deciding_bind:
  assumes "\<And>s. P s \<Longrightarrow> \<exists>a s'. m s = (Inr a, s') \<and> deciding i ws s'"
    and "\<And>a. rt_valid (deciding i ws) (f a) Q E"
  shows "rt_valid P (rt_bind m f) Q E"
proof (rule rt_valid_bind [OF _ assms(2)])
  show "rt_valid P m (\<lambda>_. deciding i ws) E"
  proof (rule rt_validI)
    show "E e s'" if "P s" "m s = (Inl e, s')" for s e s'
      using assms(1) [OF that(1)] that(2) by auto
    show "deciding i ws s'" if "P s" "m s = (Inr a, s')" for s a s'
      using assms(1) [OF that(1)] that(2) by auto
  qed
qed

definition waiting_state :: "uuid \<Rightarrow> uuid \<Rightarrow> runtime_state \<Rightarrow> bool" where
  "waiting_state i ws s = (ai_id (rs_inv s) = i \<and> ai_status (rs_inv s) = I_WAITING_HUMAN
     \<and> (\<exists>row. find_row ai_id i (rd_invocations (rs_db s)) = Some row \<and> ai_workspace_id row = ws))"

lemma first_moves:
  assumes "waiting_state i ws s"
  shows "\<exists>a s'. on_inv resume_from_wait s = (Inr a, s') \<and> deciding i ws s'"
    and "\<exists>a s'. on_inv_now env (mark_invocation_failed d) s = (Inr a, s') \<and> deciding i ws s'"
    and "\<exists>a s'. on_inv_now env mark_cancelled s = (Inr a, s') \<and> deciding i ws s'"
  using assms
  by (auto simp: waiting_state_def deciding_def on_inv_def on_inv_now_def rt_bind_def read_now_def resume_from_wait_def
      mark_invocation_failed_def mark_cancelled_def invocation_transition_Inr)

lemma consume_moves:
  assumes "deciding i ws s"
  shows "\<exists>a s'. consume_context s = (Inr a, s') \<and> deciding i ws s'"
    and "\<exists>a s'. on_inv (\<lambda>a. Inr (a\<lparr>ai_error_detail := d\<rparr>)) s = (Inr a, s') \<and> deciding i ws s'"
  using assms by (auto simp: deciding_def consume_context_def on_inv_def)

text \<open>The decisions the handler acts on.\<close>

definition acts :: "string \<Rightarrow> string option \<Rightarrow> agent_invocation \<Rightarrow> bool" where
  "acts decision override_output a =
     (map_of (opt_or (ai_pending_tool_context a) []) ''tool_calls'' = None
      \<or> decision \<in> {''approved'', ''rejected'', ''cancel''} \<or> decision = ''override'' \<and> str_truthy override_output)"

lemma resume_decides:
  assumes "spares i env" "acts decision override_output a" "ai_status a = I_WAITING_HUMAN"
  shows "rt_valid (waiting_state i ws) (resume_loaded env i decision comment override_output a)
     (\<lambda>_. decided i ws) (\<lambda>_. decided i ws)"
proof -
  note save = deciding_save [OF assms(1)]
  note consume_save = deciding_bind [OF consume_moves(1) save]
  have approved: "rt_valid (waiting_state i ws) (handle_approved env ctx) (\<lambda>_. decided i ws) (\<lambda>_. decided i ws)" for ctx
    unfolding handle_approved_def
    by (rule deciding_bind [OF first_moves(1)], assumption, rule consume_save, assumption, intro decided.keeps_rest)
  have override: "rt_valid (waiting_state i ws) (handle_override env ctx out) (\<lambda>_. decided i ws) (\<lambda>_. decided i ws)" for ctx out
    unfolding handle_override_def
    by (rule deciding_bind [OF first_moves(1)], assumption, rule consume_save, assumption, intro decided.keeps_rest)
  have rejected: "rt_valid (waiting_state i ws) (handle_rejected env ctx comment) (\<lambda>_. decided i ws) (\<lambda>_. decided i ws)" for ctx
    unfolding handle_rejected_def
    by (rule deciding_bind [OF first_moves(2)], assumption, rule consume_save, assumption, intro decided.keeps_rest)
  have cancel: "rt_valid (waiting_state i ws) (handle_cancel env ctx comment) (\<lambda>_. decided i ws) (\<lambda>_. decided i ws)" for ctx
    unfolding handle_cancel_def
    by (rule deciding_bind [OF first_moves(3)], assumption, rule deciding_bind [OF consume_moves(1)], assumption,
        rule deciding_bind [OF consume_moves(2)], assumption, rule save, intro decided.keeps_rest)
  have missing: "rt_valid (waiting_state i ws) (missing_context env) (\<lambda>_. decided i ws) (\<lambda>_. decided i ws)"
    unfolding missing_context_def
    by (rule deciding_bind [OF first_moves(2)], assumption, rule save, intro decided.keeps_rest)
  show ?thesis
    using assms(2,3) approved override rejected cancel missing
    by (auto simp: resume_loaded_def resume_decision_def acts_def)
qed

lemma get_by_row:
  assumes "find_row ai_id i (rd_invocations db) = Some a" "ai_workspace_id a = ws"
  shows "invocation_get i ws db = Some a"
proof -
  have "find (\<lambda>a. ai_id a = i \<and> ai_workspace_id a = ws) xs = Some a"
    if "find_row ai_id i xs = Some a" for xs
    using that assms(2) by (induction xs) (auto split: if_splits)
  then show ?thesis using assms(1) by (simp add: invocation_get_def)
qed


section \<open>No second question\<close>

definition asks_human :: "runtime_call \<Rightarrow> bool" where
  "asks_human c = (case c of Approval_Request _ _ _ \<Rightarrow> True | _ \<Rightarrow> False)"

interpretation silent: resume_invariant env "calls_all (\<lambda>c. \<not> asks_human c)" for env
  by unfold_locales (simp_all add: make_call_keeps appends_def asks_human_def rt_rules)

text \<open>An invocation that waits for the approval of one shell command.\<close>

definition waiting_row :: agent_invocation where
  "waiting_row = \<lparr> ai_id = 1, ai_step_id = 5, ai_run_id = 4, ai_task_id = 3, ai_workspace_id = 2,
     ai_correlation_id = 6, ai_agent_id = ''a'', ai_model_id = ''m'', ai_status = I_WAITING_HUMAN,
     ai_prompt_tokens = None, ai_completion_tokens = None, ai_total_cost = None,
     ai_input_messages = None, ai_output_messages = None, ai_tool_calls = None, ai_error_detail = None,
     ai_pending_tool_context = Some [(''tool_calls'', JList [agent_tool_request ''shell.exec'']), (''sandbox_id'', JUuid 9),
       (''gated_tool_name'', JStr ''shell.exec'')],
     ai_started_at = Some 7, ai_completed_at = None, ai_created_at = 0 \<rparr>"

definition waiting_db :: runtime_db where
  "waiting_db = \<lparr> rd_invocations = [waiting_row], rd_outbox = [] \<rparr>"


lemmas resume_simps = resume_invocation_def repository_unit_of_work_def invocation_get_def resume_loaded_def
  resume_decision_def handle_approved_def consume_context_def resume_start_def resume_note_def ctx_calls_def ctx_asked_def
  ctx_messages_def ctx_gateway_def json_items_def json_int_def json_fields_def json_text_def jget_def
  parse_sandbox_id_def json_truthy_def

lemma agent_demo_resume:
  "filter (\<lambda>c. case c of Tool_Call_Made _ _ _ _ \<Rightarrow> True | _ \<Rightarrow> False)
     (snd (snd (resume_invocation repository_unit_of_work (agent_demo_env ''python.run_script'') 1 2 ''approved'' None None waiting_db)))
   = [Tool_Call_Made 9 (JStr ''shell.exec'') (JObj [(''code'', JStr ''ls'')]) 0,
      Tool_Call_Made 9 (JStr ''python.run_script'') (JObj [(''code'', JStr ''ls'')]) 0]"
  by (simp add: agent_run_simps resume_simps agent_demo_model_def waiting_db_def waiting_row_def max_tool_turns_def eval_nat_numeral
    invocation_budget_ms_def resume_complete_def)

text \<open>A resumption never asks a human again: whatever the model of a resumed invocation requests runs at once,
  so in gate mode the approval of one shell command lets a script run that no reviewer has seen.\<close>

theorem resume_never_asks:
  "list_all (\<lambda>c. \<not> asks_human c) (snd (snd (resume_invocation uow env i ws decision comment out db)))
   \<and> re_mode (agent_demo_env ''python.run_script'') = AM_GATE \<and> tool_is_gated (JStr ''python.run_script'')
   \<and> map call_name (ctx_calls (the (ai_pending_tool_context waiting_row))) = [JStr ''shell.exec'']
   \<and> Tool_Call_Made 9 (JStr ''python.run_script'') (JObj [(''code'', JStr ''ls'')]) 0
       \<in> set (snd (snd (resume_invocation repository_unit_of_work (agent_demo_env ''python.run_script'') 1 2 ''approved'' None None waiting_db)))"
proof (intro conjI)
  show "list_all (\<lambda>c. \<not> asks_human c) (snd (snd (resume_invocation uow env i ws decision comment out db)))"
    by (rule resume_invocation_calls [OF silent.keeps_resume]) simp_all
  show "Tool_Call_Made 9 (JStr ''python.run_script'') (JObj [(''code'', JStr ''ls'')]) 0
       \<in> set (snd (snd (resume_invocation repository_unit_of_work (agent_demo_env ''python.run_script'') 1 2 ''approved'' None None waiting_db)))"
    using arg_cong [OF agent_demo_resume, of set] by auto
qed (simp_all add: tool_is_gated_def gated_tools_def waiting_row_def ctx_calls_def json_items_def jget_def)

section \<open>Refusals\<close>

text \<open>A refused invocation runs nothing: rejecting or cancelling makes no call at all and stores the
  invocation as failed or cancelled, with the reviewer's reason and without its pending calls.\<close>

theorem refusal_runs_nothing:
  assumes "find_row ai_id i (rd_invocations db) = Some a" "ai_workspace_id a = ws" "ai_status a = I_WAITING_HUMAN"
    and "map_of (opt_or (ai_pending_tool_context a) []) ''tool_calls'' \<noteq> None"
    and "decision \<in> {''rejected'', ''cancel''}"
  shows "\<exists>answer db' row detail. resume_invocation repository_unit_of_work env i ws decision comment out db = (Inr answer, db', [])
     \<and> find_row ai_id i (rd_invocations db') = Some row
     \<and> ai_status row = (if decision = ''rejected'' then I_FAILED else I_CANCELLED)
     \<and> ai_completed_at row \<noteq> None \<and> ai_pending_tool_context row = None
     \<and> ai_error_detail row = Some detail \<and> map_of detail ''reviewer_comment'' = Some (opt_str comment)
     \<and> map_of answer ''status'' = Some (JStr (invocation_status_value (ai_status row)))
     \<and> length (rd_outbox db') = Suc (length (rd_outbox db))"
proof -
  have i: "ai_id a = i" using assms(1) by (auto dest: find_row_key)
  obtain calls where calls: "map_of (opt_or (ai_pending_tool_context a) []) ''tool_calls'' = Some calls"
    using assms(4) by blast
  note run = resume_invocation_def repository_unit_of_work_def resume_loaded_def resume_decision_def rt_bind_def
    on_inv_now_def read_now_def on_inv_def consume_context_def save_with_event_def save_event_def get_inv_def rt_return_def
    invocation_save_def invocation_transition_Inr resume_answer_def decision_detail_def
  consider "decision = ''rejected''" | "decision = ''cancel''" using assms(5) by blast
  then show ?thesis
  proof cases
    case 1
    then show ?thesis
      using assms(1-3) calls i get_by_row [OF assms(1,2)]
      by (simp add: run handle_rejected_def mark_invocation_failed_def keep_or_def) (simp add: invocation_row_def)
  next
    case 2
    then show ?thesis
      using assms(1-3) calls i get_by_row [OF assms(1,2)]
      by (simp add: run handle_cancel_def mark_cancelled_def) (simp add: invocation_row_def)
  qed
qed

theorem refusal_runs_nothing_witness:
  "\<exists>answer db' row detail. resume_invocation repository_unit_of_work (agent_demo_env ''t'') 1 2 ''rejected'' (Some ''no'') None waiting_db
       = (Inr answer, db', [])
     \<and> find_row ai_id 1 (rd_invocations db') = Some row
     \<and> ai_status row = I_FAILED
     \<and> ai_completed_at row \<noteq> None \<and> ai_pending_tool_context row = None
     \<and> ai_error_detail row = Some detail \<and> map_of detail ''reviewer_comment'' = Some (JStr ''no'')"
  using refusal_runs_nothing [of 1 waiting_db waiting_row 2 "''rejected''" "agent_demo_env ''t''" "Some ''no''" None]
  by (auto simp: waiting_db_def waiting_row_def opt_str_def)

section \<open>The sweep\<close>

lemma find_row_map_if:
  assumes "\<And>a. ai_id (g a) = ai_id a"
  shows "find_row ai_id i (map (\<lambda>a. if ai_id a = k \<and> ai_completed_at a = None then g a else a) xs)
      = map_option (\<lambda>a. if i = k \<and> ai_completed_at a = None then g a else a) (find_row ai_id i xs)"
  using assms by (induction xs) auto

lemma recover_row:
  "find_row ai_id i (rd_invocations (recover_invocation t now row db)) =
     map_option (\<lambda>a. if i = ai_id row \<and> ai_completed_at a = None
        then a\<lparr> ai_status := I_FAILED, ai_completed_at := Some now,
               ai_error_detail := Some [(''error_code'', JStr (stuck_reason (ai_status row))),
                 (''error_message'', JStr (''Invocation stuck in '' @ invocation_status_value (ai_status row)
                    @ '' for '' @ str_int (invocation_age_s now row) @ ''s (timeout: '' @ str_int t @ ''s)'')),
                 (''recovered_at'', JInt now)] \<rparr>
        else a) (find_row ai_id i (rd_invocations db))"
  unfolding recover_invocation_def by (simp add: find_row_map_if)

text \<open>Recovered rows stay as they are; a listed row that is not completed becomes failed.\<close>

lemma recover_rows:
  assumes "find_row ai_id i (rd_invocations db) = Some a"
    and "ai_completed_at a = None \<and> i \<in> ai_id ` set rows \<or> ai_completed_at a \<noteq> None \<and> ai_status a = I_FAILED"
  shows "\<exists>row. find_row ai_id i (rd_invocations (fold (recover_invocation t now) rows db)) = Some row
     \<and> ai_status row = I_FAILED \<and> ai_completed_at row \<noteq> None \<and> ai_workspace_id row = ai_workspace_id a"
  using assms
proof (induction rows arbitrary: db a)
  case (Cons r rows)
  show ?case
  proof (cases "ai_id r = i \<and> ai_completed_at a = None")
    case True
    let ?db = "recover_invocation t now r db"
    obtain b where b: "find_row ai_id i (rd_invocations ?db) = Some b" "ai_completed_at b \<noteq> None"
        "ai_status b = I_FAILED" "ai_workspace_id b = ai_workspace_id a"
      using True Cons.prems(1) by (simp add: recover_row)
    then show ?thesis using Cons.IH [OF b(1)] by simp
  next
    case False
    then have "find_row ai_id i (rd_invocations (recover_invocation t now r db)) = Some a"
      using Cons.prems(1) by (auto simp: recover_row)
    then show ?thesis using Cons.IH [of "recover_invocation t now r db" a] Cons.prems False by auto
  qed
qed auto

text \<open>The sweep takes waiting invocations away from their reviewers: an invocation whose approval is pending is
  failed by the first sweep more than five minutes after it started, and a decision that comes later is
  refused and runs nothing.\<close>

theorem waiting_human_swept:
  assumes "find_row ai_id i (rd_invocations db) = Some a" "a \<in> set (rd_invocations db)" "ai_workspace_id a = ws"
    and "ai_status a = I_WAITING_HUMAN" "ai_completed_at a = None"
    and "opt_or (ai_started_at a) (ai_created_at a) + 300 * 1000000 < now"
    and "length (rd_invocations db) \<le> 100"
  shows "case recover_stuck_invocations None False now db of (rows, db') \<Rightarrow>
      a \<in> set rows \<and> (\<exists>row answer. invocation_get i ws db' = Some row \<and> ai_status row = I_FAILED
        \<and> map_of answer ''error'' = Some (JStr ''INVALID_STATE'')
        \<and> resume_invocation repository_unit_of_work env i ws ''approved'' comment out db' = (Inr answer, db', []))"
proof -
  let ?rows = "stuck_invocations (now - 300 * 1000000) db"
  have len: "length (filter P (rd_invocations db)) \<le> 100" for P
    by (rule le_trans [OF length_filter_le assms(7)])
  have rows: "a \<in> set ?rows"
    using assms len by (simp add: stuck_invocations_def stuck_invocation_states_def take_all)
  have "i \<in> ai_id ` set ?rows" using rows assms(1) by (auto dest: find_row_key)
  with recover_rows [OF assms(1), of ?rows 300 now] assms(5)
  obtain row where "find_row ai_id i (rd_invocations (fold (recover_invocation 300 now) ?rows db)) = Some row"
    and failed: "ai_status row = I_FAILED" and "ai_workspace_id row = ws"
    using assms(3) by auto
  then have "invocation_get i ws (fold (recover_invocation 300 now) ?rows db) = Some row"
    by (intro get_by_row) simp_all
  then show ?thesis
    using rows failed
    by (simp add: recover_stuck_invocations_def invocation_stuck_timeout_s_def resume_invocation_def
        repository_unit_of_work_def resume_loaded_def rt_return_def Let_def)
qed

theorem waiting_human_swept_witness:
  "case recover_stuck_invocations None False 300000008 waiting_db of (rows, db') \<Rightarrow>
      waiting_row \<in> set rows \<and> (\<exists>row answer. invocation_get 1 2 db' = Some row \<and> ai_status row = I_FAILED
        \<and> map_of answer ''error'' = Some (JStr ''INVALID_STATE'')
        \<and> resume_invocation repository_unit_of_work (agent_demo_env ''t'') 1 2 ''approved'' None None db' = (Inr answer, db', []))"
  by (rule waiting_human_swept) (simp_all add: waiting_db_def waiting_row_def)

end
