(* ===== verification/System_Execution.thy ===== *)
theory System_Execution
  imports Runtime_Client Agent_Decisions
begin

text \<open>
  The orchestrator and the agent runtime together: the endpoint \<open>/internal/v1/invocations/execute\<close> of
  \<open>apps/agent-runtime/src/api/routes.py\<close> behind the HTTP client of the orchestrator, and what the two
  databases say of one execution.
\<close>

section \<open>The endpoint\<close>

text \<open>The validation of the body and the request it becomes.  Ids are ids of the model; a sandbox id that is
  none is refused, as is every other bad field, with status 422 and a text \<open>detail\<close>.\<close>

definition execute_body :: "runtime_request \<Rightarrow> execution_request option" where
  "execute_body rq =
    (let q = rq_dispatch rq in
     if dr_agent_id q = [] \<or> dr_model_alias q = [] \<or> dr_instruction q = []
       \<or> rq_timeout_ms rq < 1000 \<or> 300000 < rq_timeout_ms rq
     then None
     else
       let body = (\<lambda>payload. Some \<lparr>
             er_invocation_id = dr_invocation_id q, er_workspace_id = dr_workspace_id q, er_task_id = dr_task_id q,
             er_run_id = dr_run_id q, er_step_id = dr_step_id q, er_correlation_id = dr_correlation_id q,
             er_agent_id = dr_agent_id q,
             er_model_profile = \<lparr> mp_model_alias = dr_model_alias q, mp_max_tokens = None, mp_temperature = None \<rparr>,
             er_instruction = dr_instruction q, er_input_payload = payload, er_timeout_ms = rq_timeout_ms rq \<rparr>)
       in (case rq_sandbox_id rq of
             None \<Rightarrow> body (dr_input_payload q)
           | Some (JUuid s) \<Rightarrow> body (dict_put ''sandbox_id'' (JUuid s) (dr_input_payload q))
           | Some _ \<Rightarrow> None))"

text \<open>The answer, by the fields the client reads.\<close>

definition answer_fields :: "execution_outcome \<Rightarrow> response_fields" where
  "answer_fields out =
    (case out of
       Failed f \<Rightarrow> \<lparr> rf_status = Some (execution_status_value (ef_status f)), rf_output_text = None,
          rf_error_code = Some (ef_error_code f), rf_error_message = Some (ef_error_message f),
          rf_retryable = Some (ef_retryable f), rf_prompt_tokens = None, rf_completion_tokens = None \<rparr>
     | Done r \<Rightarrow> \<lparr> rf_status = Some (execution_status_value (eu_status r)),
          rf_output_text = (case jget ''output_text'' (JStr []) (eu_output_payload r) of JStr s \<Rightarrow> Some s | _ \<Rightarrow> None),
          rf_error_code = None, rf_error_message = None, rf_retryable = None,
          rf_prompt_tokens = Some (eu_prompt_tokens r), rf_completion_tokens = Some (eu_completion_tokens r) \<rparr>)"

text \<open>The endpoint as the client's HTTP call: the state is the runtime's database.  An exception of the
  handler is a 500.\<close>

definition execute_endpoint ::
  "runtime_env \<Rightarrow> time \<Rightarrow> string \<Rightarrow> runtime_request \<Rightarrow> int \<Rightarrow> runtime_db \<Rightarrow> http_outcome \<times> runtime_db" where
  "execute_endpoint renv now detail rq timeout db =
    (case execute_body rq of
       None \<Rightarrow> (HttpResponse 422 detail NotJson, db)
     | Some req \<Rightarrow>
         (case execute_invocation renv req now db of
            (Inl _, db', _) \<Rightarrow> (HttpResponse 500 ''Internal Server Error'' NotJson, db')
          | (Inr out, db', _) \<Rightarrow> (HttpResponse 200 [] (Obj (answer_fields out)), db')))"

text \<open>The fields are those of the endpoint's JSON object.\<close>

lemma answer_fields_outcome:
  "map_of (outcome_fields out) ''status'' = map_option JStr (rf_status (answer_fields out))"
  "map_of (outcome_fields out) ''error_code'' = map_option JStr (rf_error_code (answer_fields out))"
  "map_of (outcome_fields out) ''prompt_tokens'' = map_option JInt (rf_prompt_tokens (answer_fields out))"
  by (simp_all add: outcome_fields_def answer_fields_def split: execution_outcome.split)

section \<open>One attempt\<close>

text \<open>What the client reports of an invocation.\<close>

definition reported_status :: "agent_error + execution_outcome \<Rightarrow> string" where
  "reported_status r =
    (case r of Inl _ \<Rightarrow> ''failed'' | Inr (Done d) \<Rightarrow> execution_status_value (eu_status d)
     | Inr (Failed f) \<Rightarrow> execution_status_value (ef_status f))"

text \<open>The first attempt has the whole budget, and the answer of the runtime is never retried.\<close>

lemma dispatch_execute:
  assumes "1500 \<le> dr_timeout_ms q" "dr_timeout_ms q \<le> 300000"
    and "execute_body \<lparr> rq_dispatch = q, rq_sandbox_id = promoted_sandbox q, rq_timeout_ms = dr_timeout_ms q - 500 \<rparr> = Some req"
    and "execute_invocation renv req now db = (r, db', calls)"
  shows "\<exists>x. http_dispatch jit (execute_endpoint renv now detail) clock q db = (Inr x, db')
     \<and> rr_status x = reported_status r"
proof -
  let ?b = "\<lparr> tb_total_ms = dr_timeout_ms q, tb_start = clock db \<rparr>"
  let ?fn = "dispatch_attempt (execute_endpoint renv now detail) clock ?b q"
  have b: "budget_new (dr_timeout_ms q) (clock db) = Inr ?b" using assms(1) by (simp add: budget_new_def)
  have fresh: "\<not> is_exhausted ?b (clock db)" "remaining_for_downstream ?b 500 (clock db) = dr_timeout_ms q - 500"
    using assms(1) by (simp_all add: is_exhausted_def remaining_for_downstream_def remaining_ms_def elapsed_ms_def min_useful_ms_def)
  have "\<exists>x. ?fn db = (Inr x, db') \<and> rr_status x = reported_status r"
    using fresh assms(3,4)
    by (cases r)
       (auto simp: dispatch_attempt_def execute_endpoint_def response_result_def is_retryable_status_code_def Let_def
          client_result_def reported_status_def body_result_def answer_fields_def split: execution_outcome.split)
  then obtain x where x: "?fn db = (Inr x, db')" "rr_status x = reported_status r" by blast
  then have "retry_with_backoff jit dispatch_retry ?fn is_transient db = (Inr x, db', [])"
    by (simp add: retry_with_backoff_def retry_loop_stop retry_again_def)
  then show ?thesis using b x(2) by (simp add: http_dispatch_def)
qed

section \<open>One execution in both services\<close>

definition runtime_request_of :: "exec_env \<Rightarrow> exec_ctx \<Rightarrow> uuid \<Rightarrow> runtime_request" where
  "runtime_request_of env x sandbox = (let q = dispatch_request_of env x (Some sandbox) in
     \<lparr> rq_dispatch = q, rq_sandbox_id = promoted_sandbox q, rq_timeout_ms = dr_timeout_ms q - 500 \<rparr>)"

text \<open>The orchestrator whose dispatch port is the HTTP client in front of the runtime.\<close>

definition joined_env ::
  "(nat \<Rightarrow> int \<Rightarrow> int) \<Rightarrow> (runtime_db \<Rightarrow> time) \<Rightarrow> runtime_env \<Rightarrow> time \<Rightarrow> string \<Rightarrow> runtime_db \<Rightarrow> exec_env \<Rightarrow> exec_env" where
  "joined_env jit clock renv rnow detail rdb env = env\<lparr> en_dispatch :=
     (\<lambda>q. fst (http_dispatch jit (execute_endpoint renv rnow detail) clock q rdb)) \<rparr>"

lemma promoted_sandbox_put [simp]:
  "promoted_sandbox (dispatch_request_of env x (Some sandbox)) = Some (JUuid sandbox)"
  by (simp add: promoted_sandbox_def dispatch_request_of_def json_truthy_def)

lemma execute_body_of:
  assumes "1500 \<le> en_timeout_ms env" "en_timeout_ms env \<le> 300000" "en_model_alias env \<noteq> []" "xc_title x \<noteq> []"
  shows "\<exists>req. execute_body (runtime_request_of env x sandbox) = Some req \<and> er_invocation_id req = xc_invocation x
    \<and> er_agent_id req = ''default-agent'' \<and> mp_model_alias (er_model_profile req) = en_model_alias env"
  using assms
  by (simp add: execute_body_def runtime_request_of_def Let_def) (simp add: dispatch_request_of_def)

text \<open>What the orchestrator makes of the runtime's answer.\<close>

definition agreed :: "uuid \<Rightarrow> uuid_supply \<Rightarrow> uuid \<Rightarrow> exec_outcome \<Rightarrow> agent_error + execution_outcome \<Rightarrow> runtime_db \<Rightarrow> bool" where
  "agreed k u sandbox out r rdb' =
    (let task = map_option t_status (task_get k (xo_db out)); run = map_option r_status (run_get (u 3) (xo_db out))
     in case r of
          Inl _ \<Rightarrow> task = Some T_FAILED \<and> run = Some R_FAILED \<and> last (xo_calls out) = Terminate_Sandbox sandbox ''error''
        | Inr _ \<Rightarrow> (\<exists>row. find_row ai_id (u 1) (rd_invocations rdb') = Some row
            \<and> (task = Some T_COMPLETED) = (ai_status row = I_COMPLETED)
            \<and> (run = Some R_TIMED_OUT \<longrightarrow> ai_status row = I_TIMED_OUT)
            \<and> (ai_status row = I_WAITING_HUMAN \<longrightarrow> task = Some T_FAILED \<and> run = Some R_FAILED
                 \<and> last (xo_calls out) = Terminate_Sandbox sandbox ''error'')))"



end
