(* ===== verification/Internal_Auth.thy ===== *)
theory Internal_Auth
  imports Prelude
begin

text \<open>
  Authentication between services, \<open>packages/internal-auth\<close>: the configuration (\<open>config.py\<close>), the issuer and the
  verifier of tokens (\<open>token.py\<close>) and the FastAPI dependencies that guard internal endpoints (\<open>fastapi_dep.py\<close>).

  The package \<open>jwt\<close> is a pair of functions on tokens of any type; \<open>jwt_sound\<close> states what its documentation
  promises for a token that is verified with the secret it was signed with.
\<close>

section \<open>Configuration\<close>

datatype auth_config_error = AC_Runtime_Error string | AC_Value_Error

record auth_config =
  ac_secret :: string
  ac_service_name :: string
  ac_issuer :: string
  ac_ttl_seconds :: int

definition default_issuer :: string where "default_issuer = ''monaos-internal''"

text \<open>\<open>int(s)\<close>: blanks around it, a sign, and single underscores between digits.\<close>

fun py_digits :: "int \<Rightarrow> string \<Rightarrow> int option" where
  "py_digits acc [] = None"
| "py_digits acc [c] = map_option (\<lambda>d. 10 * acc + d) (digit_value c)"
| "py_digits acc (c # d # s) =
    (case digit_value c of
       None \<Rightarrow> None
     | Some v \<Rightarrow> if d = CHR ''_'' then py_digits (10 * acc + v) s else py_digits (10 * acc + v) (d # s))"

definition py_int :: "string \<Rightarrow> int option" where
  "py_int s = (case py_strip s of
       [] \<Rightarrow> None
     | c # cs \<Rightarrow>
         if c = CHR ''-'' then map_option uminus (py_digits 0 cs)
         else if c = CHR ''+'' then py_digits 0 cs
         else py_digits 0 (c # cs))"

definition load_internal_auth_config ::
  "(string \<Rightarrow> string option) \<Rightarrow> string option \<Rightarrow> auth_config_error + auth_config" where
  "load_internal_auth_config environ service_name =
    (if \<not> str_truthy (environ ''INTERNAL_AUTH_SECRET'') then Inl (AC_Runtime_Error ''INTERNAL_AUTH_SECRET'')
     else
       let svc = (if str_truthy service_name then service_name else environ ''SERVICE_NAME'') in
       if \<not> str_truthy svc then Inl (AC_Runtime_Error ''SERVICE_NAME'')
       else case py_int (opt_or (environ ''INTERNAL_AUTH_TTL_SECONDS'') ''300'') of
         None \<Rightarrow> Inl AC_Value_Error
       | Some ttl \<Rightarrow> Inr \<lparr> ac_secret = the (environ ''INTERNAL_AUTH_SECRET''), ac_service_name = the svc,
                          ac_issuer = opt_or (environ ''INTERNAL_AUTH_ISSUER'') default_issuer, ac_ttl_seconds = ttl \<rparr>)"

section \<open>Tokens\<close>

datatype jwt_error = JWT_Expired | JWT_Audience | JWT_Issuer | JWT_Other string

record 't jwt_lib =
  jl_encode :: "dict \<Rightarrow> string \<Rightarrow> 't"
  jl_decode :: "'t \<Rightarrow> string \<Rightarrow> time \<Rightarrow> string \<Rightarrow> string \<Rightarrow> jwt_error + dict"

record token_issuer =
  ti_secret :: string
  ti_service_name :: string
  ti_issuer :: string
  ti_ttl_seconds :: int

definition token_issuer_init :: "string \<Rightarrow> string \<Rightarrow> string \<Rightarrow> int \<Rightarrow> auth_config_error + token_issuer" where
  "token_issuer_init secret service_name issuer ttl =
    (if secret = [] then Inl AC_Value_Error
     else if service_name = [] then Inl AC_Value_Error
     else Inr \<lparr> ti_secret = secret, ti_service_name = service_name, ti_issuer = issuer, ti_ttl_seconds = ttl \<rparr>)"

text \<open>The library writes a \<open>datetime\<close> as the whole seconds of its timestamp.\<close>

definition token_payload :: "token_issuer \<Rightarrow> string \<Rightarrow> time \<Rightarrow> string \<Rightarrow> dict" where
  "token_payload ti jti now audience =
     [(''sub'', JStr (ti_service_name ti)), (''aud'', JStr audience), (''iss'', JStr (ti_issuer ti)), (''jti'', JStr jti),
      (''iat'', JInt (now div 1000000)), (''exp'', JInt ((now + ti_ttl_seconds ti * 1000000) div 1000000)),
      (''service_name'', JStr (ti_service_name ti))]"

definition issue_token :: "'t jwt_lib \<Rightarrow> token_issuer \<Rightarrow> string \<Rightarrow> time \<Rightarrow> string \<Rightarrow> 't" where
  "issue_token lib ti jti now audience = jl_encode lib (token_payload ti jti now audience) (ti_secret ti)"

record token_verifier =
  tv_secret :: string
  tv_expected_audience :: string
  tv_issuer :: string

definition token_verifier_init :: "string \<Rightarrow> string \<Rightarrow> string \<Rightarrow> auth_config_error + token_verifier" where
  "token_verifier_init secret audience issuer =
    (if secret = [] then Inl AC_Value_Error
     else if audience = [] then Inl AC_Value_Error
     else Inr \<lparr> tv_secret = secret, tv_expected_audience = audience, tv_issuer = issuer \<rparr>)"

record token_claims =
  tc_sub :: json
  tc_aud :: json
  tc_iss :: json
  tc_jti :: json
  tc_iat :: time
  tc_exp :: time
  tc_service_name :: json

text \<open>The last two are no errors of the package: a missing claim, and a time that is no number.\<close>

datatype verify_error = VE_Invalid | VE_Expired | VE_Audience | VE_Unauthorized | VE_Key_Error string | VE_Type_Error

definition required_claim :: "dict \<Rightarrow> string \<Rightarrow> verify_error + json" where
  "required_claim payload k = (case map_of payload k of None \<Rightarrow> Inl (VE_Key_Error k) | Some v \<Rightarrow> Inr v)"

definition time_claim :: "dict \<Rightarrow> string \<Rightarrow> verify_error + time" where
  "time_claim payload k = rbind (required_claim payload k) (\<lambda>v.
     case v of JInt n \<Rightarrow> Inr (n * 1000000) | _ \<Rightarrow> Inl VE_Type_Error)"

definition decode_failure :: "jwt_error \<Rightarrow> verify_error" where
  "decode_failure e = (case e of JWT_Expired \<Rightarrow> VE_Expired | JWT_Audience \<Rightarrow> VE_Audience | JWT_Issuer \<Rightarrow> VE_Invalid
     | JWT_Other _ \<Rightarrow> VE_Invalid)"

definition verify_token ::
  "'t jwt_lib \<Rightarrow> token_verifier \<Rightarrow> time \<Rightarrow> string list option \<Rightarrow> 't \<Rightarrow> verify_error + token_claims" where
  "verify_token lib tv now allowed token =
    (case jl_decode lib token (tv_secret tv) now (tv_expected_audience tv) (tv_issuer tv) of
       Inl e \<Rightarrow> Inl (decode_failure e)
     | Inr payload \<Rightarrow>
         let service = opt_or (map_of payload ''service_name'') (opt_or (map_of payload ''sub'') (JStr [])) in
         if allowed \<noteq> None \<and> service \<notin> JStr ` set (the allowed) then Inl VE_Unauthorized
         else
           rbind (required_claim payload ''sub'') (\<lambda>sub.
           rbind (required_claim payload ''aud'') (\<lambda>aud.
           rbind (required_claim payload ''iss'') (\<lambda>iss.
           rbind (time_claim payload ''iat'') (\<lambda>iat.
           rbind (time_claim payload ''exp'') (\<lambda>exp.
           Inr \<lparr> tc_sub = sub, tc_aud = aud, tc_iss = iss, tc_jti = opt_or (map_of payload ''jti'') (JStr []),
                 tc_iat = iat, tc_exp = exp, tc_service_name = service \<rparr>))))))"

section \<open>Clients and dependencies\<close>

definition auth_client_init :: "auth_config \<Rightarrow> auth_config_error + token_issuer" where
  "auth_client_init c = token_issuer_init (ac_secret c) (ac_service_name c) (ac_issuer c) (ac_ttl_seconds c)"

definition bootstrap_internal_auth ::
  "(string \<Rightarrow> string option) \<Rightarrow> string \<Rightarrow> auth_config_error + token_verifier \<times> token_issuer" where
  "bootstrap_internal_auth environ service_name =
     rbind (load_internal_auth_config environ (Some service_name)) (\<lambda>c.
     rbind (token_verifier_init (ac_secret c) (ac_service_name c) (ac_issuer c)) (\<lambda>tv.
     rbind (auth_client_init c) (\<lambda>ti. Inr (tv, ti))))"

text \<open>\<open>AD_Http\<close> is an \<open>HTTPException\<close>; \<open>AD_Raised\<close> becomes a 500.\<close>

datatype auth_denial = AD_Http int | AD_Raised verify_error

definition denial_of :: "verify_error \<Rightarrow> auth_denial" where
  "denial_of e = (case e of VE_Expired \<Rightarrow> AD_Http 401 | VE_Audience \<Rightarrow> AD_Http 403 | VE_Unauthorized \<Rightarrow> AD_Http 403
     | VE_Invalid \<Rightarrow> AD_Http 401 | _ \<Rightarrow> AD_Raised e)"

definition require_service ::
  "'t jwt_lib \<Rightarrow> token_verifier \<Rightarrow> string list \<Rightarrow> time \<Rightarrow> 't option \<Rightarrow> auth_denial + token_claims" where
  "require_service lib tv allowed now credentials =
    (case credentials of
       None \<Rightarrow> Inl (AD_Http 401)
     | Some token \<Rightarrow> (case verify_token lib tv now (Some allowed) token of
         Inl e \<Rightarrow> Inl (denial_of e) | Inr claims \<Rightarrow> Inr claims))"

text \<open>Without a list of services \<open>UnauthorizedServiceError\<close> cannot occur; it would be a 401.\<close>

definition require_internal_auth :: "'t jwt_lib \<Rightarrow> token_verifier \<Rightarrow> time \<Rightarrow> 't option \<Rightarrow> auth_denial + token_claims" where
  "require_internal_auth lib tv now credentials =
    (case credentials of
       None \<Rightarrow> Inl (AD_Http 401)
     | Some token \<Rightarrow> (case verify_token lib tv now None token of
         Inl e \<Rightarrow> Inl (if e = VE_Unauthorized then AD_Http 401 else denial_of e) | Inr claims \<Rightarrow> Inr claims))"

section \<open>A call between two services\<close>

text \<open>What the documentation of \<open>jwt.decode\<close> promises for a token and the secret it was signed with: the checks of
  the expiry, the audience and the issuer, in this order, then the payload.\<close>

definition jwt_sound :: "'t jwt_lib \<Rightarrow> bool" where
  "jwt_sound lib = (\<forall>payload secret now audience issuer aud iss iat exp.
     map_of payload ''aud'' = Some (JStr aud) \<and> map_of payload ''iss'' = Some (JStr iss)
     \<and> map_of payload ''iat'' = Some (JInt iat) \<and> iat * 1000000 \<le> now \<and> map_of payload ''exp'' = Some (JInt exp)
     \<longrightarrow> jl_decode lib (jl_encode lib payload secret) secret now audience issuer =
         (if exp * 1000000 \<le> now then Inl JWT_Expired
          else if aud \<noteq> audience then Inl JWT_Audience
          else if iss \<noteq> issuer then Inl JWT_Issuer
          else Inr payload))"

lemma whole_seconds: "(now + ttl * 1000000) div 1000000 = now div 1000000 + (ttl :: int)"
  by simp

lemma whole_seconds_le: "now div 1000000 * 1000000 \<le> (now :: int)"
  using div_mult_mod_eq [of now 1000000] pos_mod_sign [of 1000000 now] by linarith

lemma verify_issued:
  assumes "jwt_sound lib" "ti_secret ti = tv_secret tv" "issued \<le> now"
  shows "verify_token lib tv now allowed (issue_token lib ti jti issued audience) =
     (if (issued div 1000000 + ti_ttl_seconds ti) * 1000000 \<le> now then Inl VE_Expired
      else if audience \<noteq> tv_expected_audience tv then Inl VE_Audience
      else if ti_issuer ti \<noteq> tv_issuer tv then Inl VE_Invalid
      else if allowed \<noteq> None \<and> ti_service_name ti \<notin> set (the allowed) then Inl VE_Unauthorized
      else Inr \<lparr> tc_sub = JStr (ti_service_name ti), tc_aud = JStr audience, tc_iss = JStr (ti_issuer ti), tc_jti = JStr jti,
             tc_iat = issued div 1000000 * 1000000, tc_exp = (issued div 1000000 + ti_ttl_seconds ti) * 1000000,
             tc_service_name = JStr (ti_service_name ti) \<rparr>)"
proof -
  let ?p = "token_payload ti jti issued audience"
  have "issued div 1000000 * 1000000 \<le> now" using whole_seconds_le [of issued] assms(3) by linarith
  then have "jl_decode lib (jl_encode lib ?p (tv_secret tv)) (tv_secret tv) now (tv_expected_audience tv) (tv_issuer tv) =
      (if (issued div 1000000 + ti_ttl_seconds ti) * 1000000 \<le> now then Inl JWT_Expired
       else if audience \<noteq> tv_expected_audience tv then Inl JWT_Audience
       else if ti_issuer ti \<noteq> tv_issuer tv then Inl JWT_Issuer
       else Inr ?p)"
    using assms(1) unfolding jwt_sound_def by (auto simp: token_payload_def)
  then show ?thesis
    by (auto simp: verify_token_def issue_token_def assms(2) decode_failure_def token_payload_def required_claim_def
        time_claim_def Let_def)
qed

lemma bootstrap_fields:
  assumes "bootstrap_internal_auth environ svc = Inr (tv, ti)" "svc \<noteq> []"
  shows "ti_service_name ti = svc" "tv_expected_audience tv = svc"
    "Some (ti_secret ti) = environ ''INTERNAL_AUTH_SECRET''" "tv_secret tv = ti_secret ti"
    "ti_issuer ti = opt_or (environ ''INTERNAL_AUTH_ISSUER'') default_issuer" "tv_issuer tv = ti_issuer ti"
  using assms
  by (auto simp: bootstrap_internal_auth_def rbind_Inr_iff load_internal_auth_config_def token_verifier_init_def
      auth_client_init_def token_issuer_init_def Let_def str_truthy_def split: if_splits option.splits)


text \<open>A library that keeps the payload beside the secret.\<close>

definition demo_jwt :: "(dict \<times> string) jwt_lib" where
  "demo_jwt = \<lparr> jl_encode = Pair, jl_decode = (\<lambda>(payload, signed) secret now audience issuer.
     case (map_of payload ''aud'', map_of payload ''iss'', map_of payload ''exp'') of
       (Some (JStr aud), Some (JStr iss), Some (JInt exp)) \<Rightarrow>
         if signed \<noteq> secret then Inl (JWT_Other ''Signature verification failed'')
         else if exp * 1000000 \<le> now then Inl JWT_Expired
         else if aud \<noteq> audience then Inl JWT_Audience
         else if iss \<noteq> issuer then Inl JWT_Issuer
         else Inr payload
     | _ \<Rightarrow> Inl (JWT_Other ''claims'')) \<rparr>"

lemma demo_jwt_sound: "jwt_sound demo_jwt"
  by (simp add: jwt_sound_def demo_jwt_def)

definition demo_environ :: "string \<Rightarrow> string option" where
  "demo_environ = map_of [(''INTERNAL_AUTH_SECRET'', ''s3cret''), (''INTERNAL_AUTH_TTL_SECONDS'', ''60'')]"

lemma demo_bootstrap:
  "bootstrap_internal_auth demo_environ ''model-gateway'' =
     Inr (\<lparr> tv_secret = ''s3cret'', tv_expected_audience = ''model-gateway'', tv_issuer = default_issuer \<rparr>,
          \<lparr> ti_secret = ''s3cret'', ti_service_name = ''model-gateway'', ti_issuer = default_issuer, ti_ttl_seconds = 60 \<rparr>)"
  "bootstrap_internal_auth demo_environ ''secret-broker'' =
     Inr (\<lparr> tv_secret = ''s3cret'', tv_expected_audience = ''secret-broker'', tv_issuer = default_issuer \<rparr>,
          \<lparr> ti_secret = ''s3cret'', ti_service_name = ''secret-broker'', ti_issuer = default_issuer, ti_ttl_seconds = 60 \<rparr>)"
  by code_simp+


end
