(* ===== verification/Auth.thy ===== *)
theory Auth
  imports Internal_Auth "HOL-Library.Countable"
begin

text \<open>
  The auth service (\<open>apps/auth-service\<close>): users and their repository, registration, login and refresh
  (\<open>application/auth_service.py\<close>, \<open>token_service.py\<close>), the tokens of \<open>infrastructure/auth/jwt_handler.py\<close>, and the
  endpoints; and the other end of a token, \<open>verify_token\<close> of the gateway (\<open>api-gateway\<close>,
  \<open>infrastructure/jwt_verifier.py\<close>).

  The packages \<open>jwt\<close>, \<open>bcrypt\<close> and \<open>email-validator\<close> and the text form of a UUID are functions of the environment.
\<close>

section \<open>Users\<close>

datatype auth_failure =
    AF_Email_Exists string
  | AF_Invalid_Credentials
  | AF_User_Not_Found uuid
  | AF_Jwt jwt_error
  | AF_Value_Error
  | AF_Type_Error
  | AF_Key_Error string
  | AF_Integrity string

record user =
  us_id :: uuid
  us_email :: string
  us_display_name :: string
  us_password_hash :: "string option"
  us_auth_provider :: string
  us_auth_provider_id :: "string option"
  us_created_at :: time
  us_updated_at :: time
  us_last_active_at :: time

definition normal_email :: "string \<Rightarrow> string" where
  "normal_email email = py_strip (py_lower email)"

definition create_local :: "uuid \<Rightarrow> time \<Rightarrow> string \<Rightarrow> string \<Rightarrow> string \<Rightarrow> user" where
  "create_local i now email display_name password_hash = \<lparr> us_id = i, us_email = normal_email email,
     us_display_name = py_strip display_name, us_password_hash = Some password_hash, us_auth_provider = ''local'',
     us_auth_provider_id = None, us_created_at = now, us_updated_at = now, us_last_active_at = now \<rparr>"

type_synonym user_db = "user list"

definition find_by_email :: "string \<Rightarrow> user_db \<Rightarrow> user option" where
  "find_by_email email db = find (\<lambda>u. us_email u = normal_email email) db"

definition find_user_by_id :: "uuid \<Rightarrow> user_db \<Rightarrow> user option" where
  "find_user_by_id i db = find_row us_id i db"

definition find_by_ids :: "uuid list \<Rightarrow> user_db \<Rightarrow> user list" where
  "find_by_ids ids db = (if ids = [] then [] else filter (\<lambda>u. us_id u \<in> set ids) db)"

text \<open>\<open>ON CONFLICT (email) DO NOTHING\<close>; no row comes back for a taken e-mail.\<close>

definition insert_or_raise_duplicate :: "user \<Rightarrow> user_db \<Rightarrow> auth_failure + user_db" where
  "insert_or_raise_duplicate u db =
    (if us_email u \<in> us_email ` set db then Inl (AF_Email_Exists (us_email u))
     else if us_id u \<in> us_id ` set db then Inl (AF_Integrity ''users_pkey'')
     else Inr (db @ [u]))"

definition update_last_active :: "uuid \<Rightarrow> time \<Rightarrow> user_db \<Rightarrow> user_db" where
  "update_last_active i now db =
     map (\<lambda>u. if us_id u = i then u\<lparr> us_last_active_at := now, us_updated_at := now \<rparr> else u) db"

definition find_and_touch :: "uuid \<Rightarrow> time \<Rightarrow> user_db \<Rightarrow> user option \<times> user_db" where
  "find_and_touch i now db =
    (let db' = update_last_active i now db in (find_user_by_id i db', db'))"

section \<open>Tokens of users\<close>

record user_jwt =
  uj_encode :: "dict \<Rightarrow> string \<Rightarrow> string"
  uj_decode :: "string \<Rightarrow> string \<Rightarrow> time \<Rightarrow> jwt_error + dict"

record auth_env =
  ae_secret :: string
  ae_access_minutes :: int
  ae_refresh_days :: int
  ae_jwt :: user_jwt
  ae_hash :: "string \<Rightarrow> unit + string"
  ae_check :: "string \<Rightarrow> string \<Rightarrow> unit + bool"
  ae_email :: "string \<Rightarrow> string option"
  ae_uuid_of :: "string \<Rightarrow> uuid option"
  ae_uuid_str :: "uuid \<Rightarrow> string"

definition access_payload :: "auth_env \<Rightarrow> time \<Rightarrow> uuid \<Rightarrow> string \<Rightarrow> dict" where
  "access_payload env now i email =
     [(''sub'', JStr (ae_uuid_str env i)), (''email'', JStr email), (''iat'', JInt (now div 1000000)),
      (''exp'', JInt ((now + ae_access_minutes env * 60000000) div 1000000)), (''type'', JStr ''access'')]"

definition create_access_token :: "auth_env \<Rightarrow> time \<Rightarrow> uuid \<Rightarrow> string \<Rightarrow> string" where
  "create_access_token env now i email = uj_encode (ae_jwt env) (access_payload env now i email) (ae_secret env)"

definition refresh_payload :: "auth_env \<Rightarrow> time \<Rightarrow> uuid \<Rightarrow> dict" where
  "refresh_payload env now i =
     [(''sub'', JStr (ae_uuid_str env i)), (''iat'', JInt (now div 1000000)),
      (''exp'', JInt ((now + ae_refresh_days env * 86400000000) div 1000000)), (''type'', JStr ''refresh'')]"

definition create_refresh_token :: "auth_env \<Rightarrow> time \<Rightarrow> uuid \<Rightarrow> string" where
  "create_refresh_token env now i = uj_encode (ae_jwt env) (refresh_payload env now i) (ae_secret env)"

definition decode_token :: "auth_env \<Rightarrow> time \<Rightarrow> string \<Rightarrow> auth_failure + dict" where
  "decode_token env now token =
    (case uj_decode (ae_jwt env) token (ae_secret env) now of Inl e \<Rightarrow> Inl (AF_Jwt e) | Inr p \<Rightarrow> Inr p)"

text \<open>\<open>uuid.UUID(payload['sub'])\<close>; a value that is no string is an \<open>AttributeError\<close> or a \<open>TypeError\<close>.\<close>

definition subject_uuid :: "auth_env \<Rightarrow> dict \<Rightarrow> auth_failure + uuid" where
  "subject_uuid env payload =
    (case map_of payload ''sub'' of
       None \<Rightarrow> Inl (AF_Key_Error ''sub'')
     | Some (JStr s) \<Rightarrow> (case ae_uuid_of env s of None \<Rightarrow> Inl AF_Value_Error | Some i \<Rightarrow> Inr i)
     | Some _ \<Rightarrow> Inl AF_Type_Error)"

definition verify_access_token :: "auth_env \<Rightarrow> time \<Rightarrow> string \<Rightarrow> auth_failure + uuid" where
  "verify_access_token env now token =
    (case decode_token env now token of
       Inl _ \<Rightarrow> Inl AF_Value_Error
     | Inr payload \<Rightarrow>
         if map_of payload ''type'' \<noteq> Some (JStr ''access'') then Inl AF_Value_Error
         else subject_uuid env payload)"

text \<open>The gateway's side, with the same secret; \<open>Inl ()\<close> is any exception.\<close>

definition gateway_verify_token :: "user_jwt \<Rightarrow> string \<Rightarrow> time \<Rightarrow> string \<Rightarrow> unit + dict" where
  "gateway_verify_token lib secret now token =
    (case uj_decode lib token secret now of
       Inl _ \<Rightarrow> Inl ()
     | Inr payload \<Rightarrow> if map_of payload ''type'' \<noteq> Some (JStr ''access'') then Inl () else Inr payload)"

section \<open>Use cases\<close>

record token_pair =
  tp_access :: string
  tp_refresh :: string

definition token_pair_for :: "auth_env \<Rightarrow> time \<Rightarrow> time \<Rightarrow> user \<Rightarrow> token_pair" where
  "token_pair_for env t1 t2 u = \<lparr> tp_access = create_access_token env t1 (us_id u) (us_email u),
     tp_refresh = create_refresh_token env t2 (us_id u) \<rparr>"

definition hash_password :: "auth_env \<Rightarrow> string \<Rightarrow> auth_failure + string" where
  "hash_password env plain = (case ae_hash env plain of Inl _ \<Rightarrow> Inl AF_Value_Error | Inr h \<Rightarrow> Inr h)"

definition verify_password :: "auth_env \<Rightarrow> string \<Rightarrow> string \<Rightarrow> auth_failure + bool" where
  "verify_password env plain hashed = (case ae_check env plain hashed of Inl _ \<Rightarrow> Inl AF_Value_Error | Inr b \<Rightarrow> Inr b)"

definition register ::
  "auth_env \<Rightarrow> uuid \<Rightarrow> (nat \<Rightarrow> time) \<Rightarrow> string \<Rightarrow> string \<Rightarrow> string \<Rightarrow> user_db
   \<Rightarrow> auth_failure + (user \<times> token_pair) \<times> user_db" where
  "register env i now email display_name password db =
    (if find_by_email email db \<noteq> None then Inl (AF_Email_Exists email)
     else
       rbind (hash_password env password) (\<lambda>hashed.
       let u = create_local i (now 0) email display_name hashed in
       rbind (insert_or_raise_duplicate u db) (\<lambda>db.
       Inr ((u, token_pair_for env (now 1) (now 2) u), db))))"

definition dummy_hash :: string where
  "dummy_hash = ''$2b$12$LJ3m4ys3Lg2Fkl0aGrNMWeHNBFN5UVbGCu6yxOCf.VPxEMxWHKG2a''"

definition login ::
  "auth_env \<Rightarrow> (nat \<Rightarrow> time) \<Rightarrow> string \<Rightarrow> string \<Rightarrow> user_db \<Rightarrow> auth_failure + token_pair \<times> user_db" where
  "login env now email password db =
    (let u = find_by_email email db;
         h = (case u of None \<Rightarrow> None | Some x \<Rightarrow> us_password_hash x);
         stored = (if str_truthy h then the h else dummy_hash) in
     rbind (verify_password env password stored) (\<lambda>ok.
     if u = None \<or> \<not> str_truthy h \<or> \<not> ok then Inl AF_Invalid_Credentials
     else Inr (token_pair_for env (now 1) (now 2) (the u), update_last_active (us_id (the u)) (now 0) db)))"

definition refresh ::
  "auth_env \<Rightarrow> (nat \<Rightarrow> time) \<Rightarrow> string \<Rightarrow> user_db \<Rightarrow> auth_failure + token_pair \<times> user_db" where
  "refresh env now token db =
     rbind (decode_token env (now 0) token) (\<lambda>payload.
     if map_of payload ''type'' \<noteq> Some (JStr ''refresh'') then Inl AF_Invalid_Credentials
     else
       rbind (subject_uuid env payload) (\<lambda>i.
       let (u, db') = find_and_touch i (now 1) db in
       case u of None \<Rightarrow> Inl (AF_User_Not_Found i) | Some x \<Rightarrow> Inr (token_pair_for env (now 2) (now 3) x, db')))"

definition get_me :: "uuid \<Rightarrow> user_db \<Rightarrow> auth_failure + user" where
  "get_me i db = (case find_user_by_id i db of None \<Rightarrow> Inl (AF_User_Not_Found i) | Some u \<Rightarrow> Inr u)"

section \<open>Endpoints\<close>

datatype auth_response = AR_Http int | AR_Raised auth_failure | AR_Denied auth_denial

definition register_body :: "string \<Rightarrow> string \<Rightarrow> bool" where
  "register_body display_name password =
    (display_name \<noteq> [] \<and> length display_name \<le> 200 \<and> 8 \<le> length password \<and> length password \<le> 72)"

definition register_endpoint ::
  "auth_env \<Rightarrow> uuid \<Rightarrow> (nat \<Rightarrow> time) \<Rightarrow> string \<Rightarrow> string \<Rightarrow> string \<Rightarrow> user_db
   \<Rightarrow> auth_response + (user \<times> token_pair) \<times> user_db" where
  "register_endpoint env i now email display_name password db =
    (case ae_email env email of
       None \<Rightarrow> Inl (AR_Http 422)
     | Some email \<Rightarrow>
         if \<not> register_body display_name password then Inl (AR_Http 422)
         else case register env i now email display_name password db of
           Inl (AF_Email_Exists _) \<Rightarrow> Inl (AR_Http 409)
         | Inl e \<Rightarrow> Inl (AR_Raised e)
         | Inr r \<Rightarrow> Inr r)"

definition login_endpoint ::
  "auth_env \<Rightarrow> (nat \<Rightarrow> time) \<Rightarrow> string \<Rightarrow> string \<Rightarrow> user_db \<Rightarrow> auth_response + token_pair \<times> user_db" where
  "login_endpoint env now email password db =
    (case ae_email env email of
       None \<Rightarrow> Inl (AR_Http 422)
     | Some email \<Rightarrow> (case login env now email password db of
           Inl AF_Invalid_Credentials \<Rightarrow> Inl (AR_Http 401)
         | Inl e \<Rightarrow> Inl (AR_Raised e)
         | Inr r \<Rightarrow> Inr r))"

text \<open>Every exception of a refresh is a 401.\<close>

definition refresh_endpoint ::
  "auth_env \<Rightarrow> (nat \<Rightarrow> time) \<Rightarrow> string \<Rightarrow> user_db \<Rightarrow> auth_response + token_pair \<times> user_db" where
  "refresh_endpoint env now token db =
    (case refresh env now token db of Inl _ \<Rightarrow> Inl (AR_Http 401) | Inr r \<Rightarrow> Inr r)"

definition get_current_user_id ::
  "auth_env \<Rightarrow> time \<Rightarrow> string option \<Rightarrow> string option \<Rightarrow> auth_response + uuid" where
  "get_current_user_id env now x_user_id authorization =
    (if str_truthy x_user_id
     then (case ae_uuid_of env (the x_user_id) of None \<Rightarrow> Inl (AR_Http 401) | Some i \<Rightarrow> Inr i)
     else if str_truthy authorization \<and> starts_with ''Bearer '' (the authorization)
     then (case verify_access_token env now (drop 7 (the authorization)) of
         Inl AF_Value_Error \<Rightarrow> Inl (AR_Http 401) | Inl e \<Rightarrow> Inl (AR_Raised e) | Inr i \<Rightarrow> Inr i)
     else Inl (AR_Http 401))"

definition me_endpoint ::
  "auth_env \<Rightarrow> time \<Rightarrow> string option \<Rightarrow> string option \<Rightarrow> user_db \<Rightarrow> auth_response + user" where
  "me_endpoint env now x_user_id authorization db =
     rbind (get_current_user_id env now x_user_id authorization) (\<lambda>i.
     case get_me i db of Inl _ \<Rightarrow> Inl (AR_Http 404) | Inr u \<Rightarrow> Inr u)"

definition max_lookup_ids :: nat where "max_lookup_ids = 200"

definition lookup_ids :: "auth_env \<Rightarrow> string \<Rightarrow> string list" where
  "lookup_ids env ids = filter (\<lambda>s. s \<noteq> []) (map py_strip (split_on (CHR '','') ids))"

definition lookup_users_endpoint ::
  "auth_env \<Rightarrow> 't jwt_lib \<Rightarrow> token_verifier \<Rightarrow> time \<Rightarrow> 't option \<Rightarrow> string \<Rightarrow> user_db
   \<Rightarrow> auth_response + (uuid \<times> string \<times> string) list" where
  "lookup_users_endpoint env lib tv now credentials ids db =
    (case require_service lib tv [''workspace-service''] now credentials of
       Inl e \<Rightarrow> Inl (AR_Denied e)
     | Inr _ \<Rightarrow>
         if ids = [] then Inr []
         else
           let raw = lookup_ids env ids in
           if length raw > max_lookup_ids then Inl (AR_Http 400)
           else Inr (map (\<lambda>u. (us_id u, us_email u, us_display_name u))
             (find_by_ids (List.map_filter (ae_uuid_of env) raw) db)))"

section \<open>What tokens say\<close>

text \<open>What the documentation of \<open>jwt.decode\<close> promises for a token without an audience and the secret it was signed
  with; a payload is a \<open>dict\<close>.\<close>

definition user_jwt_sound :: "user_jwt \<Rightarrow> bool" where
  "user_jwt_sound lib = ((\<forall>payload secret now iat exp.
     distinct (map fst payload) \<and> map_of payload ''aud'' = None \<and> map_of payload ''iat'' = Some (JInt iat) \<and> iat * 1000000 \<le> now
     \<and> map_of payload ''exp'' = Some (JInt exp)
     \<longrightarrow> uj_decode lib (uj_encode lib payload secret) secret now =
         (if exp * 1000000 \<le> now then Inl JWT_Expired else Inr payload))
     \<and> (\<forall>token secret now payload. uj_decode lib token secret now = Inr payload \<longrightarrow> distinct (map fst payload)))"

lemma decode_issued:
  assumes "user_jwt_sound (ae_jwt env)" "issued \<le> now"
  shows "uj_decode (ae_jwt env) (create_access_token env issued i email) (ae_secret env) now =
      (if (issued div 1000000 + ae_access_minutes env * 60) * 1000000 \<le> now then Inl JWT_Expired
       else Inr (access_payload env issued i email))"
    and "uj_decode (ae_jwt env) (create_refresh_token env issued i) (ae_secret env) now =
      (if (issued div 1000000 + ae_refresh_days env * 86400) * 1000000 \<le> now then Inl JWT_Expired
       else Inr (refresh_payload env issued i))"
proof -
  have iat: "issued div 1000000 * 1000000 \<le> now" using whole_seconds_le [of issued] assms(2) by linarith
  have exp: "(issued + m * 60000000) div 1000000 = issued div 1000000 + m * 60"
      "(issued + d * 86400000000) div 1000000 = issued div 1000000 + d * 86400" for m d
    using whole_seconds [of issued "m * 60"] whole_seconds [of issued "d * 86400"] by (simp_all add: mult.assoc)
  have a: "distinct (map fst (access_payload env issued i email))" "map_of (access_payload env issued i email) ''aud'' = None"
      "map_of (access_payload env issued i email) ''iat'' = Some (JInt (issued div 1000000))"
      "map_of (access_payload env issued i email) ''exp'' = Some (JInt (issued div 1000000 + ae_access_minutes env * 60))"
    by (simp_all add: access_payload_def exp)
  show "uj_decode (ae_jwt env) (create_access_token env issued i email) (ae_secret env) now =
      (if (issued div 1000000 + ae_access_minutes env * 60) * 1000000 \<le> now then Inl JWT_Expired
       else Inr (access_payload env issued i email))"
    using assms(1) a iat unfolding user_jwt_sound_def create_access_token_def by blast
  have r: "distinct (map fst (refresh_payload env issued i))" "map_of (refresh_payload env issued i) ''aud'' = None"
      "map_of (refresh_payload env issued i) ''iat'' = Some (JInt (issued div 1000000))"
      "map_of (refresh_payload env issued i) ''exp'' = Some (JInt (issued div 1000000 + ae_refresh_days env * 86400))"
    by (simp_all add: refresh_payload_def exp)
  show "uj_decode (ae_jwt env) (create_refresh_token env issued i) (ae_secret env) now =
      (if (issued div 1000000 + ae_refresh_days env * 86400) * 1000000 \<le> now then Inl JWT_Expired
       else Inr (refresh_payload env issued i))"
    using assms(1) r iat unfolding user_jwt_sound_def create_refresh_token_def by blast
qed

text \<open>The two kinds of token are not taken for each other: the gateway and \<open>/me\<close> refuse a refresh token, and a
  refresh is refused for an access token.\<close>

lemma tokens_separate:
  assumes "user_jwt_sound (ae_jwt env)" "issued \<le> now"
  shows "gateway_verify_token (ae_jwt env) (ae_secret env) now (create_refresh_token env issued i) = Inl ()"
    and "verify_access_token env now (create_refresh_token env issued i) = Inl AF_Value_Error"
    and "\<not> is_ok (refresh env (\<lambda>_. now) (create_access_token env issued i email) db)"
  using decode_issued [OF assms]
  by (simp_all add: gateway_verify_token_def verify_access_token_def decode_token_def refresh_def refresh_payload_def
      access_payload_def is_ok_def)

section \<open>Users stay sound\<close>

definition users_sound :: "user_db \<Rightarrow> bool" where
  "users_sound db = (distinct (map us_id db) \<and> distinct (map us_email db))"

lemma update_last_active_maps:
  "map us_id (update_last_active i now db) = map us_id db" "map us_email (update_last_active i now db) = map us_email db"
  by (simp_all add: update_last_active_def o_def if_distrib cong: if_cong)

lemma register_Inr:
  assumes "register env i now email name password db = Inr ((u, pair), db')"
  shows "db' = db @ [u]" "us_id u = i" "us_email u = normal_email email" "i \<notin> us_id ` set db"
    "normal_email email \<notin> us_email ` set db" "pair = token_pair_for env (now 1) (now 2) u"
    "\<exists>h. ae_hash env password = Inr h \<and> us_password_hash u = Some h"
  using assms
  by (auto simp: register_def rbind_Inr_iff hash_password_def insert_or_raise_duplicate_def create_local_def Let_def
      split: if_splits sum.splits)

lemma users_stay_sound:
  assumes "users_sound db"
  shows "register env i now email name password db = Inr ((u, pair), db') \<Longrightarrow> users_sound db'"
    and "login env now email password db = Inr (tp, db') \<Longrightarrow> users_sound db'"
    and "refresh env now token db = Inr (tp, db') \<Longrightarrow> users_sound db'"
proof -
  show "users_sound db'" if "register env i now email name password db = Inr ((u, pair), db')"
    using register_Inr [OF that] assms by (simp add: users_sound_def)
  show "users_sound db'" if "login env now email password db = Inr (tp, db')"
    using that assms
    by (auto simp: login_def Let_def rbind_Inr_iff users_sound_def update_last_active_maps split: if_splits)
  show "users_sound db'" if "refresh env now token db = Inr (tp, db')"
    using that assms
    by (auto simp: refresh_def find_and_touch_def Let_def rbind_Inr_iff users_sound_def update_last_active_maps
        split: if_splits option.splits)
qed

lemma login_after_register:
  assumes "register env i now email name password db = Inr ((u, pair), db')"
    and "ae_hash env password = Inr h" "h \<noteq> []" "ae_check env password h = Inr True" "normal_email email' = normal_email email"
  shows "login env now' email' password db' =
      Inr (token_pair_for env (now' 1) (now' 2) u, update_last_active i (now' 0) db')"
proof -
  note r = register_Inr [OF assms(1)]
  have "find (\<lambda>x. us_email x = normal_email email') db' = Some u"
    using r(3,5) unfolding r(1) assms(5) by (induction db) auto
  then show ?thesis
    using r(2,7) assms(2-4) by (simp add: login_def find_by_email_def str_truthy_def verify_password_def Let_def)
qed

end
