(* ===== verification/Workspace.thy ===== *)
theory Workspace
  imports Policy
begin

text \<open>
  The workspace service (\<open>apps/workspace-service\<close>): \<open>domain/workspace.py\<close> and \<open>workspace_errors.py\<close>, the
  repository over the tables \<open>workspaces\<close> and \<open>members\<close> with their constraints, the use cases of
  \<open>application/workspace_service.py\<close> and the endpoints of \<open>api/routes.py\<close> with the checks of roles they make.

  A use case is one transaction; ids it draws are \<open>u 0, u 1, ...\<close>.  A refused constraint is \<open>WS_Integrity\<close>,
  which no endpoint catches.
\<close>

section \<open>Entities\<close>

datatype workspace_error =
    WS_Not_Found uuid
  | WS_Slug_Exists string
  | WS_Member_Not_Found uuid uuid
  | WS_Member_Exists uuid uuid
  | WS_Invalid_Role string
  | WS_Integrity string

record workspace =
  wk_id :: uuid
  wk_slug :: string
  wk_display_name :: string
  wk_plan :: string
  wk_deployment_mode :: string
  wk_owner_id :: uuid
  wk_created_at :: time
  wk_updated_at :: time
  wk_settings :: json

record member =
  mb_id :: uuid
  mb_workspace_id :: uuid
  mb_user_id :: uuid
  mb_role :: string
  mb_joined_at :: time
  mb_updated_at :: time
  mb_invited_by_id :: "uuid option"

definition valid_roles :: "string list" where
  "valid_roles = [''owner'', ''admin'', ''editor'', ''viewer'']"

text \<open>\<open>re.sub(r'[^a-z0-9-]', '-', ...)\<close>, \<open>re.sub(r'-+', '-', ...)\<close> and \<open>strip('-')\<close>.\<close>

definition slug_char :: "char \<Rightarrow> bool" where
  "slug_char c = (let n = (of_char c :: nat) in (97 \<le> n \<and> n \<le> 122) \<or> (48 \<le> n \<and> n \<le> 57) \<or> c = CHR ''-'')"

fun squeeze_dashes :: "string \<Rightarrow> string" where
  "squeeze_dashes (a # b # s) =
     (if a = CHR ''-'' \<and> b = CHR ''-'' then squeeze_dashes (b # s) else a # squeeze_dashes (b # s))"
| "squeeze_dashes s = s"

definition strip_dashes :: "string \<Rightarrow> string" where
  "strip_dashes s = rev (dropWhile (\<lambda>c. c = CHR ''-'') (rev (dropWhile (\<lambda>c. c = CHR ''-'') s)))"

definition slugify :: "string \<Rightarrow> string" where
  "slugify s = strip_dashes (squeeze_dashes
     (map (\<lambda>c. if slug_char c then c else CHR ''-'') (py_strip (py_lower s))))"

definition new_workspace :: "uuid \<Rightarrow> time \<Rightarrow> string \<Rightarrow> string \<Rightarrow> uuid \<Rightarrow> workspace" where
  "new_workspace i now slug name owner = \<lparr> wk_id = i, wk_slug = slugify slug, wk_display_name = py_strip name,
     wk_plan = ''personal'', wk_deployment_mode = ''local'', wk_owner_id = owner, wk_created_at = now,
     wk_updated_at = now, wk_settings = JObj [] \<rparr>"

section \<open>Repository\<close>

record workspace_event =
  we_id :: uuid
  we_type :: string
  we_workspace_id :: uuid
  we_payload :: dict
  we_correlation_id :: uuid
  we_actor_id :: json
  we_occurred_at :: time

record workspace_db =
  wd_workspaces :: "workspace list"
  wd_members :: "member list"
  wd_outbox :: "workspace_event list"

definition find_workspace_by_id :: "uuid \<Rightarrow> workspace_db \<Rightarrow> workspace option" where
  "find_workspace_by_id k db = find_row wk_id k (wd_workspaces db)"

definition find_workspace_by_slug :: "string \<Rightarrow> workspace_db \<Rightarrow> workspace option" where
  "find_workspace_by_slug slug db = find (\<lambda>w. wk_slug w = slug) (wd_workspaces db)"

definition workspace_max_limit :: int where "workspace_max_limit = 200"

text \<open>\<open>LIMIT ... OFFSET ...\<close> after the clamps of the code.\<close>

definition page :: "int \<Rightarrow> int \<Rightarrow> 'a list \<Rightarrow> 'a list" where
  "page limit offset rows = take (nat (min (max limit 1) workspace_max_limit)) (drop (nat (max offset 0)) rows)"

text \<open>\<open>ORDER BY created_at DESC\<close> over the join, one row per membership, with the member's role.\<close>

definition find_workspaces_by_user :: "uuid \<Rightarrow> int \<Rightarrow> int \<Rightarrow> workspace_db \<Rightarrow> (workspace \<times> string) list" where
  "find_workspaces_by_user user limit offset db =
     page limit offset (sort_key (\<lambda>(w, r). - wk_created_at w)
       (concat (map (\<lambda>w. map (\<lambda>m. (w, mb_role m))
          (filter (\<lambda>m. mb_workspace_id m = wk_id w \<and> mb_user_id m = user) (wd_members db))) (wd_workspaces db))))"

definition insert_workspace :: "workspace \<Rightarrow> workspace_db \<Rightarrow> workspace_error + workspace_db" where
  "insert_workspace w db =
    (if wk_id w \<in> wk_id ` set (wd_workspaces db) then Inl (WS_Integrity ''workspaces_pkey'')
     else if wk_slug w \<in> wk_slug ` set (wd_workspaces db) then Inl (WS_Integrity ''workspaces_slug_key'')
     else Inr (db\<lparr>wd_workspaces := wd_workspaces db @ [w]\<rparr>))"

text \<open>The columns an update sets; NULL is refused for the text columns, and \<open>settings\<close> is dumped as JSON.\<close>

fun set_workspace_field :: "string \<times> json \<Rightarrow> workspace \<Rightarrow> workspace_error + workspace" where
  "set_workspace_field (k, v) w =
    (if k = ''display_name'' then
       (case v of JStr s \<Rightarrow> Inr (w\<lparr>wk_display_name := s\<rparr>) | _ \<Rightarrow> Inl (WS_Integrity ''display_name''))
     else if k = ''plan'' then (case v of JStr s \<Rightarrow> Inr (w\<lparr>wk_plan := s\<rparr>) | _ \<Rightarrow> Inl (WS_Integrity ''plan''))
     else if k = ''deployment_mode'' then
       (case v of JStr s \<Rightarrow> Inr (w\<lparr>wk_deployment_mode := s\<rparr>) | _ \<Rightarrow> Inl (WS_Integrity ''deployment_mode''))
     else if k = ''settings'' then Inr (w\<lparr>wk_settings := v\<rparr>)
     else Inr w)"

fun set_workspace_fields :: "dict \<Rightarrow> workspace \<Rightarrow> workspace_error + workspace" where
  "set_workspace_fields [] w = Inr w"
| "set_workspace_fields (f # fs) w = rbind (set_workspace_field f w) (set_workspace_fields fs)"

definition update_workspace_row ::
  "uuid \<Rightarrow> dict \<Rightarrow> time \<Rightarrow> workspace_db \<Rightarrow> workspace_error + (workspace \<times> workspace_db) option" where
  "update_workspace_row k updates now db =
    (case find_workspace_by_id k db of
       None \<Rightarrow> Inr None
     | Some w \<Rightarrow> rbind (set_workspace_fields updates (w\<lparr>wk_updated_at := now\<rparr>)) (\<lambda>w'.
         Inr (Some (w', db\<lparr>wd_workspaces := upsert wk_id w' (wd_workspaces db)\<rparr>))))"

text \<open>The members of a deleted workspace go with it (\<open>ON DELETE CASCADE\<close>).\<close>

definition delete_workspace_row :: "uuid \<Rightarrow> workspace_db \<Rightarrow> workspace_db option" where
  "delete_workspace_row k db =
    (if find_workspace_by_id k db = None then None
     else Some (db\<lparr> wd_workspaces := filter (\<lambda>w. wk_id w \<noteq> k) (wd_workspaces db),
                    wd_members := filter (\<lambda>m. mb_workspace_id m \<noteq> k) (wd_members db) \<rparr>))"

definition find_members_by_workspace :: "uuid \<Rightarrow> int \<Rightarrow> int \<Rightarrow> workspace_db \<Rightarrow> member list" where
  "find_members_by_workspace k limit offset db =
     page limit offset (sort_key mb_joined_at (filter (\<lambda>m. mb_workspace_id m = k) (wd_members db)))"

definition find_member :: "uuid \<Rightarrow> uuid \<Rightarrow> workspace_db \<Rightarrow> member option" where
  "find_member k user db = find (\<lambda>m. mb_workspace_id m = k \<and> mb_user_id m = user) (wd_members db)"

definition insert_member :: "member \<Rightarrow> workspace_db \<Rightarrow> workspace_error + workspace_db" where
  "insert_member m db =
    (if mb_id m \<in> mb_id ` set (wd_members db) then Inl (WS_Integrity ''members_pkey'')
     else if find_workspace_by_id (mb_workspace_id m) db = None then Inl (WS_Integrity ''members_workspace_id_fkey'')
     else if find_member (mb_workspace_id m) (mb_user_id m) db \<noteq> None then Inl (WS_Integrity ''uq_members_workspace_user'')
     else Inr (db\<lparr>wd_members := wd_members db @ [m]\<rparr>))"

definition set_member_role :: "uuid \<Rightarrow> uuid \<Rightarrow> string \<Rightarrow> time \<Rightarrow> workspace_db \<Rightarrow> (member \<times> workspace_db) option" where
  "set_member_role k user role now db =
    (case find_member k user db of
       None \<Rightarrow> None
     | Some m \<Rightarrow> (let m' = m\<lparr> mb_role := role, mb_updated_at := now \<rparr>
         in Some (m', db\<lparr>wd_members := map (\<lambda>x. if mb_workspace_id x = k \<and> mb_user_id x = user
              then x\<lparr> mb_role := role, mb_updated_at := now \<rparr> else x) (wd_members db)\<rparr>)))"

definition delete_member :: "uuid \<Rightarrow> uuid \<Rightarrow> workspace_db \<Rightarrow> workspace_db option" where
  "delete_member k user db =
    (if find_member k user db = None then None
     else Some (db\<lparr>wd_members := filter (\<lambda>m. \<not> (mb_workspace_id m = k \<and> mb_user_id m = user)) (wd_members db)\<rparr>))"

definition insert_workspace_event ::
  "uuid \<Rightarrow> time \<Rightarrow> string \<Rightarrow> uuid \<Rightarrow> dict \<Rightarrow> uuid \<Rightarrow> json \<Rightarrow> workspace_db \<Rightarrow> workspace_db" where
  "insert_workspace_event i now ty ws payload corr actor db = db\<lparr>wd_outbox := wd_outbox db @
     [\<lparr> we_id = i, we_type = ty, we_workspace_id = ws, we_payload = payload, we_correlation_id = corr,
        we_actor_id = actor, we_occurred_at = now \<rparr>]\<rparr>"

section \<open>Use cases\<close>

definition actor_or_system :: "uuid option \<Rightarrow> json" where
  "actor_or_system actor = (case actor of None \<Rightarrow> JStr ''system'' | Some a \<Rightarrow> JUuid a)"

definition actor_or_user :: "uuid option \<Rightarrow> uuid \<Rightarrow> json" where
  "actor_or_user actor user = JUuid (opt_or actor user)"

definition create_workspace ::
  "(nat \<Rightarrow> uuid) \<Rightarrow> time \<Rightarrow> string \<Rightarrow> string \<Rightarrow> uuid \<Rightarrow> uuid option \<Rightarrow> workspace_db
   \<Rightarrow> workspace_error + workspace \<times> workspace_db" where
  "create_workspace u now slug name owner corr db =
    (let w = new_workspace (u 0) now slug name owner in
     if find_workspace_by_slug (wk_slug w) db \<noteq> None then Inl (WS_Slug_Exists (wk_slug w))
     else
       rbind (insert_workspace w db) (\<lambda>db.
       rbind (insert_member \<lparr> mb_id = u 1, mb_workspace_id = wk_id w, mb_user_id = owner, mb_role = ''owner'',
                mb_joined_at = now, mb_updated_at = now, mb_invited_by_id = None \<rparr> db) (\<lambda>db.
       Inr (w, insert_workspace_event (u 3) now ''workspace.created'' (wk_id w)
          [(''workspace_id'', JUuid (wk_id w)), (''slug'', JStr (wk_slug w)),
           (''display_name'', JStr (wk_display_name w)), (''owner_id'', JUuid owner)]
          (opt_or corr (u 2)) (JUuid owner) db))))"

definition list_workspaces :: "uuid \<Rightarrow> int \<Rightarrow> int \<Rightarrow> workspace_db \<Rightarrow> (workspace \<times> string) list" where
  "list_workspaces user limit offset db = find_workspaces_by_user user limit offset db"

definition get_workspace :: "uuid \<Rightarrow> workspace_db \<Rightarrow> workspace_error + workspace" where
  "get_workspace k db = (case find_workspace_by_id k db of None \<Rightarrow> Inl (WS_Not_Found k) | Some w \<Rightarrow> Inr w)"

definition update_workspace ::
  "(nat \<Rightarrow> uuid) \<Rightarrow> time \<Rightarrow> uuid \<Rightarrow> dict \<Rightarrow> uuid option \<Rightarrow> uuid option \<Rightarrow> workspace_db
   \<Rightarrow> workspace_error + workspace \<times> workspace_db" where
  "update_workspace u now k updates actor corr db =
     rbind (update_workspace_row k updates now db) (\<lambda>r.
     case r of
       None \<Rightarrow> Inl (WS_Not_Found k)
     | Some (w, db) \<Rightarrow> Inr (w, insert_workspace_event (u 1) now ''workspace.updated'' k
          [(''workspace_id'', JUuid k), (''updated_fields'', JList (map (JStr \<circ> fst) updates))]
          (opt_or corr (u 0)) (actor_or_system actor) db))"

definition delete_workspace ::
  "(nat \<Rightarrow> uuid) \<Rightarrow> time \<Rightarrow> uuid \<Rightarrow> uuid option \<Rightarrow> uuid option \<Rightarrow> workspace_db \<Rightarrow> workspace_error + workspace_db" where
  "delete_workspace u now k actor corr db =
    (case delete_workspace_row k db of
       None \<Rightarrow> Inl (WS_Not_Found k)
     | Some db \<Rightarrow> Inr (insert_workspace_event (u 1) now ''workspace.deleted'' k [(''workspace_id'', JUuid k)]
          (opt_or corr (u 0)) (actor_or_system actor) db))"

text \<open>\<open>enrich\<close> is the optional member enricher, which asks the auth service for names.\<close>

definition list_members :: "(member list \<Rightarrow> 'm list) \<Rightarrow> uuid \<Rightarrow> int \<Rightarrow> int \<Rightarrow> workspace_db \<Rightarrow> 'm list" where
  "list_members enrich k limit offset db = enrich (find_members_by_workspace k limit offset db)"

definition get_member :: "uuid \<Rightarrow> uuid \<Rightarrow> workspace_db \<Rightarrow> workspace_error + member" where
  "get_member k user db = (case find_member k user db of None \<Rightarrow> Inl (WS_Member_Not_Found k user) | Some m \<Rightarrow> Inr m)"

definition invite_member ::
  "(nat \<Rightarrow> uuid) \<Rightarrow> time \<Rightarrow> uuid \<Rightarrow> uuid \<Rightarrow> string \<Rightarrow> uuid option \<Rightarrow> uuid option \<Rightarrow> workspace_db
   \<Rightarrow> workspace_error + member \<times> workspace_db" where
  "invite_member u now k user role invited_by corr db =
    (if role \<notin> set valid_roles then Inl (WS_Invalid_Role role)
     else if find_member k user db \<noteq> None then Inl (WS_Member_Exists k user)
     else
       let m = \<lparr> mb_id = u 0, mb_workspace_id = k, mb_user_id = user, mb_role = role, mb_joined_at = now,
                 mb_updated_at = now, mb_invited_by_id = invited_by \<rparr> in
       rbind (insert_member m db) (\<lambda>db.
       Inr (m, insert_workspace_event (u 2) now ''workspace.member_added'' k
          [(''workspace_id'', JUuid k), (''user_id'', JUuid user), (''role'', JStr role),
           (''invited_by_id'', opt_uuid invited_by)]
          (opt_or corr (u 1)) (actor_or_user invited_by user) db)))"

definition update_member_role ::
  "(nat \<Rightarrow> uuid) \<Rightarrow> time \<Rightarrow> uuid \<Rightarrow> uuid \<Rightarrow> string \<Rightarrow> uuid option \<Rightarrow> uuid option \<Rightarrow> workspace_db
   \<Rightarrow> workspace_error + member \<times> workspace_db" where
  "update_member_role u now k user role actor corr db =
    (if role \<notin> set valid_roles then Inl (WS_Invalid_Role role)
     else case set_member_role k user role now db of
       None \<Rightarrow> Inl (WS_Member_Not_Found k user)
     | Some (m, db) \<Rightarrow> Inr (m, insert_workspace_event (u 1) now ''workspace.member_role_updated'' k
          [(''workspace_id'', JUuid k), (''user_id'', JUuid user), (''new_role'', JStr role)]
          (opt_or corr (u 0)) (actor_or_user actor user) db))"

definition remove_member ::
  "(nat \<Rightarrow> uuid) \<Rightarrow> time \<Rightarrow> uuid \<Rightarrow> uuid \<Rightarrow> uuid option \<Rightarrow> uuid option \<Rightarrow> workspace_db \<Rightarrow> workspace_error + workspace_db" where
  "remove_member u now k user actor corr db =
    (case delete_member k user db of
       None \<Rightarrow> Inl (WS_Member_Not_Found k user)
     | Some db \<Rightarrow> Inr (insert_workspace_event (u 1) now ''workspace.member_removed'' k
          [(''workspace_id'', JUuid k), (''user_id'', JUuid user)] (opt_or corr (u 0)) (actor_or_user actor user) db))"

section \<open>Endpoints\<close>

text \<open>\<open>Http\<close> is an \<open>HTTPException\<close>; an exception no handler catches is \<open>Raised\<close>.\<close>

datatype workspace_failure = WF_Http int | WF_Raised workspace_error | WF_Value_Error

definition get_user_role :: "uuid \<Rightarrow> uuid \<Rightarrow> workspace_db \<Rightarrow> string option" where
  "get_user_role k user db = (case get_member k user db of Inl _ \<Rightarrow> None | Inr m \<Rightarrow> Some (mb_role m))"

definition require_membership :: "uuid \<Rightarrow> uuid \<Rightarrow> workspace_db \<Rightarrow> workspace_failure + string" where
  "require_membership k user db = (case get_user_role k user db of None \<Rightarrow> Inl (WF_Http 404) | Some r \<Rightarrow> Inr r)"

definition is_manager :: "string \<Rightarrow> bool" where
  "is_manager role = (role \<in> {''owner'', ''admin''})"

text \<open>\<open>except ... : raise HTTPException\<close>: the errors an endpoint catches, by their status.\<close>

definition caught :: "(workspace_error \<Rightarrow> int option) \<Rightarrow> workspace_error + 'a \<Rightarrow> workspace_failure + 'a" where
  "caught status r = (case r of Inr a \<Rightarrow> Inr a
     | Inl e \<Rightarrow> (case status e of None \<Rightarrow> Inl (WF_Raised e) | Some c \<Rightarrow> Inl (WF_Http c)))"

definition catch_slug :: "workspace_error \<Rightarrow> int option" where
  "catch_slug e = (case e of WS_Slug_Exists _ \<Rightarrow> Some 409 | _ \<Rightarrow> None)"

definition catch_workspace :: "workspace_error \<Rightarrow> int option" where
  "catch_workspace e = (case e of WS_Not_Found _ \<Rightarrow> Some 404 | _ \<Rightarrow> None)"

definition catch_invite :: "workspace_error \<Rightarrow> int option" where
  "catch_invite e = (case e of WS_Member_Exists _ _ \<Rightarrow> Some 409 | WS_Invalid_Role _ \<Rightarrow> Some 400 | _ \<Rightarrow> None)"

definition catch_member :: "workspace_error \<Rightarrow> int option" where
  "catch_member e = (case e of WS_Member_Not_Found _ _ \<Rightarrow> Some 404 | WS_Invalid_Role _ \<Rightarrow> Some 400 | _ \<Rightarrow> None)"

definition catch_removed :: "workspace_error \<Rightarrow> int option" where
  "catch_removed e = (case e of WS_Member_Not_Found _ _ \<Rightarrow> Some 404 | _ \<Rightarrow> None)"

definition capabilities_of :: "string option \<Rightarrow> string list" where
  "capabilities_of role = (if str_truthy role then resolve_capabilities (the role) else [])"

text \<open>The pattern of a slug: \<open>[a-z0-9][a-z0-9-]*[a-z0-9]\<close> or one such character.\<close>

definition slug_accepted :: "string \<Rightarrow> bool" where
  "slug_accepted s = (s \<noteq> [] \<and> length s \<le> 100 \<and> list_all slug_char s \<and> hd s \<noteq> CHR ''-'' \<and> last s \<noteq> CHR ''-'')"

definition create_workspace_endpoint ::
  "(nat \<Rightarrow> uuid) \<Rightarrow> time \<Rightarrow> uuid \<Rightarrow> uuid option \<Rightarrow> string \<Rightarrow> string \<Rightarrow> workspace_db
   \<Rightarrow> workspace_failure + (workspace \<times> string list) \<times> workspace_db" where
  "create_workspace_endpoint u now user corr slug name db =
    (if \<not> slug_accepted slug \<or> name = [] \<or> length name > 200 then Inl (WF_Http 422)
     else rbind (caught catch_slug (create_workspace u now slug name user corr db)) (\<lambda>(w, db).
       Inr ((w, capabilities_of (Some ''owner'')), db)))"

definition list_workspaces_endpoint :: "uuid \<Rightarrow> int \<Rightarrow> int \<Rightarrow> workspace_db \<Rightarrow> (workspace \<times> string list) list" where
  "list_workspaces_endpoint user limit offset db =
     map (\<lambda>(w, r). (w, capabilities_of (Some r))) (list_workspaces user limit offset db)"

definition get_workspace_endpoint ::
  "uuid \<Rightarrow> uuid \<Rightarrow> workspace_db \<Rightarrow> workspace_failure + workspace \<times> string list" where
  "get_workspace_endpoint user k db =
     rbind (require_membership k user db) (\<lambda>role.
     rbind (caught catch_workspace (get_workspace k db)) (\<lambda>w. Inr (w, capabilities_of (Some role))))"

text \<open>The body of an update: fields it does not name are dropped, and \<open>null\<close> is taken for either.\<close>

definition update_body :: "dict \<Rightarrow> dict option" where
  "update_body body = (let set_fields = filter (\<lambda>(k, v). k = ''display_name'' \<or> k = ''settings'') body in
     if list_all (\<lambda>(k, v). case v of JNull \<Rightarrow> True | JStr _ \<Rightarrow> k = ''display_name'' | JObj _ \<Rightarrow> k = ''settings'' | _ \<Rightarrow> False) set_fields
     then Some set_fields else None)"

definition update_workspace_endpoint ::
  "(nat \<Rightarrow> uuid) \<Rightarrow> time \<Rightarrow> uuid \<Rightarrow> uuid option \<Rightarrow> uuid \<Rightarrow> dict \<Rightarrow> workspace_db
   \<Rightarrow> workspace_failure + (workspace \<times> string list) \<times> workspace_db" where
  "update_workspace_endpoint u now user corr k body db =
    (case update_body body of
       None \<Rightarrow> Inl (WF_Http 422)
     | Some updates \<Rightarrow>
         rbind (require_membership k user db) (\<lambda>role.
         if \<not> is_manager role then Inl (WF_Http 403)
         else if updates = [] then Inl (WF_Http 400)
         else rbind (caught catch_workspace (update_workspace u now k updates (Some user) corr db)) (\<lambda>(w, db).
           Inr ((w, capabilities_of (Some role)), db))))"

definition delete_workspace_endpoint ::
  "(nat \<Rightarrow> uuid) \<Rightarrow> time \<Rightarrow> uuid \<Rightarrow> uuid option \<Rightarrow> uuid \<Rightarrow> workspace_db \<Rightarrow> workspace_failure + unit \<times> workspace_db" where
  "delete_workspace_endpoint u now user corr k db =
     rbind (require_membership k user db) (\<lambda>role.
     if role \<noteq> ''owner'' then Inl (WF_Http 403)
     else rbind (caught catch_workspace (delete_workspace u now k (Some user) corr db)) (\<lambda>db. Inr ((), db)))"

definition list_members_endpoint ::
  "(member list \<Rightarrow> 'm list) \<Rightarrow> uuid \<Rightarrow> uuid \<Rightarrow> int \<Rightarrow> int \<Rightarrow> workspace_db \<Rightarrow> workspace_failure + 'm list" where
  "list_members_endpoint enrich user k limit offset db =
     rbind (require_membership k user db) (\<lambda>_. Inr (list_members enrich k limit offset db))"

text \<open>The invited user's id is parsed after the caller's role was checked; a bad one raises.\<close>

definition invite_member_endpoint ::
  "(nat \<Rightarrow> uuid) \<Rightarrow> time \<Rightarrow> uuid \<Rightarrow> uuid option \<Rightarrow> uuid \<Rightarrow> uuid option \<Rightarrow> string \<Rightarrow> workspace_db
   \<Rightarrow> workspace_failure + member \<times> workspace_db" where
  "invite_member_endpoint u now user corr k invited role db =
     rbind (require_membership k user db) (\<lambda>mine.
     if \<not> is_manager mine then Inl (WF_Http 403)
     else case invited of
       None \<Rightarrow> Inl WF_Value_Error
     | Some x \<Rightarrow> caught catch_invite (invite_member u now k x role (Some user) corr db))"

text \<open>No actor and no correlation id is passed on.\<close>

definition update_member_role_endpoint ::
  "(nat \<Rightarrow> uuid) \<Rightarrow> time \<Rightarrow> uuid \<Rightarrow> uuid \<Rightarrow> uuid \<Rightarrow> string \<Rightarrow> workspace_db
   \<Rightarrow> workspace_failure + member \<times> workspace_db" where
  "update_member_role_endpoint u now user k target role db =
     rbind (require_membership k user db) (\<lambda>mine.
     if \<not> is_manager mine then Inl (WF_Http 403)
     else caught catch_member (update_member_role u now k target role None None db))"

definition remove_member_endpoint ::
  "(nat \<Rightarrow> uuid) \<Rightarrow> time \<Rightarrow> uuid \<Rightarrow> uuid option \<Rightarrow> uuid \<Rightarrow> uuid \<Rightarrow> workspace_db \<Rightarrow> workspace_failure + unit \<times> workspace_db" where
  "remove_member_endpoint u now user corr k target db =
     rbind (require_membership k user db) (\<lambda>mine.
     if target \<noteq> user \<and> \<not> is_manager mine then Inl (WF_Http 403)
     else rbind (caught catch_removed (remove_member u now k target (Some user) corr db)) (\<lambda>db. Inr ((), db)))"

text \<open>The requests that may change something, and the database after one.\<close>

datatype workspace_request =
    Create_Workspace string string
  | Update_Workspace uuid dict
  | Delete_Workspace uuid
  | Invite_Member uuid "uuid option" string
  | Set_Member_Role uuid uuid string
  | Remove_Member uuid uuid

definition after_request :: "workspace_failure + 'a \<times> workspace_db \<Rightarrow> workspace_db \<Rightarrow> workspace_db" where
  "after_request r db = (case r of Inl _ \<Rightarrow> db | Inr (_, db') \<Rightarrow> db')"

fun handle_request ::
  "(nat \<Rightarrow> uuid) \<Rightarrow> time \<Rightarrow> uuid \<Rightarrow> uuid option \<Rightarrow> workspace_request \<Rightarrow> workspace_db \<Rightarrow> workspace_db" where
  "handle_request u now user corr (Create_Workspace slug name) db =
     after_request (create_workspace_endpoint u now user corr slug name db) db"
| "handle_request u now user corr (Update_Workspace k updates) db =
     after_request (update_workspace_endpoint u now user corr k updates db) db"
| "handle_request u now user corr (Delete_Workspace k) db =
     after_request (delete_workspace_endpoint u now user corr k db) db"
| "handle_request u now user corr (Invite_Member k x role) db =
     after_request (invite_member_endpoint u now user corr k x role db) db"
| "handle_request u now user corr (Set_Member_Role k x role) db =
     after_request (update_member_role_endpoint u now user k x role db) db"
| "handle_request u now user corr (Remove_Member k x) db =
     after_request (remove_member_endpoint u now user corr k x db) db"

end
