(* ===== verification/Workspace_Properties.thy ===== *)
theory Workspace_Properties
  imports Workspace
begin

text \<open>
  What the workspace service keeps and who may change a workspace: the tables stay sound along every sequence of
  requests, only owners and admins change a workspace, and what the rules on roles do not prevent.
\<close>

section \<open>Slugs\<close>

definition not_both_dashes :: "char \<Rightarrow> char \<Rightarrow> bool" where
  "not_both_dashes a b = (\<not> (a = CHR ''-'' \<and> b = CHR ''-''))"

lemma successively_dashes_rev: "successively not_both_dashes (rev s) = successively not_both_dashes s"
proof -
  have "(\<lambda>a b. not_both_dashes b a) = not_both_dashes" by (auto simp: not_both_dashes_def fun_eq_iff)
  then show ?thesis by (simp only: successively_rev)
qed

definition slug_normal :: "string \<Rightarrow> bool" where
  "slug_normal s = (list_all slug_char s \<and> successively not_both_dashes s
     \<and> (s \<noteq> [] \<longrightarrow> hd s \<noteq> CHR ''-'' \<and> last s \<noteq> CHR ''-''))"

lemma squeeze_dashes_hd: "s \<noteq> [] \<Longrightarrow> squeeze_dashes s \<noteq> [] \<and> hd (squeeze_dashes s) = hd s"
  by (induction s rule: squeeze_dashes.induct) auto

lemma squeeze_dashes_successively: "successively not_both_dashes (squeeze_dashes s)"
proof (induction s rule: squeeze_dashes.induct)
  case (1 a b s)
  then show ?case
    using squeeze_dashes_hd [of "b # s"]
    by (cases "squeeze_dashes (b # s)") (auto simp: not_both_dashes_def)
qed auto

lemma squeeze_dashes_set: "set (squeeze_dashes s) \<subseteq> set s"
  by (induction s rule: squeeze_dashes.induct) auto

lemma squeeze_dashes_id: "successively not_both_dashes s \<Longrightarrow> squeeze_dashes s = s"
  by (induction s rule: squeeze_dashes.induct) (auto simp: not_both_dashes_def)

lemma squeeze_dashes_last: "s \<noteq> [] \<Longrightarrow> last (squeeze_dashes s) = last s"
  using squeeze_dashes_hd by (induction s rule: squeeze_dashes.induct) auto

lemma successively_dropWhile: "successively P s \<Longrightarrow> successively P (dropWhile Q s)"
  by (induction s rule: induct_list012) auto

lemma last_dropWhile_rev: "dropWhile P (rev m) \<noteq> [] \<Longrightarrow> last (dropWhile P (rev m)) = hd m \<and> m \<noteq> []"
  by (cases m) (auto simp: dropWhile_append dropWhile_eq_Nil_conv split: if_splits)

lemma strip_dashes_normal:
  assumes "list_all slug_char s" "successively not_both_dashes s"
  shows "slug_normal (strip_dashes s)"
proof -
  let ?d = "\<lambda>c. c = CHR ''-''" and ?P = "not_both_dashes"
  let ?m = "dropWhile ?d s" and ?e = "dropWhile ?d (rev (dropWhile ?d s))"
  have set: "set ?e \<subseteq> set s" by (auto dest!: set_dropWhileD)
  have "successively ?P (rev ?m)" using successively_dropWhile [OF assms(2), of ?d] by (simp only: successively_dashes_rev)
  then have "successively ?P ?e" by (rule successively_dropWhile)
  then have "successively ?P (rev ?e)" by (simp only: successively_dashes_rev)
  moreover have "hd ?e \<noteq> CHR ''-''" if "?e \<noteq> []" using hd_dropWhile [OF that] .
  moreover have "last ?e \<noteq> CHR ''-''" if "?e \<noteq> []"
  proof -
    from last_dropWhile_rev [OF that] have "last ?e = hd ?m" "?m \<noteq> []" by blast+
    then show ?thesis using hd_dropWhile [of ?d s] by metis
  qed
  ultimately show ?thesis
    using set assms(1) by (auto simp: slug_normal_def strip_dashes_def list_all_iff hd_rev last_rev)
qed

lemma slug_char_plain: "slug_char c \<Longrightarrow> py_lower_char c = c \<and> \<not> py_space c"
  by (auto simp: slug_char_def py_lower_char_def py_space_def Let_def)

lemma dropWhile_hd_id: "(s \<noteq> [] \<Longrightarrow> \<not> P (hd s)) \<Longrightarrow> dropWhile P s = s"
  by (cases s) auto

lemma slug_normal_fixed:
  assumes "slug_normal s"
  shows "slugify s = s"
proof -
  have chars: "py_lower_char c = c" "\<not> py_space c" "slug_char c" if "c \<in> set s" for c
    using assms slug_char_plain that by (auto simp: slug_normal_def list_all_iff)
  have "py_lower s = s" unfolding py_lower_def using chars(1) by (simp add: map_idI)
  moreover have "py_strip s = s"
  proof -
    have "dropWhile py_space xs = xs" if "set xs \<subseteq> set s" for xs
      using that chars(2) by (intro dropWhile_hd_id) (auto dest: hd_in_set)
    then show ?thesis by (simp add: py_strip_def)
  qed
  moreover have "map (\<lambda>c. if slug_char c then c else CHR ''-'') s = s" using chars(3) by (simp add: map_idI)
  moreover have "strip_dashes s = s"
    using assms by (cases "s = []") (simp_all add: strip_dashes_def slug_normal_def dropWhile_hd_id hd_rev)
  ultimately show ?thesis
    using assms by (simp add: slugify_def slug_normal_def squeeze_dashes_id)
qed

text \<open>A slug is stored in a normal form: lower-case letters, digits and single dashes, none of them at an
  end; the slug of a slug is the slug itself.\<close>

theorem slugify_normal: "slug_normal (slugify s) \<and> slugify (slugify s) = slugify s"
proof -
  let ?m = "map (\<lambda>c. if slug_char c then c else CHR ''-'') (py_strip (py_lower s))"
  have "slug_char (CHR ''-'')" by (simp add: slug_char_def)
  then have "list_all slug_char ?m" by (auto simp: list_all_iff)
  then have "list_all slug_char (squeeze_dashes ?m)" using squeeze_dashes_set [of ?m] by (auto simp: list_all_iff simp del: set_map)
  from strip_dashes_normal [OF this squeeze_dashes_successively] have normal: "slug_normal (slugify s)"
    by (simp only: slugify_def)
  then show ?thesis using slug_normal_fixed [OF normal] by simp
qed

section \<open>The tables stay sound\<close>

definition member_key :: "member \<Rightarrow> uuid \<times> uuid" where
  "member_key m = (mb_workspace_id m, mb_user_id m)"

definition workspaces_sound :: "workspace_db \<Rightarrow> bool" where
  "workspaces_sound db =
    (distinct (map wk_id (wd_workspaces db)) \<and> distinct (map wk_slug (wd_workspaces db))
     \<and> distinct (map member_key (wd_members db)) \<and> distinct (map mb_id (wd_members db))
     \<and> (\<forall>m \<in> set (wd_members db). mb_role m \<in> set valid_roles \<and> mb_workspace_id m \<in> wk_id ` set (wd_workspaces db)))"

lemma find_workspace_None: "find_workspace_by_id k db = None \<longleftrightarrow> k \<notin> wk_id ` set (wd_workspaces db)"
  by (simp add: find_workspace_by_id_def find_row_None_iff)

lemma find_member_None: "find_member k x db = None \<longleftrightarrow> (k, x) \<notin> member_key ` set (wd_members db)"
  by (auto simp: find_member_def find_None_iff member_key_def)

lemma find_member_Some: "find_member k x db = Some m \<Longrightarrow> m \<in> set (wd_members db) \<and> mb_workspace_id m = k \<and> mb_user_id m = x"
  by (auto simp: find_member_def find_Some_iff)

lemma event_frame [simp]:
  "wd_workspaces (insert_workspace_event i now ty ws p c a db) = wd_workspaces db"
  "wd_members (insert_workspace_event i now ty ws p c a db) = wd_members db"
  "find_member k x (insert_workspace_event i now ty ws p c a db) = find_member k x db"
  "find_workspace_by_id k (insert_workspace_event i now ty ws p c a db) = find_workspace_by_id k db"
  by (simp_all add: insert_workspace_event_def find_member_def find_workspace_by_id_def)

lemma set_fields_ids: "set_workspace_fields fs w = Inr w' \<Longrightarrow> wk_id w' = wk_id w \<and> wk_slug w' = wk_slug w \<and> wk_owner_id w' = wk_owner_id w"
proof (induction fs arbitrary: w)
  case (Cons f fs)
  obtain k v where f: "f = (k, v)" by (cases f)
  have "set_workspace_field (k, v) w = Inr w'' \<Longrightarrow> wk_id w'' = wk_id w \<and> wk_slug w'' = wk_slug w \<and> wk_owner_id w'' = wk_owner_id w" for w''
    by (auto split: if_splits json.splits)
  then show ?case using Cons f by (auto simp: rbind_Inr_iff simp del: set_workspace_field.simps)
qed simp

text \<open>What each use case does to the two tables.\<close>

lemma insert_workspace_Inr:
  "insert_workspace w db = Inr db' \<longleftrightarrow> wk_id w \<notin> wk_id ` set (wd_workspaces db) \<and> wk_slug w \<notin> wk_slug ` set (wd_workspaces db)
     \<and> db' = db\<lparr>wd_workspaces := wd_workspaces db @ [w]\<rparr>"
  by (auto simp: insert_workspace_def)

lemma insert_member_Inr:
  "insert_member m db = Inr db' \<longleftrightarrow> mb_id m \<notin> mb_id ` set (wd_members db)
     \<and> mb_workspace_id m \<in> wk_id ` set (wd_workspaces db) \<and> member_key m \<notin> member_key ` set (wd_members db)
     \<and> db' = db\<lparr>wd_members := wd_members db @ [m]\<rparr>"
proof -
  have "member_key m = (mb_workspace_id m, mb_user_id m)" by (simp add: member_key_def)
  then show ?thesis
    using find_member_None [of "mb_workspace_id m" "mb_user_id m" db] find_workspace_None [of "mb_workspace_id m" db]
    by (auto simp: insert_member_def)
qed

lemma sound_cases:
  assumes "workspaces_sound db"
  shows "create_workspace u now slug name owner corr db = Inr (w, db') \<Longrightarrow> workspaces_sound db'"
    and "update_workspace u now k updates actor corr db = Inr (w, db') \<Longrightarrow> workspaces_sound db'"
    and "delete_workspace u now k actor corr db = Inr db' \<Longrightarrow> workspaces_sound db'"
    and "invite_member u now k user role invited_by corr db = Inr (m, db') \<Longrightarrow> workspaces_sound db'"
    and "update_member_role u now k user role actor corr db = Inr (m, db') \<Longrightarrow> workspaces_sound db'"
    and "remove_member u now k user actor corr db = Inr db' \<Longrightarrow> workspaces_sound db'"
proof -
  show "workspaces_sound db'" if "create_workspace u now slug name owner corr db = Inr (w, db')"
    using that assms
    by (auto simp: create_workspace_def Let_def rbind_Inr_iff insert_workspace_Inr insert_member_Inr workspaces_sound_def
        valid_roles_def split: if_splits)
  show "workspaces_sound db'" if "update_workspace u now k updates actor corr db = Inr (w, db')"
  proof -
    from that obtain w0 w' where w: "find_workspace_by_id k db = Some w0"
        "set_workspace_fields updates (w0\<lparr>wk_updated_at := now\<rparr>) = Inr w'"
        "wd_workspaces db' = upsert wk_id w' (wd_workspaces db)" "wd_members db' = wd_members db"
      by (auto simp: update_workspace_def update_workspace_row_def rbind_Inr_iff split: option.splits)
    then have mem: "w0 \<in> set (wd_workspaces db)" "wk_id w' = wk_id w0" "wk_slug w' = wk_slug w0"
      using set_fields_ids [OF w(2)] by (auto simp: find_workspace_by_id_def dest: find_row_key)
    have "map wk_slug (upsert wk_id w' xs) = map wk_slug xs" if "distinct (map wk_id xs)" "w0 \<in> set xs" for xs
      using that mem(2,3) by (induction xs) (auto simp: image_iff)
    moreover have "map wk_id (upsert wk_id w' (wd_workspaces db)) = map wk_id (wd_workspaces db)"
      using mem by (intro map_key_upsert_existing) auto
    moreover from this have "wk_id ` set (upsert wk_id w' (wd_workspaces db)) = wk_id ` set (wd_workspaces db)"
      by (metis list.set_map)
    ultimately show ?thesis using assms mem(1) w(3,4) by (auto simp: workspaces_sound_def)
  qed
  show "workspaces_sound db'" if "delete_workspace u now k actor corr db = Inr db'"
  proof -
    from that have "wd_workspaces db' = filter (\<lambda>w. wk_id w \<noteq> k) (wd_workspaces db)"
        "wd_members db' = filter (\<lambda>m. mb_workspace_id m \<noteq> k) (wd_members db)"
      by (auto simp: delete_workspace_def delete_workspace_row_def split: option.splits if_splits)
    then show ?thesis
      using assms by (fastforce simp: workspaces_sound_def distinct_map_filter image_iff)
  qed
  show "workspaces_sound db'" if "invite_member u now k user role invited_by corr db = Inr (m, db')"
    using that assms
    by (auto simp: invite_member_def Let_def rbind_Inr_iff insert_member_Inr workspaces_sound_def split: if_splits)
  show "workspaces_sound db'" if "update_member_role u now k user role actor corr db = Inr (m, db')"
  proof -
    let ?f = "\<lambda>x :: member. if mb_workspace_id x = k \<and> mb_user_id x = user then x\<lparr> mb_role := role, mb_updated_at := now \<rparr> else x"
    from that have "role \<in> set valid_roles" "wd_members db' = map ?f (wd_members db)" "wd_workspaces db' = wd_workspaces db"
      by (auto simp: update_member_role_def set_member_role_def Let_def split: if_splits option.splits)
    moreover have "member_key \<circ> ?f = member_key" "mb_id \<circ> ?f = mb_id"
      by (auto simp: member_key_def)
    ultimately show ?thesis using assms by (auto simp: workspaces_sound_def)
  qed
  show "workspaces_sound db'" if "remove_member u now k user actor corr db = Inr db'"
    using that assms
    by (auto simp: remove_member_def delete_member_def workspaces_sound_def distinct_map_filter
        split: option.splits if_splits)
qed

inductive workspace_reach :: "workspace_db \<Rightarrow> workspace_db \<Rightarrow> bool" where
  Workspace_Start: "workspace_reach db db"
| Workspace_Step: "workspace_reach db db' \<Longrightarrow> workspace_reach db (handle_request u now user corr rq db')"

lemma caught_Inr [simp]: "caught f r = Inr a \<longleftrightarrow> r = Inr a"
  by (auto simp: caught_def split: sum.split option.split)

lemma handle_request_sound:
  assumes "workspaces_sound db"
  shows "workspaces_sound (handle_request u now user corr rq db)"
  using assms
  by (cases rq)
     (auto simp: after_request_def create_workspace_endpoint_def update_workspace_endpoint_def delete_workspace_endpoint_def
       invite_member_endpoint_def update_member_role_endpoint_def remove_member_endpoint_def rbind_Inr_iff
       split: sum.split if_splits option.splits dest: sound_cases)

lemma workspace_reach_sound: "workspace_reach db db' \<Longrightarrow> workspaces_sound db \<Longrightarrow> workspaces_sound db'"
  by (induction rule: workspace_reach.induct) (simp_all add: handle_request_sound)

text \<open>Along every sequence of requests ids, slugs and memberships stay unique, every role is one of the four,
  and every member belongs to a workspace that exists.\<close>

theorem workspaces_stay_sound:
  assumes "workspace_reach db db'" "workspaces_sound db"
  shows "workspaces_sound db'"
  using assms by (rule workspace_reach_sound)

section \<open>Who may change what\<close>

text \<open>The part of the database that belongs to one workspace.\<close>

definition workspace_view :: "uuid \<Rightarrow> workspace_db \<Rightarrow> workspace option \<times> member list" where
  "workspace_view k db = (find_workspace_by_id k db, filter (\<lambda>m. mb_workspace_id m = k) (wd_members db))"

definition manages :: "uuid \<Rightarrow> uuid \<Rightarrow> workspace_db \<Rightarrow> bool" where
  "manages user k db = (case get_user_role k user db of None \<Rightarrow> False | Some r \<Rightarrow> is_manager r)"

definition is_member :: "uuid \<Rightarrow> uuid \<Rightarrow> workspace_db \<Rightarrow> bool" where
  "is_member user k db = (get_user_role k user db \<noteq> None)"

lemma require_membership_Inr: "require_membership k user db = Inr r \<longleftrightarrow> get_user_role k user db = Some r"
  by (auto simp: require_membership_def split: option.split)

lemma view_frame:
  assumes "k' \<noteq> k"
  shows "update_workspace u now k' updates actor corr db = Inr (w, db') \<Longrightarrow> workspace_view k db' = workspace_view k db"
    and "delete_workspace u now k' actor corr db = Inr db' \<Longrightarrow> workspace_view k db' = workspace_view k db"
    and "invite_member u now k' x role invited_by corr db = Inr (m, db') \<Longrightarrow> workspace_view k db' = workspace_view k db"
    and "update_member_role u now k' x role actor corr db = Inr (m, db') \<Longrightarrow> workspace_view k db' = workspace_view k db"
    and "remove_member u now k' x actor corr db = Inr db' \<Longrightarrow> workspace_view k db' = workspace_view k db"
proof -
  show "workspace_view k db' = workspace_view k db" if "update_workspace u now k' updates actor corr db = Inr (w, db')"
  proof -
    from that obtain w0 where "find_workspace_by_id k' db = Some w0"
        "set_workspace_fields updates (w0\<lparr>wk_updated_at := now\<rparr>) = Inr w"
        and db': "wd_workspaces db' = upsert wk_id w (wd_workspaces db)" "wd_members db' = wd_members db"
      by (auto simp: update_workspace_def update_workspace_row_def rbind_Inr_iff split: option.splits)
    then have "wk_id w = k'" using set_fields_ids by (fastforce simp: find_workspace_by_id_def dest: find_row_key)
    then show ?thesis using db' assms by (simp add: workspace_view_def find_workspace_by_id_def)
  qed
  have del: "find_row wk_id k (filter (\<lambda>w. wk_id w \<noteq> k') xs) = find_row wk_id k xs" for xs
    using assms by (induction xs) auto
  show "workspace_view k db' = workspace_view k db" if "delete_workspace u now k' actor corr db = Inr db'"
  proof -
    have "filter (\<lambda>m. mb_workspace_id m = k \<and> mb_workspace_id m \<noteq> k') xs = filter (\<lambda>m. mb_workspace_id m = k) xs" for xs
      using assms by (intro filter_cong) auto
    then show ?thesis
      using that del
      by (auto simp: delete_workspace_def delete_workspace_row_def workspace_view_def find_workspace_by_id_def
          conj_commute split: option.splits if_splits)
  qed
  show "workspace_view k db' = workspace_view k db" if "invite_member u now k' x role invited_by corr db = Inr (m, db')"
    using that assms
    by (auto simp: invite_member_def Let_def rbind_Inr_iff insert_member_Inr workspace_view_def find_workspace_by_id_def
        split: if_splits)
  show "workspace_view k db' = workspace_view k db" if "update_member_role u now k' x role actor corr db = Inr (m, db')"
  proof -
    have "filter (\<lambda>m. mb_workspace_id m = k) (map (\<lambda>y. if mb_workspace_id y = k' \<and> mb_user_id y = x
        then y\<lparr> mb_role := role, mb_updated_at := now \<rparr> else y) xs) = filter (\<lambda>m. mb_workspace_id m = k) xs" for xs
      using assms by (induction xs) auto
    then show ?thesis
      using that
      by (auto simp: update_member_role_def set_member_role_def Let_def workspace_view_def find_workspace_by_id_def
          split: if_splits option.splits)
  qed
  show "workspace_view k db' = workspace_view k db" if "remove_member u now k' x actor corr db = Inr db'"
  proof -
    have "filter (\<lambda>m. mb_workspace_id m = k \<and> \<not> (mb_workspace_id m = k' \<and> mb_user_id m = x)) xs
        = filter (\<lambda>m. mb_workspace_id m = k) xs" for xs
      using assms by (intro filter_cong) auto
    then show ?thesis
      using that
      by (auto simp: remove_member_def delete_member_def workspace_view_def find_workspace_by_id_def conj_commute
          split: option.splits if_splits)
  qed
qed

lemma create_view:
  assumes "create_workspace u now slug name owner corr db = Inr (w, db')" "workspaces_sound db" "find_workspace_by_id k db \<noteq> None"
  shows "workspace_view k db' = workspace_view k db"
proof -
  have app: "find_row wk_id k (xs @ [y]) = find_row wk_id k xs" if "find_row wk_id k xs \<noteq> None" for xs y
    using that by (induction xs) (auto split: if_splits)
  from assms(1) have db': "wd_workspaces db' = wd_workspaces db @ [w]" "wk_id w \<notin> wk_id ` set (wd_workspaces db)"
      "\<exists>m. wd_members db' = wd_members db @ [m] \<and> mb_workspace_id m = wk_id w"
    by (auto simp: create_workspace_def Let_def rbind_Inr_iff insert_workspace_Inr insert_member_Inr split: if_splits)
  from db'(3) obtain m where m: "wd_members db' = wd_members db @ [m]" "mb_workspace_id m = wk_id w" by blast
  have "wk_id w \<noteq> k" using assms(3) db'(2) by (auto simp: find_workspace_None)
  moreover have "find_row wk_id k (wd_workspaces db @ [w]) = find_row wk_id k (wd_workspaces db)"
    using assms(3) by (intro app) (simp add: find_workspace_by_id_def)
  ultimately show ?thesis
    by (simp add: workspace_view_def find_workspace_by_id_def m db'(1))
qed

lemma request_view:
  assumes "workspaces_sound db" "find_workspace_by_id k db = Some w" "\<not> manages user k db"
  shows "workspace_view k (handle_request u now user corr rq db) =
      (if rq = Remove_Member k user
       then (Some w, filter (\<lambda>m. mb_user_id m \<noteq> user) (snd (workspace_view k db)))
       else workspace_view k db)"
proof -
  have no: "require_membership k user db = Inr r \<Longrightarrow> \<not> is_manager r" for r
    using assms(3) by (auto simp: require_membership_Inr manages_def)
  show ?thesis
  proof (cases rq)
    case (Create_Workspace slug name)
    then show ?thesis
      using create_view [OF _ assms(1), where k = k] assms(2)
      by (auto simp: after_request_def create_workspace_endpoint_def rbind_Inr_iff split: sum.split if_splits)
  next
    case (Update_Workspace k' updates)
    then show ?thesis
      using no view_frame(1) [of k' k]
      by (cases "k' = k") (auto simp: after_request_def update_workspace_endpoint_def rbind_Inr_iff
          split: sum.split if_splits option.splits)
  next
    case (Delete_Workspace k')
    then show ?thesis
      using no view_frame(2) [of k' k]
      by (cases "k' = k") (auto simp: after_request_def delete_workspace_endpoint_def rbind_Inr_iff is_manager_def
          split: sum.split if_splits)
  next
    case (Invite_Member k' x role)
    then show ?thesis
      using no view_frame(3) [of k' k]
      by (cases "k' = k") (auto simp: after_request_def invite_member_endpoint_def rbind_Inr_iff
          split: sum.split if_splits option.splits)
  next
    case (Set_Member_Role k' x role)
    then show ?thesis
      using no view_frame(4) [of k' k]
      by (cases "k' = k") (auto simp: after_request_def update_member_role_endpoint_def rbind_Inr_iff split: sum.split if_splits)
  next
    case (Remove_Member k' x)
    show ?thesis
    proof (cases "k' = k \<and> x = user")
      case False
      then show ?thesis
        using Remove_Member no view_frame(5) [of k' k]
        by (cases "k' = k") (auto simp: after_request_def remove_member_endpoint_def rbind_Inr_iff split: sum.split if_splits)
    next
      case True
      have gone: "filter (\<lambda>m. mb_workspace_id m = k \<and> \<not> (mb_workspace_id m = k \<and> mb_user_id m = user)) xs
          = filter (\<lambda>m. mb_user_id m \<noteq> user) (filter (\<lambda>m. mb_workspace_id m = k) xs)" for xs
        by (induction xs) auto
      have stays: "filter (\<lambda>m. mb_user_id m \<noteq> user) (filter (\<lambda>m. mb_workspace_id m = k) (wd_members db))
          = filter (\<lambda>m. mb_workspace_id m = k) (wd_members db)" if "find_member k user db = None"
        using that by (auto simp: find_member_None member_key_def image_iff intro!: filter_cong)
      show ?thesis
        using True Remove_Member gone stays assms(2)
        by (auto simp: after_request_def remove_member_endpoint_def rbind_Inr_iff remove_member_def delete_member_def
            workspace_view_def find_workspace_by_id_def get_user_role_def get_member_def require_membership_def
            caught_def catch_removed_def conj_commute split: sum.split option.splits if_splits)
    qed
  qed
qed


text \<open>C36. Only an owner or an admin of a workspace changes it: a request of anybody else leaves the row of an
  existing workspace and its members as they are, or takes out the requester alone.\<close>

theorem workspace_guarded:
  assumes "workspaces_sound db" "find_workspace_by_id k db = Some w" "\<not> manages user k db"
  shows "workspace_view k (handle_request u now user corr rq db) =
      (if rq = Remove_Member k user
       then (Some w, filter (\<lambda>m. mb_user_id m \<noteq> user) (snd (workspace_view k db)))
       else workspace_view k db)"
  using assms by (rule request_view)

text \<open>A workspace with an owner (2), an admin (3) and a viewer (4).\<close>

definition demo_member :: "uuid \<Rightarrow> uuid \<Rightarrow> string \<Rightarrow> member" where
  "demo_member i user role = \<lparr> mb_id = i, mb_workspace_id = 1, mb_user_id = user, mb_role = role, mb_joined_at = 0,
     mb_updated_at = 0, mb_invited_by_id = None \<rparr>"

definition demo_workspaces :: workspace_db where
  "demo_workspaces = \<lparr> wd_workspaces = [new_workspace 1 0 ''acme'' ''Acme'' 2],
     wd_members = [demo_member 5 2 ''owner'', demo_member 6 3 ''admin'', demo_member 7 4 ''viewer''], wd_outbox = [] \<rparr>"

lemma demo_workspaces_facts:
  "workspaces_sound demo_workspaces"
  "find_workspace_by_id 1 demo_workspaces = Some (new_workspace 1 0 ''acme'' ''Acme'' 2)"
  "get_user_role 1 3 demo_workspaces = Some ''admin''"
  "\<not> manages 4 1 demo_workspaces"
  by code_simp+

theorem workspaces_stay_sound_witness:
  "workspaces_sound (handle_request id 9 3 None (Set_Member_Role 1 4 ''admin'') demo_workspaces)"
  by (rule workspaces_stay_sound [OF Workspace_Step [OF Workspace_Start] demo_workspaces_facts(1)])

theorem workspace_guarded_witness:
  "workspace_view 1 (handle_request id 9 4 None (Set_Member_Role 1 4 ''owner'') demo_workspaces)
     = workspace_view 1 demo_workspaces
   \<and> workspace_view 1 (handle_request id 9 4 None (Remove_Member 1 4) demo_workspaces)
     = (Some (new_workspace 1 0 ''acme'' ''Acme'' 2), [demo_member 5 2 ''owner'', demo_member 6 3 ''admin''])"
proof -
  note guarded = workspace_guarded [OF demo_workspaces_facts(1,2,4)]
  have "filter (\<lambda>m. mb_user_id m \<noteq> 4) (snd (workspace_view 1 demo_workspaces))
      = [demo_member 5 2 ''owner'', demo_member 6 3 ''admin'']" by code_simp
  then show ?thesis by (simp add: guarded del: handle_request.simps One_nat_def)
qed

section \<open>Losing the managers\<close>

text \<open>Nobody holds the role of an owner or an admin.\<close>

definition unmanaged :: "uuid \<Rightarrow> workspace_db \<Rightarrow> bool" where
  "unmanaged k db = list_all (\<lambda>m. mb_workspace_id m = k \<longrightarrow> \<not> is_manager (mb_role m)) (wd_members db)"

lemma unmanaged_view: "unmanaged k db \<longleftrightarrow> list_all (\<lambda>m. \<not> is_manager (mb_role m)) (snd (workspace_view k db))"
  by (auto simp: unmanaged_def workspace_view_def list_all_iff)

lemma unmanaged_nobody: "unmanaged k db \<Longrightarrow> \<not> manages user k db"
  by (auto simp: unmanaged_def manages_def get_user_role_def get_member_def find_member_def list_all_iff find_Some_iff
      split: option.splits dest: nth_mem)

lemma unmanaged_request:
  assumes "workspaces_sound db" "find_workspace_by_id k db = Some w" "unmanaged k db"
  shows "find_workspace_by_id k (handle_request u now user corr rq db) = Some w"
    and "set (snd (workspace_view k (handle_request u now user corr rq db))) \<subseteq> set (snd (workspace_view k db))"
proof -
  have view: "fst (workspace_view k db') = find_workspace_by_id k db'" for db' by (simp add: workspace_view_def)
  note after = request_view [OF assms(1,2) unmanaged_nobody [OF assms(3)], of u now user corr rq]
  show "find_workspace_by_id k (handle_request u now user corr rq db) = Some w"
    using after view [of db] view [of "handle_request u now user corr rq db"] assms(2) by (auto split: if_splits)
  show "set (snd (workspace_view k (handle_request u now user corr rq db))) \<subseteq> set (snd (workspace_view k db))"
    using after by (auto split: if_splits)
qed

lemma unmanaged_reach:
  assumes "workspace_reach db db'" "workspaces_sound db" "find_workspace_by_id k db = Some w" "unmanaged k db"
  shows "find_workspace_by_id k db' = Some w \<and> unmanaged k db'
     \<and> set (snd (workspace_view k db')) \<subseteq> set (snd (workspace_view k db))"
  using assms
proof (induction rule: workspace_reach.induct)
  case (Workspace_Step db db' u now user corr rq)
  then have IH: "find_workspace_by_id k db' = Some w" "unmanaged k db'"
      "set (snd (workspace_view k db')) \<subseteq> set (snd (workspace_view k db))" by auto
  have "workspaces_sound db'" using Workspace_Step workspace_reach_sound by blast
  note next_db = unmanaged_request [OF this IH(1,2), of u now user corr rq]
  then show ?case using IH by (auto simp: unmanaged_view list_all_iff subset_iff)
qed simp

text \<open>Once a workspace has neither an owner nor an admin it stays so whatever requests follow: its row never
  changes, it is never deleted and nobody joins it.\<close>

theorem unmanaged_for_good:
  assumes "workspace_reach db db'" "workspaces_sound db" "find_workspace_by_id k db = Some w" "unmanaged k db"
  shows "find_workspace_by_id k db' = Some w \<and> unmanaged k db'
     \<and> set (snd (workspace_view k db')) \<subseteq> set (snd (workspace_view k db))"
  using assms by (rule unmanaged_reach)

text \<open>And the last owner may simply leave.\<close>

lemma last_owner_leaves:
  "let db = handle_request id 9 2 None (Remove_Member 1 2) (handle_request id 9 2 None (Remove_Member 1 3) demo_workspaces)
   in unmanaged 1 db \<and> find_workspace_by_id 1 db = Some (new_workspace 1 0 ''acme'' ''Acme'' 2)"
  by code_simp

theorem unmanaged_for_good_witness:
  "let db = handle_request id 9 2 None (Remove_Member 1 2) (handle_request id 9 2 None (Remove_Member 1 3) demo_workspaces)
   in find_workspace_by_id 1 (handle_request id 10 4 None (Delete_Workspace 1) db)
     = Some (new_workspace 1 0 ''acme'' ''Acme'' 2)"
proof -
  define db where
    "db = handle_request id 9 2 None (Remove_Member 1 2) (handle_request id 9 2 None (Remove_Member 1 3) demo_workspaces)"
  have "unmanaged 1 db" "find_workspace_by_id 1 db = Some (new_workspace 1 0 ''acme'' ''Acme'' 2)"
    using last_owner_leaves unfolding Let_def db_def by blast+
  moreover have "workspaces_sound db" unfolding db_def by (intro handle_request_sound demo_workspaces_facts)
  moreover have "workspace_reach db (handle_request id 10 4 None (Delete_Workspace 1) db)"
    by (rule Workspace_Step [OF Workspace_Start])
  ultimately show ?thesis
    unfolding Let_def db_def [symmetric] using unmanaged_for_good by blast
qed

section \<open>Taking a workspace over\<close>

text \<open>The rule that only an owner deletes a workspace does not stop an admin: the role of a member is theirs to
  set, their own included, so an admin makes himself an owner and deletes the workspace in the next request.\<close>

theorem admin_deletes_workspace:
  assumes "get_user_role k user db = Some ''admin''" "find_workspace_by_id k db \<noteq> None"
  shows "after_request (delete_workspace_endpoint u now user corr k db) db = db
    \<and> find_workspace_by_id k (handle_request u' now' user corr' (Delete_Workspace k)
        (handle_request u now user corr (Set_Member_Role k user ''owner'') db)) = None"
proof -
  have del: "find_row wk_id k (filter (\<lambda>w. wk_id w \<noteq> k) xs) = None" for xs by (induction xs) auto
  have fm: "find (\<lambda>m. mb_workspace_id m = k \<and> mb_user_id m = user)
        (map (\<lambda>x. if mb_workspace_id x = k \<and> mb_user_id x = user then x\<lparr>mb_role := r, mb_updated_at := t\<rparr> else x) ms)
      = map_option (\<lambda>x. x\<lparr>mb_role := r, mb_updated_at := t\<rparr>) (find (\<lambda>m. mb_workspace_id m = k \<and> mb_user_id m = user) ms)"
    for ms r t by (induction ms) auto
  show ?thesis
    using assms
    by (auto simp: after_request_def delete_workspace_endpoint_def update_member_role_endpoint_def require_membership_def
        get_user_role_def get_member_def find_member_def update_member_role_def set_member_role_def valid_roles_def
        is_manager_def caught_def delete_workspace_def delete_workspace_row_def find_workspace_by_id_def Let_def
        insert_workspace_event_def fm del split: option.splits)
qed

theorem admin_deletes_workspace_witness:
  "find_workspace_by_id 1 (handle_request id 9 3 None (Delete_Workspace 1)
     (handle_request id 9 3 None (Set_Member_Role 1 3 ''owner'') demo_workspaces)) = None"
  using admin_deletes_workspace [of 1 3 demo_workspaces id 9 None id 9 None] demo_workspaces_facts
  by (simp del: handle_request.simps One_nat_def)

text \<open>The event of a changed role names the member it concerns as the actor, whoever changed it.\<close>

lemma role_change_actor:
  assumes "update_member_role_endpoint u now user k x role db = Inr (m, db')"
  shows "we_actor_id (last (wd_outbox db')) = JUuid x"
  using assms
  by (auto simp: update_member_role_endpoint_def update_member_role_def rbind_Inr_iff insert_workspace_event_def
      actor_or_user_def split: if_splits option.splits)

end
