(* ===== verification/Policy_Routes.thy ===== *)
theory Policy_Routes
  imports Policy
begin

text \<open>
  The endpoints of the policy service (\<open>apps/policy-service/src/api/routes.py\<close>).  An update commits before the
  workspace of the policy is compared, so an endpoint gives its answer and the database it leaves behind.
\<close>

definition policy_name_ok :: "string \<Rightarrow> bool" where
  "policy_name_ok name = (name \<noteq> [] \<and> length name \<le> 200)"

definition list_policies_endpoint :: "uuid \<Rightarrow> int \<Rightarrow> int \<Rightarrow> policy_db \<Rightarrow> policy list" where
  "list_policies_endpoint ws limit offset db = list_policies ws limit offset db"

definition create_policy_endpoint ::
  "uuid \<Rightarrow> time \<Rightarrow> uuid \<Rightarrow> string \<Rightarrow> string option \<Rightarrow> dict list option \<Rightarrow> policy_db \<Rightarrow> (int + policy) \<times> policy_db" where
  "create_policy_endpoint new_id now ws name scope rules db =
    (if \<not> policy_name_ok name then (Inl 422, db)
     else let (p, db') = create_policy new_id now ws name (opt_or scope ''workspace'') rules db in (Inr p, db'))"

definition get_policy_endpoint :: "uuid \<Rightarrow> uuid \<Rightarrow> policy_db \<Rightarrow> int + policy" where
  "get_policy_endpoint ws pid db =
    (case get_policy pid db of
       None \<Rightarrow> Inl 404
     | Some p \<Rightarrow> if po_workspace_id p \<noteq> ws then Inl 404 else Inr p)"

text \<open>The fields a body sets; \<open>null\<close> is written into the column and refused there for \<open>name\<close> and \<open>scope\<close>, so these
  are the bodies without \<open>null\<close>.\<close>

definition no_updates :: "policy_updates \<Rightarrow> bool" where
  "no_updates up = (pu_name up = None \<and> pu_rules up = None \<and> pu_scope up = None)"

definition update_policy_endpoint ::
  "uuid \<Rightarrow> uuid \<Rightarrow> policy_updates \<Rightarrow> time \<Rightarrow> policy_db \<Rightarrow> (int + policy) \<times> policy_db" where
  "update_policy_endpoint ws pid up now db =
    (if no_updates up then (Inl 400, db)
     else case update_policy pid up now db of
       None \<Rightarrow> (Inl 404, db)
     | Some (p, db') \<Rightarrow> (if po_workspace_id p \<noteq> ws then Inl 404 else Inr p, db'))"

text \<open>Ids and the role arrive as strings; None is a body the endpoint cannot read, a 422 or a 500.\<close>

definition check_permission_endpoint ::
  "(string \<Rightarrow> uuid option) \<Rightarrow> string \<Rightarrow> string \<Rightarrow> string \<Rightarrow> json \<Rightarrow> policy_db
   \<Rightarrow> (unit + bool \<times> string) \<times> policy_db" where
  "check_permission_endpoint uuid_of actor ws perm role db =
    (case (uuid_of actor, uuid_of ws, role) of
       (Some a, Some w, JStr r) \<Rightarrow>
         let (answer, db') = check_permission a w perm r None db in (Inr answer, db')
     | _ \<Rightarrow> (Inl (), db))"

text \<open>An update of a policy is written before its workspace is compared: with the id of a policy of another
  workspace the answer is a 404, and the policy of that other workspace has the new rules, which decide there.\<close>

theorem foreign_policy_rewritten:
  assumes "find_row po_id pid (pd_policies db) = Some p" "po_workspace_id p \<noteq> ws"
    and "pu_rules up = Some rules" "update_policy_endpoint ws pid up now db = (answer, db')"
  shows "answer = Inl 404 \<and> (\<exists>p'. get_policy_endpoint (po_workspace_id p) pid db' = Inr p' \<and> po_rules p' = rules)"
proof -
  let ?p = "p\<lparr> po_name := opt_or (pu_name up) (po_name p), po_rules := rules,
               po_scope := opt_or (pu_scope up) (po_scope p), po_updated_at := now \<rparr>"
  have "\<not> no_updates up" using assms(3) by (simp add: no_updates_def)
  then have "answer = Inl 404" and db': "db' = db\<lparr>pd_policies := upsert po_id ?p (pd_policies db)\<rparr>"
    using assms by (auto simp: update_policy_endpoint_def update_policy_def Let_def)
  moreover have "po_id ?p = pid" using assms(1) by (auto dest: find_row_key)
  then have "find_row po_id pid (upsert po_id ?p (pd_policies db)) = Some ?p" by (simp del: upsert.simps)
  ultimately show ?thesis by (simp add: get_policy_endpoint_def get_policy_def del: upsert.simps)
qed

theorem foreign_policy_rewritten_witness:
  "fst (update_policy_endpoint 8 1 \<lparr> pu_name = None, pu_rules = Some [], pu_scope = None \<rparr> 9
      \<lparr> pd_policies = [demo_policy 1 5 [demo_rule ''deny'']], pd_audit = [] \<rparr>) = Inl 404
   \<and> (\<exists>p'. get_policy_endpoint 7 1 (snd (update_policy_endpoint 8 1 \<lparr> pu_name = None, pu_rules = Some [], pu_scope = None \<rparr> 9
      \<lparr> pd_policies = [demo_policy 1 5 [demo_rule ''deny'']], pd_audit = [] \<rparr>)) = Inr p' \<and> po_rules p' = [])"
proof -
  let ?up = "\<lparr> pu_name = None, pu_rules = Some [], pu_scope = None \<rparr>"
  let ?db = "\<lparr> pd_policies = [demo_policy 1 5 [demo_rule ''deny'']], pd_audit = [] \<rparr>"
  have p: "find_row po_id 1 (pd_policies ?db) = Some (demo_policy 1 5 [demo_rule ''deny''])"
      "po_workspace_id (demo_policy 1 5 [demo_rule ''deny'']) = 7"
    by (simp_all add: demo_policy_def)
  obtain answer db' where u: "update_policy_endpoint 8 1 ?up 9 ?db = (answer, db')" by (metis surj_pair)
  from foreign_policy_rewritten [OF p(1) _ _ u, of "[]"] u p(2) show ?thesis by simp
qed

end
