(* ===== verification/System_Access.thy ===== *)
theory System_Access
  imports Gateway Auth Workspace_Properties Policy_Routes
begin

text \<open>
  Access to the platform, end to end: the gateway with the tokens of the auth service, the members of the workspace
  service as \<open>api-gateway/src/infrastructure/workspace_client.py\<close> reads them, and the decisions of the policy service
  as \<open>policy_client.py\<close> asks for them.  The databases of the two services are those at the time of the request.
\<close>

section \<open>The clients of the gateway\<close>

record access_world =
  aw_auth :: auth_env
  aw_now :: time
  aw_workspaces :: workspace_db
  aw_policies :: policy_db
  aw_backend :: "gw_forward \<Rightarrow> gw_request \<Rightarrow> gw_response"

text \<open>The claims of a payload that are strings; the gateway reads no other.\<close>

definition string_claims :: "dict \<Rightarrow> claims" where
  "string_claims payload = List.map_filter (\<lambda>(k, v). case v of JStr s \<Rightarrow> Some (k, s) | _ \<Rightarrow> None) payload"

definition access_verify :: "access_world \<Rightarrow> string \<Rightarrow> unit + claims" where
  "access_verify w token =
    (case gateway_verify_token (ae_jwt (aw_auth w)) (ae_secret (aw_auth w)) (aw_now w) token of
       Inl _ \<Rightarrow> Inl () | Inr payload \<Rightarrow> Inr (string_claims payload))"

text \<open>A member as the workspace service answers it; the names its enricher adds are left out.\<close>

definition member_dict :: "auth_env \<Rightarrow> member \<Rightarrow> dict" where
  "member_dict env m = [(''id'', JStr (ae_uuid_str env (mb_id m))),
     (''workspace_id'', JStr (ae_uuid_str env (mb_workspace_id m))), (''user_id'', JStr (ae_uuid_str env (mb_user_id m))),
     (''role'', JStr (mb_role m))]"

text \<open>\<open>get_member\<close>: the listing of the members, with its default limit of 200, searched for the user; an answer other
  than 200 is no member.\<close>

definition client_get_member :: "access_world \<Rightarrow> json \<Rightarrow> string \<Rightarrow> unit + dict option" where
  "client_get_member w ws user =
    (case (case ws of JStr s \<Rightarrow> ae_uuid_of (aw_auth w) s | JUuid k \<Rightarrow> Some k | _ \<Rightarrow> None, ae_uuid_of (aw_auth w) user) of
       (Some k, Some u) \<Rightarrow>
         (case list_members_endpoint (\<lambda>ms. ms) u k 200 0 (aw_workspaces w) of
            Inl _ \<Rightarrow> Inr None
          | Inr ms \<Rightarrow> Inr (find (\<lambda>m. map_of m ''user_id'' = Some (JStr user)) (map (member_dict (aw_auth w)) ms)))
     | _ \<Rightarrow> Inr None)"

definition client_check_permission :: "access_world \<Rightarrow> string \<Rightarrow> json \<Rightarrow> string \<Rightarrow> json \<Rightarrow> unit + dict" where
  "client_check_permission w user ws perm role =
    (case (case ws of JStr s \<Rightarrow> Some s | JUuid k \<Rightarrow> Some (ae_uuid_str (aw_auth w) k) | _ \<Rightarrow> None) of
       None \<Rightarrow> Inl ()
     | Some s \<Rightarrow>
         (case fst (check_permission_endpoint (ae_uuid_of (aw_auth w)) user s perm role (aw_policies w)) of
            Inl _ \<Rightarrow> Inl ()
          | Inr (allowed, reason) \<Rightarrow> Inr [(''allowed'', JBool allowed), (''reason'', JStr reason)]))"

definition access_gateway :: "access_world \<Rightarrow> gw_env" where
  "access_gateway w = \<lparr> ge_verify = access_verify w, ge_member = client_get_member w, ge_policy = client_check_permission w,
     ge_backend = aw_backend w \<rparr>"

text \<open>\<open>uuid.UUID\<close> reads back what \<open>str\<close> wrote.\<close>

definition uuids_sound :: "auth_env \<Rightarrow> bool" where
  "uuids_sound env = (\<forall>k. ae_uuid_of env (ae_uuid_str env k) = Some k)"

section \<open>What a permission needs\<close>

definition workspace_rules :: "uuid \<Rightarrow> policy_db \<Rightarrow> dict list" where
  "workspace_rules k db = concat (map po_rules (find_policies_by_workspace k 50 0 db))"

lemma access_payload_sub: "map_of (string_claims (access_payload env t i email)) ''sub'' = Some (ae_uuid_str env i)"
  by (simp add: string_claims_def access_payload_def List.map_filter_def)

lemma access_verify_subject:
  assumes "access_verify w token = Inr claims" "map_of claims ''sub'' = Some user"
    and "\<And>payload. uj_decode (ae_jwt (aw_auth w)) token (ae_secret (aw_auth w)) (aw_now w) = Inr payload \<Longrightarrow>
      distinct (map fst payload)"
  shows "\<exists>payload. uj_decode (ae_jwt (aw_auth w)) token (ae_secret (aw_auth w)) (aw_now w) = Inr payload
    \<and> map_of payload ''type'' = Some (JStr ''access'') \<and> map_of payload ''sub'' = Some (JStr user)"
proof -
  from assms(1) obtain payload where p: "uj_decode (ae_jwt (aw_auth w)) token (ae_secret (aw_auth w)) (aw_now w) = Inr payload"
      "map_of payload ''type'' = Some (JStr ''access'')" "claims = string_claims payload"
    by (auto simp: access_verify_def gateway_verify_token_def split: sum.splits if_splits)
  have "map_of d k = Some (JStr s)" if "map_of (string_claims d) k = Some s" "distinct (map fst d)" for d k s
    using that
  proof (induction d)
    case (Cons x d)
    obtain a v where x: "x = (a, v)" by (cases x)
    have "a \<notin> fst ` set d" using Cons.prems(2) x by simp
    then have "map_of d a = None" by (simp add: map_of_eq_None_iff)
    then have "map_of (string_claims d) a = None"
      using Cons.prems(2) x
      by (auto simp: string_claims_def map_of_eq_None_iff List.map_filter_def rev_image_eqI split: json.splits)
    then show ?case
      using Cons x by (cases v) (auto simp: string_claims_def List.map_filter_def split: if_splits)
  qed (simp add: string_claims_def List.map_filter_def)
  then show ?thesis using p assms(2,3) by blast
qed

lemma has_permission_needs:
  assumes "has_permission (access_gateway w) user ws perm" "ws = JStr s"
  shows "\<exists>k u m. ae_uuid_of (aw_auth w) s = Some k \<and> ae_uuid_of (aw_auth w) user = Some u
    \<and> m \<in> set (wd_members (aw_workspaces w)) \<and> mb_workspace_id m = k \<and> ae_uuid_str (aw_auth w) (mb_user_id m) = user
    \<and> get_user_role k u (aw_workspaces w) \<noteq> None
    \<and> fst (resolve_permission (mb_role m) perm (workspace_rules k (aw_policies w)))"
proof -
  from assms obtain k u where ku: "ae_uuid_of (aw_auth w) s = Some k" "ae_uuid_of (aw_auth w) user = Some u"
    by (auto simp: has_permission_def access_gateway_def client_get_member_def split: option.splits)
  with assms obtain ms d where list: "list_members_endpoint (\<lambda>ms. ms) u k 200 0 (aw_workspaces w) = Inr ms"
      "find (\<lambda>m. map_of m ''user_id'' = Some (JStr user)) (map (member_dict (aw_auth w)) ms) = Some d"
    by (auto simp: has_permission_def access_gateway_def client_get_member_def split: option.splits sum.splits)
  then obtain m where m: "m \<in> set ms" "d = member_dict (aw_auth w) m" "ae_uuid_str (aw_auth w) (mb_user_id m) = user"
    by (auto simp: member_dict_def dest!: find_SomeD)
  have role: "get_user_role k u (aw_workspaces w) \<noteq> None" "ms = list_members (\<lambda>ms. ms) k 200 0 (aw_workspaces w)"
    using list(1) by (auto simp: list_members_endpoint_def rbind_Inr_iff require_membership_Inr)
  then have "m \<in> set (wd_members (aw_workspaces w))" "mb_workspace_id m = k"
    using m(1) by (auto simp: list_members_def find_members_by_workspace_def page_def dest!: in_set_takeD in_set_dropD)
  moreover have "fst (resolve_permission (mb_role m) perm (workspace_rules k (aw_policies w)))"
    using assms ku list m(2)
    by (auto simp: has_permission_def access_gateway_def client_get_member_def client_check_permission_def member_dict_def
        check_permission_endpoint_def Let_def case_prod_beta fst_check_permission workspace_rules_def json_get_def
        json_truthy_def)
  ultimately show ?thesis using ku m(3) role(1) by blast
qed

text \<open>C5. A request on a workspace route with a permission in the permission map reaches a backend only with an access
  token the secret of the auth service verifies, for a user who is a member of the workspace of the URL, in a role
  that the policies of the workspace and the roles of the policy service allow it.\<close>

theorem workspace_access_needs_role:
  assumes "match_permission (gq_method req) (gq_path req) = Some (perm, s)" "s \<noteq> []"
    and "go_forwarded (gateway_proxy (access_gateway w) req) = Some fw"
    and "user_jwt_sound (ae_jwt (aw_auth w))"
  shows "\<exists>token payload k u m. uj_decode (ae_jwt (aw_auth w)) token (ae_secret (aw_auth w)) (aw_now w) = Inr payload
    \<and> map_of payload ''type'' = Some (JStr ''access'') \<and> fw_user fw = Some (ae_uuid_str (aw_auth w) (mb_user_id m))
    \<and> map_of payload ''sub'' = Some (JStr (ae_uuid_str (aw_auth w) (mb_user_id m)))
    \<and> ae_uuid_of (aw_auth w) s = Some k \<and> m \<in> set (wd_members (aw_workspaces w)) \<and> mb_workspace_id m = k
    \<and> fst (resolve_permission (mb_role m) perm (workspace_rules k (aw_policies w)))"
proof -
  obtain ctx user where a: "extract_auth_context (access_gateway w) req = Inr ctx"
    "user = (case ctx of None \<Rightarrow> None | Some c \<Rightarrow> map_of c ''sub'')"
    "permission_stage (access_gateway w) req user = Inr ()" "fw_user fw = (if str_truthy user then user else None)"
    using assms(3) unfolding gateway_forward_iff by (elim gateway_authorizeE) auto
  obtain u where u: "user = Some u" "u \<noteq> []" "has_permission (access_gateway w) u (JStr s) perm"
    using permission_stage_guard [OF a(3) assms(1,2)] by blast
  then obtain c where c: "ctx = Some c" "map_of c ''sub'' = Some u"
    using a(2) by (auto split: option.splits)
  then obtain token where token: "access_verify w token = Inr c"
    using a(1) extract_auth_claims by (fastforce simp: access_gateway_def)
  have "distinct (map fst payload)" if "uj_decode (ae_jwt (aw_auth w)) token (ae_secret (aw_auth w)) (aw_now w) = Inr payload" for payload
    using that assms(4) unfolding user_jwt_sound_def by blast
  note access_verify_subject [OF token c(2) this]
  moreover have "fw_user fw = Some u" using a(4) u(1,2) by (simp add: str_truthy_def)
  ultimately show ?thesis using has_permission_needs [OF u(3) refl] by blast
qed

section \<open>Members the gateway sees\<close>

lemma take_sort_below:
  assumes "x \<in> set (take n (sort_key f xs))" "n \<le> length (filter (\<lambda>y. f y < c) xs)"
  shows "f x < (c :: 'b :: linorder)"
proof (rule ccontr)
  assume "\<not> f x < c"
  let ?ys = "sort_key f xs" and ?P = "\<lambda>y. f y < c"
  from assms(1) obtain i where i: "i < n" "i < length ?ys" "?ys ! i = x" by (auto simp: in_set_conv_nth)
  have "filter ?P (drop i ?ys) = []"
  proof (rule filter_False, rule ballI)
    fix y assume "y \<in> set (drop i ?ys)"
    then obtain d where d: "d < length ?ys - i" "y = ?ys ! (i + d)" by (auto simp: in_set_conv_nth)
    have "map f ?ys ! i \<le> map f ?ys ! (i + d)" by (rule sorted_nth_mono [OF sorted_sort_key]) (use d(1) in simp_all)
    then have "f x \<le> f y" using i d by simp
    then show "\<not> f y < c" using \<open>\<not> f x < c\<close> by simp
  qed
  then have "length (filter ?P ?ys) = length (filter ?P (take i ?ys))"
    by (metis append_Nil2 append_take_drop_id filter_append)
  also have "\<dots> \<le> i" by (rule order_trans [OF length_filter_le]) simp
  finally show False using assms(2) i(1) by (simp add: filter_sort)
qed

lemma sound_member:
  assumes "workspaces_sound db" "find_member k u db = Some m" "x \<in> set (wd_members db)" "mb_workspace_id x = k" "mb_user_id x = u"
  shows "x = m"
proof -
  have "m \<in> set (wd_members db)" "mb_workspace_id m = k" "mb_user_id m = u"
    using find_SomeD assms(2) unfolding find_member_def by fastforce+
  then have "member_key x = member_key m" using assms(4,5) by (simp add: member_key_def)
  then show ?thesis
    using assms(1,3) \<open>m \<in> set (wd_members db)\<close> by (auto simp: workspaces_sound_def distinct_map inj_on_def)
qed

lemma uuid_str_inject: "uuids_sound env \<Longrightarrow> ae_uuid_str env a = ae_uuid_str env b \<longleftrightarrow> a = b"
  unfolding uuids_sound_def by (metis option.inject)

text \<open>What the gateway finds of a member: the entry of the page of 200, if it is there.\<close>

lemma client_get_member_page:
  assumes "uuids_sound (aw_auth w)" "workspaces_sound (aw_workspaces w)" "find_member k u (aw_workspaces w) = Some m"
  shows "client_get_member w (JStr (ae_uuid_str (aw_auth w) k)) (ae_uuid_str (aw_auth w) u) =
     Inr (if m \<in> set (find_members_by_workspace k 200 0 (aw_workspaces w)) then Some (member_dict (aw_auth w) m) else None)"
proof -
  let ?page = "find_members_by_workspace k 200 0 (aw_workspaces w)"
  let ?P = "\<lambda>d. map_of d ''user_id'' = Some (JStr (ae_uuid_str (aw_auth w) u))"
  have "get_user_role k u (aw_workspaces w) = Some (mb_role m)"
    using assms(3) by (simp add: get_user_role_def get_member_def)
  then have list: "list_members_endpoint (\<lambda>ms. ms) u k 200 0 (aw_workspaces w) = Inr ?page"
    by (simp add: list_members_endpoint_def require_membership_def list_members_def)
  have mem: "x \<in> set (wd_members (aw_workspaces w)) \<and> mb_workspace_id x = k" if "x \<in> set ?page" for x
    using that by (auto simp: find_members_by_workspace_def page_def dest!: in_set_takeD in_set_dropD)
  have "mb_user_id m = u" using assms(3) find_SomeD unfolding find_member_def by fastforce
  then have P: "?P (member_dict (aw_auth w) x) \<longleftrightarrow> x = m" if "x \<in> set ?page" for x
    using sound_member [OF assms(2,3)] mem [OF that] uuid_str_inject [OF assms(1)] by (auto simp: member_dict_def)
  have "find ?P (map (member_dict (aw_auth w)) xs) = (if m \<in> set xs then Some (member_dict (aw_auth w) m) else None)"
    if "set xs \<subseteq> set ?page" for xs
    using that by (induction xs) (auto simp: P)
  then show ?thesis
    using list assms(1) by (simp add: client_get_member_def uuids_sound_def)
qed

lemma has_permission_page:
  assumes "uuids_sound (aw_auth w)" "workspaces_sound (aw_workspaces w)" "find_member k u (aw_workspaces w) = Some m"
  shows "has_permission (access_gateway w) (ae_uuid_str (aw_auth w) u) (JStr (ae_uuid_str (aw_auth w) k)) perm \<longleftrightarrow>
     m \<in> set (find_members_by_workspace k 200 0 (aw_workspaces w))
     \<and> fst (resolve_permission (mb_role m) perm (workspace_rules k (aw_policies w)))"
  using client_get_member_page [OF assms] assms(1)
  by (auto simp: has_permission_def access_gateway_def member_dict_def client_check_permission_def uuids_sound_def
      check_permission_endpoint_def Let_def case_prod_beta fst_check_permission workspace_rules_def json_get_def json_truthy_def)

text \<open>In a workspace of at most two hundred members the check of the gateway decides by the role the workspace
  service has for the user and the decision the policy service makes for that role.\<close>

theorem permission_exact:
  assumes "uuids_sound (aw_auth w)" "workspaces_sound (aw_workspaces w)"
    and "length (filter (\<lambda>m. mb_workspace_id m = k) (wd_members (aw_workspaces w))) \<le> 200"
  shows "has_permission (access_gateway w) (ae_uuid_str (aw_auth w) u) (JStr (ae_uuid_str (aw_auth w) k)) perm \<longleftrightarrow>
     (case get_user_role k u (aw_workspaces w) of None \<Rightarrow> False
      | Some role \<Rightarrow> fst (resolve_permission role perm (workspace_rules k (aw_policies w))))"
proof (cases "find_member k u (aw_workspaces w)")
  case None
  then have "get_user_role k u (aw_workspaces w) = None" by (simp add: get_user_role_def get_member_def)
  then show ?thesis
    using has_permission_needs [of w "ae_uuid_str (aw_auth w) u" _ perm, OF _ refl] assms(1) unfolding uuids_sound_def by fastforce
next
  case (Some m)
  then have "m \<in> set (wd_members (aw_workspaces w))" "mb_workspace_id m = k"
    using find_SomeD unfolding find_member_def by fastforce+
  then have "m \<in> set (find_members_by_workspace k 200 0 (aw_workspaces w))"
    using assms(3) by (simp add: find_members_by_workspace_def page_def workspace_max_limit_def)
  then show ?thesis
    using has_permission_page [OF assms(1,2) Some] Some by (simp add: get_user_role_def get_member_def)
qed

text \<open>Beyond that the gateway locks members out: it searches the first two hundred members of the listing, so a
  member whom two hundred others precede has no permission, whatever the role, an owner included.\<close>

theorem late_member_locked_out:
  assumes "uuids_sound (aw_auth w)" "workspaces_sound (aw_workspaces w)" "find_member k u (aw_workspaces w) = Some m"
    and "200 \<le> length (filter (\<lambda>x. mb_workspace_id x = k \<and> mb_joined_at x < mb_joined_at m) (wd_members (aw_workspaces w)))"
  shows "check_permission_or_fail (access_gateway w) (ae_uuid_str (aw_auth w) u) (JStr (ae_uuid_str (aw_auth w) k)) perm = Inl 403"
proof -
  have "filter (\<lambda>y. mb_joined_at y < mb_joined_at m) (filter (\<lambda>x. mb_workspace_id x = k) xs)
      = filter (\<lambda>x. mb_workspace_id x = k \<and> mb_joined_at x < mb_joined_at m) xs" for xs
    by (simp add: conj_commute)
  then have "m \<notin> set (find_members_by_workspace k 200 0 (aw_workspaces w))"
    using take_sort_below [of m 200 mb_joined_at "filter (\<lambda>x. mb_workspace_id x = k) (wd_members (aw_workspaces w))"
        "mb_joined_at m"] assms(4)
    by (auto simp: find_members_by_workspace_def page_def workspace_max_limit_def)
  then show ?thesis
    using client_get_member_page [OF assms(1-3)] by (simp add: check_permission_or_fail_def access_gateway_def)
qed

section \<open>Sessions\<close>

text \<open>C40. After a registration every login with the same address and password succeeds, and its access token makes
  the gateway act for exactly that user until it expires; the refresh token opens nothing.\<close>

theorem session_identified:
  assumes "user_jwt_sound (ae_jwt env)" "aw_auth w = env"
    and "register env i now email name password db = Inr ((u, pair), db')"
    and "ae_hash env password = Inr h" "h \<noteq> []" "ae_check env password h = Inr True" "normal_email email' = normal_email email"
    and "now' 1 \<le> aw_now w" "now' 2 \<le> aw_now w" "aw_now w < (now' 1 div 1000000 + ae_access_minutes env * 60) * 1000000"
    and "gq_path req \<notin> set public_routes" "\<And>t i e. create_access_token env t i e \<noteq> []"
  shows "\<exists>session db''. login env now' email' password db' = Inr (session, db'')
    \<and> (gq_authorization req = ''Bearer '' @ tp_access session \<longrightarrow>
        (\<exists>claims. extract_auth_context (access_gateway w) req = Inr (Some claims)
          \<and> map_of claims ''sub'' = Some (ae_uuid_str env i)))
    \<and> (gq_authorization req = ''Bearer '' @ tp_refresh session \<longrightarrow> extract_auth_context (access_gateway w) req = Inl 401)"
proof -
  have login: "login env now' email' password db' =
      Inr (token_pair_for env (now' 1) (now' 2) u, update_last_active i (now' 0) db')"
    by (rule login_after_register [OF assms(3-7)])
  have id: "us_id u = i" using register_Inr(2) [OF assms(3)] .
  have bearer: "starts_with ''Bearer '' (''Bearer '' @ t)" "drop 7 (''Bearer '' @ t) = t" for t :: string
    by (simp_all add: starts_with_def)
  have access: "access_verify w (create_access_token env (now' 1) i (us_email u)) =
      Inr (string_claims (access_payload env (now' 1) i (us_email u)))"
    using decode_issued(1) [OF assms(1,8), of i "us_email u"] assms(2,10)
    by (simp add: access_verify_def gateway_verify_token_def access_payload_def)
  have refused: "access_verify w (create_refresh_token env (now' 2) i) = Inl ()"
    using tokens_separate(1) [OF assms(1,9)] assms(2) by (simp add: access_verify_def)
  note access_payload_sub [of env "now' 1" i "us_email u"]
  moreover have "extract_auth_context (access_gateway w) req = Inr (Some (string_claims (access_payload env (now' 1) i (us_email u))))"
    if "gq_authorization req = ''Bearer '' @ create_access_token env (now' 1) i (us_email u)"
    using that access assms(11,12) bearer
    by (simp add: extract_auth_context_def access_gateway_def str_truthy_def Let_def)
  moreover have "extract_auth_context (access_gateway w) req = Inl 401"
    if "gq_authorization req = ''Bearer '' @ create_refresh_token env (now' 2) i"
    using that refused assms(11) bearer
    by (simp add: extract_auth_context_def access_gateway_def str_truthy_def Let_def)
  ultimately show ?thesis using login id by (simp add: token_pair_for_def)
qed

section \<open>A world to try\<close>

text \<open>An id is written as that many letters, a token holds its payload and its secret, and a password is its own hash.\<close>

instance json :: countable
  by countable_datatype

definition demo_user_jwt :: user_jwt where
  "demo_user_jwt = \<lparr> uj_encode = (\<lambda>payload secret. CHR ''t'' # replicate (to_nat (payload, secret)) (CHR ''x'')),
     uj_decode = (\<lambda>token secret now. let (payload, signed) = from_nat (length token - 1) in
       case map_of payload ''exp'' of
         Some (JInt exp) \<Rightarrow>
           if signed \<noteq> secret \<or> \<not> distinct (map fst payload) then Inl (JWT_Other ''signature'')
           else if exp * 1000000 \<le> now then Inl JWT_Expired
           else Inr payload
       | _ \<Rightarrow> Inl (JWT_Other ''claims'')) \<rparr>"

lemma demo_user_jwt_sound: "user_jwt_sound demo_user_jwt"
  by (auto simp: user_jwt_sound_def demo_user_jwt_def Let_def split: prod.splits option.splits json.splits if_splits)

definition demo_auth :: auth_env where
  "demo_auth = \<lparr> ae_secret = ''k'', ae_access_minutes = 30, ae_refresh_days = 7, ae_jwt = demo_user_jwt,
     ae_hash = Inr, ae_check = (\<lambda>p h. Inr (p = h)), ae_email = Some,
     ae_uuid_of = (\<lambda>s. Some (length s)), ae_uuid_str = (\<lambda>k. replicate k (CHR ''u'')) \<rparr>"

lemma demo_uuids_sound: "uuids_sound demo_auth"
  by (simp add: uuids_sound_def demo_auth_def)

definition demo_access :: "workspace_db \<Rightarrow> access_world" where
  "demo_access db = \<lparr> aw_auth = demo_auth, aw_now = 5000000, aw_workspaces = db,
     aw_policies = \<lparr> pd_policies = [], pd_audit = [] \<rparr>, aw_backend = (\<lambda>_ _. \<lparr> gr_status = 200, gr_body = Body_Empty \<rparr>) \<rparr>"

theorem permission_exact_witness:
  "has_permission (access_gateway (demo_access demo_workspaces)) ''uuu'' (JStr ''u'') ''workspace:manage_members''
   \<and> \<not> has_permission (access_gateway (demo_access demo_workspaces)) ''uuuu'' (JStr ''u'') ''workspace:manage_members''"
proof -
  have u: "ae_uuid_str demo_auth 3 = ''uuu''" "ae_uuid_str demo_auth 4 = ''uuuu''" "ae_uuid_str demo_auth 1 = ''u''"
    by (simp_all add: demo_auth_def eval_nat_numeral)
  have len: "length (filter (\<lambda>m. mb_workspace_id m = 1) (wd_members demo_workspaces)) \<le> 200"
      "get_user_role 1 4 demo_workspaces = Some ''viewer''" by code_simp+
  have rules: "fst (resolve_permission ''admin'' ''workspace:manage_members'' (workspace_rules 1 \<lparr> pd_policies = [], pd_audit = [] \<rparr>))"
      "\<not> fst (resolve_permission ''viewer'' ''workspace:manage_members'' (workspace_rules 1 \<lparr> pd_policies = [], pd_audit = [] \<rparr>))"
    by code_simp+
  show ?thesis
    using permission_exact [of "demo_access demo_workspaces" 1 3 "''workspace:manage_members''"]
      permission_exact [of "demo_access demo_workspaces" 1 4 "''workspace:manage_members''"]
      demo_uuids_sound demo_workspaces_facts(1,3) len rules u by (simp add: demo_access_def)
qed

definition crowd_member :: "nat \<Rightarrow> member" where
  "crowd_member i = \<lparr> mb_id = i, mb_workspace_id = 1, mb_user_id = i, mb_role = ''owner'', mb_joined_at = int i,
     mb_updated_at = 0, mb_invited_by_id = None \<rparr>"

definition crowd :: workspace_db where
  "crowd = \<lparr> wd_workspaces = [new_workspace 1 0 ''acme'' ''Acme'' 2], wd_members = map crowd_member [0..<201], wd_outbox = [] \<rparr>"

theorem late_member_locked_out_witness:
  "check_permission_or_fail (access_gateway (demo_access crowd)) (replicate 200 (CHR ''u'')) (JStr ''u'') ''workspace:view'' = Inl 403
   \<and> get_user_role 1 200 crowd = Some ''owner''"
proof -
  have sound: "workspaces_sound crowd"
    by (auto simp: workspaces_sound_def crowd_def crowd_member_def member_key_def distinct_map inj_on_def valid_roles_def
        new_workspace_def)
  have found: "find_member 1 200 crowd = Some (crowd_member 200)"
  proof -
    have "find (\<lambda>m. mb_workspace_id m = 1 \<and> mb_user_id m = 200) (map crowd_member xs)
        = (if 200 \<in> set xs then Some (crowd_member 200) else None)" for xs
      by (induction xs) (auto simp: crowd_member_def)
    then show ?thesis by (simp add: find_member_def crowd_def del: upt_rec_numeral)
  qed
  have "filter (\<lambda>x. mb_workspace_id x = 1 \<and> mb_joined_at x < mb_joined_at (crowd_member 200)) (map crowd_member [0..<201])
      = map crowd_member (filter (\<lambda>i. i < 200) [0..<201])"
    by (simp add: filter_map o_def crowd_member_def del: upt_rec_numeral)
  moreover have "filter (\<lambda>i. i < 200) [0..<201] = [0..<200 :: nat]"
  proof -
    have "[0..<201] = [0..<200] @ [200 :: nat]" using upt_Suc_append [of 0 200] by (simp del: upt_rec_numeral)
    then show ?thesis by (simp add: filter_True del: upt_rec_numeral)
  qed
  ultimately have "200 \<le> length (filter (\<lambda>x. mb_workspace_id x = 1 \<and> mb_joined_at x < mb_joined_at (crowd_member 200)) (wd_members crowd))"
    by (simp add: crowd_def del: upt_rec_numeral)
  note enough = this
  have w: "aw_auth (demo_access crowd) = demo_auth" "aw_workspaces (demo_access crowd) = crowd"
      "ae_uuid_str demo_auth k = replicate k (CHR ''u'')" "replicate 1 (CHR ''u'') = ''u''" for k
    by (simp_all add: demo_access_def demo_auth_def)
  have "get_user_role 1 200 crowd = Some ''owner''"
    using found by (simp add: get_user_role_def get_member_def crowd_member_def)
  with late_member_locked_out [of "demo_access crowd" 1 200 "crowd_member 200" "''workspace:view''", unfolded w,
      OF demo_uuids_sound sound found enough]
  show ?thesis by blast
qed

theorem session_identified_witness:
  "\<exists>session db'. login demo_auth (\<lambda>_. 2000000) '' Ann@X.org'' ''secret-pw''
      [create_local 3 0 ''ann@x.org'' ''Ann'' ''secret-pw''] = Inr (session, db')
    \<and> (\<exists>claims. extract_auth_context (access_gateway (demo_access demo_workspaces))
         \<lparr> gq_method = ''GET'', gq_path = ''/v1/workspaces'', gq_authorization = ''Bearer '' @ tp_access session,
            gq_query = [], gq_body = Body_Empty \<rparr> = Inr (Some claims) \<and> map_of claims ''sub'' = Some ''uuu'')"
proof -
  have u: "ae_uuid_str demo_auth 3 = ''uuu''" by (simp add: demo_auth_def eval_nat_numeral)
  have mail: "normal_email '' Ann@X.org'' = normal_email ''ann@x.org''" by code_simp
  obtain u pair db' where reg: "register demo_auth 3 (\<lambda>_. 0) ''ann@x.org'' ''Ann'' ''secret-pw'' [] = Inr ((u, pair), db')"
      "db' = [create_local 3 0 ''ann@x.org'' ''Ann'' ''secret-pw'']"
    by (simp add: register_def find_by_email_def hash_password_def demo_auth_def insert_or_raise_duplicate_def Let_def)
  have sound: "user_jwt_sound (ae_jwt demo_auth)" using demo_user_jwt_sound by (simp add: demo_auth_def)
  have auth: "aw_auth (demo_access demo_workspaces) = demo_auth" by (simp add: demo_access_def)
  have pw: "ae_hash demo_auth ''secret-pw'' = Inr ''secret-pw''" "''secret-pw'' \<noteq> []"
      "ae_check demo_auth ''secret-pw'' ''secret-pw'' = Inr True" by (simp_all add: demo_auth_def)
  have t: "(\<lambda>_. 2000000) (1 :: nat) \<le> aw_now (demo_access demo_workspaces)" "(\<lambda>_. 2000000) (2 :: nat) \<le> aw_now (demo_access demo_workspaces)"
      "aw_now (demo_access demo_workspaces) < ((\<lambda>_. 2000000) (1 :: nat) div 1000000 + ae_access_minutes demo_auth * 60) * 1000000"
    by (simp_all add: demo_access_def demo_auth_def)
  have token: "create_access_token demo_auth t i e \<noteq> []" for t i e
    by (simp add: create_access_token_def demo_auth_def demo_user_jwt_def)
  let ?session = "token_pair_for demo_auth 2000000 2000000 u"
  let ?req = "\<lparr> gq_method = ''GET'', gq_path = ''/v1/workspaces'', gq_authorization = ''Bearer '' @ tp_access ?session,
      gq_query = [], gq_body = Body_Empty \<rparr>"
  have login: "login demo_auth (\<lambda>_. 2000000) '' Ann@X.org'' ''secret-pw'' db' = Inr (?session, update_last_active 3 2000000 db')"
    using login_after_register [OF reg(1) pw mail] .
  have path: "gq_path ?req \<notin> set public_routes" by (simp add: public_routes_def)
  have "\<exists>claims. extract_auth_context (access_gateway (demo_access demo_workspaces)) ?req = Inr (Some claims)
      \<and> map_of claims ''sub'' = Some ''uuu''"
    using session_identified [OF sound auth reg(1) pw mail t path token] unfolding login u by auto
  then show ?thesis using login reg(2) by blast
qed

theorem workspace_access_needs_role_witness:
  "\<exists>fw m. go_forwarded (gateway_proxy (access_gateway (demo_access demo_workspaces))
      \<lparr> gq_method = ''GET'', gq_path = ''/v1/workspaces/u/members'',
         gq_authorization = ''Bearer '' @ create_access_token demo_auth 2000000 3 ''a'', gq_query = [], gq_body = Body_Empty \<rparr>) = Some fw
    \<and> m \<in> set (wd_members demo_workspaces) \<and> mb_workspace_id m = 1 \<and> fw_user fw = Some (ae_uuid_str demo_auth (mb_user_id m))"
proof -
  let ?w = "demo_access demo_workspaces"
  let ?req = "\<lparr> gq_method = ''GET'', gq_path = ''/v1/workspaces/u/members'',
         gq_authorization = ''Bearer '' @ create_access_token demo_auth 2000000 3 ''a'', gq_query = [], gq_body = Body_Empty \<rparr>"
  have sound: "user_jwt_sound (ae_jwt demo_auth)" using demo_user_jwt_sound by (simp add: demo_auth_def)
  have w: "aw_auth ?w = demo_auth" "aw_workspaces ?w = demo_workspaces" by (simp_all add: demo_access_def)
  have token: "access_verify ?w (create_access_token demo_auth 2000000 3 ''a'') = Inr (string_claims (access_payload demo_auth 2000000 3 ''a''))"
    using decode_issued(1) [OF sound, of 2000000 "aw_now ?w" 3 "''a''"]
    by (simp add: access_verify_def gateway_verify_token_def demo_access_def demo_auth_def access_payload_def)
  have page: "find_member 1 3 demo_workspaces = Some (demo_member 6 3 ''admin'')"
      "demo_member 6 3 ''admin'' \<in> set (find_members_by_workspace 1 200 0 demo_workspaces)"
    by code_simp+
  have u: "ae_uuid_str demo_auth 1 = ''u''" "ae_uuid_str demo_auth 3 = ''uuu''" by (simp_all add: demo_auth_def eval_nat_numeral)
  note sub = access_payload_sub [of demo_auth 2000000 3 "''a''", unfolded u]
  have member: "client_get_member ?w (JStr ''u'') ''uuu'' = Inr (Some (member_dict demo_auth (demo_member 6 3 ''admin'')))"
    using client_get_member_page [of ?w 1 3 "demo_member 6 3 ''admin''"] demo_uuids_sound demo_workspaces_facts(1) page w u by simp
  have policy: "client_check_permission ?w ''uuu'' (JStr ''u'') ''workspace:view'' (JStr ''admin'')
      = Inr [(''allowed'', JBool True), (''reason'', JStr ''role:admin grants workspace:view'')]"
    unfolding client_check_permission_def demo_access_def demo_auth_def by code_simp
  have nonempty: "create_access_token demo_auth 2000000 3 ''a'' \<noteq> []"
    by (simp add: create_access_token_def demo_auth_def demo_user_jwt_def)
  have match: "match_permission (gq_method ?req) (gq_path ?req) = Some (''workspace:view'', ''u'')"
    by (simp add: gateway_evals)
  have "\<exists>fw. go_forwarded (gateway_proxy (access_gateway ?w) ?req) = Some fw"
    using token sub member policy nonempty
    by (simp add: gateway_evals access_gateway_def member_dict_def demo_member_def)
  then obtain fw where fw: "go_forwarded (gateway_proxy (access_gateway ?w) ?req) = Some fw" ..
  have "ae_uuid_of demo_auth ''u'' = Some 1" by (simp add: demo_auth_def)
  with workspace_access_needs_role [OF match _ fw] sound w fw show ?thesis by fastforce
qed

end
