(* ===== verification/Service_Http.thy ===== *)
theory Service_Http
  imports Internal_Auth Tool_Policy
begin

text \<open>
  What the internal endpoints of the services share: answers over HTTP, failures, and the guard that
  \<open>Depends(require_service(caller))\<close> puts before an endpoint (\<open>packages/internal-auth\<close>).  The reading of the bearer
  token out of the headers is FastAPI's and a parameter.
\<close>

section \<open>Answers and failures\<close>

datatype http_answer = Answer int "json option" | No_Answer string

datatype api_failure = AF_Http int | AF_Raised

type_synonym api_headers = "(string \<times> string) list"

record api_auth =
  aa_jwt :: "string jwt_lib"
  aa_verifier :: token_verifier
  aa_bearer :: "api_headers \<Rightarrow> string option"

text \<open>\<open>Depends(require_service(caller))\<close> runs before the endpoint.\<close>

definition denial_failure :: "auth_denial \<Rightarrow> api_failure" where
  "denial_failure d = (case d of AD_Http c \<Rightarrow> AF_Http c | AD_Raised _ \<Rightarrow> AF_Raised)"

definition guard_services :: "api_auth \<Rightarrow> time \<Rightarrow> string list \<Rightarrow> api_headers \<Rightarrow> api_failure + unit" where
  "guard_services auth now callers headers =
    (case require_service (aa_jwt auth) (aa_verifier auth) callers now (aa_bearer auth headers) of
       Inl d \<Rightarrow> Inl (denial_failure d) | Inr _ \<Rightarrow> Inr ())"

definition guard_service :: "api_auth \<Rightarrow> time \<Rightarrow> string \<Rightarrow> api_headers \<Rightarrow> api_failure + unit" where
  "guard_service auth now caller headers = guard_services auth now [caller] headers"

definition need :: "bool \<Rightarrow> int \<Rightarrow> api_failure + unit" where
  "need b code = (if b then Inr () else Inl (AF_Http code))"

lemma need_Inr_iff [simp]: "need b code = Inr x \<longleftrightarrow> b"
  by (simp add: need_def)

section \<open>Bodies\<close>

text \<open>The JSON of a request, \<open>None\<close> when it is none.  \<open>field not in body\<close> is a test of the kind of the body: a key,
  an element, a part of the text, or a \<open>TypeError\<close>, which is \<open>None\<close>.\<close>

definition body_has :: "string \<Rightarrow> json \<Rightarrow> bool option" where
  "body_has k body = (case body of
       JObj d \<Rightarrow> Some (map_of d k \<noteq> None)
     | JList js \<Rightarrow> Some (JStr k \<in> set js)
     | JStr s \<Rightarrow> Some (str_contains k s)
     | JUuid _ \<Rightarrow> Some False
     | _ \<Rightarrow> None)"

fun require_fields :: "string list \<Rightarrow> json \<Rightarrow> api_failure + dict" where
  "require_fields [] body = (case body of JObj d \<Rightarrow> Inr d | _ \<Rightarrow> Inl AF_Raised)"
| "require_fields (k # ks) body =
    (case body_has k body of None \<Rightarrow> Inl AF_Raised | Some False \<Rightarrow> Inl (AF_Http 400) | Some True \<Rightarrow> require_fields ks body)"

definition body_fields :: "string list \<Rightarrow> json option \<Rightarrow> api_failure + dict" where
  "body_fields ks body = (case body of None \<Rightarrow> Inl AF_Raised | Some j \<Rightarrow> require_fields ks j)"

text \<open>A field that holds a text or null.\<close>

definition text_or_null :: "json \<Rightarrow> api_failure + string option" where
  "text_or_null j = (case j of JStr s \<Rightarrow> Inr (Some s) | JNull \<Rightarrow> Inr None | _ \<Rightarrow> Inl AF_Raised)"

section \<open>Headers\<close>

text \<open>Names of headers are compared without case.  \<open>bearer_sound\<close> is what FastAPI documents of
  \<open>HTTPBearer(auto_error=False)\<close>: no header \<open>Authorization\<close>, no credentials.\<close>

definition header_value :: "string \<Rightarrow> api_headers \<Rightarrow> string option" where
  "header_value name hs = map_option snd (find (\<lambda>h. py_lower (fst h) = py_lower name) hs)"

definition bearer_sound :: "(api_headers \<Rightarrow> string option) \<Rightarrow> bool" where
  "bearer_sound bearer = (\<forall>hs. header_value ''authorization'' hs = None \<longrightarrow> bearer hs = None)"

definition failure_answer :: "api_failure \<Rightarrow> http_answer" where
  "failure_answer e = (case e of AF_Http c \<Rightarrow> Answer c (Some (JObj [(''detail'', JNull)])) | AF_Raised \<Rightarrow> Answer 500 None)"

lemma no_bearer_refused:
  assumes "bearer_sound (aa_bearer auth)" "header_value ''authorization'' headers = None"
  shows "guard_service auth now caller headers = Inl (AF_Http 401)"
  using assms by (simp add: bearer_sound_def guard_service_def guard_services_def require_service_def denial_failure_def)

end
