(* ===== verification/Approval_Clients.thy ===== *)
theory Approval_Clients
  imports Orch_Approvals Service_Http
begin

text \<open>
  The HTTP clients of the orchestrator around approvals: \<open>infrastructure/service_clients.py\<close> (validation and
  enrichment), \<open>notification_clients.py\<close>, \<open>audit_clients.py\<close> and \<open>runtime_resume_client.py\<close>.  The network is a
  parameter that answers a call with a status and a body, or not at all; a body that is no JSON is \<open>None\<close>.  A
  client that only posts is the list of the calls it makes, since it drops every answer.
\<close>

section \<open>Calls\<close>

datatype service_path =
    Artifact_Path uuid
  | Annotations_Path uuid
  | Members_Path uuid
  | Notifications_Path uuid
  | Audit_Events_Path
  | Resume_Path uuid
  | Tool_Approvals_Path

record service_call =
  sc_path :: service_path
  sc_query :: dict
  sc_headers :: "(string \<times> string) list"
  sc_body :: dict
  sc_timeout_s :: int

text \<open>\<open>oe_configured\<close> tells which of the URL variables are set, \<open>oe_token\<close> is the token issued for an audience,
  \<open>oe_secret\<close> the variable \<open>INTERNAL_AUTH_SECRET\<close>.\<close>

record orch_api_env =
  oe_lib :: json_lib
  oe_uuid_of :: "string \<Rightarrow> uuid option"
  oe_uuid_str :: "uuid \<Rightarrow> string"
  oe_configured :: "string \<Rightarrow> bool"
  oe_token :: "string \<Rightarrow> string"
  oe_secret :: string
  oe_service_name :: string
  oe_http :: "service_call \<Rightarrow> http_answer"

text \<open>\<open>str(x)\<close> of a JSON value, and \<open>x.get(k)\<close> of one, which raises when it is no object.\<close>

definition oe_str :: "orch_api_env \<Rightarrow> json \<Rightarrow> string" where
  "oe_str env j = (case j of JUuid k \<Rightarrow> oe_uuid_str env k | _ \<Rightarrow> py_str (oe_lib env) j)"

definition dict_get :: "string \<Rightarrow> json \<Rightarrow> json option" where
  "dict_get k j = (case j of JObj d \<Rightarrow> Some (jget k JNull d) | _ \<Rightarrow> None)"

definition auth_headers :: "orch_api_env \<Rightarrow> string \<Rightarrow> (string \<times> string) list" where
  "auth_headers env audience = [(''Authorization'', ''Bearer '' @ oe_token env audience)]"

section \<open>Validation and enrichment\<close>

definition artifact_call :: "orch_api_env \<Rightarrow> uuid \<Rightarrow> uuid \<Rightarrow> service_call" where
  "artifact_call env aid ws = \<lparr> sc_path = Artifact_Path aid, sc_query = [(''workspace_id'', JUuid ws)],
     sc_headers = auth_headers env ''artifact-service'', sc_body = [], sc_timeout_s = 5 \<rparr>"

definition validate_artifact_in_workspace :: "orch_api_env \<Rightarrow> uuid \<Rightarrow> uuid \<Rightarrow> bool" where
  "validate_artifact_in_workspace env aid ws =
    (if \<not> oe_configured env ''ARTIFACT_SERVICE_URL'' then True
     else case oe_http env (artifact_call env aid ws) of Answer code _ \<Rightarrow> code = 200 | No_Answer _ \<Rightarrow> False)"

definition members_call :: "orch_api_env \<Rightarrow> uuid \<Rightarrow> service_call" where
  "members_call env ws = \<lparr> sc_path = Members_Path ws, sc_query = [], sc_headers = auth_headers env ''workspace-service'',
     sc_body = [], sc_timeout_s = 5 \<rparr>"

text \<open>\<open>any(...)\<close> over the members, in their order: an entry that is no object raises, which is caught.\<close>

fun member_listed :: "orch_api_env \<Rightarrow> uuid \<Rightarrow> json list \<Rightarrow> bool" where
  "member_listed env user [] = False"
| "member_listed env user (m # ms) =
    (case dict_get ''user_id'' m of
       None \<Rightarrow> False
     | Some j \<Rightarrow> oe_str env j = oe_uuid_str env user \<or> member_listed env user ms)"

definition validate_workspace_member :: "orch_api_env \<Rightarrow> uuid \<Rightarrow> uuid \<Rightarrow> bool" where
  "validate_workspace_member env ws user =
    (if \<not> oe_configured env ''WORKSPACE_SERVICE_URL'' then True
     else case oe_http env (members_call env ws) of
       Answer code body \<Rightarrow> (code = 200 \<and> (case body of Some (JList ms) \<Rightarrow> member_listed env user ms | _ \<Rightarrow> False))
     | No_Answer _ \<Rightarrow> False)"

definition annotations_call :: "orch_api_env \<Rightarrow> uuid \<Rightarrow> uuid \<Rightarrow> service_call" where
  "annotations_call env aid ws = \<lparr> sc_path = Annotations_Path aid, sc_query = [(''workspace_id'', JUuid ws)],
     sc_headers = auth_headers env ''artifact-service'', sc_body = [], sc_timeout_s = 5 \<rparr>"

text \<open>\<open>len\<close> raises on a value that has none, which is caught.\<close>

definition json_len :: "json \<Rightarrow> nat option" where
  "json_len j = (case j of JStr s \<Rightarrow> Some (length s) | JList l \<Rightarrow> Some (length l) | JObj d \<Rightarrow> Some (length d)
     | JUuid _ \<Rightarrow> Some 36 | _ \<Rightarrow> None)"

definition fetch_annotation_count :: "orch_api_env \<Rightarrow> uuid \<Rightarrow> uuid \<Rightarrow> json" where
  "fetch_annotation_count env aid ws =
    (case oe_http env (annotations_call env aid ws) of
       Answer code (Some (JObj d)) \<Rightarrow>
         if code \<noteq> 200 then JNull
         else (case json_len (jget ''items'' (JList []) d) of None \<Rightarrow> JNull | Some n \<Rightarrow> JInt (int n))
     | _ \<Rightarrow> JNull)"

text \<open>A body that is JSON but no object raises outside the \<open>try\<close>: \<open>None\<close>.\<close>

definition get_artifact_context :: "orch_api_env \<Rightarrow> uuid \<Rightarrow> uuid \<Rightarrow> json option" where
  "get_artifact_context env aid ws =
    (if \<not> oe_configured env ''ARTIFACT_SERVICE_URL'' then Some JNull
     else case oe_http env (artifact_call env aid ws) of
       Answer code (Some data) \<Rightarrow>
         if code \<noteq> 200 then Some JNull
         else (case data of
             JObj d \<Rightarrow> Some (JObj (map (\<lambda>k. (k, jget k JNull d)) [''name'', ''artifact_type'', ''artifact_status'', ''size_bytes'']
                            @ [(''annotation_count'', fetch_annotation_count env aid ws)]))
           | _ \<Rightarrow> None)
     | _ \<Rightarrow> Some JNull)"

definition get_artifact_name :: "orch_api_env \<Rightarrow> uuid \<Rightarrow> uuid \<Rightarrow> json" where
  "get_artifact_name env aid ws =
    (if \<not> oe_configured env ''ARTIFACT_SERVICE_URL'' then JNull
     else case oe_http env (artifact_call env aid ws) of
       Answer code (Some data) \<Rightarrow> if code \<noteq> 200 then JNull else opt_or (dict_get ''name'' data) JNull
     | _ \<Rightarrow> JNull)"

text \<open>The cache of names is keyed by the artifact alone.\<close>

definition name_cache_step :: "orch_api_env \<Rightarrow> approval \<Rightarrow> (uuid \<rightharpoonup> json) \<Rightarrow> (uuid \<rightharpoonup> json)" where
  "name_cache_step env a cache =
    (if ap_target_type a = Target_Artifact \<and> cache (ap_target_id a) = None
     then cache(ap_target_id a \<mapsto> get_artifact_name env (ap_target_id a) (ap_workspace_id a)) else cache)"

definition enrich_approval_list_with_artifact_names :: "orch_api_env \<Rightarrow> dict list \<Rightarrow> approval list \<Rightarrow> dict list" where
  "enrich_approval_list_with_artifact_names env items approvals =
    (let cache = fold (name_cache_step env) approvals (\<lambda>_. None) in
     map (\<lambda>(item, a). dict_put ''artifact_name''
            (if ap_target_type a = Target_Artifact then opt_or (cache (ap_target_id a)) JNull else JNull) item)
       (zip items approvals))"

section \<open>Notifications\<close>

text \<open>A member that is no object makes the comprehension raise, which is caught.\<close>

definition workspace_manager_ids :: "orch_api_env \<Rightarrow> uuid \<Rightarrow> string list" where
  "workspace_manager_ids env ws =
    (if \<not> oe_configured env ''WORKSPACE_SERVICE_URL'' then []
     else case oe_http env (members_call env ws) of
       Answer code (Some (JList ms)) \<Rightarrow>
         if code \<noteq> 200 \<or> list_ex (\<lambda>m. dict_get ''role'' m = None) ms then []
         else map (\<lambda>m. oe_str env (the (dict_get ''user_id'' m)))
                (filter (\<lambda>m. the (dict_get ''role'' m) \<in> {JStr ''owner'', JStr ''admin''}
                           \<and> json_truthy (the (dict_get ''user_id'' m))) ms)
     | _ \<Rightarrow> [])"

definition notification_call :: "orch_api_env \<Rightarrow> uuid \<Rightarrow> string \<Rightarrow> string \<Rightarrow> string \<Rightarrow> string \<Rightarrow> service_call" where
  "notification_call env ws user title msg link = \<lparr> sc_path = Notifications_Path ws, sc_query = [],
     sc_headers = auth_headers env ''notification-service'',
     sc_body = [(''user_id'', JStr user), (''title'', JStr title), (''body'', JStr msg), (''category'', JStr ''approval''),
       (''priority'', JStr ''high''), (''link'', JStr link)], sc_timeout_s = 5 \<rparr>"

definition approval_link :: "orch_api_env \<Rightarrow> uuid \<Rightarrow> uuid \<Rightarrow> string" where
  "approval_link env ws aid = ''/workspaces/'' @ oe_uuid_str env ws @ ''/approvals/'' @ oe_uuid_str env aid"

definition notify_approval_requested :: "orch_api_env \<Rightarrow> uuid \<Rightarrow> uuid \<Rightarrow> string \<Rightarrow> uuid option \<Rightarrow> service_call list" where
  "notify_approval_requested env aid ws requested_by reviewer =
    (if \<not> oe_configured env ''NOTIFICATION_SERVICE_URL'' then []
     else
       let recipients = (case reviewer of Some r \<Rightarrow> [oe_uuid_str env r] | None \<Rightarrow> workspace_manager_ids env ws);
           msg = take 8 requested_by @ ''... requested an artifact approval''
       in map (\<lambda>user. notification_call env ws user ''Approval requested'' msg (approval_link env ws aid)) recipients)"

definition notify_approval_decided ::
  "orch_api_env \<Rightarrow> uuid \<Rightarrow> uuid \<Rightarrow> string \<Rightarrow> string \<Rightarrow> uuid \<Rightarrow> service_call list" where
  "notify_approval_decided env aid ws requested_by decision target_id =
    (if \<not> oe_configured env ''NOTIFICATION_SERVICE_URL'' then []
     else if requested_by = [] then []
     else
       let name = get_artifact_name env target_id ws;
           subject = (if json_truthy name then oe_str env name else ''artifact'');
           verb = (if decision = ''approved'' then ''approved'' else ''rejected'')
       in [notification_call env ws requested_by (''Approval '' @ verb)
             (''Your approval request for '' @ [CHR 0x27] @ subject @ [CHR 0x27] @ '' was '' @ verb) (approval_link env ws aid)])"

section \<open>Audit and resume\<close>

definition record_audit :: "orch_api_env \<Rightarrow> string \<Rightarrow> string \<Rightarrow> uuid \<Rightarrow> string \<Rightarrow> string \<Rightarrow> dict \<Rightarrow> service_call list" where
  "record_audit env actor act ws target_id target_type metadata =
    (if \<not> oe_configured env ''AUDIT_SERVICE_URL'' then []
     else [\<lparr> sc_path = Audit_Events_Path, sc_query = [], sc_headers = auth_headers env ''audit-service'',
       sc_body = [(''actor_id'', JStr actor), (''actor_type'', JStr ''user''), (''action'', JStr act), (''workspace_id'', JUuid ws),
         (''target_id'', if target_id = [] then JNull else JStr target_id), (''target_type'', JStr target_type), (''metadata'', JObj metadata)],
       sc_timeout_s = 5 \<rparr>])"

definition shared_secret_headers :: "string \<Rightarrow> string \<Rightarrow> (string \<times> string) list" where
  "shared_secret_headers secret service_name = [(''Content-Type'', ''application/json'')]
     @ (if secret \<noteq> [] then [(''X-Internal-Auth'', secret), (''X-Service-Name'', service_name)] else [])"

definition resume_call :: "orch_api_env \<Rightarrow> uuid \<Rightarrow> uuid \<Rightarrow> string \<Rightarrow> string option \<Rightarrow> string option \<Rightarrow> service_call" where
  "resume_call env i ws decision comment override_output = \<lparr> sc_path = Resume_Path i, sc_query = [],
     sc_headers = shared_secret_headers (oe_secret env) (oe_service_name env),
     sc_body = [(''workspace_id'', JUuid ws), (''decision'', JStr decision)]
       @ (if str_truthy comment then [(''comment'', JStr (take 2000 (the comment)))] else [])
       @ (case override_output of None \<Rightarrow> [] | Some out \<Rightarrow> [(''override_output'', JStr (take 32768 out))]),
     sc_timeout_s = 130 \<rparr>"

text \<open>The answer of the runtime, when it is an object with the status 200.\<close>

definition client_resume_invocation ::
  "orch_api_env \<Rightarrow> uuid \<Rightarrow> uuid \<Rightarrow> string \<Rightarrow> string option \<Rightarrow> string option \<Rightarrow> dict option" where
  "client_resume_invocation env i ws decision comment override_output =
    (if \<not> oe_configured env ''AGENT_RUNTIME_URL'' then None
     else case oe_http env (resume_call env i ws decision comment override_output) of
       Answer code (Some (JObj d)) \<Rightarrow> if code = 200 then Some d else None
     | _ \<Rightarrow> None)"

definition posts_resume ::
  "orch_api_env \<Rightarrow> uuid \<Rightarrow> uuid \<Rightarrow> string \<Rightarrow> string option \<Rightarrow> string option \<Rightarrow> service_call list" where
  "posts_resume env i ws decision comment override_output =
    (if \<not> oe_configured env ''AGENT_RUNTIME_URL'' then [] else [resume_call env i ws decision comment override_output])"

section \<open>Lemmas\<close>

text \<open>In a list of one workspace the cache of names changes nothing.\<close>

lemma name_cache:
  assumes "\<forall>a\<in>set as. ap_workspace_id a = ws"
    and "\<forall>k v. c k = Some v \<longrightarrow> v = get_artifact_name env k ws"
    and "a \<in> set as \<or> c (ap_target_id a) \<noteq> None" "ap_target_type a = Target_Artifact"
  shows "fold (name_cache_step env) as c (ap_target_id a) = Some (get_artifact_name env (ap_target_id a) ws)"
  using assms
proof (induction as arbitrary: c)
  case (Cons b as)
  have "\<forall>k v. name_cache_step env b c k = Some v \<longrightarrow> v = get_artifact_name env k ws"
    using Cons.prems(1,2) by (auto simp: name_cache_step_def)
  moreover have "a \<in> set as \<or> name_cache_step env b c (ap_target_id a) \<noteq> None"
    using Cons.prems(3,4) by (auto simp: name_cache_step_def)
  ultimately show ?case using Cons.IH Cons.prems(1,4) by simp
qed auto

lemma enriched_list:
  assumes "\<forall>a\<in>set as. ap_workspace_id a = ws"
  shows "enrich_approval_list_with_artifact_names env (map f as) as =
    map (\<lambda>a. dict_put ''artifact_name''
      (if ap_target_type a = Target_Artifact then get_artifact_name env (ap_target_id a) ws else JNull) (f a)) as"
  using name_cache [OF assms, of "\<lambda>_. None"]
  by (auto simp: enrich_approval_list_with_artifact_names_def Let_def zip_map1 zip_same_conv_map)

end
