(* ===== verification/Approval_Routes.thy ===== *)
theory Approval_Routes
  imports Approval_Clients
begin

text \<open>
  The approval endpoints of the orchestrator: \<open>api/approval_routes.py\<close>, \<open>api/tool_approval_routes.py\<close> and
  \<open>application/approval_queries.py\<close>.  An endpoint gives its answer, the database it leaves behind and the calls
  its background tasks make, in their order.  A path segment or a header that should hold an id is a string.
  Instants stand for their ISO texts.  In a body the fields that are texts are strings or absent.
\<close>

definition parsed :: "orch_api_env \<Rightarrow> int \<Rightarrow> string \<Rightarrow> api_failure + uuid" where
  "parsed env code s = (case oe_uuid_of env s of None \<Rightarrow> Inl (AF_Http code) | Some k \<Rightarrow> Inr k)"

section \<open>Queries\<close>

definition approval_to_dict :: "approval \<Rightarrow> dict" where
  "approval_to_dict a =
     [(''approval_id'', JUuid (ap_id a)), (''workspace_id'', JUuid (ap_workspace_id a)),
      (''target_type'', JStr (approval_target_value (ap_target_type a))), (''target_id'', JUuid (ap_target_id a)),
      (''requested_by'', JStr (ap_requested_by a)), (''reviewer_id'', opt_uuid (ap_reviewer_id a)),
      (''prompt'', opt_str (ap_prompt a)), (''decision'', JStr (approval_decision_value (ap_decision a))),
      (''created_at'', JInt (ap_created_at a)), (''updated_at'', JInt (ap_updated_at a))]
     @ (case ap_timeout_at a of None \<Rightarrow> [] | Some t \<Rightarrow> [(''timeout_at'', JInt t)])
     @ (case ap_decided_by_id a of None \<Rightarrow> [] | Some k \<Rightarrow> [(''decided_by_id'', JUuid k)])
     @ (case ap_decided_at a of None \<Rightarrow> [] | Some t \<Rightarrow> [(''decided_at'', JInt t)])
     @ (if str_truthy (ap_decision_comment a) then [(''decision_comment'', JStr (the (ap_decision_comment a)))] else [])"

definition get_approval :: "uuid \<Rightarrow> orch_db \<Rightarrow> approval_handler_error + approval" where
  "get_approval k db = (case approval_get k db of None \<Rightarrow> Inl (ApprovalNotFound k) | Some a \<Rightarrow> Inr a)"

definition approval_decision_of :: "string \<Rightarrow> approval_decision option" where
  "approval_decision_of s = find (\<lambda>d. approval_decision_value d = s)
     [AP_PENDING, AP_APPROVED, AP_REJECTED, AP_TIMED_OUT, AP_CANCELLED]"

definition resolve_reviewer :: "orch_api_env \<Rightarrow> string option \<Rightarrow> string option \<Rightarrow> api_failure + uuid option" where
  "resolve_reviewer env user reviewer =
    (if reviewer = Some ''me'' then
       rbind (need (str_truthy user) 400) (\<lambda>_. rbind (parsed env 400 (the user)) (\<lambda>k. Inr (Some k)))
     else if str_truthy reviewer then rbind (parsed env 400 (the reviewer)) (\<lambda>k. Inr (Some k))
     else Inr None)"

definition list_approvals_endpoint ::
  "orch_api_env \<Rightarrow> string option \<Rightarrow> string \<Rightarrow> string option \<Rightarrow> string option \<Rightarrow> int \<Rightarrow> int \<Rightarrow> orch_db
   \<Rightarrow> api_failure + dict list" where
  "list_approvals_endpoint env user ws_str decision reviewer limit offset db =
     rbind (need (\<not> str_truthy decision \<or> approval_decision_of (the decision) \<noteq> None) 400) (\<lambda>_.
     rbind (parsed env 400 ws_str) (\<lambda>ws.
     rbind (resolve_reviewer env user reviewer) (\<lambda>rid.
     let approvals = approval_list_by_workspace ws
           (if str_truthy decision then approval_decision_of (the decision) else None) rid
           (nat (max 1 (min limit 100))) (nat (max 0 offset)) db
     in Inr (enrich_approval_list_with_artifact_names env (map approval_to_dict approvals) approvals))))"

definition approval_count_endpoint :: "orch_api_env \<Rightarrow> string \<Rightarrow> orch_db \<Rightarrow> api_failure + nat" where
  "approval_count_endpoint env ws_str db =
     rbind (parsed env 400 ws_str) (\<lambda>ws. Inr (approval_count_pending ws db))"

definition get_approval_endpoint :: "orch_api_env \<Rightarrow> string \<Rightarrow> string \<Rightarrow> orch_db \<Rightarrow> api_failure + dict" where
  "get_approval_endpoint env ws_str id_str db =
     rbind (parsed env 400 ws_str) (\<lambda>ws.
     rbind (parsed env 400 id_str) (\<lambda>aid.
     case get_approval aid db of
       Inl _ \<Rightarrow> Inl (AF_Http 404)
     | Inr a \<Rightarrow>
         if ap_workspace_id a \<noteq> ws then Inl (AF_Http 404)
         else if ap_target_type a = Target_Artifact
         then (case get_artifact_context env (ap_target_id a) (ap_workspace_id a) of
                 None \<Rightarrow> Inl AF_Raised
               | Some c \<Rightarrow> Inr (dict_put ''artifact_context'' c (approval_to_dict a)))
         else Inr (approval_to_dict a)))"

section \<open>Creating\<close>

record create_approval_body =
  cb_target_id :: "json option"
  cb_prompt :: "json option"
  cb_reviewer_id :: "json option"

definition truthy_field :: "json option \<Rightarrow> bool" where
  "truthy_field j = (j \<noteq> None \<and> json_truthy (the j))"

definition handler_failure :: "approval_handler_error \<Rightarrow> api_failure" where
  "handler_failure e = (case e of ApprovalValueError _ \<Rightarrow> AF_Http 400 | _ \<Rightarrow> AF_Raised)"

text \<open>The checks before the command, in their order; \<open>None\<close> is a body that is no JSON.\<close>

definition create_approval_checks ::
  "orch_api_env \<Rightarrow> string option \<Rightarrow> string \<Rightarrow> create_approval_body option \<Rightarrow> uuid \<Rightarrow> api_failure + create_approval_request" where
  "create_approval_checks env user ws_str body corr =
     rbind (need (str_truthy user) 400) (\<lambda>_.
     rbind (need (body \<noteq> None) 400) (\<lambda>_.
     let b = the body; prompt = py_strip (oe_str env (opt_or (cb_prompt b) (JStr []))) in
     rbind (need (prompt \<noteq> []) 422) (\<lambda>_.
     rbind (need (length prompt \<le> 2000) 422) (\<lambda>_.
     rbind (need (truthy_field (cb_target_id b)) 422) (\<lambda>_.
     rbind (parsed env 400 ws_str) (\<lambda>ws.
     rbind (parsed env 400 (oe_str env (the (cb_target_id b)))) (\<lambda>tid.
     rbind (parsed env 400 (the user)) (\<lambda>uid.
     rbind (if truthy_field (cb_reviewer_id b)
            then rbind (parsed env 400 (oe_str env (the (cb_reviewer_id b)))) (\<lambda>k. Inr (Some k)) else Inr None) (\<lambda>rid.
     rbind (need (validate_artifact_in_workspace env tid ws) 422) (\<lambda>_.
     rbind (need (rid = None \<or> validate_workspace_member env ws (the rid)) 422) (\<lambda>_.
     Inr \<lparr> car_workspace_id = ws, car_target_type = ''artifact'', car_target_id = tid, car_requested_by = oe_uuid_str env uid,
           car_prompt = Some prompt, car_correlation_id = corr, car_reviewer_id = rid \<rparr>)))))))))))"

definition create_approval_endpoint ::
  "orch_api_env \<Rightarrow> uuid_supply \<Rightarrow> time \<Rightarrow> string option \<Rightarrow> string \<Rightarrow> create_approval_body option \<Rightarrow> orch_db
   \<Rightarrow> (api_failure + dict) \<times> orch_db \<times> service_call list" where
  "create_approval_endpoint env u now user ws_str body db =
    (case create_approval_checks env user ws_str body (u 2) of
       Inl e \<Rightarrow> (Inl e, db, [])
     | Inr cmd \<Rightarrow>
         (case handle_create_approval cmd u now db of
            Inl e \<Rightarrow> (Inl (handler_failure e), db, [])
          | Inr (a, db') \<Rightarrow>
              (Inr (approval_to_dict a), db',
               notify_approval_requested env (ap_id a) (car_workspace_id cmd) (car_requested_by cmd) (car_reviewer_id cmd)
               @ record_audit env (car_requested_by cmd) ''approval.requested'' (car_workspace_id cmd)
                   (oe_uuid_str env (car_target_id cmd)) ''artifact''
                   [(''approval_id'', JUuid (ap_id a)), (''prompt'', JStr (take 200 (the (car_prompt cmd))))])))"

section \<open>Deciding\<close>

record decide_body =
  db_decision :: json
  db_comment :: "string option"
  db_override_output :: "string option"

definition domain_decision :: "string \<Rightarrow> string" where
  "domain_decision d = (if d = ''override'' then ''approve'' else if d = ''cancel'' then ''reject'' else d)"

definition domain_comment :: "string \<Rightarrow> string option \<Rightarrow> string option" where
  "domain_comment d comment =
    (if d \<in> {''override'', ''cancel''} then Some (''['' @ d @ ''] '' @ opt_or comment []) else comment)"

definition decide_checks ::
  "orch_api_env \<Rightarrow> string option \<Rightarrow> string \<Rightarrow> string \<Rightarrow> decide_body option \<Rightarrow> api_failure + string \<times> decide_approval" where
  "decide_checks env user ws_str id_str body =
     rbind (need (str_truthy user) 400) (\<lambda>_.
     rbind (need (body \<noteq> None) 400) (\<lambda>_.
     let b = the body in
     rbind (need (db_decision b \<in> JStr ` {''approve'', ''reject'', ''override'', ''cancel''}) 400) (\<lambda>_.
     let d = (case db_decision b of JStr s \<Rightarrow> s | _ \<Rightarrow> []) in
     rbind (need (\<not> str_truthy (db_comment b) \<or> length (the (db_comment b)) \<le> 2000) 400) (\<lambda>_.
     rbind (need (d \<noteq> ''override'' \<or> str_truthy (db_override_output b)) 422) (\<lambda>_.
     rbind (need (\<not> str_truthy (db_override_output b) \<or> length (the (db_override_output b)) \<le> 32768) 422) (\<lambda>_.
     rbind (parsed env 400 id_str) (\<lambda>aid.
     rbind (parsed env 400 ws_str) (\<lambda>ws.
     rbind (parsed env 400 (the user)) (\<lambda>uid.
     Inr (d, \<lparr> da_approval_id = aid, da_workspace_id = ws, da_decided_by_id = uid,
               da_decision = domain_decision d, da_comment = domain_comment d (db_comment b) \<rparr>))))))))))"

text \<open>Every \<open>DomainError\<close> but the missing request becomes a 409.\<close>

definition decide_failure :: "approval_handler_error \<Rightarrow> api_failure" where
  "decide_failure e = (case e of ApprovalNotFound _ \<Rightarrow> AF_Http 404 | ApprovalValueError _ \<Rightarrow> AF_Raised | _ \<Rightarrow> AF_Http 409)"

definition runtime_decision :: "string \<Rightarrow> approval \<Rightarrow> string" where
  "runtime_decision d a = (if d \<in> {''override'', ''cancel''} then d else approval_decision_value (ap_decision a))"

definition decide_tasks ::
  "orch_api_env \<Rightarrow> string \<Rightarrow> decide_approval \<Rightarrow> string option \<Rightarrow> approval \<Rightarrow> service_call list" where
  "decide_tasks env d cmd override_output a =
     notify_approval_decided env (ap_id a) (ap_workspace_id a) (ap_requested_by a)
       (approval_decision_value (ap_decision a)) (ap_target_id a)
     @ record_audit env (oe_uuid_str env (da_decided_by_id cmd)) ''approval.decided'' (ap_workspace_id a)
         (oe_uuid_str env (ap_target_id a)) (approval_target_value (ap_target_type a))
         [(''approval_id'', JUuid (ap_id a)), (''decision'', JStr d)]
     @ (if ap_target_type a = Target_Tool_Call
        then posts_resume env (ap_target_id a) (ap_workspace_id a) (runtime_decision d a) (da_comment cmd)
               (if d = ''override'' then override_output else None)
        else [])"

definition decide_approval_endpoint ::
  "orch_api_env \<Rightarrow> uuid_supply \<Rightarrow> time \<Rightarrow> string option \<Rightarrow> string \<Rightarrow> string \<Rightarrow> decide_body option \<Rightarrow> orch_db
   \<Rightarrow> (api_failure + dict) \<times> orch_db \<times> service_call list" where
  "decide_approval_endpoint env u now user ws_str id_str body db =
    (case decide_checks env user ws_str id_str body of
       Inl e \<Rightarrow> (Inl e, db, [])
     | Inr (d, cmd) \<Rightarrow>
         (case handle_decide_approval cmd u now db of
            Inl e \<Rightarrow> (Inl (decide_failure e), db, [])
          | Inr (a, db') \<Rightarrow>
              (Inr [(''approval_id'', JUuid (ap_id a)), (''decision'', JStr (approval_decision_value (ap_decision a))),
                    (''status'', JStr ''accepted'')],
               db', decide_tasks env d cmd (db_override_output (the body)) a)))"

section \<open>Tool approvals\<close>

record tool_approval_body =
  ta_workspace_id :: "json option"
  ta_invocation_id :: "json option"
  ta_run_id :: "json option"
  ta_task_id :: "json option"
  ta_tool_name :: string
  ta_risk_reason :: string
  ta_arguments_preview :: string

definition shortened_preview :: "string \<Rightarrow> string" where
  "shortened_preview s = (if 2000 < length s then take 2000 s @ ''...'' else s)"

definition newline :: string where "newline = [CHR 0x0A]"

definition tool_prompt :: "string \<Rightarrow> string \<Rightarrow> string \<Rightarrow> string" where
  "tool_prompt tool reason preview = ''Tool '' @ [CHR 0x27] @ tool @ [CHR 0x27] @ '' requires approval.'' @ newline
     @ ''Reason: '' @ reason @ newline @ ''Arguments: '' @ preview"

record tool_approval_ids =
  ti_ws :: uuid
  ti_invocation :: uuid
  ti_run :: uuid
  ti_task :: uuid

definition tool_approval_checks ::
  "orch_api_env \<Rightarrow> tool_approval_body option \<Rightarrow> api_failure + tool_approval_ids" where
  "tool_approval_checks env body =
     rbind (need (body \<noteq> None) 400) (\<lambda>_.
     let b = the body; ids = [ta_workspace_id b, ta_invocation_id b, ta_run_id b, ta_task_id b] in
     rbind (need (list_all truthy_field ids \<and> ta_tool_name b \<noteq> []) 422) (\<lambda>_.
     rbind (parsed env 400 (oe_str env (the (ta_workspace_id b)))) (\<lambda>ws.
     rbind (parsed env 400 (oe_str env (the (ta_invocation_id b)))) (\<lambda>i.
     rbind (parsed env 400 (oe_str env (the (ta_run_id b)))) (\<lambda>run.
     rbind (parsed env 400 (oe_str env (the (ta_task_id b)))) (\<lambda>task.
     Inr \<lparr> ti_ws = ws, ti_invocation = i, ti_run = run, ti_task = task \<rparr>))))))"

definition tool_context :: "tool_approval_body \<Rightarrow> tool_approval_ids \<Rightarrow> string \<Rightarrow> dict" where
  "tool_context b ids preview = [(''invocation_id'', JUuid (ti_invocation ids)), (''run_id'', JUuid (ti_run ids)),
     (''task_id'', JUuid (ti_task ids)), (''tool_name'', JStr (ta_tool_name b)), (''risk_reason'', JStr (ta_risk_reason b)),
     (''arguments_preview'', JStr preview)]"

definition create_tool_approval_endpoint ::
  "orch_api_env \<Rightarrow> api_auth \<Rightarrow> uuid_supply \<Rightarrow> time \<Rightarrow> api_headers \<Rightarrow> tool_approval_body option \<Rightarrow> orch_db
   \<Rightarrow> (api_failure + dict) \<times> orch_db \<times> service_call list" where
  "create_tool_approval_endpoint env auth u now headers body db =
    (case rbind (guard_service auth now ''agent-runtime'' headers) (\<lambda>_. tool_approval_checks env body) of
       Inl e \<Rightarrow> (Inl e, db, [])
     | Inr ids \<Rightarrow>
         let b = the body; preview = shortened_preview (ta_arguments_preview b);
             cmd = \<lparr> car_workspace_id = ti_ws ids, car_target_type = ''tool_call'', car_target_id = ti_invocation ids,
                     car_requested_by = ''system'', car_prompt = Some (tool_prompt (ta_tool_name b) (ta_risk_reason b) preview),
                     car_correlation_id = u 2, car_reviewer_id = None \<rparr>
         in (case handle_create_approval cmd u now db of
               Inl e \<Rightarrow> (Inl (handler_failure e), db, [])
             | Inr (a, db1) \<Rightarrow>
                 (Inr (dict_put ''tool_context'' (JObj (tool_context b ids preview)) (approval_to_dict a)),
                  outbox_write (tool_approval_requested_event (u 3, now) (ap_id a) (ti_ws ids) (ti_invocation ids) (ti_run ids)
                    (ti_task ids) (ta_tool_name b) (ta_risk_reason b) (u 2) None) db1,
                  notify_approval_requested env (ap_id a) (ti_ws ids) ''system'' None)))"

text \<open>The routes with their guard.\<close>

definition guarded_route ::
  "api_auth \<Rightarrow> time \<Rightarrow> string \<Rightarrow> api_headers \<Rightarrow> (orch_db \<Rightarrow> (api_failure + 'a) \<times> orch_db \<times> service_call list)
   \<Rightarrow> orch_db \<Rightarrow> (api_failure + 'a) \<times> orch_db \<times> service_call list" where
  "guarded_route auth now caller headers endpoint db =
    (case guard_service auth now caller headers of Inl e \<Rightarrow> (Inl e, db, []) | Inr _ \<Rightarrow> endpoint db)"

text \<open>What the runtime is told.\<close>

definition runtime_word :: "string \<Rightarrow> string" where
  "runtime_word d = (if d = ''approve'' then ''approved'' else if d = ''reject'' then ''rejected'' else d)"

section \<open>Lemmas\<close>

lemma parsed_Inr_iff: "parsed env code s = Inr k \<longleftrightarrow> oe_uuid_of env s = Some k"
  by (simp add: parsed_def split: option.splits)

lemma create_handled:
  assumes "handle_create_approval cmd u now db = Inr (a, db')" "approval_get (u 0) db = None"
  shows "ap_id a = u 0" "ap_workspace_id a = car_workspace_id cmd" "ap_target_id a = car_target_id cmd"
    "ap_decision a = AP_PENDING" "approval_target_of (car_target_type cmd) = Some (ap_target_type a)"
    "ap_requested_by a = car_requested_by cmd" "ap_prompt a = car_prompt cmd" "ap_reviewer_id a = car_reviewer_id cmd"
    "db_approvals db' = db_approvals db @ [a]"
    "db_outbox db' = db_outbox db @ [outbox_row_of (approval_requested_event (u 1, now) (u 0) (car_workspace_id cmd)
       (approval_target_value (ap_target_type a)) (car_target_id cmd) (car_requested_by cmd) (car_prompt cmd) (car_correlation_id cmd) None)]"
proof -
  have new: "upsert ap_id b xs = xs @ [b]" if "find_row ap_id (ap_id b) xs = None" for b :: approval and xs
    using that by (induction xs) (auto simp: find_row_def split: if_splits)
  show "ap_id a = u 0" "ap_workspace_id a = car_workspace_id cmd" "ap_target_id a = car_target_id cmd"
    "ap_decision a = AP_PENDING" "approval_target_of (car_target_type cmd) = Some (ap_target_type a)"
    "ap_requested_by a = car_requested_by cmd" "ap_prompt a = car_prompt cmd" "ap_reviewer_id a = car_reviewer_id cmd"
    "db_approvals db' = db_approvals db @ [a]"
    "db_outbox db' = db_outbox db @ [outbox_row_of (approval_requested_event (u 1, now) (u 0) (car_workspace_id cmd)
       (approval_target_value (ap_target_type a)) (car_target_id cmd) (car_requested_by cmd) (car_prompt cmd) (car_correlation_id cmd) None)]"
    using assms new
    by (auto simp: handle_create_approval_def rbind_Inr_iff raising_ap_Inr_iff approval_init_def outbox_write_def
        approval_save_def approval_get_def split: option.splits if_splits)
qed

definition is_resume :: "service_call \<Rightarrow> bool" where
  "is_resume c = (case sc_path c of Resume_Path _ \<Rightarrow> True | _ \<Rightarrow> False)"

lemma posts_no_resume:
  "filter is_resume (notify_approval_decided env aid ws by d t) = []"
  "filter is_resume (record_audit env actor act ws ti ty meta) = []"
  "filter is_resume (notify_approval_requested env aid ws by r) = []"
  by (auto simp: notify_approval_decided_def record_audit_def notify_approval_requested_def is_resume_def
      notification_call_def Let_def filter_empty_conv)

lemma posts_resume_all: "filter is_resume (posts_resume env i ws d c out) = posts_resume env i ws d c out"
  by (simp add: posts_resume_def is_resume_def resume_call_def)

lemma decide_checks_needs:
  assumes "decide_checks env user ws_str id_str body = Inr (d, cmd)"
  shows "db_decision (the body) = JStr d" "d \<in> {''approve'', ''reject'', ''override'', ''cancel''}"
    "oe_uuid_of env id_str = Some (da_approval_id cmd)" "oe_uuid_of env ws_str = Some (da_workspace_id cmd)"
    "oe_uuid_of env (the user) = Some (da_decided_by_id cmd)" "da_decision cmd = domain_decision d"
    "da_comment cmd = domain_comment d (db_comment (the body))"
  using assms by (auto simp: decide_checks_def rbind_Inr_iff parsed_Inr_iff Let_def)

lemma decided_outcome:
  assumes "a = decided cmd now a0" "da_decision cmd = domain_decision d" "d \<in> {''approve'', ''reject'', ''override'', ''cancel''}"
  shows "ap_decided_by_id a = Some (da_decided_by_id cmd)" "ap_decision_comment a = da_comment cmd"
    "ap_decision a = (if d \<in> {''approve'', ''override''} then AP_APPROVED else AP_REJECTED)"
    "runtime_decision d a = runtime_word d"
  using assms by (auto simp: runtime_decision_def runtime_word_def decided_def domain_decision_def)

lemma decide_endpoint_stored:
  assumes "decide_approval_endpoint env u now user ws_str id_str body db = (Inr answer, db', calls)"
  shows "\<exists>aid a. oe_uuid_of env id_str = Some aid \<and> approval_get aid db' = Some a \<and> ap_decision a \<noteq> AP_PENDING"
proof -
  obtain d cmd a where c: "decide_checks env user ws_str id_str body = Inr (d, cmd)"
    "handle_decide_approval cmd u now db = Inr (a, db')"
    using assms by (auto simp: decide_approval_endpoint_def split: sum.splits prod.splits)
  obtain a0 dbx e where h: "approval_get (da_approval_id cmd) db = Some a0" "a = decided cmd now a0"
    "db' = outbox_write e (approval_save a dbx)" using c(2) by (auto elim: handle_decide_needs)
  have "approval_get (da_approval_id cmd) db' = Some a"
    using approval_repo.get_key [OF h(1)] h(2,3) by (simp add: approval_repo.get_put)
  moreover have "ap_decision a \<noteq> AP_PENDING" using h(2) by simp
  ultimately show ?thesis using decide_checks_needs(3) [OF c(1)] by blast
qed

section \<open>Properties\<close>

text \<open>Deciding through the endpoint.  A refusal changes nothing and calls nobody.  An accepted decision was made
  on a pending request of the workspace in the path; it is stored, with the caller, as an approval for \<open>approve\<close> and
  \<open>override\<close> and as a rejection otherwise; and exactly the decisions about tool calls ask the runtime to resume, once,
  with the reviewer's own word and with a replacement output only for \<open>override\<close>.\<close>

theorem decide_endpoint_exact:
  assumes "decide_approval_endpoint env u now user ws_str id_str body db = (answer, db', calls)"
  shows "case answer of
      Inl _ \<Rightarrow> db' = db \<and> calls = []
    | Inr _ \<Rightarrow> \<exists>d aid ws a0 a. db_decision (the body) = JStr d \<and> d \<in> {''approve'', ''reject'', ''override'', ''cancel''}
        \<and> oe_uuid_of env id_str = Some aid \<and> oe_uuid_of env ws_str = Some ws
        \<and> approval_get aid db = Some a0 \<and> ap_workspace_id a0 = ws \<and> ap_decision a0 = AP_PENDING
        \<and> approval_get aid db' = Some a \<and> ap_decided_by_id a = oe_uuid_of env (the user)
        \<and> ap_decision a = (if d \<in> {''approve'', ''override''} then AP_APPROVED else AP_REJECTED)
        \<and> ap_decision_comment a = domain_comment d (db_comment (the body))
        \<and> filter is_resume calls =
           (if ap_target_type a0 = Target_Tool_Call
            then posts_resume env (ap_target_id a0) ws (runtime_word d) (domain_comment d (db_comment (the body)))
                   (if d = ''override'' then db_override_output (the body) else None)
            else [])"
proof (cases "decide_checks env user ws_str id_str body")
  case (Inl e)
  then show ?thesis using assms by (auto simp: decide_approval_endpoint_def)
next
  case (Inr p)
  obtain d cmd where p: "p = (d, cmd)" by (cases p)
  show ?thesis
  proof (cases "handle_decide_approval cmd u now db")
    case (Inl e)
    then show ?thesis using assms Inr p by (auto simp: decide_approval_endpoint_def)
  next
    case Handled: (Inr r)
    obtain a db1 where r: "r = (a, db1)" by (cases r)
    note checks = decide_checks_needs [OF Inr [unfolded p]]
    obtain a0 dbx e where h: "approval_get (da_approval_id cmd) db = Some a0" "ap_workspace_id a0 = da_workspace_id cmd"
      "ap_decision a0 = AP_PENDING" "a = decided cmd now a0" "db1 = outbox_write e (approval_save a dbx)"
      using Handled r by (auto elim: handle_decide_needs)
    have stored: "approval_get (da_approval_id cmd) db1 = Some a"
      using approval_repo.get_key [OF h(1)] h(4,5) by (simp add: approval_repo.get_put)
    note out = decided_outcome [OF h(4) checks(6,2)]
    have ans: "answer = Inr [(''approval_id'', JUuid (ap_id a)), (''decision'', JStr (approval_decision_value (ap_decision a))),
        (''status'', JStr ''accepted'')]" "db' = db1" "calls = decide_tasks env d cmd (db_override_output (the body)) a"
      using assms Inr p Handled r by (simp_all add: decide_approval_endpoint_def)
    have resumes: "filter is_resume calls = (if ap_target_type a0 = Target_Tool_Call
            then posts_resume env (ap_target_id a0) (da_workspace_id cmd) (runtime_word d) (domain_comment d (db_comment (the body)))
                   (if d = ''override'' then db_override_output (the body) else None)
            else [])"
      unfolding ans(3) decide_tasks_def out(4) checks(7) [symmetric]
      using h(2,4) by (simp add: posts_no_resume posts_resume_all)
    show ?thesis unfolding ans(1,2) sum.case
      by (intro exI conjI) (rule checks h(1-3) stored out(1) [folded checks(5)] out(2) [unfolded checks(7)] out(3) resumes)+
  qed
qed

text \<open>A request for a tool approval that is accepted adds exactly one pending request, aimed at the invocation
  and raised by the system, and writes two events of one correlation; a refused one changes nothing.\<close>

theorem tool_approval_recorded:
  assumes "create_tool_approval_endpoint env auth u now headers body db = (answer, db', calls)"
    and "approval_get (u 0) db = None"
  shows "case answer of
      Inl _ \<Rightarrow> db' = db \<and> calls = []
    | Inr _ \<Rightarrow> \<exists>a. db_approvals db' = db_approvals db @ [a] \<and> ap_id a = u 0 \<and> ap_decision a = AP_PENDING
        \<and> ap_target_type a = Target_Tool_Call \<and> ap_requested_by a = ''system'' \<and> ap_reviewer_id a = None
        \<and> oe_uuid_of env (oe_str env (the (ta_invocation_id (the body)))) = Some (ap_target_id a)
        \<and> oe_uuid_of env (oe_str env (the (ta_workspace_id (the body)))) = Some (ap_workspace_id a)
        \<and> ap_prompt a = Some (tool_prompt (ta_tool_name (the body)) (ta_risk_reason (the body))
                               (shortened_preview (ta_arguments_preview (the body))))
        \<and> map ob_event_type (drop (length (db_outbox db)) (db_outbox db')) = [''approval.requested'', ''tool_approval.requested'']
        \<and> map ob_correlation_id (drop (length (db_outbox db)) (db_outbox db')) = [u 2, u 2]"
proof (cases "rbind (guard_service auth now ''agent-runtime'' headers) (\<lambda>_. tool_approval_checks env body)")
  case (Inl e)
  then show ?thesis using assms(1) by (auto simp: create_tool_approval_endpoint_def)
next
  case (Inr ids)
  then have ids: "oe_uuid_of env (oe_str env (the (ta_invocation_id (the body)))) = Some (ti_invocation ids)"
    "oe_uuid_of env (oe_str env (the (ta_workspace_id (the body)))) = Some (ti_ws ids)"
    by (auto simp: rbind_Inr_iff tool_approval_checks_def parsed_Inr_iff Let_def)
  let ?cmd = "\<lparr> car_workspace_id = ti_ws ids, car_target_type = ''tool_call'', car_target_id = ti_invocation ids,
     car_requested_by = ''system'', car_prompt = Some (tool_prompt (ta_tool_name (the body)) (ta_risk_reason (the body))
        (shortened_preview (ta_arguments_preview (the body)))), car_correlation_id = u 2, car_reviewer_id = None \<rparr>"
  show ?thesis
  proof (cases "handle_create_approval ?cmd u now db")
    case (Inl e)
    then show ?thesis using assms(1) Inr by (auto simp: create_tool_approval_endpoint_def Let_def)
  next
    case Handled: (Inr r)
    obtain a db1 where r: "r = (a, db1)" by (cases r)
    note made = create_handled [OF Handled [unfolded r] assms(2)]
    have "ap_target_type a = Target_Tool_Call" using made(5) by (simp add: approval_target_of_def)
    then show ?thesis
      using assms(1) Inr Handled r made ids
      by (auto simp: create_tool_approval_endpoint_def Let_def outbox_write_def outbox_row_of_def approval_requested_event_def
          tool_approval_requested_event_def mk_event_def)
  qed
qed

section \<open>Witnesses\<close>

definition demo_ids :: "string \<Rightarrow> uuid option" where
  "demo_ids = map_of [(''31'', 31), (''7'', 7), (''9'', 9), (''3'', 3), (''4'', 4), (''5'', 5)]"

definition demo_api :: orch_api_env where
  "demo_api = \<lparr> oe_lib = \<lparr> jl_loads = (\<lambda>_. None), jl_dumps = (\<lambda>_. []), jl_repr = (\<lambda>_. []) \<rparr>, oe_uuid_of = demo_ids,
     oe_uuid_str = str_nat, oe_configured = (\<lambda>s. s = ''AGENT_RUNTIME_URL''), oe_token = (\<lambda>_. ''t''), oe_secret = ''s3cret'',
     oe_service_name = ''orchestrator'', oe_http = (\<lambda>_. No_Answer []) \<rparr>"

definition tool_approval_row :: approval where
  "tool_approval_row = demo_approval\<lparr>ap_target_type := Target_Tool_Call\<rparr>"

definition demo_override :: decide_body where
  "demo_override = \<lparr> db_decision = JStr ''override'', db_comment = Some ''c'', db_override_output = Some ''o'' \<rparr>"

definition demo_override_run :: "(api_failure + dict) \<times> orch_db \<times> service_call list" where
  "demo_override_run = decide_approval_endpoint demo_api demo_supply 50 (Some ''9'') ''7'' ''31'' (Some demo_override)
     (demo_db\<lparr>db_approvals := [tool_approval_row]\<rparr>)"

lemma demo_override_ok: "is_ok (fst demo_override_run)"
proof -
  let ?cmd = "\<lparr> da_approval_id = 31, da_workspace_id = 7, da_decided_by_id = 9, da_decision = ''approve'',
     da_comment = Some ''[override] c'' \<rparr>"
  have "decide_checks demo_api (Some ''9'') ''7'' ''31'' (Some demo_override) = Inr (''override'', ?cmd)"
    by (simp add: decide_checks_def need_def str_truthy_def parsed_def demo_api_def demo_ids_def domain_decision_def
        domain_comment_def demo_override_def)
  moreover have "is_ok (handle_decide_approval ?cmd demo_supply 50 (demo_db\<lparr>db_approvals := [tool_approval_row]\<rparr>))" by code_simp
  ultimately show ?thesis by (auto simp: demo_override_run_def decide_approval_endpoint_def is_ok_iff)
qed

theorem decide_endpoint_exact_witness:
  "map sc_path (filter is_resume (snd (snd demo_override_run))) = [Resume_Path 3]"
proof -
  obtain answer db' calls where run: "demo_override_run = (answer, db', calls)" by (rule prod_cases3)
  have row: "approval_get 31 (demo_db\<lparr>db_approvals := [tool_approval_row]\<rparr>) = Some tool_approval_row" by code_simp
  obtain x where "answer = Inr x" using demo_override_ok unfolding run by (cases answer) auto
  then show ?thesis
    unfolding run using decide_endpoint_exact [OF run [unfolded demo_override_run_def]] row
    by (auto simp: demo_override_def demo_api_def demo_ids_def tool_approval_row_def demo_approval_def posts_resume_def resume_call_def)
qed

definition demo_agent_auth :: api_auth where
  "demo_agent_auth = \<lparr> aa_jwt = \<lparr> jl_encode = (\<lambda>_ _. ''t''),
       jl_decode = (\<lambda>_ _ _ _ _. Inr [(''sub'', JStr ''agent-runtime''), (''aud'', JStr ''orchestrator''), (''iss'', JStr ''i''),
         (''iat'', JInt 0), (''exp'', JInt 60), (''service_name'', JStr ''agent-runtime'')]) \<rparr>,
     aa_verifier = \<lparr> tv_secret = ''s3cret'', tv_expected_audience = ''orchestrator'', tv_issuer = ''i'' \<rparr>,
     aa_bearer = map_option (drop 7) \<circ> (\<lambda>hs. map_of hs ''Authorization'') \<rparr>"

theorem tool_approval_recorded_witness:
  "map ap_target_id (db_approvals (fst (snd (create_tool_approval_endpoint demo_api demo_agent_auth demo_supply 50
     [(''Authorization'', ''Bearer t'')]
     (Some \<lparr> ta_workspace_id = Some (JStr ''7''), ta_invocation_id = Some (JStr ''3''), ta_run_id = Some (JStr ''4''),
        ta_task_id = Some (JStr ''5''), ta_tool_name = ''shell.exec'', ta_risk_reason = ''r'', ta_arguments_preview = ''ls'' \<rparr>)
     demo_db)))) = [3]"
proof -
  let ?b = "\<lparr> ta_workspace_id = Some (JStr ''7''), ta_invocation_id = Some (JStr ''3''), ta_run_id = Some (JStr ''4''),
        ta_task_id = Some (JStr ''5''), ta_tool_name = ''shell.exec'', ta_risk_reason = ''r'', ta_arguments_preview = ''ls'' \<rparr>"
  let ?run = "create_tool_approval_endpoint demo_api demo_agent_auth demo_supply 50 [(''Authorization'', ''Bearer t'')] (Some ?b) demo_db"
  obtain answer db' calls where run: "?run = (answer, db', calls)" by (rule prod_cases3)
  have ok: "is_ok (fst ?run)" by code_simp
  have new: "approval_get (demo_supply 0) demo_db = None" "db_approvals demo_db = []" by code_simp+
  obtain x where "answer = Inr x" using ok run by (auto simp: is_ok_iff)
  then show ?thesis
    using tool_approval_recorded [OF run new(1)] run new(2) by (auto simp: demo_api_def demo_ids_def oe_str_def py_str_def)
qed

end
