(* ===== verification/Notifications.thy ===== *)
theory Notifications
  imports Prelude
begin

text \<open>
  The notification service (\<open>apps/notification-service\<close>): its repository (\<open>infrastructure/db\<close>), the delivery of
  e-mails with its retries (\<open>application/notification_service.py\<close>) and its endpoints (\<open>api/routes.py\<close>).  The e-mail
  adapter is a parameter that says of each attempt whether it succeeded; what is sent and slept is recorded.
\<close>

section \<open>Repository\<close>

record notification =
  nt_id :: uuid
  nt_workspace_id :: uuid
  nt_user_id :: string
  nt_title :: string
  nt_body :: string
  nt_category :: string
  nt_priority :: string
  nt_link :: string
  nt_is_read :: bool
  nt_created_at :: time
  nt_read_at :: "time option"
  nt_delivery_status :: string
  nt_delivery_attempts :: nat
  nt_last_delivery_error :: "string option"
  nt_delivered_at :: "time option"

type_synonym notification_db = "notification list"

definition valid_categories :: "string set" where
  "valid_categories = {''task'', ''run'', ''approval'', ''artifact'', ''workspace'', ''system''}"

definition valid_priorities :: "string set" where
  "valid_priorities = {''low'', ''normal'', ''high'', ''urgent''}"

definition mine :: "uuid \<Rightarrow> string \<Rightarrow> notification \<Rightarrow> bool" where
  "mine ws user n = (nt_workspace_id n = ws \<and> nt_user_id n = user)"

definition notifications_find_by_workspace_user ::
  "uuid \<Rightarrow> string \<Rightarrow> bool option \<Rightarrow> string option \<Rightarrow> int \<Rightarrow> int \<Rightarrow> notification_db \<Rightarrow> notification list" where
  "notifications_find_by_workspace_user ws user is_read delivery limit offset db =
     take (nat (min (max limit 1) 200)) (drop (nat (max offset 0)) (sort_key (\<lambda>n. - nt_created_at n)
       (filter (\<lambda>n. mine ws user n \<and> (is_read = None \<or> nt_is_read n = the is_read)
                  \<and> (delivery = None \<or> nt_delivery_status n = the delivery)) db)))"

definition notifications_count_unread :: "uuid \<Rightarrow> string \<Rightarrow> notification_db \<Rightarrow> nat" where
  "notifications_count_unread ws user db = length (filter (\<lambda>n. mine ws user n \<and> \<not> nt_is_read n) db)"

definition notification_insert :: "notification \<Rightarrow> notification_db \<Rightarrow> notification_db option" where
  "notification_insert n db = (if nt_id n \<in> nt_id ` set db then None else Some (db @ [n]))"

definition mark_read_now :: "time \<Rightarrow> notification \<Rightarrow> notification" where
  "mark_read_now now n = n\<lparr>nt_is_read := True, nt_read_at := Some now\<rparr>"

text \<open>An \<open>UPDATE\<close> gives the number of rows it changed.\<close>

definition update_where :: "('r \<Rightarrow> bool) \<Rightarrow> ('r \<Rightarrow> 'r) \<Rightarrow> 'r list \<Rightarrow> nat \<times> 'r list" where
  "update_where P f db = (length (filter P db), map (\<lambda>r. if P r then f r else r) db)"

definition notification_mark_read ::
  "time \<Rightarrow> uuid \<Rightarrow> string \<Rightarrow> uuid option \<Rightarrow> notification_db \<Rightarrow> bool \<times> notification_db" where
  "notification_mark_read now k user ws db =
    (let (rows, db') = update_where (\<lambda>n. nt_id n = k \<and> nt_user_id n = user \<and> \<not> nt_is_read n
                          \<and> (ws = None \<or> nt_workspace_id n = the ws)) (mark_read_now now) db
     in (0 < rows, db'))"

definition notification_mark_all_read :: "time \<Rightarrow> uuid \<Rightarrow> string \<Rightarrow> notification_db \<Rightarrow> nat \<times> notification_db" where
  "notification_mark_all_read now ws user db = update_where (\<lambda>n. mine ws user n \<and> \<not> nt_is_read n) (mark_read_now now) db"

definition delivery_fields :: "string \<Rightarrow> nat \<Rightarrow> string option \<Rightarrow> time option \<Rightarrow> notification \<Rightarrow> notification" where
  "delivery_fields st attempts err at n = n\<lparr>nt_delivery_status := st, nt_delivery_attempts := attempts,
     nt_last_delivery_error := err, nt_delivered_at := at\<rparr>"

definition notification_update_delivery_status ::
  "uuid \<Rightarrow> string \<Rightarrow> nat \<Rightarrow> string option \<Rightarrow> time option \<Rightarrow> notification_db \<Rightarrow> notification_db" where
  "notification_update_delivery_status k st attempts err at db =
     snd (update_where (\<lambda>n. nt_id n = k) (delivery_fields st attempts err at) db)"

section \<open>Creation and delivery\<close>

text \<open>\<open>ne_adapter\<close> is absent when SMTP is not configured; \<open>ne_store_fails\<close> is the exception of the update of the
  delivery columns that the service swallows; \<open>ne_clock\<close> is the time after the attempt of a number.\<close>

record notification_env =
  ne_adapter :: "(nat \<Rightarrow> string \<Rightarrow> string \<Rightarrow> string \<Rightarrow> bool) option"
  ne_store_fails :: bool
  ne_clock :: "nat \<Rightarrow> time"

definition max_delivery_attempts :: nat where "max_delivery_attempts = 3"

definition retry_delays :: "int list" where "retry_delays = [1000000, 3000000, 9000000]"

definition retry_delay :: "nat \<Rightarrow> int" where
  "retry_delay attempt = (if attempt - 1 < length retry_delays then retry_delays ! (attempt - 1) else 9000000)"

definition update_delivery ::
  "notification_env \<Rightarrow> uuid \<Rightarrow> string \<Rightarrow> nat \<Rightarrow> string option \<Rightarrow> time option \<Rightarrow> notification_db \<Rightarrow> notification_db" where
  "update_delivery env k st attempts err at db =
    (if ne_store_fails env then db else notification_update_delivery_status k st attempts err at db)"

text \<open>What one request did besides the database: the e-mails handed to the adapter and the sleeps.\<close>

record delivery_trace =
  tr_sent :: "(string \<times> string \<times> string) list"
  tr_slept :: "int list"

definition sent_mail :: "string \<times> string \<times> string \<Rightarrow> delivery_trace \<Rightarrow> delivery_trace" where
  "sent_mail m t = t\<lparr>tr_sent := tr_sent t @ [m]\<rparr>"

definition slept :: "int \<Rightarrow> delivery_trace \<Rightarrow> delivery_trace" where
  "slept d t = t\<lparr>tr_slept := tr_slept t @ [d]\<rparr>"

text \<open>The loop over the attempts, with the number of those that are left.\<close>

fun delivery_loop ::
  "notification_env \<Rightarrow> (nat \<Rightarrow> string \<Rightarrow> string \<Rightarrow> string \<Rightarrow> bool) \<Rightarrow> uuid \<Rightarrow> string \<Rightarrow> string \<Rightarrow> string \<Rightarrow> nat
   \<Rightarrow> notification_db \<times> delivery_trace \<Rightarrow> (string \<times> nat) \<times> notification_db \<times> delivery_trace" where
  "delivery_loop env send k to_email subject msg 0 (db, t) =
     ((''failed'', max_delivery_attempts),
      update_delivery env k ''failed'' max_delivery_attempts
        (Some (''SMTP send failed on attempt '' @ str_nat max_delivery_attempts)) None db, t)"
| "delivery_loop env send k to_email subject msg (Suc left) (db, t) =
    (let attempt = max_delivery_attempts - left; t1 = sent_mail (to_email, subject, msg) t in
     if send attempt to_email subject msg
     then ((''sent'', attempt), update_delivery env k ''sent'' attempt None (Some (ne_clock env attempt)) db, t1)
     else delivery_loop env send k to_email subject msg left
       (db, if attempt < max_delivery_attempts then slept (retry_delay attempt) t1 else t1))"

definition attempt_email_delivery ::
  "notification_env \<Rightarrow> uuid \<Rightarrow> string option \<Rightarrow> string \<Rightarrow> string \<Rightarrow> string \<Rightarrow> notification_db
   \<Rightarrow> (string \<times> nat) \<times> notification_db \<times> delivery_trace" where
  "attempt_email_delivery env k recipient title body link db =
    (let t = \<lparr> tr_sent = [], tr_slept = [] \<rparr> in
     if \<not> str_truthy recipient then ((''skipped'', 0), update_delivery env k ''skipped'' 0 None None db, t)
     else case ne_adapter env of
       None \<Rightarrow> ((''skipped'', 0), update_delivery env k ''skipped'' 0 (Some ''SMTP not configured'') None db, t)
     | Some send \<Rightarrow>
         let msg = (if link \<noteq> [] then body @ [char_of (10 :: nat), char_of (10 :: nat)] @ ''View: '' @ link else body)
         in delivery_loop env send k (the recipient) title msg max_delivery_attempts (db, t))"

record create_notification_request =
  cn_user_id :: string
  cn_title :: string
  cn_body :: "string option"
  cn_category :: string
  cn_priority :: string
  cn_link :: "string option"
  cn_recipient_email :: "string option"

datatype notification_failure = NF_Http int | NF_Integrity

definition new_notification :: "uuid \<Rightarrow> time \<Rightarrow> uuid \<Rightarrow> create_notification_request \<Rightarrow> notification" where
  "new_notification k now ws q = \<lparr> nt_id = k, nt_workspace_id = ws, nt_user_id = cn_user_id q, nt_title = cn_title q,
     nt_body = opt_or (cn_body q) [], nt_category = cn_category q, nt_priority = cn_priority q,
     nt_link = opt_or (cn_link q) [], nt_is_read = False, nt_created_at = now, nt_read_at = None,
     nt_delivery_status = ''pending'', nt_delivery_attempts = 0, nt_last_delivery_error = None, nt_delivered_at = None \<rparr>"

text \<open>The answer is the inserted row and, for an approval, the status of its delivery.\<close>

definition create_notification ::
  "notification_env \<Rightarrow> uuid \<Rightarrow> time \<Rightarrow> uuid \<Rightarrow> create_notification_request \<Rightarrow> notification_db
   \<Rightarrow> (notification_failure + notification \<times> (string \<times> nat) option) \<times> notification_db \<times> delivery_trace" where
  "create_notification env k now ws q db =
    (let silent = \<lparr> tr_sent = [], tr_slept = [] \<rparr> in
     if cn_category q \<notin> valid_categories \<or> cn_priority q \<notin> valid_priorities then (Inl (NF_Http 400), db, silent)
     else
       let n = new_notification k now ws q in
       case notification_insert n db of
         None \<Rightarrow> (Inl NF_Integrity, db, silent)
       | Some db1 \<Rightarrow>
           if cn_category q = ''approval''
           then let (d, db2, t) = attempt_email_delivery env k (cn_recipient_email q) (cn_title q)
                                    (opt_or (cn_body q) []) (opt_or (cn_link q) []) db1
                in (Inr (n, Some d), db2, t)
           else (Inr (n, None), db1, silent))"

section \<open>Endpoints\<close>

definition bounded_text :: "nat \<Rightarrow> string option \<Rightarrow> bool" where
  "bounded_text n s = (s = None \<or> length (the s) \<le> n)"

definition notification_request_valid :: "create_notification_request \<Rightarrow> bool" where
  "notification_request_valid q = (1 \<le> length (cn_user_id q) \<and> length (cn_user_id q) \<le> 200
     \<and> 1 \<le> length (cn_title q) \<and> length (cn_title q) \<le> 200 \<and> bounded_text 2000 (cn_body q)
     \<and> cn_category q \<in> valid_categories \<and> cn_priority q \<in> valid_priorities
     \<and> bounded_text 500 (cn_link q) \<and> bounded_text 320 (cn_recipient_email q))"

definition create_notification_endpoint ::
  "notification_env \<Rightarrow> uuid \<Rightarrow> time \<Rightarrow> uuid \<Rightarrow> create_notification_request \<Rightarrow> notification_db
   \<Rightarrow> (notification_failure + notification \<times> (string \<times> nat) option) \<times> notification_db \<times> delivery_trace" where
  "create_notification_endpoint env k now ws q db =
    (if \<not> notification_request_valid q then (Inl (NF_Http 422), db, \<lparr> tr_sent = [], tr_slept = [] \<rparr>)
     else create_notification env k now ws q db)"

definition list_notifications_endpoint ::
  "uuid \<Rightarrow> string option \<Rightarrow> bool option \<Rightarrow> string option \<Rightarrow> int \<Rightarrow> int \<Rightarrow> notification_db
   \<Rightarrow> notification_failure + notification list" where
  "list_notifications_endpoint ws user is_read delivery limit offset db =
    (if \<not> str_truthy user then Inl (NF_Http 400)
     else if str_truthy delivery \<and> the delivery \<notin> {''pending'', ''sent'', ''failed'', ''skipped''} then Inl (NF_Http 400)
     else Inr (notifications_find_by_workspace_user ws (the user) is_read delivery
                 (max 1 (min limit 200)) (max 0 (min offset 10000)) db))"

definition count_unread_endpoint :: "uuid \<Rightarrow> string option \<Rightarrow> notification_db \<Rightarrow> notification_failure + nat" where
  "count_unread_endpoint ws user db =
    (if \<not> str_truthy user then Inl (NF_Http 400) else Inr (notifications_count_unread ws (the user) db))"

definition mark_read_endpoint ::
  "time \<Rightarrow> uuid \<Rightarrow> uuid \<Rightarrow> string option \<Rightarrow> notification_db \<Rightarrow> (notification_failure + unit) \<times> notification_db" where
  "mark_read_endpoint now ws k user db =
    (if \<not> str_truthy user then (Inl (NF_Http 400), db)
     else let (updated, db') = notification_mark_read now k (the user) (Some ws) db
          in (if updated then Inr () else Inl (NF_Http 404), db'))"

definition mark_all_read_endpoint ::
  "time \<Rightarrow> uuid \<Rightarrow> string option \<Rightarrow> notification_db \<Rightarrow> (notification_failure + nat) \<times> notification_db" where
  "mark_all_read_endpoint now ws user db =
    (if \<not> str_truthy user then (Inl (NF_Http 400), db)
     else let (rows, db') = notification_mark_all_read now ws (the user) db in (Inr rows, db'))"

text \<open>The sweep of read notifications.  A negative \<open>LIMIT\<close> is an error of the database.\<close>

definition expired_notification :: "time \<Rightarrow> notification \<Rightarrow> bool" where
  "expired_notification cutoff n = (nt_is_read n \<and> (case nt_read_at n of None \<Rightarrow> False | Some t \<Rightarrow> t < cutoff))"

definition day_us :: int where "day_us = 86400000000"

definition cleanup_read_notifications ::
  "time \<Rightarrow> bool \<Rightarrow> int option \<Rightarrow> int option \<Rightarrow> int \<Rightarrow> int \<Rightarrow> notification_db
   \<Rightarrow> (notification_failure + nat \<times> nat) \<times> notification_db" where
  "cleanup_read_notifications now dry_run retention_days batch_size default_days default_batch db =
    (let days = (case retention_days of Some d \<Rightarrow> if d = 0 then default_days else d | None \<Rightarrow> default_days);
         batch = min (case batch_size of Some b \<Rightarrow> if b = 0 then default_batch else b | None \<Rightarrow> default_batch) 5000;
         cutoff = now - days * day_us;
         candidates = filter (expired_notification cutoff) db
     in if dry_run \<or> candidates = [] then (Inr (length candidates, 0), db)
        else if batch < 0 then (Inl NF_Integrity, db)
        else
          let doomed = nt_id ` set (take (nat batch) (sort_key (\<lambda>n. the (nt_read_at n)) candidates))
          in (Inr (length candidates, length (filter (\<lambda>n. nt_id n \<in> doomed) db)),
              filter (\<lambda>n. nt_id n \<notin> doomed) db))"

section \<open>Lemmas\<close>

lemma update_where_simps [simp]:
  "fst (update_where P f db) = length (filter P db)"
  "snd (update_where P f db) = map (\<lambda>r. if P r then f r else r) db"
  by (simp_all add: update_where_def)

lemma delivery_of_new:
  assumes "k \<notin> nt_id ` set db"
  shows "notification_update_delivery_status k st a e at (db @ [new_notification k now ws q])
     = db @ [delivery_fields st a e at (new_notification k now ws q)]"
proof -
  have "map (\<lambda>r. if nt_id r = k then delivery_fields st a e at r else r) db = db"
    by (rule map_idI) (use assms in auto)
  then show ?thesis by (simp add: notification_update_delivery_status_def new_notification_def)
qed

text \<open>The attempt that ends the loop, if one succeeds.\<close>

definition first_success :: "(nat \<Rightarrow> bool) \<Rightarrow> nat option" where
  "first_success ok = find ok [1, 2, 3]"

definition no_success :: "string option" where
  "no_success = Some (''SMTP send failed on attempt '' @ str_nat max_delivery_attempts)"

lemma no_success_text: "no_success = Some ''SMTP send failed on attempt 3''"
  by code_simp

lemma attempt_numbers:
  "max_delivery_attempts - Suc (Suc 0) = 1" "max_delivery_attempts - Suc 0 = 2" "max_delivery_attempts - 0 = 3"
  "max_delivery_attempts = Suc (Suc (Suc 0))" "retry_delay 1 = 1000000" "retry_delay 2 = 3000000"
  "replicate 2 x = [x, x]" "replicate 3 x = [x, x, x]" "replicate 1 x = [x]"
  by (simp_all add: max_delivery_attempts_def retry_delay_def retry_delays_def numeral_eq_Suc)

lemma delivery_loop_runs:
  "delivery_loop env send k to_email subject msg (Suc (Suc (Suc 0))) (db, \<lparr> tr_sent = [], tr_slept = [] \<rparr>) =
     (case first_success (\<lambda>a. send a to_email subject msg) of
        Some a \<Rightarrow> ((''sent'', a), update_delivery env k ''sent'' a None (Some (ne_clock env a)) db,
                   \<lparr> tr_sent = replicate a (to_email, subject, msg), tr_slept = take (a - 1) [1000000, 3000000] \<rparr>)
      | None \<Rightarrow> ((''failed'', max_delivery_attempts), update_delivery env k ''failed'' max_delivery_attempts no_success None db,
                 \<lparr> tr_sent = replicate 3 (to_email, subject, msg), tr_slept = [1000000, 3000000] \<rparr>))"
proof -
  have less: "1 < max_delivery_attempts" "2 < max_delivery_attempts" "\<not> 3 < max_delivery_attempts"
    by (simp_all add: max_delivery_attempts_def)
  show ?thesis
    by (simp only: delivery_loop.simps attempt_numbers(1-3) Let_def first_success_def find.simps sent_mail_def slept_def
        less if_True if_False attempt_numbers(5-) no_success_def [symmetric])
      (simp add: numeral_eq_Suc)
qed

section \<open>Properties\<close>

definition mail_text :: "create_notification_request \<Rightarrow> string" where
  "mail_text q = (let body = opt_or (cn_body q) []; link = opt_or (cn_link q) [] in
     if link \<noteq> [] then body @ [char_of (10 :: nat), char_of (10 :: nat)] @ ''View: '' @ link else body)"

text \<open>The notification of an approval with an address: the row is always stored; the mail is tried until it is
  accepted, three times at the most with pauses of one and three seconds between the attempts, and the row tells
  how it ended.\<close>

theorem mail_delivery_exact:
  assumes "notification_request_valid q" "cn_category q = ''approval''" "cn_recipient_email q = Some to_email"
    and "to_email \<noteq> []" "ne_adapter env = Some send" "\<not> ne_store_fails env" "k \<notin> nt_id ` set db"
  shows "create_notification_endpoint env k now ws q db =
    (let n = new_notification k now ws q; mail = (to_email, cn_title q, mail_text q)
     in case first_success (\<lambda>a. send a to_email (cn_title q) (mail_text q)) of
          Some a \<Rightarrow> (Inr (n, Some (''sent'', a)), db @ [delivery_fields ''sent'' a None (Some (ne_clock env a)) n],
                     \<lparr> tr_sent = replicate a mail, tr_slept = take (a - 1) [1000000, 3000000] \<rparr>)
        | None \<Rightarrow> (Inr (n, Some (''failed'', 3)),
                   db @ [delivery_fields ''failed'' 3 (Some ''SMTP send failed on attempt 3'') None n],
                   \<lparr> tr_sent = replicate 3 mail, tr_slept = [1000000, 3000000] \<rparr>))"
proof -
  let ?n = "new_notification k now ws q"
  have ok: "cn_category q \<in> valid_categories" "cn_priority q \<in> valid_priorities"
    using assms(1) by (auto simp: notification_request_valid_def)
  have row: "notification_insert ?n db = Some (db @ [?n])"
    using assms(7) by (simp add: notification_insert_def new_notification_def)
  have "attempt_email_delivery env k (Some to_email) (cn_title q) (opt_or (cn_body q) []) (opt_or (cn_link q) []) (db @ [?n]) =
      delivery_loop env send k to_email (cn_title q) (mail_text q) (Suc (Suc (Suc 0))) (db @ [?n], \<lparr> tr_sent = [], tr_slept = [] \<rparr>)"
    using assms(4,5) by (simp add: attempt_email_delivery_def str_truthy_def mail_text_def attempt_numbers(4) Let_def del: delivery_loop.simps)
  then have run: "attempt_email_delivery env k (Some to_email) (cn_title q) (opt_or (cn_body q) []) (opt_or (cn_link q) []) (db @ [?n]) =
      (case first_success (\<lambda>a. send a to_email (cn_title q) (mail_text q)) of
        Some a \<Rightarrow> ((''sent'', a), db @ [delivery_fields ''sent'' a None (Some (ne_clock env a)) ?n],
                   \<lparr> tr_sent = replicate a (to_email, cn_title q, mail_text q), tr_slept = take (a - 1) [1000000, 3000000] \<rparr>)
      | None \<Rightarrow> ((''failed'', 3), db @ [delivery_fields ''failed'' 3 no_success None ?n],
                 \<lparr> tr_sent = replicate 3 (to_email, cn_title q, mail_text q), tr_slept = [1000000, 3000000] \<rparr>))"
    unfolding delivery_loop_runs update_delivery_def using assms(6)
    by (simp add: max_delivery_attempts_def delivery_of_new [OF assms(7)] del: replicate.simps split: option.split)
  show ?thesis
    unfolding create_notification_endpoint_def create_notification_def Let_def row assms(2,3)
    using assms(1) ok run by (simp add: no_success_text assms(2) split: option.split)
qed

text \<open>The sweeps of a job that calls the endpoint without parameters, \<open>n\<close> times.\<close>

fun cleanup_sweeps :: "time \<Rightarrow> int \<Rightarrow> int \<Rightarrow> nat \<Rightarrow> notification_db \<Rightarrow> notification_db" where
  "cleanup_sweeps now days batch 0 db = db"
| "cleanup_sweeps now days batch (Suc n) db =
     cleanup_sweeps now days batch n (snd (cleanup_read_notifications now False None None days batch db))"

lemma removed_keys:
  assumes "distinct (map nt_id db)" "set xs \<subseteq> set db"
  shows "filter (\<lambda>n. nt_id n \<notin> nt_id ` set xs) db = filter (\<lambda>n. n \<notin> set xs) db"
  using assms by (intro filter_cong) (auto simp: distinct_map inj_on_def)

lemma length_removed:
  assumes "distinct db" "distinct xs" "set xs \<subseteq> set db"
  shows "length (filter (\<lambda>n. n \<notin> set xs) db) = length db - length xs"
proof -
  have "length (filter (\<lambda>n. n \<notin> set xs) db) = card (set db - set xs)"
    using assms(1) distinct_card [of "filter (\<lambda>n. n \<notin> set xs) db"] by (simp add: set_diff_eq)
  then show ?thesis using assms by (simp add: card_Diff_subset distinct_card)
qed

definition expired_count :: "time \<Rightarrow> notification_db \<Rightarrow> nat" where
  "expired_count cutoff db = length (filter (expired_notification cutoff) db)"

lemma cleanup_step:
  assumes "distinct (map nt_id db)" "0 < batch"
    and db'_def: "db' = snd (cleanup_read_notifications now False None None days batch db)"
  shows "filter (\<lambda>n. \<not> expired_notification (now - days * day_us) n) db' = filter (\<lambda>n. \<not> expired_notification (now - days * day_us) n) db"
    and "expired_count (now - days * day_us) db' = expired_count (now - days * day_us) db - nat (min batch 5000)"
    and "distinct (map nt_id db')"
proof -
  let ?E = "expired_notification (now - days * day_us)"
  let ?x = "take (nat (min batch 5000)) (sort_key (\<lambda>n. the (nt_read_at n)) (filter ?E db))"
  have sub: "set ?x \<subseteq> set (filter ?E db)" using set_take_subset by fastforce
  have db': "db' = filter (\<lambda>n. n \<notin> set ?x) db"
  proof (cases "filter ?E db = []")
    case False
    have "set ?x \<subseteq> set db" using sub by auto
    then show ?thesis
      using False assms(2) removed_keys [OF assms(1)] unfolding db'_def cleanup_read_notifications_def by (simp add: Let_def)
  qed (simp add: db'_def cleanup_read_notifications_def Let_def)
  show "filter (\<lambda>n. \<not> ?E n) db' = filter (\<lambda>n. \<not> ?E n) db"
    using sub by (auto simp: db' filter_filter intro: filter_cong)
  have d: "distinct (filter ?E db)" "distinct ?x" using assms(1) by (auto simp: distinct_map)
  have E: "filter ?E db' = filter (\<lambda>n. n \<notin> set ?x) (filter ?E db)" unfolding db' filter_filter by (meson conj_commute)
  show "expired_count (now - days * day_us) db' = expired_count (now - days * day_us) db - nat (min batch 5000)"
    unfolding expired_count_def E length_removed [OF d sub] by (simp add: min_def)
  show "distinct (map nt_id db')" using assms(1) by (simp add: db' distinct_map_filter)
qed

text \<open>Sweeping read notifications: an unread one, and one that was read within the time of retention, is never
  deleted; and enough sweeps of a positive batch delete every other read one.\<close>

theorem cleanup_exact:
  assumes "distinct (map nt_id db)" "0 < batch" "expired_count (now - days * day_us) db \<le> n * nat (min batch 5000)"
  shows "cleanup_sweeps now days batch n db = filter (\<lambda>n. \<not> expired_notification (now - days * day_us) n) db"
  using assms(1,3)
proof (induction n arbitrary: db)
  case 0
  then show ?case by (simp add: expired_count_def filter_empty_conv filter_id_conv)
next
  case (Suc n)
  note step = cleanup_step [OF Suc.prems(1) assms(2) refl, of now days]
  have "expired_count (now - days * day_us) (snd (cleanup_read_notifications now False None None days batch db))
      \<le> n * nat (min batch 5000)"
    using Suc.prems(2) unfolding step(2) by simp
  from Suc.IH [OF step(3) this] show ?case by (simp only: cleanup_sweeps.simps step(1))
qed

section \<open>Witnesses\<close>

definition demo_notification_request :: create_notification_request where
  "demo_notification_request = \<lparr> cn_user_id = ''u'', cn_title = ''Approval requested'', cn_body = Some ''b'',
     cn_category = ''approval'', cn_priority = ''high'', cn_link = Some ''/l'', cn_recipient_email = Some ''u@x'' \<rparr>"

definition demo_notification_env :: notification_env where
  "demo_notification_env = \<lparr> ne_adapter = Some (\<lambda>a _ _ _. a = 2), ne_store_fails = False, ne_clock = int \<rparr>"

theorem mail_delivery_exact_witness:
  "fst (create_notification_endpoint demo_notification_env 5 9 7 demo_notification_request []) =
     Inr (new_notification 5 9 7 demo_notification_request, Some (''sent'', 2))"
proof -
  have "notification_request_valid demo_notification_request" by code_simp
  then show ?thesis
    using mail_delivery_exact [of demo_notification_request "''u@x''" demo_notification_env "\<lambda>a _ _ _. a = 2" 5 "[]" 9 7]
    by (simp add: demo_notification_request_def demo_notification_env_def Let_def first_success_def)
qed

definition demo_notifications :: notification_db where
  "demo_notifications = map (\<lambda>k. (new_notification k 0 7 demo_notification_request)
     \<lparr>nt_is_read := (k < 3), nt_read_at := (if k < 3 then Some (int k) else None)\<rparr>) [1, 2, 3, 4]"

theorem cleanup_exact_witness:
  "map nt_id (cleanup_sweeps (30 * day_us + 10) 30 1 2 demo_notifications) = [3, 4]"
proof -
  have "distinct (map nt_id demo_notifications)" by code_simp
  moreover have "expired_count (30 * day_us + 10 - 30 * day_us) demo_notifications \<le> 2 * nat (min 1 5000)" by code_simp
  moreover have "map nt_id (filter (\<lambda>n. \<not> expired_notification (30 * day_us + 10 - 30 * day_us) n) demo_notifications) = [3, 4]"
    by code_simp
  ultimately show ?thesis using cleanup_exact [of demo_notifications 1 "30 * day_us + 10" 30 2] by simp
qed

end
