(* ===== verification/System_Approvals.thy ===== *)
theory System_Approvals
  imports Approval_Routes Agent_Decisions Workspace Notifications
begin

text \<open>
  The services around an approval, joined: the orchestrator's calls to the agent runtime
  (\<open>agent-runtime/src/api/routes.py\<close>), to the workspace service and to the notification service, and the runtime's
  call to the orchestrator (\<open>agent-runtime/src/infrastructure/tool_approval_client.py\<close>).
\<close>

section \<open>The runtime's resume endpoint\<close>

record resume_body =
  rb_workspace_id :: uuid
  rb_decision :: string
  rb_comment :: "string option"
  rb_override_output :: "string option"

text \<open>\<open>ResumeInvocationBody\<close>; None is a 422.\<close>

definition opt_text_field :: "string \<Rightarrow> dict \<Rightarrow> string option option" where
  "opt_text_field k d = (case jget k JNull d of JNull \<Rightarrow> Some None | JStr s \<Rightarrow> Some (Some s) | _ \<Rightarrow> None)"

definition resume_body_of :: "(string \<Rightarrow> uuid option) \<Rightarrow> dict \<Rightarrow> resume_body option" where
  "resume_body_of uuid_of d =
    (case (case jget ''workspace_id'' JNull d of JUuid k \<Rightarrow> Some k | JStr s \<Rightarrow> uuid_of s | _ \<Rightarrow> None,
           jget ''decision'' JNull d, opt_text_field ''comment'' d, opt_text_field ''override_output'' d) of
       (Some ws, JStr decision, Some comment, Some out) \<Rightarrow>
         if decision \<in> {''approved'', ''rejected'', ''override'', ''cancel''} \<and> bounded_text 32768 out
         then Some \<lparr> rb_workspace_id = ws, rb_decision = decision, rb_comment = comment, rb_override_output = out \<rparr>
         else None
     | _ \<Rightarrow> None)"

definition resume_route ::
  "(string \<Rightarrow> uuid option) \<Rightarrow> api_auth \<Rightarrow> unit_of_work \<Rightarrow> runtime_env \<Rightarrow> time \<Rightarrow> api_headers \<Rightarrow> uuid \<Rightarrow> dict \<Rightarrow> runtime_db
   \<Rightarrow> http_answer \<times> runtime_db" where
  "resume_route uuid_of auth uow renv now headers i body rdb =
    (case guard_service auth now ''orchestrator'' headers of
       Inl e \<Rightarrow> (failure_answer e, rdb)
     | Inr _ \<Rightarrow>
         (case resume_body_of uuid_of body of
            None \<Rightarrow> (Answer 422 None, rdb)
          | Some b \<Rightarrow>
              (let (r, rdb', _) = resume_invocation uow renv i (rb_workspace_id b) (rb_decision b) (rb_comment b)
                     (rb_override_output b) rdb
               in (case r of Inl _ \<Rightarrow> Answer 500 None | Inr d \<Rightarrow> Answer 200 (Some (JObj d)), rdb'))))"

text \<open>What a call of the orchestrator does to the database of the runtime.\<close>

definition runtime_receives ::
  "(string \<Rightarrow> uuid option) \<Rightarrow> api_auth \<Rightarrow> unit_of_work \<Rightarrow> runtime_env \<Rightarrow> time \<Rightarrow> service_call \<Rightarrow> runtime_db \<Rightarrow> runtime_db" where
  "runtime_receives uuid_of auth uow renv now c rdb =
    (case sc_path c of
       Resume_Path i \<Rightarrow> snd (resume_route uuid_of auth uow renv now (sc_headers c) i (sc_body c) rdb)
     | _ \<Rightarrow> rdb)"

section \<open>The runtime's client for tool approvals\<close>

record approval_client =
  ac_url_set :: bool
  ac_shared_secret :: string
  ac_caller :: string

definition tool_approval_call ::
  "approval_client \<Rightarrow> uuid \<Rightarrow> uuid \<Rightarrow> uuid \<Rightarrow> uuid \<Rightarrow> string \<Rightarrow> string \<Rightarrow> string \<Rightarrow> service_call" where
  "tool_approval_call c ws i run task tool preview reason = \<lparr> sc_path = Tool_Approvals_Path, sc_query = [],
     sc_headers = shared_secret_headers (ac_shared_secret c) (ac_caller c),
     sc_body = [(''workspace_id'', JUuid ws), (''invocation_id'', JUuid i), (''run_id'', JUuid run), (''task_id'', JUuid task),
       (''tool_name'', JStr tool), (''arguments_preview'', JStr (take 2000 preview)), (''risk_reason'', JStr reason)],
     sc_timeout_s = 10 \<rparr>"

text \<open>An exception is its message; the body of an answer is not kept in it.\<close>

definition http_request_tool_approval :: "approval_client \<Rightarrow> (service_call \<Rightarrow> http_answer) \<Rightarrow> service_call \<Rightarrow> string + dict" where
  "http_request_tool_approval c http call =
    (if \<not> ac_url_set c then Inl ''ORCHESTRATOR_URL not configured''
     else case http call of
       Answer code body \<Rightarrow>
         if code = 201 then (case body of Some (JObj d) \<Rightarrow> Inr d | Some _ \<Rightarrow> Inl ''no attribute get'' | None \<Rightarrow> Inl ''not JSON'')
         else Inl (''Orchestrator returned '' @ str_int code)
     | No_Answer m \<Rightarrow> Inl m)"

text \<open>The orchestrator's side: the body as the endpoint reads it, and the answer it sends.\<close>

definition tool_body_of :: "dict \<Rightarrow> tool_approval_body" where
  "tool_body_of d = \<lparr> ta_workspace_id = map_of d ''workspace_id'', ta_invocation_id = map_of d ''invocation_id'',
     ta_run_id = map_of d ''run_id'', ta_task_id = map_of d ''task_id'',
     ta_tool_name = (case jget ''tool_name'' (JStr []) d of JStr s \<Rightarrow> s | _ \<Rightarrow> []),
     ta_risk_reason = (case jget ''risk_reason'' (JStr []) d of JStr s \<Rightarrow> s | _ \<Rightarrow> []),
     ta_arguments_preview = (case jget ''arguments_preview'' (JStr []) d of JStr s \<Rightarrow> s | _ \<Rightarrow> []) \<rparr>"

definition orchestrator_answers ::
  "orch_api_env \<Rightarrow> api_auth \<Rightarrow> uuid_supply \<Rightarrow> time \<Rightarrow> orch_db \<Rightarrow> service_call \<Rightarrow> http_answer \<times> orch_db" where
  "orchestrator_answers env auth u now db c =
    (let (r, db', _) = create_tool_approval_endpoint env auth u now (sc_headers c) (Some (tool_body_of (sc_body c))) db
     in (case r of Inl e \<Rightarrow> failure_answer e | Inr d \<Rightarrow> Answer 201 (Some (JObj d)), db'))"

text \<open>The port of the runtime over this client: the gate keeps \<open>result.get("id")\<close>.\<close>

definition approval_port ::
  "approval_client \<Rightarrow> (service_call \<Rightarrow> http_answer) \<Rightarrow> (json \<Rightarrow> service_call) \<Rightarrow> nat \<Rightarrow> json \<Rightarrow> string + json" where
  "approval_port c http call t name = map_sum id (jget ''id'' JNull) (http_request_tool_approval c http (call name))"

section \<open>The members endpoint over HTTP\<close>

definition members_route ::
  "(string \<Rightarrow> uuid option) \<Rightarrow> (member list \<Rightarrow> 'm list) \<Rightarrow> ('m \<Rightarrow> json) \<Rightarrow> workspace_db \<Rightarrow> api_headers \<Rightarrow> uuid \<Rightarrow> http_answer" where
  "members_route uuid_of enrich to_json wdb headers k =
    (case header_value ''x-user-id'' headers of
       None \<Rightarrow> Answer 422 None
     | Some s \<Rightarrow>
         (case uuid_of s of
            None \<Rightarrow> Answer 500 None
          | Some user \<Rightarrow>
              (case list_members_endpoint enrich user k 200 0 wdb of
                 Inl (WF_Http c) \<Rightarrow> Answer c None
               | Inl _ \<Rightarrow> Answer 500 None
               | Inr ms \<Rightarrow> Answer 200 (Some (JList (map to_json ms))))))"

section \<open>Notifications over HTTP\<close>

definition text_field :: "string \<Rightarrow> string \<Rightarrow> dict \<Rightarrow> string" where
  "text_field k d body = (case jget k (JStr d) body of JStr s \<Rightarrow> s | _ \<Rightarrow> [])"

definition notification_request_of :: "dict \<Rightarrow> create_notification_request option" where
  "notification_request_of d =
    (case (opt_text_field ''body'' d, opt_text_field ''link'' d, opt_text_field ''recipient_email'' d) of
       (Some msg, Some link, Some recipient) \<Rightarrow>
         Some \<lparr> cn_user_id = text_field ''user_id'' [] d, cn_title = text_field ''title'' [] d, cn_body = msg,
           cn_category = text_field ''category'' ''system'' d, cn_priority = text_field ''priority'' ''normal'' d,
           cn_link = link, cn_recipient_email = recipient \<rparr>
     | _ \<Rightarrow> None)"

section \<open>Lemmas\<close>

lemma shared_secret_no_bearer: "header_value ''authorization'' (shared_secret_headers secret name) = None"
  by (simp add: header_value_def shared_secret_headers_def py_lower_def py_lower_char_def)

lemma auth_headers_no_user: "header_value ''x-user-id'' (auth_headers env audience) = None"
  by (simp add: header_value_def auth_headers_def py_lower_def py_lower_char_def)

lemma resume_calls_headers:
  assumes "decide_approval_endpoint env u now user ws_str id_str body db = (answer, db', calls)" "c \<in> set calls" "is_resume c"
  shows "sc_headers c = shared_secret_headers (oe_secret env) (oe_service_name env)"
proof -
  have no: "x \<notin> set (notify_approval_decided env aid ws by d t)" "x \<notin> set (record_audit env actor act ws ti ty meta)"
    if "is_resume x" for x aid ws "by" d t actor act ti ty meta
    using that posts_no_resume(1) [of env aid ws "by" d t] posts_no_resume(2) [of env actor act ws ti ty meta]
    by (auto simp: filter_empty_conv)
  show ?thesis
    using assms no
    by (auto simp: decide_approval_endpoint_def decide_tasks_def posts_resume_def resume_call_def
        split: sum.splits prod.splits if_splits)
qed

lemma runtime_unmoved:
  assumes "bearer_sound (aa_bearer auth)" "\<forall>c\<in>set calls. is_resume c \<longrightarrow> header_value ''authorization'' (sc_headers c) = None"
  shows "fold (runtime_receives uuid_of auth uow renv now) calls rdb = rdb"
  using assms(2)
proof (induction calls)
  case (Cons c calls)
  have "runtime_receives uuid_of auth uow renv now c rdb = rdb"
    using Cons.prems no_bearer_refused [OF assms(1)]
    by (auto simp: runtime_receives_def resume_route_def is_resume_def split: service_path.splits)
  then show ?case using Cons by simp
qed simp

section \<open>Properties\<close>


text \<open>A gated tool call asks the orchestrator for an approval and is always refused: the orchestrator stores
  nothing, whatever the tool, and the invocation waits for a human with no approval that one could decide.\<close>

theorem gate_request_refused:
  assumes "bearer_sound (aa_bearer auth)"
    and "re_approval renv = Some (approval_port client (fst \<circ> orchestrator_answers env auth u now db)
           (\<lambda>name. tool_approval_call client ws i run task (tool_of name) preview reason))"
  shows "fst (request_tool_approval renv name tool_input reason s) = Inr JNull
    \<and> orchestrator_answers env auth u now db (tool_approval_call client ws i run task (tool_of name) preview reason)
      = (Answer 401 (Some (JObj [(''detail'', JNull)])), db)"
proof -
  let ?call = "tool_approval_call client ws i run task (tool_of name) preview reason"
  have refused: "orchestrator_answers env auth u now db ?call = (Answer 401 (Some (JObj [(''detail'', JNull)])), db)"
    using no_bearer_refused [OF assms(1) shared_secret_no_bearer]
    by (simp add: orchestrator_answers_def create_tool_approval_endpoint_def tool_approval_call_def failure_answer_def)
  then have "\<exists>m. approval_port client (fst \<circ> orchestrator_answers env auth u now db)
           (\<lambda>name. tool_approval_call client ws i run task (tool_of name) preview reason) t name = Inl m" for t
    by (simp add: approval_port_def http_request_tool_approval_def)
  then show ?thesis
    using refused assms(2)
    by (auto simp: request_tool_approval_def rt_bind_def make_call_def rt_return_def split: sum.splits) (metis sum.distinct(1))
qed

text \<open>The bodies that name a reviewer.\<close>

definition names_reviewer :: "create_approval_body \<Rightarrow> bool" where
  "names_reviewer b = truthy_field (cb_reviewer_id b)"

text \<open>C28. The orchestrator asks the workspace service for the members without the header that says for whom, so with
  both services configured no request with a reviewer is ever accepted, and a request without one, a user's or a
  tool's, notifies nobody.\<close>

theorem reviewer_never_accepted:
  assumes "oe_configured env ''WORKSPACE_SERVICE_URL''"
    and "\<forall>k. oe_http env (members_call env k) = members_route (oe_uuid_of env) enrich to_json wdb (sc_headers (members_call env k)) k"
  shows "(names_reviewer b \<longrightarrow> (\<exists>e. create_approval_endpoint env u now user ws_str (Some b) db = (Inl e, db, [])))
    \<and> notify_approval_requested env aid ws who None = []
    \<and> snd (snd (create_tool_approval_endpoint env auth u now headers body db)) = []"
proof -
  have members: "oe_http env (members_call env k) = Answer 422 None" for k
    using assms(2) by (simp add: members_route_def members_call_def auth_headers_no_user)
  then have no: "validate_workspace_member env k user' = False" "workspace_manager_ids env k = []" for k user'
    using assms(1) by (simp_all add: validate_workspace_member_def workspace_manager_ids_def)
  have quiet: "notify_approval_requested env aid ws who None = []" for aid ws who
    by (simp add: notify_approval_requested_def no)
  have "create_approval_checks env user ws_str (Some b) (u 2) \<noteq> Inr cmd" if "names_reviewer b" for cmd
    using that no(1) by (auto simp: create_approval_checks_def rbind_Inr_iff names_reviewer_def Let_def)
  then have "\<exists>e. create_approval_endpoint env u now user ws_str (Some b) db = (Inl e, db, [])" if "names_reviewer b"
    using that by (cases "create_approval_checks env user ws_str (Some b) (u 2)") (auto simp: create_approval_endpoint_def)
  moreover have "snd (snd (create_tool_approval_endpoint env auth u now headers body db)) = []"
    using quiet by (simp add: create_tool_approval_endpoint_def Let_def split: sum.split prod.split)
  ultimately show ?thesis using quiet by blast
qed

text \<open>No notification about an approval is ever mailed: the orchestrator never sends an address, so whatever the
  adapter would do, the delivery is skipped.\<close>

theorem approval_mail_skipped:
  assumes "c \<in> set (notify_approval_requested env aid ws who reviewer) \<union> set (notify_approval_decided env aid ws who d t)"
    and "notification_request_of (sc_body c) = Some q"
    and "create_notification_endpoint nenv k now ws q ndb = (Inr (n, delivery), ndb', trace)"
  shows "delivery = Some (''skipped'', 0) \<and> tr_sent trace = []"
proof -
  have body: "map_of (sc_body c) ''recipient_email'' = None" "map_of (sc_body c) ''category'' = Some (JStr ''approval'')"
    using assms(1) by (auto simp: notify_approval_requested_def notify_approval_decided_def notification_call_def Let_def
        split: if_splits)
  then have q: "cn_recipient_email q = None" "cn_category q = ''approval''"
    using assms(2) by (auto simp: notification_request_of_def opt_text_field_def jget_def text_field_def split: option.splits)
  then show ?thesis
    using assms(3)
    by (auto simp: create_notification_endpoint_def create_notification_def attempt_email_delivery_def str_truthy_def Let_def
        split: if_splits option.splits)
qed

section \<open>Witnesses\<close>

definition demo_route_auth :: api_auth where
  "demo_route_auth = demo_agent_auth\<lparr>aa_bearer := map_option (drop 7) \<circ> header_value ''authorization''\<rparr>"

lemma demo_route_auth_sound: "bearer_sound (aa_bearer demo_route_auth)"
  by (simp add: bearer_sound_def demo_route_auth_def)


definition demo_client :: approval_client where
  "demo_client = \<lparr> ac_url_set = True, ac_shared_secret = ''s3cret'', ac_caller = ''agent-runtime'' \<rparr>"

theorem gate_request_refused_witness:
  "fst (request_tool_approval
     ((agent_demo_env ''t'')\<lparr>re_approval := Some (approval_port demo_client
        (fst \<circ> orchestrator_answers demo_api demo_route_auth demo_supply 50 demo_db)
        (\<lambda>name. tool_approval_call demo_client 7 3 4 5 ''shell.exec'' ''ls'' ''r''))\<rparr>)
     (JStr ''shell.exec'') (JObj []) ''r'' \<lparr> rs_inv = waiting_row, rs_db = waiting_db, rs_calls = [], rs_tick = 0 \<rparr>) = Inr JNull"
  by (rule gate_request_refused [OF demo_route_auth_sound, of _ demo_client demo_api demo_supply 50 demo_db 7 3 4 5
        "\<lambda>_. ''shell.exec''" "''ls''" "''r''", THEN conjunct1]) simp

definition demo_connected :: orch_api_env where
  "demo_connected = demo_api\<lparr>oe_configured := (\<lambda>_. True), oe_http := (\<lambda>c. case sc_path c of
       Members_Path k \<Rightarrow> members_route demo_ids id (\<lambda>_. JNull) \<lparr> wd_workspaces = [], wd_members = [], wd_outbox = [] \<rparr> (sc_headers c) k
     | _ \<Rightarrow> Answer 200 None)\<rparr>"

theorem reviewer_never_accepted_witness:
  "\<exists>e. create_approval_endpoint demo_connected demo_supply 50 (Some ''9'') ''7''
     (Some \<lparr> cb_target_id = Some (JStr ''3''), cb_prompt = Some (JStr ''look''), cb_reviewer_id = Some (JStr ''4'') \<rparr>) demo_db
     = (Inl e, demo_db, [])"
proof -
  have "names_reviewer \<lparr> cb_target_id = Some (JStr ''3''), cb_prompt = Some (JStr ''look''), cb_reviewer_id = Some (JStr ''4'') \<rparr>"
    by (simp add: names_reviewer_def truthy_field_def json_truthy_def)
  then show ?thesis
    using reviewer_never_accepted [of demo_connected id "\<lambda>_. JNull" "\<lparr> wd_workspaces = [], wd_members = [], wd_outbox = [] \<rparr>"]
    by (simp add: demo_connected_def demo_api_def members_call_def)
qed

definition demo_mail_request :: create_notification_request where
  "demo_mail_request = \<lparr> cn_user_id = ''9'', cn_title = ''Approval approved'',
     cn_body = Some (''Your approval request for '' @ [CHR 0x27] @ ''artifact'' @ [CHR 0x27] @ '' was approved''),
     cn_category = ''approval'', cn_priority = ''high'', cn_link = Some (''/workspaces/7/approvals/5''), cn_recipient_email = None \<rparr>"

lemma demo_digits: "str_nat 7 = ''7''" "str_nat 5 = ''5''"
  by code_simp+

theorem approval_mail_skipped_witness:
  "\<exists>n ndb' t. create_notification_endpoint demo_notification_env 5 9 7 demo_mail_request [] = (Inr (n, Some (''skipped'', 0)), ndb', t)"
proof -
  let ?c = "hd (notify_approval_decided demo_connected 5 7 ''9'' ''approved'' 3)"
  have "notify_approval_decided demo_connected 5 7 ''9'' ''approved'' 3 \<noteq> []"
    by (simp add: notify_approval_decided_def demo_connected_def Let_def)
  then have c: "?c \<in> set (notify_approval_requested demo_connected 5 7 ''9'' None) \<union> set (notify_approval_decided demo_connected 5 7 ''9'' ''approved'' 3)"
    by (cases "notify_approval_decided demo_connected 5 7 ''9'' ''approved'' 3") auto
  have q: "notification_request_of (sc_body ?c) = Some demo_mail_request"
    by (simp add: notify_approval_decided_def demo_connected_def demo_api_def get_artifact_name_def artifact_call_def json_truthy_def
        notification_call_def notification_request_of_def opt_text_field_def jget_def text_field_def demo_mail_request_def
        approval_link_def demo_digits Let_def)
  have "notification_request_valid demo_mail_request"
    by (simp add: notification_request_valid_def bounded_text_def demo_mail_request_def valid_categories_def valid_priorities_def)
  then obtain n d ndb' t where run: "create_notification_endpoint demo_notification_env 5 9 7 demo_mail_request [] = (Inr (n, d), ndb', t)"
    by (simp add: create_notification_endpoint_def create_notification_def demo_mail_request_def valid_categories_def
        valid_priorities_def notification_insert_def attempt_email_delivery_def str_truthy_def Let_def)
  show ?thesis using approval_mail_skipped [OF c q run] run by blast
qed

end
