(* ===== verification/Bytes.thy ===== *)
theory Bytes
  imports Prelude "HOL-Library.Word"
begin

text \<open>
  The bytes of Python's standard library as the services use them: \<open>str.encode('utf-8')\<close>, \<open>bytes.decode('utf-8')\<close>,
  \<open>base64.b64encode\<close> and \<open>base64.b64decode\<close>.  A byte is an \<open>8 word\<close>, a character of a string is below 256.
\<close>

unbundle bit_operations_syntax

type_synonym byte = "8 word"

section \<open>UTF-8\<close>

text \<open>A character below 128 is one byte, one below 256 two bytes.\<close>

definition utf8_encode_char :: "char \<Rightarrow> byte list" where
  "utf8_encode_char c = (let n = (of_char c :: nat) in
     if n < 128 then [word_of_nat n] else [word_of_nat (192 + n div 64), word_of_nat (128 + n mod 64)])"

definition utf8_encode :: "string \<Rightarrow> byte list" where
  "utf8_encode s = concat (map utf8_encode_char s)"

text \<open>None is a \<open>UnicodeDecodeError\<close>, or a character the strings of the model do not have.\<close>

fun utf8_decode :: "byte list \<Rightarrow> string option" where
  "utf8_decode [] = Some []"
| "utf8_decode (a # bs) =
    (if unat a < 128 then map_option ((#) (char_of (unat a))) (utf8_decode bs)
     else case bs of
       [] \<Rightarrow> None
     | b # bs \<Rightarrow>
         if (unat a = 194 \<or> unat a = 195) \<and> unat b div 64 = 2
         then map_option ((#) (char_of ((unat a - 192) * 64 + unat b mod 64))) (utf8_decode bs)
         else None)"

lemma utf8_decode_char: "utf8_decode (utf8_encode_char c @ bs) = map_option ((#) c) (utf8_decode bs)"
proof -
  have c: "(of_char c :: nat) < 256" by simp
  let ?n = "of_char c :: nat"
  have small: "unat (word_of_nat n :: byte) = n" if "n < 256" for n
    using that by (simp add: unat_of_nat)
  show ?thesis
  proof (cases "?n < 128")
    case True
    then show ?thesis using small [of ?n] by (simp add: utf8_encode_char_def)
  next
    case False
    then have "2 \<le> ?n div 64" "?n div 64 < 4" using c by (simp_all add: less_eq_div_iff_mult_less_eq div_less_iff_less_mult)
    then have n: "?n div 64 = 2 \<or> ?n div 64 = 3" by linarith
    have hi: "unat (word_of_nat (192 + ?n div 64) :: byte) = 192 + ?n div 64" using n by (intro small) auto
    have lo: "unat (word_of_nat (128 + ?n mod 64) :: byte) = 128 + ?n mod 64" by (intro small) simp
    have "(128 + ?n mod 64) div 64 = 2" by simp
    moreover have "(128 + ?n mod 64) mod 64 = ?n mod 64"
      using mod_mult_self2 [of "?n mod 64" 64 2] by (simp add: add.commute)
    moreover have "?n div 64 * 64 + ?n mod 64 = ?n" by simp
    ultimately show ?thesis using False n hi lo by (auto simp: utf8_encode_char_def Let_def)
  qed
qed

lemma utf8_roundtrip: "utf8_decode (utf8_encode s) = Some s"
  unfolding utf8_encode_def by (induction s) (simp_all add: utf8_decode_char)

section \<open>Base 64\<close>

definition b64_alphabet :: string where
  "b64_alphabet = ''ABCDEFGHIJKLMNOPQRSTUVWXYZabcdefghijklmnopqrstuvwxyz0123456789+/''"

definition b64_char :: "byte \<Rightarrow> char" where
  "b64_char w = b64_alphabet ! unat w"

definition b64_value :: "char \<Rightarrow> byte option" where
  "b64_value c = map_of (zip b64_alphabet (map word_of_nat [0..<64])) c"

text \<open>\<open>binascii.b2a_base64\<close>: three bytes are four characters, and the last group is padded.  The second and the
  third character of a group join the bits of two bytes.\<close>

definition b64_second :: "byte \<Rightarrow> byte \<Rightarrow> byte" where
  "b64_second a b = push_bit 4 (a AND mask 2) OR drop_bit 4 b"

definition b64_third :: "byte \<Rightarrow> byte \<Rightarrow> byte" where
  "b64_third b c = push_bit 2 (b AND mask 4) OR drop_bit 6 c"

fun b64encode :: "byte list \<Rightarrow> string" where
  "b64encode (a # b # c # bs) =
     b64_char (drop_bit 2 a) # b64_char (b64_second a b) # b64_char (b64_third b c) # b64_char (c AND mask 6)
       # b64encode bs"
| "b64encode [a, b] = [b64_char (drop_bit 2 a), b64_char (b64_second a b), b64_char (b64_third b 0), CHR ''='']"
| "b64encode [a] = [b64_char (drop_bit 2 a), b64_char (b64_second a 0), CHR ''='', CHR ''='']"
| "b64encode [] = []"

text \<open>\<open>binascii.a2b_base64\<close> without strict mode: characters outside of the alphabet are skipped, and a complete
  padding ends the data.  \<open>q\<close> is the position in a group, \<open>left\<close> the bits that wait for the next character, \<open>pads\<close>
  the padding seen.  None is a \<open>binascii.Error\<close>.\<close>

fun a2b_base64 :: "nat \<Rightarrow> byte \<Rightarrow> nat \<Rightarrow> string \<Rightarrow> byte list option" where
  "a2b_base64 q left pads [] = (if q = 0 then Some [] else None)"
| "a2b_base64 q left pads (ch # s) =
    (if ch = CHR ''='' then
       if 2 \<le> q \<and> 4 \<le> q + Suc pads then Some []
       else a2b_base64 q left (if 2 \<le> q then Suc pads else pads) s
     else case b64_value ch of
       None \<Rightarrow> a2b_base64 q left pads s
     | Some v \<Rightarrow>
         if q = 0 then a2b_base64 1 v 0 s
         else if q = 1 then map_option ((#) (push_bit 2 left OR drop_bit 4 v)) (a2b_base64 2 (v AND mask 4) 0 s)
         else if q = 2 then map_option ((#) (push_bit 4 left OR drop_bit 2 v)) (a2b_base64 3 (v AND mask 2) 0 s)
         else map_option ((#) (push_bit 6 left OR v)) (a2b_base64 0 0 0 s))"

text \<open>\<open>base64.b64decode\<close> of a string, which must be ASCII (a \<open>ValueError\<close> otherwise, as \<open>binascii.Error\<close> is one).\<close>

definition b64decode :: "string \<Rightarrow> byte list option" where
  "b64decode s = (if list_all (\<lambda>c. (of_char c :: nat) < 128) s then a2b_base64 0 0 0 s else None)"

lemma b64_chars:
  "list_all (\<lambda>n. let c = b64_char (word_of_nat n) in
     b64_value c = Some (word_of_nat n) \<and> c \<noteq> CHR ''='' \<and> (of_char c :: nat) < 128) [0..<64]"
  by code_simp

lemma b64_char_value:
  assumes "unat w < 64"
  shows "b64_value (b64_char w) = Some w" "b64_char w \<noteq> CHR ''=''" "(of_char (b64_char w) :: nat) < 128"
  using b64_chars assms by (auto simp: list_all_iff Let_def dest!: bspec [where x = "unat w"])

lemma byte_eqI:
  fixes v w :: byte
  assumes "bit v 0 = bit w 0" "bit v 1 = bit w 1" "bit v 2 = bit w 2" "bit v 3 = bit w 3"
    "bit v 4 = bit w 4" "bit v 5 = bit w 5" "bit v 6 = bit w 6" "bit v 7 = bit w 7"
  shows "v = w"
proof (rule bit_word_eqI)
  fix n assume "n < LENGTH(8)"
  then have "n \<in> {0, 1, 2, 3, 4, 5, 6, 7}" by auto
  then show "bit v n = bit w n" using assms by auto
qed

lemma byte_high_bits: "8 \<le> n \<Longrightarrow> \<not> bit (w :: byte) n"
  by (auto dest: bit_imp_le_length)

lemma sextets:
  fixes a b c :: byte
  shows "unat (drop_bit 2 a) < 64" "unat (b64_second a b) < 64" "unat (b64_third b c) < 64" "unat (c AND mask 6) < 64"
proof -
  have lt: "unat w < 64" if "w AND mask 6 = w" for w :: byte
  proof -
    have "unat (take_bit 6 w) = take_bit 6 (unat w)" by (simp add: unsigned_take_bit_eq)
    also have "\<dots> < 64" using take_bit_nat_less_exp [of 6 "unat w"] by simp
    finally show ?thesis using that by (simp add: take_bit_eq_mask)
  qed
  show "unat (drop_bit 2 a) < 64"
    by (rule lt, rule byte_eqI) (simp_all add: bit_simps byte_high_bits)
  show "unat (b64_second a b) < 64"
    unfolding b64_second_def by (rule lt, rule byte_eqI) (simp_all add: bit_simps byte_high_bits)
  show "unat (b64_third b c) < 64"
    unfolding b64_third_def by (rule lt, rule byte_eqI) (simp_all add: bit_simps byte_high_bits)
  show "unat (c AND mask 6) < 64"
    by (rule lt, rule byte_eqI) (simp_all add: bit_simps byte_high_bits)
qed

lemma joined_bytes:
  fixes a b c :: byte
  shows "push_bit 2 (drop_bit 2 a) OR drop_bit 4 (b64_second a b) = a"
    and "push_bit 4 (b64_second a b AND mask 4) OR drop_bit 2 (b64_third b c) = b"
    and "push_bit 6 (b64_third b c AND mask 2) OR (c AND mask 6) = c"
proof -
  show "push_bit 2 (drop_bit 2 a) OR drop_bit 4 (b64_second a b) = a"
    unfolding b64_second_def by (rule byte_eqI) (simp_all add: bit_simps)
  show "push_bit 4 (b64_second a b AND mask 4) OR drop_bit 2 (b64_third b c) = b"
    unfolding b64_second_def b64_third_def by (rule byte_eqI) (simp_all add: bit_simps)
  show "push_bit 6 (b64_third b c AND mask 2) OR (c AND mask 6) = c"
    unfolding b64_third_def by (rule byte_eqI) (simp_all add: bit_simps)
qed

lemma a2b_b64encode: "a2b_base64 0 0 0 (b64encode bs) = Some bs"
proof (induction bs rule: b64encode.induct)
  case (1 a b c bs)
  then show ?case by (simp add: b64_char_value sextets joined_bytes del: push_bit_and drop_bit_and)
next
  case (2 a b)
  then show ?case by (simp add: b64_char_value sextets joined_bytes del: push_bit_and drop_bit_and)
next
  case (3 a)
  then show ?case by (simp add: b64_char_value sextets joined_bytes del: push_bit_and drop_bit_and)
qed simp

lemma b64encode_ascii: "list_all (\<lambda>c. (of_char c :: nat) < 128) (b64encode bs)"
  by (induction bs rule: b64encode.induct) (simp_all add: b64_char_value sextets)

lemma base64_roundtrip: "b64decode (b64encode bs) = Some bs"
  by (simp add: b64decode_def b64encode_ascii a2b_b64encode)

lemma b64encode_Nil_iff: "b64encode bs = [] \<longleftrightarrow> bs = []"
  by (cases bs rule: b64encode.cases) auto

end
