(* ===== verification/Secrets.thy ===== *)
theory Secrets
  imports Bytes Internal_Auth "HOL-Library.AList"
begin

text \<open>
  The secret broker (\<open>apps/secret-broker\<close>): the key registry of \<open>domain/key_registry.py\<close>, encryption and masking of
  \<open>domain/secret.py\<close>, the repository over \<open>workspace_secrets\<close>, and the use cases of \<open>application/secret_service.py\<close>
  and \<open>application/key_rotation_service.py\<close> with their endpoints.

  AES-GCM (the package \<open>cryptography\<close>) is a pair of functions in the environment, with the property
  \<open>cipher_sound\<close> where it is needed; \<open>os.urandom\<close> is a supply of nonces.  The registry is loaded once from the
  variables of the process, which do not change, so every use is written as a load.
\<close>

section \<open>The key registry\<close>

datatype key_error = KE_No_Keys | KE_Version_Not_Found nat | KE_Invalid_Key string

record key_registry =
  kr_keys :: "(nat \<times> byte list) list"
  kr_current :: nat

definition validate_key :: "string \<Rightarrow> byte list \<Rightarrow> key_error + byte list" where
  "validate_key label key = (if length key = 32 then Inr key else Inl (KE_Invalid_Key label))"

definition decode_key :: "string \<Rightarrow> string \<Rightarrow> key_error + byte list" where
  "decode_key raw label =
    (case b64decode raw of None \<Rightarrow> Inl (KE_Invalid_Key label) | Some key \<Rightarrow> validate_key label key)"

text \<open>The pattern \<open>^SECRET_ENCRYPTION_KEY_V(\d+)$\<close>, whose \<open>$\<close> also matches before a final newline.\<close>

definition key_var :: string where "key_var = ''SECRET_ENCRYPTION_KEY''"

definition var_version :: "string \<Rightarrow> nat option" where
  "var_version var =
    (if starts_with (key_var @ ''_V'') var
     then (let rest = drop (length key_var + 2) var;
               digits = (if ends_with [CHR 0x0A] rest then butlast rest else rest)
           in map_option nat (parse_nat digits))
     else None)"

fun load_versioned :: "(string \<times> string) list \<Rightarrow> (nat \<times> byte list) list \<Rightarrow> key_error + (nat \<times> byte list) list" where
  "load_versioned [] keys = Inr keys"
| "load_versioned ((var, val) # env) keys =
    (case var_version var of
       None \<Rightarrow> load_versioned env keys
     | Some v \<Rightarrow>
         if val = [] then load_versioned env keys
         else if v < 1 then Inl (KE_Invalid_Key var)
         else rbind (decode_key val var) (\<lambda>key. load_versioned env (AList.update v key keys)))"

definition max_version :: "(nat \<times> byte list) list \<Rightarrow> nat" where
  "max_version keys = foldr max (map fst keys) 0"

definition load_legacy :: "string option \<Rightarrow> (nat \<times> byte list) list \<Rightarrow> key_error + (nat \<times> byte list) list" where
  "load_legacy legacy keys =
    (if str_truthy legacy then
       rbind (decode_key (the legacy) key_var) (\<lambda>key.
       if keys = [] then Inr [(1, key)]
       else if key \<in> snd ` set keys then Inr keys
       else Inr (AList.update (max_version keys + 1) key keys))
     else Inr keys)"

definition load_from_env :: "(string \<times> string) list \<Rightarrow> key_error + key_registry" where
  "load_from_env env =
     rbind (load_versioned env []) (\<lambda>keys.
     rbind (load_legacy (map_of env key_var) keys) (\<lambda>keys.
     if keys = [] then Inl KE_No_Keys
     else Inr \<lparr> kr_keys = keys, kr_current = max_version keys \<rparr>))"

definition registry_versions :: "key_registry \<Rightarrow> nat list" where
  "registry_versions r = sort (map fst (kr_keys r))"

definition get_current_key :: "key_registry \<Rightarrow> byte list \<times> nat" where
  "get_current_key r = (the (map_of (kr_keys r) (kr_current r)), kr_current r)"

definition get_key_by_version :: "nat \<Rightarrow> key_registry \<Rightarrow> key_error + byte list" where
  "get_key_by_version v r =
    (case map_of (kr_keys r) v of None \<Rightarrow> Inl (KE_Version_Not_Found v) | Some key \<Rightarrow> Inr key)"

section \<open>Encryption\<close>

datatype aes_error = Aes_Value_Error | Aes_Invalid_Tag

record broker_env =
  be_environ :: "(string \<times> string) list"
  be_seal :: "byte list \<Rightarrow> byte list \<Rightarrow> byte list \<Rightarrow> aes_error + byte list"
  be_open :: "byte list \<Rightarrow> byte list \<Rightarrow> byte list \<Rightarrow> aes_error + byte list"

datatype secret_failure =
    SF_Not_Found uuid
  | SF_Value_Error string
  | SF_Invalid_Tag
  | SF_Key key_error
  | SF_Integrity string

definition raising_key :: "key_error + 'a \<Rightarrow> secret_failure + 'a" where
  "raising_key r = (case r of Inl e \<Rightarrow> Inl (SF_Key e) | Inr a \<Rightarrow> Inr a)"

definition raising_aes :: "aes_error + 'a \<Rightarrow> secret_failure + 'a" where
  "raising_aes r = (case r of Inl Aes_Value_Error \<Rightarrow> Inl (SF_Value_Error ''aes'') | Inl Aes_Invalid_Tag \<Rightarrow> Inl SF_Invalid_Tag
     | Inr a \<Rightarrow> Inr a)"

definition get_key_registry :: "broker_env \<Rightarrow> secret_failure + key_registry" where
  "get_key_registry env = raising_key (load_from_env (be_environ env))"

definition valid_secret_types :: "string list" where
  "valid_secret_types = [''api_key'', ''token'', ''password'', ''custom'']"

definition nonce_size :: nat where "nonce_size = 12"

definition seal_with :: "broker_env \<Rightarrow> byte list \<Rightarrow> byte list \<Rightarrow> string \<Rightarrow> secret_failure + string" where
  "seal_with env nonce key raw =
     rbind (raising_aes (be_seal env key nonce (utf8_encode raw))) (\<lambda>ct. Inr (b64encode (nonce @ ct)))"

definition encrypt_value :: "broker_env \<Rightarrow> byte list \<Rightarrow> string \<Rightarrow> byte list option \<Rightarrow> secret_failure + string \<times> nat" where
  "encrypt_value env nonce raw key =
    (case key of
       Some k \<Rightarrow> rbind (seal_with env nonce k raw) (\<lambda>s. Inr (s, 0))
     | None \<Rightarrow>
         rbind (get_key_registry env) (\<lambda>registry.
         let (k, version) = get_current_key registry in
         rbind (seal_with env nonce k raw) (\<lambda>s. Inr (s, version))))"

definition decrypt_value :: "broker_env \<Rightarrow> string \<Rightarrow> byte list option \<Rightarrow> nat \<Rightarrow> secret_failure + string" where
  "decrypt_value env encrypted key key_version =
    (case b64decode encrypted of
       None \<Rightarrow> Inl (SF_Value_Error ''base64'')
     | Some data \<Rightarrow>
         let nonce = take nonce_size data; ct = drop nonce_size data in
         rbind (case key of
             Some k \<Rightarrow> Inr k
           | None \<Rightarrow> rbind (get_key_registry env) (\<lambda>registry. raising_key (get_key_by_version key_version registry)))
           (\<lambda>k. rbind (raising_aes (be_open env k nonce ct)) (\<lambda>bs.
         case utf8_decode bs of None \<Rightarrow> Inl (SF_Value_Error ''utf-8'') | Some s \<Rightarrow> Inr s)))"

definition mask_value :: "string \<Rightarrow> string" where
  "mask_value raw = (if length raw \<le> 4 then ''****'' else ''****'' @ drop (length raw - 4) raw)"

section \<open>Repository\<close>

record secret_row =
  sr_id :: uuid
  sr_workspace_id :: uuid
  sr_name :: string
  sr_description :: string
  sr_secret_type :: string
  sr_secret_hash :: "string option"
  sr_ciphertext :: "string option"
  sr_key_version :: nat
  sr_masked_display :: string
  sr_created_by_id :: string
  sr_created_at :: time
  sr_updated_at :: time

type_synonym secret_db = "secret_row list"

text \<open>What a caller of the public API sees.\<close>

record secret_meta =
  sm_id :: uuid
  sm_workspace_id :: uuid
  sm_name :: string
  sm_description :: string
  sm_secret_type :: string
  sm_masked_display :: string
  sm_created_by_id :: string
  sm_created_at :: time
  sm_updated_at :: time

definition secret_row_to_dict :: "secret_row \<Rightarrow> secret_meta" where
  "secret_row_to_dict r = \<lparr> sm_id = sr_id r, sm_workspace_id = sr_workspace_id r, sm_name = sr_name r,
     sm_description = sr_description r, sm_secret_type = sr_secret_type r, sm_masked_display = sr_masked_display r,
     sm_created_by_id = sr_created_by_id r, sm_created_at = sr_created_at r, sm_updated_at = sr_updated_at r \<rparr>"

definition secret_max_limit :: int where "secret_max_limit = 200"

definition find_secrets_by_workspace :: "uuid \<Rightarrow> int \<Rightarrow> int \<Rightarrow> secret_db \<Rightarrow> secret_meta list" where
  "find_secrets_by_workspace ws limit offset db =
     map secret_row_to_dict (take (nat (min (max limit 1) secret_max_limit)) (drop (nat (max offset 0))
       (sort_key (\<lambda>r. - sr_created_at r) (filter (\<lambda>r. sr_workspace_id r = ws) db))))"

definition find_raw_by_id :: "uuid \<Rightarrow> uuid \<Rightarrow> secret_db \<Rightarrow> secret_row option" where
  "find_raw_by_id i ws db = find (\<lambda>r. sr_id r = i \<and> sr_workspace_id r = ws) db"

definition insert_secret :: "secret_row \<Rightarrow> secret_db \<Rightarrow> secret_failure + secret_meta \<times> secret_db" where
  "insert_secret r db =
    (if sr_id r \<in> sr_id ` set db then Inl (SF_Integrity ''workspace_secrets_pkey'')
     else if sr_secret_type r \<notin> set valid_secret_types then Inl (SF_Integrity ''ck_secret_type'')
     else Inr (secret_row_to_dict r, db @ [r]))"

definition secret_in_scope :: "uuid \<Rightarrow> uuid option \<Rightarrow> secret_row \<Rightarrow> bool" where
  "secret_in_scope i ws r = (sr_id r = i \<and> (case ws of None \<Rightarrow> True | Some w \<Rightarrow> sr_workspace_id r = w))"

definition delete_secret_row :: "uuid \<Rightarrow> uuid option \<Rightarrow> secret_db \<Rightarrow> bool \<times> secret_db" where
  "delete_secret_row i ws db = (list_ex (secret_in_scope i ws) db, filter (\<lambda>r. \<not> secret_in_scope i ws r) db)"

text \<open>The name and the description an update sets; NULL is refused for both.\<close>

fun set_metadata :: "(string \<times> string option) list \<Rightarrow> secret_row \<Rightarrow> secret_failure + secret_row" where
  "set_metadata [] r = Inr r"
| "set_metadata ((k, v) # updates) r =
    (if k = ''name'' then
       (case v of None \<Rightarrow> Inl (SF_Integrity ''name'') | Some s \<Rightarrow> set_metadata updates (r\<lparr>sr_name := s\<rparr>))
     else if k = ''description'' then
       (case v of None \<Rightarrow> Inl (SF_Integrity ''description'') | Some s \<Rightarrow> set_metadata updates (r\<lparr>sr_description := s\<rparr>))
     else set_metadata updates r)"

definition update_metadata ::
  "uuid \<Rightarrow> (string \<times> string option) list \<Rightarrow> uuid option \<Rightarrow> time \<Rightarrow> secret_db
   \<Rightarrow> secret_failure + (secret_meta \<times> secret_db) option" where
  "update_metadata i updates ws now db =
    (case find (secret_in_scope i ws) db of
       None \<Rightarrow> Inr None
     | Some r \<Rightarrow> rbind (set_metadata updates (r\<lparr>sr_updated_at := now\<rparr>)) (\<lambda>r'.
         Inr (Some (secret_row_to_dict r', map (\<lambda>x. if secret_in_scope i ws x then r' else x) db))))"

definition find_all_raw_by_workspace :: "uuid \<Rightarrow> secret_db \<Rightarrow> secret_row list" where
  "find_all_raw_by_workspace ws db = sort_key sr_created_at (filter (\<lambda>r. sr_workspace_id r = ws) db)"

definition update_ciphertext :: "uuid \<Rightarrow> uuid \<Rightarrow> string \<Rightarrow> nat \<Rightarrow> time \<Rightarrow> secret_db \<Rightarrow> secret_db" where
  "update_ciphertext i ws ct version now db =
     map (\<lambda>r. if sr_id r = i \<and> sr_workspace_id r = ws
              then r\<lparr> sr_ciphertext := Some ct, sr_key_version := version, sr_updated_at := now \<rparr> else r) db"

section \<open>Use cases\<close>

definition list_secrets :: "uuid \<Rightarrow> int \<Rightarrow> int \<Rightarrow> secret_db \<Rightarrow> secret_meta list" where
  "list_secrets ws limit offset db = find_secrets_by_workspace ws limit offset db"

definition create_secret ::
  "broker_env \<Rightarrow> byte list \<Rightarrow> uuid \<Rightarrow> time \<Rightarrow> uuid \<Rightarrow> string \<Rightarrow> string \<Rightarrow> string \<Rightarrow> string \<Rightarrow> string option \<Rightarrow> secret_db
   \<Rightarrow> secret_failure + secret_meta \<times> secret_db" where
  "create_secret env nonce i now ws name secret_type raw created_by description db =
    (if secret_type \<notin> set valid_secret_types then Inl (SF_Value_Error (''Invalid secret_type: '' @ secret_type))
     else
       rbind (encrypt_value env nonce raw None) (\<lambda>(ct, version).
       insert_secret \<lparr> sr_id = i, sr_workspace_id = ws, sr_name = name,
           sr_description = (if str_truthy description then the description else ''''), sr_secret_type = secret_type,
           sr_secret_hash = None, sr_ciphertext = Some ct, sr_key_version = version,
           sr_masked_display = mask_value raw, sr_created_by_id = created_by, sr_created_at = now, sr_updated_at = now \<rparr> db))"

definition retrieve_secret_value :: "broker_env \<Rightarrow> uuid \<Rightarrow> uuid \<Rightarrow> secret_db \<Rightarrow> secret_failure + string" where
  "retrieve_secret_value env i ws db =
    (case find_raw_by_id i ws db of
       None \<Rightarrow> Inl (SF_Not_Found i)
     | Some row \<Rightarrow>
         if \<not> str_truthy (sr_ciphertext row)
         then Inl (SF_Value_Error ''Secret was created before encryption was enabled'')
         else decrypt_value env (the (sr_ciphertext row)) None (sr_key_version row))"

definition delete_secret :: "uuid \<Rightarrow> uuid option \<Rightarrow> secret_db \<Rightarrow> secret_failure + secret_db" where
  "delete_secret i ws db =
    (let (deleted, db') = delete_secret_row i ws db in if deleted then Inr db' else Inl (SF_Not_Found i))"

definition update_secret_metadata ::
  "uuid \<Rightarrow> (string \<times> string option) list \<Rightarrow> uuid option \<Rightarrow> time \<Rightarrow> secret_db
   \<Rightarrow> secret_failure + secret_meta \<times> secret_db" where
  "update_secret_metadata i updates ws now db =
     rbind (update_metadata i updates ws now db) (\<lambda>r. case r of None \<Rightarrow> Inl (SF_Not_Found i) | Some x \<Rightarrow> Inr x)"

section \<open>Key rotation\<close>

record rotation_result =
  rr_rotated :: nat
  rr_already_current :: nat
  rr_errors :: "(uuid \<times> secret_failure option) list"

text \<open>Decrypt with the key a row was written with, encrypt with the current one.\<close>

definition reencrypt :: "broker_env \<Rightarrow> byte list \<Rightarrow> secret_row \<Rightarrow> secret_failure + string \<times> nat" where
  "reencrypt env nonce row =
     rbind (decrypt_value env (the (sr_ciphertext row)) None (sr_key_version row)) (\<lambda>plain.
     encrypt_value env nonce plain None)"

definition rotate_secret ::
  "broker_env \<Rightarrow> byte list \<Rightarrow> time \<Rightarrow> uuid \<Rightarrow> uuid \<Rightarrow> secret_db \<Rightarrow> secret_failure + bool \<times> secret_db" where
  "rotate_secret env nonce now i ws db =
    (case find_raw_by_id i ws db of
       None \<Rightarrow> Inl (SF_Value_Error ''not found'')
     | Some row \<Rightarrow>
         if \<not> str_truthy (sr_ciphertext row) then Inl (SF_Value_Error ''no ciphertext to rotate'')
         else rbind (get_key_registry env) (\<lambda>registry.
           if sr_key_version row = kr_current registry then Inr (False, db)
           else rbind (reencrypt env nonce row) (\<lambda>(ct, version).
             Inr (True, update_ciphertext (sr_id row) ws ct version now db))))"

text \<open>One row of the loop; the supply of nonces and the clock are read at the position of the row.\<close>

definition rotate_row ::
  "broker_env \<Rightarrow> nat \<Rightarrow> byte list \<Rightarrow> time \<Rightarrow> uuid \<Rightarrow> secret_row \<Rightarrow> rotation_result \<times> secret_db \<Rightarrow> rotation_result \<times> secret_db" where
  "rotate_row env current nonce now ws row acc =
    (let (res, db) = acc in
     if sr_key_version row = current then (res\<lparr>rr_already_current := rr_already_current res + 1\<rparr>, db)
     else if \<not> str_truthy (sr_ciphertext row) then (res\<lparr>rr_errors := rr_errors res @ [(sr_id row, None)]\<rparr>, db)
     else case reencrypt env nonce row of
       Inl e \<Rightarrow> (res\<lparr>rr_errors := rr_errors res @ [(sr_id row, Some e)]\<rparr>, db)
     | Inr (ct, version) \<Rightarrow>
         (res\<lparr>rr_rotated := rr_rotated res + 1\<rparr>, update_ciphertext (sr_id row) ws ct version now db))"

fun rotate_rows ::
  "broker_env \<Rightarrow> nat \<Rightarrow> (nat \<Rightarrow> byte list) \<Rightarrow> (nat \<Rightarrow> time) \<Rightarrow> uuid \<Rightarrow> nat \<Rightarrow> secret_row list
   \<Rightarrow> rotation_result \<times> secret_db \<Rightarrow> rotation_result \<times> secret_db" where
  "rotate_rows env current nonces now ws i [] acc = acc"
| "rotate_rows env current nonces now ws i (row # rows) acc =
     rotate_rows env current nonces now ws (Suc i) rows (rotate_row env current (nonces i) (now i) ws row acc)"

definition rotate_workspace_secrets ::
  "broker_env \<Rightarrow> (nat \<Rightarrow> byte list) \<Rightarrow> (nat \<Rightarrow> time) \<Rightarrow> uuid \<Rightarrow> secret_db
   \<Rightarrow> secret_failure + rotation_result \<times> secret_db" where
  "rotate_workspace_secrets env nonces now ws db =
    (let rows = find_all_raw_by_workspace ws db in
     rbind (get_key_registry env) (\<lambda>registry.
     Inr (rotate_rows env (kr_current registry) nonces now ws 0 rows
       (\<lparr> rr_rotated = 0, rr_already_current = 0, rr_errors = [] \<rparr>, db))))"

definition get_rotation_status :: "uuid \<Rightarrow> secret_db \<Rightarrow> (nat \<times> nat) list" where
  "get_rotation_status ws db =
     sort_key fst (fold (\<lambda>r counts. AList.update (sr_key_version r) (opt_or (map_of counts (sr_key_version r)) 0 + 1) counts)
       (find_all_raw_by_workspace ws db) [])"

section \<open>Endpoints\<close>

text \<open>\<open>SE_Http\<close> is an \<open>HTTPException\<close> or a refused body; an exception no handler catches is \<open>SE_Raised\<close>.\<close>

datatype secret_response = SE_Http int | SE_Denied auth_denial | SE_Raised secret_failure

definition create_secret_body :: "string \<Rightarrow> string option \<Rightarrow> string \<Rightarrow> string \<Rightarrow> bool" where
  "create_secret_body name description secret_type val =
    (name \<noteq> [] \<and> length name \<le> 200 \<and> (description \<noteq> None \<longrightarrow> length (the description) \<le> 2000)
     \<and> secret_type \<in> set valid_secret_types \<and> val \<noteq> [] \<and> length val \<le> 10000)"

definition value_error :: "int \<Rightarrow> secret_failure \<Rightarrow> secret_response" where
  "value_error status e = (case e of SF_Value_Error _ \<Rightarrow> SE_Http status | _ \<Rightarrow> SE_Raised e)"

definition secret_missing :: "secret_failure \<Rightarrow> secret_response" where
  "secret_missing e = (case e of SF_Not_Found _ \<Rightarrow> SE_Http 404 | _ \<Rightarrow> SE_Raised e)"

definition failing_as :: "(secret_failure \<Rightarrow> secret_response) \<Rightarrow> secret_failure + 'a \<Rightarrow> secret_response + 'a" where
  "failing_as f r = (case r of Inl e \<Rightarrow> Inl (f e) | Inr a \<Rightarrow> Inr a)"

definition create_secret_endpoint ::
  "broker_env \<Rightarrow> byte list \<Rightarrow> uuid \<Rightarrow> time \<Rightarrow> uuid \<Rightarrow> string \<Rightarrow> string \<Rightarrow> string option \<Rightarrow> string \<Rightarrow> string \<Rightarrow> secret_db
   \<Rightarrow> secret_response + secret_meta \<times> secret_db" where
  "create_secret_endpoint env nonce i now ws user_id name description secret_type val db =
    (if \<not> create_secret_body name description secret_type val then Inl (SE_Http 422)
     else if user_id = [] then Inl (SE_Http 400)
     else failing_as (value_error 400) (create_secret env nonce i now ws name secret_type val user_id description db))"

definition delete_secret_endpoint :: "uuid \<Rightarrow> uuid \<Rightarrow> secret_db \<Rightarrow> secret_response + secret_db" where
  "delete_secret_endpoint ws i db = failing_as secret_missing (delete_secret i (Some ws) db)"

definition update_secret_endpoint ::
  "uuid \<Rightarrow> uuid \<Rightarrow> (string \<times> string option) list \<Rightarrow> time \<Rightarrow> secret_db \<Rightarrow> secret_response + secret_meta \<times> secret_db" where
  "update_secret_endpoint ws i updates now db =
    (if \<not> list_all (\<lambda>(k, v). v = None \<or> (k = ''name'' \<longrightarrow> the v \<noteq> [] \<and> length (the v) \<le> 200)
            \<and> (k = ''description'' \<longrightarrow> length (the v) \<le> 2000)) updates then Inl (SE_Http 422)
     else if updates = [] then Inl (SE_Http 400)
     else failing_as secret_missing (update_secret_metadata i updates (Some ws) now db))"

definition value_failure :: "secret_failure \<Rightarrow> secret_response" where
  "value_failure e = (case e of SF_Not_Found _ \<Rightarrow> SE_Http 404 | SF_Value_Error _ \<Rightarrow> SE_Http 422 | _ \<Rightarrow> SE_Raised e)"

definition get_secret_value_endpoint ::
  "'t jwt_lib \<Rightarrow> token_verifier \<Rightarrow> broker_env \<Rightarrow> time \<Rightarrow> 't option \<Rightarrow> uuid \<Rightarrow> uuid \<Rightarrow> secret_db \<Rightarrow> secret_response + string" where
  "get_secret_value_endpoint lib tv env now credentials i ws db =
    (case require_service lib tv [''model-gateway''] now credentials of
       Inl e \<Rightarrow> Inl (SE_Denied e)
     | Inr _ \<Rightarrow> failing_as value_failure (retrieve_secret_value env i ws db))"

definition rotate_secrets_endpoint ::
  "'t jwt_lib \<Rightarrow> token_verifier \<Rightarrow> broker_env \<Rightarrow> (nat \<Rightarrow> byte list) \<Rightarrow> (nat \<Rightarrow> time) \<Rightarrow> 't option \<Rightarrow> uuid \<Rightarrow> secret_db
   \<Rightarrow> secret_response + rotation_result \<times> secret_db" where
  "rotate_secrets_endpoint lib tv env nonces now credentials ws db =
    (case require_service lib tv [''secret-broker''] (now 0) credentials of
       Inl e \<Rightarrow> Inl (SE_Denied e)
     | Inr _ \<Rightarrow> failing_as SE_Raised (rotate_workspace_secrets env nonces now ws db))"

definition rotation_status_endpoint ::
  "'t jwt_lib \<Rightarrow> token_verifier \<Rightarrow> time \<Rightarrow> 't option \<Rightarrow> uuid \<Rightarrow> secret_db \<Rightarrow> secret_response + (nat \<times> nat) list" where
  "rotation_status_endpoint lib tv now credentials ws db =
    (case require_service lib tv [''secret-broker''] now credentials of
       Inl e \<Rightarrow> Inl (SE_Denied e) | Inr _ \<Rightarrow> Inr (get_rotation_status ws db))"

end
