(* ===== verification/Secret_Properties.thy ===== *)
theory Secret_Properties
  imports Secrets
begin

text \<open>
  What the secret broker guarantees: a stored secret reads back as it was given, inside its workspace alone; a
  rotation changes no value and leaves every readable secret on the current key; and how the variables of the
  environment number the keys.
\<close>

section \<open>Encryption round trips\<close>

text \<open>What the documentation of AES-GCM promises for a key of 32 and a nonce of 12 bytes.\<close>

definition cipher_sound :: "broker_env \<Rightarrow> bool" where
  "cipher_sound env = (\<forall>key nonce msg. length key = 32 \<and> length nonce = nonce_size \<longrightarrow>
     (\<exists>ct. be_seal env key nonce msg = Inr ct \<and> be_open env key nonce ct = Inr msg))"

text \<open>The key a version stands for.\<close>

definition key_of :: "broker_env \<Rightarrow> nat \<Rightarrow> byte list option" where
  "key_of env v = (case load_from_env (be_environ env) of Inl _ \<Rightarrow> None | Inr r \<Rightarrow> map_of (kr_keys r) v)"

lemma raising_secret_simps [simp]:
  "raising_key (Inr a) = Inr a" "raising_key (Inl e) = Inl (SF_Key e)" "raising_aes (Inr b) = Inr b"
  by (simp_all add: raising_key_def raising_aes_def)

lemma raising_Inr_iffs: "raising_key r = Inr a \<longleftrightarrow> r = Inr a" "raising_aes q = Inr b \<longleftrightarrow> q = Inr b"
  by (auto simp: raising_key_def raising_aes_def split: sum.splits aes_error.splits)

definition keys_valid :: "(nat \<times> byte list) list \<Rightarrow> bool" where
  "keys_valid keys = (\<forall>v key. map_of keys v = Some key \<longrightarrow> length key = 32 \<and> 0 < v)"

lemma decode_key_length: "decode_key raw label = Inr key \<Longrightarrow> length key = 32"
  by (auto simp: decode_key_def validate_key_def split: option.splits if_splits)

lemma load_versioned_valid: "load_versioned env keys = Inr keys' \<Longrightarrow> keys_valid keys \<Longrightarrow> keys_valid keys'"
proof (induction env keys rule: load_versioned.induct)
  case (2 var val env keys)
  show ?case
  proof (cases "var_version var")
    case None
    then show ?thesis using 2 by simp
  next
    case (Some v)
    show ?thesis
    proof (cases "val = []")
      case True
      then show ?thesis using 2 Some by simp
    next
      case False
      with 2(4) Some obtain key where key: "\<not> v < 1" "decode_key val var = Inr key"
          "load_versioned env (AList.update v key keys) = Inr keys'"
        by (auto simp: rbind_Inr_iff split: if_splits)
      have "keys_valid (AList.update v key keys)"
        using key(1) decode_key_length [OF key(2)] 2(5) by (auto simp: keys_valid_def update_Some_unfold)
      then show ?thesis using 2(3) [OF Some False key(1)] key(3) by blast
    qed
  qed
qed simp

lemma max_version_mem: "keys \<noteq> [] \<Longrightarrow> max_version keys \<in> fst ` set keys"
proof (induction keys)
  case (Cons k keys)
  then show ?case by (cases keys) (auto simp: max_version_def max_def)
qed simp

lemma max_version_upper: "v \<in> fst ` set keys \<Longrightarrow> v \<le> max_version keys"
  by (induction keys) (force simp: max_version_def)+

lemma load_legacy_valid: "load_legacy legacy keys = Inr keys' \<Longrightarrow> keys_valid keys \<Longrightarrow> keys_valid keys'"
  by (auto simp: load_legacy_def rbind_Inr_iff keys_valid_def update_Some_unfold dest: decode_key_length split: if_splits)

lemma registry_current:
  assumes "load_from_env env = Inr r"
  shows "\<exists>key. map_of (kr_keys r) (kr_current r) = Some key \<and> length key = 32 \<and> 0 < kr_current r"
    and "kr_keys r \<noteq> []" "keys_valid (kr_keys r)" "kr_current r = max_version (kr_keys r)"
proof -
  from assms obtain keys keys' where "load_versioned env [] = Inr keys" "load_legacy (map_of env key_var) keys = Inr keys'"
      and r: "keys' \<noteq> []" "r = \<lparr> kr_keys = keys', kr_current = max_version keys' \<rparr>"
    by (auto simp: load_from_env_def rbind_Inr_iff split: if_splits)
  moreover have "keys_valid []" by (simp add: keys_valid_def)
  ultimately have valid: "keys_valid keys'" by (blast intro: load_versioned_valid load_legacy_valid)
  have "max_version keys' \<in> dom (map_of keys')" using max_version_mem [OF r(1)] by (simp add: dom_map_of_conv_image_fst)
  then obtain key where "map_of keys' (max_version keys') = Some key" by blast
  then show "\<exists>key. map_of (kr_keys r) (kr_current r) = Some key \<and> length key = 32 \<and> 0 < kr_current r"
    using valid r(2) by (simp add: keys_valid_def)
  show "kr_keys r \<noteq> []" "keys_valid (kr_keys r)" "kr_current r = max_version (kr_keys r)" using r valid by auto
qed

lemma encrypt_current:
  assumes "cipher_sound env" "load_from_env (be_environ env) = Inr r" "length nonce = nonce_size"
  obtains key ct where "key_of env (kr_current r) = Some key" "length key = 32"
    "be_seal env key nonce (utf8_encode raw) = Inr ct" "be_open env key nonce ct = Inr (utf8_encode raw)"
    "encrypt_value env nonce raw None = Inr (b64encode (nonce @ ct), kr_current r)"
proof -
  obtain key where key: "map_of (kr_keys r) (kr_current r) = Some key" "length key = 32"
    using registry_current(1) [OF assms(2)] by blast
  moreover obtain ct where "be_seal env key nonce (utf8_encode raw) = Inr ct" "be_open env key nonce ct = Inr (utf8_encode raw)"
    using assms(1,3) key(2) unfolding cipher_sound_def by blast
  ultimately show thesis
    using assms(2) by (intro that) (auto simp: key_of_def encrypt_value_def get_key_registry_def get_current_key_def
        seal_with_def Let_def)
qed

lemma decrypt_known:
  assumes "key_of env v = Some key" "length nonce = nonce_size" "be_open env key nonce ct = Inr (utf8_encode raw)"
  shows "decrypt_value env (b64encode (nonce @ ct)) None v = Inr raw"
  using assms
  by (auto simp: decrypt_value_def base64_roundtrip Let_def key_of_def get_key_registry_def get_key_by_version_def
      utf8_roundtrip split: sum.splits option.splits)

lemma encrypt_decrypt:
  assumes "cipher_sound env" "encrypt_value env nonce raw None = Inr (s, v)" "length nonce = nonce_size"
    and "be_open env' = be_open env" "key_of env' v = key_of env v"
  shows "decrypt_value env' s None v = Inr raw"
proof -
  from assms(2) obtain r where r: "load_from_env (be_environ env) = Inr r"
    by (auto simp: encrypt_value_def get_key_registry_def rbind_Inr_iff raising_Inr_iffs)
  obtain key ct where "key_of env (kr_current r) = Some key"
      "be_open env key nonce ct = Inr (utf8_encode raw)"
      "encrypt_value env nonce raw None = Inr (b64encode (nonce @ ct), kr_current r)"
    using encrypt_current [OF assms(1) r assms(3)] by metis
  then show ?thesis using assms(2-5) by (auto intro!: decrypt_known [where key = key])
qed

lemma b64_nonempty: "length nonce = nonce_size \<Longrightarrow> b64encode (nonce @ ct) \<noteq> []"
  by (auto simp: b64encode_Nil_iff nonce_size_def)

section \<open>A secret reads back\<close>

text \<open>C37. A secret that was stored reads back as it was given, by this broker or any later one that has kept its
  keys, and it is not found from another workspace.\<close>

theorem secret_roundtrip:
  assumes "cipher_sound env" "length nonce = nonce_size"
    and "create_secret_endpoint env nonce i now ws user name description secret_type val db = Inr (meta, db')"
    and "be_open env' = be_open env" "\<And>v. key_of env v \<noteq> None \<Longrightarrow> key_of env' v = key_of env v"
  shows "retrieve_secret_value env' i ws db' = Inr val
    \<and> (other \<noteq> ws \<longrightarrow> retrieve_secret_value env' i other db' = Inl (SF_Not_Found i))
    \<and> sm_id meta = i \<and> sm_masked_display meta = mask_value val"
proof -
  let ?row = "\<lambda>ct v. \<lparr> sr_id = i, sr_workspace_id = ws, sr_name = name,
     sr_description = (if str_truthy description then the description else []), sr_secret_type = secret_type,
     sr_secret_hash = None, sr_ciphertext = Some ct, sr_key_version = v, sr_masked_display = mask_value val,
     sr_created_by_id = user, sr_created_at = now, sr_updated_at = now \<rparr>"
  from assms(3) obtain ct v where enc: "encrypt_value env nonce val None = Inr (ct, v)"
      and "insert_secret (?row ct v) db = Inr (meta, db')"
    by (auto simp: create_secret_endpoint_def failing_as_def create_secret_def rbind_Inr_iff split: if_splits sum.splits)
  then obtain row where row: "sr_id row = i" "sr_workspace_id row = ws" "sr_ciphertext row = Some ct" "sr_key_version row = v"
        "sr_masked_display row = mask_value val" and
      ins: "i \<notin> sr_id ` set db" "meta = secret_row_to_dict row" "db' = db @ [row]"
    by (intro that [of "?row ct v"]) (auto simp: insert_secret_def split: if_splits)
  from enc obtain r where r: "load_from_env (be_environ env) = Inr r"
    by (auto simp: encrypt_value_def get_key_registry_def rbind_Inr_iff raising_Inr_iffs)
  obtain key c where key: "key_of env v = Some key" "ct = b64encode (nonce @ c)"
    using encrypt_current [OF assms(1) r assms(2), of val] enc by (metis Inr_inject prod.inject)
  have "find_raw_by_id k w db' = (if find_raw_by_id k w db \<noteq> None then find_raw_by_id k w db
      else if k = i \<and> w = ws then Some row else None)" for k w
    using row(1,2) unfolding ins(3) by (induction db) (auto simp: find_raw_by_id_def)
  moreover have "find_raw_by_id i w db = None" for w using ins(1) by (auto simp: find_raw_by_id_def find_None_iff)
  ultimately have found: "find_raw_by_id i w db' = (if w = ws then Some row else None)" for w by simp
  have "decrypt_value env' ct None v = Inr val"
    using encrypt_decrypt [OF assms(1) enc assms(2,4)] assms(5) [of v] key(1) by simp
  then show ?thesis
    using found row ins(2) b64_nonempty [OF assms(2)] key(2)
    by (auto simp: retrieve_secret_value_def str_truthy_def secret_row_to_dict_def)
qed

section \<open>Rotation\<close>

text \<open>A row a rotation leaves as it is.\<close>

definition settled_secret :: "broker_env \<Rightarrow> nat \<Rightarrow> secret_row \<Rightarrow> bool" where
  "settled_secret env current r = (sr_key_version r = current \<or> \<not> str_truthy (sr_ciphertext r)
     \<or> \<not> is_ok (decrypt_value env (the (sr_ciphertext r)) None (sr_key_version r)))"

definition attempts_of :: "rotation_result \<Rightarrow> nat" where
  "attempts_of res = rr_rotated res + rr_already_current res + length (rr_errors res)"

lemma update_ciphertext_find:
  "find_raw_by_id k w (update_ciphertext i ws ct v now db) =
     map_option (\<lambda>r. if sr_id r = i \<and> sr_workspace_id r = ws
        then r\<lparr> sr_ciphertext := Some ct, sr_key_version := v, sr_updated_at := now \<rparr> else r) (find_raw_by_id k w db)"
  by (induction db) (auto simp: find_raw_by_id_def update_ciphertext_def)

lemma update_ciphertext_ids:
  "map sr_id (update_ciphertext i ws ct v now db) = map sr_id db"
  by (simp add: update_ciphertext_def)

lemma reencrypt_ok:
  assumes "cipher_sound env" "load_from_env (be_environ env) = Inr r" "length nonce = nonce_size"
    and "decrypt_value env (the (sr_ciphertext row)) None (sr_key_version row) = Inr plain"
  shows "\<exists>ct. reencrypt env nonce row = Inr (ct, kr_current r) \<and> ct \<noteq> [] \<and> decrypt_value env ct None (kr_current r) = Inr plain"
proof -
  obtain key c where "encrypt_value env nonce plain None = Inr (b64encode (nonce @ c), kr_current r)"
    using encrypt_current [OF assms(1-3), of plain] by metis
  then show ?thesis
    using assms(4) encrypt_decrypt [OF assms(1) _ assms(3)] b64_nonempty [OF assms(3)] by (simp add: reencrypt_def)
qed

lemma reencrypt_fails: "reencrypt env nonce row = Inl e \<Longrightarrow> cipher_sound env \<Longrightarrow> load_from_env (be_environ env) = Inr r \<Longrightarrow>
    length nonce = nonce_size \<Longrightarrow> \<not> is_ok (decrypt_value env (the (sr_ciphertext row)) None (sr_key_version row))"
  using reencrypt_ok by (fastforce simp: is_ok_iff)

lemma rotate_row_settled:
  "settled_secret env current row \<Longrightarrow> current = kr_current r \<Longrightarrow>
     \<exists>res'. rotate_row env current nonce now ws row (res, db) = (res', db) \<and> rr_rotated res' = rr_rotated res
       \<and> attempts_of res' = Suc (attempts_of res)"
  by (auto simp: settled_secret_def rotate_row_def reencrypt_def is_ok_def attempts_of_def split: sum.splits)

text \<open>One row of the loop.\<close>

lemma rotate_row_step:
  assumes "cipher_sound env" "load_from_env (be_environ env) = Inr r" "length nonce = nonce_size"
    and "distinct (map sr_id db)" "row \<in> set db" "sr_workspace_id row = ws"
    and "rotate_row env (kr_current r) nonce now ws row (res, db) = (res', db')"
  shows "map sr_id db' = map sr_id db" "attempts_of res' = Suc (attempts_of res)"
    and "\<And>x. x \<in> set db \<Longrightarrow> sr_id x \<noteq> sr_id row \<Longrightarrow> x \<in> set db'"
    and "\<And>k w p. retrieve_secret_value env k w db = Inr p \<Longrightarrow> retrieve_secret_value env k w db' = Inr p"
    and "\<And>x. x \<in> set db' \<Longrightarrow> (sr_id x = sr_id row \<and> settled_secret env (kr_current r) x \<or> x \<in> set db \<and> sr_id x \<noteq> sr_id row)"
proof -
  have uniq: "x = row" if "x \<in> set db" "sr_id x = sr_id row" for x
    using assms(4,5) that by (metis distinct_map inj_onD)
  consider (settled) "settled_secret env (kr_current r) row"
    | (moved) plain ct where "sr_key_version row \<noteq> kr_current r" "str_truthy (sr_ciphertext row)"
        "decrypt_value env (the (sr_ciphertext row)) None (sr_key_version row) = Inr plain"
        "reencrypt env nonce row = Inr (ct, kr_current r)" "ct \<noteq> []" "decrypt_value env ct None (kr_current r) = Inr plain"
  proof (cases "settled_secret env (kr_current r) row")
    case False
    then obtain plain where plain: "decrypt_value env (the (sr_ciphertext row)) None (sr_key_version row) = Inr plain"
      by (auto simp: settled_secret_def is_ok_iff)
    then obtain ct where "reencrypt env nonce row = Inr (ct, kr_current r)" "ct \<noteq> []"
        "decrypt_value env ct None (kr_current r) = Inr plain"
      using reencrypt_ok [OF assms(1-3) plain] by blast
    then show ?thesis using False plain by (intro moved [of plain ct]) (simp_all add: settled_secret_def)
  qed (rule settled)
  then have "map sr_id db' = map sr_id db \<and> attempts_of res' = Suc (attempts_of res)
      \<and> (\<forall>x \<in> set db. sr_id x \<noteq> sr_id row \<longrightarrow> x \<in> set db')
      \<and> (\<forall>k w p. retrieve_secret_value env k w db = Inr p \<longrightarrow> retrieve_secret_value env k w db' = Inr p)
      \<and> (\<forall>x \<in> set db'. sr_id x = sr_id row \<and> settled_secret env (kr_current r) x \<or> x \<in> set db \<and> sr_id x \<noteq> sr_id row)"
  proof cases
    case settled
    then show ?thesis using rotate_row_settled [OF settled refl] assms(7) uniq by (metis prod.inject)
  next
    case moved
    then have db': "db' = update_ciphertext (sr_id row) ws ct (kr_current r) now db" "attempts_of res' = Suc (attempts_of res)"
      using assms(7) by (auto simp: rotate_row_def attempts_of_def)
    have "retrieve_secret_value env k w db' = Inr p" if "retrieve_secret_value env k w db = Inr p" for k w p
    proof -
      from that obtain x where x: "find_raw_by_id k w db = Some x" "str_truthy (sr_ciphertext x)"
          "decrypt_value env (the (sr_ciphertext x)) None (sr_key_version x) = Inr p"
        by (auto simp: retrieve_secret_value_def split: option.splits if_splits)
      then have "x \<in> set db" by (auto simp: find_raw_by_id_def find_Some_iff)
      then have "p = plain" if "sr_id x = sr_id row" using uniq [OF _ that] moved(3) x(3) by simp
      then show ?thesis
        using x moved(5,6) by (simp add: retrieve_secret_value_def db'(1) update_ciphertext_find str_truthy_def)
    qed
    moreover have "sr_id x = sr_id row \<and> settled_secret env (kr_current r) x \<or> x \<in> set db \<and> sr_id x \<noteq> sr_id row"
      if "x \<in> set db'" for x
      using that uniq assms(6) by (auto simp: db'(1) update_ciphertext_def settled_secret_def)
    moreover have "x \<in> set db'" if "x \<in> set db" "sr_id x \<noteq> sr_id row" for x
      using that by (force simp: db'(1) update_ciphertext_def)
    ultimately show ?thesis using db' by (simp add: update_ciphertext_ids)
  qed
  then show "map sr_id db' = map sr_id db" "attempts_of res' = Suc (attempts_of res)"
    "\<And>x. x \<in> set db \<Longrightarrow> sr_id x \<noteq> sr_id row \<Longrightarrow> x \<in> set db'"
    "\<And>k w p. retrieve_secret_value env k w db = Inr p \<Longrightarrow> retrieve_secret_value env k w db' = Inr p"
    "\<And>x. x \<in> set db' \<Longrightarrow> (sr_id x = sr_id row \<and> settled_secret env (kr_current r) x \<or> x \<in> set db \<and> sr_id x \<noteq> sr_id row)"
    by blast+
qed

definition rotation_spec :: "broker_env \<Rightarrow> nat \<Rightarrow> secret_row list \<Rightarrow> secret_db \<Rightarrow> secret_db \<Rightarrow> bool" where
  "rotation_spec env current rows db db' =
    (map sr_id db' = map sr_id db
     \<and> (\<forall>k w p. retrieve_secret_value env k w db = Inr p \<longrightarrow> retrieve_secret_value env k w db' = Inr p)
     \<and> (\<forall>x \<in> set db'. (sr_id x \<in> sr_id ` set rows \<and> settled_secret env current x)
          \<or> (x \<in> set db \<and> sr_id x \<notin> sr_id ` set rows)))"

lemma rotate_rows_spec:
  assumes "cipher_sound env" "load_from_env (be_environ env) = Inr r" "\<And>j. length (nonces j) = nonce_size"
    and "rotate_rows env (kr_current r) nonces now ws i rows (res, db) = (res', db')"
    and "distinct (map sr_id db)" "distinct (map sr_id rows)" "set rows \<subseteq> set db" "\<forall>row \<in> set rows. sr_workspace_id row = ws"
  shows "attempts_of res' = attempts_of res + length rows \<and> rotation_spec env (kr_current r) rows db db'"
  using assms(4-8)
proof (induction rows arbitrary: i res db)
  case (Cons row rows)
  obtain res1 db1 where one: "rotate_row env (kr_current r) (nonces i) (now i) ws row (res, db) = (res1, db1)" by fastforce
  have row: "row \<in> set db" "sr_workspace_id row = ws" using Cons.prems by auto
  note step = rotate_row_step [OF assms(1,2,3) Cons.prems(2) row one]
  have rest: "rotate_rows env (kr_current r) nonces now ws (Suc i) rows (res1, db1) = (res', db')"
    using Cons.prems(1) one by simp
  have "x \<in> set db1" if "x \<in> set rows" for x using that Cons.prems(3,4) by (intro step(3)) (auto simp: rev_image_eqI)
  then have "set rows \<subseteq> set db1" by blast
  moreover have "distinct (map sr_id db1)" using step(1) Cons.prems(2) by simp
  moreover have "distinct (map sr_id rows)" "\<forall>row \<in> set rows. sr_workspace_id row = ws" using Cons.prems by auto
  ultimately have "attempts_of res' = attempts_of res1 + length rows" and spec: "rotation_spec env (kr_current r) rows db1 db'"
    using Cons.IH [OF rest] by blast+
  then have "attempts_of res' = attempts_of res + length (row # rows)" using step(2) by simp
  moreover have "rotation_spec env (kr_current r) (row # rows) db db'"
    unfolding rotation_spec_def
  proof (intro conjI allI ballI impI)
    show "map sr_id db' = map sr_id db" using spec step(1) by (simp add: rotation_spec_def)
    show "retrieve_secret_value env k w db' = Inr p" if "retrieve_secret_value env k w db = Inr p" for k w p
      using spec step(4) [OF that] by (simp add: rotation_spec_def)
    fix x assume "x \<in> set db'"
    then have "(sr_id x \<in> sr_id ` set rows \<and> settled_secret env (kr_current r) x) \<or> (x \<in> set db1 \<and> sr_id x \<notin> sr_id ` set rows)"
      using spec by (simp add: rotation_spec_def)
    then show "(sr_id x \<in> sr_id ` set (row # rows) \<and> settled_secret env (kr_current r) x)
        \<or> (x \<in> set db \<and> sr_id x \<notin> sr_id ` set (row # rows))"
      using step(5) [of x] by auto
  qed
  ultimately show ?case by blast
qed (simp add: rotation_spec_def)

lemma rotate_rows_settled:
  assumes "\<forall>row \<in> set rows. settled_secret env (kr_current r) row"
  shows "\<exists>res'. rotate_rows env (kr_current r) nonces now ws i rows (res, db) = (res', db) \<and> rr_rotated res' = rr_rotated res"
  using assms
proof (induction rows arbitrary: i res)
  case (Cons row rows)
  then obtain res1 where "rotate_row env (kr_current r) (nonces i) (now i) ws row (res, db) = (res1, db)"
      "rr_rotated res1 = rr_rotated res"
    using rotate_row_settled [of env _ row r "nonces i" "now i" ws res db] by auto
  then show ?case using Cons.IH [of "Suc i" res1] Cons.prems by auto
qed simp

text \<open>C38. Rotating the keys of a workspace changes no value that can be read, in this workspace or another; every
  readable secret of the workspace is on the current key afterwards, each secret is counted once, and a second
  rotation finds nothing to do.\<close>

theorem rotation_keeps_values:
  assumes "cipher_sound env" "\<And>j. length (nonces j) = nonce_size" "distinct (map sr_id db)"
    and "rotate_workspace_secrets env nonces now ws db = Inr (res, db')"
  shows "(retrieve_secret_value env k w db = Inr p \<longrightarrow> retrieve_secret_value env k w db' = Inr p)
    \<and> (\<forall>x \<in> set db'. sr_workspace_id x = ws \<and> is_ok (retrieve_secret_value env (sr_id x) ws db') \<longrightarrow>
         Inr (sr_key_version x) = map_sum id kr_current (get_key_registry env))
    \<and> rr_rotated res + rr_already_current res + length (rr_errors res) = length (find_all_raw_by_workspace ws db)
    \<and> map_sum id (\<lambda>(res'', db''). (rr_rotated res'', db'')) (rotate_workspace_secrets env nonces' now' ws db') = Inr (0, db')"
proof -
  from assms(4) obtain r where r: "load_from_env (be_environ env) = Inr r"
      "rotate_rows env (kr_current r) nonces now ws 0 (find_all_raw_by_workspace ws db)
         (\<lparr> rr_rotated = 0, rr_already_current = 0, rr_errors = [] \<rparr>, db) = (res, db')"
    by (auto simp: rotate_workspace_secrets_def get_key_registry_def rbind_Inr_iff raising_Inr_iffs)
  have rows: "set (find_all_raw_by_workspace w x) = {row \<in> set x. sr_workspace_id row = w}" for w x
    by (auto simp: find_all_raw_by_workspace_def)
  have "distinct (map sr_id (find_all_raw_by_workspace ws db))"
    using assms(3) by (auto simp: find_all_raw_by_workspace_def distinct_map inj_on_def)
  then have pre: "distinct (map sr_id (find_all_raw_by_workspace ws db))" "set (find_all_raw_by_workspace ws db) \<subseteq> set db"
      "\<forall>row \<in> set (find_all_raw_by_workspace ws db). sr_workspace_id row = ws"
    using rows by auto
  note spec = rotate_rows_spec [OF assms(1) r(1) assms(2) r(2) assms(3) pre]
  have "distinct (map sr_id db')" using spec assms(3) by (simp add: rotation_spec_def)
  have settled: "settled_secret env (kr_current r) x" if "x \<in> set db'" "sr_workspace_id x = ws" for x
    using spec that rows by (fastforce simp: rotation_spec_def)
  have "sr_key_version x = kr_current r"
    if "x \<in> set db'" "sr_workspace_id x = ws" "is_ok (retrieve_secret_value env (sr_id x) ws db')" for x
  proof -
    have "find_raw_by_id (sr_id x) ws db' = Some x"
      using that(1,2) \<open>distinct (map sr_id db')\<close> by (induction db') (auto simp: find_raw_by_id_def)
    then show ?thesis
      using settled [OF that(1,2)] that(3) by (auto simp: settled_secret_def retrieve_secret_value_def split: if_splits)
  qed
  moreover have "map_sum id (\<lambda>(res'', db''). (rr_rotated res'', db'')) (rotate_workspace_secrets env nonces' now' ws db') = Inr (0, db')"
    using rotate_rows_settled [of "find_all_raw_by_workspace ws db'" env r nonces' now' ws 0 _ db'] settled rows r(1)
    by (auto simp: rotate_workspace_secrets_def get_key_registry_def) (metis (no_types, lifting) case_prod_conv rotation_result.select_convs(1))
  ultimately show ?thesis
    using spec r(1) by (auto simp: attempts_of_def get_key_registry_def rotation_spec_def)
qed

section \<open>The numbers of the keys\<close>

text \<open>A broker that was started with the variable \<open>SECRET_ENCRYPTION_KEY\<close> alone writes with this key as version
  1.  When version 2 is added beside it, the old key becomes version 3 and the current one: the new key is not
  used, and every secret stored before cannot be read.\<close>

theorem legacy_key_renumbered:
  assumes "be_environ env = [(key_var, k1)]" "be_environ env' = [(key_var, k1), (key_var @ ''_V2'', k2)]"
    and "b64decode k1 = Some b1" "length b1 = 32" "b64decode k2 = Some b2" "length b2 = 32" "b1 \<noteq> b2"
    and "find_raw_by_id i ws db = Some row" "str_truthy (sr_ciphertext row)" "sr_key_version row = 1"
    and "b64decode (the (sr_ciphertext row)) \<noteq> None"
  shows "get_key_registry env = Inr \<lparr> kr_keys = [(1, b1)], kr_current = 1 \<rparr>
    \<and> get_key_registry env' = Inr \<lparr> kr_keys = [(2, b2), (3, b1)], kr_current = 3 \<rparr>
    \<and> retrieve_secret_value env' i ws db = Inl (SF_Key (KE_Version_Not_Found 1))"
proof -
  have ne: "k1 \<noteq> []" "k2 \<noteq> []" using assms(3-6) by (auto simp: b64decode_def)
  have v: "var_version key_var = None" "var_version (key_var @ ''_V2'') = Some 2" "key_var @ ''_V2'' \<noteq> key_var"
    by code_simp+
  have d: "decode_key k1 l = Inr b1" "decode_key k2 l = Inr b2" for l
    using assms(3-6) by (simp_all add: decode_key_def validate_key_def)
  have one: "load_from_env (be_environ env) = Inr \<lparr> kr_keys = [(1, b1)], kr_current = 1 \<rparr>"
    using ne v d assms(1) by (simp add: load_from_env_def load_legacy_def str_truthy_def max_version_def)
  have two: "load_from_env (be_environ env') = Inr \<lparr> kr_keys = [(2, b2), (3, b1)], kr_current = 3 \<rparr>"
    using ne v d assms(2,7) by (simp add: load_from_env_def load_legacy_def str_truthy_def max_version_def)
  show ?thesis
    using one two assms(8-11)
    by (auto simp: get_key_registry_def retrieve_secret_value_def decrypt_value_def get_key_by_version_def Let_def raising_key_def)
qed

section \<open>A broker to try\<close>

text \<open>A cipher that puts the key before the message.\<close>

definition demo_key :: "nat \<Rightarrow> byte list" where
  "demo_key n = replicate 32 (word_of_nat n)"

definition demo_broker :: "(string \<times> string) list \<Rightarrow> broker_env" where
  "demo_broker environ = \<lparr> be_environ = environ, be_seal = (\<lambda>key nonce msg. Inr (key @ msg)),
     be_open = (\<lambda>key nonce ct. if take (length key) ct = key then Inr (drop (length key) ct) else Inl Aes_Invalid_Tag) \<rparr>"

definition demo_vars :: "(string \<times> string) list" where
  "demo_vars = [(key_var @ ''_V1'', b64encode (demo_key 1)), (key_var @ ''_V2'', b64encode (demo_key 2))]"

definition demo_secret :: secret_row where
  "demo_secret = \<lparr> sr_id = 7, sr_workspace_id = 1, sr_name = ''db'', sr_description = [], sr_secret_type = ''password'',
     sr_secret_hash = None, sr_ciphertext = Some (b64encode (replicate 12 0 @ demo_key 1 @ utf8_encode ''hunter2'')),
     sr_key_version = 1, sr_masked_display = ''****ter2'', sr_created_by_id = ''u'', sr_created_at = 0, sr_updated_at = 0 \<rparr>"

lemma demo_cipher_sound: "cipher_sound (demo_broker environ)"
  by (simp add: cipher_sound_def demo_broker_def)

lemma demo_nonce: "length (replicate 12 0 :: byte list) = nonce_size"
  by (simp add: nonce_size_def)

lemma demo_registry:
  "load_from_env demo_vars = Inr \<lparr> kr_keys = [(1, demo_key 1), (2, demo_key 2)], kr_current = 2 \<rparr>"
proof -
  have v: "var_version (key_var @ ''_V1'') = Some 1" "var_version (key_var @ ''_V2'') = Some 2"
      "key_var @ ''_V1'' \<noteq> key_var" "key_var @ ''_V2'' \<noteq> key_var"
    by code_simp+
  have "length (demo_key n) = 32" "demo_key n \<noteq> []" for n by (simp_all add: demo_key_def)
  then show ?thesis
    using v by (simp add: load_from_env_def demo_vars_def decode_key_def base64_roundtrip validate_key_def load_legacy_def
        str_truthy_def max_version_def b64encode_Nil_iff)
qed

lemma demo_secret_reads: "retrieve_secret_value (demo_broker demo_vars) 7 1 [demo_secret] = Inr ''hunter2''"
proof -
  have "key_of (demo_broker demo_vars) 1 = Some (demo_key 1)"
    by (simp add: key_of_def demo_broker_def demo_registry del: One_nat_def)
  moreover have "be_open (demo_broker demo_vars) (demo_key 1) (replicate 12 0) (demo_key 1 @ utf8_encode ''hunter2'')
      = Inr (utf8_encode ''hunter2'')"
    by (simp add: demo_broker_def)
  ultimately have "decrypt_value (demo_broker demo_vars)
      (b64encode (replicate 12 0 @ demo_key 1 @ utf8_encode ''hunter2'')) None 1 = Inr ''hunter2''"
    using decrypt_known demo_nonce by blast
  then show ?thesis
    by (simp add: retrieve_secret_value_def find_raw_by_id_def demo_secret_def str_truthy_def b64encode_Nil_iff del: One_nat_def)
qed

theorem secret_roundtrip_witness:
  "\<exists>meta db'. create_secret_endpoint (demo_broker demo_vars) (replicate 12 0) 7 0 1 ''u'' ''db'' None ''password'' ''hunter2'' []
      = Inr (meta, db') \<and> retrieve_secret_value (demo_broker demo_vars) 7 1 db' = Inr ''hunter2''
      \<and> retrieve_secret_value (demo_broker demo_vars) 7 2 db' = Inl (SF_Not_Found 7)"
proof -
  have reg: "load_from_env (be_environ (demo_broker demo_vars)) = Inr \<lparr> kr_keys = [(1, demo_key 1), (2, demo_key 2)], kr_current = 2 \<rparr>"
    by (simp add: demo_broker_def demo_registry del: One_nat_def)
  obtain ct where "encrypt_value (demo_broker demo_vars) (replicate 12 0) ''hunter2'' None = Inr (ct, 2)"
    using encrypt_current [OF demo_cipher_sound reg demo_nonce] by (metis key_registry.select_convs(2))
  then obtain meta db' where made: "create_secret_endpoint (demo_broker demo_vars) (replicate 12 0) 7 0 1 ''u'' ''db'' None
      ''password'' ''hunter2'' [] = Inr (meta, db')"
    by (auto simp: create_secret_endpoint_def create_secret_body_def failing_as_def create_secret_def insert_secret_def
        valid_secret_types_def)
  from secret_roundtrip [OF demo_cipher_sound demo_nonce made refl refl, of 2] made show ?thesis by auto
qed

theorem rotation_keeps_values_witness:
  "\<exists>res db'. rotate_workspace_secrets (demo_broker demo_vars) (\<lambda>_. replicate 12 0) (\<lambda>_. 5) 1 [demo_secret] = Inr (res, db')
     \<and> retrieve_secret_value (demo_broker demo_vars) 7 1 db' = Inr ''hunter2''"
proof -
  have "get_key_registry (demo_broker demo_vars) = Inr \<lparr> kr_keys = [(1, demo_key 1), (2, demo_key 2)], kr_current = 2 \<rparr>"
    by (simp add: get_key_registry_def demo_broker_def demo_registry del: One_nat_def)
  then obtain acc where "rotate_workspace_secrets (demo_broker demo_vars) (\<lambda>_. replicate 12 0) (\<lambda>_. 5) 1 [demo_secret] = Inr acc"
    unfolding rotate_workspace_secrets_def Let_def by (simp only: rbind_simps)
  then obtain res db' where rot: "rotate_workspace_secrets (demo_broker demo_vars) (\<lambda>_. replicate 12 0) (\<lambda>_. 5) 1 [demo_secret]
      = Inr (res, db')"
    by (cases acc) simp
  have "distinct (map sr_id [demo_secret])" by simp
  from rotation_keeps_values [OF demo_cipher_sound demo_nonce this rot, of 7 1 "''hunter2''"] rot demo_secret_reads
  show ?thesis by blast
qed

theorem legacy_key_renumbered_witness:
  "retrieve_secret_value
     (demo_broker [(key_var, b64encode (demo_key 1)), (key_var @ ''_V2'', b64encode (demo_key 2))]) 7 1 [demo_secret]
   = Inl (SF_Key (KE_Version_Not_Found 1))"
proof -
  have keys: "length (demo_key n) = 32" for n by (simp add: demo_key_def)
  have "demo_key 1 \<noteq> demo_key 2" by (simp add: demo_key_def)
  moreover have "find_raw_by_id 7 1 [demo_secret] = Some demo_secret" "str_truthy (sr_ciphertext demo_secret)"
      "sr_key_version demo_secret = 1" "b64decode (the (sr_ciphertext demo_secret)) \<noteq> None"
    by (simp_all add: find_raw_by_id_def demo_secret_def str_truthy_def b64encode_Nil_iff base64_roundtrip)
  ultimately show ?thesis
    using legacy_key_renumbered [of "demo_broker [(key_var, b64encode (demo_key 1))]" "b64encode (demo_key 1)"
        "demo_broker [(key_var, b64encode (demo_key 1)), (key_var @ ''_V2'', b64encode (demo_key 2))]"
        "b64encode (demo_key 2)" "demo_key 1" "demo_key 2" 7 1 "[demo_secret]" demo_secret] keys
    by (simp add: demo_broker_def base64_roundtrip)
qed

end
