(* ===== verification/Model_Gateway.thy ===== *)
theory Model_Gateway
  imports Service_Http
begin

text \<open>
  The model gateway (\<open>apps/model-gateway\<close>): the configuration of providers from the environment
  (\<open>infrastructure/config.py\<close>), the two provider adapters (\<open>providers/\<close>), the execution service with its usage
  records (\<open>application/model_service.py\<close>) and the endpoint \<open>/v1/models/invoke\<close>.  The provider behind the HTTP
  library is a parameter.  Names of aliases and providers are ASCII; temperatures are kept as JSON.
\<close>

section \<open>Contracts\<close>

record model_request =
  mq_request_id :: uuid
  mq_invocation_id :: uuid
  mq_workspace_id :: uuid
  mq_correlation_id :: uuid
  mq_model_alias :: string
  mq_max_tokens :: "int option"
  mq_temperature :: "json option"
  mq_messages :: "dict list"
  mq_timeout_ms :: int
  mq_tools :: "json list option"

record provider_config =
  pc_provider_name :: string
  pc_endpoint_url :: string
  pc_api_key :: string
  pc_model_name :: string
  pc_is_active :: bool

text \<open>What an adapter returns: the fields are whatever JSON the provider sent.\<close>

record provider_response =
  ps_output_text :: json
  ps_finish_reason :: json
  ps_prompt_tokens :: json
  ps_completion_tokens :: json
  ps_total_tokens :: json
  ps_model_name :: json
  ps_tool_calls :: "json list option"

text \<open>\<open>PE_Call\<close> is a \<open>ProviderCallError\<close>, the only exception the service catches.\<close>

datatype provider_error = PE_Call (pe_code: string) (pe_message: string) (pe_retryable: bool) | PE_Uncaught string

record model_error =
  me_error_code :: string
  me_error_message :: string
  me_provider_name :: string
  me_retryable :: bool

record model_result =
  mr_provider_name :: string
  mr_model_concrete :: json
  mr_output_text :: json
  mr_finish_reason :: json
  mr_prompt_tokens :: json
  mr_completion_tokens :: json
  mr_total_tokens :: json
  mr_tool_calls :: "json list option"

record usage_record =
  ur_invocation_id :: uuid
  ur_workspace_id :: uuid
  ur_correlation_id :: uuid
  ur_model_alias :: string
  ur_model_concrete :: json
  ur_provider :: string
  ur_prompt_tokens :: json
  ur_completion_tokens :: json
  ur_status :: string
  ur_error_code :: "string option"

section \<open>Configuration\<close>

definition py_upper :: "string \<Rightarrow> string" where
  "py_upper s = map (\<lambda>c. let n = (of_char c :: nat) in if 97 \<le> n \<and> n \<le> 122 then char_of (n - 32) else c) s"

definition underscored :: "char set \<Rightarrow> string \<Rightarrow> string" where
  "underscored bad s = map (\<lambda>c. if c \<in> bad then CHR ''_'' else c) s"

definition alias_key :: "string \<Rightarrow> string" where
  "alias_key alias_name = underscored {CHR ''-'', CHR ''.'', CHR '':''} (py_upper alias_name)"

definition provider_key :: "string \<Rightarrow> string" where
  "provider_key name = underscored {CHR ''-''} (py_upper name)"

text \<open>The left side is a \<open>ProviderConfigError\<close> with the provider's name and the detail.\<close>

definition get_provider_for_alias ::
  "(string \<Rightarrow> string option) \<Rightarrow> string \<Rightarrow> (string \<times> string) + provider_config option" where
  "get_provider_for_alias environ alias_name =
    (let a = ''MODEL_GW_ALIAS_'' @ alias_key alias_name; name = environ (a @ ''_PROVIDER'') in
     if \<not> str_truthy name then Inr None
     else
       let p = ''MODEL_GW_PROVIDER_'' @ provider_key (the name);
           url = environ (p @ ''_ENDPOINT''); key = opt_or (environ (p @ ''_API_KEY'')) []
       in if \<not> str_truthy url then Inl (the name, ''endpoint_url not configured'')
          else if key = [] \<and> py_lower (the name) \<noteq> ''claude_code_cli'' then Inl (the name, ''api_key not configured'')
          else Inr (Some \<lparr> pc_provider_name = py_lower (the name), pc_endpoint_url = the url, pc_api_key = key,
                 pc_model_name = opt_or (environ (a @ ''_MODEL'')) alias_name,
                 pc_is_active = (py_lower (opt_or (environ (p @ ''_ENABLED'')) ''true'') \<in> {''true'', ''1'', ''yes''}) \<rparr>))"

section \<open>The OpenAI-compatible adapter\<close>

record provider_call =
  pv_url :: string
  pv_headers :: "(string \<times> string) list"
  pv_body :: dict
  pv_timeout_ms :: int

datatype provider_http = PH_Timeout | PH_Connect | PH_Error string | PH_Response int string "json option"

record model_env =
  mv_lib :: json_lib
  mv_environ :: "string \<Rightarrow> string option"
  mv_post :: "provider_call \<Rightarrow> provider_http"
  mv_usage_fails :: bool

definition openai_call_request :: "provider_config \<Rightarrow> model_request \<Rightarrow> provider_call" where
  "openai_call_request c q = \<lparr> pv_url = rstrip_char (CHR ''/'') (pc_endpoint_url c) @ ''/chat/completions'',
     pv_headers = [(''Authorization'', ''Bearer '' @ pc_api_key c), (''Content-Type'', ''application/json'')],
     pv_body = [(''model'', JStr (pc_model_name c)), (''messages'', JList (map JObj (mq_messages q)))]
       @ (case mq_max_tokens q of None \<Rightarrow> [] | Some n \<Rightarrow> [(''max_tokens'', JInt n)])
       @ (case mq_temperature q of None \<Rightarrow> [] | Some t \<Rightarrow> [(''temperature'', t)])
       @ (case mq_tools q of None \<Rightarrow> [] | Some ts \<Rightarrow> if ts = [] then [] else [(''tools'', JList ts)]),
     pv_timeout_ms = mq_timeout_ms q \<rparr>"

text \<open>\<open>x.get(k, d)\<close>, which raises \<open>AttributeError\<close> when \<open>x\<close> is no dict; \<open>_parse_response\<close> does not catch it.\<close>

definition attr_get :: "string \<Rightarrow> json \<Rightarrow> json \<Rightarrow> provider_error + json" where
  "attr_get k d j = (case j of JObj obj \<Rightarrow> Inr (jget k d obj) | _ \<Rightarrow> Inl (PE_Uncaught ''AttributeError''))"

definition parse_error :: provider_error where
  "parse_error = PE_Call ''PARSE_ERROR'' ''Failed to parse provider response'' False"

text \<open>\<open>data["choices"][0]\<close> (the text of the exception in the message is left out): a missing key, an empty list or a value that has no items is a parse error.\<close>

definition first_choice :: "json \<Rightarrow> provider_error + json" where
  "first_choice data = (case data of
       JObj obj \<Rightarrow> (case map_of obj ''choices'' of
           Some (JList (c # _)) \<Rightarrow> Inr c
         | Some (JStr (ch # _)) \<Rightarrow> Inr (JStr [ch])
         | _ \<Rightarrow> Inl parse_error)
     | _ \<Rightarrow> Inl parse_error)"

definition tool_call_of :: "json \<Rightarrow> provider_error + json" where
  "tool_call_of tc =
     rbind (attr_get ''id'' (JStr []) tc) (\<lambda>i.
     rbind (attr_get ''type'' (JStr ''function'') tc) (\<lambda>ty.
     rbind (attr_get ''function'' (JObj []) tc) (\<lambda>fn.
     rbind (attr_get ''name'' (JStr []) fn) (\<lambda>name.
     rbind (attr_get ''arguments'' (JStr ''{}'') fn) (\<lambda>args.
     Inr (JObj [(''id'', i), (''type'', ty), (''function'', JObj [(''name'', name), (''arguments'', args)])]))))))"

definition tool_calls_of :: "json \<Rightarrow> provider_error + json list option" where
  "tool_calls_of raw =
    (if \<not> json_truthy raw then Inr None
     else case raw of
       JList tcs \<Rightarrow> rbind (rmap tool_call_of tcs) (\<lambda>ts. Inr (Some ts))
     | JObj _ \<Rightarrow> Inl (PE_Uncaught ''AttributeError'')
     | JStr _ \<Rightarrow> Inl (PE_Uncaught ''AttributeError'')
     | JUuid _ \<Rightarrow> Inl (PE_Uncaught ''AttributeError'')
     | _ \<Rightarrow> Inl parse_error)"

definition parse_response :: "json \<Rightarrow> provider_error + provider_response" where
  "parse_response data =
     rbind (first_choice data) (\<lambda>choice.
     rbind (attr_get ''message'' (JObj []) choice) (\<lambda>message.
     rbind (attr_get ''usage'' (JObj []) data) (\<lambda>usage.
     rbind (attr_get ''finish_reason'' (JStr ''stop'') choice) (\<lambda>finish.
     rbind (rbind (attr_get ''tool_calls'' JNull message) tool_calls_of) (\<lambda>calls.
     rbind (attr_get ''content'' JNull message) (\<lambda>content.
     rbind (attr_get ''prompt_tokens'' (JInt 0) usage) (\<lambda>prompt.
     rbind (attr_get ''completion_tokens'' (JInt 0) usage) (\<lambda>completion.
     rbind (attr_get ''total_tokens'' (JInt 0) usage) (\<lambda>total_tokens.
     rbind (attr_get ''model'' (JStr []) data) (\<lambda>model.
     Inr \<lparr> ps_output_text = json_or content (JStr []), ps_finish_reason = finish, ps_prompt_tokens = prompt,
           ps_completion_tokens = completion, ps_total_tokens = total_tokens, ps_model_name = model,
           ps_tool_calls = calls \<rparr>))))))))))"

definition openai_call :: "model_env \<Rightarrow> provider_config \<Rightarrow> model_request \<Rightarrow> provider_error + provider_response" where
  "openai_call env c q =
    (case mv_post env (openai_call_request c q) of
       PH_Timeout \<Rightarrow> Inl (PE_Call ''TIMEOUT'' (''Request timed out after '' @ str_int (mq_timeout_ms q) @ ''ms'') True)
     | PH_Connect \<Rightarrow> Inl (PE_Call ''CONNECTION_ERROR'' (''Failed to connect to '' @ rstrip_char (CHR ''/'') (pc_endpoint_url c)) True)
     | PH_Error m \<Rightarrow> Inl (PE_Call ''HTTP_ERROR'' m False)
     | PH_Response code body data \<Rightarrow>
         if code \<noteq> 200
         then Inl (PE_Call (''HTTP_'' @ str_int code) (take 500 body) (code \<in> {429, 500, 502, 503, 504}))
         else (case data of None \<Rightarrow> Inl (PE_Uncaught ''JSONDecodeError'') | Some j \<Rightarrow> parse_response j))"

section \<open>The claude-bridge adapter\<close>

text \<open>The text of the structured blocks of a message; \<open>None\<close> is the \<open>TypeError\<close> of a join over a text that is no
  string, which nothing catches.\<close>

definition block_text :: "json \<Rightarrow> string option option" where
  "block_text block = (case block of
       JObj b \<Rightarrow> if map_of b ''type'' = Some (JStr ''text'')
                 then (case jget ''text'' (JStr []) b of JStr s \<Rightarrow> Some (Some s) | _ \<Rightarrow> None) else Some None
     | _ \<Rightarrow> Some None)"

fun join_with :: "string \<Rightarrow> string list \<Rightarrow> string" where
  "join_with sep [] = []"
| "join_with sep [s] = s"
| "join_with sep (s # t # ss) = s @ sep @ join_with sep (t # ss)"

definition blocks_text :: "json list \<Rightarrow> string option" where
  "blocks_text blocks =
    (if list_ex (\<lambda>b. block_text b = None) blocks then None
     else Some (join_with '' '' (List.map_filter (\<lambda>b. the (block_text b)) blocks)))"

definition message_part :: "json_lib \<Rightarrow> dict \<Rightarrow> string option" where
  "message_part lib msg =
    (let role = jget ''role'' (JStr ''user'') msg; content = jget ''content'' (JStr []) msg in
     case (case content of JList blocks \<Rightarrow> map_option JStr (blocks_text blocks) | _ \<Rightarrow> Some content) of
       None \<Rightarrow> None
     | Some c \<Rightarrow>
         if role = JStr ''system'' then Some (''[System instruction]: '' @ py_str lib c)
         else if role = JStr ''assistant'' then Some (''[Previous response]: '' @ py_str lib c)
         else (case c of JStr s \<Rightarrow> Some s | _ \<Rightarrow> None))"

definition messages_to_prompt :: "json_lib \<Rightarrow> dict list \<Rightarrow> string option" where
  "messages_to_prompt lib msgs =
    (if list_ex (\<lambda>m. message_part lib m = None) msgs then None
     else Some (join_with [CHR 0x0A, CHR 0x0A] (map (\<lambda>m. the (message_part lib m)) msgs)))"

definition strip_prefix :: "string \<Rightarrow> string \<Rightarrow> string" where
  "strip_prefix p s = (if starts_with p s then drop (length p) s else s)"

definition bridge_model :: "string \<Rightarrow> string" where
  "bridge_model name = strip_prefix ''claude-code-cli:'' (strip_prefix ''claude_code_cli:'' name)"

text \<open>Every failure is a \<open>BridgeProviderError\<close>, which is no \<open>ProviderCallError\<close>, or an exception of Python.\<close>

definition bridge_result :: "string \<Rightarrow> provider_http \<Rightarrow> provider_error + provider_response" where
  "bridge_result model out = (case out of
       PH_Response code _ data \<Rightarrow>
         if code < 200 \<or> 300 \<le> code then Inl (PE_Uncaught ''BridgeProviderError'')
         else (case data of
             Some (JObj d) \<Rightarrow>
               if json_truthy (jget ''is_error'' JNull d) then Inl (PE_Uncaught ''BridgeProviderError'')
               else Inr \<lparr> ps_output_text = jget ''output_text'' (JStr []) d, ps_finish_reason = JStr ''stop'',
                      ps_prompt_tokens = JInt 0, ps_completion_tokens = JInt 0, ps_total_tokens = JInt 0,
                      ps_model_name = jget ''model_name'' (JStr model) d, ps_tool_calls = None \<rparr>
           | _ \<Rightarrow> Inl (PE_Uncaught ''AttributeError''))
     | PH_Error _ \<Rightarrow> Inl (PE_Uncaught ''HTTPError'')
     | _ \<Rightarrow> Inl (PE_Uncaught ''BridgeProviderError''))"

definition bridge_request :: "provider_config \<Rightarrow> model_request \<Rightarrow> string \<Rightarrow> provider_call" where
  "bridge_request c q prompt = \<lparr> pv_url = rstrip_char (CHR ''/'') (pc_endpoint_url c) @ ''/internal/v1/query'', pv_headers = [],
     pv_body = [(''prompt'', JStr prompt), (''model'', JStr (bridge_model (pc_model_name c))), (''max_turns'', JInt 1),
       (''timeout_s'', JInt (min (mq_timeout_ms q div 1000) 600))], pv_timeout_ms = 120000 \<rparr>"

definition bridge_call :: "model_env \<Rightarrow> provider_config \<Rightarrow> model_request \<Rightarrow> provider_error + provider_response" where
  "bridge_call env c q =
    (case messages_to_prompt (mv_lib env) (mq_messages q) of
       None \<Rightarrow> Inl (PE_Uncaught ''TypeError'')
     | Some prompt \<Rightarrow> bridge_result (bridge_model (pc_model_name c)) (mv_post env (bridge_request c q prompt)))"

section \<open>The execution service\<close>

text \<open>\<open>ProviderFactory.create\<close> and the call; the constructor of the OpenAI adapter refuses other schemes.\<close>

definition call_provider :: "model_env \<Rightarrow> provider_config \<Rightarrow> model_request \<Rightarrow> provider_error + provider_response" where
  "call_provider env c q =
    (if pc_provider_name c = ''claude_code_cli'' then bridge_call env c q
     else if \<not> (starts_with ''https://'' (pc_endpoint_url c) \<or> starts_with ''http://'' (pc_endpoint_url c))
     then Inl (PE_Uncaught ''ValueError'')
     else openai_call env c q)"

definition quoted :: "string \<Rightarrow> string" where "quoted s = [CHR 0x27] @ s @ [CHR 0x27]"

definition resolve_config :: "model_env \<Rightarrow> string \<Rightarrow> model_error + provider_config" where
  "resolve_config env alias_name =
    (case get_provider_for_alias (mv_environ env) alias_name of
       Inl (name, detail) \<Rightarrow> Inl \<lparr> me_error_code = ''CONFIG_ERROR'',
          me_error_message = ''Provider '' @ quoted name @ '' config error: '' @ detail, me_provider_name = name, me_retryable = False \<rparr>
     | Inr None \<Rightarrow> Inl \<lparr> me_error_code = ''PROVIDER_NOT_FOUND'',
          me_error_message = ''No provider configured for model alias '' @ quoted alias_name, me_provider_name = [], me_retryable = False \<rparr>
     | Inr (Some c) \<Rightarrow>
         if \<not> pc_is_active c
         then Inl \<lparr> me_error_code = ''PROVIDER_DISABLED'', me_error_message = ''Provider '' @ quoted (pc_provider_name c) @ '' is disabled'',
                me_provider_name = pc_provider_name c, me_retryable = False \<rparr>
         else Inr c)"

definition usage_of :: "model_request \<Rightarrow> string \<Rightarrow> json \<Rightarrow> json \<Rightarrow> json \<Rightarrow> string \<Rightarrow> string option \<Rightarrow> usage_record" where
  "usage_of q provider concrete prompt completion st code = \<lparr> ur_invocation_id = mq_invocation_id q,
     ur_workspace_id = mq_workspace_id q, ur_correlation_id = mq_correlation_id q, ur_model_alias = mq_model_alias q,
     ur_model_concrete = concrete, ur_provider = provider, ur_prompt_tokens = prompt, ur_completion_tokens = completion,
     ur_status = st, ur_error_code = code \<rparr>"

definition record_usage_safe :: "model_env \<Rightarrow> usage_record \<Rightarrow> usage_record list \<Rightarrow> usage_record list" where
  "record_usage_safe env r us = (if mv_usage_fails env then us else us @ [r])"

text \<open>\<open>Inl\<close> is an exception that leaves \<open>execute\<close>.\<close>

definition execute_model ::
  "model_env \<Rightarrow> model_request \<Rightarrow> usage_record list \<Rightarrow> (string + (model_error + model_result)) \<times> usage_record list" where
  "execute_model env q us =
    (case resolve_config env (mq_model_alias q) of
       Inl e \<Rightarrow> (Inr (Inl e), us)
     | Inr c \<Rightarrow>
         (case call_provider env c q of
            Inl (PE_Uncaught x) \<Rightarrow> (Inl x, us)
          | Inl (PE_Call code m retry) \<Rightarrow>
              (Inr (Inl \<lparr> me_error_code = code,
                 me_error_message = ''Provider '' @ quoted (pc_provider_name c) @ '' call failed: ['' @ code @ ''] '' @ m,
                 me_provider_name = pc_provider_name c, me_retryable = retry \<rparr>),
               record_usage_safe env (usage_of q (pc_provider_name c) (JStr (pc_model_name c)) (JInt 0) (JInt 0)
                 (if code = ''TIMEOUT'' then ''timeout'' else ''error'') (Some code)) us)
          | Inr p \<Rightarrow>
              (let concrete = json_or (ps_model_name p) (JStr (pc_model_name c)) in
               (Inr (Inr \<lparr> mr_provider_name = pc_provider_name c, mr_model_concrete = concrete, mr_output_text = ps_output_text p,
                  mr_finish_reason = ps_finish_reason p, mr_prompt_tokens = ps_prompt_tokens p,
                  mr_completion_tokens = ps_completion_tokens p, mr_total_tokens = ps_total_tokens p, mr_tool_calls = ps_tool_calls p \<rparr>),
                record_usage_safe env (usage_of q (pc_provider_name c) concrete (ps_prompt_tokens p) (ps_completion_tokens p)
                  ''success'' None) us))))"

section \<open>The endpoint\<close>

definition error_status_code :: "string \<Rightarrow> int" where
  "error_status_code code =
    (if code \<in> {''PROVIDER_NOT_FOUND'', ''CONFIG_ERROR''} then 422
     else if code = ''PROVIDER_DISABLED'' then 503
     else if code = ''TIMEOUT'' then 504 else 502)"

text \<open>The response model takes strings and integers only (a provider's \<open>null\<close> is a 500); the coercions of other JSON
  that pydantic would make are left out.\<close>

definition json_is_str :: "json \<Rightarrow> bool" where
  "json_is_str j = (case j of JStr _ \<Rightarrow> True | _ \<Rightarrow> False)"

definition json_is_int :: "json \<Rightarrow> bool" where
  "json_is_int j = (case j of JInt _ \<Rightarrow> True | _ \<Rightarrow> False)"

definition response_valid :: "model_result \<Rightarrow> bool" where
  "response_valid r = (json_is_str (mr_model_concrete r) \<and> json_is_str (mr_output_text r) \<and> json_is_str (mr_finish_reason r)
     \<and> json_is_int (mr_prompt_tokens r) \<and> json_is_int (mr_completion_tokens r) \<and> json_is_int (mr_total_tokens r))"

definition model_result_dict :: "uuid \<Rightarrow> model_result \<Rightarrow> dict" where
  "model_result_dict i r = [(''request_id'', JUuid i), (''provider_name'', JStr (mr_provider_name r)),
     (''model_concrete'', mr_model_concrete r), (''output_text'', mr_output_text r), (''finish_reason'', mr_finish_reason r),
     (''prompt_tokens'', mr_prompt_tokens r), (''completion_tokens'', mr_completion_tokens r), (''total_tokens'', mr_total_tokens r),
     (''tool_calls'', case mr_tool_calls r of None \<Rightarrow> JNull | Some ts \<Rightarrow> JList ts)]"

definition model_error_dict :: "uuid \<Rightarrow> model_error \<Rightarrow> dict" where
  "model_error_dict i e = [(''request_id'', JUuid i), (''error_code'', JStr (me_error_code e)),
     (''error_message'', JStr (me_error_message e)), (''provider_name'', JStr (me_provider_name e)), (''retryable'', JBool (me_retryable e))]"

text \<open>The fields of the body; \<open>timeout_ms\<close> has a default of 30 seconds.\<close>

record invoke_body =
  ib_request :: model_request
  ib_timeout_ms :: "int option"

definition invoke_body_valid :: "invoke_body \<Rightarrow> bool" where
  "invoke_body_valid b = (mq_model_alias (ib_request b) \<noteq> [] \<and> mq_messages (ib_request b) \<noteq> []
     \<and> (case ib_timeout_ms b of None \<Rightarrow> True | Some t \<Rightarrow> 1000 \<le> t \<and> t \<le> 300000))"

definition invoke_model ::
  "model_env \<Rightarrow> api_auth \<Rightarrow> time \<Rightarrow> api_headers \<Rightarrow> invoke_body \<Rightarrow> usage_record list \<Rightarrow> http_answer \<times> usage_record list" where
  "invoke_model env auth now headers b us =
    (case guard_service auth now ''agent-runtime'' headers of
       Inl e \<Rightarrow> (failure_answer e, us)
     | Inr _ \<Rightarrow>
         if \<not> invoke_body_valid b then (Answer 422 None, us)
         else
           let q = (ib_request b)\<lparr>mq_timeout_ms := opt_or (ib_timeout_ms b) 30000\<rparr>; (r, us') = execute_model env q us
           in (case r of
                 Inl _ \<Rightarrow> Answer 500 None
               | Inr (Inl e) \<Rightarrow> Answer (error_status_code (me_error_code e))
                                 (Some (JObj [(''detail'', JObj (model_error_dict (mq_request_id q) e))]))
               | Inr (Inr m) \<Rightarrow> if response_valid m then Answer 200 (Some (JObj (model_result_dict (mq_request_id q) m)))
                               else Answer 500 None, us'))"

end
