(* ===== verification/Model_Client.thy ===== *)
theory Model_Client
  imports Model_Gateway Resilience
begin

text \<open>
  The agent runtime's client of the model gateway
  (\<open>apps/agent-runtime/src/infrastructure/gateway_client.py\<close>), and the two joined.  As in the orchestrator's client
  the HTTP library is a function on a state of the outside world with a monotonic clock in microseconds.
\<close>

section \<open>The client\<close>

text \<open>A response has a status, whether its content type is JSON, its text and its JSON.\<close>

datatype gateway_http = GH_Timeout string | GH_Connect string | GH_Error string | GH_Response int bool string "json option"

text \<open>A \<open>ModelGatewayError\<close>, whose fields come from the answer, or another exception.\<close>

datatype client_error = CE_Gateway (ce_code: json) (ce_message: json) (ce_retryable: json) | CE_Uncaught string

record gateway_call =
  gc_body :: dict
  gc_headers :: "(string \<times> string) list"
  gc_timeout_us :: int

definition invoke_request_body :: "model_request \<Rightarrow> dict" where
  "invoke_request_body q = [(''request_id'', JUuid (mq_request_id q)), (''agent_invocation_id'', JUuid (mq_invocation_id q)),
     (''workspace_id'', JUuid (mq_workspace_id q)), (''correlation_id'', JUuid (mq_correlation_id q)),
     (''model_alias'', JStr (mq_model_alias q)), (''messages'', JList (map JObj (mq_messages q)))]
     @ (case mq_max_tokens q of None \<Rightarrow> [] | Some n \<Rightarrow> [(''max_tokens'', JInt n)])
     @ (case mq_temperature q of None \<Rightarrow> [] | Some t \<Rightarrow> [(''temperature'', t)])
     @ (case mq_tools q of None \<Rightarrow> [] | Some ts \<Rightarrow> if ts = [] then [] else [(''tools'', JList ts)])"

definition error_detail :: "bool \<Rightarrow> json option \<Rightarrow> client_error + json" where
  "error_detail is_json body =
    (if \<not> is_json then Inr (JObj [])
     else case body of
       None \<Rightarrow> Inr (JObj [])
     | Some (JObj d) \<Rightarrow> Inr (jget ''detail'' (JObj []) d)
     | Some _ \<Rightarrow> Inl (CE_Uncaught ''AttributeError''))"

definition error_of_detail :: "int \<Rightarrow> string \<Rightarrow> json \<Rightarrow> client_error" where
  "error_of_detail code txt detail =
    (let dflt_code = JStr (''HTTP_'' @ str_int code); dflt_retry = JBool (is_retryable_status_code code) in
     case detail of
       JObj d \<Rightarrow> CE_Gateway (jget ''error_code'' dflt_code d) (jget ''error_message'' (JStr (take 500 txt)) d)
                   (jget ''retryable'' dflt_retry d)
     | _ \<Rightarrow> CE_Gateway dflt_code (JStr (take 500 txt)) dflt_retry)"

definition gateway_result :: "gateway_http \<Rightarrow> client_error + json" where
  "gateway_result out = (case out of
       GH_Timeout m \<Rightarrow> Inl (CE_Gateway (JStr ''TIMEOUT'') (JStr (''Gateway timed out: '' @ m)) (JBool True))
     | GH_Connect m \<Rightarrow> Inl (CE_Gateway (JStr ''CONNECTION_ERROR'') (JStr (''Cannot reach gateway: '' @ m)) (JBool True))
     | GH_Error m \<Rightarrow> Inl (CE_Gateway (JStr ''HTTP_ERROR'') (JStr m) (JBool False))
     | GH_Response code is_json txt body \<Rightarrow>
         if code \<noteq> 200
         then (case error_detail is_json body of Inl e \<Rightarrow> Inl e | Inr d \<Rightarrow> Inl (error_of_detail code txt d))
         else (case body of None \<Rightarrow> Inl (CE_Uncaught ''JSONDecodeError'') | Some j \<Rightarrow> Inr j))"

definition gateway_timeout_us :: "timeout_budget \<Rightarrow> time \<Rightarrow> int" where
  "gateway_timeout_us b now = max (remaining_for_downstream b 500 now * 1000) 5000000"

definition invoke_attempt ::
  "(gateway_call \<Rightarrow> 'w \<Rightarrow> gateway_http \<times> 'w) \<Rightarrow> ('w \<Rightarrow> time) \<Rightarrow> (string \<times> string) list \<Rightarrow> timeout_budget \<Rightarrow> model_request
   \<Rightarrow> 'w \<Rightarrow> (client_error + json) \<times> 'w" where
  "invoke_attempt post clock headers budget q w =
    (if is_exhausted budget (clock w)
     then (Inl (CE_Gateway (JStr ''BUDGET_EXHAUSTED'') (JStr ''Timeout budget exhausted before gateway attempt'') (JBool False)), w)
     else let (out, w') = post \<lparr> gc_body = invoke_request_body q, gc_headers = headers,
                                 gc_timeout_us = gateway_timeout_us budget (clock w) \<rparr> w
          in (gateway_result out, w'))"

definition client_retryable :: "client_error \<Rightarrow> bool" where
  "client_retryable e = (case e of CE_Gateway _ _ r \<Rightarrow> json_truthy r | CE_Uncaught _ \<Rightarrow> False)"

definition gateway_retry :: retry_policy where
  "gateway_retry = mk_retry_policy 3 1000000 8000000 True"

definition client_invoke_model ::
  "(nat \<Rightarrow> int \<Rightarrow> int) \<Rightarrow> (gateway_call \<Rightarrow> 'w \<Rightarrow> gateway_http \<times> 'w) \<Rightarrow> ('w \<Rightarrow> time) \<Rightarrow> (string \<times> string) list \<Rightarrow> int
   \<Rightarrow> model_request \<Rightarrow> 'w \<Rightarrow> (client_error + json) \<times> 'w" where
  "client_invoke_model jit post clock headers timeout_ms q w =
    (case budget_new timeout_ms (clock w) of
       Inl _ \<Rightarrow> (Inl (CE_Uncaught ''ValueError''), w)
     | Inr b \<Rightarrow>
         (case retry_with_backoff jit gateway_retry (invoke_attempt post clock headers b q) client_retryable w of
            (r, w', _) \<Rightarrow> (r, w')))"

section \<open>The client and the gateway\<close>

text \<open>The body as pydantic reads it back; \<open>None\<close> is a 422.  The temperature and the elements of lists are any JSON.\<close>

definition uuid_field :: "string \<Rightarrow> dict \<Rightarrow> uuid option" where
  "uuid_field k d = (case map_of d k of Some (JUuid i) \<Rightarrow> Some i | _ \<Rightarrow> None)"

definition opt_int_field :: "string \<Rightarrow> dict \<Rightarrow> int option option" where
  "opt_int_field k d = (case jget k JNull d of JNull \<Rightarrow> Some None | JInt n \<Rightarrow> Some (Some n) | _ \<Rightarrow> None)"

definition dict_list :: "json list \<Rightarrow> dict list option" where
  "dict_list js = (if list_all (\<lambda>j. case j of JObj _ \<Rightarrow> True | _ \<Rightarrow> False) js
     then Some (map (\<lambda>j. case j of JObj d \<Rightarrow> d | _ \<Rightarrow> []) js) else None)"

definition invoke_body_of :: "dict \<Rightarrow> invoke_body option" where
  "invoke_body_of d =
    (case (uuid_field ''request_id'' d, uuid_field ''agent_invocation_id'' d, uuid_field ''workspace_id'' d,
           uuid_field ''correlation_id'' d, map_of d ''model_alias'', map_of d ''messages'') of
       (Some r, Some i, Some ws, Some corr, Some (JStr alias_name), Some (JList ms)) \<Rightarrow>
         (case (dict_list ms, opt_int_field ''max_tokens'' d, opt_int_field ''timeout_ms'' d, jget ''tools'' JNull d) of
            (Some messages, Some max_tokens, Some timeout, tools) \<Rightarrow>
              (case (case tools of JNull \<Rightarrow> Some None | JList ts \<Rightarrow> Some (Some ts) | _ \<Rightarrow> None) of
                 None \<Rightarrow> None
               | Some ts \<Rightarrow> Some \<lparr> ib_request = \<lparr> mq_request_id = r, mq_invocation_id = i, mq_workspace_id = ws,
                     mq_correlation_id = corr, mq_model_alias = alias_name, mq_max_tokens = max_tokens,
                     mq_temperature = (case jget ''temperature'' JNull d of JNull \<Rightarrow> None | t \<Rightarrow> Some t), mq_messages = messages,
                     mq_timeout_ms = 0, mq_tools = ts \<rparr>, ib_timeout_ms = timeout \<rparr>)
          | _ \<Rightarrow> None)
     | _ \<Rightarrow> None)"

text \<open>The gateway as the client's library call: the state is the clock and the usage records.  An exception of the
  gateway is an answer in plain text.\<close>

definition gateway_post ::
  "model_env \<Rightarrow> api_auth \<Rightarrow> (time \<Rightarrow> time) \<Rightarrow> gateway_call \<Rightarrow> time \<times> usage_record list \<Rightarrow> gateway_http \<times> time \<times> usage_record list" where
  "gateway_post env auth later c w =
    (case w of (now, us) \<Rightarrow>
      (case invoke_body_of (gc_body c) of
         None \<Rightarrow> (GH_Response 422 True [] (Some (JObj [(''detail'', JList [])])), later now, us)
       | Some b \<Rightarrow>
           (let (a, us') = invoke_model env auth now (gc_headers c) b us
            in (case a of Answer code body \<Rightarrow> GH_Response code (body \<noteq> None) [] body | No_Answer m \<Rightarrow> GH_Error m, later now, us'))))"

section \<open>Lemmas\<close>

lemma invoke_body_roundtrip:
  "invoke_body_of (invoke_request_body q) =
     (if (case mq_temperature q of None \<Rightarrow> True | Some t \<Rightarrow> t \<noteq> JNull)
      then Some \<lparr> ib_request = q\<lparr>mq_timeout_ms := 0, mq_tools := (if mq_tools q = Some [] then None else mq_tools q)\<rparr>,
                  ib_timeout_ms = None \<rparr>
      else Some \<lparr> ib_request = q\<lparr>mq_temperature := None, mq_timeout_ms := 0,
                    mq_tools := (if mq_tools q = Some [] then None else mq_tools q)\<rparr>, ib_timeout_ms = None \<rparr>)"
proof -
  have msgs: "dict_list (map JObj ms) = Some ms" for ms
    by (auto simp: dict_list_def list_all_iff map_idI)
  show ?thesis
    by (cases "mq_max_tokens q"; cases "mq_temperature q"; cases "mq_tools q")
       (auto simp: invoke_body_of_def invoke_request_body_def uuid_field_def opt_int_field_def jget_def msgs split: json.splits)
qed

definition sent_request :: "model_request \<Rightarrow> model_request" where
  "sent_request q = q\<lparr>mq_timeout_ms := 30000, mq_tools := (if mq_tools q = Some [] then None else mq_tools q)\<rparr>"

lemma sent_request_simps [simp]:
  "mq_request_id (sent_request q) = mq_request_id q" "mq_model_alias (sent_request q) = mq_model_alias q"
  "mq_messages (sent_request q) = mq_messages q" "mq_timeout_ms (sent_request q) = 30000"
  by (simp_all add: sent_request_def)

text \<open>What the client makes of an outcome of the service.\<close>

definition delivered_outcome :: "uuid \<Rightarrow> string + (model_error + model_result) \<Rightarrow> client_error + json" where
  "delivered_outcome i r = (case r of
       Inl _ \<Rightarrow> Inl (CE_Gateway (JStr ''HTTP_500'') (JStr []) (JBool False))
     | Inr (Inl e) \<Rightarrow> Inl (CE_Gateway (JStr (me_error_code e)) (JStr (me_error_message e)) (JBool (me_retryable e)))
     | Inr (Inr m) \<Rightarrow> if response_valid m then Inr (JObj (model_result_dict i m))
                      else Inl (CE_Gateway (JStr ''HTTP_500'') (JStr []) (JBool False)))"

lemma http_500: "error_of_detail 500 [] (JObj []) = CE_Gateway (JStr ''HTTP_500'') (JStr []) (JBool False)"
proof -
  have "str_int 500 = ''500''" by code_simp
  then show ?thesis by (simp add: error_of_detail_def jget_def Let_def is_retryable_status_code_def)
qed

lemma error_status_not_ok: "error_status_code c \<noteq> 200"
  by (simp add: error_status_code_def)

lemma invoke_model_delivered:
  assumes "guard_service auth now ''agent-runtime'' headers = Inr ()" "invoke_body_valid b"
  shows "gateway_result (case fst (invoke_model env auth now headers b us) of
           Answer code body \<Rightarrow> GH_Response code (body \<noteq> None) [] body | No_Answer m \<Rightarrow> GH_Error m) =
         delivered_outcome (mq_request_id (ib_request b))
           (fst (execute_model env ((ib_request b)\<lparr>mq_timeout_ms := opt_or (ib_timeout_ms b) 30000\<rparr>) us))"
    and "snd (invoke_model env auth now headers b us) =
         snd (execute_model env ((ib_request b)\<lparr>mq_timeout_ms := opt_or (ib_timeout_ms b) 30000\<rparr>) us)"
proof -
  let ?q = "(ib_request b)\<lparr>mq_timeout_ms := opt_or (ib_timeout_ms b) 30000\<rparr>"
  have run: "invoke_model env auth now headers b us =
      (case fst (execute_model env ?q us) of
         Inl _ \<Rightarrow> Answer 500 None
       | Inr (Inl e) \<Rightarrow> Answer (error_status_code (me_error_code e)) (Some (JObj [(''detail'', JObj (model_error_dict (mq_request_id ?q) e))]))
       | Inr (Inr m) \<Rightarrow> if response_valid m then Answer 200 (Some (JObj (model_result_dict (mq_request_id ?q) m))) else Answer 500 None,
       snd (execute_model env ?q us))"
    using assms by (simp add: invoke_model_def Let_def case_prod_beta)
  show "snd (invoke_model env auth now headers b us) = snd (execute_model env ?q us)" by (simp add: run)
  show "gateway_result (case fst (invoke_model env auth now headers b us) of
           Answer code body \<Rightarrow> GH_Response code (body \<noteq> None) [] body | No_Answer m \<Rightarrow> GH_Error m) =
         delivered_outcome (mq_request_id (ib_request b)) (fst (execute_model env ?q us))"
    using error_status_not_ok http_500
    by (simp add: run delivered_outcome_def gateway_result_def error_detail_def jget_def split: sum.split)
       (simp add: error_of_detail_def model_error_dict_def jget_def Let_def)
qed

section \<open>Properties\<close>


lemma bridge_result_cases:
  obtains (raised) x where "bridge_result model out = Inl (PE_Uncaught x)"
  | (answered) p code raw d where "bridge_result model out = Inr p" "out = PH_Response code raw (Some (JObj d))" "200 \<le> code" "code < 300"
      "\<not> json_truthy (jget ''is_error'' JNull d)" "ps_tool_calls p = None" "ps_finish_reason p = JStr ''stop''"
      "ps_prompt_tokens p = JInt 0" "ps_completion_tokens p = JInt 0" "ps_output_text p = jget ''output_text'' (JStr []) d"
proof (cases out)
  case (PH_Response code raw data)
  show thesis
  proof (cases "(code < 200 \<or> 300 \<le> code) \<or> (\<forall>d. data = Some (JObj d) \<longrightarrow> json_truthy (jget ''is_error'' JNull d))")
    case True
    have "\<exists>x. bridge_result model out = Inl (PE_Uncaught x)"
      using True PH_Response
      by (cases data; cases "the data") (auto simp: bridge_result_def)
    then show thesis using raised by blast
  next
    case False
    then obtain d where "data = Some (JObj d)" "\<not> json_truthy (jget ''is_error'' JNull d)" "200 \<le> code" "code < 300" by auto
    then show thesis using answered PH_Response by (simp add: bridge_result_def)
  qed
qed (use raised in \<open>auto simp: bridge_result_def\<close>)

lemma bridge_call_cases:
  obtains (raised) x where "bridge_call env c q = Inl (PE_Uncaught x)"
  | (answered) p prompt code raw d where "bridge_call env c q = Inr p"
      "mv_post env (bridge_request c q prompt) = PH_Response code raw (Some (JObj d))" "200 \<le> code" "code < 300"
      "\<not> json_truthy (jget ''is_error'' JNull d)" "ps_tool_calls p = None" "ps_finish_reason p = JStr ''stop''"
      "ps_prompt_tokens p = JInt 0" "ps_completion_tokens p = JInt 0" "ps_output_text p = jget ''output_text'' (JStr []) d"
proof (cases "messages_to_prompt (mv_lib env) (mq_messages q)")
  case None
  then show thesis using raised by (simp add: bridge_call_def)
next
  case (Some prompt)
  then have "bridge_call env c q = bridge_result (bridge_model (pc_model_name c)) (mv_post env (bridge_request c q prompt))"
    by (simp add: bridge_call_def)
  then show thesis
    by (cases rule: bridge_result_cases [of "bridge_model (pc_model_name c)" "mv_post env (bridge_request c q prompt)"])
       (auto intro: that)
qed

text \<open>A provider of the claude bridge never fails in the way the service handles: the outcome is a result only if
  the bridge answered so, and it has no tool calls and no tokens counted; any other outcome is an exception that
  leaves the service, with no record of the call.\<close>

theorem bridge_failures_escape:
  assumes "resolve_config env (mq_model_alias q) = Inr c" "pc_provider_name c = ''claude_code_cli''"
    and "execute_model env q us = (r, us')"
  shows "case r of
      Inl _ \<Rightarrow> us' = us
    | Inr (Inl _) \<Rightarrow> False
    | Inr (Inr m) \<Rightarrow> mr_tool_calls m = None \<and> mr_finish_reason m = JStr ''stop'' \<and> mr_prompt_tokens m = JInt 0
        \<and> mr_completion_tokens m = JInt 0
        \<and> (\<exists>prompt code raw d. mv_post env (bridge_request c q prompt) = PH_Response code raw (Some (JObj d)) \<and> 200 \<le> code
             \<and> code < 300 \<and> \<not> json_truthy (jget ''is_error'' JNull d) \<and> mr_output_text m = jget ''output_text'' (JStr []) d)"
proof -
  have call: "call_provider env c q = bridge_call env c q" using assms(2) by (simp add: call_provider_def)
  show ?thesis
  proof (cases rule: bridge_call_cases [of env c q])
    case raised
    then show ?thesis using assms(1,3) call by (auto simp: execute_model_def)
  next
    case (answered p prompt code raw d)
    then have "\<exists>prompt code raw d. mv_post env (bridge_request c q prompt) = PH_Response code raw (Some (JObj d)) \<and> 200 \<le> code
        \<and> code < 300 \<and> \<not> json_truthy (jget ''is_error'' JNull d) \<and> ps_output_text p = jget ''output_text'' (JStr []) d"
      by blast
    moreover obtain m where "r = Inr (Inr m)" "mr_tool_calls m = ps_tool_calls p" "mr_finish_reason m = ps_finish_reason p"
      "mr_prompt_tokens m = ps_prompt_tokens p" "mr_completion_tokens m = ps_completion_tokens p"
      "mr_output_text m = ps_output_text p"
      using assms(1,3) call answered(1) by (auto simp: execute_model_def Let_def)
    ultimately show ?thesis using answered(6-9) by simp
  qed
qed

section \<open>Witnesses\<close>

definition demo_model_environ :: "string \<Rightarrow> string option" where
  "demo_model_environ = map_of [(''MODEL_GW_ALIAS_A_PROVIDER'', ''openai''), (''MODEL_GW_ALIAS_A_MODEL'', ''m''),
     (''MODEL_GW_PROVIDER_OPENAI_ENDPOINT'', ''http://p''), (''MODEL_GW_PROVIDER_OPENAI_API_KEY'', ''k''),
     (''MODEL_GW_ALIAS_B_PROVIDER'', ''claude_code_cli''), (''MODEL_GW_PROVIDER_CLAUDE_CODE_CLI_ENDPOINT'', ''http://b'')]"

definition demo_model_env :: model_env where
  "demo_model_env = \<lparr> mv_lib = \<lparr> jl_loads = (\<lambda>_. None), jl_dumps = (\<lambda>_. []), jl_repr = (\<lambda>_. []) \<rparr>,
     mv_environ = demo_model_environ, mv_post = (\<lambda>_. PH_Timeout), mv_usage_fails = False \<rparr>"

definition demo_model_request :: "string \<Rightarrow> model_request" where
  "demo_model_request a = \<lparr> mq_request_id = 1, mq_invocation_id = 2, mq_workspace_id = 3, mq_correlation_id = 4,
     mq_model_alias = a, mq_max_tokens = None, mq_temperature = None,
     mq_messages = [[(''role'', JStr ''user''), (''content'', JStr ''hi'')]], mq_timeout_ms = 60000, mq_tools = None \<rparr>"

definition demo_model_auth :: api_auth where
  "demo_model_auth = \<lparr> aa_jwt = \<lparr> jl_encode = (\<lambda>_ _. ''t''),
       jl_decode = (\<lambda>_ _ _ _ _. Inr [(''sub'', JStr ''agent-runtime''), (''aud'', JStr ''model-gateway''), (''iss'', JStr ''i''),
         (''iat'', JInt 0), (''exp'', JInt 60), (''service_name'', JStr ''agent-runtime'')]) \<rparr>,
     aa_verifier = \<lparr> tv_secret = ''s3cret'', tv_expected_audience = ''model-gateway'', tv_issuer = ''i'' \<rparr>,
     aa_bearer = header_value ''authorization'' \<rparr>"


theorem bridge_failures_escape_witness:
  "snd (execute_model demo_model_env (demo_model_request ''b'') []) = []"
proof -
  obtain r us' where run: "execute_model demo_model_env (demo_model_request ''b'') [] = (r, us')" by (rule prod.exhaust)
  have config: "resolve_config demo_model_env (mq_model_alias (demo_model_request ''b'')) =
      Inr \<lparr> pc_provider_name = ''claude_code_cli'', pc_endpoint_url = ''http://b'', pc_api_key = [], pc_model_name = ''b'', pc_is_active = True \<rparr>"
    by code_simp
  have "\<not> is_ok r"
  proof -
    have "\<not> is_ok (fst (execute_model demo_model_env (demo_model_request ''b'') []))" by code_simp
    then show ?thesis by (simp add: run)
  qed
  then obtain x where "r = Inl x" by (cases r) auto
  then show ?thesis using bridge_failures_escape [OF config _ run] by (simp add: run)
qed

end
