(* ===== verification/Integrations.thy ===== *)
theory Integrations
  imports Prelude
begin

text \<open>
  The integration configurations of a workspace (\<open>apps/model-gateway\<close>): \<open>infrastructure/db/integration_repository.py\<close>
  with the constraints of its table, \<open>application/integration_service.py\<close> and \<open>api/integration_routes.py\<close>.
\<close>

record integration =
  ig_id :: uuid
  ig_workspace_id :: uuid
  ig_name :: string
  ig_integration_type :: string
  ig_provider_kind :: string
  ig_endpoint_url :: "string option"
  ig_default_model :: "string option"
  ig_api_key_secret_ref :: "string option"
  ig_description :: string
  ig_is_enabled :: bool
  ig_created_by_id :: string
  ig_created_at :: time
  ig_updated_at :: time

type_synonym integration_db = "integration list"

definition valid_integration_types :: "string set" where "valid_integration_types = {''llm_provider''}"

definition valid_provider_kinds :: "string set" where
  "valid_provider_kinds = {''openai'', ''anthropic'', ''azure_openai'', ''custom''}"

datatype integration_error = IE_Not_Found uuid | IE_Value_Error string | IE_Integrity string

section \<open>Repository\<close>

definition owned_integration :: "uuid \<Rightarrow> uuid \<Rightarrow> integration \<Rightarrow> bool" where
  "owned_integration k ws i = (ig_id i = k \<and> ig_workspace_id i = ws)"

definition integrations_find_by_workspace :: "uuid \<Rightarrow> int \<Rightarrow> int \<Rightarrow> integration_db \<Rightarrow> integration list" where
  "integrations_find_by_workspace ws limit offset db =
     take (nat (min (max limit 1) 200)) (drop (nat (max offset 0))
       (sort_key (\<lambda>i. - ig_created_at i) (filter (\<lambda>i. ig_workspace_id i = ws) db)))"

definition integration_find_by_id :: "uuid \<Rightarrow> uuid \<Rightarrow> integration_db \<Rightarrow> integration option" where
  "integration_find_by_id k ws db = find (owned_integration k ws) db"

definition integration_insert :: "integration \<Rightarrow> integration_db \<Rightarrow> integration_error + integration_db" where
  "integration_insert i db =
    (if ig_id i \<in> ig_id ` set db then Inl (IE_Integrity ''workspace_integrations_pkey'') else Inr (db @ [i]))"

text \<open>One assignment of the \<open>SET\<close> clause; a field the repository does not know is left out of it, and \<open>null\<close> in a
  column that takes none is a violation.\<close>

definition set_opt_text :: "(string option \<Rightarrow> integration \<Rightarrow> integration) \<Rightarrow> json \<Rightarrow> integration \<Rightarrow> integration_error + integration" where
  "set_opt_text f v i = (case v of JNull \<Rightarrow> Inr (f None i) | JStr s \<Rightarrow> Inr (f (Some s) i) | _ \<Rightarrow> Inl (IE_Integrity ''type''))"

definition set_text :: "(string \<Rightarrow> integration \<Rightarrow> integration) \<Rightarrow> json \<Rightarrow> integration \<Rightarrow> integration_error + integration" where
  "set_text f v i = (case v of JStr s \<Rightarrow> Inr (f s i) | _ \<Rightarrow> Inl (IE_Integrity ''not null''))"

definition set_integration_field :: "string \<times> json \<Rightarrow> integration \<Rightarrow> integration_error + integration" where
  "set_integration_field kv i = (case kv of (k, v) \<Rightarrow>
     if k = ''name'' then set_text (\<lambda>s. ig_name_update (\<lambda>_. s)) v i
     else if k = ''integration_type'' then set_text (\<lambda>s. ig_integration_type_update (\<lambda>_. s)) v i
     else if k = ''provider_kind'' then set_text (\<lambda>s. ig_provider_kind_update (\<lambda>_. s)) v i
     else if k = ''endpoint_url'' then set_opt_text (\<lambda>s. ig_endpoint_url_update (\<lambda>_. s)) v i
     else if k = ''default_model'' then set_opt_text (\<lambda>s. ig_default_model_update (\<lambda>_. s)) v i
     else if k = ''api_key_secret_ref'' then set_opt_text (\<lambda>s. ig_api_key_secret_ref_update (\<lambda>_. s)) v i
     else if k = ''description'' then set_text (\<lambda>s. ig_description_update (\<lambda>_. s)) v i
     else if k = ''is_enabled'' then (case v of JBool b \<Rightarrow> Inr (i\<lparr>ig_is_enabled := b\<rparr>) | _ \<Rightarrow> Inl (IE_Integrity ''not null''))
     else Inr i)"

fun set_integration_fields :: "dict \<Rightarrow> integration \<Rightarrow> integration_error + integration" where
  "set_integration_fields [] i = Inr i"
| "set_integration_fields (kv # kvs) i = rbind (set_integration_field kv i) (set_integration_fields kvs)"

text \<open>\<open>UPDATE ... RETURNING\<close>: the row and the table, if the row is there.\<close>

definition replace_integration :: "integration \<Rightarrow> integration_db \<Rightarrow> integration_db" where
  "replace_integration i db = map (\<lambda>j. if owned_integration (ig_id i) (ig_workspace_id i) j then i else j) db"

definition integration_update ::
  "time \<Rightarrow> uuid \<Rightarrow> dict \<Rightarrow> uuid \<Rightarrow> integration_db \<Rightarrow> integration_error + (integration \<times> integration_db) option" where
  "integration_update now k updates ws db =
    (case integration_find_by_id k ws db of
       None \<Rightarrow> Inr None
     | Some i \<Rightarrow> rbind (set_integration_fields updates (i\<lparr>ig_updated_at := now\<rparr>)) (\<lambda>i'. Inr (Some (i', replace_integration i' db))))"

definition integration_delete :: "uuid \<Rightarrow> uuid \<Rightarrow> integration_db \<Rightarrow> bool \<times> integration_db" where
  "integration_delete k ws db = (list_ex (owned_integration k ws) db, filter (\<lambda>i. \<not> owned_integration k ws i) db)"

definition toggle_enabled :: "time \<Rightarrow> uuid \<Rightarrow> uuid \<Rightarrow> integration_db \<Rightarrow> (integration \<times> integration_db) option" where
  "toggle_enabled now k ws db =
     map_option (\<lambda>i. let i' = i\<lparr>ig_is_enabled := \<not> ig_is_enabled i, ig_updated_at := now\<rparr> in (i', replace_integration i' db))
       (integration_find_by_id k ws db)"

section \<open>Service\<close>

record create_integration_request =
  ci_name :: string
  ci_integration_type :: string
  ci_provider_kind :: string
  ci_endpoint_url :: "string option"
  ci_default_model :: "string option"
  ci_api_key_secret_ref :: "string option"
  ci_description :: "string option"
  ci_is_enabled :: bool

definition create_integration ::
  "uuid \<Rightarrow> time \<Rightarrow> uuid \<Rightarrow> string \<Rightarrow> create_integration_request \<Rightarrow> integration_db
   \<Rightarrow> integration_error + integration \<times> integration_db" where
  "create_integration k now ws created_by q db =
    (if ci_integration_type q \<notin> valid_integration_types then Inl (IE_Value_Error ''integration_type'')
     else if ci_provider_kind q \<notin> valid_provider_kinds then Inl (IE_Value_Error ''provider_kind'')
     else
       let i = \<lparr> ig_id = k, ig_workspace_id = ws, ig_name = ci_name q, ig_integration_type = ci_integration_type q,
             ig_provider_kind = ci_provider_kind q, ig_endpoint_url = ci_endpoint_url q, ig_default_model = ci_default_model q,
             ig_api_key_secret_ref = ci_api_key_secret_ref q, ig_description = opt_or (ci_description q) [],
             ig_is_enabled = ci_is_enabled q, ig_created_by_id = created_by, ig_created_at = now, ig_updated_at = now \<rparr>
       in rbind (integration_insert i db) (\<lambda>db'. Inr (i, db')))"

definition get_integration :: "uuid \<Rightarrow> uuid \<Rightarrow> integration_db \<Rightarrow> integration_error + integration" where
  "get_integration k ws db = (case integration_find_by_id k ws db of None \<Rightarrow> Inl (IE_Not_Found k) | Some i \<Rightarrow> Inr i)"

definition bad_member :: "string \<Rightarrow> string set \<Rightarrow> dict \<Rightarrow> bool" where
  "bad_member k good updates = list_ex (\<lambda>(j, v). j = k \<and> v \<notin> JStr ` good) updates"

definition update_integration ::
  "time \<Rightarrow> uuid \<Rightarrow> dict \<Rightarrow> uuid \<Rightarrow> integration_db \<Rightarrow> integration_error + integration \<times> integration_db" where
  "update_integration now k updates ws db =
    (if bad_member ''integration_type'' valid_integration_types updates then Inl (IE_Value_Error ''integration_type'')
     else if bad_member ''provider_kind'' valid_provider_kinds updates then Inl (IE_Value_Error ''provider_kind'')
     else rbind (integration_update now k updates ws db) (\<lambda>r.
       case r of None \<Rightarrow> Inl (IE_Not_Found k) | Some x \<Rightarrow> Inr x))"

definition delete_integration :: "uuid \<Rightarrow> uuid \<Rightarrow> integration_db \<Rightarrow> integration_error + integration_db" where
  "delete_integration k ws db = (let (deleted, db') = integration_delete k ws db in if deleted then Inr db' else Inl (IE_Not_Found k))"

definition toggle_integration :: "time \<Rightarrow> uuid \<Rightarrow> uuid \<Rightarrow> integration_db \<Rightarrow> integration_error + integration \<times> integration_db" where
  "toggle_integration now k ws db = (case toggle_enabled now k ws db of None \<Rightarrow> Inl (IE_Not_Found k) | Some r \<Rightarrow> Inr r)"

section \<open>Endpoints\<close>

datatype integration_failure = IF_Http int | IF_Raised

definition integration_failed :: "integration_error \<Rightarrow> integration_failure" where
  "integration_failed e = (case e of IE_Not_Found _ \<Rightarrow> IF_Http 404 | IE_Value_Error _ \<Rightarrow> IF_Http 400 | IE_Integrity _ \<Rightarrow> IF_Raised)"

definition failed_as :: "integration_error + 'a \<Rightarrow> integration_failure + 'a" where
  "failed_as r = map_sum integration_failed id r"

definition short :: "nat \<Rightarrow> string option \<Rightarrow> bool" where
  "short n s = (case s of None \<Rightarrow> True | Some t \<Rightarrow> length t \<le> n)"

definition create_request_valid :: "create_integration_request \<Rightarrow> bool" where
  "create_request_valid q = (ci_name q \<noteq> [] \<and> length (ci_name q) \<le> 200 \<and> ci_integration_type q \<in> valid_integration_types
     \<and> ci_provider_kind q \<in> valid_provider_kinds \<and> short 500 (ci_endpoint_url q) \<and> short 100 (ci_default_model q)
     \<and> short 200 (ci_api_key_secret_ref q) \<and> short 2000 (ci_description q))"

text \<open>\<open>UpdateIntegrationRequest\<close> with \<open>exclude_unset\<close>: the known fields the body sets; None is a 422.\<close>

definition field_valid :: "string \<times> json \<Rightarrow> bool" where
  "field_valid kv = (case kv of (k, v) \<Rightarrow> (case v of
       JNull \<Rightarrow> True
     | JStr s \<Rightarrow> (k = ''name'' \<and> s \<noteq> [] \<and> length s \<le> 200) \<or> (k = ''integration_type'' \<and> s \<in> valid_integration_types)
         \<or> (k = ''provider_kind'' \<and> s \<in> valid_provider_kinds) \<or> (k = ''endpoint_url'' \<and> length s \<le> 500)
         \<or> (k = ''default_model'' \<and> length s \<le> 100) \<or> (k = ''api_key_secret_ref'' \<and> length s \<le> 200)
         \<or> (k = ''description'' \<and> length s \<le> 2000)
     | JBool _ \<Rightarrow> k = ''is_enabled''
     | _ \<Rightarrow> False))"

definition update_fields_of :: "dict \<Rightarrow> dict option" where
  "update_fields_of body =
    (let fields = filter (\<lambda>kv. fst kv \<in> {''name'', ''integration_type'', ''provider_kind'', ''endpoint_url'', ''default_model'',
           ''api_key_secret_ref'', ''description'', ''is_enabled''}) body
     in if list_all field_valid fields then Some fields else None)"

definition list_integrations_endpoint :: "uuid \<Rightarrow> int \<Rightarrow> int \<Rightarrow> integration_db \<Rightarrow> integration list" where
  "list_integrations_endpoint ws limit offset db =
     integrations_find_by_workspace ws (max 1 (min limit 200)) (max 0 (min offset 10000)) db"

definition create_integration_endpoint ::
  "(string \<Rightarrow> string option) \<Rightarrow> uuid \<Rightarrow> time \<Rightarrow> uuid \<Rightarrow> string option \<Rightarrow> create_integration_request \<Rightarrow> integration_db
   \<Rightarrow> integration_failure + integration \<times> integration_db" where
  "create_integration_endpoint canonical k now ws user q db =
    (if \<not> create_request_valid q then Inl (IF_Http 422)
     else if \<not> str_truthy user then Inl (IF_Http 400)
     else case canonical (the user) of
       None \<Rightarrow> Inl (IF_Http 400)
     | Some uid \<Rightarrow> failed_as (create_integration k now ws uid q db))"

definition get_integration_endpoint :: "uuid \<Rightarrow> uuid \<Rightarrow> integration_db \<Rightarrow> integration_failure + integration" where
  "get_integration_endpoint ws k db = failed_as (get_integration k ws db)"

definition update_integration_endpoint ::
  "time \<Rightarrow> uuid \<Rightarrow> uuid \<Rightarrow> dict \<Rightarrow> integration_db \<Rightarrow> integration_failure + integration \<times> integration_db" where
  "update_integration_endpoint now ws k body db =
    (case update_fields_of body of
       None \<Rightarrow> Inl (IF_Http 422)
     | Some updates \<Rightarrow> if updates = [] then Inl (IF_Http 400) else failed_as (update_integration now k updates ws db))"

definition delete_integration_endpoint :: "uuid \<Rightarrow> uuid \<Rightarrow> integration_db \<Rightarrow> integration_failure + integration_db" where
  "delete_integration_endpoint ws k db = failed_as (delete_integration k ws db)"

definition toggle_integration_endpoint ::
  "time \<Rightarrow> uuid \<Rightarrow> uuid \<Rightarrow> integration_db \<Rightarrow> integration_failure + integration \<times> integration_db" where
  "toggle_integration_endpoint now ws k db = failed_as (toggle_integration now k ws db)"

text \<open>The requests that change something, and the table after one.\<close>

datatype integration_request =
    IR_Create uuid "string option" create_integration_request
  | IR_Update uuid dict
  | IR_Delete uuid
  | IR_Toggle uuid

definition serve_integration ::
  "(string \<Rightarrow> string option) \<Rightarrow> time \<Rightarrow> uuid \<Rightarrow> integration_request \<Rightarrow> integration_db \<Rightarrow> integration_failure option \<times> integration_db" where
  "serve_integration canonical now ws r db =
    (case (case r of
         IR_Create k user q \<Rightarrow> map_sum id snd (create_integration_endpoint canonical k now ws user q db)
       | IR_Update k body \<Rightarrow> map_sum id snd (update_integration_endpoint now ws k body db)
       | IR_Delete k \<Rightarrow> delete_integration_endpoint ws k db
       | IR_Toggle k \<Rightarrow> map_sum id snd (toggle_integration_endpoint now ws k db)) of
       Inl e \<Rightarrow> (Some e, db) | Inr db' \<Rightarrow> (None, db'))"

section \<open>Lemmas\<close>

definition integration_typed :: "integration \<Rightarrow> bool" where
  "integration_typed i = (ig_integration_type i \<in> valid_integration_types \<and> ig_provider_kind i \<in> valid_provider_kinds)"

lemma set_field_frame:
  assumes "set_integration_field (k, v) i = Inr i'"
  shows "ig_id i' = ig_id i" "ig_workspace_id i' = ig_workspace_id i"
    and "ig_integration_type i' = (if k = ''integration_type'' then (case v of JStr s \<Rightarrow> s | _ \<Rightarrow> []) else ig_integration_type i)"
    and "ig_provider_kind i' = (if k = ''provider_kind'' then (case v of JStr s \<Rightarrow> s | _ \<Rightarrow> []) else ig_provider_kind i)"
  using assms
  by (auto simp: set_integration_field_def set_text_def set_opt_text_def split: if_splits json.splits)

lemma set_fields_frame:
  assumes "set_integration_fields kvs i = Inr i'"
  shows "ig_id i' = ig_id i \<and> ig_workspace_id i' = ig_workspace_id i
    \<and> (list_all field_valid kvs \<longrightarrow> (\<forall>v. (''integration_type'', v) \<in> set kvs \<longrightarrow> v \<noteq> JNull)
        \<longrightarrow> (\<forall>v. (''provider_kind'', v) \<in> set kvs \<longrightarrow> v \<noteq> JNull) \<longrightarrow> integration_typed i \<longrightarrow> integration_typed i')"
  using assms
proof (induction kvs arbitrary: i)
  case (Cons kv kvs)
  obtain k v where kv: "kv = (k, v)" by (cases kv)
  obtain j where j: "set_integration_field (k, v) i = Inr j" "set_integration_fields kvs j = Inr i'"
    using Cons.prems kv by (auto simp: rbind_Inr_iff)
  note f = set_field_frame [OF j(1)]
  have "integration_typed j" if "field_valid (k, v)" "k = ''integration_type'' \<or> k = ''provider_kind'' \<longrightarrow> v \<noteq> JNull" "integration_typed i"
    using that f(3,4) by (auto simp: integration_typed_def field_valid_def split: json.splits if_splits)
  then show ?case using Cons.IH [OF j(2)] f(1,2) kv by auto
qed simp

lemma find_owned: "integration_find_by_id k ws db = Some i \<Longrightarrow> i \<in> set db \<and> ig_id i = k \<and> ig_workspace_id i = ws"
  by (auto simp: integration_find_by_id_def owned_integration_def dest: find_SomeD)

lemma replace_others:
  "ig_workspace_id i = ws \<Longrightarrow> filter (\<lambda>j. ig_workspace_id j \<noteq> ws) (replace_integration i db) = filter (\<lambda>j. ig_workspace_id j \<noteq> ws) db"
  by (induction db) (auto simp: replace_integration_def owned_integration_def)

lemma replace_typed:
  "integration_typed i \<Longrightarrow> list_all integration_typed db \<Longrightarrow> list_all integration_typed (replace_integration i db)"
  by (auto simp: replace_integration_def list_all_iff)

lemma failed_as_Inr: "failed_as r = Inr x \<longleftrightarrow> r = Inr x"
  by (cases r) (simp_all add: failed_as_def)

lemma updated_integration:
  assumes "update_integration_endpoint now ws k body db = Inr (i', db')"
  shows "\<exists>i. integration_find_by_id k ws db = Some i \<and> db' = replace_integration i' db \<and> ig_workspace_id i' = ws
    \<and> (integration_typed i \<longrightarrow> integration_typed i')"
proof -
  from assms obtain us where us: "update_fields_of body = Some us" "update_integration now k us ws db = Inr (i', db')"
    by (auto simp: update_integration_endpoint_def failed_as_Inr split: option.splits if_splits)
  then have ok: "\<not> bad_member ''integration_type'' valid_integration_types us" "\<not> bad_member ''provider_kind'' valid_provider_kinds us"
    "integration_update now k us ws db = Inr (Some (i', db'))"
    by (auto simp: update_integration_def rbind_Inr_iff split: if_splits option.splits)
  then obtain i where i: "integration_find_by_id k ws db = Some i" "set_integration_fields us (i\<lparr>ig_updated_at := now\<rparr>) = Inr i'"
    "db' = replace_integration i' db"
    by (auto simp: integration_update_def rbind_Inr_iff split: option.splits)
  have "list_all field_valid us" using us(1) by (auto simp: update_fields_of_def Let_def split: if_splits)
  moreover have "v \<noteq> JNull" if "(''integration_type'', v) \<in> set us \<or> (''provider_kind'', v) \<in> set us" for v
    using that ok(1,2) by (auto simp: bad_member_def list_ex_iff)
  moreover have "integration_typed (i\<lparr>ig_updated_at := now\<rparr>) = integration_typed i" by (simp add: integration_typed_def)
  moreover note set_fields_frame [OF i(2)]
  ultimately show ?thesis using i find_owned [OF i(1)] by simp
qed

lemma update_isolated:
  assumes "update_integration_endpoint now ws k body db = Inr (i', db')"
  shows "filter (\<lambda>i. ig_workspace_id i \<noteq> ws) db' = filter (\<lambda>i. ig_workspace_id i \<noteq> ws) db"
    "list_all integration_typed db \<Longrightarrow> list_all integration_typed db'"
proof -
  obtain i where i: "integration_find_by_id k ws db = Some i" "db' = replace_integration i' db" "ig_workspace_id i' = ws"
    "integration_typed i \<longrightarrow> integration_typed i'" using updated_integration [OF assms] by blast
  show "filter (\<lambda>i. ig_workspace_id i \<noteq> ws) db' = filter (\<lambda>i. ig_workspace_id i \<noteq> ws) db"
    unfolding i(2) by (rule replace_others [OF i(3)])
  show "list_all integration_typed db'" if "list_all integration_typed db"
    using that i(2,4) find_owned [OF i(1)] replace_typed [of i' db] by (auto simp: list_all_iff)
qed

section \<open>Properties\<close>

text \<open>A request for the integrations of one workspace: a refusal changes nothing, no configuration of another
  workspace changes, and every stored configuration keeps a known type and a known kind of provider.\<close>

theorem integrations_isolated:
  assumes "serve_integration canonical now ws r db = (e, db')"
  shows "(e \<noteq> None \<longrightarrow> db' = db)
    \<and> filter (\<lambda>i. ig_workspace_id i \<noteq> ws) db' = filter (\<lambda>i. ig_workspace_id i \<noteq> ws) db
    \<and> (list_all integration_typed db \<longrightarrow> list_all integration_typed db')"
proof (cases r)
  case (IR_Create k user q)
  then show ?thesis
    using assms by (auto simp: serve_integration_def create_integration_endpoint_def failed_as_def create_integration_def
        integration_insert_def rbind_def integration_typed_def Let_def split: if_splits option.splits sum.splits)
next
  case (IR_Update k body)
  then show ?thesis
    using assms update_isolated by (cases "update_integration_endpoint now ws k body db") (auto simp: serve_integration_def)
next
  case (IR_Delete k)
  then show ?thesis
    using assms by (auto simp: serve_integration_def delete_integration_endpoint_def failed_as_def delete_integration_def
        integration_delete_def owned_integration_def list_all_iff intro: filter_cong split: if_splits sum.splits)
next
  case (IR_Toggle k)
  have "filter (\<lambda>i. ig_workspace_id i \<noteq> ws) db1 = filter (\<lambda>i. ig_workspace_id i \<noteq> ws) db
      \<and> (list_all integration_typed db \<longrightarrow> list_all integration_typed db1)"
    if t: "toggle_enabled now k ws db = Some (i1, db1)" for i1 db1
  proof -
    obtain i where i: "integration_find_by_id k ws db = Some i" "i1 = i\<lparr>ig_is_enabled := \<not> ig_is_enabled i, ig_updated_at := now\<rparr>"
      "db1 = replace_integration i1 db" using t by (auto simp: toggle_enabled_def Let_def)
    then have "ig_workspace_id i1 = ws" "integration_typed i1 = integration_typed i"
      using find_owned [OF i(1)] by (simp_all add: integration_typed_def)
    then show ?thesis
      using i(3) replace_others [of i1 ws db] replace_typed [of i1 db] find_owned [OF i(1)] by (auto simp: list_all_iff)
  qed
  then show ?thesis
    using IR_Toggle assms by (auto simp: serve_integration_def toggle_integration_endpoint_def failed_as_def
        toggle_integration_def split: option.splits)
qed

end
