(* ===== verification/Exec_Routes.thy ===== *)
theory Exec_Routes
  imports Terminal_Service Service_Http
begin

text \<open>
  The internal endpoints of the execution service: \<open>api/routes.py\<close> and \<open>api/terminal_routes.py\<close>, with the
  dictionaries of \<open>domain/contracts.py\<close> and \<open>domain/terminal_contracts.py\<close>.  An endpoint gives its failure or
  its JSON answer, and the database it leaves behind.  The reading of the texts of UUIDs is a parameter; an id
  written out is the id itself, and an instant stands for its ISO text.
\<close>

section \<open>Bodies\<close>

record exec_api_env =
  xa_auth :: api_auth
  xa_uuid_of :: "string \<Rightarrow> uuid option"
  xa_uuid_str :: "uuid \<Rightarrow> string"
  xa_backend :: backend_env
  xa_tool :: tool_env

text \<open>\<open>UUID(x)\<close>: a text that is none is a \<open>ValueError\<close>, which the endpoints answer with 400; a value that is no
  text raises something else.\<close>

definition path_id :: "exec_api_env \<Rightarrow> string \<Rightarrow> api_failure + uuid" where
  "path_id env s = (case xa_uuid_of env s of None \<Rightarrow> Inl (AF_Http 400) | Some k \<Rightarrow> Inr k)"

definition id_field :: "exec_api_env \<Rightarrow> string \<Rightarrow> dict \<Rightarrow> api_failure + uuid" where
  "id_field env k d = (case jget k JNull d of JUuid i \<Rightarrow> Inr i | JStr s \<Rightarrow> path_id env s | _ \<Rightarrow> Inl AF_Raised)"

text \<open>A dictionary or a number of another type than the contract declares is not refused when a request is read.
  An operation on it raises later, with the exceptions of an attempt index and of the three policies of a sandbox,
  which are assumed to have their types: here every such value raises at once.  A number may be a boolean, which
  counts as 0 or 1.\<close>

definition dict_field :: "string \<Rightarrow> dict \<Rightarrow> api_failure + dict" where
  "dict_field k d = (case jget k (JObj []) d of JObj x \<Rightarrow> Inr x | _ \<Rightarrow> Inl AF_Raised)"

definition int_field :: "string \<Rightarrow> int \<Rightarrow> dict \<Rightarrow> api_failure + int" where
  "int_field k dflt d = (case jget k (JInt dflt) d of
       JInt n \<Rightarrow> Inr n | JBool b \<Rightarrow> Inr (if b then 1 else 0) | _ \<Rightarrow> Inl AF_Raised)"

section \<open>Contracts\<close>

definition provision_fields :: "string list" where
  "provision_fields = [''workspace_id'', ''task_id'', ''run_id'', ''step_id'', ''agent_invocation_id'', ''sandbox_type'']"

text \<open>\<open>SandboxType(x)\<close> of a value that is no text is a \<open>ValueError\<close> like that of an unknown text.\<close>

definition provision_request_from_dict :: "exec_api_env \<Rightarrow> dict \<Rightarrow> api_failure + provision_request" where
  "provision_request_from_dict env d =
    rbind (id_field env ''workspace_id'' d) (\<lambda>ws.
    rbind (id_field env ''task_id'' d) (\<lambda>task.
    rbind (id_field env ''run_id'' d) (\<lambda>run_id.
    rbind (id_field env ''step_id'' d) (\<lambda>step.
    rbind (id_field env ''agent_invocation_id'' d) (\<lambda>ivk.
    rbind (case jget ''sandbox_type'' JNull d of JStr s \<Rightarrow> Inr s | _ \<Rightarrow> Inl (AF_Http 400)) (\<lambda>ty.
    rbind (dict_field ''policy_snapshot'' d) (\<lambda>policy.
    rbind (dict_field ''resource_limits'' d) (\<lambda>limits.
    rbind (dict_field ''network_egress_policy'' d) (\<lambda>egress.
    Inr \<lparr> pq_workspace_id = ws, pq_task_id = task, pq_run_id = run_id, pq_step_id = step, pq_agent_invocation_id = ivk,
          pq_sandbox_type = ty, pq_policy_snapshot = policy, pq_resource_limits = limits,
          pq_network_egress_policy = egress \<rparr>)))))))))"

definition set_field :: "string \<Rightarrow> string option \<Rightarrow> dict" where
  "set_field k v = (case v of None \<Rightarrow> [] | Some s \<Rightarrow> [(k, JStr s)])"

definition provision_result_to_dict :: "provision_result \<Rightarrow> dict" where
  "provision_result_to_dict r =
     [(''sandbox_id'', JUuid (po_sandbox_id r)), (''status'', JStr (po_result_status r))]
     @ set_field ''error_code'' (po_error_code r) @ set_field ''error_message'' (po_error_message r)"

definition tool_fields :: "string list" where
  "tool_fields = [''sandbox_id'', ''attempt_index'', ''tool_name'']"

text \<open>A scalar is no name of the registry, a list or a dictionary cannot be looked up in it.\<close>

definition tool_name_field :: "dict \<Rightarrow> api_failure + string" where
  "tool_name_field d = (case jget ''tool_name'' JNull d of
       JStr s \<Rightarrow> Inr s | JList _ \<Rightarrow> Inl AF_Raised | JObj _ \<Rightarrow> Inl AF_Raised | _ \<Rightarrow> Inl (AF_Http 400))"

definition tool_request_from_dict :: "exec_api_env \<Rightarrow> dict \<Rightarrow> api_failure + tool_request" where
  "tool_request_from_dict env d =
    rbind (id_field env ''sandbox_id'' d) (\<lambda>sid.
    rbind (tool_name_field d) (\<lambda>name.
    rbind (dict_field ''tool_input'' d) (\<lambda>inp.
    rbind (int_field ''timeout_ms'' 30000 d) (\<lambda>timeout.
    rbind (int_field ''attempt_index'' 0 d) (\<lambda>index.
    Inr \<lparr> tq_sandbox_id = sid, tq_attempt_index = index, tq_tool_name = name, tq_tool_input = inp,
          tq_timeout_ms = timeout \<rparr>)))))"

definition tool_result_to_dict :: "tool_result \<Rightarrow> dict" where
  "tool_result_to_dict r =
     [(''sandbox_id'', JUuid (tx_sandbox_id r)), (''attempt_index'', JInt (tx_attempt_index r)),
      (''status'', JStr (tool_status_value (tx_status r))), (''stdout'', JStr (tx_stdout r)),
      (''stderr'', JStr (tx_stderr r)), (''truncated'', JBool (tx_truncated r))]
     @ (case tx_exit_code r of None \<Rightarrow> [] | Some c \<Rightarrow> [(''exit_code'', JInt c)])
     @ set_field ''error_code'' (tx_error_code r) @ set_field ''error_message'' (tx_error_message r)"

text \<open>A termination reports \<open>terminated\<close>; it raises when it fails.\<close>

definition termination_result_to_dict :: "uuid \<Rightarrow> dict" where
  "termination_result_to_dict sid = [(''sandbox_id'', JUuid sid), (''status'', JStr ''terminated'')]"

section \<open>Errors\<close>

definition is_transition_error :: "exec_error \<Rightarrow> bool" where
  "is_transition_error e = (case e of X_InvalidTransition _ _ _ \<Rightarrow> True | X_TerminalState _ _ _ \<Rightarrow> True | _ \<Rightarrow> False)"

definition is_domain_error :: "exec_error \<Rightarrow> bool" where
  "is_domain_error e = (case e of X_Busy _ _ \<Rightarrow> True | X_Validation _ _ \<Rightarrow> True | X_Domain _ \<Rightarrow> True
     | _ \<Rightarrow> is_transition_error e)"

definition is_value_error :: "exec_error \<Rightarrow> bool" where
  "is_value_error e = (case e of X_ValueError _ \<Rightarrow> True | _ \<Rightarrow> False)"

text \<open>\<open>'not found' in str(e).lower()\<close>: the other messages have fixed words around statuses and ids.\<close>

definition says_not_found :: "exec_error \<Rightarrow> bool" where
  "says_not_found e = (case e of X_Domain msg \<Rightarrow> str_contains ''not found'' (py_lower msg)
     | X_Validation entity msg \<Rightarrow> str_contains ''not found'' (py_lower (entity @ '': '' @ msg)) | _ \<Rightarrow> False)"

definition domain_failure :: "exec_error \<Rightarrow> api_failure" where
  "domain_failure e = (if \<not> is_domain_error e then AF_Raised else if says_not_found e then AF_Http 404 else AF_Http 400)"

definition conflict_failure :: "exec_error \<Rightarrow> api_failure" where
  "conflict_failure e = (if is_transition_error e then AF_Http 409 else domain_failure e)"

definition answer_of :: "('e \<Rightarrow> api_failure) \<Rightarrow> ('a \<Rightarrow> json) \<Rightarrow> 'e + 'a \<Rightarrow> api_failure + json" where
  "answer_of f g r = (case r of Inl e \<Rightarrow> Inl (f e) | Inr x \<Rightarrow> Inr (g x))"

lemma answer_of_simps [simp]:
  "answer_of f g (Inl e) = Inl (f e)" "answer_of f g (Inr x) = Inr (g x)"
  by (simp_all add: answer_of_def)

section \<open>Sandboxes\<close>

definition exec_guard :: "exec_api_env \<Rightarrow> string list \<Rightarrow> time \<Rightarrow> api_headers \<Rightarrow> api_failure + unit" where
  "exec_guard env callers now headers = guard_services (xa_auth env) now callers headers"

definition provision_sandbox_endpoint ::
  "exec_api_env \<Rightarrow> api_headers \<Rightarrow> json option \<Rightarrow> uuid_supply \<Rightarrow> time \<Rightarrow> time \<Rightarrow> exec_db
   \<Rightarrow> (api_failure + json) \<times> exec_db \<times> backend_call list" where
  "provision_sandbox_endpoint env headers body u now later db =
    (case rbind (exec_guard env [''orchestrator''] now headers) (\<lambda>_.
          rbind (body_fields provision_fields body) (provision_request_from_dict env)) of
       Inl e \<Rightarrow> (Inl e, db, [])
     | Inr req \<Rightarrow>
         (case provision_sandbox (xa_backend env) req u now later db of
            (r, db', calls) \<Rightarrow>
              (answer_of (\<lambda>e. if is_value_error e \<or> is_domain_error e then AF_Http 400 else AF_Raised)
                 (JObj \<circ> provision_result_to_dict) r, db', calls)))"

text \<open>The optional body: empty, no JSON, or a value, of which only an object has a \<open>get\<close>.  A reason that is no
  text is looked up as an enum value, in vain; the one it stands for in the event is its text.\<close>

datatype raw_body = No_Body | Bad_Json | Json_Body json

definition termination_reason_field :: "raw_body \<Rightarrow> api_failure + string" where
  "termination_reason_field raw = (case raw of
       No_Body \<Rightarrow> Inr ''completed''
     | Bad_Json \<Rightarrow> Inl (AF_Http 400)
     | Json_Body (JObj d) \<Rightarrow> (case jget ''reason'' (JStr ''completed'') d of JStr s \<Rightarrow> Inr s | _ \<Rightarrow> Inr [])
     | Json_Body _ \<Rightarrow> Inl AF_Raised)"

definition terminate_sandbox_endpoint ::
  "exec_api_env \<Rightarrow> api_headers \<Rightarrow> string \<Rightarrow> raw_body \<Rightarrow> uuid_supply \<Rightarrow> time \<Rightarrow> time \<Rightarrow> exec_db
   \<Rightarrow> (api_failure + json) \<times> exec_db \<times> backend_call list" where
  "terminate_sandbox_endpoint env headers sandbox raw u now later db =
    (case rbind (exec_guard env [''orchestrator''] now headers) (\<lambda>_.
          rbind (path_id env sandbox) (\<lambda>sid.
          rbind (termination_reason_field raw) (\<lambda>reason. Inr (sid, reason)))) of
       Inl e \<Rightarrow> (Inl e, db, [])
     | Inr (sid, reason) \<Rightarrow>
         (case terminate_sandbox (xa_backend env) sid reason u now later db of
            (r, db', calls) \<Rightarrow> (answer_of conflict_failure (\<lambda>_. JObj (termination_result_to_dict sid)) r, db', calls)))"

definition opt_instant :: "time option \<Rightarrow> json" where
  "opt_instant t = (case t of None \<Rightarrow> JNull | Some x \<Rightarrow> JInt x)"

definition sandbox_to_dict :: "sandbox \<Rightarrow> dict" where
  "sandbox_to_dict s =
     [(''sandbox_id'', JUuid (sb_id s)), (''workspace_id'', JUuid (sb_workspace_id s)), (''task_id'', JUuid (sb_task_id s)),
      (''run_id'', JUuid (sb_run_id s)), (''step_id'', JUuid (sb_step_id s)),
      (''agent_invocation_id'', JUuid (sb_agent_invocation_id s)), (''sandbox_type'', JStr (sandbox_type_value (sb_type s))),
      (''sandbox_status'', JStr (sandbox_status_value (sb_status s))), (''started_at'', opt_instant (sb_started_at s)),
      (''terminated_at'', opt_instant (sb_terminated_at s)),
      (''termination_reason'', opt_str (map_option termination_reason_value (sb_termination_reason s))),
      (''created_at'', JInt (sb_created_at s)), (''updated_at'', JInt (sb_updated_at s))]"

text \<open>The query \<open>workspace_id\<close> is compared as a text.\<close>

definition in_workspace :: "exec_api_env \<Rightarrow> string option \<Rightarrow> sandbox \<Rightarrow> bool" where
  "in_workspace env ws s = (\<not> str_truthy ws \<or> xa_uuid_str env (sb_workspace_id s) = the ws)"

definition get_sandbox_endpoint ::
  "exec_api_env \<Rightarrow> api_headers \<Rightarrow> string \<Rightarrow> string option \<Rightarrow> time \<Rightarrow> exec_db \<Rightarrow> api_failure + json" where
  "get_sandbox_endpoint env headers sandbox ws now db =
    rbind (exec_guard env [''orchestrator'', ''api-gateway''] now headers) (\<lambda>_.
    rbind (path_id env sandbox) (\<lambda>sid.
    case get_sandbox sid db of
      Inl _ \<Rightarrow> Inl (AF_Http 404)
    | Inr s \<Rightarrow> rbind (need (in_workspace env ws s) 404) (\<lambda>_. Inr (JObj (sandbox_to_dict s)))))"

definition list_sandboxes_endpoint :: "exec_api_env \<Rightarrow> api_headers \<Rightarrow> time \<Rightarrow> exec_db \<Rightarrow> api_failure + json" where
  "list_sandboxes_endpoint env headers now db =
    rbind (exec_guard env [''orchestrator''] now headers) (\<lambda>_.
    Inr (JObj [(''sandboxes'', JList (map (\<lambda>s. JObj
      [(''sandbox_id'', JUuid (sb_id s)), (''sandbox_type'', JStr (sandbox_type_value (sb_type s))),
       (''sandbox_status'', JStr (sandbox_status_value (sb_status s))), (''created_at'', JInt (sb_created_at s))])
      (list_active_sandboxes db)))]))"

section \<open>Tool executions\<close>

definition tool_failure :: "exec_error \<Rightarrow> api_failure" where
  "tool_failure e = (if is_value_error e then AF_Http 400 else conflict_failure e)"

definition execute_tool_endpoint ::
  "exec_api_env \<Rightarrow> api_headers \<Rightarrow> json option \<Rightarrow> uuid_supply \<Rightarrow> time \<Rightarrow> time \<Rightarrow> exec_db
   \<Rightarrow> (api_failure + json) \<times> exec_db" where
  "execute_tool_endpoint env headers body u now later db =
    (case rbind (exec_guard env [''orchestrator'', ''agent-runtime''] now headers) (\<lambda>_.
          rbind (body_fields tool_fields body) (tool_request_from_dict env)) of
       Inl e \<Rightarrow> (Inl e, db)
     | Inr req \<Rightarrow>
         (case execute_tool (xa_tool env) req u now later db of
            (r, db') \<Rightarrow> (answer_of tool_failure (JObj \<circ> tool_result_to_dict) r, db')))"

text \<open>The columns of an attempt are those of its table, so none of the keys read here is missing.\<close>

definition execution_to_dict :: "dict \<Rightarrow> dict" where
  "execution_to_dict a =
     (''execution_id'', jget ''id'' JNull a) # map (\<lambda>k. (k, jget k JNull a))
       [''sandbox_id'', ''attempt_index'', ''tool_name'', ''tool_input'', ''status'', ''stdout'', ''stderr'', ''exit_code'']
     @ [(''truncated'', jget ''truncated'' (JBool False) a)]
     @ map (\<lambda>k. (k, jget k JNull a)) [''error_detail'', ''started_at'', ''completed_at'']"

definition attempt_in_workspace :: "exec_api_env \<Rightarrow> string option \<Rightarrow> dict \<Rightarrow> exec_db \<Rightarrow> bool" where
  "attempt_in_workspace env ws a db =
    (\<not> str_truthy ws \<or> (case map_of a ''sandbox_id'' of
       Some (JUuid sid) \<Rightarrow> (case sandbox_get sid db of
          None \<Rightarrow> False | Some s \<Rightarrow> xa_uuid_str env (sb_workspace_id s) = the ws)
     | _ \<Rightarrow> True))"

definition get_execution_endpoint ::
  "exec_api_env \<Rightarrow> api_headers \<Rightarrow> string \<Rightarrow> string option \<Rightarrow> time \<Rightarrow> exec_db \<Rightarrow> api_failure + json" where
  "get_execution_endpoint env headers execution ws now db =
    rbind (exec_guard env [''orchestrator'', ''api-gateway''] now headers) (\<lambda>_.
    rbind (path_id env execution) (\<lambda>eid.
    case get_execution eid db of
      Inl _ \<Rightarrow> Inl (AF_Http 404)
    | Inr a \<Rightarrow> rbind (need (attempt_in_workspace env ws a db) 404) (\<lambda>_. Inr (JObj (execution_to_dict a)))))"

end
