(* ===== verification/Exec_Clients.thy ===== *)
theory Exec_Clients
  imports Exec_Routes Resilience
begin

text \<open>
  The two HTTP clients of the execution service: the orchestrator's
  (\<open>apps/orchestrator/src/infrastructure/execution_service_client.py\<close>) and the agent runtime's
  (\<open>apps/agent-runtime/src/infrastructure/execution_service_client.py\<close>).  The HTTP library is a function on a state
  of the outside world: it takes a call and a timeout in microseconds.
\<close>

section \<open>Calls and answers\<close>

datatype exec_call = Call_Provision dict | Call_Execute dict | Call_Get uuid | Call_Terminate uuid dict

text \<open>A response has a status, its text and its JSON, if it is any.\<close>

datatype exec_http = XH_Timeout string | XH_Connect string | XH_Error string | XH_Response int string "json option"

type_synonym 'w exec_post = "exec_call \<Rightarrow> int \<Rightarrow> 'w \<Rightarrow> exec_http \<times> 'w"

text \<open>The exceptions of the orchestrator's client, and those it does not make.\<close>

datatype client_exc = ES_Unavailable string | ES_Protocol string | ES_Rejected string | ES_Uncaught string

definition es_unavailable :: "client_exc \<Rightarrow> bool" where
  "es_unavailable e = (case e of ES_Unavailable _ \<Rightarrow> True | _ \<Rightarrow> False)"

definition min_timeout_us :: int where "min_timeout_us = 30000000"

definition success_code :: "int \<Rightarrow> bool" where "success_code code = (code = 200 \<or> code = 202)"

text \<open>\<open>UUID(x)\<close> of a value of an answer.\<close>

definition uuid_of_json :: "(string \<Rightarrow> uuid option) \<Rightarrow> json \<Rightarrow> client_exc + uuid" where
  "uuid_of_json parse j = (case j of
       JUuid i \<Rightarrow> Inr i
     | JStr s \<Rightarrow> (case parse s of None \<Rightarrow> Inl (ES_Uncaught ''ValueError'') | Some i \<Rightarrow> Inr i)
     | _ \<Rightarrow> Inl (ES_Uncaught ''AttributeError''))"

section \<open>The orchestrator's client\<close>

definition provision_retry :: retry_policy where
  "provision_retry = mk_retry_policy 3 1000000 8000000 True"

definition terminate_retry :: retry_policy where
  "terminate_retry = mk_retry_policy 2 500000 3000000 True"

definition provision_body :: "uuid \<Rightarrow> uuid \<Rightarrow> uuid \<Rightarrow> uuid \<Rightarrow> uuid \<Rightarrow> string \<Rightarrow> dict" where
  "provision_body ws task run_id step ivk ty =
     [(''workspace_id'', JUuid ws), (''task_id'', JUuid task), (''run_id'', JUuid run_id), (''step_id'', JUuid step),
      (''agent_invocation_id'', JUuid ivk), (''sandbox_type'', JStr ty)]"

record sandbox_info =
  si_sandbox_id :: uuid
  si_sandbox_status :: json

definition sandbox_info_of :: "(string \<Rightarrow> uuid option) \<Rightarrow> json \<Rightarrow> client_exc + sandbox_info" where
  "sandbox_info_of parse j = (case j of
       JObj d \<Rightarrow>
         (case map_of d ''sandbox_id'' of
            None \<Rightarrow> Inl (ES_Protocol ''KeyError'')
          | Some i \<Rightarrow>
              (case uuid_of_json parse i of
                 Inl e \<Rightarrow> Inl (if e = ES_Uncaught ''ValueError'' then ES_Protocol ''ValueError'' else e)
               | Inr k \<Rightarrow> Inr \<lparr> si_sandbox_id = k, si_sandbox_status = jget ''sandbox_status'' (JStr ''ready'') d \<rparr>))
     | _ \<Rightarrow> Inl (ES_Uncaught ''TypeError''))"

definition provision_outcome :: "(string \<Rightarrow> uuid option) \<Rightarrow> exec_http \<Rightarrow> client_exc + sandbox_info" where
  "provision_outcome parse out = (case out of
       XH_Timeout m \<Rightarrow> Inl (ES_Unavailable (''Sandbox provision request timed out: '' @ m))
     | XH_Connect m \<Rightarrow> Inl (ES_Unavailable (''Failed to provision sandbox: '' @ m))
     | XH_Error m \<Rightarrow> Inl (ES_Unavailable (''Failed to provision sandbox: '' @ m))
     | XH_Response code txt body \<Rightarrow>
         if \<not> success_code code
         then if is_retryable_status_code code
              then Inl (ES_Unavailable (''Sandbox provision transient failure (HTTP '' @ str_int code @ '')''))
              else Inl (ES_Rejected (''Sandbox provision failed (HTTP '' @ str_int code @ ''): '' @ take 500 txt))
         else (case body of
             None \<Rightarrow> Inl (ES_Protocol (''Sandbox provision returned non-JSON response: '' @ take 200 txt))
           | Some j \<Rightarrow> sandbox_info_of parse j))"

definition provision_attempt ::
  "'w exec_post \<Rightarrow> (string \<Rightarrow> uuid option) \<Rightarrow> dict \<Rightarrow> 'w \<Rightarrow> (client_exc + sandbox_info) \<times> 'w" where
  "provision_attempt post parse body w =
    (let (out, w') = post (Call_Provision body) min_timeout_us w in (provision_outcome parse out, w'))"

definition client_provision_sandbox ::
  "(nat \<Rightarrow> int \<Rightarrow> int) \<Rightarrow> 'w exec_post \<Rightarrow> (string \<Rightarrow> uuid option) \<Rightarrow> dict \<Rightarrow> 'w
   \<Rightarrow> (client_exc + sandbox_info) \<times> 'w" where
  "client_provision_sandbox jit post parse body w =
    (case retry_with_backoff jit provision_retry (provision_attempt post parse body) es_unavailable w of
       (r, w', _) \<Rightarrow> (r, w'))"

text \<open>Executing a tool never retries.  The fields of the answer are taken over as they are; the nil id is 0.\<close>

record client_tool_result =
  ct_execution_id :: uuid
  ct_sandbox_id :: uuid
  ct_status :: json
  ct_stdout :: json
  ct_stderr :: json
  ct_exit_code :: json
  ct_truncated :: json
  ct_error_code :: json
  ct_error_message :: json

definition nil_uuid :: uuid where "nil_uuid = 0"

definition client_tool_failure :: "uuid \<Rightarrow> string \<Rightarrow> string \<Rightarrow> string \<Rightarrow> client_tool_result" where
  "client_tool_failure sid status code msg = \<lparr> ct_execution_id = nil_uuid, ct_sandbox_id = sid, ct_status = JStr status,
     ct_stdout = JStr [], ct_stderr = JStr [], ct_exit_code = JNull, ct_truncated = JBool False,
     ct_error_code = JStr code, ct_error_message = JStr msg \<rparr>"

definition tool_answer_of :: "(string \<Rightarrow> uuid option) \<Rightarrow> uuid \<Rightarrow> json \<Rightarrow> client_exc + client_tool_result" where
  "tool_answer_of parse sid j = (case j of
       JObj d \<Rightarrow>
         rbind (case map_of d ''execution_id'' of None \<Rightarrow> Inr nil_uuid | Some i \<Rightarrow> uuid_of_json parse i) (\<lambda>eid.
         rbind (uuid_of_json parse (jget ''sandbox_id'' (JUuid sid) d)) (\<lambda>k.
         Inr \<lparr> ct_execution_id = eid, ct_sandbox_id = k, ct_status = jget ''status'' (JStr ''failed'') d,
               ct_stdout = jget ''stdout'' (JStr []) d, ct_stderr = jget ''stderr'' (JStr []) d,
               ct_exit_code = jget ''exit_code'' JNull d, ct_truncated = jget ''truncated'' (JBool False) d,
               ct_error_code = jget ''error_code'' JNull d, ct_error_message = jget ''error_message'' JNull d \<rparr>))
     | _ \<Rightarrow> Inl (ES_Uncaught ''AttributeError''))"

definition client_tool_outcome ::
  "(string \<Rightarrow> uuid option) \<Rightarrow> uuid \<Rightarrow> exec_http \<Rightarrow> client_exc + client_tool_result" where
  "client_tool_outcome parse sid out = (case out of
       XH_Timeout m \<Rightarrow> Inr (client_tool_failure sid ''timed_out'' ''CLIENT_TIMEOUT'' (''Execution request timed out: '' @ m))
     | XH_Connect m \<Rightarrow> Inr (client_tool_failure sid ''failed'' ''HTTP_ERROR'' m)
     | XH_Error m \<Rightarrow> Inr (client_tool_failure sid ''failed'' ''HTTP_ERROR'' m)
     | XH_Response code txt body \<Rightarrow>
         if \<not> success_code code
         then Inr (client_tool_failure sid ''failed'' (''HTTP_'' @ str_int code) (take 500 txt))
         else (case body of
             None \<Rightarrow> Inr (client_tool_failure sid ''failed'' ''INVALID_RESPONSE'' (''Non-JSON response: '' @ take 200 txt))
           | Some j \<Rightarrow> tool_answer_of parse sid j))"

definition client_tool_body :: "uuid \<Rightarrow> string \<Rightarrow> dict \<Rightarrow> int \<Rightarrow> int \<Rightarrow> uuid option \<Rightarrow> dict" where
  "client_tool_body sid name inp index timeout corr =
     [(''sandbox_id'', JUuid sid), (''tool_name'', JStr name), (''tool_input'', JObj inp), (''attempt_index'', JInt index),
      (''timeout_ms'', JInt timeout)]
     @ (case corr of None \<Rightarrow> [] | Some c \<Rightarrow> [(''correlation_id'', JUuid c)])"

definition client_execute_tool ::
  "'w exec_post \<Rightarrow> (string \<Rightarrow> uuid option) \<Rightarrow> ('w \<Rightarrow> time) \<Rightarrow> uuid \<Rightarrow> string \<Rightarrow> dict \<Rightarrow> int \<Rightarrow> int \<Rightarrow> uuid option \<Rightarrow> 'w
   \<Rightarrow> (client_exc + client_tool_result) \<times> 'w" where
  "client_execute_tool post parse clock sid name inp index timeout_ms corr w =
    (case budget_new timeout_ms (clock w) of
       Inl _ \<Rightarrow> (Inl (ES_Uncaught ''ValueError''), w)
     | Inr budget \<Rightarrow>
         let downstream = remaining_for_downstream budget 500 (clock w);
             (out, w') = post (Call_Execute (client_tool_body sid name inp index downstream corr))
                           (max (downstream * 1000 + 10000000) min_timeout_us) w
         in (client_tool_outcome parse sid out, w'))"

definition client_get_execution :: "'w exec_post \<Rightarrow> uuid \<Rightarrow> 'w \<Rightarrow> (client_exc + json) \<times> 'w" where
  "client_get_execution post eid w =
    (let (out, w') = post (Call_Get eid) min_timeout_us w in
     (case out of
        XH_Timeout m \<Rightarrow> Inl (ES_Unavailable (''Get execution request timed out: '' @ m))
      | XH_Connect m \<Rightarrow> Inl (ES_Unavailable (''Failed to get execution: '' @ m))
      | XH_Error m \<Rightarrow> Inl (ES_Unavailable (''Failed to get execution: '' @ m))
      | XH_Response code txt body \<Rightarrow>
          if code \<noteq> 200
          then Inl (ES_Rejected (''Get execution failed (HTTP '' @ str_int code @ ''): '' @ take 500 txt))
          else (case body of
              None \<Rightarrow> Inl (ES_Protocol (''Get execution returned non-JSON response: '' @ take 200 txt))
            | Some j \<Rightarrow> Inr j), w'))"

definition terminate_outcome :: "exec_http \<Rightarrow> client_exc + bool" where
  "terminate_outcome out = (case out of
       XH_Response code _ _ \<Rightarrow>
         if \<not> success_code code
         then if is_retryable_status_code code
              then Inl (ES_Unavailable (''Sandbox termination transient failure (HTTP '' @ str_int code @ '')''))
              else Inr False
         else Inr True
     | XH_Timeout m \<Rightarrow> Inl (ES_Unavailable m)
     | XH_Connect m \<Rightarrow> Inl (ES_Unavailable m)
     | XH_Error m \<Rightarrow> Inl (ES_Unavailable m))"

text \<open>Only unavailability can come out of the retries, and it is caught.\<close>

definition client_terminate_sandbox ::
  "(nat \<Rightarrow> int \<Rightarrow> int) \<Rightarrow> 'w exec_post \<Rightarrow> uuid \<Rightarrow> string \<Rightarrow> 'w \<Rightarrow> bool \<times> 'w" where
  "client_terminate_sandbox jit post sid reason w =
    (case retry_with_backoff jit terminate_retry
            (\<lambda>w. let (out, w') = post (Call_Terminate sid [(''reason'', JStr reason)]) min_timeout_us w
                 in (terminate_outcome out, w')) es_unavailable w of
       (Inr b, w', _) \<Rightarrow> (b, w')
     | (Inl _, w', _) \<Rightarrow> (False, w'))"

section \<open>The agent runtime's client\<close>

definition runtime_timeout_us :: int where "runtime_timeout_us = 35000000"

definition runtime_retryable_status :: "int \<Rightarrow> bool" where
  "runtime_retryable_status code = (code \<in> {429, 500, 502, 503, 504})"

definition runtime_tool_body :: "uuid \<Rightarrow> int \<Rightarrow> json \<Rightarrow> json \<Rightarrow> int \<Rightarrow> dict" where
  "runtime_tool_body sid index name inp timeout =
     [(''sandbox_id'', JUuid sid), (''attempt_index'', JInt index), (''tool_name'', name), (''tool_input'', inp),
      (''timeout_ms'', JInt timeout)]"

definition call_tool_failure :: "uuid \<Rightarrow> int \<Rightarrow> string \<Rightarrow> string \<Rightarrow> dict" where
  "call_tool_failure sid index code msg =
     [(''status'', JStr ''failed''), (''error_code'', JStr code), (''error_message'', JStr msg), (''stdout'', JStr []),
      (''stderr'', JStr []), (''sandbox_id'', JUuid sid), (''attempt_index'', JInt index)]"

text \<open>One turn of the loop: \<open>None\<close> is another turn.  \<open>httpx\<close> raises other errors than those of connecting and of
  time, which are not caught, and neither is the error of a body that is no JSON.\<close>

definition call_tool_turn :: "uuid \<Rightarrow> int \<Rightarrow> bool \<Rightarrow> exec_http \<Rightarrow> (string + json) option" where
  "call_tool_turn sid index last_turn out = (case out of
       XH_Response code txt body \<Rightarrow>
         if code = 202 then Some (case body of None \<Rightarrow> Inl ''JSONDecodeError'' | Some j \<Rightarrow> Inr j)
         else if runtime_retryable_status code \<and> \<not> last_turn then None
         else Some (Inr (JObj (call_tool_failure sid index (''HTTP_'' @ str_int code) (take 500 txt))))
     | XH_Error m \<Rightarrow> Some (Inl m)
     | XH_Timeout m \<Rightarrow> if \<not> last_turn then None else Some (Inr (JObj (call_tool_failure sid index ''TRANSPORT_ERROR''
          (''execution-service unreachable after 2 attempts: '' @ m))))
     | XH_Connect m \<Rightarrow> if \<not> last_turn then None else Some (Inr (JObj (call_tool_failure sid index ''TRANSPORT_ERROR''
          (''execution-service unreachable after 2 attempts: '' @ m)))))"

text \<open>The loop over the attempts left; the answer after it is never reached.\<close>

fun call_tool_loop :: "'w exec_post \<Rightarrow> dict \<Rightarrow> uuid \<Rightarrow> int \<Rightarrow> nat \<Rightarrow> 'w \<Rightarrow> (string + json) \<times> 'w" where
  "call_tool_loop post body sid index 0 w =
     (Inr (JObj [(''status'', JStr ''failed''), (''error_code'', JStr ''RETRY_EXHAUSTED''), (''error_message'', JStr []),
                 (''stdout'', JStr []), (''stderr'', JStr [])]), w)"
| "call_tool_loop post body sid index (Suc n) w =
     (case post (Call_Execute body) runtime_timeout_us w of
        (out, w') \<Rightarrow>
          (case call_tool_turn sid index (n = 0) out of
             Some r \<Rightarrow> (r, w')
           | None \<Rightarrow> call_tool_loop post body sid index n w'))"

definition call_tool ::
  "'w exec_post \<Rightarrow> uuid \<Rightarrow> json \<Rightarrow> json \<Rightarrow> int \<Rightarrow> int \<Rightarrow> 'w \<Rightarrow> (string + json) \<times> 'w" where
  "call_tool post sid name inp index timeout_ms w =
     call_tool_loop post (runtime_tool_body sid index name inp timeout_ms) sid index 2 w"

section \<open>Lemmas\<close>

lemma retry_attempts [simp]: "rp_max_attempts provision_retry = 3" "rp_max_attempts terminate_retry = 2"
  by (simp_all add: provision_retry_def terminate_retry_def mk_retry_policy_def)

lemma terminate_outcome_unavailable: "terminate_outcome out = Inl e \<Longrightarrow> es_unavailable e"
  by (auto simp: terminate_outcome_def es_unavailable_def split: exec_http.splits if_splits)

text \<open>At most two calls are made; the second answer is the last.\<close>

lemma last_turn_answers: "call_tool_turn sid index True out \<noteq> None"
  by (cases out) (simp_all add: call_tool_turn_def)

lemma call_tool_unfold:
  assumes "post (Call_Execute (runtime_tool_body sid index name inp timeout)) runtime_timeout_us w = (out, w')"
  shows "call_tool post sid name inp index timeout w =
    (case call_tool_turn sid index False out of
       Some r \<Rightarrow> (r, w')
     | None \<Rightarrow> (case post (Call_Execute (runtime_tool_body sid index name inp timeout)) runtime_timeout_us w' of
         (out', w'') \<Rightarrow> (the (call_tool_turn sid index True out'), w'')))"
proof -
  have two: "(2::nat) = Suc (Suc 0)" by simp
  obtain out' w'' where again: "post (Call_Execute (runtime_tool_body sid index name inp timeout)) runtime_timeout_us w' = (out', w'')"
    by (rule prod.exhaust)
  obtain r where "call_tool_turn sid index True out' = Some r"
    using last_turn_answers [of sid index out'] by blast
  then have last_one: "call_tool_loop post (runtime_tool_body sid index name inp timeout) sid index (Suc 0) w' = (r, w'')"
    by (simp add: again)
  show ?thesis
    unfolding call_tool_def two call_tool_loop.simps(2) [of _ _ _ _ "Suc 0"] assms prod.case again last_one
    using \<open>call_tool_turn sid index True out' = Some r\<close> by (simp split: option.split)
qed

end
