(* ===== verification/System_Sandboxes.thy ===== *)
theory System_Sandboxes
  imports Exec_Clients Orch_Execution Exec_Properties
begin

text \<open>
  The clients of the execution service and its endpoints together: the service is the outside world of the clients,
  whose state is its database and the number of requests it has handled.  An answer may be lost, which the client
  takes for a timeout, after the request was handled.
\<close>

section \<open>The service as the outside world\<close>

text \<open>The n-th request has its own ids, its own instants and its own luck; all carry the same headers.\<close>

record exec_server =
  ws_env :: exec_api_env
  ws_headers :: api_headers
  ws_ids :: "nat \<Rightarrow> uuid_supply"
  ws_begin :: "nat \<Rightarrow> time"
  ws_finish :: "nat \<Rightarrow> time"
  ws_lost :: "nat \<Rightarrow> string option"

definition http_of :: "int \<Rightarrow> api_failure + json \<Rightarrow> exec_http" where
  "http_of code r = (case r of
       Inr j \<Rightarrow> XH_Response code [] (Some j)
     | Inl (AF_Http c) \<Rightarrow> XH_Response c ''detail'' (Some (JObj [(''detail'', JNull)]))
     | Inl AF_Raised \<Rightarrow> XH_Response 500 ''Internal Server Error'' None)"

definition handle_call :: "exec_server \<Rightarrow> nat \<Rightarrow> exec_call \<Rightarrow> exec_db \<Rightarrow> exec_http \<times> exec_db" where
  "handle_call sv n call db =
    (case call of
       Call_Provision d \<Rightarrow>
         (case provision_sandbox_endpoint (ws_env sv) (ws_headers sv) (Some (JObj d)) (ws_ids sv n) (ws_begin sv n)
                 (ws_finish sv n) db of (r, db', _) \<Rightarrow> (http_of 202 r, db'))
     | Call_Execute d \<Rightarrow>
         (case execute_tool_endpoint (ws_env sv) (ws_headers sv) (Some (JObj d)) (ws_ids sv n) (ws_begin sv n)
                 (ws_finish sv n) db of (r, db') \<Rightarrow> (http_of 202 r, db'))
     | Call_Get k \<Rightarrow>
         (http_of 200 (get_execution_endpoint (ws_env sv) (ws_headers sv) (xa_uuid_str (ws_env sv) k) None (ws_begin sv n) db), db)
     | Call_Terminate k d \<Rightarrow>
         (case terminate_sandbox_endpoint (ws_env sv) (ws_headers sv) (xa_uuid_str (ws_env sv) k) (Json_Body (JObj d))
                 (ws_ids sv n) (ws_begin sv n) (ws_finish sv n) db of (r, db', _) \<Rightarrow> (http_of 202 r, db')))"

definition serve :: "exec_server \<Rightarrow> (exec_db \<times> nat) exec_post" where
  "serve sv call timeout w =
    (case w of (db, n) \<Rightarrow> (case handle_call sv n call db of
       (out, db') \<Rightarrow> (case ws_lost sv n of Some m \<Rightarrow> XH_Timeout m | None \<Rightarrow> out, (db', Suc n))))"

definition admitted :: "exec_server \<Rightarrow> string list \<Rightarrow> nat \<Rightarrow> bool" where
  "admitted sv callers n = is_ok (exec_guard (ws_env sv) callers (ws_begin sv n) (ws_headers sv))"

section \<open>Provisioning through the client\<close>

definition provision_request_of :: "uuid \<Rightarrow> uuid \<Rightarrow> uuid \<Rightarrow> uuid \<Rightarrow> uuid \<Rightarrow> provision_request" where
  "provision_request_of ws task run_id step ivk =
     \<lparr> pq_workspace_id = ws, pq_task_id = task, pq_run_id = run_id, pq_step_id = step, pq_agent_invocation_id = ivk,
       pq_sandbox_type = ''container'', pq_policy_snapshot = [], pq_resource_limits = [], pq_network_egress_policy = [] \<rparr>"

lemma provision_body_parsed:
  "rbind (body_fields provision_fields (Some (JObj (provision_body ws task run_id step ivk ''container''))))
     (provision_request_from_dict env) = Inr (provision_request_of ws task run_id step ivk)"
  by (simp add: body_fields_def provision_fields_def body_has_def provision_body_def provision_request_from_dict_def
      id_field_def dict_field_def jget_def provision_request_of_def)

lemma handle_provision:
  assumes "admitted sv [''orchestrator''] n"
  shows "handle_call sv n (Call_Provision (provision_body ws task run_id step ivk ''container'')) db =
    (case provision_sandbox (xa_backend (ws_env sv)) (provision_request_of ws task run_id step ivk) (ws_ids sv n)
            (ws_begin sv n) (ws_finish sv n) db of
       (r, db', _) \<Rightarrow> (http_of 202 (answer_of (\<lambda>e. if is_value_error e \<or> is_domain_error e then AF_Http 400 else AF_Raised)
                            (JObj \<circ> provision_result_to_dict) r), db'))"
proof -
  obtain x where "exec_guard (ws_env sv) [''orchestrator''] (ws_begin sv n) (ws_headers sv) = Inr x"
    using assms by (auto simp: admitted_def is_ok_iff)
  then show ?thesis
    by (simp add: handle_call_def provision_sandbox_endpoint_def provision_body_parsed split: prod.split)
qed

text \<open>The sandbox a provisioning creates, and what the client gets of it.\<close>

definition new_sandbox :: "uuid_supply \<Rightarrow> time \<Rightarrow> provision_request \<Rightarrow> sandbox" where
  "new_sandbox u now req = sandbox_init (u 0) now (pq_workspace_id req) (pq_task_id req) (pq_run_id req) (pq_step_id req)
     (pq_agent_invocation_id req) Container (pq_policy_snapshot req) (pq_resource_limits req) (pq_network_egress_policy req)"

lemma new_sandbox_simps [simp]:
  "sb_id (new_sandbox u now req) = u 0" "sb_status (new_sandbox u now req) = X_PROVISIONING"
  "sb_agent_invocation_id (new_sandbox u now req) = pq_agent_invocation_id req"
  by (simp_all add: new_sandbox_def sandbox_init_def)

lemma provision_begin_container:
  assumes "pq_sandbox_type req = ''container''"
  obtains e where "provision_begin req u now db = Inr (new_sandbox u now req, exec_outbox_write e (sandbox_save (new_sandbox u now req) db))"
  using assms by (auto simp: provision_begin_def sandbox_type_of_def new_sandbox_def Let_def)

lemma provision_refused:
  assumes "pq_sandbox_type req = ''container''" "be_provision env (u 0) ''container'' (pq_resource_limits req) = Inl msg"
  obtains db' calls s where "provision_sandbox env req u now later db =
       (Inr \<lparr> po_sandbox_id = u 0, po_result_status = ''failed'', po_error_code = Some ''PROVISION_ERROR'',
              po_error_message = Some msg \<rparr>, db', calls)"
    "sandbox_get (u 0) db' = Some s" "sb_status s = X_FAILED"
  using assms
  by (rule_tac provision_begin_container [OF assms(1), of u now db])
     (auto simp: provision_sandbox_def Let_def provision_failed_def mark_failed_def sandbox_transition_def
        sandbox_terminal_def sandbox_repo.get_put)

lemma provision_granted:
  assumes "pq_sandbox_type req = ''container''" "be_provision env (u 0) ''container'' (pq_resource_limits req) = Inr ()"
    "be_commit env = Inr ()" "be_world env = id"
  obtains db' calls s where "provision_sandbox env req u now later db =
       (Inr \<lparr> po_sandbox_id = u 0, po_result_status = ''ready'', po_error_code = None, po_error_message = None \<rparr>, db', calls)"
    "sandbox_get (u 0) db' = Some s" "sb_status s = X_READY" "sb_agent_invocation_id s = pq_agent_invocation_id req"
    "\<forall>k. k \<noteq> u 0 \<longrightarrow> sandbox_get k db' = sandbox_get k db"
  using assms
  by (rule_tac provision_begin_container [OF assms(1), of u now db])
     (auto simp: provision_sandbox_def Let_def provision_ready_def mark_ready_def sandbox_transition_def
        sandbox_terminal_def sandbox_repo.get_put)

lemma sandbox_info_of_result:
  "sandbox_info_of parse (JObj (provision_result_to_dict r)) =
     Inr \<lparr> si_sandbox_id = po_sandbox_id r, si_sandbox_status = JStr ''ready'' \<rparr>"
proof -
  have "map_of (set_field ''error_code'' c @ set_field ''error_message'' m) ''sandbox_status'' = None" for c m
    by (auto simp: set_field_def split: option.split)
  then show ?thesis
    by (simp add: sandbox_info_of_def provision_result_to_dict_def uuid_of_json_def jget_def map_add_def)
qed

lemma provision_attempt_serve:
  assumes "admitted sv [''orchestrator''] n"
    "provision_sandbox (xa_backend (ws_env sv)) (provision_request_of ws task run_id step ivk) (ws_ids sv n)
       (ws_begin sv n) (ws_finish sv n) db = (Inr r, db', calls)"
  shows "provision_attempt (serve sv) parse (provision_body ws task run_id step ivk ''container'') (db, n) =
    (case ws_lost sv n of
       None \<Rightarrow> Inr \<lparr> si_sandbox_id = po_sandbox_id r, si_sandbox_status = JStr ''ready'' \<rparr>
     | Some m \<Rightarrow> Inl (ES_Unavailable (''Sandbox provision request timed out: '' @ m)), (db', Suc n))"
  by (simp add: provision_attempt_def serve_def handle_provision [OF assms(1)] assms(2) http_of_def provision_outcome_def
      success_code_def sandbox_info_of_result split: option.split)

lemma client_provision_first:
  assumes "provision_attempt post parse body w = (Inr info, w')"
  shows "client_provision_sandbox jit post parse body w = (Inr info, w')"
  using assms by (simp add: client_provision_sandbox_def retry_with_backoff_def retry_loop_stop retry_again_def)

lemma client_provision_second:
  assumes "provision_attempt post parse body w = (Inl (ES_Unavailable m), w')"
    "provision_attempt post parse body w' = (Inr info, w'')"
  shows "client_provision_sandbox jit post parse body w = (Inr info, w'')"
  using assms
  by (simp add: client_provision_sandbox_def retry_with_backoff_def retry_loop_again [where n = "Suc 0"] retry_loop_stop
      retry_again_def es_unavailable_def)

section \<open>A failed sandbox is used\<close>

text \<open>The port of the orchestrator's execution loop: the id alone is kept of what the client returns.\<close>

definition exc_of :: "client_exc \<Rightarrow> py_exc" where
  "exc_of e = (case e of
       ES_Unavailable m \<Rightarrow> PyExc ''ExecutionServiceUnavailable'' m
     | ES_Protocol m \<Rightarrow> PyExc ''ExecutionServiceProtocolError'' m
     | ES_Rejected m \<Rightarrow> PyExc ''ExecutionServiceRejected'' m
     | ES_Uncaught ty \<Rightarrow> PyExc ty [])"

definition provision_port ::
  "(nat \<Rightarrow> int \<Rightarrow> int) \<Rightarrow> exec_server \<Rightarrow> (string \<Rightarrow> uuid option) \<Rightarrow> exec_db \<times> nat
   \<Rightarrow> uuid \<Rightarrow> uuid \<Rightarrow> uuid \<Rightarrow> uuid \<Rightarrow> uuid \<Rightarrow> py_exc + uuid" where
  "provision_port jit sv parse w ws task run_id step ivk =
    (case fst (client_provision_sandbox jit (serve sv) parse (provision_body ws task run_id step ivk ''container'') w) of
       Inl e \<Rightarrow> Inl (exc_of e) | Inr info \<Rightarrow> Inr (si_sandbox_id info))"

text \<open>What the client makes of a provisioning whose container could not be started.\<close>

lemma client_provision_failed:
  assumes "admitted sv [''orchestrator''] n" "ws_lost sv n = None"
    and "be_provision (xa_backend (ws_env sv)) (ws_ids sv n 0) ''container'' [] = Inl msg"
  obtains db' s where
    "client_provision_sandbox jit (serve sv) parse (provision_body ws task run_id step ivk ''container'') (db, n) =
       (Inr \<lparr> si_sandbox_id = ws_ids sv n 0, si_sandbox_status = JStr ''ready'' \<rparr>, (db', Suc n))"
    "sandbox_get (ws_ids sv n 0) db' = Some s" "sb_status s = X_FAILED"
proof -
  let ?req = "provision_request_of ws task run_id step ivk"
  have req: "pq_sandbox_type ?req = ''container''" "pq_resource_limits ?req = []"
    by (simp_all add: provision_request_of_def)
  obtain db' calls s where r: "provision_sandbox (xa_backend (ws_env sv)) ?req (ws_ids sv n) (ws_begin sv n) (ws_finish sv n) db =
      (Inr \<lparr> po_sandbox_id = ws_ids sv n 0, po_result_status = ''failed'', po_error_code = Some ''PROVISION_ERROR'',
             po_error_message = Some msg \<rparr>, db', calls)"
    "sandbox_get (ws_ids sv n 0) db' = Some s" "sb_status s = X_FAILED"
    using provision_refused [OF req(1), of "xa_backend (ws_env sv)" "ws_ids sv n" msg] assms(3) req(2) by metis
  show thesis
    using client_provision_first [of "serve sv" parse, OF provision_attempt_serve [OF assms(1) r(1), of parse, unfolded assms(2) option.case]]
      r(2,3) by (intro that [of db' s]) simp_all
qed

text \<open>C13. A sandbox that could not be started is used all the same: the service answers a failed provisioning with
  status 202 and the field \<open>status\<close>, the client reads a field \<open>sandbox_status\<close> that no answer has and takes the
  sandbox for ready, the execution loop dispatches the invocation with it, and every tool call on it is refused
  as busy.\<close>

theorem failed_sandbox_dispatched:
  assumes "admitted sv [''orchestrator''] n" "ws_lost sv n = None"
    and "be_provision (xa_backend (ws_env sv)) (ws_ids sv n 0) ''container'' [] = Inl msg"
    and "en_service env" "\<not> en_skip_sandbox env" "en_provision env = provision_port jit sv parse (db, n)"
  shows "let sid = ws_ids sv n 0 in
     Dispatch_Invocation (dispatch_request_of env x (Some sid)) \<in> set (snd (dispatch_phase env x))
     \<and> (\<exists>db' s. snd (client_provision_sandbox jit (serve sv) parse (provision_body (xc_workspace_id x) (xc_task_id x)
               (xc_run_id x) (xc_step_id x) (xc_invocation x) ''container'') (db, n)) = (db', Suc n)
          \<and> sandbox_get sid db' = Some s \<and> sb_status s = X_FAILED
          \<and> (\<forall>tool req u t. tq_sandbox_id req = sid \<longrightarrow> tool_claim tool req u t db' = Inl (X_Busy sid ''failed'')))"
proof -
  obtain db' s where c:
    "client_provision_sandbox jit (serve sv) parse (provision_body (xc_workspace_id x) (xc_task_id x)
        (xc_run_id x) (xc_step_id x) (xc_invocation x) ''container'') (db, n) =
       (Inr \<lparr> si_sandbox_id = ws_ids sv n 0, si_sandbox_status = JStr ''ready'' \<rparr>, (db', Suc n))"
    "sandbox_get (ws_ids sv n 0) db' = Some s" "sb_status s = X_FAILED"
    using assms(1-3) by (rule client_provision_failed)
  moreover have "tool_claim tool req u t db' = Inl (X_Busy (ws_ids sv n 0) ''failed'')"
    if "tq_sandbox_id req = ws_ids sv n 0" for tool req u t
    using c(2,3) that by (simp add: tool_claim_def claim_for_execution_def)
  ultimately show ?thesis
    using assms(4-6) by (simp add: dispatch_phase_def provision_port_def Let_def)
qed

section \<open>A lost answer\<close>

text \<open>A provisioning whose answer is lost is asked for again, and the service does not know the invocation: two
  containers run for it, of which the caller is told one.\<close>

theorem lost_answer_leaks_sandbox:
  assumes "admitted sv [''orchestrator''] n" "admitted sv [''orchestrator''] (Suc n)"
    and "ws_lost sv n = Some m" "ws_lost sv (Suc n) = None"
    and "\<And>k. be_provision (xa_backend (ws_env sv)) k ''container'' [] = Inr ()"
    and "be_commit (xa_backend (ws_env sv)) = Inr ()" "be_world (xa_backend (ws_env sv)) = id"
    and "ws_ids sv n 0 \<noteq> ws_ids sv (Suc n) 0"
  shows "\<exists>db' s s'. client_provision_sandbox jit (serve sv) parse (provision_body ws task run_id step ivk ''container'') (db, n) =
       (Inr \<lparr> si_sandbox_id = ws_ids sv (Suc n) 0, si_sandbox_status = JStr ''ready'' \<rparr>, (db', Suc (Suc n)))
     \<and> sandbox_get (ws_ids sv n 0) db' = Some s \<and> sb_status s = X_READY \<and> sb_agent_invocation_id s = ivk
     \<and> sandbox_get (ws_ids sv (Suc n) 0) db' = Some s' \<and> sb_status s' = X_READY \<and> sb_agent_invocation_id s' = ivk"
proof -
  let ?be = "xa_backend (ws_env sv)" and ?req = "provision_request_of ws task run_id step ivk"
  have req: "pq_sandbox_type ?req = ''container''" "pq_resource_limits ?req = []" "pq_agent_invocation_id ?req = ivk"
    by (simp_all add: provision_request_of_def)
  have be: "be_provision ?be (u 0) ''container'' (pq_resource_limits ?req) = Inr ()" for u by (simp add: req assms(5))
  note granted = provision_granted [OF req(1) be assms(6,7), unfolded req(3)]
  obtain db1 calls1 s1 where p1: "provision_sandbox ?be ?req (ws_ids sv n) (ws_begin sv n) (ws_finish sv n) db =
       (Inr \<lparr> po_sandbox_id = ws_ids sv n 0, po_result_status = ''ready'', po_error_code = None, po_error_message = None \<rparr>, db1, calls1)"
    "sandbox_get (ws_ids sv n 0) db1 = Some s1" "sb_status s1 = X_READY" "sb_agent_invocation_id s1 = ivk"
    by (rule granted)
  obtain db2 calls2 s2 where p2: "provision_sandbox ?be ?req (ws_ids sv (Suc n)) (ws_begin sv (Suc n)) (ws_finish sv (Suc n)) db1 =
       (Inr \<lparr> po_sandbox_id = ws_ids sv (Suc n) 0, po_result_status = ''ready'', po_error_code = None, po_error_message = None \<rparr>, db2, calls2)"
    "sandbox_get (ws_ids sv (Suc n) 0) db2 = Some s2" "sb_status s2 = X_READY" "sb_agent_invocation_id s2 = ivk"
    "\<forall>k. k \<noteq> ws_ids sv (Suc n) 0 \<longrightarrow> sandbox_get k db2 = sandbox_get k db1"
    by (rule granted)
  note first = provision_attempt_serve [OF assms(1) p1(1), of parse, unfolded assms(3) option.case]
  note second = provision_attempt_serve [OF assms(2) p2(1), of parse, unfolded assms(4) option.case]
  show ?thesis
    using client_provision_second [OF first second] p1(2-4) p2(2-4) p2(5) assms(8) by auto
qed

section \<open>A tool that runs twice\<close>

text \<open>The executions begun, by the events of their claims.\<close>

definition executions_begun :: "exec_db \<Rightarrow> nat" where
  "executions_begun db = length (filter (\<lambda>e. xe_type e = ''sandbox.tool_execution.requested'') (xd_outbox db))"

lemma claim_begins:
  assumes "tool_claim tool req u now db = Inr (x, db1)"
  shows "executions_begun db1 = Suc (executions_begun db)"
  using assms
  by (rule tool_claim_ok) (simp add: executions_begun_def tool_execution_requested_event_def exec_event_of_def)

lemma release_outbox: "release_sandbox sid now db = Inr db1 \<Longrightarrow> xd_outbox db1 = xd_outbox db"
  by (auto simp: release_ok)

lemma finish_begins_none:
  assumes "tool_finish x out duration u now db = Inr (r, db')"
  shows "executions_begun db' = executions_begun db"
  using assms
  by (cases out)
     (auto simp: tool_finish_def record_failure_def record_result_def rbind_Inr_iff Let_def executions_begun_def
        tool_execution_failed_event_def tool_execution_succeeded_event_def exec_event_of_def
        dest!: release_outbox attempt_save_frame(2))

lemma execution_begins_one:
  assumes "tool_validate req = Inr (tool, argv)" "tool_claim tool req u now db = Inr (x, db1)" "te_world env = id"
  shows "executions_begun (snd (execute_tool env req u now later db)) = Suc (executions_begun db)"
  using claim_begins [OF assms(2)] assms(3) finish_begins_none
  by (auto simp: execute_tool_unfold [OF assms(1,2)] split: sum.split)

text \<open>A claim that succeeded once succeeds again when the sandbox is free again: its row is updated.\<close>

lemma claim_again:
  assumes "tool_claim tool req u now db = Inr (x, db1)"
    and "sandbox_get (tq_sandbox_id req) db2 = Some s" "sb_status s = X_IDLE"
    and "sandbox_type_value (sb_type s) \<in> set (tl_allowed_sandbox_types tool)"
    and "attempt_by_index (tq_sandbox_id req) (tq_attempt_index req) db2 = Some a"
  shows "\<exists>x' db3. tool_claim tool req u' now' db2 = Inr (x', db3)"
proof -
  let ?d = "attempt_columns (u 1) req ''running'' @ [(''started_at'', JInt now)]"
  let ?d' = "attempt_columns (u' 1) req ''running'' @ [(''started_at'', JInt now')]"
  let ?s = "s\<lparr>sb_status := X_EXECUTING, sb_updated_at := now'\<rparr>"
  obtain db0 db1' where "attempt_save now ?d db0 = Inr db1'"
    using assms(1) unfolding tool_claim_def rbind_Inr_iff by (auto split: if_splits simp: rbind_Inr_iff)
  then have "attempt_refused ?d db0 = None" by (rule attempt_save_frame(6))
  then have cols: "attempt_texts_ok ?d'" "pg_json (JObj ?d')" "int4_ok (map_of ?d' ''attempt_index'')" "int4_ok (map_of ?d' ''exit_code'')"
    by (auto simp: attempt_refused_def attempt_texts_ok_def attempt_columns_def pg_text_def split: if_splits)
  have claim: "claim_for_execution (tq_sandbox_id req) now' db2 = Inr (?s, sandbox_save ?s db2)"
    using assms(2,3) by (simp add: claim_ok)
  have "sb_id s = tq_sandbox_id req" using assms(2) by (rule sandbox_repo.get_key)
  then have "sandbox_get (tq_sandbox_id req) (sandbox_save ?s db2) = Some ?s" by (simp add: sandbox_repo.get_put)
  then have "?s \<in> set (xd_sandboxes (sandbox_save ?s db2))"
    by (auto simp: sandbox_get_def dest: find_row_key)
  then have row: "list_ex (\<lambda>s. map_of ?d' ''sandbox_id'' = Some (JUuid (sb_id s))) (xd_sandboxes (sandbox_save ?s db2))"
    unfolding list_ex_iff
    by (rule bexI [rotated]) (simp add: attempt_columns_def \<open>sb_id s = tq_sandbox_id req\<close>)
  have "a \<in> set (xd_attempts db2)" "same_attempt ?d' a"
    using assms(5) by (auto simp: attempt_by_index_def same_attempt_def attempt_columns_def dest!: find_SomeD)
  then have same: "list_ex (same_attempt ?d') (xd_attempts db2)" by (auto simp: list_ex_iff)
  have "attempt_refused ?d' (sandbox_save ?s db2) = None"
    using cols row same by (simp add: attempt_refused_def)
  then have "\<exists>db3. attempt_save now' ?d' (sandbox_save ?s db2) = Inr db3" by (auto simp: attempt_save_def)
  then show ?thesis using claim assms(4) by (auto simp: tool_claim_def)
qed

definition runtime_request_for :: "uuid \<Rightarrow> string \<Rightarrow> dict \<Rightarrow> int \<Rightarrow> int \<Rightarrow> tool_request" where
  "runtime_request_for sid name inp index timeout = \<lparr> tq_sandbox_id = sid, tq_attempt_index = index, tq_tool_name = name,
     tq_tool_input = inp, tq_timeout_ms = timeout \<rparr>"

lemma tool_body_parsed:
  "rbind (body_fields tool_fields (Some (JObj (runtime_tool_body sid index (JStr name) (JObj inp) timeout))))
     (tool_request_from_dict env) = Inr (runtime_request_for sid name inp index timeout)"
  by (simp add: body_fields_def tool_fields_def body_has_def runtime_tool_body_def tool_request_from_dict_def
      id_field_def tool_name_field_def dict_field_def int_field_def jget_def runtime_request_for_def)

lemma serve_execute:
  assumes "admitted sv [''orchestrator'', ''agent-runtime''] n"
  shows "serve sv (Call_Execute (runtime_tool_body sid index (JStr name) (JObj inp) timeout)) t (db, n) =
    (case execute_tool (xa_tool (ws_env sv)) (runtime_request_for sid name inp index timeout) (ws_ids sv n)
            (ws_begin sv n) (ws_finish sv n) db of
       (r, db') \<Rightarrow> (case ws_lost sv n of
          Some m \<Rightarrow> XH_Timeout m
        | None \<Rightarrow> http_of 202 (answer_of tool_failure (JObj \<circ> tool_result_to_dict) r), (db', Suc n)))"
proof -
  obtain x where "exec_guard (ws_env sv) [''orchestrator'', ''agent-runtime''] (ws_begin sv n) (ws_headers sv) = Inr x"
    using assms by (auto simp: admitted_def is_ok_iff)
  then show ?thesis
    by (simp add: serve_def handle_call_def execute_tool_endpoint_def tool_body_parsed split: prod.split)
qed

text \<open>After an undisturbed execution that gave a result the sandbox is idle, of its old type, and has the attempt.\<close>

lemma executed_claims_again:
  assumes "execute_tool env req u now later db = (Inr r, db1)" "te_world env = id"
  obtains tool argv x1 db2 x2 db3 where "tool_validate req = Inr (tool, argv)" "tool_claim tool req u now db = Inr (x1, db2)"
    "tool_claim tool req u' now' db1 = Inr (x2, db3)"
proof -
  obtain tool argv x1 db2 where v: "tool_validate req = Inr (tool, argv)" "tool_claim tool req u now db = Inr (x1, db2)"
    "tool_finish x1 (te_exec env (tq_sandbox_id req) argv (exec_timeout_s req)) (te_duration env) u later db2 = Inr (r, db1)"
    using assms by (auto simp: execute_tool_def Let_def split: sum.splits prod.splits)
  obtain s0 where s0: "tr_request x1 = req" "sandbox_type_value (sb_type s0) \<in> set (tl_allowed_sandbox_types tool)"
    "sandbox_get (tq_sandbox_id req) db2 = Some (s0\<lparr>sb_status := X_EXECUTING, sb_updated_at := now\<rparr>)"
    using v(2) by (rule tool_claim_ok) auto
  let ?s = "s0\<lparr>sb_status := X_IDLE, sb_updated_at := later\<rparr>"
  have key: "sb_id s0 = tq_sandbox_id req" using sandbox_repo.get_key [OF s0(3)] by simp
  have "xd_sandboxes db1 = xd_sandboxes (sandbox_save ?s db2)"
    using tool_finish_sandbox [OF v(3)] s0(1,3) by auto
  then have get: "sandbox_get (tq_sandbox_id req) db1 = Some ?s"
    using sandbox_repo.get_put [of "tq_sandbox_id req" ?s db2] key by (simp add: sandbox_get_def)
  obtain a where "attempt_by_index (tq_sandbox_id req) (tq_attempt_index req) db1 = Some a"
    using tool_finish_attempt [OF v(3)] s0(1) by auto
  then show thesis
    using claim_again [OF v(2) get, of a u' now'] s0(2) v(1,2) that by auto
qed

text \<open>C14. A tool runs twice for one call of the agent runtime: when the answer to its request is lost, although the tool
  ran and its result is stored, the client asks again with the same attempt index, the sandbox is free again, a
  second execution begins, and its outcome is the answer.\<close>

theorem lost_answer_runs_tool_twice:
  assumes "admitted sv [''orchestrator'', ''agent-runtime''] n" "admitted sv [''orchestrator'', ''agent-runtime''] (Suc n)"
    and "ws_lost sv n = Some m" "ws_lost sv (Suc n) = None" "te_world (xa_tool (ws_env sv)) = id"
    and "execute_tool (xa_tool (ws_env sv)) (runtime_request_for sid name inp index timeout) (ws_ids sv n)
           (ws_begin sv n) (ws_finish sv n) db = (Inr r, db1)"
  shows "case execute_tool (xa_tool (ws_env sv)) (runtime_request_for sid name inp index timeout) (ws_ids sv (Suc n))
           (ws_begin sv (Suc n)) (ws_finish sv (Suc n)) db1 of
     (r', db') \<Rightarrow> call_tool (serve sv) sid (JStr name) (JObj inp) index timeout (db, n) =
         (the (call_tool_turn sid index True (http_of 202 (answer_of tool_failure (JObj \<circ> tool_result_to_dict) r'))),
          (db', Suc (Suc n)))
       \<and> executions_begun db' = executions_begun db + 2"
proof -
  let ?env = "xa_tool (ws_env sv)" and ?req = "runtime_request_for sid name inp index timeout"
  obtain r' db' where second: "execute_tool ?env ?req (ws_ids sv (Suc n)) (ws_begin sv (Suc n)) (ws_finish sv (Suc n)) db1 = (r', db')"
    by (rule prod.exhaust)
  obtain tool argv x1 db2 x2 db3 where c: "tool_validate ?req = Inr (tool, argv)"
    "tool_claim tool ?req (ws_ids sv n) (ws_begin sv n) db = Inr (x1, db2)"
    "tool_claim tool ?req (ws_ids sv (Suc n)) (ws_begin sv (Suc n)) db1 = Inr (x2, db3)"
    using assms(6,5) by (rule executed_claims_again)
  have begun: "executions_begun db' = executions_begun db + 2"
    using execution_begins_one [OF c(1,2) assms(5), of "ws_finish sv n"]
      execution_begins_one [OF c(1,3) assms(5), of "ws_finish sv (Suc n)"] assms(6) second by simp
  have "serve sv (Call_Execute (runtime_tool_body sid index (JStr name) (JObj inp) timeout)) runtime_timeout_us (db, n) = (XH_Timeout m, (db1, Suc n))"
    by (simp add: serve_execute [OF assms(1)] assms(3,6))
  moreover have "call_tool_turn sid index False (XH_Timeout m) = None" by (simp add: call_tool_turn_def)
  ultimately show ?thesis
    by (simp add: call_tool_unfold second begun serve_execute [OF assms(2)] assms(4))
qed

section \<open>Witnesses\<close>

text \<open>A service for which every token is that of the given caller, whose n-th request has the ids from \<open>20 + 40 n\<close>.\<close>

definition demo_caller_auth :: "string \<Rightarrow> api_auth" where
  "demo_caller_auth caller = \<lparr> aa_jwt = \<lparr> jl_encode = (\<lambda>_ _. ''t''),
       jl_decode = (\<lambda>_ _ _ _ _. Inr [(''sub'', JStr caller), (''aud'', JStr ''execution-service''), (''iss'', JStr ''i''),
         (''iat'', JInt 0), (''exp'', JInt 60), (''service_name'', JStr caller)]) \<rparr>,
     aa_verifier = \<lparr> tv_secret = ''s3cret'', tv_expected_audience = ''execution-service'', tv_issuer = ''i'' \<rparr>,
     aa_bearer = header_value ''authorization'' \<rparr>"

definition demo_server :: "string \<Rightarrow> (string + unit) \<Rightarrow> (nat \<Rightarrow> string option) \<Rightarrow> exec_server" where
  "demo_server caller started lost = \<lparr>
     ws_env = \<lparr> xa_auth = demo_caller_auth caller, xa_uuid_of = (\<lambda>_. None), xa_uuid_str = (\<lambda>_. ''u''),
       xa_backend = (demo_backend id)\<lparr> be_provision := (\<lambda>_ _ _. started) \<rparr>,
       xa_tool = demo_tool_env (Exec_Result ''files'' [] 0) (\<lambda>db. db) \<rparr>,
     ws_headers = [(''Authorization'', ''t'')], ws_ids = (\<lambda>n i. 20 + 40 * n + i), ws_begin = (\<lambda>n. 8 + 4 * int n),
     ws_finish = (\<lambda>n. 9 + 4 * int n), ws_lost = lost \<rparr>"

lemma demo_server_simps [simp]:
  "ws_lost (demo_server c b l) = l" "ws_ids (demo_server c b l) n = (\<lambda>i. 20 + 40 * n + i)"
  "ws_begin (demo_server c b l) n = 8 + 4 * int n" "ws_finish (demo_server c b l) n = 9 + 4 * int n"
  "be_provision (xa_backend (ws_env (demo_server c b l))) = (\<lambda>_ _ _. b)"
  "be_commit (xa_backend (ws_env (demo_server c b l))) = Inr ()" "be_world (xa_backend (ws_env (demo_server c b l))) = id"
  "xa_tool (ws_env (demo_server c b l)) = demo_tool_env (Exec_Result ''files'' [] 0) (\<lambda>db. db)"
  by (simp_all add: demo_server_def demo_backend_def)

lemma demo_admitted:
  assumes "c \<in> set callers"
  shows "admitted (demo_server c b l) callers n"
proof -
  have "header_value ''authorization'' [(''Authorization'', ''t'')] = Some ''t''" by code_simp
  with assms show ?thesis
    by (simp add: admitted_def exec_guard_def guard_services_def require_service_def demo_server_def demo_caller_auth_def
        verify_token_def required_claim_def time_claim_def is_ok_def image_iff Let_def)
qed

definition demo_ctx :: exec_ctx where
  "demo_ctx = \<lparr> xc_task_id = 1, xc_run_id = 2, xc_step_id = 3, xc_workspace_id = 4, xc_title = ''t'', xc_input_config = [],
     xc_correlation = 5, xc_invocation = 6, xc_step_started = task_started_event (7, 0) 1 4 5 None \<rparr>"

theorem failed_sandbox_dispatched_witness:
  "let sv = demo_server ''orchestrator'' (Inl ''no docker'') (\<lambda>_. None);
       env = (demo_env demo_ok)\<lparr> en_provision := provision_port (\<lambda>_ d. d) sv (\<lambda>_. None) (demo_exec_db, 0) \<rparr>
   in Dispatch_Invocation (dispatch_request_of env demo_ctx (Some 20)) \<in> set (snd (dispatch_phase env demo_ctx))"
proof -
  let ?sv = "demo_server ''orchestrator'' (Inl ''no docker'') (\<lambda>_. None)"
  let ?env = "(demo_env demo_ok)\<lparr> en_provision := provision_port (\<lambda>_ d. d) ?sv (\<lambda>_. None) (demo_exec_db, 0) \<rparr>"
  have "admitted ?sv [''orchestrator''] 0" by (rule demo_admitted) simp
  moreover have "ws_ids ?sv 0 0 = 20" by simp
  moreover have "en_service ?env" "\<not> en_skip_sandbox ?env" by (simp_all add: demo_env_def)
  ultimately show ?thesis
    using failed_sandbox_dispatched [of ?sv 0 "''no docker''" ?env "\<lambda>_ d. d" "\<lambda>_. None" demo_exec_db demo_ctx]
    by (simp add: Let_def)
qed

theorem lost_answer_leaks_sandbox_witness:
  "\<exists>db' s s'. snd (client_provision_sandbox (\<lambda>_ d. d)
       (serve (demo_server ''orchestrator'' (Inr ()) (\<lambda>n. if n = 0 then Some ''slow'' else None))) (\<lambda>_. None)
       (provision_body 1 2 3 4 5 ''container'') (demo_exec_db, 0)) = (db', 2)
     \<and> sandbox_get 20 db' = Some s \<and> sb_status s = X_READY \<and> sandbox_get 60 db' = Some s' \<and> sb_status s' = X_READY"
proof -
  let ?sv = "demo_server ''orchestrator'' (Inr ()) (\<lambda>n. if n = 0 then Some ''slow'' else None)"
  have "admitted ?sv [''orchestrator''] n" for n by (rule demo_admitted) simp
  then show ?thesis
    using lost_answer_leaks_sandbox [of ?sv 0 "''slow''" "\<lambda>_ d. d" "\<lambda>_. None" 1 2 3 4 5 demo_exec_db]
    by (auto simp: numeral_2_eq_2)
qed

theorem lost_answer_runs_tool_twice_witness:
  "executions_begun (fst (snd (call_tool
       (serve (demo_server ''agent-runtime'' (Inr ()) (\<lambda>n. if n = 0 then Some ''slow'' else None)))
       10 (JStr ''shell.exec'') (JObj [(''code'', JStr ''ls'')]) 0 30000 (demo_exec_db, 0)))) = executions_begun demo_exec_db + 2"
proof -
  let ?sv = "demo_server ''agent-runtime'' (Inr ()) (\<lambda>n. if n = 0 then Some ''slow'' else None)"
  have req: "runtime_request_for 10 ''shell.exec'' [(''code'', JStr ''ls'')] 0 30000 = demo_tool_request"
    by (simp add: runtime_request_for_def demo_tool_request_def)
  have adm: "admitted ?sv [''orchestrator'', ''agent-runtime''] n" for n by (rule demo_admitted) simp
  have world: "te_world (xa_tool (ws_env ?sv)) = id" by (simp add: demo_tool_env_def id_def)
  obtain r db1 where first: "execute_tool (xa_tool (ws_env ?sv)) (runtime_request_for 10 ''shell.exec'' [(''code'', JStr ''ls'')] 0 30000)
      (ws_ids ?sv 0) (ws_begin ?sv 0) (ws_finish ?sv 0) demo_exec_db = (Inr r, db1)"
    unfolding req using demo_execution by auto
  show ?thesis
    using lost_answer_runs_tool_twice [OF adm adm _ _ world first, of "''slow''"] by (auto split: prod.splits)
qed

end
