(* ===== verification/Terminal_Routes.thy ===== *)
theory Terminal_Routes
  imports Exec_Routes
begin

text \<open>
  The endpoints of terminal sessions (\<open>apps/execution-service/src/api/terminal_routes.py\<close>).  The user is the text
  of the header \<open>X-User-Id\<close>, which the API gateway sets; the guard admits the gateway alone.
\<close>

section \<open>Requests and answers\<close>

definition user_header :: "api_headers \<Rightarrow> api_failure + string" where
  "user_header headers =
    (let user = opt_or (header_value ''X-User-Id'' headers) [] in rbind (need (user \<noteq> []) 401) (\<lambda>_. Inr user))"

definition session_to_dict :: "terminal_session \<Rightarrow> dict" where
  "session_to_dict s =
     [(''id'', JUuid (ts_id s)), (''sandbox_id'', JUuid (ts_sandbox_id s)), (''run_id'', JUuid (ts_run_id s)),
      (''workspace_id'', JUuid (ts_workspace_id s)), (''user_id'', JStr (ts_user_id s)),
      (''status'', JStr (session_status_value (ts_status s))), (''created_at'', JInt (ts_created_at s)),
      (''updated_at'', JInt (ts_updated_at s)), (''closed_at'', opt_instant (ts_closed_at s))]"

fun command_status_value :: "command_status \<Rightarrow> string" where
  "command_status_value TC_RUNNING = ''running''"
| "command_status_value TC_COMPLETED = ''completed''"
| "command_status_value TC_FAILED = ''failed''"
| "command_status_value TC_TIMED_OUT = ''timed_out''"

definition command_to_dict :: "terminal_command \<Rightarrow> dict" where
  "command_to_dict c =
     [(''id'', JUuid (tc_id c)), (''session_id'', JUuid (tc_session_id c)), (''command'', JStr (tc_command c)),
      (''stdout'', JStr (tc_stdout c)), (''stderr'', JStr (tc_stderr c)),
      (''exit_code'', (case tc_exit_code c of None \<Rightarrow> JNull | Some n \<Rightarrow> JInt n)),
      (''status'', JStr (command_status_value (tc_status c))), (''created_at'', JInt (tc_created_at c)),
      (''completed_at'', opt_instant (tc_completed_at c))]"

definition session_fields :: "string list" where
  "session_fields = [''sandbox_id'', ''run_id'', ''workspace_id'']"

definition session_request_from_dict :: "exec_api_env \<Rightarrow> dict \<Rightarrow> string \<Rightarrow> api_failure + create_session_request" where
  "session_request_from_dict env d user =
    rbind (id_field env ''sandbox_id'' d) (\<lambda>sid.
    rbind (id_field env ''run_id'' d) (\<lambda>run_id.
    rbind (id_field env ''workspace_id'' d) (\<lambda>ws.
    Inr \<lparr> cs_sandbox_id = sid, cs_run_id = run_id, cs_workspace_id = ws, cs_user_id = user \<rparr>)))"

section \<open>Endpoints\<close>

definition gateway_guard :: "exec_api_env \<Rightarrow> time \<Rightarrow> api_headers \<Rightarrow> api_failure + unit" where
  "gateway_guard env now headers = exec_guard env [''api-gateway''] now headers"

text \<open>The endpoint of a transaction: what it stores is kept when the transaction succeeds.\<close>

definition kept_answer :: "(exec_error \<Rightarrow> api_failure) \<Rightarrow> ('a \<Rightarrow> json) \<Rightarrow> exec_db \<Rightarrow> exec_error + ('a \<times> exec_db) \<Rightarrow> (api_failure + json) \<times> exec_db" where
  "kept_answer f g db r = (case r of Inl e \<Rightarrow> (Inl (f e), db) | Inr (x, db') \<Rightarrow> (Inr (g x), db'))"

definition create_session_endpoint ::
  "exec_api_env \<Rightarrow> api_headers \<Rightarrow> json option \<Rightarrow> uuid \<Rightarrow> time \<Rightarrow> exec_db \<Rightarrow> (api_failure + json) \<times> exec_db" where
  "create_session_endpoint env headers body new_id now db =
    (case rbind (gateway_guard env now headers) (\<lambda>_.
          rbind (body_fields session_fields body) (\<lambda>d.
          rbind (user_header headers) (session_request_from_dict env d))) of
       Inl e \<Rightarrow> (Inl e, db)
     | Inr req \<Rightarrow> kept_answer domain_failure (JObj \<circ> session_to_dict) db (create_session req new_id now db))"

text \<open>A command that cannot be read is a \<open>ValueError\<close>, answered with 400; a timeout that is no number raises.\<close>

definition exec_request_of :: "exec_api_env \<Rightarrow> uuid \<Rightarrow> json option \<Rightarrow> api_failure + exec_command_request" where
  "exec_request_of env sid body =
    rbind (body_fields [''command''] body) (\<lambda>d.
    case parse_exec_command d sid of
      Inl e \<Rightarrow> Inl (if is_value_error e then AF_Http 400 else AF_Raised)
    | Inr req \<Rightarrow> Inr req)"

definition exec_command_endpoint ::
  "exec_api_env \<Rightarrow> api_headers \<Rightarrow> string \<Rightarrow> json option \<Rightarrow> uuid_supply \<Rightarrow> time \<Rightarrow> time \<Rightarrow> exec_db
   \<Rightarrow> (api_failure + json) \<times> exec_db" where
  "exec_command_endpoint env headers session body u now later db =
    (case rbind (gateway_guard env now headers) (\<lambda>_.
          rbind (user_header headers) (\<lambda>user.
          rbind (path_id env session) (\<lambda>sid.
          rbind (exec_request_of env sid body) (\<lambda>req. Inr (user, req))))) of
       Inl e \<Rightarrow> (Inl e, db)
     | Inr (user, req) \<Rightarrow>
         (case execute_command (xa_tool env) req (Some user) u now later db of
            (r, db') \<Rightarrow> (answer_of domain_failure (JObj \<circ> command_to_dict) r, db')))"

text \<open>Every domain error of the three others is a 404, but for the conflict of a second close.\<close>

definition missing_failure :: "exec_error \<Rightarrow> api_failure" where
  "missing_failure e = (if is_domain_error e then AF_Http 404 else AF_Raised)"

definition of_session :: "exec_api_env \<Rightarrow> api_headers \<Rightarrow> string \<Rightarrow> time \<Rightarrow> api_failure + (uuid \<times> string)" where
  "of_session env headers session now =
    rbind (gateway_guard env now headers) (\<lambda>_.
    rbind (user_header headers) (\<lambda>user.
    rbind (path_id env session) (\<lambda>sid. Inr (sid, user))))"

definition get_session_endpoint ::
  "exec_api_env \<Rightarrow> api_headers \<Rightarrow> string \<Rightarrow> time \<Rightarrow> exec_db \<Rightarrow> api_failure + json" where
  "get_session_endpoint env headers session now db =
    rbind (of_session env headers session now) (\<lambda>(sid, user).
    answer_of missing_failure (JObj \<circ> session_to_dict) (get_session sid (Some user) db))"

definition list_history_endpoint ::
  "exec_api_env \<Rightarrow> api_headers \<Rightarrow> string \<Rightarrow> time \<Rightarrow> exec_db \<Rightarrow> api_failure + json" where
  "list_history_endpoint env headers session now db =
    rbind (of_session env headers session now) (\<lambda>(sid, user).
    answer_of missing_failure (\<lambda>cs. JObj [(''items'', JList (map (JObj \<circ> command_to_dict) cs))])
      (list_commands sid (Some user) 100 db))"

definition close_session_endpoint ::
  "exec_api_env \<Rightarrow> api_headers \<Rightarrow> string \<Rightarrow> time \<Rightarrow> exec_db \<Rightarrow> (api_failure + json) \<times> exec_db" where
  "close_session_endpoint env headers session now db =
    (case of_session env headers session now of
       Inl e \<Rightarrow> (Inl e, db)
     | Inr (sid, user) \<Rightarrow>
         kept_answer (\<lambda>e. if is_transition_error e then AF_Http 409 else missing_failure e) (JObj \<circ> session_to_dict) db
           (close_session sid (Some user) now db))"

section \<open>Lemmas\<close>

lemma user_header_ok: "user_header headers = Inr user \<longleftrightarrow> header_value ''X-User-Id'' headers = Some user \<and> user \<noteq> []"
  by (cases "header_value ''X-User-Id'' headers") (auto simp: user_header_def need_def Let_def rbind_Inr_iff)

lemma of_session_ok:
  "of_session env headers session now = Inr (sid, user) \<longleftrightarrow> is_ok (gateway_guard env now headers)
   \<and> header_value ''X-User-Id'' headers = Some user \<and> user \<noteq> [] \<and> xa_uuid_of env session = Some sid"
  by (auto simp: of_session_def rbind_Inr_iff user_header_ok path_id_def is_ok_iff split: option.splits)

text \<open>A command is refused before anything is stored when the session is not the user's.\<close>

lemma execute_command_owner:
  assumes "execute_command env req (Some user) u now later db = (r, db')"
  shows "(\<exists>t. session_get (ec_session_id req) db = Some t \<and> ts_user_id t = user)
    \<or> (r = Inl (X_Domain ''Terminal session not found'') \<and> db' = db)"
proof (cases "owned_session (ec_session_id req) (Some user) db")
  case (Inl e)
  then have "e = X_Domain ''Terminal session not found''"
    by (auto simp: owned_session_def split: option.splits if_splits)
  with Inl show ?thesis using assms by (simp add: execute_command_def command_begin_def)
next
  case (Inr t)
  then show ?thesis by (auto simp: owned_session_ok)
qed

lemma exec_request_session:
  assumes "exec_request_of env sid body = Inr req"
  shows "ec_session_id req = sid"
proof -
  obtain d where "(case parse_exec_command d sid of Inl e \<Rightarrow> Inl (if is_value_error e then AF_Http 400 else AF_Raised)
      | Inr req \<Rightarrow> Inr req) = (Inr req :: api_failure + exec_command_request)"
    using assms unfolding exec_request_of_def rbind_Inr_iff by blast
  then have "parse_exec_command d sid = Inr req" by (cases "parse_exec_command d sid") auto
  then show ?thesis using parse_exec_command_bounds by blast
qed

text \<open>C15. A terminal session is its owner's alone: reading it, its history, running a command in it and closing it
  succeed only through the gateway and for the user who opened it, and for anyone else the two that write change
  nothing.\<close>

theorem terminal_owner_only:
  assumes "xa_uuid_of env session = Some sid"
    and "header_value ''X-User-Id'' headers \<noteq> map_option ts_user_id (session_get sid db) \<or> session_get sid db = None
         \<or> \<not> is_ok (gateway_guard env now headers)"
  shows "\<not> is_ok (get_session_endpoint env headers session now db)
    \<and> \<not> is_ok (list_history_endpoint env headers session now db)
    \<and> \<not> is_ok (fst (exec_command_endpoint env headers session body u now later db))
    \<and> snd (exec_command_endpoint env headers session body u now later db) = db
    \<and> \<not> is_ok (fst (close_session_endpoint env headers session now db))
    \<and> snd (close_session_endpoint env headers session now db) = db"
proof -
  let ?checks = "rbind (gateway_guard env now headers) (\<lambda>_. rbind (user_header headers) (\<lambda>user.
      rbind (path_id env session) (\<lambda>sid. rbind (exec_request_of env sid body) (\<lambda>req. Inr (user, req)))))"
  have foreign: "owned_session k (Some user) db = Inl (X_Domain ''Terminal session not found'')"
    if "of_session env headers session now = Inr (k, user)" for k user
    using that assms by (auto simp: of_session_ok owned_session_def split: option.split)
  have "\<not> is_ok (get_session_endpoint env headers session now db)"
    by (cases "of_session env headers session now")
       (auto simp: get_session_endpoint_def get_session_def foreign is_ok_iff)
  moreover have "\<not> is_ok (list_history_endpoint env headers session now db)"
    by (cases "of_session env headers session now")
       (auto simp: list_history_endpoint_def list_commands_def foreign is_ok_iff)
  moreover have "\<not> is_ok (fst (close_session_endpoint env headers session now db))
      \<and> snd (close_session_endpoint env headers session now db) = db"
    by (cases "of_session env headers session now")
       (auto simp: close_session_endpoint_def close_session_def foreign kept_answer_def is_ok_iff)
  moreover have "\<not> is_ok (fst (exec_command_endpoint env headers session body u now later db))
      \<and> snd (exec_command_endpoint env headers session body u now later db) = db"
  proof (cases ?checks)
    case (Inr p)
    then obtain user req where p: "p = (user, req)" "of_session env headers session now = Inr (sid, user)"
      "ec_session_id req = sid"
      using assms(1) by (auto simp: rbind_Inr_iff of_session_def path_id_def dest: exec_request_session)
    obtain r db' where run: "execute_command (xa_tool env) req (Some user) u now later db = (r, db')"
      by (rule prod.exhaust)
    have "\<not> (\<exists>t. session_get sid db = Some t \<and> ts_user_id t = user)"
      using foreign [OF p(2)] by (auto simp: owned_session_def)
    then have "r = Inl (X_Domain ''Terminal session not found'')" "db' = db"
      using execute_command_owner [OF run] p(3) by auto
    then show ?thesis using Inr p(1) run by (simp add: exec_command_endpoint_def is_ok_iff)
  qed (simp add: exec_command_endpoint_def is_ok_iff)
  ultimately show ?thesis by blast
qed

text \<open>But the session of a run is handed to whoever asks for one: a second user of the run gets the session of the
  first, in which he can do nothing, and cannot get one of his own.\<close>

theorem session_of_another_user:
  assumes "is_ok (gateway_guard env now headers)" "header_value ''X-User-Id'' headers = Some user" "user \<noteq> []"
    and "get_active_by_run run_id db = Some t" "ts_user_id t \<noteq> user"
    and "sandbox_get sid db = Some s" "sb_status s \<in> {X_READY, X_IDLE}"
  shows "create_session_endpoint env headers
       (Some (JObj [(''sandbox_id'', JUuid sid), (''run_id'', JUuid run_id), (''workspace_id'', JUuid ws)])) k now db =
     (Inr (JObj (session_to_dict t)), db)"
proof -
  obtain x where "gateway_guard env now headers = Inr x" using assms(1) by (auto simp: is_ok_iff)
  moreover have "user_header headers = Inr user" using assms(2,3) by (simp add: user_header_ok)
  ultimately show ?thesis
    using assms(4,6,7)
    by (auto simp: create_session_endpoint_def body_fields_def session_fields_def body_has_def session_request_from_dict_def
        id_field_def jget_def create_session_def kept_answer_def)
qed

definition demo_gateway_auth :: api_auth where
  "demo_gateway_auth = \<lparr> aa_jwt = \<lparr> jl_encode = (\<lambda>_ _. ''t''),
       jl_decode = (\<lambda>_ _ _ _ _. Inr [(''sub'', JStr ''api-gateway''), (''aud'', JStr ''execution-service''), (''iss'', JStr ''i''),
         (''iat'', JInt 0), (''exp'', JInt 60), (''service_name'', JStr ''api-gateway'')]) \<rparr>,
     aa_verifier = \<lparr> tv_secret = ''s3cret'', tv_expected_audience = ''execution-service'', tv_issuer = ''i'' \<rparr>,
     aa_bearer = header_value ''authorization'' \<rparr>"

theorem terminal_owner_only_witness:
  "let db = session_save \<lparr> ts_id = 5, ts_sandbox_id = 10, ts_run_id = 2, ts_workspace_id = 7, ts_user_id = ''ann'',
         ts_status = TS_ACTIVE, ts_created_at = 0, ts_updated_at = 0, ts_closed_at = None \<rparr>
       \<lparr> xd_sandboxes = [], xd_attempts = [], xd_sessions = [], xd_commands = [], xd_outbox = [] \<rparr>;
       env = \<lparr> xa_auth = demo_gateway_auth, xa_uuid_of = (\<lambda>_. Some 5), xa_uuid_str = (\<lambda>_. ''s5''),
         xa_backend = \<lparr> be_provision = (\<lambda>_ _ _. Inr ()), be_terminate = (\<lambda>_. Inr ()), be_is_alive = (\<lambda>_. Inr True),
           be_commit = Inr (), be_world = id \<rparr>,
         xa_tool = \<lparr> te_exec = (\<lambda>_ _ _. Exec_Timeout), te_duration = 0, te_world = id \<rparr> \<rparr>
   in \<not> is_ok (get_session_endpoint env [(''Authorization'', ''t''), (''X-User-Id'', ''bob'')] ''s5'' 0 db)
     \<and> is_ok (gateway_guard env 0 [(''Authorization'', ''t''), (''X-User-Id'', ''bob'')])"
proof -
  let ?db = "session_save \<lparr> ts_id = 5, ts_sandbox_id = 10, ts_run_id = 2, ts_workspace_id = 7, ts_user_id = ''ann'',
         ts_status = TS_ACTIVE, ts_created_at = 0, ts_updated_at = 0, ts_closed_at = None \<rparr>
       \<lparr> xd_sandboxes = [], xd_attempts = [], xd_sessions = [], xd_commands = [], xd_outbox = [] \<rparr>"
  let ?env = "\<lparr> xa_auth = demo_gateway_auth, xa_uuid_of = (\<lambda>_. Some 5), xa_uuid_str = (\<lambda>_. ''s5''),
         xa_backend = \<lparr> be_provision = (\<lambda>_ _ _. Inr ()), be_terminate = (\<lambda>_. Inr ()), be_is_alive = (\<lambda>_. Inr True),
           be_commit = Inr (), be_world = id \<rparr>,
         xa_tool = \<lparr> te_exec = (\<lambda>_ _ _. Exec_Timeout), te_duration = 0, te_world = id \<rparr> \<rparr>"
  let ?headers = "[(''Authorization'', ''t''), (''X-User-Id'', ''bob'')]"
  have "header_value ''X-User-Id'' ?headers \<noteq> map_option ts_user_id (session_get 5 ?db)"
    by (simp add: header_value_def py_lower_def py_lower_char_def session_get_def session_save_def)
  then have "\<not> is_ok (get_session_endpoint ?env ?headers ''s5'' 0 ?db)"
    using terminal_owner_only [of ?env "''s5''" 5 ?headers ?db 0] by simp
  moreover have "is_ok (gateway_guard ?env 0 ?headers)" by code_simp
  ultimately show ?thesis unfolding Let_def by blast
qed

end
