(* ===== verification/Event_Stream.thy ===== *)
theory Event_Stream
  imports Event_Ingest Service_Http
begin

text \<open>
  The read side of the event store: the queries of \<open>infrastructure/db/repository.py\<close> and \<open>application/queries.py\<close>,
  the query and cleanup endpoints of \<open>api/routes.py\<close>, and the streams of \<open>api/sse.py\<close>.  The order of the rows is by
  instant and id; UUIDs are compared as the numbers they are.  A text that should hold a UUID or an instant is read
  by a parameter.  An instant stands for its ISO text.
\<close>

section \<open>Queries\<close>

text \<open>\<open>ORDER BY occurred_at, id\<close>.\<close>

definition in_order :: "stored_event list \<Rightarrow> stored_event list" where
  "in_order es = sort_key se_occurred_at (sort_key se_id es)"

definition is_after :: "time option \<Rightarrow> stored_event \<Rightarrow> bool" where
  "is_after t e = (case t of None \<Rightarrow> True | Some a \<Rightarrow> a < se_occurred_at e)"

definition is_before :: "time option \<Rightarrow> stored_event \<Rightarrow> bool" where
  "is_before t e = (case t of None \<Rightarrow> True | Some b \<Rightarrow> se_occurred_at e < b)"

definition list_by_task :: "uuid \<Rightarrow> uuid \<Rightarrow> time option \<Rightarrow> nat \<Rightarrow> stored_event list \<Rightarrow> stored_event list" where
  "list_by_task task ws after limit store = take limit (in_order
     (filter (\<lambda>e. se_task_id e = Some task \<and> se_workspace_id e = ws \<and> is_after after e) store))"

definition list_by_run :: "uuid \<Rightarrow> uuid \<Rightarrow> time option \<Rightarrow> nat \<Rightarrow> stored_event list \<Rightarrow> stored_event list" where
  "list_by_run run ws after limit store = take limit (in_order
     (filter (\<lambda>e. se_run_id e = Some run \<and> se_workspace_id e = ws \<and> is_after after e) store))"

text \<open>The rows after a reference event, which is looked up in the workspace; nothing when it is not found.\<close>

definition later_than :: "stored_event \<Rightarrow> stored_event \<Rightarrow> bool" where
  "later_than r e = (se_occurred_at r < se_occurred_at e \<or> (se_occurred_at e = se_occurred_at r \<and> se_id r < se_id e))"

definition events_after ::
  "(stored_event \<Rightarrow> bool) \<Rightarrow> uuid \<Rightarrow> uuid option \<Rightarrow> nat \<Rightarrow> stored_event list \<Rightarrow> stored_event list" where
  "events_after scope ws after limit store =
    (case after of
       None \<Rightarrow> take limit (in_order (filter scope store))
     | Some k \<Rightarrow>
         (case find (\<lambda>e. se_id e = k \<and> se_workspace_id e = ws) store of
            None \<Rightarrow> []
          | Some r \<Rightarrow> take limit (in_order (filter (\<lambda>e. scope e \<and> later_than r e) store))))"

definition of_workspace :: "uuid \<Rightarrow> stored_event \<Rightarrow> bool" where
  "of_workspace ws e = (se_workspace_id e = ws)"

definition of_run :: "uuid \<Rightarrow> uuid \<Rightarrow> stored_event \<Rightarrow> bool" where
  "of_run run ws e = (se_run_id e = Some run \<and> se_workspace_id e = ws)"

definition list_by_workspace :: "uuid \<Rightarrow> uuid option \<Rightarrow> nat \<Rightarrow> stored_event list \<Rightarrow> stored_event list" where
  "list_by_workspace ws after limit store = events_after (of_workspace ws) ws after limit store"

definition list_by_run_after_event ::
  "uuid \<Rightarrow> uuid \<Rightarrow> uuid option \<Rightarrow> nat \<Rightarrow> stored_event list \<Rightarrow> stored_event list" where
  "list_by_run_after_event run ws after limit store = events_after (of_run run ws) ws after limit store"

definition activity_matches ::
  "uuid \<Rightarrow> string option \<Rightarrow> time option \<Rightarrow> time option \<Rightarrow> stored_event \<Rightarrow> bool" where
  "activity_matches ws ty after before e =
    (se_workspace_id e = ws \<and> (str_truthy ty \<longrightarrow> like_match (the ty @ ''%'') (se_event_type e))
     \<and> is_after after e \<and> is_before before e)"

definition list_workspace_activity ::
  "uuid \<Rightarrow> string option \<Rightarrow> time option \<Rightarrow> time option \<Rightarrow> nat \<Rightarrow> nat \<Rightarrow> stored_event list
   \<Rightarrow> stored_event list \<times> nat" where
  "list_workspace_activity ws ty after before limit offset store =
    (let base = filter (activity_matches ws ty after before) store
     in (take limit (drop offset (rev (in_order base))), length base))"

definition event_get_by_id :: "uuid \<Rightarrow> stored_event list \<Rightarrow> stored_event option" where
  "event_get_by_id k store = find (\<lambda>e. se_id e = k) store"

section \<open>Use cases\<close>

definition get_task_timeline :: "uuid \<Rightarrow> uuid \<Rightarrow> time option \<Rightarrow> nat \<Rightarrow> stored_event list \<Rightarrow> stored_event list" where
  "get_task_timeline task ws after limit store = list_by_task task ws after (min limit 500) store"

definition get_run_timeline :: "uuid \<Rightarrow> uuid \<Rightarrow> time option \<Rightarrow> nat \<Rightarrow> stored_event list \<Rightarrow> stored_event list" where
  "get_run_timeline run ws after limit store = list_by_run run ws after (min limit 500) store"

definition get_workspace_events :: "uuid \<Rightarrow> uuid option \<Rightarrow> nat \<Rightarrow> stored_event list \<Rightarrow> stored_event list" where
  "get_workspace_events ws after limit store = list_by_workspace ws after (min limit 500) store"

definition get_workspace_activity ::
  "uuid \<Rightarrow> string option \<Rightarrow> time option \<Rightarrow> time option \<Rightarrow> nat \<Rightarrow> nat \<Rightarrow> stored_event list
   \<Rightarrow> stored_event list \<times> nat" where
  "get_workspace_activity ws ty after before limit offset store =
     list_workspace_activity ws ty after before (min limit 100) (min offset 10000) store"

definition get_run_events_after :: "uuid \<Rightarrow> uuid \<Rightarrow> uuid option \<Rightarrow> nat \<Rightarrow> stored_event list \<Rightarrow> stored_event list" where
  "get_run_events_after run ws after limit store = list_by_run_after_event run ws after (min limit 500) store"

section \<open>Query endpoints\<close>

definition optional_id :: "string \<Rightarrow> uuid option \<Rightarrow> dict" where
  "optional_id k v = (case v of None \<Rightarrow> [] | Some i \<Rightarrow> [(k, JUuid i)])"

definition event_to_dict :: "stored_event \<Rightarrow> dict" where
  "event_to_dict e =
     [(''event_id'', JUuid (se_id e)), (''event_type'', JStr (se_event_type e)), (''schema_version'', se_schema_version e),
      (''workspace_id'', JUuid (se_workspace_id e)), (''correlation_id'', JUuid (se_correlation_id e)),
      (''occurred_at'', JInt (se_occurred_at e)), (''emitted_by'', se_emitted_by e), (''actor'', se_actor e),
      (''payload'', se_payload e), (''received_at'', JInt (se_received_at e))]
     @ optional_id ''task_id'' (se_task_id e) @ optional_id ''run_id'' (se_run_id e)
     @ optional_id ''step_id'' (se_step_id e) @ optional_id ''causation_id'' (se_causation_id e)"

record event_api_env =
  ea_auth :: api_auth
  ea_uuid_of :: "string \<Rightarrow> uuid option"
  ea_time_of :: "string \<Rightarrow> time option"

definition event_id_arg :: "event_api_env \<Rightarrow> string \<Rightarrow> api_failure + uuid" where
  "event_id_arg env s = (case ea_uuid_of env s of None \<Rightarrow> Inl (AF_Http 400) | Some k \<Rightarrow> Inr k)"

definition time_arg :: "event_api_env \<Rightarrow> string option \<Rightarrow> api_failure + time option" where
  "time_arg env s =
    (if \<not> str_truthy s then Inr None
     else (case ea_time_of env (the s) of None \<Rightarrow> Inl (AF_Http 400) | Some t \<Rightarrow> Inr (Some t)))"

definition clamp :: "int \<Rightarrow> int \<Rightarrow> int \<Rightarrow> nat" where
  "clamp lo hi n = nat (max lo (min n hi))"

definition timeline_answer :: "string \<Rightarrow> string \<Rightarrow> string \<Rightarrow> stored_event list \<Rightarrow> dict" where
  "timeline_answer key entity ws es =
     [(key, JStr entity), (''workspace_id'', JStr ws), (''events'', JList (map (JObj \<circ> event_to_dict) es)),
      (''count'', JInt (int (length es)))]"

definition task_timeline_endpoint ::
  "event_api_env \<Rightarrow> api_headers \<Rightarrow> time \<Rightarrow> string \<Rightarrow> string \<Rightarrow> string option \<Rightarrow> int \<Rightarrow> stored_event list
   \<Rightarrow> api_failure + dict" where
  "task_timeline_endpoint env headers now task ws after limit store =
    rbind (guard_service (ea_auth env) now ''api-gateway'' headers) (\<lambda>_.
    rbind (event_id_arg env task) (\<lambda>tid.
    rbind (event_id_arg env ws) (\<lambda>wid.
    rbind (time_arg env after) (\<lambda>a.
    Inr (timeline_answer ''task_id'' task ws (get_task_timeline tid wid a (clamp 1 500 limit) store))))))"

definition run_timeline_endpoint ::
  "event_api_env \<Rightarrow> api_headers \<Rightarrow> time \<Rightarrow> string \<Rightarrow> string \<Rightarrow> string option \<Rightarrow> int \<Rightarrow> stored_event list
   \<Rightarrow> api_failure + dict" where
  "run_timeline_endpoint env headers now run ws after limit store =
    rbind (guard_service (ea_auth env) now ''api-gateway'' headers) (\<lambda>_.
    rbind (event_id_arg env run) (\<lambda>rid.
    rbind (event_id_arg env ws) (\<lambda>wid.
    rbind (time_arg env after) (\<lambda>a.
    Inr (timeline_answer ''run_id'' run ws (get_run_timeline rid wid a (clamp 1 500 limit) store))))))"

definition workspace_activity_endpoint ::
  "event_api_env \<Rightarrow> api_headers \<Rightarrow> time \<Rightarrow> string \<Rightarrow> string option \<Rightarrow> string option \<Rightarrow> string option \<Rightarrow> int \<Rightarrow> int
   \<Rightarrow> stored_event list \<Rightarrow> api_failure + dict" where
  "workspace_activity_endpoint env headers now ws ty after before limit offset store =
    rbind (guard_service (ea_auth env) now ''api-gateway'' headers) (\<lambda>_.
    rbind (event_id_arg env ws) (\<lambda>wid.
    rbind (time_arg env after) (\<lambda>a.
    rbind (time_arg env before) (\<lambda>b.
    case get_workspace_activity wid ty a b (clamp 1 100 limit) (clamp 0 10000 offset) store of
      (es, all_count) \<Rightarrow> Inr
        [(''workspace_id'', JStr ws), (''events'', JList (map (JObj \<circ> event_to_dict) es)),
         (''count'', JInt (int (length es))), (''total_count'', JInt (int all_count))]))))"

section \<open>Retention\<close>

text \<open>\<open>a or b\<close> of a parameter and its default.  The cutoff has to be a date, and a negative \<open>LIMIT\<close> is refused by the
  database: both leave as exceptions.  The endpoint has no guard.\<close>

record cleanup_answer =
  cl_dry_run :: bool
  cl_retention_days :: int
  cl_cutoff :: time
  cl_candidates :: nat
  cl_deleted :: nat

definition int_or :: "int option \<Rightarrow> int \<Rightarrow> int" where
  "int_or x d = (case x of None \<Rightarrow> d | Some n \<Rightarrow> if n = 0 then d else n)"

definition days_us :: "int \<Rightarrow> time" where "days_us n = n * 86400 * 1000000"

definition delete_oldest :: "time \<Rightarrow> nat \<Rightarrow> stored_event list \<Rightarrow> stored_event list" where
  "delete_oldest cutoff batch store =
    (let doomed = take batch (sort_key se_occurred_at (filter (\<lambda>e. se_occurred_at e < cutoff) store))
     in filter (\<lambda>e. se_id e \<notin> se_id ` set doomed) store)"

definition cleanup_old_events ::
  "int \<Rightarrow> int \<Rightarrow> bool \<Rightarrow> int option \<Rightarrow> int option \<Rightarrow> time \<Rightarrow> stored_event list
   \<Rightarrow> (api_failure + cleanup_answer) \<times> stored_event list" where
  "cleanup_old_events default_days default_batch dry_run retention_days batch_size now store =
    (let days = int_or retention_days default_days;
         batch = min (int_or batch_size default_batch) 5000;
         cutoff = now - days_us days;
         candidates = length (filter (\<lambda>e. se_occurred_at e < cutoff) store);
         answer = (\<lambda>dry n. Inr \<lparr> cl_dry_run = dry, cl_retention_days = days, cl_cutoff = cutoff,
                                  cl_candidates = candidates, cl_deleted = n \<rparr>)
     in if dry_run \<or> candidates = 0 then (answer dry_run 0, store)
        else if batch < 0 then (Inl AF_Raised, store)
        else let store' = delete_oldest cutoff (nat batch) store
             in (answer False (length store - length store'), store'))"

section \<open>Streams\<close>

text \<open>A frame of a stream, and the state of its generator: the cursor and the polls without an event.\<close>

datatype sse_frame = Event_Frame uuid dict | Heartbeat

record sse_state =
  sm_last :: "uuid option"
  sm_idle :: nat

definition heartbeat_interval :: nat where "heartbeat_interval = 15"

text \<open>\<open>_format_sse\<close>, before the JSON is written out.\<close>

definition format_sse :: "stored_event \<Rightarrow> sse_frame" where
  "format_sse e = Event_Frame (se_id e) (event_to_dict e)"

definition advance :: "stored_event list \<Rightarrow> uuid option \<Rightarrow> uuid option" where
  "advance es last_id = (if es = [] then last_id else Some (se_id (last es)))"

text \<open>The query of a stream, by its cursor and a limit.\<close>

type_synonym stream_query = "uuid option \<Rightarrow> nat \<Rightarrow> stored_event list \<Rightarrow> stored_event list"

text \<open>The replay before the loop, and one turn of the loop; the tables are those of the moment.\<close>

definition stream_open :: "stream_query \<Rightarrow> uuid option \<Rightarrow> stored_event list \<Rightarrow> sse_frame list \<times> sse_state" where
  "stream_open q after store =
    (let missed = (if after = None then [] else q after 100 store)
     in (map format_sse missed, \<lparr> sm_last = advance missed after, sm_idle = 0 \<rparr>))"

definition stream_turn :: "stream_query \<Rightarrow> stored_event list \<Rightarrow> sse_state \<Rightarrow> sse_frame list \<times> sse_state" where
  "stream_turn q store s =
    (let es = q (sm_last s) 50 store in
     if es \<noteq> [] then (map format_sse es, \<lparr> sm_last = advance es (sm_last s), sm_idle = 0 \<rparr>)
     else if heartbeat_interval \<le> Suc (sm_idle s) then ([Heartbeat], s\<lparr> sm_idle := 0 \<rparr>)
     else ([], s\<lparr> sm_idle := Suc (sm_idle s) \<rparr>))"

text \<open>The turns until the client is gone, each with the store it finds.\<close>

fun stream_turns :: "stream_query \<Rightarrow> stored_event list list \<Rightarrow> sse_state \<Rightarrow> sse_frame list \<times> sse_state" where
  "stream_turns q [] s = ([], s)"
| "stream_turns q (store # stores) s =
    (let (fs, s') = stream_turn q store s; (gs, s'') = stream_turns q stores s' in (fs @ gs, s''))"

definition workspace_sse_generator ::
  "uuid \<Rightarrow> uuid option \<Rightarrow> stored_event list \<Rightarrow> stored_event list list \<Rightarrow> sse_frame list" where
  "workspace_sse_generator ws after store stores =
    (case stream_open (get_workspace_events ws) after store of
       (fs, s) \<Rightarrow> fs @ fst (stream_turns (get_workspace_events ws) stores s))"

definition run_sse_generator ::
  "uuid \<Rightarrow> uuid \<Rightarrow> uuid option \<Rightarrow> stored_event list \<Rightarrow> stored_event list list \<Rightarrow> sse_frame list" where
  "run_sse_generator run ws after store stores =
    (case stream_open (get_run_events_after run ws) after store of
       (fs, s) \<Rightarrow> fs @ fst (stream_turns (get_run_events_after run ws) stores s))"

text \<open>The endpoints: the cursor is the header \<open>Last-Event-ID\<close> or the query parameter.\<close>

definition cursor_arg :: "event_api_env \<Rightarrow> api_headers \<Rightarrow> string option \<Rightarrow> api_failure + uuid option" where
  "cursor_arg env headers param =
    (let h = header_value ''last-event-id'' headers; c = (if str_truthy h then h else param) in
     if \<not> str_truthy c then Inr None else rbind (event_id_arg env (the c)) (\<lambda>k. Inr (Some k)))"

definition workspace_event_stream ::
  "event_api_env \<Rightarrow> api_headers \<Rightarrow> time \<Rightarrow> string \<Rightarrow> string option \<Rightarrow> stored_event list \<Rightarrow> stored_event list list
   \<Rightarrow> api_failure + sse_frame list" where
  "workspace_event_stream env headers now ws param store stores =
    rbind (guard_service (ea_auth env) now ''api-gateway'' headers) (\<lambda>_.
    rbind (event_id_arg env ws) (\<lambda>wid.
    rbind (cursor_arg env headers param) (\<lambda>c. Inr (workspace_sse_generator wid c store stores))))"

definition run_event_stream ::
  "event_api_env \<Rightarrow> api_headers \<Rightarrow> time \<Rightarrow> string \<Rightarrow> string \<Rightarrow> string option \<Rightarrow> stored_event list \<Rightarrow> stored_event list list
   \<Rightarrow> api_failure + sse_frame list" where
  "run_event_stream env headers now run ws param store stores =
    rbind (guard_service (ea_auth env) now ''api-gateway'' headers) (\<lambda>_.
    rbind (event_id_arg env run) (\<lambda>rid.
    rbind (event_id_arg env ws) (\<lambda>wid.
    rbind (cursor_arg env headers param) (\<lambda>c. Inr (run_sse_generator rid wid c store stores)))))"

section \<open>The order of events\<close>

text \<open>The sorted rows are strictly increasing in the order of the cursor when the ids are distinct.\<close>

lemma set_in_order [simp]: "set (in_order es) = set es"
  by (simp add: in_order_def)

lemma length_in_order [simp]: "length (in_order es) = length es"
  by (simp add: in_order_def)

lemma sort_key_stable_sorted:
  assumes "sorted_wrt R es"
  shows "sorted_wrt (\<lambda>x y. f x < f y \<or> (f x = f y \<and> R x y)) (sort_key f es)"
proof -
  have ins: "sorted_wrt (\<lambda>x y. f x < f y \<or> (f x = f y \<and> R x y)) (insort_key f a xs)"
    if "sorted_wrt (\<lambda>x y. f x < f y \<or> (f x = f y \<and> R x y)) xs" "\<forall>x\<in>set xs. R a x" for a xs
    using that by (induction xs) (auto simp: set_insort_key)
  show ?thesis using assms
    by (induction es) (auto simp: ins)
qed

lemma in_order_sorted:
  assumes "distinct (map se_id es)"
  shows "sorted_wrt later_than (in_order es)"
proof -
  have "sorted_wrt (\<lambda>x y. se_id x < se_id y) (sort_key se_id es)"
  proof -
    have "distinct (map se_id (sort_key se_id es))" using assms by (simp add: distinct_map)
    then have "sorted_wrt (<) (map se_id (sort_key se_id es))" by (simp only: strict_sorted_iff sorted_sort_key simp_thms)
    then show ?thesis by (simp only: sorted_wrt_map)
  qed
  from sort_key_stable_sorted [OF this, of se_occurred_at] show ?thesis
    unfolding in_order_def by (rule sorted_wrt_mono_rel [rotated]) (auto simp: later_than_def)
qed

lemma later_than_trans: "later_than a b \<Longrightarrow> later_than b c \<Longrightarrow> later_than a c"
  by (auto simp: later_than_def)

lemma later_than_irrefl: "\<not> later_than a a"
  by (simp add: later_than_def)

text \<open>Two lists in the order with the same rows are the same.\<close>

lemma order_unique:
  assumes "sorted_wrt later_than xs" "sorted_wrt later_than ys" "set xs = set ys"
  shows "xs = ys"
  using assms
proof (induction xs arbitrary: ys)
  case (Cons x xs)
  then obtain y ys' where ys: "ys = y # ys'" by (cases ys) auto
  have "x = y"
    using Cons.prems later_than_trans later_than_irrefl unfolding ys by (metis list.set_intros(1) set_ConsD sorted_wrt.simps(2))
  moreover have "x \<notin> set xs" "y \<notin> set ys'"
    using Cons.prems later_than_irrefl unfolding ys by auto
  ultimately have "set xs = set ys'" using Cons.prems(3) unfolding ys by auto
  then show ?case using Cons \<open>x = y\<close> unfolding ys by simp
qed simp

section \<open>What a cursor has not read\<close>

definition unread :: "(stored_event \<Rightarrow> bool) \<Rightarrow> uuid \<Rightarrow> uuid option \<Rightarrow> stored_event list \<Rightarrow> stored_event list" where
  "unread scope ws after store =
    (case after of
       None \<Rightarrow> in_order (filter scope store)
     | Some k \<Rightarrow> (case find (\<lambda>e. se_id e = k \<and> se_workspace_id e = ws) store of
         None \<Rightarrow> [] | Some r \<Rightarrow> in_order (filter (\<lambda>e. scope e \<and> later_than r e) store)))"

lemma events_after_unread: "events_after scope ws after limit store = take limit (unread scope ws after store)"
  by (simp add: events_after_def unread_def split: option.split)

lemma find_event:
  assumes "distinct (map se_id store)" "r \<in> set store" "se_workspace_id r = ws"
  shows "find (\<lambda>e. se_id e = se_id r \<and> se_workspace_id e = ws) store = Some r"
  using assms by (induction store) (auto simp: image_iff)

lemma distinct_filter_ids: "distinct (map se_id store) \<Longrightarrow> distinct (map se_id (filter P store))"
  by (induction store) auto

lemma unread_sorted: "distinct (map se_id store) \<Longrightarrow> sorted_wrt later_than (unread scope ws after store)"
  by (auto simp: unread_def intro: in_order_sorted distinct_filter_ids split: option.split)

lemma unread_mem: "e \<in> set (unread scope ws after store) \<Longrightarrow> e \<in> set store \<and> scope e"
  by (auto simp: unread_def split: option.splits)

lemma unread_up:
  assumes x: "x \<in> set (unread scope ws after store)" and e: "e \<in> set store" "scope e" "later_than x e"
  shows "e \<in> set (unread scope ws after store)"
proof (cases after)
  case (Some k)
  with x obtain r where r: "find (\<lambda>e. se_id e = k \<and> se_workspace_id e = ws) store = Some r" "later_than r x"
    by (cases "find (\<lambda>e. se_id e = k \<and> se_workspace_id e = ws) store") (simp_all add: unread_def)
  then have "later_than r e" using e(3) later_than_trans by blast
  then show ?thesis using Some r(1) e(1,2) by (simp add: unread_def)
qed (use e in \<open>simp add: unread_def\<close>)

text \<open>The frames that carry events.\<close>

definition event_frames :: "sse_frame list \<Rightarrow> sse_frame list" where
  "event_frames fs = filter (\<lambda>f. f \<noteq> Heartbeat) fs"

lemma event_frames_simps [simp]:
  "event_frames [] = []" "event_frames (fs @ gs) = event_frames fs @ event_frames gs"
  "event_frames (map format_sse es) = map format_sse es" "event_frames [Heartbeat] = []"
  by (induction es) (simp_all add: event_frames_def format_sse_def)

text \<open>The interface between a stream and the query it polls.\<close>

locale event_query =
  fixes q :: stream_query and scope :: "stored_event \<Rightarrow> bool" and ws :: uuid
  assumes query: "q after limit store = take (min limit 500) (unread scope ws after store)"
    and scoped: "scope e \<Longrightarrow> se_workspace_id e = ws"
begin

lemma unread_found:
  assumes "distinct (map se_id store)" "r \<in> set store" "se_workspace_id r = ws"
  shows "unread scope ws (Some (se_id r)) store = in_order (filter (\<lambda>e. scope e \<and> later_than r e) store)"
  using find_event [OF assms] by (simp add: unread_def)

text \<open>Reading a part moves the cursor past exactly that part.\<close>

lemma unread_advance:
  assumes d: "distinct (map se_id store)" and split: "unread scope ws after store = xs @ ys"
  shows "unread scope ws (advance xs after) store = ys"
proof (cases xs rule: rev_cases)
  case (snoc xs' x)
  have srt: "sorted_wrt later_than (xs' @ x # ys)" using unread_sorted [OF d, of scope ws after] by (simp add: split snoc)
  have xu: "x \<in> set (unread scope ws after store)" by (simp add: split snoc)
  then have x: "x \<in> set store" "scope x" by (simp_all add: unread_mem)
  have "unread scope ws (Some (se_id x)) store = in_order (filter (\<lambda>e. scope e \<and> later_than x e) store)"
    by (rule unread_found [OF d x(1) scoped [OF x(2)]])
  moreover have "in_order (filter (\<lambda>e. scope e \<and> later_than x e) store) = ys"
  proof (rule order_unique)
    show "sorted_wrt later_than (in_order (filter (\<lambda>e. scope e \<and> later_than x e) store))"
      by (intro in_order_sorted distinct_filter_ids d)
    show "sorted_wrt later_than ys" using srt by (simp add: sorted_wrt_append)
    have "e \<in> set ys" if "e \<in> set store" "scope e" "later_than x e" for e
    proof -
      have "e \<in> set (unread scope ws after store)"
        by (rule unread_up [OF xu that])
      then have "e \<in> set xs' \<or> e = x \<or> e \<in> set ys" by (auto simp: split snoc)
      moreover have "later_than e x" if "e \<in> set xs'" using srt that by (simp add: sorted_wrt_append)
      ultimately show ?thesis
        using that(3) later_than_irrefl later_than_trans by blast
    qed
    moreover have "e \<in> set store \<and> scope e \<and> later_than x e" if "e \<in> set ys" for e
      using that srt unread_mem [of e scope ws after store] by (auto simp: split sorted_wrt_append)
    ultimately show "set (in_order (filter (\<lambda>e. scope e \<and> later_than x e) store)) = set ys" by auto
  qed
  ultimately show ?thesis by (simp add: snoc advance_def)
qed (use split in \<open>simp add: advance_def\<close>)

text \<open>A turn reads the next fifty events.\<close>

lemma stream_turn_reads:
  assumes "distinct (map se_id store)" "stream_turn q store s = (fs, s')"
  shows "event_frames fs = map format_sse (take 50 (unread scope ws (sm_last s) store))
    \<and> unread scope ws (sm_last s') store = drop 50 (unread scope ws (sm_last s) store)"
proof -
  let ?u = "unread scope ws (sm_last s) store"
  have "?u = take 50 ?u @ drop 50 ?u" by simp
  from unread_advance [OF assms(1) this] have "unread scope ws (advance (take 50 ?u) (sm_last s)) store = drop 50 ?u" .
  then show ?thesis
    using assms(2)
    by (cases "?u = []") (auto simp: stream_turn_def query Let_def advance_def split: if_splits)
qed

lemma stream_turns_read:
  assumes "distinct (map se_id store)"
  shows "event_frames (fst (stream_turns q (replicate n store) s))
    = map format_sse (take (50 * n) (unread scope ws (sm_last s) store))"
proof (induction n arbitrary: s)
  case (Suc n)
  let ?u = "unread scope ws (sm_last s) store"
  obtain fs s' where t: "stream_turn q store s = (fs, s')" by (rule prod.exhaust)
  have "take (50 + 50 * n) ?u = take 50 ?u @ take (50 * n) (drop 50 ?u)" by (simp add: take_add)
  then show ?case
    using stream_turn_reads [OF assms t] Suc [of s'] by (simp add: t case_prod_beta)
qed simp

lemma stream_reads:
  assumes "distinct (map se_id store)" "length (unread scope ws after store) \<le> 50 * n"
  shows "event_frames (case stream_open q after store of (fs, s) \<Rightarrow> fs @ fst (stream_turns q (replicate n store) s))
    = map format_sse (unread scope ws after store)"
proof (cases after)
  case None
  then show ?thesis using stream_turns_read [OF assms(1)] assms(2) by (simp add: stream_open_def advance_def)
next
  case (Some k)
  let ?u = "unread scope ws after store"
  have "?u = take 100 ?u @ drop 100 ?u" by simp
  from unread_advance [OF assms(1) this]
  have "unread scope ws (advance (take 100 ?u) after) store = drop 100 ?u" .
  moreover have "map format_sse ?u = map format_sse (take 100 ?u) @ map format_sse (drop 100 ?u)"
    by (metis append_take_drop_id map_append)
  ultimately show ?thesis
    using stream_turns_read [OF assms(1)] assms(2) Some by (simp add: stream_open_def query Let_def)
qed

end

interpretation workspace_query: event_query "get_workspace_events ws" "of_workspace ws" ws for ws
  by unfold_locales (simp_all add: get_workspace_events_def list_by_workspace_def events_after_unread of_workspace_def)

interpretation run_query: event_query "get_run_events_after run ws" "of_run run ws" ws for run ws
  by unfold_locales (simp_all add: get_run_events_after_def list_by_run_after_event_def events_after_unread of_run_def)

section \<open>Cursors that grow old\<close>

context event_query
begin

text \<open>While the stores only grow, a stream delivers events of the scope later than its cursor and no others.\<close>

lemma stream_turns_later:
  assumes "sorted_wrt (\<lambda>a b. set a \<subseteq> set b) stores" "\<And>st. st \<in> set stores \<Longrightarrow> distinct (map se_id st) \<and> r \<in> set st"
    and "se_workspace_id r = ws" "sm_last s = Some (se_id r)" "Event_Frame i d \<in> set (fst (stream_turns q stores s))"
  shows "\<exists>st \<in> set stores. \<exists>x \<in> set st. i = se_id x \<and> scope x \<and> later_than r x"
  using assms
proof (induction stores arbitrary: s r)
  case (Cons st stores)
  let ?u = "unread scope ws (sm_last s) st"
  have st: "distinct (map se_id st)" "r \<in> set st" using Cons.prems(2) by auto
  have u: "?u = in_order (filter (\<lambda>e. scope e \<and> later_than r e) st)"
    using unread_found [OF st Cons.prems(3)] Cons.prems(4) by simp
  obtain fs s' where t: "stream_turn q st s = (fs, s')" by (rule prod.exhaust)
  consider (now) "Event_Frame i d \<in> set fs" | (later) "Event_Frame i d \<in> set (fst (stream_turns q stores s'))"
    using Cons.prems(5) by (auto simp: t case_prod_beta)
  then show ?case
  proof cases
    case now
    then have "Event_Frame i d \<in> set (event_frames fs)" by (simp add: event_frames_def)
    then obtain x where "x \<in> set ?u" "i = se_id x"
      using stream_turn_reads [OF st(1) t] by (auto simp: format_sse_def dest: in_set_takeD)
    then show ?thesis by (auto simp: u)
  next
    case later
    define es where "es = take 50 ?u"
    show ?thesis
    proof (cases es rule: rev_cases)
      case Nil
      then have "sm_last s' = Some (se_id r)"
        using t Cons.prems(4) by (auto simp: es_def stream_turn_def query split: if_splits)
      then show ?thesis using Cons.IH [of r s'] Cons.prems later by auto
    next
      case (snoc xs x)
      have "x \<in> set es" by (simp add: snoc)
      then have "x \<in> set ?u" unfolding es_def by (rule in_set_takeD)
      then have x: "x \<in> set st" "scope x" "later_than r x" by (simp_all add: u)
      have l: "sm_last s' = Some (se_id x)"
        using t snoc by (auto simp: es_def stream_turn_def query advance_def Let_def split: if_splits)
      have so: "sorted_wrt (\<lambda>a b. set a \<subseteq> set b) stores" using Cons.prems(1) by simp
      have di: "distinct (map se_id st') \<and> x \<in> set st'" if "st' \<in> set stores" for st'
      proof
        show "distinct (map se_id st')" using that Cons.prems(2) by simp
        show "x \<in> set st'" using that Cons.prems(1) x(1) by auto
      qed
      have "\<exists>st \<in> set stores. \<exists>y \<in> set st. i = se_id y \<and> scope y \<and> later_than x y"
        by (rule Cons.IH [OF so di scoped [OF x(2)] l later])
      then obtain st' y where "st' \<in> set stores" "y \<in> set st'" "i = se_id y" "scope y" "later_than x y" by blast
      moreover have "later_than r y" using x(3) \<open>later_than x y\<close> by (rule later_than_trans)
      ultimately show ?thesis by auto
    qed
  qed
qed simp

lemma stream_turns_starve:
  assumes "\<And>st. st \<in> set stores \<Longrightarrow> find (\<lambda>e. se_id e = k \<and> se_workspace_id e = ws) st = None" "sm_last s = Some k"
  shows "event_frames (fst (stream_turns q stores s)) = []"
  using assms
proof (induction stores arbitrary: s)
  case (Cons st stores)
  have "q (Some k) 50 st = []" using Cons.prems(1) [of st] by (simp add: query unread_def)
  then have "\<exists>fs s'. stream_turn q st s = (fs, s') \<and> event_frames fs = [] \<and> sm_last s' = Some k"
    using Cons.prems(2) by (auto simp: stream_turn_def Let_def)
  then show ?case using Cons by (auto simp: case_prod_beta)
qed simp

end

text \<open>C20. A stream over a quiet store delivers exactly the events of its workspace, or of its run, later than its
  cursor, in their order, each once, however they fall into pages: the one that was not connected before starts at the
  very first event.\<close>

theorem stream_exact:
  assumes "distinct (map se_id store)" "\<And>r. cursor = Some r \<Longrightarrow> r \<in> set store \<and> se_workspace_id r = ws"
    and "length store \<le> 50 * n"
  shows "event_frames (workspace_sse_generator ws (map_option se_id cursor) store (replicate n store)) =
      map format_sse (in_order (filter (\<lambda>e. se_workspace_id e = ws \<and> (\<forall>r. cursor = Some r \<longrightarrow> later_than r e)) store))
    \<and> event_frames (run_sse_generator run ws (map_option se_id cursor) store (replicate n store)) =
      map format_sse (in_order (filter (\<lambda>e. se_run_id e = Some run \<and> se_workspace_id e = ws
        \<and> (\<forall>r. cursor = Some r \<longrightarrow> later_than r e)) store))"
proof -
  have un: "unread scope ws (map_option se_id cursor) store =
      in_order (filter (\<lambda>e. scope e \<and> (\<forall>r. cursor = Some r \<longrightarrow> later_than r e)) store)" for scope
    using assms(1,2) by (cases cursor) (simp_all add: unread_def find_event)
  have len: "length (unread scope ws (map_option se_id cursor) store) \<le> 50 * n" for scope
    unfolding un length_in_order using assms(3) length_filter_le le_trans by blast
  show ?thesis
    using workspace_query.stream_reads [OF assms(1) len [of "of_workspace ws"]]
      run_query.stream_reads [OF assms(1) len [of "of_run run ws"]]
    by (simp add: workspace_sse_generator_def run_sse_generator_def un of_workspace_def of_run_def conj_assoc)
qed

text \<open>C21. An event that arrives late is never streamed: once the cursor of a stream has passed its instant, as happens
  when the relay delivers it after younger events, no later turn of the stream has a frame for it, although the
  store has it.\<close>

theorem late_event_never_streamed:
  assumes "sorted_wrt (\<lambda>a b. set a \<subseteq> set b) stores" "stores \<noteq> []" "e \<in> set (last stores)"
    and "\<And>st. st \<in> set stores \<Longrightarrow> distinct (map se_id st) \<and> r \<in> set st"
    and "se_workspace_id r = ws" "sm_last s = Some (se_id r)" "se_occurred_at e < se_occurred_at r"
  shows "Event_Frame (se_id e) d \<notin> set (fst (stream_turns (get_workspace_events ws) stores s))
    \<and> Event_Frame (se_id e) d \<notin> set (fst (stream_turns (get_run_events_after run ws) stores s))"
proof -
  have "False" if x: "st \<in> set stores" "x \<in> set st" "se_id e = se_id x" "later_than r x" for st x
  proof -
    obtain pre where pre: "stores = pre @ [last stores]" using assms(2) by (metis append_butlast_last_id)
    then have "st = last stores \<or> set st \<subseteq> set (last stores)"
      using assms(1) x(1) by (metis (no_types, lifting) Un_iff in_set_conv_decomp list.set(1) list.set(2) set_append
        sorted_wrt_append insertE empty_iff)
    then have "x \<in> set (last stores)" using x(2) by auto
    moreover have "distinct (map se_id (last stores))" using assms(2,4) by simp
    ultimately have "x = e" using assms(3) x(3) by (metis distinct_map inj_onD)
    then show False using x(4) assms(7) by (simp add: later_than_def)
  qed
  then show ?thesis
    using workspace_query.stream_turns_later [OF assms(1) _ assms(5,6), of "se_id e" d]
      run_query.stream_turns_later [OF assms(1) _ assms(5,6), of "se_id e" d run] assms(4) by blast
qed

text \<open>A cursor whose event the retention has deleted, or that never was one, reads nothing ever again.\<close>

theorem stream_starves:
  assumes "\<And>st. st \<in> set stores \<Longrightarrow> find (\<lambda>e. se_id e = k \<and> se_workspace_id e = ws) st = None"
    and "find (\<lambda>e. se_id e = k \<and> se_workspace_id e = ws) store = None"
  shows "event_frames (workspace_sse_generator ws (Some k) store stores) = []"
proof -
  have "get_workspace_events ws (Some k) 100 store = []"
    using assms(2) by (simp add: workspace_query.query unread_def)
  then show ?thesis
    using workspace_query.stream_turns_starve [of stores k ws "\<lparr> sm_last = Some k, sm_idle = 0 \<rparr>"] assms(1)
    by (simp add: workspace_sse_generator_def stream_open_def advance_def)
qed

section \<open>Witnesses\<close>

definition demo_stored :: "uuid \<Rightarrow> time \<Rightarrow> stored_event" where
  "demo_stored i t = \<lparr> se_id = i, se_event_type = ''task.started'', se_schema_version = JStr ''1.0'', se_workspace_id = 7,
     se_task_id = None, se_run_id = Some 4, se_step_id = None, se_correlation_id = 5, se_causation_id = None,
     se_occurred_at = t, se_emitted_by = JNull, se_actor = JNull, se_payload = JObj [], se_received_at = t \<rparr>"

theorem stream_exact_witness:
  "event_frames (workspace_sse_generator 7 (Some 1) [demo_stored 3 30, demo_stored 1 10, demo_stored 2 20]
     (replicate 1 [demo_stored 3 30, demo_stored 1 10, demo_stored 2 20])) = map format_sse [demo_stored 2 20, demo_stored 3 30]"
proof -
  have "in_order (filter (\<lambda>e. se_workspace_id e = 7 \<and> (\<forall>r. Some (demo_stored 1 10) = Some r \<longrightarrow> later_than r e))
      [demo_stored 3 30, demo_stored 1 10, demo_stored 2 20]) = [demo_stored 2 20, demo_stored 3 30]"
    by (simp add: demo_stored_def later_than_def in_order_def)
  then show ?thesis
    using stream_exact [of "[demo_stored 3 30, demo_stored 1 10, demo_stored 2 20]" "Some (demo_stored 1 10)" 7 1 4]
    by (simp add: demo_stored_def)
qed

theorem late_event_never_streamed_witness:
  "Event_Frame 3 (event_to_dict (demo_stored 3 15)) \<notin> set (fst (stream_turns (get_workspace_events 7)
     [[demo_stored 1 10, demo_stored 2 20], [demo_stored 1 10, demo_stored 2 20, demo_stored 3 15]]
     \<lparr> sm_last = Some 2, sm_idle = 0 \<rparr>))"
proof -
  let ?stores = "[[demo_stored 1 10, demo_stored 2 20], [demo_stored 1 10, demo_stored 2 20, demo_stored 3 15]]"
  have d: "se_id (demo_stored i t) = i" "se_workspace_id (demo_stored i t) = 7" "se_occurred_at (demo_stored i t) = t" for i t
    by (simp_all add: demo_stored_def)
  let ?s = "\<lparr> sm_last = Some 2, sm_idle = 0 \<rparr>"
  have stores: "distinct (map se_id st) \<and> demo_stored 2 20 \<in> set st" if "st \<in> set ?stores" for st
    using that by (auto simp: d)
  have "sorted_wrt (\<lambda>a b. set a \<subseteq> set b) ?stores" "?stores \<noteq> []" "demo_stored 3 15 \<in> set (last ?stores)"
    "se_workspace_id (demo_stored 2 20) = 7" "sm_last ?s = Some (se_id (demo_stored 2 20))"
    "se_occurred_at (demo_stored 3 15) < se_occurred_at (demo_stored 2 20)"
    by (auto simp: d)
  from late_event_never_streamed [OF this(1-3) stores this(4-6)] show ?thesis unfolding d by blast
qed

end
