(* ===== verification/Task_Routes.thy ===== *)
theory Task_Routes
  imports Approval_Routes Orch_Execution Orch_Recovery
begin

text \<open>
  The endpoints of tasks, runs and steps of the orchestrator: \<open>api/routes.py\<close>, \<open>api/routes_brief.py\<close> and
  \<open>application/queries.py\<close>.  An endpoint of a command gives its answer, the database it leaves behind and the calls
  its background tasks make.  A field of a body has the type its command declares, or is null where the command has
  a default: other values raise at once.  Instants stand for their ISO texts.
\<close>

section \<open>Reading requests\<close>

text \<open>\<open>UUID(x)\<close>, and \<open>UUID(x) if x else None\<close>.\<close>

definition json_id :: "orch_api_env \<Rightarrow> json \<Rightarrow> api_failure + uuid" where
  "json_id env j = (case j of JUuid i \<Rightarrow> Inr i | JStr s \<Rightarrow> parsed env 400 s | _ \<Rightarrow> Inl AF_Raised)"

definition json_opt_id :: "orch_api_env \<Rightarrow> string \<Rightarrow> dict \<Rightarrow> api_failure + uuid option" where
  "json_opt_id env k d =
    (let j = jget k JNull d in
     if \<not> json_truthy j then Inr None else rbind (json_id env j) (\<lambda>i. Inr (Some i)))"

definition json_dict :: "json \<Rightarrow> api_failure + dict option" where
  "json_dict j = (case j of JObj x \<Rightarrow> Inr (Some x) | JNull \<Rightarrow> Inr None | _ \<Rightarrow> Inl AF_Raised)"

text \<open>The gateway sets \<open>X-User-Id\<close>, which overrides the field of the body.\<close>

definition with_user :: "api_headers \<Rightarrow> json option \<Rightarrow> api_failure + json" where
  "with_user headers body =
    (case body of
       None \<Rightarrow> Inl AF_Raised
     | Some j \<Rightarrow>
         let user = header_value ''x-user-id'' headers in
         if \<not> str_truthy user then Inr j
         else (case j of JObj d \<Rightarrow> Inr (JObj (dict_put ''created_by_id'' (JStr (the user)) d)) | _ \<Rightarrow> Inl AF_Raised))"

section \<open>Failures\<close>

definition is_transition :: "domain_error \<Rightarrow> bool" where
  "is_transition e = (case e of InvalidTransition _ _ _ _ \<Rightarrow> True | TerminalState _ _ _ \<Rightarrow> True | _ \<Rightarrow> False)"

text \<open>\<open>'not found' in str(e).lower()\<close>: the messages have fixed words and, of a validation, the given text.\<close>

definition handler_not_found :: "handler_error \<Rightarrow> bool" where
  "handler_not_found e = (case e of
       TaskNotFound _ \<Rightarrow> True
     | DomainErr (DomainValidation entity msg) \<Rightarrow> str_contains ''not found'' (py_lower (entity @ '': '' @ msg))
     | _ \<Rightarrow> False)"

definition is_domain :: "handler_error \<Rightarrow> bool" where
  "is_domain e = (case e of TaskNotFound _ \<Rightarrow> True | DomainErr _ \<Rightarrow> True | _ \<Rightarrow> False)"

text \<open>The three ways the endpoints map a \<open>DomainError\<close>; any other error leaves as it is.\<close>

definition bad_request :: "handler_error \<Rightarrow> api_failure" where
  "bad_request e = (if is_domain e then AF_Http 400 else AF_Raised)"

definition missing_or_bad :: "handler_error \<Rightarrow> api_failure" where
  "missing_or_bad e = (if is_domain e \<and> handler_not_found e then AF_Http 404 else bad_request e)"

definition missing_or_conflict :: "handler_error \<Rightarrow> api_failure" where
  "missing_or_conflict e =
    (if \<not> is_domain e then AF_Raised
     else if (case e of DomainErr d \<Rightarrow> is_transition d | _ \<Rightarrow> False) then AF_Http 409
     else if handler_not_found e then AF_Http 404 else AF_Http 409)"

section \<open>Answers\<close>

definition optional_ids :: "(string \<times> uuid option) list \<Rightarrow> dict" where
  "optional_ids kvs = concat (map (\<lambda>(k, v). case v of None \<Rightarrow> [] | Some i \<Rightarrow> [(k, JUuid i)]) kvs)"

definition task_to_dict :: "task \<Rightarrow> run option \<Rightarrow> dict" where
  "task_to_dict t latest =
     [(''task_id'', JUuid (t_id t)), (''workspace_id'', JUuid (t_workspace_id t)), (''title'', JStr (t_title t)),
      (''description'', opt_str (t_description t)), (''task_type'', JStr (task_type_value (t_task_type t))),
      (''task_status'', JStr (task_status_value (t_status t))), (''input_config'', JObj (t_input_config t)),
      (''created_by_id'', JUuid (t_created_by_id t)), (''created_at'', JInt (t_created_at t)),
      (''updated_at'', JInt (t_updated_at t)), (''goal'', opt_str (t_goal t)), (''context'', opt_str (t_context t)),
      (''constraints'', opt_str (t_constraints t)), (''desired_output'', opt_str (t_desired_output t)),
      (''risk_level'', opt_str (t_risk_level t))]
     @ optional_ids [(''template_id'', t_template_id t), (''agent_template_id'', t_agent_template_id t),
         (''repo_snapshot_id'', t_repo_snapshot_id t), (''policy_id'', t_policy_id t),
         (''parent_task_id'', t_parent_task_id t), (''latest_run_id'', map_option r_id latest)]"

definition opt_moment :: "time option \<Rightarrow> json" where
  "opt_moment t = (case t of None \<Rightarrow> JNull | Some x \<Rightarrow> JInt x)"

definition run_to_dict :: "run \<Rightarrow> dict" where
  "run_to_dict r =
     [(''run_id'', JUuid (r_id r)), (''task_id'', JUuid (r_task_id r)), (''workspace_id'', JUuid (r_workspace_id r)),
      (''run_status'', JStr (run_status_value (r_status r))), (''trigger_type'', JStr (trigger_type_value (r_trigger_type r))),
      (''started_at'', opt_moment (r_started_at r)), (''completed_at'', opt_moment (r_completed_at r)),
      (''duration_ms'', opt_moment (r_duration_ms r)), (''created_at'', JInt (r_created_at r))]
     @ (if str_truthy (r_error_summary r) then [(''error_summary'', JStr (the (r_error_summary r)))] else [])"

definition truthy_dict :: "string \<Rightarrow> dict option \<Rightarrow> dict" where
  "truthy_dict k v = (case v of None \<Rightarrow> [] | Some d \<Rightarrow> if d = [] then [] else [(k, JObj d)])"

definition step_to_dict :: "step \<Rightarrow> dict" where
  "step_to_dict s =
     [(''step_id'', JUuid (s_id s)), (''run_id'', JUuid (s_run_id s)), (''sequence'', JInt (s_sequence s)),
      (''step_type'', JStr (step_type_value (s_step_type s))), (''step_status'', JStr (step_status_value (s_status s))),
      (''started_at'', opt_moment (s_started_at s)), (''completed_at'', opt_moment (s_completed_at s))]
     @ truthy_dict ''error_detail'' (s_error_detail s) @ truthy_dict ''output_snapshot'' (s_output_snapshot s)"

definition accepted_answer :: "task \<Rightarrow> dict" where
  "accepted_answer t = [(''task_id'', JUuid (t_id t)), (''status'', JStr ''accepted''),
     (''links'', JObj [(''task'', JUuid (t_id t))])]"

definition task_audit :: "orch_api_env \<Rightarrow> string \<Rightarrow> string \<Rightarrow> task \<Rightarrow> dict \<Rightarrow> service_call list" where
  "task_audit env actor act t metadata =
     record_audit env actor act (t_workspace_id t) (oe_uuid_str env (t_id t)) ''task'' metadata"

section \<open>Commands\<close>

text \<open>Submitting runs the task in the request: an exception of the execution is logged.  The configured services and
  what others do meanwhile are the environment of the execution.\<close>

definition task_fields :: "string list" where
  "task_fields = [''workspace_id'', ''title'', ''task_type'', ''created_by_id'']"

definition submit_command :: "orch_api_env \<Rightarrow> dict \<Rightarrow> api_failure + submit_task" where
  "submit_command env d =
    rbind (json_id env (jget ''workspace_id'' JNull d)) (\<lambda>ws.
    rbind (json_id env (jget ''created_by_id'' JNull d)) (\<lambda>user.
    rbind (json_opt_id env ''repo_snapshot_id'' d) (\<lambda>repo.
    rbind (json_opt_id env ''policy_id'' d) (\<lambda>policy.
    rbind (json_opt_id env ''parent_task_id'' d) (\<lambda>parent.
    rbind (text_or_null (jget ''title'' JNull d)) (\<lambda>title.
    rbind (text_or_null (jget ''task_type'' JNull d)) (\<lambda>ty.
    rbind (text_or_null (jget ''description'' JNull d)) (\<lambda>description.
    rbind (json_dict (jget ''input_config'' JNull d)) (\<lambda>config.
    Inr \<lparr> st_workspace_id = ws, st_title = opt_or title [], st_task_type = opt_or ty [], st_created_by_id = user,
          st_description = description, st_input_config = config, st_repo_snapshot_id = repo, st_policy_id = policy,
          st_parent_task_id = parent \<rparr>)))))))))"

definition submit_task_endpoint ::
  "orch_api_env \<Rightarrow> api_auth \<Rightarrow> exec_env \<Rightarrow> api_headers \<Rightarrow> json option \<Rightarrow> uuid_supply \<Rightarrow> uuid_supply \<Rightarrow> time \<Rightarrow> time
   \<Rightarrow> orch_db \<Rightarrow> (api_failure + dict) \<times> orch_db \<times> service_call list" where
  "submit_task_endpoint env auth xenv headers body u xu now later db =
    (case rbind (guard_service auth now ''api-gateway'' headers) (\<lambda>_.
          rbind (with_user headers body) (\<lambda>j.
          rbind (require_fields task_fields j) (submit_command env))) of
       Inl e \<Rightarrow> (Inl e, db, [])
     | Inr cmd \<Rightarrow>
         (case handle_submit_task cmd u now db of
            Inl e \<Rightarrow> (Inl (bad_request e), db, [])
          | Inr (t, db1) \<Rightarrow>
              (Inr (accepted_answer t), xo_db (run_real_execution (t_id t) xenv xu now later db1),
               task_audit env (oe_uuid_str env (t_created_by_id t)) ''task.created'' t
                 [(''title'', JStr (take 200 (t_title t)))])))"

text \<open>The three commands on an existing task name their user in the header.\<close>

definition user_command ::
  "orch_api_env \<Rightarrow> api_auth \<Rightarrow> api_headers \<Rightarrow> time \<Rightarrow> string \<Rightarrow> api_failure + (uuid \<times> uuid \<times> string)" where
  "user_command env auth headers now task =
    rbind (guard_service auth now ''api-gateway'' headers) (\<lambda>_.
    let user = header_value ''x-user-id'' headers in
    rbind (need (str_truthy user) 400) (\<lambda>_.
    rbind (parsed env 400 task) (\<lambda>tid.
    rbind (parsed env 400 (the user)) (\<lambda>uid. Inr (tid, uid, the user)))))"

definition cancel_task_endpoint ::
  "orch_api_env \<Rightarrow> api_auth \<Rightarrow> api_headers \<Rightarrow> string \<Rightarrow> uuid_supply \<Rightarrow> time \<Rightarrow> orch_db
   \<Rightarrow> (api_failure + dict) \<times> orch_db \<times> service_call list" where
  "cancel_task_endpoint env auth headers task u now db =
    (case user_command env auth headers now task of
       Inl e \<Rightarrow> (Inl e, db, [])
     | Inr (tid, uid, user) \<Rightarrow>
         (case handle_cancel_task tid (Some uid) u now db of
            Inl e \<Rightarrow> (Inl (missing_or_conflict e), db, [])
          | Inr (r, db') \<Rightarrow>
              (Inr [(''task_id'', JUuid (t_id (ct_task r))), (''status'', JStr ''accepted''),
                    (''cancelled_runs'', JInt (int (length (ct_cancelled_runs r)))),
                    (''cancelled_steps'', JInt (int (length (ct_cancelled_steps r))))], db',
               task_audit env user ''task.cancelled'' (ct_task r) [])))"

definition retry_task_endpoint ::
  "orch_api_env \<Rightarrow> api_auth \<Rightarrow> api_headers \<Rightarrow> string \<Rightarrow> uuid_supply \<Rightarrow> time \<Rightarrow> orch_db
   \<Rightarrow> (api_failure + dict) \<times> orch_db \<times> service_call list" where
  "retry_task_endpoint env auth headers task u now db =
    (case user_command env auth headers now task of
       Inl e \<Rightarrow> (Inl e, db, [])
     | Inr (tid, uid, user) \<Rightarrow>
         (case handle_retry_task tid uid u now db of
            Inl e \<Rightarrow> (Inl (missing_or_conflict e), db, [])
          | Inr (t, db') \<Rightarrow>
              (Inr [(''task_id'', JUuid (t_id t)), (''status'', JStr ''accepted'')], db',
               task_audit env user ''task.retried'' t [])))"

definition launch_task_endpoint ::
  "orch_api_env \<Rightarrow> api_auth \<Rightarrow> exec_env \<Rightarrow> api_headers \<Rightarrow> string \<Rightarrow> uuid_supply \<Rightarrow> uuid_supply \<Rightarrow> time \<Rightarrow> time
   \<Rightarrow> orch_db \<Rightarrow> (api_failure + dict) \<times> orch_db \<times> service_call list" where
  "launch_task_endpoint env auth xenv headers task u xu now later db =
    (case user_command env auth headers now task of
       Inl e \<Rightarrow> (Inl e, db, [])
     | Inr (tid, uid, user) \<Rightarrow>
         (case handle_launch_task tid uid u now db of
            Inl e \<Rightarrow> (Inl (missing_or_bad e), db, [])
          | Inr (t, db1) \<Rightarrow>
              (Inr (accepted_answer t), xo_db (run_real_execution (t_id t) xenv xu now later db1),
               task_audit env user ''task.created'' t [(''title'', JStr (take 200 (t_title t)))])))"

section \<open>Drafts\<close>

definition draft_command :: "orch_api_env \<Rightarrow> json \<Rightarrow> dict \<Rightarrow> api_failure + create_task_draft" where
  "draft_command env user d =
    rbind (json_id env (jget ''workspace_id'' JNull d)) (\<lambda>ws.
    rbind (json_id env user) (\<lambda>uid.
    rbind (json_opt_id env ''template_id'' d) (\<lambda>template.
    rbind (json_opt_id env ''agent_template_id'' d) (\<lambda>agent.
    rbind (text_or_null (jget ''title'' JNull d)) (\<lambda>title.
    rbind (text_or_null (jget ''task_type'' (JStr ''custom'') d)) (\<lambda>ty.
    rbind (text_or_null (jget ''description'' JNull d)) (\<lambda>description.
    rbind (text_or_null (jget ''goal'' JNull d)) (\<lambda>goal.
    rbind (text_or_null (jget ''context'' JNull d)) (\<lambda>ctx.
    rbind (text_or_null (jget ''constraints'' JNull d)) (\<lambda>constraints.
    rbind (text_or_null (jget ''desired_output'' JNull d)) (\<lambda>desired.
    rbind (text_or_null (jget ''risk_level'' JNull d)) (\<lambda>risk.
    rbind (json_dict (jget ''input_config'' JNull d)) (\<lambda>config.
    Inr \<lparr> cd_workspace_id = ws, cd_title = opt_or title [], cd_task_type = opt_or ty [], cd_created_by_id = uid,
          cd_description = description, cd_goal = goal, cd_context = ctx, cd_constraints = constraints,
          cd_desired_output = desired, cd_template_id = template, cd_agent_template_id = agent, cd_risk_level = risk,
          cd_input_config = config \<rparr>)))))))))))))"

text \<open>The checks before the command; a title without \<open>strip\<close> raises.\<close>

definition draft_checks :: "api_headers \<Rightarrow> json \<Rightarrow> api_failure + (json \<times> dict)" where
  "draft_checks headers j =
    (case j of
       JObj d \<Rightarrow>
         (case map_of d ''title'' of
            None \<Rightarrow> Inl (AF_Http 400)
          | Some (JStr s) \<Rightarrow>
              if is_blank s then Inl (AF_Http 400)
              else if map_of d ''workspace_id'' = None then Inl (AF_Http 400)
              else
                let user = json_or (jget ''created_by_id'' JNull d) (opt_str (header_value ''x-user-id'' headers))
                in if json_truthy user then Inr (user, d) else Inl (AF_Http 400)
          | Some _ \<Rightarrow> Inl AF_Raised)
     | _ \<Rightarrow> Inl (case body_has ''title'' j of Some False \<Rightarrow> AF_Http 400 | _ \<Rightarrow> AF_Raised))"

definition create_draft_endpoint ::
  "orch_api_env \<Rightarrow> api_auth \<Rightarrow> api_headers \<Rightarrow> json option \<Rightarrow> uuid_supply \<Rightarrow> time \<Rightarrow> orch_db
   \<Rightarrow> (api_failure + dict) \<times> orch_db" where
  "create_draft_endpoint env auth headers body u now db =
    (case rbind (guard_service auth now ''api-gateway'' headers) (\<lambda>_.
          rbind (with_user headers body) (\<lambda>j.
          rbind (draft_checks headers j) (\<lambda>(user, d). draft_command env user d))) of
       Inl e \<Rightarrow> (Inl e, db)
     | Inr cmd \<Rightarrow>
         (case handle_create_draft cmd u now db of
            Inl e \<Rightarrow> (Inl (bad_request e), db) | Inr (t, db') \<Rightarrow> (Inr (task_to_dict t None), db')))"

text \<open>The two ids of a brief are read as such when they are given; an unknown field is refused by the handler,
  whatever its value.\<close>

definition brief_value_of :: "orch_api_env \<Rightarrow> string \<Rightarrow> json \<Rightarrow> api_failure + brief_value" where
  "brief_value_of env k j =
    (if k = ''template_id'' \<or> k = ''agent_template_id''
     then (if json_truthy j then rbind (json_id env j) (\<lambda>i. Inr (BUuid (Some i)))
           else if j = JNull then Inr (BUuid None) else Inl AF_Raised)
     else if k \<notin> set brief_fields then Inr (BStr None)
     else rbind (text_or_null j) (\<lambda>s. Inr (BStr s)))"

fun brief_updates :: "orch_api_env \<Rightarrow> dict \<Rightarrow> api_failure + (string \<times> brief_value) list" where
  "brief_updates env [] = Inr []"
| "brief_updates env ((k, j) # d) =
     rbind (brief_value_of env k j) (\<lambda>v. rbind (brief_updates env d) (\<lambda>vs. Inr ((k, v) # vs)))"

definition update_task_endpoint ::
  "orch_api_env \<Rightarrow> api_auth \<Rightarrow> api_headers \<Rightarrow> string \<Rightarrow> json option \<Rightarrow> time \<Rightarrow> orch_db \<Rightarrow> (api_failure + dict) \<times> orch_db" where
  "update_task_endpoint env auth headers task body now db =
    (case rbind (guard_service auth now ''api-gateway'' headers) (\<lambda>_.
          case body of
            None \<Rightarrow> Inl AF_Raised
          | Some j \<Rightarrow>
              rbind (parsed env 400 task) (\<lambda>tid.
              rbind (case j of JObj d \<Rightarrow> Inr d | _ \<Rightarrow> Inl AF_Raised) (\<lambda>d.
              rbind (brief_updates env d) (\<lambda>updates.
              rbind (need (updates \<noteq> []) 400) (\<lambda>_. Inr (tid, updates)))))) of
       Inl e \<Rightarrow> (Inl e, db)
     | Inr (tid, updates) \<Rightarrow>
         (case handle_update_brief tid updates now db of
            Inl e \<Rightarrow> (Inl (missing_or_bad e), db) | Inr (t, db') \<Rightarrow> (Inr (task_to_dict t None), db')))"

section \<open>Queries\<close>

definition list_tasks_by_workspace :: "uuid \<Rightarrow> nat \<Rightarrow> nat \<Rightarrow> orch_db \<Rightarrow> (task \<times> run option) list" where
  "list_tasks_by_workspace ws limit offset db =
     map (\<lambda>t. (t, run_get_latest_by_task (t_id t) db)) (task_list_by_workspace ws limit offset db)"

definition get_task :: "uuid \<Rightarrow> orch_db \<Rightarrow> handler_error + task" where
  "get_task k db = task_lookup k db"

text \<open>A run that is not found is a \<open>DomainError\<close> like a task.\<close>

definition get_run :: "uuid \<Rightarrow> orch_db \<Rightarrow> handler_error + run" where
  "get_run k db = (case run_get k db of None \<Rightarrow> Inl (TaskNotFound k) | Some r \<Rightarrow> Inr r)"

definition get_task_with_latest_run :: "uuid \<Rightarrow> orch_db \<Rightarrow> handler_error + (task \<times> run option)" where
  "get_task_with_latest_run k db = rbind (task_lookup k db) (\<lambda>t. Inr (t, run_get_latest_by_task k db))"

definition get_run_steps :: "uuid \<Rightarrow> orch_db \<Rightarrow> handler_error + (run \<times> step list)" where
  "get_run_steps k db = rbind (get_run k db) (\<lambda>r. Inr (r, step_list_by_run k db))"

definition list_tasks_endpoint ::
  "orch_api_env \<Rightarrow> api_auth \<Rightarrow> api_headers \<Rightarrow> time \<Rightarrow> string \<Rightarrow> int \<Rightarrow> int \<Rightarrow> orch_db \<Rightarrow> api_failure + dict" where
  "list_tasks_endpoint env auth headers now ws limit offset db =
    rbind (guard_service auth now ''api-gateway'' headers) (\<lambda>_.
    rbind (parsed env 400 ws) (\<lambda>wid.
    let items = map (\<lambda>(t, r). JObj (task_to_dict t r))
          (list_tasks_by_workspace wid (nat (max 1 (min limit 100))) (nat (max 0 offset)) db)
    in Inr [(''items'', JList items), (''count'', JInt (int (length items)))]))"

definition get_task_endpoint ::
  "orch_api_env \<Rightarrow> api_auth \<Rightarrow> api_headers \<Rightarrow> time \<Rightarrow> string \<Rightarrow> orch_db \<Rightarrow> api_failure + dict" where
  "get_task_endpoint env auth headers now task db =
    rbind (guard_service auth now ''api-gateway'' headers) (\<lambda>_.
    rbind (parsed env 400 task) (\<lambda>tid.
    case get_task_with_latest_run tid db of Inl _ \<Rightarrow> Inl (AF_Http 404) | Inr (t, r) \<Rightarrow> Inr (task_to_dict t r)))"

text \<open>The workspace of the path is not looked at.\<close>

definition list_runs_by_task_endpoint ::
  "orch_api_env \<Rightarrow> api_auth \<Rightarrow> api_headers \<Rightarrow> time \<Rightarrow> string \<Rightarrow> string \<Rightarrow> orch_db \<Rightarrow> api_failure + dict" where
  "list_runs_by_task_endpoint env auth headers now ws task db =
    rbind (guard_service auth now ''api-gateway'' headers) (\<lambda>_.
    rbind (parsed env 400 task) (\<lambda>tid.
    let runs = run_list_by_task tid db in
    Inr [(''items'', JList (map (JObj \<circ> run_to_dict) runs)), (''count'', JInt (int (length runs)))]))"

definition get_run_endpoint ::
  "orch_api_env \<Rightarrow> api_auth \<Rightarrow> api_headers \<Rightarrow> time \<Rightarrow> string \<Rightarrow> orch_db \<Rightarrow> api_failure + dict" where
  "get_run_endpoint env auth headers now run_str db =
    rbind (guard_service auth now ''api-gateway'' headers) (\<lambda>_.
    rbind (parsed env 400 run_str) (\<lambda>rid.
    case get_run rid db of Inl _ \<Rightarrow> Inl (AF_Http 404) | Inr r \<Rightarrow> Inr (run_to_dict r)))"

definition get_run_steps_endpoint ::
  "orch_api_env \<Rightarrow> api_auth \<Rightarrow> api_headers \<Rightarrow> time \<Rightarrow> string \<Rightarrow> orch_db \<Rightarrow> api_failure + dict" where
  "get_run_steps_endpoint env auth headers now run_str db =
    rbind (guard_service auth now ''api-gateway'' headers) (\<lambda>_.
    rbind (parsed env 400 run_str) (\<lambda>rid.
    case get_run_steps rid db of
      Inl _ \<Rightarrow> Inl (AF_Http 404)
    | Inr (r, steps) \<Rightarrow> Inr [(''run_id'', JUuid (r_id r)), (''workspace_id'', JUuid (r_workspace_id r)),
        (''steps'', JList (map (JObj \<circ> step_to_dict) steps))]))"

section \<open>A retried task\<close>

definition sweeps :: "(recovery_config \<times> (nat \<Rightarrow> nat \<Rightarrow> uuid_supply) \<times> time) list \<Rightarrow> orch_db \<Rightarrow> orch_db" where
  "sweeps cs db = fold (\<lambda>(cfg, us, now) db. snd (recover_stuck_entities cfg us now db)) cs db"

text \<open>The recovery looks at the tasks that are running, so it leaves every other task as it is.\<close>

lemma sweep_keeps_task:
  assumes wf: "db_wf db" and t: "t \<in> set (db_tasks db)" "t_status t \<noteq> T_RUNNING"
  shows "t \<in> set (db_tasks (sweep_db3 cfg us now db))"
proof -
  let ?db2 = "sweep_db2 cfg us now db"
  have "t \<in> set (db_tasks ?db2)"
    using phase1 [OF wf, of cfg us now] phase2 [OF wf, of cfg us now] t(1) by (simp add: phase1_frame_def)
  then have start: "db_wf ?db2 \<and> t \<in> set (db_tasks ?db2)" using sweep_db_wf(2) [OF wf] by simp
  have "db_wf (sweep_db3 cfg us now db) \<and> t \<in> set (db_tasks (sweep_db3 cfg us now db))"
    unfolding sweep_db3_def recover_orphaned_tasks_def
  proof (rule sweep_preserves [where P = "\<lambda>d. db_wf d \<and> t \<in> set (db_tasks d)"])
    fix i c d
    assume "db_wf d \<and> t \<in> set (db_tasks d)"
    then show "db_wf (snd (recover_task_step (us 2) now i c d))
        \<and> t \<in> set (db_tasks (snd (recover_task_step (us 2) now i c d)))"
      using recover_task_rows [of d "t_id c" "t_workspace_id c" "us 2 i" now] t(2)
      by (auto simp: task_recovery_rows_def recover_task_step_def)
  qed (rule start)
  then show ?thesis by simp
qed

lemma sweeps_keep_task:
  assumes "db_wf db" and "t \<in> set (db_tasks db)" "t_status t \<noteq> T_RUNNING"
  shows "task_get (t_id t) (sweeps cs db) = Some t"
proof -
  have "db_wf (sweeps cs db) \<and> t \<in> set (db_tasks (sweeps cs db))"
    using assms
  proof (induction cs arbitrary: db)
    case (Cons c cs)
    obtain cfg us now where c: "c = (cfg, us, now)" by (rule prod_cases3)
    show ?case
      using Cons.IH [of "sweep_db3 cfg us now db"] Cons.prems sweep_db_wf(3) [of db cfg us now]
        sweep_keeps_task [of db t cfg us now]
      by (simp add: sweeps_def c snd_recover_stuck_entities)
  qed (simp add: sweeps_def)
  then show ?thesis by (simp add: task_get_rows)
qed

lemma retried_row:
  assumes "handle_retry_task k user u now db = Inr (t, db')"
  shows "task_get k db' = Some t \<and> t_id t = k \<and> t_status t = T_PENDING \<and> t \<in> set (db_tasks db')
    \<and> db_runs db' = db_runs db \<and> db_steps db' = db_steps db \<and> (db_wf db \<longrightarrow> db_wf db')"
proof -
  obtain t0 where t0: "task_get k db = Some t0"
    using assms by (auto simp: handle_retry_task_def task_lookup_def split: option.splits)
  have id: "t_id t0 = k" using t0 by (rule task_repo.get_key)
  obtain t' where ok: "task_retry now t0 = Inr t'"
    using assms t0 by (auto simp: handle_retry_task_def task_lookup_def Let_def rbind_Inr_iff raising_Inr_iff)
  have t': "t_id t' = k" "t_status t' = T_PENDING"
    using ok id by (auto simp: task_retry_def task_transition_def split: if_splits)
  have run: "t = t'" "db' = outbox_write (task_retried_event (u 1, now) k (t_workspace_id t') (u 0) user) (task_save t' db)"
    using assms t0 ok t' by (auto simp: handle_retry_task_def task_lookup_def Let_def)
  have get: "task_get k db' = Some t'" using run t' by (simp add: task_repo.get_put)
  then have "t' \<in> set (db_tasks db')" by (auto simp: task_get_def dest: find_row_key)
  with run t' get show ?thesis by auto
qed

text \<open>C16. A task that the retry endpoint accepted, and whose answer says so, is pending and has no new run; the
  request asks no service for anything but the audit, and no later sweeps of the recovery ever change its row.  So
  nothing executes it: the loop that reads the pending tasks is not part of the running service.\<close>

theorem retry_never_runs:
  assumes "retry_task_endpoint env auth headers task u now db = (Inr answer, db', calls)"
    and "db_wf db"
  shows "\<exists>k t. parsed env 400 task = Inr k \<and> answer = [(''task_id'', JUuid k), (''status'', JStr ''accepted'')]
    \<and> t_status t = T_PENDING \<and> run_list_by_task k db' = run_list_by_task k db \<and> db_steps db' = db_steps db
    \<and> calls = task_audit env (the (header_value ''x-user-id'' headers)) ''task.retried'' t []
    \<and> (\<forall>cs. task_get k (sweeps cs db') = Some t)"
proof -
  obtain k uid user where cmd: "user_command env auth headers now task = Inr (k, uid, user)"
    using assms(1) by (auto simp: retry_task_endpoint_def split: sum.splits)
  then obtain t where t: "handle_retry_task k uid u now db = Inr (t, db')"
    and out: "answer = [(''task_id'', JUuid (t_id t)), (''status'', JStr ''accepted'')]"
      "calls = task_audit env user ''task.retried'' t []"
    using assms(1) by (auto simp: retry_task_endpoint_def split: sum.splits)
  have user: "parsed env 400 task = Inr k" "user = the (header_value ''x-user-id'' headers)"
    using cmd by (auto simp: user_command_def Let_def rbind_Inr_iff)
  note row = retried_row [OF t]
  have keep: "task_get k (sweeps cs db') = Some t" for cs
    using sweeps_keep_task [of db' t cs] row assms(2) by auto
  show ?thesis
    using row keep out user by (intro exI [of _ k] exI [of _ t]) (simp add: run_list_by_task_def)
qed

section \<open>An unknown type\<close>

text \<open>A request that passes every check of the submitting endpoint but names no type of tasks ends in a 500: the
  enum raises a \<open>ValueError\<close> inside the handler, where only a \<open>DomainError\<close> is expected.\<close>

theorem unknown_type_raises:
  assumes "guard_service auth now ''api-gateway'' headers = Inr ()" and "with_user headers body = Inr (JObj d)"
    and "require_fields task_fields (JObj d) = Inr d" and "submit_command env d = Inr cmd"
    and "task_type_of (st_task_type cmd) = None"
  shows "submit_task_endpoint env auth xenv headers body u xu now later db = (Inl AF_Raised, db, [])"
  using assms by (simp add: submit_task_endpoint_def handle_submit_task_def parse_task_type_def bad_request_def is_domain_def)

section \<open>Witness\<close>

definition demo_command_auth :: api_auth where
  "demo_command_auth = \<lparr> aa_jwt = \<lparr> jl_encode = (\<lambda>_ _. ''t''),
       jl_decode = (\<lambda>_ _ _ _ _. Inr [(''sub'', JStr ''api-gateway''), (''aud'', JStr ''orchestrator''), (''iss'', JStr ''i''),
         (''iat'', JInt 0), (''exp'', JInt 60), (''service_name'', JStr ''api-gateway'')]) \<rparr>,
     aa_verifier = \<lparr> tv_secret = ''s3cret'', tv_expected_audience = ''orchestrator'', tv_issuer = ''i'' \<rparr>,
     aa_bearer = map_option (drop 7) \<circ> (\<lambda>hs. map_of hs ''Authorization'') \<rparr>"

definition failed_db :: orch_db where
  "failed_db = demo_db\<lparr>db_tasks := [demo_task 3 T_FAILED]\<rparr>"

lemma failed_db_wf: "db_wf failed_db"
  by (simp add: failed_db_def db_wf_def demo_db_def demo_run_def demo_step_def empty_db_def)

theorem retry_never_runs_witness:
  "\<exists>answer db' calls t. retry_task_endpoint demo_api demo_command_auth
       [(''Authorization'', ''Bearer t''), (''X-User-Id'', ''9'')] ''3'' demo_supply 50 failed_db = (Inr answer, db', calls)
     \<and> t_status t = T_PENDING \<and> (\<forall>cs. task_get 3 (sweeps cs db') = Some t)"
proof -
  let ?run = "retry_task_endpoint demo_api demo_command_auth [(''Authorization'', ''Bearer t''), (''X-User-Id'', ''9'')]
       ''3'' demo_supply 50 failed_db"
  obtain answer db' calls where run: "?run = (answer, db', calls)" by (rule prod_cases3)
  have "is_ok (fst ?run)" by code_simp
  then obtain x where x: "answer = Inr x" using run by (auto simp: is_ok_iff)
  have "parsed demo_api 400 ''3'' = Inr 3" by (simp add: parsed_def demo_api_def demo_ids_def)
  then show ?thesis
    using retry_never_runs [OF run [unfolded x] failed_db_wf] run x by auto
qed

end
