(* ===== verification/Artifact_Routes.thy ===== *)
theory Artifact_Routes
  imports Artifact_Service Service_Http Bytes
begin

text \<open>
  The requests of the artifact service: \<open>api/route_helpers.py\<close>, and the reading of requests, the mapping of errors and
  the answers of \<open>api/routes_commands.py\<close>, \<open>api/routes_lineage.py\<close> and \<open>api/routes_queries.py\<close>, with the search of
  \<open>infrastructure/db/repositories.py\<close>.  The commands after parsing are those of \<open>Artifact_Service\<close>.  A field of a
  body has the type its command declares, or is null where it is optional: other values raise.
\<close>

section \<open>Environment and helpers\<close>

text \<open>The texts of ids and instants, SHA-256, the keys of uploads, the table of file types, the parser of JSON and the
  collation of the database are parameters.\<close>

record artifact_api_env =
  ra_auth :: api_auth
  ra_uuid_of :: "string \<Rightarrow> uuid option"
  ra_uuid_str :: "uuid \<Rightarrow> string"
  ra_time_of :: "string \<Rightarrow> time option"
  ra_sha :: "string \<Rightarrow> string"
  ra_guess_type :: "string \<Rightarrow> string option"
  ra_json_ok :: "nat list \<Rightarrow> bool"
  ra_collation :: "string \<Rightarrow> int"

definition artifact_uuid :: "artifact_api_env \<Rightarrow> string \<Rightarrow> api_failure + uuid" where
  "artifact_uuid env s = (case ra_uuid_of env s of None \<Rightarrow> Inl (AF_Http 400) | Some i \<Rightarrow> Inr i)"

definition parse_datetime :: "artifact_api_env \<Rightarrow> string \<Rightarrow> api_failure + time" where
  "parse_datetime env s = (case ra_time_of env s of None \<Rightarrow> Inl (AF_Http 400) | Some t \<Rightarrow> Inr t)"

text \<open>\<open>artifact_uuid\<close> of a field: \<open>UUID(None)\<close> is a \<open>TypeError\<close>, another value an \<open>AttributeError\<close>.\<close>

definition art_uuid_field :: "artifact_api_env \<Rightarrow> string \<Rightarrow> dict \<Rightarrow> api_failure + uuid" where
  "art_uuid_field env k d =
    (case jget k JNull d of
       JUuid i \<Rightarrow> Inr i | JStr s \<Rightarrow> artifact_uuid env s | JNull \<Rightarrow> Inl AF_Raised | _ \<Rightarrow> Inl (AF_Http 400))"

definition opt_uuid_field :: "artifact_api_env \<Rightarrow> string \<Rightarrow> dict \<Rightarrow> api_failure + uuid option" where
  "opt_uuid_field env k d =
    (if \<not> json_truthy (jget k JNull d) then Inr None else rbind (art_uuid_field env k d) (\<lambda>i. Inr (Some i)))"

definition parse_body :: "json option \<Rightarrow> api_failure + json" where
  "parse_body body = (case body of None \<Rightarrow> Inl (AF_Http 400) | Some j \<Rightarrow> Inr j)"

text \<open>Present and not null; indexing what is no object raises.\<close>

fun fields_given :: "string list \<Rightarrow> json \<Rightarrow> api_failure + dict" where
  "fields_given [] body = (case body of JObj d \<Rightarrow> Inr d | _ \<Rightarrow> Inl AF_Raised)"
| "fields_given (k # ks) body =
    (case body_has k body of
       None \<Rightarrow> Inl AF_Raised
     | Some False \<Rightarrow> Inl (AF_Http 400)
     | Some True \<Rightarrow>
         (case body of
            JObj d \<Rightarrow> if jget k JNull d = JNull then Inl (AF_Http 400) else fields_given ks body
          | _ \<Rightarrow> Inl AF_Raised))"

definition body_given :: "string list \<Rightarrow> json option \<Rightarrow> api_failure + dict" where
  "body_given ks body = rbind (parse_body body) (fields_given ks)"

text \<open>\<open>handle_domain_error\<close>, with the \<open>ValueError\<close> that the endpoints catch; the violation of a unique index is caught
  by two of them.\<close>

definition artifact_failure :: "artifact_error \<Rightarrow> api_failure" where
  "artifact_failure e = (case e of
       Art_NotFound _ \<Rightarrow> AF_Http 404
     | Art_InvalidTransition _ _ \<Rightarrow> AF_Http 409
     | Art_TerminalState _ _ \<Rightarrow> AF_Http 409
     | Art_Cycle _ _ \<Rightarrow> AF_Http 409
     | Art_Conflict _ \<Rightarrow> AF_Http 409
     | Art_Integrity _ \<Rightarrow> AF_Raised
     | _ \<Rightarrow> AF_Http 400)"

definition unique_failure :: "artifact_error \<Rightarrow> api_failure" where
  "unique_failure e = (case e of Art_Integrity _ \<Rightarrow> AF_Http 409 | _ \<Rightarrow> artifact_failure e)"

text \<open>\<open>verify_workspace\<close> after the lookup.\<close>

definition artifact_in_workspace :: "uuid \<Rightarrow> uuid \<Rightarrow> artifact_db \<Rightarrow> api_failure + artifact" where
  "artifact_in_workspace aid ws db =
    (case art_get aid db of
       None \<Rightarrow> Inl (AF_Http 404)
     | Some a \<Rightarrow> if a_workspace_id a \<noteq> ws then Inl (AF_Http 404) else Inr a)"

definition opt_number :: "time option \<Rightarrow> json" where
  "opt_number t = (case t of None \<Rightarrow> JNull | Some x \<Rightarrow> JInt x)"

definition artifact_to_dict :: "artifact \<Rightarrow> dict" where
  "artifact_to_dict a =
    [(''id'', JUuid (a_id a)), (''workspace_id'', JUuid (a_workspace_id a)), (''task_id'', JUuid (a_task_id a)),
     (''run_id'', JUuid (a_run_id a)), (''step_id'', opt_uuid (a_step_id a)),
     (''agent_invocation_id'', opt_uuid (a_agent_invocation_id a)),
     (''artifact_type'', JStr (artifact_type_value (a_artifact_type a))),
     (''artifact_status'', JStr (artifact_status_value (a_status a))),
     (''root_type'', JStr (root_type_value (a_root_type a))), (''name'', JStr (a_name a)),
     (''mime_type'', opt_str (a_mime_type a)), (''size_bytes'', opt_number (a_size_bytes a)),
     (''checksum'', opt_str (a_checksum a)), (''lineage'', JList (a_lineage a)), (''metadata'', JObj (a_metadata a)),
     (''created_at'', JInt (a_created_at a)), (''updated_at'', JInt (a_updated_at a)),
     (''ready_at'', opt_number (a_ready_at a)), (''failed_at'', opt_number (a_failed_at a))]"

section \<open>Commands\<close>

definition art_text_field :: "string \<Rightarrow> dict \<Rightarrow> api_failure + string option" where
  "art_text_field k d = text_or_null (jget k JNull d)"

definition list_field :: "string \<Rightarrow> dict \<Rightarrow> api_failure + json list" where
  "list_field k d = (case jget k JNull d of JList js \<Rightarrow> Inr js | JNull \<Rightarrow> Inr [] | _ \<Rightarrow> Inl AF_Raised)"

definition number_field :: "string \<Rightarrow> dict \<Rightarrow> api_failure + int option" where
  "number_field k d = (case jget k JNull d of JInt n \<Rightarrow> Inr (Some n) | JNull \<Rightarrow> Inr None | _ \<Rightarrow> Inl AF_Raised)"

fun texts_of :: "json list \<Rightarrow> api_failure + string list" where
  "texts_of [] = Inr []"
| "texts_of (j # js) =
    (case j of JStr s \<Rightarrow> rbind (texts_of js) (\<lambda>ss. Inr (s # ss)) | _ \<Rightarrow> Inl AF_Raised)"

definition register_fields :: "string list" where
  "register_fields = [''workspace_id'', ''task_id'', ''run_id'', ''name'', ''artifact_type'']"

definition register_command_of :: "artifact_api_env \<Rightarrow> dict \<Rightarrow> api_failure + register_command" where
  "register_command_of env d =
    rbind (art_uuid_field env ''workspace_id'' d) (\<lambda>ws.
    rbind (art_uuid_field env ''task_id'' d) (\<lambda>task.
    rbind (art_uuid_field env ''run_id'' d) (\<lambda>run_id.
    rbind (opt_uuid_field env ''step_id'' d) (\<lambda>step.
    rbind (opt_uuid_field env ''agent_invocation_id'' d) (\<lambda>invocation.
    rbind (opt_uuid_field env ''correlation_id'' d) (\<lambda>corr.
    rbind (art_text_field ''name'' d) (\<lambda>name.
    rbind (art_text_field ''artifact_type'' d) (\<lambda>ty.
    rbind (text_or_null (jget ''root_type'' (JStr ''generated'') d)) (\<lambda>root.
    rbind (art_text_field ''mime_type'' d) (\<lambda>mime.
    rbind (art_text_field ''model_provider'' d) (\<lambda>provider.
    rbind (art_text_field ''model_name_concrete'' d) (\<lambda>model.
    rbind (art_text_field ''model_version_concrete'' d) (\<lambda>version.
    rbind (number_field ''model_max_tokens'' d) (\<lambda>max_tokens.
    rbind (art_text_field ''system_prompt_hash'' d) (\<lambda>prompt.
    rbind (art_text_field ''run_config_hash'' d) (\<lambda>config.
    rbind (art_text_field ''tool_name'' d) (\<lambda>tool.
    rbind (art_text_field ''tool_version'' d) (\<lambda>tool_version.
    rbind (art_text_field ''tool_config_hash'' d) (\<lambda>tool_config.
    rbind (list_field ''input_snapshot'' d) (\<lambda>snapshot.
    rbind (list_field ''lineage_chain'' d) (\<lambda>chain.
    rbind (texts_of chain) (\<lambda>edges.
    Inr \<lparr> rg_workspace_id = ws, rg_task_id = task, rg_run_id = run_id, rg_name = opt_or name [],
          rg_artifact_type = opt_or ty [], rg_root_type = opt_or root [], rg_step_id = step,
          rg_agent_invocation_id = invocation, rg_mime_type = mime, rg_model_provider = provider,
          rg_model_name = model, rg_model_version = version, rg_model_temperature = jget ''model_temperature'' JNull d,
          rg_model_max_tokens = max_tokens, rg_system_prompt_hash = prompt, rg_run_config_hash = config,
          rg_tool_name = tool, rg_tool_version = tool_version, rg_tool_config_hash = tool_config,
          rg_input_snapshot = snapshot, rg_lineage_chain = edges, rg_correlation_id = corr \<rparr>))))))))))))))))))))))"

definition artifact_accepted :: "artifact \<Rightarrow> dict" where
  "artifact_accepted a = [(''artifact_id'', JUuid (a_id a)), (''status'', JStr ''accepted''),
     (''artifact_status'', JStr (artifact_status_value (a_status a)))]"

definition register_route ::
  "artifact_api_env \<Rightarrow> api_headers \<Rightarrow> json option \<Rightarrow> uuid_supply \<Rightarrow> time \<Rightarrow> artifact_db
   \<Rightarrow> (api_failure + dict) \<times> artifact_db" where
  "register_route env headers body u now db =
    (case rbind (guard_service (ra_auth env) now ''agent-runtime'' headers) (\<lambda>_.
          rbind (body_given register_fields body) (register_command_of env)) of
       Inl e \<Rightarrow> (Inl e, db)
     | Inr cmd \<Rightarrow>
         (case register_artifact cmd u now db of
            Inl e \<Rightarrow> (Inl (unique_failure e), db) | Inr (a, db') \<Rightarrow> (Inr (artifact_accepted a), db')))"

text \<open>What the four commands on an artifact read: the id of the path, the required fields, the workspace and the
  correlation id.\<close>

definition artifact_command ::
  "artifact_api_env \<Rightarrow> api_headers \<Rightarrow> time \<Rightarrow> string \<Rightarrow> string list \<Rightarrow> json option
   \<Rightarrow> api_failure + (uuid \<times> uuid \<times> uuid option \<times> dict)" where
  "artifact_command env headers now artifact ks body =
    rbind (guard_service (ra_auth env) now ''agent-runtime'' headers) (\<lambda>_.
    rbind (artifact_uuid env artifact) (\<lambda>aid.
    rbind (body_given (''workspace_id'' # ks) body) (\<lambda>d.
    rbind (art_uuid_field env ''workspace_id'' d) (\<lambda>ws.
    rbind (opt_uuid_field env ''correlation_id'' d) (\<lambda>corr. Inr (aid, ws, corr, d))))))"

definition begin_writing_route ::
  "artifact_api_env \<Rightarrow> api_headers \<Rightarrow> string \<Rightarrow> json option \<Rightarrow> uuid_supply \<Rightarrow> time \<Rightarrow> artifact_db
   \<Rightarrow> (api_failure + dict) \<times> artifact_db" where
  "begin_writing_route env headers artifact body u now db =
    (case rbind (artifact_command env headers now artifact [''storage_ref''] body) (\<lambda>(aid, ws, corr, d).
          rbind (art_text_field ''storage_ref'' d) (\<lambda>ref. Inr (aid, ws, corr, opt_or ref []))) of
       Inl e \<Rightarrow> (Inl e, db)
     | Inr (aid, ws, corr, ref) \<Rightarrow>
         (case begin_writing_endpoint aid ws ref corr u now db of
            Inl e \<Rightarrow> (Inl (artifact_failure e), db) | Inr (a, db') \<Rightarrow> (Inr (artifact_accepted a), db')))"

text \<open>The bytes of a content; what is no ASCII text or not in the code of base 64 is refused.\<close>

definition byte_text :: "byte list \<Rightarrow> string" where
  "byte_text bs = map (\<lambda>b. char_of (unat b)) bs"

definition text_bytes :: "string \<Rightarrow> byte list" where
  "text_bytes s = map (\<lambda>c. word_of_nat (of_char c)) s"

definition base64_content :: "json \<Rightarrow> api_failure + string" where
  "base64_content j =
    (case (case j of JStr s \<Rightarrow> b64decode s | _ \<Rightarrow> None) of
       None \<Rightarrow> Inl (AF_Http 400) | Some bs \<Rightarrow> Inr (byte_text bs))"

definition write_content_route ::
  "artifact_api_env \<Rightarrow> api_headers \<Rightarrow> time \<Rightarrow> string \<Rightarrow> json option \<Rightarrow> artifact_db \<Rightarrow> storage
   \<Rightarrow> (api_failure + dict) \<times> storage" where
  "write_content_route env headers now artifact body db store =
    (case rbind (guard_service (ra_auth env) now ''agent-runtime'' headers) (\<lambda>_.
          rbind (artifact_uuid env artifact) (\<lambda>aid.
          rbind (parse_body body) (\<lambda>j.
          rbind (case j of JObj d \<Rightarrow> Inr (jget ''content_base64'' JNull d) | _ \<Rightarrow> Inl AF_Raised) (\<lambda>b64.
          rbind (need (json_truthy b64) 400) (\<lambda>_.
          rbind (base64_content b64) (\<lambda>content. Inr (aid, content))))))) of
       Inl e \<Rightarrow> (Inl e, store)
     | Inr (aid, content) \<Rightarrow>
         (case write_content_endpoint aid content db store of
            Inl e \<Rightarrow> (Inl (artifact_failure e), store)
          | Inr (n, store') \<Rightarrow> (Inr [(''artifact_id'', JUuid aid), (''bytes_written'', JInt n)], store')))"

text \<open>\<open>int(x)\<close> of a field.\<close>

definition art_int_field :: "string \<Rightarrow> dict \<Rightarrow> api_failure + int" where
  "art_int_field k d =
    (case jget k JNull d of
       JInt n \<Rightarrow> Inr n
     | JBool b \<Rightarrow> Inr (if b then 1 else 0)
     | JStr s \<Rightarrow> (case py_int s of None \<Rightarrow> Inl (AF_Http 400) | Some n \<Rightarrow> Inr n)
     | _ \<Rightarrow> Inl (AF_Http 400))"

definition inline_content :: "dict \<Rightarrow> api_failure + string option" where
  "inline_content d =
    (let j = jget ''content_base64'' JNull d in
     if \<not> json_truthy j then Inr None else rbind (base64_content j) (\<lambda>c. Inr (Some c)))"

definition finalize_route ::
  "artifact_api_env \<Rightarrow> api_headers \<Rightarrow> string \<Rightarrow> json option \<Rightarrow> uuid_supply \<Rightarrow> time \<Rightarrow> artifact_db \<Rightarrow> storage
   \<Rightarrow> (api_failure + dict) \<times> artifact_db \<times> storage" where
  "finalize_route env headers artifact body u now db store =
    (case rbind (artifact_command env headers now artifact [''checksum'', ''size_bytes''] body) (\<lambda>(aid, ws, corr, d).
          rbind (art_int_field ''size_bytes'' d) (\<lambda>nbytes.
          rbind (inline_content d) (\<lambda>content.
          rbind (art_text_field ''checksum'' d) (\<lambda>checksum. Inr (aid, ws, corr, opt_or checksum [], nbytes, content))))) of
       Inl e \<Rightarrow> (Inl e, db, store)
     | Inr (aid, ws, corr, checksum, nbytes, content) \<Rightarrow>
         (case finalize_artifact_endpoint aid ws checksum nbytes content corr u now db store of
            (Inl e, db', store') \<Rightarrow> (Inl (artifact_failure e), db', store')
          | (Inr a, db', store') \<Rightarrow>
              (Inr (artifact_accepted a @ [(''checksum'', opt_str (a_checksum a))]), db', store')))"

definition fail_route ::
  "artifact_api_env \<Rightarrow> api_headers \<Rightarrow> string \<Rightarrow> json option \<Rightarrow> uuid_supply \<Rightarrow> time \<Rightarrow> artifact_db
   \<Rightarrow> (api_failure + dict) \<times> artifact_db" where
  "fail_route env headers artifact body u now db =
    (case rbind (artifact_command env headers now artifact [] body) (\<lambda>(aid, ws, corr, d).
          rbind (art_text_field ''failure_reason'' d) (\<lambda>reason.
          rbind (case jget ''partial_data'' (JBool False) d of JBool b \<Rightarrow> Inr b | _ \<Rightarrow> Inl AF_Raised) (\<lambda>part.
          Inr (aid, ws, corr, reason, part)))) of
       Inl e \<Rightarrow> (Inl e, db)
     | Inr (aid, ws, corr, reason, part) \<Rightarrow>
         (case fail_artifact_endpoint aid ws reason part corr u now db of
            Inl e \<Rightarrow> (Inl (artifact_failure e), db) | Inr (a, db') \<Rightarrow> (Inr (artifact_accepted a), db')))"

definition edge_accepted :: "lineage_edge \<Rightarrow> dict" where
  "edge_accepted e = [(''edge_id'', JUuid (le_id e)), (''status'', JStr ''accepted''),
     (''child_artifact_id'', JUuid (le_child e)), (''parent_artifact_id'', JUuid (le_parent e)),
     (''edge_type'', JStr (edge_type_value (le_type e)))]"

text \<open>The ids of the run and of the step are read after the checks of the workspace.\<close>

definition lineage_route ::
  "artifact_api_env \<Rightarrow> api_headers \<Rightarrow> string \<Rightarrow> json option \<Rightarrow> uuid_supply \<Rightarrow> time \<Rightarrow> artifact_db
   \<Rightarrow> (api_failure + dict) \<times> artifact_db" where
  "lineage_route env headers artifact body u now db =
    (case rbind (artifact_command env headers now artifact [''parent_artifact_id''] body) (\<lambda>(child, ws, corr, d).
          rbind (art_uuid_field env ''parent_artifact_id'' d) (\<lambda>parent.
          rbind (map_sum artifact_failure id (rbind (check_artifact_workspace child ws db) (\<lambda>_.
                   check_artifact_workspace parent ws db))) (\<lambda>_.
          rbind (text_or_null (jget ''edge_type'' (JStr ''derived_from'') d)) (\<lambda>ty.
          rbind (opt_uuid_field env ''run_id'' d) (\<lambda>run_id.
          rbind (opt_uuid_field env ''step_id'' d) (\<lambda>step.
          Inr (child, parent, ws, opt_or ty [], run_id, step, corr))))))) of
       Inl e \<Rightarrow> (Inl e, db)
     | Inr (child, parent, ws, ty, run_id, step, corr) \<Rightarrow>
         (case record_lineage_endpoint child parent ws ty run_id step corr u now db of
            Inl e \<Rightarrow> (Inl (unique_failure e), db) | Inr (e, db') \<Rightarrow> (Inr (edge_accepted e), db')))"

section \<open>Queries\<close>

definition get_artifact_endpoint ::
  "artifact_api_env \<Rightarrow> api_headers \<Rightarrow> time \<Rightarrow> string \<Rightarrow> string \<Rightarrow> artifact_db \<Rightarrow> api_failure + dict" where
  "get_artifact_endpoint env headers now artifact ws db =
    rbind (guard_services (ra_auth env) now [''api-gateway'', ''agent-runtime'', ''orchestrator''] headers) (\<lambda>_.
    rbind (artifact_uuid env artifact) (\<lambda>aid.
    rbind (artifact_uuid env ws) (\<lambda>wid.
    rbind (artifact_in_workspace aid wid db) (\<lambda>a. Inr (artifact_to_dict a)))))"

definition provenance_to_dict :: "provenance \<Rightarrow> dict" where
  "provenance_to_dict p =
    [(''artifact_id'', JUuid (pv_artifact_id p)), (''input_snapshot'', JList (pv_input_snapshot p)),
     (''run_config_hash'', opt_str (pv_run_config_hash p)), (''tool_name'', opt_str (pv_tool_name p)),
     (''tool_version'', opt_str (pv_tool_version p)), (''tool_config_hash'', opt_str (pv_tool_config_hash p)),
     (''model_provider'', opt_str (pv_model_provider p)), (''model_name_concrete'', opt_str (pv_model_name p)),
     (''model_version_concrete'', opt_str (pv_model_version p)), (''model_temperature'', pv_model_temperature p),
     (''model_max_tokens'', opt_number (pv_model_max_tokens p)), (''system_prompt_hash'', opt_str (pv_system_prompt_hash p)),
     (''lineage_chain'', JList (map JStr (pv_lineage_chain p))), (''correlation_id'', opt_uuid (pv_correlation_id p))]"

definition get_provenance_endpoint ::
  "artifact_api_env \<Rightarrow> api_headers \<Rightarrow> time \<Rightarrow> string \<Rightarrow> string \<Rightarrow> artifact_db \<Rightarrow> api_failure + dict" where
  "get_provenance_endpoint env headers now artifact ws db =
    rbind (guard_service (ra_auth env) now ''api-gateway'' headers) (\<lambda>_.
    rbind (artifact_uuid env artifact) (\<lambda>aid.
    rbind (artifact_uuid env ws) (\<lambda>wid.
    rbind (artifact_in_workspace aid wid db) (\<lambda>a.
    case provenance_get_by_artifact aid db of
      None \<Rightarrow> Inl (AF_Http 404) | Some p \<Rightarrow> Inr (provenance_to_dict p)))))"

definition edge_to_dict :: "lineage_edge \<Rightarrow> dict" where
  "edge_to_dict e =
    [(''id'', JUuid (le_id e)), (''child_artifact_id'', JUuid (le_child e)), (''parent_artifact_id'', JUuid (le_parent e)),
     (''edge_type'', JStr (edge_type_value (le_type e))), (''run_id'', opt_uuid (le_run_id e)),
     (''step_id'', opt_uuid (le_step_id e)), (''transform_detail'', JObj (le_transform_detail e)),
     (''created_at'', JInt (le_created_at e))]"

definition get_ancestors_endpoint ::
  "artifact_api_env \<Rightarrow> api_headers \<Rightarrow> time \<Rightarrow> string \<Rightarrow> string \<Rightarrow> artifact_db \<Rightarrow> api_failure + dict" where
  "get_ancestors_endpoint env headers now artifact ws db =
    rbind (guard_service (ra_auth env) now ''api-gateway'' headers) (\<lambda>_.
    rbind (artifact_uuid env artifact) (\<lambda>aid.
    rbind (artifact_uuid env ws) (\<lambda>wid.
    rbind (artifact_in_workspace aid wid db) (\<lambda>a.
    let edges = list_ancestor_edges (ad_edges db) aid in
    Inr [(''artifact_id'', JUuid aid), (''ancestors'', JList (map (JObj \<circ> edge_to_dict) edges)),
         (''count'', JInt (int (length edges)))]))))"

section \<open>Search\<close>

record artifact_filters =
  sf_workspace_id :: uuid
  sf_run_id :: "uuid option"
  sf_name_contains :: "string option"
  sf_artifact_type :: "string option"
  sf_artifact_status :: "string option"
  sf_root_type :: "string option"
  sf_mime_type :: "string option"
  sf_created_after :: "time option"
  sf_created_before :: "time option"
  sf_tag :: "string option"
  sf_sort_by :: string
  sf_sort_order :: string
  sf_limit :: nat
  sf_offset :: nat

definition when_given :: "string option \<Rightarrow> (string \<Rightarrow> bool) \<Rightarrow> bool" where
  "when_given v p = (str_truthy v \<longrightarrow> p (the v))"

text \<open>\<open>ILIKE\<close>: the case of letters is ignored, and the wildcards of the parameter are not escaped.  A comparison with a
  null column is not true.\<close>

definition ilike :: "string \<Rightarrow> string \<Rightarrow> bool" where
  "ilike pattern s = like_match (py_lower pattern) (py_lower s)"

definition mime_matches :: "string option \<Rightarrow> string \<Rightarrow> bool" where
  "mime_matches mime v =
    (case mime of None \<Rightarrow> False | Some m \<Rightarrow> if CHR ''%'' \<in> set v then ilike v m else m = v)"

definition apply_filters :: "artifact_filters \<Rightarrow> (uuid \<Rightarrow> string \<Rightarrow> bool) \<Rightarrow> artifact \<Rightarrow> bool" where
  "apply_filters f tagged a =
    (a_workspace_id a = sf_workspace_id f
     \<and> (case sf_run_id f of None \<Rightarrow> True | Some r \<Rightarrow> a_run_id a = r)
     \<and> when_given (sf_name_contains f) (\<lambda>v. ilike (''%'' @ v @ ''%'') (a_name a))
     \<and> when_given (sf_artifact_type f) (\<lambda>v. artifact_type_value (a_artifact_type a) = v)
     \<and> when_given (sf_artifact_status f) (\<lambda>v. artifact_status_value (a_status a) = v)
     \<and> when_given (sf_root_type f) (\<lambda>v. root_type_value (a_root_type a) = v)
     \<and> when_given (sf_mime_type f) (mime_matches (a_mime_type a))
     \<and> (case sf_created_after f of None \<Rightarrow> True | Some t \<Rightarrow> t \<le> a_created_at a)
     \<and> (case sf_created_before f of None \<Rightarrow> True | Some t \<Rightarrow> a_created_at a \<le> t)
     \<and> when_given (sf_tag f) (tagged (a_id a)))"

text \<open>A column as a number, names by the collation of the database.  Nulls come last in ascending order and first in
  descending order.\<close>

definition sort_column :: "artifact_api_env \<Rightarrow> string \<Rightarrow> artifact \<Rightarrow> int option" where
  "sort_column env field a =
    (if field = ''name'' then Some (ra_collation env (a_name a))
     else if field = ''size_bytes'' then a_size_bytes a else Some (a_created_at a))"

definition apply_sort :: "artifact_api_env \<Rightarrow> artifact_filters \<Rightarrow> artifact list \<Rightarrow> artifact list" where
  "apply_sort env f as =
    (let col = sort_column env (sf_sort_by f);
         known = filter (\<lambda>a. col a \<noteq> None) as; nulls = filter (\<lambda>a. col a = None) as
     in if sf_sort_order f = ''asc'' then sort_key (\<lambda>a. the (col a)) known @ nulls
        else nulls @ sort_key (\<lambda>a. - the (col a)) known)"

definition max_query_limit :: nat where
  "max_query_limit = 200"

definition artifact_search ::
  "artifact_api_env \<Rightarrow> artifact_filters \<Rightarrow> (uuid \<Rightarrow> string \<Rightarrow> bool) \<Rightarrow> artifact_db \<Rightarrow> artifact list" where
  "artifact_search env f tagged db =
     take (min (sf_limit f) max_query_limit)
       (drop (sf_offset f) (apply_sort env f (filter (apply_filters f tagged) (ad_artifacts db))))"

definition given_or :: "(string \<Rightarrow> api_failure + 'a) \<Rightarrow> string option \<Rightarrow> api_failure + 'a option" where
  "given_or parse v = (if str_truthy v then rbind (parse (the v)) (\<lambda>x. Inr (Some x)) else Inr None)"

text \<open>The parameters of the query as texts; the framework has checked the bounds of limit and offset.\<close>

definition list_artifacts_endpoint ::
  "artifact_api_env \<Rightarrow> api_headers \<Rightarrow> time \<Rightarrow> (string \<Rightarrow> string option) \<Rightarrow> nat \<Rightarrow> nat
   \<Rightarrow> (uuid \<Rightarrow> string \<Rightarrow> bool) \<Rightarrow> artifact_db \<Rightarrow> api_failure + dict" where
  "list_artifacts_endpoint env headers now q limit offset tagged db =
    rbind (guard_service (ra_auth env) now ''api-gateway'' headers) (\<lambda>_.
    rbind (artifact_uuid env (opt_or (q ''workspace_id'') [])) (\<lambda>ws.
    rbind (given_or (artifact_uuid env) (q ''run_id'')) (\<lambda>run_id.
    let sort_by = opt_or (q ''sort_by'') ''created_at''; sort_order = opt_or (q ''sort_order'') ''desc'' in
    rbind (need (sort_by \<in> {''created_at'', ''name'', ''size_bytes''}) 400) (\<lambda>_.
    rbind (need (sort_order \<in> {''asc'', ''desc''}) 400) (\<lambda>_.
    rbind (given_or (parse_datetime env) (q ''created_after'')) (\<lambda>after.
    rbind (given_or (parse_datetime env) (q ''created_before'')) (\<lambda>before.
    let f = \<lparr> sf_workspace_id = ws, sf_run_id = run_id, sf_name_contains = q ''name_contains'',
              sf_artifact_type = q ''artifact_type'', sf_artifact_status = q ''artifact_status'',
              sf_root_type = q ''root_type'', sf_mime_type = q ''mime_type'', sf_created_after = after,
              sf_created_before = before, sf_tag = q ''tag'', sf_sort_by = sort_by, sf_sort_order = sort_order,
              sf_limit = min limit max_query_limit, sf_offset = offset \<rparr>;
        found = artifact_search env f tagged db
    in Inr [(''items'', JList (map (JObj \<circ> artifact_to_dict) found)), (''count'', JInt (int (length found))),
            (''limit'', JInt (int (sf_limit f))), (''offset'', JInt (int offset))])))))))"

end
