(* ===== verification/Artifact_Notes.thy ===== *)
theory Artifact_Notes
  imports Artifact_Routes
begin

text \<open>
  Tags and annotations of artifacts: \<open>api/routes_tags.py\<close>, \<open>infrastructure/db/tag_repository.py\<close>,
  \<open>domain/annotation.py\<close>, \<open>api/routes_annotations.py\<close> and the repository of annotations.  A tag that is in the table
  already is not added again (\<open>ON CONFLICT DO NOTHING\<close>); tags are listed in the collation of the database.
\<close>

section \<open>Tables\<close>

record tag_row =
  tg_artifact_id :: uuid
  tg_workspace_id :: uuid
  tg_tag :: string

record annotation =
  an_id :: uuid
  an_artifact_id :: uuid
  an_workspace_id :: uuid
  an_author_id :: uuid
  an_body :: string
  an_created_at :: time

record artifact_notes =
  nt_tags :: "tag_row list"
  nt_annotations :: "annotation list"

definition get_tags :: "artifact_api_env \<Rightarrow> uuid \<Rightarrow> artifact_notes \<Rightarrow> string list" where
  "get_tags env aid notes =
     sort_key (ra_collation env) (map tg_tag (filter (\<lambda>r. tg_artifact_id r = aid) (nt_tags notes)))"

definition has_tag :: "uuid \<Rightarrow> string \<Rightarrow> artifact_notes \<Rightarrow> bool" where
  "has_tag aid tag notes = list_ex (\<lambda>r. tg_artifact_id r = aid \<and> tg_tag r = tag) (nt_tags notes)"

definition add_tag :: "uuid \<Rightarrow> uuid \<Rightarrow> string \<Rightarrow> artifact_notes \<Rightarrow> artifact_notes" where
  "add_tag aid ws tag notes =
    (if has_tag aid tag notes then notes
     else notes\<lparr>nt_tags := nt_tags notes @ [\<lparr> tg_artifact_id = aid, tg_workspace_id = ws, tg_tag = tag \<rparr>]\<rparr>)"

definition remove_tag :: "uuid \<Rightarrow> string \<Rightarrow> artifact_notes \<Rightarrow> bool \<times> artifact_notes" where
  "remove_tag aid tag notes =
    (has_tag aid tag notes,
     notes\<lparr>nt_tags := filter (\<lambda>r. \<not> (tg_artifact_id r = aid \<and> tg_tag r = tag)) (nt_tags notes)\<rparr>)"

definition list_by_tag :: "uuid \<Rightarrow> string \<Rightarrow> nat \<Rightarrow> artifact_notes \<Rightarrow> uuid list" where
  "list_by_tag ws tag limit notes =
     take (min limit 200) (map tg_artifact_id (filter (\<lambda>r. tg_workspace_id r = ws \<and> tg_tag r = tag) (nt_tags notes)))"

text \<open>The subquery of the search.\<close>

definition tagged_in :: "uuid \<Rightarrow> artifact_notes \<Rightarrow> uuid \<Rightarrow> string \<Rightarrow> bool" where
  "tagged_in ws notes aid tag =
     list_ex (\<lambda>r. tg_workspace_id r = ws \<and> tg_tag r = tag \<and> tg_artifact_id r = aid) (nt_tags notes)"

section \<open>Tags\<close>

definition max_tag_length :: nat where
  "max_tag_length = 128"

definition max_tags_per_artifact :: nat where
  "max_tags_per_artifact = 50"

definition control_char :: "char \<Rightarrow> bool" where
  "control_char c = ((of_char c :: nat) < 32 \<or> (of_char c :: nat) = 127)"

text \<open>What the three endpoints check: the guard, the two ids and the workspace of the artifact; adding checks the tag
  before the artifact.\<close>

definition tag_scope :: "artifact_api_env \<Rightarrow> api_headers \<Rightarrow> time \<Rightarrow> string \<Rightarrow> string \<Rightarrow> api_failure + (uuid \<times> uuid)" where
  "tag_scope env headers now artifact ws =
    rbind (guard_service (ra_auth env) now ''api-gateway'' headers) (\<lambda>_.
    rbind (artifact_uuid env artifact) (\<lambda>aid. rbind (artifact_uuid env ws) (\<lambda>wid. Inr (aid, wid))))"

definition tag_checks :: "string \<Rightarrow> api_failure + string" where
  "tag_checks tag =
    rbind (need (\<not> is_blank tag) 400) (\<lambda>_.
    rbind (need (length (py_strip tag) \<le> max_tag_length) 400) (\<lambda>_.
    rbind (need (\<not> list_ex control_char (py_strip tag)) 400) (\<lambda>_. Inr (py_strip tag))))"

definition get_artifact_tags_endpoint ::
  "artifact_api_env \<Rightarrow> api_headers \<Rightarrow> time \<Rightarrow> string \<Rightarrow> string \<Rightarrow> artifact_db \<Rightarrow> artifact_notes \<Rightarrow> api_failure + dict" where
  "get_artifact_tags_endpoint env headers now artifact ws db notes =
    rbind (tag_scope env headers now artifact ws) (\<lambda>(aid, wid).
    rbind (artifact_in_workspace aid wid db) (\<lambda>_.
    Inr [(''artifact_id'', JUuid aid), (''tags'', JList (map JStr (get_tags env aid notes)))]))"

definition add_artifact_tag_endpoint ::
  "artifact_api_env \<Rightarrow> api_headers \<Rightarrow> time \<Rightarrow> string \<Rightarrow> string \<Rightarrow> string \<Rightarrow> artifact_db \<Rightarrow> artifact_notes
   \<Rightarrow> (api_failure + dict) \<times> artifact_notes" where
  "add_artifact_tag_endpoint env headers now artifact ws tag db notes =
    (case rbind (tag_scope env headers now artifact ws) (\<lambda>(aid, wid).
          rbind (tag_checks tag) (\<lambda>t.
          rbind (artifact_in_workspace aid wid db) (\<lambda>_.
          rbind (need (length (get_tags env aid notes) < max_tags_per_artifact) 400) (\<lambda>_. Inr (aid, wid, t))))) of
       Inl e \<Rightarrow> (Inl e, notes)
     | Inr (aid, wid, t) \<Rightarrow> (Inr [(''artifact_id'', JUuid aid), (''tag'', JStr t)], add_tag aid wid t notes))"

definition remove_artifact_tag_endpoint ::
  "artifact_api_env \<Rightarrow> api_headers \<Rightarrow> time \<Rightarrow> string \<Rightarrow> string \<Rightarrow> string \<Rightarrow> artifact_db \<Rightarrow> artifact_notes
   \<Rightarrow> (api_failure + dict) \<times> artifact_notes" where
  "remove_artifact_tag_endpoint env headers now artifact tag ws db notes =
    (case rbind (tag_scope env headers now artifact ws) (\<lambda>(aid, wid).
          rbind (artifact_in_workspace aid wid db) (\<lambda>_. Inr aid)) of
       Inl e \<Rightarrow> (Inl e, notes)
     | Inr aid \<Rightarrow>
         (case remove_tag aid tag notes of
            (removed, notes') \<Rightarrow>
              if removed
              then (Inr [(''artifact_id'', JUuid aid), (''tag'', JStr tag), (''removed'', JBool True)], notes')
              else (Inl (AF_Http 404), notes)))"

section \<open>Annotations\<close>

definition max_body_length :: nat where
  "max_body_length = 4000"

text \<open>The constructor: its two errors are constructed with one argument where the class takes two, which is a
  \<open>TypeError\<close> that nothing catches.\<close>

definition annotation_create ::
  "uuid \<Rightarrow> time \<Rightarrow> uuid \<Rightarrow> uuid \<Rightarrow> uuid \<Rightarrow> string \<Rightarrow> api_failure + annotation" where
  "annotation_create new_id now aid ws author body =
    (if is_blank body \<or> length body > max_body_length then Inl AF_Raised
     else Inr \<lparr> an_id = new_id, an_artifact_id = aid, an_workspace_id = ws, an_author_id = author, an_body = body,
                an_created_at = now \<rparr>)"

definition annotation_to_dict :: "annotation \<Rightarrow> dict" where
  "annotation_to_dict a =
    [(''id'', JUuid (an_id a)), (''artifact_id'', JUuid (an_artifact_id a)), (''workspace_id'', JUuid (an_workspace_id a)),
     (''author_id'', JUuid (an_author_id a)), (''body'', JStr (an_body a)), (''created_at'', JInt (an_created_at a))]"

definition list_by_artifact :: "uuid \<Rightarrow> uuid \<Rightarrow> nat \<Rightarrow> artifact_notes \<Rightarrow> annotation list" where
  "list_by_artifact aid ws limit notes =
     take (min limit 200) (sort_key an_created_at
       (filter (\<lambda>a. an_artifact_id a = aid \<and> an_workspace_id a = ws) (nt_annotations notes)))"

definition list_annotations ::
  "artifact_api_env \<Rightarrow> api_headers \<Rightarrow> time \<Rightarrow> string \<Rightarrow> string \<Rightarrow> nat \<Rightarrow> artifact_db \<Rightarrow> artifact_notes \<Rightarrow> api_failure + dict" where
  "list_annotations env headers now artifact ws limit db notes =
    rbind (guard_services (ra_auth env) now [''api-gateway'', ''orchestrator''] headers) (\<lambda>_.
    rbind (artifact_uuid env artifact) (\<lambda>aid.
    rbind (artifact_uuid env ws) (\<lambda>wid.
    rbind (artifact_in_workspace aid wid db) (\<lambda>_.
    let items = list_by_artifact aid wid limit notes in
    Inr [(''items'', JList (map (JObj \<circ> annotation_to_dict) items)), (''count'', JInt (int (length items)))]))))"

text \<open>The body of the request: \<open>None\<close> is no JSON, an empty one is an empty object.\<close>

definition create_annotation ::
  "artifact_api_env \<Rightarrow> api_headers \<Rightarrow> time \<Rightarrow> string \<Rightarrow> string \<Rightarrow> json option \<Rightarrow> uuid \<Rightarrow> artifact_db \<Rightarrow> artifact_notes
   \<Rightarrow> (api_failure + dict) \<times> artifact_notes" where
  "create_annotation env headers now artifact ws body new_id db notes =
    (case rbind (tag_scope env headers now artifact ws) (\<lambda>(aid, wid).
          rbind (parse_body body) (\<lambda>j.
          rbind (case j of JObj d \<Rightarrow> Inr (jget ''body'' JNull d) | _ \<Rightarrow> Inl AF_Raised) (\<lambda>b.
          let author = header_value ''x-user-id'' headers in
          rbind (need (str_truthy author) 400) (\<lambda>_.
          rbind (case b of JStr s \<Rightarrow> if s = [] then Inl (AF_Http 400) else Inr s | _ \<Rightarrow> Inl (AF_Http 400)) (\<lambda>s.
          rbind (artifact_uuid env (the author)) (\<lambda>author_id.
          rbind (annotation_create new_id now aid wid author_id s) (\<lambda>a.
          rbind (artifact_in_workspace aid wid db) (\<lambda>_. Inr a)))))))) of
       Inl e \<Rightarrow> (Inl e, notes)
     | Inr a \<Rightarrow> (Inr (annotation_to_dict a), notes\<lparr>nt_annotations := nt_annotations notes @ [a]\<rparr>))"

section \<open>The table of tags\<close>

text \<open>A tag stands once per artifact, as the unique constraint says, and an artifact has at most fifty.\<close>

definition tags_ok :: "artifact_notes \<Rightarrow> bool" where
  "tags_ok notes =
    (distinct (map (\<lambda>r. (tg_artifact_id r, tg_tag r)) (nt_tags notes))
     \<and> (\<forall>aid. length (filter (\<lambda>r. tg_artifact_id r = aid) (nt_tags notes)) \<le> max_tags_per_artifact))"

lemma length_get_tags: "length (get_tags env aid notes) = length (filter (\<lambda>r. tg_artifact_id r = aid) (nt_tags notes))"
  by (simp add: get_tags_def)

lemma add_tag_ok:
  assumes "tags_ok notes" "length (get_tags env aid notes) < max_tags_per_artifact"
  shows "tags_ok (add_tag aid ws tag notes)"
  using assms by (auto simp: tags_ok_def add_tag_def has_tag_def list_ex_iff length_get_tags)

lemma remove_tag_ok: "tags_ok notes \<Longrightarrow> tags_ok (snd (remove_tag aid tag notes))"
proof -
  assume ok: "tags_ok notes"
  have "length (filter (\<lambda>r. tg_artifact_id r = i) (filter p (nt_tags notes)))
      \<le> length (filter (\<lambda>r. tg_artifact_id r = i) (nt_tags notes))" for i p
  proof -
    have "filter (\<lambda>r. tg_artifact_id r = i) (filter p (nt_tags notes))
        = filter p (filter (\<lambda>r. tg_artifact_id r = i) (nt_tags notes))"
      by (simp add: conj_commute)
    then show ?thesis using length_filter_le by metis
  qed
  then have "\<forall>i. length (filter (\<lambda>r. tg_artifact_id r = i) (nt_tags (snd (remove_tag aid tag notes)))) \<le> max_tags_per_artifact"
    using ok by (fastforce simp: tags_ok_def remove_tag_def intro: order_trans simp del: filter_filter)
  moreover have "distinct (map (\<lambda>r. (tg_artifact_id r, tg_tag r)) (nt_tags (snd (remove_tag aid tag notes))))"
    using ok by (simp add: tags_ok_def remove_tag_def distinct_map_filter)
  ultimately show ?thesis by (simp add: tags_ok_def)
qed

text \<open>The three endpoints keep the table in order, and adding a tag twice is adding it once.\<close>

theorem tag_endpoints_keep:
  assumes "tags_ok notes"
  shows "tags_ok (snd (add_artifact_tag_endpoint env headers now artifact ws tag db notes))
    \<and> tags_ok (snd (remove_artifact_tag_endpoint env headers now artifact tag ws db notes))"
  using assms add_tag_ok [OF assms] remove_tag_ok [OF assms]
  by (auto simp: add_artifact_tag_endpoint_def remove_artifact_tag_endpoint_def remove_tag_def rbind_Inr_iff
      split: sum.splits prod.splits)

text \<open>What a user added is listed, and what was removed is not.\<close>

lemma get_add_tag: "set (get_tags env aid (add_tag aid ws tag notes)) = insert tag (set (get_tags env aid notes))"
proof (cases "has_tag aid tag notes")
  case True
  then have "tag \<in> set (get_tags env aid notes)" by (force simp: get_tags_def has_tag_def list_ex_iff)
  with True show ?thesis by (auto simp: add_tag_def)
qed (auto simp: get_tags_def add_tag_def)

lemma get_remove_tag: "set (get_tags env aid (snd (remove_tag aid tag notes))) = set (get_tags env aid notes) - {tag}"
  by (auto simp: get_tags_def remove_tag_def)

text \<open>The blank annotations and the long ones, which the entity means to refuse with a 400, end in a 500.\<close>

lemma long_annotation_raises:
  assumes "length body > max_body_length"
  shows "annotation_create new_id now aid ws author body = Inl AF_Raised"
  using assms by (simp add: annotation_create_def)

end
