(* ===== verification/Artifact_Storage.thy ===== *)
theory Artifact_Storage
  imports Prelude "HOL-Library.AList"
begin

text \<open>
  The local storage of the artifact service (\<open>infrastructure/storage/local.py\<close>): a storage key is resolved below the
  root, and a key that leads out of it is refused.  A path is the list of its components; the files are those the
  storage holds, without symbolic links and without limits on the length of a name.
\<close>

section \<open>Paths\<close>

fun split_slash :: "string \<Rightarrow> string list" where
  "split_slash [] = [[]]"
| "split_slash (c # s) =
    (if c = CHR ''/'' then [] # split_slash s
     else case split_slash s of [] \<Rightarrow> [[c]] | p # ps \<Rightarrow> (c # p) # ps)"

text \<open>\<open>Path.resolve\<close>: empty parts and \<open>.\<close> are dropped, \<open>..\<close> goes up, and the parent of \<open>/\<close> is \<open>/\<close>.\<close>

definition path_step :: "string list \<Rightarrow> string \<Rightarrow> string list" where
  "path_step acc p = (if p = [] \<or> p = ''.'' then acc else if p = ''..'' then butlast acc else acc @ [p])"

definition resolve_from :: "string list \<Rightarrow> string \<Rightarrow> string list" where
  "resolve_from base key = foldl path_step (if starts_with ''/'' key then [] else base) (split_slash key)"

definition under :: "string list \<Rightarrow> string list \<Rightarrow> bool" where
  "under root p = (take (length root) p = root)"

text \<open>None is the \<open>ValueError\<close> of a key with a NUL or of a key that escapes the root.\<close>

definition full_path :: "string list \<Rightarrow> string \<Rightarrow> string list option" where
  "full_path root key =
    (if CHR 0x00 \<in> set key then None
     else let p = resolve_from root key in if under root p then Some p else None)"

section \<open>Files\<close>

type_synonym files = "(string list \<times> string) list"

datatype storage_error = ST_ValueError | ST_NotFound | ST_OSError

definition is_file :: "files \<Rightarrow> string list \<Rightarrow> bool" where
  "is_file fs p = (map_of fs p \<noteq> None)"

text \<open>The directories are the root and whatever holds a file.  A file can be written where there is no directory and
  where no part of its path is a file.\<close>

definition is_dir :: "string list \<Rightarrow> files \<Rightarrow> string list \<Rightarrow> bool" where
  "is_dir root fs p = (under p root \<or> list_ex (\<lambda>(q, _). q \<noteq> p \<and> under p q) fs)"

definition can_write :: "string list \<Rightarrow> files \<Rightarrow> string list \<Rightarrow> bool" where
  "can_write root fs p = (\<not> is_dir root fs p \<and> list_all (\<lambda>(q, _). q = p \<or> \<not> under q p) fs)"

definition write_content :: "string list \<Rightarrow> string \<Rightarrow> string \<Rightarrow> files \<Rightarrow> storage_error + files" where
  "write_content root key data fs =
    (case full_path root key of
       None \<Rightarrow> Inl ST_ValueError
     | Some p \<Rightarrow> if can_write root fs p then Inr (AList.update p data fs) else Inl ST_OSError)"

definition read_content :: "string list \<Rightarrow> string \<Rightarrow> files \<Rightarrow> storage_error + string" where
  "read_content root key fs =
    (case full_path root key of
       None \<Rightarrow> Inl ST_ValueError
     | Some p \<Rightarrow> (case map_of fs p of None \<Rightarrow> Inl ST_NotFound | Some data \<Rightarrow> Inr data))"

definition content_exists :: "string list \<Rightarrow> string \<Rightarrow> files \<Rightarrow> storage_error + bool" where
  "content_exists root key fs =
    (case full_path root key of None \<Rightarrow> Inl ST_ValueError | Some p \<Rightarrow> Inr (is_file fs p))"

definition delete_content :: "string list \<Rightarrow> string \<Rightarrow> files \<Rightarrow> storage_error + files" where
  "delete_content root key fs =
    (case full_path root key of None \<Rightarrow> Inl ST_ValueError | Some p \<Rightarrow> Inr (AList.delete p fs))"

section \<open>Containment\<close>

lemma under_append: "under root (root @ p)"
  by (simp add: under_def)

lemma full_path_under: "full_path root key = Some p \<Longrightarrow> under root p"
  by (auto simp: full_path_def Let_def split: if_splits)

text \<open>A write changes one file, which lies below the root.\<close>

lemma write_contained:
  assumes "write_content root key data fs = Inr fs'"
  obtains p where "full_path root key = Some p" "under root p" "p \<noteq> root" "map_of fs' = (map_of fs)(p \<mapsto> data)"
proof -
  obtain p where p: "full_path root key = Some p" "can_write root fs p" "fs' = AList.update p data fs"
    using assms by (auto simp: write_content_def split: option.splits if_splits)
  have "p \<noteq> root" using p(2) by (auto simp: can_write_def is_dir_def under_def)
  with p full_path_under [OF p(1)] show ?thesis by (intro that) (auto simp: update_conv')
qed

section \<open>Keys\<close>

text \<open>A plain key is made of names: it has no empty part, no dots and no NUL.\<close>

definition plain_part :: "string \<Rightarrow> bool" where
  "plain_part p = (p \<noteq> [] \<and> p \<noteq> ''.'' \<and> p \<noteq> ''..'' \<and> CHR 0x00 \<notin> set p \<and> CHR ''/'' \<notin> set p)"

fun join_slash :: "string list \<Rightarrow> string" where
  "join_slash [] = []"
| "join_slash [p] = p"
| "join_slash (p # q # ps) = p @ CHR ''/'' # join_slash (q # ps)"

lemma split_slash_ne [simp]: "split_slash s \<noteq> []"
  by (induction s) (auto split: list.splits)

lemma split_part: "CHR ''/'' \<notin> set p \<Longrightarrow> split_slash p = [p]"
  by (induction p) auto

lemma split_part_slash: "CHR ''/'' \<notin> set p \<Longrightarrow> split_slash (p @ CHR ''/'' # s) = p # split_slash s"
  by (induction p) auto

lemma split_join: "ps \<noteq> [] \<Longrightarrow> list_all plain_part ps \<Longrightarrow> split_slash (join_slash ps) = ps"
  by (induction ps rule: join_slash.induct) (auto simp: split_part split_part_slash plain_part_def)

lemma plain_steps: "list_all plain_part ps \<Longrightarrow> foldl path_step acc ps = acc @ ps"
  by (induction ps arbitrary: acc) (auto simp: path_step_def plain_part_def)

lemma join_no_nul: "list_all plain_part ps \<Longrightarrow> CHR 0x00 \<notin> set (join_slash ps)"
  by (induction ps rule: join_slash.induct) (auto simp: plain_part_def)

lemma join_relative: "ps \<noteq> [] \<Longrightarrow> list_all plain_part ps \<Longrightarrow> \<not> starts_with ''/'' (join_slash ps)"
  by (induction ps rule: join_slash.induct) (auto simp: starts_with_def plain_part_def neq_Nil_conv)

lemma full_path_plain:
  assumes "ps \<noteq> []" "list_all plain_part ps"
  shows "full_path root (join_slash ps) = Some (root @ ps)"
  using assms by (simp add: full_path_def resolve_from_def split_join plain_steps join_no_nul join_relative under_append)

section \<open>The storage as a map\<close>

text \<open>What the other operations of the service see of the storage: the content of a key.\<close>

definition store_view :: "string list \<Rightarrow> files \<Rightarrow> string \<Rightarrow> string option" where
  "store_view root fs key = (case read_content root key fs of Inl _ \<Rightarrow> None | Inr data \<Rightarrow> Some data)"

definition plain_key :: "string \<Rightarrow> bool" where
  "plain_key key = list_all plain_part (split_slash key)"

lemma plain_key_join: "ps \<noteq> [] \<Longrightarrow> list_all plain_part ps \<Longrightarrow> plain_key (join_slash ps)"
  by (simp add: plain_key_def split_join)

lemma split_part_no_slash: "p \<in> set (split_slash s) \<Longrightarrow> CHR ''/'' \<notin> set p"
  by (induction s arbitrary: p) (auto split: list.splits if_splits)

lemma join_split: "join_slash (split_slash key) = key"
proof (induction key)
  case (Cons c s)
  then show ?case by (cases "split_slash s" rule: join_slash.cases) auto
qed simp

lemma full_path_plain_key: "plain_key key \<Longrightarrow> full_path root key = Some (root @ split_slash key)"
  using full_path_plain [of "split_slash key" root] by (simp add: plain_key_def join_split)

lemma split_slash_inj: "split_slash a = split_slash b \<longleftrightarrow> a = b"
  by (metis join_split)

lemma store_view_plain: "plain_key key \<Longrightarrow> store_view root fs key = map_of fs (root @ split_slash key)"
  by (simp add: store_view_def read_content_def full_path_plain_key split: option.split)

text \<open>On plain keys the local storage is a map from keys to contents: distinct keys are distinct files.\<close>

lemma write_refines_map:
  assumes "write_content root key data fs = Inr fs'" "plain_key key" "plain_key k"
  shows "store_view root fs' k = ((store_view root fs)(key \<mapsto> data)) k"
proof (cases rule: write_contained [OF assms(1)])
  case (1 p)
  then show ?thesis
    using assms(2,3) by (auto simp: store_view_plain full_path_plain_key split_slash_inj)
qed

lemma delete_refines_map:
  assumes "delete_content root key fs = Inr fs'" "plain_key key" "plain_key k"
  shows "store_view root fs' k = ((store_view root fs)(key := None)) k"
  using assms by (auto simp: delete_content_def full_path_plain_key store_view_plain split_slash_inj delete_conv')

text \<open>The keys of the service: an artifact of a run, and an upload.  None is a part of the path of another, so a
  storage that holds nothing else takes every write to one of them.\<close>

definition run_key :: "string \<Rightarrow> string \<Rightarrow> string \<Rightarrow> string list" where
  "run_key ws run_id aid = [''workspaces'', ws, ''runs'', run_id, ''artifacts'', aid, ''content'']"

definition upload_key :: "string \<Rightarrow> string \<Rightarrow> string list" where
  "upload_key ws aid = [''workspaces'', ws, ''artifacts'', aid, ''content'']"

definition artifact_path :: "string list \<Rightarrow> bool" where
  "artifact_path ps = ((\<exists>ws run_id aid. ps = run_key ws run_id aid) \<or> (\<exists>ws aid. ps = upload_key ws aid))"

lemma artifact_path_under: "artifact_path ps \<Longrightarrow> artifact_path qs \<Longrightarrow> under (root @ ps) (root @ qs) \<Longrightarrow> ps = qs"
  by (auto simp: artifact_path_def run_key_def upload_key_def under_def)

lemma artifact_path_below_root: "artifact_path ps \<Longrightarrow> \<not> under (root @ ps) root"
  by (auto simp: artifact_path_def run_key_def upload_key_def under_def)

theorem artifact_key_written:
  assumes "artifact_path ps" "list_all plain_part ps"
    and "\<forall>(q, _) \<in> set fs. \<exists>qs. artifact_path qs \<and> q = root @ qs"
  shows "\<exists>fs'. write_content root (join_slash ps) data fs = Inr fs'
    \<and> map_of fs' = (map_of fs)(root @ ps \<mapsto> data)"
proof -
  have "ps \<noteq> []" using assms(1) by (auto simp: artifact_path_def run_key_def upload_key_def)
  then have p: "full_path root (join_slash ps) = Some (root @ ps)" using assms(2) by (rule full_path_plain)
  have "can_write root fs (root @ ps)"
    using assms(1,3) artifact_path_under artifact_path_below_root
    by (fastforce simp: can_write_def is_dir_def list_all_iff list_ex_iff)
  with p show ?thesis by (simp add: write_content_def update_conv')
qed

theorem artifact_key_written_witness:
  "\<exists>fs'. write_content [''data''] (join_slash (upload_key ''w'' ''a'')) ''x'' [([''data''] @ run_key ''w'' ''r'' ''b'', ''y'')] = Inr fs'
     \<and> map_of fs' ([''data''] @ upload_key ''w'' ''a'') = Some ''x''"
proof -
  have k: "artifact_path (upload_key ''w'' ''a'')" "artifact_path (run_key ''w'' ''r'' ''b'')"
    by (auto simp: artifact_path_def)
  have plain: "list_all plain_part (upload_key ''w'' ''a'')" by code_simp
  show ?thesis
    using artifact_key_written [OF k(1) plain, of "[([''data''] @ run_key ''w'' ''r'' ''b'', ''y'')]" "[''data'']" "''x''"] k(2)
    by auto
qed

end
