(* ===== verification/Unicode_Text.thy ===== *)
theory Unicode_Text
  imports Prelude
begin

text \<open>
  Texts as lists of code points, for the previews of the artifact service: UTF-8 with its encoder and the two decoders of
  Python (strict, and \<open>errors='replace'\<close>), the code page 1252, and \<open>repair_double_encoded_utf8\<close> of
  \<open>api/route_helpers.py\<close>.  Bytes are the numbers below 256.
\<close>

section \<open>UTF-8\<close>

type_synonym code_points = "nat list"

definition scalar :: "nat \<Rightarrow> bool" where
  "scalar c = (c < 0x110000 \<and> \<not> (0xD800 \<le> c \<and> c < 0xE000))"

definition encode_point :: "nat \<Rightarrow> nat list" where
  "encode_point c =
    (if c < 0x80 then [c]
     else if c < 0x800 then [0xC0 + c div 64, 0x80 + c mod 64]
     else if c < 0x10000 then [0xE0 + c div 4096, 0x80 + c div 64 mod 64, 0x80 + c mod 64]
     else [0xF0 + c div 262144, 0x80 + c div 4096 mod 64, 0x80 + c div 64 mod 64, 0x80 + c mod 64])"

definition encode_text :: "code_points \<Rightarrow> nat list" where
  "encode_text cs = concat (map encode_point cs)"

text \<open>How many bytes follow a lead byte, and the range of the first of them: it excludes the overlong forms, the
  surrogates and what lies above the last code point.\<close>

definition follow_count :: "nat \<Rightarrow> nat option" where
  "follow_count b =
    (if b < 0x80 then Some 0 else if 0xC2 \<le> b \<and> b < 0xE0 then Some 1 else if 0xE0 \<le> b \<and> b < 0xF0 then Some 2
     else if 0xF0 \<le> b \<and> b < 0xF5 then Some 3 else None)"

definition first_range :: "nat \<Rightarrow> nat \<times> nat" where
  "first_range b =
    (if b = 0xE0 then (0xA0, 0xC0) else if b = 0xED then (0x80, 0xA0) else if b = 0xF0 then (0x90, 0xC0)
     else if b = 0xF4 then (0x80, 0x90) else (0x80, 0xC0))"

fun take_follow :: "nat \<Rightarrow> nat \<times> nat \<Rightarrow> nat list \<Rightarrow> nat list" where
  "take_follow 0 r bs = []"
| "take_follow (Suc n) r [] = []"
| "take_follow (Suc n) (lo, hi) (b # bs) =
    (if lo \<le> b \<and> b < hi then b # take_follow n (0x80, 0xC0) bs else [])"

lemma length_take_follow: "length (take_follow n r bs) \<le> length bs"
  by (induction n r bs rule: take_follow.induct) auto

definition lead_bits :: "nat \<Rightarrow> nat" where
  "lead_bits b = (if b < 0x80 then b else if b < 0xE0 then b - 0xC0 else if b < 0xF0 then b - 0xE0 else b - 0xF0)"

definition join_bits :: "nat \<Rightarrow> nat list \<Rightarrow> nat" where
  "join_bits b ts = foldl (\<lambda>a t. a * 64 + (t - 0x80)) (lead_bits b) ts"

text \<open>One code point: its value, None for an ill-formed sequence, and the rest.  Of an ill-formed sequence the longest
  well-formed beginning is consumed.\<close>

definition decode_point :: "nat \<Rightarrow> nat list \<Rightarrow> nat option \<times> nat list" where
  "decode_point b bs =
    (case follow_count b of
       None \<Rightarrow> (None, bs)
     | Some n \<Rightarrow>
         let ts = take_follow n (first_range b) bs
         in (if length ts = n then Some (join_bits b ts) else None, drop (length ts) bs))"

lemma decode_point_shorter: "length (snd (decode_point b bs)) \<le> length bs"
  by (simp add: decode_point_def Let_def split: option.split)

function decode_replace :: "nat list \<Rightarrow> code_points" where
  "decode_replace [] = []"
| "decode_replace (b # bs) =
     opt_or (fst (decode_point b bs)) 0xFFFD # decode_replace (snd (decode_point b bs))"
  by pat_completeness auto
termination
  using decode_point_shorter by (relation "measure length") (auto simp: less_Suc_eq_le)

function decode_strict :: "nat list \<Rightarrow> code_points option" where
  "decode_strict [] = Some []"
| "decode_strict (b # bs) =
    (case fst (decode_point b bs) of
       None \<Rightarrow> None
     | Some c \<Rightarrow> map_option ((#) c) (decode_strict (snd (decode_point b bs))))"
  by pat_completeness auto
termination
  using decode_point_shorter by (relation "measure length") (auto simp: less_Suc_eq_le)

subsection \<open>Round trip\<close>

lemma utf8_digits:
  fixes c :: nat
  shows "c div 4096 mod 64 = c div 64 div 64 mod 64" "c div 4096 = c div 64 div 64" "c div 262144 = c div 64 div 64 div 64"
  by (simp_all add: div_mult2_eq [symmetric])

text \<open>Three and four bytes: the first of the following bytes lies in its range.\<close>

lemma decode_three:
  assumes "h < 16" "m < 64" "l < 64" "h = 0 \<Longrightarrow> 32 \<le> m" "h = 13 \<Longrightarrow> m < 32"
  shows "decode_point (0xE0 + h) ((0x80 + m) # (0x80 + l) # rest) = (Some ((h * 64 + m) * 64 + l), rest)"
proof -
  obtain lo hi where r: "first_range (0xE0 + h) = (lo, hi)" by (rule prod.exhaust)
  then have "lo \<le> 0x80 + m" "0x80 + m < hi" using assms by (auto simp: first_range_def split: if_splits)
  with r assms(1-3) show ?thesis
    by (simp add: decode_point_def follow_count_def join_bits_def lead_bits_def numeral_2_eq_2)
qed

lemma decode_four:
  assumes "k < 5" "h < 64" "m < 64" "l < 64" "k = 0 \<Longrightarrow> 16 \<le> h" "k = 4 \<Longrightarrow> h < 16"
  shows "decode_point (0xF0 + k) ((0x80 + h) # (0x80 + m) # (0x80 + l) # rest)
    = (Some (((k * 64 + h) * 64 + m) * 64 + l), rest)"
proof -
  obtain lo hi where r: "first_range (0xF0 + k) = (lo, hi)" by (rule prod.exhaust)
  then have "lo \<le> 0x80 + h" "0x80 + h < hi" using assms by (auto simp: first_range_def split: if_splits)
  with r assms(1-4) show ?thesis
    by (simp add: decode_point_def follow_count_def join_bits_def lead_bits_def numeral_3_eq_3)
qed

lemma decode_encoded_point:
  assumes "scalar c"
  shows "\<exists>b bs. encode_point c = b # bs \<and> decode_point b (bs @ rest) = (Some c, rest)"
proof -
  let ?l = "c mod 64" and ?m = "c div 64 mod 64" and ?h = "c div 4096 mod 64"
  have split: "c = (c div 64) * 64 + ?l" "c div 64 = (c div 4096) * 64 + ?m" "c div 4096 = (c div 262144) * 64 + ?h"
    by (simp_all add: utf8_digits)
  consider "c < 0x80" | "0x80 \<le> c" "c < 0x800" | "0x800 \<le> c" "c < 0x10000" | "0x10000 \<le> c" "c < 0x110000"
    using assms by (fastforce simp: scalar_def)
  then show ?thesis
  proof cases
    case 1
    then show ?thesis by (simp add: encode_point_def decode_point_def follow_count_def join_bits_def lead_bits_def)
  next
    case 2
    then have q: "2 \<le> c div 64" "c div 64 < 32" and n: "(c < 128) = False"
      by (simp_all add: less_eq_div_iff_mult_less_eq div_less_iff_less_mult)
    have "encode_point c = [0xC0 + c div 64, 0x80 + c mod 64]" using 2 by (simp add: encode_point_def)
    with q split(1) show ?thesis
      by (simp add: decode_point_def follow_count_def first_range_def join_bits_def lead_bits_def)
  next
    case 3
    then have h: "c div 4096 < 16" and q: "32 \<le> c div 64"
      by (simp_all add: less_eq_div_iff_mult_less_eq div_less_iff_less_mult)
    have "c div 4096 = 0 \<Longrightarrow> 32 \<le> ?m" using q split(2) by linarith
    moreover have "c div 4096 = 13 \<Longrightarrow> ?m < 32"
    proof -
      assume e: "c div 4096 = 13"
      then have "c < 0xE000" using split(1,2) mod_less_divisor [of 64 c] mod_less_divisor [of 64 "c div 64"] by linarith
      then have "c < 0xD800" using assms by (simp add: scalar_def)
      then have "c div 64 < 864" by (simp add: div_less_iff_less_mult)
      then show "?m < 32" using e split(2) by linarith
    qed
    ultimately have range: "c div 4096 = 0 \<Longrightarrow> 32 \<le> ?m" "c div 4096 = 13 \<Longrightarrow> ?m < 32" by blast+
    have e: "(c div 4096 * 64 + ?m) * 64 + ?l = c" by (simp only: split [symmetric])
    have "decode_point (0xE0 + c div 4096) ((0x80 + ?m) # (0x80 + ?l) # rest) = (Some c, rest)"
      using decode_three [OF h _ _ range, of ?l rest] unfolding e by simp
    with 3 show ?thesis by (simp add: encode_point_def)
  next
    case 4
    then have h: "c div 262144 < 5" and q: "16 \<le> c div 4096" "c div 4096 < 272"
      by (simp_all add: less_eq_div_iff_mult_less_eq div_less_iff_less_mult)
    have range: "c div 262144 = 0 \<Longrightarrow> 16 \<le> ?h" "c div 262144 = 4 \<Longrightarrow> ?h < 16"
      using q split(3) by linarith+
    have e: "((c div 262144 * 64 + ?h) * 64 + ?m) * 64 + ?l = c" by (simp only: split [symmetric])
    have "decode_point (0xF0 + c div 262144) ((0x80 + ?h) # (0x80 + ?m) # (0x80 + ?l) # rest) = (Some c, rest)"
      using decode_four [OF h _ _ _ range, of ?m ?l rest] unfolding e by simp
    with 4 show ?thesis by (simp add: encode_point_def)
  qed
qed

lemma decode_replace_point: "scalar c \<Longrightarrow> decode_replace (encode_point c @ rest) = c # decode_replace rest"
  using decode_encoded_point [of c rest] by (auto simp: opt_or_def)

lemma decode_strict_point:
  "scalar c \<Longrightarrow> decode_strict (encode_point c @ rest) = map_option ((#) c) (decode_strict rest)"
  using decode_encoded_point [of c rest] by auto

lemma decode_replace_encoded: "list_all scalar cs \<Longrightarrow> decode_replace (encode_text cs) = cs"
  by (induction cs) (simp_all add: encode_text_def decode_replace_point)

lemma decode_strict_encoded: "list_all scalar cs \<Longrightarrow> decode_strict (encode_text cs) = Some cs"
  by (induction cs) (simp_all add: encode_text_def decode_strict_point)

section \<open>Code page 1252\<close>

text \<open>The bytes 128 to 159 and their code points; five of them stand for nothing.\<close>

definition cp1252_table :: "(nat \<times> nat) list" where
  "cp1252_table =
    [(0x80, 0x20AC), (0x82, 0x201A), (0x83, 0x0192), (0x84, 0x201E), (0x85, 0x2026), (0x86, 0x2020),
     (0x87, 0x2021), (0x88, 0x02C6), (0x89, 0x2030), (0x8A, 0x0160), (0x8B, 0x2039), (0x8C, 0x0152),
     (0x8E, 0x017D), (0x91, 0x2018), (0x92, 0x2019), (0x93, 0x201C), (0x94, 0x201D), (0x95, 0x2022),
     (0x96, 0x2013), (0x97, 0x2014), (0x98, 0x02DC), (0x99, 0x2122), (0x9A, 0x0161), (0x9B, 0x203A),
     (0x9C, 0x0153), (0x9E, 0x017E), (0x9F, 0x0178)]"

definition cp1252_decode :: "nat \<Rightarrow> nat option" where
  "cp1252_decode b = (if b < 0x80 \<or> 0xA0 \<le> b then Some b else map_of cp1252_table b)"

definition cp1252_encode :: "nat \<Rightarrow> nat option" where
  "cp1252_encode c =
    (if c < 0x80 \<or> (0xA0 \<le> c \<and> c < 0x100) then Some c else map_of (map prod.swap cp1252_table) c)"

lemma cp1252_distinct: "distinct (map snd cp1252_table)"
  by (simp add: cp1252_table_def)

lemma cp1252_high: "list_all (\<lambda>(b, c). 0x100 \<le> c) cp1252_table"
  by (simp add: cp1252_table_def)

lemma cp1252_roundtrip:
  assumes "0x80 \<le> b" "b < 0x100" "cp1252_decode b = Some c"
  shows "0x80 \<le> c" "cp1252_encode c = Some b"
proof -
  have "0x80 \<le> c \<and> cp1252_encode c = Some b"
  proof (cases "0xA0 \<le> b")
    case False
    then have m: "(b, c) \<in> set cp1252_table" using assms by (auto simp: cp1252_decode_def dest: map_of_SomeD)
    then have "0x100 \<le> c" using cp1252_high by (auto simp: list_all_iff)
    moreover have "map_of (map prod.swap cp1252_table) c = Some b"
      using m cp1252_distinct by (intro map_of_is_SomeI) (force simp: comp_def)+
    ultimately show ?thesis by (simp add: cp1252_encode_def)
  qed (use assms in \<open>simp add: cp1252_decode_def cp1252_encode_def\<close>)
  then show "0x80 \<le> c" "cp1252_encode c = Some b" by auto
qed

section \<open>Double encoding\<close>

text \<open>The bytes of the longest run of encodable characters outside of ASCII.\<close>

fun encodable_run :: "code_points \<Rightarrow> nat list" where
  "encodable_run [] = []"
| "encodable_run (c # cs) =
    (if c \<le> 127 then [] else case cp1252_encode c of None \<Rightarrow> [] | Some b \<Rightarrow> b # encodable_run cs)"

lemma length_encodable_run: "length (encodable_run cs) \<le> length cs"
  by (induction cs) (auto split: option.split)

function repair_double_encoded_utf8 :: "code_points \<Rightarrow> code_points" where
  "repair_double_encoded_utf8 [] = []"
| "repair_double_encoded_utf8 (c # cs) =
    (if c \<le> 127 then c # repair_double_encoded_utf8 cs
     else let buf = encodable_run (c # cs) in
       case (if buf = [] then None else decode_strict buf) of
         None \<Rightarrow> c # repair_double_encoded_utf8 cs
       | Some text \<Rightarrow> text @ repair_double_encoded_utf8 (drop (length buf) (c # cs)))"
  by pat_completeness auto
termination
  by (relation "measure length") (auto simp: Let_def split: if_splits option.splits)

text \<open>What a program makes of a text when it reads its UTF-8 as code page 1252.\<close>

definition misread :: "code_points \<Rightarrow> code_points option" where
  "misread t =
    (if list_ex (\<lambda>b. cp1252_decode b = None) (encode_text t) then None
     else Some (map (\<lambda>b. the (cp1252_decode b)) (encode_text t)))"

lemma scalar_bytes:
  assumes "scalar c" "b \<in> set (encode_point c)"
  shows "b < 0x100" "128 \<le> c \<longleftrightarrow> 128 \<le> b"
proof -
  have m: "x mod 64 < 64" for x :: nat by simp
  have "b < 0x100 \<and> (128 \<le> c \<longleftrightarrow> 128 \<le> b)"
  proof (cases "c < 0x80")
    case True
    then show ?thesis using assms(2) by (simp add: encode_point_def)
  next
    case False
    have "c < 0x110000" using assms(1) by (simp add: scalar_def)
    then have "c < 0x800 \<Longrightarrow> c div 64 < 32" "c < 0x10000 \<Longrightarrow> c div 4096 < 16" "c div 262144 < 5"
      by (simp_all add: div_less_iff_less_mult)
    then show ?thesis
      using assms(2) False m [of c] m [of "c div 64"] m [of "c div 4096"]
      by (auto simp: encode_point_def split: if_splits)
  qed
  then show "b < 0x100" "128 \<le> c \<longleftrightarrow> 128 \<le> b" by auto
qed

lemma encodable_run_misread:
  assumes "\<forall>b \<in> set bs. b < 0x100 \<and> cp1252_decode b \<noteq> None"
  shows "encodable_run (map (\<lambda>b. the (cp1252_decode b)) bs) = takeWhile (\<lambda>b. 128 \<le> b) bs"
  using assms
proof (induction bs)
  case (Cons b bs)
  then obtain c where c: "cp1252_decode b = Some c" by auto
  show ?case
  proof (cases "128 \<le> b")
    case True
    with Cons c cp1252_roundtrip [of b c] show ?thesis by auto
  next
    case False
    then show ?thesis using c by (simp add: cp1252_decode_def)
  qed
qed simp

lemma take_bytes:
  assumes "list_all scalar t"
  shows "takeWhile (\<lambda>b. 128 \<le> b) (encode_text t) = encode_text (takeWhile (\<lambda>c. 128 \<le> c) t)"
  using assms
proof (induction t)
  case (Cons c t)
  have b: "\<forall>b \<in> set (encode_point c). 128 \<le> c \<longleftrightarrow> 128 \<le> b" using Cons.prems scalar_bytes by auto
  have "encode_point c \<noteq> []" by (simp add: encode_point_def)
  with b Cons show ?case
    by (cases "encode_point c") (auto simp: encode_text_def takeWhile_append1 takeWhile_append2)
qed (simp add: encode_text_def)

text \<open>The repair undoes one double encoding of any text.\<close>

lemma repair_misread:
  assumes "list_all scalar t" and "misread t = Some m"
  shows "repair_double_encoded_utf8 m = t"
  using assms
proof (induction t arbitrary: m rule: length_induct)
  case (1 t)
  define dec where "dec = (\<lambda>b. the (cp1252_decode b))"
  have ok: "\<forall>b \<in> set (encode_text t). b < 0x100 \<and> cp1252_decode b \<noteq> None" and m: "m = map dec (encode_text t)"
    using 1(2,3) scalar_bytes(1)
    by (auto simp: misread_def list_ex_iff encode_text_def list_all_iff dec_def split: if_splits)
  have IH: "repair_double_encoded_utf8 (map dec (encode_text v)) = v"
    if "length v < length t" "set v \<subseteq> set t" for v
  proof -
    have "misread v = Some (map dec (encode_text v))"
      using that(2) ok by (auto simp: misread_def list_ex_iff dec_def encode_text_def)
    moreover have "list_all scalar v" using that(2) 1(2) by (auto simp: list_all_iff)
    ultimately show ?thesis using 1(1) that(1) by blast
  qed
  show ?case
  proof (cases t)
    case Nil
    then show ?thesis using m by (simp add: encode_text_def)
  next
    case (Cons c cs)
    define u where "u = takeWhile (\<lambda>c. 128 \<le> c) t"
    define v where "v = dropWhile (\<lambda>c. 128 \<le> c) t"
    have t: "t = u @ v" by (simp add: u_def v_def)
    show ?thesis
    proof (cases "128 \<le> c")
      case False
      then have "encode_text t = c # encode_text cs" using Cons by (simp add: encode_text_def encode_point_def)
      moreover have "repair_double_encoded_utf8 (map dec (encode_text cs)) = cs" using IH [of cs] Cons by auto
      moreover have "dec c = c" using False by (simp add: dec_def cp1252_decode_def)
      ultimately show ?thesis using False Cons m by simp
    next
      case True
      have run: "encodable_run m = encode_text u"
        using encodable_run_misread [OF ok] take_bytes [OF 1(2)] m by (simp add: dec_def u_def)
      have ne: "u \<noteq> []" using True Cons by (simp add: u_def)
      have u: "list_all scalar u" "length v < length t" "set v \<subseteq> set t"
        using 1(2) ne unfolding t by simp_all
      have "encode_text u \<noteq> []" using ne by (cases u) (auto simp: encode_text_def encode_point_def)
      then obtain d ds where d: "m = d # ds" "\<not> d \<le> 127"
        using run by (cases m) (auto split: if_splits)
      have "drop (length (encode_text u)) m = map dec (encode_text v)"
        using m t by (simp add: encode_text_def)
      then have "repair_double_encoded_utf8 m = u @ repair_double_encoded_utf8 (map dec (encode_text v))"
        using run d decode_strict_encoded [OF u(1)] \<open>encode_text u \<noteq> []\<close> by (simp add: Let_def)
      then show ?thesis using IH [OF u(2,3)] t by simp
    qed
  qed
qed

lemma misread_demo: "misread [0xE9] = Some [0xC3, 0xA9]"
  by (simp add: misread_def encode_text_def encode_point_def cp1252_decode_def)

text \<open>It also changes a text that was never misread: the text with those two characters is shown as the one they
  would have come from.\<close>

lemma repair_changes_text: "list_all scalar [0xC3, 0xA9] \<and> repair_double_encoded_utf8 [0xC3, 0xA9] \<noteq> [0xC3, 0xA9]"
  using repair_misread [OF _ misread_demo] by (simp add: scalar_def)

end
