(* ===== verification/Artifact_Content.thy ===== *)
theory Artifact_Content
  imports Artifact_Routes Artifact_Storage Unicode_Text
begin

text \<open>
  The contents of artifacts: \<open>api/routes_content.py\<close> with the preview helpers of \<open>api/route_helpers.py\<close>.  The storage is
  the map from keys to contents that the local storage implements (theory \<open>Artifact_Storage\<close>), a byte being the
  character of its number.  An answer with a content has its headers beside it; the text of a preview is a list of code
  points.
\<close>

section \<open>Upload\<close>

definition upload_max_bytes :: int where
  "upload_max_bytes = 25 * 1024 * 1024"

definition octet_stream :: string where
  "octet_stream = ''application/octet-stream''"

definition detect_mime_type :: "artifact_api_env \<Rightarrow> string option \<Rightarrow> string option \<Rightarrow> string" where
  "detect_mime_type env filename content_type =
    (let guessed = (if str_truthy filename then ra_guess_type env (the filename) else None) in
     if str_truthy guessed then the guessed
     else if str_truthy content_type \<and> content_type \<noteq> Some octet_stream then the content_type
     else octet_stream)"

text \<open>The loop over the chunks of the file, which ends at the first empty one.\<close>

fun read_chunks :: "int \<Rightarrow> string list \<Rightarrow> api_failure + string" where
  "read_chunks seen [] = Inr []"
| "read_chunks seen (chunk # chunks) =
    (if chunk = [] then Inr []
     else if seen + int (length chunk) > upload_max_bytes then Inl (AF_Http 413)
     else rbind (read_chunks (seen + int (length chunk)) chunks) (\<lambda>rest. Inr (chunk @ rest)))"

record upload_file =
  uf_filename :: "string option"
  uf_content_type :: "string option"
  uf_chunks :: "string list"

definition storage_key_of :: "artifact_api_env \<Rightarrow> uuid \<Rightarrow> uuid \<Rightarrow> string" where
  "storage_key_of env ws aid = join_slash (upload_key (ra_uuid_str env ws) (ra_uuid_str env aid))"

definition upload_answer :: "artifact \<Rightarrow> string \<Rightarrow> string \<Rightarrow> dict" where
  "upload_answer a user filename =
    [(''id'', JUuid (a_id a)), (''name'', JStr (a_name a)),
     (''artifact_type'', JStr (artifact_type_value (a_artifact_type a))),
     (''root_type'', JStr (root_type_value (a_root_type a))),
     (''artifact_status'', JStr (artifact_status_value (a_status a))), (''mime_type'', opt_str (a_mime_type a)),
     (''size_bytes'', opt_number (a_size_bytes a)), (''checksum'', opt_str (a_checksum a)),
     (''workspace_id'', JUuid (a_workspace_id a)), (''created_at'', JInt (a_created_at a)),
     (''uploader_user_id'', JStr user), (''original_filename'', JStr filename)]"

definition upload_artifact_endpoint ::
  "artifact_api_env \<Rightarrow> api_headers \<Rightarrow> string \<Rightarrow> upload_file \<Rightarrow> string option \<Rightarrow> string \<Rightarrow> uuid_supply \<Rightarrow> time
   \<Rightarrow> artifact_db \<Rightarrow> storage \<Rightarrow> (api_failure + dict) \<times> artifact_db \<times> storage" where
  "upload_artifact_endpoint env headers ws file artifact_name ty u now db store =
    (case rbind (guard_service (ra_auth env) now ''api-gateway'' headers) (\<lambda>_.
          rbind (artifact_uuid env ws) (\<lambda>wid.
          rbind (read_chunks 0 (uf_chunks file)) (\<lambda>content. Inr (wid, content)))) of
       Inl e \<Rightarrow> (Inl e, db, store)
     | Inr (wid, content) \<Rightarrow>
         let user = opt_or (header_value ''x-user-id'' headers) ''unknown'';
             filename = (if str_truthy (uf_filename file) then the (uf_filename file) else ''unnamed'');
             name = (if str_truthy artifact_name then the artifact_name else filename)
         in case upload_artifact (ra_sha env) (storage_key_of env) wid name ty
                (Some (detect_mime_type env (Some filename) (uf_content_type file))) content None u now (db, store) of
              (Inl e, db', store') \<Rightarrow> (Inl (AF_Http 500), db', store')
            | (Inr a, db', store') \<Rightarrow> (Inr (upload_answer a user filename), db', store'))"

section \<open>Download\<close>

record content_answer =
  ca_body :: string
  ca_media_type :: string
  ca_headers :: api_headers

definition ready_in_workspace ::
  "artifact_api_env \<Rightarrow> api_headers \<Rightarrow> time \<Rightarrow> string \<Rightarrow> string \<Rightarrow> artifact_db \<Rightarrow> api_failure + artifact" where
  "ready_in_workspace env headers now artifact ws db =
    rbind (guard_service (ra_auth env) now ''api-gateway'' headers) (\<lambda>_.
    rbind (artifact_uuid env artifact) (\<lambda>aid.
    rbind (artifact_uuid env ws) (\<lambda>wid.
    rbind (artifact_in_workspace aid wid db) (\<lambda>a.
    rbind (need (a_status a = A_READY) 409) (\<lambda>_. Inr a)))))"

definition safe_name :: "string \<Rightarrow> string" where
  "safe_name name =
     map (\<lambda>c. if c \<in> {CHR 0x5C, CHR 0x22, CHR 0x0A, CHR 0x0D, CHR 0x00} then CHR ''_'' else c) name"

definition in_quotes :: "string \<Rightarrow> string" where
  "in_quotes s = CHR 0x22 # s @ [CHR 0x22]"

definition inline_prefix :: string where
  "inline_prefix = ''inline://''"

definition download_headers :: "artifact \<Rightarrow> string \<Rightarrow> api_headers" where
  "download_headers a content =
    [(''Content-Disposition'', ''attachment; filename='' @ in_quotes (safe_name (a_name a))),
     (''X-Content-Type-Options'', ''nosniff'')]
    @ (if str_truthy (a_checksum a) then [(''ETag'', in_quotes (the (a_checksum a)))] else [])
    @ (if a_size_bytes a \<noteq> None then [(''Content-Length'', str_int (int (length content)))] else [])"

definition download_artifact_endpoint ::
  "artifact_api_env \<Rightarrow> api_headers \<Rightarrow> time \<Rightarrow> string \<Rightarrow> string \<Rightarrow> artifact_db \<Rightarrow> storage \<Rightarrow> api_failure + content_answer" where
  "download_artifact_endpoint env headers now artifact ws db store =
    rbind (ready_in_workspace env headers now artifact ws db) (\<lambda>a.
    rbind (need (str_truthy (a_storage_ref a)) 404) (\<lambda>_.
    rbind (need (\<not> starts_with inline_prefix (the (a_storage_ref a))) 404) (\<lambda>_.
    case store (the (a_storage_ref a)) of
      None \<Rightarrow> Inl (AF_Http 404)
    | Some content \<Rightarrow>
        Inr \<lparr> ca_body = content, ca_media_type = (if str_truthy (a_mime_type a) then the (a_mime_type a) else octet_stream),
              ca_headers = download_headers a content \<rparr>)))"

section \<open>Preview\<close>

definition preview_max_bytes :: nat where
  "preview_max_bytes = 1048576"

definition previewable_mimes :: "string list" where
  "previewable_mimes = [''text/plain'', ''text/markdown'', ''text/x-markdown'', ''application/json'']"

text \<open>The type of the artifact is passed as an enumeration, a string whose comparison with \<open>model_output\<close> is by value.\<close>

definition resolve_preview_kind :: "string option \<Rightarrow> string option \<Rightarrow> string" where
  "resolve_preview_kind mime ty =
    (let m = (if \<not> str_truthy mime \<and> ty = Some ''model_output'' then Some ''text/plain'' else mime) in
     if \<not> str_truthy m \<or> the m \<notin> set previewable_mimes then ''unsupported''
     else if m = Some ''application/json'' then ''json''
     else if the m \<in> {''text/markdown'', ''text/x-markdown''} then ''markdown''
     else ''text'')"

record preview_answer =
  pw_artifact_id :: string
  pw_mime_type :: "string option"
  pw_preview_kind :: string
  pw_size_bytes :: "int option"
  pw_truncated :: bool
  pw_content :: "code_points option"

definition preview_without :: "string \<Rightarrow> artifact \<Rightarrow> string \<Rightarrow> preview_answer" where
  "preview_without artifact a kind =
    \<lparr> pw_artifact_id = artifact, pw_mime_type = a_mime_type a, pw_preview_kind = kind, pw_size_bytes = a_size_bytes a,
      pw_truncated = False, pw_content = None \<rparr>"

definition preview_of :: "artifact_api_env \<Rightarrow> string \<Rightarrow> artifact \<Rightarrow> string \<Rightarrow> string \<Rightarrow> preview_answer" where
  "preview_of env artifact a kind content =
    (let text = repair_double_encoded_utf8 (decode_replace (map of_char (take preview_max_bytes content))) in
     \<lparr> pw_artifact_id = artifact, pw_mime_type = a_mime_type a,
       pw_preview_kind = (if kind = ''json'' \<and> \<not> ra_json_ok env text then ''text'' else kind),
       pw_size_bytes = a_size_bytes a, pw_truncated = (length content > preview_max_bytes), pw_content = Some text \<rparr>)"

definition preview_artifact_endpoint ::
  "artifact_api_env \<Rightarrow> api_headers \<Rightarrow> time \<Rightarrow> string \<Rightarrow> string \<Rightarrow> artifact_db \<Rightarrow> storage \<Rightarrow> api_failure + preview_answer" where
  "preview_artifact_endpoint env headers now artifact ws db store =
    rbind (ready_in_workspace env headers now artifact ws db) (\<lambda>a.
    let kind = resolve_preview_kind (a_mime_type a) (Some (artifact_type_value (a_artifact_type a))) in
    if kind = ''unsupported'' then Inr (preview_without artifact a ''unsupported'')
    else if (case a_size_bytes a of None \<Rightarrow> False | Some n \<Rightarrow> n > int preview_max_bytes)
    then Inr (preview_without artifact a ''too_large'')
    else
      rbind (need (str_truthy (a_storage_ref a)) 404) (\<lambda>_.
      if starts_with inline_prefix (the (a_storage_ref a)) then Inr (preview_without artifact a ''unavailable'')
      else case store (the (a_storage_ref a)) of
        None \<Rightarrow> Inl (AF_Http 404) | Some content \<Rightarrow> Inr (preview_of env artifact a kind content)))"

section \<open>What was uploaded is downloaded\<close>

lemma storage_key_shape:
  "storage_key_of env ws aid \<noteq> []" "\<not> starts_with inline_prefix (storage_key_of env ws aid)"
  by (simp_all add: storage_key_of_def upload_key_def starts_with_def inline_prefix_def)

text \<open>The row and the content that an accepted upload leaves behind.\<close>

definition uploaded ::
  "artifact_api_env \<Rightarrow> uuid \<Rightarrow> upload_file \<Rightarrow> string \<Rightarrow> uuid_supply \<Rightarrow> artifact_db \<Rightarrow> storage \<Rightarrow> artifact \<Rightarrow> bool" where
  "uploaded env ws file content u db store a =
    (art_get (u 1) db = Some a \<and> a_id a = u 1 \<and> a_workspace_id a = ws \<and> a_status a = A_READY
     \<and> a_storage_ref a = Some (storage_key_of env ws (u 1)) \<and> store (storage_key_of env ws (u 1)) = Some content
     \<and> a_checksum a = Some (py_lower (ra_sha env content)) \<and> a_size_bytes a = Some (int (length content))
     \<and> length (ra_sha env content) = 64
     \<and> a_mime_type a = Some (detect_mime_type env
          (Some (if str_truthy (uf_filename file) then the (uf_filename file) else ''unnamed'')) (uf_content_type file)))"

lemma upload_row:
  assumes "upload_artifact_endpoint env headers ws file artifact_name ty u now db store = (Inr answer, db', store')"
  shows "\<exists>wid content a. artifact_uuid env ws = Inr wid \<and> read_chunks 0 (uf_chunks file) = Inr content
    \<and> uploaded env wid file content u db' store' a \<and> (\<exists>filename user. answer = upload_answer a user filename)"
proof -
  obtain wid content where read: "artifact_uuid env ws = Inr wid" "read_chunks 0 (uf_chunks file) = Inr content"
    and run: "guard_service (ra_auth env) now ''api-gateway'' headers = Inr ()"
    using assms by (auto simp: upload_artifact_endpoint_def rbind_Inr_iff split: sum.splits prod.splits)
  define filename where "filename = (if str_truthy (uf_filename file) then the (uf_filename file) else ''unnamed'')"
  define name where "name = (if str_truthy artifact_name then the artifact_name else filename)"
  let ?run = "upload_artifact (ra_sha env) (storage_key_of env) wid name ty
      (Some (detect_mime_type env (Some filename) (uf_content_type file))) content None u now (db, store)"
  have "(case ?run of (Inl e, db', store') \<Rightarrow> (Inl (AF_Http 500), db', store')
       | (Inr a, db', store') \<Rightarrow> (Inr (upload_answer a (opt_or (header_value ''x-user-id'' headers) ''unknown'') filename), db', store'))
      = (Inr answer, db', store')"
    using assms read run unfolding upload_artifact_endpoint_def filename_def name_def by (simp add: Let_def)
  then obtain a where up: "?run = (Inr a, db', store')"
    and ans: "answer = upload_answer a (opt_or (header_value ''x-user-id'' headers) ''unknown'') filename"
    by (auto split: sum.splits prod.splits)
  have "uploaded env wid file content u db' store' a"
    using up unfolding upload_artifact_def uploaded_def filename_def [symmetric]
    by (auto simp: Let_def artifact_init_def artifact_begin_writing_def artifact_finalize_def artifact_transition_def
        rbind_Inr_iff art_repo.get_put split: option.splits sum.splits if_splits)
  then show ?thesis using read ans by blast
qed

lemma ready_row:
  assumes "art_get aid db = Some a" "a_workspace_id a = wid" "a_status a = A_READY"
    and "guard_service (ra_auth env) now ''api-gateway'' headers = Inr ()"
    and "artifact_uuid env artifact = Inr aid" "artifact_uuid env ws = Inr wid"
  shows "ready_in_workspace env headers now artifact ws db = Inr a"
  using assms by (simp add: ready_in_workspace_def artifact_in_workspace_def need_def)

lemma text_bytes_kept:
  assumes "list_all scalar t"
  shows "map of_char (map char_of (encode_text t)) = encode_text t"
proof -
  have "\<forall>b \<in> set (encode_text t). b < 256" using assms scalar_bytes(1) by (auto simp: list_all_iff encode_text_def)
  then show ?thesis by (simp add: map_idI)
qed

definition file_mime :: "artifact_api_env \<Rightarrow> upload_file \<Rightarrow> string" where
  "file_mime env file = detect_mime_type env
     (Some (if str_truthy (uf_filename file) then the (uf_filename file) else ''unnamed'')) (uf_content_type file)"

text \<open>C19. What a user uploads is what the members of its workspace download, byte by byte, with the digest of the
  content as its tag and a name that cannot leave the quotes of its header.\<close>

theorem upload_download:
  assumes "upload_artifact_endpoint env headers ws file artifact_name ty u now db store = (Inr answer, db', store')"
    and "guard_service (ra_auth env) later ''api-gateway'' hs = Inr ()" and "artifact_uuid env artifact = Inr (u 1)"
  shows "\<exists>content name. read_chunks 0 (uf_chunks file) = Inr content
    \<and> map_of answer ''id'' = Some (JUuid (u 1)) \<and> map_of answer ''name'' = Some (JStr name)
    \<and> set (safe_name name) \<inter> {CHR 0x22, CHR 0x0A, CHR 0x0D} = {}
    \<and> download_artifact_endpoint env hs later artifact ws db' store' = Inr \<lparr> ca_body = content,
        ca_media_type = (if file_mime env file = [] then octet_stream else file_mime env file),
        ca_headers = [(''Content-Disposition'', ''attachment; filename='' @ in_quotes (safe_name name)),
          (''X-Content-Type-Options'', ''nosniff''), (''ETag'', in_quotes (py_lower (ra_sha env content))),
          (''Content-Length'', str_int (int (length content)))] \<rparr>"
proof -
  obtain wid content a filename user where row: "artifact_uuid env ws = Inr wid" "read_chunks 0 (uf_chunks file) = Inr content"
      "uploaded env wid file content u db' store' a" "answer = upload_answer a user filename"
    using upload_row [OF assms(1)] by blast
  note u = row(3) [unfolded uploaded_def, folded file_mime_def]
  have ready: "ready_in_workspace env hs later artifact ws db' = Inr a"
    using u assms(2,3) row(1) by (intro ready_row) simp_all
  have sum: "py_lower (ra_sha env content) \<noteq> []" using u by (auto simp: py_lower_def)
  have "download_artifact_endpoint env hs later artifact ws db' store' = Inr \<lparr> ca_body = content,
            ca_media_type = (if file_mime env file = [] then octet_stream else file_mime env file),
            ca_headers = [(''Content-Disposition'', ''attachment; filename='' @ in_quotes (safe_name (a_name a))),
              (''X-Content-Type-Options'', ''nosniff''), (''ETag'', in_quotes (py_lower (ra_sha env content))),
              (''Content-Length'', str_int (int (length content)))] \<rparr>"
    using ready u storage_key_shape sum
    by (simp add: download_artifact_endpoint_def need_def str_truthy_def download_headers_def)
  moreover have "set (safe_name (a_name a)) \<inter> {CHR 0x22, CHR 0x0A, CHR 0x0D} = {}" by (auto simp: safe_name_def)
  ultimately show ?thesis
    using row(2,4) u by (intro exI [of _ content] exI [of _ "a_name a"]) (simp add: upload_answer_def)
qed

text \<open>A plain text that fits is previewed as it is, but for the repair of a double encoding.\<close>

theorem upload_previewed:
  assumes "upload_artifact_endpoint env headers ws file artifact_name ty u now db store = (Inr answer, db', store')"
    and "guard_service (ra_auth env) later ''api-gateway'' hs = Inr ()" and "artifact_uuid env artifact = Inr (u 1)"
    and "read_chunks 0 (uf_chunks file) = Inr (map char_of (encode_text t))" "list_all scalar t"
    and "length (encode_text t) \<le> preview_max_bytes" "file_mime env file = ''text/plain''"
  shows "preview_artifact_endpoint env hs later artifact ws db' store' = Inr \<lparr> pw_artifact_id = artifact,
        pw_mime_type = Some ''text/plain'', pw_preview_kind = ''text'', pw_size_bytes = Some (int (length (encode_text t))),
        pw_truncated = False, pw_content = Some (repair_double_encoded_utf8 t) \<rparr>"
proof -
  let ?content = "map char_of (encode_text t)"
  obtain wid a where row: "artifact_uuid env ws = Inr wid" "uploaded env wid file ?content u db' store' a"
    using upload_row [OF assms(1)] assms(4) by auto
  note u = row(2) [unfolded uploaded_def, folded file_mime_def]
  have ready: "ready_in_workspace env hs later artifact ws db' = Inr a"
    using u assms(2,3) row(1) by (intro ready_row) simp_all
  have kind: "resolve_preview_kind (Some ''text/plain'') ty = ''text''" for ty
    by (simp add: resolve_preview_kind_def str_truthy_def previewable_mimes_def)
  have "preview_of env artifact a ''text'' ?content = \<lparr> pw_artifact_id = artifact,
        pw_mime_type = Some ''text/plain'', pw_preview_kind = ''text'', pw_size_bytes = Some (int (length (encode_text t))),
        pw_truncated = False, pw_content = Some (repair_double_encoded_utf8 t) \<rparr>"
    using u assms(5,6,7) text_bytes_kept [OF assms(5)] decode_replace_encoded [OF assms(5)]
    by (simp add: preview_of_def Let_def)
  then show ?thesis
    using ready u assms(6,7) kind storage_key_shape
    by (simp add: preview_artifact_endpoint_def Let_def need_def str_truthy_def)
qed

section \<open>Witness\<close>

definition demo_artifact_auth :: "string \<Rightarrow> api_auth" where
  "demo_artifact_auth caller = \<lparr> aa_jwt = \<lparr> jl_encode = (\<lambda>_ _. ''t''),
       jl_decode = (\<lambda>_ _ _ _ _. Inr [(''sub'', JStr caller), (''aud'', JStr ''artifact-service''), (''iss'', JStr ''i''),
         (''iat'', JInt 0), (''exp'', JInt 60), (''service_name'', JStr caller)]) \<rparr>,
     aa_verifier = \<lparr> tv_secret = ''s3cret'', tv_expected_audience = ''artifact-service'', tv_issuer = ''i'' \<rparr>,
     aa_bearer = map_option (drop 7) \<circ> header_value ''authorization'' \<rparr>"

definition demo_artifact_env :: "string \<Rightarrow> artifact_api_env" where
  "demo_artifact_env caller = \<lparr> ra_auth = demo_artifact_auth caller,
     ra_uuid_of = map_of [(''1'', 1), (''7'', 7), (''8'', 8), (''9'', 9), (''101'', 101)],
     ra_uuid_str = (\<lambda>k. if k = 101 then ''101'' else ''7''), ra_time_of = (\<lambda>_. None),
     ra_sha = demo_sha, ra_guess_type = (\<lambda>_. None), ra_json_ok = (\<lambda>_. True), ra_collation = (\<lambda>_. 0) \<rparr>"

definition demo_bearer :: api_headers where
  "demo_bearer = [(''Authorization'', ''Bearer t'')]"

definition demo_ids_from :: uuid_supply where
  "demo_ids_from i = 100 + i"

definition demo_file_upload :: "(api_failure + dict) \<times> artifact_db \<times> storage" where
  "demo_file_upload = upload_artifact_endpoint (demo_artifact_env ''api-gateway'') demo_bearer ''7''
     \<lparr> uf_filename = Some ''a.txt'', uf_content_type = None, uf_chunks = [''hel'', ''lo''] \<rparr> None ''file''
     demo_ids_from 50 empty_artifact_db Map.empty"

theorem upload_download_witness:
  "\<exists>answer db' store'. demo_file_upload = (Inr answer, db', store')
    \<and> map_sum id ca_body (download_artifact_endpoint (demo_artifact_env ''api-gateway'') demo_bearer 51 ''101'' ''7'' db' store')
        = Inr ''hello''"
proof -
  obtain r db' store' where run: "demo_file_upload = (r, db', store')" by (rule prod_cases3)
  have "is_ok (fst demo_file_upload)" by code_simp
  then have "is_ok r" unfolding run by simp
  then obtain answer where r: "r = Inr answer" by (auto simp: is_ok_iff)
  have g: "guard_service (ra_auth (demo_artifact_env ''api-gateway'')) 51 ''api-gateway'' demo_bearer = Inr ()" by code_simp
  have i: "artifact_uuid (demo_artifact_env ''api-gateway'') ''101'' = Inr (demo_ids_from 1)"
    by (simp add: artifact_uuid_def demo_artifact_env_def demo_ids_from_def)
  have "map_sum id ca_body (download_artifact_endpoint (demo_artifact_env ''api-gateway'') demo_bearer 51 ''101'' ''7'' db' store')
      = Inr ''hello''"
    using upload_download [OF run [unfolded demo_file_upload_def r] g i] by (auto simp: upload_max_bytes_def)
  then show ?thesis using run r by blast
qed

end
