(* ===== verification/Artifact_Client.thy ===== *)
theory Artifact_Client
  imports Artifact_Content Runtime_Store Resilience
begin

text \<open>
  The agent runtime's client of the artifact service (\<open>infrastructure/artifact_client.py\<close>), and what the runtime does
  with it when an invocation completes (\<open>application/artifact_integration.py\<close>), with the bodies of the requests and
  the retries.  \<open>Agent_Loop\<close> has the same integration over an abstract port.  The HTTP library is a function on a state
  of the outside world; the texts of ids, SHA-256 and the text that the hash of the configuration is taken of are
  parameters, and so is the end of the name, whose dash is no character of the model.
\<close>

section \<open>Calls\<close>

datatype store_call =
    AC_Register dict | AC_Begin uuid dict | AC_Content uuid dict | AC_Finalize uuid dict | AC_Fail uuid dict

datatype artifact_http = AH_Timeout | AH_Connect | AH_Error | AH_Response int "json option"

datatype artifact_exc = ASE string bool | ASE_Uncaught

type_synonym 'w artifact_post = "store_call \<Rightarrow> 'w \<Rightarrow> artifact_http \<times> 'w"

definition ase_retryable :: "artifact_exc \<Rightarrow> bool" where
  "ase_retryable e = (case e of ASE _ b \<Rightarrow> b | ASE_Uncaught \<Rightarrow> False)"

definition artifact_retry :: retry_policy where
  "artifact_retry = mk_retry_policy 3 500000 5000000 True"

definition post_outcome :: "artifact_http \<Rightarrow> artifact_exc + json" where
  "post_outcome out = (case out of
       AH_Timeout \<Rightarrow> Inl (ASE ''TIMEOUT'' True)
     | AH_Connect \<Rightarrow> Inl (ASE ''CONNECTION_ERROR'' True)
     | AH_Error \<Rightarrow> Inl (ASE ''HTTP_ERROR'' False)
     | AH_Response code body \<Rightarrow>
         if code \<notin> {200, 202} then Inl (ASE (''HTTP_'' @ str_int code) (code \<in> {429, 502, 503, 504}))
         else (case body of None \<Rightarrow> Inl ASE_Uncaught | Some j \<Rightarrow> Inr j))"

definition post_attempt :: "'w artifact_post \<Rightarrow> store_call \<Rightarrow> 'w \<Rightarrow> (artifact_exc + json) \<times> 'w" where
  "post_attempt post call w = (case post call w of (out, w') \<Rightarrow> (post_outcome out, w'))"

definition client_post ::
  "(nat \<Rightarrow> int \<Rightarrow> int) \<Rightarrow> 'w artifact_post \<Rightarrow> store_call \<Rightarrow> 'w \<Rightarrow> (artifact_exc + json) \<times> 'w" where
  "client_post jit post call w =
    (case retry_with_backoff jit artifact_retry (post_attempt post call) ase_retryable w of (r, w', _) \<Rightarrow> (r, w'))"

section \<open>Bodies\<close>

definition when_truthy :: "string \<Rightarrow> json \<Rightarrow> dict" where
  "when_truthy k j = (if json_truthy j then [(k, j)] else [])"

definition when_some :: "string \<Rightarrow> json option \<Rightarrow> dict" where
  "when_some k v = (case v of None \<Rightarrow> [] | Some j \<Rightarrow> [(k, j)])"

definition client_register_body ::
  "execution_request \<Rightarrow> string \<Rightarrow> string \<Rightarrow> string \<Rightarrow> string \<Rightarrow> json \<Rightarrow> json \<Rightarrow> json \<Rightarrow> string \<Rightarrow> dict" where
  "client_register_body req name ty root mime provider model version config_hash =
    [(''workspace_id'', JUuid (er_workspace_id req)), (''task_id'', JUuid (er_task_id req)),
     (''run_id'', JUuid (er_run_id req)), (''step_id'', JUuid (er_step_id req)),
     (''agent_invocation_id'', JUuid (er_invocation_id req)), (''name'', JStr name), (''artifact_type'', JStr ty),
     (''root_type'', JStr root)]
    @ when_truthy ''mime_type'' (JStr mime) @ when_truthy ''model_provider'' provider
    @ when_truthy ''model_name_concrete'' model @ when_truthy ''model_version_concrete'' version
    @ when_some ''model_temperature'' (mp_temperature (er_model_profile req))
    @ when_some ''model_max_tokens'' (map_option JInt (mp_max_tokens (er_model_profile req)))
    @ when_truthy ''run_config_hash'' (JStr config_hash)
    @ [(''correlation_id'', JUuid (er_correlation_id req))]"

definition client_begin_body :: "uuid \<Rightarrow> string \<Rightarrow> uuid option \<Rightarrow> dict" where
  "client_begin_body ws ref corr =
     [(''workspace_id'', JUuid ws), (''storage_ref'', JStr ref)] @ when_some ''correlation_id'' (map_option JUuid corr)"

definition client_content_body :: "byte list \<Rightarrow> dict" where
  "client_content_body content = [(''content_base64'', JStr (b64encode content))]"

definition client_finalize_body :: "uuid \<Rightarrow> string \<Rightarrow> int \<Rightarrow> string \<Rightarrow> uuid option \<Rightarrow> dict" where
  "client_finalize_body ws checksum nbytes b64 corr =
     [(''workspace_id'', JUuid ws), (''checksum'', JStr checksum), (''size_bytes'', JInt nbytes)]
     @ when_truthy ''content_base64'' (JStr b64) @ when_some ''correlation_id'' (map_option JUuid corr)"

definition client_fail_body :: "uuid \<Rightarrow> string \<Rightarrow> uuid option \<Rightarrow> dict" where
  "client_fail_body ws reason corr =
     [(''workspace_id'', JUuid ws)] @ when_truthy ''failure_reason'' (JStr reason)
     @ when_some ''correlation_id'' (map_option JUuid corr)"

section \<open>Publishing the output of an invocation\<close>

record publish_env =
  pe_uuid_of :: "string \<Rightarrow> uuid option"
  pe_uuid_str :: "uuid \<Rightarrow> string"
  pe_sha :: "string \<Rightarrow> string"
  pe_config_hash :: "model_profile \<Rightarrow> string"
  pe_output_suffix :: string

definition output_name :: "publish_env \<Rightarrow> execution_request \<Rightarrow> string" where
  "output_name pe req =
    (if er_instruction req \<noteq> [] then take 80 (er_instruction req) @ pe_output_suffix pe
     else ''invocation-'' @ pe_uuid_str pe (er_invocation_id req) @ ''-output'')"

definition concrete_model :: "execution_request \<Rightarrow> dict \<Rightarrow> json" where
  "concrete_model req gw = jget ''model_concrete'' (JStr (mp_model_alias (er_model_profile req))) gw"

definition register_request :: "publish_env \<Rightarrow> execution_request \<Rightarrow> dict \<Rightarrow> dict" where
  "register_request pe req gw =
     client_register_body req (output_name pe req) ''model_output'' ''generated'' ''text/plain''
       (jget ''provider_name'' (JStr ''unknown'') gw) (concrete_model req gw) (concrete_model req gw)
       (pe_config_hash pe (er_model_profile req))"

definition registered_id :: "publish_env \<Rightarrow> json \<Rightarrow> uuid option" where
  "registered_id pe reg =
    (case reg of
       JObj d \<Rightarrow>
         (case map_of d ''artifact_id'' of
            Some (JUuid i) \<Rightarrow> Some i | Some (JStr s) \<Rightarrow> pe_uuid_of pe s | _ \<Rightarrow> None)
     | _ \<Rightarrow> None)"

definition output_key :: "publish_env \<Rightarrow> execution_request \<Rightarrow> uuid \<Rightarrow> string" where
  "output_key pe req aid =
     join_slash (run_key (pe_uuid_str pe (er_workspace_id req)) (pe_uuid_str pe (er_run_id req)) (pe_uuid_str pe aid))"

definition begin_request :: "publish_env \<Rightarrow> execution_request \<Rightarrow> uuid \<Rightarrow> dict" where
  "begin_request pe req aid =
     client_begin_body (er_workspace_id req) (output_key pe req aid) (Some (er_correlation_id req))"

definition output_content :: "string \<Rightarrow> string" where
  "output_content text = byte_text (utf8_encode text)"

definition finalize_request :: "publish_env \<Rightarrow> execution_request \<Rightarrow> string \<Rightarrow> dict" where
  "finalize_request pe req text =
     client_finalize_body (er_workspace_id req) (pe_sha pe (output_content text)) (int (length (utf8_encode text)))
       (b64encode (utf8_encode text)) (Some (er_correlation_id req))"

definition fail_request :: "execution_request \<Rightarrow> dict" where
  "fail_request req = client_fail_body (er_workspace_id req) ''Artifact creation failed during runtime integration''
     (Some (er_correlation_id req))"

definition give_up :: "(nat \<Rightarrow> int \<Rightarrow> int) \<Rightarrow> 'w artifact_post \<Rightarrow> execution_request \<Rightarrow> uuid \<Rightarrow> 'w \<Rightarrow> uuid option \<times> 'w" where
  "give_up jit post req aid w = (None, snd (client_post jit post (AC_Fail aid (fail_request req)) w))"

definition publish_output ::
  "(nat \<Rightarrow> int \<Rightarrow> int) \<Rightarrow> 'w artifact_post option \<Rightarrow> publish_env \<Rightarrow> execution_request \<Rightarrow> string \<Rightarrow> dict \<Rightarrow> 'w
   \<Rightarrow> uuid option \<times> 'w" where
  "publish_output jit service pe req text gw w =
    (case service of
       None \<Rightarrow> (None, w)
     | Some post \<Rightarrow>
         if is_blank text then (None, w)
         else (case client_post jit post (AC_Register (register_request pe req gw)) w of
             (Inl _, w1) \<Rightarrow> (None, w1)
           | (Inr reg, w1) \<Rightarrow>
               (case registered_id pe reg of
                  None \<Rightarrow> (None, w1)
                | Some aid \<Rightarrow>
                    (case client_post jit post (AC_Begin aid (begin_request pe req aid)) w1 of
                       (Inl _, w2) \<Rightarrow> give_up jit post req aid w2
                     | (Inr _, w2) \<Rightarrow>
                         (case client_post jit post (AC_Finalize aid (finalize_request pe req text)) w2 of
                            (Inl _, w3) \<Rightarrow> give_up jit post req aid w3
                          | (Inr _, w3) \<Rightarrow> (Some aid, w3))))))"

section \<open>What a call returns\<close>

lemma client_answered:
  assumes "post call w = (AH_Response 202 (Some j), w')"
  shows "client_post jit post call w = (Inr j, w')"
  using assms
  by (simp add: client_post_def retry_with_backoff_def retry_loop_stop post_attempt_def post_outcome_def retry_again_def)

lemma client_refused:
  assumes "post call w = (AH_Response c b, w')" "c \<notin> {200, 202, 429, 502, 503, 504}"
  shows "client_post jit post call w = (Inl (ASE (''HTTP_'' @ str_int c) False), w')"
  using assms
  by (simp add: client_post_def retry_with_backoff_def retry_loop_stop post_attempt_def post_outcome_def retry_again_def
      ase_retryable_def)

text \<open>A lost answer is asked for again, and a refusal of the second request is final.\<close>

lemma client_asks_again:
  assumes "post call w = (AH_Timeout, w1)" "post call w1 = (AH_Response c b, w2)" "c \<notin> {200, 202, 429, 502, 503, 504}"
  shows "client_post jit post call w = (Inl (ASE (''HTTP_'' @ str_int c) False), w2)"
proof -
  have "rp_max_attempts artifact_retry - 1 = Suc 1" by (simp add: artifact_retry_def mk_retry_policy_def)
  moreover have "retry_again ase_retryable (fst (post_attempt post call w))"
    using assms(1) by (simp add: post_attempt_def post_outcome_def retry_again_def ase_retryable_def)
  moreover have "\<not> retry_again ase_retryable (fst (post_attempt post call w1))"
    using assms(2,3) by (simp add: post_attempt_def post_outcome_def retry_again_def ase_retryable_def)
  ultimately show ?thesis
    using assms
    by (simp add: client_post_def retry_with_backoff_def retry_loop_again retry_loop_stop post_attempt_def post_outcome_def
        del: One_nat_def)
qed

end
