(* ===== verification/System_Artifacts.thy ===== *)
theory System_Artifacts
  imports Artifact_Client
begin

text \<open>
  The agent runtime and the artifact service together: the service is the outside world of the client, and its state is
  the database, the storage and the number of requests it has handled.  An answer may be lost after its request was
  handled, which the client takes for a timeout.
\<close>

section \<open>The service as the outside world\<close>

text \<open>The n-th request has its own ids and its own instant; all carry the same headers.\<close>

record artifact_server =
  as_env :: artifact_api_env
  as_headers :: api_headers
  as_ids :: "nat \<Rightarrow> uuid_supply"
  as_clock :: "nat \<Rightarrow> time"
  as_lost :: "nat \<Rightarrow> bool"

type_synonym artifact_world = "(artifact_db \<times> storage) \<times> nat"

definition artifact_http_of :: "api_failure + dict \<Rightarrow> artifact_http" where
  "artifact_http_of r = (case r of
       Inr d \<Rightarrow> AH_Response 202 (Some (JObj d))
     | Inl (AF_Http c) \<Rightarrow> AH_Response c (Some (JObj [(''detail'', JNull)]))
     | Inl AF_Raised \<Rightarrow> AH_Response 500 None)"

definition handle_artifact_call ::
  "artifact_server \<Rightarrow> nat \<Rightarrow> store_call \<Rightarrow> artifact_db \<times> storage \<Rightarrow> artifact_http \<times> artifact_db \<times> storage" where
  "handle_artifact_call sv n call s =
    (let env = as_env sv; hs = as_headers sv; u = as_ids sv n; now = as_clock sv n; path = ra_uuid_str env;
         db = fst s; store = snd s
     in case call of
          AC_Register d \<Rightarrow>
            (case register_route env hs (Some (JObj d)) u now db of (r, db') \<Rightarrow> (artifact_http_of r, db', store))
        | AC_Begin k d \<Rightarrow>
            (case begin_writing_route env hs (path k) (Some (JObj d)) u now db of
               (r, db') \<Rightarrow> (artifact_http_of r, db', store))
        | AC_Content k d \<Rightarrow>
            (case write_content_route env hs now (path k) (Some (JObj d)) db store of
               (r, store') \<Rightarrow> (artifact_http_of r, db, store'))
        | AC_Finalize k d \<Rightarrow>
            (case finalize_route env hs (path k) (Some (JObj d)) u now db store of
               (r, db', store') \<Rightarrow> (artifact_http_of r, db', store'))
        | AC_Fail k d \<Rightarrow>
            (case fail_route env hs (path k) (Some (JObj d)) u now db of
               (r, db') \<Rightarrow> (artifact_http_of r, db', store)))"

definition serve_artifact :: "artifact_server \<Rightarrow> artifact_world artifact_post" where
  "serve_artifact sv call w =
    (case w of (s, n) \<Rightarrow> (case handle_artifact_call sv n call s of
       (out, s') \<Rightarrow> (if as_lost sv n then AH_Timeout else out, (s', Suc n))))"

text \<open>The service takes the requests of the runtime and reads the ids it writes.\<close>

definition serves_runtime :: "artifact_server \<Rightarrow> bool" where
  "serves_runtime sv =
    ((\<forall>n. guard_service (ra_auth (as_env sv)) (as_clock sv n) ''agent-runtime'' (as_headers sv) = Inr ())
     \<and> (\<forall>k. ra_uuid_of (as_env sv) (ra_uuid_str (as_env sv) k) = Some k))"

lemma serves_guard: "serves_runtime sv \<Longrightarrow> guard_service (ra_auth (as_env sv)) (as_clock sv n) ''agent-runtime'' (as_headers sv) = Inr ()"
  and serves_path: "serves_runtime sv \<Longrightarrow> artifact_uuid (as_env sv) (ra_uuid_str (as_env sv) k) = Inr k"
  by (simp_all add: serves_runtime_def artifact_uuid_def)

section \<open>Reading the requests of the client\<close>

lemmas field_defs = body_given_def parse_body_def body_has_def jget_def art_uuid_field_def opt_uuid_field_def art_text_field_def
  text_or_null_def when_truthy_def when_some_def json_truthy_def

lemma begin_read:
  assumes "serves_runtime sv"
  shows "rbind (artifact_command (as_env sv) (as_headers sv) (as_clock sv n) (ra_uuid_str (as_env sv) k) [''storage_ref'']
      (Some (JObj (client_begin_body ws ref (Some c))))) (\<lambda>(aid, ws, corr, d).
    rbind (art_text_field ''storage_ref'' d) (\<lambda>ref. Inr (aid, ws, corr, opt_or ref []))) = Inr (k, ws, Some c, ref)"
  by (simp add: artifact_command_def serves_guard [OF assms] serves_path [OF assms] client_begin_body_def field_defs)

lemma finalize_read:
  assumes "serves_runtime sv" "bs \<noteq> []"
  shows "rbind (artifact_command (as_env sv) (as_headers sv) (as_clock sv n) (ra_uuid_str (as_env sv) k)
      [''checksum'', ''size_bytes''] (Some (JObj (client_finalize_body ws digest m (b64encode bs) (Some c)))))
      (\<lambda>(aid, ws, corr, d).
    rbind (art_int_field ''size_bytes'' d) (\<lambda>nbytes.
    rbind (inline_content d) (\<lambda>content.
    rbind (art_text_field ''checksum'' d) (\<lambda>checksum. Inr (aid, ws, corr, opt_or checksum [], nbytes, content)))))
    = Inr (k, ws, Some c, digest, m, Some (byte_text bs))"
  using assms(2)
  by (simp add: artifact_command_def serves_guard [OF assms(1)] serves_path [OF assms(1)] client_finalize_body_def
      field_defs art_int_field_def inline_content_def base64_content_def base64_roundtrip b64encode_Nil_iff)

lemma fail_read:
  assumes "serves_runtime sv" "reason \<noteq> []"
  shows "rbind (artifact_command (as_env sv) (as_headers sv) (as_clock sv n) (ra_uuid_str (as_env sv) k) []
      (Some (JObj (client_fail_body ws reason (Some c))))) (\<lambda>(aid, ws, corr, d).
    rbind (art_text_field ''failure_reason'' d) (\<lambda>reason.
    rbind (case jget ''partial_data'' (JBool False) d of JBool b \<Rightarrow> Inr b | _ \<Rightarrow> Inl AF_Raised) (\<lambda>part.
    Inr (aid, ws, corr, reason, part)))) = Inr (k, ws, Some c, Some reason, False)"
  using assms(2)
  by (simp add: artifact_command_def serves_guard [OF assms(1)] serves_path [OF assms(1)] client_fail_body_def field_defs)

text \<open>The command the service makes of a registration, and when it accepts one: the model is known by a concrete name,
  the hash of the configuration and the name are given, and the invocation has no artifact yet.\<close>

definition complete_request :: "publish_env \<Rightarrow> execution_request \<Rightarrow> dict \<Rightarrow> bool" where
  "complete_request pe req gw =
    (\<not> is_blank (output_name pe req) \<and> \<not> is_blank (pe_config_hash pe (er_model_profile req))
     \<and> (\<exists>p m. jget ''provider_name'' (JStr ''unknown'') gw = JStr p \<and> concrete_model req gw = JStr m
          \<and> \<not> is_blank p \<and> \<not> is_blank m \<and> \<not> is_model_alias m))"

definition runtime_command :: "publish_env \<Rightarrow> execution_request \<Rightarrow> dict \<Rightarrow> register_command \<Rightarrow> bool" where
  "runtime_command pe req gw cmd =
    (rg_workspace_id cmd = er_workspace_id req \<and> rg_agent_invocation_id cmd = Some (er_invocation_id req)
     \<and> rg_name cmd = output_name pe req \<and> rg_artifact_type cmd = ''model_output'' \<and> rg_root_type cmd = ''generated''
     \<and> rg_mime_type cmd = Some ''text/plain'' \<and> rg_tool_name cmd = None
     \<and> rg_run_config_hash cmd = Some (pe_config_hash pe (er_model_profile req))
     \<and> \<not> opt_blank (rg_model_provider cmd) \<and> \<not> opt_blank (rg_model_name cmd) \<and> \<not> opt_blank (rg_model_version cmd)
     \<and> alias_check ''model_name_concrete'' (rg_model_name cmd) = Inr ()
     \<and> alias_check ''model_version_concrete'' (rg_model_version cmd) = Inr ())"

lemma fields_present: "\<forall>k \<in> set ks. jget k JNull d \<noteq> JNull \<Longrightarrow> fields_given ks (JObj d) = Inr d"
proof (induction ks)
  case (Cons k ks)
  then obtain y where "map_of d k = Some y" "y \<noteq> JNull" by (cases "map_of d k") (auto simp: jget_def)
  with Cons show ?case by (simp add: body_has_def jget_def)
qed simp

lemma register_read:
  assumes "complete_request pe req gw"
  shows "\<exists>cmd. rbind (body_given register_fields (Some (JObj (register_request pe req gw)))) (register_command_of env) = Inr cmd
    \<and> runtime_command pe req gw cmd"
proof -
  obtain p m where pm: "jget ''provider_name'' (JStr ''unknown'') gw = JStr p" "concrete_model req gw = JStr m"
      "\<not> is_blank p" "\<not> is_blank m" "\<not> is_model_alias m"
    and name: "\<not> is_blank (output_name pe req)" "\<not> is_blank (pe_config_hash pe (er_model_profile req))"
    using assms by (auto simp: complete_request_def)
  have ne: "p \<noteq> []" "m \<noteq> []" "pe_config_hash pe (er_model_profile req) \<noteq> []" "output_name pe req \<noteq> []"
    using pm(3,4) name by auto
  define d where "d = register_request pe req gw"
  have d: "d = [(''workspace_id'', JUuid (er_workspace_id req)), (''task_id'', JUuid (er_task_id req)),
     (''run_id'', JUuid (er_run_id req)), (''step_id'', JUuid (er_step_id req)),
     (''agent_invocation_id'', JUuid (er_invocation_id req)), (''name'', JStr (output_name pe req)),
     (''artifact_type'', JStr ''model_output''), (''root_type'', JStr ''generated''), (''mime_type'', JStr ''text/plain''),
     (''model_provider'', JStr p), (''model_name_concrete'', JStr m), (''model_version_concrete'', JStr m)]
    @ when_some ''model_temperature'' (mp_temperature (er_model_profile req))
    @ when_some ''model_max_tokens'' (map_option JInt (mp_max_tokens (er_model_profile req)))
    @ [(''run_config_hash'', JStr (pe_config_hash pe (er_model_profile req))),
       (''correlation_id'', JUuid (er_correlation_id req))]"
    using ne by (simp add: d_def register_request_def client_register_body_def pm when_truthy_def json_truthy_def)
  have f: "jget ''workspace_id'' JNull d = JUuid (er_workspace_id req)" "jget ''task_id'' JNull d = JUuid (er_task_id req)"
      "jget ''run_id'' JNull d = JUuid (er_run_id req)" "jget ''step_id'' JNull d = JUuid (er_step_id req)"
      "jget ''agent_invocation_id'' JNull d = JUuid (er_invocation_id req)"
      "jget ''correlation_id'' JNull d = JUuid (er_correlation_id req)"
      "jget ''name'' JNull d = JStr (output_name pe req)" "jget ''artifact_type'' JNull d = JStr ''model_output''"
      "jget ''root_type'' x d = JStr ''generated''" "jget ''mime_type'' JNull d = JStr ''text/plain''"
      "jget ''model_provider'' JNull d = JStr p" "jget ''model_name_concrete'' JNull d = JStr m"
      "jget ''model_version_concrete'' JNull d = JStr m"
      "jget ''model_max_tokens'' JNull d = opt_number (mp_max_tokens (er_model_profile req))"
      "jget ''run_config_hash'' JNull d = JStr (pe_config_hash pe (er_model_profile req))"
      "jget ''system_prompt_hash'' JNull d = JNull" "jget ''tool_name'' JNull d = JNull"
      "jget ''tool_version'' JNull d = JNull" "jget ''tool_config_hash'' JNull d = JNull"
      "jget ''input_snapshot'' JNull d = JNull" "jget ''lineage_chain'' JNull d = JNull" for x
    unfolding d by (simp_all add: jget_def when_some_def opt_number_def split: option.splits)
  have given: "body_given register_fields (Some (JObj d)) = Inr d"
  proof -
    have "fields_given register_fields (JObj d) = Inr d"
      by (rule fields_present) (simp add: register_fields_def f)
    then show ?thesis by (simp add: body_given_def parse_body_def)
  qed
  have max_tokens: "number_field ''model_max_tokens'' d = Inr (mp_max_tokens (er_model_profile req))"
    by (simp add: number_field_def f opt_number_def split: option.split)
  note reading = register_command_of_def max_tokens f art_uuid_field_def opt_uuid_field_def art_text_field_def text_or_null_def
    list_field_def json_truthy_def
  obtain cmd where run: "register_command_of env d = Inr cmd"
    by (simp add: reading)
  then have "runtime_command pe req gw cmd"
    using pm name ne
    by (auto simp: reading runtime_command_def opt_blank_def alias_check_def split: option.splits)
  with run show ?thesis unfolding d_def [symmetric] given by simp
qed

section \<open>The life of an output\<close>

definition output_row :: "publish_env \<Rightarrow> execution_request \<Rightarrow> uuid \<Rightarrow> artifact_status \<Rightarrow> artifact_db \<Rightarrow> bool" where
  "output_row pe req aid st db =
    (\<exists>a p. art_get aid db = Some a \<and> a_id a = aid \<and> a_workspace_id a = er_workspace_id req
       \<and> a_agent_invocation_id a = Some (er_invocation_id req) \<and> a_status a = st \<and> a_mime_type a = Some ''text/plain''
       \<and> a_root_type a = Generated \<and> (st = A_WRITING \<or> st = A_READY \<longrightarrow> a_storage_ref a = Some (output_key pe req aid))
       \<and> provenance_get_by_artifact aid db = Some p \<and> missing_components p ''generated'' = [])"

definition fresh_output :: "uuid_supply \<Rightarrow> execution_request \<Rightarrow> artifact_db \<Rightarrow> bool" where
  "fresh_output u req db =
    ((\<forall>a \<in> set (ad_artifacts db). a_agent_invocation_id a \<noteq> Some (er_invocation_id req) \<and> a_id a \<noteq> u 1)
     \<and> (\<forall>p \<in> set (ad_provenance db). pv_artifact_id p \<noteq> u 1 \<and> pv_id p \<noteq> u 2))"

lemma art_get_fresh: "\<forall>a \<in> set (ad_artifacts db). a_id a \<noteq> k \<Longrightarrow> art_get k db = None"
  by (auto simp: art_get_def find_row_def find_None_iff)

lemma provenance_saved:
  assumes "\<forall>p \<in> set (ad_provenance db). pv_artifact_id p \<noteq> pv_artifact_id q \<and> pv_id p \<noteq> pv_id q"
  shows "provenance_get_by_artifact (pv_artifact_id q) (provenance_save q db) = Some q"
proof -
  have "pv_id q \<notin> pv_id ` set (ad_provenance db)" using assms by auto
  then have "ad_provenance (provenance_save q db) = ad_provenance db @ [q]"
    by (simp add: provenance_save_def upsert_fresh)
  moreover have "find (\<lambda>p. pv_artifact_id p = pv_artifact_id q) (ad_provenance db) = None"
    using assms by (simp add: find_None_iff)
  ultimately show ?thesis by (simp add: provenance_get_by_artifact_def find_append_None)
qed

lemma register_accepted:
  assumes "serves_runtime sv" "complete_request pe req gw" "fresh_output (as_ids sv n) req db"
  shows "\<exists>db' d. handle_artifact_call sv n (AC_Register (register_request pe req gw)) (db, store)
      = (AH_Response 202 (Some (JObj d)), db', store)
    \<and> registered_id pe (JObj d) = Some (as_ids sv n 1) \<and> output_row pe req (as_ids sv n 1) A_PENDING db'"
proof -
  let ?u = "as_ids sv n" and ?now = "as_clock sv n"
  obtain cmd where read: "rbind (body_given register_fields (Some (JObj (register_request pe req gw))))
        (register_command_of (as_env sv)) = Inr cmd" and cmd: "runtime_command pe req gw cmd"
    using register_read [OF assms(2)] by blast
  note c = cmd [unfolded runtime_command_def]
  define corr where "corr = opt_or (rg_correlation_id cmd) (?u 0)"
  define p where "p = command_provenance cmd (?u 2) (?u 1) corr"
  obtain a where a: "artifact_init (?u 1) ?now (rg_workspace_id cmd) (rg_task_id cmd) (rg_run_id cmd) (rg_name cmd)
        A_Model_Output Generated (rg_step_id cmd) (rg_agent_invocation_id cmd) (rg_mime_type cmd) = Inr a"
    and row: "a_id a = ?u 1" "a_workspace_id a = er_workspace_id req"
      "a_agent_invocation_id a = Some (er_invocation_id req)" "a_status a = A_PENDING"
      "a_mime_type a = Some ''text/plain''" "a_root_type a = Generated"
    using c assms(2) by (auto simp: artifact_init_def complete_request_def)
  have types: "artifact_type_of ''model_output'' = Some A_Model_Output" "root_type_of ''generated'' = Some Generated"
    by (simp_all add: artifact_type_of_def root_type_of_def)
  have prov: "provenance_init p = Inr p" "missing_components p ''generated'' = []" "pv_artifact_id p = ?u 1" "pv_id p = ?u 2"
    using c assms(2)
    by (simp_all add: p_def provenance_init_def command_provenance_def missing_components_def missing_tool_version_def
        opt_blank_def complete_request_def)
  have free: "\<not> invocation_taken a db" using assms(3) row by (auto simp: invocation_taken_def fresh_output_def list_ex_iff)
  obtain e where reg: "register_artifact cmd ?u ?now db = Inr (a, art_outbox_write e (provenance_save p (art_save a db)))"
    using c types a prov(1) free row unfolding register_artifact_def p_def
    by (simp add: corr_def [symmetric] Let_def)
  let ?db = "art_outbox_write e (provenance_save p (art_save a db))"
  have "provenance_get_by_artifact (?u 1) (provenance_save p (art_save a db)) = Some p"
    using provenance_saved [of "art_save a db" p] assms(3) prov by (simp add: fresh_output_def)
  then have out: "output_row pe req (?u 1) A_PENDING ?db"
    using row prov by (simp add: output_row_def art_repo.get_put)
  have "handle_artifact_call sv n (AC_Register (register_request pe req gw)) (db, store)
      = (AH_Response 202 (Some (JObj (artifact_accepted a))), ?db, store)"
    using read reg by (simp add: handle_artifact_call_def Let_def register_route_def serves_guard [OF assms(1)] artifact_http_of_def)
  with out show ?thesis using row by (intro exI conjI) (auto simp: registered_id_def artifact_accepted_def)
qed

text \<open>The second registration of the same invocation is refused by the unique index.\<close>

lemma register_refused:
  assumes "serves_runtime sv" "complete_request pe req gw" "output_row pe req aid st db" "aid \<noteq> as_ids sv n 1"
  shows "handle_artifact_call sv n (AC_Register (register_request pe req gw)) (db, store)
      = (AH_Response 409 (Some (JObj [(''detail'', JNull)])), db, store)"
proof -
  obtain cmd where read: "rbind (body_given register_fields (Some (JObj (register_request pe req gw))))
        (register_command_of (as_env sv)) = Inr cmd" and cmd: "runtime_command pe req gw cmd"
    using register_read [OF assms(2)] by blast
  note c = cmd [unfolded runtime_command_def]
  obtain b where b: "b \<in> set (ad_artifacts db)" "a_id b = aid" "a_agent_invocation_id b = Some (er_invocation_id req)"
    using assms(3) by (auto simp: output_row_def art_get_def dest: find_row_key)
  have types: "artifact_type_of ''model_output'' = Some A_Model_Output" "root_type_of ''generated'' = Some Generated"
    by (simp_all add: artifact_type_of_def root_type_of_def)
  have "register_artifact cmd (as_ids sv n) (as_clock sv n) db = Inl (Art_Integrity ''agent_invocation_id'')"
    using c types assms(2,4) b
    by (auto simp: register_artifact_def Let_def artifact_init_def complete_request_def provenance_init_def
        command_provenance_def invocation_taken_def list_ex_iff)
  with read show ?thesis
    by (simp add: handle_artifact_call_def Let_def register_route_def serves_guard [OF assms(1)] artifact_http_of_def
        unique_failure_def)
qed

lemma handle_begin:
  assumes "serves_runtime sv"
  shows "handle_artifact_call sv n (AC_Begin aid (begin_request pe req aid)) (db, store) =
    (case begin_writing_endpoint aid (er_workspace_id req) (output_key pe req aid) (Some (er_correlation_id req))
            (as_ids sv n) (as_clock sv n) db of
       Inl e \<Rightarrow> (artifact_http_of (Inl (artifact_failure e)), db, store)
     | Inr (a, db') \<Rightarrow> (artifact_http_of (Inr (artifact_accepted a)), db', store))"
  by (simp add: handle_artifact_call_def begin_writing_route_def begin_request_def begin_read [OF assms]
      split: sum.split prod.split)

lemma handle_finalize:
  assumes "serves_runtime sv" "text \<noteq> []"
  shows "handle_artifact_call sv n (AC_Finalize aid (finalize_request pe req text)) (db, store) =
    (case finalize_artifact_endpoint aid (er_workspace_id req) (pe_sha pe (output_content text))
            (int (length (utf8_encode text))) (Some (output_content text)) (Some (er_correlation_id req))
            (as_ids sv n) (as_clock sv n) db store of
       (Inl e, db', store') \<Rightarrow> (artifact_http_of (Inl (artifact_failure e)), db', store')
     | (Inr a, db', store') \<Rightarrow>
         (artifact_http_of (Inr (artifact_accepted a @ [(''checksum'', opt_str (a_checksum a))])), db', store'))"
proof -
  have "utf8_encode text \<noteq> []" using assms(2) utf8_roundtrip [of "text"] by auto
  then show ?thesis
    by (simp add: handle_artifact_call_def finalize_route_def finalize_request_def finalize_read [OF assms(1)]
        output_content_def split: sum.split prod.split)
qed

lemma handle_fail:
  assumes "serves_runtime sv"
  shows "handle_artifact_call sv n (AC_Fail aid (fail_request req)) (db, store) =
    (case fail_artifact_endpoint aid (er_workspace_id req) (Some ''Artifact creation failed during runtime integration'')
            False (Some (er_correlation_id req)) (as_ids sv n) (as_clock sv n) db of
       Inl e \<Rightarrow> (artifact_http_of (Inl (artifact_failure e)), db, store)
     | Inr (a, db') \<Rightarrow> (artifact_http_of (Inr (artifact_accepted a)), db', store))"
  by (simp add: handle_artifact_call_def fail_route_def fail_request_def fail_read [OF assms] split: sum.split prod.split)

lemma output_checked: "output_row pe req aid st db \<Longrightarrow> check_artifact_workspace aid (er_workspace_id req) db = Inr ()"
  by (auto simp: output_row_def check_artifact_workspace_def)

lemma first_not_space: "\<not> py_space c \<Longrightarrow> \<not> is_blank (c # s)"
  by (simp add: is_blank_iff)

lemma output_key_shape: "output_key pe req aid \<noteq> []" "\<not> is_blank (output_key pe req aid)"
    "\<not> starts_with inline_prefix (output_key pe req aid)"
  by (simp_all add: output_key_def run_key_def starts_with_def inline_prefix_def first_not_space py_space_def)

lemma begin_accepted:
  assumes "serves_runtime sv" "output_row pe req aid A_PENDING db"
  shows "\<exists>db' d. handle_artifact_call sv n (AC_Begin aid (begin_request pe req aid)) (db, store)
      = (AH_Response 202 (Some (JObj d)), db', store) \<and> output_row pe req aid A_WRITING db'"
proof -
  obtain a p where a: "art_get aid db = Some a" "a_id a = aid" "a_workspace_id a = er_workspace_id req"
      "a_agent_invocation_id a = Some (er_invocation_id req)" "a_status a = A_PENDING" "a_mime_type a = Some ''text/plain''"
      "a_root_type a = Generated" "provenance_get_by_artifact aid db = Some p" "missing_components p ''generated'' = []"
    using assms(2) by (auto simp: output_row_def)
  show ?thesis
    using a output_key_shape(2) [of pe req aid]
    by (simp add: handle_begin [OF assms(1)] begin_writing_endpoint_def output_checked [OF assms(2)] begin_writing_def
        artifact_begin_writing_def artifact_transition_def artifact_terminal_def artifact_http_of_def output_row_def
        art_repo.get_put)
qed

lemma begin_refused:
  assumes "serves_runtime sv" "output_row pe req aid A_WRITING db"
  shows "handle_artifact_call sv n (AC_Begin aid (begin_request pe req aid)) (db, store)
      = (AH_Response 409 (Some (JObj [(''detail'', JNull)])), db, store)"
proof -
  obtain a where "art_get aid db = Some a" "a_status a = A_WRITING" using assms(2) by (auto simp: output_row_def)
  then show ?thesis
    using output_key_shape(2) [of pe req aid]
    by (simp add: handle_begin [OF assms(1)] begin_writing_endpoint_def output_checked [OF assms(2)] begin_writing_def
        artifact_begin_writing_def artifact_transition_def artifact_terminal_def artifact_http_of_def artifact_failure_def)
qed

definition digest_ok :: "publish_env \<Rightarrow> string \<Rightarrow> bool" where
  "digest_ok pe text = (length (pe_sha pe (output_content text)) = 64 \<and> int16_ok (pe_sha pe (output_content text)))"

lemma finalize_accepted:
  assumes "serves_runtime sv" "text \<noteq> []" "digest_ok pe text" "output_row pe req aid A_WRITING db"
  shows "\<exists>db' d. handle_artifact_call sv n (AC_Finalize aid (finalize_request pe req text)) (db, store)
      = (AH_Response 202 (Some (JObj d)), db', store(output_key pe req aid \<mapsto> output_content text))
    \<and> output_row pe req aid A_READY db'"
proof -
  obtain a p where a: "art_get aid db = Some a" "a_id a = aid" "a_workspace_id a = er_workspace_id req"
      "a_agent_invocation_id a = Some (er_invocation_id req)" "a_status a = A_WRITING" "a_mime_type a = Some ''text/plain''"
      "a_root_type a = Generated" "a_storage_ref a = Some (output_key pe req aid)"
      "provenance_get_by_artifact aid db = Some p" "missing_components p ''generated'' = []"
    using assms(4) by (auto simp: output_row_def)
  show ?thesis
    using a assms(3) output_key_shape(1) [of pe req aid]
    by (simp add: handle_finalize [OF assms(1,2)] finalize_artifact_endpoint_def output_checked [OF assms(4)]
        finalize_artifact_def artifact_finalize_def artifact_transition_def artifact_terminal_def validate_complete_def
        artifact_http_of_def output_row_def art_repo.get_put digest_ok_def write_inline_content_def str_truthy_def Let_def)
qed

lemma finalize_refused:
  assumes "serves_runtime sv" "text \<noteq> []" "output_row pe req aid A_READY db"
  shows "handle_artifact_call sv n (AC_Finalize aid (finalize_request pe req text)) (db, store)
      = (AH_Response 400 (Some (JObj [(''detail'', JNull)])), db, store(output_key pe req aid \<mapsto> output_content text))"
proof -
  obtain a where "art_get aid db = Some a" "a_status a = A_READY" "a_storage_ref a = Some (output_key pe req aid)"
    using assms(3) by (auto simp: output_row_def)
  then show ?thesis
    using output_key_shape(1) [of pe req aid]
    by (simp add: handle_finalize [OF assms(1,2)] finalize_artifact_endpoint_def output_checked [OF assms(3)]
        finalize_artifact_def artifact_http_of_def artifact_failure_def write_inline_content_def str_truthy_def Let_def)
qed

lemma fail_accepted:
  assumes "serves_runtime sv" "output_row pe req aid A_WRITING db"
  shows "\<exists>db' d. handle_artifact_call sv n (AC_Fail aid (fail_request req)) (db, store)
      = (AH_Response 202 (Some (JObj d)), db', store) \<and> output_row pe req aid A_FAILED db'"
proof -
  obtain a p where a: "art_get aid db = Some a" "a_id a = aid" "a_workspace_id a = er_workspace_id req"
      "a_agent_invocation_id a = Some (er_invocation_id req)" "a_status a = A_WRITING" "a_mime_type a = Some ''text/plain''"
      "a_root_type a = Generated" "provenance_get_by_artifact aid db = Some p" "missing_components p ''generated'' = []"
    using assms(2) by (auto simp: output_row_def)
  then show ?thesis
    by (simp add: handle_fail [OF assms(1)] fail_artifact_endpoint_def output_checked [OF assms(2)] fail_artifact_def
        artifact_fail_def artifact_transition_def artifact_terminal_def artifact_http_of_def output_row_def
        art_repo.get_put)
qed

lemma fail_refused:
  assumes "serves_runtime sv" "output_row pe req aid A_READY db"
  shows "handle_artifact_call sv n (AC_Fail aid (fail_request req)) (db, store)
      = (AH_Response 409 (Some (JObj [(''detail'', JNull)])), db, store)"
proof -
  obtain a where "art_get aid db = Some a" "a_status a = A_READY" using assms(2) by (auto simp: output_row_def)
  then show ?thesis
    by (simp add: handle_fail [OF assms(1)] fail_artifact_endpoint_def output_checked [OF assms(2)] fail_artifact_def
        artifact_fail_def artifact_transition_def artifact_terminal_def artifact_http_of_def artifact_failure_def)
qed

section \<open>Publishing over a quiet and over a lossy network\<close>

lemma served:
  assumes "handle_artifact_call sv n call s = (out, s')"
  shows "serve_artifact sv call (s, n) = (if as_lost sv n then AH_Timeout else out, (s', Suc n))"
  using assms by (simp add: serve_artifact_def)

lemma output_downloaded:
  assumes "output_row pe req aid A_READY db" "store (output_key pe req aid) = Some content"
    and "guard_service (ra_auth env) now ''api-gateway'' hs = Inr ()"
    and "artifact_uuid env artifact = Inr aid" "artifact_uuid env ws = Inr (er_workspace_id req)"
  shows "map_sum id ca_body (download_artifact_endpoint env hs now artifact ws db store) = Inr content"
proof -
  obtain a where a: "art_get aid db = Some a" "a_workspace_id a = er_workspace_id req" "a_status a = A_READY"
      "a_storage_ref a = Some (output_key pe req aid)"
    using assms(1) by (auto simp: output_row_def)
  then show ?thesis
    using ready_row [OF a(1,2,3) assms(3,4,5)] assms(2) output_key_shape [of pe req aid]
    by (simp add: download_artifact_endpoint_def need_def str_truthy_def)
qed


text \<open>The three answers of a publication, one lost at a time.\<close>

lemma lost_registration:
  assumes "serves_runtime sv" "as_lost sv = (\<lambda>n. n = 0)" "complete_request pe req gw"
    and "fresh_output (as_ids sv 0) req db" "\<not> is_blank text" "as_ids sv 1 1 \<noteq> as_ids sv 0 1"
  shows "\<exists>db'. publish_output jit (Some (serve_artifact sv)) pe req text gw ((db, store), 0) = (None, ((db', store), 2))
    \<and> output_row pe req (as_ids sv 0 1) A_PENDING db'"
proof -
  let ?post = "serve_artifact sv"
  have lost: "as_lost sv 0 = True" "as_lost sv (Suc 0) = False" using assms(2) by simp_all
  obtain db1 d where s: "handle_artifact_call sv 0 (AC_Register (register_request pe req gw)) (db, store)
      = (AH_Response 202 (Some (JObj d)), db1, store)" "output_row pe req (as_ids sv 0 1) A_PENDING db1"
    using register_accepted [OF assms(1,3,4)] by blast
  have again: "handle_artifact_call sv (Suc 0) (AC_Register (register_request pe req gw)) (db1, store)
      = (AH_Response 409 (Some (JObj [(''detail'', JNull)])), db1, store)"
    using register_refused [OF assms(1,3) s(2)] assms(6) by simp
  note run = client_asks_again [of ?post _ _ _ _ _ _ jit, OF served [OF s(1), simplified lost if_True] served [OF again, simplified lost if_False]]
  show ?thesis using run s(2) assms(5) by (simp add: publish_output_def numeral_2_eq_2)
qed

lemma lost_beginning:
  assumes "serves_runtime sv" "as_lost sv = (\<lambda>n. n = 1)" "complete_request pe req gw"
    and "fresh_output (as_ids sv 0) req db" "\<not> is_blank text"
  shows "\<exists>db'. publish_output jit (Some (serve_artifact sv)) pe req text gw ((db, store), 0) = (None, ((db', store), 4))
    \<and> output_row pe req (as_ids sv 0 1) A_FAILED db'"
proof -
  let ?post = "serve_artifact sv" and ?aid = "as_ids sv 0 1" and ?n3 = "Suc (Suc (Suc 0))"
  have lost: "as_lost sv 0 = False" "as_lost sv (Suc 0) = True" "as_lost sv (Suc (Suc 0)) = False" "as_lost sv ?n3 = False"
    using assms(2) by simp_all
  obtain db1 d1 where s1: "handle_artifact_call sv 0 (AC_Register (register_request pe req gw)) (db, store)
      = (AH_Response 202 (Some (JObj d1)), db1, store)" "registered_id pe (JObj d1) = Some ?aid" "output_row pe req ?aid A_PENDING db1"
    using register_accepted [OF assms(1,3,4)] by blast
  obtain db2 d2 where s2: "handle_artifact_call sv (Suc 0) (AC_Begin ?aid (begin_request pe req ?aid)) (db1, store)
      = (AH_Response 202 (Some (JObj d2)), db2, store)" "output_row pe req ?aid A_WRITING db2"
    using begin_accepted [OF assms(1) s1(3)] by blast
  note again = begin_refused [OF assms(1) s2(2), of "Suc (Suc 0)" store]
  obtain db3 d3 where s3: "handle_artifact_call sv ?n3 (AC_Fail ?aid (fail_request req)) (db2, store)
      = (AH_Response 202 (Some (JObj d3)), db3, store)" "output_row pe req ?aid A_FAILED db3"
    using fail_accepted [OF assms(1) s2(2)] by blast
  note run = client_answered [of ?post _ _ _ _ jit, OF served [OF s1(1), simplified lost if_False]]
    client_asks_again [of ?post _ _ _ _ _ _ jit, OF served [OF s2(1), simplified lost if_True] served [OF again, simplified lost if_False]]
    client_answered [of ?post _ _ _ _ jit, OF served [OF s3(1), simplified lost if_False]]
  show ?thesis using run s1(2) s3(2) assms(5) by (simp add: publish_output_def give_up_def eval_nat_numeral)
qed

lemma lost_finalization:
  assumes "serves_runtime sv" "as_lost sv = (\<lambda>n. n = 2)" "complete_request pe req gw"
    and "fresh_output (as_ids sv 0) req db" "\<not> is_blank text" "digest_ok pe text"
  shows "\<exists>db'. publish_output jit (Some (serve_artifact sv)) pe req text gw ((db, store), 0)
      = (None, ((db', store(output_key pe req (as_ids sv 0 1) \<mapsto> output_content text)), 5))
    \<and> output_row pe req (as_ids sv 0 1) A_READY db'"
proof -
  let ?post = "serve_artifact sv" and ?aid = "as_ids sv 0 1" and ?n2 = "Suc (Suc 0)" and ?n3 = "Suc (Suc (Suc 0))"
  let ?n4 = "Suc ?n3" and ?store = "store(output_key pe req (as_ids sv 0 1) \<mapsto> output_content text)"
  have lost: "as_lost sv 0 = False" "as_lost sv (Suc 0) = False" "as_lost sv ?n2 = True" "as_lost sv ?n3 = False" "as_lost sv ?n4 = False"
    using assms(2) by simp_all
  have ne: "text \<noteq> []" using assms(5) by auto
  obtain db1 d1 where s1: "handle_artifact_call sv 0 (AC_Register (register_request pe req gw)) (db, store)
      = (AH_Response 202 (Some (JObj d1)), db1, store)" "registered_id pe (JObj d1) = Some ?aid" "output_row pe req ?aid A_PENDING db1"
    using register_accepted [OF assms(1,3,4)] by blast
  obtain db2 d2 where s2: "handle_artifact_call sv (Suc 0) (AC_Begin ?aid (begin_request pe req ?aid)) (db1, store)
      = (AH_Response 202 (Some (JObj d2)), db2, store)" "output_row pe req ?aid A_WRITING db2"
    using begin_accepted [OF assms(1) s1(3)] by blast
  obtain db3 d3 where s3: "handle_artifact_call sv ?n2 (AC_Finalize ?aid (finalize_request pe req text)) (db2, store)
      = (AH_Response 202 (Some (JObj d3)), db3, ?store)" "output_row pe req ?aid A_READY db3"
    using finalize_accepted [OF assms(1) ne assms(6) s2(2)] by blast
  have again: "handle_artifact_call sv ?n3 (AC_Finalize ?aid (finalize_request pe req text)) (db3, ?store)
      = (AH_Response 400 (Some (JObj [(''detail'', JNull)])), db3, ?store)"
    using finalize_refused [OF assms(1) ne s3(2), of ?n3 ?store] by simp
  note late = fail_refused [OF assms(1) s3(2), of ?n4 ?store]
  note run = client_answered [of ?post _ _ _ _ jit, OF served [OF s1(1), simplified lost if_False]]
    client_answered [of ?post _ _ _ _ jit, OF served [OF s2(1), simplified lost if_False]]
    client_asks_again [of ?post _ _ _ _ _ _ jit, OF served [OF s3(1), simplified lost if_True] served [OF again, simplified lost if_False]]
    client_refused [of ?post _ _ _ _ _ jit, OF served [OF late, simplified lost if_False]]
  show ?thesis using run s1(2) s3(2) assms(5) by (simp add: publish_output_def give_up_def eval_nat_numeral)
qed

text \<open>C18. One lost answer loses the output, although the service has done what was asked: the client asks again and takes
  the refusal of the second request for a failure.  The runtime then reports no artifact; if the answer to the
  registration was lost the artifact stays pending, if it was the beginning of the writing a good artifact is marked
  failed, and if it was the last one the artifact is ready and complete, but nobody is told of it.\<close>

theorem lost_answer_loses_artifact:
  assumes "serves_runtime sv" "k < 3" "as_lost sv = (\<lambda>n. n = k)" "complete_request pe req gw"
    and "fresh_output (as_ids sv 0) req db" "\<not> is_blank text" "digest_ok pe text" "as_ids sv 1 1 \<noteq> as_ids sv 0 1"
  shows "\<exists>db' store' n. publish_output jit (Some (serve_artifact sv)) pe req text gw ((db, store), 0)
      = (None, ((db', store'), n))
    \<and> output_row pe req (as_ids sv 0 1) ([A_PENDING, A_FAILED, A_READY] ! k) db'
    \<and> (k = 2 \<longrightarrow> store' (output_key pe req (as_ids sv 0 1)) = Some (output_content text))"
proof -
  consider "k = 0" | "k = 1" | "k = 2" using assms(2) by linarith
  then show ?thesis
  proof cases
    case 1
    then show ?thesis using lost_registration [OF assms(1) _ assms(4,5,6,8)] assms(3) by fastforce
  next
    case 2
    then show ?thesis using lost_beginning [OF assms(1) _ assms(4,5,6)] assms(3) by fastforce
  next
    case 3
    then show ?thesis using lost_finalization [OF assms(1) _ assms(4,5,6,7)] assms(3) by fastforce
  qed
qed

section \<open>Witnesses\<close>

text \<open>Tokens that name their caller, and ids written in ones.\<close>

definition demo_server_env :: artifact_api_env where
  "demo_server_env = (demo_artifact_env [])\<lparr>
     ra_auth := (demo_artifact_auth [])\<lparr>aa_jwt := \<lparr> jl_encode = (\<lambda>_ _. []),
       jl_decode = (\<lambda>token _ _ _ _. Inr [(''sub'', JStr token), (''aud'', JStr ''artifact-service''), (''iss'', JStr ''i''),
         (''iat'', JInt 0), (''exp'', JInt 60), (''service_name'', JStr token)]) \<rparr>\<rparr>,
     ra_uuid_of := (\<lambda>s. Some (length s)), ra_uuid_str := (\<lambda>k. replicate k (CHR ''u'')) \<rparr>"

definition demo_server :: "(nat \<Rightarrow> bool) \<Rightarrow> artifact_server" where
  "demo_server lost = \<lparr> as_env = demo_server_env, as_headers = [(''Authorization'', ''Bearer agent-runtime'')],
     as_ids = (\<lambda>n i. 10 * Suc n + i), as_clock = (\<lambda>_. 50), as_lost = lost \<rparr>"

definition demo_publish :: publish_env where
  "demo_publish = \<lparr> pe_uuid_of = (\<lambda>s. Some (length s)), pe_uuid_str = (\<lambda>k. replicate k (CHR ''u'')),
     pe_sha = demo_sha, pe_config_hash = (\<lambda>_. ''c''), pe_output_suffix = '' - output'' \<rparr>"

definition demo_output_request :: execution_request where
  "demo_output_request = \<lparr> er_invocation_id = 1, er_workspace_id = 2, er_task_id = 3, er_run_id = 4, er_step_id = 5,
     er_correlation_id = 6, er_agent_id = ''a'', er_model_profile = \<lparr> mp_model_alias = ''m'', mp_max_tokens = None,
     mp_temperature = None \<rparr>, er_instruction = ''do'', er_input_payload = [], er_timeout_ms = 0 \<rparr>"

lemma demo_guards:
  "guard_service (ra_auth demo_server_env) 50 ''agent-runtime'' [(''Authorization'', ''Bearer agent-runtime'')] = Inr ()"
  "guard_service (ra_auth demo_server_env) 50 ''api-gateway'' [(''Authorization'', ''Bearer api-gateway'')] = Inr ()"
  by code_simp+

lemma demo_served: "serves_runtime (demo_server lost)"
  using demo_guards(1) by (simp add: serves_runtime_def demo_server_def demo_server_env_def)

lemma demo_digest: "int16_ok (replicate 64 (CHR ''a''))" "\<not> is_model_alias ''m''"
  by code_simp+

lemma demo_output:
  "complete_request demo_publish demo_output_request []" "fresh_output u demo_output_request empty_artifact_db"
  "digest_ok demo_publish ''hi''" "\<not> is_blank ''hi''"
  "as_ids (demo_server lost) 1 1 \<noteq> as_ids (demo_server lost) 0 1"
  by (simp_all add: complete_request_def output_name_def demo_publish_def demo_output_request_def concrete_model_def
      jget_def is_blank_iff py_space_def fresh_output_def empty_artifact_db_def digest_ok_def demo_sha_def demo_server_def
      demo_digest)


theorem lost_answer_loses_artifact_witness:
  "\<exists>db' store' n. publish_output (\<lambda>_ d. d) (Some (serve_artifact (demo_server (\<lambda>n. n = 2)))) demo_publish demo_output_request
      ''hi'' [] ((empty_artifact_db, Map.empty), 0) = (None, ((db', store'), n))
    \<and> output_row demo_publish demo_output_request 11 A_READY db'"
proof -
  have ids: "as_ids (demo_server (\<lambda>n. n = 2)) 0 1 = 11" "as_lost (demo_server (\<lambda>n. n = 2)) = (\<lambda>n. n = 2)"
    by (simp_all add: demo_server_def)
  from lost_answer_loses_artifact [OF demo_served _ ids(2) demo_output(1,2,4,3,5)] show ?thesis
    unfolding ids by fastforce
qed

end
