(* ===== verification/Spec2Isabelle.thy ===== *)
theory Spec2Isabelle
  imports Orch_Execution Orch_Recovery Orch_Approvals Runtime_Client Outbox_Relay
    Policy Gateway Rate_Limit Artifact_Service Exec_Properties
    System_Execution System_Access System_Approvals Secret_Properties
    Model_Client Integrations System_Sandboxes Terminal_Routes Event_Stream Task_Routes Artifact_Notes System_Artifacts
begin

text \<open>
  A verification library for keviq-core, a platform that runs AI agents on behalf of the users of a workspace.

  \<^bold>\<open>The program.\<close>  Services under \<open>apps/\<close>, each with its own database, talk over HTTP and through
  outbox events.  A user's request enters at the API gateway (\<open>api-gateway\<close>), which authenticates it, asks the
  workspace service (\<open>workspace-service\<close>) for the caller's role and the policy service (\<open>policy-service\<close>) for a
  decision, and forwards it.  The orchestrator (\<open>orchestrator\<close>) keeps tasks, runs, steps and approval requests
  and has each step executed by the agent runtime (\<open>agent-runtime\<close>), which loops between a model and tools; a
  tool runs in a sandbox of the execution service (\<open>execution-service\<close>).  What a run produces are artifacts with
  provenance and lineage (\<open>artifact-service\<close>).  Every service writes its events into an outbox table, which
  a relay delivers to the event store (\<open>event-store\<close>).

  \<^bold>\<open>Theories.\<close>

  \<^item> \<open>Prelude\<close>: the vocabulary (ids, times, JSON values, \<open>str\<close> operations, results as sums, tables as lists with
    \<open>find_row\<close> and \<open>upsert\<close>) and the generic lemmas.  \<open>Interfaces\<close>: the locales \<open>state_machine\<close>, \<open>managed_entity\<close>
    (what an entity promises about its status), \<open>table\<close> (what a repository promises) and \<open>sweeper\<close> (what a recovery
    transaction promises to its loop), interpreted in the theories that provide them.  Two more stand beside their
    clients: \<open>event_sink\<close> (\<open>Outbox_Relay\<close>) and \<open>resume_invariant\<close> (\<open>Agent_Decisions\<close>).
  \<^item> Orchestrator: \<open>Task\<close>, \<open>Run\<close>, \<open>Step\<close>, \<open>Approval\<close> (\<open>domain/\<close>), \<open>Orch_Events\<close> (\<open>application/events.py\<close>),
    \<open>Orch_Store\<close> (\<open>infrastructure/db\<close>, unit of work), \<open>Orch_Handlers\<close> (commands), \<open>Orch_Approvals\<close>
    (approval handlers), \<open>Orch_Execution\<close> (\<open>execution_loop.py\<close>), \<open>Orch_Recovery\<close> (the sweep), \<open>Runtime_Client\<close>
    (\<open>runtime_client.py\<close>), \<open>Resilience\<close> (\<open>packages/resilience\<close>).
  \<^item> Delivery: \<open>Outbox_Relay\<close> (\<open>infrastructure/outbox/relay.py\<close>) and \<open>Event_Ingest\<close> (the event store's write side).
  \<^item> Access: \<open>Gateway\<close> (the whole proxy route), \<open>Rate_Limit\<close>, \<open>Policy\<close>, \<open>Workspace\<close> and \<open>Workspace_Properties\<close>.
  \<^item> Artifacts: \<open>Artifact\<close> (entity, provenance), \<open>Lineage\<close> (edges, cycle check, ancestor query),
    \<open>Artifact_Service\<close> (services and command endpoints).
  \<^item> Execution service: \<open>Sandbox\<close>, \<open>Terminal\<close> (entities), \<open>Exec_Store\<close> (tables, events), \<open>Sandbox_Service\<close>,
    \<open>Tool_Execution\<close>, \<open>Terminal_Service\<close> (services), \<open>Exec_System\<close> (all of it as one step relation),
    \<open>Exec_Properties\<close>.
  \<^item> Agent runtime: \<open>Invocation\<close> (entity), \<open>Tool_Policy\<close> (policy and guardrails), \<open>Runtime_Store\<close> (contracts,
    ports, store), \<open>Agent_Loop\<close> (the handler and its loop), \<open>Agent_Resume\<close> (decisions of a reviewer),
    \<open>Agent_Calls\<close>, \<open>Agent_Properties\<close>, \<open>Agent_Decisions\<close> (what they guarantee).
  \<^item> \<open>System_Execution\<close> joins the orchestrator, its HTTP client, the endpoint of the runtime and the runtime.

  \<^bold>\<open>How the model corresponds to the code.\<close>  A dataclass or entity is a record, an enum a datatype, a method that
  mutates an entity a function that returns it changed, and an exception is the left side of a sum: every raise and
  early return is a branch.  The name of a definition is the name in the source, with a prefix or a suffix where two
  services use the same one.  A repository is a function on a record of tables; a table is a list of rows in the order
  of their insertion, \<open>ORDER BY\<close> a stable sort, \<open>LIMIT\<close> a \<open>take\<close>, and constraints are checked where a row is written.
  A unit of work that commits returns the new database, one that raises keeps the old one.  \<open>uuid4()\<close> draws from a
  supply \<open>u 0, u 1, ...\<close>, \<open>datetime.now\<close> is an argument, in microseconds.  Loops of a fixed bound are recursion on
  the bound the code states: eight turns of a tool loop (\<open>max_tool_turns\<close>), the attempts of a retry, the hundred
  generations of the ancestor query (enough for every lineage of at most a hundred edges, by
  \<open>ancestors_complete\<close>).  Loops over rows recurse on the list; the breadth-first search of the cycle check is a
  \<open>function\<close> with its termination proof, so no definition takes fuel that the code does not have.
  Services outside a component (the network, the model, the sandbox backend, the storage of contents, \<open>json.loads\<close>)
  are parameters.  Concurrency is a step relation whose steps are transactions, taken to be serialized.

  \<^bold>\<open>What the lemmas show.\<close>  Each entity's methods are exactly the moves of its transition table (interpretations of
  \<open>state_machine\<close>), and its invariants survive them.  For the orchestrator: what each command and each outcome of an
  execution stores, that a late result changes nothing, that a cancel reaches every run and step, and that the sweep
  converges.  For delivery: each event arrives exactly once over a network that loses and repeats.  For access: nothing
  reaches a backend without the role and the decision it needs, only managers change a workspace, and the limits of
  the rate limiter hold.  For the execution service: a sandbox is a lock held by at most one tool, and what is recorded
  of each tool.  For the runtime: no gated tool runs before a human agreed, a decision is used once, and the stored row
  agrees with the answer.  Where the code does not do what it means to, the theorem states what it does, and the
  manifest lists it as a finding.

  \<^bold>\<open>Not modelled.\<close>  Strings are of characters below 256, and two non-ASCII characters in messages are written in
  ASCII.  \<open>json.loads\<close>, \<open>json.dumps\<close> and \<open>str\<close> of values that are no strings are parameters.  The refusal of NUL in
  JSONB is modelled for tool attempts and terminal commands, where its effect on the sandbox matters.  The container
  backend, the S3 storage, the model providers and PostgreSQL itself are outside the repository.  Read-only queries,
  the parsing of HTTP requests, telemetry, logging, migrations and the web frontend have no state that the properties
  depend on; PROJECT.json lists them by component.
\<close>

end
